(* ===== verification/Prelude.thy ===== *)
theory Prelude
  imports Main "HOL-Library.Word" "HOL-Library.List_Lexorder" "HOL-Library.Product_Lexorder"
begin

text \<open>
  Shared vocabulary of the development: bytes, Python strings as lists of code points, results
  that are either an exception or a value, sequences of checks, insertion-ordered dictionaries
  as association lists, and the generic lemmas the component theories use.
\<close>

section \<open>Bytes and strings\<close>

type_synonym bytes = "8 word list"

text \<open>
  A Python \<open>str\<close> is a sequence of code points (\<open>ord\<close> of each character), so comparison is
  lexicographic on code points; the order instance comes from \<open>List_Lexorder\<close>.
\<close>

type_synonym pystr = "int list"

definition u :: "string \<Rightarrow> pystr" where
  "u s = map of_char s"

lemma u_inj [simp]: "u a = u b \<longleftrightarrow> a = b"
  unfolding u_def by (rule inj_map_eq_map) (rule injI, simp add: of_char_eq_iff)

lemma u_Nil [simp]: "u [] = []" "u s = [] \<longleftrightarrow> s = []" "[] = u s \<longleftrightarrow> s = []"
  by (auto simp: u_def)

lemma length_u [simp]: "length (u s) = length s"
  by (simp add: u_def)

definition starts_with :: "'a list \<Rightarrow> 'a list \<Rightarrow> bool" where
  "starts_with p s \<longleftrightarrow> take (length p) s = p"

definition ends_with :: "'a list \<Rightarrow> 'a list \<Rightarrow> bool" where
  "ends_with p s \<longleftrightarrow> starts_with (rev p) (rev s)"

lemma starts_with_append [simp]: "starts_with p (p @ s)"
  by (simp add: starts_with_def)

lemma starts_with_iff: "starts_with p s \<longleftrightarrow> (\<exists>r. s = p @ r)"
  unfolding starts_with_def by (metis append_eq_conv_conj append_take_drop_id)

definition removeprefix :: "'a list \<Rightarrow> 'a list \<Rightarrow> 'a list" where
  "removeprefix p s = (if starts_with p s then drop (length p) s else s)"

lemma removeprefix_append [simp]: "removeprefix p (p @ s) = s"
  by (simp add: removeprefix_def)

definition rstrip_char :: "'a \<Rightarrow> 'a list \<Rightarrow> 'a list" where
  "rstrip_char c s = rev (dropWhile (\<lambda>x. x = c) (rev s))"

section \<open>Exceptions and results\<close>

text \<open>
  The exception classes the modelled code raises. \<open>CanonicalizationError\<close> and
  \<open>JSONDecodeError\<close> and \<open>UnicodeError\<close> are subclasses of \<open>ValueError\<close>; \<open>is_value_error\<close> is
  what an \<open>except ValueError\<close> clause catches. \<open>OtherError\<close> stands for an exception of any other
  class, raised by code the caller supplies.
\<close>

datatype py_error =
    ValueError string
  | CanonicalizationError string
  | JSONDecodeError
  | UnicodeError
  | StoreReadError string
  | KeyError
  | TypeError
  | AttributeError
  | OverflowError
  | RuntimeError string
  | TimeoutError string
  | OSError
  | OtherError string

fun is_value_error :: "py_error \<Rightarrow> bool" where
  "is_value_error (ValueError _) = True"
| "is_value_error (CanonicalizationError _) = True"
| "is_value_error JSONDecodeError = True"
| "is_value_error UnicodeError = True"
| "is_value_error _ = False"

type_synonym 'a result = "py_error + 'a"

fun ok :: "'a result \<Rightarrow> bool" where
  "ok (Inl _) = False"
| "ok (Inr _) = True"

definition guard :: "bool \<Rightarrow> py_error \<Rightarrow> unit result" where
  "guard c e = (if c then Inr () else Inl e)"

definition rbind :: "'a result \<Rightarrow> ('a \<Rightarrow> 'b result) \<Rightarrow> 'b result" where
  "rbind m f = (case m of Inl e \<Rightarrow> Inl e | Inr x \<Rightarrow> f x)"

definition seq :: "unit result \<Rightarrow> 'b result \<Rightarrow> 'b result" where
  "seq m k = (case m of Inl e \<Rightarrow> Inl e | Inr _ \<Rightarrow> k)"

text \<open>A program of calls that change a state and may raise: the next call runs if this one returned.\<close>

definition next_call :: "'t \<times> 'a result \<Rightarrow> ('t \<Rightarrow> 'a \<Rightarrow> 't \<times> 'b result) \<Rightarrow> 't \<times> 'b result" where
  "next_call m f = (case m of (t, Inl x) \<Rightarrow> (t, Inl x) | (t, Inr y) \<Rightarrow> f t y)"

text \<open>A call made only for the exception it may raise.\<close>

definition discard :: "'a result \<Rightarrow> unit result" where
  "discard m = (case m of Inl e \<Rightarrow> Inl e | Inr _ \<Rightarrow> Inr ())"

text \<open>A sequence of checks, each of which may raise: the first exception wins.\<close>

fun first_error :: "unit result list \<Rightarrow> unit result" where
  "first_error [] = Inr ()"
| "first_error (Inl e # xs) = Inl e"
| "first_error (Inr _ # xs) = first_error xs"

lemma guard_ok [simp]: "guard c e = Inr x \<longleftrightarrow> c" "ok (guard c e) = c"
  by (auto simp: guard_def)

lemma guard_err [simp]: "guard c e = Inl e' \<longleftrightarrow> \<not> c \<and> e' = e"
  by (auto simp: guard_def)

lemma rbind_simps [simp]: "rbind (Inl e) f = Inl e" "rbind (Inr x) f = f x"
  by (simp_all add: rbind_def)

lemma rbind_Inr: "rbind m f = Inr y \<longleftrightarrow> (\<exists>x. m = Inr x \<and> f x = Inr y)"
  by (cases m) auto

lemma rbind_cong [fundef_cong]:
  assumes "m = m'" "\<And>x. m' = Inr x \<Longrightarrow> f x = g x"
  shows "rbind m f = rbind m' g"
  using assms by (cases m') auto

lemma seq_simps [simp]: "seq (Inl e) k = Inl e" "seq (Inr x) k = k"
  by (simp_all add: seq_def)

lemma seq_Inr: "seq m k = Inr y \<longleftrightarrow> m = Inr () \<and> k = Inr y"
  by (cases m) auto

lemma ok_iff: "ok m \<longleftrightarrow> (\<exists>x. m = Inr x)"
  by (cases m) auto

lemma ok_unit: "ok m \<longleftrightarrow> m = Inr ()"
  by (cases m) auto

lemma discard_simps [simp]: "discard (Inl e) = Inl e" "discard (Inr x) = Inr ()"
  by (simp_all add: discard_def)

lemma discard_ok: "discard m = Inr () \<longleftrightarrow> ok m"
  by (cases m) simp_all

lemma discard_Inl: "discard m = Inl e \<longleftrightarrow> m = Inl e"
  by (cases m) simp_all

lemma first_error_Cons: "first_error (x # xs) = Inr () \<longleftrightarrow> x = Inr () \<and> first_error xs = Inr ()"
  by (cases x) auto

lemma first_error_Inr: "first_error xs = Inr y \<longleftrightarrow> (\<forall>x \<in> set xs. x = Inr ())"
  by (induction xs rule: first_error.induct) auto

lemma first_error_Inl: "first_error xs = Inl e \<Longrightarrow> Inl e \<in> set xs"
  by (induction xs rule: first_error.induct) auto

named_theorems checks "how a sequence of checks succeeds"

lemmas [checks] = first_error_Cons guard_ok seq_Inr rbind_Inr discard_ok

section \<open>Insertion-ordered dictionaries\<close>

text \<open>
  A Python dictionary whose iteration order matters is an association list: assignment to a
  present key keeps its position, to a new key appends.
\<close>

fun al_get :: "('k \<times> 'v) list \<Rightarrow> 'k \<Rightarrow> 'v option" where
  "al_get [] k = None"
| "al_get ((k', v) # xs) k = (if k = k' then Some v else al_get xs k)"

fun al_set :: "('k \<times> 'v) list \<Rightarrow> 'k \<Rightarrow> 'v \<Rightarrow> ('k \<times> 'v) list" where
  "al_set [] k v = [(k, v)]"
| "al_set ((k', v') # xs) k v = (if k = k' then (k', v) # xs else (k', v') # al_set xs k v)"

definition al_del :: "('k \<times> 'v) list \<Rightarrow> 'k \<Rightarrow> ('k \<times> 'v) list" where
  "al_del xs k = filter (\<lambda>p. fst p \<noteq> k) xs"

lemma al_get_map_of: "al_get xs = map_of xs"
  by (rule ext, rename_tac k, induct_tac xs) auto

lemma al_get_set [simp]: "al_get (al_set xs k v) k' = (if k' = k then Some v else al_get xs k')"
  by (induction xs k v rule: al_set.induct) auto

lemma al_get_del [simp]: "al_get (al_del xs k) k' = (if k' = k then None else al_get xs k')"
proof (induction xs)
  case Nil
  then show ?case by (simp add: al_del_def)
next
  case (Cons p xs)
  then show ?case by (cases p) (auto simp: al_del_def)
qed

lemma al_set_set [simp]: "al_set (al_set xs k v) k w = al_set xs k w"
  by (induction xs k v rule: al_set.induct) auto

lemma al_set_same: "al_get xs k = Some v \<Longrightarrow> al_set xs k v = xs"
  by (induction xs k v rule: al_set.induct) (auto split: if_splits)

lemma keys_al_set: "fst ` set (al_set xs k v) = insert k (fst ` set xs)"
  by (induction xs k v rule: al_set.induct) auto

lemma distinct_al_set: "distinct (map fst xs) \<Longrightarrow> distinct (map fst (al_set xs k v))"
  by (induction xs k v rule: al_set.induct) (auto simp: keys_al_set)

lemma distinct_al_del: "distinct (map fst xs) \<Longrightarrow> distinct (map fst (al_del xs k))"
  unfolding al_del_def by (rule distinct_map_filter)

lemma al_get_Some_in: "al_get xs k = Some v \<Longrightarrow> (k, v) \<in> set xs"
  by (simp add: al_get_map_of map_of_SomeD)

lemma al_get_distinct: "distinct (map fst xs) \<Longrightarrow> al_get xs k = Some v \<longleftrightarrow> (k, v) \<in> set xs"
  by (simp add: al_get_map_of map_of_eq_Some_iff)

lemma al_get_None: "al_get xs k = None \<longleftrightarrow> k \<notin> set (map fst xs)"
  by (simp add: al_get_map_of map_of_eq_None_iff image_iff)

text \<open>A dictionary built from pairs in order: a later pair replaces the value of an earlier one.\<close>

definition al_of :: "('k \<times> 'v) list \<Rightarrow> ('k \<times> 'v) list" where
  "al_of ps = foldl (\<lambda>d (k, v). al_set d k v) [] ps"

lemma al_get_append: "al_get (xs @ ys) k = (case al_get xs k of Some v \<Rightarrow> Some v | None \<Rightarrow> al_get ys k)"
  by (induction xs k rule: al_get.induct) auto

lemma al_set_append_new: "al_get xs k = None \<Longrightarrow> al_set xs k v = xs @ [(k, v)]"
  by (induction xs k v rule: al_set.induct) (auto split: if_splits)

lemma al_of_snoc: "al_of (ps @ [(k, v)]) = al_set (al_of ps) k v"
  by (simp add: al_of_def)

lemma al_of_distinct: "distinct (map fst ps) \<Longrightarrow> al_of ps = ps"
proof (induction ps rule: rev_induct)
  case (snoc p ps)
  obtain k v where p: "p = (k, v)" by fastforce
  have "al_get ps k = None" using snoc.prems by (simp add: p al_get_None)
  then show ?case using snoc by (simp add: p al_of_snoc al_set_append_new)
qed (simp add: al_of_def)

section \<open>Sorting\<close>

text \<open>Python's \<open>sorted\<close> is stable, as \<open>sort_key\<close> is.\<close>

definition sorted_desc :: "('a \<Rightarrow> 'k::linorder) \<Rightarrow> 'a list \<Rightarrow> 'a list" where
  "sorted_desc f xs = rev (sort_key f (rev xs))"

text \<open>\<open>sorted(xs, key=f, reverse=True)\<close> keeps the original order of equal keys.\<close>

lemma set_sorted_desc [simp]: "set (sorted_desc f xs) = set xs"
  by (simp add: sorted_desc_def)

lemma sorted_desc_sorted: "sorted_wrt (\<lambda>x y. f y \<le> f x) (sorted_desc f xs)"
proof -
  have "sorted (map f (sort_key f (rev xs)))" by simp
  then show ?thesis
    by (simp add: sorted_desc_def sorted_wrt_rev sorted_map)
qed

lemma sorted_desc_Nil [simp]: "sorted_desc f [] = []"
  by (simp add: sorted_desc_def)

end
