(* ===== verification/Text.thy ===== *)
theory Text
  imports Prelude
begin

text \<open>
  The text codecs of the standard library that the code relies on: UTF-8 (\<open>str.encode\<close>,
  \<open>bytes.decode\<close>), hexadecimal digests, unpadded base64url and four-byte big-endian lengths,
  each with its round trip.
\<close>

section \<open>Bytes as integers\<close>

definition byte :: "int \<Rightarrow> 8 word" where
  "byte x = word_of_int x"

lemma uint_byte_range [simp]: "0 \<le> uint (b :: 8 word)" "uint (b :: 8 word) < 256"
  using uint_lt2p [of b] by simp_all

lemma uint_byte [simp]: "0 \<le> x \<Longrightarrow> x < 256 \<Longrightarrow> uint (byte x) = x"
  by (simp add: byte_def uint_word_of_int)

lemma byte_uint [simp]: "byte (uint b) = b"
  by (simp add: byte_def)

lemma byte_eq: "0 \<le> x \<Longrightarrow> x < 256 \<Longrightarrow> byte x = b \<longleftrightarrow> x = uint b"
  using uint_byte by force

section \<open>UTF-8\<close>

definition surrogate :: "int \<Rightarrow> bool" where
  "surrogate c \<longleftrightarrow> 55296 \<le> c \<and> c \<le> 57343"

text \<open>The code points a Python \<open>str\<close> can hold; scalar values leave the surrogates out.\<close>

definition code_point :: "int \<Rightarrow> bool" where
  "code_point c \<longleftrightarrow> 0 \<le> c \<and> c \<le> 1114111"

definition scalar :: "int \<Rightarrow> bool" where
  "scalar c \<longleftrightarrow> code_point c \<and> \<not> surrogate c"

text \<open>A literal of the source is ASCII or Latin-1, so it holds scalar values only.\<close>

lemma scalar_u [simp]: "list_all scalar (u s)" "list_all code_point (u s)" "\<not> list_ex surrogate (u s)"
proof -
  have b: "0 \<le> (of_char c :: int) \<and> (of_char c :: int) < 256" for c
    using nat_of_char_less_256 [of c] by (simp add: of_nat_of_char [symmetric, where ?'a = int])
  have "scalar (of_char c)" for c
    using b [of c] by (simp add: scalar_def code_point_def surrogate_def)
  then show "list_all scalar (u s)" by (simp add: u_def list_all_iff)
  then show "list_all code_point (u s)" "\<not> list_ex surrogate (u s)"
    by (auto simp: list_all_iff list_ex_iff scalar_def)
qed

definition utf8_char :: "int \<Rightarrow> bytes" where
  "utf8_char c =
     (if c < 128 then [byte c]
      else if c < 2048 then [byte (192 + c div 64), byte (128 + c mod 64)]
      else if c < 65536 then
        [byte (224 + c div 4096), byte (128 + c div 64 mod 64), byte (128 + c mod 64)]
      else [byte (240 + c div 262144), byte (128 + c div 4096 mod 64),
            byte (128 + c div 64 mod 64), byte (128 + c mod 64)])"

definition utf8_bytes :: "pystr \<Rightarrow> bytes" where
  "utf8_bytes s = concat (map utf8_char s)"

text \<open>\<open>s.encode("utf-8")\<close> raises on a surrogate.\<close>

definition utf8_encode :: "pystr \<Rightarrow> bytes result" where
  "utf8_encode s = (if list_ex surrogate s then Inl UnicodeError else Inr (utf8_bytes s))"

definition cont :: "8 word \<Rightarrow> bool" where
  "cont b \<longleftrightarrow> 128 \<le> uint b \<and> uint b < 192"

definition dec2 :: "8 word \<Rightarrow> 8 word \<Rightarrow> int" where
  "dec2 a b = (uint a - 192) * 64 + (uint b - 128)"

definition dec3 :: "8 word \<Rightarrow> 8 word \<Rightarrow> 8 word \<Rightarrow> int" where
  "dec3 a b c = (uint a - 224) * 4096 + (uint b - 128) * 64 + (uint c - 128)"

definition dec4 :: "8 word \<Rightarrow> 8 word \<Rightarrow> 8 word \<Rightarrow> 8 word \<Rightarrow> int" where
  "dec4 a b c d = (uint a - 240) * 262144 + (uint b - 128) * 4096 + (uint c - 128) * 64 + (uint d - 128)"

text \<open>
  \<open>b.decode("utf-8")\<close>, strict: overlong forms, surrogates, values above U+10FFFF and stray
  continuation bytes are errors.
\<close>

fun utf8_decode :: "bytes \<Rightarrow> pystr option" where
  "utf8_decode [] = Some []"
| "utf8_decode (a # r) =
     (if uint a < 128 then map_option (Cons (uint a)) (utf8_decode r)
      else if uint a < 194 then None
      else if uint a < 224 then
        (case r of
           b # r' \<Rightarrow> if cont b then map_option (Cons (dec2 a b)) (utf8_decode r') else None
         | _ \<Rightarrow> None)
      else if uint a < 240 then
        (case r of
           b # c # r' \<Rightarrow>
             if cont b \<and> cont c \<and> 2048 \<le> dec3 a b c \<and> \<not> surrogate (dec3 a b c)
             then map_option (Cons (dec3 a b c)) (utf8_decode r') else None
         | _ \<Rightarrow> None)
      else if uint a < 245 then
        (case r of
           b # c # d # r' \<Rightarrow>
             if cont b \<and> cont c \<and> cont d \<and> 65536 \<le> dec4 a b c d \<and> dec4 a b c d \<le> 1114111
             then map_option (Cons (dec4 a b c d)) (utf8_decode r') else None
         | _ \<Rightarrow> None)
      else None)"

lemma div_split64:
  fixes c :: int
  shows "c div 4096 = c div 64 div 64" "c div 262144 = c div 64 div 64 div 64"
  by (simp_all add: div_mult2_eq' [symmetric] zdiv_zmult2_eq [symmetric])

lemma digits64:
  fixes c :: int
  shows "c div 64 * 64 + c mod 64 = c"
    and "c div 4096 * 4096 + c div 64 mod 64 * 64 + c mod 64 = c"
    and "c div 262144 * 262144 + c div 4096 mod 64 * 4096 + c div 64 mod 64 * 64 + c mod 64 = c"
proof -
  have a: "c = c div 64 * 64 + c mod 64" by simp
  have b: "c div 64 = c div 4096 * 64 + c div 64 mod 64"
    by (simp only: div_split64 div_mult_mod_eq)
  have d: "c div 4096 = c div 262144 * 64 + c div 4096 mod 64"
    by (simp only: div_split64 div_mult_mod_eq)
  show "c div 64 * 64 + c mod 64 = c" using a by simp
  show "c div 4096 * 4096 + c div 64 mod 64 * 64 + c mod 64 = c" using a b by linarith
  show "c div 262144 * 262144 + c div 4096 mod 64 * 4096 + c div 64 mod 64 * 64 + c mod 64 = c"
    using a b d by linarith
qed

lemma uint_lead [simp]:
  "0 \<le> x \<Longrightarrow> x < 64 \<Longrightarrow> uint (byte (128 + x)) = 128 + x"
  "0 \<le> x \<Longrightarrow> x < 32 \<Longrightarrow> uint (byte (192 + x)) = 192 + x"
  "0 \<le> x \<Longrightarrow> x < 16 \<Longrightarrow> uint (byte (224 + x)) = 224 + x"
  "0 \<le> x \<Longrightarrow> x < 5 \<Longrightarrow> uint (byte (240 + x)) = 240 + x"
  by (rule uint_byte; linarith)+

lemma cont_byte [simp]: "0 \<le> x \<Longrightarrow> x < 64 \<Longrightarrow> cont (byte (128 + x))"
  by (simp add: cont_def)

lemma utf8_decode2:
  assumes "2 \<le> a" "a < 32" "0 \<le> x" "x < 64"
  shows "utf8_decode (byte (192 + a) # byte (128 + x) # r) = map_option (Cons (a * 64 + x)) (utf8_decode r)"
proof -
  have "uint (byte (192 + a)) = 192 + a" "cont (byte (128 + x))"
    "dec2 (byte (192 + a)) (byte (128 + x)) = a * 64 + x"
    using assms by (simp_all add: dec2_def)
  with assms show ?thesis by simp
qed

lemma utf8_decode3:
  assumes "0 \<le> a" "a < 16" "0 \<le> x" "x < 64" "0 \<le> y" "y < 64"
    and v: "v = a * 4096 + x * 64 + y" and ok: "2048 \<le> v" "\<not> surrogate v"
  shows "utf8_decode (byte (224 + a) # byte (128 + x) # byte (128 + y) # r) = map_option (Cons v) (utf8_decode r)"
proof -
  have "uint (byte (224 + a)) = 224 + a" "cont (byte (128 + x))" "cont (byte (128 + y))"
    "dec3 (byte (224 + a)) (byte (128 + x)) (byte (128 + y)) = v"
    using assms by (simp_all add: dec3_def)
  with assms(1,2) ok show ?thesis by simp
qed

lemma utf8_decode4:
  assumes "0 \<le> a" "a < 5" "0 \<le> x" "x < 64" "0 \<le> y" "y < 64" "0 \<le> z" "z < 64"
    and v: "v = a * 262144 + x * 4096 + y * 64 + z" and ok: "65536 \<le> v" "v \<le> 1114111"
  shows "utf8_decode (byte (240 + a) # byte (128 + x) # byte (128 + y) # byte (128 + z) # r)
    = map_option (Cons v) (utf8_decode r)"
proof -
  have "uint (byte (240 + a)) = 240 + a" "cont (byte (128 + x))" "cont (byte (128 + y))" "cont (byte (128 + z))"
    using assms(1-8) by simp_all
  moreover have "dec4 (byte (240 + a)) (byte (128 + x)) (byte (128 + y)) (byte (128 + z)) = v"
    unfolding v dec4_def using assms(1-8) by simp
  ultimately show ?thesis using assms(1,2) ok by simp
qed

lemma utf8_decode_char:
  assumes "scalar c"
  shows "utf8_decode (utf8_char c @ r) = map_option (Cons c) (utf8_decode r)"
proof -
  from assms have c: "0 \<le> c" "c \<le> 1114111" "\<not> surrogate c"
    by (auto simp: scalar_def code_point_def)
  consider "c < 128" | "128 \<le> c" "c < 2048" | "2048 \<le> c" "c < 65536" | "65536 \<le> c"
    by linarith
  then show ?thesis
  proof cases
    case 1
    with c show ?thesis by (simp add: utf8_char_def)
  next
    case 2
    then have "2 \<le> c div 64" "c div 64 < 32" by linarith+
    from utf8_decode2 [OF this, of "c mod 64" r] 2 show ?thesis by (simp add: utf8_char_def digits64(1))
  next
    case 3
    then have "0 \<le> c div 4096" "c div 4096 < 16" by linarith+
    from utf8_decode3 [OF this _ _ _ _ digits64(2) [symmetric] 3(1) c(3), of r] 3
    show ?thesis by (simp add: utf8_char_def)
  next
    case 4
    with c have "0 \<le> c div 262144" "c div 262144 < 5" by linarith+
    from utf8_decode4 [OF this _ _ _ _ _ _ digits64(3) [symmetric] 4 c(2), of r] 4
    show ?thesis by (simp add: utf8_char_def)
  qed
qed

lemma utf8_decode_bytes: "list_all scalar s \<Longrightarrow> utf8_decode (utf8_bytes s @ r) = map_option ((@) s) (utf8_decode r)"
proof (induction s)
  case Nil
  then show ?case by (simp add: utf8_bytes_def option.map_ident_strong)
next
  case (Cons c s)
  then have "utf8_decode (utf8_bytes (c # s) @ r) = map_option (Cons c) (utf8_decode (utf8_bytes s @ r))"
    by (simp add: utf8_bytes_def utf8_decode_char)
  with Cons show ?case by (simp add: option.map_comp comp_def)
qed

lemma utf8_round_trip: "list_all scalar s \<Longrightarrow> utf8_decode (utf8_bytes s) = Some s"
  using utf8_decode_bytes [of s "[]"] by simp

lemma utf8_bytes_inj: "list_all scalar s \<Longrightarrow> list_all scalar t \<Longrightarrow> utf8_bytes s = utf8_bytes t \<longleftrightarrow> s = t"
  by (metis option.inject utf8_round_trip)

lemma list_ex_surrogate: "list_all scalar s \<Longrightarrow> \<not> list_ex surrogate s"
  by (induction s) (auto simp: scalar_def)

lemma utf8_encode_scalar [simp]: "list_all scalar s \<Longrightarrow> utf8_encode s = Inr (utf8_bytes s)"
  by (simp add: utf8_encode_def list_ex_surrogate)

text \<open>Decoding is canonical: whatever bytes decode, encoding the result gives them back.\<close>

lemma cont_range: "cont b \<Longrightarrow> 128 \<le> uint b \<and> uint b < 192"
  by (simp add: cont_def)

lemma divmod64:
  fixes q x :: int
  assumes "0 \<le> x" "x < 64"
  shows "(q * 64 + x) div 64 = q" "(q * 64 + x) mod 64 = x"
  using assms by simp_all

lemma utf8_char_dec2:
  assumes "194 \<le> uint a" "uint a < 224" "cont b"
  shows "utf8_char (dec2 a b) = [a, b]" "scalar (dec2 a b)"
proof -
  from assms(3) have x: "0 \<le> uint b - 128" "uint b - 128 < 64" by (simp_all add: cont_def)
  have r: "128 \<le> dec2 a b" "dec2 a b < 2048" using assms x by (simp_all add: dec2_def)
  show "scalar (dec2 a b)" using r by (simp add: scalar_def code_point_def surrogate_def)
  have "dec2 a b div 64 = uint a - 192" "dec2 a b mod 64 = uint b - 128"
    unfolding dec2_def by (simp_all only: divmod64 [OF x])
  with r show "utf8_char (dec2 a b) = [a, b]" by (simp add: utf8_char_def)
qed

lemma utf8_char_dec3:
  assumes "224 \<le> uint a" "uint a < 240" "cont b" "cont c"
    and ok: "2048 \<le> dec3 a b c" "\<not> surrogate (dec3 a b c)"
  shows "utf8_char (dec3 a b c) = [a, b, c]" "scalar (dec3 a b c)"
proof -
  let ?q = "(uint a - 224) * 64 + (uint b - 128)"
  from assms(3,4) have x: "0 \<le> uint b - 128" "uint b - 128 < 64" "0 \<le> uint c - 128" "uint c - 128 < 64"
    by (simp_all add: cont_def)
  have v: "dec3 a b c = ?q * 64 + (uint c - 128)" by (simp add: dec3_def)
  have r: "dec3 a b c < 65536" using assms x by (simp add: dec3_def)
  show "scalar (dec3 a b c)" using ok r by (simp add: scalar_def code_point_def)
  have d: "dec3 a b c div 64 = ?q" "dec3 a b c mod 64 = uint c - 128"
    unfolding v by (simp_all only: divmod64 [OF x(3,4)])
  have e: "?q div 64 = uint a - 224" "?q mod 64 = uint b - 128"
    by (simp_all only: divmod64 [OF x(1,2)])
  have "dec3 a b c div 64 div 64 = uint a - 224" "dec3 a b c div 64 mod 64 = uint b - 128"
    by (simp_all only: d e)
  with r ok(1) show "utf8_char (dec3 a b c) = [a, b, c]"
    by (simp add: utf8_char_def div_split64 d(2))
qed

lemma utf8_char_dec4:
  assumes "240 \<le> uint a" "cont b" "cont c" "cont d"
    and ok: "65536 \<le> dec4 a b c d" "dec4 a b c d \<le> 1114111"
  shows "utf8_char (dec4 a b c d) = [a, b, c, d]" "scalar (dec4 a b c d)"
proof -
  let ?p = "(uint a - 240) * 64 + (uint b - 128)"
  let ?q = "?p * 64 + (uint c - 128)"
  from assms(2-4) have x: "0 \<le> uint b - 128" "uint b - 128 < 64" "0 \<le> uint c - 128" "uint c - 128 < 64"
      "0 \<le> uint d - 128" "uint d - 128 < 64"
    by (simp_all add: cont_def)
  have v: "dec4 a b c d = ?q * 64 + (uint d - 128)" by (simp add: dec4_def)
  show "scalar (dec4 a b c d)" using ok by (simp add: scalar_def code_point_def surrogate_def)
  have e: "dec4 a b c d div 64 = ?q" "dec4 a b c d mod 64 = uint d - 128"
    unfolding v by (simp_all only: divmod64 [OF x(5,6)])
  have f: "?q div 64 = ?p" "?q mod 64 = uint c - 128"
    by (simp_all only: divmod64 [OF x(3,4)])
  have g: "?p div 64 = uint a - 240" "?p mod 64 = uint b - 128"
    by (simp_all only: divmod64 [OF x(1,2)])
  have "dec4 a b c d div 64 div 64 div 64 = uint a - 240" "dec4 a b c d div 64 div 64 mod 64 = uint b - 128"
    "dec4 a b c d div 64 mod 64 = uint c - 128"
    by (simp_all only: e f g)
  with ok(1) show "utf8_char (dec4 a b c d) = [a, b, c, d]"
    by (simp add: utf8_char_def div_split64 e(2))
qed

lemma utf8_char_ascii: "uint a < 128 \<Longrightarrow> utf8_char (uint a) = [a] \<and> scalar (uint a)"
  by (simp add: utf8_char_def scalar_def code_point_def surrogate_def)

lemma utf8_bytes_Cons: "utf8_bytes (c # s) = utf8_char c @ utf8_bytes s"
  by (simp add: utf8_bytes_def)

lemma utf8_decode_sound:
  "utf8_decode bs = Some s \<Longrightarrow> utf8_bytes s = bs \<and> list_all scalar s"
proof (induction bs arbitrary: s rule: utf8_decode.induct)
  case 1
  then show ?case by (simp add: utf8_bytes_def)
next
  case (2 a r)
  consider "uint a < 128" | "128 \<le> uint a" "uint a < 194" | "194 \<le> uint a" "uint a < 224"
    | "224 \<le> uint a" "uint a < 240" | "240 \<le> uint a" "uint a < 245" | "245 \<le> uint a"
    by linarith
  then show ?case
  proof cases
    case 1
    with 2 show ?thesis by (auto simp: utf8_bytes_Cons utf8_char_ascii)
  next
    case 3
    with "2.prems" obtain b r' t where p: "r = b # r'" "cont b" "s = dec2 a b # t" "utf8_decode r' = Some t"
      by (auto split: list.splits if_splits)
    from "2.IH"(2) [OF _ _ _ p(1,2,4)] 3 have "utf8_bytes t = r' \<and> list_all scalar t" by simp
    with p 3 show ?thesis by (simp add: utf8_bytes_Cons utf8_char_dec2)
  next
    case 4
    with "2.prems" obtain b c r' t where p: "r = b # c # r'" "cont b" "cont c"
        "2048 \<le> dec3 a b c" "\<not> surrogate (dec3 a b c)" "s = dec3 a b c # t" "utf8_decode r' = Some t"
      by (auto split: list.splits if_splits)
    have "utf8_bytes t = r' \<and> list_all scalar t"
      by (rule "2.IH"(3)) (use p 4 in simp_all)
    with p 4 show ?thesis by (simp add: utf8_bytes_Cons utf8_char_dec3)
  next
    case 5
    with "2.prems" obtain b c d r' t where p: "r = b # c # d # r'" "cont b" "cont c" "cont d"
        "65536 \<le> dec4 a b c d" "dec4 a b c d \<le> 1114111" "s = dec4 a b c d # t" "utf8_decode r' = Some t"
      by (auto split: list.splits if_splits)
    have "utf8_bytes t = r' \<and> list_all scalar t"
      by (rule "2.IH"(4)) (use p 5 in simp_all)
    with p 5 show ?thesis by (simp add: utf8_bytes_Cons utf8_char_dec4)
  qed (use "2.prems" in auto)
qed

section \<open>Hexadecimal\<close>

definition hex_digit :: "int \<Rightarrow> int" where
  "hex_digit n = (if n < 10 then 48 + n else 87 + n)"

definition is_hex :: "int \<Rightarrow> bool" where
  "is_hex c \<longleftrightarrow> (48 \<le> c \<and> c \<le> 57) \<or> (97 \<le> c \<and> c \<le> 102)"

definition hex :: "bytes \<Rightarrow> pystr" where
  "hex bs = concat (map (\<lambda>b. [hex_digit (uint b div 16), hex_digit (uint b mod 16)]) bs)"

lemma is_hex_digit: "0 \<le> n \<Longrightarrow> n < 16 \<Longrightarrow> is_hex (hex_digit n)"
  by (simp add: is_hex_def hex_digit_def)

lemma byte_nibbles:
  fixes b :: "8 word"
  shows "0 \<le> uint b div 16" "uint b div 16 < 16" "0 \<le> uint b mod 16" "uint b mod 16 < 16"
proof -
  have r: "0 \<le> uint b" "uint b < 256" by (rule uint_byte_range)+
  show "0 \<le> uint b div 16" "uint b div 16 < 16" "0 \<le> uint b mod 16" "uint b mod 16 < 16"
    using r by linarith+
qed

lemma length_hex [simp]: "length (hex bs) = 2 * length bs"
  by (induction bs) (simp_all add: hex_def)

lemma hex_is_hex: "list_all is_hex (hex bs)"
  by (induction bs) (simp_all add: hex_def is_hex_digit byte_nibbles)

lemma hex_digit_inj: "0 \<le> m \<Longrightarrow> m < 16 \<Longrightarrow> 0 \<le> n \<Longrightarrow> n < 16 \<Longrightarrow> hex_digit m = hex_digit n \<longleftrightarrow> m = n"
  by (auto simp: hex_digit_def)

lemma hex_byte_inj:
  assumes "hex_digit (uint a div 16) = hex_digit (uint b div 16)"
    and "hex_digit (uint a mod 16) = hex_digit (uint b mod 16)"
  shows "(a :: 8 word) = b"
proof -
  from assms have "uint a div 16 = uint b div 16" "uint a mod 16 = uint b mod 16"
    by (simp_all add: hex_digit_inj byte_nibbles)
  then have "uint a = uint b" by (metis div_mult_mod_eq)
  then show ?thesis by (metis byte_uint)
qed

lemma hex_inj [simp]: "hex a = hex b \<longleftrightarrow> a = b"
proof (induction a arbitrary: b)
  case Nil
  then show ?case by (cases b) (simp_all add: hex_def)
next
  case (Cons x a)
  then show ?case by (cases b) (auto simp: hex_def dest: hex_byte_inj)
qed

end
