(* ===== verification/Sha256.thy ===== *)
theory Sha256
  imports Text
begin

text \<open>
  \<open>hashlib.sha256\<close> and \<open>hmac\<close> of the standard library, as executable functions on bytes
  (FIPS 180-4 and FIPS 198-1), and the digest strings \<open>canonical.py\<close> makes of them. Nothing
  below depends on how the compression function mixes its input: only that a digest has
  32 bytes.
\<close>

unbundle bit_operations_syntax

section \<open>SHA-256\<close>

type_synonym w32 = "32 word"

definition sha_k :: "w32 list" where
  "sha_k =
    [1116352408, 1899447441, 3049323471, 3921009573, 961987163, 1508970993, 2453635748, 2870763221,
     3624381080, 310598401, 607225278, 1426881987, 1925078388, 2162078206, 2614888103, 3248222580,
     3835390401, 4022224774, 264347078, 604807628, 770255983, 1249150122, 1555081692, 1996064986,
     2554220882, 2821834349, 2952996808, 3210313671, 3336571891, 3584528711, 113926993, 338241895,
     666307205, 773529912, 1294757372, 1396182291, 1695183700, 1986661051, 2177026350, 2456956037,
     2730485921, 2820302411, 3259730800, 3345764771, 3516065817, 3600352804, 4094571909, 275423344,
     430227734, 506948616, 659060556, 883997877, 958139571, 1322822218, 1537002063, 1747873779,
     1955562222, 2024104815, 2227730452, 2361852424, 2428436474, 2756734187, 3204031479, 3329325298]"

definition sha_init :: "w32 list" where
  "sha_init =
    [1779033703, 3144134277, 1013904242, 2773480762, 1359893119, 2600822924, 528734635, 1541459225]"

definition rotr32 :: "nat \<Rightarrow> w32 \<Rightarrow> w32" where
  "rotr32 n x = drop_bit n x OR push_bit (32 - n) x"

definition small_sigma0 :: "w32 \<Rightarrow> w32" where
  "small_sigma0 x = rotr32 7 x XOR rotr32 18 x XOR drop_bit 3 x"
definition small_sigma1 :: "w32 \<Rightarrow> w32" where
  "small_sigma1 x = rotr32 17 x XOR rotr32 19 x XOR drop_bit 10 x"
definition big_sigma0 :: "w32 \<Rightarrow> w32" where
  "big_sigma0 x = rotr32 2 x XOR rotr32 13 x XOR rotr32 22 x"
definition big_sigma1 :: "w32 \<Rightarrow> w32" where
  "big_sigma1 x = rotr32 6 x XOR rotr32 11 x XOR rotr32 25 x"
definition sha_ch :: "w32 \<Rightarrow> w32 \<Rightarrow> w32 \<Rightarrow> w32" where
  "sha_ch x y z = (x AND y) XOR (NOT x AND z)"
definition sha_maj :: "w32 \<Rightarrow> w32 \<Rightarrow> w32 \<Rightarrow> w32" where
  "sha_maj x y z = (x AND y) XOR (x AND z) XOR (y AND z)"

definition sha_t1 :: "w32 list \<Rightarrow> w32 \<Rightarrow> w32 \<Rightarrow> w32" where
  "sha_t1 st k w = st ! 7 + big_sigma1 (st ! 4) + sha_ch (st ! 4) (st ! 5) (st ! 6) + k + w"
definition sha_t2 :: "w32 list \<Rightarrow> w32" where
  "sha_t2 st = big_sigma0 (st ! 0) + sha_maj (st ! 0) (st ! 1) (st ! 2)"
definition sha_rotate :: "w32 list \<Rightarrow> w32 \<Rightarrow> w32 \<Rightarrow> w32 list" where
  "sha_rotate st t1 t2 = [t1 + t2, st ! 0, st ! 1, st ! 2, st ! 3 + t1, st ! 4, st ! 5, st ! 6]"
definition sha_next :: "w32 list \<Rightarrow> w32" where
  "sha_next ws = small_sigma1 (ws ! 14) + ws ! 9 + small_sigma0 (ws ! 1) + ws ! 0"
fun sha_rounds :: "w32 list \<Rightarrow> w32 list \<Rightarrow> w32 list \<Rightarrow> w32 list" where
  "sha_rounds [] ws st = st"
| "sha_rounds (k # ks) ws st =
     sha_rounds ks (tl ws @ [sha_next ws]) (sha_rotate st (sha_t1 st k (hd ws)) (sha_t2 st))"

fun be_words :: "bytes \<Rightarrow> w32 list" where
  "be_words (a # b # c # d # r) =
     (push_bit 24 (ucast a) OR push_bit 16 (ucast b) OR push_bit 8 (ucast c) OR ucast d) # be_words r"
| "be_words _ = []"

definition word_bytes :: "w32 \<Rightarrow> bytes" where
  "word_bytes w = [ucast (drop_bit 24 w), ucast (drop_bit 16 w), ucast (drop_bit 8 w), ucast w]"

definition sha_block :: "bytes \<Rightarrow> w32 list \<Rightarrow> w32 list" where
  "sha_block b st = map2 (+) st (sha_rounds sha_k (be_words b) st)"

fun sha_blocks :: "nat \<Rightarrow> bytes \<Rightarrow> w32 list \<Rightarrow> w32 list" where
  "sha_blocks 0 m st = st"
| "sha_blocks (Suc n) m st = sha_blocks n (drop 64 m) (sha_block (take 64 m) st)"

definition sha_pad :: "bytes \<Rightarrow> bytes" where
  "sha_pad m = m @ [128] @ replicate ((119 - length m mod 64) mod 64) 0
     @ map (\<lambda>i. word_of_int (8 * int (length m) div 256 ^ i)) [7, 6, 5, 4, 3, 2, 1, 0]"

definition sha256 :: "bytes \<Rightarrow> bytes" where
  "sha256 m = (let p = sha_pad m in concat (map word_bytes (sha_blocks (length p div 64) p sha_init)))"

lemma length_sha_rounds: "length st = 8 \<Longrightarrow> length (sha_rounds ks ws st) = 8"
  by (induction ks ws st rule: sha_rounds.induct) (simp_all add: sha_rotate_def)

lemma length_sha_block: "length st = 8 \<Longrightarrow> length (sha_block b st) = 8"
  by (simp add: sha_block_def length_sha_rounds)

lemma length_sha_blocks: "length st = 8 \<Longrightarrow> length (sha_blocks n m st) = 8"
  by (induction n arbitrary: m st) (simp_all add: length_sha_block)

lemma length_word_bytes: "length (concat (map word_bytes ws)) = 4 * length ws"
  by (induction ws) (simp_all add: word_bytes_def)

lemma length_sha256 [simp]: "length (sha256 m) = 32"
  by (simp add: sha256_def Let_def length_word_bytes length_sha_blocks sha_init_def)

text \<open>The padded message is a whole number of 64-byte blocks, so every byte is hashed.\<close>

lemma length_sha_pad: "length (sha_pad m) mod 64 = 0"
proof -
  have "length (sha_pad m) = length m + 9 + (119 - length m mod 64) mod 64"
    by (simp add: sha_pad_def)
  moreover obtain q r where n: "length m = 64 * q + r" "r < 64"
    by (metis mod_less_divisor mult_div_mod_eq zero_less_numeral)
  moreover have "(119 - r) mod 64 + r + 9 = (if r \<le> 55 then 64 else 128)"
    using n(2) by (simp add: mod_if) arith
  ultimately have "length (sha_pad m) = 64 * q + (if r \<le> 55 then 64 else 128)" by simp
  then show ?thesis by simp
qed

section \<open>HMAC and digest strings\<close>

definition hmac_key :: "bytes \<Rightarrow> bytes" where
  "hmac_key k = (let k' = (if 64 < length k then sha256 k else k) in k' @ replicate (64 - length k') 0)"

definition hmac_sha256 :: "bytes \<Rightarrow> bytes \<Rightarrow> bytes" where
  "hmac_sha256 k m =
     sha256 (map (\<lambda>b. b XOR 92) (hmac_key k) @ sha256 (map (\<lambda>b. b XOR 54) (hmac_key k) @ m))"

lemma length_hmac_sha256 [simp]: "length (hmac_sha256 k m) = 32"
  by (simp add: hmac_sha256_def)

text \<open>\<open>digest_bytes\<close>: the string \<open>sha256:\<close> followed by the 64 hexadecimal digits.\<close>

definition digest_bytes :: "bytes \<Rightarrow> pystr" where
  "digest_bytes b = u ''sha256:'' @ hex (sha256 b)"

text \<open>\<open>DIGEST_PATTERN.fullmatch\<close>\<close>

definition is_digest :: "pystr \<Rightarrow> bool" where
  "is_digest s \<longleftrightarrow> starts_with (u ''sha256:'') s \<and> length s = 71 \<and> list_all is_hex (drop 7 s)"

lemma is_digest_bytes [simp]: "is_digest (digest_bytes b)"
  by (simp add: is_digest_def digest_bytes_def hex_is_hex)

lemma digest_bytes_eq [simp]: "digest_bytes a = digest_bytes b \<longleftrightarrow> sha256 a = sha256 b"
  by (simp add: digest_bytes_def)

text \<open>
  Two byte strings collide when they differ and have the same digest. Statements that rest on
  collision resistance name the two byte strings they need it for.
\<close>

definition collision :: "bytes \<Rightarrow> bytes \<Rightarrow> bool" where
  "collision a b \<longleftrightarrow> a \<noteq> b \<and> sha256 a = sha256 b"

lemma digest_bytes_inj: "digest_bytes a = digest_bytes b \<Longrightarrow> \<not> collision a b \<Longrightarrow> a = b"
  by (auto simp: collision_def)

end
