(* ===== verification/Json.thy ===== *)
theory Json
  imports Sha256
begin

text \<open>
  Python values as JSON sees them, the canonical JSON profile of \<open>canonical.py\<close>
  (\<open>_validate\<close>, \<open>canonical_json\<close>) and the standard library's \<open>json.dumps\<close> with the options
  the code passes.
\<close>

section \<open>Python values\<close>

text \<open>
  What \<open>json.loads\<close> returns and what callers pass to \<open>canonical_json\<close>. A float is kept as
  its literal text, since every use of the modelled code only tests that it is a float; any other
  object is its type name. A dictionary lists its items in insertion order, and its keys can be
  any value, because \<open>_validate\<close> has to reject keys that are not strings.
\<close>

datatype pyval =
    PyNone
  | PyBool bool
  | PyInt int
  | PyFloat pystr
  | PyStr pystr
  | PyList "pyval list"
  | PyDict "(pyval \<times> pyval) list"
  | PyOther string

abbreviation S :: "string \<Rightarrow> pyval" where
  "S s \<equiv> PyStr (u s)"

abbreviation obj :: "(string \<times> pyval) list \<Rightarrow> pyval" where
  "obj kvs \<equiv> PyDict (map (\<lambda>(k, v). (S k, v)) kvs)"

fun is_dict :: "pyval \<Rightarrow> bool" where
  "is_dict (PyDict _) = True"
| "is_dict _ = False"

fun is_list :: "pyval \<Rightarrow> bool" where
  "is_list (PyList _) = True"
| "is_list _ = False"

fun is_str :: "pyval \<Rightarrow> bool" where
  "is_str (PyStr _) = True"
| "is_str _ = False"

text \<open>\<open>isinstance(v, int) and not isinstance(v, bool)\<close>\<close>

fun is_int :: "pyval \<Rightarrow> bool" where
  "is_int (PyInt _) = True"
| "is_int _ = False"

fun is_bool :: "pyval \<Rightarrow> bool" where
  "is_bool (PyBool _) = True"
| "is_bool _ = False"

fun str_of :: "pyval \<Rightarrow> pystr" where
  "str_of (PyStr s) = s"
| "str_of _ = []"

fun int_of :: "pyval \<Rightarrow> int" where
  "int_of (PyInt i) = i"
| "int_of _ = 0"

fun items_of :: "pyval \<Rightarrow> pyval list" where
  "items_of (PyList xs) = xs"
| "items_of _ = []"

fun pairs_of :: "pyval \<Rightarrow> (pyval \<times> pyval) list" where
  "pairs_of (PyDict kvs) = kvs"
| "pairs_of _ = []"

text \<open>
  \<open>item d k\<close> is \<open>d.get(k)\<close>, and \<open>d[k]\<close> wherever the key is known to be present; the lemmas
  about \<open>exact_keys\<close> say that the validators only read keys they have checked.
\<close>

definition item :: "pyval \<Rightarrow> string \<Rightarrow> pyval" where
  "item d k = (case al_get (pairs_of d) (S k) of Some v \<Rightarrow> v | None \<Rightarrow> PyNone)"

definition has_key :: "pyval \<Rightarrow> string \<Rightarrow> bool" where
  "has_key d k \<longleftrightarrow> al_get (pairs_of d) (S k) \<noteq> None"

definition with_item :: "pyval \<Rightarrow> string \<Rightarrow> pyval \<Rightarrow> pyval" where
  "with_item d k v = PyDict (al_set (pairs_of d) (S k) v)"

lemma item_Cons [simp]:
  "item (PyDict ((S k, v) # kvs)) k' = (if k' = k then v else item (PyDict kvs) k')"
  by (simp add: item_def)

lemma item_with_item [simp]: "item (with_item d k v) k' = (if k' = k then v else item d k')"
  by (simp add: item_def with_item_def)

lemma with_item_with_item [simp]: "with_item (with_item d k v) k w = with_item d k w"
  by (simp add: with_item_def)

lemma is_dict_with_item [simp]: "is_dict (with_item d k v)"
  by (simp add: with_item_def)

lemma str_of_eq: "is_str v \<Longrightarrow> PyStr (str_of v) = v"
  by (cases v) auto

lemma is_strE: "is_str v \<Longrightarrow> (\<And>s. v = PyStr s \<Longrightarrow> P) \<Longrightarrow> P"
  by (cases v) auto

section \<open>The v0 profile: \<open>_validate\<close>\<close>

definition max_safe_integer :: int where
  "max_safe_integer = 2 ^ 53 - 1"

text \<open>
  The exception carries the message without its path prefix. Dictionary items are checked in
  order: that the key is a string, the key itself (a string, so only its surrogates), then the
  value.
\<close>

definition validate_str :: "pystr \<Rightarrow> unit result" where
  "validate_str s =
     guard (\<not> list_ex surrogate s)
       (CanonicalizationError ''Unicode surrogate code points are forbidden'')"

fun validate_key :: "pyval \<Rightarrow> unit result" where
  "validate_key (PyStr s) = validate_str s"
| "validate_key _ = Inl (CanonicalizationError ''object keys must be strings'')"

fun validate :: "pyval \<Rightarrow> unit result" and validate_list :: "pyval list \<Rightarrow> unit result"
  and validate_pairs :: "(pyval \<times> pyval) list \<Rightarrow> unit result" where
  "validate PyNone = Inr ()"
| "validate (PyBool b) = Inr ()"
| "validate (PyStr s) = validate_str s"
| "validate (PyInt i) =
     guard (- max_safe_integer \<le> i \<and> i \<le> max_safe_integer)
       (CanonicalizationError ''integer is outside the interoperable range'')"
| "validate (PyFloat f) = Inl (CanonicalizationError ''floating-point values are forbidden in v0'')"
| "validate (PyList xs) = validate_list xs"
| "validate (PyDict kvs) = validate_pairs kvs"
| "validate (PyOther ty) = Inl (CanonicalizationError (''unsupported value type '' @ ty))"
| "validate_list [] = Inr ()"
| "validate_list (x # xs) = seq (validate x) (validate_list xs)"
| "validate_pairs [] = Inr ()"
| "validate_pairs ((k, v) # kvs) =
     seq (validate_key k) (seq (validate v) (validate_pairs kvs))"

section \<open>\<open>json.dumps(..., ensure_ascii=False, sort_keys=True, separators=(",", ":"))\<close>\<close>

definition escape_char :: "int \<Rightarrow> pystr" where
  "escape_char c =
     (if c = 34 then [92, 34]
      else if c = 92 then [92, 92]
      else if c = 10 then [92, 110]
      else if c = 13 then [92, 114]
      else if c = 9 then [92, 116]
      else if c = 12 then [92, 102]
      else if c = 8 then [92, 98]
      else if c < 32 then [92, 117, 48, 48, hex_digit (c div 16), hex_digit (c mod 16)]
      else [c])"

definition dump_str :: "pystr \<Rightarrow> pystr" where
  "dump_str s = [34] @ concat (map escape_char s) @ [34]"

function dump_nat :: "int \<Rightarrow> pystr" where
  "dump_nat n = (if n < 10 then [48 + n] else dump_nat (n div 10) @ [48 + n mod 10])"
  by pat_completeness auto
termination by (relation "measure nat") auto

declare dump_nat.simps [simp del]

definition dump_int :: "int \<Rightarrow> pystr" where
  "dump_int i = (if i < 0 then [45] @ dump_nat (- i) else dump_nat i)"

fun join :: "pystr \<Rightarrow> pystr list \<Rightarrow> pystr" where
  "join sep [] = []"
| "join sep [x] = x"
| "join sep (x # y # ys) = x @ sep @ join sep (y # ys)"

definition sort_items :: "(pystr \<times> 'a) list \<Rightarrow> (pystr \<times> 'a) list" where
  "sort_items kvs = sort_key fst kvs"

fun dumps :: "pyval \<Rightarrow> pystr" where
  "dumps PyNone = u ''null''"
| "dumps (PyBool b) = (if b then u ''true'' else u ''false'')"
| "dumps (PyInt i) = dump_int i"
| "dumps (PyFloat f) = f"
| "dumps (PyStr s) = dump_str s"
| "dumps (PyList xs) = [91] @ join [44] (map dumps xs) @ [93]"
| "dumps (PyDict kvs) =
     [123] @ join [44] (map (\<lambda>(k, t). dump_str k @ [58] @ t)
       (sort_items (map (\<lambda>(k, v). (str_of k, dumps v)) kvs))) @ [125]"
| "dumps (PyOther ty) = []"

section \<open>\<open>canonical_json\<close>\<close>

definition canonical_json :: "pyval \<Rightarrow> bytes result" where
  "canonical_json v = rbind (validate v) (\<lambda>_. utf8_encode (dumps v))"

definition object_digest :: "pyval \<Rightarrow> pystr result" where
  "object_digest v = rbind (canonical_json v) (\<lambda>b. Inr (digest_bytes b))"

end
