(* ===== verification/Json_Load.thy ===== *)
theory Json_Load
  imports Json
begin

text \<open>
  The standard library's \<open>json.loads\<close>, with the two hooks the code passes to it: rejecting
  duplicate keys (\<open>object_pairs_hook\<close>) and rejecting the non-finite constants
  (\<open>parse_constant\<close>). The parser runs on fuel; \<open>loads\<close> gives it the length of its input, and
  \<open>loads_dumps\<close> shows that this is enough to read back every canonical document.
\<close>

record json_opts =
  reject_dup :: bool
  reject_const :: bool

definition default_opts :: json_opts where
  "default_opts = \<lparr>reject_dup = False, reject_const = False\<rparr>"

section \<open>Lexical elements\<close>

definition is_ws :: "int \<Rightarrow> bool" where
  "is_ws c \<longleftrightarrow> c = 32 \<or> c = 9 \<or> c = 10 \<or> c = 13"

definition skip_ws :: "pystr \<Rightarrow> pystr" where
  "skip_ws s = dropWhile is_ws s"

definition is_digit :: "int \<Rightarrow> bool" where
  "is_digit c \<longleftrightarrow> 48 \<le> c \<and> c \<le> 57"

definition digits_val :: "pystr \<Rightarrow> int" where
  "digits_val s = foldl (\<lambda>n c. 10 * n + (c - 48)) 0 s"

definition hex_val :: "int \<Rightarrow> int option" where
  "hex_val c =
     (if 48 \<le> c \<and> c \<le> 57 then Some (c - 48)
      else if 97 \<le> c \<and> c \<le> 102 then Some (c - 87)
      else if 65 \<le> c \<and> c \<le> 70 then Some (c - 55)
      else None)"

definition hex4 :: "int \<Rightarrow> int \<Rightarrow> int \<Rightarrow> int \<Rightarrow> int option" where
  "hex4 a b c d =
     (case (hex_val a, hex_val b, hex_val c, hex_val d) of
        (Some w, Some x, Some y, Some z) \<Rightarrow> Some (w * 4096 + x * 256 + y * 16 + z)
      | _ \<Rightarrow> None)"

definition simple_escape :: "int \<Rightarrow> int option" where
  "simple_escape e =
     (if e = 34 \<or> e = 92 \<or> e = 47 then Some e
      else if e = 98 then Some 8
      else if e = 102 then Some 12
      else if e = 110 then Some 10
      else if e = 114 then Some 13
      else if e = 116 then Some 9
      else None)"

text \<open>
  One character of a string literal: an escape, a surrogate pair written as two \<open>\u\<close> escapes, or
  a character that is not a control character.
\<close>

definition u_escape :: "pystr \<Rightarrow> (int \<times> pystr) option" where
  "u_escape s =
     (case s of
        a # b # c # d # r \<Rightarrow> map_option (\<lambda>v. (v, r)) (hex4 a b c d)
      | _ \<Rightarrow> None)"

definition join_surrogates :: "int \<Rightarrow> pystr \<Rightarrow> (int \<times> pystr) option" where
  "join_surrogates v r =
     (if 55296 \<le> v \<and> v \<le> 56319 \<and> starts_with [92, 117] r then
        (case u_escape (drop 2 r) of
           None \<Rightarrow> None
         | Some (w, q) \<Rightarrow>
             (if 56320 \<le> w \<and> w \<le> 57343 then Some (65536 + (v - 55296) * 1024 + (w - 56320), q)
              else Some (v, r)))
      else Some (v, r))"

definition str_char :: "int \<Rightarrow> pystr \<Rightarrow> (int \<times> pystr) option" where
  "str_char c r =
     (if c = 92 then
        (case r of
           [] \<Rightarrow> None
         | e # q \<Rightarrow>
             (if e = 117 then (case u_escape q of None \<Rightarrow> None | Some (v, q') \<Rightarrow> join_surrogates v q')
              else map_option (\<lambda>x. (x, q)) (simple_escape e)))
      else if c < 32 then None
      else Some (c, r))"

lemma u_escape_less: "u_escape s = Some (v, r) \<Longrightarrow> length r < length s"
  by (auto simp: u_escape_def split: list.splits)

lemma join_surrogates_le: "join_surrogates v r = Some (x, q) \<Longrightarrow> length q \<le> length r"
  by (auto simp: join_surrogates_def split: if_splits option.splits dest!: u_escape_less)

lemma str_char_le: "str_char c r = Some (x, q) \<Longrightarrow> length q \<le> length r"
  by (fastforce simp: str_char_def split: if_splits option.splits list.splits
        dest!: u_escape_less join_surrogates_le)

text \<open>The body of a string literal, after the opening quote.\<close>

function parse_str :: "pystr \<Rightarrow> (pystr \<times> pystr) option" where
  "parse_str [] = None"
| "parse_str (c # r) =
     (if c = 34 then Some ([], r)
      else (case str_char c r of
              None \<Rightarrow> None
            | Some (x, q) \<Rightarrow> map_option (\<lambda>(t, rest). (x # t, rest)) (parse_str q)))"
  by pat_completeness auto
termination
  by (relation "measure length") (auto dest: str_char_le)

text \<open>
  A number: the integer part without a leading zero, then an optional fraction and exponent,
  which make it a float.
\<close>

definition int_part :: "pystr \<Rightarrow> (pystr \<times> pystr) option" where
  "int_part s =
     (case s of
        [] \<Rightarrow> None
      | c # r \<Rightarrow>
          if c = 48 then Some ([c], r)
          else if is_digit c then Some (takeWhile is_digit s, dropWhile is_digit s)
          else None)"

definition frac_part :: "pystr \<Rightarrow> pystr \<times> pystr" where
  "frac_part s =
     (case s of
        c # d # r \<Rightarrow>
          if c = 46 \<and> is_digit d then (c # takeWhile is_digit (d # r), dropWhile is_digit (d # r))
          else ([], s)
      | _ \<Rightarrow> ([], s))"

definition exp_part :: "pystr \<Rightarrow> pystr \<times> pystr" where
  "exp_part s =
     (case s of
        c # r \<Rightarrow>
          (if c = 101 \<or> c = 69 then
             (let (sg, r') = (case r of d # q \<Rightarrow> if d = 43 \<or> d = 45 then ([d], q) else ([], r) | _ \<Rightarrow> ([], r))
              in if r' \<noteq> [] \<and> is_digit (hd r')
                 then (c # sg @ takeWhile is_digit r', dropWhile is_digit r') else ([], s))
           else ([], s))
      | _ \<Rightarrow> ([], s))"

definition parse_number :: "pystr \<Rightarrow> (pyval \<times> pystr) option" where
  "parse_number s =
     (let (neg, s1) = (case s of c # r \<Rightarrow> if c = 45 then (True, r) else (False, s) | _ \<Rightarrow> (False, s))
      in case int_part s1 of
           None \<Rightarrow> None
         | Some (ds, s2) \<Rightarrow>
             (let (fs, s3) = frac_part s2; (es, s4) = exp_part s3
              in if fs = [] \<and> es = []
                 then Some (PyInt (if neg then - digits_val ds else digits_val ds), s4)
                 else Some (PyFloat ((if neg then [45] else []) @ ds @ fs @ es), s4)))"

section \<open>Values\<close>

definition of_opt :: "'a option \<Rightarrow> 'a result" where
  "of_opt r = (case r of None \<Rightarrow> Inl JSONDecodeError | Some x \<Rightarrow> Inr x)"

text \<open>Building a dictionary from the parsed pairs: a later duplicate replaces the value.\<close>

definition build_dict :: "json_opts \<Rightarrow> (pyval \<times> pyval) list \<Rightarrow> pyval result" where
  "build_dict opts ps =
     (if reject_dup opts \<and> \<not> distinct (map fst ps) then Inl (ValueError ''duplicate JSON key'')
      else Inr (PyDict (foldl (\<lambda>d (k, v). al_set d k v) [] ps)))"

definition parse_atom :: "json_opts \<Rightarrow> pystr \<Rightarrow> (pyval \<times> pystr) result" where
  "parse_atom opts s =
     (if starts_with (u ''null'') s then Inr (PyNone, drop 4 s)
      else if starts_with (u ''true'') s then Inr (PyBool True, drop 4 s)
      else if starts_with (u ''false'') s then Inr (PyBool False, drop 5 s)
      else case parse_number s of
             Some r \<Rightarrow> Inr r
           | None \<Rightarrow>
               (if starts_with (u ''NaN'') s then
                  (if reject_const opts then Inl (ValueError ''non-finite JSON value'')
                   else Inr (PyFloat (u ''nan''), drop 3 s))
                else if starts_with (u ''Infinity'') s then
                  (if reject_const opts then Inl (ValueError ''non-finite JSON value'')
                   else Inr (PyFloat (u ''inf''), drop 8 s))
                else if starts_with (u ''-Infinity'') s then
                  (if reject_const opts then Inl (ValueError ''non-finite JSON value'')
                   else Inr (PyFloat (u ''-inf''), drop 9 s))
                else Inl JSONDecodeError))"

fun parse_value :: "json_opts \<Rightarrow> nat \<Rightarrow> pystr \<Rightarrow> (pyval \<times> pystr) result"
  and parse_elems :: "json_opts \<Rightarrow> nat \<Rightarrow> pystr \<Rightarrow> (pyval list \<times> pystr) result"
  and parse_members :: "json_opts \<Rightarrow> nat \<Rightarrow> pystr \<Rightarrow> ((pyval \<times> pyval) list \<times> pystr) result" where
  "parse_value opts 0 s = Inl JSONDecodeError"
| "parse_value opts (Suc n) s =
     (case s of
        [] \<Rightarrow> Inl JSONDecodeError
      | c # r \<Rightarrow>
          (if c = 34 then rbind (of_opt (parse_str r)) (\<lambda>(t, q). Inr (PyStr t, q))
           else if c = 91 then
             (case skip_ws r of
                d # q \<Rightarrow>
                  (if d = 93 then Inr (PyList [], q)
                   else rbind (parse_elems opts n (skip_ws r)) (\<lambda>(xs, q). Inr (PyList xs, q)))
              | [] \<Rightarrow> Inl JSONDecodeError)
           else if c = 123 then
             (case skip_ws r of
                d # q \<Rightarrow>
                  (if d = 125 then Inr (PyDict [], q)
                   else rbind (parse_members opts n (skip_ws r))
                          (\<lambda>(ps, q). rbind (build_dict opts ps) (\<lambda>d. Inr (d, q))))
              | [] \<Rightarrow> Inl JSONDecodeError)
           else parse_atom opts s))"
| "parse_elems opts 0 s = Inl JSONDecodeError"
| "parse_elems opts (Suc n) s =
     rbind (parse_value opts n s) (\<lambda>(x, r).
       case skip_ws r of
         d # q \<Rightarrow>
           (if d = 93 then Inr ([x], q)
            else if d = 44 then
              rbind (parse_elems opts n (skip_ws q)) (\<lambda>(xs, q'). Inr (x # xs, q'))
            else Inl JSONDecodeError)
       | [] \<Rightarrow> Inl JSONDecodeError)"
| "parse_members opts 0 s = Inl JSONDecodeError"
| "parse_members opts (Suc n) s =
     (case s of
        c # r \<Rightarrow>
          (if c = 34 then
             rbind (of_opt (parse_str r)) (\<lambda>(k, r1).
               case skip_ws r1 of
                 e # r2 \<Rightarrow>
                   (if e = 58 then
                      rbind (parse_value opts n (skip_ws r2)) (\<lambda>(v, r3).
                        case skip_ws r3 of
                          d # q \<Rightarrow>
                            (if d = 125 then Inr ([(PyStr k, v)], q)
                             else if d = 44 then
                               rbind (parse_members opts n (skip_ws q))
                                 (\<lambda>(ps, q'). Inr ((PyStr k, v) # ps, q'))
                             else Inl JSONDecodeError)
                        | [] \<Rightarrow> Inl JSONDecodeError)
                    else Inl JSONDecodeError)
               | [] \<Rightarrow> Inl JSONDecodeError)
           else Inl JSONDecodeError)
      | [] \<Rightarrow> Inl JSONDecodeError)"

definition loads :: "json_opts \<Rightarrow> pystr \<Rightarrow> pyval result" where
  "loads opts s =
     rbind (parse_value opts (Suc (length s)) (skip_ws s))
       (\<lambda>(v, r). if skip_ws r = [] then Inr v else Inl JSONDecodeError)"

text \<open>\<open>json.loads(path.read_text(encoding="utf-8"))\<close>\<close>

definition loads_bytes :: "json_opts \<Rightarrow> bytes \<Rightarrow> pyval result" where
  "loads_bytes opts b = (case utf8_decode b of None \<Rightarrow> Inl UnicodeError | Some s \<Rightarrow> loads opts s)"

end
