(* ===== verification/Json_Round_Trip.thy ===== *)
theory Json_Round_Trip
  imports Json_Load
begin

text \<open>
  \<open>json.loads\<close> reads back what \<open>json.dumps\<close> wrote: a canonical document parses to the value it
  was made from, with its keys sorted. Hence equal canonical bytes mean equal values.
\<close>

section \<open>Values that canonicalise\<close>

text \<open>A Python value: characters are code points and dictionary keys are distinct.\<close>

fun wf_val :: "pyval \<Rightarrow> bool" where
  "wf_val (PyStr s) = list_all code_point s"
| "wf_val (PyList xs) = list_all wf_val xs"
| "wf_val (PyDict kvs) = (distinct (map fst kvs) \<and> list_all (\<lambda>(k, v). wf_val v) kvs
     \<and> list_all (\<lambda>(k, v). is_str k \<longrightarrow> list_all code_point (str_of k)) kvs)"
| "wf_val v = True"

fun norm :: "pyval \<Rightarrow> pyval" where
  "norm (PyList xs) = PyList (map norm xs)"
| "norm (PyDict kvs) = PyDict (map (\<lambda>(k, v). (PyStr k, v)) (sort_items (map (\<lambda>(k, v). (str_of k, norm v)) kvs)))"
| "norm v = v"

definition sorted_items :: "(pyval \<times> pyval) list \<Rightarrow> (pystr \<times> pyval) list" where
  "sorted_items kvs = sort_items (map (\<lambda>(k, v). (str_of k, v)) kvs)"

fun need :: "pyval \<Rightarrow> nat" where
  "need (PyList xs) = Suc (sum_list (map (\<lambda>x. Suc (need x)) xs))"
| "need (PyDict kvs) = Suc (sum_list (map (\<lambda>(k, v). Suc (need v)) kvs))"
| "need v = 1"

lemma insort_map:
  "insort_key fst (k, f v) (map (\<lambda>(k, v). (k, f v)) xs) = map (\<lambda>(k, v). (k, f v)) (insort_key fst (k, v) xs)"
  by (induction xs) auto

lemma sort_items_map:
  "sort_items (map (\<lambda>(k, v). (g k, f v)) xs) = map (\<lambda>(k, v). (k, f v)) (sort_items (map (\<lambda>(k, v). (g k, v)) xs))"
  unfolding sort_items_def by (induction xs) (auto simp: insort_map)

lemma norm_dict: "norm (PyDict kvs) = PyDict (map (\<lambda>(k, v). (PyStr k, norm v)) (sorted_items kvs))"
proof -
  have "sort_items (map (\<lambda>(k, v). (str_of k, norm v)) kvs) = map (\<lambda>(k, v). (k, norm v)) (sorted_items kvs)"
    unfolding sorted_items_def by (rule sort_items_map)
  then show ?thesis by (simp add: split_def comp_def)
qed

lemma dumps_dict:
  "dumps (PyDict kvs) = [123] @ join [44] (map (\<lambda>(k, v). dump_str k @ [58] @ dumps v) (sorted_items kvs)) @ [125]"
proof -
  have "sort_items (map (\<lambda>(k, v). (str_of k, dumps v)) kvs) = map (\<lambda>(k, v). (k, dumps v)) (sorted_items kvs)"
    unfolding sorted_items_def by (rule sort_items_map)
  then show ?thesis by (simp add: split_def comp_def)
qed

lemma map_fst_insort: "map fst (insort_key fst x xs) = insort (fst x) (map fst xs)"
  by (induction xs) auto

lemma map_fst_sort_items: "map fst (sort_items xs) = sort (map fst xs)"
  unfolding sort_items_def by (induction xs) (auto simp: map_fst_insort)

lemma set_sorted_items: "set (sorted_items kvs) = (\<lambda>(k, v). (str_of k, v)) ` set kvs"
  by (simp add: sorted_items_def sort_items_def)

lemma validate_list_iff: "validate_list xs = Inr () \<longleftrightarrow> (\<forall>x \<in> set xs. validate x = Inr ())"
  by (induction xs) (auto simp: seq_Inr)

lemma validate_key_iff: "validate_key k = Inr () \<longleftrightarrow> is_str k \<and> \<not> list_ex surrogate (str_of k)"
  by (cases k) (auto simp: validate_str_def)

lemma validate_pairs_iff:
  "validate_pairs kvs = Inr () \<longleftrightarrow> (\<forall>(k, v) \<in> set kvs. validate_key k = Inr () \<and> validate v = Inr ())"
  by (induction kvs) (auto simp: seq_Inr)

definition jsonable :: "pyval \<Rightarrow> bool" where
  "jsonable v \<longleftrightarrow> wf_val v \<and> validate v = Inr ()"

lemma not_ex_surrogate: "\<not> list_ex surrogate s \<Longrightarrow> list_all code_point s \<Longrightarrow> list_all scalar s"
  by (auto simp: list_all_iff list_ex_iff scalar_def)

lemma jsonable_simps:
  "jsonable PyNone" "jsonable (PyBool b)"
  "jsonable (PyStr s) \<longleftrightarrow> list_all scalar s"
  "jsonable (PyList xs) \<longleftrightarrow> (\<forall>x \<in> set xs. jsonable x)"
  "jsonable (PyDict kvs) \<longleftrightarrow> distinct (map fst kvs)
     \<and> (\<forall>(k, v) \<in> set kvs. is_str k \<and> list_all scalar (str_of k) \<and> jsonable v)"
  "\<not> jsonable (PyFloat f)" "\<not> jsonable (PyOther ty)"
  by (auto simp: jsonable_def validate_str_def validate_list_iff validate_pairs_iff validate_key_iff
      list_all_iff list_ex_iff scalar_def)

lemma jsonable_items:
  assumes "jsonable (PyDict kvs)"
  shows "distinct (map fst (sorted_items kvs))"
    and "\<And>k v. (k, v) \<in> set (sorted_items kvs) \<Longrightarrow> list_all scalar k \<and> jsonable v"
proof -
  have strs: "is_str k" if "k \<in> set (map fst kvs)" for k
    using that assms by (auto simp: jsonable_simps)
  have i: "inj_on str_of (set (map fst kvs))"
    by (rule inj_onI) (metis str_of_eq strs)
  have "distinct (map fst kvs)" using assms by (simp add: jsonable_simps)
  with i have "distinct (map str_of (map fst kvs))" by (simp only: distinct_map)
  then have "distinct (map fst (map (\<lambda>(k, v). (str_of k, v)) kvs))"
    by (simp add: comp_def split_def)
  then show "distinct (map fst (sorted_items kvs))"
    unfolding sorted_items_def map_fst_sort_items by simp
  show "\<And>k v. (k, v) \<in> set (sorted_items kvs) \<Longrightarrow> list_all scalar k \<and> jsonable v"
    using assms by (auto simp: set_sorted_items jsonable_simps)
qed

lemma pyval_induct [case_names None Bool Int Float Str List Dict Other]:
  assumes "P PyNone" "\<And>b. P (PyBool b)" "\<And>i. P (PyInt i)" "\<And>f. P (PyFloat f)" "\<And>s. P (PyStr s)"
    and "\<And>xs. (\<And>x. x \<in> set xs \<Longrightarrow> P x) \<Longrightarrow> P (PyList xs)"
    and "\<And>kvs. (\<And>k v. (k, v) \<in> set kvs \<Longrightarrow> P v) \<Longrightarrow> P (PyDict kvs)"
    and "\<And>ty. P (PyOther ty)"
  shows "P v"
proof (induction v rule: pyval.induct)
  case (PyDict kvs)
  then show ?case
    using assms(7) [of kvs] by (metis snds.intros snd_conv)
qed (use assms in auto)

section \<open>Lexical round trips\<close>

lemma escape_char_hd:
  assumes "0 \<le> c"
  shows "\<exists>x xs. escape_char c = x # xs \<and> x \<noteq> 34 \<and> (\<forall>q. str_char x (xs @ q) = Some (c, q))"
proof -
  have h: "hex4 48 48 (hex_digit (c div 16)) (hex_digit (c mod 16)) = Some c" if "c < 32"
  proof -
    have "c div 16 = 0 \<or> c div 16 = 1" using that assms by linarith
    moreover have "hex_val (hex_digit n) = Some n" if "0 \<le> n" "n < 16" for n
      using that by (auto simp: hex_val_def hex_digit_def)
    moreover have "hex_val 48 = Some 0" by (simp add: hex_val_def)
    moreover have "0 \<le> c mod 16" "c mod 16 < 16" "0 \<le> c div 16" "c div 16 < 16"
      using that assms by auto
    ultimately show ?thesis by (simp add: hex4_def)
  qed
  then show ?thesis
    by (auto simp: escape_char_def str_char_def simple_escape_def u_escape_def join_surrogates_def)
qed

lemma parse_str_dump:
  "\<forall>c \<in> set s. 0 \<le> c \<Longrightarrow> parse_str (concat (map escape_char s) @ 34 # r) = Some (s, r)"
proof (induction s)
  case Nil
  then show ?case by simp
next
  case (Cons c s)
  from escape_char_hd [of c] Cons.prems obtain x xs where
    "escape_char c = x # xs" "x \<noteq> 34" "\<And>q. str_char x (xs @ q) = Some (c, q)" by auto
  with Cons show ?case by simp
qed

lemma dump_nat_props:
  assumes "0 \<le> n"
  shows "dump_nat n \<noteq> [] \<and> list_all is_digit (dump_nat n) \<and> digits_val (dump_nat n) = n
    \<and> (hd (dump_nat n) = 48 \<longleftrightarrow> n = 0)"
  using assms
proof (induction n rule: dump_nat.induct)
  case (1 n)
  show ?case
  proof (cases "n < 10")
    case True
    with "1.prems" show ?thesis
      by (subst dump_nat.simps) (auto simp: dump_nat.simps [of n] digits_val_def is_digit_def)
  next
    case False
    with "1.prems" "1.IH" have IH: "dump_nat (n div 10) \<noteq> []" "list_all is_digit (dump_nat (n div 10))"
      "digits_val (dump_nat (n div 10)) = n div 10" "hd (dump_nat (n div 10)) = 48 \<longleftrightarrow> n div 10 = 0"
      by auto
    have e: "dump_nat n = dump_nat (n div 10) @ [48 + n mod 10]"
      using False by (simp add: dump_nat.simps [of n])
    have "digits_val (dump_nat n) = 10 * (n div 10) + n mod 10"
      using IH(3) by (simp add: e digits_val_def)
    moreover have "is_digit (48 + n mod 10)"
      using pos_mod_bound [of 10 n] pos_mod_sign [of 10 n] by (simp add: is_digit_def del: pos_mod_bound pos_mod_sign)
    ultimately show ?thesis using IH False by (auto simp: e)
  qed
qed

text \<open>What can follow a value in a canonical document, or in a file that ends with a line feed.\<close>

definition stop :: "pystr \<Rightarrow> bool" where
  "stop r \<longleftrightarrow> r = [] \<or> hd r = 10 \<or> hd r = 44 \<or> hd r = 93 \<or> hd r = 125"

lemma stop_Cons [simp]: "stop (c # r) \<longleftrightarrow> c = 10 \<or> c = 44 \<or> c = 93 \<or> c = 125"
  by (simp add: stop_def)

lemma takeWhile_stop:
  assumes "list_all is_digit ds" "stop r"
  shows "takeWhile is_digit (ds @ r) = ds" "dropWhile is_digit (ds @ r) = r"
proof -
  have r: "takeWhile is_digit r = []" "dropWhile is_digit r = r"
    using assms(2) by (cases r; auto simp: is_digit_def)+
  have all: "\<And>x. x \<in> set ds \<Longrightarrow> is_digit x" using assms(1) by (auto simp: list_all_iff)
  from all r show "takeWhile is_digit (ds @ r) = ds" by (simp add: takeWhile_append)
  from all r show "dropWhile is_digit (ds @ r) = r" by (simp add: dropWhile_append)
qed

lemma int_part_dump:
  assumes "0 \<le> n" "stop r"
  shows "int_part (dump_nat n @ r) = Some (dump_nat n, r)"
proof (cases "n = 0")
  case True
  then show ?thesis by (simp add: int_part_def dump_nat.simps)
next
  case False
  from dump_nat_props [OF assms(1)] obtain c cs where c: "dump_nat n = c # cs" "is_digit c" "c \<noteq> 48"
    "list_all is_digit (dump_nat n)" using False by (cases "dump_nat n") auto
  with takeWhile_stop [OF c(4) assms(2)] show ?thesis by (simp add: int_part_def)
qed

lemma frac_exp_stop [simp]: "stop r \<Longrightarrow> frac_part r = ([], r)" "stop r \<Longrightarrow> exp_part r = ([], r)"
  by (auto simp: frac_part_def exp_part_def stop_def split: list.splits)

lemma parse_number_dump:
  assumes "stop r"
  shows "parse_number (dump_int i @ r) = Some (PyInt i, r)"
proof (cases "i < 0")
  case True
  then have "int_part (dump_nat (- i) @ r) = Some (dump_nat (- i), r)" by (simp add: int_part_dump assms)
  with True dump_nat_props [of "- i"] assms show ?thesis by (simp add: parse_number_def dump_int_def)
next
  case False
  then have n: "0 \<le> i" by simp
  from dump_nat_props [OF n] obtain c cs where "dump_nat i = c # cs" "is_digit c"
    by (cases "dump_nat i") auto
  moreover from this have "c \<noteq> 45" by (auto simp: is_digit_def)
  ultimately show ?thesis
    using int_part_dump [OF n assms] dump_nat_props [OF n] False assms
    by (simp add: parse_number_def dump_int_def)
qed

section \<open>Values\<close>

lemma need_pos: "1 \<le> need v"
  by (cases v) auto

lemma need_dict: "need (PyDict kvs) = Suc (sum_list (map (\<lambda>(k, v). Suc (need v)) (sorted_items kvs)))"
proof -
  have "sum_list (map g (insort_key fst p xs)) = g p + sum_list (map g xs)" for g :: "pystr \<times> pyval \<Rightarrow> nat" and p xs
    by (induction xs) auto
  then have "sum_list (map g (sort_items xs)) = sum_list (map g xs)" for g :: "pystr \<times> pyval \<Rightarrow> nat" and xs
    unfolding sort_items_def by (induction xs) auto
  then show ?thesis by (simp add: sorted_items_def split_def comp_def)
qed

definition value_start :: "int \<Rightarrow> bool" where
  "value_start c \<longleftrightarrow> \<not> is_ws c \<and> c \<noteq> 93 \<and> c \<noteq> 125"

lemma dump_int_hd: "\<exists>c r. dump_int i = c # r \<and> (c = 45 \<or> is_digit c)"
proof (cases "i < 0")
  case False
  then have "0 \<le> i" by simp
  from dump_nat_props [OF this] False show ?thesis
    by (cases "dump_nat i") (auto simp: dump_int_def)
qed (simp add: dump_int_def)

lemma dumps_hd:
  assumes "jsonable v"
  shows "\<exists>c r. dumps v = c # r \<and> value_start c"
proof (cases v)
  case (PyInt i)
  with dump_int_hd [of i] show ?thesis by (auto simp: value_start_def is_ws_def is_digit_def)
qed (use assms in \<open>auto simp: value_start_def is_ws_def u_def dump_str_def jsonable_simps\<close>)

lemma skip_ws_dumps: "jsonable v \<Longrightarrow> skip_ws (dumps v @ r) = dumps v @ r"
  using dumps_hd [of v] by (auto simp: skip_ws_def value_start_def)

lemma skip_ws_sep [simp]: "c = 44 \<or> c = 58 \<or> c = 93 \<or> c = 125 \<or> c = 34 \<Longrightarrow> skip_ws (c # r) = c # r"
  by (auto simp: skip_ws_def is_ws_def)

lemma scalar_nonneg: "list_all scalar s \<Longrightarrow> \<forall>c \<in> set s. 0 \<le> c"
  by (auto simp: list_all_iff scalar_def code_point_def)

definition reads_back :: "json_opts \<Rightarrow> pyval \<Rightarrow> bool" where
  "reads_back opts v \<longleftrightarrow>
     (\<forall>n r. need v \<le> n \<longrightarrow> stop r \<longrightarrow> parse_value opts n (dumps v @ r) = Inr (norm v, r))"

lemma parse_elems_join:
  assumes "xs \<noteq> []" "\<And>x. x \<in> set xs \<Longrightarrow> jsonable x \<and> reads_back opts x"
    and "sum_list (map (\<lambda>x. Suc (need x)) xs) \<le> n"
  shows "parse_elems opts n (join [44] (map dumps xs) @ 93 # r) = Inr (map norm xs, r)"
  using assms
proof (induction xs arbitrary: n)
  case (Cons x xs)
  then obtain m where n: "n = Suc m" "need x \<le> m" by (cases n) auto
  from Cons.prems(2) [of x] have x: "jsonable x" "reads_back opts x" by auto
  show ?case
  proof (cases xs)
    case Nil
    with x n show ?thesis by (simp add: reads_back_def)
  next
    case (Cons y ys)
    have "parse_elems opts m (join [44] (map dumps xs) @ 93 # r) = Inr (map norm xs, r)"
      using Cons Cons.prems n need_pos [of x] by (intro Cons.IH) auto
    moreover have "skip_ws (join [44] (map dumps xs) @ 93 # r) = join [44] (map dumps xs) @ 93 # r"
      using dumps_hd [of y] Cons.prems(2) [of y] Cons
      by (cases ys) (auto simp: skip_ws_def value_start_def)
    ultimately show ?thesis using x n Cons by (simp add: reads_back_def)
  qed
qed simp

definition dump_member :: "pystr \<times> pyval \<Rightarrow> pystr" where
  "dump_member p = dump_str (fst p) @ [58] @ dumps (snd p)"

definition norm_member :: "pystr \<times> pyval \<Rightarrow> pyval \<times> pyval" where
  "norm_member p = (PyStr (fst p), norm (snd p))"

lemma parse_members_join:
  assumes "ps \<noteq> []" "\<And>p. p \<in> set ps \<Longrightarrow> list_all scalar (fst p) \<and> jsonable (snd p) \<and> reads_back opts (snd p)"
    and "sum_list (map (\<lambda>p. Suc (need (snd p))) ps) \<le> n"
  shows "parse_members opts n (join [44] (map dump_member ps) @ 125 # r) = Inr (map norm_member ps, r)"
  using assms
proof (induction ps arbitrary: n)
  case (Cons p ps)
  then obtain m where n: "n = Suc m" "need (snd p) \<le> m" by (cases n) auto
  obtain k v where p: "p = (k, v)" by (cases p)
  from Cons.prems(2) [of p] have x: "\<forall>c \<in> set k. 0 \<le> c" "jsonable v" "reads_back opts v"
    by (auto simp: p scalar_nonneg)
  show ?case
  proof (cases ps)
    case Nil
    with x n p show ?thesis
      by (simp add: dump_member_def norm_member_def dump_str_def parse_str_dump of_opt_def skip_ws_dumps reads_back_def)
  next
    case (Cons q qs)
    have "parse_members opts m (join [44] (map dump_member ps) @ 125 # r) = Inr (map norm_member ps, r)"
      using Cons Cons.prems n need_pos [of v] by (intro Cons.IH) auto
    moreover have "skip_ws (join [44] (map dump_member ps) @ 125 # r) = join [44] (map dump_member ps) @ 125 # r"
      using Cons by (cases qs) (auto simp: dump_member_def dump_str_def)
    ultimately show ?thesis using x n p Cons
      by (simp add: dump_member_def [of "(k, v)"] norm_member_def dump_str_def parse_str_dump of_opt_def
          skip_ws_dumps reads_back_def)
  qed
qed simp

lemma foldl_al_set:
  "distinct (map fst (acc @ ps)) \<Longrightarrow> foldl (\<lambda>d (k, v). al_set d k v) acc ps = acc @ ps"
proof (induction ps arbitrary: acc)
  case (Cons p ps)
  obtain k v where p: "p = (k, v)" by (cases p)
  have "k \<notin> fst ` set acc \<Longrightarrow> al_set acc k v = acc @ [(k, v)]" for acc :: "('a \<times> 'b) list"
    by (induction acc) auto
  with Cons p show ?case by auto
qed simp

lemma build_dict_distinct: "distinct (map fst ps) \<Longrightarrow> build_dict opts ps = Inr (PyDict ps)"
  using foldl_al_set [of "[]" ps] by (simp add: build_dict_def)

lemma dumps_dict_members: "dumps (PyDict kvs) = [123] @ join [44] (map dump_member (sorted_items kvs)) @ [125]"
  unfolding dumps_dict by (simp add: dump_member_def [abs_def] split_def)

lemma norm_dict_members: "norm (PyDict kvs) = PyDict (map norm_member (sorted_items kvs))"
  unfolding norm_dict by (simp add: norm_member_def [abs_def] split_def)

lemma join_members_hd: "ps \<noteq> [] \<Longrightarrow> \<exists>q. join [44] (map dump_member ps) = 34 # q"
  by (cases ps; cases "tl ps") (auto simp: dump_member_def dump_str_def)

lemma join_elems_hd:
  assumes "xs \<noteq> []" "\<And>x. x \<in> set xs \<Longrightarrow> jsonable x"
  shows "\<exists>c q. join [44] (map dumps xs) = c # q \<and> value_start c"
  using assms dumps_hd [of "hd xs"] by (cases xs; cases "tl xs") auto

lemma reads_back: "jsonable v \<Longrightarrow> reads_back opts v"
proof (induction v rule: pyval_induct)
  case (Int i)
  then show ?case
  proof -
    have "\<not> starts_with (u ''null'') (dump_int i @ r)" "\<not> starts_with (u ''true'') (dump_int i @ r)"
        "\<not> starts_with (u ''false'') (dump_int i @ r)" for r
      using dump_int_hd [of i] by (auto simp: starts_with_def u_def is_digit_def)
    moreover obtain c q where "dump_int i = c # q" "c \<noteq> 34" "c \<noteq> 91" "c \<noteq> 123"
      using dump_int_hd [of i] by (auto simp: is_digit_def)
    ultimately have "parse_value opts (Suc n) (dump_int i @ r) = Inr (PyInt i, r)" if "stop r" for n r
      using parse_number_dump [OF that, of i] by (simp add: parse_atom_def)
    then show ?thesis unfolding reads_back_def
      by (metis Suc_le_D dumps.simps(3) need.simps(5) norm.simps(5) One_nat_def)
  qed
next
  case (Str s)
  then have "parse_value opts (Suc n) (dumps (PyStr s) @ r) = Inr (PyStr s, r)" for n r
    using scalar_nonneg [of s] by (simp add: dump_str_def parse_str_dump of_opt_def jsonable_simps)
  then show ?case unfolding reads_back_def by (metis Suc_le_D need.simps(7) norm.simps(7) One_nat_def)
next
  case (List xs)
  show ?case unfolding reads_back_def
  proof (intro allI impI)
    fix n r assume n: "need (PyList xs) \<le> n" and r: "stop r"
    from n obtain m where m: "n = Suc m" "sum_list (map (\<lambda>x. Suc (need x)) xs) \<le> m" by (cases n) auto
    show "parse_value opts n (dumps (PyList xs) @ r) = Inr (norm (PyList xs), r)"
    proof (cases "xs = []")
      case True
      with m show ?thesis by simp
    next
      case False
      have e: "parse_elems opts m (join [44] (map dumps xs) @ 93 # r) = Inr (map norm xs, r)"
        using False List m by (intro parse_elems_join) (auto simp: jsonable_simps)
      from join_elems_hd [OF False] List.prems obtain c q where
        "join [44] (map dumps xs) = c # q" "value_start c" by (auto simp: jsonable_simps)
      with e m show ?thesis by (simp add: skip_ws_def value_start_def)
    qed
  qed
next
  case (Dict kvs)
  let ?ps = "sorted_items kvs"
  show ?case unfolding reads_back_def
  proof (intro allI impI)
    fix n r assume n: "need (PyDict kvs) \<le> n" and r: "stop r"
    from n obtain m where m: "n = Suc m" "sum_list (map (\<lambda>p. Suc (need (snd p))) ?ps) \<le> m"
      unfolding need_dict by (cases n) (auto simp: split_def)
    have mem: "list_all scalar (fst p) \<and> jsonable (snd p) \<and> reads_back opts (snd p)" if "p \<in> set ?ps" for p
      using that jsonable_items(2) [OF Dict.prems, of "fst p" "snd p"] Dict.IH
      by (auto simp: set_sorted_items)
    have d: "distinct (map fst (map norm_member ?ps))"
      using jsonable_items(1) [OF Dict.prems]
      by (simp add: norm_member_def comp_def distinct_map inj_on_def)
    show "parse_value opts n (dumps (PyDict kvs) @ r) = Inr (norm (PyDict kvs), r)"
    proof (cases "?ps = []")
      case True
      with m show ?thesis unfolding dumps_dict_members norm_dict_members by simp
    next
      case False
      have e: "parse_members opts m (join [44] (map dump_member ?ps) @ 125 # r) = Inr (map norm_member ?ps, r)"
        using False m(2) mem by (intro parse_members_join) auto
      from join_members_hd [OF False] obtain q where "join [44] (map dump_member ?ps) = 34 # q" by auto
      with e m build_dict_distinct [OF d] show ?thesis
        unfolding dumps_dict_members norm_dict_members by simp
    qed
  qed
qed (auto simp: reads_back_def jsonable_simps parse_atom_def Suc_le_eq gr0_conv_Suc u_def starts_with_def)

section \<open>Documents\<close>

lemma length_join: "length (join [44] xs) + 1 = sum_list (map (\<lambda>x. Suc (length x)) xs) + (if xs = [] then 1 else 0)"
  by (induction "[44] :: pystr" xs rule: join.induct) auto

lemma need_le_length: "jsonable v \<Longrightarrow> need v \<le> length (dumps v)"
proof (induction v rule: pyval_induct)
  case (Int i)
  then show ?case using dump_int_hd [of i] by auto
next
  case (List xs)
  then have "sum_list (map (\<lambda>x. Suc (need x)) xs) \<le> sum_list (map (\<lambda>x. Suc (length (dumps x))) xs)"
    by (intro sum_list_mono) (auto simp: jsonable_simps)
  with length_join [of "map dumps xs"] show ?case by (simp add: comp_def split: if_splits)
next
  case (Dict kvs)
  let ?ps = "sorted_items kvs"
  have "sum_list (map (\<lambda>p. Suc (need (snd p))) ?ps) \<le> sum_list (map (\<lambda>p. Suc (length (dump_member p))) ?ps)"
  proof (intro sum_list_mono)
    fix p assume "p \<in> set ?ps"
    then have "need (snd p) \<le> length (dumps (snd p))"
      using Dict jsonable_items(2) [OF Dict.prems, of "fst p" "snd p"] by (auto simp: set_sorted_items)
    then show "Suc (need (snd p)) \<le> Suc (length (dump_member p))" by (simp add: dump_member_def)
  qed
  with length_join [of "map dump_member ?ps"] show ?case
    unfolding need_dict dumps_dict_members by (simp add: comp_def split_def split: if_splits)
qed (auto simp: jsonable_simps dump_str_def)

lemma loads_dumps_then:
  assumes "jsonable v" "r = [] \<or> r = [10]"
  shows "loads opts (dumps v @ r) = Inr (norm v)"
proof -
  have "need v \<le> Suc (length (dumps v @ r))" "stop r" "skip_ws r = []"
    using need_le_length [OF assms(1)] assms(2) by (auto simp: stop_def skip_ws_def is_ws_def)
  with reads_back [OF assms(1), of opts] skip_ws_dumps [OF assms(1), of r] show ?thesis
    unfolding reads_back_def by (simp add: loads_def del: parse_value.simps)
qed

lemma loads_dumps: "jsonable v \<Longrightarrow> loads opts (dumps v) = Inr (norm v)"
  using loads_dumps_then [of v "[]"] by simp

lemma scalar_ascii: "0 \<le> c \<Longrightarrow> c < 55296 \<Longrightarrow> scalar c"
  by (simp add: scalar_def code_point_def surrogate_def)

lemma scalar_escape: "scalar c \<Longrightarrow> list_all scalar (escape_char c)"
proof -
  assume c: "scalar c"
  have h: "scalar (hex_digit n)" if "0 \<le> n" "n < 16" for n
    using that by (auto simp: hex_digit_def intro!: scalar_ascii)
  have "0 \<le> c" using c by (simp add: scalar_def code_point_def)
  then have "c < 32 \<Longrightarrow> scalar (hex_digit (c div 16)) \<and> scalar (hex_digit (c mod 16))"
    using h by simp
  then show ?thesis using c by (auto simp: escape_char_def scalar_ascii)
qed

lemma scalar_dump_str: "list_all scalar s \<Longrightarrow> list_all scalar (dump_str s)"
proof -
  assume s: "list_all scalar s"
  then have "list_all scalar (concat (map escape_char s))"
    by (induction s) (simp_all add: scalar_escape)
  then show ?thesis by (simp add: dump_str_def scalar_ascii)
qed

lemma scalar_dump_int: "list_all scalar (dump_int i)"
proof -
  have "list_all is_digit s \<Longrightarrow> list_all scalar s" for s
    by (auto simp: list_all_iff is_digit_def intro!: scalar_ascii)
  then show ?thesis
    using dump_nat_props [of i] dump_nat_props [of "- i"] by (auto simp: dump_int_def intro!: scalar_ascii)
qed

lemma scalar_join: "(\<And>x. x \<in> set xs \<Longrightarrow> list_all scalar x) \<Longrightarrow> list_all scalar (join [44] xs)"
  by (induction "[44] :: pystr" xs rule: join.induct) (auto simp: scalar_ascii)

lemma scalar_dumps: "jsonable v \<Longrightarrow> list_all scalar (dumps v)"
proof (induction v rule: pyval_induct)
  case (List xs)
  then have "list_all scalar (join [44] (map dumps xs))"
    by (intro scalar_join) (auto simp: jsonable_simps)
  then show ?case by (simp add: scalar_ascii)
next
  case (Dict kvs)
  have "list_all scalar (join [44] (map dump_member (sorted_items kvs)))"
  proof (intro scalar_join)
    fix x assume "x \<in> set (map dump_member (sorted_items kvs))"
    then obtain k v where kv: "(k, v) \<in> set (sorted_items kvs)" "x = dump_member (k, v)" by auto
    with jsonable_items(2) [OF Dict.prems kv(1)] Dict.IH show "list_all scalar x"
      by (auto simp: dump_member_def scalar_dump_str set_sorted_items scalar_ascii)
  qed
  then show ?case unfolding dumps_dict_members by (simp add: scalar_ascii)
qed (auto simp: jsonable_simps scalar_dump_str scalar_dump_int u_def scalar_ascii)

lemma canonical_json_jsonable: "jsonable v \<Longrightarrow> canonical_json v = Inr (utf8_bytes (dumps v))"
  by (simp add: canonical_json_def jsonable_def) (simp add: jsonable_def scalar_dumps)

lemma canonical_json_validate: "canonical_json v = Inr b \<Longrightarrow> validate v = Inr ()"
  by (simp add: canonical_json_def rbind_Inr)

lemma canonical_json_Inr: "wf_val v \<Longrightarrow> canonical_json v = Inr b \<longleftrightarrow> jsonable v \<and> b = utf8_bytes (dumps v)"
  by (metis Inr_inject canonical_json_jsonable canonical_json_validate jsonable_def)

lemma loads_canonical:
  assumes "wf_val v" "canonical_json v = Inr b"
  shows "loads_bytes opts b = Inr (norm v)"
  using assms by (simp add: canonical_json_Inr loads_bytes_def utf8_round_trip scalar_dumps loads_dumps)

lemma loads_canonical_line:
  assumes "wf_val v" "canonical_json v = Inr b"
  shows "loads_bytes opts (b @ [10]) = Inr (norm v)"
proof -
  have v: "jsonable v" "b = utf8_bytes (dumps v)" using assms by (simp_all add: canonical_json_Inr)
  then have "utf8_decode (utf8_bytes (dumps v @ [10])) = Some (dumps v @ [10])"
    by (intro utf8_round_trip) (simp add: scalar_dumps scalar_ascii)
  moreover have "utf8_bytes (dumps v @ [10]) = b @ [10]" by (simp add: v(2) utf8_bytes_def utf8_char_def byte_def)
  ultimately show ?thesis using loads_dumps_then [OF v(1), of "[10]"] by (simp add: loads_bytes_def)
qed

text \<open>Equal canonical bytes mean equal values, up to the order of dictionary keys.\<close>

lemma canonical_json_inj:
  assumes "wf_val v" "wf_val w" "canonical_json v = Inr b" "canonical_json w = Inr b"
  shows "norm v = norm w"
  using loads_canonical [OF assms(1,3), of default_opts] loads_canonical [OF assms(2,4), of default_opts]
  by simp

text \<open>A normalised value is one document: normalising it again changes nothing.\<close>

lemma sort_items_sorted: "sorted (map fst xs) \<Longrightarrow> sort_items xs = xs"
  by (simp add: sort_items_def sort_key_id_if_sorted)

lemma sorted_items_norm:
  "sorted_items (map norm_member (sorted_items kvs)) = map (\<lambda>(k, v). (k, norm v)) (sorted_items kvs)"
proof -
  have "sorted (map fst (sorted_items kvs))" by (simp add: sorted_items_def map_fst_sort_items)
  then have "sort_items (map (\<lambda>(k, v). (k, norm v)) (sorted_items kvs)) = map (\<lambda>(k, v). (k, norm v)) (sorted_items kvs)"
    by (intro sort_items_sorted) (simp add: comp_def split_def)
  then show ?thesis
    by (simp add: sorted_items_def [of "map norm_member (sorted_items kvs)"] norm_member_def comp_def split_def)
qed

lemma dumps_norm: "jsonable v \<Longrightarrow> dumps (norm v) = dumps v"
proof (induction v rule: pyval_induct)
  case (List xs)
  then show ?case by (auto simp: jsonable_simps comp_def cong: map_cong)
next
  case (Dict kvs)
  have "dump_member (k, norm v) = dump_member (k, v)" if "(k, v) \<in> set (sorted_items kvs)" for k v
    using that Dict jsonable_items(2) [OF Dict.prems that] by (auto simp: dump_member_def set_sorted_items)
  then have "map (\<lambda>p. dump_member (case p of (k, v) \<Rightarrow> (k, norm v))) (sorted_items kvs)
      = map dump_member (sorted_items kvs)"
    by (intro map_cong) auto
  then have "map dump_member (map (\<lambda>(k, v). (k, norm v)) (sorted_items kvs)) = map dump_member (sorted_items kvs)"
    by (simp only: map_map comp_def)
  then show ?case unfolding norm_dict_members dumps_dict_members sorted_items_norm by (simp only:)
qed (simp_all add: jsonable_simps)

lemma canonical_json_norm:
  assumes "wf_val v" "wf_val w" "canonical_json v = Inr b" "validate w = Inr ()" "norm v = norm w"
  shows "canonical_json w = Inr b"
  using assms by (metis canonical_json_Inr dumps_norm jsonable_def)

end
