(* ===== verification/Timestamps.thy ===== *)
theory Timestamps
  imports Json_Load
begin

text \<open>
  The part of \<open>datetime\<close> the code uses: aware instants as microseconds since
  0001-01-01T00:00:00Z, their RFC 3339 form, and the profile of \<open>fromisoformat\<close> that the
  timestamp patterns of the code let through.
\<close>

section \<open>The proleptic Gregorian calendar\<close>

definition is_leap :: "int \<Rightarrow> bool" where
  "is_leap y \<longleftrightarrow> y mod 4 = 0 \<and> (y mod 100 \<noteq> 0 \<or> y mod 400 = 0)"

definition month_lengths :: "bool \<Rightarrow> int list" where
  "month_lengths leap = [31, if leap then 29 else 28, 31, 30, 31, 30, 31, 31, 30, 31, 30, 31]"

definition days_before_year :: "int \<Rightarrow> int" where
  "days_before_year y = (let p = y - 1 in p * 365 + p div 4 - p div 100 + p div 400)"

definition days_in_month :: "int \<Rightarrow> int \<Rightarrow> int" where
  "days_in_month y m = month_lengths (is_leap y) ! nat (m - 1)"

definition days_before_month :: "int \<Rightarrow> int \<Rightarrow> int" where
  "days_before_month y m = sum_list (take (nat (m - 1)) (month_lengths (is_leap y)))"

text \<open>Days since 0001-01-01, and back.\<close>

definition ymd_days :: "int \<Rightarrow> int \<Rightarrow> int \<Rightarrow> int" where
  "ymd_days y m d = days_before_year y + days_before_month y m + (d - 1)"

fun split_month :: "int list \<Rightarrow> int \<Rightarrow> int \<Rightarrow> int \<times> int" where
  "split_month [] m r = (m, r + 1)"
| "split_month (l # ls) m r = (if r < l then (m, r + 1) else split_month ls (m + 1) (r - l))"

definition year_of :: "int \<Rightarrow> int \<times> int" where
  "year_of n =
     (let n400 = n div 146097; r1 = n mod 146097;
          n100 = r1 div 36524; r2 = r1 mod 36524;
          n4 = r2 div 1461; r3 = r2 mod 1461;
          n1 = r3 div 365; r4 = r3 mod 365;
          y = n400 * 400 + n100 * 100 + n4 * 4 + n1 + 1
      in if n1 = 4 \<or> n100 = 4 then (y - 1, 365) else (y, r4))"

definition days_ymd :: "int \<Rightarrow> int \<times> int \<times> int" where
  "days_ymd n = (let (y, r) = year_of n; (m, d) = split_month (month_lengths (is_leap y)) 1 r in (y, m, d))"

definition max_instant :: int where
  "max_instant = 315537897600000000"

section \<open>Formatting\<close>

datatype datetime = Naive int | Aware int

definition pad2 :: "int \<Rightarrow> pystr" where
  "pad2 n = [48 + n div 10, 48 + n mod 10]"

definition pad4 :: "int \<Rightarrow> pystr" where
  "pad4 n = pad2 (n div 100) @ pad2 (n mod 100)"

definition pad6 :: "int \<Rightarrow> pystr" where
  "pad6 n = pad2 (n div 10000) @ pad2 (n div 100 mod 100) @ pad2 (n mod 100)"

definition iso_seconds :: "int \<Rightarrow> pystr" where
  "iso_seconds secs =
     (let (y, m, d) = days_ymd (secs div 86400); s = secs mod 86400
      in pad4 y @ [45] @ pad2 m @ [45] @ pad2 d @ [84]
         @ pad2 (s div 3600) @ [58] @ pad2 (s div 60 mod 60) @ [58] @ pad2 (s mod 60))"

definition iso_utc :: "int \<Rightarrow> pystr" where
  "iso_utc t =
     iso_seconds (t div 1000000)
     @ (if t mod 1000000 = 0 then [] else [46] @ pad6 (t mod 1000000)) @ [90]"

definition format_time :: "datetime \<Rightarrow> pystr result" where
  "format_time v =
     (case v of
        Naive _ \<Rightarrow> Inl (ValueError ''timestamps must be timezone-aware'')
      | Aware t \<Rightarrow> Inr (iso_utc t))"

section \<open>Parsing\<close>

definition dig2 :: "int \<Rightarrow> int \<Rightarrow> int" where
  "dig2 a b = 10 * (a - 48) + (b - 48)"

definition valid_seconds :: "int \<Rightarrow> int \<Rightarrow> int \<Rightarrow> int \<Rightarrow> int \<Rightarrow> int \<Rightarrow> int option" where
  "valid_seconds y mo d h mi s =
     (if 1 \<le> y \<and> 1 \<le> mo \<and> mo \<le> 12 \<and> 1 \<le> d \<and> d \<le> days_in_month y mo
         \<and> h \<le> 23 \<and> mi \<le> 59 \<and> s \<le> 59
      then Some (ymd_days y mo d * 86400 + h * 3600 + mi * 60 + s) else None)"

text \<open>The fixed part \<open>YYYY-MM-DDTHH:MM:SS\<close>: its digits as numbers, and what follows it.\<close>

definition clock_fields :: "pystr \<Rightarrow> ((int \<times> int \<times> int \<times> int \<times> int \<times> int) \<times> pystr) option" where
  "clock_fields s =
     (if length s < 19 then None
      else if (\<forall>i \<in> {0, 1, 2, 3, 5, 6, 8, 9, 11, 12, 14, 15, 17, 18}. is_digit (s ! i))
         \<and> s ! 4 = 45 \<and> s ! 7 = 45 \<and> s ! 10 = 84 \<and> s ! 13 = 58 \<and> s ! 16 = 58
      then Some ((100 * dig2 (s ! 0) (s ! 1) + dig2 (s ! 2) (s ! 3), dig2 (s ! 5) (s ! 6),
                  dig2 (s ! 8) (s ! 9), dig2 (s ! 11) (s ! 12), dig2 (s ! 14) (s ! 15),
                  dig2 (s ! 17) (s ! 18)), drop 19 s)
      else None)"

text \<open>The optional fraction and the final \<open>Z\<close>; digits beyond the sixth are dropped.\<close>

definition fraction_z :: "pystr \<Rightarrow> int option" where
  "fraction_z r =
     (if r = [90] then Some 0
      else if 3 \<le> length r \<and> hd r = 46 \<and> last r = 90 \<and> list_all is_digit (butlast (tl r))
      then Some (digits_val (take 6 (butlast (tl r) @ [48, 48, 48, 48, 48, 48])))
      else None)"

definition parse_instant :: "pystr \<Rightarrow> int option" where
  "parse_instant s =
     (case clock_fields s of
        None \<Rightarrow> None
      | Some ((y, mo, d, h, mi, sec), r) \<Rightarrow>
          (case fraction_z r of
             None \<Rightarrow> None
           | Some us \<Rightarrow> map_option (\<lambda>t. t * 1000000 + us) (valid_seconds y mo d h mi sec)))"

text \<open>\<open>UTC_TIMESTAMP_PATTERN.fullmatch\<close>\<close>

definition is_timestamp :: "pystr \<Rightarrow> bool" where
  "is_timestamp s \<longleftrightarrow>
     (case clock_fields s of None \<Rightarrow> False | Some (_, r) \<Rightarrow> fraction_z r \<noteq> None)"

definition parse_time :: "pystr \<Rightarrow> int result" where
  "parse_time s = (case parse_instant s of None \<Rightarrow> Inl (ValueError ''Invalid isoformat string'') | Some t \<Rightarrow> Inr t)"

section \<open>The calendar round trip\<close>

lemma days_before_year_cycle:
  assumes "0 \<le> a" "0 \<le> b" "b \<le> 3" "0 \<le> c" "c \<le> 24" "0 \<le> d" "d \<le> (3::int)"
  shows "days_before_year (a * 400 + b * 100 + c * 4 + d + 1) = 146097 * a + 36524 * b + 1461 * c + 365 * d"
    and "is_leap (a * 400 + b * 100 + c * 4 + d + 1) \<longleftrightarrow> d = 3 \<and> (c \<noteq> 24 \<or> b = 3)"
proof -
  let ?p = "a * 400 + b * 100 + c * 4 + d"
  have "?p div 4 = a * 100 + b * 25 + c" using assms by linarith
  moreover have "?p div 100 = a * 4 + b" using assms by linarith
  moreover have "?p div 400 = a" using assms by linarith
  ultimately show "days_before_year (?p + 1) = 146097 * a + 36524 * b + 1461 * c + 365 * d"
    by (simp add: days_before_year_def Let_def)
  have small: "k mod m = 0 \<longleftrightarrow> k = m" if "0 < k" "k \<le> m" for k m :: int
    using that by (cases "k = m") auto
  have "?p + 1 = (d + 1) + 4 * (a * 100 + b * 25 + c)" by simp
  then have "(?p + 1) mod 4 = (d + 1) mod 4" by (simp only: mod_mult_self2)
  then have "(?p + 1) mod 4 = 0 \<longleftrightarrow> d = 3" using small [of "d + 1" 4] assms by linarith
  moreover have "?p + 1 = (c * 4 + d + 1) + 100 * (a * 4 + b)" by simp
  then have "(?p + 1) mod 100 = (c * 4 + d + 1) mod 100" by (simp only: mod_mult_self2)
  then have "(?p + 1) mod 100 = 0 \<longleftrightarrow> d = 3 \<and> c = 24"
    using small [of "c * 4 + d + 1" 100] assms by linarith
  moreover have "?p + 1 = (b * 100 + c * 4 + d + 1) + 400 * a" by simp
  then have "(?p + 1) mod 400 = (b * 100 + c * 4 + d + 1) mod 400" by (simp only: mod_mult_self2)
  then have "(?p + 1) mod 400 = 0 \<longleftrightarrow> d = 3 \<and> c = 24 \<and> b = 3"
    using small [of "b * 100 + c * 4 + d + 1" 400] assms by linarith
  ultimately show "is_leap (?p + 1) \<longleftrightarrow> d = 3 \<and> (c \<noteq> 24 \<or> b = 3)" unfolding is_leap_def by (simp only:) auto
qed

lemma year_of_ok:
  assumes "0 \<le> n" "year_of n = (y, r)"
  shows "1 \<le> y" "0 \<le> r" "r < 365 + (if is_leap y then 1 else 0)" "days_before_year y + r = n"
    "n < 3652059 \<Longrightarrow> y \<le> 9999"
proof -
  define a r1 where "a = n div 146097" and "r1 = n mod 146097"
  define b r2 where "b = r1 div 36524" and "r2 = r1 mod 36524"
  define c r3 where "c = r2 div 1461" and "r3 = r2 mod 1461"
  define d r4 where "d = r3 div 365" and "r4 = r3 mod 365"
  note defs = a_def r1_def b_def r2_def c_def r3_def d_def r4_def
  have n: "n = 146097 * a + r1" "0 \<le> r1" "r1 < 146097" "0 \<le> a"
    using assms(1) by (simp_all add: defs(1,2) pos_imp_zdiv_nonneg_iff)
  have e1: "r1 = 36524 * b + r2" "0 \<le> r2" "r2 < 36524" "0 \<le> b"
    using n by (simp_all add: defs(3,4) pos_imp_zdiv_nonneg_iff)
  have e2: "r2 = 1461 * c + r3" "0 \<le> r3" "r3 < 1461" "0 \<le> c"
    using e1 by (simp_all add: defs(5,6) pos_imp_zdiv_nonneg_iff)
  have e3: "r3 = 365 * d + r4" "0 \<le> r4" "r4 < 365" "0 \<le> d"
    using e2 by (simp_all add: defs(7,8) pos_imp_zdiv_nonneg_iff)
  have bounds: "b \<le> 4" "c \<le> 24" "d \<le> 4" using n(3) e1(1,2) e1(3) e2(1,2) e2(3) e3(1,2) by linarith+
  have yo: "(y, r) = (if d = 4 \<or> b = 4 then (a * 400 + b * 100 + c * 4 + d, 365)
      else (a * 400 + b * 100 + c * 4 + d + 1, r4))"
    using assms(2) unfolding year_of_def Let_def defs [symmetric] by (simp only: add_diff_cancel_right')
  have "1 \<le> y \<and> 0 \<le> r \<and> r < 365 + (if is_leap y then 1 else 0) \<and> days_before_year y + r = n
    \<and> (n < 3652059 \<longrightarrow> y \<le> 9999)"
  proof (cases "d = 4 \<or> b = 4")
    case False
    then have bd: "b \<le> 3" "d \<le> 3" using bounds by linarith+
    have "days_before_year y = 146097 * a + 36524 * b + 1461 * c + 365 * d"
      using yo False days_before_year_cycle(1) [OF n(4) e1(4) bd(1) e2(4) bounds(2) e3(4) bd(2)] by simp
    then show ?thesis using yo False n e1 e2 e3 bd bounds by auto
  next
    case True
    show ?thesis
    proof (cases "b = 4")
      case b: True
      then have z: "c = 0" "d = 0" "r4 = 0" using n e1 e2 e3 by linarith+
      have y: "y = a * 400 + 3 * 100 + 24 * 4 + 3 + 1" "r = 365" using yo b z by auto
      have "days_before_year y = 146097 * a + 36524 * 3 + 1461 * 24 + 365 * 3" "is_leap y"
        unfolding y(1) using days_before_year_cycle [of a 3 24 3] n(4) by simp_all
      then show ?thesis using y n e1 e2 e3 b z by simp
    next
      case b: False
      then have d: "d = 4" "b \<le> 3" using True bounds by auto
      then have z: "r4 = 0" "c \<le> 23" using e1 e2 e3 by linarith+
      have y: "y = a * 400 + b * 100 + c * 4 + 3 + 1" "r = 365" using yo d by auto
      have "days_before_year y = 146097 * a + 36524 * b + 1461 * c + 365 * 3" "is_leap y"
        unfolding y(1) using days_before_year_cycle [of a b c 3] n(4) e1(4) e2(4) d z by simp_all
      then show ?thesis using y n e1 e2 e3 d z by auto
    qed
  qed
  then show "1 \<le> y" "0 \<le> r" "r < 365 + (if is_leap y then 1 else 0)" "days_before_year y + r = n"
    "n < 3652059 \<Longrightarrow> y \<le> 9999" by auto
qed

lemma split_month_ok:
  assumes "split_month ls m r = (m', d)" "0 \<le> r" "r < sum_list ls"
  shows "m \<le> m' \<and> m' < m + int (length ls) \<and> 1 \<le> d \<and> d \<le> ls ! nat (m' - m)
    \<and> sum_list (take (nat (m' - m)) ls) + (d - 1) = r"
  using assms
proof (induction ls m r rule: split_month.induct)
  case (2 l ls m r)
  show ?case
  proof (cases "r < l")
    case False
    with 2 have IH: "m + 1 \<le> m' \<and> m' < m + 1 + int (length ls) \<and> 1 \<le> d \<and> d \<le> ls ! nat (m' - (m + 1))
      \<and> sum_list (take (nat (m' - (m + 1))) ls) + (d - 1) = r - l" by auto
    then have "nat (m' - m) = Suc (nat (m' - (m + 1)))" by linarith
    with IH show ?thesis by auto
  qed (use 2 in auto)
qed simp

lemma length_month_lengths [simp]: "length (month_lengths b) = 12"
  by (simp add: month_lengths_def)

lemma sum_month_lengths: "sum_list (month_lengths b) = 365 + (if b then 1 else 0)"
  by (simp add: month_lengths_def)

lemma month_length_le: "1 \<le> m \<Longrightarrow> m \<le> 12 \<Longrightarrow> days_in_month y m \<le> 31"
proof -
  assume m: "1 \<le> m" "m \<le> 12"
  have "\<forall>x \<in> set (month_lengths (is_leap y)). x \<le> 31" by (auto simp: month_lengths_def)
  moreover have "days_in_month y m \<in> set (month_lengths (is_leap y))"
    using m by (auto simp: days_in_month_def intro!: nth_mem)
  ultimately show ?thesis by blast
qed

lemma days_ymd_ok:
  assumes "0 \<le> n" "days_ymd n = (y, m, d)"
  shows "1 \<le> y" "1 \<le> m" "m \<le> 12" "1 \<le> d" "d \<le> days_in_month y m" "ymd_days y m d = n"
    "n < 3652059 \<Longrightarrow> y \<le> 9999"
proof -
  obtain y' r where yr: "year_of n = (y', r)" by (cases "year_of n")
  with assms(2) have sm: "y' = y" "split_month (month_lengths (is_leap y)) 1 r = (m, d)"
    by (auto simp: days_ymd_def split: prod.splits)
  note yo = year_of_ok [OF assms(1) yr [unfolded sm(1)]]
  from split_month_ok [OF sm(2) yo(2)] yo(3)
  have "1 \<le> m \<and> m < 13 \<and> 1 \<le> d \<and> d \<le> days_in_month y m \<and> days_before_month y m + (d - 1) = r"
    by (simp add: sum_month_lengths days_in_month_def days_before_month_def)
  with yo show "1 \<le> y" "1 \<le> m" "m \<le> 12" "1 \<le> d" "d \<le> days_in_month y m" "ymd_days y m d = n"
    "n < 3652059 \<Longrightarrow> y \<le> 9999" by (auto simp: ymd_days_def)
qed

section \<open>The text round trip\<close>

lemma dig2_digits [simp]: "0 \<le> n \<Longrightarrow> n < 100 \<Longrightarrow> dig2 (48 + n div 10) (48 + n mod 10) = n"
  by (simp add: dig2_def)

lemma digit_div [simp]:
  "0 \<le> n \<Longrightarrow> n < 100 \<Longrightarrow> is_digit (48 + n div 10)" "is_digit (48 + n mod 10)"
proof -
  have "0 \<le> n mod 10" "n mod 10 < 10" by simp_all
  then show "is_digit (48 + n mod 10)" unfolding is_digit_def by linarith
  assume "0 \<le> n" "n < 100"
  then show "is_digit (48 + n div 10)" unfolding is_digit_def by linarith
qed

lemma horner: "m * q + r = y \<Longrightarrow> k * y + s = (x :: int) \<Longrightarrow> k * m * q + k * r + s = x"
  by (auto simp: algebra_simps)

lemma pad2_digits: "0 \<le> n \<Longrightarrow> n < 100 \<Longrightarrow> list_all is_digit (pad2 n)"
  unfolding pad2_def by (simp only: list.pred_inject digit_div)

lemma pad2_eq: "0 \<le> n \<Longrightarrow> n < 100 \<Longrightarrow> \<exists>a b. pad2 n = [a, b] \<and> is_digit a \<and> is_digit b \<and> dig2 a b = n"
  unfolding pad2_def using digit_div [of n] dig2_digits [of n] by blast

lemma clock_fields_digits:
  assumes "is_digit a1" "is_digit a2" "is_digit a3" "is_digit a4" "is_digit b1" "is_digit b2" "is_digit c1" "is_digit c2"
    "is_digit h1" "is_digit h2" "is_digit m1" "is_digit m2" "is_digit s1" "is_digit s2"
  shows "clock_fields (a1 # a2 # a3 # a4 # 45 # b1 # b2 # 45 # c1 # c2 # 84 # h1 # h2 # 58 # m1 # m2 # 58 # s1 # s2 # r)
    = Some ((100 * dig2 a1 a2 + dig2 a3 a4, dig2 b1 b2, dig2 c1 c2, dig2 h1 h2, dig2 m1 m2, dig2 s1 s2), r)"
  using assms by (simp add: clock_fields_def)

lemma clock_fields_pad:
  assumes "0 \<le> y" "y \<le> 9999" "0 \<le> mo" "mo < 100" "0 \<le> d" "d < 100"
    "0 \<le> h" "h < 100" "0 \<le> mi" "mi < 100" "0 \<le> sec" "sec < 100"
  shows "clock_fields (pad4 y @ [45] @ pad2 mo @ [45] @ pad2 d @ [84] @ pad2 h @ [58] @ pad2 mi @ [58]
    @ pad2 sec @ r) = Some ((y, mo, d, h, mi, sec), r)"
proof -
  have y: "0 \<le> y div 100" "y div 100 < 100" "0 \<le> y mod 100" "y mod 100 < 100" using assms(1,2) by auto
  have "100 * (y div 100) + y mod 100 = y" by simp
  then show ?thesis
    using pad2_eq [OF y(1,2)] pad2_eq [OF y(3,4)] pad2_eq [OF assms(3,4)] pad2_eq [OF assms(5,6)]
      pad2_eq [OF assms(7,8)] pad2_eq [OF assms(9,10)] pad2_eq [OF assms(11,12)]
    unfolding pad4_def by (elim exE conjE) (simp only: append.simps clock_fields_digits)
qed

lemma fraction_z_pad6:
  assumes "0 \<le> us" "us < 1000000"
  shows "fraction_z ((if us = 0 then [] else [46] @ pad6 us) @ [90]) = Some us"
proof -
  have b: "0 \<le> us div 10000" "us div 10000 < 100" "0 \<le> us div 100 mod 100" "us div 100 mod 100 < 100"
    "0 \<le> us mod 100" "us mod 100 < 100" using assms by auto
  have "10000 * (us div 10000) + 100 * (us div 100 mod 100) + us mod 100 = us"
  proof -
    have "us div 10000 = us div 100 div 100" by (simp add: zdiv_zmult2_eq [symmetric])
    then have "100 * (us div 10000) + us div 100 mod 100 = us div 100" by simp
    from horner [OF this, of 100 "us mod 100" us] show ?thesis by simp
  qed
  moreover have "digits_val (pad6 us) = 10000 * (us div 10000) + 100 * (us div 100 mod 100) + us mod 100"
    unfolding pad6_def pad2_def digits_val_def by simp
  moreover have "list_all is_digit (pad6 us)" using b by (simp add: pad6_def pad2_digits)
  moreover have "length (pad6 us) = 6" by (simp add: pad6_def pad2_def)
  ultimately show ?thesis by (auto simp: fraction_z_def butlast_append)
qed

text \<open>Every instant in range is read back from its own text.\<close>

lemma parse_iso_utc:
  assumes "0 \<le> t" "t < max_instant"
  shows "parse_instant (iso_utc t) = Some t"
proof -
  define secs us where "secs = t div 1000000" and "us = t mod 1000000"
  have us: "0 \<le> us" "us < 1000000" and t: "t = secs * 1000000 + us"
    by (simp_all add: us_def secs_def)
  have secs: "0 \<le> secs" "secs < 315537897600"
    using assms by (auto simp: secs_def max_instant_def pos_imp_zdiv_nonneg_iff)
  define n s where "n = secs div 86400" and "s = secs mod 86400"
  have n: "0 \<le> n" "n < 3652059" and s: "0 \<le> s" "s < 86400" and sc: "secs = n * 86400 + s"
    using secs by (auto simp: n_def s_def pos_imp_zdiv_nonneg_iff)
  obtain y mo d where ymd: "days_ymd n = (y, mo, d)" by (cases "days_ymd n")
  note dk = days_ymd_ok [OF n(1) ymd]
  have d31: "d \<le> 31" using dk(5) month_length_le [OF dk(2,3), of y] by simp
  define hh mm ss where "hh = s div 3600" and "mm = s div 60 mod 60" and "ss = s mod 60"
  note hms = hh_def mm_def ss_def
  have h: "0 \<le> hh" "hh \<le> 23" "0 \<le> mm" "mm \<le> 59" "0 \<le> ss" "ss \<le> 59"
    using s unfolding hms by auto
  have hs: "hh * 3600 + mm * 60 + ss = s"
  proof -
    have "s div 3600 = s div 60 div 60" by (simp add: zdiv_zmult2_eq [symmetric])
    then have "60 * (s div 3600) + s div 60 mod 60 = s div 60" by simp
    from horner [OF this, of 60 "s mod 60" s] show ?thesis by (simp add: hms mult.commute)
  qed
  have "clock_fields (iso_utc t) = Some ((y, mo, d, hh, mm, ss),
      (if us = 0 then [] else [46] @ pad6 us) @ [90])"
    unfolding iso_utc_def iso_seconds_def secs_def [symmetric] us_def [symmetric]
      n_def [symmetric] s_def [symmetric] hms [symmetric] ymd Let_def prod.case append_assoc
    using dk d31 h n(2) by (intro clock_fields_pad) auto
  moreover have "valid_seconds y mo d hh mm ss = Some secs"
    using dk h hs unfolding sc by (simp add: valid_seconds_def)
  ultimately show ?thesis
    using fraction_z_pad6 [OF us] by (simp add: parse_instant_def t)
qed

lemma iso_utc_is_timestamp: "0 \<le> t \<Longrightarrow> t < max_instant \<Longrightarrow> is_timestamp (iso_utc t)"
  using parse_iso_utc [of t] by (auto simp: parse_instant_def is_timestamp_def split: option.splits)

lemma parse_format_time:
  "format_time v = Inr s \<Longrightarrow> v = Aware t \<Longrightarrow> 0 \<le> t \<Longrightarrow> t < max_instant \<Longrightarrow> parse_time s = Inr t"
  by (auto simp: format_time_def parse_time_def parse_iso_utc)

section \<open>Adding seconds\<close>

text \<open>\<open>timedelta\<close> arithmetic, in microseconds: leaving the range of \<open>datetime\<close> raises.\<close>

definition add_seconds :: "int \<Rightarrow> int \<Rightarrow> int result" where
  "add_seconds t n =
     (let r = t + n * 1000000 in if 0 \<le> r \<and> r < max_instant then Inr r else Inl OverflowError)"

end
