(* ===== verification/Canonical.thy ===== *)
theory Canonical
  imports Json_Round_Trip Timestamps
begin

text \<open>
  The document validators and digests of \<open>canonical.py\<close>: actions, result manifests, source
  validations and invalidations. Each validator is a sequence of checks in the order of the
  code; \<open>validate_manifest_iff\<close> and its siblings give the declarative meaning of passing them,
  and the digest lemmas say what a digest identifies. The text a message builds from field names
  is not modelled, nor are document keys that are not strings (the decoded JSON has none).
\<close>

section \<open>Shared checks\<close>

text \<open>Unhashable values raise \<open>TypeError\<close> where the code tests them against a set.\<close>

fun hashable :: "pyval \<Rightarrow> bool" where
  "hashable (PyList _) = False"
| "hashable (PyDict _) = False"
| "hashable _ = True"

definition keys :: "pyval \<Rightarrow> pyval set" where
  "keys v = set (map fst (pairs_of v))"

definition exact_keys :: "pyval \<Rightarrow> string list \<Rightarrow> bool" where
  "exact_keys v ks \<longleftrightarrow> is_dict v \<and> keys v = set (map (\<lambda>k. S k) ks)"

definition require_exact_keys :: "pyval \<Rightarrow> string list \<Rightarrow> string \<Rightarrow> unit result" where
  "require_exact_keys v expected label =
     first_error
       [guard (is_dict v) (ValueError (label @ '' must be an object'')),
        guard (keys v = set (map (\<lambda>k. S k) expected)) (ValueError (''invalid '' @ label @ '' fields''))]"

definition nonempty_str :: "pyval \<Rightarrow> bool" where
  "nonempty_str v \<longleftrightarrow> is_str v \<and> str_of v \<noteq> []"

definition require_nonempty_string :: "pyval \<Rightarrow> string \<Rightarrow> unit result" where
  "require_nonempty_string v label =
     guard (nonempty_str v) (ValueError (label @ '' must be a non-empty string''))"

definition require_utc_timestamp :: "pyval \<Rightarrow> string \<Rightarrow> unit result" where
  "require_utc_timestamp v label =
     first_error
       [require_nonempty_string v label,
        guard (is_timestamp (str_of v)) (ValueError (label @ '' must be an RFC 3339 UTC timestamp ending in Z'')),
        guard (parse_instant (str_of v) \<noteq> None) (ValueError (label @ '' is not a valid timestamp''))]"

text \<open>\<open>isinstance(v, str) and DIGEST_PATTERN.fullmatch(v)\<close>\<close>

definition digest_val :: "pyval \<Rightarrow> bool" where
  "digest_val v \<longleftrightarrow> is_str v \<and> is_digest (str_of v)"

definition instant_val :: "pyval \<Rightarrow> bool" where
  "instant_val v \<longleftrightarrow> is_str v \<and> parse_instant (str_of v) \<noteq> None"

section \<open>Actions\<close>

definition validate_action :: "pyval \<Rightarrow> unit result" where
  "validate_action action =
     first_error
       [require_exact_keys action
          [''spec_version'', ''operation'', ''inputs'', ''executor'', ''output_schema'', ''vary''] ''action'',
        guard (item action ''spec_version'' = S ''oncemesh.action/v0'') (ValueError ''unsupported action spec_version''),
        require_exact_keys (item action ''operation'') [''name'', ''version''] ''operation'',
        require_nonempty_string (item (item action ''operation'') ''name'') ''operation.name'',
        require_nonempty_string (item (item action ''operation'') ''version'') ''operation.version'',
        require_exact_keys (item action ''executor'') [''name'', ''version'', ''config''] ''executor'',
        require_nonempty_string (item (item action ''executor'') ''name'') ''executor.name'',
        require_nonempty_string (item (item action ''executor'') ''version'') ''executor.version'',
        guard (is_dict (item (item action ''executor'') ''config'')) (ValueError ''executor.config must be an object''),
        guard (is_dict (item action ''inputs'') \<and> is_dict (item action ''vary'')) (ValueError ''inputs and vary must be objects''),
        require_nonempty_string (item action ''output_schema'') ''output_schema'',
        discard (canonical_json action)]"

section \<open>Result manifests\<close>

definition result_v0 :: pyval where
  "result_v0 = S ''oncemesh.result/v0''"

definition result_v1 :: pyval where
  "result_v1 = S ''oncemesh.result/v1''"

definition manifest_keys :: "pyval \<Rightarrow> string list" where
  "manifest_keys version =
     [''spec_version'', ''action_digest'', ''artifacts'', ''produced_at'', ''fresh_until'', ''producer'']
     @ (if version = result_v1 then [''dependencies''] else [])"

definition validate_artifact :: "pyval set \<Rightarrow> pyval \<Rightarrow> unit result" where
  "validate_artifact names artifact =
     first_error
       [require_exact_keys artifact [''name'', ''digest'', ''size'', ''media_type''] ''artifact'',
        require_nonempty_string (item artifact ''name'') ''artifact.name'',
        require_nonempty_string (item artifact ''media_type'') ''artifact.media_type'',
        guard (item artifact ''name'' \<notin> names) (ValueError ''artifact names must be unique''),
        guard (digest_val (item artifact ''digest'')) (ValueError ''artifact.digest is invalid''),
        guard (is_int (item artifact ''size'') \<and> 0 \<le> int_of (item artifact ''size''))
          (ValueError ''artifact.size must be a non-negative integer'')]"

fun validate_artifacts :: "pyval set \<Rightarrow> pyval list \<Rightarrow> unit result" where
  "validate_artifacts names [] = Inr ()"
| "validate_artifacts names (artifact # artifacts) =
     seq (validate_artifact names artifact)
       (validate_artifacts (insert (item artifact ''name'') names) artifacts)"

definition validate_dependency ::
  "pyval set \<Rightarrow> pyval set \<Rightarrow> pystr option \<Rightarrow> pyval \<Rightarrow> unit result" where
  "validate_dependency names digests previous dependency =
     first_error
       [require_exact_keys dependency [''name'', ''result_digest''] ''dependency'',
        require_nonempty_string (item dependency ''name'') ''dependency.name'',
        guard (item dependency ''name'' \<notin> names) (ValueError ''dependency names must be unique''),
        guard (case previous of None \<Rightarrow> True | Some p \<Rightarrow> p < str_of (item dependency ''name''))
          (ValueError ''dependencies must be sorted by name''),
        guard (digest_val (item dependency ''result_digest'')) (ValueError ''dependency.result_digest is invalid''),
        guard (item dependency ''result_digest'' \<notin> digests) (ValueError ''dependency result digests must be unique'')]"

fun validate_dependencies ::
  "pyval set \<Rightarrow> pyval set \<Rightarrow> pystr option \<Rightarrow> pyval list \<Rightarrow> unit result" where
  "validate_dependencies names digests previous [] = Inr ()"
| "validate_dependencies names digests previous (dependency # ds) =
     seq (validate_dependency names digests previous dependency)
       (validate_dependencies (insert (item dependency ''name'') names)
         (insert (item dependency ''result_digest'') digests) (Some (str_of (item dependency ''name''))) ds)"

definition validate_manifest :: "pyval \<Rightarrow> unit result" where
  "validate_manifest manifest =
     (let version = (if is_dict manifest then item manifest ''spec_version'' else PyNone)
      in first_error
        [require_exact_keys manifest (manifest_keys version) ''result manifest'',
         guard (hashable version) TypeError,
         guard (version = result_v0 \<or> version = result_v1) (ValueError ''unsupported result spec_version''),
         guard (digest_val (item manifest ''action_digest'')) (ValueError ''action_digest is invalid''),
         require_utc_timestamp (item manifest ''produced_at'') ''produced_at'',
         (if item manifest ''fresh_until'' = PyNone then Inr ()
          else require_utc_timestamp (item manifest ''fresh_until'') ''fresh_until''),
         require_nonempty_string (item manifest ''producer'') ''producer'',
         guard (is_list (item manifest ''artifacts'')) (ValueError ''artifacts must be an array''),
         validate_artifacts {} (items_of (item manifest ''artifacts'')),
         (if version = result_v1 then
            first_error
              [guard (is_list (item manifest ''dependencies'')) (ValueError ''dependencies must be an array''),
               validate_dependencies {} {} None (items_of (item manifest ''dependencies''))]
          else Inr ()),
         discard (canonical_json manifest)])"

section \<open>Source validations and invalidations\<close>

definition null_or_nonempty :: "pyval \<Rightarrow> bool" where
  "null_or_nonempty v \<longleftrightarrow> v = PyNone \<or> nonempty_str v"

definition instant_of :: "pyval \<Rightarrow> int" where
  "instant_of v = (case parse_instant (str_of v) of Some t \<Rightarrow> t | None \<Rightarrow> 0)"

text \<open>
  A status of \<open>304.0\<close> compares equal to 304 in Python and is then refused by
  \<open>canonical_json\<close>; here it is refused one check earlier.
\<close>

definition validate_method :: "pyval \<Rightarrow> unit result" where
  "validate_method method =
     first_error
       [require_exact_keys method [''name'', ''version'', ''status'', ''etag'', ''last_modified''] ''validation method'',
        guard (item method ''name'' = S ''http.conditional'' \<and> item method ''version'' = S ''1''
               \<and> item method ''status'' = PyInt 304) (ValueError ''unsupported validation method''),
        guard (null_or_nonempty (item method ''etag'')) (ValueError ''method.etag must be null or a non-empty string''),
        guard (null_or_nonempty (item method ''last_modified''))
          (ValueError ''method.last_modified must be null or a non-empty string''),
        guard (\<not> (item method ''etag'' = PyNone \<and> item method ''last_modified'' = PyNone))
          (ValueError ''HTTP conditional validation requires at least one validator'')]"

definition validate_source_validation :: "pyval \<Rightarrow> unit result" where
  "validate_source_validation record =
     first_error
       [require_exact_keys record
          [''spec_version'', ''result_digest'', ''validated_at'', ''fresh_until'', ''producer'', ''method'']
          ''source validation'',
        guard (item record ''spec_version'' = S ''oncemesh.validation/v0'')
          (ValueError ''unsupported source validation spec_version''),
        guard (digest_val (item record ''result_digest'')) (ValueError ''result_digest is invalid''),
        require_utc_timestamp (item record ''validated_at'') ''validated_at'',
        require_utc_timestamp (item record ''fresh_until'') ''fresh_until'',
        guard (instant_of (item record ''validated_at'') \<le> instant_of (item record ''fresh_until''))
          (ValueError ''fresh_until must not precede validated_at''),
        require_nonempty_string (item record ''producer'') ''producer'',
        validate_method (item record ''method''),
        discard (canonical_json record)]"

definition validate_invalidation :: "pyval \<Rightarrow> unit result" where
  "validate_invalidation record =
     first_error
       [require_exact_keys record
          [''spec_version'', ''result_digest'', ''invalidated_at'', ''producer'', ''reason''] ''invalidation'',
        guard (item record ''spec_version'' = S ''oncemesh.invalidation/v0'')
          (ValueError ''unsupported invalidation spec_version''),
        guard (digest_val (item record ''result_digest'')) (ValueError ''result_digest is invalid''),
        require_utc_timestamp (item record ''invalidated_at'') ''invalidated_at'',
        require_nonempty_string (item record ''producer'') ''producer'',
        require_nonempty_string (item record ''reason'') ''reason'',
        discard (canonical_json record)]"

section \<open>Digests\<close>

definition action_digest :: "pyval \<Rightarrow> pystr result" where
  "action_digest action = seq (validate_action action) (object_digest action)"

definition manifest_digest :: "pyval \<Rightarrow> pystr result" where
  "manifest_digest manifest = seq (validate_manifest manifest) (object_digest manifest)"

definition validation_digest :: "pyval \<Rightarrow> pystr result" where
  "validation_digest record = seq (validate_source_validation record) (object_digest record)"

definition invalidation_digest :: "pyval \<Rightarrow> pystr result" where
  "invalidation_digest record = seq (validate_invalidation record) (object_digest record)"

section \<open>What passing a validator means\<close>

lemma require_exact_keys_iff [checks]: "require_exact_keys v ks l = Inr () \<longleftrightarrow> exact_keys v ks"
  by (auto simp: require_exact_keys_def exact_keys_def checks)

lemma require_nonempty_string_iff [checks]: "require_nonempty_string v l = Inr () \<longleftrightarrow> nonempty_str v"
  by (simp add: require_nonempty_string_def)

lemma parse_instant_pattern: "parse_instant s = Some t \<Longrightarrow> is_timestamp s"
  by (auto simp: parse_instant_def is_timestamp_def split: option.splits)

lemma parse_instant_Nil [simp]: "parse_instant [] = None"
  by (simp add: parse_instant_def clock_fields_def)

lemma require_utc_timestamp_iff [checks]: "require_utc_timestamp v l = Inr () \<longleftrightarrow> instant_val v"
  by (auto simp: require_utc_timestamp_def instant_val_def checks nonempty_str_def dest: parse_instant_pattern)

definition artifact_ok :: "pyval \<Rightarrow> bool" where
  "artifact_ok a \<longleftrightarrow> exact_keys a [''name'', ''digest'', ''size'', ''media_type'']
     \<and> nonempty_str (item a ''name'') \<and> nonempty_str (item a ''media_type'')
     \<and> digest_val (item a ''digest'') \<and> is_int (item a ''size'') \<and> 0 \<le> int_of (item a ''size'')"

definition dependency_ok :: "pyval \<Rightarrow> bool" where
  "dependency_ok d \<longleftrightarrow> exact_keys d [''name'', ''result_digest'']
     \<and> nonempty_str (item d ''name'') \<and> digest_val (item d ''result_digest'')"

definition artifacts_of :: "pyval \<Rightarrow> pyval list" where
  "artifacts_of m = items_of (item m ''artifacts'')"

definition dependencies_of :: "pyval \<Rightarrow> pyval list" where
  "dependencies_of m = items_of (item m ''dependencies'')"

text \<open>
  A well-formed manifest: the exact fields of its version, artifacts with distinct names, and for
  version 1 dependencies in strictly ascending order of name with distinct digests.
\<close>

definition manifest_ok :: "pyval \<Rightarrow> bool" where
  "manifest_ok m \<longleftrightarrow>
     exact_keys m (manifest_keys (item m ''spec_version''))
     \<and> (item m ''spec_version'' = result_v0 \<or> item m ''spec_version'' = result_v1)
     \<and> digest_val (item m ''action_digest'') \<and> instant_val (item m ''produced_at'')
     \<and> (item m ''fresh_until'' = PyNone \<or> instant_val (item m ''fresh_until''))
     \<and> nonempty_str (item m ''producer'')
     \<and> is_list (item m ''artifacts'') \<and> list_all artifact_ok (artifacts_of m)
     \<and> distinct (map (\<lambda>a. item a ''name'') (artifacts_of m))
     \<and> (item m ''spec_version'' = result_v1 \<longrightarrow>
          is_list (item m ''dependencies'') \<and> list_all dependency_ok (dependencies_of m)
          \<and> sorted_wrt (<) (map (\<lambda>d. str_of (item d ''name'')) (dependencies_of m))
          \<and> distinct (map (\<lambda>d. item d ''result_digest'') (dependencies_of m)))
     \<and> ok (canonical_json m)"

lemma validate_artifact_iff:
  "validate_artifact names a = Inr () \<longleftrightarrow> artifact_ok a \<and> item a ''name'' \<notin> names"
  by (auto simp: validate_artifact_def artifact_ok_def checks)

lemma notin_image: "n \<notin> f ` A \<longleftrightarrow> (\<forall>x \<in> A. f x \<noteq> n)"
  by auto

lemma validate_artifacts_iff:
  "validate_artifacts names as = Inr () \<longleftrightarrow>
     list_all artifact_ok as \<and> distinct (map (\<lambda>a. item a ''name'') as)
     \<and> (\<forall>a \<in> set as. item a ''name'' \<notin> names)"
  by (induction names as rule: validate_artifacts.induct) (simp_all add: checks validate_artifact_iff notin_image ball_conj_distrib, argo?)

lemma validate_dependency_iff:
  "validate_dependency names digests previous d = Inr () \<longleftrightarrow>
     dependency_ok d \<and> item d ''name'' \<notin> names \<and> item d ''result_digest'' \<notin> digests
     \<and> (case previous of None \<Rightarrow> True | Some p \<Rightarrow> p < str_of (item d ''name''))"
  by (auto simp: validate_dependency_def dependency_ok_def checks)

text \<open>
  The loop compares each name with the previous one only; since the names seen so far are all
  at most the previous one, this is the same as strict sortedness, and the test for repeated
  names never decides anything that the order does not.
\<close>

lemma validate_dependencies_iff:
  assumes "\<forall>n \<in> names. is_str n \<and> (\<exists>p. previous = Some p \<and> str_of n \<le> p)"
  shows "validate_dependencies names digests previous ds = Inr () \<longleftrightarrow>
     list_all dependency_ok ds \<and> sorted_wrt (<) (map (\<lambda>d. str_of (item d ''name'')) ds)
     \<and> (\<forall>d \<in> set ds. case previous of None \<Rightarrow> True | Some p \<Rightarrow> p < str_of (item d ''name''))
     \<and> distinct (map (\<lambda>d. item d ''result_digest'') ds) \<and> (\<forall>d \<in> set ds. item d ''result_digest'' \<notin> digests)"
  using assms
proof (induction ds arbitrary: names digests previous)
  case Nil
  then show ?case by simp
next
  case (Cons d ds)
  let ?n = "str_of (item d ''name'')"
  have step: "validate_dependencies (insert (item d ''name'') names) (insert (item d ''result_digest'') digests) (Some ?n) ds = Inr ()
     \<longleftrightarrow> list_all dependency_ok ds \<and> sorted_wrt (<) (map (\<lambda>d. str_of (item d ''name'')) ds)
       \<and> (\<forall>e \<in> set ds. ?n < str_of (item e ''name'')) \<and> distinct (map (\<lambda>d. item d ''result_digest'') ds)
       \<and> (\<forall>e \<in> set ds. item e ''result_digest'' \<notin> insert (item d ''result_digest'') digests)"
    if "dependency_ok d" "case previous of None \<Rightarrow> True | Some p \<Rightarrow> p < ?n"
  proof -
    have "\<forall>n \<in> insert (item d ''name'') names. is_str n \<and> (\<exists>p. Some ?n = Some p \<and> str_of n \<le> p)"
      using Cons.prems that by (auto simp: dependency_ok_def nonempty_str_def)
    from Cons.IH [OF this] show ?thesis by simp
  qed
  have new: "item d ''name'' \<notin> names" if "case previous of None \<Rightarrow> True | Some p \<Rightarrow> p < ?n"
    using Cons.prems that by (cases previous) auto
  have up: "(\<forall>e \<in> set (d # ds). case previous of None \<Rightarrow> True | Some p \<Rightarrow> p < str_of (item e ''name''))
     \<longleftrightarrow> (case previous of None \<Rightarrow> True | Some p \<Rightarrow> p < ?n)" if "\<forall>e \<in> set ds. ?n < str_of (item e ''name'')"
    using that by (cases previous) auto
  show ?case
  proof (cases "dependency_ok d \<and> (case previous of None \<Rightarrow> True | Some p \<Rightarrow> p < ?n)")
    case True
    then show ?thesis
      using step new up by (simp add: checks validate_dependency_iff notin_image ball_conj_distrib) argo
  next
    case False
    then show ?thesis by (auto simp: checks validate_dependency_iff)
  qed
qed

lemma result_versions [simp]: "result_v0 \<noteq> result_v1" "result_v1 \<noteq> result_v0"
  "hashable result_v0" "hashable result_v1" "is_str result_v0" "is_str result_v1"
  by (simp_all add: result_v0_def result_v1_def)

lemma validate_manifest_iff: "validate_manifest m = Inr () \<longleftrightarrow> manifest_ok m"
proof (cases "is_dict m")
  case True
  then show ?thesis
    unfolding validate_manifest_def manifest_ok_def artifacts_of_def dependencies_of_def Let_def
    by (auto simp: checks validate_artifacts_iff validate_dependencies_iff simp del: distinct_map)
next
  case False
  then show ?thesis
    by (auto simp: validate_manifest_def manifest_ok_def exact_keys_def checks)
qed

definition invalidation_ok :: "pyval \<Rightarrow> bool" where
  "invalidation_ok r \<longleftrightarrow>
     exact_keys r [''spec_version'', ''result_digest'', ''invalidated_at'', ''producer'', ''reason'']
     \<and> item r ''spec_version'' = S ''oncemesh.invalidation/v0'' \<and> digest_val (item r ''result_digest'')
     \<and> instant_val (item r ''invalidated_at'') \<and> nonempty_str (item r ''producer'')
     \<and> nonempty_str (item r ''reason'') \<and> ok (canonical_json r)"

lemma validate_invalidation_iff: "validate_invalidation r = Inr () \<longleftrightarrow> invalidation_ok r"
  by (auto simp: validate_invalidation_def invalidation_ok_def checks)

definition method_ok :: "pyval \<Rightarrow> bool" where
  "method_ok m \<longleftrightarrow> exact_keys m [''name'', ''version'', ''status'', ''etag'', ''last_modified'']
     \<and> item m ''name'' = S ''http.conditional'' \<and> item m ''version'' = S ''1'' \<and> item m ''status'' = PyInt 304
     \<and> null_or_nonempty (item m ''etag'') \<and> null_or_nonempty (item m ''last_modified'')
     \<and> \<not> (item m ''etag'' = PyNone \<and> item m ''last_modified'' = PyNone)"

definition source_validation_ok :: "pyval \<Rightarrow> bool" where
  "source_validation_ok r \<longleftrightarrow>
     exact_keys r [''spec_version'', ''result_digest'', ''validated_at'', ''fresh_until'', ''producer'', ''method'']
     \<and> item r ''spec_version'' = S ''oncemesh.validation/v0'' \<and> digest_val (item r ''result_digest'')
     \<and> instant_val (item r ''validated_at'') \<and> instant_val (item r ''fresh_until'')
     \<and> instant_of (item r ''validated_at'') \<le> instant_of (item r ''fresh_until'')
     \<and> nonempty_str (item r ''producer'') \<and> method_ok (item r ''method'') \<and> ok (canonical_json r)"

lemma validate_source_validation_iff: "validate_source_validation r = Inr () \<longleftrightarrow> source_validation_ok r"
  by (auto simp: validate_source_validation_def source_validation_ok_def validate_method_def method_ok_def checks)

section \<open>What a digest identifies\<close>

lemma object_digest_Inr: "object_digest v = Inr d \<longleftrightarrow> (\<exists>b. canonical_json v = Inr b \<and> d = digest_bytes b)"
  by (auto simp: object_digest_def rbind_Inr)

lemma object_digest_is_digest: "object_digest v = Inr d \<Longrightarrow> is_digest d"
  by (auto simp: object_digest_Inr)

text \<open>Two documents with one digest are the same document, or their canonical bytes collide.\<close>

lemma object_digest_inj:
  assumes "wf_val v" "wf_val w" "object_digest v = Inr d" "object_digest w = Inr d"
  shows "norm v = norm w \<or> (\<exists>a b. canonical_json v = Inr a \<and> canonical_json w = Inr b \<and> collision a b)"
proof -
  obtain a b where ab: "canonical_json v = Inr a" "canonical_json w = Inr b" "digest_bytes a = digest_bytes b"
    using assms(3,4) by (auto simp: object_digest_Inr)
  show ?thesis
    using digest_bytes_inj [OF ab(3)] canonical_json_inj [OF assms(1,2)] ab by blast
qed

lemma validators_canonical:
  "validate_action v = Inr () \<Longrightarrow> ok (canonical_json v)"
  "validate_manifest v = Inr () \<Longrightarrow> ok (canonical_json v)"
  "validate_source_validation v = Inr () \<Longrightarrow> ok (canonical_json v)"
  "validate_invalidation v = Inr () \<Longrightarrow> ok (canonical_json v)"
  by (simp_all add: validate_action_def checks validate_manifest_iff manifest_ok_def
      validate_source_validation_iff source_validation_ok_def validate_invalidation_iff invalidation_ok_def)

lemma object_digest_ok: "ok (canonical_json v) \<Longrightarrow> \<exists>d. object_digest v = Inr d"
  by (auto simp: ok_iff object_digest_def)

lemma manifest_digest_ok: "manifest_ok m \<Longrightarrow> \<exists>d. manifest_digest m = Inr d \<and> is_digest d"
  using object_digest_ok [of m] object_digest_is_digest
  by (auto simp: manifest_digest_def seq_Inr validate_manifest_iff manifest_ok_def)

lemma manifest_digest_Inr: "manifest_digest m = Inr d \<longleftrightarrow> manifest_ok m \<and> object_digest m = Inr d"
  by (simp add: manifest_digest_def seq_Inr validate_manifest_iff)

section \<open>Documents with a field replaced\<close>

lemma keys_with_item [simp]: "keys (with_item d k v) = insert (S k) (keys d)"
  by (simp add: keys_def with_item_def keys_al_set)

lemma exact_keys_with_item: "exact_keys d ks \<Longrightarrow> k \<in> set ks \<Longrightarrow> exact_keys (with_item d k v) ks"
  by (auto simp: exact_keys_def)

lemma exact_keys_item: "exact_keys d ks \<Longrightarrow> k \<in> set ks \<Longrightarrow> al_get (pairs_of d) (S k) = Some (item d k)"
proof -
  assume "exact_keys d ks" "k \<in> set ks"
  then have "S k \<in> set (map fst (pairs_of d))" by (auto simp: exact_keys_def keys_def)
  then have "al_get (pairs_of d) (S k) \<noteq> None" by (simp only: al_get_None not_not)
  then show ?thesis by (auto simp: item_def)
qed

lemma with_item_same: "exact_keys d ks \<Longrightarrow> k \<in> set ks \<Longrightarrow> with_item d k (item d k) = d"
  using al_set_same [OF exact_keys_item, of d ks k] by (cases d) (simp_all add: with_item_def exact_keys_def)

lemma jsonable_with_item:
  assumes "jsonable d" "is_dict d" "jsonable v"
  shows "jsonable (with_item d k v)"
proof -
  obtain kvs where d: "d = PyDict kvs" using assms(2) by (cases d) auto
  have sub: "set (al_set kvs (S k) v) \<subseteq> insert (S k, v) (set kvs)" for kvs
    by (induction kvs "S k" v rule: al_set.induct) auto
  show ?thesis
    using assms sub [of kvs] by (auto simp: d with_item_def jsonable_simps distinct_al_set)
qed

lemma canonical_ok: "wf_val v \<Longrightarrow> ok (canonical_json v) \<longleftrightarrow> jsonable v"
  by (auto simp: ok_iff canonical_json_Inr)

lemma exact_keys_obj: "exact_keys (obj kvs) ks \<longleftrightarrow> set (map fst kvs) = set ks"
proof -
  have "keys (obj kvs) = (\<lambda>k. S k) ` set (map fst kvs)" by (force simp: keys_def)
  moreover have "inj (\<lambda>k. S k)" by (rule injI) simp
  ultimately show ?thesis unfolding exact_keys_def is_dict.simps set_map [of "\<lambda>k. S k"]
    by (simp only: inj_image_eq_iff simp_thms)
qed

end
