(* ===== verification/Codecs.thy ===== *)
theory Codecs
  imports Canonical
begin

text \<open>
  Unpadded base64url (\<open>urlsafe_b64encode(...).rstrip(b"=")\<close> and its strict decoding) and
  four-byte big-endian lengths, with their round trips. \<open>decode_canonical\<close> is the pattern
  match, decoding and re-encoding that \<open>receipt._decode_signature\<close>,
  \<open>key_registry._decode_public_key\<close> and the federation codecs share.
\<close>

text \<open>An ASCII byte-string literal.\<close>

definition ascii :: "string \<Rightarrow> bytes" where
  "ascii s = map (\<lambda>c. byte (of_char c)) s"

section \<open>base64url\<close>

definition b64_char :: "int \<Rightarrow> int" where
  "b64_char n =
     (if n < 26 then 65 + n else if n < 52 then 71 + n else if n < 62 then n - 4
      else if n = 62 then 45 else 95)"

definition b64_val :: "int \<Rightarrow> int option" where
  "b64_val c =
     (if 65 \<le> c \<and> c \<le> 90 then Some (c - 65)
      else if 97 \<le> c \<and> c \<le> 122 then Some (c - 71)
      else if 48 \<le> c \<and> c \<le> 57 then Some (c + 4)
      else if c = 45 then Some 62 else if c = 95 then Some 63 else None)"

definition is_b64 :: "int \<Rightarrow> bool" where
  "is_b64 c \<longleftrightarrow> b64_val c \<noteq> None"

fun b64_encode :: "bytes \<Rightarrow> pystr" where
  "b64_encode [] = []"
| "b64_encode [a] = [b64_char (uint a div 4), b64_char (uint a mod 4 * 16)]"
| "b64_encode [a, b] =
     [b64_char (uint a div 4), b64_char (uint a mod 4 * 16 + uint b div 16), b64_char (uint b mod 16 * 4)]"
| "b64_encode (a # b # c # r) =
     b64_char (uint a div 4) # b64_char (uint a mod 4 * 16 + uint b div 16)
     # b64_char (uint b mod 16 * 4 + uint c div 64) # b64_char (uint c mod 64) # b64_encode r"

text \<open>Decoding with the padding the caller appends; spare low bits are dropped.\<close>

fun b64_groups :: "int list \<Rightarrow> bytes option" where
  "b64_groups [] = Some []"
| "b64_groups [w] = None"
| "b64_groups [w, x] = Some [byte (w * 4 + x div 16)]"
| "b64_groups [w, x, y] = Some [byte (w * 4 + x div 16), byte (x mod 16 * 16 + y div 4)]"
| "b64_groups (w # x # y # z # r) =
     map_option (\<lambda>t. byte (w * 4 + x div 16) # byte (x mod 16 * 16 + y div 4) # byte (y mod 4 * 64 + z) # t)
       (b64_groups r)"

definition b64_decode :: "pystr \<Rightarrow> bytes option" where
  "b64_decode s = (if list_all is_b64 s then b64_groups (map (\<lambda>c. the (b64_val c)) s) else None)"

lemma b64_val_char [simp]: "0 \<le> n \<Longrightarrow> n < 64 \<Longrightarrow> b64_val (b64_char n) = Some n"
  by (auto simp: b64_val_def b64_char_def)

lemma is_b64_char [simp]: "0 \<le> n \<Longrightarrow> n < 64 \<Longrightarrow> is_b64 (b64_char n)"
  by (simp add: is_b64_def)

lemma byte_parts:
  fixes a :: "8 word"
  shows "0 \<le> uint a div 4" "uint a div 4 < 64" "0 \<le> uint a mod 4" "uint a mod 4 < 4"
    "0 \<le> uint a div 64" "uint a div 64 < 4" "0 \<le> uint a mod 64" "uint a mod 64 < 64"
    "uint a div 4 * 4 + uint a mod 4 = uint a" "uint a div 16 * 16 + uint a mod 16 = uint a"
    "uint a div 64 * 64 + uint a mod 64 = uint a"
proof -
  have r: "0 \<le> uint a" "uint a < 256" by (rule uint_byte_range)+
  show "0 \<le> uint a div 4" "uint a div 4 < 64" "0 \<le> uint a mod 4" "uint a mod 4 < 4"
    "0 \<le> uint a div 64" "uint a div 64 < 4" "0 \<le> uint a mod 64" "uint a mod 64 < 64"
    using r by linarith+
qed simp_all

lemma b64_group_parts:
  fixes p q k :: int
  assumes "0 \<le> q" "q < k"
  shows "(p * k + q) div k = p" "(p * k + q) mod k = q"
  using assms by simp_all

text \<open>The sextets of an encoding, and the bytes they give back.\<close>

fun sextets :: "bytes \<Rightarrow> int list" where
  "sextets [] = []"
| "sextets [a] = [uint a div 4, uint a mod 4 * 16]"
| "sextets [a, b] = [uint a div 4, uint a mod 4 * 16 + uint b div 16, uint b mod 16 * 4]"
| "sextets (a # b # c # r) =
     uint a div 4 # (uint a mod 4 * 16 + uint b div 16) # (uint b mod 16 * 4 + uint c div 64) # uint c mod 64
     # sextets r"

lemma b64_encode_sextets: "b64_encode bs = map b64_char (sextets bs)"
  by (induction bs rule: b64_encode.induct) simp_all

lemma sextets_range: "\<forall>n \<in> set (sextets bs). 0 \<le> n \<and> n < 64"
proof (induction bs rule: sextets.induct)
  case (2 a)
  then show ?case using byte_parts [of a] by auto
next
  case (3 a b)
  then show ?case using byte_parts [of a] byte_nibbles [of b] by auto
next
  case (4 a b c r)
  have "0 \<le> uint a mod 4 * 16 + uint b div 16" "uint a mod 4 * 16 + uint b div 16 < 64"
    using byte_parts(3,4) [of a] byte_nibbles(1,2) [of b] by linarith+
  moreover have "0 \<le> uint b mod 16 * 4 + uint c div 64" "uint b mod 16 * 4 + uint c div 64 < 64"
    using byte_nibbles(3,4) [of b] byte_parts(5,6) [of c] by linarith+
  moreover note byte_parts(1,2) [of a] byte_parts(7,8) [of c]
  ultimately show ?case unfolding sextets.simps list.set using 4 by blast
qed simp

lemma first_byte:
  fixes a b :: "8 word"
  shows "byte (uint a div 4 * 4 + (uint a mod 4 * 16 + uint b div 16) div 16) = a"
  using b64_group_parts(1) [OF byte_nibbles(1,2) [of b], of "uint a mod 4"] byte_parts(9) [of a] by simp

lemma second_byte:
  fixes a b c :: "8 word"
  shows "byte ((uint a mod 4 * 16 + uint b div 16) mod 16 * 16 + (uint b mod 16 * 4 + uint c div 64) div 4) = b"
  using b64_group_parts(2) [OF byte_nibbles(1,2) [of b], of "uint a mod 4"]
    b64_group_parts(1) [OF byte_parts(5,6) [of c], of "uint b mod 16"] byte_parts(10) [of b] by simp

lemma third_byte:
  fixes b c :: "8 word"
  shows "byte ((uint b mod 16 * 4 + uint c div 64) mod 4 * 64 + uint c mod 64) = c"
  using b64_group_parts(2) [OF byte_parts(5,6) [of c], of "uint b mod 16"] byte_parts(11) [of c] by simp

lemma b64_groups_sextets: "b64_groups (sextets bs) = Some bs"
proof (induction bs rule: sextets.induct)
  case (2 a)
  then show ?case using first_byte [of a 0] by simp
next
  case (3 a b)
  then show ?case using first_byte [of a b] second_byte [of a b 0] by simp
next
  case (4 a b c r)
  then show ?case using first_byte [of a b] second_byte [of a b c] third_byte [of b c] by simp
qed simp

lemma b64_chars: "list_all is_b64 (b64_encode bs)"
  using sextets_range [of bs] by (auto simp: b64_encode_sextets list_all_iff)

lemma b64_round_trip [simp]: "b64_decode (b64_encode bs) = Some bs"
proof -
  have "map (\<lambda>c. the (b64_val c)) (map b64_char (sextets bs)) = sextets bs"
    using sextets_range [of bs] by (intro trans [OF map_map] map_idI) simp
  then show ?thesis
    using b64_groups_sextets [of bs] b64_chars [of bs] by (simp add: b64_decode_def b64_encode_sextets)
qed

lemma length_b64_encode: "length (b64_encode bs) = (4 * length bs + 2) div 3"
  by (induction bs rule: b64_encode.induct) simp_all

text \<open>
  \<open>decode_canonical chars n v\<close>: \<open>v\<close> is a string of \<open>chars\<close> base64url characters that is the
  encoding of exactly \<open>n\<close> bytes.
\<close>

definition decode_canonical :: "nat \<Rightarrow> nat \<Rightarrow> pystr \<Rightarrow> bytes option" where
  "decode_canonical chars n v =
     (if length v = chars \<and> list_all is_b64 v then
        (case b64_decode v of
           None \<Rightarrow> None
         | Some decoded \<Rightarrow> if length decoded \<noteq> n \<or> b64_encode decoded \<noteq> v then None else Some decoded)
      else None)"

lemma decode_canonical_encode:
  "length bs = n \<Longrightarrow> chars = (4 * n + 2) div 3 \<Longrightarrow> decode_canonical chars n (b64_encode bs) = Some bs"
  by (simp add: decode_canonical_def length_b64_encode b64_chars)

lemma decode_canonical_unique:
  "decode_canonical chars n v = Some bs \<Longrightarrow> v = b64_encode bs \<and> length bs = n"
  by (auto simp: decode_canonical_def split: if_splits option.splits)

section \<open>Four-byte big-endian lengths\<close>

definition be32 :: "int \<Rightarrow> bytes" where
  "be32 n = [byte (n div 16777216), byte (n div 65536 mod 256), byte (n div 256 mod 256), byte (n mod 256)]"

definition of_be :: "bytes \<Rightarrow> int" where
  "of_be bs = foldl (\<lambda>n b. 256 * n + uint b) 0 bs"

text \<open>\<open>n.to_bytes(4, "big")\<close> raises when the number does not fit.\<close>

definition to_be32 :: "int \<Rightarrow> bytes result" where
  "to_be32 n = (if 0 \<le> n \<and> n < 4294967296 then Inr (be32 n) else Inl OverflowError)"

lemma length_be32 [simp]: "length (be32 n) = 4"
  by (simp add: be32_def)

lemma of_be32:
  assumes "0 \<le> n" "n < 4294967296"
  shows "of_be (be32 n) = n"
proof -
  have r: "0 \<le> n div 16777216" "n div 16777216 < 256" using assms by linarith+
  have "n div 16777216 = n div 256 div 256 div 256" "n div 65536 = n div 256 div 256"
    by (simp_all add: zdiv_zmult2_eq [symmetric])
  then have "256 * (n div 16777216) + n div 65536 mod 256 = n div 65536"
    "256 * (n div 65536) + n div 256 mod 256 = n div 256" by simp_all
  then have "256 * (256 * (256 * (n div 16777216) + n div 65536 mod 256) + n div 256 mod 256) + n mod 256 = n"
    by (simp only: mult_div_mod_eq)
  moreover have "of_be (be32 n)
      = 256 * (256 * (256 * (n div 16777216) + n div 65536 mod 256) + n div 256 mod 256) + n mod 256"
    using r by (simp add: of_be_def be32_def)
  ultimately show ?thesis by (simp only:)
qed

end
