(* ===== verification/Receipt.thy ===== *)
theory Receipt
  imports Codecs
begin

text \<open>
  Production receipts (\<open>receipt.py\<close>): validation, the signing input, signing and verification.
  Ed25519 belongs to the \<open>cryptography\<close> package and is a parameter; \<open>ed25519_ok\<close> states what
  its documentation promises about key and signature sizes and about verifying one's own
  signature.
\<close>

section \<open>The signature scheme\<close>

record ed25519 =
  ed_public :: "bytes \<Rightarrow> bytes"
  ed_sign :: "bytes \<Rightarrow> bytes \<Rightarrow> bytes"
  ed_verify :: "bytes \<Rightarrow> bytes \<Rightarrow> bytes \<Rightarrow> bool"

definition ed25519_ok :: "ed25519 \<Rightarrow> bool" where
  "ed25519_ok E \<longleftrightarrow>
     (\<forall>seed. length seed = 32 \<longrightarrow> length (ed_public E seed) = 32 \<and>
        (\<forall>m. length (ed_sign E seed m) = 64 \<and> ed_verify E (ed_public E seed) (ed_sign E seed m) m))"

text \<open>A transparent scheme with these sizes, for the witnesses.\<close>

definition plain_scheme :: ed25519 where
  "plain_scheme =
     \<lparr>ed_public = (\<lambda>seed. seed), ed_sign = (\<lambda>seed m. seed @ sha256 m),
      ed_verify = (\<lambda>public sig m. sig = public @ sha256 m)\<rparr>"

lemma plain_scheme_ok: "ed25519_ok plain_scheme"
  by (simp add: ed25519_ok_def plain_scheme_def)

section \<open>Validation\<close>

definition signature_profile :: pyval where
  "signature_profile = S ''oncemesh.ed25519/v1''"

definition receipt_domain :: bytes where
  "receipt_domain = ascii ''OnceMesh receipt signature v1'' @ [0]"

definition receipt_exact_keys :: "pyval \<Rightarrow> string list \<Rightarrow> string \<Rightarrow> unit result" where
  "receipt_exact_keys v expected label =
     guard (exact_keys v expected) (ValueError (''invalid '' @ label @ '' fields''))"

definition encode_signature :: "bytes \<Rightarrow> pystr" where
  "encode_signature bs = b64_encode bs"

definition decode_signature :: "pystr \<Rightarrow> bytes result" where
  "decode_signature v =
     (case b64_decode v of
        None \<Rightarrow> Inl (ValueError ''receipt signature value is invalid base64url'')
      | Some decoded \<Rightarrow>
          if length decoded \<noteq> 64 \<or> encode_signature decoded \<noteq> v
          then Inl (ValueError ''receipt signature must be canonical encoding of 64 bytes'') else Inr decoded)"

definition validate_signature :: "pyval \<Rightarrow> unit result" where
  "validate_signature signature =
     first_error
       [receipt_exact_keys signature [''profile'', ''key_id'', ''value''] ''receipt signature'',
        guard (item signature ''profile'' = signature_profile) (ValueError ''unsupported receipt signature profile''),
        guard (digest_val (item signature ''key_id'')) (ValueError ''receipt signature key_id is invalid''),
        guard (is_str (item signature ''value'') \<and> length (str_of (item signature ''value'')) = 86
               \<and> list_all is_b64 (str_of (item signature ''value'')))
          (ValueError ''receipt signature value is not canonical base64url''),
        discard (decode_signature (str_of (item signature ''value'')))]"

definition validate_receipt :: "bool \<Rightarrow> pyval \<Rightarrow> unit result" where
  "validate_receipt require_signature receipt =
     first_error
       [receipt_exact_keys receipt
          [''spec_version'', ''result_digest'', ''producer'', ''executor_environment'', ''signature''] ''receipt'',
        guard (item receipt ''spec_version'' = S ''oncemesh.receipt/v0'') (ValueError ''unsupported receipt spec_version''),
        guard (digest_val (item receipt ''result_digest'')) (ValueError ''receipt result_digest is invalid''),
        guard (nonempty_str (item receipt ''producer'')) (ValueError ''receipt producer must be a non-empty string''),
        guard (is_dict (item receipt ''executor_environment'')) (ValueError ''executor_environment must be an object''),
        (if item receipt ''signature'' = PyNone
         then guard (\<not> require_signature) (ValueError ''receipt signature is required'')
         else validate_signature (item receipt ''signature'')),
        discard (canonical_json receipt)]"

definition receipt_digest :: "pyval \<Rightarrow> pystr result" where
  "receipt_digest receipt = seq (validate_receipt False receipt) (object_digest receipt)"

section \<open>Signing and verification\<close>

definition receipt_signing_input :: "pyval \<Rightarrow> bytes result" where
  "receipt_signing_input receipt =
     (let unsigned = with_item receipt ''signature'' PyNone
      in seq (validate_receipt False unsigned)
           (rbind (canonical_json unsigned) (\<lambda>b. Inr (receipt_domain @ b))))"

definition raw_public_key :: "ed25519 \<Rightarrow> bytes \<Rightarrow> bytes result" where
  "raw_public_key E private_key =
     (if length private_key \<noteq> 32
      then Inl (ValueError ''Ed25519 private key seed must contain exactly 32 bytes'')
      else Inr (ed_public E private_key))"

definition signature_document :: "bytes \<Rightarrow> bytes \<Rightarrow> pyval" where
  "signature_document public_key signature =
     obj [(''profile'', signature_profile), (''key_id'', PyStr (digest_bytes public_key)),
          (''value'', PyStr (encode_signature signature))]"

definition sign_receipt :: "ed25519 \<Rightarrow> pyval \<Rightarrow> bytes \<Rightarrow> pyval result" where
  "sign_receipt E receipt private_key =
     seq (guard (item receipt ''signature'' = PyNone) (ValueError ''only an unsigned receipt can be signed''))
     (seq (validate_receipt False receipt)
     (seq (guard (length private_key = 32) (ValueError ''Ed25519 private key seed must contain exactly 32 bytes''))
     (rbind (receipt_signing_input receipt) (\<lambda>message.
        let receipt' = with_item receipt ''signature''
              (signature_document (ed_public E private_key) (ed_sign E private_key message))
        in seq (validate_receipt True receipt') (Inr receipt')))))"

definition verify_receipt :: "ed25519 \<Rightarrow> pyval \<Rightarrow> bytes \<Rightarrow> bool result" where
  "verify_receipt E receipt public_key =
     seq (validate_receipt True receipt)
     (seq (guard (length public_key = 32) (ValueError ''Ed25519 public key must contain exactly 32 bytes''))
     (let signature = item receipt ''signature''
      in if item signature ''key_id'' \<noteq> PyStr (digest_bytes public_key) then Inr False
         else rbind (decode_signature (str_of (item signature ''value''))) (\<lambda>sig.
              rbind (receipt_signing_input receipt) (\<lambda>message.
                Inr (ed_verify E public_key sig message)))))"

definition verify_receipt_for_manifest :: "ed25519 \<Rightarrow> pyval \<Rightarrow> pyval \<Rightarrow> bytes \<Rightarrow> bool result" where
  "verify_receipt_for_manifest E receipt manifest public_key =
     seq (validate_manifest manifest)
     (seq (validate_receipt True receipt)
     (rbind (manifest_digest manifest) (\<lambda>d.
        if item receipt ''result_digest'' \<noteq> PyStr d then Inr False
        else if item receipt ''producer'' \<noteq> item manifest ''producer'' then Inr False
        else verify_receipt E receipt public_key)))"

section \<open>What passing the validator means\<close>

definition signature_ok :: "pyval \<Rightarrow> bool" where
  "signature_ok s \<longleftrightarrow> exact_keys s [''profile'', ''key_id'', ''value''] \<and> item s ''profile'' = signature_profile
     \<and> digest_val (item s ''key_id'')
     \<and> (\<exists>bs. item s ''value'' = PyStr (b64_encode bs) \<and> length bs = 64)"

definition receipt_ok :: "bool \<Rightarrow> pyval \<Rightarrow> bool" where
  "receipt_ok req r \<longleftrightarrow>
     exact_keys r [''spec_version'', ''result_digest'', ''producer'', ''executor_environment'', ''signature'']
     \<and> item r ''spec_version'' = S ''oncemesh.receipt/v0'' \<and> digest_val (item r ''result_digest'')
     \<and> nonempty_str (item r ''producer'') \<and> is_dict (item r ''executor_environment'')
     \<and> (if item r ''signature'' = PyNone then \<not> req else signature_ok (item r ''signature''))
     \<and> ok (canonical_json r)"

lemma decode_signature_Inr: "decode_signature v = Inr bs \<longleftrightarrow> v = b64_encode bs \<and> length bs = 64"
  by (auto simp: decode_signature_def encode_signature_def split: option.splits)

lemma validate_signature_iff: "validate_signature s = Inr () \<longleftrightarrow> signature_ok s"
proof
  assume "validate_signature s = Inr ()"
  then show "signature_ok s"
    by (auto simp: validate_signature_def signature_ok_def receipt_exact_keys_def checks ok_iff decode_signature_Inr
        elim!: is_strE)
next
  assume "signature_ok s"
  then show "validate_signature s = Inr ()"
    by (auto simp: validate_signature_def signature_ok_def receipt_exact_keys_def checks ok_iff decode_signature_Inr
        length_b64_encode b64_chars)
qed

lemma validate_receipt_iff: "validate_receipt b r = Inr () \<longleftrightarrow> receipt_ok b r"
  by (auto simp: validate_receipt_def receipt_ok_def receipt_exact_keys_def checks validate_signature_iff)

section \<open>Signatures round trip\<close>

text \<open>Any signed receipt has the signing input of the receipt it was made from.\<close>

lemma receipt_signing_input_with [simp]:
  "receipt_signing_input (with_item r ''signature'' v) = receipt_signing_input r"
  by (simp add: receipt_signing_input_def Let_def)

lemma receipt_signing_input_unsigned:
  assumes "receipt_ok b r" "item r ''signature'' = PyNone"
  shows "with_item r ''signature'' PyNone = r"
proof -
  have "exact_keys r [''spec_version'', ''result_digest'', ''producer'', ''executor_environment'', ''signature'']"
    using assms(1) by (simp add: receipt_ok_def)
  from with_item_same [OF this, of "''signature''"] show ?thesis using assms(2) by simp
qed

lemma signature_document_ok:
  assumes "length sig = 64" "length public_key = 32"
  shows "signature_ok (signature_document public_key sig)" "jsonable (signature_document public_key sig)"
proof -
  have b64: "list_all scalar (b64_encode bs)" for bs
    using b64_chars [of bs]
    by (auto simp: list_all_iff is_b64_def b64_val_def scalar_def code_point_def surrogate_def split: if_splits)
  have dig: "list_all scalar (digest_bytes bs)" for bs
    using hex_is_hex [of "sha256 bs"] scalar_u [of "''sha256:''"]
    by (auto simp: digest_bytes_def list_all_iff is_hex_def scalar_def code_point_def surrogate_def)
  show "signature_ok (signature_document public_key sig)"
    using assms exact_keys_obj [of "[(''profile'', signature_profile), (''key_id'', PyStr (digest_bytes public_key)),
        (''value'', PyStr (encode_signature sig))]" "[''profile'', ''key_id'', ''value'']"]
    by (simp add: signature_ok_def signature_document_def encode_signature_def digest_val_def) blast
  show "jsonable (signature_document public_key sig)"
    using b64 dig by (simp add: signature_document_def jsonable_simps signature_profile_def encode_signature_def)
qed

lemma receipt_ok_signed:
  assumes "wf_val r" "receipt_ok b r" "signature_ok v" "jsonable v"
  shows "receipt_ok True (with_item r ''signature'' v)"
proof -
  have "jsonable r" "is_dict r" using assms(1,2) by (auto simp: receipt_ok_def canonical_ok exact_keys_def)
  then have "jsonable (with_item r ''signature'' v)" by (rule jsonable_with_item) (fact assms(4))
  then have "ok (canonical_json (with_item r ''signature'' v))" by (simp add: canonical_json_jsonable)
  moreover have "is_dict v" using assms(3) by (simp only: signature_ok_def exact_keys_def)
  then have "v \<noteq> PyNone" by (cases v) simp_all
  moreover have "exact_keys (with_item r ''signature'' v)
      [''spec_version'', ''result_digest'', ''producer'', ''executor_environment'', ''signature'']"
    using assms(2) by (intro exact_keys_with_item) (simp_all add: receipt_ok_def)
  ultimately show ?thesis using assms(2,3) unfolding receipt_ok_def item_with_item by simp
qed

lemma sign_receipt_Inr:
  assumes "sign_receipt E r seed = Inr s"
  shows "item r ''signature'' = PyNone" "receipt_ok False r" "length seed = 32" "receipt_ok True s"
    "\<exists>m. receipt_signing_input r = Inr m
       \<and> s = with_item r ''signature'' (signature_document (ed_public E seed) (ed_sign E seed m))"
  using assms by (auto simp: sign_receipt_def checks Let_def validate_receipt_iff)

lemma receipt_signing_input_ok: "receipt_ok b r \<Longrightarrow> item r ''signature'' = PyNone \<Longrightarrow>
   \<exists>c. canonical_json r = Inr c \<and> receipt_signing_input r = Inr (receipt_domain @ c)"
proof -
  assume a: "receipt_ok b r" "item r ''signature'' = PyNone"
  then obtain c where "canonical_json r = Inr c" by (auto simp: receipt_ok_def ok_iff)
  moreover have "validate_receipt False r = Inr ()" using a by (auto simp: validate_receipt_iff receipt_ok_def)
  ultimately show ?thesis
    by (simp add: receipt_signing_input_def Let_def receipt_signing_input_unsigned [OF a])
qed

lemma sign_receipt_ok:
  assumes "ed25519_ok E" "wf_val r" "receipt_ok False r" "item r ''signature'' = PyNone" "length seed = 32"
  shows "\<exists>s. sign_receipt E r seed = Inr s"
proof -
  obtain m where m: "receipt_signing_input r = Inr m" using receipt_signing_input_ok [OF assms(3,4)] by blast
  have len: "length (ed_sign E seed m) = 64" "length (ed_public E seed) = 32"
    using assms(1,5) by (auto simp: ed25519_ok_def)
  from receipt_ok_signed [OF assms(2,3) signature_document_ok [OF this]]
  have "receipt_ok True (with_item r ''signature'' (signature_document (ed_public E seed) (ed_sign E seed m)))" .
  then have "validate_receipt True (with_item r ''signature'' (signature_document (ed_public E seed) (ed_sign E seed m))) = Inr ()"
    "validate_receipt False r = Inr ()" using assms(3) by (simp_all only: validate_receipt_iff)
  then show ?thesis using assms(4,5) m by (simp add: sign_receipt_def Let_def guard_def)
qed

text \<open>What \<open>sign_receipt\<close> returns, \<open>verify_receipt\<close> accepts under the signer's public key.\<close>

lemma verify_signed:
  assumes "ed25519_ok E" "sign_receipt E r seed = Inr s"
  shows "verify_receipt E s (ed_public E seed) = Inr True"
proof -
  note s = sign_receipt_Inr [OF assms(2)]
  obtain m where m: "receipt_signing_input r = Inr m"
    and sd: "s = with_item r ''signature'' (signature_document (ed_public E seed) (ed_sign E seed m))"
    using s(5) by blast
  have E: "length (ed_public E seed) = 32" "length (ed_sign E seed m) = 64"
    "ed_verify E (ed_public E seed) (ed_sign E seed m) m"
    using assms(1) s(3) by (auto simp: ed25519_ok_def)
  have "decode_signature (b64_encode (ed_sign E seed m)) = Inr (ed_sign E seed m)"
    using E(2) by (simp add: decode_signature_Inr)
  moreover have "validate_receipt True s = Inr ()" using s(4) by (simp only: validate_receipt_iff)
  moreover have "item s ''signature'' = signature_document (ed_public E seed) (ed_sign E seed m)"
    "receipt_signing_input s = Inr m" using m by (simp_all add: sd)
  ultimately show ?thesis
    using E by (simp add: verify_receipt_def Let_def guard_def signature_document_def encode_signature_def)
qed

text \<open>
  Acceptance fixes what was signed: the scheme verified, under this very key, the domain-separated
  canonical bytes of the receipt with its signature removed.
\<close>

lemma verify_receipt_True:
  assumes "verify_receipt E r pk = Inr True"
  shows "receipt_ok True r" "length pk = 32" "item (item r ''signature'') ''key_id'' = PyStr (digest_bytes pk)"
    "\<exists>c sig. canonical_json (with_item r ''signature'' PyNone) = Inr c
       \<and> item (item r ''signature'') ''value'' = PyStr (b64_encode sig) \<and> length sig = 64
       \<and> ed_verify E pk sig (receipt_domain @ c)"
proof -
  from assms show r: "receipt_ok True r" "length pk = 32" "item (item r ''signature'') ''key_id'' = PyStr (digest_bytes pk)"
    by (auto simp: verify_receipt_def checks validate_receipt_iff Let_def split: if_splits)
  then obtain sig where sig: "item (item r ''signature'') ''value'' = PyStr (b64_encode sig)" "length sig = 64"
    by (auto simp: receipt_ok_def signature_ok_def split: if_splits)
  from assms r sig obtain m where "receipt_signing_input r = Inr m" "ed_verify E pk sig m"
    by (auto simp: verify_receipt_def checks validate_receipt_iff Let_def decode_signature_Inr)
       (metis b64_round_trip option.inject)
  with sig show "\<exists>c sig. canonical_json (with_item r ''signature'' PyNone) = Inr c
       \<and> item (item r ''signature'') ''value'' = PyStr (b64_encode sig) \<and> length sig = 64
       \<and> ed_verify E pk sig (receipt_domain @ c)"
    by (auto simp: receipt_signing_input_def checks Let_def)
qed

end
