(* ===== verification/Store.thy ===== *)
theory Store
  imports Receipt
begin

text \<open>
  The store interface and \<open>MemoryStore\<close> (\<open>store.py\<close>). Reading and writing are two records of
  operations, \<open>store_view\<close> and \<open>store_ops\<close>; the locale \<open>result_store\<close> states the contract that
  the cache relies on, for results and artifact bytes, and is interpreted here on the memory
  store and in \<open>Fs_Store\<close> on the filesystem store. Copies (\<open>deepcopy\<close>) are identities on values,
  and the lock makes each operation one step.
\<close>

section \<open>The interface\<close>

text \<open>
  What readers see of a store. \<open>result\<close> and \<open>invalidations\<close> are optional because the code probes
  for them with \<open>getattr\<close>.
\<close>

record store_view =
  sv_name :: pystr
  sv_candidates :: "pystr \<Rightarrow> pyval list result"
  sv_result :: "(pystr \<Rightarrow> pyval option result) option"
  sv_validations :: "pystr \<Rightarrow> pyval list result"
  sv_invalidations :: "(pystr \<Rightarrow> pyval list result) option"
  sv_receipts :: "pystr \<Rightarrow> pyval list result"
  sv_get_blob :: "pystr \<Rightarrow> bytes option result"

record 's store_ops =
  so_put_blob :: "'s \<Rightarrow> bytes \<Rightarrow> 's \<times> pystr"
  so_put_result :: "'s \<Rightarrow> pyval \<Rightarrow> 's result"
  so_put_validation :: "'s \<Rightarrow> pyval \<Rightarrow> 's result"
  so_put_invalidation :: "'s \<Rightarrow> pyval \<Rightarrow> 's result"
  so_put_receipt :: "'s \<Rightarrow> pyval \<Rightarrow> 's result"
  so_view :: "'s \<Rightarrow> store_view"

section \<open>\<open>MemoryStore\<close>\<close>

text \<open>The \<open>defaultdict(list)\<close> attributes are total functions with the empty list as default.\<close>

record memory_store =
  ms_name :: pystr
  ms_blobs :: "pystr \<Rightarrow> bytes option"
  ms_results :: "pystr \<Rightarrow> pyval list"
  ms_results_by_digest :: "pystr \<Rightarrow> pyval option"
  ms_validations :: "pystr \<Rightarrow> pyval list"
  ms_invalidations :: "pystr \<Rightarrow> pyval list"
  ms_receipts :: "pystr \<Rightarrow> pyval list"

definition append_at :: "pystr \<Rightarrow> 'a \<Rightarrow> (pystr \<Rightarrow> 'a list) \<Rightarrow> pystr \<Rightarrow> 'a list" where
  "append_at k x f = f(k := f k @ [x])"

definition ms_init :: "pystr \<Rightarrow> memory_store" where
  "ms_init name =
     \<lparr>ms_name = name, ms_blobs = (\<lambda>_. None), ms_results = (\<lambda>_. []), ms_results_by_digest = (\<lambda>_. None),
      ms_validations = (\<lambda>_. []), ms_invalidations = (\<lambda>_. []), ms_receipts = (\<lambda>_. [])\<rparr>"

definition ms_put_blob :: "memory_store \<Rightarrow> bytes \<Rightarrow> memory_store \<times> pystr" where
  "ms_put_blob s data =
     (let digest = digest_bytes data in (s\<lparr>ms_blobs := (ms_blobs s)(digest := Some data)\<rparr>, digest))"

definition ms_get_blob :: "memory_store \<Rightarrow> pystr \<Rightarrow> bytes option result" where
  "ms_get_blob s digest = Inr (ms_blobs s digest)"

definition ms_put_result :: "memory_store \<Rightarrow> pyval \<Rightarrow> memory_store result" where
  "ms_put_result s manifest =
     seq (validate_manifest manifest)
     (rbind (manifest_digest manifest) (\<lambda>digest.
        Inr (s\<lparr>ms_results_by_digest := (ms_results_by_digest s)(digest := Some manifest),
               ms_results := append_at (str_of (item manifest ''action_digest'')) manifest (ms_results s)\<rparr>)))"

definition ms_candidates :: "memory_store \<Rightarrow> pystr \<Rightarrow> pyval list result" where
  "ms_candidates s requested = Inr (rev (ms_results s requested))"

definition ms_result :: "memory_store \<Rightarrow> pystr \<Rightarrow> pyval option result" where
  "ms_result s digest = Inr (ms_results_by_digest s digest)"

definition ms_put_validation :: "memory_store \<Rightarrow> pyval \<Rightarrow> memory_store result" where
  "ms_put_validation s record =
     seq (validate_source_validation record)
       (Inr (s\<lparr>ms_validations := append_at (str_of (item record ''result_digest'')) record (ms_validations s)\<rparr>))"

definition ms_get_validations :: "memory_store \<Rightarrow> pystr \<Rightarrow> pyval list result" where
  "ms_get_validations s digest = Inr (rev (ms_validations s digest))"

definition ms_put_invalidation :: "memory_store \<Rightarrow> pyval \<Rightarrow> memory_store result" where
  "ms_put_invalidation s record =
     seq (validate_invalidation record)
       (Inr (s\<lparr>ms_invalidations := append_at (str_of (item record ''result_digest'')) record (ms_invalidations s)\<rparr>))"

definition ms_get_invalidations :: "memory_store \<Rightarrow> pystr \<Rightarrow> pyval list result" where
  "ms_get_invalidations s digest = Inr (rev (ms_invalidations s digest))"

definition ms_put_receipt :: "memory_store \<Rightarrow> pyval \<Rightarrow> memory_store result" where
  "ms_put_receipt s receipt =
     seq (validate_receipt False receipt)
       (Inr (s\<lparr>ms_receipts := append_at (str_of (item receipt ''result_digest'')) receipt (ms_receipts s)\<rparr>))"

definition ms_get_receipts :: "memory_store \<Rightarrow> pystr \<Rightarrow> pyval list result" where
  "ms_get_receipts s digest = Inr (rev (ms_receipts s digest))"

definition ms_view :: "memory_store \<Rightarrow> store_view" where
  "ms_view s =
     \<lparr>sv_name = ms_name s, sv_candidates = ms_candidates s, sv_result = Some (ms_result s),
      sv_validations = ms_get_validations s, sv_invalidations = Some (ms_get_invalidations s),
      sv_receipts = ms_get_receipts s, sv_get_blob = ms_get_blob s\<rparr>"

definition memory_ops :: "memory_store store_ops" where
  "memory_ops =
     \<lparr>so_put_blob = ms_put_blob, so_put_result = ms_put_result, so_put_validation = ms_put_validation,
      so_put_invalidation = ms_put_invalidation, so_put_receipt = ms_put_receipt, so_view = ms_view\<rparr>"

section \<open>The contract\<close>

text \<open>
  One document for another: the same value, up to the order of its keys, unless two canonical
  encodings collide under SHA-256.
\<close>

definition same_document :: "pyval \<Rightarrow> pyval \<Rightarrow> bool" where
  "same_document v w \<longleftrightarrow> object_digest v = object_digest w \<and> ok (object_digest v)"

lemma same_document_refl: "ok (object_digest v) \<Longrightarrow> same_document v v"
  by (simp add: same_document_def)

lemma same_document_norm:
  assumes "wf_val v" "wf_val w" "same_document v w"
  shows "norm v = norm w \<or> (\<exists>a b. canonical_json v = Inr a \<and> canonical_json w = Inr b \<and> collision a b)"
proof -
  obtain d where "object_digest v = Inr d" "object_digest w = Inr d"
    using assms(3) unfolding same_document_def ok_iff by metis
  from object_digest_inj [OF assms(1,2) this] show ?thesis .
qed

text \<open>Two documents with different canonical bytes and one digest.\<close>

definition collides :: "pyval \<Rightarrow> pyval \<Rightarrow> bool" where
  "collides v w \<longleftrightarrow> (\<exists>a b. canonical_json v = Inr a \<and> canonical_json w = Inr b \<and> collision a b)"

text \<open>What a reader may get for a document that was stored: itself, itself read back, or a collision.\<close>

definition stands_for :: "pyval \<Rightarrow> pyval \<Rightarrow> bool" where
  "stands_for m m' \<longleftrightarrow> same_document m m' \<and> (m' = m \<or> m' = norm m \<or> collides m m')"

locale result_store =
  fixes ops :: "'s store_ops" and inv :: "'s \<Rightarrow> bool"
  assumes inv_put_blob: "inv s \<Longrightarrow> inv (fst (so_put_blob ops s b))"
    and digest_put_blob: "inv s \<Longrightarrow> snd (so_put_blob ops s b) = digest_bytes b"
    and get_put_blob: "inv s \<Longrightarrow>
      \<exists>b'. sv_get_blob (so_view ops (fst (so_put_blob ops s b))) (digest_bytes b) = Inr (Some b')
         \<and> digest_bytes b' = digest_bytes b"
    and keep_put_blob: "inv s \<Longrightarrow> sv_get_blob (so_view ops s) d = Inr (Some b') \<Longrightarrow>
      sv_get_blob (so_view ops (fst (so_put_blob ops s b))) d = Inr (Some b') \<or> d = digest_bytes b"
    and inv_put_result: "inv s \<Longrightarrow> wf_val m \<Longrightarrow> so_put_result ops s m = Inr s' \<Longrightarrow> inv s'"
    and put_result_valid: "inv s \<Longrightarrow> so_put_result ops s m = Inr s' \<Longrightarrow> manifest_ok m"
    and put_result_ok: "inv s \<Longrightarrow> manifest_ok m \<Longrightarrow> \<exists>s'. so_put_result ops s m = Inr s'"
    and candidate_put_result: "inv s \<Longrightarrow> wf_val m \<Longrightarrow> so_put_result ops s m = Inr s' \<Longrightarrow>
      \<exists>cs m'. sv_candidates (so_view ops s') (str_of (item m ''action_digest'')) = Inr cs
         \<and> m' \<in> set cs \<and> stands_for m m'"
    and blob_put_result: "inv s \<Longrightarrow> so_put_result ops s m = Inr s' \<Longrightarrow>
      sv_get_blob (so_view ops s') d = sv_get_blob (so_view ops s) d"
    and candidates_ok: "inv s \<Longrightarrow> is_digest d \<Longrightarrow>
      \<exists>cs. sv_candidates (so_view ops s) d = Inr cs \<and> (\<forall>m \<in> set cs. manifest_ok m)"
    and result_sound: "inv s \<Longrightarrow> is_digest d \<Longrightarrow>
      \<exists>f r. sv_result (so_view ops s) = Some f \<and> f d = Inr r \<and> (\<forall>m. r = Some m \<longrightarrow> manifest_digest m = Inr d)"
    and blobs_ok: "inv s \<Longrightarrow> is_digest d \<Longrightarrow> \<exists>b. sv_get_blob (so_view ops s) d = Inr b"
begin

text \<open>Storing a set of artifacts: every one of them can be read back afterwards.\<close>

fun put_blobs :: "'s \<Rightarrow> bytes list \<Rightarrow> 's" where
  "put_blobs s [] = s"
| "put_blobs s (b # bs) = put_blobs (fst (so_put_blob ops s b)) bs"

lemma inv_put_blobs: "inv s \<Longrightarrow> inv (put_blobs s bs)"
  by (induction s bs rule: put_blobs.induct) (simp_all add: inv_put_blob)

definition holds :: "'s \<Rightarrow> pystr \<Rightarrow> bool" where
  "holds s d \<longleftrightarrow> (\<exists>b. sv_get_blob (so_view ops s) d = Inr (Some b) \<and> digest_bytes b = d)"

lemma holds_put_blob: "inv s \<Longrightarrow> holds s d \<or> d = digest_bytes b \<Longrightarrow> holds (fst (so_put_blob ops s b)) d"
  using get_put_blob [of s b] keep_put_blob [of s d _ b]
  by (cases "d = digest_bytes b") (auto simp: holds_def simp del: digest_bytes_eq)

lemma holds_put_blobs: "inv s \<Longrightarrow> holds s d \<or> d \<in> digest_bytes ` set bs \<Longrightarrow> holds (put_blobs s bs) d"
proof (induction s bs rule: put_blobs.induct)
  case (2 s b bs)
  then show ?case using holds_put_blob [of s d b] inv_put_blob [of s b] by auto
qed simp

lemma holds_put_result: "inv s \<Longrightarrow> so_put_result ops s m = Inr s' \<Longrightarrow> holds s' d \<longleftrightarrow> holds s d"
  by (simp add: holds_def blob_put_result)

end

section \<open>The memory store keeps the contract\<close>

text \<open>
  Blobs are filed under their digest, results under theirs, and every list holds validated
  documents of its own key.
\<close>

definition ms_inv :: "memory_store \<Rightarrow> bool" where
  "ms_inv s \<longleftrightarrow>
     (\<forall>d b. ms_blobs s d = Some b \<longrightarrow> digest_bytes b = d)
     \<and> (\<forall>d m. ms_results_by_digest s d = Some m \<longrightarrow> manifest_digest m = Inr d)
     \<and> (\<forall>a. \<forall>m \<in> set (ms_results s a). manifest_ok m \<and> item m ''action_digest'' = PyStr a)
     \<and> (\<forall>d. \<forall>r \<in> set (ms_validations s d). source_validation_ok r \<and> item r ''result_digest'' = PyStr d)
     \<and> (\<forall>d. \<forall>r \<in> set (ms_invalidations s d). invalidation_ok r \<and> item r ''result_digest'' = PyStr d)
     \<and> (\<forall>d. \<forall>r \<in> set (ms_receipts s d). receipt_ok False r \<and> item r ''result_digest'' = PyStr d)"

lemma append_at_simps [simp]: "append_at k x f k' = (if k' = k then f k @ [x] else f k')"
  by (simp add: append_at_def)

lemma ms_inv_init: "ms_inv (ms_init name)"
  by (simp add: ms_inv_def ms_init_def)

lemma digest_val_eq: "digest_val v \<Longrightarrow> PyStr (str_of v) = v \<and> is_digest (str_of v)"
  by (auto simp: digest_val_def str_of_eq)

lemma ms_put_result_Inr:
  "ms_put_result s m = Inr s' \<longleftrightarrow> manifest_ok m \<and> (\<exists>d. object_digest m = Inr d \<and>
     s' = s\<lparr>ms_results_by_digest := (ms_results_by_digest s)(d := Some m),
            ms_results := append_at (str_of (item m ''action_digest'')) m (ms_results s)\<rparr>)"
  by (auto simp: ms_put_result_def checks validate_manifest_iff manifest_digest_Inr)

lemma ms_inv_put_blob: "ms_inv s \<Longrightarrow> ms_inv (fst (ms_put_blob s b))"
  by (simp add: ms_inv_def ms_put_blob_def Let_def)

lemma ms_inv_put_result: "ms_inv s \<Longrightarrow> ms_put_result s m = Inr s' \<Longrightarrow> ms_inv s'"
proof -
  assume a: "ms_inv s" "ms_put_result s m = Inr s'"
  then obtain d where d: "manifest_ok m" "manifest_digest m = Inr d" "object_digest m = Inr d" by (auto simp: ms_put_result_Inr manifest_digest_Inr)
  then have "PyStr (str_of (item m ''action_digest'')) = item m ''action_digest''"
    by (simp add: manifest_ok_def digest_val_eq)
  with a d show ?thesis by (auto simp: ms_inv_def ms_put_result_Inr)
qed

lemma ms_inv_put_validation: "ms_inv s \<Longrightarrow> ms_put_validation s r = Inr s' \<Longrightarrow> ms_inv s'"
proof -
  assume a: "ms_inv s" "ms_put_validation s r = Inr s'"
  then have r: "source_validation_ok r" by (simp add: ms_put_validation_def checks validate_source_validation_iff)
  then have "digest_val (item r ''result_digest'')" by (simp only: source_validation_ok_def)
  from digest_val_eq [OF this] a r show ?thesis by (auto simp: ms_inv_def ms_put_validation_def checks split: if_splits)
qed

lemma ms_inv_put_invalidation: "ms_inv s \<Longrightarrow> ms_put_invalidation s r = Inr s' \<Longrightarrow> ms_inv s'"
proof -
  assume a: "ms_inv s" "ms_put_invalidation s r = Inr s'"
  then have r: "invalidation_ok r" by (simp add: ms_put_invalidation_def checks validate_invalidation_iff)
  then have "digest_val (item r ''result_digest'')" by (simp only: invalidation_ok_def)
  from digest_val_eq [OF this] a r show ?thesis by (auto simp: ms_inv_def ms_put_invalidation_def checks split: if_splits)
qed

lemma ms_inv_put_receipt: "ms_inv s \<Longrightarrow> ms_put_receipt s r = Inr s' \<Longrightarrow> ms_inv s'"
proof -
  assume a: "ms_inv s" "ms_put_receipt s r = Inr s'"
  then have r: "receipt_ok False r" by (simp add: ms_put_receipt_def checks validate_receipt_iff)
  then have "digest_val (item r ''result_digest'')" by (simp only: receipt_ok_def)
  from digest_val_eq [OF this] a r show ?thesis by (auto simp: ms_inv_def ms_put_receipt_def checks split: if_splits)
qed

lemmas ms_defs = ms_view_def memory_ops_def ms_get_blob_def ms_candidates_def ms_result_def

lemma manifest_ok_digest: "manifest_ok m \<Longrightarrow> ok (object_digest m)"
  using object_digest_ok [of m] by (auto simp: manifest_ok_def)

interpretation ms: result_store memory_ops ms_inv
proof
  fix s :: memory_store and m b d s'
  assume inv: "ms_inv s"
  show "ms_inv (fst (so_put_blob memory_ops s b))" using inv by (simp add: memory_ops_def ms_inv_put_blob)
  show "snd (so_put_blob memory_ops s b) = digest_bytes b" by (simp add: memory_ops_def ms_put_blob_def Let_def)
  show "\<exists>b'. sv_get_blob (so_view memory_ops (fst (so_put_blob memory_ops s b))) (digest_bytes b) = Inr (Some b')
      \<and> digest_bytes b' = digest_bytes b"
    by (simp add: ms_defs ms_put_blob_def Let_def)
  show "ms_inv s'" if "so_put_result memory_ops s m = Inr s'"
    using inv that by (simp add: memory_ops_def ms_inv_put_result)
  show "manifest_ok m" if "so_put_result memory_ops s m = Inr s'"
    using that by (simp add: memory_ops_def ms_put_result_Inr)
  show "\<exists>s'. so_put_result memory_ops s m = Inr s'" if "manifest_ok m"
    using that manifest_ok_digest [OF that] by (auto simp: memory_ops_def ms_put_result_Inr ok_iff)
  show "\<exists>cs m'. sv_candidates (so_view memory_ops s') (str_of (item m ''action_digest'')) = Inr cs
      \<and> m' \<in> set cs \<and> stands_for m m'" if "so_put_result memory_ops s m = Inr s'"
    using that manifest_ok_digest [of m] same_document_refl [of m]
    by (auto simp: ms_defs ms_put_result_Inr stands_for_def)
  show "sv_get_blob (so_view memory_ops s') d = sv_get_blob (so_view memory_ops s) d"
    if "so_put_result memory_ops s m = Inr s'"
    using that by (auto simp: ms_defs ms_put_result_Inr)
  show "\<exists>cs. sv_candidates (so_view memory_ops s) d = Inr cs \<and> (\<forall>m \<in> set cs. manifest_ok m)"
    using inv by (auto simp: ms_defs ms_inv_def)
  show "\<exists>f r. sv_result (so_view memory_ops s) = Some f \<and> f d = Inr r \<and> (\<forall>m. r = Some m \<longrightarrow> manifest_digest m = Inr d)"
    using inv by (auto simp: ms_defs ms_inv_def)
  show "\<exists>b. sv_get_blob (so_view memory_ops s) d = Inr b" by (simp add: ms_defs)
qed (auto simp: ms_defs ms_put_blob_def Let_def)

end
