(* ===== verification/Normal_Form.thy ===== *)
theory Normal_Form
  imports Receipt
begin

text \<open>
  Reading a document back from its canonical text reorders its keys (\<open>norm\<close>). The lemmas here
  show that no validator and no digest sees the difference, which is what lets a store read
  with \<open>json.loads\<close> what it wrote with \<open>canonical_json\<close>.
\<close>

section \<open>Fields of a normalised value\<close>

lemma norm_leaf [simp]:
  "norm v = PyNone \<longleftrightarrow> v = PyNone" "norm v = PyStr s \<longleftrightarrow> v = PyStr s" "norm v = PyInt i \<longleftrightarrow> v = PyInt i"
  "norm v = PyBool b \<longleftrightarrow> v = PyBool b"
  by (cases v; simp)+

lemma norm_shape [simp]:
  "is_dict (norm v) = is_dict v" "is_list (norm v) = is_list v" "is_str (norm v) = is_str v"
  "is_int (norm v) = is_int v" "str_of (norm v) = str_of v" "int_of (norm v) = int_of v"
  "items_of (norm v) = map norm (items_of v)"
  by (cases v; simp)+

lemma norm_str: "is_str v \<Longrightarrow> norm v = v"
  by (cases v) simp_all

lemma jsonable_dict_item: "jsonable (PyDict kvs) \<Longrightarrow> (k, v) \<in> set kvs \<Longrightarrow> jsonable v \<and> is_str k \<and> list_all scalar (str_of k)"
  by (auto simp: jsonable_simps)

lemma jsonable_norm: "jsonable v \<Longrightarrow> jsonable (norm v)"
proof (induction v rule: pyval_induct)
  case (Dict kvs)
  have "map fst (map (\<lambda>(k, v). (PyStr k, norm v)) (sorted_items kvs)) = map PyStr (map fst (sorted_items kvs))"
    by (simp add: split_def comp_def)
  moreover have "distinct (map PyStr (map fst (sorted_items kvs)))"
    using jsonable_items(1) [OF Dict.prems] by (simp only: distinct_map) (simp add: inj_on_def)
  ultimately have "distinct (map fst (map (\<lambda>(k, v). (PyStr k, norm v)) (sorted_items kvs)))" by (simp only:)
  moreover have "jsonable (norm v) \<and> list_all scalar k" if "(k, v) \<in> set (sorted_items kvs)" for k v
    using that Dict jsonable_items(2) [OF Dict.prems that] by (auto simp: set_sorted_items)
  ultimately show ?case unfolding norm_dict jsonable_simps by auto
qed (simp_all add: jsonable_simps)

lemma canonical_json_of_norm: "jsonable v \<Longrightarrow> canonical_json (norm v) = canonical_json v"
  by (simp add: canonical_json_jsonable jsonable_norm dumps_norm)

lemma object_digest_norm: "jsonable v \<Longrightarrow> object_digest (norm v) = object_digest v"
  by (simp add: object_digest_def canonical_json_of_norm)

lemma al_get_norm:
  assumes "jsonable (PyDict kvs)"
  shows "al_get (pairs_of (norm (PyDict kvs))) (PyStr k) = map_option norm (al_get kvs (PyStr k))"
proof -
  have d: "distinct (map fst kvs)" using assms by (simp add: jsonable_simps)
  have d': "distinct (map fst (pairs_of (norm (PyDict kvs))))"
  proof -
    have "jsonable (norm (PyDict kvs))" by (rule jsonable_norm) (rule assms)
    then show ?thesis unfolding norm_dict jsonable_simps pairs_of.simps by blast
  qed
  have "(PyStr k, y) \<in> set (pairs_of (norm (PyDict kvs))) \<longleftrightarrow> (\<exists>v. (PyStr k, v) \<in> set kvs \<and> y = norm v)" for y
  proof -
    have str: "(k', v) \<in> set kvs \<Longrightarrow> str_of k' = k \<longleftrightarrow> k' = PyStr k" for k' v
      using jsonable_dict_item [OF assms] by (metis str_of_eq str_of.simps(1))
    have "(PyStr k, y) \<in> set (pairs_of (norm (PyDict kvs))) \<longleftrightarrow> (\<exists>k' v. (k', v) \<in> set kvs \<and> str_of k' = k \<and> y = norm v)"
      unfolding norm_dict pairs_of.simps by (force simp: set_sorted_items)
    with str show ?thesis by metis
  qed
  then have "al_get (pairs_of (norm (PyDict kvs))) (PyStr k) = Some y \<longleftrightarrow> map_option norm (al_get kvs (PyStr k)) = Some y" for y
    using al_get_distinct [OF d] al_get_distinct [OF d'] by auto
  then show ?thesis by (metis option.exhaust)
qed

text \<open>The normal form of a dictionary depends on its lookups only.\<close>

lemma norm_dict_lookups:
  assumes "jsonable (PyDict kvs)"
  shows "\<exists>ps. norm (PyDict kvs) = PyDict (map (\<lambda>(k, v). (PyStr k, v)) ps) \<and> sorted (map fst ps) \<and> distinct (map fst ps)
    \<and> set ps = {(k, v). map_option norm (al_get kvs (PyStr k)) = Some v}"
proof -
  let ?ps = "map (\<lambda>(k, v). (k, norm v)) (sorted_items kvs)"
  have n: "norm (PyDict kvs) = PyDict (map (\<lambda>(k, v). (PyStr k, v)) ?ps)" unfolding norm_dict by (simp add: split_def)
  have fst: "map fst ?ps = map fst (sorted_items kvs)" by (simp add: split_def)
  have d: "distinct (map fst (map (\<lambda>(k, v). (PyStr k, v)) ?ps))"
    using jsonable_norm [OF assms] unfolding n jsonable_simps by blast
  have "(k, v) \<in> set ?ps \<longleftrightarrow> (PyStr k, v) \<in> set (map (\<lambda>(k, v). (PyStr k, v)) ?ps)" for k v by force
  then have "(k, v) \<in> set ?ps \<longleftrightarrow> map_option norm (al_get kvs (PyStr k)) = Some v" for k v
    using al_get_norm [OF assms, of k, symmetric] by (simp only: n pairs_of.simps al_get_distinct [OF d])
  then have "set ?ps = {(k, v). map_option norm (al_get kvs (PyStr k)) = Some v}" by (intro set_eqI) (simp only: split_paired_all mem_Collect_eq prod.case)
  moreover have "sorted (map fst ?ps)" unfolding fst by (simp add: sorted_items_def map_fst_sort_items)
  moreover have "distinct (map fst ?ps)" unfolding fst by (rule jsonable_items(1) [OF assms])
  ultimately show ?thesis using n by blast
qed

lemma norm_dict_ext:
  assumes "jsonable (PyDict a)" "jsonable (PyDict b)" "\<And>k. map_option norm (al_get a (PyStr k)) = map_option norm (al_get b (PyStr k))"
  shows "norm (PyDict a) = norm (PyDict b)"
proof -
  obtain ps qs where ps: "norm (PyDict a) = PyDict (map (\<lambda>(k, v). (PyStr k, v)) ps)" "sorted (map fst ps)" "distinct (map fst ps)"
      and qs: "norm (PyDict b) = PyDict (map (\<lambda>(k, v). (PyStr k, v)) qs)" "sorted (map fst qs)" "distinct (map fst qs)" and eq: "set ps = set qs"
    using norm_dict_lookups [OF assms(1)] norm_dict_lookups [OF assms(2)] assms(3) by auto
  have "inj_on fst (set ps \<union> set qs)" using ps(3) eq by (simp add: distinct_map)
  then have "ps = qs" using ps(2,3) qs(2,3) eq by (intro map_sorted_distinct_set_unique [of fst])
  then show ?thesis using ps qs by simp
qed

lemma norm_idem: "jsonable v \<Longrightarrow> norm (norm v) = norm v"
  using loads_dumps [of "norm v" default_opts] loads_dumps [of v default_opts] by (simp add: jsonable_norm dumps_norm)

lemma norm_with_item:
  assumes "jsonable d" "jsonable v"
  shows "norm (with_item (norm d) k v) = norm (with_item d k v)"
proof (cases d)
  case (PyDict kvs)
  obtain kvs' where n: "norm d = PyDict kvs'" using PyDict by simp
  have j: "jsonable (with_item d k v)" "jsonable (with_item (norm d) k v)"
    using assms jsonable_norm [OF assms(1)] PyDict n by (simp_all add: jsonable_with_item del: norm.simps)
  have "al_get kvs' (PyStr q) = map_option norm (al_get kvs (PyStr q))" for q
    using al_get_norm [of kvs q] assms(1) n unfolding PyDict by (simp del: norm.simps)
  moreover have "map_option norm (map_option norm (al_get kvs (PyStr q))) = map_option norm (al_get kvs (PyStr q))" for q
    using assms(1) al_get_Some_in [of kvs "PyStr q"] by (cases "al_get kvs (PyStr q)") (auto simp: PyDict jsonable_simps norm_idem)
  ultimately show ?thesis using j unfolding n unfolding PyDict with_item_def pairs_of.simps
    by (intro norm_dict_ext) auto
qed (simp_all add: with_item_def)

lemma canonical_json_with_norm:
  "jsonable d \<Longrightarrow> is_dict d \<Longrightarrow> jsonable v \<Longrightarrow> canonical_json (with_item (norm d) k v) = canonical_json (with_item d k v)"
  by (metis canonical_json_of_norm jsonable_norm jsonable_with_item norm_shape(1) norm_with_item)

lemma item_norm: "jsonable d \<Longrightarrow> item (norm d) k = norm (item d k)"
proof (cases d)
  case (PyDict kvs)
  moreover assume "jsonable d"
  ultimately show ?thesis using al_get_norm [of kvs "u k"] by (auto simp: item_def split: option.splits)
qed (simp_all add: item_def)

lemma jsonable_item: "jsonable d \<Longrightarrow> jsonable (item d k)"
proof (cases d)
  case (PyDict kvs)
  moreover assume "jsonable d"
  ultimately show ?thesis
    using al_get_Some_in [of kvs "S k"] by (auto simp: item_def jsonable_simps split: option.splits)
qed (simp_all add: item_def jsonable_simps)

lemma keys_norm: "jsonable d \<Longrightarrow> keys (norm d) = keys d"
proof (cases d)
  case (PyDict kvs)
  moreover assume "jsonable d"
  ultimately have "(k', v) \<in> set kvs \<Longrightarrow> PyStr (str_of k') = k'" for k' v
    using jsonable_dict_item by (auto simp: str_of_eq)
  then have "(\<lambda>(k, v). PyStr (str_of k)) ` set kvs = fst ` set kvs" by force
  moreover have "keys (norm d) = (\<lambda>(k, v). PyStr (str_of k)) ` set kvs"
    unfolding PyDict norm_dict keys_def pairs_of.simps by (force simp: set_sorted_items)
  ultimately show ?thesis by (simp add: PyDict keys_def)
qed (simp_all add: keys_def)

section \<open>Validators do not see the order of keys\<close>

lemma exact_keys_norm [simp]: "jsonable d \<Longrightarrow> exact_keys (norm d) ks = exact_keys d ks"
  by (simp add: exact_keys_def keys_norm)

lemma nonempty_str_norm [simp]: "nonempty_str (norm v) = nonempty_str v"
  by (simp add: nonempty_str_def)

lemma digest_val_norm [simp]: "digest_val (norm v) = digest_val v"
  by (simp add: digest_val_def)

lemma instant_val_norm [simp]: "instant_val (norm v) = instant_val v"
  by (simp add: instant_val_def)

lemma instant_of_norm [simp]: "instant_of (norm v) = instant_of v"
  by (simp add: instant_of_def)

lemma null_or_nonempty_norm [simp]: "null_or_nonempty (norm v) = null_or_nonempty v"
  by (simp add: null_or_nonempty_def)

lemma artifact_ok_norm: "jsonable a \<Longrightarrow> artifact_ok (norm a) = artifact_ok a"
  by (simp add: artifact_ok_def item_norm)

lemma dependency_ok_norm: "jsonable a \<Longrightarrow> dependency_ok (norm a) = dependency_ok a"
  by (simp add: dependency_ok_def item_norm)

lemma jsonable_items_of: "jsonable v \<Longrightarrow> x \<in> set (items_of v) \<Longrightarrow> jsonable x"
  by (cases v) (simp_all add: jsonable_simps)

lemma manifest_parts:
  assumes "wf_val m" "manifest_ok m"
  shows "jsonable m" "\<And>a. a \<in> set (artifacts_of m) \<Longrightarrow> jsonable a" "\<And>d. d \<in> set (dependencies_of m) \<Longrightarrow> jsonable d"
proof -
  show m: "jsonable m" using assms by (simp add: manifest_ok_def canonical_ok)
  show "a \<in> set (artifacts_of m) \<Longrightarrow> jsonable a" for a
    unfolding artifacts_of_def using jsonable_items_of jsonable_item [OF m] by blast
  show "d \<in> set (dependencies_of m) \<Longrightarrow> jsonable d" for d
    unfolding dependencies_of_def using jsonable_items_of jsonable_item [OF m] by blast
qed

lemma map_item_norm:
  "list_all P xs \<Longrightarrow> (\<And>x. P x \<Longrightarrow> is_str (item x k)) \<Longrightarrow> (\<And>x. x \<in> set xs \<Longrightarrow> jsonable x) \<Longrightarrow>
   map (\<lambda>x. item x k) (map norm xs) = map (\<lambda>x. item x k) xs"
  by (auto simp: list_all_iff item_norm norm_str)

lemma manifest_ok_norm:
  assumes "wf_val m" "manifest_ok m"
  shows "manifest_ok (norm m)"
proof -
  note j = manifest_parts [OF assms]
  have eqs: "artifacts_of (norm m) = map norm (artifacts_of m)" "dependencies_of (norm m) = map norm (dependencies_of m)"
    by (simp_all add: artifacts_of_def dependencies_of_def item_norm j(1))
  have art: "list_all artifact_ok (artifacts_of m)" using assms(2) by (simp add: manifest_ok_def)
  have sv: "item (norm m) ''spec_version'' = item m ''spec_version''"
    using assms(2) by (auto simp: manifest_ok_def item_norm j(1) result_v0_def result_v1_def)
  have "list_all artifact_ok (map norm (artifacts_of m))"
    using art j(2) by (simp add: list_all_iff artifact_ok_norm)
  moreover have "map (\<lambda>a. item a ''name'') (map norm (artifacts_of m)) = map (\<lambda>a. item a ''name'') (artifacts_of m)"
    using art j(2) by (intro map_item_norm [of artifact_ok]) (auto simp: artifact_ok_def nonempty_str_def)
  moreover have "list_all dependency_ok (map norm ds) \<and>
      map (\<lambda>d. str_of (item d ''name'')) (map norm ds) = map (\<lambda>d. str_of (item d ''name'')) ds \<and>
      map (\<lambda>d. item d ''result_digest'') (map norm ds) = map (\<lambda>d. item d ''result_digest'') ds"
    if "list_all dependency_ok ds" "ds = dependencies_of m" for ds
  proof (intro conjI)
    show "list_all dependency_ok (map norm ds)" using that j(3) by (simp add: list_all_iff dependency_ok_norm)
    show "map (\<lambda>d. str_of (item d ''name'')) (map norm ds) = map (\<lambda>d. str_of (item d ''name'')) ds"
      using that(2) j(3) by (simp add: item_norm)
    show "map (\<lambda>d. item d ''result_digest'') (map norm ds) = map (\<lambda>d. item d ''result_digest'') ds"
      using that j(3) by (intro map_item_norm [of dependency_ok]) (auto simp: dependency_ok_def digest_val_def)
  qed
  ultimately show ?thesis
    using assms(2) unfolding manifest_ok_def eqs sv
    by (simp add: item_norm j(1) canonical_json_of_norm del: map_map)
qed

lemma manifest_digest_norm: "wf_val m \<Longrightarrow> manifest_digest m = Inr d \<Longrightarrow> manifest_digest (norm m) = Inr d"
  by (simp add: manifest_digest_Inr manifest_ok_norm object_digest_norm manifest_parts(1))

lemma invalidation_ok_norm: "wf_val r \<Longrightarrow> invalidation_ok r \<Longrightarrow> invalidation_ok (norm r)"
proof -
  assume a: "wf_val r" "invalidation_ok r"
  then have j: "jsonable r" by (simp add: invalidation_ok_def canonical_ok)
  with a show ?thesis unfolding invalidation_ok_def by (simp add: item_norm canonical_json_of_norm)
qed

lemma source_validation_ok_norm: "wf_val r \<Longrightarrow> source_validation_ok r \<Longrightarrow> source_validation_ok (norm r)"
proof -
  assume a: "wf_val r" "source_validation_ok r"
  then have j: "jsonable r" by (simp add: source_validation_ok_def canonical_ok)
  with a show ?thesis unfolding source_validation_ok_def method_ok_def
    by (simp add: item_norm jsonable_item canonical_json_of_norm)
qed

lemma receipt_ok_norm: "wf_val r \<Longrightarrow> receipt_ok b r \<Longrightarrow> receipt_ok b (norm r)"
proof -
  assume a: "wf_val r" "receipt_ok b r"
  then have j: "jsonable r" by (simp add: receipt_ok_def canonical_ok)
  with a show ?thesis unfolding receipt_ok_def signature_ok_def signature_profile_def
    by (simp add: item_norm jsonable_item canonical_json_of_norm)
qed

end
