(* ===== verification/Fs_Store.thy ===== *)
theory Fs_Store
  imports Store Normal_Form
begin

text \<open>
  \<open>FilesystemStore\<close> (\<open>store.py\<close>). The directory tree below the store's root is an association
  list from paths (lists of names) to files; a file is its bytes or \<open>Unreadable\<close>, which makes
  every read raise \<open>OSError\<close>. A directory exists when a file lies in it, and it is listed in the
  order its files were created. Writing is \<open>_atomic_write\<close>: an existing object is never
  replaced. Write failures of the operating system are not modelled.
\<close>

section \<open>Paths and files\<close>

type_synonym path = "pystr list"

datatype fs_file = File bytes | Unreadable

type_synonym fs_tree = "(path \<times> fs_file) list"

record fs_store =
  fs_name :: pystr
  fs_files :: fs_tree

definition hex_digest :: "pystr \<Rightarrow> pystr result" where
  "hex_digest digest =
     (if is_digest digest then Inr (removeprefix (u ''sha256:'') digest) else Inl (ValueError ''invalid SHA-256 digest''))"

text \<open>The hexadecimal part of a digest already known to be well-formed.\<close>

definition hex_part :: "pystr \<Rightarrow> pystr" where
  "hex_part digest = removeprefix (u ''sha256:'') digest"

definition json_name :: "pystr \<Rightarrow> pystr" where
  "json_name s = s @ u ''.json''"

definition blob_path :: "pystr \<Rightarrow> path" where
  "blob_path digest = [u ''blobs'', u ''sha256'', take 2 (hex_part digest), drop 2 (hex_part digest)]"

definition result_path :: "pystr \<Rightarrow> path" where
  "result_path digest = [u ''results'', u ''sha256'', take 2 (hex_part digest), json_name (drop 2 (hex_part digest))]"

text \<open>\<open>_action_path\<close>, \<open>_validation_path\<close>, \<open>_invalidation_path\<close> and \<open>_receipt_path\<close> differ in the root.\<close>

definition digest_dir :: "string \<Rightarrow> pystr \<Rightarrow> path" where
  "digest_dir root digest = [u root, u ''sha256'', hex_part digest]"

definition entry_path :: "string \<Rightarrow> pystr \<Rightarrow> pystr \<Rightarrow> path" where
  "entry_path root digest name = digest_dir root digest @ [json_name (hex_part name)]"

definition atomic_write :: "path \<Rightarrow> bytes \<Rightarrow> fs_tree \<Rightarrow> fs_tree" where
  "atomic_write p data fs = (case al_get fs p of Some _ \<Rightarrow> fs | None \<Rightarrow> al_set fs p (File data))"

definition glob_json :: "path \<Rightarrow> fs_tree \<Rightarrow> fs_file list" where
  "glob_json dir fs = map snd (filter (\<lambda>(p, f). p \<noteq> [] \<and> butlast p = dir \<and> ends_with (u ''.json'') (last p)) fs)"

definition read_json :: "fs_file \<Rightarrow> pyval result" where
  "read_json f = (case f of Unreadable \<Rightarrow> Inl OSError | File b \<Rightarrow> loads_bytes default_opts b)"

fun read_documents :: "(pyval \<Rightarrow> unit result) \<Rightarrow> fs_file list \<Rightarrow> pyval list result" where
  "read_documents check [] = Inr []"
| "read_documents check (f # fs) =
     rbind (read_json f) (\<lambda>v. seq (check v) (rbind (read_documents check fs) (\<lambda>vs. Inr (v # vs))))"

text \<open>\<open>except (OSError, UnicodeError, json.JSONDecodeError, ValueError) as error: raise StoreReadError\<close>\<close>

definition catch_read :: "string \<Rightarrow> 'a result \<Rightarrow> 'a result" where
  "catch_read message m =
     (case m of
        Inr x \<Rightarrow> Inr x
      | Inl e \<Rightarrow> if e = OSError \<or> is_value_error e then Inl (StoreReadError message) else Inl e)"

section \<open>Operations\<close>

definition fs_put_blob :: "fs_store \<Rightarrow> bytes \<Rightarrow> fs_store \<times> pystr" where
  "fs_put_blob s data =
     (let digest = digest_bytes data
      in (s\<lparr>fs_files := atomic_write (blob_path digest) data (fs_files s)\<rparr>, digest))"

definition fs_get_blob :: "fs_store \<Rightarrow> pystr \<Rightarrow> bytes option result" where
  "fs_get_blob s digest =
     rbind (hex_digest digest) (\<lambda>_.
       case al_get (fs_files s) (blob_path digest) of
         None \<Rightarrow> Inr None
       | Some Unreadable \<Rightarrow> Inl (StoreReadError ''blob_read_failed'')
       | Some (File b) \<Rightarrow> Inr (Some b))"

definition fs_put_result :: "fs_store \<Rightarrow> pyval \<Rightarrow> fs_store result" where
  "fs_put_result s manifest =
     seq (validate_manifest manifest)
     (rbind (manifest_digest manifest) (\<lambda>digest.
      rbind (canonical_json manifest) (\<lambda>encoded.
      let tree = atomic_write (result_path digest) encoded (fs_files s)
      in rbind (hex_digest (str_of (item manifest ''action_digest''))) (\<lambda>_.
         Inr (s\<lparr>fs_files := atomic_write
           (entry_path ''actions'' (str_of (item manifest ''action_digest'')) digest) encoded tree\<rparr>)))))"

definition fs_candidates :: "fs_store \<Rightarrow> pystr \<Rightarrow> pyval list result" where
  "fs_candidates s requested =
     rbind (hex_digest requested) (\<lambda>_.
     rbind (catch_read ''manifest_read_failed''
              (read_documents validate_manifest (glob_json (digest_dir ''actions'' requested) (fs_files s))))
       (\<lambda>manifests. Inr (sorted_desc (\<lambda>m. str_of (item m ''produced_at'')) manifests)))"

definition fs_result :: "fs_store \<Rightarrow> pystr \<Rightarrow> pyval option result" where
  "fs_result s digest =
     rbind (hex_digest digest) (\<lambda>_.
       case al_get (fs_files s) (result_path digest) of
         None \<Rightarrow> Inr None
       | Some f \<Rightarrow>
           catch_read ''result_read_failed''
             (rbind (read_json f) (\<lambda>v. seq (validate_manifest v)
               (rbind (manifest_digest v) (\<lambda>d.
                 seq (guard (d = digest) (ValueError ''result is indexed under the wrong digest''))
                   (Inr (Some v)))))))"

text \<open>The records of one result: validated, and filed under the result they name.\<close>

definition check_record :: "(pyval \<Rightarrow> unit result) \<Rightarrow> pystr \<Rightarrow> pyval \<Rightarrow> unit result" where
  "check_record validator digest v =
     seq (validator v) (guard (item v ''result_digest'' = PyStr digest) (ValueError ''indexed under the wrong result''))"

definition fs_records :: "string \<Rightarrow> (pyval \<Rightarrow> unit result) \<Rightarrow> string \<Rightarrow> fs_store \<Rightarrow> pystr \<Rightarrow> pyval list result" where
  "fs_records root validator message s digest =
     rbind (hex_digest digest) (\<lambda>_.
       catch_read message
         (read_documents (check_record validator digest) (glob_json (digest_dir root digest) (fs_files s))))"

definition put_record ::
  "string \<Rightarrow> (pyval \<Rightarrow> unit result) \<Rightarrow> (pyval \<Rightarrow> pystr result) \<Rightarrow> fs_store \<Rightarrow> pyval \<Rightarrow> fs_store result" where
  "put_record root validator digest_of s record =
     seq (validator record)
     (rbind (digest_of record) (\<lambda>digest.
      rbind (hex_digest (str_of (item record ''result_digest''))) (\<lambda>_.
      rbind (canonical_json record) (\<lambda>encoded.
        Inr (s\<lparr>fs_files := atomic_write
          (entry_path root (str_of (item record ''result_digest'')) digest) encoded (fs_files s)\<rparr>)))))"

definition fs_put_validation :: "fs_store \<Rightarrow> pyval \<Rightarrow> fs_store result" where
  "fs_put_validation = put_record ''validations'' validate_source_validation validation_digest"

definition fs_validations :: "fs_store \<Rightarrow> pystr \<Rightarrow> pyval list result" where
  "fs_validations s digest =
     rbind (fs_records ''validations'' validate_source_validation ''validation_read_failed'' s digest)
       (\<lambda>records. Inr (sorted_desc (\<lambda>r. str_of (item r ''validated_at'')) records))"

definition fs_put_invalidation :: "fs_store \<Rightarrow> pyval \<Rightarrow> fs_store result" where
  "fs_put_invalidation = put_record ''invalidations'' validate_invalidation invalidation_digest"

definition fs_invalidations :: "fs_store \<Rightarrow> pystr \<Rightarrow> pyval list result" where
  "fs_invalidations s digest =
     rbind (fs_records ''invalidations'' validate_invalidation ''invalidation_read_failed'' s digest)
       (\<lambda>records. Inr (sorted_desc (\<lambda>r. str_of (item r ''invalidated_at'')) records))"

definition fs_put_receipt :: "fs_store \<Rightarrow> pyval \<Rightarrow> fs_store result" where
  "fs_put_receipt = put_record ''receipts'' (validate_receipt False) receipt_digest"

definition digest_or_empty :: "pyval \<Rightarrow> pystr" where
  "digest_or_empty receipt = (case receipt_digest receipt of Inr d \<Rightarrow> d | Inl _ \<Rightarrow> [])"

definition fs_receipts :: "fs_store \<Rightarrow> pystr \<Rightarrow> pyval list result" where
  "fs_receipts s digest =
     rbind (fs_records ''receipts'' (validate_receipt False) ''receipt_read_failed'' s digest)
       (\<lambda>records. Inr (sort_key digest_or_empty records))"

definition fs_view :: "fs_store \<Rightarrow> store_view" where
  "fs_view s =
     \<lparr>sv_name = fs_name s, sv_candidates = fs_candidates s, sv_result = Some (fs_result s),
      sv_validations = fs_validations s, sv_invalidations = Some (fs_invalidations s),
      sv_receipts = fs_receipts s, sv_get_blob = fs_get_blob s\<rparr>"

definition filesystem_ops :: "fs_store store_ops" where
  "filesystem_ops =
     \<lparr>so_put_blob = fs_put_blob, so_put_result = fs_put_result, so_put_validation = fs_put_validation,
      so_put_invalidation = fs_put_invalidation, so_put_receipt = fs_put_receipt, so_view = fs_view\<rparr>"

section \<open>Paths tell digests apart\<close>

lemma is_digest_hex: "is_digest d \<Longrightarrow> d = u ''sha256:'' @ hex_part d \<and> length (hex_part d) = 64"
  by (auto simp: is_digest_def hex_part_def removeprefix_def starts_with_iff)

lemma hex_digest_Inr [simp]: "is_digest d \<Longrightarrow> hex_digest d = Inr (hex_part d)"
  by (simp add: hex_digest_def hex_part_def)

lemma hex_part_inj: "is_digest c \<Longrightarrow> is_digest d \<Longrightarrow> hex_part c = hex_part d \<longleftrightarrow> c = d"
  by (metis is_digest_hex)

lemma json_name_inj [simp]: "json_name a = json_name b \<longleftrightarrow> a = b"
  by (simp add: json_name_def)

lemma take_drop_inj: "take n xs = take n ys \<and> drop n xs = drop n ys \<longleftrightarrow> xs = ys"
  by (metis append_take_drop_id)

lemma path_inj:
  assumes "is_digest c" "is_digest d"
  shows "blob_path c = blob_path d \<longleftrightarrow> c = d" "result_path c = result_path d \<longleftrightarrow> c = d"
    "digest_dir r c = digest_dir q d \<longleftrightarrow> r = q \<and> c = d"
  using hex_part_inj [OF assms] take_drop_inj [of 2 "hex_part c" "hex_part d"]
  by (simp_all add: blob_path_def result_path_def digest_dir_def)

lemma entry_path_inj:
  assumes "is_digest c" "is_digest d" "is_digest e" "is_digest f"
  shows "entry_path r c e = entry_path q d f \<longleftrightarrow> r = q \<and> c = d \<and> e = f"
  using path_inj(3) [OF assms(1,2)] hex_part_inj [OF assms(3,4)] by (auto simp: entry_path_def digest_dir_def)

lemma path_roots:
  "blob_path c \<noteq> result_path d" "result_path d \<noteq> blob_path c"
  "r \<noteq> ''blobs'' \<Longrightarrow> blob_path c \<noteq> entry_path r d e \<and> entry_path r d e \<noteq> blob_path c"
  "r \<noteq> ''results'' \<Longrightarrow> result_path c \<noteq> entry_path r d e \<and> entry_path r d e \<noteq> result_path c"
  by (auto simp: blob_path_def result_path_def entry_path_def digest_dir_def)

lemma butlast_entry [simp]: "butlast (entry_path r d e) = digest_dir r d" "entry_path r d e \<noteq> []"
  by (simp_all add: entry_path_def butlast_append)

lemma last_entry [simp]: "ends_with (u ''.json'') (last (entry_path r d e))"
  by (simp add: entry_path_def json_name_def ends_with_def)

section \<open>The invariant\<close>

definition file_doc :: "fs_file \<Rightarrow> pyval option" where
  "file_doc f = (case read_json f of Inr v \<Rightarrow> Some v | Inl _ \<Rightarrow> None)"

definition record_kinds :: "(string \<times> (pyval \<Rightarrow> bool)) set" where
  "record_kinds = {(''validations'', source_validation_ok), (''invalidations'', invalidation_ok), (''receipts'', receipt_ok False)}"

text \<open>The file holds the canonical text of some document.\<close>

definition canonical_file :: "fs_file \<Rightarrow> bool" where
  "canonical_file f \<longleftrightarrow> (\<exists>b v. f = File b \<and> wf_val v \<and> canonical_json v = Inr b)"

text \<open>
  Every file of the tree is readable and says what its path promises: a blob hashes to its path,
  a result file and an action entry hold a manifest with the digest they are named by, and a
  record lies under the result it names.
\<close>

definition file_ok :: "path \<Rightarrow> fs_file \<Rightarrow> bool" where
  "file_ok p f \<longleftrightarrow>
     (\<exists>b. f = File b \<and> p = blob_path (digest_bytes b))
     \<or> (\<exists>m d. canonical_file f \<and> file_doc f = Some m \<and> manifest_digest m = Inr d \<and> p = result_path d)
     \<or> (\<exists>m d a. canonical_file f \<and> file_doc f = Some m \<and> manifest_digest m = Inr d \<and> item m ''action_digest'' = PyStr a
          \<and> p = entry_path ''actions'' a d)
     \<or> (\<exists>(root, good) \<in> record_kinds. \<exists>r d e. canonical_file f \<and> file_doc f = Some r \<and> good r \<and> is_digest e
          \<and> item r ''result_digest'' = PyStr d \<and> p = entry_path root d e)"

definition fs_inv :: "fs_store \<Rightarrow> bool" where
  "fs_inv s \<longleftrightarrow> distinct (map fst (fs_files s)) \<and> (\<forall>(p, f) \<in> set (fs_files s). file_ok p f)"

lemma fs_inv_empty: "fs_inv \<lparr>fs_name = n, fs_files = []\<rparr>"
  by (simp add: fs_inv_def)

lemma atomic_write_get:
  "al_get (atomic_write p b fs) q = (case al_get fs q of Some f \<Rightarrow> Some f | None \<Rightarrow> if q = p then Some (File b) else None)"
  by (auto simp: atomic_write_def split: option.splits)

text \<open>Publication is first-writer-wins: what is in place stays in place.\<close>

lemma atomic_write_immutable: "al_get fs q = Some f \<Longrightarrow> al_get (atomic_write p b fs) q = Some f"
  by (simp add: atomic_write_get)

lemma set_atomic_write: "set (atomic_write p b fs) \<subseteq> insert (p, File b) (set fs)"
proof -
  have "set (al_set fs p v) \<subseteq> insert (p, v) (set fs)" for v
    by (induction fs p v rule: al_set.induct) auto
  then show ?thesis by (auto simp: atomic_write_def split: option.splits)
qed

lemma fs_inv_write: "fs_inv s \<Longrightarrow> file_ok p (File b) \<Longrightarrow> fs_inv (s\<lparr>fs_files := atomic_write p b (fs_files s)\<rparr>)"
  using set_atomic_write [of p b "fs_files s"]
  by (auto simp: fs_inv_def atomic_write_def distinct_al_set split: option.splits)

lemma fs_inv_get: "fs_inv s \<Longrightarrow> al_get (fs_files s) p = Some f \<Longrightarrow> file_ok p f"
  using al_get_Some_in [of "fs_files s" p f] by (auto simp: fs_inv_def)

lemma canonical_file_encoded: "wf_val v \<Longrightarrow> canonical_json v = Inr b \<Longrightarrow> canonical_file (File b)"
  by (auto simp: canonical_file_def)

lemma canonical_file_doc:
  assumes "canonical_file f" "file_doc f = Some m"
  shows "\<exists>v. wf_val v \<and> m = norm v \<and> jsonable v"
  using assms by (auto simp: canonical_file_def file_doc_def read_json_def loads_canonical canonical_json_Inr split: sum.splits)

lemma file_doc_encoded: "wf_val v \<Longrightarrow> canonical_json v = Inr b \<Longrightarrow> file_doc (File b) = Some (norm v)"
  by (simp add: file_doc_def read_json_def loads_canonical)

section \<open>What a file at a path can be\<close>

lemma manifest_digest_is: "manifest_digest m = Inr d \<Longrightarrow> is_digest d"
  by (auto simp: manifest_digest_Inr object_digest_is_digest)

lemma manifest_action: "manifest_ok m \<Longrightarrow> \<exists>a. item m ''action_digest'' = PyStr a \<and> is_digest a"
  using digest_val_eq [of "item m ''action_digest''"] by (metis manifest_ok_def)

lemma manifest_action_is: "manifest_digest m = Inr d \<Longrightarrow> item m ''action_digest'' = PyStr a \<Longrightarrow> is_digest a"
  using manifest_action [of m] by (auto simp: manifest_digest_Inr)

lemma record_kinds_roots:
  "(root, good) \<in> record_kinds \<Longrightarrow> root \<noteq> ''actions'' \<and> root \<noteq> ''blobs'' \<and> root \<noteq> ''results''"
  "(root, good) \<in> record_kinds \<Longrightarrow> good r \<Longrightarrow> digest_val (item r ''result_digest'')"
  by (auto simp: record_kinds_def source_validation_ok_def invalidation_ok_def receipt_ok_def)

lemma digest_dir_roots:
  "digest_dir r d \<noteq> butlast (blob_path c) \<or> r = ''blobs''" "digest_dir r d \<noteq> butlast (result_path c) \<or> r = ''results''"
  by (auto simp: digest_dir_def blob_path_def result_path_def)

lemma file_ok_cases [consumes 1, case_names a_blob a_result an_action a_record]:
  assumes "file_ok p f"
  obtains b where "f = File b" "p = blob_path (digest_bytes b)"
    | m d where "canonical_file f" "file_doc f = Some m" "manifest_digest m = Inr d" "p = result_path d"
    | m d a where "canonical_file f" "file_doc f = Some m" "manifest_digest m = Inr d" "item m ''action_digest'' = PyStr a"
        "p = entry_path ''actions'' a d"
    | root good r d e where "(root, good) \<in> record_kinds" "canonical_file f" "file_doc f = Some r" "good r"
        "item r ''result_digest'' = PyStr d" "p = entry_path root d e"
  using assms unfolding file_ok_def by blast

lemma file_ok_blob:
  assumes "file_ok (blob_path d) f" "is_digest d"
  shows "\<exists>b. f = File b \<and> digest_bytes b = d"
  using assms(1)
proof (cases "blob_path d" f rule: file_ok_cases)
  case (a_blob b)
  from path_inj(1) [OF assms(2) is_digest_bytes, of b] a_blob show ?thesis by metis
next
  case (a_record root good r d' e)
  then show ?thesis using path_roots(3) [of root d d' e] record_kinds_roots(1) by metis
qed (simp_all add: path_roots)

lemma file_ok_result:
  assumes "file_ok (result_path d) f" "is_digest d"
  shows "\<exists>m. file_doc f = Some m \<and> manifest_digest m = Inr d"
  using assms(1)
proof (cases "result_path d" f rule: file_ok_cases)
  case (a_result m d')
  from path_inj(2) [OF assms(2) manifest_digest_is [OF a_result(3)]] a_result show ?thesis by metis
next
  case (a_record root good r d' e)
  then show ?thesis using path_roots(4) [of root d d' e] record_kinds_roots(1) by metis
qed (simp_all add: path_roots)

lemma file_ok_action_dir:
  assumes "file_ok p f" "butlast p = digest_dir ''actions'' a" "is_digest a"
  shows "\<exists>m d. canonical_file f \<and> file_doc f = Some m \<and> manifest_digest m = Inr d \<and> item m ''action_digest'' = PyStr a
    \<and> p = entry_path ''actions'' a d"
  using assms(1)
proof (cases p f rule: file_ok_cases)
  case (a_blob b)
  then show ?thesis using digest_dir_roots(1) [of "''actions''" a "digest_bytes b"] assms(2) by simp
next
  case (a_result m d)
  then show ?thesis using digest_dir_roots(2) [of "''actions''" a d] assms(2) by simp
next
  case (an_action m d a')
  with assms(2) path_inj(3) [OF manifest_action_is [OF an_action(3,4)] assms(3)] show ?thesis by auto
next
  case (a_record root good r d e)
  then show ?thesis using assms(2) record_kinds_roots(1) by (auto simp: digest_dir_def)
qed

lemma file_ok_record_dir:
  assumes "file_ok p f" "butlast p = digest_dir root d" "is_digest d" "(root, good) \<in> record_kinds"
  shows "\<exists>r. file_doc f = Some r \<and> good r \<and> item r ''result_digest'' = PyStr d"
  using assms(1)
proof (cases p f rule: file_ok_cases)
  case (a_blob b)
  then show ?thesis
    using digest_dir_roots(1) [of root d "digest_bytes b"] assms(2) record_kinds_roots(1) [OF assms(4)] by simp
next
  case (a_result m e)
  then show ?thesis using digest_dir_roots(2) [of root d e] assms(2) record_kinds_roots(1) [OF assms(4)] by simp
next
  case (an_action m e a)
  then show ?thesis using assms(2) record_kinds_roots(1) [OF assms(4)] by (auto simp: digest_dir_def)
next
  case (a_record root' good' r d' e)
  have "is_digest d'" using record_kinds_roots(2) [OF a_record(1,4)] a_record(5) by (simp add: digest_val_def)
  with path_inj(3) [OF this assms(3)] a_record(6) assms(2) have eq: "root' = root" "d' = d" by auto
  moreover have "good' = good" using a_record(1) assms(4) eq(1) by (auto simp: record_kinds_def)
  ultimately show ?thesis using a_record by blast
qed

section \<open>Directory reads\<close>

lemma glob_json_ok:
  "fs_inv s \<Longrightarrow> f \<in> set (glob_json dir (fs_files s)) \<Longrightarrow> \<exists>p. (p, f) \<in> set (fs_files s) \<and> file_ok p f \<and> butlast p = dir"
  by (fastforce simp: glob_json_def fs_inv_def)

lemma read_documents_sound: "read_documents check fs = Inr vs \<Longrightarrow> v \<in> set vs \<Longrightarrow> check v = Inr ()"
  by (induction fs arbitrary: vs) (auto simp: checks)

lemma read_documents_ok:
  "(\<And>f. f \<in> set fs \<Longrightarrow> \<exists>v. file_doc f = Some v \<and> check v = Inr ()) \<Longrightarrow>
   \<exists>vs. read_documents check fs = Inr vs \<and> (\<forall>v. v \<in> set vs \<longleftrightarrow> (\<exists>f \<in> set fs. file_doc f = Some v))"
proof (induction fs)
  case (Cons f fs)
  obtain v where v: "read_json f = Inr v" "check v = Inr ()"
    using Cons.prems [of f] by (auto simp: file_doc_def split: sum.splits)
  moreover obtain vs where "read_documents check fs = Inr vs" "\<forall>v. v \<in> set vs \<longleftrightarrow> (\<exists>f \<in> set fs. file_doc f = Some v)"
    using Cons by auto
  ultimately show ?case by (auto simp: file_doc_def)
qed simp

lemma catch_read_Inr [simp]: "catch_read msg m = Inr x \<longleftrightarrow> m = Inr x" "catch_read msg (Inr x) = Inr x"
  by (auto simp: catch_read_def split: sum.splits if_splits)

lemma fs_candidates_ok:
  assumes "fs_inv s" "is_digest a"
  shows "\<exists>cs. fs_candidates s a = Inr cs \<and> (\<forall>m. m \<in> set cs \<longleftrightarrow>
      (\<exists>f \<in> set (glob_json (digest_dir ''actions'' a) (fs_files s)). file_doc f = Some m))"
proof -
  have "\<exists>v. file_doc f = Some v \<and> validate_manifest v = Inr ()"
    if "f \<in> set (glob_json (digest_dir ''actions'' a) (fs_files s))" for f
    using glob_json_ok [OF assms(1) that] file_ok_action_dir [OF _ _ assms(2)]
    by (auto simp: validate_manifest_iff manifest_digest_Inr)
  from read_documents_ok [of "glob_json (digest_dir ''actions'' a) (fs_files s)" validate_manifest, OF this] assms(2)
  show ?thesis
    by (auto simp: fs_candidates_def)
qed

lemma fs_candidate_manifest:
  assumes "fs_inv s" "is_digest a" "fs_candidates s a = Inr cs" "m \<in> set cs"
  shows "manifest_ok m \<and> item m ''action_digest'' = PyStr a"
proof -
  obtain f where f: "f \<in> set (glob_json (digest_dir ''actions'' a) (fs_files s))" "file_doc f = Some m"
    using fs_candidates_ok [OF assms(1,2)] assms(3,4) by auto
  obtain p where "file_ok p f" "butlast p = digest_dir ''actions'' a" using glob_json_ok [OF assms(1) f(1)] by blast
  from file_ok_action_dir [OF this assms(2)] f(2) show ?thesis by (auto simp: manifest_digest_Inr)
qed

section \<open>The filesystem store keeps the contract\<close>

lemma fs_put_result_Inr:
  "fs_put_result s m = Inr s' \<longleftrightarrow> manifest_ok m \<and> (\<exists>d b. object_digest m = Inr d \<and> canonical_json m = Inr b \<and>
     s' = s\<lparr>fs_files := atomic_write (entry_path ''actions'' (str_of (item m ''action_digest'')) d) b
       (atomic_write (result_path d) b (fs_files s))\<rparr>)"
  using manifest_action [of m]
  by (auto simp: fs_put_result_def checks validate_manifest_iff manifest_digest_Inr Let_def)

lemma file_ok_manifest:
  assumes "wf_val m" "manifest_ok m" "object_digest m = Inr d" "canonical_json m = Inr b"
  shows "file_ok (result_path d) (File b)"
    "file_ok (entry_path ''actions'' (str_of (item m ''action_digest'')) d) (File b)"
proof -
  have doc: "file_doc (File b) = Some (norm m)" by (rule file_doc_encoded) (use assms in auto)
  have cf: "canonical_file (File b)" by (rule canonical_file_encoded) (use assms in auto)
  have d: "manifest_digest (norm m) = Inr d"
    using assms by (intro manifest_digest_norm) (simp_all add: manifest_digest_Inr)
  have a: "item (norm m) ''action_digest'' = PyStr (str_of (item m ''action_digest''))"
    using manifest_action [OF assms(2)] item_norm [OF manifest_parts(1) [OF assms(1,2)]] by auto
  show "file_ok (result_path d) (File b)" unfolding file_ok_def using doc d cf by blast
  show "file_ok (entry_path ''actions'' (str_of (item m ''action_digest'')) d) (File b)"
    unfolding file_ok_def using doc d a cf by blast
qed

lemma fs_inv_put_blob: "fs_inv s \<Longrightarrow> fs_inv (fst (fs_put_blob s b))"
  unfolding fs_put_blob_def Let_def fst_conv by (rule fs_inv_write) (auto simp: file_ok_def)

lemma fs_inv_put_result:
  assumes "fs_inv s" "wf_val m" "fs_put_result s m = Inr s'"
  shows "fs_inv s'"
proof -
  obtain d b where p: "manifest_ok m" "object_digest m = Inr d" "canonical_json m = Inr b"
    and s': "s' = s\<lparr>fs_files := atomic_write (entry_path ''actions'' (str_of (item m ''action_digest'')) d) b
       (atomic_write (result_path d) b (fs_files s))\<rparr>"
    using assms(3) by (auto simp: fs_put_result_Inr)
  note ok = file_ok_manifest [OF assms(2) p]
  from fs_inv_write [OF fs_inv_write [OF assms(1) ok(1)] ok(2)] show ?thesis by (simp add: s')
qed

lemma put_record_Inr:
  assumes "put_record root validator digest_of s r = Inr s'" "digest_val (item r ''result_digest'')"
  shows "validator r = Inr () \<and> (\<exists>e b. digest_of r = Inr e \<and> canonical_json r = Inr b \<and>
    s' = s\<lparr>fs_files := atomic_write (entry_path root (str_of (item r ''result_digest'')) e) b (fs_files s)\<rparr>)"
  using assms digest_val_eq [OF assms(2)] by (auto simp: put_record_def checks)

lemma fs_inv_put_record:
  assumes "fs_inv s" "wf_val r" "put_record root validator digest_of s r = Inr s'"
    and kind: "(root, good) \<in> record_kinds" and val: "\<And>v. validator v = Inr () \<longleftrightarrow> good v"
    and dig: "\<And>v e. digest_of v = Inr e \<Longrightarrow> is_digest e"
    and stable: "\<And>v. wf_val v \<Longrightarrow> good v \<Longrightarrow> good (norm v)"
  shows "fs_inv s'"
proof -
  have good: "good r" using assms(3) val by (auto simp: put_record_def checks)
  note dv = record_kinds_roots(2) [OF kind good]
  obtain e b where p: "digest_of r = Inr e" "canonical_json r = Inr b"
    and s': "s' = s\<lparr>fs_files := atomic_write (entry_path root (str_of (item r ''result_digest'')) e) b (fs_files s)\<rparr>"
    using put_record_Inr [OF assms(3) dv] by blast
  have j: "jsonable r" using p(2) assms(2) by (simp add: canonical_json_Inr)
  have "item (norm r) ''result_digest'' = PyStr (str_of (item r ''result_digest''))"
    using digest_val_eq [OF dv] dv by (simp add: item_norm [OF j] norm_str digest_val_def)
  then have "file_ok (entry_path root (str_of (item r ''result_digest'')) e) (File b)"
    unfolding file_ok_def using kind file_doc_encoded [OF assms(2) p(2)] canonical_file_encoded [OF assms(2) p(2)] stable [OF assms(2) good] dig [OF p(1)] by blast
  from fs_inv_write [OF assms(1) this] show ?thesis by (simp add: s')
qed

lemma record_digests:
  "validation_digest v = Inr e \<Longrightarrow> is_digest e" "invalidation_digest v = Inr e \<Longrightarrow> is_digest e"
  "receipt_digest v = Inr e \<Longrightarrow> is_digest e"
  by (auto simp: validation_digest_def invalidation_digest_def receipt_digest_def seq_Inr object_digest_is_digest)

lemma fs_inv_put_records:
  assumes "fs_inv s" "wf_val r"
  shows "fs_put_validation s r = Inr s' \<Longrightarrow> fs_inv s'" "fs_put_invalidation s r = Inr s' \<Longrightarrow> fs_inv s'"
    "fs_put_receipt s r = Inr s' \<Longrightarrow> fs_inv s'"
  using fs_inv_put_record [OF assms, of "''validations''" _ _ s' source_validation_ok]
    fs_inv_put_record [OF assms, of "''invalidations''" _ _ s' invalidation_ok]
    fs_inv_put_record [OF assms, of "''receipts''" _ _ s' "receipt_ok False"]
    record_digests source_validation_ok_norm invalidation_ok_norm receipt_ok_norm
  by (auto simp: fs_put_validation_def fs_put_invalidation_def fs_put_receipt_def record_kinds_def
      validate_source_validation_iff validate_invalidation_iff validate_receipt_iff)

lemma fs_put_blob_get:
  assumes "fs_inv s"
  shows "\<exists>b'. fs_get_blob (fst (fs_put_blob s b)) (digest_bytes b) = Inr (Some b') \<and> digest_bytes b' = digest_bytes b"
proof -
  let ?s = "fst (fs_put_blob s b)"
  obtain f where f: "al_get (fs_files ?s) (blob_path (digest_bytes b)) = Some f"
    by (cases "al_get (fs_files s) (blob_path (digest_bytes b))")
      (auto simp: fs_put_blob_def Let_def atomic_write_get)
  from file_ok_blob [OF fs_inv_get [OF fs_inv_put_blob [OF assms] f]]
  obtain b' where "f = File b'" "digest_bytes b' = digest_bytes b" by auto
  with f show ?thesis by (simp add: fs_get_blob_def)
qed

lemma fs_put_result_candidate:
  assumes "fs_inv s" "wf_val m" "fs_put_result s m = Inr s'"
  shows "\<exists>cs m'. fs_candidates s' (str_of (item m ''action_digest'')) = Inr cs \<and> m' \<in> set cs \<and> stands_for m m'"
proof -
  note inv' = fs_inv_put_result [OF assms]
  obtain d b where p: "manifest_ok m" "object_digest m = Inr d" "canonical_json m = Inr b"
    and s': "s' = s\<lparr>fs_files := atomic_write (entry_path ''actions'' (str_of (item m ''action_digest'')) d) b
       (atomic_write (result_path d) b (fs_files s))\<rparr>"
    using assms(3) by (auto simp: fs_put_result_Inr)
  obtain a where a: "item m ''action_digest'' = PyStr a" "is_digest a" using manifest_action [OF p(1)] by blast
  let ?p = "entry_path ''actions'' a d"
  obtain f where f: "al_get (fs_files s') ?p = Some f"
    by (cases "al_get (fs_files s') ?p") (auto simp: s' a(1) atomic_write_get split: option.splits)
  obtain m' d' where cf: "canonical_file f" and m': "file_doc f = Some m'" "manifest_digest m' = Inr d'" "?p = entry_path ''actions'' a d'"
    using file_ok_action_dir [OF fs_inv_get [OF inv' f] butlast_entry(1) a(2)] by blast
  have "is_digest d" "is_digest d'" using p(2) m'(2) object_digest_is_digest manifest_digest_is by blast+
  with m'(3) entry_path_inj [OF a(2,2)] have "d' = d" by auto
  then have same: "same_document m m'" using p(2) m'(2) by (auto simp: same_document_def manifest_digest_Inr)
  obtain v where v: "wf_val v" "m' = norm v" "jsonable v" using canonical_file_doc [OF cf m'(1)] by blast
  then have cv: "canonical_json m' = canonical_json v" by (simp add: canonical_json_of_norm)
  have "object_digest v = Inr d" using same v p(2) by (simp add: same_document_def object_digest_norm)
  from object_digest_inj [OF assms(2) v(1) p(2) this] have "stands_for m m'"
    unfolding stands_for_def collides_def cv using same v by metis
  moreover have "f \<in> set (glob_json (digest_dir ''actions'' a) (fs_files s'))"
    using al_get_Some_in [OF f] by (force simp: glob_json_def)
  ultimately show ?thesis using fs_candidates_ok [OF inv' a(2)] m'(1) a(1) by auto
qed

lemma fs_result_sound: "fs_result s d = Inr (Some m) \<Longrightarrow> manifest_digest m = Inr d"
  by (auto simp: fs_result_def checks split: option.splits)

lemma fs_result_ok: "fs_inv s \<Longrightarrow> is_digest d \<Longrightarrow> \<exists>r. fs_result s d = Inr r"
proof -
  assume a: "fs_inv s" "is_digest d"
  show ?thesis
  proof (cases "al_get (fs_files s) (result_path d)")
    case (Some f)
    from file_ok_result [OF fs_inv_get [OF a(1) Some] a(2)]
    obtain m where m: "read_json f = Inr m" "manifest_digest m = Inr d"
      by (auto simp: file_doc_def split: sum.splits)
    then have "validate_manifest m = Inr ()" by (simp add: validate_manifest_iff manifest_digest_Inr)
    with m Some a(2) show ?thesis by (simp add: fs_result_def guard_def)
  qed (simp add: fs_result_def a)
qed

lemma fs_get_blob_ok: "fs_inv s \<Longrightarrow> is_digest d \<Longrightarrow> \<exists>b. fs_get_blob s d = Inr b"
  using fs_inv_get [of s "blob_path d"] file_ok_blob [of d]
  by (cases "al_get (fs_files s) (blob_path d)") (fastforce simp: fs_get_blob_def)+

interpretation fs: result_store filesystem_ops fs_inv
proof
  fix s :: fs_store and m b d b' s'
  assume inv: "fs_inv s"
  show "fs_inv (fst (so_put_blob filesystem_ops s b))" using inv by (simp add: filesystem_ops_def fs_inv_put_blob)
  show "snd (so_put_blob filesystem_ops s b) = digest_bytes b"
    by (simp add: filesystem_ops_def fs_put_blob_def Let_def)
  show "\<exists>b'. sv_get_blob (so_view filesystem_ops (fst (so_put_blob filesystem_ops s b))) (digest_bytes b) = Inr (Some b')
      \<and> digest_bytes b' = digest_bytes b"
    using fs_put_blob_get [OF inv] by (simp add: filesystem_ops_def fs_view_def)
  show "sv_get_blob (so_view filesystem_ops (fst (so_put_blob filesystem_ops s b))) d = Inr (Some b') \<or> d = digest_bytes b"
    if "sv_get_blob (so_view filesystem_ops s) d = Inr (Some b')"
    using that by (auto simp: filesystem_ops_def fs_view_def fs_get_blob_def fs_put_blob_def Let_def atomic_write_get
        checks split: option.splits)
  show "fs_inv s'" if "wf_val m" "so_put_result filesystem_ops s m = Inr s'"
    using fs_inv_put_result [OF inv] that by (simp add: filesystem_ops_def)
  show "manifest_ok m" if "so_put_result filesystem_ops s m = Inr s'"
    using that by (simp add: filesystem_ops_def fs_put_result_Inr)
  show "\<exists>s'. so_put_result filesystem_ops s m = Inr s'" if "manifest_ok m"
    using that by (simp add: filesystem_ops_def fs_put_result_Inr manifest_ok_def object_digest_def)
      (metis ok_iff rbind_simps(2))
  show "\<exists>cs m'. sv_candidates (so_view filesystem_ops s') (str_of (item m ''action_digest'')) = Inr cs
      \<and> m' \<in> set cs \<and> stands_for m m'" if "wf_val m" "so_put_result filesystem_ops s m = Inr s'"
    using fs_put_result_candidate [OF inv] that by (simp add: filesystem_ops_def fs_view_def)
  show "sv_get_blob (so_view filesystem_ops s') d = sv_get_blob (so_view filesystem_ops s) d"
    if "so_put_result filesystem_ops s m = Inr s'"
    using that by (auto simp: filesystem_ops_def fs_view_def fs_get_blob_def fs_put_result_Inr atomic_write_get
        path_roots split: option.splits)
  show "\<exists>cs. sv_candidates (so_view filesystem_ops s) d = Inr cs \<and> (\<forall>m \<in> set cs. manifest_ok m)" if "is_digest d"
    using fs_candidates_ok [OF inv that] fs_candidate_manifest [OF inv that]
    by (auto simp: filesystem_ops_def fs_view_def)
  show "\<exists>f r. sv_result (so_view filesystem_ops s) = Some f \<and> f d = Inr r \<and> (\<forall>m. r = Some m \<longrightarrow> manifest_digest m = Inr d)"
    if "is_digest d"
    using fs_result_ok [OF inv that] fs_result_sound by (auto simp: filesystem_ops_def fs_view_def)
  show "\<exists>b. sv_get_blob (so_view filesystem_ops s) d = Inr b" if "is_digest d"
    using fs_get_blob_ok [OF inv that] by (simp add: filesystem_ops_def fs_view_def)
qed

section \<open>Reading the records of a result\<close>

lemma fs_records_ok:
  assumes "fs_inv s" "is_digest d" "(root, good) \<in> record_kinds" "\<And>v. validator v = Inr () \<longleftrightarrow> good v"
  shows "\<exists>vs. fs_records root validator msg s d = Inr vs \<and> (\<forall>v \<in> set vs. good v)"
proof -
  have "\<exists>v. file_doc f = Some v \<and> check_record validator d v = Inr ()"
    if f: "f \<in> set (glob_json (digest_dir root d) (fs_files s))" for f
  proof -
    obtain p where "file_ok p f" "butlast p = digest_dir root d" using glob_json_ok [OF assms(1) f] by blast
    from file_ok_record_dir [OF this assms(2,3)] show ?thesis
      by (auto simp: check_record_def checks assms(4))
  qed
  from read_documents_ok [of "glob_json (digest_dir root d) (fs_files s)" "check_record validator d", OF this]
  obtain vs where vs: "read_documents (check_record validator d) (glob_json (digest_dir root d) (fs_files s)) = Inr vs"
    by blast
  then have "\<forall>v \<in> set vs. good v"
    using read_documents_sound [OF vs] by (auto simp: check_record_def checks assms(4))
  with vs assms(2) show ?thesis by (simp add: fs_records_def)
qed

end
