(* ===== verification/Cache.thy ===== *)
theory Cache
  imports Fs_Store
begin

text \<open>
  Publication, ordered lookup and the admissibility checks (\<open>cache.py\<close>). \<open>evaluate\<close> and
  \<open>evaluate_dependencies\<close> are \<open>_evaluate\<close> and the dependency loop inside it; the traversal is
  threaded through them as the code mutates it. The recursion ends because a dependency is
  evaluated one level deeper and levels beyond \<open>max_dependency_depth\<close> are rejected. The checks
  before the loop are cut into \<open>admission\<close>, \<open>freshness\<close> and \<open>load_artifacts\<close>.
\<close>

section \<open>Policies and outcomes\<close>

record policy =
  p_now :: int
  p_trusted_producers :: "pystr set option"
  p_trusted_validation_producers :: "pystr set option"
  p_trusted_invalidation_producers :: "pystr set option"
  p_permit_no_expiry :: bool
  p_require_lineage :: bool
  p_max_dependency_depth :: int
  p_max_dependency_count :: int

definition default_policy :: "int \<Rightarrow> policy" where
  "default_policy now =
     \<lparr>p_now = now, p_trusted_producers = None, p_trusted_validation_producers = None,
      p_trusted_invalidation_producers = None, p_permit_no_expiry = False, p_require_lineage = False,
      p_max_dependency_depth = 8, p_max_dependency_count = 64\<rparr>"

definition policy_init :: "policy \<Rightarrow> policy result" where
  "policy_init P =
     seq (first_error
       [guard (0 < p_max_dependency_depth P) (ValueError ''max_dependency_depth must be a positive integer''),
        guard (0 < p_max_dependency_count P) (ValueError ''max_dependency_count must be a positive integer'')])
       (Inr P)"

text \<open>\<open>trust is None or producer in trust\<close>\<close>

definition in_trust :: "pyval \<Rightarrow> pystr set option \<Rightarrow> bool" where
  "in_trust producer trust = (case trust of None \<Rightarrow> True | Some ps \<Rightarrow> is_str producer \<and> str_of producer \<in> ps)"

definition trust_or :: "pystr set option \<Rightarrow> pystr set option \<Rightarrow> pystr set option" where
  "trust_or specific general = (case specific of Some ps \<Rightarrow> Some ps | None \<Rightarrow> general)"

type_synonym artifacts = "(pystr \<times> bytes) list"

record lookup_outcome =
  lo_hit :: bool
  lo_tier :: "pystr option"
  lo_manifest :: "pyval option"
  lo_artifacts :: artifacts
  lo_rejections :: "pystr list"
  lo_validation :: "pyval option"

datatype 'a decision = Reject string | Proceed 'a

section \<open>Publication\<close>

text \<open>
  The artifacts and dependencies arguments are mappings, so their names are distinct and sorting
  their items sorts by name. A publication that raises leaves behind the blobs it has stored,
  so these functions return the store together with the result.
\<close>

fun put_artifacts :: "'s store_ops \<Rightarrow> 's \<Rightarrow> (pystr \<times> bytes \<times> pystr) list \<Rightarrow> 's \<times> pyval list" where
  "put_artifacts ops s [] = (s, [])"
| "put_artifacts ops s ((name, data, media_type) # rest) =
     (let (s1, digest) = so_put_blob ops s data;
          (s2, descriptors) = put_artifacts ops s1 rest
      in (s2, obj [(''name'', PyStr name), (''digest'', PyStr digest), (''size'', PyInt (int (length data))),
                   (''media_type'', PyStr media_type)] # descriptors))"

definition dependency_entries :: "(pystr \<times> pystr) list \<Rightarrow> pyval" where
  "dependency_entries deps =
     PyList (map (\<lambda>(name, digest). obj [(''name'', PyStr name), (''result_digest'', PyStr digest)]) (sort_key fst deps))"

definition format_optional :: "datetime option \<Rightarrow> pyval result" where
  "format_optional t = (case t of None \<Rightarrow> Inr PyNone | Some v \<Rightarrow> rbind (format_time v) (\<lambda>s. Inr (PyStr s)))"

definition build_manifest ::
  "pyval \<Rightarrow> pyval list \<Rightarrow> pystr \<Rightarrow> datetime \<Rightarrow> datetime option \<Rightarrow> (pystr \<times> pystr) list option \<Rightarrow> pyval result" where
  "build_manifest action descriptors producer produced_at fresh_until dependencies =
     rbind (action_digest action) (\<lambda>digest.
     rbind (format_time produced_at) (\<lambda>produced.
     rbind (format_optional fresh_until) (\<lambda>fresh.
       Inr (obj
         ([(''spec_version'', if dependencies \<noteq> None then result_v1 else result_v0),
           (''action_digest'', PyStr digest), (''artifacts'', PyList descriptors),
           (''produced_at'', PyStr produced), (''fresh_until'', fresh), (''producer'', PyStr producer)]
          @ (case dependencies of None \<Rightarrow> [] | Some deps \<Rightarrow> [(''dependencies'', dependency_entries deps)]))))))"

definition publish_result ::
  "'s store_ops \<Rightarrow> 's \<Rightarrow> pyval \<Rightarrow> (pystr \<times> bytes \<times> pystr) list \<Rightarrow> pystr \<Rightarrow> datetime \<Rightarrow> datetime option
     \<Rightarrow> (pystr \<times> pystr) list option \<Rightarrow> 's \<times> pyval result" where
  "publish_result ops s action artifacts producer produced_at fresh_until dependencies =
     (let (s1, descriptors) = put_artifacts ops s (sort_key fst artifacts)
      in case build_manifest action descriptors producer produced_at fresh_until dependencies of
           Inl e \<Rightarrow> (s1, Inl e)
         | Inr manifest \<Rightarrow>
             (case so_put_result ops s1 manifest of
                Inl e \<Rightarrow> (s1, Inl e)
              | Inr s2 \<Rightarrow> (s2, Inr manifest)))"

definition publish_signed_result ::
  "ed25519 \<Rightarrow> 's store_ops \<Rightarrow> 's \<Rightarrow> pyval \<Rightarrow> (pystr \<times> bytes \<times> pystr) list \<Rightarrow> pystr \<Rightarrow> datetime \<Rightarrow> datetime option
     \<Rightarrow> (pystr \<times> pystr) list option \<Rightarrow> pyval \<Rightarrow> bytes \<Rightarrow> 's \<times> (pyval \<times> pyval) result" where
  "publish_signed_result E ops s action artifacts producer produced_at fresh_until dependencies environment private_key =
     (case publish_result ops s action artifacts producer produced_at fresh_until dependencies of
        (s1, Inl e) \<Rightarrow> (s1, Inl e)
      | (s1, Inr manifest) \<Rightarrow>
          (case rbind (manifest_digest manifest) (\<lambda>digest.
                  sign_receipt E
                    (obj [(''spec_version'', S ''oncemesh.receipt/v0''), (''result_digest'', PyStr digest),
                          (''producer'', PyStr producer), (''executor_environment'', environment),
                          (''signature'', PyNone)]) private_key) of
             Inl e \<Rightarrow> (s1, Inl e)
           | Inr receipt \<Rightarrow>
               (case so_put_receipt ops s1 receipt of
                  Inl e \<Rightarrow> (s1, Inl e)
                | Inr s2 \<Rightarrow> (s2, Inr (manifest, receipt)))))"

definition publish_invalidation ::
  "'s store_ops \<Rightarrow> 's \<Rightarrow> pystr \<Rightarrow> pystr \<Rightarrow> datetime \<Rightarrow> pystr \<Rightarrow> ('s \<times> pyval) result" where
  "publish_invalidation ops s result_digest producer invalidated_at reason =
     rbind (format_time invalidated_at) (\<lambda>at.
       let r = obj [(''spec_version'', S ''oncemesh.invalidation/v0''), (''result_digest'', PyStr result_digest),
                    (''invalidated_at'', PyStr at), (''producer'', PyStr producer), (''reason'', PyStr reason)]
       in rbind (so_put_invalidation ops s r) (\<lambda>s'. Inr (s', r)))"

section \<open>Admission of one manifest\<close>

fun effective_invalidation :: "pystr set option \<Rightarrow> int \<Rightarrow> pyval list \<Rightarrow> string option result" where
  "effective_invalidation trust now [] = Inr None"
| "effective_invalidation trust now (r # rs) =
     (if in_trust (item r ''producer'') trust then
        rbind (parse_time (str_of (item r ''invalidated_at''))) (\<lambda>t.
          if t \<le> now then Inr (Some ''invalidated'') else effective_invalidation trust now rs)
      else effective_invalidation trust now rs)"

definition effective_invalidated :: "policy \<Rightarrow> pyval \<Rightarrow> store_view \<Rightarrow> bool \<Rightarrow> string option result" where
  "effective_invalidated P manifest s required =
     (case sv_invalidations s of
        None \<Rightarrow> Inr (if required then Some ''invalidation_lookup_unsupported'' else None)
      | Some reader \<Rightarrow>
          (case rbind (manifest_digest manifest) reader of
             Inl (StoreReadError _) \<Rightarrow> Inr (Some ''invalidation_read_failed'')
           | Inl e \<Rightarrow> Inl e
           | Inr records \<Rightarrow>
               effective_invalidation (trust_or (p_trusted_invalidation_producers P) (p_trusted_producers P))
                 (p_now P) records))"

fun select_validation :: "pystr set option \<Rightarrow> int \<Rightarrow> pyval list \<Rightarrow> pyval option result" where
  "select_validation trust now [] = Inr None"
| "select_validation trust now (v # vs) =
     (if in_trust (item v ''producer'') trust then
        rbind (parse_time (str_of (item v ''fresh_until''))) (\<lambda>t.
          if now \<le> t then Inr (Some v) else select_validation trust now vs)
      else select_validation trust now vs)"

definition manifest_fresh :: "policy \<Rightarrow> pyval \<Rightarrow> bool result" where
  "manifest_fresh P manifest =
     (if item manifest ''fresh_until'' = PyNone then Inr False
      else rbind (parse_time (str_of (item manifest ''fresh_until''))) (\<lambda>t. Inr (p_now P \<le> t)))"

definition freshness :: "policy \<Rightarrow> pyval \<Rightarrow> store_view \<Rightarrow> pystr \<Rightarrow> pyval option decision result" where
  "freshness P manifest s exact =
     rbind (manifest_fresh P manifest) (\<lambda>fresh.
       if fresh then Inr (Proceed None)
       else
         (case sv_validations s exact of
            Inl (StoreReadError _) \<Rightarrow> Inr (Reject ''validation_read_failed'')
          | Inl e \<Rightarrow> Inl e
          | Inr validations \<Rightarrow>
              rbind (select_validation (trust_or (p_trusted_validation_producers P) (p_trusted_producers P))
                       (p_now P) validations) (\<lambda>selected.
                case selected of
                  Some v \<Rightarrow> Inr (Proceed (Some v))
                | None \<Rightarrow>
                    if item manifest ''fresh_until'' = PyNone then
                      (if p_permit_no_expiry P then Inr (Proceed None) else Inr (Reject ''missing_freshness_rule''))
                    else Inr (Reject ''expired''))))"

definition admission ::
  "policy \<Rightarrow> pystr \<Rightarrow> pyval \<Rightarrow> store_view \<Rightarrow> pystr set \<Rightarrow> int \<Rightarrow> bool \<Rightarrow> pyval option decision result" where
  "admission P requested manifest s active depth ignore_freshness =
     (case validate_manifest manifest of
        Inl e \<Rightarrow> if is_value_error e then Inr (Reject ''invalid_manifest'') else Inl e
      | Inr _ \<Rightarrow>
          if item manifest ''action_digest'' \<noteq> PyStr requested then Inr (Reject ''action_digest_mismatch'')
          else if p_require_lineage P \<and> item manifest ''spec_version'' \<noteq> result_v1 then Inr (Reject ''lineage_required'')
          else rbind (manifest_digest manifest) (\<lambda>exact.
            if p_max_dependency_depth P < depth then Inr (Reject ''dependency_depth_exceeded'')
            else if exact \<in> active then Inr (Reject ''dependency_cycle'')
            else if \<not> in_trust (item manifest ''producer'') (p_trusted_producers P) then Inr (Reject ''untrusted_producer'')
            else rbind (effective_invalidated P manifest s
                          (item manifest ''spec_version'' = result_v1 \<or> 0 < depth)) (\<lambda>failure.
              case failure of
                Some reason \<Rightarrow> Inr (Reject reason)
              | None \<Rightarrow> if ignore_freshness then Inr (Proceed None) else freshness P manifest s exact)))"

fun load_artifacts :: "store_view \<Rightarrow> pyval set \<Rightarrow> pyval list \<Rightarrow> artifacts decision result" where
  "load_artifacts s names [] = Inr (Proceed [])"
| "load_artifacts s names (descriptor # rest) =
     (if \<not> is_str (item descriptor ''name'') \<or> item descriptor ''name'' \<in> names
      then Inr (Reject ''invalid_artifact_name'')
      else rbind (sv_get_blob s (str_of (item descriptor ''digest''))) (\<lambda>found.
        case found of
          None \<Rightarrow> Inr (Reject ''artifact_missing'')
        | Some blob \<Rightarrow>
            if PyInt (int (length blob)) \<noteq> item descriptor ''size''
               \<or> PyStr (digest_bytes blob) \<noteq> item descriptor ''digest''
            then Inr (Reject ''artifact_integrity_failure'')
            else rbind (load_artifacts s (insert (item descriptor ''name'') names) rest) (\<lambda>d.
              case d of
                Reject reason \<Rightarrow> Inr (Reject reason)
              | Proceed loaded \<Rightarrow> Inr (Proceed ((str_of (item descriptor ''name''), blob) # loaded)))))"

section \<open>Locating a dependency\<close>

text \<open>The flags are \<open>read_failed\<close> and \<open>supported\<close>.\<close>

fun locate_result :: "pystr \<Rightarrow> store_view list \<Rightarrow> bool \<Rightarrow> bool \<Rightarrow> (pyval \<times> store_view) decision result" where
  "locate_result digest [] read_failed supported =
     Inr (Reject (if read_failed then ''dependency_read_failed''
                  else if \<not> supported then ''dependency_lookup_unsupported'' else ''dependency_missing''))"
| "locate_result digest (s # stores) read_failed supported =
     (case sv_result s of
        None \<Rightarrow> locate_result digest stores read_failed supported
      | Some reader \<Rightarrow>
          (case reader digest of
             Inl (StoreReadError _) \<Rightarrow> locate_result digest stores True True
           | Inl e \<Rightarrow> Inl e
           | Inr None \<Rightarrow> locate_result digest stores read_failed True
           | Inr (Some manifest) \<Rightarrow>
               (case manifest_digest manifest of
                  Inl e \<Rightarrow> if is_value_error e then Inr (Reject ''dependency_invalid_manifest'') else Inl e
                | Inr d \<Rightarrow> if d \<noteq> digest then Inr (Reject ''dependency_digest_mismatch'')
                          else Inr (Proceed (manifest, s)))))"

definition propagate :: "string \<Rightarrow> string" where
  "propagate failure = (if starts_with ''dependency_'' failure then failure else ''dependency_'' @ failure)"

section \<open>Evaluation\<close>

record traversal =
  t_active :: "pystr set"
  t_edges :: int

definition new_traversal :: traversal where
  "new_traversal = \<lparr>t_active = {}, t_edges = 0\<rparr>"

definition digest_of :: "pyval \<Rightarrow> pystr" where
  "digest_of manifest = (case manifest_digest manifest of Inr d \<Rightarrow> d | Inl _ \<Rightarrow> [])"

lemma admission_depth:
  "admission P requested m s active depth ignore = Inr (Proceed v) \<Longrightarrow> depth \<le> p_max_dependency_depth P"
  by (auto simp: admission_def rbind_Inr split: sum.splits if_splits)

function evaluate ::
    "policy \<Rightarrow> store_view list \<Rightarrow> pystr \<Rightarrow> pyval \<Rightarrow> store_view \<Rightarrow> traversal \<Rightarrow> int \<Rightarrow> bool
       \<Rightarrow> ((artifacts \<times> pyval option) decision \<times> traversal) result"
  and evaluate_dependencies ::
    "policy \<Rightarrow> store_view list \<Rightarrow> traversal \<Rightarrow> int \<Rightarrow> pyval list \<Rightarrow> (unit decision \<times> traversal) result" where
  "evaluate P stores requested manifest s t depth ignore_freshness =
     (case admission P requested manifest s (t_active t) depth ignore_freshness of
        Inl e \<Rightarrow> Inl e
      | Inr (Reject reason) \<Rightarrow> Inr (Reject reason, t)
      | Inr (Proceed validation) \<Rightarrow>
          (case load_artifacts s {} (artifacts_of manifest) of
             Inl e \<Rightarrow> Inl e
           | Inr (Reject reason) \<Rightarrow> Inr (Reject reason, t)
           | Inr (Proceed loaded) \<Rightarrow>
               if item manifest ''spec_version'' = result_v1 then
                 (case evaluate_dependencies P stores (t\<lparr>t_active := insert (digest_of manifest) (t_active t)\<rparr>)
                         (depth + 1) (dependencies_of manifest) of
                    Inl e \<Rightarrow> Inl e
                  | Inr (d, t') \<Rightarrow>
                      (let t'' = t'\<lparr>t_active := t_active t' - {digest_of manifest}\<rparr>
                       in case d of
                            Reject reason \<Rightarrow> Inr (Reject reason, t'')
                          | Proceed _ \<Rightarrow> Inr (Proceed (loaded, validation), t'')))
               else Inr (Proceed (loaded, validation), t)))"
| "evaluate_dependencies P stores t depth [] = Inr (Proceed (), t)"
| "evaluate_dependencies P stores t depth (dependency # ds) =
     (let t1 = t\<lparr>t_edges := t_edges t + 1\<rparr>
      in if p_max_dependency_count P < t_edges t1 then Inr (Reject ''dependency_count_exceeded'', t1)
         else
           (case locate_result (str_of (item dependency ''result_digest'')) stores False False of
              Inl e \<Rightarrow> Inl e
            | Inr (Reject reason) \<Rightarrow> Inr (Reject reason, t1)
            | Inr (Proceed (m, s)) \<Rightarrow>
                (case evaluate P stores (str_of (item m ''action_digest'')) m s t1 depth False of
                   Inl e \<Rightarrow> Inl e
                 | Inr (Reject reason, t2) \<Rightarrow> Inr (Reject (propagate reason), t2)
                 | Inr (Proceed _, t2) \<Rightarrow> evaluate_dependencies P stores t2 depth ds)))"
  by pat_completeness auto

termination
proof (relation "inv_image (less_than <*lex*> less_than <*lex*> less_than)
    (\<lambda>x. case x of
       Inl (P, _, _, _, _, _, depth, _) \<Rightarrow> (nat (p_max_dependency_depth P + 1 - depth), 0, 0)
     | Inr (P, _, _, depth, ds) \<Rightarrow> (nat (p_max_dependency_depth P + 1 - depth), 1, length ds))")
qed (auto dest!: admission_depth)

section \<open>Lookup\<close>

definition note_rejection :: "store_view \<Rightarrow> string \<Rightarrow> pystr" where
  "note_rejection s reason = sv_name s @ u '':'' @ u reason"

fun try_candidates ::
  "policy \<Rightarrow> store_view list \<Rightarrow> pystr \<Rightarrow> bool \<Rightarrow> store_view \<Rightarrow> pyval list \<Rightarrow> pystr list
     \<Rightarrow> ((pyval \<times> artifacts \<times> pyval option) option \<times> pystr list) result" where
  "try_candidates P stores requested ignore s [] rejections = Inr (None, rejections)"
| "try_candidates P stores requested ignore s (m # ms) rejections =
     (case evaluate P stores requested m s new_traversal 0 ignore of
        Inl e \<Rightarrow> Inl e
      | Inr (Reject reason, _) \<Rightarrow>
          try_candidates P stores requested ignore s ms (rejections @ [note_rejection s reason])
      | Inr (Proceed (loaded, validation), _) \<Rightarrow> Inr (Some (m, loaded, validation), rejections))"

fun search_stores ::
  "policy \<Rightarrow> store_view list \<Rightarrow> pystr \<Rightarrow> bool \<Rightarrow> store_view list \<Rightarrow> pystr list \<Rightarrow> lookup_outcome result" where
  "search_stores P stores requested ignore [] rejections =
     Inr \<lparr>lo_hit = False, lo_tier = None, lo_manifest = None, lo_artifacts = [], lo_rejections = rejections,
          lo_validation = None\<rparr>"
| "search_stores P stores requested ignore (s # rest) rejections =
     (case sv_candidates s requested of
        Inl (StoreReadError message) \<Rightarrow>
          search_stores P stores requested ignore rest (rejections @ [note_rejection s message])
      | Inl e \<Rightarrow> Inl e
      | Inr candidates \<Rightarrow>
          (case try_candidates P stores requested ignore s candidates rejections of
             Inl e \<Rightarrow> Inl e
           | Inr (None, rejections') \<Rightarrow> search_stores P stores requested ignore rest rejections'
           | Inr (Some (m, loaded, validation), rejections') \<Rightarrow>
               Inr \<lparr>lo_hit = True, lo_tier = Some (sv_name s), lo_manifest = Some m, lo_artifacts = loaded,
                    lo_rejections = rejections', lo_validation = validation\<rparr>))"

definition reuse :: "pyval \<Rightarrow> store_view list \<Rightarrow> policy \<Rightarrow> lookup_outcome result" where
  "reuse action stores P =
     rbind (action_digest action) (\<lambda>requested. search_stores P stores requested False stores [])"

definition candidate_for_revalidation :: "pyval \<Rightarrow> store_view list \<Rightarrow> policy \<Rightarrow> lookup_outcome result" where
  "candidate_for_revalidation action stores P =
     rbind (action_digest action) (\<lambda>requested. search_stores P stores requested True stores [])"

declare evaluate.simps [simp del]

end
