(* ===== verification/Federation.thy ===== *)
theory Federation
  imports Cache Fs_Store
begin

text \<open>
  Federation of public results (\<open>federation.py\<close>): signed availability manifests, the catalog of a
  peer, the two caches for imported results with their leases, and \<open>import_from_peer\<close>. A peer is
  what its two calls return; times are UTC instants.
\<close>

section \<open>Availability manifests\<close>

definition availability_domain :: bytes where
  "availability_domain = ascii ''OnceMesh availability manifest v1'' @ [0]"

definition validate_federation_result :: "pyval \<Rightarrow> unit result" where
  "validate_federation_result manifest =
     seq (validate_manifest manifest)
       (guard (item manifest ''spec_version'' \<noteq> result_v1) (ValueError ''federation v0 does not support result v1 lineage''))"

definition fed_exact_keys :: "pyval \<Rightarrow> string list \<Rightarrow> string \<Rightarrow> unit result" where
  "fed_exact_keys v expected label = guard (exact_keys v expected) (ValueError (''invalid '' @ label @ '' fields''))"

definition fed_parse_time :: "pyval \<Rightarrow> int result" where
  "fed_parse_time v = (if is_str v then parse_time (str_of v) else Inl (ValueError ''timestamp must be UTC RFC 3339''))"

definition fed_decode_signature :: "pyval \<Rightarrow> bytes result" where
  "fed_decode_signature v =
     (if \<not> (is_str v \<and> length (str_of v) = 86 \<and> list_all is_b64 (str_of v))
      then Inl (ValueError ''availability signature is not canonical base64url'')
      else case b64_decode (str_of v) of
             None \<Rightarrow> Inl (ValueError ''availability signature is not canonical base64url'')
           | Some decoded \<Rightarrow>
               if length decoded \<noteq> 64 \<or> encode_signature decoded \<noteq> str_of v
               then Inl (ValueError ''availability signature must encode 64 bytes'') else Inr decoded)"

definition check_availability_entry :: "pyval \<Rightarrow> unit result" where
  "check_availability_entry e =
     first_error
       [fed_exact_keys e [''action_digest'', ''result_digest'', ''operation'', ''artifact_bytes''] ''availability entry'',
        guard (digest_val (item e ''action_digest'')) (ValueError ''availability action_digest is invalid''),
        guard (digest_val (item e ''result_digest'')) (ValueError ''availability result_digest is invalid''),
        fed_exact_keys (item e ''operation'') [''name'', ''version''] ''availability operation'',
        guard (nonempty_str (item (item e ''operation'') ''name'') \<and> nonempty_str (item (item e ''operation'') ''version''))
          (ValueError ''availability operation values must be non-empty strings''),
        guard (is_int (item e ''artifact_bytes'') \<and> 0 \<le> int_of (item e ''artifact_bytes''))
          (ValueError ''artifact_bytes must be a non-negative integer'')]"

definition entry_identity :: "pyval \<Rightarrow> pystr \<times> pystr" where
  "entry_identity e = (str_of (item e ''action_digest''), str_of (item e ''result_digest''))"

fun check_availability_entries :: "pyval list \<Rightarrow> (pystr \<times> pystr) set \<Rightarrow> unit result" where
  "check_availability_entries [] seen = Inr ()"
| "check_availability_entries (e # es) seen =
     seq (check_availability_entry e)
       (seq (guard (entry_identity e \<notin> seen) (ValueError ''availability entries must be unique''))
         (check_availability_entries es (insert (entry_identity e) seen)))"

definition check_availability_signature :: "pyval \<Rightarrow> unit result" where
  "check_availability_signature signature =
     first_error
       [fed_exact_keys signature [''profile'', ''key_id'', ''value''] ''availability signature'',
        guard (item signature ''profile'' = signature_profile) (ValueError ''unsupported availability signature profile''),
        guard (digest_val (item signature ''key_id'')) (ValueError ''availability key_id is invalid''),
        discard (fed_decode_signature (item signature ''value''))]"

definition entries_of :: "pyval \<Rightarrow> pyval list" where
  "entries_of m = items_of (item m ''entries'')"

definition validate_availability :: "bool \<Rightarrow> pyval \<Rightarrow> unit result" where
  "validate_availability require_signature m =
     first_error
       [fed_exact_keys m [''spec_version'', ''peer_id'', ''generated_at'', ''entries'', ''signature''] ''availability manifest'',
        guard (item m ''spec_version'' = S ''oncemesh.availability/v0'') (ValueError ''unsupported availability version''),
        guard (nonempty_str (item m ''peer_id'')) (ValueError ''peer_id must be a non-empty string''),
        discard (fed_parse_time (item m ''generated_at'')),
        guard (is_list (item m ''entries'')) (ValueError ''availability entries must be an array''),
        check_availability_entries (entries_of m) {},
        guard (sorted (map entry_identity (entries_of m))) (ValueError ''availability entries are not canonically ordered''),
        (if item m ''signature'' = PyNone
         then guard (\<not> require_signature) (ValueError ''availability signature is required'')
         else check_availability_signature (item m ''signature'')),
        discard (canonical_json m)]"

definition availability_signing_input :: "pyval \<Rightarrow> bytes result" where
  "availability_signing_input m =
     (let unsigned = with_item m ''signature'' PyNone
      in seq (validate_availability False unsigned)
           (rbind (canonical_json unsigned) (\<lambda>b. Inr (availability_domain @ b))))"

definition sign_availability :: "ed25519 \<Rightarrow> pyval \<Rightarrow> bytes \<Rightarrow> pyval result" where
  "sign_availability E m seed =
     seq (guard (item m ''signature'' = PyNone) (ValueError ''only unsigned availability can be signed''))
     (seq (guard (length seed = 32) (ValueError ''availability private seed must contain exactly 32 bytes''))
     (rbind (availability_signing_input m) (\<lambda>message.
        let signed = with_item m ''signature'' (signature_document (ed_public E seed) (ed_sign E seed message))
        in seq (validate_availability True signed) (Inr signed))))"

definition verify_availability :: "ed25519 \<Rightarrow> pyval \<Rightarrow> pystr \<Rightarrow> bytes \<Rightarrow> bool result" where
  "verify_availability E m peer_id public_key =
     seq (validate_availability True m)
     (if item m ''peer_id'' \<noteq> PyStr peer_id \<or> length public_key \<noteq> 32 then Inr False
      else if item (item m ''signature'') ''key_id'' \<noteq> PyStr (digest_bytes public_key) then Inr False
      else rbind (fed_decode_signature (item (item m ''signature'') ''value'')) (\<lambda>sig.
           rbind (availability_signing_input m) (\<lambda>message. Inr (ed_verify E public_key sig message))))"

section \<open>The catalog of a peer\<close>

record fed_bundle =
  fb_manifest :: pyval
  fb_receipt :: pyval
  fb_artifacts :: artifacts

record catalog =
  ct_peer_id :: pystr
  ct_seed :: bytes
  ct_receipt_keys :: "(pystr \<times> bytes) list"
  ct_published :: "(pystr \<times> (pyval \<times> pyval \<times> pyval)) list"

definition new_catalog :: "pystr \<Rightarrow> bool \<Rightarrow> bytes \<Rightarrow> (pystr \<times> bytes) list \<Rightarrow> catalog result" where
  "new_catalog peer_id import_only seed receipt_keys =
     seq (first_error
       [guard (peer_id \<noteq> []) (ValueError ''peer_id must not be empty''),
        guard (length seed = 32) (ValueError ''availability private seed must contain 32 bytes''),
        guard (\<not> import_only) (ValueError ''imported federation results cannot be re-exported'')])
     (Inr \<lparr>ct_peer_id = peer_id, ct_seed = seed, ct_receipt_keys = receipt_keys, ct_published = []\<rparr>)"

text \<open>Every artifact of a published result is in the store and intact.\<close>

fun check_published_artifacts :: "store_view \<Rightarrow> pyval list \<Rightarrow> unit result" where
  "check_published_artifacts s [] = Inr ()"
| "check_published_artifacts s (d # ds) =
     rbind (sv_get_blob s (str_of (item d ''digest''))) (\<lambda>blob.
       case blob of
         None \<Rightarrow> Inl (ValueError ''published artifact is missing or corrupt'')
       | Some data \<Rightarrow>
           if int (length data) \<noteq> int_of (item d ''size'') \<or> PyStr (digest_bytes data) \<noteq> item d ''digest''
           then Inl (ValueError ''published artifact is missing or corrupt'')
           else check_published_artifacts s ds)"

definition catalog_publish ::
  "ed25519 \<Rightarrow> store_view \<Rightarrow> catalog \<Rightarrow> pyval \<Rightarrow> pyval \<Rightarrow> pyval \<Rightarrow> pystr \<Rightarrow> (catalog \<times> pystr) result" where
  "catalog_publish E s C action manifest receipt classification =
     seq (first_error
       [guard (classification = u ''public'') (ValueError ''federation catalog accepts explicitly public results only''),
        validate_action action, validate_federation_result manifest, validate_receipt True receipt])
     (rbind (action_digest action) (\<lambda>requested.
        if item manifest ''action_digest'' \<noteq> PyStr requested then Inl (ValueError ''result does not match published action'')
        else
          rbind (manifest_digest manifest) (\<lambda>digest.
          rbind (case al_get (ct_receipt_keys C) (str_of (item (item receipt ''signature'') ''key_id'')) of
                   None \<Rightarrow> Inr False
                 | Some public_key \<Rightarrow> verify_receipt_for_manifest E receipt manifest public_key) (\<lambda>trusted.
          if \<not> trusted then Inl (ValueError ''result receipt is not trusted by origin catalog'')
          else seq (check_published_artifacts s (artifacts_of manifest))
                 (Inr (C\<lparr>ct_published := al_set (ct_published C) digest (action, manifest, receipt)\<rparr>, digest))))))"

definition catalog_withdraw :: "catalog \<Rightarrow> pystr \<Rightarrow> catalog \<times> bool" where
  "catalog_withdraw C digest =
     (C\<lparr>ct_published := al_del (ct_published C) digest\<rparr>, al_get (ct_published C) digest \<noteq> None)"

definition sum_sizes :: "pyval list \<Rightarrow> int" where
  "sum_sizes ds = sum_list (map (\<lambda>d. int_of (item d ''size'')) ds)"

fun availability_entries :: "(pystr \<times> (pyval \<times> pyval \<times> pyval)) list \<Rightarrow> pyval list result" where
  "availability_entries [] = Inr []"
| "availability_entries ((digest, (action, manifest, receipt)) # rest) =
     rbind (action_digest action) (\<lambda>requested.
     rbind (availability_entries rest) (\<lambda>es.
       Inr (obj [(''action_digest'', PyStr requested), (''result_digest'', PyStr digest), (''operation'', item action ''operation''),
                 (''artifact_bytes'', PyInt (sum_sizes (artifacts_of manifest)))] # es)))"

definition catalog_availability :: "ed25519 \<Rightarrow> catalog \<Rightarrow> int \<Rightarrow> pyval result" where
  "catalog_availability E C now =
     rbind (availability_entries (ct_published C)) (\<lambda>es.
       sign_availability E
         (obj [(''spec_version'', S ''oncemesh.availability/v0''), (''peer_id'', PyStr (ct_peer_id C)),
               (''generated_at'', PyStr (iso_utc now)), (''entries'', PyList (sort_key entry_identity es)), (''signature'', PyNone)])
         (ct_seed C))"

text \<open>Artifacts with the same name cannot be in one manifest; a missing blob makes the bundle unavailable.\<close>

fun bundle_artifacts :: "store_view \<Rightarrow> pyval list \<Rightarrow> (pystr \<times> bytes option) list result" where
  "bundle_artifacts s [] = Inr []"
| "bundle_artifacts s (d # ds) =
     rbind (sv_get_blob s (str_of (item d ''digest''))) (\<lambda>blob.
     rbind (bundle_artifacts s ds) (\<lambda>rest. Inr ((str_of (item d ''name''), blob) # rest)))"

definition catalog_fetch_bundle :: "store_view \<Rightarrow> catalog \<Rightarrow> pystr \<Rightarrow> fed_bundle option result" where
  "catalog_fetch_bundle s C digest =
     (case al_get (ct_published C) digest of
        None \<Rightarrow> Inr None
      | Some (action, manifest, receipt) \<Rightarrow>
          rbind (bundle_artifacts s (artifacts_of manifest)) (\<lambda>found.
            Inr (if list_ex (\<lambda>a. snd a = None) found then None
                 else Some \<lparr>fb_manifest = manifest, fb_receipt = receipt, fb_artifacts = map (\<lambda>(n, b). (n, the b)) found\<rparr>)))"

section \<open>The configuration of a peer\<close>

record peer_config =
  pc_peer_id :: pystr
  pc_public_key :: bytes
  pc_receipt_keys :: "(pystr \<times> bytes) list"
  pc_producers :: "pystr set"
  pc_operations :: "pystr set"
  pc_max_entries :: int
  pc_max_artifact_bytes :: int
  pc_max_transfer_bytes :: int
  pc_max_age_seconds :: int
  pc_max_skew_seconds :: int
  pc_retention_seconds :: int

definition operation_name_ok :: "pystr \<Rightarrow> bool" where
  "operation_name_ok s \<longleftrightarrow> 47 \<in> set s \<and> \<not> starts_with [47] s \<and> \<not> ends_with [47] s"

definition in_range :: "pyval \<Rightarrow> int \<Rightarrow> int \<Rightarrow> string \<Rightarrow> unit result" where
  "in_range v least greatest label =
     guard (is_int v \<and> least \<le> int_of v \<and> int_of v \<le> greatest) (ValueError (label @ '' is outside the supported range''))"

definition new_peer_config ::
  "pyval \<Rightarrow> bytes \<Rightarrow> (pystr \<times> bytes) list \<Rightarrow> pyval list \<Rightarrow> pyval list \<Rightarrow> pyval \<Rightarrow> pyval \<Rightarrow> pyval \<Rightarrow> pyval \<Rightarrow> pyval \<Rightarrow> pyval \<Rightarrow> peer_config result" where
  "new_peer_config peer_id public_key receipt_keys producers operations entries artifact_bytes transfer_bytes age skew retention =
     seq (first_error
       [guard (nonempty_str peer_id \<and> length public_key = 32) (ValueError ''peer identity and 32-byte availability key are required''),
        in_range entries 1 100000 ''max_entries'', in_range artifact_bytes 1 1000000000 ''max_artifact_bytes'',
        in_range transfer_bytes 1 1000000000 ''max_transfer_bytes'', in_range age 1 86400 ''max_availability_age_seconds'',
        in_range skew 0 3600 ''max_future_clock_skew_seconds'', in_range retention 1 31536000 ''retention_seconds'',
        guard (producers \<noteq> [] \<and> operations \<noteq> []) (ValueError ''trusted producers and allowed operations must not be empty''),
        guard (list_all nonempty_str producers) (ValueError ''trusted producer values must be non-empty strings''),
        guard (list_all (\<lambda>v. is_str v \<and> operation_name_ok (str_of v)) operations)
          (ValueError ''allowed operations must use non-empty name/version values''),
        guard (list_all (\<lambda>(key_id, key). is_digest key_id \<and> length key = 32 \<and> digest_bytes key = key_id) receipt_keys)
          (ValueError ''receipt public key mapping is invalid'')])
     (Inr \<lparr>pc_peer_id = str_of peer_id, pc_public_key = public_key, pc_receipt_keys = receipt_keys,
           pc_producers = set (map str_of producers), pc_operations = set (map str_of operations),
           pc_max_entries = int_of entries, pc_max_artifact_bytes = int_of artifact_bytes,
           pc_max_transfer_bytes = int_of transfer_bytes, pc_max_age_seconds = int_of age, pc_max_skew_seconds = int_of skew,
           pc_retention_seconds = int_of retention\<rparr>)"

section \<open>The cache of imported results in memory\<close>

record fed_cache =
  fc_name :: pystr
  fc_blobs :: "(pystr \<times> bytes) list"
  fc_results :: "(pystr \<times> pyval list) list"
  fc_receipts :: "(pystr \<times> pyval list) list"
  fc_validations :: "(pystr \<times> pyval list) list"
  fc_leases :: "(pystr \<times> int) list"

definition new_fed_cache :: "pystr \<Rightarrow> fed_cache" where
  "new_fed_cache name = \<lparr>fc_name = name, fc_blobs = [], fc_results = [], fc_receipts = [], fc_validations = [], fc_leases = []\<rparr>"

definition list_at :: "('k \<times> 'a list) list \<Rightarrow> 'k \<Rightarrow> 'a list" where
  "list_at d k = (case al_get d k of None \<Rightarrow> [] | Some xs \<Rightarrow> xs)"

definition append_to :: "('k \<times> 'a list) list \<Rightarrow> 'k \<Rightarrow> 'a \<Rightarrow> ('k \<times> 'a list) list" where
  "append_to d k x = al_set d k (list_at d k @ [x])"

fun store_artifacts :: "artifacts \<Rightarrow> pyval list \<Rightarrow> (pystr \<times> bytes) list \<Rightarrow> (pystr \<times> bytes) list \<times> unit result" where
  "store_artifacts arts [] blobs = (blobs, Inr ())"
| "store_artifacts arts (d # ds) blobs =
     (case al_get arts (str_of (item d ''name'')) of
        None \<Rightarrow> (blobs, Inl KeyError)
      | Some data \<Rightarrow> store_artifacts arts ds (al_set blobs (str_of (item d ''digest'')) data))"

definition fc_import :: "fed_cache \<Rightarrow> fed_bundle \<Rightarrow> int \<Rightarrow> fed_cache \<times> unit result" where
  "fc_import s b until =
     (case manifest_digest (fb_manifest b) of
        Inl x \<Rightarrow> (s, Inl x)
      | Inr digest \<Rightarrow>
          (case store_artifacts (fb_artifacts b) (artifacts_of (fb_manifest b)) (fc_blobs s) of
             (blobs, Inl x) \<Rightarrow> (s\<lparr>fc_blobs := blobs\<rparr>, Inl x)
           | (blobs, Inr _) \<Rightarrow>
               (s\<lparr>fc_blobs := blobs,
                  fc_results := append_to (fc_results s) (str_of (item (fb_manifest b) ''action_digest'')) (fb_manifest b),
                  fc_receipts := append_to (fc_receipts s) digest (fb_receipt b),
                  fc_leases := al_set (fc_leases s) digest until\<rparr>, Inr ())))"

fun retained :: "pystr set \<Rightarrow> pyval list \<Rightarrow> pyval list result" where
  "retained expired [] = Inr []"
| "retained expired (m # ms) =
     rbind (manifest_digest m) (\<lambda>d. rbind (retained expired ms) (\<lambda>rest. Inr (if d \<in> expired then rest else m # rest)))"

fun retained_results :: "pystr set \<Rightarrow> (pystr \<times> pyval list) list \<Rightarrow> (pystr \<times> pyval list) list result" where
  "retained_results expired [] = Inr []"
| "retained_results expired ((action, ms) # rest) =
     rbind (retained expired ms) (\<lambda>live. rbind (retained_results expired rest) (\<lambda>more.
       Inr (if live = [] then more else (action, live) # more)))"

definition without :: "'k set \<Rightarrow> ('k \<times> 'a) list \<Rightarrow> ('k \<times> 'a) list" where
  "without K d = filter (\<lambda>p. fst p \<notin> K) d"

definition artifact_digests :: "pyval list \<Rightarrow> pystr set" where
  "artifact_digests ms = (\<Union>m \<in> set ms. (\<lambda>d. str_of (item d ''digest'')) ` set (artifacts_of m))"

definition expired_at :: "fed_cache \<Rightarrow> int \<Rightarrow> pystr set" where
  "expired_at s now = fst ` set (filter (\<lambda>p. snd p \<le> now) (fc_leases s))"

definition fc_prune :: "fed_cache \<Rightarrow> int \<Rightarrow> (fed_cache \<times> int) result" where
  "fc_prune s now =
     (let expired = expired_at s now
      in if expired = {} then Inr (s, 0)
         else rbind (retained_results expired (fc_results s)) (\<lambda>results.
           let live = artifact_digests (concat (map snd results))
           in Inr (s\<lparr>fc_results := results, fc_leases := without expired (fc_leases s),
                     fc_receipts := without expired (fc_receipts s), fc_validations := without expired (fc_validations s),
                     fc_blobs := filter (\<lambda>p. fst p \<in> live) (fc_blobs s)\<rparr>, int (card expired))))"

text \<open>Every reading operation prunes first.\<close>

definition after_prune :: "fed_cache \<Rightarrow> int \<Rightarrow> (fed_cache \<Rightarrow> 'a) \<Rightarrow> (fed_cache \<times> 'a) result" where
  "after_prune s now f = rbind (fc_prune s now) (\<lambda>(s', _). Inr (s', f s'))"

definition fc_get_blob :: "fed_cache \<Rightarrow> int \<Rightarrow> pystr \<Rightarrow> (fed_cache \<times> bytes option) result" where
  "fc_get_blob s now digest = after_prune s now (\<lambda>s. al_get (fc_blobs s) digest)"

definition fc_candidates :: "fed_cache \<Rightarrow> int \<Rightarrow> pystr \<Rightarrow> (fed_cache \<times> pyval list) result" where
  "fc_candidates s now requested = after_prune s now (\<lambda>s. rev (list_at (fc_results s) requested))"

definition fc_get_validations :: "fed_cache \<Rightarrow> int \<Rightarrow> pystr \<Rightarrow> (fed_cache \<times> pyval list) result" where
  "fc_get_validations s now digest = after_prune s now (\<lambda>s. list_at (fc_validations s) digest)"

definition fc_get_receipts :: "fed_cache \<Rightarrow> int \<Rightarrow> pystr \<Rightarrow> (fed_cache \<times> pyval list) result" where
  "fc_get_receipts s now digest = after_prune s now (\<lambda>s. list_at (fc_receipts s) digest)"

text \<open>The writing operations of a store are refused.\<close>

definition fed_put_refused :: "unit result" where
  "fed_put_refused = Inl (ValueError ''federation cache accepts only verified import bundles'')"

end
