(* ===== verification/Federation_Import.thy ===== *)
theory Federation_Import
  imports Federation
begin

text \<open>
  The durable cache of imported results (\<open>FilesystemFederationCacheStore\<close>) and the import itself
  (\<open>federation.py\<close>). A cache directory holds entry files by name and blob files by digest; a file
  is replaced or linked as a whole. What is written before an exception stays written.
\<close>

section \<open>The cache of imported results in files\<close>

record ff_cache =
  ff_name :: pystr
  ff_entries :: "(pystr \<times> fs_file) list"
  ff_blobs :: "(pystr \<times> fs_file) list"

definition new_ff_cache :: "pystr \<Rightarrow> ff_cache" where
  "new_ff_cache name = \<lparr>ff_name = name, ff_entries = [], ff_blobs = []\<rparr>"

definition ff_hex_digest :: "pyval \<Rightarrow> pystr result" where
  "ff_hex_digest v = (if digest_val v then Inr (hex_part (str_of v)) else Inl (ValueError ''invalid federation cache digest''))"

definition ff_entry_name :: "pyval \<Rightarrow> pystr result" where
  "ff_entry_name v = rbind (ff_hex_digest v) (\<lambda>h. Inr (json_name h))"

definition ff_check_entry :: "pystr \<Rightarrow> pyval \<Rightarrow> unit result" where
  "ff_check_entry name e =
     first_error
       [fed_exact_keys e [''spec_version'', ''result_digest'', ''imported_at'', ''retain_until'', ''manifest'', ''receipt'']
          ''federation cache entry'',
        guard (item e ''spec_version'' = S ''oncemesh.federation-cache-entry/v0'') (ValueError ''unsupported federation cache entry''),
        validate_federation_result (item e ''manifest''),
        validate_receipt True (item e ''receipt''),
        rbind (manifest_digest (item e ''manifest'')) (\<lambda>d.
          guard (PyStr d = item e ''result_digest'') (ValueError ''federation cache result digest mismatch'')),
        guard (item (item e ''receipt'') ''result_digest'' = item e ''result_digest'') (ValueError ''federation cache receipt binding mismatch''),
        rbind (ff_entry_name (item e ''result_digest'')) (\<lambda>n.
          guard (name = n) (ValueError ''federation cache entry path mismatch'')),
        discard (fed_parse_time (item e ''imported_at'')),
        discard (fed_parse_time (item e ''retain_until''))]"

definition ff_read_json :: "fs_file \<Rightarrow> pyval result" where
  "ff_read_json f =
     (case read_json f of
        Inr v \<Rightarrow> Inr v
      | Inl e \<Rightarrow> if e = OSError \<or> e = UnicodeError \<or> e = JSONDecodeError
                 then Inl (ValueError ''federation cache entry cannot be read'') else Inl e)"

fun ff_read_files :: "(pystr \<times> fs_file) list \<Rightarrow> pyval list result" where
  "ff_read_files [] = Inr []"
| "ff_read_files ((name, f) # rest) =
     rbind (ff_read_json f) (\<lambda>e. seq (ff_check_entry name e) (rbind (ff_read_files rest) (\<lambda>es. Inr (e # es))))"

definition ff_read_entries :: "ff_cache \<Rightarrow> pyval list result" where
  "ff_read_entries s = ff_read_files (sort_key fst (filter (\<lambda>p. ends_with (u ''.json'') (fst p)) (ff_entries s)))"

text \<open>An existing blob is read and compared with its digest, and never replaced.\<close>

fun ff_store_artifacts :: "artifacts \<Rightarrow> pyval list \<Rightarrow> (pystr \<times> fs_file) list \<Rightarrow> (pystr \<times> fs_file) list \<times> unit result" where
  "ff_store_artifacts arts [] blobs = (blobs, Inr ())"
| "ff_store_artifacts arts (d # ds) blobs =
     (let digest = str_of (item d ''digest'')
      in case al_get arts (str_of (item d ''name'')) of
           None \<Rightarrow> (blobs, Inl KeyError)
         | Some data \<Rightarrow>
             if int (length data) \<noteq> int_of (item d ''size'') \<or> PyStr (digest_bytes data) \<noteq> item d ''digest''
             then (blobs, Inl (ValueError ''federation bundle artifact integrity failure''))
             else
               (case al_get blobs digest of
                  None \<Rightarrow> ff_store_artifacts arts ds (al_set blobs digest (File data))
                | Some Unreadable \<Rightarrow> (blobs, Inl OSError)
                | Some (File existing) \<Rightarrow>
                    if digest_bytes existing \<noteq> digest then (blobs, Inl (ValueError ''federation cache existing blob is corrupt''))
                    else ff_store_artifacts arts ds blobs))"

definition entry_document :: "pystr \<Rightarrow> int \<Rightarrow> int \<Rightarrow> fed_bundle \<Rightarrow> pyval" where
  "entry_document digest imported_at until b =
     obj [(''spec_version'', S ''oncemesh.federation-cache-entry/v0''), (''result_digest'', PyStr digest),
          (''imported_at'', PyStr (iso_utc imported_at)), (''retain_until'', PyStr (iso_utc until)),
          (''manifest'', fb_manifest b), (''receipt'', fb_receipt b)]"

definition artifact_names :: "pyval \<Rightarrow> pystr set" where
  "artifact_names m = (\<lambda>d. str_of (item d ''name'')) ` set (artifacts_of m)"

definition ff_import :: "ff_cache \<Rightarrow> int \<Rightarrow> fed_bundle \<Rightarrow> int \<Rightarrow> ff_cache \<times> unit result" where
  "ff_import s clock b until =
     (case seq (first_error [validate_federation_result (fb_manifest b), validate_receipt True (fb_receipt b)])
             (rbind (manifest_digest (fb_manifest b)) (\<lambda>digest.
                seq (first_error
                  [guard (item (fb_receipt b) ''result_digest'' = PyStr digest) (ValueError ''federation bundle receipt binding mismatch''),
                   guard (fst ` set (fb_artifacts b) = artifact_names (fb_manifest b)) (ValueError ''federation bundle artifact names mismatch''),
                   guard (clock < until) (ValueError ''federation cache lease must end after import'')])
                (Inr digest))) of
        Inl x \<Rightarrow> (s, Inl x)
      | Inr digest \<Rightarrow>
          (case ff_store_artifacts (fb_artifacts b) (artifacts_of (fb_manifest b)) (ff_blobs s) of
             (blobs, Inl x) \<Rightarrow> (s\<lparr>ff_blobs := blobs\<rparr>, Inl x)
           | (blobs, Inr _) \<Rightarrow>
               (case rbind (ff_entry_name (PyStr digest)) (\<lambda>name.
                       rbind (canonical_json (entry_document digest clock until b)) (\<lambda>data. Inr (name, data))) of
                  Inl x \<Rightarrow> (s\<lparr>ff_blobs := blobs\<rparr>, Inl x)
                | Inr (name, data) \<Rightarrow>
                    (s\<lparr>ff_blobs := blobs, ff_entries := al_set (ff_entries s) name (File (data @ [10]))\<rparr>, Inr ()))))"

definition lease_of :: "pyval \<Rightarrow> int" where
  "lease_of e = instant_of (item e ''retain_until'')"

definition entry_file :: "pyval \<Rightarrow> pystr" where
  "entry_file e = json_name (hex_part (str_of (item e ''result_digest'')))"

text \<open>
  \<open>item not in expired\<close> compares documents, and documents that are equal have the same lease, so
  what is retained is what has not expired.
\<close>

definition ff_prune :: "ff_cache \<Rightarrow> int \<Rightarrow> ff_cache \<times> int result" where
  "ff_prune s now =
     (case ff_read_entries s of
        Inl x \<Rightarrow> (s, Inl x)
      | Inr records \<Rightarrow>
          (let expired = filter (\<lambda>e. lease_of e \<le> now) records;
               live = artifact_digests (map (\<lambda>e. item e ''manifest'') (filter (\<lambda>e. now < lease_of e) records))
           in (s\<lparr>ff_entries := without (entry_file ` set expired) (ff_entries s),
                 ff_blobs := filter (\<lambda>p. fst p \<in> live) (ff_blobs s)\<rparr>, Inr (int (length expired)))))"

text \<open>The readers prune, then read what is left.\<close>

definition ff_after_prune :: "ff_cache \<Rightarrow> int \<Rightarrow> (ff_cache \<Rightarrow> 'a result) \<Rightarrow> ff_cache \<times> 'a result" where
  "ff_after_prune s now f = (case ff_prune s now of (s', Inl x) \<Rightarrow> (s', Inl x) | (s', Inr _) \<Rightarrow> (s', f s'))"

definition ff_summary :: "ff_cache \<Rightarrow> int \<Rightarrow> bool \<Rightarrow> ff_cache \<times> (int \<times> int) result" where
  "ff_summary s now prune =
     (let read = (\<lambda>s. rbind (ff_read_entries s) (\<lambda>es. Inr (int (length es), int (length (ff_blobs s)))))
      in if prune then ff_after_prune s now read else (s, read s))"

definition ff_lease_until :: "ff_cache \<Rightarrow> int \<Rightarrow> pystr \<Rightarrow> ff_cache \<times> int option result" where
  "ff_lease_until s now digest =
     ff_after_prune s now (\<lambda>s. rbind (ff_read_entries s) (\<lambda>es.
       Inr (map_option lease_of (find (\<lambda>e. item e ''result_digest'' = PyStr digest) es))))"

definition ff_get_blob :: "ff_cache \<Rightarrow> int \<Rightarrow> pystr \<Rightarrow> ff_cache \<times> bytes option result" where
  "ff_get_blob s now digest =
     ff_after_prune s now (\<lambda>s. rbind (ff_hex_digest (PyStr digest)) (\<lambda>_.
       case al_get (ff_blobs s) digest of
         None \<Rightarrow> Inr None
       | Some Unreadable \<Rightarrow> Inl OSError
       | Some (File data) \<Rightarrow>
           if digest_bytes data \<noteq> digest then Inl (ValueError ''federation cache blob integrity failure'') else Inr (Some data)))"

text \<open>\<open>records.sort(key=..., reverse=True)\<close> keeps the order of records with equal keys.\<close>

definition ff_candidates :: "ff_cache \<Rightarrow> int \<Rightarrow> pystr \<Rightarrow> ff_cache \<times> pyval list result" where
  "ff_candidates s now requested =
     ff_after_prune s now (\<lambda>s. rbind (ff_read_entries s) (\<lambda>es.
       Inr (map (\<lambda>e. item e ''manifest'')
         (sort_key (\<lambda>e. - instant_of (item e ''imported_at''))
           (filter (\<lambda>e. item (item e ''manifest'') ''action_digest'' = PyStr requested) es)))))"

definition ff_get_validations :: "ff_cache \<Rightarrow> int \<Rightarrow> pystr \<Rightarrow> ff_cache \<times> pyval list result" where
  "ff_get_validations s now digest = ff_after_prune s now (\<lambda>s. Inr [])"

definition ff_get_receipts :: "ff_cache \<Rightarrow> int \<Rightarrow> pystr \<Rightarrow> ff_cache \<times> pyval list result" where
  "ff_get_receipts s now digest =
     ff_after_prune s now (\<lambda>s. rbind (ff_read_entries s) (\<lambda>es.
       Inr (map (\<lambda>e. item e ''receipt'') (filter (\<lambda>e. item e ''result_digest'' = PyStr digest) es))))"

section \<open>Importing from a peer\<close>

record peer =
  pr_availability :: "int \<Rightarrow> pyval result"
  pr_fetch_bundle :: "pystr \<Rightarrow> fed_bundle option result"

record import_outcome =
  io_hit :: bool
  io_reason :: string
  io_result_digest :: "pystr option"
  io_bytes :: int

definition import_miss :: "string \<Rightarrow> import_outcome" where
  "import_miss reason = \<lparr>io_hit = False, io_reason = reason, io_result_digest = None, io_bytes = 0\<rparr>"

definition micros :: "int \<Rightarrow> int" where
  "micros seconds = seconds * 1000000"

text \<open>The availability manifest is signed by the configured peer, fresh, and offers the action.\<close>

definition select_entry :: "ed25519 \<Rightarrow> peer_config \<Rightarrow> pyval \<Rightarrow> pystr \<Rightarrow> int \<Rightarrow> pyval result \<Rightarrow> (pyval decision) result" where
  "select_entry E P action requested now availability =
     (case rbind availability (\<lambda>m. seq (validate_availability True m) (Inr m)) of
        Inl e \<Rightarrow> if is_value_error e \<or> e = TypeError then Inr (Reject ''availability_invalid'') else Inl e
      | Inr m \<Rightarrow>
          if pc_max_entries P < int (length (entries_of m)) then Inr (Reject ''availability_limit_exceeded'')
          else rbind (verify_availability E m (pc_peer_id P) (pc_public_key P)) (\<lambda>trusted.
            if \<not> trusted then Inr (Reject ''availability_untrusted'')
            else rbind (fed_parse_time (item m ''generated_at'')) (\<lambda>generated_at.
              if generated_at < now - micros (pc_max_age_seconds P) then Inr (Reject ''availability_expired'')
              else if now + micros (pc_max_skew_seconds P) < generated_at then Inr (Reject ''availability_from_future'')
              else
                case find (\<lambda>e. item e ''action_digest'' = PyStr requested) (entries_of m) of
                  None \<Rightarrow> Inr (Reject ''not_available'')
                | Some e \<Rightarrow>
                    let operation_key = str_of (item (item e ''operation'') ''name'') @ [47] @ str_of (item (item e ''operation'') ''version'')
                    in if item e ''operation'' \<noteq> item action ''operation'' \<or> operation_key \<notin> pc_operations P
                       then Inr (Reject ''operation_denied'')
                       else if pc_max_transfer_bytes P < int_of (item e ''artifact_bytes'') then Inr (Reject ''transfer_limit_exceeded'')
                       else Inr (Proceed e))))"

fun check_bundle_artifacts :: "peer_config \<Rightarrow> artifacts \<Rightarrow> pyval list \<Rightarrow> int \<Rightarrow> (int decision) result" where
  "check_bundle_artifacts P arts [] bytes_read = Inr (Proceed bytes_read)"
| "check_bundle_artifacts P arts (d # ds) bytes_read =
     (case al_get arts (str_of (item d ''name'')) of
        None \<Rightarrow> Inl KeyError
      | Some data \<Rightarrow>
          if pc_max_artifact_bytes P < int (length data) then Inr (Reject ''artifact_limit_exceeded'')
          else if int (length data) \<noteq> int_of (item d ''size'') \<or> PyStr (digest_bytes data) \<noteq> item d ''digest''
          then Inl (ValueError ''artifact integrity failure'')
          else if pc_max_transfer_bytes P < bytes_read + int (length data) then Inr (Reject ''transfer_limit_exceeded'')
          else check_bundle_artifacts P arts ds (bytes_read + int (length data)))"

text \<open>A step that may return early with a reason.\<close>

definition dbind :: "'a decision result \<Rightarrow> ('a \<Rightarrow> 'b decision result) \<Rightarrow> 'b decision result" where
  "dbind m f = (case m of Inl x \<Rightarrow> Inl x | Inr (Reject reason) \<Rightarrow> Inr (Reject reason) | Inr (Proceed y) \<Rightarrow> f y)"

lemma dbind_Proceed: "dbind m f = Inr (Proceed z) \<longleftrightarrow> (\<exists>y. m = Inr (Proceed y) \<and> f y = Inr (Proceed z))"
  by (auto simp: dbind_def split: sum.split decision.split)

definition check_bundle_receipt :: "ed25519 \<Rightarrow> peer_config \<Rightarrow> fed_bundle \<Rightarrow> unit decision result" where
  "check_bundle_receipt E P b =
     (case al_get (pc_receipt_keys P) (str_of (item (item (fb_receipt b) ''signature'') ''key_id'')) of
        None \<Rightarrow> Inr (Reject ''receipt_key_untrusted'')
      | Some receipt_key \<Rightarrow>
          rbind (verify_receipt_for_manifest E (fb_receipt b) (fb_manifest b) receipt_key) (\<lambda>verified.
            Inr (if verified then Proceed () else Reject ''receipt_invalid'')))"

definition check_bundle :: "ed25519 \<Rightarrow> peer_config \<Rightarrow> pystr \<Rightarrow> pyval \<Rightarrow> fed_bundle \<Rightarrow> (int decision) result" where
  "check_bundle E P requested e b =
     seq (first_error [validate_federation_result (fb_manifest b), validate_receipt True (fb_receipt b)])
     (rbind (manifest_digest (fb_manifest b)) (\<lambda>digest.
      seq (first_error
        [guard (PyStr digest = item e ''result_digest'') (ValueError ''result digest mismatch''),
         guard (item (fb_manifest b) ''action_digest'' = PyStr requested) (ValueError ''action digest mismatch'')])
      (if str_of (item (fb_manifest b) ''producer'') \<notin> pc_producers P then Inr (Reject ''producer_untrusted'')
       else
         dbind (check_bundle_receipt E P b) (\<lambda>_.
           seq (guard (fst ` set (fb_artifacts b) = artifact_names (fb_manifest b)) (ValueError ''artifact names mismatch''))
           (dbind (check_bundle_artifacts P (fb_artifacts b) (artifacts_of (fb_manifest b)) 0) (\<lambda>bytes_read.
              seq (guard (bytes_read = int_of (item e ''artifact_bytes'')) (ValueError ''advertised byte count mismatch''))
                (Inr (Proceed bytes_read))))))))"

text \<open>\<open>except (ValueError, TypeError, KeyError)\<close>\<close>

definition bundle_checked :: "'a decision result \<Rightarrow> 'a decision result" where
  "bundle_checked m =
     (case m of
        Inl x \<Rightarrow> if is_value_error x \<or> x = TypeError \<or> x = KeyError then Inr (Reject ''bundle_invalid'') else Inl x
      | Inr d \<Rightarrow> Inr d)"

lemma bundle_checked_Proceed [simp]: "bundle_checked m = Inr (Proceed y) \<longleftrightarrow> m = Inr (Proceed y)"
  by (auto simp: bundle_checked_def split: sum.split)

definition fetch_bundle_checked :: "ed25519 \<Rightarrow> peer_config \<Rightarrow> pystr \<Rightarrow> peer \<Rightarrow> pyval \<Rightarrow> (pyval \<times> fed_bundle \<times> int) decision result" where
  "fetch_bundle_checked E P requested peer e =
     rbind (pr_fetch_bundle peer (str_of (item e ''result_digest''))) (\<lambda>fetched.
       case fetched of
         None \<Rightarrow> Inr (Reject ''bundle_unavailable'')
       | Some b \<Rightarrow> dbind (bundle_checked (check_bundle E P requested e b)) (\<lambda>bytes_read. Inr (Proceed (e, b, bytes_read))))"

text \<open>\<open>destination\<close> stores a bundle with the end of its lease.\<close>

definition import_from_peer ::
  "ed25519 \<Rightarrow> pyval \<Rightarrow> peer \<Rightarrow> peer_config \<Rightarrow> (fed_bundle \<Rightarrow> int \<Rightarrow> 's \<Rightarrow> 's \<times> unit result) \<Rightarrow> int \<Rightarrow> 's \<Rightarrow> 's \<times> import_outcome result" where
  "import_from_peer E action peer P destination now s =
     (case rbind (action_digest action) (\<lambda>requested.
             dbind (select_entry E P action requested now (pr_availability peer now))
               (fetch_bundle_checked E P requested peer)) of
        Inl x \<Rightarrow> (s, Inl x)
      | Inr (Reject reason) \<Rightarrow> (s, Inr (import_miss reason))
      | Inr (Proceed (e, b, bytes_read)) \<Rightarrow>
          (case destination b (now + micros (pc_retention_seconds P)) s of
             (s', Inl x) \<Rightarrow> (s', Inl x)
           | (s', Inr _) \<Rightarrow>
               (s', Inr \<lparr>io_hit = True, io_reason = ''imported'', io_result_digest = Some (str_of (item e ''result_digest'')), io_bytes = bytes_read\<rparr>)))"

definition import_in_memory :: "fed_bundle \<Rightarrow> int \<Rightarrow> fed_cache \<Rightarrow> fed_cache \<times> unit result" where
  "import_in_memory b until s = fc_import s b until"

definition import_in_files :: "int \<Rightarrow> fed_bundle \<Rightarrow> int \<Rightarrow> ff_cache \<Rightarrow> ff_cache \<times> unit result" where
  "import_in_files clock b until s = ff_import s clock b until"

end
