(* ===== verification/Registries.thy ===== *)
theory Registries
  imports Fs_Store
begin

text \<open>
  The reloadable operation policy (\<open>policy.py\<close>), the receipt key registry (\<open>key_registry.py\<close>),
  authorization partitions (\<open>authorization.py\<close>) and the shared document helpers
  (\<open>document_validation.py\<close>). A registry file is an optional \<open>fs_file\<close>; \<open>None\<close> is a missing
  one. Both registries promise to fail closed; the lemmas say how far they do.
\<close>

section \<open>Shared document helpers\<close>

definition dv_exact_keys :: "pyval \<Rightarrow> string list \<Rightarrow> string \<Rightarrow> unit result" where
  "dv_exact_keys v expected label = guard (exact_keys v expected) (ValueError (label @ '' must contain exactly''))"

text \<open>\<open>value.astimezone(utc).replace(microsecond=0).isoformat()\<close> with the \<open>Z\<close> suffix.\<close>

definition format_canonical_utc :: "datetime \<Rightarrow> pystr result" where
  "format_canonical_utc v =
     (case v of
        Naive _ \<Rightarrow> Inl (ValueError ''timestamp must be timezone-aware'')
      | Aware t \<Rightarrow> Inr (iso_utc (t - t mod 1000000)))"

definition is_canonical_utc :: "pystr \<Rightarrow> bool" where
  "is_canonical_utc s \<longleftrightarrow> (case clock_fields s of None \<Rightarrow> False | Some (_, r) \<Rightarrow> r = [90])"

definition parse_canonical_utc :: "pyval \<Rightarrow> int result" where
  "parse_canonical_utc v =
     seq (guard (is_str v \<and> is_canonical_utc (str_of v)) (ValueError ''must be a canonical UTC timestamp''))
     (case parse_instant (str_of v) of
        None \<Rightarrow> Inl (ValueError ''is not a valid timestamp'')
      | Some t \<Rightarrow>
          rbind (format_canonical_utc (Aware t)) (\<lambda>text.
            if text \<noteq> str_of v then Inl (ValueError ''must be a canonical UTC timestamp'') else Inr t))"

text \<open>\<open>json.loads(path.read_text(encoding="utf-8"))\<close> on a registry file.\<close>

definition read_registry :: "fs_file option \<Rightarrow> pyval result" where
  "read_registry f = (case f of None \<Rightarrow> Inl OSError | Some f \<Rightarrow> read_json f)"

text \<open>What \<open>except (OSError, UnicodeError, json.JSONDecodeError, ValueError)\<close> catches.\<close>

definition caught :: "py_error \<Rightarrow> bool" where
  "caught e \<longleftrightarrow> e = OSError \<or> is_value_error e"

section \<open>Operation policies\<close>

record operation_policy =
  op_mode :: pystr
  op_trusted_result_producers :: "pystr set"
  op_trusted_validation_producers :: "pystr set"
  op_allowed_tiers :: "pystr set"
  op_max_validation_ttl_seconds :: int
  op_receipt_requirement :: pystr
  op_trusted_receipt_keys :: "pystr set"
  op_authorization_partition :: pystr
  op_max_stale_seconds :: int

record policy_resolution =
  pr_policy :: "operation_policy option"
  pr_reason :: pystr
  pr_kill_switch_active :: bool

definition policy_modes :: "pyval list" where
  "policy_modes = [S ''disabled'', S ''shadow'', S ''conditional-substitute'', S ''exact-substitute'', S ''stale-while-revalidate'']"

definition strings :: "pyval \<Rightarrow> string \<Rightarrow> pystr set result" where
  "strings v label =
     seq (first_error
       [guard (is_list v \<and> list_all nonempty_str (items_of v)) (ValueError (label @ '' must be a string array'')),
        guard (distinct (items_of v)) (ValueError (label @ '' must contain unique values''))])
       (Inr (str_of ` set (items_of v)))"

text \<open>\<open>value in {...}\<close> hashes the value first.\<close>

definition member :: "pyval \<Rightarrow> pyval list \<Rightarrow> py_error \<Rightarrow> unit result" where
  "member v vs e = seq (guard (hashable v) TypeError) (guard (v \<in> set vs) e)"

definition int_between :: "pyval \<Rightarrow> int \<Rightarrow> int \<Rightarrow> bool" where
  "int_between v lo hi \<longleftrightarrow> is_int v \<and> lo \<le> int_of v \<and> int_of v \<le> hi"

definition policy_fields :: "string list" where
  "policy_fields =
     [''mode'', ''trusted_result_producers'', ''trusted_validation_producers'', ''allowed_tiers'',
      ''max_validation_ttl_seconds'', ''receipt_requirement'', ''trusted_receipt_keys'',
      ''authorization_partition'', ''max_stale_seconds'']"

definition validate_operation :: "pyval \<Rightarrow> pyval \<Rightarrow> operation_policy result" where
  "validate_operation operation v =
     (let mode = item v ''mode''; requirement = item v ''receipt_requirement'';
          partition = item v ''authorization_partition''; stale = item v ''max_stale_seconds''
      in seq (first_error
        [guard (is_str operation \<and> 47 \<in> set (str_of operation)) (ValueError ''operation policy keys must contain name/version''),
         guard (exact_keys v policy_fields) (ValueError ''invalid fields for operation''),
         member mode policy_modes (ValueError ''invalid mode for operation''),
         guard (int_between (item v ''max_validation_ttl_seconds'') 1 604800)
           (ValueError ''max_validation_ttl_seconds must be from 1 through 604800''),
         member requirement [S ''optional'', S ''required''] (ValueError ''receipt_requirement must be optional or required'')])
      (rbind (strings (item v ''trusted_receipt_keys'') ''trusted_receipt_keys'') (\<lambda>receipt_keys.
       seq (first_error
        [guard (\<forall>k \<in> receipt_keys. is_digest k) (ValueError ''trusted_receipt_keys must contain SHA-256 key identifiers''),
         guard (\<not> (requirement = S ''required'' \<and> receipt_keys = {})) (ValueError ''required receipts need at least one trusted key''),
         guard (\<not> (requirement = S ''required'' \<and> mode \<noteq> S ''exact-substitute''))
           (ValueError ''required receipts currently support exact-substitute mode only''),
         member partition [S ''public'', S ''required''] (ValueError ''authorization_partition must be public or required''),
         guard (\<not> (partition = S ''required'' \<and> mode \<noteq> S ''exact-substitute''))
           (ValueError ''required authorization partitions support exact-substitute mode only''),
         guard (int_between stale 0 604800) (ValueError ''max_stale_seconds must be from 0 through 604800''),
         guard ((mode = S ''stale-while-revalidate'') = (0 < int_of stale))
           (ValueError ''only stale-while-revalidate mode requires positive max_stale_seconds'')])
       (rbind (strings (item v ''trusted_result_producers'') ''trusted_result_producers'') (\<lambda>results.
        rbind (strings (item v ''trusted_validation_producers'') ''trusted_validation_producers'') (\<lambda>validations.
        rbind (strings (item v ''allowed_tiers'') ''allowed_tiers'') (\<lambda>tiers.
          Inr \<lparr>op_mode = str_of mode, op_trusted_result_producers = results, op_trusted_validation_producers = validations,
               op_allowed_tiers = tiers, op_max_validation_ttl_seconds = int_of (item v ''max_validation_ttl_seconds''),
               op_receipt_requirement = str_of requirement, op_trusted_receipt_keys = receipt_keys,
               op_authorization_partition = str_of partition, op_max_stale_seconds = int_of stale\<rparr>)))))))"

fun validate_operations :: "(pyval \<times> pyval) list \<Rightarrow> (pystr \<times> operation_policy) list result" where
  "validate_operations [] = Inr []"
| "validate_operations ((operation, v) # rest) =
     rbind (validate_operation operation v) (\<lambda>p.
     rbind (validate_operations rest) (\<lambda>ps. Inr ((str_of operation, p) # ps)))"

definition validate_policy_document :: "pyval \<Rightarrow> (pystr \<times> operation_policy) list result" where
  "validate_policy_document document =
     seq (first_error
       [guard (exact_keys document [''spec_version'', ''enabled'', ''operations'']) (ValueError ''invalid policy document fields''),
        guard (item document ''spec_version'' = S ''oncemesh.policy/v0'' \<and> is_bool (item document ''enabled''))
          (ValueError ''invalid policy version or enabled value''),
        guard (is_dict (item document ''operations'')) (ValueError ''operations must be an object'')])
     (validate_operations (pairs_of (item document ''operations'')))"

text \<open>
  \<open>str.strip\<close> removes Unicode white space. For the membership test \<open>str.lower\<close> only matters on
  ASCII letters: no other character lowers to one of the letters of the four words.
\<close>

definition is_space :: "int \<Rightarrow> bool" where
  "is_space c \<longleftrightarrow> (9 \<le> c \<and> c \<le> 13) \<or> (28 \<le> c \<and> c \<le> 32) \<or> c = 133 \<or> c = 160 \<or> c = 5760
     \<or> (8192 \<le> c \<and> c \<le> 8202) \<or> c = 8232 \<or> c = 8233 \<or> c = 8239 \<or> c = 8287 \<or> c = 12288"

definition strip :: "pystr \<Rightarrow> pystr" where
  "strip s = rev (dropWhile is_space (rev (dropWhile is_space s)))"

definition lower_ascii :: "pystr \<Rightarrow> pystr" where
  "lower_ascii s = map (\<lambda>c. if 65 \<le> c \<and> c \<le> 90 then c + 32 else c) s"

definition kill_switch_values :: "pystr list" where
  "kill_switch_values = [u ''1'', u ''true'', u ''yes'', u ''on'']"

definition kill_switch :: "(pystr \<Rightarrow> pystr option) \<Rightarrow> bool" where
  "kill_switch environment \<longleftrightarrow>
     lower_ascii (strip (case environment (u ''ONCEMESH_DISABLE_SUBSTITUTION'') of Some v \<Rightarrow> v | None \<Rightarrow> []))
       \<in> set kill_switch_values"

definition no_policy :: "pystr \<Rightarrow> bool \<Rightarrow> policy_resolution" where
  "no_policy reason kill = \<lparr>pr_policy = None, pr_reason = reason, pr_kill_switch_active = kill\<rparr>"

definition resolve_policy ::
  "(pystr \<Rightarrow> pystr option) \<Rightarrow> fs_file option \<Rightarrow> pystr \<Rightarrow> policy_resolution result" where
  "resolve_policy environment file operation =
     (if kill_switch environment then Inr (no_policy (u ''kill_switch'') True)
      else
        (case rbind (read_registry file) (\<lambda>document.
                rbind (validate_policy_document document) (\<lambda>policies. Inr (document, policies))) of
           Inl e \<Rightarrow> if caught e then Inr (no_policy (u ''policy_error'') False) else Inl e
         | Inr (document, policies) \<Rightarrow>
             if item document ''enabled'' \<noteq> PyBool True then Inr (no_policy (u ''policy_disabled'') False)
             else
               (case al_get policies operation of
                  None \<Rightarrow> Inr (no_policy (u ''policy_disabled'') False)
                | Some p \<Rightarrow>
                    if op_mode p = u ''disabled'' then Inr (no_policy (u ''policy_disabled'') False)
                    else Inr \<lparr>pr_policy = Some p, pr_reason = op_mode p, pr_kill_switch_active = False\<rparr>)))"

section \<open>Receipt keys\<close>

record receipt_key =
  rk_key_id :: pystr
  rk_public_key :: bytes
  rk_status :: pystr
  rk_producers :: "pystr set"

record key_resolution =
  kr_key :: "receipt_key option"
  kr_reason :: string

definition key_statuses :: "pyval list" where
  "key_statuses = [S ''active'', S ''revoked'']"

definition decode_public_key :: "pyval \<Rightarrow> bytes result" where
  "decode_public_key v =
     (if \<not> is_str v \<or> length (str_of v) \<noteq> 43 \<or> \<not> list_all is_b64 (str_of v)
      then Inl (ValueError ''public_key must be canonical unpadded base64url'')
      else
        (case b64_decode (str_of v) of
           None \<Rightarrow> Inl (ValueError ''public_key is invalid base64url'')
         | Some decoded \<Rightarrow>
             if length decoded \<noteq> 32 \<or> b64_encode decoded \<noteq> str_of v
             then Inl (ValueError ''public_key must encode exactly 32 bytes'') else Inr decoded))"

definition encode_public_key :: "bytes \<Rightarrow> pystr result" where
  "encode_public_key k =
     (if length k \<noteq> 32 then Inl (ValueError ''Ed25519 public key must contain exactly 32 bytes'') else Inr (b64_encode k))"

definition validate_key_entry :: "pyval \<Rightarrow> pyval \<Rightarrow> receipt_key result" where
  "validate_key_entry key_id v =
     seq (first_error
       [guard (digest_val key_id) (ValueError ''key registry key identifier is invalid''),
        guard (exact_keys v [''profile'', ''public_key'', ''status'', ''producers'']) (ValueError ''invalid key registry entry fields''),
        guard (item v ''profile'' = signature_profile) (ValueError ''unsupported key profile or status''),
        member (item v ''status'') key_statuses (ValueError ''unsupported key profile or status''),
        guard (is_list (item v ''producers'') \<and> items_of (item v ''producers'') \<noteq> []
               \<and> list_all nonempty_str (items_of (item v ''producers'')) \<and> distinct (items_of (item v ''producers'')))
          (ValueError ''key producers must be a non-empty unique string array'')])
     (rbind (decode_public_key (item v ''public_key'')) (\<lambda>public_key.
      if PyStr (digest_bytes public_key) \<noteq> key_id then Inl (ValueError ''key identifier does not match public key'')
      else Inr \<lparr>rk_key_id = str_of key_id, rk_public_key = public_key, rk_status = str_of (item v ''status''),
                rk_producers = str_of ` set (items_of (item v ''producers''))\<rparr>))"

fun validate_key_entries :: "(pyval \<times> pyval) list \<Rightarrow> (pystr \<times> receipt_key) list result" where
  "validate_key_entries [] = Inr []"
| "validate_key_entries ((key_id, v) # rest) =
     rbind (validate_key_entry key_id v) (\<lambda>k.
     rbind (validate_key_entries rest) (\<lambda>ks. Inr ((str_of key_id, k) # ks)))"

definition validate_key_registry :: "pyval \<Rightarrow> (pystr \<times> receipt_key) list result" where
  "validate_key_registry document =
     seq (first_error
       [guard (exact_keys document [''spec_version'', ''keys'']) (ValueError ''invalid key registry fields''),
        guard (item document ''spec_version'' = S ''oncemesh.key-registry/v0'') (ValueError ''unsupported key registry version''),
        guard (is_dict (item document ''keys'')) (ValueError ''key registry keys must be an object'')])
     (validate_key_entries (pairs_of (item document ''keys'')))"

definition resolve_key :: "fs_file option \<Rightarrow> pystr \<Rightarrow> pystr \<Rightarrow> key_resolution result" where
  "resolve_key file key_id producer =
     (case rbind (read_registry file) validate_key_registry of
        Inl e \<Rightarrow> if caught e then Inr \<lparr>kr_key = None, kr_reason = ''receipt_registry_error''\<rparr> else Inl e
      | Inr records \<Rightarrow>
          Inr (case al_get records key_id of
                 None \<Rightarrow> \<lparr>kr_key = None, kr_reason = ''receipt_key_unknown''\<rparr>
               | Some r \<Rightarrow>
                   if rk_status r = u ''revoked'' then \<lparr>kr_key = None, kr_reason = ''receipt_key_revoked''\<rparr>
                   else if producer \<notin> rk_producers r then \<lparr>kr_key = None, kr_reason = ''receipt_producer_denied''\<rparr>
                   else \<lparr>kr_key = Some r, kr_reason = ''active''\<rparr>))"

section \<open>Authorization partitions\<close>

definition partition_domain :: bytes where
  "partition_domain = ascii ''OnceMesh authorization partition v1'' @ [0]"

text \<open>\<open>AUTHORIZATION_PARTITION_PATTERN.fullmatch\<close>\<close>

definition is_partition :: "pystr \<Rightarrow> bool" where
  "is_partition s \<longleftrightarrow> starts_with (u ''hmac-sha256:'') s \<and> length s = 76 \<and> list_all is_hex (drop 12 s)"

definition validate_authorization_partition :: "pyval \<Rightarrow> unit result" where
  "validate_authorization_partition v =
     guard (is_str v \<and> is_partition (str_of v)) (ValueError ''authorization partition token is invalid'')"

definition partition_claims :: "pystr \<Rightarrow> pystr list \<Rightarrow> pyval \<Rightarrow> pyval" where
  "partition_claims tenant scopes subject =
     obj [(''profile'', S ''oncemesh.authorization-partition/v1''), (''tenant'', PyStr tenant),
          (''scopes'', PyList (map PyStr (sort scopes))), (''subject_partition'', subject)]"

definition derive_authorization_partition :: "pyval \<Rightarrow> pyval \<Rightarrow> bytes \<Rightarrow> pyval \<Rightarrow> pystr result" where
  "derive_authorization_partition tenant scopes partition_key subject =
     seq (first_error
       [guard (nonempty_str tenant) (ValueError ''tenant must be a non-empty string''),
        guard (is_list scopes \<and> items_of scopes \<noteq> [] \<and> list_all nonempty_str (items_of scopes))
          (ValueError ''scopes must be a non-empty string list''),
        guard (distinct (items_of scopes)) (ValueError ''scopes must be unique''),
        guard (null_or_nonempty subject) (ValueError ''subject_partition must be null or a non-empty string''),
        guard (32 \<le> length partition_key) (ValueError ''partition key must contain at least 32 bytes'')])
     (rbind (canonical_json (partition_claims (str_of tenant) (map str_of (items_of scopes)) subject)) (\<lambda>claims.
        Inr (u ''hmac-sha256:'' @ hex (hmac_sha256 partition_key (partition_domain @ claims)))))"

definition authorization_partitions_match :: "pyval \<Rightarrow> pyval \<Rightarrow> bool result" where
  "authorization_partitions_match left right =
     seq (validate_authorization_partition left)
     (seq (validate_authorization_partition right) (Inr (str_of left = str_of right)))"

end
