(* ===== verification/Http_Fetch.thy ===== *)
theory Http_Fetch
  imports Registries
begin

text \<open>
  The \<open>http.fetch/v1\<close> adapter (\<open>adapters/http_fetch.py\<close>): URL normalization, the action and the
  artifacts of a response. What the standard library computes from Unicode tables or by parsing IP
  addresses (IDNA of names that are not ASCII, lower-casing beyond ASCII, the checks of a bracketed
  or of a non-ASCII authority) is the parameter record \<open>url_env\<close>; the rest of \<open>urlsplit\<close> is modelled
  as in Python 3.12. The transport is a parameter.
\<close>

section \<open>Reading dictionaries\<close>

text \<open>\<open>d[k]\<close> and \<open>d.get(k)\<close> on an arbitrary value.\<close>

definition subscript :: "pyval \<Rightarrow> string \<Rightarrow> pyval result" where
  "subscript d k =
     (if \<not> is_dict d then Inl TypeError else if has_key d k then Inr (item d k) else Inl KeyError)"

definition get_method :: "pyval \<Rightarrow> string \<Rightarrow> pyval result" where
  "get_method d k = (if is_dict d then Inr (item d k) else Inl AttributeError)"

lemma subscript_ok: "is_dict d \<Longrightarrow> has_key d k \<Longrightarrow> subscript d k = Inr (item d k)"
  by (simp add: subscript_def)

text \<open>Truth of a value in a condition; a float literal counts as zero when all its digits are.\<close>

fun truthy :: "pyval \<Rightarrow> bool" where
  "truthy PyNone = False"
| "truthy (PyBool b) = b"
| "truthy (PyInt i) = (i \<noteq> 0)"
| "truthy (PyFloat f) =
     (f \<in> {u ''nan'', u ''inf'', u ''-inf''} \<or> list_ex (\<lambda>c. 49 \<le> c \<and> c \<le> 57) (takeWhile (\<lambda>c. c \<noteq> 101 \<and> c \<noteq> 69) f))"
| "truthy (PyStr s) = (s \<noteq> [])"
| "truthy (PyList xs) = (xs \<noteq> [])"
| "truthy (PyDict kvs) = (kvs \<noteq> [])"
| "truthy (PyOther ty) = True"

section \<open>\<open>urlsplit\<close>\<close>

record url_env =
  ue_idna :: "pystr \<Rightarrow> pystr result"
  ue_lower :: "pystr \<Rightarrow> pystr"
  ue_bracket_ok :: "pystr \<Rightarrow> bool"
  ue_unicode_ok :: "pystr \<Rightarrow> bool"

definition is_ascii :: "pystr \<Rightarrow> bool" where
  "is_ascii s = list_all (\<lambda>c. 0 \<le> c \<and> c < 128) s"

definition lower :: "url_env \<Rightarrow> pystr \<Rightarrow> pystr" where
  "lower U s = (if is_ascii s then lower_ascii s else ue_lower U s)"

text \<open>\<open>s.partition(c)\<close> without the separator, and \<open>s.rpartition("@")[2]\<close>.\<close>

fun partition_at :: "int \<Rightarrow> pystr \<Rightarrow> pystr \<times> pystr option" where
  "partition_at c [] = ([], None)"
| "partition_at c (x # xs) =
     (if x = c then ([], Some xs) else let (a, b) = partition_at c xs in (x # a, b))"

definition after_last :: "int \<Rightarrow> pystr \<Rightarrow> pystr" where
  "after_last c s = rev (takeWhile (\<lambda>x. x \<noteq> c) (rev s))"

definition or_empty :: "pystr option \<Rightarrow> pystr" where
  "or_empty s = (case s of None \<Rightarrow> [] | Some x \<Rightarrow> x)"

text \<open>\<open>str.split\<close> on one character.\<close>

fun split_on :: "int \<Rightarrow> pystr \<Rightarrow> pystr list" where
  "split_on c [] = [[]]"
| "split_on c (x # xs) =
     (if x = c then [] # split_on c xs
      else case split_on c xs of [] \<Rightarrow> [[x]] | p # ps \<Rightarrow> (x # p) # ps)"

record split_url =
  su_scheme :: pystr
  su_netloc :: pystr
  su_path :: pystr
  su_query :: pystr

definition is_alpha :: "int \<Rightarrow> bool" where
  "is_alpha c \<longleftrightarrow> (65 \<le> c \<and> c \<le> 90) \<or> (97 \<le> c \<and> c \<le> 122)"

definition is_scheme_char :: "int \<Rightarrow> bool" where
  "is_scheme_char c \<longleftrightarrow> is_alpha c \<or> (48 \<le> c \<and> c \<le> 57) \<or> c = 43 \<or> c = 45 \<or> c = 46"

definition split_scheme :: "pystr \<Rightarrow> pystr \<times> pystr" where
  "split_scheme s =
     (case partition_at 58 s of
        (a, Some rest) \<Rightarrow>
          if a \<noteq> [] \<and> is_alpha (hd a) \<and> list_all is_scheme_char a then (lower_ascii a, rest) else ([], s)
      | (_, None) \<Rightarrow> ([], s))"

definition authority_end :: "int \<Rightarrow> bool" where
  "authority_end c \<longleftrightarrow> c = 47 \<or> c = 63 \<or> c = 35"

definition urlsplit :: "url_env \<Rightarrow> pystr \<Rightarrow> split_url result" where
  "urlsplit U url =
     (let stripped = filter (\<lambda>c. c \<noteq> 9 \<and> c \<noteq> 13 \<and> c \<noteq> 10) (dropWhile (\<lambda>c. 0 \<le> c \<and> c \<le> 32) url);
          (scheme, rest) = split_scheme stripped;
          has_netloc = starts_with [47, 47] rest;
          netloc = (if has_netloc then takeWhile (\<lambda>c. \<not> authority_end c) (drop 2 rest) else []);
          rest = (if has_netloc then dropWhile (\<lambda>c. \<not> authority_end c) (drop 2 rest) else rest);
          (rest, _) = partition_at 35 rest;
          (path, query) = partition_at 63 rest
      in if (91 \<in> set netloc) \<noteq> (93 \<in> set netloc) \<or> (91 \<in> set netloc \<and> \<not> ue_bracket_ok U netloc)
         then Inl (ValueError ''Invalid IPv6 URL'')
         else if \<not> is_ascii netloc \<and> \<not> ue_unicode_ok U netloc
         then Inl (ValueError ''netloc contains invalid characters under NFKC normalization'')
         else Inr \<lparr>su_scheme = scheme, su_netloc = netloc, su_path = path, su_query = or_empty query\<rparr>)"

text \<open>The host and port texts of an authority, as the \<open>hostname\<close> and \<open>port\<close> attributes read them.\<close>

definition host_info :: "pystr \<Rightarrow> pystr \<times> pystr" where
  "host_info netloc =
     (let info = after_last 64 netloc
      in case partition_at 91 info of
           (_, Some bracketed) \<Rightarrow>
             (let (host, rest) = partition_at 93 bracketed
              in (host, or_empty (snd (partition_at 58 (or_empty rest)))))
         | (_, None) \<Rightarrow> (let (host, port) = partition_at 58 info in (host, or_empty port)))"

definition has_userinfo :: "pystr \<Rightarrow> bool" where
  "has_userinfo netloc \<longleftrightarrow> 64 \<in> set netloc"

definition hostname :: "url_env \<Rightarrow> split_url \<Rightarrow> pystr option" where
  "hostname U p =
     (let (host, zone) = partition_at 37 (fst (host_info (su_netloc p)))
      in if fst (host_info (su_netloc p)) = [] then None
         else Some (lower U host @ (case zone of None \<Rightarrow> [] | Some z \<Rightarrow> 37 # z)))"

definition url_port :: "split_url \<Rightarrow> int option result" where
  "url_port p =
     (let port = snd (host_info (su_netloc p))
      in if port = [] then Inr None
         else if \<not> list_all is_digit port then Inl (ValueError ''Port could not be cast to integer value'')
         else if 65535 < digits_val port then Inl (ValueError ''Port out of range 0-65535'')
         else Inr (Some (digits_val port)))"

text \<open>\<open>host.encode("idna").decode("ascii")\<close>: an ASCII name has its labels checked for length only.\<close>

definition idna :: "url_env \<Rightarrow> pystr \<Rightarrow> pystr result" where
  "idna U host =
     (if host = [] then Inr []
      else if is_ascii host then
        (let labels = split_on 46 host
         in if list_all (\<lambda>l. 0 < length l \<and> length l < 64) (butlast labels) \<and> length (last labels) < 64
            then Inr host else Inl UnicodeError)
      else ue_idna U host)"

definition urlunsplit :: "split_url \<Rightarrow> pystr" where
  "urlunsplit p =
     (let path = (if su_path p \<noteq> [] \<and> hd (su_path p) \<noteq> 47 then 47 # su_path p else su_path p);
          url = (if su_netloc p \<noteq> [] then [47, 47] @ su_netloc p @ path else su_path p);
          url = (if su_scheme p \<noteq> [] then su_scheme p @ [58] @ url else url)
      in if su_query p \<noteq> [] then url @ [63] @ su_query p else url)"

section \<open>The adapter\<close>

definition normalize_https_url :: "url_env \<Rightarrow> pystr \<Rightarrow> pystr result" where
  "normalize_https_url U url =
     rbind (urlsplit U url) (\<lambda>parsed.
       if su_scheme parsed \<noteq> u ''https'' then Inl (ValueError ''http.fetch/v1 permits HTTPS URLs only'')
       else
         (case hostname U parsed of
            None \<Rightarrow> Inl (ValueError ''URL must contain a host and no user information'')
          | Some name \<Rightarrow>
              if has_userinfo (su_netloc parsed)
              then Inl (ValueError ''URL must contain a host and no user information'')
              else
                (case url_port parsed of
                   Inl e \<Rightarrow> if is_value_error e then Inl (ValueError ''URL port is invalid'') else Inl e
                 | Inr port \<Rightarrow>
                     rbind (idna U name) (\<lambda>ascii_name.
                       let host = lower_ascii ascii_name;
                           host = (if 58 \<in> set host then [91] @ host @ [93] else host);
                           netloc = (case port of
                                       None \<Rightarrow> host
                                     | Some p \<Rightarrow> if p = 443 then host else host @ [58] @ dump_int p)
                       in Inr (urlunsplit
                            \<lparr>su_scheme = u ''https'', su_netloc = netloc,
                             su_path = (if su_path parsed = [] then [47] else su_path parsed),
                             su_query = su_query parsed\<rparr>)))))"

record fetch_response =
  fr_status :: int
  fr_final_url :: pystr
  fr_headers :: "(pystr \<times> pystr) list"
  fr_body :: bytes

text \<open>The two calls of the transport: a plain GET and a conditional one (ETag, Last-Modified).\<close>

record transport =
  tr_get :: "pyval \<Rightarrow> pyval \<Rightarrow> pyval \<Rightarrow> pyval \<Rightarrow> fetch_response result"
  tr_conditional :: "pyval \<Rightarrow> pyval \<Rightarrow> pyval \<Rightarrow> pyval \<Rightarrow> pyval \<Rightarrow> pyval \<Rightarrow> fetch_response result"

definition build_http_fetch_action :: "url_env \<Rightarrow> pystr \<Rightarrow> pystr \<Rightarrow> bool \<Rightarrow> pyval \<Rightarrow> pyval \<Rightarrow> pyval result" where
  "build_http_fetch_action U url accept follow_redirects max_bytes vary =
     seq (first_error
       [guard (accept \<noteq> []) (ValueError ''accept must not be empty''),
        guard (is_int max_bytes \<and> 0 < int_of max_bytes) (ValueError ''max_bytes must be a positive integer'')])
     (rbind (normalize_https_url U url) (\<lambda>normalized.
        Inr (obj
          [(''spec_version'', S ''oncemesh.action/v0''),
           (''operation'', obj [(''name'', S ''http.fetch''), (''version'', S ''1'')]),
           (''inputs'', obj [(''url'', PyStr normalized), (''method'', S ''GET''), (''accept'', PyStr accept)]),
           (''executor'', obj [(''name'', S ''oncemesh.http''), (''version'', S ''1''),
              (''config'', obj [(''follow_redirects'', PyBool follow_redirects), (''max_bytes'', max_bytes)])]),
           (''output_schema'', S ''oncemesh.http/response-v1''),
           (''vary'', if truthy vary then vary else PyDict [])])))"

text \<open>\<open>action.get("operation") == {"name": ..., "version": ...}\<close>\<close>

definition is_operation :: "pyval \<Rightarrow> string \<Rightarrow> string \<Rightarrow> bool" where
  "is_operation v name version \<longleftrightarrow>
     exact_keys v [''name'', ''version''] \<and> item v ''name'' = S name \<and> item v ''version'' = S version"

definition check_http_fetch :: "pyval \<Rightarrow> string \<Rightarrow> unit result" where
  "check_http_fetch action message =
     rbind (get_method action ''operation'') (\<lambda>operation.
       guard (is_operation operation ''http.fetch'' ''1'') (ValueError message))"

text \<open>\<open>len(body) > limit\<close>: a limit that is not an integer (or a boolean) is a type error.\<close>

fun exceeds :: "int \<Rightarrow> pyval \<Rightarrow> bool result" where
  "exceeds n (PyInt m) = Inr (m < n)"
| "exceeds n (PyBool b) = Inr ((if b then 1 else 0) < n)"
| "exceeds n _ = Inl TypeError"

type_synonym outputs = "(pystr \<times> bytes \<times> pystr) list"

definition opt_str :: "pystr option \<Rightarrow> pyval" where
  "opt_str s = (case s of None \<Rightarrow> PyNone | Some t \<Rightarrow> PyStr t)"

definition response_headers :: "url_env \<Rightarrow> fetch_response \<Rightarrow> (pystr \<times> pystr) list" where
  "response_headers U response = al_of (map (\<lambda>(k, v). (lower U k, v)) (fr_headers response))"

definition response_metadata :: "fetch_response \<Rightarrow> (pystr \<times> pystr) list \<Rightarrow> pystr \<Rightarrow> pyval" where
  "response_metadata response headers final_url =
     obj [(''status'', PyInt (fr_status response)), (''final_url'', PyStr final_url),
          (''etag'', opt_str (al_get headers (u ''etag''))),
          (''last_modified'', opt_str (al_get headers (u ''last-modified''))),
          (''content_type'', opt_str (al_get headers (u ''content-type'')))]"

definition response_to_artifacts :: "url_env \<Rightarrow> pyval \<Rightarrow> fetch_response \<Rightarrow> outputs result" where
  "response_to_artifacts U action response =
     seq (check_http_fetch action ''action is not an http.fetch/v1 action'')
     (rbind (subscript action ''executor'') (\<lambda>executor.
      rbind (subscript executor ''config'') (\<lambda>config.
      if fr_status response \<noteq> 200 then Inl (ValueError ''http.fetch/v1 caches only status 200'')
      else
        rbind (subscript config ''max_bytes'') (\<lambda>limit.
        rbind (exceeds (int (length (fr_body response))) limit) (\<lambda>too_long.
          if too_long then Inl (ValueError ''response exceeds max_bytes'')
          else
            (let headers = response_headers U response;
                 media_type = (case al_get headers (u ''content-type'') of
                                 Some t \<Rightarrow> t | None \<Rightarrow> u ''application/octet-stream'')
             in rbind (normalize_https_url U (fr_final_url response)) (\<lambda>final_url.
                rbind (canonical_json (response_metadata response headers final_url)) (\<lambda>metadata.
                  Inr [(u ''body'', fr_body response, media_type),
                       (u ''metadata'', metadata, u ''application/json'')]))))))))"

definition execute_http_fetch :: "url_env \<Rightarrow> pyval \<Rightarrow> transport \<Rightarrow> outputs result" where
  "execute_http_fetch U action T =
     seq (check_http_fetch action ''action is not an http.fetch/v1 action'')
     (rbind (subscript action ''inputs'') (\<lambda>inputs.
      rbind (subscript action ''executor'') (\<lambda>executor.
      rbind (subscript executor ''config'') (\<lambda>config.
      rbind (subscript inputs ''url'') (\<lambda>url.
      rbind (subscript inputs ''accept'') (\<lambda>accept.
      rbind (subscript config ''follow_redirects'') (\<lambda>follow.
      rbind (subscript config ''max_bytes'') (\<lambda>limit.
      rbind (tr_get T url accept follow limit) (\<lambda>response.
        response_to_artifacts U action response)))))))))"

end
