(* ===== verification/Federation_Http.thy ===== *)
theory Federation_Http
  imports Complex_Main Federation_Import Http_Fetch
begin

text \<open>
  The authenticated HTTP transport of federation (\<open>federation_http.py\<close>): signed requests, the
  authenticator with its remembered nonces, the rate limiter, the request handler of the server, and
  the client. Times are UTC instants; a message is its status, headers and body as the standard
  library delivers them.
\<close>

section \<open>Signed requests\<close>

definition request_domain :: bytes where
  "request_domain = ascii ''OnceMesh federation HTTP request v1'' @ [0]"

definition empty_body_digest :: pystr where
  "empty_body_digest = digest_bytes []"

definition is_nonce :: "pystr \<Rightarrow> bool" where
  "is_nonce s \<longleftrightarrow> length s = 32 \<and> list_all is_hex s"

definition availability_path :: pystr where
  "availability_path = u ''/v0/availability''"

definition bundle_path :: "pystr \<Rightarrow> pystr" where
  "bundle_path digest = u ''/v0/bundles/'' @ digest"

definition bundle_digest :: "pystr \<Rightarrow> pystr option" where
  "bundle_digest path =
     (if starts_with (u ''/v0/bundles/'') path \<and> is_digest (removeprefix (u ''/v0/bundles/'') path)
      then Some (removeprefix (u ''/v0/bundles/'') path) else None)"

definition request_path_ok :: "pystr \<Rightarrow> bool" where
  "request_path_ok path \<longleftrightarrow> path = availability_path \<or> bundle_digest path \<noteq> None"

definition http_decode_signature :: "pyval \<Rightarrow> bytes result" where
  "http_decode_signature v =
     (if \<not> (is_str v \<and> length (str_of v) = 86 \<and> list_all is_b64 (str_of v))
      then Inl (ValueError ''request signature is not canonical base64url'')
      else case b64_decode (str_of v) of
             None \<Rightarrow> Inl (ValueError ''request signature is not canonical base64url'')
           | Some decoded \<Rightarrow>
               if length decoded \<noteq> 64 \<or> encode_signature decoded \<noteq> str_of v
               then Inl (ValueError ''request signature must encode 64 bytes'') else Inr decoded)"

definition validate_federation_request :: "pyval \<Rightarrow> unit result" where
  "validate_federation_request r =
     first_error
       [fed_exact_keys r [''spec_version'', ''peer_id'', ''timestamp'', ''nonce'', ''method'', ''path'', ''body_digest'']
          ''federation request'',
        guard (item r ''spec_version'' = S ''oncemesh.federation-request/v0'') (ValueError ''unsupported federation request version''),
        guard (nonempty_str (item r ''peer_id'')) (ValueError ''request peer_id must be a non-empty string''),
        discard (fed_parse_time (item r ''timestamp'')),
        guard (is_str (item r ''nonce'') \<and> is_nonce (str_of (item r ''nonce''))) (ValueError ''request nonce is invalid''),
        guard (item r ''method'' = S ''GET'') (ValueError ''unsupported federation request method''),
        guard (is_str (item r ''path'') \<and> request_path_ok (str_of (item r ''path'')))
          (ValueError ''unsupported federation request path''),
        guard (item r ''body_digest'' = PyStr empty_body_digest) (ValueError ''federation GET body digest must be empty''),
        discard (canonical_json r)]"

definition request_signing_input :: "pyval \<Rightarrow> bytes result" where
  "request_signing_input r =
     seq (validate_federation_request r) (rbind (canonical_json r) (\<lambda>b. Inr (request_domain @ b)))"

definition sign_federation_request :: "ed25519 \<Rightarrow> pyval \<Rightarrow> bytes \<Rightarrow> pyval result" where
  "sign_federation_request E r seed =
     seq (guard (length seed = 32) (ValueError ''request private seed must contain exactly 32 bytes''))
       (rbind (request_signing_input r) (\<lambda>message. Inr (signature_document (ed_public E seed) (ed_sign E seed message))))"

definition verify_federation_request :: "ed25519 \<Rightarrow> pyval \<Rightarrow> pyval \<Rightarrow> bytes \<Rightarrow> bool result" where
  "verify_federation_request E r signature public_key =
     (case seq (fed_exact_keys signature [''profile'', ''key_id'', ''value''] ''request signature'')
             (if item signature ''profile'' \<noteq> signature_profile \<or> length public_key \<noteq> 32
                 \<or> item signature ''key_id'' \<noteq> PyStr (digest_bytes public_key)
              then Inr False
              else rbind (http_decode_signature (item signature ''value'')) (\<lambda>sig.
                   rbind (request_signing_input r) (\<lambda>message. Inr (ed_verify E public_key sig message)))) of
        Inr b \<Rightarrow> Inr b
      | Inl e \<Rightarrow> if is_value_error e \<or> e = TypeError \<or> e = KeyError then Inr False else Inl e)"

section \<open>Authentication\<close>

type_synonym headers = "(pystr \<times> pystr) list"

text \<open>\<open>headers.get_all\<close> and \<open>headers.get\<close>: names are compared without case.\<close>

definition all_headers :: "headers \<Rightarrow> string \<Rightarrow> pystr list" where
  "all_headers hs name = map snd (filter (\<lambda>h. lower_ascii (fst h) = lower_ascii (u name)) hs)"

definition sole_header :: "headers \<Rightarrow> string \<Rightarrow> pystr option" where
  "sole_header hs name = (case all_headers hs name of [v] \<Rightarrow> Some v | _ \<Rightarrow> None)"

definition get_header :: "headers \<Rightarrow> string \<Rightarrow> pystr option" where
  "get_header hs name = (case all_headers hs name of [] \<Rightarrow> None | v # _ \<Rightarrow> Some v)"

record auth_headers =
  ah_peer_id :: pystr
  ah_timestamp :: pystr
  ah_nonce :: pystr
  ah_key_id :: pystr
  ah_signature :: pystr

definition read_auth_headers :: "headers \<Rightarrow> auth_headers option" where
  "read_auth_headers hs =
     (case (sole_header hs ''OnceMesh-Peer-ID'', sole_header hs ''OnceMesh-Timestamp'', sole_header hs ''OnceMesh-Nonce'',
            sole_header hs ''OnceMesh-Key-ID'', sole_header hs ''OnceMesh-Signature'') of
        (Some p, Some t, Some n, Some k, Some s) \<Rightarrow>
          Some \<lparr>ah_peer_id = p, ah_timestamp = t, ah_nonce = n, ah_key_id = k, ah_signature = s\<rparr>
      | _ \<Rightarrow> None)"

definition request_document :: "pystr \<Rightarrow> pystr \<Rightarrow> pystr \<Rightarrow> pystr \<Rightarrow> pystr \<Rightarrow> pyval" where
  "request_document peer_id timestamp nonce verb path =
     obj [(''spec_version'', S ''oncemesh.federation-request/v0''), (''peer_id'', PyStr peer_id), (''timestamp'', PyStr timestamp),
          (''nonce'', PyStr nonce), (''method'', PyStr verb), (''path'', PyStr path), (''body_digest'', PyStr empty_body_digest)]"

definition header_signature :: "auth_headers \<Rightarrow> pyval" where
  "header_signature h =
     obj [(''profile'', signature_profile), (''key_id'', PyStr (ah_key_id h)), (''value'', PyStr (ah_signature h))]"

record authenticator =
  at_requesters :: "(pystr \<times> bytes) list"
  at_max_age :: int
  at_max_skew :: int
  at_max_nonces :: int
  at_nonces :: "((pystr \<times> pystr) \<times> int) list"

definition new_authenticator :: "(pystr \<times> bytes) list \<Rightarrow> pyval \<Rightarrow> pyval \<Rightarrow> pyval \<Rightarrow> authenticator result" where
  "new_authenticator requesters age skew nonces =
     seq (first_error
       [in_range age 1 3600 ''max_age_seconds'', in_range skew 0 300 ''max_future_clock_skew_seconds'',
        in_range nonces 1 1000000 ''max_remembered_nonces'',
        guard (list_all (\<lambda>(peer_id, key). peer_id \<noteq> [] \<and> length key = 32) requesters)
          (ValueError ''requester peer identity and 32-byte public key are required''),
        guard (requesters \<noteq> []) (ValueError ''at least one configured requester is required'')])
     (Inr \<lparr>at_requesters = requesters, at_max_age = int_of age, at_max_skew = int_of skew, at_max_nonces = int_of nonces,
           at_nonces = []\<rparr>)"

text \<open>The time a request was signed at, when its signature is that of the configured requester.\<close>

definition verified_time :: "ed25519 \<Rightarrow> authenticator \<Rightarrow> pystr \<Rightarrow> pystr \<Rightarrow> auth_headers \<Rightarrow> int option result" where
  "verified_time E A verb path h =
     (case al_get (at_requesters A) (ah_peer_id h) of
        None \<Rightarrow> Inr None
      | Some public_key \<Rightarrow>
          rbind (verify_federation_request E (request_document (ah_peer_id h) (ah_timestamp h) (ah_nonce h) verb path)
                   (header_signature h) public_key) (\<lambda>verified.
            if \<not> verified then Inr None
            else rbind (fed_parse_time (PyStr (ah_timestamp h))) (\<lambda>signed_at. Inr (Some signed_at))))"

definition live_nonces :: "authenticator \<Rightarrow> int \<Rightarrow> ((pystr \<times> pystr) \<times> int) list" where
  "live_nonces A now = filter (\<lambda>p. now < snd p) (at_nonces A)"

definition admit_nonce :: "authenticator \<Rightarrow> int \<Rightarrow> pystr \<times> pystr \<Rightarrow> authenticator \<times> bool" where
  "admit_nonce A now k =
     (let live = live_nonces A now
      in if al_get live k \<noteq> None \<or> at_max_nonces A \<le> int (length live) then (A\<lparr>at_nonces := live\<rparr>, False)
         else (A\<lparr>at_nonces := al_set live k (now + micros (at_max_age A))\<rparr>, True))"

definition authenticate_peer :: "ed25519 \<Rightarrow> authenticator \<Rightarrow> int \<Rightarrow> pystr \<Rightarrow> pystr \<Rightarrow> headers \<Rightarrow> (authenticator \<times> pystr option) result" where
  "authenticate_peer E A now verb path hs =
     (case read_auth_headers hs of
        None \<Rightarrow> Inr (A, None)
      | Some h \<Rightarrow>
          (case verified_time E A verb path h of
             Inl e \<Rightarrow> if is_value_error e \<or> e = TypeError \<or> e = KeyError \<or> e = AttributeError then Inr (A, None) else Inl e
           | Inr None \<Rightarrow> Inr (A, None)
           | Inr (Some signed_at) \<Rightarrow>
               if signed_at < now - micros (at_max_age A) then Inr (A, None)
               else if now + micros (at_max_skew A) < signed_at then Inr (A, None)
               else (case admit_nonce A now (ah_peer_id h, ah_nonce h) of
                       (A', admitted) \<Rightarrow> Inr (A', if admitted then Some (ah_peer_id h) else None))))"

definition authenticate :: "ed25519 \<Rightarrow> authenticator \<Rightarrow> int \<Rightarrow> pystr \<Rightarrow> pystr \<Rightarrow> headers \<Rightarrow> (authenticator \<times> bool) result" where
  "authenticate E A now verb path hs = rbind (authenticate_peer E A now verb path hs) (\<lambda>(A', p). Inr (A', p \<noteq> None))"

section \<open>Rate limits\<close>

record rate_limiter =
  rl_max_requests :: int
  rl_window_seconds :: int
  rl_requests :: "(pystr \<times> int list) list"

definition new_rate_limiter :: "pyval \<Rightarrow> pyval \<Rightarrow> rate_limiter result" where
  "new_rate_limiter requests window =
     seq (first_error [in_range requests 1 1000000 ''max_requests'', in_range window 1 3600 ''window_seconds''])
       (Inr \<lparr>rl_max_requests = int_of requests, rl_window_seconds = int_of window, rl_requests = []\<rparr>)"

definition allow :: "rate_limiter \<Rightarrow> int \<Rightarrow> pystr \<Rightarrow> rate_limiter \<times> bool" where
  "allow L now peer_id =
     (let events = dropWhile (\<lambda>t. t \<le> now - micros (rl_window_seconds L)) (list_at (rl_requests L) peer_id)
      in if rl_max_requests L \<le> int (length events)
         then (L\<lparr>rl_requests := al_set (rl_requests L) peer_id events\<rparr>, False)
         else (L\<lparr>rl_requests := al_set (rl_requests L) peer_id (events @ [now])\<rparr>, True))"

section \<open>The server\<close>

record http_reply =
  hr_status :: int
  hr_headers :: headers
  hr_body :: bytes

definition status_reply :: "int \<Rightarrow> http_reply" where
  "status_reply status = \<lparr>hr_status = status, hr_headers = [(u ''Content-Length'', u ''0'')], hr_body = []\<rparr>"

definition json_reply :: "int \<Rightarrow> pyval \<Rightarrow> http_reply result" where
  "json_reply maximum v =
     rbind (canonical_json v) (\<lambda>encoded.
       Inr (if maximum < int (length encoded) then status_reply 413
            else \<lparr>hr_status = 200,
                  hr_headers = [(u ''Content-Type'', u ''application/json''), (u ''Content-Length'', dump_int (int (length encoded)))],
                  hr_body = encoded\<rparr>))"

definition bundle_document :: "fed_bundle \<Rightarrow> pyval" where
  "bundle_document b =
     obj [(''spec_version'', S ''oncemesh.federation-bundle/v0''), (''manifest'', fb_manifest b), (''receipt'', fb_receipt b),
          (''artifacts'', PyDict (map (\<lambda>(name, data). (PyStr name, PyStr (b64_encode data))) (fb_artifacts b)))]"

record fed_server =
  hs_catalog :: catalog
  hs_authenticator :: authenticator
  hs_limiter :: "rate_limiter option"
  hs_max_response_bytes :: int

definition new_fed_server :: "catalog \<Rightarrow> authenticator \<Rightarrow> pyval \<Rightarrow> pyval \<Rightarrow> rate_limiter option \<Rightarrow> fed_server result" where
  "new_fed_server C A max_response_bytes max_concurrent limiter =
     seq (first_error
       [in_range max_response_bytes 1024 1000000000 ''max_response_bytes'', in_range max_concurrent 1 10000 ''max_concurrent_requests''])
     (Inr \<lparr>hs_catalog = C, hs_authenticator = A, hs_limiter = limiter, hs_max_response_bytes = int_of max_response_bytes\<rparr>)"

definition serve_path :: "ed25519 \<Rightarrow> store_view \<Rightarrow> catalog \<Rightarrow> int \<Rightarrow> int \<Rightarrow> pystr \<Rightarrow> http_reply result" where
  "serve_path E view C maximum now path =
     (if path = availability_path then rbind (catalog_availability E C now) (json_reply maximum)
      else case bundle_digest path of
             None \<Rightarrow> Inr (status_reply 404)
           | Some digest \<Rightarrow>
               rbind (catalog_fetch_bundle view C digest) (\<lambda>found.
                 case found of None \<Rightarrow> Inr (status_reply 404) | Some b \<Rightarrow> json_reply maximum (bundle_document b)))"

definition limit_rate :: "rate_limiter option \<Rightarrow> int \<Rightarrow> pystr \<Rightarrow> rate_limiter option \<times> bool" where
  "limit_rate limiter now requester =
     (case limiter of None \<Rightarrow> (None, True) | Some L \<Rightarrow> (case allow L now requester of (L', b) \<Rightarrow> (Some L', b)))"

text \<open>
  The clocks of the authenticator, the limiter and the server are read in this order; \<open>slot\<close> says that
  a request slot was free. An exception ends the connection without a reply.
\<close>

definition do_get ::
  "ed25519 \<Rightarrow> store_view \<Rightarrow> int \<times> int \<times> int \<Rightarrow> bool \<Rightarrow> fed_server \<Rightarrow> pystr \<Rightarrow> headers \<Rightarrow> fed_server \<times> http_reply result" where
  "do_get E view clocks slot H path hs =
     (case clocks of (auth_now, limit_now, now) \<Rightarrow>
       if \<not> slot then (H, Inr (status_reply 503))
       else
         case authenticate_peer E (hs_authenticator H) auth_now (u ''GET'') path hs of
           Inl e \<Rightarrow> (H, Inl e)
         | Inr (A, None) \<Rightarrow> (H\<lparr>hs_authenticator := A\<rparr>, Inr (status_reply 401))
         | Inr (A, Some requester) \<Rightarrow>
             (case limit_rate (hs_limiter H) limit_now requester of
                (L, False) \<Rightarrow> (H\<lparr>hs_authenticator := A, hs_limiter := L\<rparr>, Inr (status_reply 429))
              | (L, True) \<Rightarrow>
                  (H\<lparr>hs_authenticator := A, hs_limiter := L\<rparr>,
                   serve_path E view (hs_catalog H) (hs_max_response_bytes H) now path)))"

definition do_post :: http_reply where
  "do_post = status_reply 405"

section \<open>The client\<close>

definition strict_json :: "bytes \<Rightarrow> pyval result" where
  "strict_json raw = loads_bytes \<lparr>reject_dup = True, reject_const = False\<rparr> raw"

definition decode_blob :: "pyval \<Rightarrow> bytes result" where
  "decode_blob v =
     (if \<not> (is_str v \<and> list_all is_b64 (str_of v)) then Inl (ValueError ''artifact is not base64url'')
      else if length (str_of v) mod 4 = 1 then Inl (ValueError ''artifact base64url length is invalid'')
      else case b64_decode (str_of v) of
             None \<Rightarrow> Inl (ValueError ''artifact is not base64url'')
           | Some decoded \<Rightarrow>
               if b64_encode decoded \<noteq> str_of v then Inl (ValueError ''artifact base64url is not canonical'') else Inr decoded)"

fun decode_blobs :: "(pyval \<times> pyval) list \<Rightarrow> artifacts result" where
  "decode_blobs [] = Inr []"
| "decode_blobs ((name, encoded) # rest) =
     rbind (decode_blob encoded) (\<lambda>data. rbind (decode_blobs rest) (\<lambda>more. Inr ((str_of name, data) # more)))"

record http_peer =
  hp_base_url :: pystr
  hp_peer_id :: pystr
  hp_seed :: bytes
  hp_max_availability_bytes :: int
  hp_max_bundle_bytes :: int

definition url_fragment :: "pystr \<Rightarrow> pystr" where
  "url_fragment url = filter (\<lambda>c. c \<noteq> 9 \<and> c \<noteq> 13 \<and> c \<noteq> 10) (or_empty (snd (partition_at 35 url)))"

definition loopback_hosts :: "pystr list" where
  "loopback_hosts = [u ''127.0.0.1'', u ''::1'', u ''localhost'']"

definition new_http_peer ::
  "url_env \<Rightarrow> pystr \<Rightarrow> pyval \<Rightarrow> bytes \<Rightarrow> rat \<Rightarrow> pyval \<Rightarrow> pyval \<Rightarrow> bool \<Rightarrow> bool \<Rightarrow> http_peer result" where
  "new_http_peer U base_url peer_id seed timeout availability_bytes bundle_bytes allow_insecure_loopback has_tls =
     rbind (urlsplit U base_url) (\<lambda>p.
       seq (first_error
         [guard (su_scheme p \<in> {u ''http'', u ''https''} \<and> hostname U p \<noteq> None \<and> hostname U p \<noteq> Some []
                 \<and> su_path p \<in> {[], [47]} \<and> su_query p = [] \<and> url_fragment base_url = [])
            (ValueError ''base_url must contain only an HTTP(S) origin''),
          guard (su_scheme p \<noteq> u ''http'' \<or> (allow_insecure_loopback \<and> hostname U p \<in> Some ` set loopback_hosts))
            (ValueError ''plain HTTP is permitted only for explicitly enabled loopback tests''),
          guard (\<not> has_userinfo (su_netloc p)) (ValueError ''base_url must not contain user information''),
          guard (has_tls \<longrightarrow> su_scheme p = u ''https'') (ValueError ''a TLS context requires an HTTPS base_url''),
          guard (nonempty_str peer_id) (ValueError ''requester_peer_id must not be empty''),
          guard (length seed = 32) (ValueError ''request private seed must contain exactly 32 bytes''),
          guard (0 < timeout \<and> timeout \<le> 60) (ValueError ''timeout_seconds is outside the supported range''),
          in_range availability_bytes 1 1000000000 ''max_availability_response_bytes'',
          in_range bundle_bytes 1 1000000000 ''max_bundle_response_bytes''])
       (Inr \<lparr>hp_base_url = rstrip_char 47 base_url, hp_peer_id = str_of peer_id, hp_seed = seed,
             hp_max_availability_bytes = int_of availability_bytes, hp_max_bundle_bytes = int_of bundle_bytes\<rparr>))"

text \<open>What \<open>http.client\<close> accepts as the value of a header: Latin-1, and a line break only before a continuation.\<close>

fun bad_line_break :: "pystr \<Rightarrow> bool" where
  "bad_line_break [] = False"
| "bad_line_break (c # r) =
     ((c = 10 \<and> \<not> (\<exists>d \<in> set (take 1 r). d = 32 \<or> d = 9))
      \<or> (c = 13 \<and> \<not> (\<exists>d \<in> set (take 1 r). d = 32 \<or> d = 9 \<or> d = 10)) \<or> bad_line_break r)"

definition sendable :: "pystr \<Rightarrow> bool" where
  "sendable v \<longleftrightarrow> list_all (\<lambda>c. c < 256) v \<and> \<not> bad_line_break v"

definition media_type_of :: "headers \<Rightarrow> pystr" where
  "media_type_of hs = lower_ascii (strip (fst (partition_at 59 (or_empty (get_header hs ''Content-Type'')))))"

definition length_exceeds :: "int \<Rightarrow> pystr option \<Rightarrow> bool" where
  "length_exceeds maximum declared =
     (case declared of None \<Rightarrow> False | Some t \<Rightarrow> t = [] \<or> \<not> list_all is_digit t \<or> maximum < digits_val t)"

text \<open>A status outside 200 to 299 is an \<open>HTTPError\<close>, which is an \<open>OSError\<close>.\<close>

definition read_reply :: "int \<Rightarrow> http_reply \<Rightarrow> pyval result" where
  "read_reply maximum r =
     (if hr_status r < 200 \<or> 300 \<le> hr_status r then Inl OSError
      else
        seq (first_error
          [guard (hr_status r = 200) (ValueError ''federation response status is not successful''),
           guard (media_type_of (hr_headers r) = u ''application/json'') (ValueError ''federation response content type is invalid''),
           guard (or_empty (get_header (hr_headers r) ''Content-Encoding'') = [])
             (ValueError ''compressed federation responses are unsupported''),
           guard (\<not> length_exceeds maximum (get_header (hr_headers r) ''Content-Length''))
             (ValueError ''federation response exceeds byte limit''),
           guard (int (length (hr_body r)) \<le> maximum) (ValueError ''federation response exceeds byte limit'')])
        (strict_json (hr_body r)))"

type_synonym 's wire = "'s \<Rightarrow> pystr \<Rightarrow> headers \<Rightarrow> 's \<times> http_reply result"

definition request_headers :: "auth_headers \<Rightarrow> headers" where
  "request_headers h =
     [(u ''OnceMesh-Peer-ID'', ah_peer_id h), (u ''OnceMesh-Timestamp'', ah_timestamp h), (u ''OnceMesh-Nonce'', ah_nonce h),
      (u ''OnceMesh-Key-ID'', ah_key_id h), (u ''OnceMesh-Signature'', ah_signature h), (u ''Accept'', u ''application/json'')]"

definition signed_headers :: "ed25519 \<Rightarrow> http_peer \<Rightarrow> pystr \<Rightarrow> int \<Rightarrow> pystr \<Rightarrow> auth_headers result" where
  "signed_headers E K path now nonce =
     rbind (sign_federation_request E (request_document (hp_peer_id K) (iso_utc now) nonce (u ''GET'') path) (hp_seed K))
       (\<lambda>signature. Inr \<lparr>ah_peer_id = hp_peer_id K, ah_timestamp = iso_utc now, ah_nonce = nonce,
          ah_key_id = str_of (item signature ''key_id''), ah_signature = str_of (item signature ''value'')\<rparr>)"

definition http_get :: "ed25519 \<Rightarrow> http_peer \<Rightarrow> 's wire \<Rightarrow> pystr \<Rightarrow> int \<Rightarrow> int \<Rightarrow> pystr \<Rightarrow> 's \<Rightarrow> 's \<times> pyval result" where
  "http_get E K send path maximum now nonce s =
     (case signed_headers E K path now nonce of
        Inl e \<Rightarrow> (s, Inl e)
      | Inr h \<Rightarrow>
          if \<not> list_all (\<lambda>p. sendable (snd p)) (request_headers h) then (s, Inl (ValueError ''invalid header value''))
          else (case send s (hp_base_url K @ path) (request_headers h) of (s', r) \<Rightarrow> (s', rbind r (read_reply maximum))))"

definition http_availability :: "ed25519 \<Rightarrow> http_peer \<Rightarrow> 's wire \<Rightarrow> int \<Rightarrow> pystr \<Rightarrow> 's \<Rightarrow> 's \<times> pyval result" where
  "http_availability E K send now nonce s =
     (case http_get E K send availability_path (hp_max_availability_bytes K) now nonce s of
        (s', r) \<Rightarrow>
          (s', case rbind r (\<lambda>v. seq (guard (is_dict v) (ValueError ''availability response must be an object'')) (Inr v)) of
                 Inr v \<Rightarrow> Inr v
               | Inl e \<Rightarrow> if e = OSError \<or> e = UnicodeError \<or> e = JSONDecodeError
                          then Inl (ValueError ''federation availability request failed'') else Inl e))"

definition read_bundle :: "pyval \<Rightarrow> fed_bundle result" where
  "read_bundle v =
     seq (first_error
       [fed_exact_keys v [''spec_version'', ''manifest'', ''receipt'', ''artifacts''] ''federation bundle'',
        guard (item v ''spec_version'' = S ''oncemesh.federation-bundle/v0'') (ValueError ''unsupported federation bundle version''),
        guard (is_dict (item v ''manifest'') \<and> is_dict (item v ''receipt'') \<and> is_dict (item v ''artifacts''))
          (ValueError ''federation bundle members are invalid'')])
     (rbind (decode_blobs (pairs_of (item v ''artifacts''))) (\<lambda>artifacts.
        if list_ex (\<lambda>a. fst a = []) artifacts then Inl (ValueError ''federation artifact names are invalid'')
        else Inr \<lparr>fb_manifest = item v ''manifest'', fb_receipt = item v ''receipt'', fb_artifacts = artifacts\<rparr>))"

definition http_fetch_bundle :: "ed25519 \<Rightarrow> http_peer \<Rightarrow> 's wire \<Rightarrow> int \<Rightarrow> pystr \<Rightarrow> pystr \<Rightarrow> 's \<Rightarrow> 's \<times> fed_bundle option result" where
  "http_fetch_bundle E K send now nonce digest s =
     (if \<not> is_digest digest then (s, Inr None)
      else case http_get E K send (bundle_path digest) (hp_max_bundle_bytes K) now nonce s of
        (s', r) \<Rightarrow>
          (s', case rbind r read_bundle of
                 Inr b \<Rightarrow> Inr (Some b)
               | Inl e \<Rightarrow> if e = OSError \<or> e = TypeError \<or> is_value_error e then Inr None else Inl e))"

text \<open>The wire to a server: the path after the origin, and no reply when the handler raised.\<close>

definition server_wire :: "ed25519 \<Rightarrow> store_view \<Rightarrow> http_peer \<Rightarrow> int \<times> int \<times> int \<Rightarrow> fed_server wire" where
  "server_wire E view K clocks H url hs =
     (case do_get E view clocks True H (removeprefix (hp_base_url K) url) hs of
        (H', Inl _) \<Rightarrow> (H', Inl OSError)
      | (H', Inr r) \<Rightarrow> (H', Inr r))"

end
