(* ===== verification/Pilot_Documents.thy ===== *)
theory Pilot_Documents
  imports Federation_Http
begin

text \<open>
  The documents of the operator commands (\<open>federation_pilot.py\<close>): identities, publications and their
  withdrawal, and the readers of their fields. Files are a map from absolute POSIX paths without
  symbolic links to contents; a new file is created exclusively and as a whole.
\<close>

section \<open>Files\<close>

type_synonym files = "(pystr \<times> fs_file) list"

fun normal_parts :: "pystr list \<Rightarrow> pystr list \<Rightarrow> pystr list" where
  "normal_parts done [] = done"
| "normal_parts done (p # ps) =
     (if p = [] \<or> p = [46] then normal_parts done ps
      else if p = [46, 46] then normal_parts (butlast done) ps
      else normal_parts (done @ [p]) ps)"

definition resolve_path :: "pystr \<Rightarrow> pystr \<Rightarrow> pystr" where
  "resolve_path base path =
     concat (map (\<lambda>p. 47 # p) (normal_parts [] (split_on 47 (if starts_with [47] path then path else base @ [47] @ path))))"

definition parent_path :: "pystr \<Rightarrow> pystr" where
  "parent_path path = concat (map (\<lambda>p. 47 # p) (butlast (normal_parts [] (split_on 47 path))))"

definition file_exists :: "files \<Rightarrow> pystr \<Rightarrow> bool" where
  "file_exists fs path \<longleftrightarrow> al_get fs path \<noteq> None"

definition read_bytes :: "files \<Rightarrow> pystr \<Rightarrow> bytes result" where
  "read_bytes fs path = (case al_get fs path of Some (File data) \<Rightarrow> Inr data | _ \<Rightarrow> Inl OSError)"

definition write_new :: "files \<Rightarrow> pystr \<Rightarrow> bytes \<Rightarrow> files result" where
  "write_new fs path data = (if file_exists fs path then Inl OSError else Inr (al_set fs path (File data)))"

section \<open>Readers\<close>

definition pilot_exact_keys :: "pyval \<Rightarrow> string list \<Rightarrow> string \<Rightarrow> unit result" where
  "pilot_exact_keys v expected label = guard (exact_keys v expected) (ValueError (label @ '' has wrong fields''))"

definition pilot_strict_json :: "bytes \<Rightarrow> pyval result" where
  "pilot_strict_json raw = loads_bytes \<lparr>reject_dup = True, reject_const = True\<rparr> raw"

definition load_document :: "files \<Rightarrow> pystr \<Rightarrow> pyval result" where
  "load_document fs path =
     (case rbind (read_bytes fs path) pilot_strict_json of
        Inl e \<Rightarrow> if e = OSError \<or> e = UnicodeError \<or> e = JSONDecodeError
                 then Inl (ValueError ''cannot read JSON document'') else Inl e
      | Inr v \<Rightarrow> if is_dict v then Inr v else Inl (ValueError ''JSON document must be an object''))"

definition decode_32 :: "pyval \<Rightarrow> string \<Rightarrow> bytes result" where
  "decode_32 v label =
     (case (if is_str v then decode_canonical 43 32 (str_of v) else None) of
        None \<Rightarrow> Inl (ValueError (label @ '' must encode exactly 32 bytes'')) | Some decoded \<Rightarrow> Inr decoded)"

definition pilot_decode_blob :: "pyval \<Rightarrow> string \<Rightarrow> bytes result" where
  "pilot_decode_blob v label =
     (if \<not> (is_str v \<and> list_all is_b64 (str_of v) \<and> length (str_of v) mod 4 \<noteq> 1)
      then Inl (ValueError (label @ '' must be canonical unpadded base64url''))
      else case b64_decode (str_of v) of
             None \<Rightarrow> Inl (ValueError (label @ '' is invalid base64url''))
           | Some decoded \<Rightarrow>
               if b64_encode decoded \<noteq> str_of v then Inl (ValueError (label @ '' is not canonical base64url'')) else Inr decoded)"

definition is_upper :: "int \<Rightarrow> bool" where
  "is_upper c \<longleftrightarrow> 65 \<le> c \<and> c \<le> 90"

definition env_name_ok :: "pystr \<Rightarrow> bool" where
  "env_name_ok s \<longleftrightarrow> s \<noteq> [] \<and> is_upper (hd s) \<and> list_all (\<lambda>c. is_upper c \<or> is_digit c \<or> c = 95) (tl s)"

definition seed_from_environment :: "pyval \<Rightarrow> (pystr \<Rightarrow> pystr option) \<Rightarrow> bytes result" where
  "seed_from_environment name environment =
     (if \<not> (is_str name \<and> env_name_ok (str_of name)) then Inl (ValueError ''private seed environment name is invalid'')
      else case environment (str_of name) of
             None \<Rightarrow> Inl (ValueError ''required private seed environment variable is missing'')
           | Some value \<Rightarrow> decode_32 (PyStr value) ''environment variable'')"

fun key_records :: "pyval list \<Rightarrow> string \<Rightarrow> (pystr \<times> bytes) list \<Rightarrow> (pystr \<times> bytes) list result" where
  "key_records [] label found = Inr found"
| "key_records (e # es) label found =
     seq (pilot_exact_keys e [''key_id'', ''public_key_base64url''] label)
     (rbind (decode_32 (item e ''public_key_base64url'') label) (\<lambda>public_key.
      seq (first_error
        [guard (digest_val (item e ''key_id'')) (ValueError (label @ '' key_id is invalid'')),
         guard (PyStr (digest_bytes public_key) = item e ''key_id'') (ValueError (label @ '' key_id does not match public key'')),
         guard (al_get found (str_of (item e ''key_id'')) = None) (ValueError (label @ '' key identifiers must be unique''))])
      (key_records es label (al_set found (str_of (item e ''key_id'')) public_key))))"

definition public_key_records :: "pyval \<Rightarrow> string \<Rightarrow> (pystr \<times> bytes) list result" where
  "public_key_records v label =
     seq (guard (is_list v \<and> items_of v \<noteq> [] \<and> length (items_of v) \<le> 1000) (ValueError (label @ '' must be a non-empty bounded array'')))
       (key_records (items_of v) label [])"

definition string_set :: "pyval \<Rightarrow> string \<Rightarrow> bool \<Rightarrow> pystr list result" where
  "string_set v label operation =
     seq (first_error
       [guard (is_list v \<and> items_of v \<noteq> [] \<and> length (items_of v) \<le> 1000 \<and> list_all nonempty_str (items_of v) \<and> distinct (items_of v))
          (ValueError (label @ '' must be a non-empty unique string array'')),
        guard (\<not> operation \<or> list_all (\<lambda>s. operation_name_ok (str_of s)) (items_of v))
          (ValueError ''allowed operations must use non-empty name/version values'')])
     (Inr (map str_of (items_of v)))"

definition bounded_integer :: "pyval \<Rightarrow> string \<Rightarrow> int \<Rightarrow> int \<Rightarrow> int result" where
  "bounded_integer v label least greatest = seq (in_range v least greatest label) (Inr (int_of v))"

definition relative :: "pystr \<Rightarrow> pyval \<Rightarrow> string \<Rightarrow> pystr result" where
  "relative base v label =
     (if \<not> (nonempty_str v \<and> 0 \<notin> set (str_of v)) then Inl (ValueError (label @ '' path is invalid'')) else Inr (resolve_path base (str_of v)))"

section \<open>Identities\<close>

definition identity_purposes :: "pyval list" where
  "identity_purposes = [S ''availability'', S ''request'', S ''receipt'']"

definition validate_federation_identity :: "pyval \<Rightarrow> string option \<Rightarrow> bytes result" where
  "validate_federation_identity d purpose =
     seq (first_error
       [pilot_exact_keys d [''spec_version'', ''peer_id'', ''purpose'', ''profile'', ''key_id'', ''public_key_base64url''] ''federation identity'',
        guard (item d ''spec_version'' = S ''oncemesh.federation-identity/v0'') (ValueError ''unsupported federation identity version''),
        guard (nonempty_str (item d ''peer_id'')) (ValueError ''federation identity peer_id must not be empty''),
        member (item d ''purpose'') identity_purposes (ValueError ''federation identity purpose is invalid''),
        guard (purpose = None \<or> item d ''purpose'' = S (the purpose)) (ValueError ''federation identity purpose is invalid''),
        guard (item d ''profile'' = signature_profile) (ValueError ''federation identity signature profile is invalid'')])
     (rbind (decode_32 (item d ''public_key_base64url'') ''identity public key'') (\<lambda>public_key.
        seq (first_error
          [guard (item d ''key_id'' = PyStr (digest_bytes public_key)) (ValueError ''federation identity key_id does not match public key''),
           discard (canonical_json d)])
        (Inr public_key)))"

definition identity_document :: "pystr \<Rightarrow> string \<Rightarrow> bytes \<Rightarrow> pyval" where
  "identity_document peer_id purpose public_key =
     obj [(''spec_version'', S ''oncemesh.federation-identity/v0''), (''peer_id'', PyStr peer_id), (''purpose'', S purpose),
          (''profile'', signature_profile), (''key_id'', PyStr (digest_bytes public_key)),
          (''public_key_base64url'', PyStr (b64_encode public_key))]"

text \<open>\<open>seed\<close> is what the random source returned.\<close>

definition generate_federation_identity ::
  "ed25519 \<Rightarrow> bytes \<Rightarrow> pystr \<Rightarrow> string \<Rightarrow> pystr \<Rightarrow> pystr \<Rightarrow> files \<Rightarrow> files \<times> pyval result" where
  "generate_federation_identity E seed peer_id purpose private_path public_path fs =
     (let identity = identity_document peer_id purpose (ed_public E seed)
      in case seq (first_error
               [guard (peer_id \<noteq> []) (ValueError ''peer_id must not be empty''),
                guard (S purpose \<in> set identity_purposes) (ValueError ''identity purpose must be availability, request, or receipt''),
                guard (private_path \<noteq> public_path) (ValueError ''private and public identity paths must differ''),
                guard (\<not> file_exists fs private_path \<and> \<not> file_exists fs public_path) (ValueError ''identity output paths must not already exist''),
                guard (length seed = 32) (ValueError ''random source must return exactly 32 bytes''),
                discard (validate_federation_identity identity (Some purpose))])
             (rbind (write_new fs private_path (utf8_bytes (b64_encode seed) @ [10])) (\<lambda>fs1.
              rbind (canonical_json identity) (\<lambda>text. Inr (fs1, text)))) of
           Inl e \<Rightarrow> (fs, Inl e)
         | Inr (fs1, text) \<Rightarrow>
             (case write_new fs1 public_path (text @ [10]) of
                Inl e \<Rightarrow> (al_del fs1 private_path, Inl e)
              | Inr fs2 \<Rightarrow> (fs2, Inr identity)))"

section \<open>Publications\<close>

definition publication_fields :: "string list" where
  "publication_fields = [''spec_version'', ''classification'', ''action'', ''manifest'', ''receipt'', ''artifacts'']"

fun load_artifacts_into :: "pyval \<Rightarrow> pyval list \<Rightarrow> memory_store \<Rightarrow> memory_store \<times> unit result" where
  "load_artifacts_into artifacts [] s = (s, Inr ())"
| "load_artifacts_into artifacts (d # ds) s =
     (case rbind (pilot_decode_blob (case al_get (pairs_of artifacts) (item d ''name'') of Some v \<Rightarrow> v | None \<Rightarrow> PyNone) ''publication artifact'') (\<lambda>blob.
             seq (guard (int (length blob) = int_of (item d ''size'') \<and> PyStr (digest_bytes blob) = item d ''digest'')
                    (ValueError ''publication artifact integrity check failed'')) (Inr blob)) of
        Inl e \<Rightarrow> (s, Inl e)
      | Inr blob \<Rightarrow> load_artifacts_into artifacts ds (fst (ms_put_blob s blob)))"

definition check_publication :: "pyval \<Rightarrow> unit result" where
  "check_publication d =
     first_error
       [pilot_exact_keys d publication_fields ''federation publication'',
        guard (item d ''spec_version'' = S ''oncemesh.federation-publication/v0'' \<and> item d ''classification'' = S ''public'')
          (ValueError ''federation publication must be explicitly public''),
        validate_action (item d ''action''), validate_manifest (item d ''manifest''), validate_receipt True (item d ''receipt''),
        guard (is_dict (item d ''artifacts'')) (ValueError ''publication artifacts must be an object''),
        guard (keys (item d ''artifacts'') = (\<lambda>a. item a ''name'') ` set (artifacts_of (item d ''manifest'')))
          (ValueError ''publication artifact names do not match manifest'')]"

definition load_publication_document :: "pyval \<Rightarrow> memory_store \<Rightarrow> memory_store \<times> (pyval \<times> pyval \<times> pyval) result" where
  "load_publication_document d s =
     (case check_publication d of
        Inl e \<Rightarrow> (s, Inl e)
      | Inr _ \<Rightarrow>
          (case load_artifacts_into (item d ''artifacts'') (artifacts_of (item d ''manifest'')) s of
             (s', Inl e) \<Rightarrow> (s', Inl e)
           | (s', Inr _) \<Rightarrow> (s', Inr (item d ''action'', item d ''manifest'', item d ''receipt''))))"

definition load_publication :: "files \<Rightarrow> pystr \<Rightarrow> memory_store \<Rightarrow> memory_store \<times> (pyval \<times> pyval \<times> pyval) result" where
  "load_publication fs path s =
     (case load_document fs path of Inl e \<Rightarrow> (s, Inl e) | Inr d \<Rightarrow> load_publication_document d s)"

fun package_artifacts :: "files \<Rightarrow> (pystr \<times> pystr) list \<Rightarrow> pyval list \<Rightarrow> (pystr \<times> pystr) list result" where
  "package_artifacts fs artifact_files [] = Inr []"
| "package_artifacts fs artifact_files (d # ds) =
     (case al_get artifact_files (str_of (item d ''name'')) of
        None \<Rightarrow> Inl KeyError
      | Some path \<Rightarrow>
          (case read_bytes fs path of
             Inl _ \<Rightarrow> Inl (ValueError ''publication artifact file cannot be read'')
           | Inr blob \<Rightarrow>
               if int (length blob) \<noteq> int_of (item d ''size'') \<or> PyStr (digest_bytes blob) \<noteq> item d ''digest''
               then Inl (ValueError ''publication artifact file fails manifest integrity'')
               else rbind (package_artifacts fs artifact_files ds) (\<lambda>rest. Inr ((str_of (item d ''name''), b64_encode blob) # rest))))"

definition publication_document :: "pyval \<Rightarrow> pyval \<Rightarrow> pyval \<Rightarrow> (pystr \<times> pystr) list \<Rightarrow> pyval" where
  "publication_document action manifest receipt artifacts =
     obj [(''spec_version'', S ''oncemesh.federation-publication/v0''), (''classification'', S ''public''), (''action'', action),
          (''manifest'', manifest), (''receipt'', receipt), (''artifacts'', PyDict (map (\<lambda>(n, e). (PyStr n, PyStr e)) artifacts))]"

definition package_publication ::
  "ed25519 \<Rightarrow> files \<Rightarrow> pystr \<Rightarrow> pystr \<Rightarrow> pystr \<Rightarrow> pystr \<Rightarrow> (pystr \<times> pystr) list \<Rightarrow> pystr \<Rightarrow> pystr \<Rightarrow> bool \<Rightarrow> (files \<times> pyval) result" where
  "package_publication E fs action_file manifest_file receipt_file identity_file artifact_files output classification confirmed =
     seq (first_error
       [guard (classification = u ''public'' \<and> confirmed) (ValueError ''public classification and publication review confirmation are required''),
        guard (\<not> file_exists fs output) (ValueError ''publication output path must not already exist'')])
     (rbind (load_document fs action_file) (\<lambda>action.
      rbind (load_document fs manifest_file) (\<lambda>manifest.
      rbind (load_document fs receipt_file) (\<lambda>receipt.
      rbind (load_document fs identity_file) (\<lambda>identity.
      rbind (validate_federation_identity identity (Some ''receipt'')) (\<lambda>public_key.
      seq (first_error [validate_action action, validate_manifest manifest, validate_receipt True receipt])
      (rbind (action_digest action) (\<lambda>requested.
       seq (guard (item manifest ''action_digest'' = PyStr requested) (ValueError ''publication action does not match result manifest''))
       (rbind (verify_receipt_for_manifest E receipt manifest public_key) (\<lambda>verified.
        seq (first_error
          [guard verified (ValueError ''publication receipt signature or binding is invalid''),
           guard (fst ` set artifact_files = artifact_names manifest) (ValueError ''publication artifact file names do not match manifest'')])
        (rbind (package_artifacts fs artifact_files (artifacts_of manifest)) (\<lambda>artifacts.
         let publication = publication_document action manifest receipt artifacts
         in rbind (snd (load_publication_document publication (ms_init (u ''publication-packager'')))) (\<lambda>_.
            rbind (canonical_json publication) (\<lambda>text.
            rbind (write_new fs output (text @ [10])) (\<lambda>fs'. Inr (fs', publication))))))))))))))))"

section \<open>Withdrawal\<close>

definition origin_fields :: "string list" where
  "origin_fields =
     [''spec_version'', ''role'', ''peer_id'', ''listen'', ''tls'', ''availability_private_seed_env'', ''receipt_public_keys'',
      ''authorized_requesters'', ''publications'', ''limits'']"

text \<open>\<open>for reference in value\<close>\<close>

fun iterate :: "pyval \<Rightarrow> pyval list result" where
  "iterate (PyList vs) = Inr vs"
| "iterate (PyDict kvs) = Inr (map fst kvs)"
| "iterate (PyStr s) = Inr (map (\<lambda>c. PyStr [c]) s)"
| "iterate _ = Inl TypeError"

fun split_publications :: "files \<Rightarrow> pystr \<Rightarrow> pystr \<Rightarrow> pyval list \<Rightarrow> (pyval list \<times> pyval list) result" where
  "split_publications fs base digest [] = Inr ([], [])"
| "split_publications fs base digest (reference # rest) =
     seq (pilot_exact_keys reference [''file''] ''publication reference'')
     (rbind (relative base (item reference ''file'') ''publication'') (\<lambda>path.
      rbind (load_document fs path) (\<lambda>publication.
      seq (pilot_exact_keys publication publication_fields ''federation publication'')
      (rbind (manifest_digest (item publication ''manifest'')) (\<lambda>selected.
       rbind (split_publications fs base digest rest) (\<lambda>(retained, removed).
         Inr (if selected = digest then (retained, reference # removed) else (reference # retained, removed))))))))"

definition withdraw_origin_publication :: "files \<Rightarrow> pystr \<Rightarrow> pystr \<Rightarrow> pystr \<Rightarrow> (files \<times> pyval) result" where
  "withdraw_origin_publication fs source digest output =
     seq (first_error
       [guard (is_digest digest) (ValueError ''withdrawal result digest is invalid''),
        guard (parent_path output = parent_path source) (ValueError ''withdrawn manifest output must remain beside the source manifest''),
        guard (\<not> file_exists fs output) (ValueError ''withdrawn manifest output must not already exist'')])
     (rbind (load_document fs source) (\<lambda>d.
      seq (first_error
        [pilot_exact_keys d origin_fields ''origin pilot manifest'',
         guard (item d ''spec_version'' = S ''oncemesh.federation-pilot/v0'' \<and> item d ''role'' = S ''origin'')
           (ValueError ''unsupported origin pilot manifest'')])
      (rbind (iterate (item d ''publications'')) (\<lambda>references.
       rbind (split_publications fs (parent_path source) digest references) (\<lambda>(retained, removed).
         seq (guard (length removed = 1) (ValueError ''withdrawal must match exactly one configured publication''))
         (rbind (canonical_json (with_item d ''publications'' (PyList retained))) (\<lambda>text.
          rbind (write_new fs output (text @ [10])) (\<lambda>fs'.
            Inr (fs', obj [(''spec_version'', S ''oncemesh.federation-withdrawal-report/v0''), (''peer_id'', item d ''peer_id''),
                           (''withdrawn_result_digest'', PyStr digest), (''remaining_publications'', PyInt (int (length retained))),
                           (''restart_required'', PyBool True)])))))))))"

end
