(* ===== verification/Pilot.thy ===== *)
theory Pilot
  imports Pilot_Documents
begin

text \<open>
  The two sides of a federation pilot (\<open>federation_pilot.py\<close>): the configuration of an origin and of a
  receiver, the server of an origin, the preflight reports, the run of a receiver and the pruning of
  its cache. TLS and the network are parameters: what loading a certificate chain or a CA bundle
  raises, and the peer that a client reaches.
\<close>

section \<open>The configuration of an origin\<close>

record origin_config =
  oc_peer_id :: pystr
  oc_host :: pystr
  oc_port :: int
  oc_certificate_file :: pystr
  oc_private_key_file :: pystr
  oc_seed :: bytes
  oc_receipt_keys :: "(pystr \<times> bytes) list"
  oc_requesters :: "(pystr \<times> bytes) list"
  oc_publication_files :: "pystr list"
  oc_max_age :: int
  oc_max_skew :: int
  oc_max_nonces :: int
  oc_max_response_bytes :: int
  oc_max_concurrent :: int
  oc_max_requests :: int
  oc_rate_window :: int

fun requester_keys :: "pyval list \<Rightarrow> (pystr \<times> bytes) list \<Rightarrow> (pystr \<times> bytes) list result" where
  "requester_keys [] found = Inr found"
| "requester_keys (e # es) found =
     seq (first_error
       [pilot_exact_keys e [''peer_id'', ''public_key_base64url''] ''authorized requester'',
        guard (nonempty_str (item e ''peer_id'') \<and> al_get found (str_of (item e ''peer_id'')) = None)
          (ValueError ''authorized requester peer identifiers must be non-empty and unique'')])
     (rbind (decode_32 (item e ''public_key_base64url'') ''requester public key'') (\<lambda>key.
        requester_keys es (al_set found (str_of (item e ''peer_id'')) key)))"

fun publication_paths :: "files \<Rightarrow> pystr \<Rightarrow> pyval list \<Rightarrow> pystr list result" where
  "publication_paths fs base [] = Inr []"
| "publication_paths fs base (e # es) =
     seq (pilot_exact_keys e [''file''] ''publication reference'')
     (rbind (relative base (item e ''file'') ''publication'') (\<lambda>path.
      seq (guard (file_exists fs path) (ValueError ''publication file must exist''))
      (rbind (publication_paths fs base es) (\<lambda>paths. Inr (path # paths)))))"

definition origin_limits :: "string list" where
  "origin_limits =
     [''request_max_age_seconds'', ''max_future_clock_skew_seconds'', ''max_remembered_nonces'', ''max_response_bytes'',
      ''max_concurrent_requests'', ''max_requests_per_window'', ''rate_window_seconds'']"

definition load_origin_pilot :: "files \<Rightarrow> pystr \<Rightarrow> (pystr \<Rightarrow> pystr option) \<Rightarrow> origin_config result" where
  "load_origin_pilot fs path environment =
     (let base = parent_path path
      in rbind (load_document fs path) (\<lambda>d.
         seq (first_error
           [pilot_exact_keys d origin_fields ''origin pilot manifest'',
            guard (item d ''spec_version'' = S ''oncemesh.federation-pilot/v0'' \<and> item d ''role'' = S ''origin'')
              (ValueError ''unsupported origin pilot manifest''),
            guard (nonempty_str (item d ''peer_id'')) (ValueError ''origin peer_id must not be empty''),
            pilot_exact_keys (item d ''listen'') [''host'', ''port''] ''origin listen'',
            guard (nonempty_str (item (item d ''listen'') ''host'')) (ValueError ''origin listen host must not be empty'')])
         (rbind (bounded_integer (item (item d ''listen'') ''port'') ''origin listen port'' 0 65535) (\<lambda>port.
          seq (pilot_exact_keys (item d ''tls'') [''certificate_file'', ''private_key_file''] ''origin TLS'')
          (rbind (relative base (item (item d ''tls'') ''certificate_file'') ''certificate_file'') (\<lambda>certificate.
           rbind (relative base (item (item d ''tls'') ''private_key_file'') ''private_key_file'') (\<lambda>private_key.
           seq (first_error
             [guard (file_exists fs certificate \<and> file_exists fs private_key)
                (ValueError ''origin TLS certificate and private key files must exist''),
              guard (is_list (item d ''authorized_requesters'') \<and> items_of (item d ''authorized_requesters'') \<noteq> []
                     \<and> length (items_of (item d ''authorized_requesters'')) \<le> 1000)
                (ValueError ''authorized_requesters must be a non-empty bounded array'')])
           (rbind (requester_keys (items_of (item d ''authorized_requesters'')) []) (\<lambda>requesters.
            seq (guard (is_list (item d ''publications'') \<and> length (items_of (item d ''publications'')) \<le> 1000)
                   (ValueError ''publications must be a bounded array''))
            (rbind (publication_paths fs base (items_of (item d ''publications''))) (\<lambda>publications.
             seq (pilot_exact_keys (item d ''limits'') origin_limits ''origin limits'')
             (rbind (seed_from_environment (item d ''availability_private_seed_env'') environment) (\<lambda>seed.
              rbind (public_key_records (item d ''receipt_public_keys'') ''receipt_public_keys'') (\<lambda>keys.
              let limit = (\<lambda>name. bounded_integer (item (item d ''limits'') name) name)
              in rbind (limit ''request_max_age_seconds'' 1 3600) (\<lambda>age.
                 rbind (limit ''max_future_clock_skew_seconds'' 0 300) (\<lambda>skew.
                 rbind (limit ''max_remembered_nonces'' 1 1000000) (\<lambda>nonces.
                 rbind (limit ''max_response_bytes'' 1024 1000000000) (\<lambda>response.
                 rbind (limit ''max_concurrent_requests'' 1 10000) (\<lambda>concurrent.
                 rbind (limit ''max_requests_per_window'' 1 1000000) (\<lambda>requests.
                 rbind (limit ''rate_window_seconds'' 1 3600) (\<lambda>window.
                   Inr \<lparr>oc_peer_id = str_of (item d ''peer_id''), oc_host = str_of (item (item d ''listen'') ''host''),
                        oc_port = port, oc_certificate_file = certificate, oc_private_key_file = private_key, oc_seed = seed,
                        oc_receipt_keys = keys, oc_requesters = requesters, oc_publication_files = publications,
                        oc_max_age = age, oc_max_skew = skew, oc_max_nonces = nonces, oc_max_response_bytes = response,
                        oc_max_concurrent = concurrent, oc_max_requests = requests, oc_rate_window = window\<rparr>)))))))))))))))))))))"

section \<open>The server of an origin\<close>

definition artifact_summary :: "pyval \<Rightarrow> pyval" where
  "artifact_summary d = obj [(''name'', item d ''name''), (''digest'', item d ''digest''), (''size'', item d ''size'')]"

definition publication_summary :: "pystr \<Rightarrow> pystr \<Rightarrow> pyval \<Rightarrow> pyval" where
  "publication_summary requested digest manifest =
     obj [(''action_digest'', PyStr requested), (''result_digest'', PyStr digest), (''producer'', item manifest ''producer''),
          (''artifacts'', PyList (map artifact_summary (artifacts_of manifest)))]"

fun publish_files :: "ed25519 \<Rightarrow> files \<Rightarrow> pystr list \<Rightarrow> memory_store \<Rightarrow> catalog \<Rightarrow> (memory_store \<times> catalog \<times> pyval list) result" where
  "publish_files E fs [] s C = Inr (s, C, [])"
| "publish_files E fs (path # paths) s C =
     (case load_publication fs path s of
        (s', Inl e) \<Rightarrow> Inl e
      | (s', Inr (action, manifest, receipt)) \<Rightarrow>
          rbind (catalog_publish E (ms_view s') C action manifest receipt (u ''public'')) (\<lambda>(C', digest).
          rbind (action_digest action) (\<lambda>requested.
          rbind (publish_files E fs paths s' C') (\<lambda>(s'', C'', rest).
            Inr (s'', C'', publication_summary requested digest manifest # rest)))))"

definition prepare_origin_catalog :: "ed25519 \<Rightarrow> files \<Rightarrow> origin_config \<Rightarrow> (memory_store \<times> catalog \<times> pyval list) result" where
  "prepare_origin_catalog E fs c =
     rbind (new_catalog (oc_peer_id c) False (oc_seed c) (oc_receipt_keys c)) (\<lambda>C.
       publish_files E fs (oc_publication_files c) (ms_init (oc_peer_id c @ u ''-pilot-origin'')) C)"

text \<open>What \<open>load_cert_chain\<close> and \<open>create_default_context\<close> raise for the files at two paths or at one.\<close>

record tls_env =
  tls_chain :: "pystr \<Rightarrow> pystr \<Rightarrow> unit result"
  tls_ca :: "pystr \<Rightarrow> unit result"

definition build_origin_server :: "ed25519 \<Rightarrow> tls_env \<Rightarrow> files \<Rightarrow> origin_config \<Rightarrow> (memory_store \<times> fed_server) result" where
  "build_origin_server E tls fs c =
     rbind (prepare_origin_catalog E fs c) (\<lambda>(s, C, summaries).
     rbind (new_authenticator (oc_requesters c) (PyInt (oc_max_age c)) (PyInt (oc_max_skew c)) (PyInt (oc_max_nonces c))) (\<lambda>A.
     seq (tls_chain tls (oc_certificate_file c) (oc_private_key_file c))
     (rbind (new_rate_limiter (PyInt (oc_max_requests c)) (PyInt (oc_rate_window c))) (\<lambda>L.
      rbind (new_fed_server C A (PyInt (oc_max_response_bytes c)) (PyInt (oc_max_concurrent c)) (Some L)) (\<lambda>H.
        Inr (s, H))))))"

definition origin_limits_document :: "origin_config \<Rightarrow> pyval" where
  "origin_limits_document c =
     obj [(''request_max_age_seconds'', PyInt (oc_max_age c)), (''max_future_clock_skew_seconds'', PyInt (oc_max_skew c)),
          (''max_remembered_nonces'', PyInt (oc_max_nonces c)), (''max_response_bytes'', PyInt (oc_max_response_bytes c)),
          (''max_concurrent_requests'', PyInt (oc_max_concurrent c)), (''max_requests_per_window'', PyInt (oc_max_requests c)),
          (''rate_window_seconds'', PyInt (oc_rate_window c))]"

definition preflight_origin :: "ed25519 \<Rightarrow> tls_env \<Rightarrow> files \<Rightarrow> origin_config \<Rightarrow> pyval result" where
  "preflight_origin E tls fs c =
     rbind (prepare_origin_catalog E fs c) (\<lambda>(s, C, summaries).
     seq (tls_chain tls (oc_certificate_file c) (oc_private_key_file c))
     (rbind (read_bytes fs (oc_certificate_file c)) (\<lambda>certificate.
      rbind (raw_public_key E (oc_seed c)) (\<lambda>availability_key.
      let report = obj
        [(''spec_version'', S ''oncemesh.federation-preflight-report/v0''), (''role'', S ''origin''), (''peer_id'', PyStr (oc_peer_id c)),
         (''tls_certificate_digest'', PyStr (digest_bytes certificate)),
         (''authorized_requesters'', PyList (map (\<lambda>(peer_id, key). obj [(''peer_id'', PyStr peer_id), (''key_id'', PyStr (digest_bytes key))])
            (sort_key fst (oc_requesters c)))),
         (''availability_key_id'', PyStr (digest_bytes availability_key)),
         (''receipt_key_ids'', PyList (map PyStr (sort (map fst (oc_receipt_keys c))))), (''publications'', PyList summaries),
         (''limits'', origin_limits_document c), (''passed'', PyBool True)]
      in seq (discard (canonical_json report)) (Inr report)))))"

section \<open>The configuration of a receiver\<close>

record receiver_config =
  rc_run_id :: pystr
  rc_peer_id :: pystr
  rc_seed :: bytes
  rc_base_url :: pystr
  rc_origin_peer_id :: pystr
  rc_ca_file :: pystr
  rc_availability_key :: bytes
  rc_receipt_keys :: "(pystr \<times> bytes) list"
  rc_producers :: "pystr list"
  rc_operations :: "pystr list"
  rc_action_file :: pystr
  rc_evidence_file :: pystr
  rc_cache_directory :: pystr
  rc_limits :: "(string \<times> int) list"

definition is_word_char :: "int \<Rightarrow> bool" where
  "is_word_char c \<longleftrightarrow> is_alpha c \<or> is_digit c"

text \<open>\<open>[A-Za-z0-9][A-Za-z0-9._-]{0,127}\<close>\<close>

definition is_identifier :: "pystr \<Rightarrow> bool" where
  "is_identifier s \<longleftrightarrow> s \<noteq> [] \<and> length s \<le> 128 \<and> is_word_char (hd s)
     \<and> list_all (\<lambda>c. is_word_char c \<or> c = 46 \<or> c = 95 \<or> c = 45) (tl s)"

definition receiver_fields :: "string list" where
  "receiver_fields =
     [''spec_version'', ''role'', ''run_id'', ''receiver_peer_id'', ''request_private_seed_env'', ''origin'', ''action_file'',
      ''evidence_file'', ''cache_directory'', ''limits'']"

definition receiver_origin_fields :: "string list" where
  "receiver_origin_fields =
     [''base_url'', ''peer_id'', ''ca_file'', ''availability_public_key_base64url'', ''receipt_public_keys'', ''trusted_producers'',
      ''allowed_operations'']"

definition receiver_ranges :: "(string \<times> int \<times> int) list" where
  "receiver_ranges =
     [(''timeout_milliseconds'', 1, 60000), (''max_availability_response_bytes'', 1, 1000000000),
      (''max_bundle_response_bytes'', 1, 1000000000), (''max_entries'', 1, 100000), (''max_artifact_bytes'', 1, 1000000000),
      (''max_transfer_bytes'', 1, 1000000000), (''max_availability_age_seconds'', 1, 86400),
      (''max_future_clock_skew_seconds'', 0, 3600), (''retention_seconds'', 1, 31536000)]"

fun checked_limits :: "pyval \<Rightarrow> (string \<times> int \<times> int) list \<Rightarrow> (string \<times> int) list result" where
  "checked_limits limits [] = Inr []"
| "checked_limits limits ((name, least, greatest) # rest) =
     rbind (bounded_integer (item limits name) name least greatest) (\<lambda>n.
     rbind (checked_limits limits rest) (\<lambda>more. Inr ((name, n) # more)))"

definition bare_https_origin :: "url_env \<Rightarrow> pystr \<Rightarrow> bool result" where
  "bare_https_origin U url =
     rbind (urlsplit U url) (\<lambda>p.
       Inr (su_scheme p = u ''https'' \<and> hostname U p \<noteq> None \<and> hostname U p \<noteq> Some [] \<and> su_path p \<in> {[], [47]} \<and> su_query p = []
            \<and> url_fragment url = [] \<and> \<not> has_userinfo (su_netloc p)))"

definition load_receiver_pilot :: "url_env \<Rightarrow> files \<Rightarrow> pystr \<Rightarrow> (pystr \<Rightarrow> pystr option) \<Rightarrow> receiver_config result" where
  "load_receiver_pilot U fs path environment =
     (let base = parent_path path
      in rbind (load_document fs path) (\<lambda>d.
         let origin = item d ''origin''
         in seq (first_error
           [pilot_exact_keys d receiver_fields ''receiver pilot manifest'',
            guard (item d ''spec_version'' = S ''oncemesh.federation-pilot/v0'' \<and> item d ''role'' = S ''receiver'')
              (ValueError ''unsupported receiver pilot manifest''),
            guard (is_str (item d ''run_id'') \<and> is_identifier (str_of (item d ''run_id''))) (ValueError ''receiver run_id is invalid''),
            guard (nonempty_str (item d ''receiver_peer_id'')) (ValueError ''receiver peer_id must not be empty''),
            pilot_exact_keys origin receiver_origin_fields ''receiver origin''])
         (rbind (bare_https_origin U (str_of (item origin ''base_url''))) (\<lambda>bare.
          seq (first_error
            [guard bare (ValueError ''origin base_url must be a bare HTTPS origin''),
             guard (nonempty_str (item origin ''peer_id'')) (ValueError ''origin peer_id must not be empty'')])
          (rbind (relative base (item origin ''ca_file'') ''origin CA'') (\<lambda>ca_file.
           rbind (relative base (item d ''action_file'') ''action'') (\<lambda>action_file.
           rbind (relative base (item d ''evidence_file'') ''evidence'') (\<lambda>evidence_file.
           rbind (relative base (item d ''cache_directory'') ''cache_directory'') (\<lambda>cache_directory.
           seq (first_error
             [guard (file_exists fs ca_file \<and> file_exists fs action_file) (ValueError ''origin CA and action files must exist''),
              guard (\<not> file_exists fs evidence_file) (ValueError ''evidence_file already exists; use a new run_id and path''),
              pilot_exact_keys (item d ''limits'') (map fst receiver_ranges) ''receiver limits''])
           (rbind (checked_limits (item d ''limits'') receiver_ranges) (\<lambda>limits.
            rbind (seed_from_environment (item d ''request_private_seed_env'') environment) (\<lambda>seed.
            rbind (decode_32 (item origin ''availability_public_key_base64url'') ''availability public key'') (\<lambda>availability_key.
            rbind (public_key_records (item origin ''receipt_public_keys'') ''receipt_public_keys'') (\<lambda>keys.
            rbind (string_set (item origin ''trusted_producers'') ''trusted_producers'' False) (\<lambda>producers.
            rbind (string_set (item origin ''allowed_operations'') ''allowed_operations'' True) (\<lambda>operations.
              Inr \<lparr>rc_run_id = str_of (item d ''run_id''), rc_peer_id = str_of (item d ''receiver_peer_id''), rc_seed = seed,
                   rc_base_url = rstrip_char 47 (str_of (item origin ''base_url'')), rc_origin_peer_id = str_of (item origin ''peer_id''),
                   rc_ca_file = ca_file, rc_availability_key = availability_key, rc_receipt_keys = keys, rc_producers = producers,
                   rc_operations = operations, rc_action_file = action_file, rc_evidence_file = evidence_file,
                   rc_cache_directory = cache_directory, rc_limits = limits\<rparr>))))))))))))))))"

definition limit_of :: "receiver_config \<Rightarrow> string \<Rightarrow> int" where
  "limit_of c name = (case al_get (rc_limits c) name of Some n \<Rightarrow> n | None \<Rightarrow> 0)"

definition receiver_peer_config :: "receiver_config \<Rightarrow> peer_config result" where
  "receiver_peer_config c =
     new_peer_config (PyStr (rc_origin_peer_id c)) (rc_availability_key c) (rc_receipt_keys c) (map PyStr (rc_producers c))
       (map PyStr (rc_operations c)) (PyInt (limit_of c ''max_entries'')) (PyInt (limit_of c ''max_artifact_bytes''))
       (PyInt (limit_of c ''max_transfer_bytes'')) (PyInt (limit_of c ''max_availability_age_seconds''))
       (PyInt (limit_of c ''max_future_clock_skew_seconds'')) (PyInt (limit_of c ''retention_seconds''))"

definition receiver_http_peer :: "url_env \<Rightarrow> receiver_config \<Rightarrow> http_peer result" where
  "receiver_http_peer U c =
     new_http_peer U (rc_base_url c) (PyStr (rc_peer_id c)) (rc_seed c) (of_int (limit_of c ''timeout_milliseconds'') / 1000)
       (PyInt (limit_of c ''max_availability_response_bytes'')) (PyInt (limit_of c ''max_bundle_response_bytes'')) False True"

section \<open>Preflight and run of a receiver\<close>

definition limits_document :: "receiver_config \<Rightarrow> pyval" where
  "limits_document c = obj (map (\<lambda>(name, n). (name, PyInt n)) (rc_limits c))"

definition sorted_strings :: "pystr list \<Rightarrow> pyval" where
  "sorted_strings ss = PyList (map PyStr (sort ss))"

definition preflight_receiver :: "url_env \<Rightarrow> ed25519 \<Rightarrow> tls_env \<Rightarrow> files \<Rightarrow> receiver_config \<Rightarrow> pyval result" where
  "preflight_receiver U E tls fs c =
     rbind (load_document fs (rc_action_file c)) (\<lambda>action.
     seq (first_error
       [validate_action action, tls_ca tls (rc_ca_file c), discard (receiver_peer_config c), discard (receiver_http_peer U c)])
     (rbind (read_bytes fs (rc_ca_file c)) (\<lambda>ca.
      rbind (raw_public_key E (rc_seed c)) (\<lambda>request_key.
      rbind (action_digest action) (\<lambda>requested.
      let report = obj
        [(''spec_version'', S ''oncemesh.federation-preflight-report/v0''), (''role'', S ''receiver''), (''peer_id'', PyStr (rc_peer_id c)),
         (''origin_peer_id'', PyStr (rc_origin_peer_id c)), (''origin_url'', PyStr (rc_base_url c)),
         (''ca_bundle_digest'', PyStr (digest_bytes ca)), (''request_key_id'', PyStr (digest_bytes request_key)),
         (''availability_key_id'', PyStr (digest_bytes (rc_availability_key c))),
         (''receipt_key_ids'', sorted_strings (map fst (rc_receipt_keys c))), (''trusted_producers'', sorted_strings (rc_producers c)),
         (''allowed_operations'', sorted_strings (rc_operations c)), (''action_digest'', PyStr requested),
         (''limits'', limits_document c), (''evidence_path_is_new'', PyBool (\<not> file_exists fs (rc_evidence_file c))),
         (''passed'', PyBool True)]
      in seq (discard (canonical_json report)) (Inr report))))))"

text \<open>Calls on the cache directory, whose clock reads \<open>clock\<close> during a run.\<close>

definition ff_bind :: "ff_cache \<times> 'a result \<Rightarrow> (ff_cache \<Rightarrow> 'a \<Rightarrow> ff_cache \<times> 'b result) \<Rightarrow> ff_cache \<times> 'b result" where
  "ff_bind m f = (case m of (s, Inl e) \<Rightarrow> (s, Inl e) | (s, Inr x) \<Rightarrow> f s x)"

fun blobs_preserved :: "int \<Rightarrow> pyval list \<Rightarrow> ff_cache \<Rightarrow> ff_cache \<times> bool result" where
  "blobs_preserved clock [] s = (s, Inr True)"
| "blobs_preserved clock (d # ds) s =
     ff_bind (ff_get_blob s clock (str_of (item d ''digest''))) (\<lambda>s found.
       if (case found of None \<Rightarrow> False
           | Some blob \<Rightarrow> int (length blob) = int_of (item d ''size'') \<and> PyStr (digest_bytes blob) = item d ''digest'')
       then blobs_preserved clock ds s else (s, Inr False))"

record import_evidence =
  ie_artifacts :: "pyval list"
  ie_preserved :: bool
  ie_digest :: "pystr option"

definition no_evidence :: import_evidence where
  "no_evidence = \<lparr>ie_artifacts = [], ie_preserved = False, ie_digest = None\<rparr>"

definition imported_evidence :: "int \<Rightarrow> pystr \<Rightarrow> import_outcome \<Rightarrow> ff_cache \<Rightarrow> ff_cache \<times> import_evidence result" where
  "imported_evidence clock requested r s =
     (if \<not> io_hit r \<or> io_result_digest r = None then (s, Inr no_evidence)
      else ff_bind (ff_candidates s clock requested) (\<lambda>s found.
        case found of
          [] \<Rightarrow> (s, Inr no_evidence)
        | imported # _ \<Rightarrow>
            ff_bind (s, manifest_digest imported) (\<lambda>s digest.
              ff_bind (if item imported ''action_digest'' = PyStr requested \<and> Some digest = io_result_digest r
                       then blobs_preserved clock (artifacts_of imported) s else (s, Inr False)) (\<lambda>s preserved.
                (s, Inr \<lparr>ie_artifacts = map artifact_summary (artifacts_of imported), ie_preserved = preserved, ie_digest = Some digest\<rparr>)))))"

definition retain_until :: "int \<Rightarrow> import_outcome \<Rightarrow> ff_cache \<Rightarrow> ff_cache \<times> pyval result" where
  "retain_until clock r s =
     (case io_result_digest r of
        None \<Rightarrow> (s, Inr PyNone)
      | Some digest \<Rightarrow>
          ff_bind (ff_lease_until s clock digest) (\<lambda>s first.
            if first = None then (s, Inr PyNone)
            else ff_bind (ff_lease_until s clock digest) (\<lambda>s again.
              case again of None \<Rightarrow> (s, Inl AttributeError) | Some t \<Rightarrow> (s, Inr (PyStr (iso_utc t))))))"

definition pilot_report :: "receiver_config \<Rightarrow> int \<Rightarrow> pystr \<Rightarrow> import_outcome \<Rightarrow> import_evidence \<Rightarrow> int \<times> int \<Rightarrow> pyval \<Rightarrow> pyval" where
  "pilot_report c now requested r e counts lease =
     obj [(''spec_version'', S ''oncemesh.federation-pilot-report/v0''), (''run_id'', PyStr (rc_run_id c)),
          (''observed_at'', PyStr (iso_utc now)), (''origin_peer_id'', PyStr (rc_origin_peer_id c)),
          (''receiver_peer_id'', PyStr (rc_peer_id c)), (''origin_url'', PyStr (rc_base_url c)), (''action_digest'', PyStr requested),
          (''advertised_result_digest'', opt_str (io_result_digest r)), (''imported_result_digest'', opt_str (ie_digest e)),
          (''artifacts'', PyList (ie_artifacts e)), (''limits'', limits_document c),
          (''outcome'', obj [(''hit'', PyBool (io_hit r)), (''reason'', S (io_reason r)), (''bytes_imported'', PyInt (io_bytes r))]),
          (''cache'', obj [(''durable'', PyBool True), (''entries'', PyInt (fst counts)), (''blobs'', PyInt (snd counts)),
                           (''retain_until'', lease)]),
          (''checks'', obj [(''tls_enabled'', PyBool (starts_with (u ''https://'') (rc_base_url c))),
                            (''digests_preserved'', PyBool (ie_preserved e)), (''local_policy_enforced'', PyBool True)])]"

text \<open>
  \<open>connect\<close> is the peer at the other end of a client. What the import leaves in the cache stays when a
  later step raises.
\<close>

definition run_receiver_pilot ::
  "url_env \<Rightarrow> ed25519 \<Rightarrow> tls_env \<Rightarrow> (http_peer \<Rightarrow> peer) \<Rightarrow> int \<Rightarrow> int \<Rightarrow> receiver_config \<Rightarrow> files \<Rightarrow> ff_cache \<Rightarrow> ff_cache \<times> (files \<times> pyval) result" where
  "run_receiver_pilot U E tls connect now clock c fs s =
     (case rbind (load_document fs (rc_action_file c)) (\<lambda>action.
           seq (first_error [validate_action action, tls_ca tls (rc_ca_file c)])
           (rbind (receiver_http_peer U c) (\<lambda>K. rbind (receiver_peer_config c) (\<lambda>P.
              rbind (action_digest action) (\<lambda>requested. Inr (action, requested, K, P)))))) of
        Inl e \<Rightarrow> (s, Inl e)
      | Inr (action, requested, K, P) \<Rightarrow>
          ff_bind (import_from_peer E action (connect K) P (import_in_files clock) now s) (\<lambda>s r.
          ff_bind (imported_evidence clock requested r s) (\<lambda>s e.
          ff_bind (ff_summary s clock True) (\<lambda>s counts.
          ff_bind (retain_until clock r s) (\<lambda>s lease.
          let report = pilot_report c now requested r e counts lease
          in (s, rbind (canonical_json report) (\<lambda>text.
                 rbind (write_new fs (rc_evidence_file c) (text @ [10])) (\<lambda>fs'. Inr (fs', report)))))))))"

section \<open>Pruning a receiver's cache\<close>

definition prune_report :: "int \<Rightarrow> int \<times> int \<Rightarrow> int \<Rightarrow> int \<times> int \<Rightarrow> pyval" where
  "prune_report now before removed after =
     obj [(''spec_version'', S ''oncemesh.federation-cache-prune-report/v0''), (''observed_at'', PyStr (iso_utc now)),
          (''before'', obj [(''entries'', PyInt (fst before)), (''blobs'', PyInt (snd before))]),
          (''expired_entries_removed'', PyInt removed),
          (''after'', obj [(''entries'', PyInt (fst after)), (''blobs'', PyInt (snd after))]),
          (''passed'', PyBool (0 < removed \<and> fst after = 0 \<and> snd after = 0))]"

definition prune_receiver_cache :: "pystr \<Rightarrow> int \<Rightarrow> files \<Rightarrow> ff_cache \<Rightarrow> ff_cache \<times> (files \<times> pyval) result" where
  "prune_receiver_cache evidence now fs s =
     (if file_exists fs evidence then (s, Inl (ValueError ''prune evidence path must not already exist''))
      else
        ff_bind (ff_summary s now False) (\<lambda>s before.
        ff_bind (ff_prune s now) (\<lambda>s removed.
        ff_bind (ff_summary s now False) (\<lambda>s after.
        let report = prune_report now before removed after
        in (s, rbind (canonical_json report) (\<lambda>text.
               rbind (write_new fs evidence (text @ [10])) (\<lambda>fs'. Inr (fs', report))))))))"

section \<open>Command arguments\<close>

text \<open>\<open>NAME=PATH\<close>, relative to the working directory.\<close>

fun artifact_arguments :: "pystr \<Rightarrow> pystr list \<Rightarrow> (pystr \<times> pystr) list \<Rightarrow> (pystr \<times> pystr) list result" where
  "artifact_arguments cwd [] found = Inr found"
| "artifact_arguments cwd (v # vs) found =
     (case partition_at 61 v of
        (_, None) \<Rightarrow> Inl (ValueError ''artifact arguments must use NAME=PATH'')
      | (name, Some path) \<Rightarrow>
          if name = [] \<or> path = [] \<or> al_get found name \<noteq> None
          then Inl (ValueError ''artifact names and paths must be non-empty and unique'')
          else artifact_arguments cwd vs (al_set found name (resolve_path cwd path)))"

end
