(* ===== verification/Commands.thy ===== *)
theory Commands
  imports Pilot
begin

text \<open>
  The commands of \<open>federation_pilot.py\<close> after the arguments are parsed, with their exit codes, and the launcher
  \<open>secret_exec.py\<close>. A command starts from the files and from the cache directory it names; it leaves both, an exit
  code and the document it printed on its standard output.
\<close>

section \<open>The pilot\<close>

record pilot_env =
  pe_ed25519 :: ed25519
  pe_url :: url_env
  pe_tls :: tls_env
  pe_connect :: "http_peer \<Rightarrow> peer"
  pe_environment :: "pystr \<Rightarrow> pystr option"
  pe_seed :: bytes
  pe_now :: int
  pe_clock :: int
  pe_cwd :: pystr
  pe_base_url :: pystr

datatype pilot_command =
  Serve pystr
| Probe pystr
| Keygen pystr string pystr pystr
| Package_publication pystr pystr pystr pystr "pystr list" pystr pystr bool
| Preflight_origin pystr
| Preflight_receiver pystr
| Withdraw_publication pystr pystr pystr
| Prune_cache pystr

definition readiness :: "pystr \<Rightarrow> origin_config \<Rightarrow> pyval" where
  "readiness base_url c =
     obj [(''spec_version'', S ''oncemesh.federation-origin-ready/v0''), (''peer_id'', PyStr (oc_peer_id c)), (''base_url'', PyStr base_url),
          (''tls'', PyBool True), (''publications'', PyInt (int (length (oc_publication_files c))))]"

text \<open>The server runs until it is interrupted.\<close>

definition serve_origin :: "pilot_env \<Rightarrow> files \<Rightarrow> origin_config \<Rightarrow> pyval result" where
  "serve_origin E fs c = rbind (build_origin_server (pe_ed25519 E) (pe_tls E) fs c) (\<lambda>server. Inr (readiness (pe_base_url E) c))"

definition publication_report :: "pyval \<Rightarrow> pyval result" where
  "publication_report p =
     rbind (action_digest (item p ''action'')) (\<lambda>a. rbind (manifest_digest (item p ''manifest'')) (\<lambda>r.
       Inr (obj [(''spec_version'', S ''oncemesh.federation-publication-created/v0''), (''action_digest'', PyStr a), (''result_digest'', PyStr r),
                 (''artifacts'', item (item p ''manifest'') ''artifacts''), (''classification'', S ''public'')])))"

type_synonym pilot_state = "files \<times> ff_cache"

definition run_command :: "pilot_env \<Rightarrow> pilot_command \<Rightarrow> pilot_state \<Rightarrow> pilot_state \<times> pyval result" where
  "run_command E cmd st =
     (let (fs, s) = st;
          reading = (\<lambda>r. (st, r));
          writing = (\<lambda>r. case r of Inl e \<Rightarrow> (st, Inl e) | Inr (fs', report) \<Rightarrow> ((fs', s), Inr report));
          caching = (\<lambda>(s', r). case r of Inl e \<Rightarrow> ((fs, s'), Inl e) | Inr (fs', report) \<Rightarrow> ((fs', s'), Inr report))
      in case cmd of
           Serve manifest \<Rightarrow> reading (rbind (load_origin_pilot fs manifest (pe_environment E)) (serve_origin E fs))
         | Probe manifest \<Rightarrow>
             (case load_receiver_pilot (pe_url E) fs manifest (pe_environment E) of
                Inl e \<Rightarrow> (st, Inl e)
              | Inr c \<Rightarrow> caching (run_receiver_pilot (pe_url E) (pe_ed25519 E) (pe_tls E) (pe_connect E) (pe_now E) (pe_clock E) c fs s))
         | Keygen peer_id purpose private_path public_path \<Rightarrow>
             (case generate_federation_identity (pe_ed25519 E) (pe_seed E) peer_id purpose private_path public_path fs of
                (fs', r) \<Rightarrow> ((fs', s), r))
         | Package_publication action manifest receipt identity artifacts output classification confirmed \<Rightarrow>
             (case artifact_arguments (pe_cwd E) artifacts [] of
                Inl e \<Rightarrow> (st, Inl e)
              | Inr arguments \<Rightarrow>
                  (case package_publication (pe_ed25519 E) fs action manifest receipt identity arguments output classification confirmed of
                     Inl e \<Rightarrow> (st, Inl e)
                   | Inr (fs', p) \<Rightarrow> ((fs', s), publication_report p)))
         | Preflight_origin manifest \<Rightarrow>
             reading (rbind (load_origin_pilot fs manifest (pe_environment E)) (preflight_origin (pe_ed25519 E) (pe_tls E) fs))
         | Preflight_receiver manifest \<Rightarrow>
             reading (rbind (load_receiver_pilot (pe_url E) fs manifest (pe_environment E))
                        (preflight_receiver (pe_url E) (pe_ed25519 E) (pe_tls E) fs))
         | Withdraw_publication manifest digest output \<Rightarrow> writing (withdraw_origin_publication fs manifest digest output)
         | Prune_cache evidence \<Rightarrow> caching (prune_receiver_cache evidence (pe_clock E) fs s))"

text \<open>\<open>OSError\<close> has \<open>TimeoutError\<close> and \<open>ssl.SSLError\<close> among its subclasses.\<close>

fun is_os_error :: "py_error \<Rightarrow> bool" where
  "is_os_error OSError = True"
| "is_os_error (TimeoutError _) = True"
| "is_os_error _ = False"

datatype command_end = Exit int "pyval option" | Traceback py_error

definition pilot_main :: "pilot_env \<Rightarrow> pilot_command \<Rightarrow> pilot_state \<Rightarrow> pilot_state \<times> command_end" where
  "pilot_main E cmd st =
     (case run_command E cmd st of
        (st', Inl e) \<Rightarrow> (st', if is_os_error e \<or> is_value_error e then Exit 2 None else Traceback e)
      | (st', Inr report) \<Rightarrow>
          (st', Exit (case cmd of Probe manifest \<Rightarrow> if item (item report ''outcome'') ''hit'' = PyBool True then 0 else 1 | _ \<Rightarrow> 0) (Some report)))"

section \<open>The launcher\<close>

definition environment_name :: "pystr \<Rightarrow> bool" where
  "environment_name s \<longleftrightarrow>
     s \<noteq> [] \<and> 65 \<le> hd s \<and> hd s \<le> 90 \<and> list_all (\<lambda>c. 65 \<le> c \<and> c \<le> 90 \<or> 48 \<le> c \<and> c \<le> 57 \<or> c = 95) s"

definition ascii_decode :: "bytes \<Rightarrow> pystr option" where
  "ascii_decode b = (if list_all (\<lambda>x. uint x < 128) b then Some (map uint b) else None)"

text \<open>The environment with the secret and the command that replaces the process, or the message it exits with. A secret has no
  null character, which the environment would refuse.\<close>

definition secret_exec ::
  "pystr list \<Rightarrow> (pystr \<Rightarrow> bytes result) \<Rightarrow> (pystr \<Rightarrow> pystr option) \<Rightarrow> string + (pystr \<Rightarrow> pystr option) \<times> pystr list" where
  "secret_exec argv read environ =
     (if length argv < 4 \<or> \<not> environment_name (argv ! 1) then Inl ''usage: secret-exec ENV_NAME SECRET_FILE COMMAND [ARG ...]''
      else case read (argv ! 2) of
             Inl e \<Rightarrow> Inl ''configured secret cannot be read''
           | Inr b \<Rightarrow>
               (case ascii_decode b of
                  None \<Rightarrow> Inl ''configured secret cannot be read''
                | Some s \<Rightarrow> if strip s = [] then Inl ''configured secret is empty'' else Inr (environ(argv ! 1 \<mapsto> strip s), drop 3 argv)))"

section \<open>Exit codes\<close>

lemma pilot_exit_codes:
  assumes "pilot_main E cmd st = (st', Exit n printed)"
  shows "n \<in> {0, 1, 2}" "n = 2 \<longleftrightarrow> printed = None"
    "n = 1 \<longleftrightarrow> (\<exists>manifest report. cmd = Probe manifest \<and> printed = Some report \<and> item (item report ''outcome'') ''hit'' \<noteq> PyBool True)"
  using assms by (auto simp: pilot_main_def split: sum.splits prod.splits if_splits pilot_command.splits)

text \<open>Serving and the preflights change no file.\<close>

lemma reading_commands: "cmd \<in> {Serve m, Preflight_origin m, Preflight_receiver m} \<Longrightarrow> fst (pilot_main E cmd st) = st"
  by (auto simp: pilot_main_def run_command_def split: sum.splits prod.splits)

end
