(* ===== verification/Metrics.thy ===== *)
theory Metrics
  imports Complex_Main Json
begin

text \<open>
  Evaluation events, the in-memory sink and the summaries (\<open>metrics.py\<close>). Durations and costs are
  floats in the code and rationals here: their sums and quotients are exact. Each field of the
  summary dictionary is a field of \<open>flat_summary\<close>.
\<close>

section \<open>Events\<close>

record evaluation_event =
  ev_mode :: string
  ev_action_digest :: pystr
  ev_operation :: pystr
  ev_candidate_hit :: bool
  ev_tier :: "pystr option"
  ev_artifact_match :: "bool option"
  ev_rejections :: "pystr list"
  ev_execution_duration_ms :: rat
  ev_reusable_bytes :: int
  ev_verified_time_saved_ms :: rat
  ev_verified_cost_saved :: rat
  ev_lookup_duration_ms :: rat
  ev_evaluation_id :: "pystr option"
  ev_validation_method :: "string option"
  ev_validation_status :: "int option"
  ev_validation_duration_ms :: rat
  ev_validation_recorded :: bool
  ev_substituted :: bool
  ev_decision_reason :: "pystr option"
  ev_kill_switch_active :: bool
  ev_estimated_substitution_time_saved_ms :: rat
  ev_background_revalidation_scheduled :: bool
  ev_background_revalidation_coalesced :: bool

text \<open>The fields that have no default, and the defaults of the others.\<close>

definition new_event ::
  "string \<Rightarrow> pystr \<Rightarrow> pystr \<Rightarrow> bool \<Rightarrow> pystr option \<Rightarrow> bool option \<Rightarrow> pystr list \<Rightarrow> rat \<Rightarrow> int \<Rightarrow> rat \<Rightarrow> rat
     \<Rightarrow> evaluation_event" where
  "new_event mode digest operation hit tier artifact_match rejections duration bytes time_saved cost_saved =
     \<lparr>ev_mode = mode, ev_action_digest = digest, ev_operation = operation, ev_candidate_hit = hit, ev_tier = tier,
      ev_artifact_match = artifact_match, ev_rejections = rejections, ev_execution_duration_ms = duration,
      ev_reusable_bytes = bytes, ev_verified_time_saved_ms = time_saved, ev_verified_cost_saved = cost_saved,
      ev_lookup_duration_ms = 0, ev_evaluation_id = None, ev_validation_method = None, ev_validation_status = None,
      ev_validation_duration_ms = 0, ev_validation_recorded = False, ev_substituted = False,
      ev_decision_reason = None, ev_kill_switch_active = False, ev_estimated_substitution_time_saved_ms = 0,
      ev_background_revalidation_scheduled = False, ev_background_revalidation_coalesced = False\<rparr>"

text \<open>\<open>InMemoryMetrics.record\<close>; the lock makes it one step.\<close>

definition record_event :: "evaluation_event list \<Rightarrow> evaluation_event \<Rightarrow> evaluation_event list" where
  "record_event events e = events @ [e]"

section \<open>Summaries\<close>

record flat_summary =
  su_evaluations :: int
  su_candidate_hits :: int
  su_candidate_hit_rate :: rat
  su_verified_matches :: int
  su_verified_match_rate :: rat
  su_candidate_match_rate :: rat
  su_candidate_mismatches :: int
  su_rejections :: "(pystr \<times> int) list"
  su_lookup_duration_ms :: rat
  su_execution_duration_ms :: rat
  su_verified_time_saved_ms :: rat
  su_verified_cost_saved :: rat
  su_reusable_bytes :: int
  su_conditional_attempts :: int
  su_conditional_not_modified :: int
  su_validations_recorded :: int
  su_validation_duration_ms :: rat
  su_substitutions :: int
  su_decision_reasons :: "(pystr \<times> int) list"
  su_kill_switch_activations :: int
  su_estimated_substitution_time_saved_ms :: rat
  su_background_revalidations_scheduled :: int
  su_background_revalidations_coalesced :: int

definition count_events :: "('a \<Rightarrow> bool) \<Rightarrow> 'a list \<Rightarrow> int" where
  "count_events P es = int (length (filter P es))"

text \<open>\<open>Counter(xs)\<close>, and \<open>dict(sorted(counter.items()))\<close> of it.\<close>

definition counter :: "'a list \<Rightarrow> ('a \<times> int) list" where
  "counter xs = foldl (\<lambda>d x. al_set d x ((case al_get d x of Some n \<Rightarrow> n | None \<Rightarrow> 0) + 1)) [] xs"

definition sorted_counter :: "pystr list \<Rightarrow> (pystr \<times> int) list" where
  "sorted_counter xs = sort_key fst (counter xs)"

definition rate :: "int \<Rightarrow> int \<Rightarrow> rat" where
  "rate n n_all = (if n_all \<noteq> 0 then of_int n / of_int n_all else 0)"

definition decision_reasons :: "evaluation_event list \<Rightarrow> pystr list" where
  "decision_reasons es = [r. Some r \<leftarrow> map ev_decision_reason es, r \<noteq> []]"

definition summarize_flat :: "evaluation_event list \<Rightarrow> flat_summary" where
  "summarize_flat es =
     (let n_all = int (length es);
          hits = count_events ev_candidate_hit es;
          matches = count_events (\<lambda>e. ev_artifact_match e = Some True) es;
          mismatches = count_events (\<lambda>e. ev_artifact_match e = Some False) es
      in \<lparr>su_evaluations = n_all, su_candidate_hits = hits, su_candidate_hit_rate = rate hits n_all,
          su_verified_matches = matches, su_verified_match_rate = rate matches n_all,
          su_candidate_match_rate = rate matches hits, su_candidate_mismatches = mismatches,
          su_rejections = sorted_counter (concat (map ev_rejections es)),
          su_lookup_duration_ms = sum_list (map ev_lookup_duration_ms es),
          su_execution_duration_ms = sum_list (map ev_execution_duration_ms es),
          su_verified_time_saved_ms = sum_list (map ev_verified_time_saved_ms es),
          su_verified_cost_saved = sum_list (map ev_verified_cost_saved es),
          su_reusable_bytes = sum_list (map ev_reusable_bytes es),
          su_conditional_attempts = count_events (\<lambda>e. ev_validation_method e = Some ''http.conditional/1'') es,
          su_conditional_not_modified = count_events (\<lambda>e. ev_validation_status e = Some 304) es,
          su_validations_recorded = count_events ev_validation_recorded es,
          su_validation_duration_ms = sum_list (map ev_validation_duration_ms es),
          su_substitutions = count_events ev_substituted es,
          su_decision_reasons = sorted_counter (decision_reasons es),
          su_kill_switch_activations = count_events ev_kill_switch_active es,
          su_estimated_substitution_time_saved_ms = sum_list (map ev_estimated_substitution_time_saved_ms es),
          su_background_revalidations_scheduled = count_events ev_background_revalidation_scheduled es,
          su_background_revalidations_coalesced = count_events ev_background_revalidation_coalesced es\<rparr>)"

text \<open>\<open>operations.setdefault(event.operation, []).append(event)\<close>\<close>

definition group_events :: "evaluation_event list \<Rightarrow> (pystr \<times> evaluation_event list) list" where
  "group_events es =
     foldl (\<lambda>d e. al_set d (ev_operation e)
              ((case al_get d (ev_operation e) of Some xs \<Rightarrow> xs | None \<Rightarrow> []) @ [e])) [] es"

definition summarize :: "evaluation_event list \<Rightarrow> flat_summary \<times> (pystr \<times> flat_summary) list" where
  "summarize es =
     (summarize_flat es, map (\<lambda>(operation, xs). (operation, summarize_flat xs)) (sort_key fst (group_events es)))"

section \<open>What a summary says\<close>

lemma group_events_snoc:
  "group_events (es @ [e]) = al_set (group_events es) (ev_operation e)
     ((case al_get (group_events es) (ev_operation e) of Some xs \<Rightarrow> xs | None \<Rightarrow> []) @ [e])"
  by (simp add: group_events_def)

lemma group_events_get:
  "al_get (group_events es) k =
     (let xs = filter (\<lambda>e. ev_operation e = k) es in if xs = [] then None else Some xs)"
proof (induction es rule: rev_induct)
  case (snoc e es)
  then show ?case by (auto simp: group_events_snoc Let_def split: option.splits if_splits)
qed (simp add: group_events_def)

lemma distinct_group_events: "distinct (map fst (group_events es))"
  by (induction es rule: rev_induct) (simp_all add: group_events_snoc distinct_al_set, simp add: group_events_def)

lemma counter_snoc: "counter (xs @ [x]) = al_set (counter xs) x ((case al_get (counter xs) x of Some n \<Rightarrow> n | None \<Rightarrow> 0) + 1)"
  by (simp add: counter_def)

lemma counter_get: "al_get (counter xs) x = (if x \<in> set xs then Some (int (count_list xs x)) else None)"
proof (induction xs rule: rev_induct)
  case (snoc y ys)
  have "x \<notin> set ys \<Longrightarrow> count_list ys x = 0" by (simp add: count_list_0_iff)
  with snoc show ?case by (auto simp: counter_snoc split: option.splits if_splits)
qed (simp add: counter_def)

lemma rate_bounds: "0 \<le> n \<Longrightarrow> n \<le> n_all \<Longrightarrow> 0 \<le> rate n n_all \<and> rate n n_all \<le> 1"
  by (auto simp: rate_def divide_le_eq_1 of_int_le_iff)

lemma count_events_bounds: "0 \<le> count_events P es" "count_events P es \<le> int (length es)"
  by (simp_all add: count_events_def)

lemma count_events_mono: "(\<And>e. e \<in> set es \<Longrightarrow> P e \<Longrightarrow> Q e) \<Longrightarrow> count_events P es \<le> count_events Q es"
  by (induction es) (auto simp: count_events_def)

section \<open>Consistent events\<close>

text \<open>What the runtime guarantees of every event: only a candidate can match or be substituted.\<close>

definition event_ok :: "evaluation_event \<Rightarrow> bool" where
  "event_ok e \<longleftrightarrow> (ev_artifact_match e \<noteq> None \<longrightarrow> ev_candidate_hit e) \<and> (ev_substituted e \<longrightarrow> ev_candidate_hit e)
     \<and> 0 \<le> ev_reusable_bytes e"

lemma summary_rates:
  assumes "\<forall>e \<in> set es. event_ok e"
  shows "0 \<le> su_candidate_hit_rate (summarize_flat es) \<and> su_candidate_hit_rate (summarize_flat es) \<le> 1
    \<and> 0 \<le> su_candidate_match_rate (summarize_flat es) \<and> su_candidate_match_rate (summarize_flat es) \<le> 1
    \<and> 0 \<le> su_verified_match_rate (summarize_flat es) \<and> su_verified_match_rate (summarize_flat es) \<le> su_candidate_hit_rate (summarize_flat es)"
proof -
  let ?hits = "count_events ev_candidate_hit es" and ?matches = "count_events (\<lambda>e. ev_artifact_match e = Some True) es"
  have m: "?matches \<le> ?hits" using assms by (intro count_events_mono) (auto simp: event_ok_def)
  note b = rate_bounds [OF count_events_bounds(1) count_events_bounds(2), of ev_candidate_hit es]
    rate_bounds [OF count_events_bounds(1) m] rate_bounds [OF count_events_bounds(1) count_events_bounds(2), of "\<lambda>e. ev_artifact_match e = Some True" es]
  have "rate ?matches (int (length es)) \<le> rate ?hits (int (length es))"
    using m by (auto simp: rate_def intro!: divide_right_mono)
  with b show ?thesis by (simp add: summarize_flat_def Let_def)
qed

text \<open>Grouping by operation loses and duplicates nothing: any sum over all events is the sum over the groups.\<close>

lemma sum_al_set:
  fixes h :: "'a list \<Rightarrow> 'b :: comm_monoid_add"
  assumes "\<And>xs x. h (xs @ [x]) = h xs + f x" "h [] = 0" "distinct (map fst d)"
  shows "sum_list (map (\<lambda>(k, xs). h xs) (al_set d k ((case al_get d k of Some xs \<Rightarrow> xs | None \<Rightarrow> []) @ [x])))
    = sum_list (map (\<lambda>(k, xs). h xs) d) + f x"
  using assms(3)
proof (induction d)
  case Nil
  show ?case using assms(1) [of "[]" x] assms(2) by simp
next
  case (Cons p d)
  obtain k' xs where p: "p = (k', xs)" by fastforce
  show ?case
  proof (cases "k' = k")
    case True
    then show ?thesis by (simp add: p assms(1) algebra_simps)
  next
    case False
    with Cons show ?thesis by (simp add: p algebra_simps)
  qed
qed

lemma sum_groups:
  fixes h :: "evaluation_event list \<Rightarrow> 'b :: comm_monoid_add"
  assumes "\<And>xs x. h (xs @ [x]) = h xs + f x" "h [] = 0"
  shows "sum_list (map (\<lambda>(k, xs). h xs) (group_events es)) = h es"
proof (induction es rule: rev_induct)
  case (snoc e es)
  have "sum_list (map (\<lambda>(k, xs). h xs) (group_events (es @ [e]))) = sum_list (map (\<lambda>(k, xs). h xs) (group_events es)) + f e"
    unfolding group_events_snoc by (rule sum_al_set [OF assms distinct_group_events])
  with snoc show ?case by (simp add: assms(1))
qed (simp add: group_events_def assms(2))

lemma sum_sort_key:
  fixes g :: "'a \<Rightarrow> 'b :: comm_monoid_add"
  shows "sum_list (map g (sort_key f xs)) = sum_list (map g xs)"
proof -
  have "sum_list (map g (insort_key f x xs)) = g x + sum_list (map g xs)" for x xs
    by (induction xs) (simp_all add: algebra_simps)
  then show ?thesis by (induction xs) (simp_all add: sort_key_def)
qed

lemma summarize_groups:
  fixes h :: "evaluation_event list \<Rightarrow> 'b :: comm_monoid_add"
  assumes "\<And>xs x. h (xs @ [x]) = h xs + f x" "h [] = 0" "\<And>xs. g (summarize_flat xs) = h xs"
  shows "sum_list (map (\<lambda>(operation, s). g s) (snd (summarize es))) = g (fst (summarize es))"
  using sum_groups [OF assms(1,2), of es]
  by (simp add: summarize_def assms(3) split_def comp_def sum_sort_key)

lemma count_events_snoc: "count_events P (xs @ [x]) = count_events P xs + (if P x then 1 else 0)"
  by (simp add: count_events_def)

lemma summarize_counts:
  assumes "\<And>xs. g (summarize_flat xs) = count_events P xs"
  shows "sum_list (map (\<lambda>(operation, s). g s) (snd (summarize es))) = g (fst (summarize es))"
  by (rule summarize_groups [where h = "count_events P" and f = "\<lambda>x. if P x then 1 else 0"])
    (simp_all add: count_events_snoc assms, simp add: count_events_def)

lemma summarize_sums:
  fixes f :: "evaluation_event \<Rightarrow> 'b :: comm_monoid_add"
  assumes "\<And>xs. g (summarize_flat xs) = sum_list (map f xs)"
  shows "sum_list (map (\<lambda>(operation, s). g s) (snd (summarize es))) = g (fst (summarize es))"
  by (rule summarize_groups [where h = "\<lambda>xs. sum_list (map f xs)" and f = f]) (simp_all add: assms)


end
