(* ===== verification/Document_Adapters.thy ===== *)
theory Document_Adapters
  imports Federation_Http
begin

text \<open>
  The two document adapters: HTML to Markdown (\<open>adapters/html_markdown.py\<close>) and PDF to text
  (\<open>adapters/pdf_text.py\<close>). The tokenizer of \<open>html.parser\<close> and the library \<open>pypdf\<close> are parameters: the calls
  the parser makes for a text, and what reading a PDF says of its encryption and its pages. The
  actions that are executed are the ones the runtime has validated before.
\<close>

section \<open>HTML to Markdown\<close>

definition build_html_to_markdown_action :: "bytes \<Rightarrow> pystr \<Rightarrow> pyval" where
  "build_html_to_markdown_action html media_type =
     obj [(''spec_version'', S ''oncemesh.action/v0''),
          (''operation'', obj [(''name'', S ''document.html-to-markdown''), (''version'', S ''1'')]),
          (''inputs'', obj [(''content'', obj [(''digest'', PyStr (digest_bytes html)), (''size'', PyInt (int (length html))),
                                               (''media_type'', PyStr media_type)])]),
          (''executor'', obj [(''name'', S ''oncemesh.html-markdown''), (''version'', S ''1''),
                              (''config'', obj [(''profile'', S ''readable-v1'')])]),
          (''output_schema'', S ''oncemesh.document/markdown-v1''), (''vary'', PyDict [])]"

datatype html_call = Html_start pystr "(pystr \<times> pystr option) list" | Html_end pystr | Html_data pystr

record markdown =
  md_parts :: "pystr list"
  md_ignore_depth :: nat
  md_link_targets :: "pystr list"

definition no_markdown :: markdown where
  "no_markdown = \<lparr>md_parts = [], md_ignore_depth = 0, md_link_targets = []\<rparr>"

definition ignored_tags :: "pystr list" where
  "ignored_tags = [u ''script'', u ''style'', u ''noscript'']"

definition md_append :: "pystr \<Rightarrow> markdown \<Rightarrow> markdown" where
  "md_append s st = st\<lparr>md_parts := md_parts st @ [s]\<rparr>"

definition md_block :: "markdown \<Rightarrow> markdown" where
  "md_block st = (if md_parts st \<noteq> [] \<and> \<not> ends_with [10, 10] (last (md_parts st)) then md_append [10, 10] st else st)"

definition block_tags :: "pystr list" where
  "block_tags = [u ''p'', u ''div'', u ''section'', u ''article'', u ''blockquote'']"

definition heading_tags :: "pystr list" where
  "heading_tags = [u ''h1'', u ''h2'', u ''h3'', u ''h4'', u ''h5'', u ''h6'']"

definition inline_mark :: "pystr \<Rightarrow> pystr option" where
  "inline_mark tag =
     (if tag \<in> {u ''strong'', u ''b''} then Some (u ''**'') else if tag \<in> {u ''em'', u ''i''} then Some (u ''_'')
      else if tag = u ''code'' then Some [96] else None)"

definition handle_starttag :: "pystr \<Rightarrow> (pystr \<times> pystr option) list \<Rightarrow> markdown \<Rightarrow> markdown" where
  "handle_starttag tag attrs st =
     (if tag \<in> set ignored_tags then st\<lparr>md_ignore_depth := md_ignore_depth st + 1\<rparr>
      else if md_ignore_depth st \<noteq> 0 then st
      else if tag \<in> set block_tags then md_block st
      else if tag \<in> set heading_tags then md_append (replicate (nat (tag ! 1 - 48)) 35 @ [32]) (md_block st)
      else if tag = u ''br'' then md_append [10] st
      else if tag = u ''li'' then md_append (u ''- '') (md_block st)
      else case inline_mark tag of
             Some mark \<Rightarrow> md_append mark st
           | None \<Rightarrow>
               if tag = u ''a''
               then (md_append [91] st)\<lparr>md_link_targets :=
                      md_link_targets st @ [case al_get (al_of attrs) (u ''href'') of Some (Some target) \<Rightarrow> target | _ \<Rightarrow> []]\<rparr>
               else st)"

definition handle_endtag :: "pystr \<Rightarrow> markdown \<Rightarrow> markdown" where
  "handle_endtag tag st =
     (if tag \<in> set ignored_tags then st\<lparr>md_ignore_depth := md_ignore_depth st - 1\<rparr>
      else if md_ignore_depth st \<noteq> 0 then st
      else if tag \<in> set (block_tags @ [u ''li''] @ heading_tags) then md_block st
      else case inline_mark tag of
             Some mark \<Rightarrow> md_append mark st
           | None \<Rightarrow>
               if tag = u ''a'' then
                 let target = (if md_link_targets st = [] then [] else last (md_link_targets st))
                 in (md_append (if target = [] then [93] else [93, 40] @ target @ [41]) st)
                      \<lparr>md_link_targets := butlast (md_link_targets st)\<rparr>
               else st)"

text \<open>\<open>re.sub("[...]+", " ", s)\<close> for a class of characters.\<close>

fun collapse :: "(int \<Rightarrow> bool) \<Rightarrow> bool \<Rightarrow> pystr \<Rightarrow> pystr" where
  "collapse P inside [] = []"
| "collapse P inside (c # cs) =
     (if P c then (if inside then collapse P True cs else 32 # collapse P True cs) else c # collapse P False cs)"

definition handle_data :: "pystr \<Rightarrow> markdown \<Rightarrow> markdown" where
  "handle_data s st =
     (if md_ignore_depth st \<noteq> 0 then st else md_append (collapse (\<lambda>c. c \<in> {9, 13, 10, 32}) False s) st)"

definition handle_call :: "html_call \<Rightarrow> markdown \<Rightarrow> markdown" where
  "handle_call c = (case c of Html_start tag attrs \<Rightarrow> handle_starttag tag attrs | Html_end tag \<Rightarrow> handle_endtag tag | Html_data s \<Rightarrow> handle_data s)"

text \<open>\<open>str.splitlines\<close>: the pair of a carriage return and a line feed is one boundary, and a final boundary starts no line.\<close>

definition line_boundary :: "int \<Rightarrow> bool" where
  "line_boundary c \<longleftrightarrow> (10 \<le> c \<and> c \<le> 13) \<or> (28 \<le> c \<and> c \<le> 30) \<or> c = 133 \<or> c = 8232 \<or> c = 8233"

fun splitlines :: "bool \<Rightarrow> pystr \<Rightarrow> pystr \<Rightarrow> pystr list" where
  "splitlines after_cr line [] = (if line = [] then [] else [rev line])"
| "splitlines after_cr line (c # cs) =
     (if after_cr \<and> c = 10 then splitlines False line cs
      else if line_boundary c then rev line # splitlines (c = 13) [] cs
      else splitlines False (c # line) cs)"

definition drop_blank_runs :: "pystr list \<Rightarrow> pystr list" where
  "drop_blank_runs = foldl (\<lambda>output line. if line \<noteq> [] \<or> (output \<noteq> [] \<and> last output \<noteq> []) then output @ [line] else output) []"

definition md_render :: "markdown \<Rightarrow> pystr" where
  "md_render st =
     strip (join [10] (drop_blank_runs
       (map (\<lambda>line. strip (collapse (\<lambda>c. c = 32 \<or> c = 9) False line)) (splitlines False [] (concat (md_parts st)))))) @ [10]"

definition html_to_markdown_artifacts :: "(pystr \<Rightarrow> html_call list) \<Rightarrow> bytes \<Rightarrow> outputs result" where
  "html_to_markdown_artifacts parser html =
     (case utf8_decode html of
        None \<Rightarrow> Inl UnicodeError
      | Some source \<Rightarrow>
     rbind (utf8_encode (md_render (fold handle_call (parser source) no_markdown))) (\<lambda>document.
       Inr [(u ''document'', document, u ''text/markdown; charset=utf-8'')]))"

section \<open>PDF to text\<close>

record pdf_library =
  pl_version :: pystr
  pl_read :: "bytes \<Rightarrow> (bool \<times> pystr option result list) result"

text \<open>\<open>media_type.lower().split(";", 1)[0].strip()\<close>\<close>

definition media_essence :: "url_env \<Rightarrow> pystr \<Rightarrow> pystr" where
  "media_essence U media_type = strip (fst (partition_at 59 (lower U media_type)))"

definition positive_int :: "pyval \<Rightarrow> bool" where
  "positive_int v \<longleftrightarrow> is_int v \<and> 0 < int_of v"

definition build_pdf_to_text_action ::
  "url_env \<Rightarrow> pdf_library \<Rightarrow> bytes \<Rightarrow> pystr \<Rightarrow> pyval \<Rightarrow> pyval \<Rightarrow> pystr option \<Rightarrow> pyval \<Rightarrow> pyval result" where
  "build_pdf_to_text_action U L pdf media_type max_pages max_output_bytes parser_version scope =
     seq (first_error
       [guard (media_essence U media_type = u ''application/pdf'') (ValueError ''pdf-to-text/v1 requires application/pdf input''),
        guard (positive_int max_pages) (ValueError ''max_pages must be a positive integer''),
        guard (positive_int max_output_bytes) (ValueError ''max_output_bytes must be a positive integer''),
        if scope = PyNone then Inr () else validate_authorization_partition scope])
     (Inr (obj
       [(''spec_version'', S ''oncemesh.action/v0''),
        (''operation'', obj [(''name'', S ''document.pdf-to-text''), (''version'', S ''1'')]),
        (''inputs'', obj [(''content'', obj [(''digest'', PyStr (digest_bytes pdf)), (''size'', PyInt (int (length pdf))),
                                             (''media_type'', PyStr media_type)])]),
        (''executor'', obj [(''name'', S ''oncemesh.pypdf''),
           (''version'', PyStr (case parser_version of Some version \<Rightarrow> if version = [] then pl_version L else version | None \<Rightarrow> pl_version L)),
           (''config'', obj [(''profile'', S ''layout-v1''), (''max_pages'', max_pages), (''max_output_bytes'', max_output_bytes)])]),
        (''output_schema'', S ''oncemesh.document/plain-text-v1''),
        (''vary'', if scope = PyNone then PyDict [] else obj [(''authorization_partition'', scope)])]))"

text \<open>\<open>re.sub("\r\n?", "\n", text)\<close>\<close>

fun unix_lines :: "bool \<Rightarrow> pystr \<Rightarrow> pystr" where
  "unix_lines after_cr [] = []"
| "unix_lines after_cr (c # cs) =
     (if after_cr \<and> c = 10 then unix_lines False cs else (if c = 13 then 10 else c) # unix_lines (c = 13) cs)"

definition rstrip_blanks :: "pystr \<Rightarrow> pystr" where
  "rstrip_blanks s = rev (dropWhile (\<lambda>c. c = 32 \<or> c = 9) (rev s))"

definition normalize_page :: "pystr \<Rightarrow> pystr" where
  "normalize_page s =
     (let lines = map rstrip_blanks (split_on 10 (unix_lines False s));
          lines = dropWhile (\<lambda>l. l = []) lines
      in join [10] (rev (dropWhile (\<lambda>l. l = []) (rev lines))))"

fun normalize_pages :: "pystr option result list \<Rightarrow> pystr list result" where
  "normalize_pages [] = Inr []"
| "normalize_pages (page # rest) = rbind page (\<lambda>s. rbind (normalize_pages rest) (\<lambda>ss. Inr (normalize_page (or_empty s) # ss)))"

definition page_separator :: pystr where
  "page_separator = [10, 12, 10]"

definition check_pdf_action :: "url_env \<Rightarrow> pdf_library \<Rightarrow> pyval \<Rightarrow> bytes \<Rightarrow> unit result" where
  "check_pdf_action U L action pdf =
     seq (guard (is_operation (item action ''operation'') ''document.pdf-to-text'' ''1'')
            (ValueError ''action is not a document.pdf-to-text/v1 action''))
     (rbind (subscript action ''executor'') (\<lambda>executor.
      rbind (subscript executor ''config'') (\<lambda>config.
      seq (guard (exact_keys executor [''name'', ''version'', ''config''] \<and> item executor ''name'' = S ''oncemesh.pypdf''
                  \<and> item executor ''version'' = PyStr (pl_version L))
             (ValueError ''action parser version does not match the installed pypdf executor''))
      (rbind (subscript action ''inputs'') (\<lambda>inputs.
       rbind (subscript inputs ''content'') (\<lambda>descriptor.
       rbind (get_method descriptor ''media_type'') (\<lambda>media_type.
       if has_key descriptor ''media_type'' \<and> \<not> is_str media_type then Inl AttributeError
       else
         seq (guard (media_essence U (str_of media_type) = u ''application/pdf'') (ValueError ''PDF input descriptor must use application/pdf''))
         (rbind (subscript descriptor ''digest'') (\<lambda>digest.
          rbind (if digest \<noteq> PyStr (digest_bytes pdf) then Inr PyNone else subscript descriptor ''size'') (\<lambda>size.
          first_error
            [guard (digest = PyStr (digest_bytes pdf) \<and> size = PyInt (int (length pdf)))
               (ValueError ''PDF bytes do not match the action input descriptor''),
             guard (exact_keys config [''profile'', ''max_pages'', ''max_output_bytes''])
               (ValueError ''PDF executor config contains unsupported fields''),
             guard (item config ''profile'' = S ''layout-v1'') (ValueError ''unsupported PDF extraction profile'')]))))))))))"

definition pdf_to_text_artifacts :: "url_env \<Rightarrow> pdf_library \<Rightarrow> pyval \<Rightarrow> bytes \<Rightarrow> outputs result" where
  "pdf_to_text_artifacts U L action pdf =
     seq (check_pdf_action U L action pdf)
     (rbind (pl_read L pdf) (\<lambda>(encrypted, pages).
      let config = item (item action ''executor'') ''config'' in
      if encrypted then Inl (ValueError ''encrypted PDFs are not supported by pdf-to-text/v1'')
      else
        rbind (exceeds (int (length pages)) (item config ''max_pages'')) (\<lambda>too_many.
        if too_many then Inl (ValueError ''PDF exceeds max_pages'')
        else
          rbind (normalize_pages pages) (\<lambda>texts.
          rbind (utf8_encode (rstrip_char 10 (join page_separator texts) @ [10])) (\<lambda>encoded.
          rbind (exceeds (int (length encoded)) (item config ''max_output_bytes'')) (\<lambda>too_long.
          if too_long then Inl (ValueError ''extracted text exceeds max_output_bytes'')
          else
            rbind (canonical_json (obj [(''page_count'', PyInt (int (length pages))), (''parser'', S ''pypdf''),
                     (''parser_version'', PyStr (pl_version L)), (''profile'', S ''layout-v1'')])) (\<lambda>metadata.
              Inr [(u ''text'', encoded, u ''text/plain; charset=utf-8''), (u ''metadata'', metadata, u ''application/json'')])))))))"

end
