(* ===== verification/Raises.thy ===== *)
theory Raises
  imports Fs_Store
begin

text \<open>
  Which exceptions a computation can raise: \<open>raises P m\<close> says that every exception of \<open>m\<close> satisfies
  \<open>P\<close>. The rules in \<open>raises\<close> follow the structure of a sequence of checks, so that the exceptions of
  a validator are computed by simplification.
\<close>

definition raises :: "(py_error \<Rightarrow> bool) \<Rightarrow> 'a result \<Rightarrow> bool" where
  "raises P m \<longleftrightarrow> (\<forall>e. m = Inl e \<longrightarrow> P e)"

named_theorems raises "the exceptions of composed computations"

lemma raises_simps [simp, raises]:
  "raises P (Inr x)" "raises P (Inl e) \<longleftrightarrow> P e" "raises P (guard c e) \<longleftrightarrow> c \<or> P e"
  by (auto simp: raises_def)

lemma raises_seq [raises]: "raises P (seq m k) \<longleftrightarrow> raises P m \<and> (m = Inr () \<longrightarrow> raises P k)"
  by (cases m) (auto simp: raises_def)

lemma raises_rbind [raises]: "raises P (rbind m f) \<longleftrightarrow> raises P m \<and> (\<forall>x. m = Inr x \<longrightarrow> raises P (f x))"
  by (cases m) (auto simp: raises_def)

lemma raises_discard [raises]: "raises P (discard m) \<longleftrightarrow> raises P m"
  by (cases m) (auto simp: raises_def)

lemma raises_first_error [raises]:
  "raises P (first_error [])"
  "raises P (first_error (x # xs)) \<longleftrightarrow> raises P x \<and> (x = Inr () \<longrightarrow> raises P (first_error xs))"
  by (cases x; simp add: raises_def)+

lemma raises_if [raises]: "raises P (if c then m else k) \<longleftrightarrow> (c \<longrightarrow> raises P m) \<and> (\<not> c \<longrightarrow> raises P k)"
  by simp

lemma raisesD: "raises P m \<Longrightarrow> m = Inl e \<Longrightarrow> P e"
  by (simp add: raises_def)

lemma raises_mono: "raises P m \<Longrightarrow> (\<And>e. P e \<Longrightarrow> Q e) \<Longrightarrow> raises Q m"
  by (auto simp: raises_def)

section \<open>Documents\<close>

lemma raises_of_opt [raises]: "P JSONDecodeError \<Longrightarrow> raises P (of_opt r)"
  by (cases r) (simp_all add: of_opt_def)

text \<open>\<open>json.loads\<close> raises subclasses of \<open>ValueError\<close> only.\<close>

lemma parse_raises:
  "raises is_value_error (parse_value opts n s)"
  "raises is_value_error (parse_elems opts n s)"
  "raises is_value_error (parse_members opts n s)"
proof (induction opts n s and opts n s and opts n s rule: parse_value_parse_elems_parse_members.induct)
  case (2 opts n s)
  have atom: "raises is_value_error (parse_atom opts s)" by (simp add: parse_atom_def split: option.split)
  have dict: "raises is_value_error (build_dict opts ps)" for ps by (simp add: build_dict_def)
  show ?case
    using 2 atom by (auto simp: raises raises_of_opt dict split: list.split)
qed (auto simp: raises raises_of_opt split: list.split)

lemma loads_raises: "raises is_value_error (loads opts s)"
  by (auto simp: loads_def raises parse_raises simp del: parse_value.simps)

lemma loads_bytes_raises: "raises is_value_error (loads_bytes opts b)"
  by (simp add: loads_bytes_def loads_raises split: option.split)

lemma validate_raises:
  "raises is_value_error (validate v)" "raises is_value_error (validate_list vs)" "raises is_value_error (validate_pairs kvs)"
proof (induction v and vs and kvs rule: validate_validate_list_validate_pairs.induct)
  case (12 k v kvs)
  have "raises is_value_error (validate_key k)" by (cases k) (simp_all add: validate_str_def)
  with 12 show ?case by (simp add: raises)
qed (simp_all add: raises validate_str_def)

lemma canonical_json_raises [raises]: "raises is_value_error (canonical_json v)"
  by (simp add: canonical_json_def raises validate_raises utf8_encode_def)

section \<open>Literal documents\<close>

text \<open>Both are decided by rewriting on a literal list of fields.\<close>

lemma exact_keys_literal:
  "exact_keys (obj kvs) ks \<longleftrightarrow> list_all (\<lambda>k. k \<in> set ks) (map fst kvs) \<and> list_all (\<lambda>k. k \<in> set (map fst kvs)) ks"
  unfolding exact_keys_obj by (auto simp: list_all_iff)

lemma norm_obj:
  "sorted (map (\<lambda>p. u (fst p)) kvs) \<Longrightarrow> norm (obj kvs) = obj (map (\<lambda>(k, v). (k, norm v)) kvs)"
proof -
  assume "sorted (map (\<lambda>p. u (fst p)) kvs)"
  then have "sort_key fst (map (\<lambda>(k, v). (u k, norm v)) kvs) = map (\<lambda>(k, v). (u k, norm v)) kvs"
    by (intro sort_key_id_if_sorted) (simp add: comp_def split_def)
  then show ?thesis by (simp add: sort_items_def split_def comp_def)
qed

end
