(* ===== verification/Json_Prefix.thy ===== *)
theory Json_Prefix
  imports Raises
begin

text \<open>
  \<open>json.loads\<close> on texts that were cut off. Reading goes from left to right, so more text after a value does not change
  what is read of it, except at the end of a number. It follows that no proper prefix of the text of an object is
  itself the text of a value.
\<close>

section \<open>Lexical elements\<close>

lemma skip_ws_extends: "skip_ws s = d # q \<Longrightarrow> skip_ws (s @ z) = d # q @ z"
  unfolding skip_ws_def by (induction s) (auto split: if_splits)

lemma skip_ws_head: "skip_ws s = d # q \<Longrightarrow> s \<noteq> [] \<and> (hd s = d \<or> is_ws (hd s))"
  unfolding skip_ws_def by (cases s) (auto split: if_splits)

lemma u_escape_extends: "u_escape s = Some (v, r) \<Longrightarrow> u_escape (s @ z) = Some (v, r @ z)"
  by (auto simp: u_escape_def split: list.splits)

lemma str_char_extends:
  assumes "str_char c r = Some (x, q)" "parse_str q \<noteq> None"
  shows "str_char c (r @ z) = Some (x, q @ z)"
proof -
  have join: "join_surrogates v (t @ z) = Some (x, q @ z)" if j: "join_surrogates v t = Some (x, q)" for v t
  proof (cases "starts_with [92, 117] t")
    case True
    then obtain t' where "t = 92 # 117 # t'" by (cases t; cases "tl t") (auto simp: starts_with_def)
    with j show ?thesis
      using u_escape_extends [of t' _ _ z] by (cases "u_escape t'") (auto simp: join_surrogates_def starts_with_def split: if_splits)
  next
    case False
    then have q: "q = t" "x = v" using j by (auto simp: join_surrogates_def split: if_splits)
    have "t \<noteq> []" "t \<noteq> [92]" using assms(2) q by (auto simp: str_char_def)
    then have "\<not> starts_with [92, 117] (t @ z)" using False by (cases t; cases "tl t") (auto simp: starts_with_def)
    with q False show ?thesis by (simp add: join_surrogates_def)
  qed
  show ?thesis
  proof (cases "\<exists>t. c = 92 \<and> r = 117 # t")
    case True
    then obtain t where t: "c = 92" "r = 117 # t" by blast
    with assms(1) obtain v t' where v: "u_escape t = Some (v, t')" "join_surrogates v t' = Some (x, q)"
      by (auto simp: str_char_def split: option.splits)
    with t u_escape_extends [OF v(1), of z] join [OF v(2)] show ?thesis by (simp add: str_char_def)
  qed (use assms(1) in \<open>auto simp: str_char_def split: if_splits list.splits\<close>)
qed

lemma parse_str_extends: "parse_str s = Some (t, r) \<Longrightarrow> parse_str (s @ z) = Some (t, r @ z)"
proof (induction s arbitrary: t rule: parse_str.induct)
  case (2 c s)
  show ?case
  proof (cases "c = 34")
    case False
    with 2(2) obtain x q t' where x: "str_char c s = Some (x, q)" "parse_str q = Some (t', r)" "t = x # t'"
      by (auto split: option.splits)
    with str_char_extends [OF x(1), of z] 2(1) [OF False _ _ x(2)] False show ?thesis by simp
  qed (use 2(2) in simp)
qed simp

text \<open>What follows a number ends it.\<close>

definition ends_number :: "pystr \<Rightarrow> bool" where
  "ends_number r \<longleftrightarrow> r \<noteq> [] \<and> hd r \<notin> {46, 69, 101}"

lemma digits_extend:
  "dropWhile is_digit s \<noteq> [] \<Longrightarrow> takeWhile is_digit (s @ z) = takeWhile is_digit s \<and> dropWhile is_digit (s @ z) = dropWhile is_digit s @ z"
  by (induction s) auto

lemma int_part_extends: "int_part s = Some (ds, r) \<Longrightarrow> r \<noteq> [] \<Longrightarrow> int_part (s @ z) = Some (ds, r @ z)"
  by (cases s) (auto simp: int_part_def digits_extend split: if_splits)

lemma exp_part_extends: "exp_part s = (es, r) \<Longrightarrow> ends_number r \<Longrightarrow> exp_part (s @ z) = (es, r @ z) \<and> s \<noteq> []"
proof (cases s)
  case (Cons c t)
  assume p: "exp_part s = (es, r)" and r: "ends_number r"
  show ?thesis
  proof (cases "c = 101 \<or> c = 69")
    case True
    define sg where "sg = (case t of d # q \<Rightarrow> if d = 43 \<or> d = 45 then ([d], q) else ([], t) | _ \<Rightarrow> ([], t))"
    have e: "exp_part s = (if snd sg \<noteq> [] \<and> is_digit (hd (snd sg))
        then (c # fst sg @ takeWhile is_digit (snd sg), dropWhile is_digit (snd sg)) else ([], s))"
      using Cons True by (simp add: exp_part_def sg_def split_def Let_def)
    have n: "snd sg \<noteq> []" "is_digit (hd (snd sg))"
      using p r Cons True unfolding e by (auto simp: ends_number_def split: if_splits)
    have z: "(case t @ z of d # q \<Rightarrow> if d = 43 \<or> d = 45 then ([d], q) else ([], t @ z) | _ \<Rightarrow> ([], t @ z)) = (fst sg, snd sg @ z)"
      using n(1) by (cases t) (auto simp: sg_def split: if_splits)
    have w: "dropWhile is_digit (snd sg) \<noteq> []" using p r n unfolding e by (auto simp: ends_number_def)
    have "exp_part (s @ z) = (c # fst sg @ takeWhile is_digit (snd sg @ z), dropWhile is_digit (snd sg @ z))"
      using Cons True n z by (simp add: exp_part_def)
    with p n digits_extend [OF w, of z] Cons show ?thesis unfolding e by simp
  qed (use p Cons in \<open>auto simp: exp_part_def\<close>)
qed (simp add: exp_part_def ends_number_def)

lemma frac_part_extends:
  "frac_part s = (fs, r) \<Longrightarrow> r \<noteq> [] \<Longrightarrow> hd r \<noteq> 46 \<Longrightarrow> frac_part (s @ z) = (fs, r @ z) \<and> s \<noteq> []"
  by (auto simp: frac_part_def digits_extend split: list.splits if_splits)

lemma parse_number_extends:
  assumes "parse_number s = Some (v, r)" "ends_number r"
  shows "parse_number (s @ z) = Some (v, r @ z)" "s \<noteq> [] \<and> (is_digit (hd s) \<or> hd s = 45 \<and> (\<exists>d q. s = 45 # d # q \<and> is_digit d))"
proof -
  obtain neg s1 where s1: "(case s of c # r \<Rightarrow> if c = 45 then (True, r) else (False, s) | _ \<Rightarrow> (False, s)) = (neg, s1)" by fastforce
  with assms(1) obtain ds s2 where ds: "int_part s1 = Some (ds, s2)" by (auto simp: parse_number_def Let_def split: option.splits)
  obtain fs s3 where fs: "frac_part s2 = (fs, s3)" by fastforce
  obtain es s4 where es: "exp_part s3 = (es, s4)" by fastforce
  from assms(1) s1 ds fs es have r: "s4 = r" by (auto simp: parse_number_def split: if_splits)
  with es assms(2) have e: "exp_part (s3 @ z) = (es, r @ z)" "s3 \<noteq> []" by (simp_all add: exp_part_extends)
  have "hd s3 \<noteq> 46"
  proof
    assume "hd s3 = 46"
    with es e(2) r have "s3 = r" by (cases s3) (auto simp: exp_part_def)
    with \<open>hd s3 = 46\<close> assms(2) show False by (simp add: ends_number_def)
  qed
  with frac_part_extends [OF fs e(2)] have f: "frac_part (s2 @ z) = (fs, s3 @ z)" "s2 \<noteq> []" by simp_all
  have i: "int_part (s1 @ z) = Some (ds, s2 @ z)" by (rule int_part_extends [OF ds f(2)])
  have n: "s1 \<noteq> []" "is_digit (hd s1)" using ds by (auto simp: int_part_def is_digit_def split: list.splits if_splits)
  then have s: "s = (if neg then 45 # s1 else s1)" "\<not> neg \<Longrightarrow> hd s1 \<noteq> 45"
    using s1 by (auto split: list.splits if_splits simp: is_digit_def)
  then have "(case s @ z of c # r \<Rightarrow> if c = 45 then (True, r) else (False, s @ z) | _ \<Rightarrow> (False, s @ z)) = (neg, s1 @ z)"
    using n(1) by (cases s1) auto
  then show "parse_number (s @ z) = Some (v, r @ z)"
    using assms(1) s1 ds fs es i f(1) e(1) r by (auto simp: parse_number_def split: if_splits)
  show "s \<noteq> [] \<and> (is_digit (hd s) \<or> hd s = 45 \<and> (\<exists>d q. s = 45 # d # q \<and> is_digit d))"
    using s n by (cases s1) auto
qed

lemma starts_with_extends: "starts_with p s \<Longrightarrow> starts_with p (s @ z)"
proof -
  assume p: "starts_with p s"
  then have "length p \<le> length s" unfolding starts_with_def by (metis length_take min.cobounded1)
  with p show ?thesis by (simp add: starts_with_def)
qed

lemma starts_with_Cons: "starts_with (a # p) s \<longleftrightarrow> (\<exists>t. s = a # t \<and> starts_with p t)"
  by (cases s) (auto simp: starts_with_def)

lemma atom_literals:
  "parse_atom opts (u ''null'' @ t) = Inr (PyNone, t)" "parse_atom opts (u ''true'' @ t) = Inr (PyBool True, t)"
  "parse_atom opts (u ''false'' @ t) = Inr (PyBool False, t)"
  "\<not> reject_const opts \<Longrightarrow> parse_atom opts (u ''NaN'' @ t) = Inr (PyFloat (u ''nan''), t)"
  "\<not> reject_const opts \<Longrightarrow> parse_atom opts (u ''Infinity'' @ t) = Inr (PyFloat (u ''inf''), t)"
  "\<not> reject_const opts \<Longrightarrow> parse_atom opts (u ''-Infinity'' @ t) = Inr (PyFloat (u ''-inf''), t)"
  by (simp_all add: parse_atom_def starts_with_def u_def parse_number_def int_part_def is_digit_def)

lemma parse_atom_extends:
  assumes "parse_atom opts s = Inr (v, r)" "ends_number r"
  shows "parse_atom opts (s @ z) = Inr (v, r @ z)"
proof (cases "parse_number s")
  case (Some x)
  have "parse_number [] = None" "parse_number (c # t) = None" if "c \<in> {110, 116, 102}" for c t
    using that by (auto simp: parse_number_def int_part_def is_digit_def)
  then obtain c t where s: "s = c # t" "c \<notin> {110, 116, 102}"
    using Some by (cases s) fastforce+
  then have w: "\<not> starts_with (u ''null'') (c # t')" "\<not> starts_with (u ''true'') (c # t')" "\<not> starts_with (u ''false'') (c # t')" for t'
    by (auto simp: starts_with_Cons u_def)
  with Some s(1) assms(1) have "parse_number s = Some (v, r)" by (simp add: parse_atom_def)
  from parse_number_extends(1) [OF this assms(2), of z] s(1) w show ?thesis by (simp add: parse_atom_def)
next
  case None
  have lit: "s @ z = p @ r @ z" if "starts_with p s" "r = drop n s" "length p = n" for p n
    using that append_take_drop_id [of "length p" s] by (simp add: starts_with_def)
  from None assms(1) consider
      "starts_with (u ''null'') s" "v = PyNone" "r = drop 4 s" | "starts_with (u ''true'') s" "v = PyBool True" "r = drop 4 s"
    | "starts_with (u ''false'') s" "v = PyBool False" "r = drop 5 s"
    | "\<not> reject_const opts" "starts_with (u ''NaN'') s" "v = PyFloat (u ''nan'')" "r = drop 3 s"
    | "\<not> reject_const opts" "starts_with (u ''Infinity'') s" "v = PyFloat (u ''inf'')" "r = drop 8 s"
    | "\<not> reject_const opts" "starts_with (u ''-Infinity'') s" "v = PyFloat (u ''-inf'')" "r = drop 9 s"
    unfolding parse_atom_def by (simp split: if_splits)
  then show ?thesis
    by cases (simp_all add: atom_literals lit [of "u ''null''" 4] lit [of "u ''true''" 4] lit [of "u ''false''" 5]
        lit [of "u ''NaN''" 3] lit [of "u ''Infinity''" 8] lit [of "u ''-Infinity''" 9])
qed

section \<open>Values\<close>

definition bounded_text :: "pystr \<Rightarrow> pystr \<Rightarrow> bool" where
  "bounded_text s r \<longleftrightarrow> s \<noteq> [] \<and> hd s \<in> {34, 91, 123} \<or> ends_number r"

lemma ends_number_before: "skip_ws r = d # q \<Longrightarrow> d \<notin> {46, 69, 101} \<Longrightarrow> ends_number r"
  using skip_ws_head [of r d q] by (auto simp: ends_number_def is_ws_def)

lemma parse_empty: "parse_value opts n [] \<noteq> Inr x" "parse_elems opts n [] \<noteq> Inr y" "parse_members opts n [] \<noteq> Inr w"
proof -
  show v: "parse_value opts n [] \<noteq> Inr x" for n x by (cases n) simp_all
  then have "rbind (parse_value opts n []) g \<noteq> Inr y" for n g y by (auto simp: rbind_Inr)
  then show "parse_elems opts n [] \<noteq> Inr y" by (cases n) (simp_all only: parse_elems.simps sum.distinct simp_thms)
  show "parse_members opts n [] \<noteq> Inr w" by (cases n) simp_all
qed

lemma skip_ws_rest: "skip_ws s \<noteq> [] \<Longrightarrow> skip_ws (s @ z) = skip_ws s @ z"
  using skip_ws_extends [of s _ _ z] by (cases "skip_ws s") auto

lemma parse_extends:
  "parse_value opts n s = Inr (v, r) \<Longrightarrow> bounded_text s r \<Longrightarrow> n \<le> m \<Longrightarrow> parse_value opts m (s @ z) = Inr (v, r @ z)"
  "parse_elems opts n s = Inr (vs, r) \<Longrightarrow> n \<le> m \<Longrightarrow> parse_elems opts m (s @ z) = Inr (vs, r @ z)"
  "parse_members opts n s = Inr (ps, r) \<Longrightarrow> n \<le> m \<Longrightarrow> parse_members opts m (s @ z) = Inr (ps, r @ z)"
proof (induction opts n s and opts n s and opts n s arbitrary: v r m and vs r m and ps r m rule: parse_value_parse_elems_parse_members.induct)
  case (2 opts n s)
  obtain m' where m: "m = Suc m'" "n \<le> m'" using 2(5) by (cases m) auto
  from 2(3) obtain c t where s: "s = c # t" by (cases s) auto
  consider (str) "c = 34" | (list) "c = 91" | (dict) "c = 123" | (atom) "c \<noteq> 34" "c \<noteq> 91" "c \<noteq> 123" by blast
  then show ?case
  proof cases
    case str
    with 2(3) s obtain x where "parse_str t = Some (x, r)" "v = PyStr x" by (auto simp: of_opt_def rbind_Inr split: option.splits)
    with parse_str_extends [of t x r z] s m str show ?thesis by (simp add: of_opt_def)
  next
    case list
    with 2(3) s obtain d q where d: "skip_ws t = d # q" by (cases "skip_ws t") auto
    show ?thesis
    proof (cases "d = 93")
      case False
      with 2(3) s list d obtain xs where "parse_elems opts n (d # q) = Inr (xs, r)" "v = PyList xs" by (auto simp: rbind_Inr)
      with 2(1) [OF s _ list d False, of xs r m'] d skip_ws_extends [OF d, of z] s m list False show ?thesis by simp
    qed (use 2(3) s list d skip_ws_extends [OF d, of z] m in simp)
  next
    case dict
    with 2(3) s obtain d q where d: "skip_ws t = d # q" by (cases "skip_ws t") auto
    show ?thesis
    proof (cases "d = 125")
      case False
      with 2(3) s dict d obtain kvs where "parse_members opts n (d # q) = Inr (kvs, r)" "build_dict opts kvs = Inr v" by (auto simp: rbind_Inr)
      with 2(2) [OF s _ _ dict d False, of kvs r m'] d skip_ws_extends [OF d, of z] s m dict False show ?thesis by simp
    qed (use 2(3) s dict d skip_ws_extends [OF d, of z] m in simp)
  next
    case atom
    with 2(4) s have "ends_number r" by (simp add: bounded_text_def)
    with parse_atom_extends [of opts s v r z] 2(3) s m atom show ?thesis by simp
  qed
next
  case (4 opts n s)
  obtain m' where m: "m = Suc m'" "n \<le> m'" using 4(4) by (cases m) auto
  from 4(3) obtain x r1 where x: "parse_value opts n s = Inr (x, r1)" by (auto simp: rbind_Inr)
  with 4(3) obtain d q where d: "skip_ws r1 = d # q" "d = 93 \<or> d = 44" by (auto split: list.splits if_splits)
  have "bounded_text s r1" using ends_number_before [OF d(1)] d(2) by (auto simp: bounded_text_def)
  note v = 4(1) [OF x this m(2)]
  show ?case
  proof (cases "d = 93")
    case False
    with 4(3) x d obtain xs where "parse_elems opts n (skip_ws q) = Inr (xs, r)" "vs = x # xs" by (auto simp: rbind_Inr)
    moreover from this(1) have "skip_ws q \<noteq> []" using parse_empty(2) by metis
    ultimately show ?thesis using 4(2) [OF x refl d(1) False, of xs r m'] m v d skip_ws_extends [OF d(1), of z] False skip_ws_rest [of q z] by simp
  qed (use 4(3) x v d skip_ws_extends [OF d(1), of z] m in simp)
next
  case (6 opts n s)
  obtain m' where m: "m = Suc m'" "n \<le> m'" using 6(4) by (cases m) auto
  from 6(3) obtain t where s: "s = 34 # t" by (auto split: list.splits if_splits)
  with 6(3) obtain k r1 where k: "parse_str t = Some (k, r1)" by (auto simp: of_opt_def rbind_Inr split: option.splits)
  with 6(3) s obtain r2 where r2: "skip_ws r1 = 58 # r2" by (auto simp: of_opt_def split: list.splits if_splits)
  with 6(3) s k obtain x r3 where x: "parse_value opts n (skip_ws r2) = Inr (x, r3)" by (auto simp: of_opt_def rbind_Inr)
  with 6(3) s k r2 obtain d q where d: "skip_ws r3 = d # q" "d = 125 \<or> d = 44" by (auto simp: of_opt_def split: list.splits if_splits)
  have bt: "bounded_text (skip_ws r2) r3" using ends_number_before [OF d(1)] d(2) by (auto simp: bounded_text_def)
  have "skip_ws r2 \<noteq> []" using x parse_empty(1) by metis
  note head = parse_str_extends [OF k, of z] skip_ws_extends [OF r2, of z] skip_ws_rest [OF this, of z] skip_ws_extends [OF d(1), of z]
  have k': "of_opt (parse_str t) = Inr (k, r1)" using k by (simp add: of_opt_def)
  note v = 6(1) [OF s refl k' refl r2 refl x bt m(2)]
  show ?case
  proof (cases "d = 125")
    case False
    with 6(3) s k' r2 x d obtain kvs where "parse_members opts n (skip_ws q) = Inr (kvs, r)" "ps = (PyStr k, x) # kvs" by (auto simp: rbind_Inr)
    moreover from this(1) have "skip_ws q \<noteq> []" using parse_empty(3) by metis
    ultimately show ?thesis
      using 6(2) [OF s refl k' refl r2 refl x refl d(1) False, of kvs r m'] m v d k r2 x s head False skip_ws_rest [of q z] by (simp add: of_opt_def)
  qed (use 6(3) s k' r2 x v d head m k in \<open>simp add: of_opt_def\<close>)
qed simp_all

text \<open>No proper prefix of the text of an object is the text of a value.\<close>

lemma loads_proper_prefix:
  assumes "loads opts (p @ q) = Inr v" "p \<noteq> []" "hd p = 123" "\<not> list_all is_ws q"
  shows "loads opts p \<noteq> Inr w"
proof
  assume l: "loads opts p = Inr w"
  have ws: "skip_ws (p @ z) = p @ z" for z using assms(2,3) by (cases p) (auto simp: skip_ws_def is_ws_def)
  from l obtain r where r: "parse_value opts (Suc (length p)) p = Inr (w, r)"
    using ws [of "[]"] by (auto simp: loads_def rbind_Inr simp del: parse_value.simps split: if_splits)
  have "bounded_text p r" using assms(2,3) by (simp add: bounded_text_def)
  with parse_extends(1) [OF r this, of "Suc (length (p @ q))" q]
  have "parse_value opts (Suc (length (p @ q))) (p @ q) = Inr (w, r @ q)" by (simp del: parse_value.simps)
  with assms(1) have "skip_ws (r @ q) = []" using ws [of q] by (simp add: loads_def del: parse_value.simps split: if_splits)
  then have "list_all is_ws (r @ q)" unfolding skip_ws_def by (simp add: dropWhile_eq_Nil_conv list_all_iff)
  with assms(4) show False by simp
qed

lemma default_parse_raises:
  "opts = default_opts \<Longrightarrow> raises (\<lambda>e. e = JSONDecodeError) (parse_value opts n s)"
  "opts = default_opts \<Longrightarrow> raises (\<lambda>e. e = JSONDecodeError) (parse_elems opts n s)"
  "opts = default_opts \<Longrightarrow> raises (\<lambda>e. e = JSONDecodeError) (parse_members opts n s)"
proof (induction opts n s and opts n s and opts n s rule: parse_value_parse_elems_parse_members.induct)
  case (2 opts n s)
  have atom: "raises (\<lambda>e. e = JSONDecodeError) (parse_atom opts s)" using 2(3) by (simp add: parse_atom_def default_opts_def split: option.split)
  have dict: "raises (\<lambda>e. e = JSONDecodeError) (build_dict default_opts ps)" for ps by (simp add: build_dict_def default_opts_def)
  show ?case
    using 2 atom by (auto simp: raises raises_of_opt dict split: list.split)
qed (auto simp: raises raises_of_opt split: list.split)

lemma loads_default_error: "loads default_opts s = Inl e \<Longrightarrow> e = JSONDecodeError"
proof -
  have "raises (\<lambda>e. e = JSONDecodeError) (loads default_opts s)"
    by (auto simp: loads_def raises default_parse_raises simp del: parse_value.simps)
  then show "loads default_opts s = Inl e \<Longrightarrow> e = JSONDecodeError" by (rule raisesD)
qed

end
