(* ===== verification/Metrics_File.thy ===== *)
theory Metrics_File
  imports Metrics Document_Adapters Json_Prefix
begin

text \<open>
  The JSON lines file of \<open>metrics.py\<close>: \<open>JsonlMetrics.record\<close> appends the line of an event, \<open>read_jsonl\<close> reads the
  events back and passes over a last line that was cut off. A file is its bytes. The text of a float is a
  parameter. An event that was read is the dictionary of its fields: the data class does not check their types.
\<close>

section \<open>Writing\<close>

text \<open>\<open>asdict\<close>\<close>

definition event_value :: "(rat \<Rightarrow> pystr) \<Rightarrow> evaluation_event \<Rightarrow> pyval" where
  "event_value repr e =
     obj [(''mode'', S (ev_mode e)), (''action_digest'', PyStr (ev_action_digest e)), (''operation'', PyStr (ev_operation e)),
       (''candidate_hit'', PyBool (ev_candidate_hit e)), (''tier'', case ev_tier e of None \<Rightarrow> PyNone | Some s \<Rightarrow> PyStr s),
       (''artifact_match'', case ev_artifact_match e of None \<Rightarrow> PyNone | Some b \<Rightarrow> PyBool b),
       (''rejections'', PyList (map PyStr (ev_rejections e))),
       (''execution_duration_ms'', PyFloat (repr (ev_execution_duration_ms e))), (''reusable_bytes'', PyInt (ev_reusable_bytes e)),
       (''verified_time_saved_ms'', PyFloat (repr (ev_verified_time_saved_ms e))),
       (''verified_cost_saved'', PyFloat (repr (ev_verified_cost_saved e))),
       (''lookup_duration_ms'', PyFloat (repr (ev_lookup_duration_ms e))),
       (''evaluation_id'', case ev_evaluation_id e of None \<Rightarrow> PyNone | Some s \<Rightarrow> PyStr s),
       (''spec_version'', S ''oncemesh.evaluation-event/v0''),
       (''validation_method'', case ev_validation_method e of None \<Rightarrow> PyNone | Some s \<Rightarrow> S s),
       (''validation_status'', case ev_validation_status e of None \<Rightarrow> PyNone | Some i \<Rightarrow> PyInt i),
       (''validation_duration_ms'', PyFloat (repr (ev_validation_duration_ms e))),
       (''validation_recorded'', PyBool (ev_validation_recorded e)), (''substituted'', PyBool (ev_substituted e)),
       (''decision_reason'', case ev_decision_reason e of None \<Rightarrow> PyNone | Some s \<Rightarrow> PyStr s),
       (''kill_switch_active'', PyBool (ev_kill_switch_active e)),
       (''estimated_substitution_time_saved_ms'', PyFloat (repr (ev_estimated_substitution_time_saved_ms e))),
       (''background_revalidation_scheduled'', PyBool (ev_background_revalidation_scheduled e)),
       (''background_revalidation_coalesced'', PyBool (ev_background_revalidation_coalesced e))]"

text \<open>\<open>ensure_ascii\<close>: what is not printable ASCII is written in UTF-16 code units.\<close>

definition u_sequence :: "int \<Rightarrow> pystr" where
  "u_sequence n = [92, 117, hex_digit (n div 4096 mod 16), hex_digit (n div 256 mod 16), hex_digit (n div 16 mod 16), hex_digit (n mod 16)]"

definition ascii_escape :: "int \<Rightarrow> pystr" where
  "ascii_escape c =
     (if c < 127 then [c] else if c < 65536 then u_sequence c
      else u_sequence (55296 + (c - 65536) div 1024) @ u_sequence (56320 + (c - 65536) mod 1024))"

definition event_line :: "(rat \<Rightarrow> pystr) \<Rightarrow> evaluation_event \<Rightarrow> pystr" where
  "event_line repr e = concat (map ascii_escape (dumps (event_value repr e)))"

definition jsonl_record :: "(rat \<Rightarrow> pystr) \<Rightarrow> bytes option \<Rightarrow> evaluation_event \<Rightarrow> bytes option" where
  "jsonl_record repr f e = Some ((case f of None \<Rightarrow> [] | Some b \<Rightarrow> b) @ utf8_bytes (event_line repr e @ [10]))"

section \<open>Reading\<close>

text \<open>The fields of the data class, with their defaults.\<close>

definition event_fields :: "(string \<times> pyval option) list" where
  "event_fields =
     [(''mode'', None), (''action_digest'', None), (''operation'', None), (''candidate_hit'', None), (''tier'', None),
      (''artifact_match'', None), (''rejections'', None), (''execution_duration_ms'', None), (''reusable_bytes'', None),
      (''verified_time_saved_ms'', None), (''verified_cost_saved'', None), (''lookup_duration_ms'', Some (PyFloat (u ''0.0''))),
      (''evaluation_id'', Some PyNone), (''spec_version'', Some (S ''oncemesh.evaluation-event/v0'')), (''validation_method'', Some PyNone),
      (''validation_status'', Some PyNone), (''validation_duration_ms'', Some (PyFloat (u ''0.0''))),
      (''validation_recorded'', Some (PyBool False)), (''substituted'', Some (PyBool False)), (''decision_reason'', Some PyNone),
      (''kill_switch_active'', Some (PyBool False)), (''estimated_substitution_time_saved_ms'', Some (PyFloat (u ''0.0''))),
      (''background_revalidation_scheduled'', Some (PyBool False)), (''background_revalidation_coalesced'', Some (PyBool False))]"

definition build_event :: "pyval \<Rightarrow> pyval result" where
  "build_event v =
     (if list_all (\<lambda>(k, x). k \<in> set (map (\<lambda>(f, d). S f) event_fields)) (pairs_of v)
         \<and> list_all (\<lambda>(f, d). d \<noteq> None \<or> has_key v f) event_fields
      then Inr (obj (map (\<lambda>(f, d). (f, if has_key v f then item v f else the d)) event_fields))
      else Inl TypeError)"

fun tuple_of :: "pyval \<Rightarrow> pyval result" where
  "tuple_of (PyList xs) = Inr (PyList xs)"
| "tuple_of (PyStr s) = Inr (PyList (map (\<lambda>c. PyStr [c]) s))"
| "tuple_of (PyDict kvs) = Inr (PyList (map fst kvs))"
| "tuple_of v = Inl TypeError"

text \<open>Only a dictionary has \<open>get\<close>.\<close>

definition decode_event :: "pystr \<Rightarrow> pyval result" where
  "decode_event line =
     rbind (loads default_opts line) (\<lambda>v.
       if \<not> is_dict v then Inl AttributeError
       else rbind (tuple_of (if has_key v ''rejections'' then item v ''rejections'' else PyList [])) (\<lambda>rejections.
            build_event (with_item v ''rejections'' rejections)))"

fun read_lines :: "bool \<Rightarrow> pystr option \<Rightarrow> pystr list \<Rightarrow> pyval list result" where
  "read_lines whole evaluation_id [] = Inr []"
| "read_lines whole evaluation_id (line # rest) =
     (if strip line = [] then read_lines whole evaluation_id rest
      else case decode_event line of
             Inl e \<Rightarrow>
               if e = JSONDecodeError \<or> e = TypeError
               then if rest = [] \<and> \<not> whole then Inr [] else Inl (ValueError ''invalid metrics JSONL'')
               else Inl e
           | Inr event \<Rightarrow>
               rbind (read_lines whole evaluation_id rest) (\<lambda>events.
                 Inr (if evaluation_id = None \<or> item event ''evaluation_id'' = PyStr (the evaluation_id) then event # events else events)))"

text \<open>\<open>read_text\<close> decodes and translates the line ends.\<close>

definition read_jsonl :: "bytes option \<Rightarrow> pystr option \<Rightarrow> pyval list result" where
  "read_jsonl f evaluation_id =
     (case f of
        None \<Rightarrow> Inr []
      | Some b \<Rightarrow>
          (case utf8_decode b of
             None \<Rightarrow> Inl UnicodeError
           | Some s \<Rightarrow>
               let raw = unix_lines False s
               in read_lines (raw \<noteq> [] \<and> last raw \<in> {10, 13}) evaluation_id (splitlines False [] raw)))"

end
