(* ===== verification/Metrics_Theorems.thy ===== *)
theory Metrics_Theorems
  imports Metrics_File
begin

text \<open>
  A metrics file survives an interrupted append: whatever part of a line was written, reading finds every event that
  was recorded before.
\<close>

section \<open>Lines\<close>

lemma splitlines_append:
  "(a \<longrightarrow> l = []) \<Longrightarrow> splitlines a l (t @ 10 # p) = splitlines a l (t @ [10]) @ splitlines False [] p"
proof (induction t arbitrary: a l)
  case Nil
  then show ?case by (auto simp: line_boundary_def)
qed auto

lemma splitlines_line: "list_all (\<lambda>c. \<not> line_boundary c) p \<Longrightarrow> splitlines False l p = (if l = [] \<and> p = [] then [] else [rev l @ p])"
  by (induction p arbitrary: l) auto

lemma splitlines_ended: "list_all (\<lambda>c. \<not> line_boundary c) p \<Longrightarrow> splitlines False l (p @ [10]) = [rev l @ p]"
  by (induction p arbitrary: l) (auto simp: line_boundary_def)

lemma unix_lines_append: "unix_lines a (t @ 10 # p) = unix_lines a (t @ [10]) @ unix_lines False p"
  by (induction t arbitrary: a) auto

lemma unix_lines_line: "list_all (\<lambda>c. c \<noteq> 13) p \<Longrightarrow> unix_lines False p = p"
  by (induction p) auto

lemma unix_lines_last: "(a \<longrightarrow> t \<noteq> []) \<Longrightarrow> unix_lines a (t @ [10]) \<noteq> [] \<and> last (unix_lines a (t @ [10])) = 10"
proof (induction t arbitrary: a)
  case (Cons c t)
  from Cons.IH [of False] Cons.IH [of "c = 13"] show ?case by (cases "t = []") auto
qed simp

lemma read_lines_append:
  "ys \<noteq> [] \<Longrightarrow> read_lines whole i (xs @ ys) = rbind (read_lines True i xs) (\<lambda>a. rbind (read_lines whole i ys) (\<lambda>b. Inr (a @ b)))"
proof (induction xs)
  case Nil
  then show ?case by (cases "read_lines whole i ys") simp_all
next
  case (Cons x xs)
  then show ?case
    by (cases "read_lines True i xs"; cases "read_lines whole i ys") (auto split: sum.splits)
qed

section \<open>The line of an event\<close>

abbreviation printable :: "int \<Rightarrow> bool" where
  "printable c \<equiv> 32 \<le> c \<and> c < 127"

lemma hex_digit_range: "48 \<le> hex_digit (n mod 16) \<and> hex_digit (n mod 16) < 103"
  using pos_mod_bound [of 16 n] pos_mod_sign [of 16 n] by (simp add: hex_digit_def)

lemma ascii_escape_printable: "32 \<le> c \<Longrightarrow> list_all printable (ascii_escape c)"
proof -
  have "list_all printable (u_sequence n)" for n
    using hex_digit_range [of "n div 4096"] hex_digit_range [of "n div 256"] hex_digit_range [of "n div 16"] hex_digit_range [of n]
    by (simp add: u_sequence_def)
  then show "32 \<le> c \<Longrightarrow> list_all printable (ascii_escape c)" by (simp add: ascii_escape_def)
qed

lemma escape_char_visible: "0 \<le> c \<Longrightarrow> list_all (\<lambda>c. 32 \<le> c) (escape_char c)"
  by (simp add: escape_char_def hex_digit_def)

lemma code_point_nonneg: "code_point c \<Longrightarrow> 0 \<le> c"
  by (simp add: code_point_def)

lemma dump_str_visible: "list_all code_point s \<Longrightarrow> list_all (\<lambda>c. 32 \<le> c) (dump_str s)"
proof -
  assume "list_all code_point s"
  then have "list_all (\<lambda>c. 32 \<le> c) (concat (map escape_char s))"
    by (induction s) (simp_all add: escape_char_visible code_point_nonneg)
  then show ?thesis by (simp add: dump_str_def)
qed

lemma dump_int_visible: "list_all (\<lambda>c. 32 \<le> c) (dump_int i)"
proof -
  have "list_all (\<lambda>c. 32 \<le> c) (dump_nat n)" if "0 \<le> n" for n
    using that by (induction n rule: dump_nat.induct) (subst dump_nat.simps, simp)
  then show ?thesis by (simp add: dump_int_def)
qed

lemma join_visible: "(\<And>x. x \<in> set xs \<Longrightarrow> list_all (\<lambda>c. 32 \<le> c) x) \<Longrightarrow> list_all (\<lambda>c. 32 \<le> c) (join [44] xs)"
  by (induction "[44] :: pystr" xs rule: join.induct) auto

lemma dict_visible:
  assumes "\<And>k v. (k, v) \<in> set kvs \<Longrightarrow> list_all code_point (str_of k) \<and> list_all (\<lambda>c. 32 \<le> c) (dumps v)"
  shows "list_all (\<lambda>c. 32 \<le> c) (dumps (PyDict kvs))"
proof -
  have "list_all (\<lambda>c. 32 \<le> c) (dump_str k @ [58] @ dumps v)" if "(k, v) \<in> set (sorted_items kvs)" for k v
    using that assms dump_str_visible by (auto simp: set_sorted_items)
  then show ?thesis unfolding dumps_dict by (auto intro!: join_visible)
qed

lemma literals_visible: "list_all (\<lambda>c. 32 \<le> c) (u ''null'')" "list_all (\<lambda>c. 32 \<le> c) (u ''true'')" "list_all (\<lambda>c. 32 \<le> c) (u ''false'')"
  by (simp_all add: u_def)

lemma texts_visible: "list_all (list_all code_point) ss \<Longrightarrow> list_all (\<lambda>c. 32 \<le> c) (join [44] (map dump_str ss))"
  by (rule join_visible) (auto simp: list_all_iff [of _ ss] intro: dump_str_visible)

lemma obj_visible:
  assumes "list_all (\<lambda>(k, v). list_all (\<lambda>c. 32 \<le> c) (dumps v)) kvs"
  shows "list_all (\<lambda>c. 32 \<le> c) (dumps (obj kvs))"
  using assms by (intro dict_visible) (auto simp: list_all_iff [of _ kvs])

lemma concat_printable: "list_all (\<lambda>c. 32 \<le> c) s \<Longrightarrow> list_all printable (concat (map ascii_escape s))"
  by (induction s) (use ascii_escape_printable in auto)

lemma dict_ends: "\<exists>q. concat (map ascii_escape (dumps (PyDict kvs))) = 123 # q @ [125]"
  unfolding dumps_dict by (simp add: ascii_escape_def)

lemma event_line_shape:
  assumes "wf_val (event_value repr e)" "\<And>x. list_all (\<lambda>c. 32 \<le> c) (repr x)"
  shows "list_all printable (event_line repr e)" "\<exists>q. event_line repr e = 123 # q @ [125]"
proof -
  have "list_all (\<lambda>c. 32 \<le> c) (dumps (event_value repr e))"
    unfolding event_value_def
    by (rule obj_visible) (use assms(1) [unfolded event_value_def] assms(2) in
        \<open>simp add: dump_str_visible dump_int_visible texts_visible literals_visible list.pred_map comp_def split: option.splits\<close>)
  then show "list_all printable (event_line repr e)" unfolding event_line_def by (rule concat_printable)
  show "\<exists>q. event_line repr e = 123 # q @ [125]"
    unfolding event_line_def event_value_def by (rule dict_ends)
qed

section \<open>Reading back\<close>

lemma printable_facts:
  assumes "list_all printable p"
  shows "list_all (\<lambda>c. \<not> line_boundary c) p" "list_all (\<lambda>c. c \<noteq> 13) p" "list_all scalar p" "utf8_bytes (take k p) = take k (utf8_bytes p)"
proof -
  show "list_all (\<lambda>c. \<not> line_boundary c) p" "list_all (\<lambda>c. c \<noteq> 13) p" "list_all scalar p"
    using assms by (auto simp: list_all_iff line_boundary_def scalar_def code_point_def surrogate_def)
  show "utf8_bytes (take k p) = take k (utf8_bytes p)"
    using assms by (induction p arbitrary: k) (auto simp: utf8_bytes_def utf8_char_def take_Cons split: nat.split)
qed

text \<open>What reading finds after a complete file, when the text of a line or of a part of one follows.\<close>

lemma read_after:
  assumes "read_jsonl (Some (utf8_bytes t)) i = Inr evs" "list_all scalar t" "t = [] \<or> last t = 10"
    and "list_all printable p" "p \<noteq> []" "strip p \<noteq> []" "end \<in> {[], [10]}"
  shows "read_jsonl (Some (utf8_bytes (t @ p @ end))) i = rbind (read_lines (end = [10]) i [p]) (\<lambda>new. Inr (evs @ new))"
proof -
  note p = printable_facts [OF assms(4)]
  have scal: "list_all scalar (t @ p @ end)" using assms(2,7) p(3) by (auto simp: scalar_def code_point_def surrogate_def)
  have un: "unix_lines False (p @ end) = p @ end" using p(2) assms(7) by (auto intro!: unix_lines_line)
  have sp: "splitlines False [] (p @ end) = [p]"
    using assms(5,7) splitlines_line [OF p(1), of "[]"] splitlines_ended [OF p(1), of "[]"] by auto
  have last: "(p @ end \<noteq> [] \<and> last (p @ end) \<in> {10, 13}) = (end = [10])"
    using bspec [OF assms(4) [unfolded list_all_iff] last_in_set [OF assms(5)]] assms(5,7) by auto
  show ?thesis
  proof (cases "t = []")
    case True
    with assms(1) have "evs = []" by (simp add: read_jsonl_def utf8_bytes_def)
    with True scal un sp last show ?thesis by (simp add: read_jsonl_def utf8_round_trip Let_def split: sum.split)
  next
    case False
    then obtain t' where t: "t = t' @ [10]" using assms(3) by (metis append_butlast_last_id)
    note l = unix_lines_last [of False t']
    have raw: "unix_lines False (t @ p @ end) = unix_lines False t @ p @ end"
      using unix_lines_append [of False t' "p @ end"] un by (simp add: t)
    obtain s' where s': "unix_lines False t = s' @ [10]" using l by (metis append_butlast_last_id t)
    have lines: "splitlines False [] (unix_lines False t @ p @ end) = splitlines False [] (unix_lines False t) @ [p]"
      using splitlines_append [of False "[]" s' "p @ end"] sp by (simp add: s')
    have before: "read_lines True i (splitlines False [] (unix_lines False t)) = Inr evs"
      using assms(1,2) l by (simp add: read_jsonl_def utf8_round_trip Let_def t)
    have last': "last (unix_lines False t @ p @ end) = last (p @ end)" "p @ end \<noteq> []" using assms(5) by simp_all
    have "read_jsonl (Some (utf8_bytes (t @ p @ end))) i = read_lines (end = [10]) i (splitlines False [] (unix_lines False t) @ [p])"
      using last last' by (simp add: read_jsonl_def utf8_round_trip [OF scal] raw lines Let_def)
    then show ?thesis using before by (simp add: read_lines_append del: read_lines.simps)
  qed
qed

lemma strip_object: "strip (123 # q) \<noteq> []"
  by (simp add: strip_def is_space_def dropWhile_append)

lemma decode_prefix:
  assumes "decode_event (123 # p @ q @ [125]) = Inr ev"
  shows "decode_event (123 # p) = Inl JSONDecodeError"
proof -
  from assms obtain v where "loads default_opts ((123 # p) @ q @ [125]) = Inr v" by (auto simp: decode_event_def rbind_Inr)
  from loads_proper_prefix [OF this] obtain e where "loads default_opts (123 # p) = Inl e"
    by (cases "loads default_opts (123 # p)") (auto simp: is_ws_def)
  with loads_default_error [OF this] show ?thesis by (simp add: decode_event_def)
qed

text \<open>C28: An interrupted append loses nothing else. When an event is recorded in a complete metrics file, reading then
  finds the earlier events and this one; when only some bytes of its line were written, however many, reading finds the
  earlier events, without an error.\<close>

theorem interrupted_record:
  assumes "read_jsonl (Some (utf8_bytes t)) i = Inr evs" "list_all scalar t" "t = [] \<or> last t = 10"
    and "wf_val (event_value repr e)" "\<And>x. list_all (\<lambda>c. 32 \<le> c) (repr x)" "decode_event (event_line repr e) = Inr ev"
  shows "read_jsonl (jsonl_record repr (Some (utf8_bytes t)) e) i
      = Inr (evs @ (if i = None \<or> item ev ''evaluation_id'' = PyStr (the i) then [ev] else []))
    \<and> list_all (\<lambda>k. read_jsonl (Some (utf8_bytes t @ take k (utf8_bytes (event_line repr e)))) i = Inr evs) [0..<length (event_line repr e)]"
proof -
  let ?l = "event_line repr e"
  have l: "list_all printable ?l" using assms(4,5) by (rule event_line_shape(1))
  obtain q where q: "?l = 123 # q @ [125]" using event_line_shape(2) [OF assms(4,5)] by blast
  have "read_jsonl (Some (utf8_bytes (t @ ?l @ [10]))) i = rbind (read_lines True i [?l]) (\<lambda>new. Inr (evs @ new))"
    using read_after [OF assms(1-3) l, of "[10]"] strip_object [of "q @ [125]"] q by simp
  then have whole: "read_jsonl (jsonl_record repr (Some (utf8_bytes t)) e) i
      = Inr (evs @ (if i = None \<or> item ev ''evaluation_id'' = PyStr (the i) then [ev] else []))"
    using assms(6) strip_object [of "q @ [125]"] q by (simp add: jsonl_record_def utf8_bytes_def)
  have "read_jsonl (Some (utf8_bytes t @ take k (utf8_bytes ?l))) i = Inr evs" if k: "k < length ?l" for k
  proof (cases k)
    case (Suc k')
    let ?p = "take k ?l"
    have p: "?p = 123 # take k' (q @ [125])" "?p = 123 # take k' q" using k q Suc by simp_all
    have "123 # take k' q @ drop k' q @ [125] = ?l" using q by simp
    then have d: "decode_event ?p = Inl JSONDecodeError" using decode_prefix [of "take k' q" "drop k' q" ev] assms(6) p(2) by simp
    have "list_all printable ?p" using l by (metis append_take_drop_id list_all_append)
    from read_after [OF assms(1-3) this, of "[]"] d strip_object [of "take k' q"] p(2)
    have "read_jsonl (Some (utf8_bytes (t @ ?p))) i = Inr evs" by simp
    then show ?thesis using printable_facts(4) [OF l, of k] by (simp add: utf8_bytes_def)
  qed (use assms(1) in simp)
  with whole show ?thesis by (simp add: list_all_iff)
qed

definition zero_text :: "rat \<Rightarrow> pystr" where
  "zero_text x = u ''0.0''"

definition example_event :: evaluation_event where
  "example_event = new_event ''shadow'' (u ''d'') [233] True (Some (u ''exact'')) (Some True) [u ''stale''] 0 7 0 0"

lemma example_line_read: "case decode_event (event_line zero_text example_event) of Inr ev \<Rightarrow> True | Inl x \<Rightarrow> False"
  by code_simp

theorem interrupted_record_witness:
  "\<exists>ev. read_jsonl (jsonl_record zero_text (Some []) example_event) None = Inr [ev]
    \<and> list_all (\<lambda>k. read_jsonl (Some (take k (utf8_bytes (event_line zero_text example_event)))) None = Inr [])
        [0..<length (event_line zero_text example_event)]"
proof -
  have b: "utf8_bytes [] = []" by (simp add: utf8_bytes_def)
  have r: "read_jsonl (Some (utf8_bytes [])) None = Inr []" by (simp add: read_jsonl_def b)
  have w: "wf_val (event_value zero_text example_event)"
    by (simp add: event_value_def example_event_def new_event_def zero_text_def code_point_def)
  obtain ev where "decode_event (event_line zero_text example_event) = Inr ev"
    using example_line_read by (auto split: sum.splits)
  moreover have "\<And>x. list_all (\<lambda>c. 32 \<le> c) (zero_text x)" by (simp add: zero_text_def u_def)
  ultimately show ?thesis using interrupted_record [OF r _ _ w, of ev] by (auto simp: b)
qed

text \<open>But the next event is then appended to what was left of the line, and from then on the file cannot be read.\<close>

lemma record_after_torn_line:
  assumes "read_jsonl (Some (utf8_bytes t)) i = Inr evs" "list_all scalar t" "t = [] \<or> last t = 10"
    and "wf_val (event_value repr e)" "\<And>x. list_all (\<lambda>c. 32 \<le> c) (repr x)"
  shows "read_jsonl (jsonl_record repr (Some (utf8_bytes (t @ [123]))) e) i = Inl (ValueError ''invalid metrics JSONL'')"
proof -
  let ?p = "[123] @ event_line repr e"
  obtain q where q: "event_line repr e = 123 # q @ [125]" using event_line_shape(2) [OF assms(4,5)] by blast
  have "list_all printable ?p" using event_line_shape(1) [OF assms(4,5)] by simp
  from read_after [OF assms(1-3) this, of "[10]"] strip_object [of "event_line repr e"]
  have r: "read_jsonl (Some (utf8_bytes (t @ ?p @ [10]))) i = rbind (read_lines True i [?p]) (\<lambda>new. Inr (evs @ new))" by simp
  have "loads default_opts (123 # 123 # r) = Inl JSONDecodeError" for r
    by (simp add: loads_def skip_ws_def is_ws_def eval_nat_numeral)
  then have "decode_event ?p = Inl JSONDecodeError" by (simp add: decode_event_def q)
  with r strip_object [of "event_line repr e"] show ?thesis by (simp add: jsonl_record_def utf8_bytes_def)
qed

text \<open>A line that is JSON but not an object is not reported as an invalid line.\<close>

lemma number_line_raises: "read_jsonl (Some [49, 10]) None = Inl AttributeError"
  by code_simp

end
