(* ===== verification/Coordination.thy ===== *)
theory Coordination
  imports Prelude Complex_Main
begin

text \<open>
  The lock of \<open>coordination.py\<close> across the threads of several processes. A process has one reentrant thread
  lock for each path, and the system one advisory lock for each path, held by an open file. \<open>__enter__\<close> and
  \<open>__exit__\<close> are their steps, of which a thread runs one at a time; a process may die between any two. Threads
  nest their uses as the with statement does, so each has a stack of frames, the innermost first. Paths are
  resolved; a file that loses its last reference is closed, as CPython does.
\<close>

section \<open>State\<close>

type_synonym thread = "nat \<times> nat"
type_synonym lock_id = "nat \<times> nat"
type_synonym file_handle = "nat \<times> nat"

record file_lock =
  fl_path :: pystr
  fl_timeout :: rat
  fl_poll_interval :: rat
  fl_handle :: "file_handle option"
  fl_acquired :: bool

datatype lock_phase = Waiting | Opening | Trying | Inside | Unlocked | Closed | Failing | Failed

record lock_frame =
  fr_lock :: lock_id
  fr_started :: rat
  fr_phase :: lock_phase

record locks_world =
  lw_now :: rat
  lw_locks :: "lock_id \<Rightarrow> file_lock option"
  lw_thread_locks :: "nat \<Rightarrow> pystr \<Rightarrow> (nat \<times> nat) option"
  lw_files :: "pystr \<Rightarrow> file_handle option"
  lw_next :: nat
  lw_stack :: "thread \<Rightarrow> lock_frame list"

text \<open>A thread and a lock belong to the process of their first number. A thread lock is its owner and the
  number of times the owner has it.\<close>

definition initial_locks :: locks_world where
  "initial_locks =
     \<lparr>lw_now = 0, lw_locks = (\<lambda>l. None), lw_thread_locks = (\<lambda>p path. None), lw_files = (\<lambda>path. None), lw_next = 0,
      lw_stack = (\<lambda>t. [])\<rparr>"

section \<open>The parts of \<open>__enter__\<close> and \<open>__exit__\<close>\<close>

definition new_file_lock :: "pystr \<Rightarrow> rat \<Rightarrow> rat \<Rightarrow> file_lock result" where
  "new_file_lock path timeout poll_interval =
     seq (guard (0 \<le> timeout \<and> 0 < poll_interval) (ValueError ''lock timeout must be non-negative and poll interval positive''))
       (Inr \<lparr>fl_path = path, fl_timeout = timeout, fl_poll_interval = poll_interval, fl_handle = None, fl_acquired = False\<rparr>)"

definition set_lock :: "locks_world \<Rightarrow> lock_id \<Rightarrow> file_lock \<Rightarrow> locks_world" where
  "set_lock w l f = w\<lparr>lw_locks := (lw_locks w)(l \<mapsto> f)\<rparr>"

definition set_thread_lock :: "locks_world \<Rightarrow> nat \<Rightarrow> pystr \<Rightarrow> (nat \<times> nat) option \<Rightarrow> locks_world" where
  "set_thread_lock w p path owner = w\<lparr>lw_thread_locks := (lw_thread_locks w)(p := (lw_thread_locks w p)(path := owner))\<rparr>"

text \<open>None when another thread has the lock: the caller waits.\<close>

definition thread_acquire :: "locks_world \<Rightarrow> thread \<Rightarrow> lock_id \<Rightarrow> file_lock \<Rightarrow> locks_world option" where
  "thread_acquire w t l f =
     (case lw_thread_locks w (fst t) (fl_path f) of
        None \<Rightarrow> Some (set_lock (set_thread_lock w (fst t) (fl_path f) (Some (snd t, 1))) l (f\<lparr>fl_acquired := True\<rparr>))
      | Some (owner, n) \<Rightarrow>
          if owner = snd t then Some (set_lock (set_thread_lock w (fst t) (fl_path f) (Some (owner, n + 1))) l (f\<lparr>fl_acquired := True\<rparr>))
          else None)"

text \<open>None is the RuntimeError of releasing a lock that the thread does not have.\<close>

definition thread_release :: "locks_world \<Rightarrow> thread \<Rightarrow> lock_id \<Rightarrow> file_lock \<Rightarrow> locks_world option" where
  "thread_release w t l f =
     (case lw_thread_locks w (fst t) (fl_path f) of
        None \<Rightarrow> None
      | Some (owner, n) \<Rightarrow>
          if owner = snd t
          then Some (set_lock (set_thread_lock w (fst t) (fl_path f) (if n \<le> 1 then None else Some (owner, n - 1))) l
                       (f\<lparr>fl_acquired := False\<rparr>))
          else None)"

definition unlock_file :: "locks_world \<Rightarrow> file_lock \<Rightarrow> locks_world" where
  "unlock_file w f =
     (case fl_handle f of
        None \<Rightarrow> w
      | Some h \<Rightarrow> if lw_files w (fl_path f) = Some h then w\<lparr>lw_files := (lw_files w)(fl_path f := None)\<rparr> else w)"

text \<open>Closing a file gives up the lock it holds.\<close>

definition close_handle :: "locks_world \<Rightarrow> lock_id \<Rightarrow> file_lock \<Rightarrow> locks_world" where
  "close_handle w l f = set_lock (unlock_file w f) l (f\<lparr>fl_handle := None\<rparr>)"

definition open_handle :: "locks_world \<Rightarrow> lock_id \<Rightarrow> file_lock \<Rightarrow> locks_world" where
  "open_handle w l f =
     (let w' = unlock_file w f in set_lock (w'\<lparr>lw_next := lw_next w' + 1\<rparr>) l (f\<lparr>fl_handle := Some (fst l, lw_next w')\<rparr>))"

text \<open>The system grants the lock when no other open file has it.\<close>

definition try_lock :: "locks_world \<Rightarrow> file_lock \<Rightarrow> locks_world option" where
  "try_lock w f =
     (case fl_handle f of
        None \<Rightarrow> None
      | Some h \<Rightarrow>
          if lw_files w (fl_path f) \<in> {None, Some h} then Some (w\<lparr>lw_files := (lw_files w)(fl_path f \<mapsto> h)\<rparr>) else None)"

section \<open>Steps\<close>

datatype lock_event =
  New_lock lock_id pystr rat rat
| Pass rat
| Enter thread lock_id
| Step thread
| Interrupt thread
| Exit thread
| Crash nat

text \<open>What the innermost frame of a thread does next: its lock, the lock's state and the frame decide. None is a
  thread that waits, or one whose next step is its own program's.\<close>

definition frame_step :: "locks_world \<Rightarrow> thread \<Rightarrow> lock_frame \<Rightarrow> file_lock \<Rightarrow> (locks_world \<times> lock_phase option) option" where
  "frame_step w t r f =
     (let l = fr_lock r; late = fl_timeout f \<le> lw_now w - fr_started r in
      case fr_phase r of
        Waiting \<Rightarrow>
          (case thread_acquire w t l f of
             Some w' \<Rightarrow> Some (w', Some Opening)
           | None \<Rightarrow> if late then Some (w, None) else None)
      | Opening \<Rightarrow> Some (open_handle w l f, Some Trying)
      | Trying \<Rightarrow>
          (case try_lock w f of
             Some w' \<Rightarrow> Some (w', Some Inside)
           | None \<Rightarrow> if late then Some (w, Some Failing) else None)
      | Inside \<Rightarrow> None
      | Unlocked \<Rightarrow> Some (close_handle w l f, Some Closed)
      | Failing \<Rightarrow> Some (close_handle w l f, Some Failed)
      | Closed \<Rightarrow> if fl_acquired f then map_option (\<lambda>w'. (w', None)) (thread_release w t l f) else Some (w, None)
      | Failed \<Rightarrow> map_option (\<lambda>w'. (w', None)) (thread_release w t l f))"

definition set_phase :: "thread \<Rightarrow> lock_frame \<Rightarrow> lock_frame list \<Rightarrow> locks_world \<times> lock_phase option \<Rightarrow> locks_world" where
  "set_phase t r rest x =
     (fst x)\<lparr>lw_stack := (lw_stack (fst x))(t := (case snd x of None \<Rightarrow> rest | Some ph \<Rightarrow> r\<lparr>fr_phase := ph\<rparr> # rest))\<rparr>"

definition with_frame ::
  "locks_world \<Rightarrow> thread \<Rightarrow> (lock_frame \<Rightarrow> file_lock \<Rightarrow> (locks_world \<times> lock_phase option) option) \<Rightarrow> locks_world option" where
  "with_frame w t g =
     (case lw_stack w t of
        [] \<Rightarrow> None
      | r # rest \<Rightarrow> (case lw_locks w (fr_lock r) of None \<Rightarrow> None | Some f \<Rightarrow> map_option (set_phase t r rest) (g r f)))"

text \<open>A process that dies takes its locks, its thread locks and its open files with it.\<close>

definition crash :: "locks_world \<Rightarrow> nat \<Rightarrow> locks_world" where
  "crash w p =
     w\<lparr>lw_locks := (\<lambda>l. if fst l = p then None else lw_locks w l),
       lw_thread_locks := (lw_thread_locks w)(p := (\<lambda>path. None)),
       lw_files := (\<lambda>path. case lw_files w path of Some h \<Rightarrow> if fst h = p then None else Some h | None \<Rightarrow> None),
       lw_stack := (\<lambda>t. if fst t = p then [] else lw_stack w t)\<rparr>"

definition may_enter :: "locks_world \<Rightarrow> thread \<Rightarrow> bool" where
  "may_enter w t = (case lw_stack w t of [] \<Rightarrow> True | r # rest \<Rightarrow> fr_phase r = Inside)"

definition lock_step :: "locks_world \<Rightarrow> lock_event \<Rightarrow> locks_world option" where
  "lock_step w ev =
     (case ev of
        New_lock l path timeout poll_interval \<Rightarrow>
          (case (lw_locks w l, new_file_lock path timeout poll_interval) of
             (None, Inr f) \<Rightarrow> Some (set_lock w l f) | _ \<Rightarrow> None)
      | Pass d \<Rightarrow> if 0 \<le> d then Some (w\<lparr>lw_now := lw_now w + d\<rparr>) else None
      | Enter t l \<Rightarrow>
          if fst t = fst l \<and> lw_locks w l \<noteq> None \<and> may_enter w t
          then Some (w\<lparr>lw_stack := (lw_stack w)(t := \<lparr>fr_lock = l, fr_started = lw_now w, fr_phase = Waiting\<rparr> # lw_stack w t)\<rparr>)
          else None
      | Step t \<Rightarrow> with_frame w t (frame_step w t)
      | Interrupt t \<Rightarrow> with_frame w t (\<lambda>r f. if fr_phase r \<in> {Opening, Trying} then Some (w, Some Failing) else None)
      | Exit t \<Rightarrow> with_frame w t (\<lambda>r f. if fr_phase r = Inside then Some (unlock_file w f, Some Unlocked) else None)
      | Crash p \<Rightarrow> Some (crash w p))"

fun lock_run :: "locks_world \<Rightarrow> lock_event list \<Rightarrow> locks_world option" where
  "lock_run w [] = Some w"
| "lock_run w (ev # evs) = (case lock_step w ev of None \<Rightarrow> None | Some w' \<Rightarrow> lock_run w' evs)"

text \<open>The epoch registry and the index make a lock for each use and do not use a path again inside its own use. A thread
  that does breaks the exclusion (\<open>nested_use_leaks\<close>), so what is reachable is restricted to the other runs.\<close>

definition path_of :: "locks_world \<Rightarrow> lock_id \<Rightarrow> pystr option" where
  "path_of w l = map_option fl_path (lw_locks w l)"

definition enters_fresh_path :: "locks_world \<Rightarrow> lock_event \<Rightarrow> bool" where
  "enters_fresh_path w ev =
     (case ev of Enter t l \<Rightarrow> list_all (\<lambda>r. path_of w (fr_lock r) \<noteq> path_of w l) (lw_stack w t) | _ \<Rightarrow> True)"

inductive locks_reachable :: "locks_world \<Rightarrow> bool" where
  locks_initial: "locks_reachable initial_locks"
| locks_next: "locks_reachable w \<Longrightarrow> enters_fresh_path w ev \<Longrightarrow> lock_step w ev = Some w' \<Longrightarrow> locks_reachable w'"

text \<open>A thread is inside a lock from the end of its \<open>__enter__\<close> to its \<open>__exit__\<close>.\<close>

definition in_frames :: "lock_frame list \<Rightarrow> lock_id \<Rightarrow> bool" where
  "in_frames rs l \<longleftrightarrow> (\<exists>r\<in>set rs. fr_lock r = l \<and> fr_phase r = Inside)"

definition is_inside :: "locks_world \<Rightarrow> thread \<Rightarrow> lock_id \<Rightarrow> bool" where
  "is_inside w t = in_frames (lw_stack w t)"

end
