(* ===== verification/Coordination_Theorems.thy ===== *)
theory Coordination_Theorems
  imports Coordination
begin

text \<open>
  The lock excludes: of all threads of all processes, one at a time is inside a path. The invariant has two halves.
  The first ties the thread locks to the stacks, the second the advisory locks to the threads that are inside.
  Each is stated on the parts of the world that it depends on, so that a step that leaves these alone keeps it.
\<close>

section \<open>Thread locks and stacks\<close>

definition thread_part ::
  "(lock_id \<Rightarrow> pystr option) \<Rightarrow> (lock_id \<Rightarrow> bool) \<Rightarrow> (nat \<Rightarrow> pystr \<Rightarrow> (nat \<times> nat) option) \<Rightarrow> (thread \<Rightarrow> (lock_id \<times> bool) list) \<Rightarrow> bool" where
  "thread_part pm aq th sv \<longleftrightarrow>
     (\<forall>t l b. (l, b) \<in> set (sv t) \<longrightarrow> fst t = fst l \<and> pm l \<noteq> None) \<and>
     (\<forall>t. distinct (map (\<lambda>x. pm (fst x)) (sv t))) \<and>
     (\<forall>t l path. (l, True) \<in> set (sv t) \<longrightarrow> pm l = Some path \<longrightarrow> th (fst t) path = Some (snd t, 1) \<and> aq l) \<and>
     (\<forall>p path i n. th p path = Some (i, n) \<longrightarrow> n = 1 \<and> (\<exists>l. (l, True) \<in> set (sv (p, i)) \<and> pm l = Some path))"

lemma thread_partD:
  assumes "thread_part pm aq th sv"
  shows "(l, b) \<in> set (sv t) \<Longrightarrow> fst t = fst l" "(l, b) \<in> set (sv t) \<Longrightarrow> pm l \<noteq> None"
    "distinct (map (\<lambda>x. pm (fst x)) (sv t))"
    "(l, True) \<in> set (sv t) \<Longrightarrow> pm l = Some path \<Longrightarrow> th (fst t) path = Some (snd t, 1)"
    "(l, True) \<in> set (sv t) \<Longrightarrow> aq l"
    "th p path = Some (i, n) \<Longrightarrow> n = 1"
    "th p path = Some (i, n) \<Longrightarrow> \<exists>l. (l, True) \<in> set (sv (p, i)) \<and> pm l = Some path"
  using assms unfolding thread_part_def by (blast, blast, blast, blast, fast, blast, blast)

lemma thread_part_frame:
  assumes "thread_part pm aq th sv" "x \<in> set (sv t)"
  shows "fst t = fst (fst x)" "pm (fst x) \<noteq> None"
  using thread_partD(1,2)[OF assms(1), of "fst x" "snd x" t] assms(2) by simp_all

lemma thread_part_unique:
  assumes "thread_part pm aq th sv" "(l, True) \<in> set (sv t)" "(l', True) \<in> set (sv t')" "pm l = pm l'" "fst t = fst t'"
  shows "t = t' \<and> l = l'"
proof -
  obtain path where "pm l = Some path" using thread_partD(2)[OF assms(1,2)] by auto
  with thread_partD(4)[OF assms(1)] assms have "Some (snd t, 1::nat) = Some (snd t', 1)" by metis
  then have "t = t'" using assms(5) by (simp add: prod_eq_iff)
  moreover have "(l, True) = (l', True)"
    using thread_partD(3)[OF assms(1), of t] assms(2,3,4) \<open>t = t'\<close> unfolding distinct_map inj_on_def by fastforce
  ultimately show ?thesis by simp
qed

lemma thread_partI:
  assumes "\<And>t l b. (l, b) \<in> set (sv t) \<Longrightarrow> fst t = fst l \<and> pm l \<noteq> None" "\<And>t. distinct (map (\<lambda>x. pm (fst x)) (sv t))"
    and "\<And>t l path. (l, True) \<in> set (sv t) \<Longrightarrow> pm l = Some path \<Longrightarrow> th (fst t) path = Some (snd t, 1) \<and> aq l"
    and "\<And>p path i n. th p path = Some (i, n) \<Longrightarrow> n = 1 \<and> (\<exists>l. (l, True) \<in> set (sv (p, i)) \<and> pm l = Some path)"
  shows "thread_part pm aq th sv"
  unfolding thread_part_def using assms by (intro conjI allI impI) simp_all

lemma thread_part_acquire:
  assumes I: "thread_part pm aq th sv" and t: "sv t = (l, False) # rest" "pm l = Some path" "th (fst t) path = None"
  shows "thread_part pm (aq(l := True)) (th(fst t := (th (fst t))(path := Some (snd t, 1)))) (sv(t := (l, True) # rest))"
proof (rule thread_partI)
  have l: "fst t = fst l" using thread_partD(1)[OF I, of l False t] t by simp
  show "fst t' = fst l' \<and> pm l' \<noteq> None" if "(l', b) \<in> set ((sv(t := (l, True) # rest)) t')" for t' l' b
    using that thread_partD(1,2)[OF I, of l' b t'] l t by (auto split: if_splits)
  show "distinct (map (\<lambda>x. pm (fst x)) ((sv(t := (l, True) # rest)) t'))" for t'
    using thread_partD(3)[OF I, of t] thread_partD(3)[OF I, of t'] t by simp
  show "(th(fst t := (th (fst t))(path := Some (snd t, 1)))) (fst t') path' = Some (snd t', 1) \<and> (aq(l := True)) l'"
    if "(l', True) \<in> set ((sv(t := (l, True) # rest)) t')" "pm l' = Some path'" for t' l' path'
  proof (cases "(l', True) \<in> set (sv t')")
    case True
    with thread_partD(4,5)[OF I True] that t show ?thesis by auto
  next
    case False
    with that t show ?thesis by (auto split: if_splits)
  qed
  show "n = 1 \<and> (\<exists>l'. (l', True) \<in> set ((sv(t := (l, True) # rest)) (p, i)) \<and> pm l' = Some path')"
    if "(th(fst t := (th (fst t))(path := Some (snd t, 1)))) p path' = Some (i, n)" for p path' i n
  proof (cases "p = fst t \<and> path' = path")
    case True
    then have "(p, i) = t" "n = 1" using that by auto
    then show ?thesis using t True by (intro conjI exI [of _ l]) simp_all
  next
    case False
    then have "th p path' = Some (i, n)" using that by (auto split: if_splits)
    from thread_partD(6,7)[OF I this] t show ?thesis by (cases "(p, i) = t") auto
  qed
qed

lemma thread_part_release:
  assumes I: "thread_part pm aq th sv" and t: "sv t = (l, True) # rest" "pm l = Some path"
  shows "thread_part pm (aq(l := False)) (th(fst t := (th (fst t))(path := None))) (sv(t := rest))"
proof (rule thread_partI)
  show "fst t' = fst l' \<and> pm l' \<noteq> None" if "(l', b) \<in> set ((sv(t := rest)) t')" for t' l' b
    using that thread_partD(1,2)[OF I, of l' b t'] t by (auto split: if_splits)
  show "distinct (map (\<lambda>x. pm (fst x)) ((sv(t := rest)) t'))" for t'
    using thread_partD(3)[OF I, of t] thread_partD(3)[OF I, of t'] t by simp
  have l: "(l, True) \<in> set (sv t)" "fst t = fst l" using t thread_partD(1)[OF I, of l True t] by simp_all
  show "(th(fst t := (th (fst t))(path := None))) (fst t') path' = Some (snd t', 1) \<and> (aq(l := False)) l'"
    if "(l', True) \<in> set ((sv(t := rest)) t')" "pm l' = Some path'" for t' l' path'
  proof -
    have in': "(l', True) \<in> set (sv t')" using that t by (auto split: if_splits)
    have "pm l \<notin> (\<lambda>x. pm (fst x)) ` set rest" using thread_partD(3)[OF I, of t] t by simp
    then have "t' \<noteq> t \<or> pm l' \<noteq> pm l" using that by force
    then have "\<not> (pm l' = pm l \<and> fst t' = fst t)" using thread_part_unique[OF I l(1) in'] by auto
    moreover have "fst t' = fst l'" using thread_partD(1)[OF I in'] .
    ultimately show ?thesis using thread_partD(4,5)[OF I in'] that t l by auto
  qed
  show "n = 1 \<and> (\<exists>l'. (l', True) \<in> set ((sv(t := rest)) (p, i)) \<and> pm l' = Some path')"
    if "(th(fst t := (th (fst t))(path := None))) p path' = Some (i, n)" for p path' i n
  proof -
    have "th p path' = Some (i, n)" "\<not> (p = fst t \<and> path' = path)" using that by (auto split: if_splits)
    from this(2) thread_partD(6,7)[OF I this(1)] t show ?thesis by (cases "(p, i) = t") auto
  qed
qed

lemma thread_part_waiting:
  assumes I: "thread_part pm aq th sv"
  shows "sv t = (l, False) # rest \<Longrightarrow> thread_part pm aq th (sv(t := rest))"
    and "fst t = fst l \<Longrightarrow> pm l \<noteq> None \<Longrightarrow> pm l \<notin> (\<lambda>x. pm (fst x)) ` set (sv t) \<Longrightarrow> thread_part pm aq th (sv(t := (l, False) # sv t))"
proof -
  assume t: "sv t = (l, False) # rest"
  have sub: "set ((sv(t := rest)) t') \<subseteq> set (sv t')" for t' using t by auto
  have "(l', True) \<in> set ((sv(t := rest)) t') \<longleftrightarrow> (l', True) \<in> set (sv t')" for l' t' using t by auto
  moreover have "distinct (map (\<lambda>x. pm (fst x)) ((sv(t := rest)) t'))" for t'
    using thread_partD(3)[OF I, of t] thread_partD(3)[OF I, of t'] t by simp
  ultimately show "thread_part pm aq th (sv(t := rest))"
    using I sub by (intro thread_partI) (meson subsetD thread_partD)+
next
  assume t: "fst t = fst l" "pm l \<noteq> None" "pm l \<notin> (\<lambda>x. pm (fst x)) ` set (sv t)"
  let ?sv = "sv(t := (l, False) # sv t)"
  have "(l', True) \<in> set (?sv t') \<longleftrightarrow> (l', True) \<in> set (sv t')" for l' t' by auto
  moreover have "distinct (map (\<lambda>x. pm (fst x)) (?sv t'))" for t'
    using thread_partD(3)[OF I, of t] thread_partD(3)[OF I, of t'] t by simp
  moreover have "fst t' = fst l' \<and> pm l' \<noteq> None" if "(l', b) \<in> set (?sv t')" for t' l' b
    using that thread_partD(1,2)[OF I, of l' b t'] t by (auto split: if_splits)
  ultimately show "thread_part pm aq th ?sv" using thread_partD(4-7)[OF I] by (intro thread_partI) metis+
qed

lemma thread_part_new:
  assumes I: "thread_part pm aq th sv" and l: "pm l = None"
  shows "thread_part (pm(l \<mapsto> path)) (aq(l := b)) th sv"
proof -
  have ne: "fst x \<noteq> l" if "x \<in> set (sv t)" for x t using thread_part_frame(2)[OF I that] l by auto
  have *: "distinct (map (\<lambda>x. (pm(l \<mapsto> path)) (fst x)) (sv t))" for t
    using thread_partD(3)[OF I, of t] ne by (simp cong: map_cong)
  have ne': "l' \<noteq> l" if "(l', c) \<in> set (sv t)" for l' c t using ne[OF that] by simp
  show ?thesis
    by (rule thread_partI[OF _ *]) (use thread_partD[OF I] ne' in \<open>simp; metis\<close>)+
qed

lemma thread_part_crash:
  assumes I: "thread_part pm aq th sv"
  shows "thread_part (\<lambda>l. if fst l = p then None else pm l) (\<lambda>l. fst l \<noteq> p \<and> aq l) (th(p := (\<lambda>path. None))) (\<lambda>t. if fst t = p then [] else sv t)"
proof -
  have ne: "fst (fst x) \<noteq> p" if "x \<in> set (sv t)" "fst t \<noteq> p" for x t using thread_part_frame(1)[OF I that(1)] that(2) by simp
  have *: "distinct (map (\<lambda>x. if fst (fst x) = p then None else pm (fst x)) (if fst t = p then [] else sv t))" for t
    using thread_partD(3)[OF I, of t] ne by (simp cong: map_cong)
  have ne': "fst l \<noteq> p" if "(l, b) \<in> set (sv t)" "fst t \<noteq> p" for l b t using ne[OF that] by simp
  show ?thesis
  proof (rule thread_partI[OF _ *])
    show "n = 1 \<and> (\<exists>l. (l, True) \<in> set (if fst (q, i) = p then [] else sv (q, i)) \<and> (if fst l = p then None else pm l) = Some path)"
      if "(th(p := (\<lambda>path. None))) q path = Some (i, n)" for q path i n
    proof -
      have q: "q \<noteq> p" "th q path = Some (i, n)" using that by (auto split: if_splits)
      from thread_partD(7)[OF I q(2)] obtain l where l: "(l, True) \<in> set (sv (q, i))" "pm l = Some path" by blast
      with q ne'[OF l(1)] thread_partD(6)[OF I q(2)] show ?thesis by (intro conjI exI [of _ l]) simp_all
    qed
  qed (use thread_partD[OF I] ne' in \<open>auto split: if_splits\<close>)
qed

section \<open>Advisory locks and the threads inside\<close>

definition file_part ::
  "(lock_id \<Rightarrow> pystr option) \<Rightarrow> (lock_id \<Rightarrow> file_handle option) \<Rightarrow> (pystr \<Rightarrow> file_handle option) \<Rightarrow> nat \<Rightarrow> (thread \<Rightarrow> lock_id \<Rightarrow> bool) \<Rightarrow> bool" where
  "file_part pm hn fs nx ins \<longleftrightarrow>
     (\<forall>l h. hn l = Some h \<longrightarrow> fst h = fst l \<and> snd h < nx) \<and>
     (\<forall>l l' h. hn l = Some h \<longrightarrow> hn l' = Some h \<longrightarrow> l = l') \<and>
     (\<forall>t l. ins t l \<longrightarrow> (\<exists>h path. pm l = Some path \<and> hn l = Some h \<and> fs path = Some h)) \<and>
     (\<forall>path h. fs path = Some h \<longrightarrow> (\<exists>t l. ins t l \<and> pm l = Some path \<and> hn l = Some h))"

lemma file_partD:
  assumes "file_part pm hn fs nx ins"
  shows "hn l = Some h \<Longrightarrow> fst h = fst l" "hn l = Some h \<Longrightarrow> snd h < nx" "hn l = Some h \<Longrightarrow> hn l' = Some h \<Longrightarrow> l = l'"
    "ins t l \<Longrightarrow> \<exists>h path. pm l = Some path \<and> hn l = Some h \<and> fs path = Some h"
    "fs path = Some h \<Longrightarrow> \<exists>t l. ins t l \<and> pm l = Some path \<and> hn l = Some h"
  using assms unfolding file_part_def by (blast, blast, fast, blast, blast)

lemma file_partI:
  assumes "\<And>l h. hn l = Some h \<Longrightarrow> fst h = fst l \<and> snd h < nx" "\<And>l l' h. hn l = Some h \<Longrightarrow> hn l' = Some h \<Longrightarrow> l = l'"
    and "\<And>t l. ins t l \<Longrightarrow> \<exists>h path. pm l = Some path \<and> hn l = Some h \<and> fs path = Some h"
    and "\<And>path h. fs path = Some h \<Longrightarrow> \<exists>t l. ins t l \<and> pm l = Some path \<and> hn l = Some h"
  shows "file_part pm hn fs nx ins"
  unfolding file_part_def using assms(1,3,4) assms(2) by (intro conjI allI impI) (assumption | simp | blast)+

definition released :: "(pystr \<Rightarrow> file_handle option) \<Rightarrow> pystr \<Rightarrow> file_handle option \<Rightarrow> pystr \<Rightarrow> file_handle option" where
  "released fs path ho = (case ho of None \<Rightarrow> fs | Some h \<Rightarrow> if fs path = Some h then fs(path := None) else fs)"

lemma released_Some: "released fs path ho path' = Some h \<longleftrightarrow> fs path' = Some h \<and> \<not> (path' = path \<and> ho = Some h)"
  by (auto simp: released_def split: option.splits)

lemma file_part_unlock:
  assumes I: "file_part pm hn fs nx ins" and l: "pm l = Some path" "\<And>t. \<not> ins' t l" "\<And>t l'. l' \<noteq> l \<Longrightarrow> ins' t l' = ins t l'"
  shows "file_part pm hn (released fs path (hn l)) nx ins'"
proof (rule file_partI)
  show "\<exists>h path'. pm l' = Some path' \<and> hn l' = Some h \<and> released fs path (hn l) path' = Some h" if "ins' t l'" for t l'
  proof -
    have ne: "l' \<noteq> l" using that l(2) by blast
    with that l(3) file_partD(4)[OF I, of t l'] obtain h path' where h: "pm l' = Some path'" "hn l' = Some h" "fs path' = Some h" by blast
    with ne file_partD(3)[OF I h(2), of l] show ?thesis unfolding released_Some by blast
  qed
  show "\<exists>t l'. ins' t l' \<and> pm l' = Some path' \<and> hn l' = Some h" if "released fs path (hn l) path' = Some h" for path' h
  proof -
    from that have h: "fs path' = Some h" "\<not> (path' = path \<and> hn l = Some h)" unfolding released_Some by simp_all
    from file_partD(5)[OF I h(1)] obtain t l' where l': "ins t l'" "pm l' = Some path'" "hn l' = Some h" by blast
    then have "l' \<noteq> l" using h(2) l(1) by auto
    then show ?thesis using l' l(3) by blast
  qed
qed (use file_partD(1-3)[OF I] in \<open>blast\<close>)+

lemma file_part_handle:
  assumes I: "file_part pm hn fs nx ins" and l: "\<And>t. \<not> ins t l"
  shows "file_part pm (hn(l := None)) fs nx ins" "file_part pm (hn(l := Some (fst l, nx))) fs (nx + 1) ins"
proof -
  have i: "\<exists>h path. pm l' = Some path \<and> (hn(l := x)) l' = Some h \<and> fs path = Some h" if "ins t l'" for t l' x
    using file_partD(4)[OF I that] l that by (cases "l' = l") auto
  have f: "\<exists>t l'. ins t l' \<and> pm l' = Some path \<and> (hn(l := x)) l' = Some h" if f: "fs path = Some h" for path h x
  proof -
    obtain t l' where l': "ins t l'" "pm l' = Some path" "hn l' = Some h" using file_partD(5)[OF I f] by blast
    moreover from l' l have "l' \<noteq> l" by blast
    ultimately show ?thesis by (intro exI [of _ t] exI [of _ l']) simp
  qed
  have b: "fst h = fst l'" "snd h < nx" if "hn l' = Some h" for l' h using file_partD(1,2)[OF I that] .
  have u: "l' = l''" if "hn l' = Some h" "hn l'' = Some h" for l' l'' h using file_partD(3)[OF I that] .
  show "file_part pm (hn(l := None)) fs nx ins"
    by (rule file_partI[OF _ _ i f]) (use b u in \<open>simp split: if_splits; blast\<close>)+
  show "file_part pm (hn(l := Some (fst l, nx))) fs (nx + 1) ins"
  proof (rule file_partI[OF _ _ i f])
    show "fst h = fst l' \<and> snd h < nx + 1" if "(hn(l := Some (fst l, nx))) l' = Some h" for l' h
      using that b[of l' h] by (auto split: if_splits)
    show "l' = l''" if "(hn(l := Some (fst l, nx))) l' = Some h" "(hn(l := Some (fst l, nx))) l'' = Some h" for l' l'' h
      using that b(2)[of l' h] b(2)[of l'' h] u[of l' h l''] by (cases "l' = l"; cases "l'' = l") auto
  qed
qed

lemma file_part_lock:
  assumes I: "file_part pm hn fs nx ins" and l: "pm l = Some path" "hn l = Some h" "fs path \<in> {None, Some h}"
  shows "file_part pm hn (fs(path \<mapsto> h)) nx (\<lambda>t' l'. ins t' l' \<or> (t', l') = (t, l))"
proof (rule file_partI)
  show "\<exists>h' path'. pm l' = Some path' \<and> hn l' = Some h' \<and> (fs(path \<mapsto> h)) path' = Some h'" if "ins t' l' \<or> (t', l') = (t, l)" for t' l'
    using that file_partD(4)[OF I, of t' l'] l by (cases "(t', l') = (t, l)") (fastforce split: if_splits)+
  show "\<exists>t' l'. (ins t' l' \<or> (t', l') = (t, l)) \<and> pm l' = Some path' \<and> hn l' = Some h'" if "(fs(path \<mapsto> h)) path' = Some h'" for path' h'
  proof (cases "path' = path")
    case True
    with that l show ?thesis by (intro exI [of _ t] exI [of _ l]) simp
  next
    case False
    with that file_partD(5)[OF I, of path' h'] show ?thesis by (metis fun_upd_other)
  qed
qed (use file_partD(1-3)[OF I] in \<open>blast\<close>)+

lemma file_part_new:
  assumes I: "file_part pm hn fs nx ins" and l: "pm l = None"
  shows "file_part (pm(l \<mapsto> path)) (hn(l := None)) fs nx ins"
proof (rule file_partI)
  have ne: "l' \<noteq> l" if "ins t l'" for t l' using file_partD(4)[OF I that] l by auto
  show "\<exists>h path'. (pm(l \<mapsto> path)) l' = Some path' \<and> (hn(l := None)) l' = Some h \<and> fs path' = Some h" if "ins t l'" for t l'
    using file_partD(4)[OF I that] ne[OF that] by simp
  show "\<exists>t l'. ins t l' \<and> (pm(l \<mapsto> path)) l' = Some path' \<and> (hn(l := None)) l' = Some h" if "fs path' = Some h" for path' h
    using file_partD(5)[OF I that] ne by (metis fun_upd_other)
qed (use file_partD(1-3)[OF I] in \<open>simp split: if_splits; blast\<close>)+

lemma file_part_crash:
  assumes I: "file_part pm hn fs nx ins" and p: "\<And>t l. ins t l \<Longrightarrow> fst t = fst l"
  shows "file_part (\<lambda>l. if fst l = p then None else pm l) (\<lambda>l. if fst l = p then None else hn l)
           (\<lambda>path. case fs path of Some h \<Rightarrow> if fst h = p then None else Some h | None \<Rightarrow> None) nx (\<lambda>t l. fst t \<noteq> p \<and> ins t l)"
proof (rule file_partI)
  let ?fs = "\<lambda>path. case fs path of Some h \<Rightarrow> if fst h = p then None else Some h | None \<Rightarrow> None"
  have fs: "?fs path = Some h \<longleftrightarrow> fs path = Some h \<and> fst h \<noteq> p" for path h by (auto split: option.splits)
  show "\<exists>h path. (if fst l = p then None else pm l) = Some path \<and> (if fst l = p then None else hn l) = Some h \<and> ?fs path = Some h"
    if "fst t \<noteq> p \<and> ins t l" for t l
    unfolding fs using that p[of t l] file_partD(4)[OF I, of t l] file_partD(1)[OF I, of l] by auto
  show "\<exists>t l. (fst t \<noteq> p \<and> ins t l) \<and> (if fst l = p then None else pm l) = Some path \<and> (if fst l = p then None else hn l) = Some h"
    if f: "?fs path = Some h" for path h
  proof -
    have h: "fs path = Some h" "fst h \<noteq> p" using f unfolding fs by simp_all
    from file_partD(5)[OF I h(1)] obtain t l where l: "ins t l" "pm l = Some path" "hn l = Some h" by blast
    with p[OF l(1)] file_partD(1)[OF I l(3)] h(2) show ?thesis by (intro exI [of _ t] exI [of _ l]) simp
  qed
qed (use file_partD(1-3)[OF I] in \<open>simp split: if_splits; blast\<close>)+

section \<open>The invariant of the world\<close>

definition handle_of :: "locks_world \<Rightarrow> lock_id \<Rightarrow> file_handle option" where
  "handle_of w l = (case lw_locks w l of None \<Rightarrow> None | Some f \<Rightarrow> fl_handle f)"

definition acquired_of :: "locks_world \<Rightarrow> lock_id \<Rightarrow> bool" where
  "acquired_of w l = (case lw_locks w l of None \<Rightarrow> False | Some f \<Rightarrow> fl_acquired f)"

definition frame_view :: "lock_frame \<Rightarrow> lock_id \<times> bool" where
  "frame_view r = (fr_lock r, fr_phase r \<noteq> Waiting)"

definition locks_ok :: "locks_world \<Rightarrow> bool" where
  "locks_ok w \<longleftrightarrow>
     thread_part (path_of w) (acquired_of w) (lw_thread_locks w) (\<lambda>t. map frame_view (lw_stack w t)) \<and>
     file_part (path_of w) (handle_of w) (lw_files w) (lw_next w) (is_inside w)"

lemma in_frames_simps [simp]:
  "in_frames [] l = False" "in_frames (r # rs) l \<longleftrightarrow> fr_lock r = l \<and> fr_phase r = Inside \<or> in_frames rs l"
  by (auto simp: in_frames_def)

lemma parts_set_lock [simp]:
  "path_of (set_lock w l f) = (path_of w)(l \<mapsto> fl_path f)" "handle_of (set_lock w l f) = (handle_of w)(l := fl_handle f)"
  "acquired_of (set_lock w l f) = (acquired_of w)(l := fl_acquired f)"
  "lw_thread_locks (set_lock w l f) = lw_thread_locks w" "lw_files (set_lock w l f) = lw_files w"
  "lw_next (set_lock w l f) = lw_next w" "lw_stack (set_lock w l f) = lw_stack w"
  by (auto simp: path_of_def handle_of_def acquired_of_def set_lock_def fun_eq_iff)

lemma parts_set_thread_lock [simp]:
  "path_of (set_thread_lock w p path x) = path_of w" "handle_of (set_thread_lock w p path x) = handle_of w"
  "acquired_of (set_thread_lock w p path x) = acquired_of w" "lw_files (set_thread_lock w p path x) = lw_files w"
  "lw_next (set_thread_lock w p path x) = lw_next w" "lw_stack (set_thread_lock w p path x) = lw_stack w"
  "lw_thread_locks (set_thread_lock w p path x) = (lw_thread_locks w)(p := (lw_thread_locks w p)(path := x))"
  by (auto simp: path_of_def handle_of_def acquired_of_def set_thread_lock_def fun_eq_iff)

lemma parts_updates [simp]:
  "path_of (w\<lparr>lw_stack := S\<rparr>) = path_of w" "handle_of (w\<lparr>lw_stack := S\<rparr>) = handle_of w" "acquired_of (w\<lparr>lw_stack := S\<rparr>) = acquired_of w"
  "path_of (w\<lparr>lw_next := n\<rparr>) = path_of w" "handle_of (w\<lparr>lw_next := n\<rparr>) = handle_of w" "acquired_of (w\<lparr>lw_next := n\<rparr>) = acquired_of w"
  "path_of (w\<lparr>lw_files := F\<rparr>) = path_of w" "handle_of (w\<lparr>lw_files := F\<rparr>) = handle_of w" "acquired_of (w\<lparr>lw_files := F\<rparr>) = acquired_of w"
  "path_of (w\<lparr>lw_now := d\<rparr>) = path_of w" "handle_of (w\<lparr>lw_now := d\<rparr>) = handle_of w" "acquired_of (w\<lparr>lw_now := d\<rparr>) = acquired_of w"
  by (auto simp: path_of_def handle_of_def acquired_of_def fun_eq_iff)

lemma parts_unlock_file [simp]:
  "path_of (unlock_file w f) = path_of w" "handle_of (unlock_file w f) = handle_of w" "acquired_of (unlock_file w f) = acquired_of w"
  "lw_thread_locks (unlock_file w f) = lw_thread_locks w" "lw_next (unlock_file w f) = lw_next w" "lw_stack (unlock_file w f) = lw_stack w"
  "lw_files (unlock_file w f) = released (lw_files w) (fl_path f) (fl_handle f)"
  by (auto simp: unlock_file_def released_def split: option.splits)

lemma parts_of_lock: "lw_locks w l = Some f \<Longrightarrow> path_of w l = Some (fl_path f) \<and> handle_of w l = fl_handle f \<and> acquired_of w l = fl_acquired f"
  by (simp add: path_of_def handle_of_def acquired_of_def)

lemma locks_ok_initial: "locks_ok initial_locks"
  by (simp add: locks_ok_def thread_part_def file_part_def initial_locks_def handle_of_def is_inside_def)

text \<open>What is known of the innermost frame of a thread.\<close>

lemma top_frame:
  assumes "locks_ok w" "lw_stack w t = r # rest"
  shows "\<not> in_frames rest (fr_lock r)"
    and "fr_phase r \<noteq> Waiting \<Longrightarrow> t' \<noteq> t \<Longrightarrow> \<not> is_inside w t' (fr_lock r)"
    and "lw_thread_locks w (fst t) path = Some (snd t, n) \<Longrightarrow> path_of w (fr_lock r) = Some path \<Longrightarrow> fr_phase r \<noteq> Waiting"
proof -
  from assms(1) have I: "thread_part (path_of w) (acquired_of w) (lw_thread_locks w) (\<lambda>t. map frame_view (lw_stack w t))"
    by (simp add: locks_ok_def)
  have d: "path_of w (fr_lock r) \<notin> (\<lambda>x. path_of w (fr_lock x)) ` set rest"
    using thread_partD(3)[OF I, of t] assms(2) by (simp add: frame_view_def comp_def)
  then show "\<not> in_frames rest (fr_lock r)" by (auto simp: in_frames_def image_iff)
  have in_view: "(fr_lock r', True) \<in> set (map frame_view (lw_stack w t'))" if "r' \<in> set (lw_stack w t')" "fr_phase r' \<noteq> Waiting" for r' t'
    using that by (force simp: frame_view_def)
  show "\<not> is_inside w t' (fr_lock r)" if top: "fr_phase r \<noteq> Waiting" "t' \<noteq> t"
  proof
    assume "is_inside w t' (fr_lock r)"
    then obtain r' where r': "r' \<in> set (lw_stack w t')" "fr_lock r' = fr_lock r" "fr_phase r' = Inside"
      by (auto simp: is_inside_def in_frames_def)
    have "(fr_lock r, True) \<in> set (map frame_view (lw_stack w t'))" "(fr_lock r, True) \<in> set (map frame_view (lw_stack w t))"
      using in_view[OF r'(1)] in_view[of r t] r' top assms(2) by simp_all
    from thread_part_unique[OF I this] thread_partD(1)[OF I this(1)] thread_partD(1)[OF I this(2)] top(2) show False by simp
  qed
  show "fr_phase r \<noteq> Waiting" if h: "lw_thread_locks w (fst t) path = Some (snd t, n)" "path_of w (fr_lock r) = Some path"
  proof -
    from thread_partD(7)[OF I h(1)] obtain r' where "r' \<in> set (lw_stack w t)" "fr_phase r' \<noteq> Waiting" "path_of w (fr_lock r') = Some path"
      by (auto simp: frame_view_def)
    with d h(2) assms(2) show ?thesis by (auto simp: image_iff)
  qed
qed

lemma with_frame_Some:
  "with_frame w t g = Some w' \<longleftrightarrow>
     (\<exists>r rest f x. lw_stack w t = r # rest \<and> lw_locks w (fr_lock r) = Some f \<and> g r f = Some x \<and> w' = set_phase t r rest x)"
  by (auto simp: with_frame_def split: list.splits option.splits)

lemma map_view_upd: "(\<lambda>t'. map frame_view (((lw_stack w)(t := S)) t')) = (\<lambda>t'. map frame_view (lw_stack w t'))(t := map frame_view S)"
  by auto

lemma same_view: "lw_stack w t = r # rest \<Longrightarrow> frame_view r' = frame_view r \<Longrightarrow>
    (\<lambda>t'. map frame_view (((lw_stack w)(t := r' # rest)) t')) = (\<lambda>t'. map frame_view (lw_stack w t'))"
  by auto

text \<open>A step of a thread that has the thread lock changes only its advisory lock.\<close>

lemma locks_ok_file_step:
  assumes "locks_ok w" and t: "lw_stack w t = r # rest" "lw_locks w (fr_lock r) = Some f" "fr_phase r \<noteq> Waiting" "ph \<noteq> Waiting"
    and w': "path_of w' = path_of w" "acquired_of w' = acquired_of w" "lw_thread_locks w' = lw_thread_locks w" "lw_stack w' = lw_stack w"
    and F: "file_part (path_of w) (handle_of w') (lw_files w') (lw_next w')
              (\<lambda>t' l'. if l' = fr_lock r then t' = t \<and> ph = Inside else is_inside w t' l')"
  shows "locks_ok (set_phase t r rest (w', Some ph))"
proof -
  have "is_inside (set_phase t r rest (w', Some ph)) t' l' = (if l' = fr_lock r then t' = t \<and> ph = Inside else is_inside w t' l')" for t' l'
    using top_frame(1)[OF assms(1) t(1)] top_frame(2)[OF assms(1) t(1,3), of t'] t(1) w'(4) by (auto simp: set_phase_def is_inside_def)
  then have "is_inside (set_phase t r rest (w', Some ph)) = (\<lambda>t' l'. if l' = fr_lock r then t' = t \<and> ph = Inside else is_inside w t' l')"
    by (intro ext)
  with F have F': "file_part (path_of w) (handle_of w') (lw_files w') (lw_next w') (is_inside (set_phase t r rest (w', Some ph)))" by simp
  have "frame_view (r\<lparr>fr_phase := ph\<rparr>) = frame_view r" using t(3,4) by (simp add: frame_view_def)
  from same_view[OF t(1) this] F' show ?thesis
    using assms(1) w' unfolding locks_ok_def by (simp add: set_phase_def)
qed

lemma outside_upd:
  assumes "locks_ok w" "lw_stack w t = r # rest" "fr_phase r \<noteq> Waiting" "fr_phase r \<noteq> Inside"
  shows "\<not> is_inside w t' (fr_lock r)"
    and "ph \<noteq> Inside \<Longrightarrow> (\<lambda>t' l'. if l' = fr_lock r then t' = t \<and> ph = Inside else is_inside w t' l') = is_inside w"
    and "(\<lambda>t' l'. if l' = fr_lock r then t' = t \<and> Inside = Inside else is_inside w t' l') = (\<lambda>t' l'. is_inside w t' l' \<or> (t', l') = (t, fr_lock r))"
proof -
  show out: "\<not> is_inside w t' (fr_lock r)" for t'
    using top_frame(1)[OF assms(1,2)] top_frame(2)[OF assms(1,2,3), of t'] assms(2,4) by (cases "t' = t") (auto simp: is_inside_def)
  show "ph \<noteq> Inside \<Longrightarrow> (\<lambda>t' l'. if l' = fr_lock r then t' = t \<and> ph = Inside else is_inside w t' l') = is_inside w"
    "(\<lambda>t' l'. if l' = fr_lock r then t' = t \<and> Inside = Inside else is_inside w t' l') = (\<lambda>t' l'. is_inside w t' l' \<or> (t', l') = (t, fr_lock r))"
    using out by (auto simp: fun_eq_iff)
qed

lemma locks_ok_unlock:
  assumes "locks_ok w" "lw_locks w l = Some f" "ph \<noteq> Inside"
  shows "file_part (path_of w) (handle_of w) (released (lw_files w) (fl_path f) (fl_handle f)) (lw_next w)
           (\<lambda>t' l'. if l' = l then t' = t \<and> ph = Inside else is_inside w t' l')"
proof -
  have "file_part (path_of w) (handle_of w) (lw_files w) (lw_next w) (is_inside w)" using assms(1) by (simp add: locks_ok_def)
  from file_part_unlock[OF this, of l "fl_path f" "\<lambda>t' l'. if l' = l then t' = t \<and> ph = Inside else is_inside w t' l'"]
  show ?thesis using parts_of_lock[OF assms(2)] assms(3) by simp
qed

lemma locks_ok_interrupt:
  assumes "locks_ok w" "lw_stack w t = r # rest" "lw_locks w (fr_lock r) = Some f" "fr_phase r \<in> {Opening, Trying}"
  shows "locks_ok (set_phase t r rest (w, Some Failing))"
proof -
  have ph: "fr_phase r \<noteq> Waiting" "fr_phase r \<noteq> Inside" using assms(4) by auto
  have "(\<lambda>t' l'. if l' = fr_lock r then t' = t \<and> Failing = Inside else is_inside w t' l') = is_inside w"
    by (rule outside_upd(2)[OF assms(1,2) ph]) simp
  then have "file_part (path_of w) (handle_of w) (lw_files w) (lw_next w) (\<lambda>t' l'. if l' = fr_lock r then t' = t \<and> Failing = Inside else is_inside w t' l')"
    using assms(1) by (simp only: locks_ok_def)
  then show ?thesis by (rule locks_ok_file_step[OF assms(1-3) ph(1), rotated -1]) simp_all
qed

lemma locks_ok_exit:
  assumes "locks_ok w" "lw_stack w t = r # rest" "lw_locks w (fr_lock r) = Some f" "fr_phase r = Inside"
  shows "locks_ok (set_phase t r rest (unlock_file w f, Some Unlocked))"
  by (rule locks_ok_file_step[OF assms(1-3)]) (use locks_ok_unlock[OF assms(1,3)] assms(4) in simp_all)

lemma locks_ok_open:
  assumes "locks_ok w" "lw_stack w t = r # rest" "lw_locks w (fr_lock r) = Some f" "fr_phase r = Opening"
  shows "locks_ok (set_phase t r rest (open_handle w (fr_lock r) f, Some Trying))"
proof (rule locks_ok_file_step[OF assms(1-3)])
  note p = parts_of_lock[OF assms(3)]
  let ?ins = "\<lambda>t' l'. if l' = fr_lock r then t' = t \<and> Trying = Inside else is_inside w t' l'"
  have "\<And>t'. \<not> ?ins t' (fr_lock r)" by simp
  from file_part_handle(2)[OF locks_ok_unlock[OF assms(1,3)] this]
  show "file_part (path_of w) (handle_of (open_handle w (fr_lock r) f)) (lw_files (open_handle w (fr_lock r) f))
      (lw_next (open_handle w (fr_lock r) f)) ?ins"
    using p by (simp add: open_handle_def Let_def)
  show "path_of (open_handle w (fr_lock r) f) = path_of w" "acquired_of (open_handle w (fr_lock r) f) = acquired_of w"
    using p by (auto simp: open_handle_def Let_def fun_eq_iff)
qed (simp_all add: open_handle_def Let_def assms(4))

lemma locks_ok_close:
  assumes "locks_ok w" "lw_stack w t = r # rest" "lw_locks w (fr_lock r) = Some f" "fr_phase r \<noteq> Waiting" "ph \<noteq> Waiting" "ph \<noteq> Inside"
  shows "locks_ok (set_phase t r rest (close_handle w (fr_lock r) f, Some ph))"
proof (rule locks_ok_file_step[OF assms(1-5)])
  note p = parts_of_lock[OF assms(3)]
  let ?ins = "\<lambda>t' l'. if l' = fr_lock r then t' = t \<and> ph = Inside else is_inside w t' l'"
  have "\<And>t'. \<not> ?ins t' (fr_lock r)" using assms(6) by simp
  from file_part_handle(1)[OF locks_ok_unlock[OF assms(1,3,6)] this]
  show "file_part (path_of w) (handle_of (close_handle w (fr_lock r) f)) (lw_files (close_handle w (fr_lock r) f))
      (lw_next (close_handle w (fr_lock r) f)) ?ins"
    using p by (simp add: close_handle_def)
  show "path_of (close_handle w (fr_lock r) f) = path_of w" "acquired_of (close_handle w (fr_lock r) f) = acquired_of w"
    using p by (auto simp: close_handle_def fun_eq_iff)
qed (simp_all add: close_handle_def)

lemma locks_ok_try:
  assumes "locks_ok w" "lw_stack w t = r # rest" "lw_locks w (fr_lock r) = Some f" "fr_phase r = Trying" "try_lock w f = Some w'"
  shows "locks_ok (set_phase t r rest (w', Some Inside))"
proof -
  obtain h where h: "fl_handle f = Some h" "lw_files w (fl_path f) \<in> {None, Some h}" "w' = w\<lparr>lw_files := (lw_files w)(fl_path f \<mapsto> h)\<rparr>"
    using assms(5) by (auto simp: try_lock_def split: option.splits if_splits)
  have F: "file_part (path_of w) (handle_of w) (lw_files w) (lw_next w) (is_inside w)" using assms(1) by (simp add: locks_ok_def)
  have ph: "fr_phase r \<noteq> Waiting" "fr_phase r \<noteq> Inside" using assms(4) by simp_all
  have "file_part (path_of w) (handle_of w') (lw_files w') (lw_next w')
          (\<lambda>t' l'. if l' = fr_lock r then t' = t \<and> Inside = Inside else is_inside w t' l')"
    unfolding outside_upd(3)[OF assms(1,2) ph]
    using file_part_lock[OF F, of "fr_lock r" "fl_path f" h t] parts_of_lock[OF assms(3)] h by simp
  then show ?thesis using h(3) by (intro locks_ok_file_step[OF assms(1-3) ph(1)]) simp_all
qed

lemma locks_ok_acquire:
  assumes "locks_ok w" "lw_stack w t = r # rest" "lw_locks w (fr_lock r) = Some f" "fr_phase r = Waiting" "thread_acquire w t (fr_lock r) f = Some w'"
  shows "locks_ok (set_phase t r rest (w', Some Opening))"
proof -
  note p = parts_of_lock[OF assms(3)]
  have free: "lw_thread_locks w (fst t) (fl_path f) = None"
  proof (cases "lw_thread_locks w (fst t) (fl_path f)")
    case (Some x)
    then have "lw_thread_locks w (fst t) (fl_path f) = Some (snd t, snd x)"
      using assms(5) by (cases x) (auto simp: thread_acquire_def split: if_splits)
    with top_frame(3)[OF assms(1,2) this] p assms(4) show ?thesis by simp
  qed
  then have w': "w' = set_lock (set_thread_lock w (fst t) (fl_path f) (Some (snd t, 1))) (fr_lock r) (f\<lparr>fl_acquired := True\<rparr>)"
    using assms(5) by (simp add: thread_acquire_def)
  have inside: "is_inside (set_phase t r rest (w', Some Opening)) = is_inside w"
    using assms(2,4) by (auto simp: fun_eq_iff is_inside_def set_phase_def w')
  have idem: "(path_of w)(fr_lock r \<mapsto> fl_path f) = path_of w" "(handle_of w)(fr_lock r := fl_handle f) = handle_of w"
    using p by (auto simp: fun_eq_iff)
  from assms(1) have I: "thread_part (path_of w) (acquired_of w) (lw_thread_locks w) (\<lambda>t. map frame_view (lw_stack w t))"
    by (simp add: locks_ok_def)
  from thread_part_acquire[OF I, of t "fr_lock r" "map frame_view rest" "fl_path f"] assms(1,2,4) free p idem inside
  show ?thesis by (simp add: locks_ok_def set_phase_def w' map_view_upd frame_view_def del: fun_upd_apply)
qed

lemma locks_ok_give_up:
  assumes "locks_ok w" "lw_stack w t = r # rest" "fr_phase r = Waiting"
  shows "locks_ok (set_phase t r rest (w, None))"
proof -
  from assms(1) have I: "thread_part (path_of w) (acquired_of w) (lw_thread_locks w) (\<lambda>t. map frame_view (lw_stack w t))"
    by (simp add: locks_ok_def)
  have "is_inside (set_phase t r rest (w, None)) = is_inside w" using assms(2,3) by (auto simp: fun_eq_iff is_inside_def set_phase_def)
  with thread_part_waiting(1)[OF I, of t "fr_lock r" "map frame_view rest"] assms
  show ?thesis by (simp add: locks_ok_def set_phase_def map_view_upd frame_view_def del: fun_upd_apply)
qed

text \<open>A frame that has the thread lock releases it, without RuntimeError.\<close>

lemma owned:
  assumes "locks_ok w" "lw_stack w t = r # rest" "lw_locks w (fr_lock r) = Some f" "fr_phase r \<noteq> Waiting"
  shows "lw_thread_locks w (fst t) (fl_path f) = Some (snd t, 1)" "fl_acquired f"
proof -
  from assms(1) have I: "thread_part (path_of w) (acquired_of w) (lw_thread_locks w) (\<lambda>t. map frame_view (lw_stack w t))"
    by (simp add: locks_ok_def)
  have "(fr_lock r, True) \<in> set (map frame_view (lw_stack w t))" using assms(2,4) by (simp add: frame_view_def)
  from thread_partD(4,5)[OF I this] parts_of_lock[OF assms(3)]
  show "lw_thread_locks w (fst t) (fl_path f) = Some (snd t, 1)" "fl_acquired f" by simp_all
qed

lemma locks_ok_release:
  assumes "locks_ok w" "lw_stack w t = r # rest" "lw_locks w (fr_lock r) = Some f" "fr_phase r \<noteq> Waiting" "fr_phase r \<noteq> Inside"
    and "thread_release w t (fr_lock r) f = Some w'"
  shows "locks_ok (set_phase t r rest (w', None))"
proof -
  note p = parts_of_lock[OF assms(3)]
  have w': "w' = set_lock (set_thread_lock w (fst t) (fl_path f) None) (fr_lock r) (f\<lparr>fl_acquired := False\<rparr>)"
    using assms(6) owned[OF assms(1-4)] by (simp add: thread_release_def)
  have inside: "is_inside (set_phase t r rest (w', None)) = is_inside w"
    using assms(2,5) by (auto simp: fun_eq_iff is_inside_def set_phase_def w')
  have idem: "(path_of w)(fr_lock r \<mapsto> fl_path f) = path_of w" "(handle_of w)(fr_lock r := fl_handle f) = handle_of w"
    using p by (auto simp: fun_eq_iff)
  from assms(1) have I: "thread_part (path_of w) (acquired_of w) (lw_thread_locks w) (\<lambda>t. map frame_view (lw_stack w t))"
    by (simp add: locks_ok_def)
  from thread_part_release[OF I, of t "fr_lock r" "map frame_view rest" "fl_path f"] assms(1,2,4) p idem inside
  show ?thesis by (simp add: locks_ok_def set_phase_def w' map_view_upd frame_view_def del: fun_upd_apply)
qed

lemma locks_ok_frame_step:
  assumes "locks_ok w" "lw_stack w t = r # rest" "lw_locks w (fr_lock r) = Some f" "frame_step w t r f = Some x"
  shows "locks_ok (set_phase t r rest x)"
proof (cases "fr_phase r")
  case Waiting
  with assms(4) show ?thesis
    by (auto simp: frame_step_def Let_def split: option.splits if_splits intro: locks_ok_acquire[OF assms(1-3)] locks_ok_give_up[OF assms(1,2)])
next
  case Opening
  with assms(4) locks_ok_open[OF assms(1-3)] show ?thesis by (auto simp: frame_step_def Let_def)
next
  case Trying
  with assms(4) show ?thesis
    by (auto simp: frame_step_def Let_def split: option.splits if_splits intro: locks_ok_try[OF assms(1-3)] locks_ok_interrupt[OF assms(1-3)])
next
  case Closed
  with assms(4) owned(2)[OF assms(1-3)] show ?thesis
    by (auto simp: frame_step_def Let_def intro: locks_ok_release[OF assms(1-3)])
next
  case Failed
  with assms(4) show ?thesis by (auto simp: frame_step_def Let_def intro: locks_ok_release[OF assms(1-3)])
qed (use assms(4) in \<open>auto simp: frame_step_def Let_def intro: locks_ok_close[OF assms(1-3)]\<close>)

lemma locks_ok_step:
  assumes ok: "locks_ok w" and d: "enters_fresh_path w ev" and s: "lock_step w ev = Some w'"
  shows "locks_ok w'"
proof -
  from ok have T: "thread_part (path_of w) (acquired_of w) (lw_thread_locks w) (\<lambda>t. map frame_view (lw_stack w t))"
    and F: "file_part (path_of w) (handle_of w) (lw_files w) (lw_next w) (is_inside w)" by (simp_all add: locks_ok_def)
  show ?thesis
  proof (cases ev)
    case (New_lock l path timeout poll)
    with s obtain f where f: "lw_locks w l = None" "new_file_lock path timeout poll = Inr f" "w' = set_lock w l f"
      by (auto simp: lock_step_def split: option.splits sum.splits)
    then have f': "fl_path f = path" "fl_handle f = None" "path_of w l = None"
      by (auto simp: new_file_lock_def path_of_def checks)
    have "is_inside w' = is_inside w" by (simp add: fun_eq_iff is_inside_def f(3))
    with thread_part_new[OF T f'(3)] file_part_new[OF F f'(3)] f f' show ?thesis by (simp add: locks_ok_def)
  next
    case (Pass d)
    with s have "w' = w\<lparr>lw_now := lw_now w + d\<rparr>" by (simp add: lock_step_def split: if_splits)
    moreover have "is_inside (w\<lparr>lw_now := lw_now w + d\<rparr>) = is_inside w" by (simp add: fun_eq_iff is_inside_def)
    ultimately show ?thesis using ok by (simp add: locks_ok_def)
  next
    case (Enter t l)
    let ?r = "\<lparr>fr_lock = l, fr_started = lw_now w, fr_phase = Waiting\<rparr>"
    from s Enter have e: "fst t = fst l" "lw_locks w l \<noteq> None" "w' = w\<lparr>lw_stack := (lw_stack w)(t := ?r # lw_stack w t)\<rparr>"
      by (simp_all add: lock_step_def split: if_splits)
    have "path_of w l \<notin> (\<lambda>x. path_of w (fst x)) ` set (map frame_view (lw_stack w t))"
      using d Enter by (auto simp: enters_fresh_path_def list_all_iff frame_view_def)
    with thread_part_waiting(2)[OF T e(1)] e(2)
    have "thread_part (path_of w) (acquired_of w) (lw_thread_locks w) ((\<lambda>t. map frame_view (lw_stack w t))(t := (l, False) # map frame_view (lw_stack w t)))"
      by (simp add: path_of_def)
    moreover have "is_inside w' = is_inside w" by (auto simp: fun_eq_iff is_inside_def e(3))
    ultimately show ?thesis using F by (simp add: locks_ok_def e(3) map_view_upd frame_view_def del: fun_upd_apply)
  next
    case (Step t)
    with s show ?thesis by (auto simp: lock_step_def with_frame_Some intro: locks_ok_frame_step[OF ok])
  next
    case (Interrupt t)
    with s show ?thesis
      by (auto simp: lock_step_def with_frame_Some split: if_splits intro: locks_ok_interrupt[OF ok])
  next
    case (Exit t)
    with s show ?thesis
      by (auto simp: lock_step_def with_frame_Some split: if_splits intro: locks_ok_exit[OF ok])
  next
    case (Crash p)
    then have w': "w' = crash w p" using s by (simp add: lock_step_def)
    have own: "fst t = fst l" if "is_inside w t l" for t l
    proof -
      from that have "(l, True) \<in> set (map frame_view (lw_stack w t))"
        by (force simp: is_inside_def in_frames_def frame_view_def)
      from thread_partD(1)[OF T this] show ?thesis .
    qed
    have "path_of w' = (\<lambda>l. if fst l = p then None else path_of w l)" "handle_of w' = (\<lambda>l. if fst l = p then None else handle_of w l)"
      "acquired_of w' = (\<lambda>l. fst l \<noteq> p \<and> acquired_of w l)" "is_inside w' = (\<lambda>t l. fst t \<noteq> p \<and> is_inside w t l)"
      "(\<lambda>t. map frame_view (lw_stack w' t)) = (\<lambda>t. if fst t = p then [] else map frame_view (lw_stack w t))"
      by (auto simp: w' crash_def path_of_def handle_of_def acquired_of_def is_inside_def fun_eq_iff)
    then show ?thesis
      using thread_part_crash[OF T, of p] file_part_crash[OF F own, of p] by (simp add: locks_ok_def) (simp add: w' crash_def)
  qed
qed

lemma locks_reachable_ok: "locks_reachable w \<Longrightarrow> locks_ok w"
  by (induction rule: locks_reachable.induct) (auto intro: locks_ok_initial locks_ok_step)

text \<open>The runs in which every thread enters only paths that none of its own uses is on.\<close>

fun never_nests :: "locks_world \<Rightarrow> lock_event list \<Rightarrow> bool" where
  "never_nests w [] = True"
| "never_nests w (ev # evs) = (enters_fresh_path w ev \<and> (case lock_step w ev of None \<Rightarrow> True | Some w' \<Rightarrow> never_nests w' evs))"

lemma reachable_run: "locks_reachable w \<Longrightarrow> never_nests w evs \<Longrightarrow> lock_run w evs = Some w' \<Longrightarrow> locks_reachable w'"
  by (induction w evs rule: lock_run.induct) (auto split: option.splits intro: locks_next)

lemma lock_run_snoc: "lock_run w (evs @ [ev]) = (case lock_run w evs of None \<Rightarrow> None | Some w' \<Rightarrow> lock_step w' ev)"
  by (induction w evs rule: lock_run.induct) (auto split: option.splits)

section \<open>Exclusion and progress\<close>

lemma inside_unique:
  assumes ok: "locks_ok w" and i: "is_inside w t l" "is_inside w t' l'" "path_of w l = path_of w l'"
  shows "t = t' \<and> l = l'"
proof -
  from ok have T: "thread_part (path_of w) (acquired_of w) (lw_thread_locks w) (\<lambda>t. map frame_view (lw_stack w t))"
    and F: "file_part (path_of w) (handle_of w) (lw_files w) (lw_next w) (is_inside w)" by (simp_all add: locks_ok_def)
  from file_partD(4)[OF F i(1)] file_partD(4)[OF F i(2)] i(3) obtain h where "handle_of w l = Some h" "handle_of w l' = Some h" by auto
  then have l: "l = l'" by (rule file_partD(3)[OF F])
  have v: "(l, True) \<in> set (map frame_view (lw_stack w t))" "(l', True) \<in> set (map frame_view (lw_stack w t'))"
    using i(1,2) by (force simp: is_inside_def in_frames_def frame_view_def)+
  from thread_part_unique[OF T v i(3)] thread_partD(1)[OF T v(1)] thread_partD(1)[OF T v(2)] l show ?thesis by simp
qed

lemma free_iff:
  assumes "locks_ok w"
  shows "lw_files w path = None \<longleftrightarrow> (\<forall>t l. is_inside w t l \<longrightarrow> path_of w l \<noteq> Some path)"
proof -
  from assms have F: "file_part (path_of w) (handle_of w) (lw_files w) (lw_next w) (is_inside w)" by (simp add: locks_ok_def)
  show ?thesis
  proof (cases "lw_files w path")
    case None
    then show ?thesis using file_partD(4)[OF F] by fastforce
  next
    case (Some h)
    then show ?thesis using file_partD(5)[OF F Some] by auto
  qed
qed

text \<open>A thread that waits for a path gets inside in three steps once its process does not have the thread lock
  and nobody is inside.\<close>

lemma enters_free:
  assumes "lw_stack w t = r # rest" "lw_locks w (fr_lock r) = Some f" "fr_phase r = Waiting"
    and "lw_thread_locks w (fst t) (fl_path f) = None" "lw_files w (fl_path f) = None"
  shows "\<exists>w'. lock_run w [Step t, Step t, Step t] = Some w' \<and> is_inside w' t (fr_lock r)"
  using assms
  by (auto simp: lock_step_def with_frame_def frame_step_def Let_def thread_acquire_def set_phase_def open_handle_def
      set_lock_def set_thread_lock_def unlock_file_def try_lock_def is_inside_def in_frames_def split: option.splits)

section \<open>Runs\<close>

definition contended_run :: "lock_event list" where
  "contended_run =
     [New_lock (0, 0) [47] 30 1, New_lock (1, 0) [47] 30 1, Enter (0, 0) (0, 0), Step (0, 0), Step (0, 0), Step (0, 0),
      Enter (1, 0) (1, 0)]"

text \<open>An object that its own thread enters again replaces its open file, so that leaving the inner use unlocks the
  outer one: another process comes inside beside it. The outer use then leaves the thread lock taken for ever.\<close>

definition nested_run :: "lock_event list" where
  "nested_run =
     [New_lock (0, 0) [47] 30 1, New_lock (1, 0) [47] 30 1, Enter (0, 0) (0, 0), Step (0, 0), Step (0, 0), Step (0, 0),
      Enter (0, 0) (0, 0), Step (0, 0), Step (0, 0), Step (0, 0), Exit (0, 0), Step (0, 0), Step (0, 0),
      Enter (1, 0) (1, 0), Step (1, 0), Step (1, 0), Step (1, 0)]"

lemma nested_use_leaks:
  "map_option (\<lambda>w. (in_frames (lw_stack w (0, 0)) (0, 0), in_frames (lw_stack w (1, 0)) (1, 0), never_nests initial_locks nested_run))
     (lock_run initial_locks nested_run) = Some (True, True, False)"
  "map_option (\<lambda>w. (lw_stack w (0, 0), lw_thread_locks w 0 [47]))
     (lock_run initial_locks (nested_run @ [Exit (0, 0), Step (0, 0), Step (0, 0)])) = Some ([], Some (0, 1))"
  by code_simp+

text \<open>C21: Over all interleavings of the threads of all processes, with crashes, interrupts and timeouts, in which no
  thread enters a path again inside its own use of that path: two threads are never inside the same path; the
  system's lock on a path is free exactly if nobody is inside; and a thread that then waits for it, and whose process
  does not have the thread lock, is inside after three steps of its own. The restriction \<open>never_nests\<close> is needed: the
  thread lock is reentrant and lets a thread nest its uses, and after a nested use two threads can be inside
  (\<open>nested_use_leaks\<close>). The epoch registry and the index make a lock for each use and never nest it.\<close>

theorem process_lock_exclusive:
  assumes "lock_run initial_locks evs = Some w" "never_nests initial_locks evs"
  shows "(is_inside w t l \<and> is_inside w t' l' \<and> path_of w l = path_of w l' \<longrightarrow> t = t' \<and> l = l') \<and>
    (lw_files w path = None \<longleftrightarrow> (\<forall>t l. is_inside w t l \<longrightarrow> path_of w l \<noteq> Some path)) \<and>
    (lw_stack w s = r # rest \<and> fr_phase r = Waiting \<and> path_of w (fr_lock r) = Some path \<and> lw_thread_locks w (fst s) path = None \<and>
       (\<forall>t l. is_inside w t l \<longrightarrow> path_of w l \<noteq> Some path) \<longrightarrow>
     (\<exists>w'. lock_run w [Step s, Step s, Step s] = Some w' \<and> is_inside w' s (fr_lock r)))"
proof (intro conjI impI)
  note ok = locks_reachable_ok[OF reachable_run[OF locks_initial assms(2,1)]]
  show "t = t'" "l = l'" if "is_inside w t l \<and> is_inside w t' l' \<and> path_of w l = path_of w l'"
    using inside_unique[OF ok, of t l t' l'] that by simp_all
  show free: "lw_files w path = None \<longleftrightarrow> (\<forall>t l. is_inside w t l \<longrightarrow> path_of w l \<noteq> Some path)" by (rule free_iff[OF ok])
  assume h: "lw_stack w s = r # rest \<and> fr_phase r = Waiting \<and> path_of w (fr_lock r) = Some path \<and>
    lw_thread_locks w (fst s) path = None \<and> (\<forall>t l. is_inside w t l \<longrightarrow> path_of w l \<noteq> Some path)"
  then obtain f where "lw_locks w (fr_lock r) = Some f" "fl_path f = path" by (auto simp: path_of_def)
  then show "\<exists>w'. lock_run w [Step s, Step s, Step s] = Some w' \<and> is_inside w' s (fr_lock r)"
    using enters_free[of w s r rest f] free h by blast
qed

theorem process_lock_exclusive_witness:
  "\<exists>w. lock_run initial_locks contended_run = Some w \<and> is_inside w (0, 0) (0, 0) \<and> \<not> is_inside w (1, 0) (1, 0) \<and>
     (\<exists>w'. lock_run (crash w 0) [Step (1, 0), Step (1, 0), Step (1, 0)] = Some w' \<and> is_inside w' (1, 0) (1, 0))"
proof -
  obtain w where w: "lock_run initial_locks contended_run = Some w" "in_frames (lw_stack w (0, 0)) (0, 0)"
    "path_of w (0, 0) = path_of w (1, 0)"
  proof -
    have "case lock_run initial_locks contended_run of None \<Rightarrow> False
      | Some w \<Rightarrow> in_frames (lw_stack w (0, 0)) (0, 0) \<and> path_of w (0, 0) = path_of w (1, 0)" by code_simp
    then show ?thesis by (auto split: option.splits intro: that)
  qed
  have n: "never_nests initial_locks contended_run" by code_simp
  have in0: "is_inside w (0, 0) (0, 0)" using w(2) by (simp add: is_inside_def)
  have c: "lock_run initial_locks (contended_run @ [Crash 0]) = Some (crash w 0)" using w(1) by (simp add: lock_run_snoc lock_step_def)
  have nc: "never_nests initial_locks (contended_run @ [Crash 0])" by code_simp
  have "case lock_run initial_locks contended_run of None \<Rightarrow> False
      | Some w \<Rightarrow> (case lw_stack (crash w 0) (1, 0) of [r] \<Rightarrow> fr_phase r = Waiting \<and> fr_lock r = (1, 0) | _ \<Rightarrow> False) \<and>
          path_of (crash w 0) (1, 0) = Some [47] \<and> lw_thread_locks (crash w 0) 1 [47] = None \<and> lw_files (crash w 0) [47] = None"
    by code_simp
  with w(1) obtain r where r: "lw_stack (crash w 0) (1, 0) = [r]" "fr_phase r = Waiting" "fr_lock r = (1, 0)"
    "path_of (crash w 0) (1, 0) = Some [47]" "lw_thread_locks (crash w 0) 1 [47] = None" "lw_files (crash w 0) [47] = None"
    by (auto split: list.splits)
  have "\<not> is_inside w (1, 0) (1, 0)" using process_lock_exclusive[OF w(1) n, of "(0, 0)" "(0, 0)" "(1, 0)" "(1, 0)"] in0 w(3) by auto
  moreover have "\<exists>w'. lock_run (crash w 0) [Step (1, 0), Step (1, 0), Step (1, 0)] = Some w' \<and> is_inside w' (1, 0) (1, 0)"
    using process_lock_exclusive[OF c nc, of _ _ _ _ "[47]" "(1, 0)" r "[]"] r by simp
  ultimately show ?thesis using w(1) in0 by blast
qed

end
