(* ===== verification/Locked_Update.thy ===== *)
theory Locked_Update
  imports Coordination_Theorems
begin

text \<open>
  Why the file registry of epochs and the file index are modelled with one step for each change. Both read their
  file, compute and write it back inside the process lock. The locale \<open>exclusive_section\<close> states what they need of
  a lock, and shows that then no update is lost, however the reads and writes of the threads interleave; the
  process lock is its interpretation.
\<close>

section \<open>Reading and writing back\<close>

text \<open>A file with the threads that have read it since they were inside, and the updates that were written.\<close>

record ('w, 't, 'f) shared_file =
  sh_locks :: 'w
  sh_file :: 'f
  sh_read :: "'t \<Rightarrow> 'f option"
  sh_log :: "('f \<Rightarrow> 'f) list"

definition lock_moves :: "('w \<Rightarrow> 't \<Rightarrow> bool) \<Rightarrow> 'w \<Rightarrow> ('w, 't, 'f) shared_file \<Rightarrow> ('w, 't, 'f) shared_file" where
  "lock_moves held w s = s\<lparr>sh_locks := w, sh_read := (\<lambda>t. if held w t then sh_read s t else None)\<rparr>"

definition file_read :: "'t \<Rightarrow> ('w, 't, 'f) shared_file \<Rightarrow> ('w, 't, 'f) shared_file" where
  "file_read t s = s\<lparr>sh_read := (sh_read s)(t := Some (sh_file s))\<rparr>"

definition file_write :: "'t \<Rightarrow> ('f \<Rightarrow> 'f) \<Rightarrow> 'f \<Rightarrow> ('w, 't, 'f) shared_file \<Rightarrow> ('w, 't, 'f) shared_file" where
  "file_write t g x s = s\<lparr>sh_file := g x, sh_read := (sh_read s)(t := Some (g x)), sh_log := sh_log s @ [g]\<rparr>"

inductive shared_run :: "('w \<Rightarrow> 't \<Rightarrow> bool) \<Rightarrow> ('w \<Rightarrow> 'w \<Rightarrow> bool) \<Rightarrow> 'w \<Rightarrow> 'f \<Rightarrow> ('w, 't, 'f) shared_file \<Rightarrow> bool"
  for held step w0 f0 where
  shared_start: "shared_run held step w0 f0 \<lparr>sh_locks = w0, sh_file = f0, sh_read = (\<lambda>t. None), sh_log = []\<rparr>"
| shared_moves: "shared_run held step w0 f0 s \<Longrightarrow> step (sh_locks s) w' \<Longrightarrow> shared_run held step w0 f0 (lock_moves held w' s)"
| shared_read: "shared_run held step w0 f0 s \<Longrightarrow> held (sh_locks s) t \<Longrightarrow> shared_run held step w0 f0 (file_read t s)"
| shared_write: "shared_run held step w0 f0 s \<Longrightarrow> held (sh_locks s) t \<Longrightarrow> sh_read s t = Some x \<Longrightarrow>
    shared_run held step w0 f0 (file_write t g x s)"

locale exclusive_section =
  fixes held :: "'w \<Rightarrow> 't \<Rightarrow> bool" and step :: "'w \<Rightarrow> 'w \<Rightarrow> bool" and reach :: "'w \<Rightarrow> bool"
  assumes one: "reach w \<Longrightarrow> held w t \<Longrightarrow> held w t' \<Longrightarrow> t = t'"
    and keeps: "reach w \<Longrightarrow> step w w' \<Longrightarrow> reach w'"
begin

text \<open>What a thread has read is what the file holds, as long as it is inside. So every write applies its update to
  the file as it is, and the file is the result of the updates one after the other.\<close>

lemma no_lost_update:
  assumes "reach w0" "shared_run held step w0 f0 s"
  shows "reach (sh_locks s) \<and> (\<forall>t x. sh_read s t = Some x \<longrightarrow> held (sh_locks s) t \<and> x = sh_file s)
    \<and> sh_file s = fold (\<lambda>g x. g x) (sh_log s) f0"
  using assms(2)
proof (induction rule: shared_run.induct)
  case (shared_moves s w')
  then have "reach w'" using keeps by blast
  moreover from shared_moves have "\<And>t x. sh_read s t = Some x \<Longrightarrow> x = sh_file s" by blast
  ultimately show ?case using shared_moves by (simp add: lock_moves_def)
next
  case (shared_write s t x g)
  let ?s = "file_write t g x s"
  have IH: "reach (sh_locks s)" "sh_file s = fold (\<lambda>g x. g x) (sh_log s) f0" "x = sh_file s" using shared_write by blast+
  have "held (sh_locks s) t' \<and> y = g x" if "sh_read ?s t' = Some y" for t' y
  proof (cases "t' = t")
    case False
    with that have "held (sh_locks s) t'" using shared_write by (simp add: file_write_def)
    with one [OF IH(1) this shared_write(2)] False show ?thesis by simp
  qed (use that shared_write(2) in \<open>simp add: file_write_def\<close>)
  with IH show ?case by (simp add: file_write_def)
next
  case (shared_read s t)
  then have "\<And>t x. sh_read s t = Some x \<Longrightarrow> x = sh_file s" by blast
  with shared_read show ?case by (simp add: file_read_def)
qed (simp add: assms(1))

end

definition inside_path :: "pystr \<Rightarrow> locks_world \<Rightarrow> thread \<Rightarrow> bool" where
  "inside_path path w t \<longleftrightarrow> (\<exists>r\<in>set (lw_stack w t). fr_phase r = Inside \<and> path_of w (fr_lock r) = Some path)"

definition lock_moves_to :: "locks_world \<Rightarrow> locks_world \<Rightarrow> bool" where
  "lock_moves_to w w' \<longleftrightarrow> (\<exists>ev. enters_fresh_path w ev \<and> lock_step w ev = Some w')"

interpretation pl: exclusive_section "inside_path path" lock_moves_to locks_reachable
proof
  show "t = t'" if "locks_reachable w" "inside_path path w t" "inside_path path w t'" for w t t'
  proof -
    from that(2,3) obtain r r' where r: "r \<in> set (lw_stack w t)" "fr_phase r = Inside" "r' \<in> set (lw_stack w t')" "fr_phase r' = Inside"
      "path_of w (fr_lock r) = path_of w (fr_lock r')" by (auto simp: inside_path_def)
    then have "is_inside w t (fr_lock r)" "is_inside w t' (fr_lock r')" by (auto simp: is_inside_def in_frames_def)
    from inside_unique [OF locks_reachable_ok [OF that(1)] this r(5)] show ?thesis by simp
  qed
  show "locks_reachable w'" if "locks_reachable w" "lock_moves_to w w'" for w w'
    using that by (auto simp: lock_moves_to_def intro: locks_next)
qed

text \<open>Under the process lock, from a start where nobody is inside.\<close>

lemma locked_updates_serial:
  "shared_run (inside_path path) lock_moves_to initial_locks f0 s \<Longrightarrow> sh_file s = fold (\<lambda>g x. g x) (sh_log s) f0"
  by (simp add: pl.no_lost_update [OF locks_initial])

end
