(* ===== verification/Loaded_Values.thy ===== *)
theory Loaded_Values
  imports Raises
begin

text \<open>
  Every value that \<open>json.loads\<close> returns is well-formed: the keys of its dictionaries are distinct
  and its strings hold code points. So a loaded document that passes the profile's \<open>_validate\<close> can
  be written and read back.
\<close>

definition yields :: "('a \<Rightarrow> bool) \<Rightarrow> 'a result \<Rightarrow> bool" where
  "yields P m \<longleftrightarrow> (\<forall>x. m = Inr x \<longrightarrow> P x)"

named_theorems yields "the values of composed computations"

lemma yields_simps [yields]:
  "yields P (Inl e)" "yields P (Inr x) \<longleftrightarrow> P x" "yields P (rbind m f) \<longleftrightarrow> yields (\<lambda>x. yields P (f x)) m"
  "yields P (of_opt r) \<longleftrightarrow> (\<forall>x. r = Some x \<longrightarrow> P x)"
  by (cases m; cases r; simp add: yields_def of_opt_def)+

lemma yieldsD: "yields P m \<Longrightarrow> m = Inr x \<Longrightarrow> P x"
  by (simp add: yields_def)

lemma yields_mono: "yields P m \<Longrightarrow> (\<And>x. P x \<Longrightarrow> Q x) \<Longrightarrow> yields Q m"
  by (simp add: yields_def)

abbreviation code_points :: "pystr \<Rightarrow> bool" where
  "code_points s \<equiv> list_all code_point s"

lemma code_points_drop [simp]: "code_points s \<Longrightarrow> code_points (drop n s)" "code_points s \<Longrightarrow> code_points (dropWhile P s)"
  by (auto simp: list_all_iff dest: in_set_dropD set_dropWhileD)

lemma code_points_skip [simp]: "code_points s \<Longrightarrow> code_points (skip_ws s)"
  by (simp add: skip_ws_def)

lemma skip_ws_Cons: "skip_ws s = c # r \<Longrightarrow> code_points s \<Longrightarrow> code_points r"
  using code_points_skip [of s] by simp

lemma hex_val_range: "hex_val c = Some v \<Longrightarrow> 0 \<le> v \<and> v < 16"
  by (auto simp: hex_val_def split: if_splits)

lemma hex4_range: "hex4 a b c d = Some v \<Longrightarrow> 0 \<le> v \<and> v < 65536"
  by (auto simp: hex4_def split: option.splits dest!: hex_val_range)

lemma u_escape_points: "u_escape s = Some (v, r) \<Longrightarrow> code_points s \<Longrightarrow> 0 \<le> v \<and> v < 65536 \<and> code_points r"
  by (auto simp: u_escape_def split: list.splits dest!: hex4_range)

lemma join_surrogates_points:
  assumes "join_surrogates v r = Some (x, q)" "0 \<le> v" "v < 65536" "code_points r"
  shows "code_point x \<and> code_points q"
proof -
  have "code_points (drop 2 r)" using assms(4) by simp
  with assms show ?thesis
    by (auto simp: join_surrogates_def code_point_def split: if_splits option.splits dest!: u_escape_points)
qed

lemma str_char_points:
  assumes "str_char c r = Some (x, q)" "code_point c" "code_points r"
  shows "code_point x \<and> code_points q"
proof (cases "c = 92 \<and> r \<noteq> [] \<and> hd r = 117")
  case True
  then obtain r' where r: "r = 117 # r'" by (cases r) auto
  with assms True obtain v q' where "u_escape r' = Some (v, q')" "join_surrogates v q' = Some (x, q)"
    by (auto simp: str_char_def split: option.splits)
  with join_surrogates_points [of v q' x q] u_escape_points [of r' v q'] assms(3) show ?thesis by (simp add: r)
next
  case False
  with assms show ?thesis
    by (auto simp: str_char_def simple_escape_def code_point_def split: if_splits list.splits)
qed

lemma parse_str_points: "parse_str s = Some (t, r) \<Longrightarrow> code_points s \<Longrightarrow> code_points t \<and> code_points r"
proof (induction s arbitrary: t r rule: parse_str.induct)
  case (2 c s)
  then show ?case by (auto split: if_splits option.splits dest!: str_char_points)
qed simp

lemma parse_number_points:
  assumes "parse_number s = Some (v, r)" "code_points s"
  shows "wf_val v \<and> code_points r"
proof -
  have i: "code_points s2" if "int_part s1 = Some (ds, s2)" "code_points s1" for s1 ds s2
    using that by (auto simp: int_part_def split: list.splits if_splits)
  have f: "code_points (snd (frac_part s2))" if "code_points s2" for s2
    using that by (auto simp: frac_part_def split: list.split)
  have e: "code_points (snd (exp_part s3))" if "code_points s3" for s3
    using that by (auto simp: exp_part_def split: list.split)
  obtain s1 where s1: "code_points s1" "s1 = (case s of c # r \<Rightarrow> if c = 45 then r else s | _ \<Rightarrow> s)"
    using assms(2) by (cases s) auto
  from assms(1) obtain ds s2 where ds: "int_part s1 = Some (ds, s2)"
    unfolding s1(2) by (auto simp: parse_number_def Let_def split: list.splits if_splits option.splits)
  have c: "code_points (snd (exp_part (snd (frac_part s2))))" by (rule e [OF f [OF i [OF ds s1(1)]]])
  from assms(1) ds have "r = snd (exp_part (snd (frac_part s2))) \<and> wf_val v"
    unfolding s1(2) by (auto simp: parse_number_def Let_def split: list.splits if_splits option.splits prod.splits)
  with c show ?thesis by simp
qed

lemma parse_atom_points: "code_points s \<Longrightarrow> yields (\<lambda>(v, r). wf_val v \<and> code_points r) (parse_atom opts s)"
  by (auto simp: parse_atom_def yields split: option.split dest: parse_number_points)

lemma foldl_al_set_fst:
  "distinct (map fst acc) \<Longrightarrow> distinct (map fst (foldl (\<lambda>d (k, v). al_set d k v) acc ps))"
  by (induction ps arbitrary: acc) (auto simp: distinct_al_set)

lemma al_set_values: "(k', v') \<in> set (al_set d k v) \<Longrightarrow> (k', v') \<in> set d \<or> k' = k \<and> v' = v"
  by (induction d k v rule: al_set.induct) (auto split: if_splits)

lemma foldl_al_set_values:
  "p \<in> set (foldl (\<lambda>d (k, v). al_set d k v) acc ps) \<Longrightarrow> p \<in> set acc \<or> p \<in> set ps"
proof (induction ps arbitrary: acc)
  case (Cons a ps)
  obtain k v where a: "a = (k, v)" by fastforce
  from Cons.IH [of "al_set acc k v"] Cons.prems al_set_values [of "fst p" "snd p" acc k v] show ?case by (auto simp: a)
qed simp

lemma build_dict_wf:
  assumes "list_all (\<lambda>(k, v). (is_str k \<longrightarrow> code_points (str_of k)) \<and> wf_val v) ps"
  shows "yields wf_val (build_dict opts ps)"
  using assms foldl_al_set_fst [of "[]" ps] foldl_al_set_values [of _ "[]" ps]
  by (fastforce simp: build_dict_def yields list_all_iff)

lemma parse_points:
  "code_points s \<Longrightarrow> yields (\<lambda>(v, r). wf_val v \<and> code_points r) (parse_value opts n s)"
  "code_points s \<Longrightarrow> yields (\<lambda>(vs, r). list_all wf_val vs \<and> code_points r) (parse_elems opts n s)"
  "code_points s \<Longrightarrow> yields (\<lambda>(ps, r). list_all (\<lambda>(k, v). (is_str k \<longrightarrow> code_points (str_of k)) \<and> wf_val v) ps \<and> code_points r)
     (parse_members opts n s)"
proof (induction opts n s and opts n s and opts n s rule: parse_value_parse_elems_parse_members.induct)
  case (2 opts n s)
  show ?case
  proof (cases s)
    case (Cons c r)
    with 2(3) have r: "code_points r" "code_points (skip_ws r)" by simp_all
    note atom = parse_atom_points [OF 2(3), of opts]
    consider (str) "c = 34" | (list) "c = 91" | (dict) "c = 123" | (atom) "c \<noteq> 34" "c \<noteq> 91" "c \<noteq> 123" by blast
    then show ?thesis
    proof cases
      case str
      with r Cons show ?thesis by (auto simp: yields dest: parse_str_points)
    next
      case list
      show ?thesis
      proof (cases "skip_ws r")
        case (Cons d q)
        with r have "code_points q" by simp
        with 2(1) [OF \<open>s = c # r\<close> _ list Cons] list r Cons \<open>s = c # r\<close> show ?thesis
          by (auto simp: yields elim!: yields_mono)
      qed (simp add: \<open>s = c # r\<close> list yields)
    next
      case dict
      show ?thesis
      proof (cases "skip_ws r")
        case (Cons d q)
        with r have "code_points q" by simp
        with 2(2) [OF \<open>s = c # r\<close> _ _ dict Cons] dict r Cons \<open>s = c # r\<close> show ?thesis
          by (auto simp: yields elim!: yields_mono yields_mono [OF build_dict_wf])
      qed (simp add: \<open>s = c # r\<close> dict yields)
    next
      case atom
      with parse_atom_points [OF 2(3), of opts] Cons show ?thesis by simp
    qed
  qed (simp add: yields)
next
  case (4 opts n s)
  show ?case unfolding yields_def
  proof (intro allI impI)
    fix x
    assume run: "parse_elems opts (Suc n) s = Inr x"
    then obtain v b where v: "parse_value opts n s = Inr (v, b)" by (auto simp: rbind_Inr)
    with run obtain d q where b: "skip_ws b = d # q" by (cases "skip_ws b") auto
    from yieldsD [OF 4(1) [OF 4(3)] v] skip_ws_Cons [OF b] have q: "wf_val v" "code_points q" by simp_all
    show "case x of (vs, r) \<Rightarrow> list_all wf_val vs \<and> code_points r"
    proof (cases "d = 93")
      case False
      with run v b obtain xs q' where "d = 44" "parse_elems opts n (skip_ws q) = Inr (xs, q')" "x = (v # xs, q')"
        by (auto simp: rbind_Inr split: if_splits)
      with yieldsD [OF 4(2) [OF v refl b False]] q show ?thesis by simp
    qed (use run v b q in auto)
  qed
next
  case (6 opts n s)
  show ?case unfolding yields_def
  proof (intro allI impI)
    fix x
    assume run: "parse_members opts (Suc n) s = Inr x"
    then obtain c r where s: "s = c # r" "c = 34" by (cases s) (auto split: if_splits)
    with run obtain k r1 where k: "parse_str r = Some (k, r1)" by (auto simp: of_opt_def split: option.splits)
    with run s obtain r2 where r1: "skip_ws r1 = 58 # r2"
      by (cases "skip_ws r1") (auto simp: of_opt_def split: if_splits)
    with run s k obtain v r3 where v: "parse_value opts n (skip_ws r2) = Inr (v, r3)" by (auto simp: of_opt_def rbind_Inr)
    with run s k r1 obtain d q where r3: "skip_ws r3 = d # q" by (cases "skip_ws r3") (auto simp: of_opt_def)
    have k': "of_opt (parse_str r) = Inr (k, r1)" by (simp add: k of_opt_def)
    have kp: "code_points k" "code_points r2"
      using parse_str_points [OF k] skip_ws_Cons [OF r1] 6(3) s by simp_all
    note IH = 6(1) [OF s(1,2) k' refl r1 refl] 6(2) [OF s(1,2) k' refl r1 refl v refl r3]
    from yieldsD [OF IH(1) v] kp skip_ws_Cons [OF r3] have q: "wf_val v" "code_points q" by simp_all
    show "case x of (ps, r) \<Rightarrow> list_all (\<lambda>(k, v). (is_str k \<longrightarrow> code_points (str_of k)) \<and> wf_val v) ps \<and> code_points r"
    proof (cases "d = 125")
      case False
      with run s k r1 v r3 obtain ps q' where "d = 44" "parse_members opts n (skip_ws q) = Inr (ps, q')" "x = ((PyStr k, v) # ps, q')"
        by (auto simp: rbind_Inr of_opt_def split: if_splits)
      with yieldsD [OF IH(2) [OF False]] q kp show ?thesis by simp
    qed (use run s k r1 v r3 q kp in \<open>auto simp: of_opt_def\<close>)
  qed
qed (simp_all add: yields)

lemma loads_wf: "code_points s \<Longrightarrow> loads opts s = Inr v \<Longrightarrow> wf_val v"
  using parse_points(1) [of "skip_ws s" opts "Suc (length s)"]
  by (auto simp: loads_def rbind_Inr yields_def split: if_splits simp del: parse_value.simps)

lemma loads_bytes_wf: "loads_bytes opts b = Inr v \<Longrightarrow> wf_val v"
proof (cases "utf8_decode b")
  case (Some s)
  assume "loads_bytes opts b = Inr v"
  moreover have "code_points s" using utf8_decode_sound [OF Some] by (auto simp: list_all_iff scalar_def)
  ultimately show ?thesis using loads_wf Some by (simp add: loads_bytes_def)
qed (simp add: loads_bytes_def)

text \<open>The parts of a well-formed value are well-formed.\<close>

lemma wf_items: "wf_val d \<Longrightarrow> x \<in> set (items_of d) \<Longrightarrow> wf_val x"
  by (cases d) (auto simp: list_all_iff)

lemma wf_item: "wf_val d \<Longrightarrow> wf_val (item d k)"
proof (cases d)
  case (PyDict kvs)
  have "wf_val x" if "wf_val (PyDict kvs)" "(k', x) \<in> set kvs" for k' x
    using that by (auto simp: list_all_iff)
  then show "wf_val d \<Longrightarrow> wf_val (item d k)"
    using PyDict al_get_Some_in by (fastforce simp: item_def split: option.split)
qed (simp_all add: item_def)

lemma wf_str_of: "wf_val x \<Longrightarrow> code_points (str_of x)"
  by (cases x) simp_all

end
