(* ===== verification/Epochs.thy ===== *)
theory Epochs
  imports Complex_Main Loaded_Values Registries
begin

text \<open>
  The clear epochs of the execution cache (\<open>MemoryEpochRegistry\<close> and \<open>FilesystemEpochRegistry\<close> of
  \<open>execution_cache.py\<close>). A namespace is a tuple of strings. The filesystem registry is one file,
  replaced as a whole; its process lock makes every operation one step. The locale
  \<open>epoch_registry\<close> states what clearing promises, and both registries are interpreted in it.
\<close>

type_synonym namespace = "pystr list"

definition validate_namespace :: "pyval list \<Rightarrow> unit result" where
  "validate_namespace parts =
     guard (list_all nonempty_str parts) (ValueError ''namespace must be a tuple of non-empty strings'')"

text \<open>\<open>d.get(namespace, 0)\<close>, and \<open>d[namespace] = d.get(namespace, 0) + 1\<close>.\<close>

definition epoch_in :: "(namespace \<times> int) list \<Rightarrow> namespace \<Rightarrow> int" where
  "epoch_in d ns = (case al_get d ns of None \<Rightarrow> 0 | Some n \<Rightarrow> n)"

definition bump :: "(namespace \<times> int) list \<Rightarrow> namespace \<Rightarrow> (namespace \<times> int) list" where
  "bump d ns = al_set d ns (epoch_in d ns + 1)"

section \<open>In memory\<close>

record memory_epochs =
  me_global :: int
  me_namespaces :: "(namespace \<times> int) list"

definition new_memory_epochs :: memory_epochs where
  "new_memory_epochs = \<lparr>me_global = 0, me_namespaces = []\<rparr>"

definition me_epochs :: "memory_epochs \<Rightarrow> namespace \<Rightarrow> (int \<times> int) result" where
  "me_epochs s ns = Inr (me_global s, epoch_in (me_namespaces s) ns)"

definition me_rotate_all :: "memory_epochs \<Rightarrow> memory_epochs \<times> unit result" where
  "me_rotate_all s = (s\<lparr>me_global := me_global s + 1\<rparr>, Inr ())"

text \<open>The check is inside the loop: the namespaces before an invalid one have been rotated.\<close>

fun me_rotate_namespaces :: "memory_epochs \<Rightarrow> namespace list \<Rightarrow> memory_epochs \<times> unit result" where
  "me_rotate_namespaces s [] = (s, Inr ())"
| "me_rotate_namespaces s (ns # rest) =
     (case validate_namespace (map PyStr ns) of
        Inl e \<Rightarrow> (s, Inl e)
      | Inr _ \<Rightarrow> me_rotate_namespaces (s\<lparr>me_namespaces := bump (me_namespaces s) ns\<rparr>) rest)"

section \<open>In a file\<close>

text \<open>
  \<open>value == k\<close> in Python for \<open>k\<close> in 1, 2: an integer, True for 1, and every float literal whose
  nearest double is \<open>k\<close>, ties going to the even significand.
\<close>

definition exponent_val :: "pystr \<Rightarrow> int" where
  "exponent_val es =
     (case es of
        [] \<Rightarrow> 0
      | _ # r \<Rightarrow> (case r of
          [] \<Rightarrow> 0
        | c # ds \<Rightarrow> if c = 45 then - digits_val ds else if c = 43 then digits_val ds else digits_val r))"

definition float_val :: "pystr \<Rightarrow> rat option" where
  "float_val s =
     (let (neg, s1) = (case s of c # r \<Rightarrow> if c = 45 then (True, r) else (False, s) | _ \<Rightarrow> (False, s))
      in case int_part s1 of
           None \<Rightarrow> None
         | Some (ds, s2) \<Rightarrow>
             (let (fs, s3) = frac_part s2; (es, s4) = exp_part s3;
                  x = (of_int (digits_val (ds @ tl fs)) :: rat) * 10 powi (exponent_val es - int (length (tl fs)))
              in if s4 = [] then Some (if neg then - x else x) else None))"

fun equals_small :: "int \<Rightarrow> pyval \<Rightarrow> bool" where
  "equals_small k (PyInt i) = (i = k)"
| "equals_small k (PyBool b) = (b \<and> k = 1)"
| "equals_small k (PyFloat f) =
     (case float_val f of
        None \<Rightarrow> False
      | Some x \<Rightarrow> of_int k * (1 - 1 / 2 ^ 54) \<le> x \<and> x \<le> of_int k * (1 + 1 / 2 ^ 53))"
| "equals_small k _ = False"

definition check_epoch_entry :: "pyval \<Rightarrow> unit result" where
  "check_epoch_entry e =
     seq (guard (exact_keys e [''namespace'', ''epoch''] \<and> is_list (item e ''namespace'') \<and> is_int (item e ''epoch'')
                 \<and> 0 \<le> int_of (item e ''epoch'')) (ValueError ''execution cache namespace epoch is invalid''))
       (validate_namespace (items_of (item e ''namespace'')))"

definition check_epochs :: "pyval \<Rightarrow> unit result" where
  "check_epochs v =
     seq (guard (exact_keys v [''version'', ''global'', ''namespaces''] \<and> equals_small 1 (item v ''version'')
                 \<and> is_int (item v ''global'') \<and> 0 \<le> int_of (item v ''global'') \<and> is_list (item v ''namespaces''))
            (ValueError ''execution cache epoch registry is invalid''))
       (first_error (map check_epoch_entry (items_of (item v ''namespaces''))))"

definition no_epochs :: pyval where
  "no_epochs = obj [(''version'', PyInt 1), (''global'', PyInt 0), (''namespaces'', PyList [])]"

definition fe_read :: "fs_file option \<Rightarrow> pyval result" where
  "fe_read f =
     (case f of
        None \<Rightarrow> Inr no_epochs
      | Some f' \<Rightarrow>
          (case read_json f' of
             Inl e \<Rightarrow> if e = OSError \<or> e = UnicodeError \<or> e = JSONDecodeError
                      then Inl (ValueError ''execution cache epoch registry is unreadable'') else Inl e
           | Inr v \<Rightarrow> seq (check_epochs v) (Inr v)))"

definition fe_write :: "pyval \<Rightarrow> fs_file option result" where
  "fe_write v = rbind (canonical_json v) (\<lambda>data. Inr (Some (File data)))"

definition namespace_of :: "pyval \<Rightarrow> namespace" where
  "namespace_of e = map str_of (items_of (item e ''namespace''))"

definition fe_map :: "pyval \<Rightarrow> (namespace \<times> int) list" where
  "fe_map v = al_of (map (\<lambda>e. (namespace_of e, int_of (item e ''epoch''))) (items_of (item v ''namespaces'')))"

definition fe_epochs :: "fs_file option \<Rightarrow> namespace \<Rightarrow> (int \<times> int) result" where
  "fe_epochs f ns =
     seq (validate_namespace (map PyStr ns))
     (rbind (fe_read f) (\<lambda>v. Inr (int_of (item v ''global''), epoch_in (fe_map v) ns)))"

text \<open>A rotation that raises leaves the file as it was.\<close>

definition keep :: "'s \<Rightarrow> 's result \<Rightarrow> 's \<times> unit result" where
  "keep s m = (case m of Inl e \<Rightarrow> (s, Inl e) | Inr s' \<Rightarrow> (s', Inr ()))"

definition fe_rotate_all :: "fs_file option \<Rightarrow> fs_file option \<times> unit result" where
  "fe_rotate_all f =
     keep f (rbind (fe_read f) (\<lambda>v. fe_write (with_item v ''global'' (PyInt (int_of (item v ''global'') + 1)))))"

definition epoch_entry :: "namespace \<times> int \<Rightarrow> pyval" where
  "epoch_entry p = obj [(''namespace'', PyList (map PyStr (fst p))), (''epoch'', PyInt (snd p))]"

definition fe_rotate_namespaces :: "fs_file option \<Rightarrow> namespace list \<Rightarrow> fs_file option \<times> unit result" where
  "fe_rotate_namespaces f nss =
     keep f
       (seq (first_error (map (\<lambda>ns. validate_namespace (map PyStr ns)) nss))
        (rbind (fe_read f) (\<lambda>v.
           fe_write (with_item v ''namespaces''
             (PyList (map epoch_entry (sort_key fst (foldl bump (fe_map v) nss))))))))"

section \<open>What clearing promises\<close>

record 'e epoch_ops =
  ep_epochs :: "'e \<Rightarrow> namespace \<Rightarrow> (int \<times> int) result"
  ep_rotate_all :: "'e \<Rightarrow> 'e \<times> unit result"
  ep_rotate_namespaces :: "'e \<Rightarrow> namespace list \<Rightarrow> 'e \<times> unit result"

definition memory_epoch_ops :: "memory_epochs epoch_ops" where
  "memory_epoch_ops =
     \<lparr>ep_epochs = me_epochs, ep_rotate_all = me_rotate_all, ep_rotate_namespaces = me_rotate_namespaces\<rparr>"

definition file_epoch_ops :: "fs_file option epoch_ops" where
  "file_epoch_ops =
     \<lparr>ep_epochs = fe_epochs, ep_rotate_all = fe_rotate_all, ep_rotate_namespaces = fe_rotate_namespaces\<rparr>"

definition proper :: "namespace \<Rightarrow> bool" where
  "proper ns \<longleftrightarrow> (\<forall>part \<in> set ns. part \<noteq> [])"

lemma validate_namespace_ok [simp]: "validate_namespace (map PyStr ns) = Inr () \<longleftrightarrow> proper ns"
  by (simp add: validate_namespace_def list_all_iff nonempty_str_def proper_def)

lemma seq_proper [simp]: "proper ns \<Longrightarrow> seq (validate_namespace (map PyStr ns)) k = k"
  by (simp add: validate_namespace_ok [THEN iffD2])

text \<open>The strings of a namespace hold code points, as every Python string does.\<close>

definition text_namespace :: "namespace \<Rightarrow> bool" where
  "text_namespace ns \<longleftrightarrow> list_all code_points ns"

definition text_namespaces :: "namespace list option \<Rightarrow> bool" where
  "text_namespaces what = (case what of None \<Rightarrow> True | Some nss \<Rightarrow> list_all text_namespace nss)"

text \<open>\<open>clear\<close> of the bridge: all epochs, or those of some namespaces.\<close>

definition clear :: "'e epoch_ops \<Rightarrow> 'e \<Rightarrow> namespace list option \<Rightarrow> 'e \<times> unit result" where
  "clear ops e what = (case what of None \<Rightarrow> ep_rotate_all ops e | Some nss \<Rightarrow> ep_rotate_namespaces ops e nss)"

text \<open>The epochs of a namespace, as a pair that only grows.\<close>

definition later :: "'e epoch_ops \<Rightarrow> 'e \<Rightarrow> 'e \<Rightarrow> namespace \<Rightarrow> bool" where
  "later ops e e' ns \<longleftrightarrow>
     (\<exists>g n g' n'. ep_epochs ops e ns = Inr (g, n) \<and> ep_epochs ops e' ns = Inr (g', n') \<and> g \<le> g' \<and> n \<le> n')"

text \<open>
  The epochs of a registry, the calls that rotate them, and the states in which it can be read. A
  call that raises may have rotated some namespaces, but never turns an epoch back.
\<close>

locale epoch_registry =
  fixes ops :: "'e epoch_ops" and inv :: "'e \<Rightarrow> bool"
  assumes readable: "inv e \<Longrightarrow> proper ns \<Longrightarrow> \<exists>g n. ep_epochs ops e ns = Inr (g, n)"
    and rotate_all_ok: "inv e \<Longrightarrow> ep_rotate_all ops e = (e', Inr ()) \<Longrightarrow> proper ns \<Longrightarrow>
      ep_epochs ops e ns = Inr (g, n) \<Longrightarrow> ep_epochs ops e' ns = Inr (g + 1, n)"
    and rotate_all_fails: "inv e \<Longrightarrow> ep_rotate_all ops e = (e', Inl x) \<Longrightarrow> e' = e"
    and rotate_ok: "inv e \<Longrightarrow> list_all text_namespace nss \<Longrightarrow> ep_rotate_namespaces ops e nss = (e', Inr ()) \<Longrightarrow> proper ns \<Longrightarrow>
      ep_epochs ops e ns = Inr (g, n) \<Longrightarrow> ep_epochs ops e' ns = Inr (g, n + int (count_list nss ns))"
    and rotate_fails: "inv e \<Longrightarrow> ep_rotate_namespaces ops e nss = (e', Inl x) \<Longrightarrow> proper ns \<Longrightarrow>
      ep_epochs ops e ns = Inr (g, n) \<Longrightarrow> \<exists>n'. ep_epochs ops e' ns = Inr (g, n') \<and> n \<le> n'"
    and inv_rotate: "inv e \<Longrightarrow> inv (fst (ep_rotate_all ops e))"
      "inv e \<Longrightarrow> list_all text_namespace nss \<Longrightarrow> inv (fst (ep_rotate_namespaces ops e nss))"
begin

lemma inv_clear: "inv e \<Longrightarrow> text_namespaces what \<Longrightarrow> inv (fst (clear ops e what))"
  by (auto simp: clear_def text_namespaces_def inv_rotate split: option.splits)

lemma later_refl: "inv e \<Longrightarrow> proper ns \<Longrightarrow> later ops e e ns"
  using readable by (fastforce simp: later_def)

lemma later_trans: "later ops e e' ns \<Longrightarrow> later ops e' e'' ns \<Longrightarrow> later ops e e'' ns"
  by (fastforce simp: later_def)

lemma clear_later:
  assumes "inv e" "proper ns" "text_namespaces what"
  shows "later ops e (fst (clear ops e what)) ns"
proof -
  obtain g n where r: "ep_epochs ops e ns = Inr (g, n)" using readable [OF assms(1,2)] by blast
  obtain e' y where c: "clear ops e what = (e', y)" by fastforce
  show ?thesis
  proof (cases what)
    case None
    with c have "ep_rotate_all ops e = (e', y)" by (simp add: clear_def)
    with rotate_all_ok [OF assms(1) _ assms(2) r] rotate_all_fails [OF assms(1)] r show ?thesis
      by (cases y) (auto simp: later_def c)
  next
    case (Some nss)
    with c assms(3) have call: "ep_rotate_namespaces ops e nss = (e', y)" "list_all text_namespace nss"
      by (simp_all add: clear_def text_namespaces_def)
    show ?thesis
    proof (cases y)
      case (Inl x)
      with rotate_fails [OF assms(1) _ assms(2) r, of nss e'] call(1) obtain n' where "ep_epochs ops e' ns = Inr (g, n')" "n \<le> n'"
        by blast
      with r show ?thesis by (simp add: later_def c)
    next
      case (Inr x)
      with rotate_ok [OF assms(1) call(2) _ assms(2) r] call(1) r show ?thesis by (auto simp: later_def c)
    qed
  qed
qed

lemma clear_advances:
  assumes "inv e" "clear ops e what = (e', Inr ())" "proper ns" "what = None \<or> (\<exists>nss. what = Some nss \<and> ns \<in> set nss)"
    and "text_namespaces what"
  shows "\<exists>g n g' n'. ep_epochs ops e ns = Inr (g, n) \<and> ep_epochs ops e' ns = Inr (g', n') \<and> g \<le> g' \<and> n \<le> n' \<and> (g, n) \<noteq> (g', n')"
proof -
  obtain g n where r: "ep_epochs ops e ns = Inr (g, n)" using readable [OF assms(1,3)] by blast
  show ?thesis
  proof (cases what)
    case None
    with assms(2) rotate_all_ok [OF assms(1) _ assms(3) r] r show ?thesis by (simp add: clear_def)
  next
    case (Some nss)
    with assms(4) have "0 < count_list nss ns" by (simp add: count_list_0_iff zero_less_iff_neq_zero)
    with Some assms(2,5) rotate_ok [OF assms(1) _ _ assms(3) r] r show ?thesis by (simp add: clear_def text_namespaces_def)
  qed
qed

text \<open>After a clear, whatever is cleared later, the former epochs never come back.\<close>

lemma cleared_for_good:
  assumes "inv e" "clear ops e what = (e1, Inr ())" "proper ns" "what = None \<or> (\<exists>nss. what = Some nss \<and> ns \<in> set nss)"
    and "\<forall>w \<in> set (what # ws). text_namespaces w" "e' = foldl (\<lambda>e w. fst (clear ops e w)) e1 ws"
  shows "\<exists>p p'. ep_epochs ops e ns = Inr p \<and> ep_epochs ops e' ns = Inr p' \<and> p \<noteq> p'"
proof -
  have inv1: "inv e1" using inv_clear [OF assms(1), of what] assms(2,5) by simp
  have "later ops e1 (foldl (\<lambda>e w. fst (clear ops e w)) e1 ws) ns \<and> inv (foldl (\<lambda>e w. fst (clear ops e w)) e1 ws)"
    using assms(5)
  proof (induction ws rule: rev_induct)
    case Nil
    then show ?case using later_refl inv1 assms(3) by simp
  next
    case (snoc w ws)
    then show ?case using later_trans clear_later [OF _ assms(3)] inv_clear by simp blast
  qed
  with clear_advances [OF assms(1-4)] assms(5) show ?thesis unfolding assms(6) later_def by fastforce
qed

end

section \<open>The registry in memory\<close>

lemma epoch_bump: "epoch_in (bump d ns) ns' = epoch_in d ns' + (if ns' = ns then 1 else 0)"
  by (simp add: epoch_in_def bump_def)

lemma epoch_bumps: "epoch_in (foldl bump d nss) ns = epoch_in d ns + int (count_list nss ns)"
  by (induction nss arbitrary: d) (auto simp: epoch_bump)

lemma me_rotate_namespaces_ok:
  "me_rotate_namespaces s nss = (s', Inr ()) \<Longrightarrow> s' = s\<lparr>me_namespaces := foldl bump (me_namespaces s) nss\<rparr>"
  by (induction s nss rule: me_rotate_namespaces.induct) (auto split: sum.splits)

lemma me_rotate_namespaces_later:
  "me_rotate_namespaces s nss = (s', r) \<Longrightarrow>
     me_global s' = me_global s \<and> epoch_in (me_namespaces s) ns \<le> epoch_in (me_namespaces s') ns"
proof (induction s nss rule: me_rotate_namespaces.induct)
  case (2 s n rest)
  show ?case
  proof (cases "validate_namespace (map PyStr n)")
    case (Inr x)
    with 2(1) [OF Inr] 2(2) epoch_bump [of "me_namespaces s" n ns] show ?thesis by (auto split: if_splits)
  qed (use 2(2) in simp)
qed simp

interpretation me: epoch_registry memory_epoch_ops "\<lambda>_. True"
  using me_rotate_namespaces_later
  by unfold_locales (auto simp: memory_epoch_ops_def me_epochs_def me_rotate_all_def epoch_bumps dest!: me_rotate_namespaces_ok)

section \<open>The registry in a file\<close>

lemma checks_entry [checks]: "check_epoch_entry e = Inr () \<longleftrightarrow>
    exact_keys e [''namespace'', ''epoch''] \<and> is_list (item e ''namespace'') \<and> is_int (item e ''epoch'')
    \<and> 0 \<le> int_of (item e ''epoch'') \<and> list_all nonempty_str (items_of (item e ''namespace''))"
  by (auto simp: check_epoch_entry_def validate_namespace_def checks)

lemma checks_epochs [checks]: "check_epochs v = Inr () \<longleftrightarrow>
    exact_keys v [''version'', ''global'', ''namespaces''] \<and> equals_small 1 (item v ''version'') \<and> is_int (item v ''global'')
    \<and> 0 \<le> int_of (item v ''global'') \<and> is_list (item v ''namespaces'')
    \<and> (\<forall>e \<in> set (items_of (item v ''namespaces'')). check_epoch_entry e = Inr ())"
  by (auto simp: check_epochs_def checks first_error_Inr)

lemma equals_small_norm [simp]: "equals_small k (norm v) = equals_small k v"
  by (cases v) simp_all

lemma jsonable_list_item: "jsonable v \<Longrightarrow> x \<in> set (items_of v) \<Longrightarrow> jsonable x"
  by (cases v) (auto simp: jsonable_simps)

lemma check_epoch_entry_norm: "jsonable e \<Longrightarrow> check_epoch_entry (norm e) = Inr () \<longleftrightarrow> check_epoch_entry e = Inr ()"
  by (simp add: checks_entry item_norm list_all_iff)

lemma check_epochs_norm:
  assumes "jsonable v"
  shows "check_epochs (norm v) = Inr () \<longleftrightarrow> check_epochs v = Inr ()"
proof -
  have "jsonable e" if "e \<in> set (items_of (item v ''namespaces''))" for e
    using that assms jsonable_item jsonable_list_item by blast
  then show ?thesis using assms by (auto simp: checks_epochs item_norm check_epoch_entry_norm)
qed

lemma fe_map_norm:
  assumes "jsonable v"
  shows "fe_map (norm v) = fe_map v"
proof -
  have j: "jsonable e" if "e \<in> set (items_of (item v ''namespaces''))" for e
    using that assms jsonable_item jsonable_list_item by blast
  have "namespace_of (norm e) = namespace_of e \<and> int_of (item (norm e) ''epoch'') = int_of (item e ''epoch'')" if "jsonable e" for e
    using that by (simp add: namespace_of_def item_norm comp_def)
  with j assms show ?thesis by (simp add: fe_map_def item_norm comp_def cong: map_cong)
qed

lemma no_epochs_read: "check_epochs no_epochs = Inr ()" "wf_val no_epochs"
proof -
  have "exact_keys no_epochs [''version'', ''global'', ''namespaces'']" unfolding no_epochs_def exact_keys_obj by simp
  then show "check_epochs no_epochs = Inr ()" unfolding checks_epochs by (simp add: no_epochs_def)
  show "wf_val no_epochs" by (simp add: no_epochs_def)
qed

lemma fe_read_Inr: "fe_read f = Inr v \<Longrightarrow> check_epochs v = Inr () \<and> wf_val v"
  using no_epochs_read by (auto simp: fe_read_def read_json_def seq_Inr loads_bytes_wf split: option.splits sum.splits fs_file.splits if_splits)

text \<open>What is written is what is read next, up to the order of keys.\<close>

lemma fe_write_read:
  assumes "fe_write v = Inr f" "wf_val v" "check_epochs v = Inr ()"
  shows "jsonable v \<and> fe_read f = Inr (norm v)"
proof -
  from assms(1) obtain b where b: "canonical_json v = Inr b" "f = Some (File b)" by (auto simp: fe_write_def rbind_Inr)
  with assms(2) have j: "jsonable v" by (simp add: canonical_json_Inr)
  have "read_json (File b) = Inr (norm v)" using loads_canonical [OF assms(2) b(1)] by (simp add: read_json_def)
  moreover have "check_epochs (norm v) = Inr ()" using check_epochs_norm [OF j] assms(3) by simp
  ultimately show ?thesis using j by (simp add: fe_read_def b(2))
qed

lemma keep_cases: "keep f m = (f', r) \<Longrightarrow> (r = Inr () \<and> m = Inr f') \<or> (\<exists>e. r = Inl e \<and> m = Inl e \<and> f' = f)"
  by (cases m) (auto simp: keep_def)

lemma wf_with_item:
  assumes "is_dict v" "wf_val v" "wf_val x"
  shows "wf_val (with_item v k x)"
proof -
  obtain kvs where v: "v = PyDict kvs" using assms(1) by (cases v) auto
  have "list_all code_point (u k)" by simp
  with assms v distinct_al_set [of kvs "S k" x] al_set_values [of _ _ kvs "S k" x] show ?thesis
    by (fastforce simp: with_item_def list_all_iff)
qed

lemma fe_rotate_all_ok:
  assumes "fe_rotate_all f = (f', Inr ())"
  shows "\<exists>v v'. fe_read f = Inr v \<and> fe_read f' = Inr v' \<and> int_of (item v' ''global'') = int_of (item v ''global'') + 1
    \<and> fe_map v' = fe_map v"
proof -
  from keep_cases [OF assms [unfolded fe_rotate_all_def]] obtain v where v: "fe_read f = Inr v"
    and w: "fe_write (with_item v ''global'' (PyInt (int_of (item v ''global'') + 1))) = Inr f'"
    by (auto simp: rbind_Inr)
  let ?v = "with_item v ''global'' (PyInt (int_of (item v ''global'') + 1))"
  note ok = fe_read_Inr [OF v, unfolded checks_epochs]
  have "is_dict v" using ok by (simp add: exact_keys_def)
  then have "wf_val ?v" using ok by (intro wf_with_item) simp_all
  moreover have "check_epochs ?v = Inr ()" using ok by (simp add: checks_epochs exact_keys_with_item)
  ultimately have r: "jsonable ?v" "fe_read f' = Inr (norm ?v)" using fe_write_read [OF w] by simp_all
  have "fe_map ?v = fe_map v" by (simp add: fe_map_def)
  with v r show ?thesis by (simp add: item_norm fe_map_norm)
qed

lemma namespace_of_entry [simp]: "namespace_of (epoch_entry p) = fst p" "int_of (item (epoch_entry p) ''epoch'') = snd p"
  by (simp_all add: namespace_of_def epoch_entry_def comp_def)

text \<open>The dictionary of the namespaces after a rotation: proper names, epochs that are not negative.\<close>

definition epochs_ok :: "(namespace \<times> int) list \<Rightarrow> bool" where
  "epochs_ok d \<longleftrightarrow> distinct (map fst d) \<and> (\<forall>(ns, n) \<in> set d. proper ns \<and> 0 \<le> n \<and> text_namespace ns)"

lemma epochs_ok_set: "epochs_ok d \<Longrightarrow> proper ns \<Longrightarrow> 0 \<le> n \<Longrightarrow> text_namespace ns \<Longrightarrow> epochs_ok (al_set d ns n)"
  by (auto simp: epochs_ok_def distinct_al_set dest!: al_set_values)

lemma epoch_in_nonneg: "epochs_ok d \<Longrightarrow> 0 \<le> epoch_in d ns"
  by (auto simp: epochs_ok_def epoch_in_def split: option.split dest!: al_get_Some_in)

lemma epochs_ok_bumps:
  "epochs_ok d \<Longrightarrow> \<forall>ns \<in> set nss. proper ns \<and> text_namespace ns \<Longrightarrow> epochs_ok (foldl bump d nss)"
proof (induction nss arbitrary: d)
  case (Cons ns nss)
  from Cons.prems epoch_in_nonneg [OF Cons.prems(1), of ns] have "epochs_ok (bump d ns)"
    unfolding bump_def by (intro epochs_ok_set) auto
  with Cons show ?case by simp
qed simp

lemma fe_map_text:
  assumes "fe_read f = Inr v"
  shows "epochs_ok (fe_map v)"
proof -
  note ok = fe_read_Inr [OF assms, unfolded checks_epochs checks_entry]
  have "proper (namespace_of e) \<and> 0 \<le> int_of (item e ''epoch'') \<and> text_namespace (namespace_of e)"
    if e: "e \<in> set (items_of (item v ''namespaces''))" for e
  proof -
    have w: "wf_val x" if "x \<in> set (items_of (item e ''namespace''))" for x
      using that e ok wf_item wf_items by blast
    have n: "nonempty_str x" if "x \<in> set (items_of (item e ''namespace''))" for x
      using that e ok by (auto simp: list_all_iff)
    have "code_points (str_of x) \<and> str_of x \<noteq> []" if "x \<in> set (items_of (item e ''namespace''))" for x
      using w [OF that] n [OF that] by (cases x) (simp_all add: nonempty_str_def)
    with e ok show ?thesis by (auto simp: proper_def text_namespace_def namespace_of_def list_all_iff)
  qed
  then have ps: "proper ns \<and> 0 \<le> n \<and> text_namespace ns"
    if "(ns, n) \<in> set (map (\<lambda>e. (namespace_of e, int_of (item e ''epoch''))) (items_of (item v ''namespaces'')))" for ns n
    using that by auto
  show ?thesis unfolding epochs_ok_def fe_map_def al_of_def
    using foldl_al_set_fst [of "[]"] ps foldl_al_set_values [of _ "[]"] by fastforce
qed

lemma epochs_ok_sort: "epochs_ok d \<Longrightarrow> epochs_ok (sort_key fst d) \<and> al_get (sort_key fst d) = al_get d"
proof
  assume d: "epochs_ok d"
  then have s: "distinct (map fst (sort_key fst d))" by (simp add: epochs_ok_def distinct_map)
  with d show "epochs_ok (sort_key fst d)" by (simp add: epochs_ok_def)
  show "al_get (sort_key fst d) = al_get d"
  proof
    fix k
    have "al_get (sort_key fst d) k = Some v \<longleftrightarrow> al_get d k = Some v" for v
      using al_get_distinct [OF s, of k v] al_get_distinct [of d k v] d by (simp add: epochs_ok_def)
    then show "al_get (sort_key fst d) k = al_get d k" by (metis option.exhaust)
  qed
qed

lemma entries_map:
  assumes "epochs_ok d"
  shows "al_get (al_of (map (\<lambda>e. (namespace_of e, int_of (item e ''epoch''))) (map epoch_entry (sort_key fst d)))) = al_get d"
proof -
  have "map (\<lambda>e. (namespace_of e, int_of (item e ''epoch''))) (map epoch_entry (sort_key fst d)) = sort_key fst d"
    by (simp add: comp_def)
  with epochs_ok_sort [OF assms] show ?thesis by (simp only:) (simp add: al_of_distinct epochs_ok_def)
qed

lemma epoch_entry_ok: "proper (fst p) \<Longrightarrow> 0 \<le> snd p \<Longrightarrow> check_epoch_entry (epoch_entry p) = Inr ()"
proof -
  have "exact_keys (epoch_entry p) [''namespace'', ''epoch'']" unfolding epoch_entry_def exact_keys_obj by simp
  then show "proper (fst p) \<Longrightarrow> 0 \<le> snd p \<Longrightarrow> check_epoch_entry (epoch_entry p) = Inr ()"
    by (auto simp: checks_entry epoch_entry_def list_all_iff nonempty_str_def proper_def)
qed

lemma wf_epoch_entry: "text_namespace (fst p) \<Longrightarrow> wf_val (epoch_entry p)"
  by (simp add: epoch_entry_def text_namespace_def list.pred_map comp_def)

lemma fe_rotate_namespaces_ok:
  assumes "fe_rotate_namespaces f nss = (f', Inr ())" "list_all text_namespace nss"
  shows "\<exists>v v'. fe_read f = Inr v \<and> fe_read f' = Inr v' \<and> int_of (item v' ''global'') = int_of (item v ''global'')
    \<and> al_get (fe_map v') = al_get (foldl bump (fe_map v) nss)"
proof -
  from keep_cases [OF assms(1) [unfolded fe_rotate_namespaces_def]] obtain v where v: "fe_read f = Inr v"
    and nss: "\<forall>ns \<in> set nss. proper ns"
    and w: "fe_write (with_item v ''namespaces'' (PyList (map epoch_entry (sort_key fst (foldl bump (fe_map v) nss))))) = Inr f'"
    by (auto simp: rbind_Inr seq_Inr first_error_Inr)
  let ?d = "foldl bump (fe_map v) nss"
  let ?v = "with_item v ''namespaces'' (PyList (map epoch_entry (sort_key fst ?d)))"
  note ok = fe_read_Inr [OF v, unfolded checks_epochs]
  have d: "epochs_ok ?d" by (rule epochs_ok_bumps [OF fe_map_text [OF v]]) (use nss assms(2) in \<open>simp add: list_all_iff\<close>)
  have "is_dict v" using ok by (simp add: exact_keys_def)
  moreover have "wf_val (PyList (map epoch_entry (sort_key fst ?d)))"
    using d wf_epoch_entry by (auto simp: list_all_iff epochs_ok_def simp del: wf_val.simps) (auto simp: list_all_iff)
  ultimately have "wf_val ?v" using ok by (intro wf_with_item) simp_all
  moreover have "check_epochs ?v = Inr ()"
    using ok d epoch_entry_ok by (fastforce simp: checks_epochs exact_keys_with_item epochs_ok_def)
  ultimately have r: "jsonable ?v" "fe_read f' = Inr (norm ?v)" using fe_write_read [OF w] by simp_all
  have "al_get (fe_map ?v) = al_get ?d" using entries_map [OF d] by (simp add: fe_map_def)
  with v r show ?thesis by (simp add: item_norm fe_map_norm)
qed

interpretation fe: epoch_registry file_epoch_ops "\<lambda>f. ok (fe_read f)"
proof
  show "ok (fe_read f) \<Longrightarrow> proper ns \<Longrightarrow> \<exists>g n. ep_epochs file_epoch_ops f ns = Inr (g, n)" for f ns
    by (auto simp: file_epoch_ops_def fe_epochs_def ok_iff)
  show "ok (fe_read f) \<Longrightarrow> ep_rotate_all file_epoch_ops f = (f', Inr ()) \<Longrightarrow> proper ns \<Longrightarrow>
      ep_epochs file_epoch_ops f ns = Inr (g, n) \<Longrightarrow> ep_epochs file_epoch_ops f' ns = Inr (g + 1, n)" for f f' ns g n
    by (auto simp: file_epoch_ops_def fe_epochs_def dest!: fe_rotate_all_ok)
  show "ok (fe_read f) \<Longrightarrow> ep_rotate_all file_epoch_ops f = (f', Inl x) \<Longrightarrow> f' = f" for f f' x
    using keep_cases by (fastforce simp: file_epoch_ops_def fe_rotate_all_def)
  show "ok (fe_read f) \<Longrightarrow> list_all text_namespace nss \<Longrightarrow> ep_rotate_namespaces file_epoch_ops f nss = (f', Inr ()) \<Longrightarrow>
      proper ns \<Longrightarrow> ep_epochs file_epoch_ops f ns = Inr (g, n) \<Longrightarrow>
      ep_epochs file_epoch_ops f' ns = Inr (g, n + int (count_list nss ns))" for f f' nss ns g n
    using epoch_bumps [of _ nss ns]
    by (auto simp: file_epoch_ops_def fe_epochs_def epoch_in_def dest!: fe_rotate_namespaces_ok)
  show "ok (fe_read f) \<Longrightarrow> ep_rotate_namespaces file_epoch_ops f nss = (f', Inl x) \<Longrightarrow> proper ns \<Longrightarrow>
      ep_epochs file_epoch_ops f ns = Inr (g, n) \<Longrightarrow> \<exists>n'. ep_epochs file_epoch_ops f' ns = Inr (g, n') \<and> n \<le> n'" for f f' nss ns g n x
    using keep_cases by (fastforce simp: file_epoch_ops_def fe_rotate_namespaces_def)
  show "ok (fe_read f) \<Longrightarrow> ok (fe_read (fst (ep_rotate_all file_epoch_ops f)))" for f
  proof -
    assume f: "ok (fe_read f)"
    obtain f' r where c: "fe_rotate_all f = (f', r)" by fastforce
    with keep_cases [OF c [unfolded fe_rotate_all_def]] fe_rotate_all_ok [of f f'] f show ?thesis
      by (cases r) (auto simp: file_epoch_ops_def ok_iff)
  qed
  show "ok (fe_read f) \<Longrightarrow> list_all text_namespace nss \<Longrightarrow> ok (fe_read (fst (ep_rotate_namespaces file_epoch_ops f nss)))" for f nss
  proof -
    assume f: "ok (fe_read f)" "list_all text_namespace nss"
    obtain f' r where c: "fe_rotate_namespaces f nss = (f', r)" by fastforce
    with keep_cases [OF c [unfolded fe_rotate_namespaces_def]] fe_rotate_namespaces_ok [of f nss f'] f show ?thesis
      by (cases r) (auto simp: file_epoch_ops_def ok_iff)
  qed
qed

end
