(* ===== verification/Execution_Cache.thy ===== *)
theory Execution_Cache
  imports Epochs Cache
begin

text \<open>
  The execution cache bridge (\<open>execution_cache.py\<close>): the binary envelope of a cached value, the
  action that stands for a cache key, and \<open>get\<close>, \<open>set\<close> and \<open>clear\<close>. The stores are read through
  views and written through \<open>store_ops\<close>; the epoch registry is one of \<open>Epochs\<close>.
\<close>

section \<open>Keys and values\<close>

definition value_media_type :: pystr where
  "value_media_type = u ''application/vnd.oncemesh.execution-cache-value-v1''"

definition max_type_tag_bytes :: int where
  "max_type_tag_bytes = 1024"

record cache_key =
  ck_namespace :: namespace
  ck_key :: pystr

definition new_cache_key :: "pyval list \<Rightarrow> pyval \<Rightarrow> cache_key result" where
  "new_cache_key namespace key =
     seq (first_error
       [guard (list_all nonempty_str namespace) (ValueError ''namespace must be a tuple of non-empty strings''),
        guard (nonempty_str key) (ValueError ''key must be a non-empty string'')])
     (Inr \<lparr>ck_namespace = map str_of namespace, ck_key = str_of key\<rparr>)"

record encoded_value =
  xv_type_tag :: pystr
  xv_payload :: bytes

definition validate_type_tag :: "pystr \<Rightarrow> bytes result" where
  "validate_type_tag type_tag =
     (if type_tag = [] then Inl (ValueError ''type tag must be a non-empty string'')
      else rbind (utf8_encode type_tag) (\<lambda>encoded.
        if max_type_tag_bytes < int (length encoded) \<or> 0 \<in> set type_tag
        then Inl (ValueError ''type tag is invalid'') else Inr encoded))"

definition new_encoded_value :: "pystr \<Rightarrow> bytes \<Rightarrow> encoded_value result" where
  "new_encoded_value type_tag payload =
     seq (discard (validate_type_tag type_tag)) (Inr \<lparr>xv_type_tag = type_tag, xv_payload = payload\<rparr>)"

section \<open>The envelope\<close>

text \<open>\<open>n.to_bytes(4, "big")\<close> and \<open>int.from_bytes(b, "big")\<close>\<close>

definition to_bytes4 :: "int \<Rightarrow> bytes" where
  "to_bytes4 n = map byte [n div 16777216 mod 256, n div 65536 mod 256, n div 256 mod 256, n mod 256]"

definition from_bytes :: "bytes \<Rightarrow> int" where
  "from_bytes b = foldl (\<lambda>n x. 256 * n + uint x) 0 b"

definition pack_execution_value :: "encoded_value \<Rightarrow> bytes result" where
  "pack_execution_value v =
     rbind (validate_type_tag (xv_type_tag v)) (\<lambda>tag. Inr (to_bytes4 (int (length tag)) @ tag @ xv_payload v))"

definition unpack_execution_value :: "bytes \<Rightarrow> encoded_value result" where
  "unpack_execution_value data =
     (if length data < 5 then Inl (ValueError ''execution cache value envelope is truncated'')
      else
        let tag_size = from_bytes (take 4 data)
        in if tag_size < 1 \<or> max_type_tag_bytes < tag_size \<or> int (length data) < 4 + tag_size
           then Inl (ValueError ''execution cache value envelope has an invalid type tag length'')
           else
             (case utf8_decode (take (nat tag_size) (drop 4 data)) of
                None \<Rightarrow> Inl (ValueError ''execution cache value type tag is not UTF-8'')
              | Some tag \<Rightarrow> new_encoded_value tag (drop (4 + nat tag_size) data)))"

section \<open>The bridge\<close>

record bridge =
  br_runtime :: pystr
  br_serializer :: pystr
  br_partition :: pystr
  br_producer :: pystr
  br_enabled :: bool

text \<open>
  The constructor's checks. Of the stores it looks at whether there are any and at their
  \<open>federation_import_only\<close> attributes, the last one being that of \<open>publish_to\<close>.
\<close>

definition new_bridge :: "pyval \<Rightarrow> pyval \<Rightarrow> pyval \<Rightarrow> pyval \<Rightarrow> bool list \<Rightarrow> bool \<Rightarrow> bool \<Rightarrow> bridge result" where
  "new_bridge runtime serializer authorization producer import_only publish_import_only enabled =
     seq (first_error
       [guard (nonempty_str runtime) (ValueError ''runtime must be a non-empty string''),
        guard (nonempty_str serializer) (ValueError ''serializer must be a non-empty string''),
        validate_authorization_partition authorization,
        guard (nonempty_str producer) (ValueError ''producer must be a non-empty string''),
        guard (import_only \<noteq> []) (ValueError ''at least one execution cache read store is required''),
        guard (\<not> list_ex id (import_only @ [publish_import_only]))
          (ValueError ''generic execution cache values cannot use a federation store'')])
     (Inr \<lparr>br_runtime = str_of runtime, br_serializer = str_of serializer, br_partition = str_of authorization,
           br_producer = str_of producer, br_enabled = enabled\<rparr>)"

definition set_enabled :: "bridge \<Rightarrow> bool \<Rightarrow> bridge" where
  "set_enabled B enabled = B\<lparr>br_enabled := enabled\<rparr>"

definition action_of :: "bridge \<Rightarrow> cache_key \<Rightarrow> int \<times> int \<Rightarrow> pyval" where
  "action_of B key epochs =
     obj [(''spec_version'', S ''oncemesh.action/v0''),
          (''operation'', obj [(''name'', S ''framework.execution-cache''), (''version'', S ''1'')]),
          (''inputs'', obj [(''runtime'', PyStr (br_runtime B)),
             (''namespace'', PyList (map PyStr (ck_namespace key))), (''key'', PyStr (ck_key key))]),
          (''executor'', obj [(''name'', S ''oncemesh.execution-cache-bridge''), (''version'', S ''0''),
             (''config'', obj [(''serializer'', PyStr (br_serializer B)), (''global_epoch'', PyInt (fst epochs)),
                (''namespace_epoch'', PyInt (snd epochs))])]),
          (''output_schema'', S ''oncemesh.execution-cache-value/v1''),
          (''vary'', obj [(''authorization_partition'', PyStr (br_partition B))])]"

definition action_for :: "'e epoch_ops \<Rightarrow> bridge \<Rightarrow> 'e \<Rightarrow> cache_key \<Rightarrow> pyval result" where
  "action_for eops B e key = rbind (ep_epochs eops e (ck_namespace key)) (\<lambda>epochs. Inr (action_of B key epochs))"

definition bridge_now :: "datetime \<Rightarrow> int result" where
  "bridge_now clock =
     (case clock of
        Aware t \<Rightarrow> Inr t
      | Naive _ \<Rightarrow> Inl (ValueError ''execution cache clock must return a timezone-aware datetime''))"

definition bridge_policy :: "bridge \<Rightarrow> int \<Rightarrow> policy" where
  "bridge_policy B now =
     (default_policy now)\<lparr>p_trusted_producers := Some {br_producer B}, p_permit_no_expiry := True\<rparr>"

text \<open>What a hit holds, if it is one well-formed value artifact.\<close>

definition decode_hit :: "lookup_outcome \<Rightarrow> encoded_value option" where
  "decode_hit out =
     (if fst ` set (lo_artifacts out) \<noteq> {u ''value''} then None
      else
        (case (lo_manifest out, al_get (lo_artifacts out) (u ''value'')) of
           (Some m, Some data) \<Rightarrow>
             let descriptor = hd (artifacts_of m)
             in if item descriptor ''name'' \<noteq> S ''value'' \<or> item descriptor ''media_type'' \<noteq> PyStr value_media_type
                then None
                else (case unpack_execution_value data of Inl _ \<Rightarrow> None | Inr v \<Rightarrow> Some v)
         | _ \<Rightarrow> None))"

definition get_one :: "'e epoch_ops \<Rightarrow> bridge \<Rightarrow> 'e \<Rightarrow> store_view list \<Rightarrow> int \<Rightarrow> cache_key \<Rightarrow> encoded_value option result" where
  "get_one eops B e stores now key =
     (case rbind (action_for eops B e key) (\<lambda>action. reuse action stores (bridge_policy B now)) of
        Inl (StoreReadError _) \<Rightarrow> Inr None
      | Inl x \<Rightarrow> Inl x
      | Inr out \<Rightarrow> Inr (if lo_hit out then decode_hit out else None))"

fun get_all ::
  "'e epoch_ops \<Rightarrow> bridge \<Rightarrow> 'e \<Rightarrow> store_view list \<Rightarrow> int \<Rightarrow> cache_key list \<Rightarrow> (cache_key \<times> encoded_value) list
     \<Rightarrow> (cache_key \<times> encoded_value) list result" where
  "get_all eops B e stores now [] results = Inr results"
| "get_all eops B e stores now (key # rest) results =
     rbind (get_one eops B e stores now key) (\<lambda>found.
       get_all eops B e stores now rest (case found of None \<Rightarrow> results | Some v \<Rightarrow> al_set results key v))"

definition bridge_get ::
  "'e epoch_ops \<Rightarrow> bridge \<Rightarrow> 'e \<Rightarrow> store_view list \<Rightarrow> datetime \<Rightarrow> cache_key list \<Rightarrow> (cache_key \<times> encoded_value) list result" where
  "bridge_get eops B e stores clock key_list =
     (if \<not> br_enabled B then Inr []
      else rbind (bridge_now clock) (\<lambda>now. get_all eops B e stores now key_list []))"

text \<open>The arguments of one publication: the action, the packed value and the expiry.\<close>

definition set_arguments ::
  "'e epoch_ops \<Rightarrow> bridge \<Rightarrow> 'e \<Rightarrow> int \<Rightarrow> cache_key \<Rightarrow> encoded_value \<Rightarrow> pyval \<Rightarrow> (pyval \<times> bytes \<times> datetime option) result" where
  "set_arguments eops B e now key v ttl =
     rbind (action_for eops B e key) (\<lambda>action.
     rbind (pack_execution_value v) (\<lambda>data.
     rbind (if ttl = PyNone then Inr None else rbind (add_seconds now (int_of ttl)) (\<lambda>t. Inr (Some (Aware t)))) (\<lambda>until.
       Inr (action, data, until))))"

fun set_all ::
  "'e epoch_ops \<Rightarrow> bridge \<Rightarrow> 'e \<Rightarrow> 's store_ops \<Rightarrow> int \<Rightarrow> (cache_key \<times> encoded_value \<times> pyval) list \<Rightarrow> 's \<Rightarrow> 's \<times> unit result" where
  "set_all eops B e ops now [] s = (s, Inr ())"
| "set_all eops B e ops now ((key, v, ttl) # rest) s =
     (if ttl \<noteq> PyNone \<and> \<not> is_int ttl then (s, Inl (ValueError ''TTL must be an integer number of seconds or null''))
      else if ttl \<noteq> PyNone \<and> int_of ttl \<le> 0 then set_all eops B e ops now rest s
      else
        (case set_arguments eops B e now key v ttl of
           Inl x \<Rightarrow> (s, Inl x)
         | Inr (action, data, until) \<Rightarrow>
             (case publish_result ops s action [(u ''value'', data, value_media_type)] (br_producer B) (Aware now) until None of
                (s', Inl x) \<Rightarrow> (s', Inl x)
              | (s', Inr _) \<Rightarrow> set_all eops B e ops now rest s')))"

definition bridge_set ::
  "'e epoch_ops \<Rightarrow> bridge \<Rightarrow> 'e \<Rightarrow> 's store_ops \<Rightarrow> datetime \<Rightarrow> (cache_key \<times> encoded_value \<times> pyval) list \<Rightarrow> 's \<Rightarrow> 's \<times> unit result" where
  "bridge_set eops B e ops clock pairs s =
     (if \<not> br_enabled B then (s, Inr ())
      else (case bridge_now clock of Inl x \<Rightarrow> (s, Inl x) | Inr now \<Rightarrow> set_all eops B e ops now pairs s))"

section \<open>The envelope is canonical\<close>

lemma from_to_bytes4: "0 \<le> n \<Longrightarrow> n < 4294967296 \<Longrightarrow> from_bytes (to_bytes4 n) = n"
proof -
  assume n: "0 \<le> n" "n < 4294967296"
  have "n div 16777216 \<le> 4294967295 div 16777216" using n by (intro zdiv_mono1) simp_all
  then have top: "n div 16777216 mod 256 = n div 16777216" "n div 16777216 < 256" "0 \<le> n div 16777216" using n by simp_all
  have "256 * (n div 16777216) + n div 65536 mod 256 = n div 65536"
    using div_mult_mod_eq [of "n div 65536" 256] by (simp add: zdiv_zmult2_eq [symmetric] mult.commute)
  moreover have "256 * (n div 65536) + n div 256 mod 256 = n div 256"
    using div_mult_mod_eq [of "n div 256" 256] by (simp add: zdiv_zmult2_eq [symmetric] mult.commute)
  moreover have "256 * (n div 256) + n mod 256 = n" by simp
  ultimately show ?thesis by (simp add: from_bytes_def to_bytes4_def top)
qed

lemma length_to_bytes4 [simp]: "length (to_bytes4 n) = 4"
  by (simp add: to_bytes4_def)

lemma to_from_bytes4: "length b = 4 \<Longrightarrow> to_bytes4 (from_bytes b) = b"
proof -
  assume "length b = 4"
  then obtain w x y z where b: "b = [w, x, y, z]" by (auto simp: length_Suc_conv numeral_eq_Suc)
  define n where "n = from_bytes b"
  have n: "n = 256 * (256 * (256 * uint w + uint x) + uint y) + uint z" by (simp add: n_def from_bytes_def b)
  have c: "(256 * q + uint r) mod 256 = uint r" "(256 * q + uint r) div 256 = q" for q and r :: "8 word"
    using uint_byte_range [of r] by simp_all
  have d: "n div 256 = 256 * (256 * uint w + uint x) + uint y" "n mod 256 = uint z" by (simp_all only: n c)
  have q: "n div 65536 = n div 256 div 256" "n div 16777216 = n div 256 div 256 div 256"
    by (simp_all add: zdiv_zmult2_eq [symmetric])
  have e: "n div 65536 = 256 * uint w + uint x" "n div 256 mod 256 = uint y" by (simp_all only: q d c)
  have x: "n div 65536 mod 256 = uint x" by (simp only: e c)
  have "n div 16777216 = uint w" unfolding q(2) q(1) [symmetric] e(1) by (rule c(2))
  then have w: "n div 16777216 mod 256 = uint w" using uint_byte_range [of w] by simp
  show ?thesis unfolding n_def [symmetric] to_bytes4_def unfolding b by (simp only: w x e(2) d(2) list.map byte_uint)
qed

lemma validate_type_tag_Inr:
  "validate_type_tag tag = Inr b \<longleftrightarrow> tag \<noteq> [] \<and> \<not> list_ex surrogate tag \<and> 0 \<notin> set tag
     \<and> b = utf8_bytes tag \<and> length b \<le> 1024"
  by (auto simp: validate_type_tag_def utf8_encode_def max_type_tag_bytes_def rbind_Inr)

lemma utf8_bytes_length: "length tag \<le> length (utf8_bytes tag)"
proof (induction tag)
  case (Cons c tag)
  have "1 \<le> length (utf8_char c)" by (simp add: utf8_char_def)
  with Cons show ?case by (simp add: utf8_bytes_Cons)
qed simp

lemma pack_unpack:
  assumes "pack_execution_value v = Inr data" "code_points (xv_type_tag v)"
  shows "unpack_execution_value data = Inr v"
proof -
  let ?tag = "xv_type_tag v"
  from assms(1) have tag: "?tag \<noteq> []" "\<not> list_ex surrogate ?tag" "0 \<notin> set ?tag" "length (utf8_bytes ?tag) \<le> 1024"
    and data: "data = to_bytes4 (int (length (utf8_bytes ?tag))) @ utf8_bytes ?tag @ xv_payload v"
    by (auto simp: pack_execution_value_def rbind_Inr validate_type_tag_Inr)
  let ?n = "int (length (utf8_bytes ?tag))"
  have n: "1 \<le> ?n" "utf8_bytes ?tag \<noteq> []" using utf8_bytes_length [of ?tag] tag(1) by (cases ?tag; auto)+
  have "from_bytes (to_bytes4 ?n) = ?n" using tag(4) by (intro from_to_bytes4) simp_all
  then have size: "from_bytes (take 4 data) = ?n" by (simp add: data)
  have "take (nat ?n) (drop 4 data) = utf8_bytes ?tag" "drop (4 + nat ?n) data = xv_payload v" by (simp_all add: data)
  moreover have "utf8_decode (utf8_bytes ?tag) = Some ?tag"
    using not_ex_surrogate [OF tag(2) assms(2)] by (rule utf8_round_trip)
  moreover have "new_encoded_value ?tag (xv_payload v) = Inr v"
    using tag by (simp add: new_encoded_value_def validate_type_tag_def utf8_encode_def max_type_tag_bytes_def)
  ultimately show ?thesis using n tag(4) unfolding unpack_execution_value_def size Let_def
    by (simp add: data max_type_tag_bytes_def)
qed

lemma unpack_pack:
  assumes "unpack_execution_value data = Inr v"
  shows "pack_execution_value v = Inr data \<and> code_points (xv_type_tag v)"
proof -
  define n where "n = from_bytes (take 4 data)"
  from assms obtain tag where len: "5 \<le> length data" "1 \<le> n" "int (length data) \<ge> 4 + n"
    and dec: "utf8_decode (take (nat n) (drop 4 data)) = Some tag" and v: "new_encoded_value tag (drop (4 + nat n) data) = Inr v"
    by (auto simp: unpack_execution_value_def Let_def n_def split: if_splits option.splits)
  from utf8_decode_sound [OF dec] have tag: "utf8_bytes tag = take (nat n) (drop 4 data)" "list_all scalar tag" by simp_all
  from v obtain b where b: "validate_type_tag tag = Inr b" "v = \<lparr>xv_type_tag = tag, xv_payload = drop (4 + nat n) data\<rparr>"
    by (auto simp: new_encoded_value_def checks ok_iff)
  have l: "int (length (utf8_bytes tag)) = n" using len by (simp add: tag(1))
  have "to_bytes4 n = take 4 data" using to_from_bytes4 [of "take 4 data"] len by (simp add: n_def)
  moreover have "take 4 data @ take (nat n) (drop 4 data) @ drop (4 + nat n) data = data"
    by (metis add.commute append_take_drop_id drop_drop)
  ultimately have "to_bytes4 (int (length (utf8_bytes tag))) @ utf8_bytes tag @ drop (4 + nat n) data = data"
    by (subst l, subst tag(1)) simp
  with b validate_type_tag_Inr [of tag b] tag(2) show ?thesis
    by (auto simp: pack_execution_value_def list_all_iff scalar_def)
qed

end
