(* ===== verification/Active_Index.thy ===== *)
theory Active_Index
  imports Epochs
begin

text \<open>
  The mutable active-key index (\<open>integrations/index.py\<close>) in its three forms: a dictionary in memory,
  one JSON file that is replaced as a whole, and a table of an SQLite database. An entry is a
  generation, whether the key is active, and the identifier of the publication that made it so.
  Publication calls a function that writes to a store of its own; the identifier it is given
  (\<open>uuid4().hex\<close>) is an argument here. The locks and \<open>BEGIN IMMEDIATE\<close> make every operation one
  step; the table keeps the documented meaning of the SQL statements.
\<close>

type_synonym native = "namespace \<times> pystr"

type_synonym entry = "int \<times> bool \<times> pystr option"

type_synonym entries = "(native \<times> entry) list"

text \<open>What a put publishes through: it may raise, and it may have written before it raised.\<close>

type_synonym 's publisher = "int \<Rightarrow> pystr \<Rightarrow> 's \<Rightarrow> 's \<times> unit result"

definition validate_native_values :: "pyval list \<Rightarrow> pyval \<Rightarrow> unit result" where
  "validate_native_values parts key =
     first_error
       [validate_namespace parts, guard (nonempty_str key) (ValueError ''native key must be a non-empty string'')]"

definition validate_native :: "native \<Rightarrow> unit result" where
  "validate_native k = validate_native_values (map PyStr (fst k)) (PyStr (snd k))"

section \<open>Operations on the dictionary of entries\<close>

definition entry_at :: "entries \<Rightarrow> native \<Rightarrow> entry" where
  "entry_at d k = (case al_get d k of None \<Rightarrow> (0, False, None) | Some e \<Rightarrow> e)"

text \<open>\<open>generation += int(active)\<close>\<close>

definition next_generation :: "entry \<Rightarrow> int" where
  "next_generation e = (case e of (generation, active, _) \<Rightarrow> if active then generation + 1 else generation)"

definition revision_of :: "entry \<Rightarrow> (int \<times> pystr option) option" where
  "revision_of e = (case e of (generation, active, publication) \<Rightarrow> if active then Some (generation, publication) else None)"

definition prepare_entry :: "entry \<Rightarrow> entry" where
  "prepare_entry e = (next_generation e, False, None)"

definition activate_entry :: "entry \<Rightarrow> entry" where
  "activate_entry e = (case e of (generation, _, publication) \<Rightarrow> (generation, True, publication))"

definition publish_entry :: "pystr \<Rightarrow> entry \<Rightarrow> entry" where
  "publish_entry publication e = (next_generation e, True, Some publication)"

text \<open>What \<open>delete\<close> and the two clears do to an entry.\<close>

definition deactivate_entry :: "entry \<Rightarrow> entry" where
  "deactivate_entry e = (case e of (generation, active, _) \<Rightarrow> if active then (generation + 1, False, None) else e)"

definition is_active_entry :: "entry \<Rightarrow> bool" where
  "is_active_entry e = fst (snd e)"

definition prepare_in :: "entries \<Rightarrow> native \<Rightarrow> entries \<times> int" where
  "prepare_in d k = (al_set d k (prepare_entry (entry_at d k)), next_generation (entry_at d k))"

definition activate_in :: "entries \<Rightarrow> native \<Rightarrow> entries" where
  "activate_in d k = al_set d k (activate_entry (entry_at d k))"

definition delete_in :: "entries \<Rightarrow> native \<Rightarrow> entries \<times> bool" where
  "delete_in d k =
     (if is_active_entry (entry_at d k) then (al_set d k (deactivate_entry (entry_at d k)), True) else (d, False))"

definition clear_in :: "(native \<Rightarrow> bool) \<Rightarrow> entries \<Rightarrow> entries \<times> int" where
  "clear_in P d =
     (map (\<lambda>(k, e). (k, if P k then deactivate_entry e else e)) d,
      int (length (filter (\<lambda>(k, e). P k \<and> is_active_entry e) d)))"

definition active_in :: "entries \<Rightarrow> namespace \<Rightarrow> pystr list" where
  "active_in d ns = sort (map (\<lambda>(k, e). snd k) (filter (\<lambda>(k, e). fst k = ns \<and> is_active_entry e) d))"

section \<open>The interface\<close>

record ('i, 's) index_ops =
  ix_generation :: "'i \<Rightarrow> native \<Rightarrow> int result"
  ix_is_active :: "'i \<Rightarrow> native \<Rightarrow> bool result"
  ix_revision :: "'i \<Rightarrow> native \<Rightarrow> (int \<times> pystr option) option result"
  ix_prepare :: "'i \<Rightarrow> native \<Rightarrow> 'i \<times> int result"
  ix_activate :: "'i \<Rightarrow> native \<Rightarrow> 'i \<times> unit result"
  ix_publish :: "'i \<Rightarrow> 's \<Rightarrow> native \<Rightarrow> pystr \<Rightarrow> 's publisher \<Rightarrow> 'i \<times> 's \<times> int result"
  ix_delete :: "'i \<Rightarrow> native \<Rightarrow> 'i \<times> bool result"
  ix_active_keys :: "'i \<Rightarrow> namespace \<Rightarrow> pystr list result"
  ix_clear_namespace :: "'i \<Rightarrow> namespace \<Rightarrow> 'i \<times> int result"
  ix_clear_all :: "'i \<Rightarrow> 'i \<times> int result"

section \<open>In memory\<close>

definition mi_read :: "(entry \<Rightarrow> 'a) \<Rightarrow> entries \<Rightarrow> native \<Rightarrow> 'a result" where
  "mi_read f d k = seq (validate_native k) (Inr (f (entry_at d k)))"

definition mi_change :: "(entries \<Rightarrow> entries \<times> 'a) \<Rightarrow> entries \<Rightarrow> native \<Rightarrow> entries \<times> 'a result" where
  "mi_change f d k =
     (case validate_native k of Inl x \<Rightarrow> (d, Inl x) | Inr _ \<Rightarrow> (case f d of (d', r) \<Rightarrow> (d', Inr r)))"

definition mi_publish :: "entries \<Rightarrow> 's \<Rightarrow> native \<Rightarrow> pystr \<Rightarrow> 's publisher \<Rightarrow> entries \<times> 's \<times> int result" where
  "mi_publish d s k publication publisher =
     (case validate_native k of
        Inl x \<Rightarrow> (d, s, Inl x)
      | Inr _ \<Rightarrow>
          (let generation = next_generation (entry_at d k)
           in case publisher generation publication s of
                (s', Inl x) \<Rightarrow> (d, s', Inl x)
              | (s', Inr _) \<Rightarrow> (al_set d k (publish_entry publication (entry_at d k)), s', Inr generation)))"

definition memory_index :: "(entries, 's) index_ops" where
  "memory_index =
     \<lparr>ix_generation = mi_read fst, ix_is_active = mi_read is_active_entry, ix_revision = mi_read revision_of,
      ix_prepare = (\<lambda>d k. mi_change (\<lambda>d. prepare_in d k) d k),
      ix_activate = (\<lambda>d k. mi_change (\<lambda>d. (activate_in d k, ())) d k), ix_publish = mi_publish,
      ix_delete = (\<lambda>d k. mi_change (\<lambda>d. delete_in d k) d k), ix_active_keys = (\<lambda>d ns. Inr (active_in d ns)),
      ix_clear_namespace = (\<lambda>d ns. case clear_in (\<lambda>k. fst k = ns) d of (d', n) \<Rightarrow> (d', Inr n)),
      ix_clear_all = (\<lambda>d. case clear_in (\<lambda>_. True) d of (d', n) \<Rightarrow> (d', Inr n))\<rparr>"

section \<open>In a file\<close>

definition is_publication :: "pystr \<Rightarrow> bool" where
  "is_publication s \<longleftrightarrow> length s = 32 \<and> list_all is_hex s"

definition check_index_entry :: "bool \<Rightarrow> pyval \<Rightarrow> unit result" where
  "check_index_entry v2 e =
     first_error
       [guard (exact_keys e ([''namespace'', ''key'', ''generation'', ''active''] @ (if v2 then [''publication_id''] else [])))
          (ValueError ''active-key index entry is invalid''),
        guard (is_list (item e ''namespace'')) (ValueError ''active-key index namespace is invalid''),
        validate_native_values (items_of (item e ''namespace'')) (item e ''key''),
        guard (is_int (item e ''generation'') \<and> 0 \<le> int_of (item e ''generation'') \<and> is_bool (item e ''active''))
          (ValueError ''active-key index entry state is invalid''),
        guard (item e ''publication_id'' = PyNone \<or> is_str (item e ''publication_id'') \<and> is_publication (str_of (item e ''publication_id'')))
          (ValueError ''active-key index publication id is invalid'')]"

definition bool_of :: "pyval \<Rightarrow> bool" where
  "bool_of v \<longleftrightarrow> v = PyBool True"

definition opt_of :: "pyval \<Rightarrow> pystr option" where
  "opt_of v = (if is_str v then Some (str_of v) else None)"

definition index_entry_of :: "pyval \<Rightarrow> native \<times> entry" where
  "index_entry_of e =
     ((map str_of (items_of (item e ''namespace'')), str_of (item e ''key'')),
      (int_of (item e ''generation''), bool_of (item e ''active''), opt_of (item e ''publication_id'')))"

fun index_entries :: "bool \<Rightarrow> pyval list \<Rightarrow> entries \<Rightarrow> entries result" where
  "index_entries v2 [] d = Inr d"
| "index_entries v2 (e # es) d =
     seq (check_index_entry v2 e)
       (if al_get d (fst (index_entry_of e)) \<noteq> None then Inl (ValueError ''active-key index contains a duplicate key'')
        else index_entries v2 es (al_set d (fst (index_entry_of e)) (snd (index_entry_of e))))"

definition fi_read :: "fs_file option \<Rightarrow> entries result" where
  "fi_read f =
     (case f of
        None \<Rightarrow> Inr []
      | Some f' \<Rightarrow>
          (case read_json f' of
             Inl e \<Rightarrow> if e = OSError \<or> e = UnicodeError \<or> e = JSONDecodeError
                      then Inl (ValueError ''active-key index is unreadable'') else Inl e
           | Inr v \<Rightarrow>
               if exact_keys v [''version'', ''entries'']
                  \<and> (equals_small 1 (item v ''version'') \<or> equals_small 2 (item v ''version'')) \<and> is_list (item v ''entries'')
               then index_entries (equals_small 2 (item v ''version'')) (items_of (item v ''entries'')) []
               else Inl (ValueError ''active-key index is invalid'')))"

definition index_document_entry :: "native \<times> entry \<Rightarrow> pyval" where
  "index_document_entry p =
     (case p of ((ns, key), (generation, active, publication)) \<Rightarrow>
        obj [(''namespace'', PyList (map PyStr ns)), (''key'', PyStr key), (''generation'', PyInt generation),
             (''active'', PyBool active), (''publication_id'', case publication of None \<Rightarrow> PyNone | Some i \<Rightarrow> PyStr i)])"

definition index_document :: "entries \<Rightarrow> pyval" where
  "index_document d = obj [(''version'', PyInt 2), (''entries'', PyList (map index_document_entry (sort_key fst d)))]"

definition fi_write :: "entries \<Rightarrow> fs_file option result" where
  "fi_write d = rbind (canonical_json (index_document d)) (\<lambda>data. Inr (Some (File data)))"

definition fi_mutate :: "(entries \<Rightarrow> entries \<times> 'a) \<Rightarrow> fs_file option \<Rightarrow> fs_file option \<times> 'a result" where
  "fi_mutate operation f =
     (case rbind (fi_read f) (\<lambda>d. case operation d of (d', r) \<Rightarrow> rbind (fi_write d') (\<lambda>f'. Inr (f', r))) of
        Inl x \<Rightarrow> (f, Inl x)
      | Inr (f', r) \<Rightarrow> (f', Inr r))"

definition fi_lookup :: "(entry \<Rightarrow> 'a) \<Rightarrow> fs_file option \<Rightarrow> native \<Rightarrow> 'a result" where
  "fi_lookup g f k = seq (validate_native k) (rbind (fi_read f) (\<lambda>d. Inr (g (entry_at d k))))"

definition fi_change :: "(entries \<Rightarrow> entries \<times> 'a) \<Rightarrow> fs_file option \<Rightarrow> native \<Rightarrow> fs_file option \<times> 'a result" where
  "fi_change operation f k =
     (case validate_native k of Inl x \<Rightarrow> (f, Inl x) | Inr _ \<Rightarrow> fi_mutate operation f)"

definition fi_publish ::
  "fs_file option \<Rightarrow> 's \<Rightarrow> native \<Rightarrow> pystr \<Rightarrow> 's publisher \<Rightarrow> fs_file option \<times> 's \<times> int result" where
  "fi_publish f s k publication publisher =
     (case seq (validate_native k) (fi_read f) of
        Inl x \<Rightarrow> (f, s, Inl x)
      | Inr d \<Rightarrow>
          (let generation = next_generation (entry_at d k)
           in case publisher generation publication s of
                (s', Inl x) \<Rightarrow> (f, s', Inl x)
              | (s', Inr _) \<Rightarrow>
                  (case fi_write (al_set d k (publish_entry publication (entry_at d k))) of
                     Inl x \<Rightarrow> (f, s', Inl x)
                   | Inr f' \<Rightarrow> (f', s', Inr generation))))"

definition file_index :: "(fs_file option, 's) index_ops" where
  "file_index =
     \<lparr>ix_generation = fi_lookup fst, ix_is_active = fi_lookup is_active_entry, ix_revision = fi_lookup revision_of,
      ix_prepare = (\<lambda>f k. fi_change (\<lambda>d. prepare_in d k) f k),
      ix_activate = (\<lambda>f k. fi_change (\<lambda>d. (activate_in d k, ())) f k), ix_publish = fi_publish,
      ix_delete = (\<lambda>f k. fi_change (\<lambda>d. delete_in d k) f k),
      ix_active_keys = (\<lambda>f ns. rbind (fi_read f) (\<lambda>d. Inr (active_in d ns))),
      ix_clear_namespace = (\<lambda>f ns. fi_mutate (clear_in (\<lambda>k. fst k = ns)) f),
      ix_clear_all = fi_mutate (clear_in (\<lambda>_. True))\<rparr>"

section \<open>In an SQLite table\<close>

text \<open>
  The rows of \<open>active_keys\<close> by primary key: the canonical JSON text of the namespace, and the key.
  Binding a string with a surrogate raises \<open>UnicodeEncodeError\<close>.
\<close>

type_synonym table = "((pystr \<times> pystr) \<times> entry) list"

definition sq_namespace :: "namespace \<Rightarrow> pystr result" where
  "sq_namespace ns =
     seq (validate_namespace (map PyStr ns))
       (rbind (canonical_json (PyList (map PyStr ns))) (\<lambda>b. Inr (case utf8_decode b of Some t \<Rightarrow> t | None \<Rightarrow> [])))"

definition sq_key :: "native \<Rightarrow> (pystr \<times> pystr) result" where
  "sq_key k =
     seq (validate_native k)
       (rbind (sq_namespace (fst k)) (\<lambda>ns. seq (discard (utf8_encode (snd k))) (Inr (ns, snd k))))"

definition sq_entry :: "table \<Rightarrow> pystr \<times> pystr \<Rightarrow> entry" where
  "sq_entry t row = (case al_get t row of None \<Rightarrow> (0, False, None) | Some e \<Rightarrow> e)"

text \<open>
  Binding an integer of more than 64 bits raises; then the \<open>CHECK\<close> constraints of the table, and
  \<open>INSERT ... ON CONFLICT DO UPDATE\<close>.
\<close>

definition row_ok :: "entry \<Rightarrow> bool" where
  "row_ok e = (case e of (generation, active, publication) \<Rightarrow>
     0 \<le> generation \<and> (case publication of None \<Rightarrow> True | Some i \<Rightarrow> is_publication i))"

definition sq_upsert :: "table \<Rightarrow> pystr \<times> pystr \<Rightarrow> entry \<Rightarrow> table result" where
  "sq_upsert t row e = 
     seq (first_error [guard (- (2 ^ 63) \<le> fst e \<and> fst e < 2 ^ 63) OverflowError, guard (row_ok e) (OtherError ''IntegrityError'')])
       (Inr (al_set t row e))"

text \<open>A transaction that raises is rolled back.\<close>

definition sq_transaction :: "table \<Rightarrow> (table \<times> 'a) result \<Rightarrow> table \<times> 'a result" where
  "sq_transaction t m = (case m of Inl x \<Rightarrow> (t, Inl x) | Inr (t', r) \<Rightarrow> (t', Inr r))"

definition sq_lookup :: "(entry \<Rightarrow> 'a) \<Rightarrow> table \<Rightarrow> native \<Rightarrow> 'a result" where
  "sq_lookup g t k = rbind (sq_key k) (\<lambda>row. Inr (g (sq_entry t row)))"

definition sq_prepare :: "table \<Rightarrow> native \<Rightarrow> table \<times> int result" where
  "sq_prepare t k =
     sq_transaction t (rbind (sq_key k) (\<lambda>row.
       let generation = next_generation (sq_entry t row)
       in rbind (sq_upsert t row (generation, False, None)) (\<lambda>t'. Inr (t', generation))))"

definition sq_activate :: "table \<Rightarrow> native \<Rightarrow> table \<times> unit result" where
  "sq_activate t k =
     sq_transaction t (rbind (sq_key k) (\<lambda>row.
       rbind (sq_upsert t row (activate_entry (sq_entry t row))) (\<lambda>t'. Inr (t', ()))))"

definition sq_publish :: "table \<Rightarrow> 's \<Rightarrow> native \<Rightarrow> pystr \<Rightarrow> 's publisher \<Rightarrow> table \<times> 's \<times> int result" where
  "sq_publish t s k publication publisher =
     (case sq_key k of
        Inl x \<Rightarrow> (t, s, Inl x)
      | Inr row \<Rightarrow>
          (let generation = next_generation (sq_entry t row)
           in case publisher generation publication s of
                (s', Inl x) \<Rightarrow> (t, s', Inl x)
              | (s', Inr _) \<Rightarrow>
                  (case sq_upsert t row (generation, True, Some publication) of
                     Inl x \<Rightarrow> (t, s', Inl x)
                   | Inr t' \<Rightarrow> (t', s', Inr generation))))"

definition sq_delete :: "table \<Rightarrow> native \<Rightarrow> table \<times> bool result" where
  "sq_delete t k =
     sq_transaction t (rbind (sq_key k) (\<lambda>row.
       if is_active_entry (sq_entry t row)
       then rbind (sq_upsert t row (fst (sq_entry t row) + 1, False, None)) (\<lambda>t'. Inr (t', True))
       else Inr (t, False)))"

text \<open>\<open>UPDATE ... SET generation = generation + 1, active = 0 WHERE ... AND active = 1\<close>\<close>

definition sq_deactivate :: "(pystr \<Rightarrow> bool) \<Rightarrow> table \<Rightarrow> table \<times> int" where
  "sq_deactivate P t =
     (map (\<lambda>(row, e). (row, if P (fst row) \<and> is_active_entry e then (fst e + 1, False, None) else e)) t,
      int (length (filter (\<lambda>(row, e). P (fst row) \<and> is_active_entry e) t)))"

definition sq_active_keys :: "table \<Rightarrow> namespace \<Rightarrow> pystr list result" where
  "sq_active_keys t ns =
     rbind (sq_namespace ns) (\<lambda>encoded.
       Inr (sort (map (\<lambda>(row, e). snd row) (filter (\<lambda>(row, e). fst row = encoded \<and> is_active_entry e) t))))"

definition sq_clear_namespace :: "table \<Rightarrow> namespace \<Rightarrow> table \<times> int result" where
  "sq_clear_namespace t ns =
     sq_transaction t (rbind (sq_namespace ns) (\<lambda>encoded. Inr (sq_deactivate (\<lambda>n. n = encoded) t)))"

definition sq_clear_all :: "table \<Rightarrow> table \<times> int result" where
  "sq_clear_all t = sq_transaction t (Inr (sq_deactivate (\<lambda>_. True) t))"

definition sqlite_index :: "(table, 's) index_ops" where
  "sqlite_index =
     \<lparr>ix_generation = sq_lookup fst, ix_is_active = sq_lookup is_active_entry, ix_revision = sq_lookup revision_of,
      ix_prepare = sq_prepare, ix_activate = sq_activate, ix_publish = sq_publish, ix_delete = sq_delete,
      ix_active_keys = sq_active_keys, ix_clear_namespace = sq_clear_namespace, ix_clear_all = sq_clear_all\<rparr>"

text \<open>\<open>import_filesystem\<close>: the rows of a readable file, in one transaction.\<close>

fun sq_insert_all :: "table \<Rightarrow> entries \<Rightarrow> table result" where
  "sq_insert_all t [] = Inr t"
| "sq_insert_all t ((k, e) # es) =
     rbind (rbind (sq_namespace (fst k)) (\<lambda>ns. seq (discard (utf8_encode (snd k))) (Inr (ns, snd k)))) (\<lambda>row.
     rbind (sq_upsert t row e) (\<lambda>t'. sq_insert_all t' es))"

definition sq_import :: "table \<Rightarrow> fs_file option \<Rightarrow> bool \<Rightarrow> table \<times> int result" where
  "sq_import t source replace =
     sq_transaction t (rbind (fi_read source) (\<lambda>d.
       if t \<noteq> [] \<and> \<not> replace then Inl (ValueError ''SQLite active-key index destination is not empty'')
       else rbind (sq_insert_all (if replace then [] else t) d) (\<lambda>t'. Inr (t', int (length d)))))"

end
