(* ===== verification/Adapters.thy ===== *)
theory Adapters
  imports Execution_Cache Active_Index
begin

text \<open>
  The typed adapters over the execution cache (\<open>integrations/base.py\<close>, \<open>codecs.py\<close>, the
  \<open>IndexedRuntimeCacheAdapter\<close> of \<open>index.py\<close>, \<open>registry.py\<close> and \<open>conformance.py\<close>). The asynchronous
  methods call the synchronous ones on a worker thread. A publication store of type \<open>'s\<close> is read
  through the views that the environment gives.
\<close>

section \<open>Codecs\<close>

text \<open>\<open>cd_none\<close> tells which value is Python's \<open>None\<close>.\<close>

record 'v codec =
  cd_serializer :: pystr
  cd_none :: "'v \<Rightarrow> bool"
  cd_encode :: "'v \<Rightarrow> encoded_value result"
  cd_decode :: "encoded_value \<Rightarrow> 'v result"

text \<open>
  \<open>math.isfinite\<close> of the double nearest to a float literal: literals from the midpoint between the
  largest double and \<open>2 ^ 1024\<close> on read as infinity.
\<close>

definition finite_float :: "pystr \<Rightarrow> bool" where
  "finite_float f = (case float_val f of None \<Rightarrow> False | Some x \<Rightarrow> \<bar>x\<bar> < 2 ^ 1024 - 2 ^ 970)"

fun validate_json_value :: "pyval \<Rightarrow> unit result" and validate_json_values :: "pyval list \<Rightarrow> unit result"
  and validate_json_items :: "(pyval \<times> pyval) list \<Rightarrow> unit result" where
  "validate_json_value PyNone = Inr ()"
| "validate_json_value (PyBool b) = Inr ()"
| "validate_json_value (PyInt i) = Inr ()"
| "validate_json_value (PyStr s) =
     guard (\<not> list_ex surrogate s) (ValueError ''Unicode surrogate code points are forbidden'')"
| "validate_json_value (PyFloat f) = guard (finite_float f) (ValueError ''non-finite floats are not JSON values'')"
| "validate_json_value (PyList xs) = validate_json_values xs"
| "validate_json_value (PyDict kvs) = validate_json_items kvs"
| "validate_json_value (PyOther ty) = Inl (ValueError (''unsupported JSON value type '' @ ty))"
| "validate_json_values [] = Inr ()"
| "validate_json_values (x # xs) = seq (validate_json_value x) (validate_json_values xs)"
| "validate_json_items [] = Inr ()"
| "validate_json_items ((k, v) # kvs) =
     seq (guard (is_str k) (ValueError ''JSON object keys must be strings'')) (seq (validate_json_value v) (validate_json_items kvs))"

text \<open>
  \<open>json.dumps\<close> writes a float as \<open>float.__repr__\<close> does; \<open>repr\<close> maps a literal to that text.
\<close>

fun float_texts :: "(pystr \<Rightarrow> pystr) \<Rightarrow> pyval \<Rightarrow> pyval" where
  "float_texts repr (PyFloat f) = PyFloat (repr f)"
| "float_texts repr (PyList xs) = PyList (map (float_texts repr) xs)"
| "float_texts repr (PyDict kvs) = PyDict (map (\<lambda>(k, v). (k, float_texts repr v)) kvs)"
| "float_texts repr v = v"

definition json_type_tag :: pystr where
  "json_type_tag = u ''json''"

definition json_encode :: "(pystr \<Rightarrow> pystr) \<Rightarrow> pyval \<Rightarrow> encoded_value result" where
  "json_encode repr v =
     seq (validate_json_value v)
       (rbind (utf8_encode (dumps (float_texts repr v))) (new_encoded_value json_type_tag))"

definition json_decode :: "encoded_value \<Rightarrow> pyval result" where
  "json_decode x =
     (if xv_type_tag x \<noteq> json_type_tag then Inl (ValueError ''JSON cache value has the wrong type tag'')
      else rbind (loads_bytes \<lparr>reject_dup = False, reject_const = True\<rparr> (xv_payload x)) (\<lambda>v.
        seq (validate_json_value v) (Inr v)))"

definition json_codec :: "(pystr \<Rightarrow> pystr) \<Rightarrow> pyval \<Rightarrow> pyval codec result" where
  "json_codec repr serializer =
     seq (guard (nonempty_str serializer) (ValueError ''serializer_id must be a non-empty string''))
       (Inr \<lparr>cd_serializer = str_of serializer, cd_none = (\<lambda>v. v = PyNone), cd_encode = json_encode repr, cd_decode = json_decode\<rparr>)"

section \<open>The runtime adapter\<close>

record ('e, 's, 'v) adapter =
  ad_bridge :: bridge
  ad_epochs :: "'e epoch_ops"
  ad_store :: "'s store_ops"
  ad_views :: "'s \<Rightarrow> store_view list"
  ad_codec :: "'v codec"

definition new_adapter ::
  "bridge \<Rightarrow> 'e epoch_ops \<Rightarrow> 's store_ops \<Rightarrow> ('s \<Rightarrow> store_view list) \<Rightarrow> 'v codec \<Rightarrow> ('e, 's, 'v) adapter result" where
  "new_adapter B eops ops views codec =
     seq (guard (cd_serializer codec \<noteq> [] \<and> cd_serializer codec = br_serializer B)
            (ValueError ''runtime codec identifier must match the bridge serializer''))
       (Inr \<lparr>ad_bridge = B, ad_epochs = eops, ad_store = ops, ad_views = views, ad_codec = codec\<rparr>)"

text \<open>A value that does not decode is a miss.\<close>

fun decode_values :: "'v codec \<Rightarrow> (cache_key \<times> encoded_value) list \<Rightarrow> (cache_key \<times> 'v) list" where
  "decode_values codec [] = []"
| "decode_values codec ((key, encoded) # rest) =
     (case cd_decode codec encoded of
        Inl _ \<Rightarrow> decode_values codec rest
      | Inr v \<Rightarrow> (key, v) # decode_values codec rest)"

definition adapter_get ::
  "('e, 's, 'v) adapter \<Rightarrow> 'e \<Rightarrow> 's \<Rightarrow> datetime \<Rightarrow> cache_key list \<Rightarrow> (cache_key \<times> 'v) list result" where
  "adapter_get A e s clock ks =
     rbind (bridge_get (ad_epochs A) (ad_bridge A) e (ad_views A s) clock ks) (\<lambda>found. Inr (decode_values (ad_codec A) found))"

fun encode_pairs :: "'v codec \<Rightarrow> (cache_key \<times> 'v \<times> pyval) list \<Rightarrow> (cache_key \<times> encoded_value \<times> pyval) list result" where
  "encode_pairs codec [] = Inr []"
| "encode_pairs codec ((key, v, ttl) # rest) =
     rbind (cd_encode codec v) (\<lambda>x. rbind (encode_pairs codec rest) (\<lambda>xs. Inr ((key, x, ttl) # xs)))"

definition adapter_set ::
  "('e, 's, 'v) adapter \<Rightarrow> 'e \<Rightarrow> 's \<Rightarrow> datetime \<Rightarrow> (cache_key \<times> 'v \<times> pyval) list \<Rightarrow> 's \<times> unit result" where
  "adapter_set A e s clock pairs =
     (case encode_pairs (ad_codec A) pairs of
        Inl x \<Rightarrow> (s, Inl x)
      | Inr encoded \<Rightarrow> bridge_set (ad_epochs A) (ad_bridge A) e (ad_store A) clock encoded s)"

record 'v call_outcome =
  rc_value :: 'v
  rc_cache_hit :: bool

text \<open>\<open>execute\<close> is the caller's function; the clock is read at the lookup and again at the publication.\<close>

definition get_or_execute ::
  "('e, 's, 'v) adapter \<Rightarrow> 'e \<Rightarrow> 's \<Rightarrow> datetime \<Rightarrow> datetime \<Rightarrow> cache_key \<Rightarrow> 'v result \<Rightarrow> pyval \<Rightarrow> 's \<times> 'v call_outcome result" where
  "get_or_execute A e s clock clock' key execute ttl =
     (case adapter_get A e s clock [key] of
        Inl x \<Rightarrow> (s, Inl x)
      | Inr cached \<Rightarrow>
          (case al_get cached key of
             Some v \<Rightarrow> (s, Inr \<lparr>rc_value = v, rc_cache_hit = True\<rparr>)
           | None \<Rightarrow>
               (case execute of
                  Inl x \<Rightarrow> (s, Inl x)
                | Inr v \<Rightarrow>
                    (case adapter_set A e s clock' [(key, v, ttl)] of
                       (s', Inl x) \<Rightarrow> (s', Inl x)
                     | (s', Inr _) \<Rightarrow> (s', Inr \<lparr>rc_value = v, rc_cache_hit = False\<rparr>)))))"

definition adapter_clear :: "('e, 's, 'v) adapter \<Rightarrow> 'e \<Rightarrow> namespace list option \<Rightarrow> 'e \<times> unit result" where
  "adapter_clear A e what = clear (ad_epochs A) e what"

definition adapter_set_enabled :: "('e, 's, 'v) adapter \<Rightarrow> bool \<Rightarrow> ('e, 's, 'v) adapter" where
  "adapter_set_enabled A enabled = A\<lparr>ad_bridge := set_enabled (ad_bridge A) enabled\<rparr>"

section \<open>The indexed adapter\<close>

definition core_key :: "native \<Rightarrow> int \<Rightarrow> pystr option \<Rightarrow> cache_key result" where
  "core_key k generation publication =
     seq (validate_native k)
       (rbind (canonical_json (obj ([(''native_key'', PyStr (snd k)), (''generation'', PyInt generation)] @
                 (case publication of None \<Rightarrow> [] | Some p \<Rightarrow> [(''publication_id'', PyStr p)])))) (\<lambda>b.
        new_cache_key (map PyStr (fst k)) (PyStr (digest_bytes b))))"

definition value_publisher :: "('e, 's, 'v) adapter \<Rightarrow> 'e \<Rightarrow> datetime \<Rightarrow> native \<Rightarrow> encoded_value \<Rightarrow> pyval \<Rightarrow> 's publisher" where
  "value_publisher A e clock k encoded ttl generation publication s =
     (case core_key k generation (Some publication) of
        Inl x \<Rightarrow> (s, Inl x)
      | Inr key \<Rightarrow> bridge_set (ad_epochs A) (ad_bridge A) e (ad_store A) clock [(key, encoded, ttl)] s)"

definition indexed_put ::
  "('e, 's, 'v) adapter \<Rightarrow> ('i, 's) index_ops \<Rightarrow> 'e \<Rightarrow> 'i \<Rightarrow> 's \<Rightarrow> datetime \<Rightarrow> pystr \<Rightarrow> native \<Rightarrow> 'v \<Rightarrow> pyval \<Rightarrow> 'i \<times> 's \<times> unit result" where
  "indexed_put A ops e i s clock publication k v ttl =
     (case cd_encode (ad_codec A) v of
        Inl x \<Rightarrow> (i, s, Inl x)
      | Inr encoded \<Rightarrow>
          if ttl \<noteq> PyNone \<and> \<not> is_int ttl then (i, s, Inl (ValueError ''TTL must be an integer number of seconds or null''))
          else if \<not> br_enabled (ad_bridge A) \<or> ttl \<noteq> PyNone \<and> int_of ttl \<le> 0 then (i, s, Inr ())
          else (case ix_publish ops i s k publication (value_publisher A e clock k encoded ttl) of
                  (i', s', r) \<Rightarrow> (i', s', rbind r (\<lambda>_. Inr ()))))"

definition indexed_get ::
  "('e, 's, 'v) adapter \<Rightarrow> ('i, 's) index_ops \<Rightarrow> 'e \<Rightarrow> 'i \<Rightarrow> 's \<Rightarrow> datetime \<Rightarrow> native \<Rightarrow> 'v option result" where
  "indexed_get A ops e i s clock k =
     rbind (ix_revision ops i k) (\<lambda>revision.
       case revision of
         None \<Rightarrow> Inr None
       | Some (generation, publication) \<Rightarrow>
           rbind (core_key k generation publication) (\<lambda>key.
           rbind (adapter_get A e s clock [key]) (\<lambda>values. Inr (al_get values key))))"

text \<open>
  The clock is read once per key. To the caller of \<open>get\<close> a stored \<open>None\<close> and no value look the same,
  and \<open>get_all\<close> leaves both out.
\<close>

fun get_listed ::
  "('e, 's, 'v) adapter \<Rightarrow> ('i, 's) index_ops \<Rightarrow> 'e \<Rightarrow> 'i \<Rightarrow> 's \<Rightarrow> (nat \<Rightarrow> datetime) \<Rightarrow> namespace \<Rightarrow> pystr list \<Rightarrow> (pystr \<times> 'v) list result" where
  "get_listed A ops e i s clock ns [] = Inr []"
| "get_listed A ops e i s clock ns (key # rest) =
     rbind (indexed_get A ops e i s (clock (length rest)) (ns, key)) (\<lambda>found.
     rbind (get_listed A ops e i s clock ns rest) (\<lambda>values.
       Inr (case found of None \<Rightarrow> values | Some v \<Rightarrow> if cd_none (ad_codec A) v then values else (key, v) # values)))"

definition indexed_get_all ::
  "('e, 's, 'v) adapter \<Rightarrow> ('i, 's) index_ops \<Rightarrow> 'e \<Rightarrow> 'i \<Rightarrow> 's \<Rightarrow> (nat \<Rightarrow> datetime) \<Rightarrow> namespace \<Rightarrow> (pystr \<times> 'v) list result" where
  "indexed_get_all A ops e i s clock ns = rbind (ix_active_keys ops i ns) (get_listed A ops e i s clock ns)"

definition indexed_delete :: "('i, 's) index_ops \<Rightarrow> 'i \<Rightarrow> native \<Rightarrow> 'i \<times> bool result" where
  "indexed_delete ops i k = ix_delete ops i k"

definition indexed_clear :: "('i, 's) index_ops \<Rightarrow> 'i \<Rightarrow> namespace option \<Rightarrow> 'i \<times> int result" where
  "indexed_clear ops i ns = (case ns of None \<Rightarrow> ix_clear_all ops i | Some ns \<Rightarrow> ix_clear_namespace ops i ns)"

section \<open>The conformance probes\<close>

record check =
  ac_name :: pystr
  ac_passed :: bool

record report =
  ar_profile :: pystr
  ar_checks :: "check list"

definition report_passed :: "report \<Rightarrow> bool" where
  "report_passed r = list_all ac_passed (ar_checks r)"

definition new_report :: "string \<Rightarrow> (string \<times> bool) list \<Rightarrow> report" where
  "new_report profile checks =
     \<lparr>ar_profile = u profile, ar_checks = map (\<lambda>(name, passed). \<lparr>ac_name = u name, ac_passed = passed\<rparr>) checks\<rparr>"

text \<open>The state of the exact probe: the epoch registry and the store. The clock ticks between calls.\<close>

definition probe_exact_adapter ::
  "('e, 's, 'v) adapter \<Rightarrow> (nat \<Rightarrow> datetime) \<Rightarrow> cache_key \<Rightarrow> 'v \<Rightarrow> pyval \<Rightarrow> 'e \<times> 's \<Rightarrow> ('e \<times> 's) \<times> report result" where
  "probe_exact_adapter A clock key v ttl t0 =
     (let off = adapter_set_enabled A False; on = adapter_set_enabled A True;
          look = (\<lambda>A n t. (t, adapter_get A (fst t) (snd t) (clock n) [key]))
      in next_call (look A 0 t0) (\<lambda>t first.
         next_call (case adapter_set A (fst t) (snd t) (clock 1) [(key, v, ttl)] of (s', r) \<Rightarrow> ((fst t, s'), r)) (\<lambda>t _.
         next_call (look A 2 t) (\<lambda>t hit.
         next_call (look off 3 t) (\<lambda>t disabled.
         next_call (look on 4 t) (\<lambda>t retained.
         next_call (case adapter_clear on (fst t) (Some [ck_namespace key]) of (e', r) \<Rightarrow> ((e', snd t), r)) (\<lambda>t _.
         next_call (look on 5 t) (\<lambda>t cleared.
           (t, Inr (new_report ''oncemesh.adapter-conformance/exact-v0''
                  [(''initial_miss'', al_get first key = None), (''exact_hit'', al_get hit key = Some v),
                   (''disabled_miss'', al_get disabled key = None), (''retained_after_enable'', al_get retained key = Some v),
                   (''clear_miss'', al_get cleared key = None)]))))))))))"

text \<open>\<open>deleted = adapter.delete(...) and adapter.get(...) is None\<close>: the lookup is skipped when nothing was deleted.\<close>

definition is_missing :: "'v codec \<Rightarrow> 'v option \<Rightarrow> bool" where
  "is_missing codec found = (case found of None \<Rightarrow> True | Some v \<Rightarrow> cd_none codec v)"

definition probe_indexed_adapter ::
  "('e, 's, 'v) adapter \<Rightarrow> ('i, 's) index_ops \<Rightarrow> 'e \<Rightarrow> (nat \<Rightarrow> datetime) \<Rightarrow> (nat \<Rightarrow> pystr) \<Rightarrow> native \<Rightarrow> 'v \<Rightarrow> 'v \<Rightarrow> pyval
     \<Rightarrow> 'i \<times> 's \<Rightarrow> ('i \<times> 's) \<times> report result" where
  "probe_indexed_adapter A ops e clock publication k v1 v2 ttl t0 =
     (let look = (\<lambda>n t. (t, indexed_get A ops e (fst t) (snd t) (clock n) k));
          put = (\<lambda>n v t. case indexed_put A ops e (fst t) (snd t) (clock n) (publication n) k v ttl of (i', s', r) \<Rightarrow> ((i', s'), r));
          missing = is_missing (ad_codec A);
          same = (\<lambda>found v. found = Some v \<or> missing found \<and> cd_none (ad_codec A) v)
      in next_call (look 0 t0) (\<lambda>t first.
         next_call (put 1 v1 t) (\<lambda>t _.
         next_call (look 2 t) (\<lambda>t hit.
         next_call (put 3 v2 t) (\<lambda>t _.
         next_call (look 4 t) (\<lambda>t overwritten.
         next_call (t, indexed_get_all A ops e (fst t) (snd t) (\<lambda>n. clock (5 + n)) (fst k)) (\<lambda>t listed.
         next_call (case indexed_delete ops (fst t) k of (i', r) \<Rightarrow> ((i', snd t), r)) (\<lambda>t gone.
         next_call (if gone then look 6 t else (t, Inr None)) (\<lambda>t deleted.
         next_call (put 7 v2 t) (\<lambda>t _.
         next_call (look 8 t) (\<lambda>t again.
         next_call (case indexed_clear ops (fst t) (Some (fst k)) of (i', r) \<Rightarrow> ((i', snd t), r)) (\<lambda>t _.
         next_call (look 9 t) (\<lambda>t cleared.
           (t, Inr (new_report ''oncemesh.adapter-conformance/indexed-v0''
                  [(''initial_miss'', missing first), (''first_hit'', same hit v1), (''overwrite_hit'', same overwritten v2),
                   (''enumerated'', same (al_get listed (snd k)) v2), (''deleted'', gone \<and> missing deleted),
                   (''reput_hit'', same again v2), (''clear_miss'', missing cleared)])))))))))))))))"

section \<open>The registry of adapters\<close>

record adapter_descriptor =
  de_name :: pystr
  de_purpose :: pystr
  de_module :: pystr
  de_class_name :: pystr
  de_extra :: "pystr option"
  de_maturity :: pystr
  de_capabilities :: "pystr list"

definition new_descriptor :: "pyval \<Rightarrow> pyval \<Rightarrow> pyval \<Rightarrow> pyval \<Rightarrow> pyval \<Rightarrow> pyval \<Rightarrow> pystr list \<Rightarrow> adapter_descriptor result" where
  "new_descriptor name purpose module_name class_name extra maturity capabilities =
     seq (first_error
       [guard (list_all nonempty_str [name, purpose, module_name, class_name, maturity]) (ValueError ''adapter field must be a non-empty string''),
        guard (extra = PyNone \<or> nonempty_str extra) (ValueError ''adapter extra must be null or a non-empty string''),
        guard (capabilities \<noteq> [] \<and> distinct capabilities) (ValueError ''adapter capabilities must be non-empty and unique'')])
     (Inr \<lparr>de_name = str_of name, de_purpose = str_of purpose, de_module = str_of module_name, de_class_name = str_of class_name,
           de_extra = (if extra = PyNone then None else Some (str_of extra)), de_maturity = str_of maturity,
           de_capabilities = capabilities\<rparr>)"

definition builtin_adapters :: "adapter_descriptor list" where
  "builtin_adapters =
     [\<lparr>de_name = u ''python'', de_purpose = u ''Explicit exact-key caching for custom Python agents and workflows.'',
       de_module = u ''oncemesh.integrations.python'', de_class_name = u ''OnceMeshPythonCache'', de_extra = None,
       de_maturity = u ''reference'', de_capabilities = map u [''sync'', ''async'', ''ttl'', ''json'']\<rparr>,
      \<lparr>de_name = u ''langgraph'', de_purpose = u ''LangGraph BaseCache integration for node and task results.'',
       de_module = u ''oncemesh.integrations.langgraph'', de_class_name = u ''OnceMeshLangGraphCache'', de_extra = Some (u ''langgraph''),
       de_maturity = u ''reference'', de_capabilities = map u [''sync'', ''async'', ''batch'', ''ttl'', ''clear'']\<rparr>,
      \<lparr>de_name = u ''langchain'', de_purpose = u ''LangChain LLM and chat-model BaseCache integration.'',
       de_module = u ''oncemesh.integrations.langchain'', de_class_name = u ''OnceMeshLangChainCache'', de_extra = Some (u ''langchain''),
       de_maturity = u ''experimental'', de_capabilities = map u [''sync'', ''async'', ''ttl'', ''clear'']\<rparr>,
      \<lparr>de_name = u ''llamaindex'', de_purpose = u ''LlamaIndex BaseKVStore and IngestionCache backend.'',
       de_module = u ''oncemesh.integrations.llamaindex'', de_class_name = u ''OnceMeshLlamaIndexKVStore'', de_extra = Some (u ''llamaindex''),
       de_maturity = u ''experimental'', de_capabilities = map u [''sync'', ''async'', ''batch'', ''enumerate'', ''delete'', ''clear'']\<rparr>]"

fun find_adapter :: "adapter_descriptor list \<Rightarrow> pystr \<Rightarrow> adapter_descriptor result" where
  "find_adapter [] name = Inl KeyError"
| "find_adapter (d # ds) name = (if de_name d = name then Inr d else find_adapter ds name)"

definition get_adapter :: "pystr \<Rightarrow> adapter_descriptor result" where
  "get_adapter name = find_adapter builtin_adapters name"

text \<open>Of an installed plug-in: what its entry point returned, if that is a descriptor.\<close>

fun add_plugins :: "adapter_descriptor option list \<Rightarrow> adapter_descriptor list \<Rightarrow> adapter_descriptor list result" where
  "add_plugins [] ds = Inr ds"
| "add_plugins (None # rest) ds = Inl TypeError"
| "add_plugins (Some d # rest) ds =
     (if de_name d \<in> set (map de_name ds) then Inl (ValueError ''duplicate OnceMesh adapter name'')
      else add_plugins rest (ds @ [d]))"

definition discover_adapters :: "adapter_descriptor option list \<Rightarrow> bool \<Rightarrow> adapter_descriptor list result" where
  "discover_adapters plugins include_plugins = (if include_plugins then add_plugins plugins builtin_adapters else Inr builtin_adapters)"

lemma discover_adapters_unique: "discover_adapters plugins include_plugins = Inr ds \<Longrightarrow> distinct (map de_name ds)"
proof -
  have b: "distinct (map de_name builtin_adapters)" by (simp add: builtin_adapters_def)
  have "distinct (map de_name ds) \<Longrightarrow> add_plugins plugins ds = Inr ds' \<Longrightarrow> distinct (map de_name ds')" for ds ds'
    by (induction plugins ds rule: add_plugins.induct) (auto split: if_splits)
  with b show "discover_adapters plugins include_plugins = Inr ds \<Longrightarrow> distinct (map de_name ds)"
    by (auto simp: discover_adapters_def split: if_splits)
qed

end
