(* ===== verification/Integrations.thy ===== *)
theory Integrations
  imports Adapters
begin

text \<open>
  The caches for particular runtimes: custom Python agents (\<open>integrations/python.py\<close>), LangChain
  (\<open>langchain.py\<close>), LangGraph (\<open>langgraph.py\<close>) and LlamaIndex (\<open>llamaindex.py\<close>), each over the typed or the indexed adapter.
  What they use of the third-party packages is a parameter: the types and the serialization of LangChain's
  generations and the serializer of LangGraph. The asynchronous methods run the same steps.
\<close>

section \<open>Python\<close>

definition python_serializer :: pystr where
  "python_serializer = u ''oncemesh.python-json/v1''"

definition new_python_cache ::
  "(pystr \<Rightarrow> pystr) \<Rightarrow> bridge \<Rightarrow> 'e epoch_ops \<Rightarrow> 's store_ops \<Rightarrow> ('s \<Rightarrow> store_view list) \<Rightarrow> ('e, 's, pyval) adapter result" where
  "new_python_cache repr B eops ops views =
     seq (guard (br_runtime B = u ''python'') (ValueError ''Python adapter requires a python runtime bridge''))
       (rbind (json_codec repr (PyStr python_serializer)) (new_adapter B eops ops views))"

definition python_invoke ::
  "('e, 's, pyval) adapter \<Rightarrow> 'e \<Rightarrow> 's \<Rightarrow> datetime \<Rightarrow> datetime \<Rightarrow> pyval list \<Rightarrow> pyval \<Rightarrow> pyval result \<Rightarrow> pyval \<Rightarrow> 's \<times> pyval call_outcome result" where
  "python_invoke A e s clock clock' namespace exact_key execute ttl =
     (case new_cache_key namespace exact_key of
        Inl x \<Rightarrow> (s, Inl x) | Inr key \<Rightarrow> get_or_execute A e s clock clock' key execute ttl)"

section \<open>LangChain\<close>

record 'g langchain =
  lc_is_generation :: "'g \<Rightarrow> bool"
  lc_is_chat_generation :: "'g \<Rightarrow> bool"
  lc_is_ai_message :: "'g \<Rightarrow> bool"
  lc_dumps :: "'g list \<Rightarrow> pystr result"
  lc_loads :: "pystr \<Rightarrow> 'g list option result"

definition langchain_serializer :: pystr where
  "langchain_serializer = u ''oncemesh.langchain-generations-json/v1''"

definition langchain_encode :: "'g langchain \<Rightarrow> 'g list \<Rightarrow> encoded_value result" where
  "langchain_encode L v =
     seq (guard (list_all (\<lambda>g. lc_is_generation L g \<or> lc_is_chat_generation L g \<and> lc_is_ai_message L g) v)
            (ValueError ''LangChain cache profile supports Generation and AI ChatGeneration only''))
     (rbind (lc_dumps L v) (\<lambda>s. rbind (utf8_encode s) (\<lambda>payload. new_encoded_value (u ''json'') payload)))"

text \<open>\<open>loads\<close> answers None here for a value that is not a list.\<close>

definition langchain_decode :: "'g langchain \<Rightarrow> encoded_value \<Rightarrow> 'g list result" where
  "langchain_decode L x =
     (if xv_type_tag x \<noteq> u ''json'' then Inl (ValueError ''LangChain cache value has the wrong type tag'')
      else case utf8_decode (xv_payload x) of
             None \<Rightarrow> Inl UnicodeError
           | Some s \<Rightarrow>
               rbind (lc_loads L s) (\<lambda>decoded.
               case decoded of
                 None \<Rightarrow> Inl (ValueError ''LangChain cache value is not a generation list'')
               | Some gs \<Rightarrow>
                   seq (guard (list_all (\<lambda>g. lc_is_generation L g \<or> lc_is_chat_generation L g) gs)
                          (ValueError ''LangChain cache value is not a generation list'')) (Inr gs)))"

definition langchain_codec :: "'g langchain \<Rightarrow> 'g list codec" where
  "langchain_codec L =
     \<lparr>cd_serializer = langchain_serializer, cd_none = (\<lambda>v. False), cd_encode = langchain_encode L, cd_decode = langchain_decode L\<rparr>"

definition new_langchain_cache ::
  "'g langchain \<Rightarrow> bridge \<Rightarrow> 'e epoch_ops \<Rightarrow> 's store_ops \<Rightarrow> ('s \<Rightarrow> store_view list) \<Rightarrow> ('e, 's, 'g list) adapter result" where
  "new_langchain_cache L B eops ops views =
     seq (guard (br_runtime B = u ''langchain'') (ValueError ''LangChain adapter requires a langchain runtime bridge''))
       (new_adapter B eops ops views (langchain_codec L))"

definition langchain_namespace :: "pystr list" where
  "langchain_namespace = [u ''langchain'', u ''llm'']"

definition langchain_key :: "pyval \<Rightarrow> pyval \<Rightarrow> cache_key result" where
  "langchain_key prompt llm_string =
     seq (guard (is_str prompt \<and> is_str llm_string) (ValueError ''prompt and llm_string must be strings''))
     (rbind (canonical_json (obj [(''prompt'', prompt), (''llm_string'', llm_string)])) (\<lambda>encoded.
        new_cache_key (map PyStr langchain_namespace) (PyStr (digest_bytes encoded))))"

definition langchain_lookup ::
  "('e, 's, 'g list) adapter \<Rightarrow> 'e \<Rightarrow> 's \<Rightarrow> datetime \<Rightarrow> pyval \<Rightarrow> pyval \<Rightarrow> 'g list option result" where
  "langchain_lookup A e s clock prompt llm_string =
     rbind (langchain_key prompt llm_string) (\<lambda>key. rbind (adapter_get A e s clock [key]) (\<lambda>found. Inr (al_get found key)))"

definition langchain_update ::
  "('e, 's, 'g list) adapter \<Rightarrow> pyval \<Rightarrow> 'e \<Rightarrow> 's \<Rightarrow> datetime \<Rightarrow> pyval \<Rightarrow> pyval \<Rightarrow> 'g list \<Rightarrow> 's \<times> unit result" where
  "langchain_update A ttl e s clock prompt llm_string v =
     (case langchain_key prompt llm_string of Inl x \<Rightarrow> (s, Inl x) | Inr key \<Rightarrow> adapter_set A e s clock [(key, v, ttl)])"

definition langchain_clear :: "('e, 's, 'g list) adapter \<Rightarrow> 'e \<Rightarrow> bool \<Rightarrow> 'e \<times> unit result" where
  "langchain_clear A e has_filters =
     (if has_filters then (e, Inl (ValueError ''OnceMesh LangChain clear does not accept filters''))
      else adapter_clear A e (Some [langchain_namespace]))"

section \<open>LangGraph\<close>

record 'v serde =
  sd_dumps_typed :: "'v \<Rightarrow> (pystr \<times> bytes) result"
  sd_loads_typed :: "pystr \<times> bytes \<Rightarrow> 'v result"
  sd_none :: "'v \<Rightarrow> bool"

definition langgraph_codec :: "pystr \<Rightarrow> 'v serde \<Rightarrow> 'v codec" where
  "langgraph_codec serializer D =
     \<lparr>cd_serializer = serializer, cd_none = sd_none D,
      cd_encode = (\<lambda>v. rbind (sd_dumps_typed D v) (\<lambda>(type_tag, payload). new_encoded_value type_tag payload)),
      cd_decode = (\<lambda>x. sd_loads_typed D (xv_type_tag x, xv_payload x))\<rparr>"

definition new_langgraph_cache ::
  "'v serde \<Rightarrow> bridge \<Rightarrow> 'e epoch_ops \<Rightarrow> 's store_ops \<Rightarrow> ('s \<Rightarrow> store_view list) \<Rightarrow> ('e, 's, 'v) adapter result" where
  "new_langgraph_cache D B eops ops views =
     seq (guard (br_runtime B = u ''langgraph'') (ValueError ''LangGraph adapter requires a langgraph runtime bridge''))
       (new_adapter B eops ops views (langgraph_codec (br_serializer B) D))"

type_synonym full_key = "pyval list \<times> pyval"

definition graph_key :: "full_key \<Rightarrow> cache_key result" where
  "graph_key k = new_cache_key (fst k) (snd k)"

fun translate_keys :: "(cache_key \<times> full_key) list \<Rightarrow> full_key list \<Rightarrow> (cache_key \<times> full_key) list result" where
  "translate_keys found [] = Inr found"
| "translate_keys found (k # ks) = rbind (graph_key k) (\<lambda>key. translate_keys (al_set found key k) ks)"

definition langgraph_get :: "('e, 's, 'v) adapter \<Rightarrow> 'e \<Rightarrow> 's \<Rightarrow> datetime \<Rightarrow> full_key list \<Rightarrow> (full_key \<times> 'v) list result" where
  "langgraph_get A e s clock ks =
     rbind (translate_keys [] ks) (\<lambda>translated.
     rbind (adapter_get A e s clock (map fst translated)) (\<lambda>found.
       Inr (al_of (map (\<lambda>(key, v). (the (al_get translated key), v)) found))))"

fun translate_pairs :: "(cache_key \<times> 'v \<times> pyval) list \<Rightarrow> (full_key \<times> 'v \<times> pyval) list \<Rightarrow> (cache_key \<times> 'v \<times> pyval) list result" where
  "translate_pairs found [] = Inr found"
| "translate_pairs found ((k, pair) # rest) = rbind (graph_key k) (\<lambda>key. translate_pairs (al_set found key pair) rest)"

definition langgraph_set :: "('e, 's, 'v) adapter \<Rightarrow> 'e \<Rightarrow> 's \<Rightarrow> datetime \<Rightarrow> (full_key \<times> 'v \<times> pyval) list \<Rightarrow> 's \<times> unit result" where
  "langgraph_set A e s clock pairs =
     (case translate_pairs [] pairs of Inl x \<Rightarrow> (s, Inl x) | Inr translated \<Rightarrow> adapter_set A e s clock translated)"

definition langgraph_clear :: "('e, 's, 'v) adapter \<Rightarrow> 'e \<Rightarrow> namespace list option \<Rightarrow> 'e \<times> unit result" where
  "langgraph_clear A e namespaces = adapter_clear A e namespaces"

section \<open>LlamaIndex\<close>

record ('e, 's, 'i) kv_store =
  kv_adapter :: "('e, 's, pyval) adapter"
  kv_index :: "('i, 's) index_ops"
  kv_ttl :: pyval

definition llamaindex_serializer :: pystr where
  "llamaindex_serializer = u ''oncemesh.llamaindex-json/v1''"

definition new_kv_store ::
  "(pystr \<Rightarrow> pystr) \<Rightarrow> bridge \<Rightarrow> 'e epoch_ops \<Rightarrow> 's store_ops \<Rightarrow> ('s \<Rightarrow> store_view list) \<Rightarrow> ('i, 's) index_ops \<Rightarrow> pyval \<Rightarrow> ('e, 's, 'i) kv_store result" where
  "new_kv_store repr B eops ops views index ttl =
     seq (guard (br_runtime B = u ''llamaindex'') (ValueError ''LlamaIndex adapter requires a llamaindex runtime bridge''))
       (rbind (json_codec repr (PyStr llamaindex_serializer)) (\<lambda>codec.
        rbind (new_adapter B eops ops views codec) (\<lambda>A. Inr \<lparr>kv_adapter = A, kv_index = index, kv_ttl = ttl\<rparr>)))"

definition collection_namespace :: "pyval \<Rightarrow> namespace result" where
  "collection_namespace collection =
     seq (guard (nonempty_str collection) (ValueError ''collection must be a non-empty string'')) (Inr [u ''llamaindex'', str_of collection])"

definition kv_put ::
  "('e, 's, 'i) kv_store \<Rightarrow> 'e \<Rightarrow> 'i \<Rightarrow> 's \<Rightarrow> datetime \<Rightarrow> pystr \<Rightarrow> pystr \<Rightarrow> pyval \<Rightarrow> pyval \<Rightarrow> 'i \<times> 's \<times> unit result" where
  "kv_put K e i s clock publication key v collection =
     (if \<not> is_dict v then (i, s, Inl (ValueError ''LlamaIndex cache values must be dictionaries''))
      else case collection_namespace collection of
             Inl x \<Rightarrow> (i, s, Inl x)
           | Inr namespace \<Rightarrow> indexed_put (kv_adapter K) (kv_index K) e i s clock publication (namespace, key) v (kv_ttl K))"

fun kv_put_each ::
  "('e, 's, 'i) kv_store \<Rightarrow> 'e \<Rightarrow> 'i \<Rightarrow> 's \<Rightarrow> (nat \<Rightarrow> datetime) \<Rightarrow> (nat \<Rightarrow> pystr) \<Rightarrow> nat \<Rightarrow> (pystr \<times> pyval) list \<Rightarrow> pyval \<Rightarrow> 'i \<times> 's \<times> unit result" where
  "kv_put_each K e i s clock publication n [] collection = (i, s, Inr ())"
| "kv_put_each K e i s clock publication n ((key, v) # rest) collection =
     (case kv_put K e i s (clock n) (publication n) key v collection of
        (i', s', Inl x) \<Rightarrow> (i', s', Inl x)
      | (i', s', Inr _) \<Rightarrow> kv_put_each K e i' s' clock publication (Suc n) rest collection)"

definition kv_put_all ::
  "('e, 's, 'i) kv_store \<Rightarrow> 'e \<Rightarrow> 'i \<Rightarrow> 's \<Rightarrow> (nat \<Rightarrow> datetime) \<Rightarrow> (nat \<Rightarrow> pystr) \<Rightarrow> (pystr \<times> pyval) list \<Rightarrow> pyval \<Rightarrow> pyval \<Rightarrow> 'i \<times> 's \<times> unit result" where
  "kv_put_all K e i s clock publication pairs collection batch_size =
     (if \<not> (is_int batch_size \<and> 1 \<le> int_of batch_size) then (i, s, Inl (ValueError ''batch_size must be a positive integer''))
      else kv_put_each K e i s clock publication 0 pairs collection)"

definition kv_get :: "('e, 's, 'i) kv_store \<Rightarrow> 'e \<Rightarrow> 'i \<Rightarrow> 's \<Rightarrow> datetime \<Rightarrow> pystr \<Rightarrow> pyval \<Rightarrow> pyval option result" where
  "kv_get K e i s clock key collection =
     rbind (collection_namespace collection) (\<lambda>namespace.
     rbind (indexed_get (kv_adapter K) (kv_index K) e i s clock (namespace, key)) (\<lambda>found.
       Inr (case found of Some v \<Rightarrow> if is_dict v then Some v else None | None \<Rightarrow> None)))"

text \<open>\<open>value.copy()\<close>: only dictionaries and lists have it.\<close>

fun copy_values :: "(pystr \<times> pyval) list \<Rightarrow> (pystr \<times> pyval) list result" where
  "copy_values [] = Inr []"
| "copy_values ((key, v) # rest) =
     (if is_dict v \<or> is_list v then rbind (copy_values rest) (\<lambda>vs. Inr ((key, v) # vs)) else Inl AttributeError)"

definition kv_get_all ::
  "('e, 's, 'i) kv_store \<Rightarrow> 'e \<Rightarrow> 'i \<Rightarrow> 's \<Rightarrow> (nat \<Rightarrow> datetime) \<Rightarrow> pyval \<Rightarrow> (pystr \<times> pyval) list result" where
  "kv_get_all K e i s clock collection =
     rbind (collection_namespace collection) (\<lambda>namespace.
     rbind (indexed_get_all (kv_adapter K) (kv_index K) e i s clock namespace) copy_values)"

definition kv_delete :: "('e, 's, 'i) kv_store \<Rightarrow> 'i \<Rightarrow> pystr \<Rightarrow> pyval \<Rightarrow> 'i \<times> bool result" where
  "kv_delete K i key collection =
     (case collection_namespace collection of Inl x \<Rightarrow> (i, Inl x) | Inr namespace \<Rightarrow> indexed_delete (kv_index K) i (namespace, key))"

definition kv_clear :: "('e, 's, 'i) kv_store \<Rightarrow> 'i \<Rightarrow> pyval \<Rightarrow> 'i \<times> int result" where
  "kv_clear K i collection =
     (if collection = PyNone then indexed_clear (kv_index K) i None
      else case collection_namespace collection of
             Inl x \<Rightarrow> (i, Inl x) | Inr namespace \<Rightarrow> indexed_clear (kv_index K) i (Some namespace))"

end
