(* ===== verification/Index_Contract.thy ===== *)
theory Index_Contract
  imports Active_Index
begin

text \<open>
  What an active-key index promises, as operations on a function from native keys to entries, and
  the proof that the three indexes keep it: the locale \<open>active_index\<close> holds the laws and what
  follows from them for sequences of calls, and is interpreted on \<open>memory_index\<close>, \<open>file_index\<close> and
  \<open>sqlite_index\<close>.
\<close>

section \<open>The abstract index\<close>

type_synonym index_view = "native \<Rightarrow> entry"

definition text_native :: "native \<Rightarrow> bool" where
  "text_native k \<longleftrightarrow> text_namespace (fst k) \<and> code_points (snd k)"

definition prepare_at :: "native \<Rightarrow> index_view \<Rightarrow> index_view \<times> int" where
  "prepare_at k v = (v(k := prepare_entry (v k)), next_generation (v k))"

definition activate_at :: "native \<Rightarrow> index_view \<Rightarrow> index_view \<times> unit" where
  "activate_at k v = (v(k := activate_entry (v k)), ())"

definition publish_at :: "native \<Rightarrow> pystr \<Rightarrow> index_view \<Rightarrow> index_view \<times> int" where
  "publish_at k publication v = (v(k := publish_entry publication (v k)), next_generation (v k))"

definition delete_at :: "native \<Rightarrow> index_view \<Rightarrow> index_view \<times> bool" where
  "delete_at k v = (v(k := deactivate_entry (v k)), is_active_entry (v k))"

definition clear_at :: "(native \<Rightarrow> bool) \<Rightarrow> index_view \<Rightarrow> index_view \<times> int" where
  "clear_at P v =
     ((\<lambda>k. if P k then deactivate_entry (v k) else v k), int (card {k. P k \<and> is_active_entry (v k)}))"

definition active_at :: "index_view \<Rightarrow> namespace \<Rightarrow> pystr list" where
  "active_at v ns = sorted_list_of_set {key. is_active_entry (v (ns, key))}"

text \<open>The calls of the protocol \<open>ActiveKeyIndex\<close>, and what they return.\<close>

datatype 's index_call =
    Generation native
  | Is_active native
  | Active_revision native
  | Prepare_put native
  | Activate native
  | Publish native pystr "'s publisher"
  | Delete native
  | Active_keys namespace
  | Clear_namespace namespace
  | Clear_all

datatype index_answer =
    Number int
  | Flag bool
  | Revision "(int \<times> pystr option) option"
  | Done
  | Key_list "pystr list"

fun call_index :: "('i, 's) index_ops \<Rightarrow> 's index_call \<Rightarrow> 'i \<Rightarrow> 's \<Rightarrow> 'i \<times> 's \<times> index_answer result" where
  "call_index ops (Generation k) i s = (i, s, map_sum id Number (ix_generation ops i k))"
| "call_index ops (Is_active k) i s = (i, s, map_sum id Flag (ix_is_active ops i k))"
| "call_index ops (Active_revision k) i s = (i, s, map_sum id Revision (ix_revision ops i k))"
| "call_index ops (Prepare_put k) i s = (case ix_prepare ops i k of (i', r) \<Rightarrow> (i', s, map_sum id Number r))"
| "call_index ops (Activate k) i s = (case ix_activate ops i k of (i', r) \<Rightarrow> (i', s, map_sum id (\<lambda>_. Done) r))"
| "call_index ops (Publish k p publisher) i s =
     (case ix_publish ops i s k p publisher of (i', s', r) \<Rightarrow> (i', s', map_sum id Number r))"
| "call_index ops (Delete k) i s = (case ix_delete ops i k of (i', r) \<Rightarrow> (i', s, map_sum id Flag r))"
| "call_index ops (Active_keys ns) i s = (i, s, map_sum id Key_list (ix_active_keys ops i ns))"
| "call_index ops (Clear_namespace ns) i s = (case ix_clear_namespace ops i ns of (i', r) \<Rightarrow> (i', s, map_sum id Number r))"
| "call_index ops Clear_all i s = (case ix_clear_all ops i of (i', r) \<Rightarrow> (i', s, map_sum id Number r))"

text \<open>A call that returns, on the abstract index.\<close>

fun abstract_call :: "'s index_call \<Rightarrow> index_view \<Rightarrow> 's \<Rightarrow> index_view \<times> 's \<times> index_answer" where
  "abstract_call (Generation k) v s = (v, s, Number (fst (v k)))"
| "abstract_call (Is_active k) v s = (v, s, Flag (is_active_entry (v k)))"
| "abstract_call (Active_revision k) v s = (v, s, Revision (revision_of (v k)))"
| "abstract_call (Prepare_put k) v s = (case prepare_at k v of (v', g) \<Rightarrow> (v', s, Number g))"
| "abstract_call (Activate k) v s = (case activate_at k v of (v', _) \<Rightarrow> (v', s, Done))"
| "abstract_call (Publish k p publisher) v s =
     (case publish_at k p v of (v', g) \<Rightarrow> (v', fst (publisher g p s), Number g))"
| "abstract_call (Delete k) v s = (case delete_at k v of (v', b) \<Rightarrow> (v', s, Flag b))"
| "abstract_call (Active_keys ns) v s = (v, s, Key_list (active_at v ns))"
| "abstract_call (Clear_namespace ns) v s = (case clear_at (\<lambda>k. fst k = ns) v of (v', n) \<Rightarrow> (v', s, Number n))"
| "abstract_call Clear_all v s = (case clear_at (\<lambda>_. True) v of (v', n) \<Rightarrow> (v', s, Number n))"

text \<open>
  The store after a call that raises: a publisher may have raised after it wrote, and an index may
  fail to record what was published.
\<close>

definition raised_call :: "'s index_call \<Rightarrow> index_view \<Rightarrow> 's \<Rightarrow> 's \<Rightarrow> bool" where
  "raised_call c v s s' \<longleftrightarrow>
     s' = s \<or> (\<exists>k p publisher. c = Publish k p publisher \<and> s' = fst (publisher (next_generation (v k)) p s))"

text \<open>The arguments of a call: strings of code points, and identifiers as \<open>uuid4().hex\<close> makes them.\<close>

fun call_ok :: "'s index_call \<Rightarrow> bool" where
  "call_ok (Generation k) = text_native k"
| "call_ok (Is_active k) = text_native k"
| "call_ok (Active_revision k) = text_native k"
| "call_ok (Prepare_put k) = text_native k"
| "call_ok (Activate k) = text_native k"
| "call_ok (Publish k p publisher) = (text_native k \<and> is_publication p)"
| "call_ok (Delete k) = text_native k"
| "call_ok (Active_keys ns) = text_namespace ns"
| "call_ok (Clear_namespace ns) = text_namespace ns"
| "call_ok Clear_all = True"

fun call_indexes :: "('i, 's) index_ops \<Rightarrow> 's index_call list \<Rightarrow> 'i \<Rightarrow> 's \<Rightarrow> 'i \<times> 's \<times> index_answer result list" where
  "call_indexes ops [] i s = (i, s, [])"
| "call_indexes ops (c # cs) i s =
     (case call_index ops c i s of (i', s', r) \<Rightarrow>
        (case call_indexes ops cs i' s' of (i'', s'', rs) \<Rightarrow> (i'', s'', r # rs)))"

fun abstract_calls :: "'s index_call list \<Rightarrow> index_view \<Rightarrow> 's \<Rightarrow> index_view \<times> 's \<times> index_answer list" where
  "abstract_calls [] v s = (v, s, [])"
| "abstract_calls (c # cs) v s =
     (case abstract_call c v s of (v', s', r) \<Rightarrow>
        (case abstract_calls cs v' s' of (v'', s'', rs) \<Rightarrow> (v'', s'', r # rs)))"

section \<open>Entries only move on\<close>

text \<open>
  A generation never decreases, and an active entry changes only together with its generation: once
  a revision is gone, it is gone for good.
\<close>

definition moves_on :: "entry \<Rightarrow> entry \<Rightarrow> bool" where
  "moves_on e e' \<longleftrightarrow> fst e \<le> fst e' \<and> (is_active_entry e \<and> fst e' = fst e \<longrightarrow> e' = e)"

lemma moves_on_refl [simp]: "moves_on e e"
  by (simp add: moves_on_def)

lemma moves_on_trans: "moves_on e e' \<Longrightarrow> moves_on e' e'' \<Longrightarrow> moves_on e e''"
  by (force simp: moves_on_def)

lemma moves_on_entries [simp]:
  "moves_on e (prepare_entry e)" "moves_on e (activate_entry e)" "moves_on e (publish_entry p e)" "moves_on e (deactivate_entry e)"
  by (auto simp: moves_on_def prepare_entry_def activate_entry_def publish_entry_def deactivate_entry_def
        next_generation_def is_active_entry_def split: prod.splits)

lemma revision_gone:
  assumes "moves_on e e'" "moves_on e' e''" "revision_of e = Some r" "revision_of e' \<noteq> Some r"
  shows "revision_of e'' \<noteq> Some r"
  using assms by (auto simp: moves_on_def revision_of_def is_active_entry_def split: prod.splits if_splits)

lemma abstract_call_moves_on: "abstract_call c v s = (v', s', r) \<Longrightarrow> moves_on (v k) (v' k)"
  by (cases c) (auto simp: prepare_at_def activate_at_def publish_at_def delete_at_def clear_at_def)

section \<open>The laws of an index\<close>

lemma map_sum_answer [simp]:
  "map_sum id f m = Inr a \<longleftrightarrow> (\<exists>x. m = Inr x \<and> a = f x)" "map_sum id f m = Inl e \<longleftrightarrow> m = Inl e"
  by (cases m; auto)+

text \<open>
  \<open>view\<close> reads an index as a function. A call that returns does what the abstract operation does, a
  call that raises leaves the index as it was.
\<close>

locale active_index =
  fixes ops :: "('i, 's) index_ops" and inv :: "'i \<Rightarrow> bool" and view :: "'i \<Rightarrow> index_view"
  assumes generation: "inv i \<Longrightarrow> text_native k \<Longrightarrow> ix_generation ops i k = Inr g \<Longrightarrow> g = fst (view i k)"
    and is_active: "inv i \<Longrightarrow> text_native k \<Longrightarrow> ix_is_active ops i k = Inr b \<Longrightarrow> b = is_active_entry (view i k)"
    and revision: "inv i \<Longrightarrow> text_native k \<Longrightarrow> ix_revision ops i k = Inr r \<Longrightarrow> r = revision_of (view i k)"
    and active_keys: "inv i \<Longrightarrow> text_namespace ns \<Longrightarrow> ix_active_keys ops i ns = Inr ks \<Longrightarrow> ks = active_at (view i) ns"
    and prepare: "inv i \<Longrightarrow> text_native k \<Longrightarrow> ix_prepare ops i k = (i', Inr g) \<Longrightarrow> inv i' \<and> (view i', g) = prepare_at k (view i)"
    and activate: "inv i \<Longrightarrow> text_native k \<Longrightarrow> ix_activate ops i k = (i', Inr y) \<Longrightarrow> inv i' \<and> (view i', y) = activate_at k (view i)"
    and publish: "inv i \<Longrightarrow> text_native k \<Longrightarrow> is_publication p \<Longrightarrow> ix_publish ops i s k p publisher = (i', s', Inr g) \<Longrightarrow>
      inv i' \<and> (view i', g) = publish_at k p (view i) \<and> publisher g p s = (s', Inr ())"
    and delete: "inv i \<Longrightarrow> text_native k \<Longrightarrow> ix_delete ops i k = (i', Inr b) \<Longrightarrow> inv i' \<and> (view i', b) = delete_at k (view i)"
    and clear_namespace: "inv i \<Longrightarrow> text_namespace ns \<Longrightarrow> ix_clear_namespace ops i ns = (i', Inr n) \<Longrightarrow>
      inv i' \<and> (view i', n) = clear_at (\<lambda>k. fst k = ns) (view i)"
    and clear_all: "inv i \<Longrightarrow> ix_clear_all ops i = (i', Inr n) \<Longrightarrow> inv i' \<and> (view i', n) = clear_at (\<lambda>_. True) (view i)"
    and raises: "inv i \<Longrightarrow> ix_prepare ops i k = (i', Inl x) \<Longrightarrow> i' = i"
      "inv i \<Longrightarrow> ix_activate ops i k = (i', Inl x) \<Longrightarrow> i' = i"
      "inv i \<Longrightarrow> ix_delete ops i k = (i', Inl x) \<Longrightarrow> i' = i"
      "inv i \<Longrightarrow> ix_clear_namespace ops i ns = (i', Inl x) \<Longrightarrow> i' = i"
      "inv i \<Longrightarrow> ix_clear_all ops i = (i', Inl x) \<Longrightarrow> i' = i"
    and publish_raises: "inv i \<Longrightarrow> text_native k \<Longrightarrow> ix_publish ops i s k p publisher = (i', s', Inl x) \<Longrightarrow>
      i' = i \<and> (s' = s \<or> s' = fst (publisher (next_generation (view i k)) p s))"
    and publish_readable: "inv i \<Longrightarrow> text_native k \<Longrightarrow> is_publication p \<Longrightarrow> ix_publish ops i s k p publisher = (i', s', Inr g) \<Longrightarrow>
      \<exists>r. ix_revision ops i' k = Inr r"
begin

lemma call_returns:
  assumes "inv i" "call_ok c" "call_index ops c i s = (i', s', Inr a)"
  shows "inv i' \<and> abstract_call c (view i) s = (view i', s', a)"
proof (cases c)
  case (Prepare_put k)
  with assms prepare [OF assms(1), of k] show ?thesis by (fastforce split: prod.splits)
next
  case (Activate k)
  with assms activate [OF assms(1), of k] show ?thesis by (fastforce split: prod.splits)
next
  case (Publish k p publisher)
  with assms(3) obtain g where g: "ix_publish ops i s k p publisher = (i', s', Inr g)" "a = Number g"
    by (auto split: prod.splits)
  from Publish assms(2) publish [OF assms(1) _ _ g(1)] show ?thesis by (auto simp: Publish g(2) split: prod.splits)
next
  case (Delete k)
  with assms delete [OF assms(1), of k] show ?thesis by (fastforce split: prod.splits)
next
  case (Clear_namespace ns)
  with assms clear_namespace [OF assms(1), of ns] show ?thesis by (fastforce split: prod.splits)
next
  case Clear_all
  with assms clear_all [OF assms(1)] show ?thesis by (fastforce split: prod.splits)
qed (use assms in \<open>auto dest: generation is_active revision active_keys\<close>)

lemma call_raises:
  assumes "inv i" "call_ok c" "call_index ops c i s = (i', s', Inl x)"
  shows "i' = i \<and> raised_call c (view i) s s'"
proof (cases c)
  case (Publish k p publisher)
  with assms(3) have "ix_publish ops i s k p publisher = (i', s', Inl x)" by (auto split: prod.splits)
  with publish_raises [OF assms(1)] Publish assms(2) show ?thesis by (fastforce simp: raised_call_def)
qed (use assms in \<open>auto simp: raised_call_def split: prod.splits dest: raises\<close>)

lemma call_inv: "inv i \<Longrightarrow> call_ok c \<Longrightarrow> call_index ops c i s = (i', s', r) \<Longrightarrow> inv i'"
  using call_returns [of i c s i' s'] call_raises [of i c s i' s'] by (cases r) auto

lemma call_moves_on:
  assumes "inv i" "call_ok c" "call_index ops c i s = (i', s', r)"
  shows "moves_on (view i k) (view i' k)"
proof (cases r)
  case (Inl x)
  with call_raises assms show ?thesis by fastforce
next
  case (Inr a)
  with call_returns assms abstract_call_moves_on show ?thesis by metis
qed

lemma calls_move_on:
  "inv i \<Longrightarrow> list_all call_ok cs \<Longrightarrow> call_indexes ops cs i s = (i', s', rs) \<Longrightarrow> inv i' \<and> moves_on (view i k) (view i' k)"
proof (induction cs arbitrary: i s rs)
  case (Cons c cs)
  from Cons.prems obtain i1 s1 r rs1 where c: "call_index ops c i s = (i1, s1, r)" "call_indexes ops cs i1 s1 = (i', s', rs1)"
    by (auto split: prod.splits)
  have p: "call_ok c" "list_all call_ok cs" using Cons.prems(2) by simp_all
  note c1 = call_inv [OF Cons.prems(1) p(1) c(1)] call_moves_on [OF Cons.prems(1) p(1) c(1), of k]
  from Cons.IH [OF c1(1) p(2) c(2)] c1(2) moves_on_trans show ?case by blast
qed simp

text \<open>A sequence of calls none of which raises runs as on the abstract index.\<close>

lemma calls_return:
  "inv i \<Longrightarrow> list_all call_ok cs \<Longrightarrow> call_indexes ops cs i s = (i', s', rs) \<Longrightarrow> list_all ok rs \<Longrightarrow>
     abstract_calls cs (view i) s = (view i', s', map projr rs)"
proof (induction cs arbitrary: i s rs)
  case (Cons c cs)
  from Cons.prems obtain i1 s1 a rs1 where c: "call_index ops c i s = (i1, s1, Inr a)" "call_indexes ops cs i1 s1 = (i', s', rs1)"
    "rs = Inr a # rs1" by (auto split: prod.splits simp: ok_iff)
  have p: "call_ok c" "list_all call_ok cs" "list_all ok rs1" using Cons.prems(2,4) by (simp_all add: c(3))
  note c1 = call_returns [OF Cons.prems(1) p(1) c(1)]
  with Cons.IH [OF _ p(2) c(2) p(3)] show ?case by (simp add: c(3))
qed auto

text \<open>What was published is current.\<close>

lemma published_is_current:
  assumes "inv i" "text_native k" "is_publication p" "ix_publish ops i s k p publisher = (i', s', Inr g)"
  shows "inv i' \<and> ix_revision ops i' k = Inr (Some (g, Some p)) \<and> publisher g p s = (s', Inr ())"
proof -
  from publish [OF assms] have p: "inv i'" "(view i', g) = publish_at k p (view i)" "publisher g p s = (s', Inr ())" by simp_all
  obtain r where "ix_revision ops i' k = Inr r" using publish_readable [OF assms] by blast
  moreover have "revision_of (view i' k) = Some (g, Some p)"
    using p(2) by (simp add: publish_at_def publish_entry_def revision_of_def)
  ultimately show ?thesis using revision [OF p(1) assms(2)] p by fastforce
qed

text \<open>Once a revision is no longer current it is never current again.\<close>

lemma revision_never_returns:
  assumes "inv i" "list_all call_ok (cs @ cs')" "call_indexes ops cs i s = (i1, s1, rs)" "call_indexes ops cs' i1 s1 = (i2, s2, rs')"
    and "revision_of (view i k) = Some r" "revision_of (view i1 k) \<noteq> Some r"
  shows "revision_of (view i2 k) \<noteq> Some r"
  using calls_move_on [OF assms(1) _ assms(3), of k] calls_move_on [OF _ _ assms(4), of k] assms(2,5,6) revision_gone
  by (metis list_all_append)

end

end
