(* ===== verification/Index_Backends.thy ===== *)
theory Index_Backends
  imports Index_Contract
begin

text \<open>
  The three indexes keep the contract. Every operation of the dictionary \<open>implements\<close> its abstract
  counterpart; the file index reads, changes and rewrites the dictionary of its document, and the
  table of the SQLite index is the dictionary with encoded namespaces.
\<close>

section \<open>The dictionary\<close>

definition proper_native :: "native \<Rightarrow> bool" where
  "proper_native k \<longleftrightarrow> proper (fst k) \<and> snd k \<noteq> []"

lemma validate_native_ok [simp]: "validate_native k = Inr () \<longleftrightarrow> proper_native k"
  using validate_namespace_ok [of "fst k"]
  by (simp add: validate_native_def validate_native_values_def checks proper_native_def nonempty_str_def)

definition entries_ok :: "entries \<Rightarrow> bool" where
  "entries_ok d \<longleftrightarrow> distinct (map fst d) \<and> (\<forall>(k, e) \<in> set d. proper_native k \<and> text_native k \<and> row_ok e)"

lemma row_ok_entries [simp]:
  "row_ok (0, False, None)" "row_ok e \<Longrightarrow> row_ok (prepare_entry e)" "row_ok e \<Longrightarrow> row_ok (activate_entry e)"
  "row_ok e \<Longrightarrow> is_publication p \<Longrightarrow> row_ok (publish_entry p e)" "row_ok e \<Longrightarrow> row_ok (deactivate_entry e)"
  by (auto simp: row_ok_def prepare_entry_def activate_entry_def publish_entry_def deactivate_entry_def next_generation_def
      split: prod.splits)

lemma entries_ok_set:
  "entries_ok d \<Longrightarrow> proper_native k \<Longrightarrow> text_native k \<Longrightarrow> row_ok e \<Longrightarrow> entries_ok (al_set d k e)"
  by (auto simp: entries_ok_def distinct_al_set dest!: al_set_values)

lemma entry_row_ok: "entries_ok d \<Longrightarrow> row_ok (entry_at d k)"
  by (auto simp: entries_ok_def entry_at_def split: option.split dest!: al_get_Some_in)

lemma entry_at_set: "entry_at (al_set d k e) = (entry_at d)(k := e)"
  by (auto simp: entry_at_def)

definition implements :: "(entries \<Rightarrow> entries \<times> 'a) \<Rightarrow> (index_view \<Rightarrow> index_view \<times> 'a) \<Rightarrow> bool" where
  "implements f g \<longleftrightarrow>
     (\<forall>d. entries_ok d \<longrightarrow> entries_ok (fst (f d)) \<and> (entry_at (fst (f d)), snd (f d)) = g (entry_at d))"

lemma implements_entry:
  assumes "proper_native k" "text_native k"
  shows "implements (\<lambda>d. prepare_in d k) (prepare_at k)" "implements (\<lambda>d. (activate_in d k, ())) (activate_at k)"
    "implements (\<lambda>d. delete_in d k) (delete_at k)"
proof -
  have same: "deactivate_entry e = e" if "\<not> is_active_entry e" for e
    using that by (cases e) (simp add: deactivate_entry_def is_active_entry_def)
  show "implements (\<lambda>d. prepare_in d k) (prepare_at k)" "implements (\<lambda>d. (activate_in d k, ())) (activate_at k)"
    "implements (\<lambda>d. delete_in d k) (delete_at k)"
    using entries_ok_set [OF _ assms] entry_row_ok same
    by (auto simp: implements_def prepare_in_def prepare_at_def activate_in_def activate_at_def delete_in_def delete_at_def entry_at_set)
qed

lemma active_keys_of:
  assumes "distinct (map fst d)"
  shows "{k. P k \<and> is_active_entry (entry_at d k)} = fst ` set (filter (\<lambda>(k, e). P k \<and> is_active_entry e) d)"
proof -
  have "is_active_entry (entry_at d k) \<longleftrightarrow> (\<exists>e. al_get d k = Some e \<and> is_active_entry e)" for k
    by (auto simp: entry_at_def is_active_entry_def split: option.split)
  then have "is_active_entry (entry_at d k) \<longleftrightarrow> (\<exists>e. (k, e) \<in> set d \<and> is_active_entry e)" for k
    by (simp only: al_get_distinct [OF assms])
  then show ?thesis by (force simp: image_iff)
qed

lemma implements_clear: "implements (clear_in P) (clear_at P)"
  unfolding implements_def
proof (intro allI impI conjI)
  fix d
  assume d: "entries_ok d"
  then have dist: "distinct (map fst d)" by (simp add: entries_ok_def)
  have fst_map: "map fst (fst (clear_in P d)) = map fst d" by (simp add: clear_in_def comp_def case_prod_beta)
  with d show "entries_ok (fst (clear_in P d))" by (auto simp: entries_ok_def) (auto simp: clear_in_def)
  have "al_get (map (\<lambda>(k, e). (k, if P k then deactivate_entry e else e)) d) k
      = map_option (\<lambda>e. if P k then deactivate_entry e else e) (al_get d k)" for k
    by (induction d k rule: al_get.induct) auto
  then have "entry_at (fst (clear_in P d)) = fst (clear_at P (entry_at d))"
    by (auto simp: fun_eq_iff clear_in_def clear_at_def entry_at_def deactivate_entry_def split: option.split)
  moreover have "distinct (map fst (filter (\<lambda>(k, e). P k \<and> is_active_entry e) d))" using dist by (simp add: distinct_map_filter)
  then have "snd (clear_in P d) = snd (clear_at P (entry_at d))"
    using distinct_card by (fastforce simp: clear_in_def clear_at_def active_keys_of [OF dist])
  ultimately show "(entry_at (fst (clear_in P d)), snd (clear_in P d)) = clear_at P (entry_at d)" by (simp add: prod_eq_iff)
qed

lemma active_in_at:
  assumes "entries_ok d"
  shows "active_in d ns = active_at (entry_at d) ns"
proof -
  let ?f = "filter (\<lambda>(k, e). fst k = ns \<and> is_active_entry e) d"
  have dist: "distinct (map fst d)" using assms by (simp add: entries_ok_def)
  have "{key. is_active_entry (entry_at d (ns, key))} = snd ` {k. fst k = ns \<and> is_active_entry (entry_at d k)}"
    by force
  also have "\<dots> = set (map (\<lambda>(k, e). snd k) ?f)" unfolding active_keys_of [OF dist] by (force simp: image_iff)
  finally have s: "{key. is_active_entry (entry_at d (ns, key))} = set (map (\<lambda>(k, e). snd k) ?f)" .
  have "distinct (map fst ?f)" using dist by (simp add: distinct_map_filter)
  moreover have "inj_on snd (fst ` set ?f)" by (auto simp: inj_on_def)
  ultimately have "distinct (map snd (map fst ?f))" by (simp only: distinct_map [of snd] set_map simp_thms)
  then have "distinct (map (\<lambda>(k, e). snd k) ?f)" by (simp add: comp_def case_prod_unfold)
  then show ?thesis
    unfolding active_in_def active_at_def s by (simp only: sorted_list_of_set_sort_remdups distinct_remdups_id)
qed

section \<open>In memory\<close>

lemma mi_change_ok:
  assumes "entries_ok d" "mi_change f d k = (d', Inr x)" "proper_native k \<Longrightarrow> implements f g"
  shows "entries_ok d' \<and> (entry_at d', x) = g (entry_at d)"
proof (cases "validate_native k")
  case (Inr y)
  with assms(2) have f: "f d = (d', x)" by (auto simp: mi_change_def split: prod.splits)
  have "proper_native k" using Inr by simp
  from assms(3) [OF this] assms(1) show ?thesis unfolding implements_def f by (metis f fst_conv snd_conv)
qed (use assms(2) in \<open>simp add: mi_change_def\<close>)

lemma mi_change_raises: "mi_change f d k = (d', Inl x) \<Longrightarrow> d' = d"
  by (auto simp: mi_change_def split: sum.splits prod.splits)

lemma implements_apply: "implements f g \<Longrightarrow> entries_ok d \<Longrightarrow> f d = (d', x) \<Longrightarrow> entries_ok d' \<and> (entry_at d', x) = g (entry_at d)"
  by (metis implements_def fst_conv snd_conv)

lemma mi_publish_ok:
  assumes "entries_ok d" "text_native k" "is_publication p" "mi_publish d s k p publisher = (d', s', Inr g)"
  shows "entries_ok d' \<and> (entry_at d', g) = publish_at k p (entry_at d) \<and> publisher g p s = (s', Inr ())"
proof (cases "validate_native k")
  case (Inr y)
  then have "proper_native k" by simp
  with Inr assms show ?thesis
    by (auto simp: mi_publish_def Let_def publish_at_def entry_at_set entries_ok_set entry_row_ok split: prod.splits sum.splits)
qed (use assms(4) in \<open>simp add: mi_publish_def\<close>)

interpretation mi: active_index memory_index entries_ok entry_at
proof (unfold_locales, goal_cases)
  case (5 i k i' g)
  then show ?case using mi_change_ok [OF _ _ implements_entry(1)] by (simp add: memory_index_def)
next
  case (6 i k i' y)
  then show ?case using mi_change_ok [OF _ _ implements_entry(2)] by (simp add: memory_index_def)
next
  case (7 i k p s publisher i' s' g)
  then show ?case using mi_publish_ok by (simp add: memory_index_def)
next
  case (8 i k i' b)
  then show ?case using mi_change_ok [OF _ _ implements_entry(3)] by (simp add: memory_index_def)
next
  case (9 i ns i' n)
  then show ?case using implements_apply [OF implements_clear 9(1)] by (simp add: memory_index_def split: prod.splits)
next
  case (10 i i' n)
  then show ?case using implements_apply [OF implements_clear 10(1)] by (simp add: memory_index_def split: prod.splits)
next
  case (16 i k s p publisher i' s' x)
  then show ?case by (auto simp: memory_index_def mi_publish_def Let_def split: sum.splits prod.splits)
next
  case (17 i k p s publisher i' s' g)
  then show ?case by (auto simp: memory_index_def mi_publish_def mi_read_def seq_Inr split: sum.splits)
qed (auto simp: memory_index_def mi_read_def seq_Inr active_in_at split: prod.splits dest: mi_change_raises)

section \<open>In a file\<close>

lemma check_index_entry_ok: "check_index_entry v2 e = Inr () \<longleftrightarrow>
    exact_keys e ([''namespace'', ''key'', ''generation'', ''active''] @ (if v2 then [''publication_id''] else []))
    \<and> is_list (item e ''namespace'') \<and> list_all nonempty_str (items_of (item e ''namespace'')) \<and> nonempty_str (item e ''key'')
    \<and> is_int (item e ''generation'') \<and> 0 \<le> int_of (item e ''generation'') \<and> is_bool (item e ''active'')
    \<and> (item e ''publication_id'' = PyNone \<or> is_str (item e ''publication_id'') \<and> is_publication (str_of (item e ''publication_id'')))"
  by (auto simp: check_index_entry_def validate_native_values_def validate_namespace_def checks)

lemma index_entry_of_ok:
  assumes "check_index_entry v2 e = Inr ()" "wf_val e"
  shows "proper_native (fst (index_entry_of e)) \<and> text_native (fst (index_entry_of e)) \<and> row_ok (snd (index_entry_of e))"
proof -
  note c = assms(1) [unfolded check_index_entry_ok]
  have "nonempty_str x \<and> code_points (str_of x)" if "x \<in> set (items_of (item e ''namespace''))" for x
    using that c wf_items [OF wf_item [OF assms(2)] that] wf_str_of by (auto simp: list_all_iff)
  then have "proper (map str_of (items_of (item e ''namespace'')))" "text_namespace (map str_of (items_of (item e ''namespace'')))"
    by (auto simp: proper_def text_namespace_def nonempty_str_def list_all_iff)
  with c wf_str_of [OF wf_item [OF assms(2)]] show ?thesis
    by (auto simp: index_entry_of_def proper_native_def text_native_def row_ok_def opt_of_def nonempty_str_def)
qed

lemma index_entries_ok:
  "index_entries v2 es d = Inr d' \<Longrightarrow> \<forall>e \<in> set es. wf_val e \<Longrightarrow> entries_ok d \<Longrightarrow> entries_ok d'"
proof (induction v2 es d rule: index_entries.induct)
  case (2 v2 e es d)
  then have c: "check_index_entry v2 e = Inr ()" and n: "\<not> al_get d (fst (index_entry_of e)) \<noteq> None"
    and r: "index_entries v2 es (al_set d (fst (index_entry_of e)) (snd (index_entry_of e))) = Inr d'"
    by (auto simp: seq_Inr split: if_splits)
  from 2(1) [OF n r] index_entry_of_ok [OF c] entries_ok_set 2(3,4) show ?case by simp
qed simp

lemma fi_read_ok: "fi_read f = Inr d \<Longrightarrow> entries_ok d"
proof (cases f)
  case (Some f')
  assume r: "fi_read f = Inr d"
  with Some obtain v where v: "read_json f' = Inr v" and i: "index_entries (equals_small 2 (item v ''version'')) (items_of (item v ''entries'')) [] = Inr d"
    by (auto simp: fi_read_def split: sum.splits if_splits)
  from v have "wf_val v" by (auto simp: read_json_def loads_bytes_wf split: fs_file.splits)
  with index_entries_ok [OF i] wf_items wf_item show ?thesis by (auto simp: entries_ok_def)
qed (auto simp: fi_read_def entries_ok_def)

lemma index_document_entry_items:
  "item (index_document_entry (k, e)) ''namespace'' = PyList (map PyStr (fst k))"
  "item (index_document_entry (k, e)) ''key'' = PyStr (snd k)"
  "item (index_document_entry (k, e)) ''generation'' = PyInt (fst e)"
  "item (index_document_entry (k, e)) ''active'' = PyBool (is_active_entry e)"
  "item (index_document_entry (k, e)) ''publication_id'' = (case snd (snd e) of None \<Rightarrow> PyNone | Some i \<Rightarrow> PyStr i)"
  by (simp_all add: index_document_entry_def is_active_entry_def split: prod.split)

lemma index_document_entry_ok:
  assumes "proper_native k" "text_native k" "row_ok e" "jsonable (index_document_entry (k, e))"
  shows "check_index_entry True (norm (index_document_entry (k, e))) = Inr ()
    \<and> index_entry_of (norm (index_document_entry (k, e))) = (k, e)"
proof -
  let ?v = "index_document_entry (k, e)"
  have "exact_keys ?v [''namespace'', ''key'', ''generation'', ''active'', ''publication_id'']"
    unfolding index_document_entry_def by (cases e; cases k) (simp only: prod.case exact_keys_obj, simp)
  with assms show ?thesis
    by (cases k; cases e)
      (auto simp: check_index_entry_ok item_norm index_document_entry_items index_entry_of_def proper_native_def proper_def
         list_all_iff nonempty_str_def row_ok_def is_active_entry_def bool_of_def opt_of_def comp_def split: option.split option.splits)
qed

lemma entries_ok_sort: "entries_ok d \<Longrightarrow> entries_ok (sort_key fst d) \<and> entry_at (sort_key fst d) = entry_at d"
proof -
  assume d: "entries_ok d"
  then have s: "distinct (map fst d)" "distinct (map fst (sort_key fst d))" by (simp_all add: entries_ok_def distinct_map)
  have "al_get (sort_key fst d) k = Some v \<longleftrightarrow> al_get d k = Some v" for k v
    using al_get_distinct [OF s(1), of k v] al_get_distinct [OF s(2), of k v] by simp
  then have "al_get (sort_key fst d) = al_get d" by (intro ext) (metis option.exhaust)
  with d s(2) show ?thesis by (simp add: entries_ok_def entry_at_def fun_eq_iff)
qed

lemma index_entries_documents:
  assumes "entries_ok (acc @ d)" "\<forall>p \<in> set d. jsonable (index_document_entry p)"
  shows "index_entries True (map (\<lambda>p. norm (index_document_entry p)) d) acc = Inr (acc @ d)"
  using assms
proof (induction d arbitrary: acc)
  case (Cons p d)
  obtain k e where p: "p = (k, e)" by (cases p)
  from Cons.prems have "proper_native k" "text_native k" "row_ok e" "jsonable (index_document_entry (k, e))"
    by (auto simp: entries_ok_def p)
  note e = index_document_entry_ok [OF this]
  have n: "al_get acc k = None" using Cons.prems(1) by (auto simp: entries_ok_def p al_get_None)
  from Cons.IH [of "acc @ [(k, e)]"] Cons.prems show ?case by (simp add: p e n al_set_append_new)
qed simp

lemma is_publication_points: "is_publication p \<Longrightarrow> code_points p"
  by (auto simp: is_publication_def list_all_iff is_hex_def code_point_def)

lemma fi_write_read:
  assumes "fi_write d = Inr f" "entries_ok d"
  shows "fi_read f = Inr (sort_key fst d)"
proof -
  from assms(1) obtain b where b: "canonical_json (index_document d) = Inr b" "f = Some (File b)"
    by (auto simp: fi_write_def rbind_Inr)
  have "wf_val (index_document_entry (k, e))" if "text_native k" "row_ok e" for k e
    using that is_publication_points
    by (auto simp: index_document_entry_def text_native_def text_namespace_def row_ok_def list.pred_map comp_def
        split: prod.splits option.splits)
  then have wf_entry: "wf_val (index_document_entry p)" if "p \<in> set d" for p
    using that assms(2) by (cases p) (auto simp: entries_ok_def)
  then have "list_all (wf_val \<circ> index_document_entry) (sort_key fst d)" by (simp add: list_all_iff)
  then have wf: "wf_val (index_document d)" by (simp add: index_document_def list.pred_map)
  with b(1) have j: "jsonable (index_document d)" by (simp add: canonical_json_Inr)
  then have "jsonable (index_document_entry p)" if "p \<in> set d" for p
    using that by (auto simp: index_document_def jsonable_simps)
  then have "index_entries True (map (\<lambda>p. norm (index_document_entry p)) (sort_key fst d)) [] = Inr (sort_key fst d)"
    using index_entries_documents [of "[]" "sort_key fst d"] entries_ok_sort [OF assms(2)] by simp
  moreover have "exact_keys (index_document d) [''version'', ''entries'']"
    unfolding index_document_def exact_keys_obj by simp
  moreover have "read_json (File b) = Inr (norm (index_document d))" using loads_canonical [OF wf b(1)] by (simp add: read_json_def)
  ultimately show ?thesis using j
    by (simp add: fi_read_def b(2) item_norm) (simp add: index_document_def comp_def)
qed

lemma fi_mutate_ok:
  assumes "fi_mutate operation f = (f', Inr x)" "implements operation g"
  shows "\<exists>d d'. fi_read f = Inr d \<and> fi_read f' = Inr d' \<and> (entry_at d', x) = g (entry_at d)"
proof -
  from assms(1) obtain d where "fi_read f = Inr d" by (cases "fi_read f") (simp_all add: fi_mutate_def rbind_def)
  moreover obtain d' y where "operation d = (d', y)" by fastforce
  ultimately have d: "fi_read f = Inr d" "operation d = (d', x)" "fi_write d' = Inr f'"
    using assms(1) by (auto simp: fi_mutate_def rbind_def split: sum.splits)
  with implements_apply [OF assms(2) fi_read_ok] have "entries_ok d'" "(entry_at d', x) = g (entry_at d)" by blast+
  with fi_write_read [OF d(3)] entries_ok_sort d(1) show ?thesis by fastforce
qed

lemma fi_mutate_raises: "fi_mutate operation f = (f', Inl x) \<Longrightarrow> f' = f"
  by (auto simp: fi_mutate_def split: sum.splits prod.splits)

text \<open>An unreadable index has no entries, and every call on it raises.\<close>

definition fi_view :: "fs_file option \<Rightarrow> index_view" where
  "fi_view f = (case fi_read f of Inl _ \<Rightarrow> (\<lambda>_. (0, False, None)) | Inr d \<Rightarrow> entry_at d)"

lemma fi_mutate_view: "fi_mutate operation f = (f', Inr x) \<Longrightarrow> implements operation g \<Longrightarrow> (fi_view f', x) = g (fi_view f)"
  using fi_mutate_ok by (fastforce simp: fi_view_def)

lemma fi_change_view:
  assumes "fi_change operation f k = (f', Inr x)" "proper_native k \<Longrightarrow> implements operation g"
  shows "(fi_view f', x) = g (fi_view f)"
proof (cases "validate_native k")
  case (Inr y)
  then have "proper_native k" by simp
  with fi_mutate_view [OF _ assms(2)] assms(1) Inr show ?thesis by (simp add: fi_change_def)
qed (use assms(1) in \<open>simp add: fi_change_def\<close>)

lemma fi_change_raises: "fi_change operation f k = (f', Inl x) \<Longrightarrow> f' = f"
  by (auto simp: fi_change_def split: sum.splits dest: fi_mutate_raises)

lemma fi_publish_reads:
  assumes "text_native k" "is_publication p" "fi_publish f s k p publisher = (f', s', Inr g)"
  shows "\<exists>d d'. proper_native k \<and> fi_read f = Inr d \<and> fi_read f' = Inr d'
    \<and> (entry_at d', g) = publish_at k p (entry_at d) \<and> publisher g p s = (s', Inr ())"
proof -
  from assms(3) obtain d where d: "proper_native k" "fi_read f = Inr d" "g = next_generation (entry_at d k)"
      "publisher g p s = (s', Inr ())" "fi_write (al_set d k (publish_entry p (entry_at d k))) = Inr f'"
    by (auto simp: fi_publish_def Let_def seq_Inr split: sum.splits prod.splits)
  note ok = fi_read_ok [OF d(2)]
  have "entries_ok (al_set d k (publish_entry p (entry_at d k)))"
    using entries_ok_set [OF ok d(1) assms(1)] entry_row_ok [OF ok] assms(2) by simp
  with fi_write_read [OF d(5)] entries_ok_sort d(1-4) show ?thesis
    by (simp add: publish_at_def entry_at_set)
qed

lemma fi_publish_view:
  assumes "text_native k" "is_publication p" "fi_publish f s k p publisher = (f', s', Inr g)"
  shows "(fi_view f', g) = publish_at k p (fi_view f) \<and> publisher g p s = (s', Inr ())"
  using fi_publish_reads [OF assms] by (auto simp: fi_view_def)

interpretation fi: active_index file_index "\<lambda>_. True" fi_view
proof (unfold_locales, goal_cases)
  case (5 i k i' g)
  then show ?case using fi_change_view [OF _ implements_entry(1)] by (simp add: file_index_def)
next
  case (6 i k i' y)
  then show ?case using fi_change_view [OF _ implements_entry(2)] by (simp add: file_index_def)
next
  case (7 i k p s publisher i' s' g)
  then show ?case using fi_publish_view by (simp add: file_index_def)
next
  case (8 i k i' b)
  then show ?case using fi_change_view [OF _ implements_entry(3)] by (simp add: file_index_def)
next
  case (9 i ns i' n)
  then show ?case using fi_mutate_view [OF _ implements_clear] by (simp add: file_index_def)
next
  case (10 i i' n)
  then show ?case using fi_mutate_view [OF _ implements_clear] by (simp add: file_index_def)
next
  case (16 i k s p publisher i' s' x)
  then show ?case by (auto simp: file_index_def fi_publish_def Let_def fi_view_def seq_Inr split: sum.splits prod.splits)
next
  case (17 f k p s publisher f' s' g)
  then have p: "fi_publish f s k p publisher = (f', s', Inr g)" by (simp add: file_index_def)
  from fi_publish_reads [OF 17(2,3) p] show ?case by (auto simp: file_index_def fi_lookup_def seq_Inr rbind_Inr)
qed (auto simp: file_index_def fi_lookup_def seq_Inr rbind_Inr active_in_at fi_read_ok fi_view_def dest: fi_change_raises fi_mutate_raises)

section \<open>In an SQLite table\<close>

definition row_of :: "native \<Rightarrow> pystr \<times> pystr" where
  "row_of k = (case sq_key k of Inr row \<Rightarrow> row | Inl _ \<Rightarrow> ([], []))"

definition table_of :: "entries \<Rightarrow> table" where
  "table_of d = map (\<lambda>(k, e). (row_of k, e)) d"

definition encodable :: "entries \<Rightarrow> bool" where
  "encodable d \<longleftrightarrow> entries_ok d \<and> (\<forall>k \<in> fst ` set d. ok (sq_key k))"

definition table_ok :: "table \<Rightarrow> bool" where
  "table_ok t \<longleftrightarrow> (\<exists>d. encodable d \<and> t = table_of d)"

definition sq_view :: "table \<Rightarrow> index_view" where
  "sq_view t k =
     (if text_native k then case sq_key k of Inl _ \<Rightarrow> (0, False, None) | Inr row \<Rightarrow> sq_entry t row else (0, False, None))"

lemma sq_namespace_load:
  assumes "text_namespace ns" "sq_namespace ns = Inr n"
  shows "proper ns \<and> loads default_opts n = Inr (PyList (map PyStr ns))"
proof -
  have wf: "wf_val (PyList (map PyStr ns))" using assms(1) by (simp add: text_namespace_def list.pred_map comp_def)
  from assms(2) obtain b where b: "proper ns" "canonical_json (PyList (map PyStr ns)) = Inr b"
      "n = (case utf8_decode b of Some t \<Rightarrow> t | None \<Rightarrow> [])"
    by (auto simp: sq_namespace_def seq_Inr rbind_Inr)
  from loads_canonical [OF wf b(2)] b show ?thesis by (auto simp: loads_bytes_def comp_def split: option.splits)
qed

lemma sq_namespace_inj:
  assumes "text_namespace ns" "text_namespace ns'" "sq_namespace ns = Inr n" "sq_namespace ns' = Inr n"
  shows "ns = ns'"
  using sq_namespace_load [OF assms(1,3)] sq_namespace_load [OF assms(2,4)] by (simp add: inj_map_eq_map inj_def)

lemma sq_key_Inr: "sq_key k = Inr row \<Longrightarrow> proper_native k \<and> sq_namespace (fst k) = Inr (fst row) \<and> snd row = snd k"
  by (auto simp: sq_key_def seq_Inr rbind_Inr)

lemma sq_key_inj: "text_native k \<Longrightarrow> text_native k' \<Longrightarrow> sq_key k = Inr row \<Longrightarrow> sq_key k' = Inr row \<Longrightarrow> k = k'"
  using sq_namespace_inj by (fastforce simp: text_native_def prod_eq_iff dest!: sq_key_Inr)

lemma table_keys:
  assumes "encodable d" "text_native k" "sq_key k = Inr row"
  shows "\<forall>p \<in> set d. row = row_of (fst p) \<longleftrightarrow> k = fst p"
proof
  fix p
  assume p: "p \<in> set d"
  from assms(1) p obtain row' where row': "sq_key (fst p) = Inr row'" by (force simp: encodable_def ok_iff)
  moreover have "text_native (fst p)" using assms(1) p by (auto simp: encodable_def entries_ok_def)
  ultimately show "row = row_of (fst p) \<longleftrightarrow> k = fst p" using sq_key_inj [OF assms(2), of "fst p"] assms(3) by (auto simp: row_of_def)
qed

lemma rows_get: "\<forall>p \<in> set d. row = row_of (fst p) \<longleftrightarrow> k = fst p \<Longrightarrow> al_get (table_of d) row = al_get d k"
  by (induction d k rule: al_get.induct) (auto simp: table_of_def)

lemma rows_set:
  "row = row_of k \<Longrightarrow> \<forall>p \<in> set d. row = row_of (fst p) \<longleftrightarrow> k = fst p \<Longrightarrow> al_set (table_of d) row e = table_of (al_set d k e)"
  by (induction d k e rule: al_set.induct) (auto simp: table_of_def)

lemma table_get: "encodable d \<Longrightarrow> text_native k \<Longrightarrow> sq_key k = Inr row \<Longrightarrow> sq_entry (table_of d) row = entry_at d k"
  using rows_get [OF table_keys] by (simp add: sq_entry_def entry_at_def)

lemma table_set:
  "encodable d \<Longrightarrow> text_native k \<Longrightarrow> sq_key k = Inr row \<Longrightarrow> al_set (table_of d) row e = table_of (al_set d k e)"
  using rows_set [OF _ table_keys] by (simp add: row_of_def)

lemma table_view: "encodable d \<Longrightarrow> sq_view (table_of d) = entry_at d"
proof
  fix k
  assume d: "encodable d"
  have "k \<notin> fst ` set d" if "\<not> text_native k \<or> \<not> ok (sq_key k)" using that d by (auto simp: encodable_def entries_ok_def)
  then have "entry_at d k = (0, False, None)" if "\<not> text_native k \<or> \<not> ok (sq_key k)"
    using that al_get_None [of d k] by (simp add: entry_at_def)
  with table_get [OF d] show "sq_view (table_of d) k = entry_at d k" by (auto simp: sq_view_def split: sum.split)
qed

lemma table_step:
  assumes "encodable d" "implements f g" "f d = (d', x)" "\<forall>k \<in> fst ` set d'. k \<in> fst ` set d \<or> ok (sq_key k)"
  shows "table_ok (table_of d') \<and> (sq_view (table_of d'), x) = g (sq_view (table_of d))"
proof -
  from implements_apply [OF assms(2) _ assms(3)] assms(1) have d': "entries_ok d'" "(entry_at d', x) = g (entry_at d)"
    by (simp_all add: encodable_def)
  with assms(1,4) have "encodable d'" unfolding encodable_def by blast
  with d' assms(1) show ?thesis by (auto simp: table_view table_ok_def)
qed

lemma sq_upsert_Inr: "sq_upsert t row e = Inr t' \<Longrightarrow> t' = al_set t row e"
  by (simp add: sq_upsert_def seq_Inr)

text \<open>An operation that writes the row of one key.\<close>

lemma sq_write_step:
  assumes "encodable d" "text_native k" "sq_key k = Inr row" "sq_upsert (table_of d) row e = Inr t'"
    and "implements f g" "f d = (al_set d k e, x)"
  shows "table_ok t' \<and> (sq_view t', x) = g (sq_view (table_of d))"
proof -
  have "t' = table_of (al_set d k e)" using sq_upsert_Inr [OF assms(4)] table_set [OF assms(1-3)] by simp
  with table_step [OF assms(1,5,6)] show ?thesis using assms(3) by (auto simp: keys_al_set)
qed

lemma sq_transaction_Inr: "sq_transaction t m = (t', Inr x) \<longleftrightarrow> m = Inr (t', x)"
  by (auto simp: sq_transaction_def split: sum.split prod.split)

lemma sq_transaction_Inl: "sq_transaction t m = (t', Inl x) \<Longrightarrow> t' = t"
  by (auto simp: sq_transaction_def split: sum.splits prod.splits)

lemma sq_key_proper: "sq_key k = Inr row \<Longrightarrow> proper_native k"
  using sq_key_Inr by blast

lemma sq_prepare_ok:
  assumes "table_ok t" "text_native k" "sq_prepare t k = (t', Inr g)"
  shows "table_ok t' \<and> (sq_view t', g) = prepare_at k (sq_view t)"
proof -
  from assms(1) obtain d where d: "encodable d" "t = table_of d" by (auto simp: table_ok_def)
  from assms(3) obtain row where row: "sq_key k = Inr row" "sq_upsert t row (next_generation (sq_entry t row), False, None) = Inr t'"
      "g = next_generation (sq_entry t row)"
    by (auto simp: sq_prepare_def sq_transaction_Inr rbind_Inr Let_def)
  have "prepare_in d k = (al_set d k (next_generation (sq_entry t row), False, None), g)"
    using table_get [OF d(1) assms(2) row(1)] by (simp add: prepare_in_def prepare_entry_def row(3) d(2))
  with sq_write_step [OF d(1) assms(2) row(1) _ implements_entry(1) [OF sq_key_proper [OF row(1)] assms(2)]] row(2)
  show ?thesis by (simp add: d(2))
qed

lemma sq_activate_ok:
  assumes "table_ok t" "text_native k" "sq_activate t k = (t', Inr y)"
  shows "table_ok t' \<and> (sq_view t', y) = activate_at k (sq_view t)"
proof -
  from assms(1) obtain d where d: "encodable d" "t = table_of d" by (auto simp: table_ok_def)
  from assms(3) obtain row where row: "sq_key k = Inr row" "sq_upsert t row (activate_entry (sq_entry t row)) = Inr t'"
    by (auto simp: sq_activate_def sq_transaction_Inr rbind_Inr)
  have "(activate_in d k, ()) = (al_set d k (activate_entry (sq_entry t row)), ())"
    using table_get [OF d(1) assms(2) row(1)] by (simp add: activate_in_def d(2))
  with sq_write_step [OF d(1) assms(2) row(1) _ implements_entry(2) [OF sq_key_proper [OF row(1)] assms(2)]] row(2)
  show ?thesis by (simp add: d(2))
qed

lemma sq_delete_ok:
  assumes "table_ok t" "text_native k" "sq_delete t k = (t', Inr b)"
  shows "table_ok t' \<and> (sq_view t', b) = delete_at k (sq_view t)"
proof -
  from assms(1) obtain d where d: "encodable d" "t = table_of d" by (auto simp: table_ok_def)
  from assms(3) obtain row where row: "sq_key k = Inr row"
    by (auto simp: sq_delete_def sq_transaction_Inr rbind_Inr)
  note e = table_get [OF d(1) assms(2) row]
  note i = implements_entry(3) [OF sq_key_proper [OF row] assms(2)]
  show ?thesis
  proof (cases "is_active_entry (entry_at d k)")
    case True
    then have "deactivate_entry (entry_at d k) = (fst (entry_at d k) + 1, False, None)"
      by (cases "entry_at d k") (simp add: deactivate_entry_def is_active_entry_def)
    with True assms(3) sq_write_step [OF d(1) assms(2) row _ i, of _ t' True] show ?thesis
      by (auto simp: sq_delete_def sq_transaction_Inr rbind_Inr row d(2) e delete_in_def)
  next
    case False
    with assms(3) table_step [OF d(1) i, of d False] show ?thesis
      by (auto simp: sq_delete_def sq_transaction_Inr rbind_Inr row d(2) e delete_in_def)
  qed
qed

lemma sq_publish_ok:
  assumes "table_ok t" "text_native k" "is_publication p" "sq_publish t s k p publisher = (t', s', Inr g)"
  shows "table_ok t' \<and> (sq_view t', g) = publish_at k p (sq_view t) \<and> publisher g p s = (s', Inr ())"
proof -
  from assms(1) obtain d where d: "encodable d" "t = table_of d" by (auto simp: table_ok_def)
  from assms(4) obtain row where row: "sq_key k = Inr row" "sq_upsert t row (next_generation (sq_entry t row), True, Some p) = Inr t'"
      "g = next_generation (sq_entry t row)" "publisher g p s = (s', Inr ())"
    by (auto simp: sq_publish_def Let_def split: sum.splits prod.splits)
  note e = table_get [OF d(1) assms(2) row(1)]
  have "implements (\<lambda>d. (al_set d k (publish_entry p (entry_at d k)), next_generation (entry_at d k))) (publish_at k p)"
    using entries_ok_set [OF _ sq_key_proper [OF row(1)] assms(2)] entry_row_ok assms(3)
    by (auto simp: implements_def publish_at_def entry_at_set)
  from sq_write_step [OF d(1) assms(2) row(1) _ this, of _ t' g] row show ?thesis
    by (simp add: d(2) e publish_entry_def)
qed

lemma sq_deactivate_table:
  assumes "\<forall>p \<in> set d. P (fst (row_of (fst p))) \<longleftrightarrow> Q (fst p)"
  shows "sq_deactivate P (table_of d) = (table_of (fst (clear_in Q d)), snd (clear_in Q d))"
proof -
  have e: "deactivate_entry e = (if is_active_entry e then (fst e + 1, False, None) else e)" for e
    by (cases e) (simp add: deactivate_entry_def is_active_entry_def)
  show ?thesis
    using assms by (induction d) (auto simp: sq_deactivate_def clear_in_def table_of_def e)
qed

lemma clear_keys: "fst ` set (fst (clear_in Q d)) = fst ` set d"
  by (force simp: clear_in_def image_iff)

lemma sq_clear_step:
  assumes "encodable d" "\<forall>p \<in> set d. P (fst (row_of (fst p))) \<longleftrightarrow> Q (fst p)" "sq_deactivate P (table_of d) = (t', n)"
  shows "table_ok t' \<and> (sq_view t', n) = clear_at Q (sq_view (table_of d))"
proof -
  have "t' = table_of (fst (clear_in Q d))" "n = snd (clear_in Q d)"
    using assms(3) sq_deactivate_table [OF assms(2)] by simp_all
  with table_step [OF assms(1) implements_clear, of Q "fst (clear_in Q d)" n] show ?thesis by (simp add: clear_keys)
qed

lemma row_namespace:
  assumes "encodable d" "text_namespace ns" "sq_namespace ns = Inr n"
  shows "\<forall>p \<in> set d. fst (row_of (fst p)) = n \<longleftrightarrow> fst (fst p) = ns"
proof
  fix p
  assume p: "p \<in> set d"
  from assms(1) p obtain row where row: "sq_key (fst p) = Inr row" by (force simp: encodable_def ok_iff)
  have "text_namespace (fst (fst p))" using assms(1) p by (auto simp: encodable_def entries_ok_def text_native_def)
  moreover have k: "sq_namespace (fst (fst p)) = Inr (fst row)" using sq_key_Inr [OF row] by simp
  ultimately have "fst row = n \<longleftrightarrow> fst (fst p) = ns"
    using sq_namespace_inj [OF _ assms(2), of "fst (fst p)" n] assms(3) by (cases "fst (fst p) = ns") auto
  then show "fst (row_of (fst p)) = n \<longleftrightarrow> fst (fst p) = ns" by (simp add: row_of_def row)
qed

lemma sq_active_keys_ok:
  assumes "table_ok t" "text_namespace ns" "sq_active_keys t ns = Inr ks"
  shows "ks = active_at (sq_view t) ns"
proof -
  from assms(1) obtain d where d: "encodable d" "t = table_of d" by (auto simp: table_ok_def)
  from assms(3) obtain n where n: "sq_namespace ns = Inr n"
      "ks = sort (map (\<lambda>(row, e). snd row) (filter (\<lambda>(row, e). fst row = n \<and> is_active_entry e) t))"
    by (auto simp: sq_active_keys_def rbind_Inr)
  have k: "snd (row_of (fst p)) = snd (fst p)" if "p \<in> set d" for p
  proof -
    from d(1) that obtain row where "sq_key (fst p) = Inr row" by (force simp: encodable_def ok_iff)
    then show ?thesis using sq_key_Inr by (fastforce simp: row_of_def)
  qed
  have "filter (\<lambda>x. fst (row_of (fst x)) = n \<and> is_active_entry (snd x)) d
      = filter (\<lambda>x. fst (fst x) = ns \<and> is_active_entry (snd x)) d"
    using row_namespace [OF d(1) assms(2) n(1)] by (intro filter_cong) auto
  moreover have "map (\<lambda>x. snd (row_of (fst x))) (filter f d) = map (\<lambda>x. snd (fst x)) (filter f d)" for f
    using k by (simp only: map_eq_conv set_filter mem_Collect_eq) blast
  ultimately have "map (\<lambda>x. snd (row_of (fst x))) (filter (\<lambda>x. fst (row_of (fst x)) = n \<and> is_active_entry (snd x)) d)
      = map (\<lambda>x. snd (fst x)) (filter (\<lambda>x. fst (fst x) = ns \<and> is_active_entry (snd x)) d)" by (simp only:)
  then have "ks = active_in d ns"
    by (simp add: n(2) d(2) table_of_def active_in_def filter_map comp_def case_prod_unfold)
  also have "\<dots> = active_at (sq_view t) ns" using d active_in_at by (simp add: table_view encodable_def)
  finally show ?thesis .
qed

lemma sq_lookup_ok: "text_native k \<Longrightarrow> sq_lookup g t k = Inr x \<Longrightarrow> x = g (sq_view t k)"
  by (auto simp: sq_lookup_def rbind_Inr sq_view_def)

lemma sq_publish_raises:
  assumes "table_ok t" "text_native k" "sq_publish t s k p publisher = (t', s', Inl x)"
  shows "t' = t \<and> (s' = s \<or> s' = fst (publisher (next_generation (sq_view t k)) p s))"
  using assms by (auto simp: sq_publish_def Let_def sq_view_def split: sum.splits prod.splits)

interpretation sq: active_index sqlite_index table_ok sq_view
proof (unfold_locales, goal_cases)
  case (9 t ns t' n)
  then obtain d where d: "encodable d" "t = table_of d" by (auto simp: table_ok_def)
  from 9 obtain m where "sq_namespace ns = Inr m" "sq_deactivate (\<lambda>x. x = m) t = (t', n)"
    by (auto simp: sqlite_index_def sq_clear_namespace_def sq_transaction_Inr rbind_Inr)
  with sq_clear_step [OF d(1) row_namespace [OF d(1) 9(2)]] show ?case by (simp add: d(2))
next
  case (10 t t' n)
  then obtain d where d: "encodable d" "t = table_of d" by (auto simp: table_ok_def)
  with 10 sq_clear_step [OF d(1), of "\<lambda>_. True" "\<lambda>_. True"] show ?case
    by (simp add: sqlite_index_def sq_clear_all_def sq_transaction_Inr)
next
  case (16 t k s p publisher t' s' x)
  then show ?case using sq_publish_raises by (simp add: sqlite_index_def)
next
  case (17 t k p s publisher t' s' g)
  then show ?case by (auto simp: sqlite_index_def sq_publish_def sq_lookup_def rbind_Inr split: sum.splits)
next
  case (5 t k t' g)
  then show ?case using sq_prepare_ok by (simp add: sqlite_index_def)
next
  case (6 t k t' y)
  then show ?case using sq_activate_ok by (simp add: sqlite_index_def)
next
  case (7 t k p s publisher t' s' g)
  then show ?case using sq_publish_ok by (simp add: sqlite_index_def)
next
  case (8 t k t' b)
  then show ?case using sq_delete_ok by (simp add: sqlite_index_def)
qed (simp_all add: sqlite_index_def sq_active_keys_ok sq_lookup_ok sq_prepare_def sq_activate_def sq_delete_def
      sq_clear_namespace_def sq_clear_all_def sq_transaction_Inl)

end
