(* ===== verification/Admissible.thy ===== *)
theory Admissible
  imports Cache
begin

text \<open>
  What a cache hit means. \<open>admissible\<close> says, without loops, traversal state or evaluation order,
  when a manifest found in a store may be substituted: it is well-formed, for the requested
  action, from a trusted producer, not invalidated, fresh, its artifacts are intact, and its
  lineage is admissible in the same sense within the depth bound. \<open>evaluate_sound\<close> shows that
  \<open>_evaluate\<close> accepts only such manifests, \<open>evaluate_frame\<close> that the traversal state is restored
  and its edge count bounded.
\<close>

section \<open>The specification\<close>

definition not_invalidated :: "policy \<Rightarrow> pyval \<Rightarrow> store_view \<Rightarrow> bool \<Rightarrow> bool" where
  "not_invalidated P m s required \<longleftrightarrow>
     (case sv_invalidations s of
        None \<Rightarrow> \<not> required
      | Some reader \<Rightarrow> \<exists>d records. manifest_digest m = Inr d \<and> reader d = Inr records \<and>
          (\<forall>r \<in> set records.
             in_trust (item r ''producer'') (trust_or (p_trusted_invalidation_producers P) (p_trusted_producers P)) \<longrightarrow>
             (\<exists>t. parse_time (str_of (item r ''invalidated_at'')) = Inr t \<and> p_now P < t)))"

text \<open>The validation record that keeps a manifest fresh, or the manifest itself.\<close>

definition validated_by :: "policy \<Rightarrow> pyval \<Rightarrow> store_view \<Rightarrow> pyval \<Rightarrow> bool" where
  "validated_by P m s v \<longleftrightarrow>
     (\<exists>d vs t. manifest_digest m = Inr d \<and> sv_validations s d = Inr vs \<and> v \<in> set vs
        \<and> in_trust (item v ''producer'') (trust_or (p_trusted_validation_producers P) (p_trusted_producers P))
        \<and> parse_time (str_of (item v ''fresh_until'')) = Inr t \<and> p_now P \<le> t)"

definition fresh_ok :: "policy \<Rightarrow> pyval \<Rightarrow> store_view \<Rightarrow> bool" where
  "fresh_ok P m s \<longleftrightarrow>
     (if item m ''fresh_until'' = PyNone then p_permit_no_expiry P
      else \<exists>t. parse_time (str_of (item m ''fresh_until'')) = Inr t \<and> p_now P \<le> t)
     \<or> (\<exists>v. validated_by P m s v)"

definition artifact_intact :: "store_view \<Rightarrow> pyval \<Rightarrow> pystr \<times> bytes \<Rightarrow> bool" where
  "artifact_intact s descriptor a \<longleftrightarrow>
     item descriptor ''name'' = PyStr (fst a) \<and> item descriptor ''digest'' = PyStr (digest_bytes (snd a))
     \<and> item descriptor ''size'' = PyInt (int (length (snd a)))
     \<and> sv_get_blob s (digest_bytes (snd a)) = Inr (Some (snd a))"

inductive admissible ::
  "policy \<Rightarrow> store_view list \<Rightarrow> bool \<Rightarrow> int \<Rightarrow> pystr \<Rightarrow> pyval \<Rightarrow> store_view \<Rightarrow> artifacts \<Rightarrow> bool"
  for P stores where
  admissible:
    "\<lbrakk>manifest_ok m; item m ''action_digest'' = PyStr requested;
      p_require_lineage P \<Longrightarrow> item m ''spec_version'' = result_v1;
      depth \<le> p_max_dependency_depth P;
      in_trust (item m ''producer'') (p_trusted_producers P);
      not_invalidated P m s (item m ''spec_version'' = result_v1 \<or> 0 < depth);
      \<not> ignore \<Longrightarrow> fresh_ok P m s;
      list_all2 (artifact_intact s) (artifacts_of m) loaded;
      \<forall>d \<in> (if item m ''spec_version'' = result_v1 then set (dependencies_of m) else {}).
        \<exists>m' s' loaded' reader. s' \<in> set stores \<and> sv_result s' = Some reader
          \<and> reader (str_of (item d ''result_digest'')) = Inr (Some m')
          \<and> manifest_digest m' = Inr (str_of (item d ''result_digest''))
          \<and> admissible P stores False (depth + 1) (str_of (item m' ''action_digest'')) m' s' loaded'\<rbrakk>
     \<Longrightarrow> admissible P stores ignore depth requested m s loaded"

inductive_cases admissibleE: "admissible P stores ignore depth requested m s loaded"

section \<open>The parts of the evaluation\<close>

lemma effective_invalidation_None:
  "effective_invalidation trust now rs = Inr None \<longleftrightarrow>
     (\<forall>r \<in> set rs. in_trust (item r ''producer'') trust \<longrightarrow>
        (\<exists>t. parse_time (str_of (item r ''invalidated_at'')) = Inr t \<and> now < t))"
  by (induction trust now rs rule: effective_invalidation.induct) (auto simp: checks not_le split: if_splits)

lemma effective_invalidated_None:
  "effective_invalidated P m s required = Inr None \<longleftrightarrow> not_invalidated P m s required"
proof (cases "sv_invalidations s")
  case (Some reader)
  then show ?thesis
    by (auto simp: effective_invalidated_def not_invalidated_def checks effective_invalidation_None
        split: sum.splits py_error.splits)
qed (simp add: effective_invalidated_def not_invalidated_def)

lemma select_validation_Some:
  "select_validation trust now vs = Inr (Some v) \<Longrightarrow>
   v \<in> set vs \<and> in_trust (item v ''producer'') trust
   \<and> (\<exists>t. parse_time (str_of (item v ''fresh_until'')) = Inr t \<and> now \<le> t)"
  by (induction trust now vs rule: select_validation.induct) (auto simp: checks split: if_splits)

text \<open>A proceeding admission passed every test of the code; the value is the validation it relied on.\<close>

lemma freshness_Proceed:
  assumes "freshness P m s d = Inr (Proceed v)" "manifest_digest m = Inr d"
  shows "fresh_ok P m s \<and> (\<forall>w. v = Some w \<longrightarrow> validated_by P m s w)"
proof -
  have sel: "validated_by P m s w"
    if "sv_validations s d = Inr vs"
      "select_validation (trust_or (p_trusted_validation_producers P) (p_trusted_producers P)) (p_now P) vs = Inr (Some w)"
    for vs w
    using select_validation_Some [OF that(2)] that(1) assms(2) unfolding validated_by_def by blast
  obtain fresh where fresh: "manifest_fresh P m = Inr fresh" using assms(1) by (auto simp: freshness_def checks)
  show ?thesis
  proof (cases fresh)
    case True
    with fresh assms(1) show ?thesis
      by (auto simp: freshness_def manifest_fresh_def fresh_ok_def checks split: if_splits)
  next
    case False
    with fresh assms(1) obtain vs selected where vs: "sv_validations s d = Inr vs"
      and selected: "select_validation (trust_or (p_trusted_validation_producers P) (p_trusted_producers P)) (p_now P) vs = Inr selected"
      and v: "\<forall>w. selected = Some w \<longrightarrow> v = Some w"
        "selected = None \<Longrightarrow> v = None \<and> item m ''fresh_until'' = PyNone \<and> p_permit_no_expiry P"
      by (auto simp: freshness_def checks split: sum.splits py_error.splits option.splits if_splits)
    show ?thesis
    proof (cases selected)
      case None
      with v show ?thesis by (auto simp: fresh_ok_def split: if_splits)
    next
      case (Some w)
      with sel [OF vs] selected v show ?thesis by (auto simp: fresh_ok_def)
    qed
  qed
qed

lemma admission_Proceed:
  assumes "admission P requested m s active depth ignore = Inr (Proceed v)"
  shows "manifest_ok m" "item m ''action_digest'' = PyStr requested"
    "p_require_lineage P \<Longrightarrow> item m ''spec_version'' = result_v1" "depth \<le> p_max_dependency_depth P"
    "digest_of m \<notin> active" "in_trust (item m ''producer'') (p_trusted_producers P)"
    "not_invalidated P m s (item m ''spec_version'' = result_v1 \<or> 0 < depth)"
    "\<not> ignore \<Longrightarrow> fresh_ok P m s" "\<not> ignore \<Longrightarrow> v = Some w \<Longrightarrow> validated_by P m s w"
    "ignore \<Longrightarrow> v = None"
  using assms freshness_Proceed [of P m s _ v]
  by (auto simp: admission_def digest_of_def checks validate_manifest_iff effective_invalidated_None
      split: sum.splits if_splits option.splits)

lemma decision_map_Proceed:
  "(case d of Reject r \<Rightarrow> Inr (Reject r) | Proceed x \<Rightarrow> Inr (Proceed (f x))) = Inr (Proceed y)
     \<longleftrightarrow> (\<exists>x. d = Proceed x \<and> y = f x)"
  by (cases d) auto

lemma load_artifacts_Proceed:
  assumes "load_artifacts s names ds = Inr (Proceed loaded)" "\<forall>d \<in> set ds. artifact_ok d"
  shows "list_all2 (artifact_intact s) ds loaded"
  using assms
proof (induction ds arbitrary: names loaded)
  case (Cons d ds)
  have n: "item d ''name'' = PyStr (str_of (item d ''name''))" "item d ''digest'' = PyStr (str_of (item d ''digest''))"
    using Cons.prems(2) by (auto simp: artifact_ok_def nonempty_str_def digest_val_def str_of_eq)
  from Cons.prems(1) obtain b where b: "sv_get_blob s (str_of (item d ''digest'')) = Inr (Some b)"
    by (auto simp: checks split: if_splits option.splits)
  with Cons.prems(1) have eqs: "item d ''size'' = PyInt (int (length b))" "item d ''digest'' = PyStr (digest_bytes b)"
    by (auto simp: checks split: if_split_asm)
  with b Cons.prems(1) obtain rest where "load_artifacts s (insert (item d ''name'') names) ds = Inr (Proceed rest)"
      "loaded = (str_of (item d ''name''), b) # rest"
    by (auto simp: checks decision_map_Proceed split: if_split_asm)
  moreover have "artifact_intact s d (str_of (item d ''name''), b)" using n b eqs by (simp add: artifact_intact_def)
  ultimately show ?case using Cons by auto
qed simp

lemma locate_result_Proceed:
  "locate_result digest ss rf sp = Inr (Proceed (m, s)) \<Longrightarrow>
   \<exists>reader. s \<in> set ss \<and> sv_result s = Some reader \<and> reader digest = Inr (Some m) \<and> manifest_digest m = Inr digest"
  by (induction digest ss rf sp rule: locate_result.induct)
    (auto split: option.splits sum.splits py_error.splits if_splits)

section \<open>Soundness of the evaluation\<close>

text \<open>The ways an evaluation can end.\<close>

lemma evaluate_cases:
  assumes "evaluate P stores requested m s t depth ignore = Inr (d, t')"
  obtains (rejected) r where "d = Reject r" "t' = t"
  | (plain) v l where "admission P requested m s (t_active t) depth ignore = Inr (Proceed v)"
      "load_artifacts s {} (artifacts_of m) = Inr (Proceed l)" "item m ''spec_version'' \<noteq> result_v1"
      "d = Proceed (l, v)" "t' = t"
  | (lineage) v l d' t2 where "admission P requested m s (t_active t) depth ignore = Inr (Proceed v)"
      "load_artifacts s {} (artifacts_of m) = Inr (Proceed l)" "item m ''spec_version'' = result_v1"
      "evaluate_dependencies P stores (t\<lparr>t_active := insert (digest_of m) (t_active t)\<rparr>)
         (depth + 1) (dependencies_of m) = Inr (d', t2)"
      "t' = t2\<lparr>t_active := t_active t2 - {digest_of m}\<rparr>"
      "(\<exists>r. d' = Reject r \<and> d = Reject r) \<or> (d' = Proceed () \<and> d = Proceed (l, v))"
  using assms unfolding evaluate.simps [of P stores requested] Let_def
  by (auto split: sum.split_asm decision.split_asm if_split_asm)

lemma evaluate_dependencies_cases:
  assumes "evaluate_dependencies P stores t depth (x # ds) = Inr (d, t')"
  obtains (rejected) r where "d = Reject r" "t' = t\<lparr>t_edges := t_edges t + 1\<rparr>"
  | (failed) m s r t2 where "\<not> p_max_dependency_count P < t_edges (t\<lparr>t_edges := t_edges t + 1\<rparr>)"
      "locate_result (str_of (item x ''result_digest'')) stores False False = Inr (Proceed (m, s))"
      "evaluate P stores (str_of (item m ''action_digest'')) m s (t\<lparr>t_edges := t_edges t + 1\<rparr>) depth False = Inr (Reject r, t2)"
      "d = Reject (propagate r)" "t' = t2"
  | (passed) m s y t2 where "\<not> p_max_dependency_count P < t_edges (t\<lparr>t_edges := t_edges t + 1\<rparr>)"
      "locate_result (str_of (item x ''result_digest'')) stores False False = Inr (Proceed (m, s))"
      "evaluate P stores (str_of (item m ''action_digest'')) m s (t\<lparr>t_edges := t_edges t + 1\<rparr>) depth False = Inr (Proceed y, t2)"
      "evaluate_dependencies P stores t2 depth ds = Inr (d, t')"
  using assms by (auto simp: Let_def split: sum.split_asm decision.split_asm if_split_asm prod.split_asm)

lemma evaluate_sound_aux:
  "evaluate P stores requested m s t depth ignore = Inr (Proceed (loaded, v), t') \<Longrightarrow>
   admissible P stores ignore depth requested m s loaded"
  "evaluate_dependencies P stores t depth ds = Inr (Proceed (), t') \<Longrightarrow>
   \<forall>d \<in> set ds. \<exists>m' s' loaded' reader. s' \<in> set stores \<and> sv_result s' = Some reader
     \<and> reader (str_of (item d ''result_digest'')) = Inr (Some m')
     \<and> manifest_digest m' = Inr (str_of (item d ''result_digest''))
     \<and> admissible P stores False depth (str_of (item m' ''action_digest'')) m' s' loaded'"
proof (induction P stores requested m s t depth ignore and P stores t depth ds
    arbitrary: loaded v t' and t' rule: evaluate_evaluate_dependencies.induct)
  case (1 P stores requested m s t depth ignore)
  from "1.prems" show ?case
  proof (cases rule: evaluate_cases)
    case (plain v' l)
    note a = admission_Proceed [OF plain(1)]
    have "list_all2 (artifact_intact s) (artifacts_of m) l"
      using load_artifacts_Proceed [OF plain(2)] a(1) by (simp add: manifest_ok_def list_all_iff)
    then show ?thesis using a plain by (intro admissible.intros) auto
  next
    case (lineage v' l d' t2)
    note a = admission_Proceed [OF lineage(1)]
    have "list_all2 (artifact_intact s) (artifacts_of m) l"
      using load_artifacts_Proceed [OF lineage(2)] a(1) by (simp add: manifest_ok_def list_all_iff)
    moreover have ed: "evaluate_dependencies P stores (t\<lparr>t_active := insert (digest_of m) (t_active t)\<rparr>)
        (depth + 1) (dependencies_of m) = Inr (Proceed (), t2)" "l = loaded" using lineage(4,6) by auto
    ultimately show ?thesis
      using "1.IH" [OF lineage(1) _ lineage(2) _ lineage(3) ed(1)] a lineage(3) by (intro admissible.intros) auto
  qed simp
next
  case (2 P stores t depth)
  then show ?case by simp
next
  case (3 P stores t depth d ds)
  from "3.prems" show ?case
  proof (cases rule: evaluate_dependencies_cases)
    case (passed m s y t2)
    obtain l v where y: "y = (l, v)" by (cases y)
    from "3.IH"(1) [OF refl passed(1,2) _ refl passed(3) [unfolded y]] locate_result_Proceed [OF passed(2)]
    have "\<exists>reader. s \<in> set stores \<and> sv_result s = Some reader
        \<and> reader (str_of (item d ''result_digest'')) = Inr (Some m)
        \<and> manifest_digest m = Inr (str_of (item d ''result_digest''))
        \<and> admissible P stores False depth (str_of (item m ''action_digest'')) m s l" by blast
    moreover have "\<forall>d \<in> set ds. \<exists>m' s' loaded' reader. s' \<in> set stores \<and> sv_result s' = Some reader
       \<and> reader (str_of (item d ''result_digest'')) = Inr (Some m')
       \<and> manifest_digest m' = Inr (str_of (item d ''result_digest''))
       \<and> admissible P stores False depth (str_of (item m' ''action_digest'')) m' s' loaded'"
      using "3.IH"(2) [OF refl passed(1,2) _ refl passed(3) _ _ passed(4)] by blast
    ultimately show ?thesis by auto
  qed simp_all
qed

text \<open>The reported validation is the record that kept the result fresh.\<close>

lemma evaluate_validation:
  "evaluate P stores requested m s t depth ignore = Inr (Proceed (loaded, v), t') \<Longrightarrow>
   (\<not> ignore \<longrightarrow> v = Some w \<longrightarrow> validated_by P m s w) \<and> (ignore \<longrightarrow> v = None)"
  by (erule evaluate_cases) (auto dest: admission_Proceed(9,10))

section \<open>The traversal\<close>

text \<open>
  Every way out of the evaluation restores the set of active digests, and the edge counter never
  passes the bound by more than the edge that is refused.
\<close>

lemma evaluate_frame:
  "evaluate P stores requested m s t depth ignore = Inr (d, t') \<Longrightarrow>
   t_active t' = t_active t \<and> t_edges t \<le> t_edges t'
   \<and> (t_edges t \<le> p_max_dependency_count P \<longrightarrow> t_edges t' \<le> p_max_dependency_count P + 1
        \<and> (\<forall>x. d = Proceed x \<longrightarrow> t_edges t' \<le> p_max_dependency_count P))"
  "evaluate_dependencies P stores t depth ds = Inr (d2, t') \<Longrightarrow>
   t_active t' = t_active t \<and> t_edges t \<le> t_edges t'
   \<and> (t_edges t \<le> p_max_dependency_count P \<longrightarrow> t_edges t' \<le> p_max_dependency_count P + 1
        \<and> (\<forall>x. d2 = Proceed x \<longrightarrow> t_edges t' \<le> p_max_dependency_count P))"
proof (induction P stores requested m s t depth ignore and P stores t depth ds
    arbitrary: d t' and d2 t' rule: evaluate_evaluate_dependencies.induct)
  case (1 P stores requested m s t depth ignore)
  from "1.prems" show ?case
  proof (cases rule: evaluate_cases)
    case (lineage v l d' t2)
    from "1.IH" [OF lineage(1) _ lineage(2) _ lineage(3,4)] admission_Proceed(5) [OF lineage(1)] lineage(5,6)
    show ?thesis by auto
  qed auto
next
  case (2 P stores t depth)
  then show ?case by auto
next
  case (3 P stores t depth d ds)
  from "3.prems" show ?case
  proof (cases rule: evaluate_dependencies_cases)
    case (failed m s r t2)
    from "3.IH"(1) [OF refl failed(1,2) _ refl failed(3)] failed show ?thesis by auto
  next
    case (passed m s y t2)
    from "3.IH"(1) [OF refl passed(1,2) _ refl passed(3)] "3.IH"(2) [OF refl passed(1,2) _ refl passed(3) _ _ passed(4)]
      passed(1) show ?thesis by auto
  qed auto
qed

section \<open>Lookups\<close>

lemma try_candidates_hit:
  "try_candidates P stores requested ignore s ms rej = Inr (Some (m, loaded, v), rej') \<Longrightarrow>
   m \<in> set ms \<and> admissible P stores ignore 0 requested m s loaded
   \<and> (\<not> ignore \<longrightarrow> v = Some w \<longrightarrow> validated_by P m s w) \<and> (ignore \<longrightarrow> v = None)"
proof (induction P stores requested ignore s ms rej rule: try_candidates.induct)
  case (2 P stores requested ignore s m' ms rej)
  then show ?case
    using evaluate_sound_aux(1) [of P stores requested m' s new_traversal 0 ignore]
      evaluate_validation [of P stores requested m' s new_traversal 0 ignore]
    by (fastforce split: sum.splits decision.splits prod.splits)
qed simp

lemma search_stores_hit:
  assumes "search_stores P stores requested ignore ss rej = Inr out" "lo_hit out"
  shows "\<exists>s m cs. s \<in> set ss \<and> sv_candidates s requested = Inr cs \<and> m \<in> set cs
    \<and> lo_tier out = Some (sv_name s) \<and> lo_manifest out = Some m
    \<and> admissible P stores ignore 0 requested m s (lo_artifacts out)
    \<and> (\<not> ignore \<longrightarrow> (\<forall>w. lo_validation out = Some w \<longrightarrow> validated_by P m s w))
    \<and> (ignore \<longrightarrow> lo_validation out = None)"
  using assms
proof (induction P stores requested ignore ss rej rule: search_stores.induct)
  case (2 P stores requested ignore s rest rej)
  show ?case
  proof (cases "sv_candidates s requested")
    case (Inl e)
    with "2.prems" obtain msg where e: "e = StoreReadError msg" by (cases e) simp_all
    with "2.prems" Inl have "search_stores P stores requested ignore rest (rej @ [note_rejection s msg]) = Inr out" by simp
    from "2.IH"(1) [OF _ e this "2.prems"(2)] Inl show ?thesis by auto
  next
    case (Inr cs)
    with "2.prems" obtain r rej' where tc: "try_candidates P stores requested ignore s cs rej = Inr (r, rej')"
      by (auto split: sum.splits)
    show ?thesis
    proof (cases r)
      case None
      with "2.prems" Inr tc have "search_stores P stores requested ignore rest rej' = Inr out" by simp
      from "2.IH"(2) [OF Inr tc refl None this "2.prems"(2)] show ?thesis by auto
    next
      case (Some x)
      then obtain m loaded v where x: "r = Some (m, loaded, v)" by (cases x) auto
      note hit = try_candidates_hit [OF tc [unfolded x]]
      have "out = \<lparr>lo_hit = True, lo_tier = Some (sv_name s), lo_manifest = Some m, lo_artifacts = loaded,
                    lo_rejections = rej', lo_validation = v\<rparr>"
        using "2.prems" Inr tc x by simp
      then show ?thesis using hit Inr by auto
    qed
  qed
qed auto

end
