(* ===== verification/Lookup.thy ===== *)
theory Lookup
  imports Admissible
begin

text \<open>
  Lookups never raise on stores that answer, and find what was published. The locale
  \<open>cache_store\<close> extends the store contract by the laws a lookup needs (\<open>steady\<close> views) and
  proves publish-then-reuse once; it is interpreted on the memory and the filesystem store.
\<close>

section \<open>Stores that answer\<close>

text \<open>An operation may fail only in the way the lookup handles.\<close>

definition tolerable :: "'a result \<Rightarrow> bool" where
  "tolerable m \<longleftrightarrow> (\<forall>e. m = Inl e \<longrightarrow> (\<exists>msg. e = StoreReadError msg))"

definition validates :: "pyval \<Rightarrow> bool" where
  "validates m \<longleftrightarrow> (\<forall>e. validate_manifest m = Inl e \<longrightarrow> is_value_error e)"

definition steady :: "store_view \<Rightarrow> bool" where
  "steady s \<longleftrightarrow> (\<forall>d. is_digest d \<longrightarrow>
     tolerable (sv_candidates s d) \<and> (\<forall>cs. sv_candidates s d = Inr cs \<longrightarrow> (\<forall>m \<in> set cs. validates m))
     \<and> (\<forall>f. sv_result s = Some f \<longrightarrow> tolerable (f d) \<and> (\<forall>m. f d = Inr (Some m) \<longrightarrow> validates m))
     \<and> tolerable (sv_validations s d)
     \<and> (\<forall>vs. sv_validations s d = Inr vs \<longrightarrow> (\<forall>v \<in> set vs. instant_val (item v ''fresh_until'')))
     \<and> (\<forall>f. sv_invalidations s = Some f \<longrightarrow> tolerable (f d)
           \<and> (\<forall>rs. f d = Inr rs \<longrightarrow> (\<forall>r \<in> set rs. instant_val (item r ''invalidated_at''))))
     \<and> (\<exists>b. sv_get_blob s d = Inr b))"

lemma tolerable_simps [simp]: "tolerable (Inr x)" "tolerable (Inl (StoreReadError m))"
  by (simp_all add: tolerable_def)

lemma tolerable_cases: "tolerable m \<Longrightarrow> (\<And>x. m = Inr x \<Longrightarrow> Q) \<Longrightarrow> (\<And>msg. m = Inl (StoreReadError msg) \<Longrightarrow> Q) \<Longrightarrow> Q"
  by (cases m) (auto simp: tolerable_def)

lemma manifest_ok_validates: "manifest_ok m \<Longrightarrow> validates m"
  by (simp add: validates_def validate_manifest_iff [THEN iffD2])

lemma instant_val_parse: "instant_val v \<Longrightarrow> \<exists>t. parse_time (str_of v) = Inr t"
  by (auto simp: instant_val_def parse_time_def split: option.splits)

section \<open>The evaluation is total on them\<close>

lemma effective_invalidation_total:
  "\<forall>r \<in> set rs. instant_val (item r ''invalidated_at'') \<Longrightarrow> \<exists>x. effective_invalidation trust now rs = Inr x"
  by (induction trust now rs rule: effective_invalidation.induct) (auto dest!: instant_val_parse)

lemma select_validation_total:
  "\<forall>r \<in> set vs. instant_val (item r ''fresh_until'') \<Longrightarrow> \<exists>x. select_validation trust now vs = Inr x"
  by (induction trust now vs rule: select_validation.induct) (auto dest!: instant_val_parse)

lemma effective_invalidated_total:
  assumes "steady s" "manifest_ok m"
  shows "\<exists>x. effective_invalidated P m s required = Inr x"
proof (cases "sv_invalidations s")
  case (Some f)
  obtain d where d: "manifest_digest m = Inr d" "is_digest d" using manifest_digest_ok [OF assms(2)] by blast
  with assms(1) Some have f: "tolerable (f d)" "\<forall>rs. f d = Inr rs \<longrightarrow> (\<forall>r \<in> set rs. instant_val (item r ''invalidated_at''))"
    by (auto simp: steady_def)
  from f(1) show ?thesis
    by (rule tolerable_cases) (use f(2) Some d effective_invalidation_total in \<open>auto simp: effective_invalidated_def\<close>)
qed (simp add: effective_invalidated_def)

lemma freshness_total:
  assumes "steady s" "manifest_ok m" "is_digest d"
  shows "\<exists>x. freshness P m s d = Inr x"
proof -
  have "\<exists>b. manifest_fresh P m = Inr b"
    using assms(2) by (auto simp: manifest_fresh_def manifest_ok_def dest!: instant_val_parse)
  then obtain b where b: "manifest_fresh P m = Inr b" by blast
  from assms(1,3) have v: "tolerable (sv_validations s d)"
    "\<forall>vs. sv_validations s d = Inr vs \<longrightarrow> (\<forall>v \<in> set vs. instant_val (item v ''fresh_until''))"
    by (auto simp: steady_def)
  from v(1) show ?thesis
  proof (rule tolerable_cases)
    fix vs
    assume vs: "sv_validations s d = Inr vs"
    obtain sel where "select_validation (trust_or (p_trusted_validation_producers P) (p_trusted_producers P)) (p_now P) vs = Inr sel"
      using select_validation_total v(2) vs by blast
    then show ?thesis using b vs by (auto simp: freshness_def split: option.splits)
  qed (use b in \<open>auto simp: freshness_def\<close>)
qed

lemma admission_total:
  assumes "steady s" "validates m"
  shows "\<exists>x. admission P requested m s active depth ignore = Inr x"
proof (cases "validate_manifest m")
  case (Inl e)
  with assms(2) show ?thesis by (simp add: admission_def validates_def)
next
  case (Inr x)
  then have ok: "manifest_ok m" by (cases x) (simp add: validate_manifest_iff)
  obtain d where d: "manifest_digest m = Inr d" "is_digest d" using manifest_digest_ok [OF ok] by blast
  obtain i where "effective_invalidated P m s (item m ''spec_version'' = result_v1 \<or> 0 < depth) = Inr i"
    using effective_invalidated_total [OF assms(1) ok] by blast
  moreover obtain f where "freshness P m s d = Inr f" using freshness_total [OF assms(1) ok d(2)] by blast
  ultimately show ?thesis using Inr d by (auto simp: admission_def split: option.splits)
qed

lemma load_artifacts_total:
  "steady s \<Longrightarrow> \<forall>d \<in> set ds. artifact_ok d \<Longrightarrow> \<exists>x. load_artifacts s names ds = Inr x"
proof (induction ds arbitrary: names)
  case (Cons d ds)
  then have "is_digest (str_of (item d ''digest''))" by (auto simp: artifact_ok_def digest_val_def)
  with Cons.prems(1) obtain b where "sv_get_blob s (str_of (item d ''digest'')) = Inr b" by (auto simp: steady_def)
  moreover obtain x where "load_artifacts s (insert (item d ''name'') names) ds = Inr x"
    using Cons by (auto simp: list_all_iff)
  ultimately show ?case by (auto split: option.splits decision.splits)
qed simp

lemma locate_result_total:
  "\<forall>s \<in> set ss. steady s \<Longrightarrow> is_digest d \<Longrightarrow> \<exists>x. locate_result d ss rf sp = Inr x"
proof (induction d ss rf sp rule: locate_result.induct)
  case (2 d s ss rf sp)
  show ?case
  proof (cases "sv_result s")
    case None
    with 2 show ?thesis by simp
  next
    case (Some f)
    with 2 have t: "tolerable (f d)" and v: "\<forall>m. f d = Inr (Some m) \<longrightarrow> validates m" by (auto simp: steady_def)
    from t show ?thesis
    proof (rule tolerable_cases)
      fix r
      assume r: "f d = Inr r"
      show ?thesis
      proof (cases r)
        case None
        with 2 Some r show ?thesis by simp
      next
        case (Some m)
        with v r have "validates m" by simp
        then have "(\<exists>x. manifest_digest m = Inr x) \<or> (\<exists>e. manifest_digest m = Inl e \<and> is_value_error e)"
        proof (cases "validate_manifest m")
          case (Inl e)
          with \<open>validates m\<close> show ?thesis by (simp add: validates_def manifest_digest_def)
        next
          case (Inr x)
          then have "manifest_ok m" by (cases x) (simp add: validate_manifest_iff)
          then show ?thesis using manifest_digest_ok by blast
        qed
        with \<open>sv_result s = Some f\<close> r Some show ?thesis by auto
      qed
    next
      fix msg
      assume "f d = Inl (StoreReadError msg)"
      with 2 Some show ?thesis by simp
    qed
  qed
qed simp

lemma locate_result_steady:
  "locate_result d ss rf sp = Inr (Proceed (m, s)) \<Longrightarrow> \<forall>s \<in> set ss. steady s \<Longrightarrow> is_digest d \<Longrightarrow> steady s \<and> validates m"
  using locate_result_Proceed [of d ss rf sp m s] by (auto simp: steady_def)

lemma evaluate_total:
  "\<forall>s \<in> set stores. steady s \<Longrightarrow> steady s \<Longrightarrow> validates m \<Longrightarrow>
     \<exists>x. evaluate P stores requested m s t depth ignore = Inr x"
  "\<forall>s \<in> set stores. steady s \<Longrightarrow> \<forall>d \<in> set ds. dependency_ok d \<Longrightarrow>
     \<exists>x. evaluate_dependencies P stores t depth ds = Inr x"
proof (induction P stores requested m s t depth ignore and P stores t depth ds rule: evaluate_evaluate_dependencies.induct)
  case (1 P stores requested m s t depth ignore)
  obtain a where a: "admission P requested m s (t_active t) depth ignore = Inr a"
    using admission_total [OF "1.prems"(2,3)] by blast
  show ?case
  proof (cases a)
    case (Reject r)
    with a show ?thesis by (simp add: evaluate.simps [of P stores requested])
  next
    case (Proceed v)
    note ok = admission_Proceed(1) [OF a [unfolded Proceed]]
    have "\<forall>d \<in> set (artifacts_of m). artifact_ok d" using ok by (simp add: manifest_ok_def list_all_iff)
    from load_artifacts_total [OF "1.prems"(2) this] obtain l where l: "load_artifacts s {} (artifacts_of m) = Inr l"
      by blast
    show ?thesis
    proof (cases "(\<exists>x. l = Proceed x) \<and> item m ''spec_version'' = result_v1")
      case True
      then obtain x where x: "l = Proceed x" "item m ''spec_version'' = result_v1" by blast
      have "\<forall>d \<in> set (dependencies_of m). dependency_ok d" using ok x(2) by (auto simp: manifest_ok_def list_all_iff)
      from "1.IH" [OF a Proceed l x "1.prems"(1) this] show ?thesis
        using a Proceed l x by (auto simp: evaluate.simps [of P stores requested] Let_def split: decision.splits)
    next
      case False
      with a Proceed l show ?thesis by (cases l) (auto simp: evaluate.simps [of P stores requested])
    qed
  qed
next
  case (2 P stores t depth)
  then show ?case by simp
next
  case (3 P stores t depth d ds)
  let ?t1 = "t\<lparr>t_edges := t_edges t + 1\<rparr>"
  have dd: "is_digest (str_of (item d ''result_digest''))" using "3.prems"(2) by (auto simp: dependency_ok_def digest_val_def)
  obtain r where r: "locate_result (str_of (item d ''result_digest'')) stores False False = Inr r"
    using locate_result_total [OF "3.prems"(1) dd] by blast
  show ?case
  proof (cases "\<not> p_max_dependency_count P < t_edges ?t1 \<and> (\<exists>m s. r = Proceed (m, s))")
    case False
    with r show ?thesis by (cases r) (auto simp: Let_def)
  next
    case True
    then obtain m s where c: "\<not> p_max_dependency_count P < t_edges ?t1" and ms: "r = Proceed (m, s)" by blast
    note st = locate_result_steady [OF r [unfolded ms] "3.prems"(1) dd]
    obtain e t2 where e: "evaluate P stores (str_of (item m ''action_digest'')) m s ?t1 depth False = Inr (e, t2)"
      using "3.IH"(1) [OF refl c r ms refl "3.prems"(1)] st by auto
    show ?thesis
    proof (cases e)
      case (Reject x)
      with c r ms e show ?thesis by (simp add: Let_def)
    next
      case (Proceed x)
      from "3.IH"(2) [OF refl c r ms refl e refl Proceed "3.prems"(1)] "3.prems"(2) c r ms e Proceed
      show ?thesis by (auto simp: Let_def)
    qed
  qed
qed

section \<open>Lookups are total\<close>

lemma try_candidates_total:
  "\<forall>s \<in> set stores. steady s \<Longrightarrow> steady s \<Longrightarrow> \<forall>m \<in> set ms. validates m \<Longrightarrow>
   \<exists>x. try_candidates P stores requested ignore s ms rej = Inr x"
proof (induction ms arbitrary: rej)
  case (Cons m ms)
  obtain d t where "evaluate P stores requested m s new_traversal 0 ignore = Inr (d, t)"
    using evaluate_total(1) [OF Cons.prems(1,2), of m P requested new_traversal 0 ignore] Cons.prems(3) by auto
  with Cons show ?case by (cases d) (auto split: prod.splits)
qed simp

lemma search_stores_total:
  "\<forall>s \<in> set stores. steady s \<Longrightarrow> \<forall>s \<in> set ss. steady s \<Longrightarrow> is_digest requested \<Longrightarrow>
   \<exists>x. search_stores P stores requested ignore ss rej = Inr x"
proof (induction ss arbitrary: rej)
  case (Cons s ss)
  then have t: "tolerable (sv_candidates s requested)"
    and v: "\<forall>cs. sv_candidates s requested = Inr cs \<longrightarrow> (\<forall>m \<in> set cs. validates m)" by (auto simp: steady_def)
  from t show ?case
  proof (rule tolerable_cases)
    fix cs
    assume cs: "sv_candidates s requested = Inr cs"
    obtain r rej' where "try_candidates P stores requested ignore s cs rej = Inr (r, rej')"
      using try_candidates_total [OF Cons.prems(1)] Cons.prems(2) v cs by (metis list.set_intros(1) prod.exhaust)
    with Cons cs show ?thesis by (cases r) auto
  next
    fix msg
    assume "sv_candidates s requested = Inl (StoreReadError msg)"
    with Cons show ?thesis by simp
  qed
qed simp

lemma action_digest_is: "action_digest action = Inr d \<Longrightarrow> is_digest d"
  by (auto simp: action_digest_def seq_Inr object_digest_is_digest)

section \<open>An acceptable candidate is found\<close>

lemma load_artifacts_intact:
  assumes "\<forall>d \<in> set ds. is_str (item d ''name'') \<and> (\<exists>b. sv_get_blob s (str_of (item d ''digest'')) = Inr (Some b)
      \<and> item d ''size'' = PyInt (int (length b)) \<and> item d ''digest'' = PyStr (digest_bytes b))"
    and "distinct (map (\<lambda>d. item d ''name'') ds)" "\<forall>d \<in> set ds. item d ''name'' \<notin> names"
  shows "\<exists>l. load_artifacts s names ds = Inr (Proceed l)"
  using assms
proof (induction ds arbitrary: names)
  case (Cons d ds)
  obtain b where b: "sv_get_blob s (str_of (item d ''digest'')) = Inr (Some b)"
    "item d ''size'' = PyInt (int (length b))" "item d ''digest'' = PyStr (digest_bytes b)" using Cons.prems(1) by auto
  obtain l where "load_artifacts s (insert (item d ''name'') names) ds = Inr (Proceed l)"
    using Cons.IH [of "insert (item d ''name'') names"] Cons.prems by (fastforce simp: image_iff)
  then show ?case using Cons.prems b by auto
qed simp

lemma evaluate_accepts:
  assumes "manifest_ok m" "item m ''spec_version'' = result_v0" "item m ''action_digest'' = PyStr requested"
    and "\<not> p_require_lineage P" "0 \<le> p_max_dependency_depth P" "in_trust (item m ''producer'') (p_trusted_producers P)"
    and "effective_invalidated P m s False = Inr None"
    and "manifest_fresh P m = Inr True"
    and "\<forall>d \<in> set (artifacts_of m). \<exists>b. sv_get_blob s (str_of (item d ''digest'')) = Inr (Some b)
      \<and> item d ''size'' = PyInt (int (length b)) \<and> item d ''digest'' = PyStr (digest_bytes b)"
  shows "\<exists>l. evaluate P stores requested m s new_traversal 0 False = Inr (Proceed (l, None), new_traversal)"
proof -
  obtain d where d: "manifest_digest m = Inr d" using manifest_digest_ok [OF assms(1)] by blast
  have "validate_manifest m = Inr ()" using assms(1) by (simp add: validate_manifest_iff)
  then have "admission P requested m s {} 0 False = Inr (Proceed None)"
    using assms d by (simp add: admission_def freshness_def)
  moreover obtain l where "load_artifacts s {} (artifacts_of m) = Inr (Proceed l)"
    using load_artifacts_intact [of "artifacts_of m" s "{}"] assms(1,9)
    by (auto simp: manifest_ok_def list_all_iff artifact_ok_def nonempty_str_def)
  ultimately show ?thesis using assms(2)
    by (simp add: evaluate.simps [of P stores requested] new_traversal_def)
qed

lemma try_candidates_finds:
  assumes "\<forall>s \<in> set stores. steady s" "steady s" "\<forall>m \<in> set ms. validates m"
    and "m \<in> set ms" "\<exists>x t. evaluate P stores requested m s new_traversal 0 ignore = Inr (Proceed x, t)"
  shows "\<exists>x rej'. try_candidates P stores requested ignore s ms rej = Inr (Some x, rej')"
  using assms
proof (induction ms arbitrary: rej)
  case (Cons m' ms)
  obtain d t where e: "evaluate P stores requested m' s new_traversal 0 ignore = Inr (d, t)"
    using evaluate_total(1) [OF Cons.prems(1,2), of m' P requested new_traversal 0 ignore] Cons.prems(3) by auto
  show ?case
  proof (cases d)
    case (Reject r)
    with e Cons show ?thesis by auto
  next
    case (Proceed x)
    with e show ?thesis by (cases x) auto
  qed
qed simp

lemma search_stores_finds:
  assumes "\<forall>s \<in> set stores. steady s" "\<forall>s \<in> set ss. steady s" "is_digest requested"
    and "s \<in> set ss" "sv_candidates s requested = Inr cs" "m \<in> set cs"
    and "\<exists>x t. evaluate P stores requested m s new_traversal 0 ignore = Inr (Proceed x, t)"
  shows "\<exists>out. search_stores P stores requested ignore ss rej = Inr out \<and> lo_hit out"
  using assms
proof (induction ss arbitrary: rej)
  case (Cons s' ss)
  then have t: "tolerable (sv_candidates s' requested)"
    and v: "\<forall>cs. sv_candidates s' requested = Inr cs \<longrightarrow> (\<forall>m \<in> set cs. validates m)" by (auto simp: steady_def)
  from t show ?case
  proof (rule tolerable_cases)
    fix cs'
    assume cs: "sv_candidates s' requested = Inr cs'"
    obtain r rej' where r: "try_candidates P stores requested ignore s' cs' rej = Inr (r, rej')"
      using try_candidates_total [OF Cons.prems(1)] Cons.prems(2) v cs by (metis list.set_intros(1) prod.exhaust)
    show ?thesis
    proof (cases r)
      case (Some x)
      with cs r show ?thesis by (cases x) auto
    next
      case None
      have "s' \<noteq> s"
      proof
        assume "s' = s"
        with Cons.prems cs have "\<exists>x rej'. try_candidates P stores requested ignore s' cs' rej = Inr (Some x, rej')"
          using v by (intro try_candidates_finds) auto
        with r None show False by auto
      qed
      with Cons cs r None show ?thesis by auto
    qed
  next
    fix msg
    assume err: "sv_candidates s' requested = Inl (StoreReadError msg)"
    then have "s' \<noteq> s" using Cons.prems(5) by auto
    with Cons err show ?thesis by auto
  qed
qed simp

section \<open>Publish, then reuse\<close>

text \<open>What makes a version 0 manifest acceptable, stated over its fields.\<close>

definition acceptable :: "policy \<Rightarrow> pystr \<Rightarrow> pyval \<Rightarrow> store_view \<Rightarrow> bool" where
  "acceptable P requested m s \<longleftrightarrow>
     manifest_ok m \<and> item m ''spec_version'' = result_v0 \<and> item m ''action_digest'' = PyStr requested
     \<and> \<not> p_require_lineage P \<and> 0 \<le> p_max_dependency_depth P \<and> in_trust (item m ''producer'') (p_trusted_producers P)
     \<and> not_invalidated P m s False \<and> manifest_fresh P m = Inr True
     \<and> (\<forall>d \<in> set (artifacts_of m). \<exists>b. sv_get_blob s (str_of (item d ''digest'')) = Inr (Some b)
          \<and> item d ''size'' = PyInt (int (length b)) \<and> item d ''digest'' = PyStr (digest_bytes b))"

lemma acceptable_evaluates:
  "acceptable P requested m s \<Longrightarrow> \<exists>x t. evaluate P stores requested m s new_traversal 0 False = Inr (Proceed x, t)"
  using evaluate_accepts [of m requested P s stores]
  by (auto simp: acceptable_def effective_invalidated_None)

lemma acceptable_norm:
  assumes "wf_val m" "acceptable P requested m s"
  shows "acceptable P requested (norm m) s"
proof -
  have ok: "manifest_ok m" using assms(2) by (simp add: acceptable_def)
  note j = manifest_parts [OF assms(1) ok]
  obtain d where d: "manifest_digest m = Inr d" using manifest_digest_ok [OF ok] by blast
  then have eq: "manifest_digest (norm m) = manifest_digest m" using manifest_digest_norm [OF assms(1) d] by simp
  have "not_invalidated P (norm m) s False = not_invalidated P m s False" by (simp only: not_invalidated_def eq)
  then have "not_invalidated P (norm m) s False" using assms(2) by (simp only: acceptable_def)
  moreover have "artifacts_of (norm m) = map norm (artifacts_of m)" by (simp add: artifacts_of_def item_norm j(1))
  moreover have "is_str (item m ''producer'')" using ok by (simp add: manifest_ok_def nonempty_str_def)
  moreover have "manifest_fresh P (norm m) = manifest_fresh P m" by (simp add: manifest_fresh_def item_norm j(1))
  ultimately show ?thesis
    using assms(2) manifest_ok_norm [OF assms(1) ok] j
    by (simp add: acceptable_def item_norm norm_str result_v0_def)
qed

lemma not_collides: "stands_for m m' \<Longrightarrow> \<not> collides m m' \<Longrightarrow> m' = m \<or> m' = norm m"
  by (simp add: stands_for_def)

definition descriptor :: "pystr \<times> bytes \<times> pystr \<Rightarrow> pyval" where
  "descriptor a =
     obj [(''name'', PyStr (fst a)), (''digest'', PyStr (digest_bytes (fst (snd a)))),
          (''size'', PyInt (int (length (fst (snd a))))), (''media_type'', PyStr (snd (snd a)))]"

text \<open>The manifest that a publication without dependencies builds.\<close>

lemma build_manifest_Inr:
  assumes "build_manifest action ds producer produced (Some (Aware until)) None = Inr m"
  shows "\<exists>requested p. action_digest action = Inr requested \<and>
    m = obj [(''spec_version'', result_v0), (''action_digest'', PyStr requested), (''artifacts'', PyList ds),
       (''produced_at'', PyStr p), (''fresh_until'', PyStr (iso_utc until)), (''producer'', PyStr producer)]"
  using assms by (auto simp: build_manifest_def checks format_optional_def format_time_def)

locale cache_store = result_store +
  assumes view_steady: "inv s \<Longrightarrow> steady (so_view ops s)"
begin

lemma put_artifacts_put_blobs:
  "inv s \<Longrightarrow> put_artifacts ops s arts = (put_blobs s (map (\<lambda>a. fst (snd a)) arts), map descriptor arts)"
proof (induction arts arbitrary: s)
  case (Cons a rest)
  obtain name data media_type where a: "a = (name, data, media_type)" by (cases a)
  obtain s1 d where p: "so_put_blob ops s data = (s1, d)" by (cases "so_put_blob ops s data")
  then have "inv s1" "d = digest_bytes data"
    using Cons.prems inv_put_blob [of s data] digest_put_blob [of s data] by simp_all
  with Cons.IH [of s1] p a show ?case by (simp add: descriptor_def)
qed simp

lemma publish_result_Inr:
  assumes "inv s" "publish_result ops s action arts producer produced (Some (Aware until)) None = (s', Inr m)"
  shows "\<exists>requested p. action_digest action = Inr requested \<and> manifest_ok m
    \<and> so_put_result ops (put_blobs s (map (\<lambda>a. fst (snd a)) (sort_key fst arts))) m = Inr s'
    \<and> m = obj [(''spec_version'', result_v0), (''action_digest'', PyStr requested),
       (''artifacts'', PyList (map descriptor (sort_key fst arts))), (''produced_at'', PyStr p),
       (''fresh_until'', PyStr (iso_utc until)), (''producer'', PyStr producer)]"
proof -
  let ?s = "put_blobs s (map (\<lambda>a. fst (snd a)) (sort_key fst arts))"
  from assms have "build_manifest action (map descriptor (sort_key fst arts)) producer produced (Some (Aware until)) None = Inr m"
    and put: "so_put_result ops ?s m = Inr s'"
    by (auto simp: publish_result_def put_artifacts_put_blobs split: sum.splits)
  from build_manifest_Inr [OF this(1)] put_result_valid [OF inv_put_blobs [OF assms(1)] put] put show ?thesis by blast
qed

text \<open>
  A publication is found: unless its bytes or its manifest collide with what the store already
  holds, a lookup under a policy that trusts the producer, at a time before the expiry, hits.
\<close>

lemma publish_then_reuse:
  assumes inv: "inv s"
    and pub: "publish_result ops s action arts producer produced (Some (Aware until)) None = (s', Inr m)"
    and wf: "wf_val m" and range: "0 \<le> until" "until < max_instant"
    and policy: "\<not> p_require_lineage P" "0 \<le> p_max_dependency_depth P"
      "in_trust (PyStr producer) (p_trusted_producers P)" "p_now P \<le> until"
      "not_invalidated P m (so_view ops s') False"
    and stores: "so_view ops s' \<in> set stores" "\<forall>v \<in> set stores. steady v"
    and no_clash: "\<forall>cs. sv_candidates (so_view ops s') (str_of (item m ''action_digest'')) = Inr cs \<longrightarrow>
        (\<forall>m' \<in> set cs. \<not> collides m m')"
      "\<forall>(n, b, t) \<in> set arts. \<forall>b'. sv_get_blob (so_view ops s') (digest_bytes b) = Inr (Some b') \<longrightarrow> \<not> collision b' b"
  shows "\<exists>out. reuse action stores P = Inr out \<and> lo_hit out"
proof -
  let ?arts = "sort_key fst arts"
  let ?s = "put_blobs s (map (\<lambda>a. fst (snd a)) ?arts)"
  let ?v = "so_view ops s'"
  obtain requested p where req: "action_digest action = Inr requested" and ok: "manifest_ok m"
    and put: "so_put_result ops ?s m = Inr s'"
    and m: "m = obj [(''spec_version'', result_v0), (''action_digest'', PyStr requested),
       (''artifacts'', PyList (map descriptor ?arts)), (''produced_at'', PyStr p),
       (''fresh_until'', PyStr (iso_utc until)), (''producer'', PyStr producer)]"
    using publish_result_Inr [OF inv pub] by blast
  have inv1: "inv ?s" by (rule inv_put_blobs [OF inv])
  have arts: "\<exists>b'. sv_get_blob ?v (digest_bytes b) = Inr (Some b') \<and> b' = b" if "(n, b, t) \<in> set arts" for n b t
  proof -
    have "holds ?s (digest_bytes b)" using that by (intro holds_put_blobs inv) force
    then have "holds s' (digest_bytes b)" using holds_put_result [OF inv1 put] by simp
    then obtain b' where b': "sv_get_blob ?v (digest_bytes b) = Inr (Some b')" "digest_bytes b' = digest_bytes b"
      unfolding holds_def by blast
    moreover have "\<not> collision b' b" using no_clash(2) that b'(1) by fastforce
    ultimately show ?thesis using digest_bytes_inj [OF b'(2)] by blast
  qed
  have acc: "acceptable P requested m ?v"
  proof -
    have "manifest_fresh P m = Inr True"
      using policy(4) parse_iso_utc [OF range] by (simp add: manifest_fresh_def m parse_time_def)
    moreover have "\<forall>d \<in> set (artifacts_of m). \<exists>b. sv_get_blob ?v (str_of (item d ''digest'')) = Inr (Some b)
          \<and> item d ''size'' = PyInt (int (length b)) \<and> item d ''digest'' = PyStr (digest_bytes b)"
      using arts by (fastforce simp: m artifacts_of_def descriptor_def simp del: digest_bytes_eq)
    moreover have "item m ''spec_version'' = result_v0" "item m ''action_digest'' = PyStr requested"
      "item m ''producer'' = PyStr producer" by (simp_all add: m)
    ultimately show ?thesis using ok policy by (simp add: acceptable_def)
  qed
  have "str_of (item m ''action_digest'') = requested" by (simp add: m)
  with candidate_put_result [OF inv1 wf put] obtain cs m' where cs: "sv_candidates ?v requested = Inr cs"
    "m' \<in> set cs" "stands_for m m'" by metis
  then have "m' = m \<or> m' = norm m"
    using not_collides no_clash(1) \<open>str_of (item m ''action_digest'') = requested\<close> by blast
  then have "acceptable P requested m' ?v" using acc acceptable_norm [OF wf acc] by blast
  then have "\<exists>x t. evaluate P stores requested m' ?v new_traversal 0 False = Inr (Proceed x, t)"
    by (rule acceptable_evaluates)
  from search_stores_finds [OF stores(2,2) action_digest_is [OF req] stores(1) cs(1,2) this]
  show ?thesis by (simp add: reuse_def req)
qed

end

section \<open>Both stores\<close>

lemma ms_steady: "ms_inv s \<Longrightarrow> steady (ms_view s)"
  using manifest_ok_validates
  by (auto simp: steady_def ms_view_def ms_candidates_def ms_result_def ms_get_validations_def ms_get_invalidations_def
      ms_get_blob_def ms_inv_def source_validation_ok_def invalidation_ok_def manifest_digest_Inr)

interpretation ms: cache_store memory_ops ms_inv
  by unfold_locales (simp add: memory_ops_def ms_steady)

lemma fs_steady: "fs_inv s \<Longrightarrow> steady (fs_view s)"
proof -
  assume inv: "fs_inv s"
  have "tolerable (fs_candidates s d) \<and> (\<forall>cs. fs_candidates s d = Inr cs \<longrightarrow> (\<forall>m \<in> set cs. validates m))" if "is_digest d" for d
    using fs_candidates_ok [OF inv that] fs_candidate_manifest [OF inv that] manifest_ok_validates by auto
  moreover have "tolerable (fs_result s d) \<and> (\<forall>m. fs_result s d = Inr (Some m) \<longrightarrow> validates m)" if "is_digest d" for d
    using fs_result_ok [OF inv that] fs_result_sound [of s d] manifest_ok_validates by (auto simp: manifest_digest_Inr)
  moreover have "tolerable (fs_validations s d)
      \<and> (\<forall>vs. fs_validations s d = Inr vs \<longrightarrow> (\<forall>v \<in> set vs. instant_val (item v ''fresh_until'')))" if "is_digest d" for d
    using fs_records_ok [OF inv that, of "''validations''" source_validation_ok validate_source_validation "''validation_read_failed''"]
    by (auto simp: fs_validations_def record_kinds_def validate_source_validation_iff source_validation_ok_def)
  moreover have "tolerable (fs_invalidations s d)
      \<and> (\<forall>vs. fs_invalidations s d = Inr vs \<longrightarrow> (\<forall>v \<in> set vs. instant_val (item v ''invalidated_at'')))" if "is_digest d" for d
    using fs_records_ok [OF inv that, of "''invalidations''" invalidation_ok validate_invalidation "''invalidation_read_failed''"]
    by (auto simp: fs_invalidations_def record_kinds_def validate_invalidation_iff invalidation_ok_def)
  ultimately show ?thesis using fs_get_blob_ok [OF inv] by (simp add: steady_def fs_view_def)
qed

interpretation fs: cache_store filesystem_ops fs_inv
  by unfold_locales (simp add: filesystem_ops_def fs_steady)

end
