(* ===== verification/Publishing.thy ===== *)
theory Publishing
  imports Lookup
begin

text \<open>
  When a publication succeeds: with a valid action, non-empty distinct artifact names and
  timestamps in range, the manifest that \<open>publish_result\<close> builds passes every check of
  \<open>validate_manifest\<close>. The last section has the concrete action, store and policy that the
  witnesses of the cache properties use.
\<close>

section \<open>Scalar texts\<close>

lemma is_digest_scalar: "is_digest d \<Longrightarrow> list_all scalar d"
  using scalar_u [of "''sha256:''"]
  by (fastforce simp: is_digest_def starts_with_iff removeprefix_def list_all_iff is_hex_def scalar_def code_point_def surrogate_def)

definition stamp_char :: "int \<Rightarrow> bool" where
  "stamp_char c \<longleftrightarrow> 45 \<le> c \<and> c \<le> 90"

lemma is_digit_stamp: "is_digit c \<Longrightarrow> stamp_char c"
  by (simp add: is_digit_def stamp_char_def)

lemma timestamp_chars: "is_timestamp s \<Longrightarrow> list_all stamp_char s"
proof -
  assume "is_timestamp s"
  then obtain f r where c: "clock_fields s = Some (f, r)" and z: "fraction_z r \<noteq> None"
    by (auto simp: is_timestamp_def split: option.splits)
  have r: "list_all stamp_char r"
  proof (cases "r = [90]")
    case False
    with z have p: "3 \<le> length r" "hd r = 46" "last r = 90" "list_all is_digit (butlast (tl r))"
      by (auto simp: fraction_z_def split: if_splits)
    then obtain x q where "r = x # q" "q \<noteq> []" by (cases r; cases "tl r") auto
    then have "r = 46 # butlast (tl r) @ [90]" using p append_butlast_last_id [of q] by simp
    moreover have "list_all stamp_char (46 # butlast (tl r) @ [90])"
      using p(4) is_digit_stamp by (simp add: list_all_iff stamp_char_def)
    ultimately show ?thesis by (simp only:)
  qed (simp add: stamp_char_def)
  have s: "19 \<le> length s" "drop 19 s = r"
      "\<forall>i \<in> {0, 1, 2, 3, 5, 6, 8, 9, 11, 12, 14, 15, 17, 18}. is_digit (s ! i)"
      "s ! 4 = 45" "s ! 7 = 45" "s ! 10 = 84" "s ! 13 = 58" "s ! 16 = 58"
    using c by (auto simp: clock_fields_def split: if_splits)
  have "stamp_char (take 19 s ! i)" if "i < 19" for i
  proof -
    have "i \<in> {0, 1, 2, 3, 5, 6, 8, 9, 11, 12, 14, 15, 17, 18} \<or> i = 4 \<or> i = 7 \<or> i = 10 \<or> i = 13 \<or> i = 16"
    proof -
      have "i \<in> {..<19}" using that by simp
      then show ?thesis by (simp only: lessThan_nat_numeral pred_numeral_simps semiring_norm) auto
    qed
    then have "stamp_char (s ! i)" using s(3-8) is_digit_stamp stamp_char_def by (elim disjE) (blast, simp_all add: stamp_char_def)
    then show ?thesis using that by simp
  qed
  then have "list_all stamp_char (take 19 s)" using s(1) by (simp add: list_all_length)
  then have "list_all stamp_char (take 19 s @ drop 19 s)" using r s(2) by (simp only: list_all_append)
  then show ?thesis by simp
qed

lemma timestamp_scalar: "is_timestamp s \<Longrightarrow> list_all scalar s"
  using timestamp_chars [of s] by (auto simp: list_all_iff stamp_char_def scalar_ascii)

section \<open>Built manifests are valid\<close>

definition good_artifact :: "pystr \<times> bytes \<times> pystr \<Rightarrow> bool" where
  "good_artifact a \<longleftrightarrow> fst a \<noteq> [] \<and> list_all scalar (fst a) \<and> snd (snd a) \<noteq> [] \<and> list_all scalar (snd (snd a))
     \<and> int (length (fst (snd a))) \<le> max_safe_integer"

lemma descriptor_ok: "good_artifact a \<Longrightarrow> artifact_ok (descriptor a) \<and> jsonable (descriptor a)"
proof -
  assume a: "good_artifact a"
  have "exact_keys (descriptor a) [''name'', ''digest'', ''size'', ''media_type'']"
    unfolding descriptor_def exact_keys_obj by simp
  then show ?thesis
    using a is_digest_scalar [OF is_digest_bytes]
    by (simp add: artifact_ok_def descriptor_def nonempty_str_def digest_val_def good_artifact_def jsonable_simps)
       (simp add: jsonable_def max_safe_integer_def)
qed

definition built_manifest :: "pystr \<Rightarrow> (pystr \<times> bytes \<times> pystr) list \<Rightarrow> pystr \<Rightarrow> pyval \<Rightarrow> pystr \<Rightarrow> pyval" where
  "built_manifest requested arts p fresh producer =
     obj [(''spec_version'', result_v0), (''action_digest'', PyStr requested),
          (''artifacts'', PyList (map descriptor arts)), (''produced_at'', PyStr p),
          (''fresh_until'', fresh), (''producer'', PyStr producer)]"

lemma built_manifest_items [simp]:
  "item (built_manifest r arts p f q) ''spec_version'' = result_v0"
  "item (built_manifest r arts p f q) ''action_digest'' = PyStr r"
  "item (built_manifest r arts p f q) ''fresh_until'' = f"
  "item (built_manifest r arts p f q) ''producer'' = PyStr q"
  "item (built_manifest r arts p f q) ''produced_at'' = PyStr p"
  "artifacts_of (built_manifest r arts p f q) = map descriptor arts"
  "is_list (item (built_manifest r arts p f q) ''artifacts'')"
  by (simp_all add: built_manifest_def artifacts_of_def)

lemma built_manifest_ok:
  assumes "is_digest requested" "list_all good_artifact arts" "distinct (map fst arts)"
    and "instant_val (PyStr p)" "f = PyNone \<or> (\<exists>t. f = PyStr t \<and> instant_val f)" "producer \<noteq> []" "list_all scalar producer"
  shows "manifest_ok (built_manifest requested arts p f producer)" "jsonable (built_manifest requested arts p f producer)"
proof -
  let ?m = "built_manifest requested arts p f producer"
  have ts: "list_all scalar s" if "instant_val (PyStr s)" for s
    using that by (auto simp: instant_val_def dest!: parse_instant_pattern timestamp_scalar)
  have "jsonable f" using assms(5) ts by (auto simp: jsonable_simps)
  moreover have "jsonable (PyList (map descriptor arts))"
    using assms(2) descriptor_ok by (auto simp: jsonable_simps list_all_iff)
  ultimately show j: "jsonable ?m"
    using is_digest_scalar [OF assms(1)] ts [OF assms(4)] assms(7)
    by (simp add: built_manifest_def jsonable_simps result_v0_def)
  have "exact_keys ?m (manifest_keys result_v0)"
    unfolding built_manifest_def exact_keys_obj manifest_keys_def by simp
  moreover have "list_all artifact_ok (map descriptor arts)" using assms(2) descriptor_ok by (simp add: list_all_iff)
  moreover have "distinct (map (\<lambda>a. item a ''name'') (map descriptor arts))"
  proof -
    have "map (\<lambda>a. item a ''name'') (map descriptor arts) = map PyStr (map fst arts)" by (simp add: descriptor_def)
    moreover have "distinct (map PyStr (map fst arts))" using assms(3) by (simp only: distinct_map) (simp add: inj_on_def)
    ultimately show ?thesis by (simp only:)
  qed
  ultimately show "manifest_ok ?m"
    using assms(1,4,5,6) j
    by (auto simp: manifest_ok_def digest_val_def nonempty_str_def canonical_json_jsonable simp del: map_map)
qed

context cache_store
begin

text \<open>A publication with good inputs succeeds, and returns the manifest described above.\<close>

lemma publish_result_succeeds:
  assumes inv: "inv s" and req: "action_digest action = Inr requested"
    and arts: "list_all good_artifact arts" "distinct (map fst arts)"
    and producer: "producer \<noteq> []" "list_all scalar producer"
    and t: "0 \<le> t" "t < max_instant" and until: "0 \<le> until" "until < max_instant"
  shows "\<exists>s' m. publish_result ops s action arts producer (Aware t) (Some (Aware until)) None = (s', Inr m)
    \<and> m = built_manifest requested (sort_key fst arts) (iso_utc t) (PyStr (iso_utc until)) producer \<and> jsonable m
    \<and> so_put_result ops (put_blobs s (map (\<lambda>a. fst (snd a)) (sort_key fst arts))) m = Inr s'"
proof -
  let ?s = "put_blobs s (map (\<lambda>a. fst (snd a)) (sort_key fst arts))"
  let ?m = "built_manifest requested (sort_key fst arts) (iso_utc t) (PyStr (iso_utc until)) producer"
  have iv: "instant_val (PyStr (iso_utc t))" "instant_val (PyStr (iso_utc until))"
    using parse_iso_utc [OF t] parse_iso_utc [OF until] by (simp_all add: instant_val_def)
  have good: "list_all good_artifact (sort_key fst arts)" using arts(1) by (simp add: list_all_iff)
  have "distinct (map fst (sort_key fst arts))"
    using arts(2) by (metis distinct_map distinct_sort set_sort)
  from built_manifest_ok [OF action_digest_is [OF req] good this iv(1) _ producer, of "PyStr (iso_utc until)"] iv(2)
  have ok: "manifest_ok ?m" "jsonable ?m" by auto
  from put_result_ok [OF inv_put_blobs [OF inv] ok(1)] obtain s' where s': "so_put_result ops ?s ?m = Inr s'" by blast
  have "build_manifest action (map descriptor (sort_key fst arts)) producer (Aware t) (Some (Aware until)) None = Inr ?m"
    by (simp add: build_manifest_def req format_time_def format_optional_def built_manifest_def)
  with s' ok show ?thesis
    by (intro exI [of _ s'] exI [of _ ?m]) (simp add: publish_result_def put_artifacts_put_blobs [OF inv])
qed

end

section \<open>A concrete publication\<close>

definition example_action :: pyval where
  "example_action =
     obj [(''spec_version'', S ''oncemesh.action/v0''),
          (''operation'', obj [(''name'', S ''fetch''), (''version'', S ''1'')]),
          (''inputs'', obj [(''url'', S ''https://example.org'')]),
          (''executor'', obj [(''name'', S ''worker''), (''version'', S ''2''), (''config'', obj [])]),
          (''output_schema'', S ''text''), (''vary'', obj [])]"

definition example_artifacts :: "(pystr \<times> bytes \<times> pystr) list" where
  "example_artifacts = [(u ''body'', [104, 105], u ''text/plain'')]"

definition example_policy :: policy where
  "example_policy = (default_policy 1000000)\<lparr>p_trusted_producers := Some {u ''worker''}\<rparr>"

definition example_store :: memory_store where
  "example_store = fst (publish_result memory_ops (ms_init (u ''local'')) example_action example_artifacts (u ''worker'')
     (Aware 0) (Some (Aware 2000000)) None)"

definition example_manifest :: pyval where
  "example_manifest = (case snd (publish_result memory_ops (ms_init (u ''local'')) example_action example_artifacts
     (u ''worker'') (Aware 0) (Some (Aware 2000000)) None) of Inr m \<Rightarrow> m | Inl _ \<Rightarrow> PyNone)"

lemma jsonable_S [simp]: "jsonable (S s)"
  by (simp add: jsonable_simps)

lemma example_action_jsonable: "jsonable example_action"
  by (simp add: example_action_def jsonable_simps)

lemma example_action_valid: "validate_action example_action = Inr ()"
proof -
  have "exact_keys example_action [''spec_version'', ''operation'', ''inputs'', ''executor'', ''output_schema'', ''vary'']"
    unfolding example_action_def exact_keys_obj by simp
  moreover have "exact_keys (item example_action ''operation'') [''name'', ''version'']"
    using exact_keys_obj [of "[(''name'', S ''fetch''), (''version'', S ''1'')]" "[''name'', ''version'']"]
    by (simp add: example_action_def)
  moreover have "exact_keys (item example_action ''executor'') [''name'', ''version'', ''config'']"
    using exact_keys_obj [of "[(''name'', S ''worker''), (''version'', S ''2''), (''config'', obj [])]" "[''name'', ''version'', ''config'']"]
    by (simp add: example_action_def)
  moreover have "ok (canonical_json example_action)" by (simp add: canonical_json_jsonable example_action_jsonable)
  ultimately show ?thesis
    unfolding validate_action_def checks require_exact_keys_iff require_nonempty_string_iff
    by (simp add: example_action_def nonempty_str_def)
qed

definition example_digest :: pystr where
  "example_digest = digest_bytes (utf8_bytes (dumps example_action))"

lemma example_action_digest: "action_digest example_action = Inr example_digest"
  by (simp add: action_digest_def example_action_valid object_digest_def canonical_json_jsonable example_action_jsonable
      example_digest_def)

lemma example_artifacts_good: "list_all good_artifact example_artifacts" "distinct (map fst example_artifacts)"
  by (simp_all add: example_artifacts_def good_artifact_def max_safe_integer_def)

lemma memory_ops_sel:
  "so_put_result memory_ops = ms_put_result" "so_put_blob memory_ops = ms_put_blob" "so_view memory_ops = ms_view"
  by (simp_all add: memory_ops_def)

lemma example_publication:
  "publish_result memory_ops (ms_init (u ''local'')) example_action example_artifacts (u ''worker'')
     (Aware 0) (Some (Aware 2000000)) None = (example_store, Inr example_manifest)"
  "example_manifest = built_manifest example_digest example_artifacts (iso_utc 0) (PyStr (iso_utc 2000000)) (u ''worker'')"
  "jsonable example_manifest"
  "ms_put_result (fst (ms_put_blob (ms_init (u ''local'')) [104, 105])) example_manifest = Inr example_store"
proof -
  have "max_instant > 2000000" by (simp add: max_instant_def)
  then obtain s' m where p: "publish_result memory_ops (ms_init (u ''local'')) example_action example_artifacts (u ''worker'')
     (Aware 0) (Some (Aware 2000000)) None = (s', Inr m)"
    "m = built_manifest example_digest (sort_key fst example_artifacts) (iso_utc 0) (PyStr (iso_utc 2000000)) (u ''worker'')"
    "jsonable m"
    "so_put_result memory_ops (ms.put_blobs (ms_init (u ''local'')) (map (\<lambda>a. fst (snd a)) (sort_key fst example_artifacts))) m = Inr s'"
    using ms.publish_result_succeeds [OF ms_inv_init [of "u ''local''"] example_action_digest example_artifacts_good,
        of "u ''worker''" 0 2000000]
    by (auto simp del: ex_simps)
  have "s' = example_store" "m = example_manifest" using p(1) by (simp_all add: example_store_def example_manifest_def)
  with p show "publish_result memory_ops (ms_init (u ''local'')) example_action example_artifacts (u ''worker'')
     (Aware 0) (Some (Aware 2000000)) None = (example_store, Inr example_manifest)"
    "example_manifest = built_manifest example_digest example_artifacts (iso_utc 0) (PyStr (iso_utc 2000000)) (u ''worker'')"
    "jsonable example_manifest"
    "ms_put_result (fst (ms_put_blob (ms_init (u ''local'')) [104, 105])) example_manifest = Inr example_store"
    by (simp_all add: example_artifacts_def memory_ops_sel)
qed

end
