(* ===== verification/Execution_Cache_Theorems.thy ===== *)
theory Execution_Cache_Theorems
  imports Execution_Cache Publishing
begin

text \<open>
  The properties of the execution cache: the envelope is canonical, the file registry of epochs
  counts like the one in memory, what \<open>get\<close> returns is a checked value of the bridge's own producer
  for exactly that key and those epochs, a cleared value never comes back, and \<open>get\<close> returns what
  \<open>set\<close> stored.
\<close>

section \<open>The envelope\<close>

text \<open>C36: The envelope of a cached value is canonical: packing a value and unpacking bytes are inverse to
  each other, so every accepted envelope is the encoding of exactly one value.\<close>

theorem execution_value_round_trip:
  assumes "code_points (xv_type_tag v)"
  shows "pack_execution_value v = Inr data \<longleftrightarrow> unpack_execution_value data = Inr v"
  using assms pack_unpack unpack_pack by blast

lemma example_pack: "pack_execution_value \<lparr>xv_type_tag = u ''t'', xv_payload = [7]\<rparr> = Inr [0, 0, 0, 1, 116, 7]"
  by (simp add: pack_execution_value_def validate_type_tag_def utf8_encode_def utf8_bytes_def utf8_char_def u_def
      max_type_tag_bytes_def to_bytes4_def byte_def surrogate_def)

theorem execution_value_round_trip_witness:
  "unpack_execution_value [0, 0, 0, 1, 116, 7] = Inr \<lparr>xv_type_tag = u ''t'', xv_payload = [7]\<rparr>"
  using execution_value_round_trip [of "\<lparr>xv_type_tag = u ''t'', xv_payload = [7]\<rparr>" "[0, 0, 0, 1, 116, 7]"] example_pack by simp

section \<open>The two registries\<close>

text \<open>A sequence of calls of \<open>clear\<close>, none of which raises.\<close>

fun clear_all :: "'e epoch_ops \<Rightarrow> 'e \<Rightarrow> namespace list option list \<Rightarrow> 'e option" where
  "clear_all ops e [] = Some e"
| "clear_all ops e (w # ws) = (case clear ops e w of (e', Inr _) \<Rightarrow> clear_all ops e' ws | (_, Inl _) \<Rightarrow> None)"

definition times_cleared :: "namespace \<Rightarrow> namespace list option list \<Rightarrow> int" where
  "times_cleared ns ws = sum_list (map (\<lambda>w. case w of None \<Rightarrow> 0 | Some nss \<Rightarrow> int (count_list nss ns)) ws)"

context epoch_registry
begin

lemma epochs_counted:
  "clear_all ops e ws = Some e' \<Longrightarrow> inv e \<Longrightarrow> list_all text_namespaces ws \<Longrightarrow> proper ns \<Longrightarrow> ep_epochs ops e ns = Inr (g, n) \<Longrightarrow>
     ep_epochs ops e' ns = Inr (g + int (count_list ws None), n + times_cleared ns ws)"
proof (induction ws arbitrary: e g n)
  case (Cons w ws)
  then obtain e1 where c: "clear ops e w = (e1, Inr ())" "clear_all ops e1 ws = Some e'"
    by (auto split: prod.splits sum.splits)
  have inv1: "inv e1" using inv_clear [OF Cons.prems(2), of w] Cons.prems(3) c(1) by simp
  show ?case
  proof (cases w)
    case None
    with c(1) rotate_all_ok [OF Cons.prems(2) _ Cons.prems(4,5)] have "ep_epochs ops e1 ns = Inr (g + 1, n)" by (simp add: clear_def)
    from Cons.IH [OF c(2) inv1 _ Cons.prems(4) this] Cons.prems(3) None show ?thesis by (simp add: times_cleared_def)
  next
    case (Some nss)
    with c(1) rotate_ok [OF Cons.prems(2) _ _ Cons.prems(4,5)] Cons.prems(3)
    have "ep_epochs ops e1 ns = Inr (g, n + int (count_list nss ns))" by (simp add: clear_def text_namespaces_def)
    from Cons.IH [OF c(2) inv1 _ Cons.prems(4) this] Cons.prems(3) Some show ?thesis by (simp add: times_cleared_def)
  qed
qed (simp add: times_cleared_def)

end

lemma memory_clear_all:
  "\<forall>w \<in> set ws. \<forall>nss. w = Some nss \<longrightarrow> (\<forall>ns \<in> set nss. proper ns) \<Longrightarrow> \<exists>s'. clear_all memory_epoch_ops s ws = Some s'"
proof (induction ws arbitrary: s)
  case (Cons w ws)
  have r: "\<exists>s'. me_rotate_namespaces s nss = (s', Inr ())" if "\<forall>ns \<in> set nss. proper ns" for nss s
    using that
  proof (induction nss arbitrary: s)
    case (Cons ns nss)
    then show ?case by (simp add: validate_namespace_ok [THEN iffD2])
  qed simp
  have "\<exists>s'. clear memory_epoch_ops s w = (s', Inr ())"
    using r Cons.prems by (cases w) (auto simp: clear_def memory_epoch_ops_def me_rotate_all_def)
  with Cons show ?case by force
qed simp

lemma keep_Inr: "keep f m = (f', Inr ()) \<longleftrightarrow> m = Inr f'"
  by (cases m) (auto simp: keep_def)

lemma file_clear_proper:
  "clear_all file_epoch_ops f ws = Some f' \<Longrightarrow> \<forall>w \<in> set ws. \<forall>nss. w = Some nss \<longrightarrow> (\<forall>ns \<in> set nss. proper ns)"
proof (induction ws arbitrary: f)
  case (Cons w ws)
  from Cons.prems obtain f1 where c: "clear file_epoch_ops f w = (f1, Inr ())" "clear_all file_epoch_ops f1 ws = Some f'"
    by (auto split: prod.splits sum.splits)
  have "\<forall>ns \<in> set nss. proper ns" if "w = Some nss" for nss
    using c(1) that
    by (auto simp: clear_def file_epoch_ops_def fe_rotate_namespaces_def keep_Inr seq_Inr first_error_Inr)
  with Cons.IH [OF c(2)] show ?case by simp
qed simp

text \<open>C37: The file registry of epochs refines the one in memory: after the same calls of \<open>clear\<close>, of which
  none raised on the file, the registry in memory has not raised either and both report the same
  epochs of every namespace.\<close>

theorem file_epochs_refine_memory:
  assumes "clear_all file_epoch_ops None ws = Some f" "list_all text_namespaces ws"
  shows "\<exists>s. clear_all memory_epoch_ops new_memory_epochs ws = Some s
    \<and> (\<forall>ns. proper ns \<longrightarrow> fe_epochs f ns = me_epochs s ns)"
proof -
  obtain s where s: "clear_all memory_epoch_ops new_memory_epochs ws = Some s"
    using memory_clear_all [OF file_clear_proper [OF assms(1)]] by blast
  have ops: "ep_epochs file_epoch_ops = fe_epochs" "ep_epochs memory_epoch_ops = me_epochs"
    by (simp_all add: file_epoch_ops_def memory_epoch_ops_def)
  have "fe_epochs f ns = me_epochs s ns" if ns: "proper ns" for ns
  proof -
    have "fe_epochs None ns = Inr (0, 0)"
      using ns by (simp add: fe_epochs_def fe_read_def fe_map_def al_of_def epoch_in_def no_epochs_def)
    moreover have "me_epochs new_memory_epochs ns = Inr (0, 0)"
      by (simp add: me_epochs_def new_memory_epochs_def epoch_in_def)
    ultimately show ?thesis
      using fe.epochs_counted [OF assms(1) _ assms(2) ns, unfolded ops] me.epochs_counted [OF s _ assms(2) ns, unfolded ops]
      by (simp add: fe_read_def)
  qed
  with s show ?thesis by blast
qed

lemma example_file_clear: "\<exists>f. clear_all file_epoch_ops None [None] = Some f"
proof -
  let ?v = "with_item no_epochs ''global'' (PyInt 1)"
  have "jsonable ?v"
    by (simp add: no_epochs_def with_item_def jsonable_simps) (simp add: jsonable_def max_safe_integer_def)
  then obtain f where "fe_write ?v = Inr f" using canonical_json_jsonable by (auto simp: fe_write_def)
  moreover have "int_of (item no_epochs ''global'') = 0" by (simp add: no_epochs_def)
  ultimately show ?thesis
    by (simp add: clear_def file_epoch_ops_def fe_rotate_all_def fe_read_def keep_def)
qed

theorem file_epochs_refine_memory_witness:
  "\<exists>f s. clear_all file_epoch_ops None [None] = Some f \<and> clear_all memory_epoch_ops new_memory_epochs [None] = Some s
    \<and> fe_epochs f [u ''a''] = me_epochs s [u ''a'']"
proof -
  obtain f where f: "clear_all file_epoch_ops None [None] = Some f" using example_file_clear by blast
  have "proper [u ''a'']" by (simp add: proper_def)
  with file_epochs_refine_memory [OF f] f show ?thesis by (fastforce simp: text_namespaces_def)
qed

section \<open>What get returns\<close>

lemma load_artifacts_names:
  "load_artifacts s names ds = Inr (Proceed loaded) \<Longrightarrow>
     distinct (map fst loaded) \<and> (\<forall>a \<in> set loaded. PyStr (fst a) \<notin> names)"
proof (induction ds arbitrary: names loaded)
  case (Cons d ds)
  from Cons.prems obtain blob rest where s: "is_str (item d ''name'')" "item d ''name'' \<notin> names"
    and l: "load_artifacts s (insert (item d ''name'') names) ds = Inr (Proceed rest)"
    and out: "loaded = (str_of (item d ''name''), blob) # rest"
    by (auto simp: rbind_Inr decision_map_Proceed split: if_splits option.splits)
  from s(1) have "PyStr (str_of (item d ''name'')) = item d ''name''" by (simp add: str_of_eq)
  with Cons.IH [OF l] s(2) show ?case by (auto simp: out)
qed auto

lemma search_stores_distinct:
  "search_stores P stores requested ignore ss rej = Inr out \<Longrightarrow> lo_hit out \<Longrightarrow> distinct (map fst (lo_artifacts out))"
proof (induction P stores requested ignore ss rej rule: search_stores.induct)
  case (2 P stores requested ignore s rest rej)
  have try_distinct: "distinct (map fst loaded)"
    if "try_candidates P stores requested ignore s ms rej = Inr (Some (m, loaded, v), rej')" for ms m loaded v rej rej'
    using that
  proof (induction ms arbitrary: rej)
    case (Cons m' ms)
    obtain d t where e: "evaluate P stores requested m' s new_traversal 0 ignore = Inr (d, t)"
      using Cons.prems by (auto split: sum.splits)
    show ?case
    proof (cases d)
      case (Reject r)
      with Cons e show ?thesis by simp
    next
      case (Proceed x)
      with e Cons.prems have "x = (loaded, v)" by (cases x) simp
      with e Proceed show ?thesis by (auto elim!: evaluate_cases dest: load_artifacts_names)
    qed
  qed simp
  show ?case
  proof (cases "sv_candidates s requested")
    case (Inl e)
    with 2 show ?thesis by (cases e) auto
  next
    case (Inr cs)
    with 2(3) obtain r rej' where tc: "try_candidates P stores requested ignore s cs rej = Inr (r, rej')"
      by (auto split: sum.splits)
    show ?thesis
    proof (cases r)
      case None
      with 2 Inr tc show ?thesis by auto
    next
      case (Some x)
      obtain m loaded v where x: "x = (m, loaded, v)" by (cases x) auto
      from try_distinct [OF tc [unfolded Some x]] 2(3) Inr tc Some x show ?thesis by auto
    qed
  qed
qed auto

lemma decode_hit_Some:
  assumes "decode_hit out = Some v" "distinct (map fst (lo_artifacts out))"
  shows "\<exists>data. lo_artifacts out = [(u ''value'', data)] \<and> unpack_execution_value data = Inr v"
proof -
  from assms(1) obtain data where names: "fst ` set (lo_artifacts out) = {u ''value''}"
    and d: "al_get (lo_artifacts out) (u ''value'') = Some data" "unpack_execution_value data = Inr v"
    by (auto simp: decode_hit_def Let_def split: if_splits option.splits sum.splits)
  obtain p rest where out: "lo_artifacts out = p # rest" using names by (cases "lo_artifacts out") auto
  with names have p: "fst p = u ''value''" by auto
  have "rest = []"
  proof (cases rest)
    case (Cons q r)
    with names out have "fst q = u ''value''" by auto
    with assms(2) out Cons p show ?thesis by simp
  qed simp
  with out p d show ?thesis by (cases p) auto
qed

lemma get_one_Some:
  assumes "get_one eops B e stores now key = Inr (Some v)"
  shows "\<exists>action requested s m data. action_for eops B e key = Inr action \<and> action_digest action = Inr requested
    \<and> s \<in> set stores \<and> admissible (bridge_policy B now) stores False 0 requested m s [(u ''value'', data)]
    \<and> unpack_execution_value data = Inr v"
proof -
  from assms obtain action out where a: "action_for eops B e key = Inr action"
    and out: "reuse action stores (bridge_policy B now) = Inr out" "lo_hit out" "decode_hit out = Some v"
    by (auto simp: get_one_def rbind_def split: sum.splits py_error.splits if_splits)
  from out(1) obtain requested where r: "action_digest action = Inr requested"
    and s: "search_stores (bridge_policy B now) stores requested False stores [] = Inr out"
    by (auto simp: reuse_def rbind_Inr)
  from decode_hit_Some [OF out(3) search_stores_distinct [OF s out(2)]] search_stores_hit [OF s out(2)] a r show ?thesis
    by metis
qed

lemma get_all_sound:
  assumes "get_all eops B e stores now ks results = Inr out" "(key, v) \<in> set out"
  shows "(key, v) \<in> set results \<or> key \<in> set ks \<and> get_one eops B e stores now key = Inr (Some v)"
  using assms
proof (induction eops B e stores now ks results rule: get_all.induct)
  case (2 eops B e stores now k rest results)
  then obtain found where f: "get_one eops B e stores now k = Inr found"
    and r: "get_all eops B e stores now rest (case found of None \<Rightarrow> results | Some v \<Rightarrow> al_set results k v) = Inr out"
    by (auto simp: rbind_Inr)
  from 2(1) [OF f r 2(3)] f show ?case by (cases found) (auto dest!: al_set_values)
qed auto

text \<open>C29: What \<open>get\<close> returns can be trusted. Every value comes from a store of the bridge, out of the single
  value artifact of a manifest for exactly the action of that key and the current epochs; the
  manifest was issued by the bridge's own producer, is valid, not invalidated and not expired, and
  its bytes have the digest and size it states. A disabled bridge returns nothing.\<close>

theorem bridge_get_sound:
  assumes "bridge_get eops B e stores clock ks = Inr results" "(key, v) \<in> set results"
  shows "\<exists>now action requested s m data. clock = Aware now \<and> br_enabled B \<and> key \<in> set ks
    \<and> action_for eops B e key = Inr action \<and> action_digest action = Inr requested
    \<and> s \<in> set stores \<and> admissible (bridge_policy B now) stores False 0 requested m s [(u ''value'', data)]
    \<and> item m ''producer'' = PyStr (br_producer B) \<and> unpack_execution_value data = Inr v"
proof -
  from assms obtain now where b: "br_enabled B" "clock = Aware now" "get_all eops B e stores now ks [] = Inr results"
    by (auto simp: bridge_get_def bridge_now_def rbind_Inr split: if_splits datetime.splits)
  from get_all_sound [OF b(3) assms(2)] have k: "key \<in> set ks" "get_one eops B e stores now key = Inr (Some v)" by simp_all
  from get_one_Some [OF k(2)] obtain action requested s m data where g:
    "action_for eops B e key = Inr action" "action_digest action = Inr requested" "s \<in> set stores"
    "admissible (bridge_policy B now) stores False 0 requested m s [(u ''value'', data)]" "unpack_execution_value data = Inr v"
    by blast
  have "in_trust (item m ''producer'') (Some {br_producer B})"
    using g(4) by (auto elim: admissibleE simp: bridge_policy_def default_policy_def)
  then have "item m ''producer'' = PyStr (br_producer B)" by (auto simp: in_trust_def elim: is_strE)
  with b k g show ?thesis by blast
qed

section \<open>Actions stand for their keys\<close>

definition text_bridge :: "bridge \<Rightarrow> bool" where
  "text_bridge B \<longleftrightarrow> code_points (br_runtime B) \<and> code_points (br_serializer B) \<and> code_points (br_partition B)"

definition text_key :: "cache_key \<Rightarrow> bool" where
  "text_key key \<longleftrightarrow> text_namespace (ck_namespace key) \<and> code_points (ck_key key)"

lemma wf_action_of: "text_bridge B \<Longrightarrow> text_key key \<Longrightarrow> wf_val (action_of B key p)"
  by (simp add: action_of_def text_bridge_def text_key_def text_namespace_def list.pred_map comp_def)

lemma action_of_items:
  "item (action_of B key p) ''inputs'' = obj [(''runtime'', PyStr (br_runtime B)),
             (''namespace'', PyList (map PyStr (ck_namespace key))), (''key'', PyStr (ck_key key))]"
  "item (action_of B key p) ''operation'' = obj [(''name'', S ''framework.execution-cache''), (''version'', S ''1'')]"
  "item (action_of B key p) ''executor'' = obj [(''name'', S ''oncemesh.execution-cache-bridge''), (''version'', S ''0''),
             (''config'', obj [(''serializer'', PyStr (br_serializer B)), (''global_epoch'', PyInt (fst p)),
                (''namespace_epoch'', PyInt (snd p))])]"
  "item (action_of B key p) ''vary'' = obj [(''authorization_partition'', PyStr (br_partition B))]"
  "item (action_of B key p) ''spec_version'' = S ''oncemesh.action/v0''"
  "item (action_of B key p) ''output_schema'' = S ''oncemesh.execution-cache-value/v1''"
  by (simp_all add: action_of_def)

lemma action_of_inj:
  assumes "norm (action_of B key p) = norm (action_of B' key' p')" "jsonable (action_of B key p)" "jsonable (action_of B' key' p')"
  shows "br_runtime B = br_runtime B' \<and> br_serializer B = br_serializer B' \<and> br_partition B = br_partition B' \<and> key = key' \<and> p = p'"
proof -
  let ?a = "action_of B key p" and ?a' = "action_of B' key' p'"
  have i: "norm (item ?a k) = norm (item ?a' k)" for k using assms item_norm by metis
  have ii: "norm (item (item ?a k) l) = norm (item (item ?a' k) l)" for k l
    using i [of k] item_norm jsonable_item assms(2,3) by metis
  have iii: "norm (item (item (item ?a k) l) m) = norm (item (item (item ?a' k) l) m)" for k l m
    using ii [of k l] item_norm jsonable_item assms(2,3) by metis
  have "map norm (map PyStr xs) = map PyStr xs" for xs by simp
  then have "map PyStr (ck_namespace key) = map PyStr (ck_namespace key')"
    using ii [of "''inputs''" "''namespace''"] by (simp add: action_of_items comp_def)
  then have "ck_namespace key = ck_namespace key'" by (metis inj_map_eq_map injI pyval.inject(4))
  then show ?thesis
    using ii [of "''inputs''" "''runtime''"] ii [of "''inputs''" "''key''"] ii [of "''vary''" "''authorization_partition''"]
      iii [of "''executor''" "''config''" "''serializer''"] iii [of "''executor''" "''config''" "''global_epoch''"]
      iii [of "''executor''" "''config''" "''namespace_epoch''"]
    by (simp add: action_of_items prod_eq_iff)
qed

text \<open>Equal digests mean the same key, serializer, partition and epochs, or a SHA-256 collision.\<close>

lemma action_of_digest_inj:
  assumes "action_digest (action_of B key p) = Inr d" "action_digest (action_of B' key' p') = Inr d"
    and "text_bridge B" "text_key key" "text_bridge B'" "text_key key'"
  shows "br_runtime B = br_runtime B' \<and> br_serializer B = br_serializer B' \<and> br_partition B = br_partition B' \<and> key = key' \<and> p = p'
    \<or> collides (action_of B key p) (action_of B' key' p')"
proof -
  have d: "object_digest (action_of B key p) = Inr d" "object_digest (action_of B' key' p') = Inr d"
    using assms(1,2) by (auto simp: action_digest_def checks)
  then obtain b b' where c: "canonical_json (action_of B key p) = Inr b" "canonical_json (action_of B' key' p') = Inr b'"
    by (auto simp: object_digest_Inr)
  note wf = wf_action_of [OF assms(3,4), of p] wf_action_of [OF assms(5,6), of p']
  have j: "jsonable (action_of B key p)" "jsonable (action_of B' key' p')"
    using c canonical_json_Inr [OF wf(1)] canonical_json_Inr [OF wf(2)] by simp_all
  from object_digest_inj [OF wf d] action_of_inj [OF _ j] show ?thesis unfolding collides_def by blast
qed

text \<open>C30: Cleared values never come back. After a \<open>clear\<close> of the file registry that covers the namespace of
  a key, and any further calls of \<open>clear\<close>, every value that \<open>get\<close> finds for the key comes from a
  manifest of another action than the one under which values were stored before the clear, unless
  the two actions collide under SHA-256.\<close>

theorem cleared_values_unreachable:
  assumes "ok (fe_read f)" "clear file_epoch_ops f what = (f1, Inr ())" "proper (ck_namespace key)"
    and "what = None \<or> (\<exists>nss. what = Some nss \<and> ck_namespace key \<in> set nss)"
    and "\<forall>w \<in> set (what # ws). text_namespaces w" "f' = foldl (\<lambda>f w. fst (clear file_epoch_ops f w)) f1 ws"
    and "text_bridge B" "text_key key"
    and "action_for file_epoch_ops B f key = Inr a" "action_digest a = Inr old"
    and "get_one file_epoch_ops B f' stores now key = Inr (Some v)"
  shows "\<exists>a' new s m data. action_for file_epoch_ops B f' key = Inr a'
    \<and> admissible (bridge_policy B now) stores False 0 new m s [(u ''value'', data)] \<and> unpack_execution_value data = Inr v
    \<and> item m ''action_digest'' = PyStr new \<and> (new \<noteq> old \<or> collides a a')"
proof -
  obtain p p' where p: "fe_epochs f (ck_namespace key) = Inr p" "fe_epochs f' (ck_namespace key) = Inr p'" "p \<noteq> p'"
    using fe.cleared_for_good [OF assms(1-6)] by (auto simp: file_epoch_ops_def)
  with assms(9) have a: "a = action_of B key p" by (simp add: action_for_def file_epoch_ops_def)
  obtain requested s m data where g: "action_digest (action_of B key p') = Inr requested"
    "admissible (bridge_policy B now) stores False 0 requested m s [(u ''value'', data)]" "unpack_execution_value data = Inr v"
    using get_one_Some [OF assms(11)] p(2) by (auto simp: action_for_def file_epoch_ops_def)
  have "item m ''action_digest'' = PyStr requested" using g(2) by (auto elim: admissibleE)
  moreover have "requested \<noteq> old \<or> collides a (action_of B key p')"
    using action_of_digest_inj [OF _ g(1) assms(7,8,7,8), of p] assms(10) a p(3) by auto
  moreover have "action_for file_epoch_ops B f' key = Inr (action_of B key p')"
    using p(2) by (simp add: action_for_def file_epoch_ops_def)
  ultimately show ?thesis using g(2,3) by blast
qed

section \<open>Get after set\<close>

text \<open>A publication of one artifact without dependencies on the memory store.\<close>

lemma memory_publish_one:
  assumes "publish_result memory_ops s action [(name, data, media_type)] producer (Aware t) until None = (s', Inr m)"
  shows "\<exists>requested fresh. action_digest action = Inr requested \<and> format_optional until = Inr fresh \<and> manifest_ok m
    \<and> m = obj [(''spec_version'', result_v0), (''action_digest'', PyStr requested), (''artifacts'', PyList [descriptor (name, data, media_type)]),
         (''produced_at'', PyStr (iso_utc t)), (''fresh_until'', fresh), (''producer'', PyStr producer)]
    \<and> ms_blobs s' (digest_bytes data) = Some data \<and> ms_results s' requested = ms_results s requested @ [m]
    \<and> ms_validations s' = ms_validations s \<and> ms_invalidations s' = ms_invalidations s \<and> ms_name s' = ms_name s"
proof -
  let ?s = "s\<lparr>ms_blobs := (ms_blobs s)(digest_bytes data := Some data)\<rparr>"
  from assms have b: "build_manifest action [descriptor (name, data, media_type)] producer (Aware t) until None = Inr m"
    and p: "ms_put_result ?s m = Inr s'"
    by (auto simp: publish_result_def memory_ops_def ms_put_blob_def Let_def descriptor_def split: sum.splits)
  from b obtain requested fresh where r: "action_digest action = Inr requested" "format_optional until = Inr fresh"
    and m: "m = obj [(''spec_version'', result_v0), (''action_digest'', PyStr requested), (''artifacts'', PyList [descriptor (name, data, media_type)]),
         (''produced_at'', PyStr (iso_utc t)), (''fresh_until'', fresh), (''producer'', PyStr producer)]"
    by (auto simp: build_manifest_def rbind_Inr format_time_def)
  from p have "manifest_ok m" by (simp add: ms_put_result_Inr)
  moreover have "item m ''action_digest'' = PyStr requested" by (simp add: m)
  ultimately show ?thesis using r m p by (auto simp: ms_put_result_Inr)
qed

lemma memory_set_get_aux:
  assumes inv: "ms_inv s" and quiet: "\<forall>d. ms_invalidations s d = []"
    and args: "set_arguments eops B e t key v ttl = Inr (action, data, until)" and ttl: "ttl = PyNone \<or> is_int ttl"
    and pub: "publish_result memory_ops s action [(u ''value'', data, value_media_type)] (br_producer B) (Aware t) until None = (s', Inr m)"
    and time: "ttl \<noteq> PyNone \<Longrightarrow> now \<le> t + int_of ttl * 1000000"
    and tag: "code_points (xv_type_tag v)"
  shows "get_one eops B e (ms_view s' # rest) now key = Inr (Some v)"
proof -
  let ?P = "bridge_policy B now" and ?d = "descriptor (u ''value'', data, value_media_type)"
  from args have action: "action_for eops B e key = Inr action" and data: "pack_execution_value v = Inr data"
    and until: "if ttl = PyNone then until = None else (\<exists>x. until = Some (Aware x) \<and> add_seconds t (int_of ttl) = Inr x)"
    by (auto simp: set_arguments_def rbind_Inr split: if_splits)
  obtain requested fresh where r: "action_digest action = Inr requested" "format_optional until = Inr fresh" "manifest_ok m"
    and m: "m = obj [(''spec_version'', result_v0), (''action_digest'', PyStr requested), (''artifacts'', PyList [?d]),
         (''produced_at'', PyStr (iso_utc t)), (''fresh_until'', fresh), (''producer'', PyStr (br_producer B))]"
    and s': "ms_blobs s' (digest_bytes data) = Some data" "ms_results s' requested = ms_results s requested @ [m]"
      "ms_validations s' = ms_validations s" "ms_invalidations s' = ms_invalidations s" "ms_name s' = ms_name s"
    using memory_publish_one [OF pub] by blast
  obtain md where md: "manifest_digest m = Inr md" using manifest_digest_ok [OF r(3)] by blast
  have P: "\<not> p_require_lineage ?P" "p_max_dependency_depth ?P = 8" "p_permit_no_expiry ?P" "p_now ?P = now"
    "in_trust (PyStr (br_producer B)) (p_trusted_producers ?P)"
    by (simp_all add: bridge_policy_def default_policy_def in_trust_def)
  have "\<exists>w. freshness ?P m (ms_view s') md = Inr (Proceed w)"
  proof (cases "ttl = PyNone")
    case True
    with until r(2) have "item m ''fresh_until'' = PyNone" by (auto simp: m format_optional_def)
    moreover have "\<forall>x \<in> set (rev (ms_validations s md)). instant_val (item x ''fresh_until'')"
      using inv by (auto simp: ms_inv_def source_validation_ok_def)
    from select_validation_total [OF this] obtain w where
      "select_validation (trust_or (p_trusted_validation_producers ?P) (p_trusted_producers ?P)) now (rev (ms_validations s md)) = Inr w"
      by blast
    ultimately show ?thesis using P s'(3)
      by (cases w) (auto simp: freshness_def manifest_fresh_def ms_view_def ms_get_validations_def)
  next
    case False
    with until obtain x where x: "until = Some (Aware x)" "add_seconds t (int_of ttl) = Inr x" by auto
    then have range: "0 \<le> x" "x < max_instant" "x = t + int_of ttl * 1000000" by (auto simp: add_seconds_def Let_def split: if_splits)
    have "item m ''fresh_until'' = PyStr (iso_utc x)" using r(2) x(1) by (simp add: m format_optional_def format_time_def)
    then have "manifest_fresh ?P m = Inr True"
      using parse_iso_utc [OF range(1,2)] time [OF False] P(4) range(3) by (simp add: manifest_fresh_def parse_time_def)
    then show ?thesis by (simp add: freshness_def)
  qed
  then obtain w where fresh: "freshness ?P m (ms_view s') md = Inr (Proceed w)" by blast
  have "effective_invalidated ?P m (ms_view s') False = Inr None"
    using quiet s'(4) md by (simp add: effective_invalidated_def ms_view_def ms_get_invalidations_def)
  moreover have "validate_manifest m = Inr ()" using r(3) by (simp add: validate_manifest_iff)
  moreover have items: "item m ''spec_version'' = result_v0" "item m ''action_digest'' = PyStr requested"
    "item m ''producer'' = PyStr (br_producer B)" "artifacts_of m = [?d]" by (simp_all add: m artifacts_of_def)
  ultimately have "admission ?P requested m (ms_view s') {} 0 False = Inr (Proceed w)"
    using P md fresh by (simp add: admission_def)
  moreover have "load_artifacts (ms_view s') {} [?d] = Inr (Proceed [(u ''value'', data)])"
    using s'(1) by (simp add: descriptor_def ms_view_def ms_get_blob_def)
  ultimately have "evaluate ?P (ms_view s' # rest) requested m (ms_view s') new_traversal 0 False
      = Inr (Proceed ([(u ''value'', data)], w), new_traversal)"
    by (subst evaluate.simps) (simp add: new_traversal_def items)
  then obtain out where out: "reuse action (ms_view s' # rest) ?P = Inr out" "lo_hit out" "lo_artifacts out = [(u ''value'', data)]"
    "lo_manifest out = Some m"
    using s'(2) r(1) by (auto simp: reuse_def ms_view_def ms_candidates_def)
  moreover have "decode_hit out = Some v"
    using pack_unpack [OF data tag] out(3,4) by (simp add: decode_hit_def items descriptor_def)
  ultimately show ?thesis using action by (simp add: get_one_def)
qed

lemma bridge_set_get:
  assumes "bridge_set eops B e memory_ops (Aware t) [(key, v, ttl)] s = (s', Inr ())"
    and "br_enabled B" "ms_inv s" "\<forall>d. ms_invalidations s d = []" "code_points (xv_type_tag v)"
    and "ttl = PyNone \<or> 0 < int_of ttl \<and> now \<le> t + int_of ttl * 1000000"
  shows "bridge_get eops B e (ms_view s' # rest) (Aware now) [key] = Inr [(key, v)]"
proof -
  from assms(1,2,6) obtain action data until s1 m where
    a: "set_arguments eops B e t key v ttl = Inr (action, data, until)" and i: "ttl = PyNone \<or> is_int ttl"
    and p: "publish_result memory_ops s action [(u ''value'', data, value_media_type)] (br_producer B) (Aware t) until None = (s1, Inr m)"
    and s1: "s1 = s'"
    by (auto simp: bridge_set_def bridge_now_def split: if_splits sum.splits prod.splits)
  have "get_one eops B e (ms_view s' # rest) now key = Inr (Some v)"
    by (rule memory_set_get_aux [OF assms(3,4) a i p [unfolded s1] _ assms(5)]) (use assms(6) in auto)
  then show ?thesis using assms(2) by (simp add: bridge_get_def bridge_now_def)
qed

text \<open>What was set is what is got. If \<open>set\<close> has stored a value on a memory store without raising, then
  until its TTL is over, and as long as no clear intervened, \<open>get\<close> returns exactly that value from
  any list of stores that starts with this one, whatever the store held before, except
  invalidation records.\<close>

lemma memory_set_get:
  assumes "bridge_set eops B e memory_ops (Aware t) [(key, v, ttl)] s = (s', Inr ())"
    and "br_enabled B" "ms_inv s" "\<forall>d. ms_invalidations s d = []" "code_points (xv_type_tag v)"
    and "ttl = PyNone \<or> 0 < int_of ttl \<and> now \<le> t + int_of ttl * 1000000"
  shows "bridge_get eops B e (ms_view s' # rest) (Aware now) [key] = Inr [(key, v)]"
  using assms by (rule bridge_set_get)

section \<open>An example\<close>

lemma action_of_digest_ok:
  assumes "jsonable (action_of B key p)"
  shows "action_digest (action_of B key p) = Inr (digest_bytes (utf8_bytes (dumps (action_of B key p))))"
proof -
  have "exact_keys (action_of B key p) [''spec_version'', ''operation'', ''inputs'', ''executor'', ''output_schema'', ''vary'']"
    unfolding action_of_def exact_keys_literal by simp
  moreover have "exact_keys (item (action_of B key p) ''operation'') [''name'', ''version'']"
    "exact_keys (item (action_of B key p) ''executor'') [''name'', ''version'', ''config'']"
    unfolding action_of_items exact_keys_literal by simp_all
  ultimately have "validate_action (action_of B key p) = Inr ()"
    unfolding validate_action_def checks require_exact_keys_iff require_nonempty_string_iff
    by (simp add: action_of_items nonempty_str_def canonical_json_jsonable [OF assms])
  then show ?thesis by (simp add: action_digest_def object_digest_def canonical_json_jsonable [OF assms])
qed

definition example_bridge :: bridge where
  "example_bridge = \<lparr>br_runtime = u ''r'', br_serializer = u ''s'', br_partition = u ''p'', br_producer = u ''worker'', br_enabled = True\<rparr>"

definition example_cache_key :: cache_key where
  "example_cache_key = \<lparr>ck_namespace = [u ''n''], ck_key = u ''k''\<rparr>"

definition example_value :: encoded_value where
  "example_value = \<lparr>xv_type_tag = u ''t'', xv_payload = [7]\<rparr>"

lemma example_action_of: "jsonable (action_of example_bridge example_cache_key (g, n))" if "\<bar>g\<bar> \<le> 10" "\<bar>n\<bar> \<le> 10"
proof -
  have "jsonable (PyInt i)" if "\<bar>i\<bar> \<le> 10" for i using that by (simp add: jsonable_def max_safe_integer_def) linarith
  with that show ?thesis by (simp add: action_of_def example_bridge_def example_cache_key_def jsonable_simps)
qed

lemma memory_set_returns:
  assumes "ep_epochs eops e (ck_namespace key) = Inr p" "jsonable (action_of B key p)" "br_enabled B"
    and "good_artifact (u ''value'', data, value_media_type)" "pack_execution_value v = Inr data" "br_producer B = u ''worker''"
  shows "\<exists>s'. bridge_set eops B e memory_ops (Aware 0) [(key, v, PyInt 2)] (ms_init (u ''local'')) = (s', Inr ())"
proof -
  let ?a = "action_of B key p"
  have action: "action_for eops B e key = Inr ?a" using assms(1) by (simp add: action_for_def)
  have "list_all good_artifact [(u ''value'', data, value_media_type)]" using assms(4) by simp
  from ms.publish_result_succeeds [OF ms_inv_init action_of_digest_ok [OF assms(2)] this, of "u ''worker''" 0 2000000 "u ''local''"]
  obtain s' m where "publish_result memory_ops (ms_init (u ''local'')) ?a [(u ''value'', data, value_media_type)] (u ''worker'')
      (Aware 0) (Some (Aware 2000000)) None = (s', Inr m)" by (auto simp: max_instant_def)
  moreover have "set_arguments eops B e 0 key v (PyInt 2) = Inr (?a, data, Some (Aware 2000000))"
    using assms(5) action by (simp add: set_arguments_def add_seconds_def max_instant_def)
  ultimately show ?thesis using assms(3,6) by (simp add: bridge_set_def bridge_now_def)
qed

lemma example_set_at:
  assumes "ep_epochs eops e [u ''n''] = Inr (g, n)" "\<bar>g\<bar> \<le> 10" "\<bar>n\<bar> \<le> 10"
  shows "\<exists>s'. bridge_set eops example_bridge e memory_ops (Aware 0) [(example_cache_key, example_value, PyInt 2)] (ms_init (u ''local'')) = (s', Inr ())"
proof (rule memory_set_returns [OF _ example_action_of [OF assms(2,3)]])
  show "pack_execution_value example_value = Inr [0, 0, 0, 1, 116, 7]" using example_pack by (simp add: example_value_def)
  show "good_artifact (u ''value'', [0, 0, 0, 1, 116, 7], value_media_type)"
    by (simp add: good_artifact_def value_media_type_def max_safe_integer_def)
qed (use assms(1) in \<open>simp_all add: example_cache_key_def example_bridge_def\<close>)

lemma memory_set_get_witness:
  "\<exists>s'. bridge_get memory_epoch_ops example_bridge new_memory_epochs [ms_view s'] (Aware 1000000) [example_cache_key]
     = Inr [(example_cache_key, example_value)]"
proof -
  have "ep_epochs memory_epoch_ops new_memory_epochs [u ''n''] = Inr (0, 0)"
    by (simp add: memory_epoch_ops_def me_epochs_def new_memory_epochs_def epoch_in_def)
  from example_set_at [OF this] obtain s' where
    "bridge_set memory_epoch_ops example_bridge new_memory_epochs memory_ops (Aware 0) [(example_cache_key, example_value, PyInt 2)]
       (ms_init (u ''local'')) = (s', Inr ())" by auto
  from memory_set_get [OF this, of 1000000 "[]"] ms_inv_init [of "u ''local''"] show ?thesis
    by (auto simp: example_bridge_def example_value_def ms_init_def)
qed

lemma example_get_at:
  assumes "ep_epochs eops e [u ''n''] = Inr (g, n)" "\<bar>g\<bar> \<le> 10" "\<bar>n\<bar> \<le> 10"
  shows "\<exists>s'. get_one eops example_bridge e [ms_view s'] 1000000 example_cache_key = Inr (Some example_value)"
proof -
  from example_set_at [OF assms] obtain s' where
    s: "bridge_set eops example_bridge e memory_ops (Aware 0) [(example_cache_key, example_value, PyInt 2)] (ms_init (u ''local'')) = (s', Inr ())" by auto
  have b: "br_enabled example_bridge" by (simp add: example_bridge_def)
  from s b obtain action data until s1 m where
    a: "set_arguments eops example_bridge e 0 example_cache_key example_value (PyInt 2) = Inr (action, data, until)"
    and p: "publish_result memory_ops (ms_init (u ''local'')) action [(u ''value'', data, value_media_type)] (br_producer example_bridge) (Aware 0) until None = (s1, Inr m)"
    by (auto simp: bridge_set_def bridge_now_def split: if_splits sum.splits prod.splits)
  from memory_set_get_aux [OF ms_inv_init _ a _ p, of 1000000 "[]"] show ?thesis
    by (auto simp: ms_init_def example_value_def)
qed

theorem bridge_get_sound_witness:
  "\<exists>s' m data. admissible (bridge_policy example_bridge 1000000) [ms_view s'] False 0
     (digest_bytes (utf8_bytes (dumps (action_of example_bridge example_cache_key (0, 0))))) m (ms_view s') [(u ''value'', data)]
     \<and> item m ''producer'' = S ''worker''"
proof -
  have e: "ep_epochs memory_epoch_ops new_memory_epochs [u ''n''] = Inr (0, 0)"
    by (simp add: memory_epoch_ops_def me_epochs_def new_memory_epochs_def epoch_in_def)
  from example_get_at [OF this] obtain s' where
    "get_one memory_epoch_ops example_bridge new_memory_epochs [ms_view s'] 1000000 example_cache_key = Inr (Some example_value)" by auto
  then have g: "bridge_get memory_epoch_ops example_bridge new_memory_epochs [ms_view s'] (Aware 1000000) [example_cache_key]
      = Inr [(example_cache_key, example_value)]" by (simp add: bridge_get_def bridge_now_def example_bridge_def)
  have "action_for memory_epoch_ops example_bridge new_memory_epochs example_cache_key = Inr (action_of example_bridge example_cache_key (0, 0))"
    using e by (simp add: action_for_def example_cache_key_def)
  with bridge_get_sound [OF g, of example_cache_key example_value] action_of_digest_ok [OF example_action_of [of 0 0]]
  show ?thesis by (auto simp: example_bridge_def)
qed

theorem cleared_values_unreachable_witness:
  "\<exists>f s' new m. fe_epochs None [u ''n''] \<noteq> fe_epochs f [u ''n''] \<and> item m ''action_digest'' = PyStr new
     \<and> (new \<noteq> digest_bytes (utf8_bytes (dumps (action_of example_bridge example_cache_key (0, 0))))
          \<or> collides (action_of example_bridge example_cache_key (0, 0)) (action_of example_bridge example_cache_key (1, 0)))
     \<and> get_one file_epoch_ops example_bridge f [ms_view s'] 1000000 example_cache_key = Inr (Some example_value)"
proof -
  obtain f where f: "clear file_epoch_ops None None = (f, Inr ())"
    using example_file_clear by (auto split: prod.splits sum.splits)
  have n: "proper [u ''n'']" by (simp add: proper_def)
  have e0: "fe_epochs None [u ''n''] = Inr (0, 0)"
    unfolding fe_epochs_def seq_proper [OF n] by (simp add: fe_read_def fe_map_def al_of_def epoch_in_def no_epochs_def)
  then have e1: "fe_epochs f [u ''n''] = Inr (1, 0)"
    using fe.rotate_all_ok [of None f "[u ''n'']" 0 0] f n by (simp add: clear_def file_epoch_ops_def fe_read_def)
  from example_get_at [of file_epoch_ops f 1 0] e1 obtain s' where
    g: "get_one file_epoch_ops example_bridge f [ms_view s'] 1000000 example_cache_key = Inr (Some example_value)"
    by (auto simp: file_epoch_ops_def)
  have a: "action_for file_epoch_ops example_bridge None example_cache_key = Inr (action_of example_bridge example_cache_key (0, 0))"
    "action_for file_epoch_ops example_bridge f example_cache_key = Inr (action_of example_bridge example_cache_key (1, 0))"
    using e0 e1 by (simp_all add: action_for_def file_epoch_ops_def example_cache_key_def)
  have "\<exists>a' new s m data. action_for file_epoch_ops example_bridge f example_cache_key = Inr a'
    \<and> admissible (bridge_policy example_bridge 1000000) [ms_view s'] False 0 new m s [(u ''value'', data)]
    \<and> unpack_execution_value data = Inr example_value \<and> item m ''action_digest'' = PyStr new
    \<and> (new \<noteq> digest_bytes (utf8_bytes (dumps (action_of example_bridge example_cache_key (0, 0))))
       \<or> collides (action_of example_bridge example_cache_key (0, 0)) a')"
    by (rule cleared_values_unreachable [OF _ f, where ws = "[]" and key = example_cache_key])
      (use n g a action_of_digest_ok [OF example_action_of [of 0 0]] in
        \<open>simp_all add: fe_read_def text_namespaces_def text_bridge_def text_key_def text_namespace_def example_bridge_def example_cache_key_def\<close>)
  then obtain new m where "item m ''action_digest'' = PyStr new"
    "new \<noteq> digest_bytes (utf8_bytes (dumps (action_of example_bridge example_cache_key (0, 0))))
       \<or> collides (action_of example_bridge example_cache_key (0, 0)) (action_of example_bridge example_cache_key (1, 0))"
    unfolding a(2) by (elim exE conjE) (simp only: sum.inject)
  moreover have "fe_epochs None [u ''n''] \<noteq> fe_epochs f [u ''n'']" by (simp add: e0 e1)
  ultimately show ?thesis using g by blast
qed

end
