(* ===== verification/Index_Theorems.thy ===== *)
theory Index_Theorems
  imports Index_Backends Adapters Execution_Cache_Theorems
begin

text \<open>
  The properties of the mutable index and of the adapters over it: an index object of any of the
  three classes behaves as the abstract index, a revision that was replaced, deleted or cleared is
  never current again, and a value that was put is got.
\<close>

section \<open>An index object of one of the three classes\<close>

datatype index = Memory_index entries | File_index "fs_file option" | Sqlite_index table

definition any_index :: "(index, 's) index_ops" where
  "any_index =
     (let m = (memory_index :: (entries, 's) index_ops); f = (file_index :: (fs_file option, 's) index_ops);
          q = (sqlite_index :: (table, 's) index_ops)
      in \<lparr>ix_generation = (\<lambda>i k. case i of Memory_index x \<Rightarrow> ix_generation m x k | File_index x \<Rightarrow> ix_generation f x k
            | Sqlite_index x \<Rightarrow> ix_generation q x k),
          ix_is_active = (\<lambda>i k. case i of Memory_index x \<Rightarrow> ix_is_active m x k | File_index x \<Rightarrow> ix_is_active f x k
            | Sqlite_index x \<Rightarrow> ix_is_active q x k),
          ix_revision = (\<lambda>i k. case i of Memory_index x \<Rightarrow> ix_revision m x k | File_index x \<Rightarrow> ix_revision f x k
            | Sqlite_index x \<Rightarrow> ix_revision q x k),
          ix_prepare = (\<lambda>i k. case i of Memory_index x \<Rightarrow> apfst Memory_index (ix_prepare m x k)
            | File_index x \<Rightarrow> apfst File_index (ix_prepare f x k) | Sqlite_index x \<Rightarrow> apfst Sqlite_index (ix_prepare q x k)),
          ix_activate = (\<lambda>i k. case i of Memory_index x \<Rightarrow> apfst Memory_index (ix_activate m x k)
            | File_index x \<Rightarrow> apfst File_index (ix_activate f x k) | Sqlite_index x \<Rightarrow> apfst Sqlite_index (ix_activate q x k)),
          ix_publish = (\<lambda>i s k p publisher. case i of Memory_index x \<Rightarrow> apfst Memory_index (ix_publish m x s k p publisher)
            | File_index x \<Rightarrow> apfst File_index (ix_publish f x s k p publisher)
            | Sqlite_index x \<Rightarrow> apfst Sqlite_index (ix_publish q x s k p publisher)),
          ix_delete = (\<lambda>i k. case i of Memory_index x \<Rightarrow> apfst Memory_index (ix_delete m x k)
            | File_index x \<Rightarrow> apfst File_index (ix_delete f x k) | Sqlite_index x \<Rightarrow> apfst Sqlite_index (ix_delete q x k)),
          ix_active_keys = (\<lambda>i ns. case i of Memory_index x \<Rightarrow> ix_active_keys m x ns | File_index x \<Rightarrow> ix_active_keys f x ns
            | Sqlite_index x \<Rightarrow> ix_active_keys q x ns),
          ix_clear_namespace = (\<lambda>i ns. case i of Memory_index x \<Rightarrow> apfst Memory_index (ix_clear_namespace m x ns)
            | File_index x \<Rightarrow> apfst File_index (ix_clear_namespace f x ns)
            | Sqlite_index x \<Rightarrow> apfst Sqlite_index (ix_clear_namespace q x ns)),
          ix_clear_all = (\<lambda>i. case i of Memory_index x \<Rightarrow> apfst Memory_index (ix_clear_all m x)
            | File_index x \<Rightarrow> apfst File_index (ix_clear_all f x) | Sqlite_index x \<Rightarrow> apfst Sqlite_index (ix_clear_all q x))\<rparr>)"

fun index_ok :: "index \<Rightarrow> bool" where
  "index_ok (Memory_index x) = entries_ok x"
| "index_ok (File_index x) = True"
| "index_ok (Sqlite_index x) = table_ok x"

fun index_view :: "index \<Rightarrow> index_view" where
  "index_view (Memory_index x) = entry_at x"
| "index_view (File_index x) = fi_view x"
| "index_view (Sqlite_index x) = sq_view x"

lemma apfst_eq: "apfst F m = (i', r) \<longleftrightarrow> (\<exists>x. m = (x, r) \<and> i' = F x)"
  by (cases m) auto

interpretation ix: active_index any_index index_ok index_view
proof (unfold_locales, goal_cases)
  case (1 i k g)
  then show ?case using mi.generation fi.generation sq.generation by (cases i) (simp_all add: any_index_def Let_def)
next
  case (2 i k b)
  then show ?case using mi.is_active fi.is_active sq.is_active by (cases i) (simp_all add: any_index_def Let_def)
next
  case (3 i k r)
  then show ?case using mi.revision fi.revision sq.revision by (cases i) (simp_all add: any_index_def Let_def)
next
  case (4 i ns ks)
  then show ?case using mi.active_keys fi.active_keys sq.active_keys by (cases i) (simp_all add: any_index_def Let_def)
next
  case (5 i k i' g)
  then show ?case by (cases i) (auto simp: any_index_def Let_def apfst_eq dest!: mi.prepare [rotated 2] fi.prepare [OF TrueI, rotated 1] sq.prepare [rotated 2])
next
  case (6 i k i' y)
  then show ?case by (cases i) (auto simp: any_index_def Let_def apfst_eq dest!: mi.activate [rotated 2] fi.activate [OF TrueI, rotated 1] sq.activate [rotated 2])
next
  case (7 i k p s publisher i' s' g)
  then show ?case by (cases i) (auto simp: any_index_def Let_def apfst_eq dest!: mi.publish [rotated 3] fi.publish [OF TrueI, rotated 2] sq.publish [rotated 3])
next
  case (8 i k i' b)
  then show ?case by (cases i) (auto simp: any_index_def Let_def apfst_eq dest!: mi.delete [rotated 2] fi.delete [OF TrueI, rotated 1] sq.delete [rotated 2])
next
  case (9 i ns i' n)
  then show ?case
    by (cases i) (auto simp: any_index_def Let_def apfst_eq dest!: mi.clear_namespace [rotated 2] fi.clear_namespace [OF TrueI, rotated 1] sq.clear_namespace [rotated 2])
next
  case (10 i i' n)
  then show ?case by (cases i) (auto simp: any_index_def Let_def apfst_eq dest!: mi.clear_all [rotated 1] fi.clear_all [OF TrueI] sq.clear_all [rotated 1])
next
  case (16 i k s p publisher i' s' x)
  then show ?case
    by (cases i) (auto simp: any_index_def Let_def apfst_eq dest!: mi.publish_raises [rotated 2] fi.publish_raises [OF TrueI, rotated 1] sq.publish_raises [rotated 2])
next
  case (17 i k p s publisher i' s' g)
  then show ?case
    by (cases i) (auto simp: any_index_def Let_def apfst_eq dest!: mi.publish_readable [rotated 3] fi.publish_readable [OF TrueI, rotated 2] sq.publish_readable [rotated 3])
next
  case (11 i k i' x)
  then show ?case by (cases i) (auto simp: any_index_def Let_def apfst_eq dest: mi.raises fi.raises [OF TrueI] sq.raises)
next
  case (12 i k i' x)
  then show ?case by (cases i) (auto simp: any_index_def Let_def apfst_eq dest: mi.raises fi.raises [OF TrueI] sq.raises)
next
  case (13 i k i' x)
  then show ?case by (cases i) (auto simp: any_index_def Let_def apfst_eq dest: mi.raises fi.raises [OF TrueI] sq.raises)
next
  case (14 i ns i' x)
  then show ?case by (cases i) (auto simp: any_index_def Let_def apfst_eq dest: mi.raises fi.raises [OF TrueI] sq.raises)
next
  case (15 i i' x)
  then show ?case by (cases i) (auto simp: any_index_def Let_def apfst_eq dest: mi.raises fi.raises [OF TrueI] sq.raises)
qed

text \<open>C38: Every call on an index does what the abstract index does, for each of the three classes. A call
  that returns answers and changes the entries as the abstract operation; a call that raises leaves
  the index as it was, and the store too unless it was the publication that raised or could not be
  recorded. The index stays well-formed.\<close>

theorem index_refines:
  assumes "call_index any_index c i s = (i', s', r)" "index_ok i" "call_ok c"
  shows "index_ok i' \<and> (case r of
      Inr a \<Rightarrow> abstract_call c (index_view i) s = (index_view i', s', a)
    | Inl _ \<Rightarrow> i' = i \<and> raised_call c (index_view i) s s')"
  using ix.call_inv [OF assms(2,3,1)] ix.call_returns [OF assms(2,3)] ix.call_raises [OF assms(2,3)] assms(1)
  by (cases r) auto

definition example_native :: native where
  "example_native = ([u ''n''], u ''k'')"

definition example_publication :: pystr where
  "example_publication = replicate 32 97"

definition quiet_publisher :: "unit publisher" where
  "quiet_publisher g p s = (s, Inr ())"

lemma example_publication_hex: "list_all is_hex example_publication" "list_all scalar example_publication"
  by (simp_all add: example_publication_def list_all_iff is_hex_def scalar_def code_point_def surrogate_def)

lemma example_native_ok: "text_native example_native" "validate_native example_native = Inr ()" "is_publication example_publication"
  using example_publication_hex
  by (simp_all add: text_native_def text_namespace_def example_native_def proper_native_def proper_def is_publication_def)
    (simp add: example_publication_def)

lemma example_publish:
  "call_index any_index (Publish example_native p quiet_publisher) (Memory_index [(example_native, (g, a, q))]) s
     = (Memory_index [(example_native, publish_entry p (g, a, q))], s, Inr (Number (next_generation (g, a, q))))"
  by (simp add: any_index_def Let_def memory_index_def mi_publish_def quiet_publisher_def entry_at_def example_native_ok(2))

theorem index_refines_witness:
  "index_ok (Memory_index [(example_native, (5, True, Some example_publication))])
   \<and> abstract_call (Publish example_native example_publication quiet_publisher) (entry_at [(example_native, (4, True, None))]) ()
      = (entry_at [(example_native, (5, True, Some example_publication))], (), Number 5)"
  using index_refines [OF example_publish [of example_publication 4 True None "()"]] example_native_ok
  by (simp add: entries_ok_def row_ok_def publish_entry_def next_generation_def)

text \<open>C39: No resurrection. A revision of a key that is no longer current, because it was replaced, deleted or
  cleared, is not current after any later sequence of calls, whether they return or raise.\<close>

theorem revisions_never_return:
  assumes "call_indexes any_index cs i s = (i1, s1, rs)" "call_indexes any_index cs' i1 s1 = (i2, s2, rs')"
    and "index_ok i" "list_all call_ok (cs @ cs')"
    and "revision_of (index_view i k) = Some r" "revision_of (index_view i1 k) \<noteq> Some r"
  shows "revision_of (index_view i2 k) \<noteq> Some r"
  by (rule ix.revision_never_returns [OF assms(3,4,1,2,5,6)])

lemma example_delete:
  "call_index any_index (Delete example_native) (Memory_index [(example_native, (g, True, q))]) s
     = (Memory_index [(example_native, (g + 1, False, None))], s, Inr (Flag True))"
  by (simp add: any_index_def Let_def memory_index_def mi_change_def delete_in_def deactivate_entry_def is_active_entry_def
      entry_at_def example_native_ok(2))

text \<open>Publishing again under the same identifier makes a new revision.\<close>

theorem revisions_never_return_witness:
  "\<exists>i. call_indexes any_index [Publish example_native example_publication quiet_publisher]
     (Memory_index [(example_native, (5, False, None))]) () = (i, (), [Inr (Number 5)])
   \<and> revision_of (index_view i example_native) \<noteq> Some (4, Some example_publication)"
proof -
  let ?i = "Memory_index [(example_native, (4, True, Some example_publication))]"
    and ?i1 = "Memory_index [(example_native, (5, False, None))]"
    and ?i2 = "Memory_index [(example_native, (5, True, Some example_publication))]"
  have a: "call_indexes any_index [Delete example_native] ?i () = (?i1, (), [Inr (Flag True)])"
    using example_delete [of 4 "Some example_publication" "()"] by (simp del: call_index.simps)
  have b: "call_indexes any_index [Publish example_native example_publication quiet_publisher] ?i1 () = (?i2, (), [Inr (Number 5)])"
    using example_publish [of example_publication 5 False None "()"]
    by (simp add: publish_entry_def next_generation_def del: call_index.simps)
  have "index_ok ?i" using example_native_ok by (simp add: entries_ok_def row_ok_def)
  from revisions_never_return [OF a b this, of example_native "(4, Some example_publication)"] example_native_ok b
  show ?thesis by (auto simp: revision_of_def entry_at_def)
qed

section \<open>The indexed adapter\<close>

lemma indexed_put_Inr:
  assumes "indexed_put A ops e i s clock p k v ttl = (i', s', Inr ())" "br_enabled (ad_bridge A)"
    and "ttl = PyNone \<or> 0 < int_of ttl"
  shows "\<exists>x g. cd_encode (ad_codec A) v = Inr x \<and> ix_publish ops i s k p (value_publisher A e clock k x ttl) = (i', s', Inr g)"
  using assms by (auto simp: indexed_put_def rbind_Inr split: sum.splits if_splits prod.splits)

lemma value_publisher_Inr:
  assumes "value_publisher A e clock k x ttl g p s = (s', Inr ())"
  shows "\<exists>key. core_key k g (Some p) = Inr key \<and> bridge_set (ad_epochs A) (ad_bridge A) e (ad_store A) clock [(key, x, ttl)] s = (s', Inr ())"
  using assms by (auto simp: value_publisher_def split: sum.splits)

text \<open>What was put is got. If a put on a memory store returned, through an index of any class, then until
  its TTL is over a get of that key returns what the codec reads back of the encoded value, for
  every list of stores that starts with this one.\<close>

lemma indexed_put_get:
  assumes "indexed_put A any_index e i s (Aware t) p k v ttl = (i', s', Inr ())"
    and "ad_store A = memory_ops" "ad_views A s' = ms_view s' # rest" "br_enabled (ad_bridge A)"
    and "index_ok i" "text_native k" "is_publication p" "ms_inv s" "\<forall>d. ms_invalidations s d = []"
    and "ttl = PyNone \<or> 0 < int_of ttl \<and> now \<le> t + int_of ttl * 1000000"
    and "cd_encode (ad_codec A) v = Inr x" "code_points (xv_type_tag x)" "cd_decode (ad_codec A) x = Inr v'"
  shows "index_ok i' \<and> indexed_get A any_index e i' s' (Aware now) k = Inr (Some v')"
proof -
  from indexed_put_Inr [OF assms(1,4)] assms(10,11) obtain g where
    pub: "ix_publish any_index i s k p (value_publisher A e (Aware t) k x ttl) = (i', s', Inr g)" by auto
  from ix.published_is_current [OF assms(5,6,7) pub] have rev: "index_ok i'" "ix_revision (any_index :: (index, memory_store) index_ops) i' k = Inr (Some (g, Some p))"
    and vp: "value_publisher A e (Aware t) k x ttl g p s = (s', Inr ())" by simp_all
  from value_publisher_Inr [OF vp] assms(2) obtain key where key: "core_key k g (Some p) = Inr key"
    and set: "bridge_set (ad_epochs A) (ad_bridge A) e memory_ops (Aware t) [(key, x, ttl)] s = (s', Inr ())" by auto
  from bridge_set_get [OF set assms(4,8,9,12,10), of rest] assms(3,13)
  have "adapter_get A e s' (Aware now) [key] = Inr [(key, v')]" by (simp add: adapter_get_def)
  with rev key show ?thesis by (simp add: indexed_get_def)
qed

end
