(* ===== verification/Integration_Theorems.thy ===== *)
theory Integration_Theorems
  imports Integrations Index_Theorems
begin

text \<open>
  The caches for the runtimes end to end: the JSON codec gives back the normal form of a canonical value, what the
  key-value store puts it gets, and the LangChain key depends on both texts.
\<close>

section \<open>The JSON codec\<close>

lemma json_values_ok:
  "(\<And>x. x \<in> set xs \<Longrightarrow> validate_json_value x = Inr ()) \<Longrightarrow> validate_json_values xs = Inr ()"
  "\<forall>p \<in> set kvs. is_str (fst p) \<and> validate_json_value (snd p) = Inr () \<Longrightarrow> validate_json_items kvs = Inr ()"
  by (induction xs) (simp_all, induction kvs, auto simp: checks)

lemma jsonable_json_value: "jsonable v \<Longrightarrow> validate_json_value v = Inr ()"
proof (induction v rule: pyval_induct)
  case (List xs)
  then show ?case by (auto simp: jsonable_simps intro: json_values_ok(1))
next
  case (Dict kvs)
  have "is_str (fst p) \<and> validate_json_value (snd p) = Inr ()" if "p \<in> set kvs" for p
    using Dict.IH [of "fst p" "snd p"] Dict.prems that by (cases p) (auto simp: jsonable_simps)
  then show ?case by (auto intro: json_values_ok(2))
qed (auto simp: jsonable_simps checks scalar_def list_all_iff list_ex_iff)

lemma jsonable_float_texts: "jsonable v \<Longrightarrow> float_texts repr v = v"
proof (induction v rule: pyval_induct)
  case (List xs)
  then show ?case by (simp add: jsonable_simps map_idI)
next
  case (Dict kvs)
  have "(case p of (k, x) \<Rightarrow> (k, float_texts repr x)) = p" if "p \<in> set kvs" for p
    using Dict.IH [of "fst p" "snd p"] Dict.prems that by (cases p) (auto simp: jsonable_simps)
  then show ?case by (simp add: map_idI)
qed (simp_all add: jsonable_simps)

lemma json_codec_round_trip:
  assumes "json_encode repr v = Inr x" "jsonable v"
  shows "json_decode x = Inr (norm v)" "xv_type_tag x = json_type_tag"
proof -
  have x: "xv_type_tag x = json_type_tag" "canonical_json v = Inr (xv_payload x)"
    using assms scalar_dumps [OF assms(2)] canonical_json_jsonable [OF assms(2)]
    by (auto simp: json_encode_def jsonable_float_texts rbind_Inr checks new_encoded_value_def utf8_encode_def split: if_splits)
  have "wf_val v" using assms(2) by (simp add: jsonable_def)
  from loads_canonical [OF this x(2)] jsonable_json_value [OF jsonable_norm [OF assms(2)]] x(1)
  show "json_decode x = Inr (norm v)" "xv_type_tag x = json_type_tag" by (simp_all add: json_decode_def)
qed

section \<open>LlamaIndex\<close>

lemma new_kv_store_Inr:
  assumes "new_kv_store repr B eops ops views index ttl = Inr K"
  shows "kv_index K = index" "kv_ttl K = ttl" "ad_store (kv_adapter K) = ops" "ad_views (kv_adapter K) = views" "ad_bridge (kv_adapter K) = B"
    "cd_encode (ad_codec (kv_adapter K)) = json_encode repr" "cd_decode (ad_codec (kv_adapter K)) = json_decode"
  using assms by (auto simp: new_kv_store_def new_adapter_def json_codec_def checks)

lemma text_json_tag: "code_points json_type_tag"
  by (simp add: json_type_tag_def u_def code_point_def)

text \<open>C40: What the key-value store for LlamaIndex puts, it gets. If \<open>put\<close> of a canonical dictionary returned, on
  a memory store and an index of any class, then until the TTL is over \<open>get\<close> of that key and collection returns
  the dictionary in its normal form.\<close>

theorem kv_put_get:
  assumes "new_kv_store repr B eops memory_ops views any_index ttl = Inr K"
    and "kv_put K e i s (Aware t) p key v collection = (i', s', Inr ())"
    and "views s' = ms_view s' # rest" "br_enabled B" "index_ok i" "code_points key" "code_points (str_of collection)"
    and "is_publication p" "ms_inv s" "\<forall>d. ms_invalidations s d = []"
    and "ttl = PyNone \<or> 0 < int_of ttl \<and> now \<le> t + int_of ttl * 1000000"
    and "jsonable v"
  shows "index_ok i' \<and> kv_get K e i' s' (Aware now) key collection = Inr (Some (norm v))"
proof -
  note K = new_kv_store_Inr [OF assms(1)]
  let ?k = "([u ''llamaindex'', str_of collection], key)"
  from assms(2) have d: "is_dict v" and n: "collection_namespace collection = Inr [u ''llamaindex'', str_of collection]"
    by (auto simp: kv_put_def collection_namespace_def checks split: if_splits sum.splits)
  with assms(2) K have put: "indexed_put (kv_adapter K) any_index e i s (Aware t) p ?k v ttl = (i', s', Inr ())"
    by (simp add: kv_put_def)
  from put K(6) obtain x where x: "json_encode repr v = Inr x"
    by (cases "json_encode repr v") (auto simp: indexed_put_def)
  from json_codec_round_trip [OF x assms(12)] have r: "json_decode x = Inr (norm v)" "code_points (xv_type_tag x)"
    by (simp_all add: text_json_tag)
  have "text_native ?k" using assms(6,7) by (simp add: text_native_def text_namespace_def u_def code_point_def)
  from indexed_put_get [OF put _ _ _ assms(5) this assms(8-11)] K assms(3,4) x r
  have "index_ok i'" "indexed_get (kv_adapter K) any_index e i' s' (Aware now) ?k = Inr (Some (norm v))" by simp_all
  then show ?thesis using n K(1) d by (simp add: kv_get_def norm_shape(1))
qed

definition kv_example_bridge :: bridge where
  "kv_example_bridge =
     \<lparr>br_runtime = u ''llamaindex'', br_serializer = llamaindex_serializer, br_partition = u ''p'', br_producer = u ''worker'', br_enabled = True\<rparr>"

definition kv_example_value :: encoded_value where
  "kv_example_value = \<lparr>xv_type_tag = json_type_tag, xv_payload = [123, 125]\<rparr>"

lemma kv_example_codec: "json_encode id (PyDict []) = Inr kv_example_value"
proof -
  have b: "utf8_bytes (u ''json'') = [106, 115, 111, 110]" "utf8_bytes (dumps (PyDict [])) = [123, 125]"
    by (simp_all add: utf8_bytes_def utf8_char_def u_def byte_def sort_items_def)
  then show ?thesis
    by (simp add: json_encode_def new_encoded_value_def validate_type_tag_def utf8_encode_def json_type_tag_def max_type_tag_bytes_def
        kv_example_value_def sort_items_def) (simp add: u_def surrogate_def)
qed

theorem kv_put_get_witness:
  "\<exists>K i' s'. new_kv_store id kv_example_bridge memory_epoch_ops memory_ops (\<lambda>s. [ms_view s]) any_index (PyInt 2) = Inr K
   \<and> kv_put K new_memory_epochs (Memory_index []) (ms_init (u ''local'')) (Aware 0) example_publication (u ''k'') (PyDict []) (S ''c'') = (i', s', Inr ())
   \<and> kv_get K new_memory_epochs i' s' (Aware 1000000) (u ''k'') (S ''c'') = Inr (Some (PyDict []))"
proof -
  let ?n = "[u ''llamaindex'', u ''c'']" and ?k = "([u ''llamaindex'', u ''c''], u ''k'')"
  obtain K where K: "new_kv_store id kv_example_bridge memory_epoch_ops memory_ops (\<lambda>s. [ms_view s]) any_index (PyInt 2) = Inr K"
    by (simp add: new_kv_store_def new_adapter_def json_codec_def kv_example_bridge_def checks nonempty_str_def llamaindex_serializer_def)
  note k = new_kv_store_Inr [OF K]
  let ?o = "obj [(''native_key'', S ''k''), (''generation'', PyInt 0), (''publication_id'', PyStr example_publication)]"
  have "jsonable ?o" using example_publication_hex(2) by (simp add: jsonable_simps) (simp add: jsonable_def max_safe_integer_def)
  from canonical_json_jsonable [OF this] obtain b where b: "canonical_json ?o = Inr b" by blast
  let ?key = "\<lparr>ck_namespace = ?n, ck_key = digest_bytes b\<rparr>"
  have native: "validate_native ?k = Inr ()" by (simp add: proper_native_def proper_def)
  have "digest_bytes b \<noteq> []" using is_digest_bytes [of b] by (auto simp: is_digest_def)
  then have key: "core_key ?k 0 (Some example_publication) = Inr ?key"
    using native b by (simp add: core_key_def new_cache_key_def nonempty_str_def checks)
  have e: "ep_epochs memory_epoch_ops new_memory_epochs ?n = Inr (0, 0)"
    by (simp add: memory_epoch_ops_def me_epochs_def new_memory_epochs_def epoch_in_def)
  have "jsonable (action_of kv_example_bridge ?key (0, 0))"
    using is_digest_scalar [OF is_digest_bytes [of b]]
    by (simp add: action_of_def kv_example_bridge_def llamaindex_serializer_def jsonable_simps) (simp add: jsonable_def max_safe_integer_def)
  moreover have "pack_execution_value kv_example_value = Inr [0, 0, 0, 4, 106, 115, 111, 110, 123, 125]"
    by (simp add: pack_execution_value_def validate_type_tag_def utf8_encode_def utf8_bytes_def utf8_char_def u_def json_type_tag_def
        max_type_tag_bytes_def to_bytes4_def byte_def surrogate_def kv_example_value_def)
  moreover have "good_artifact (u ''value'', [0, 0, 0, 4, 106, 115, 111, 110, 123, 125], value_media_type)"
    by (simp add: good_artifact_def value_media_type_def max_safe_integer_def)
  ultimately obtain s' where
    s: "bridge_set memory_epoch_ops kv_example_bridge new_memory_epochs memory_ops (Aware 0) [(?key, kv_example_value, PyInt 2)] (ms_init (u ''local'')) = (s', Inr ())"
    using memory_set_returns [of memory_epoch_ops new_memory_epochs ?key "(0, 0)" kv_example_bridge] e by (auto simp: kv_example_bridge_def)
  have ops: "ad_epochs (kv_adapter K) = memory_epoch_ops"
    using K by (auto simp: new_kv_store_def new_adapter_def json_codec_def checks)
  have namespace_c: "collection_namespace (S ''c'') = Inr ?n" by (simp add: collection_namespace_def nonempty_str_def seq_Inr)
  let ?i = "Memory_index [(?k, (0, True, Some example_publication))]"
  have put: "kv_put K new_memory_epochs (Memory_index []) (ms_init (u ''local'')) (Aware 0) example_publication (u ''k'') (PyDict []) (S ''c'') = (?i, s', Inr ())"
    by (simp add: kv_put_def namespace_c k indexed_put_def kv_example_codec any_index_def Let_def memory_index_def
        mi_publish_def entry_at_def next_generation_def value_publisher_def publish_entry_def native s key ops)
      (simp add: kv_example_bridge_def)
  have "br_enabled kv_example_bridge" "code_points (u ''k'')" "code_points (str_of (S ''c''))" "jsonable (PyDict [])" "norm (PyDict []) = PyDict []"
    by (simp_all add: kv_example_bridge_def u_def code_point_def jsonable_simps sort_items_def)
  with kv_put_get [OF K put _ this(1) _ this(2,3) example_native_ok(3) ms_inv_init _ _ this(4), of "[]" 1000000] K put
  show ?thesis by (auto simp: entries_ok_def ms_init_def)
qed

section \<open>LangChain\<close>

text \<open>A key depends on both texts: two calls share one only if their texts are equal or SHA-256 collides.\<close>

lemma langchain_key_inj:
  assumes "langchain_key (PyStr p) (PyStr l) = Inr k" "langchain_key (PyStr p') (PyStr l') = Inr k"
    and "code_points p" "code_points l" "code_points p'" "code_points l'"
  shows "p = p' \<and> l = l' \<or> (\<exists>a b. collision a b)"
proof -
  let ?o = "\<lambda>p l. obj [(''prompt'', PyStr p), (''llm_string'', PyStr l)]"
  have key: "\<exists>b. canonical_json (?o p l) = Inr b \<and> ck_key k = digest_bytes b" if "langchain_key (PyStr p) (PyStr l) = Inr k" for p l
    using that by (auto simp: langchain_key_def new_cache_key_def checks)
  from key [OF assms(1)] obtain a where a: "canonical_json (?o p l) = Inr a" "ck_key k = digest_bytes a" by blast
  from key [OF assms(2)] obtain b where b: "canonical_json (?o p' l') = Inr b" "ck_key k = digest_bytes b" by blast
  have wf: "wf_val (?o p l)" "wf_val (?o p' l')" using assms(3-6) by simp_all
  have "a = b \<or> collision a b" using digest_bytes_inj [of a b] a(2) b(2) by auto
  moreover have "p = p' \<and> l = l'" if "a = b"
  proof -
    have n: "norm (?o p l) = norm (?o p' l')" using canonical_json_inj [OF wf a(1)] b(1) that by simp
    have j: "jsonable (?o p l)" "jsonable (?o p' l')" using canonical_json_Inr wf a(1) b(1) by blast+
    have "norm (item (?o p l) f) = norm (item (?o p' l') f)" for f
      using item_norm [OF j(1), of f, symmetric] item_norm [OF j(2), of f] n by (simp only:)
    from this [of "''prompt''"] this [of "''llm_string''"] show ?thesis by simp
  qed
  ultimately show ?thesis by blast
qed

end
