(* ===== verification/Decimals.thy ===== *)
theory Decimals
  imports Complex_Main Http_Fetch
begin

text \<open>
  The part of \<open>decimal.Decimal\<close> the directory and the pilot reports use: non-negative numbers as a
  coefficient and an exponent, their texts, exact comparison, and the arithmetic of the default
  context, which rounds to 28 significant digits, half to even. The limits of the exponent of that
  context (about a million) are not modelled.
\<close>

section \<open>Numbers and texts\<close>

datatype decimal = Decimal (dec_coeff: int) (dec_exp: int)

definition num_digits :: "int \<Rightarrow> nat" where
  "num_digits n = length (dump_nat n)"

definition is_fraction :: "pystr option \<Rightarrow> bool" where
  "is_fraction r = (case r of None \<Rightarrow> True | Some f \<Rightarrow> f \<noteq> [] \<and> list_all is_digit f)"

text \<open>\<open>[0-9]+(\.[0-9]+)?\<close>, and without superfluous leading zeros.\<close>

definition is_decimal :: "pystr \<Rightarrow> bool" where
  "is_decimal s \<longleftrightarrow> (case partition_at 46 s of (a, r) \<Rightarrow> a \<noteq> [] \<and> list_all is_digit a \<and> is_fraction r)"

definition is_canonical_decimal :: "pystr \<Rightarrow> bool" where
  "is_canonical_decimal s \<longleftrightarrow> is_decimal s \<and> (hd s \<noteq> 48 \<or> fst (partition_at 46 s) = [48])"

text \<open>\<open>0\.[0-9]{6}|1\.000000\<close>\<close>

definition is_ratio :: "pystr \<Rightarrow> bool" where
  "is_ratio s \<longleftrightarrow> (length s = 8 \<and> take 2 s = [48, 46] \<and> list_all is_digit (drop 2 s)) \<or> s = u ''1.000000''"

definition decimal_of :: "pystr \<Rightarrow> decimal" where
  "decimal_of s = (case partition_at 46 s of (a, r) \<Rightarrow> Decimal (digits_val (a @ or_empty r)) (- int (length (or_empty r))))"

definition whole :: "int \<Rightarrow> decimal" where
  "whole n = Decimal n 0"

text \<open>\<open>format(d, "f")\<close> and \<open>str(d)\<close>\<close>

definition point_text :: "int \<Rightarrow> nat \<Rightarrow> pystr" where
  "point_text c places =
     (let ds = dump_nat c; ds = replicate (Suc places - length ds) 48 @ ds
      in if places = 0 then ds else take (length ds - places) ds @ [46] @ drop (length ds - places) ds)"

definition dec_fixed :: "decimal \<Rightarrow> pystr" where
  "dec_fixed d =
     (if dec_exp d \<le> 0 then point_text (dec_coeff d) (nat (- dec_exp d))
      else if dec_coeff d = 0 then [48]
      else dump_nat (dec_coeff d) @ replicate (nat (dec_exp d)) 48)"

definition dec_str :: "decimal \<Rightarrow> pystr" where
  "dec_str d =
     (let ds = dump_nat (dec_coeff d); left = dec_exp d + int (length ds)
      in if dec_exp d \<le> 0 \<and> -6 < left then dec_fixed d
         else take 1 ds @ (if length ds = 1 then [] else [46] @ drop 1 ds) @ [69, if left - 1 < 0 then 45 else 43] @ dump_nat (abs (left - 1)))"

section \<open>Comparison\<close>

definition scaled :: "int \<Rightarrow> decimal \<Rightarrow> int" where
  "scaled e d = dec_coeff d * 10 ^ nat (dec_exp d - e)"

definition dec_le :: "decimal \<Rightarrow> decimal \<Rightarrow> bool" where
  "dec_le a b \<longleftrightarrow> (let e = min (dec_exp a) (dec_exp b) in scaled e a \<le> scaled e b)"

definition dec_eq :: "decimal \<Rightarrow> decimal \<Rightarrow> bool" where
  "dec_eq a b \<longleftrightarrow> dec_le a b \<and> dec_le b a"

section \<open>Arithmetic\<close>

definition half_even :: "int \<Rightarrow> int \<Rightarrow> int" where
  "half_even c m =
     (let q = c div m; r = c mod m in if m < 2 * r \<or> (m = 2 * r \<and> odd q) then q + 1 else q)"

definition half_up :: "int \<Rightarrow> int \<Rightarrow> int" where
  "half_up c m = (let q = c div m; r = c mod m in if m \<le> 2 * r then q + 1 else q)"

text \<open>Rounding to the 28 digits of the context.\<close>

definition dec_fix :: "decimal \<Rightarrow> decimal" where
  "dec_fix d =
     (let extra = num_digits (dec_coeff d) - 28
      in if extra = 0 then d
         else let q = half_even (dec_coeff d) (10 ^ extra)
              in if 28 < num_digits q then Decimal (q div 10) (dec_exp d + int extra + 1)
                 else Decimal q (dec_exp d + int extra))"

definition dec_add :: "decimal \<Rightarrow> decimal \<Rightarrow> decimal" where
  "dec_add a b = (let e = min (dec_exp a) (dec_exp b) in dec_fix (Decimal (scaled e a + scaled e b) e))"

definition dec_sum :: "decimal list \<Rightarrow> decimal" where
  "dec_sum ds = foldl dec_add (whole 0) ds"

text \<open>An exact quotient loses trailing zeros down to the ideal exponent.\<close>

fun strip_zeros :: "nat \<Rightarrow> int \<Rightarrow> int \<Rightarrow> decimal" where
  "strip_zeros 0 c e = Decimal c e"
| "strip_zeros (Suc n) c e = (if c mod 10 = 0 then strip_zeros n (c div 10) (e + 1) else Decimal c e)"

definition dec_div :: "decimal \<Rightarrow> decimal \<Rightarrow> decimal" where
  "dec_div a b =
     (if dec_coeff a = 0 then Decimal 0 (dec_exp a - dec_exp b)
      else
        let shift = int (num_digits (dec_coeff b)) - int (num_digits (dec_coeff a)) + 29;
            e = dec_exp a - dec_exp b - shift;
            x = (if 0 \<le> shift then dec_coeff a * 10 ^ nat shift else dec_coeff a);
            y = (if 0 \<le> shift then dec_coeff b else dec_coeff b * 10 ^ nat (- shift));
            c = x div y
        in dec_fix (if x mod y \<noteq> 0 then Decimal (if c mod 5 = 0 then c + 1 else c) e
                    else strip_zeros (nat shift) c e))"

text \<open>\<open>quantize(Decimal("0.000001"), rounding=ROUND_HALF_UP)\<close>\<close>

definition six_places :: "decimal \<Rightarrow> decimal" where
  "six_places d =
     (if -6 \<le> dec_exp d then Decimal (dec_coeff d * 10 ^ nat (dec_exp d + 6)) (-6)
      else Decimal (half_up (dec_coeff d) (10 ^ nat (-6 - dec_exp d))) (-6))"

section \<open>Values\<close>

definition dec_val :: "decimal \<Rightarrow> rat" where
  "dec_val d = of_int (dec_coeff d) * 10 powi dec_exp d"

lemma powi_nat: "0 \<le> e \<Longrightarrow> (10 :: rat) powi e = 10 ^ nat e"
  by (simp add: power_int_def)

lemma powi_split: "(10 :: rat) powi (a + b) = 10 powi a * 10 powi b"
  by (simp add: power_int_add)

lemma powi_pos: "0 < (10 :: rat) powi e"
  by simp

lemma scaled_val: "e \<le> dec_exp d \<Longrightarrow> of_int (scaled e d) * 10 powi e = dec_val d"
proof -
  assume e: "e \<le> dec_exp d"
  have "(10 :: rat) powi dec_exp d = 10 ^ nat (dec_exp d - e) * 10 powi e"
    using e powi_split [of "dec_exp d - e" e] by (simp add: powi_nat)
  then show ?thesis by (simp add: scaled_def dec_val_def)
qed

lemma dec_le_val: "dec_le a b \<longleftrightarrow> dec_val a \<le> dec_val b"
proof -
  let ?e = "min (dec_exp a) (dec_exp b)"
  have "dec_val a = of_int (scaled ?e a) * 10 powi ?e" "dec_val b = of_int (scaled ?e b) * 10 powi ?e"
    by (simp_all add: scaled_val)
  then show ?thesis by (simp add: dec_le_def Let_def)
qed

lemma dec_eq_val: "dec_eq a b \<longleftrightarrow> dec_val a = dec_val b"
  by (auto simp: dec_eq_def dec_le_val)

lemma num_digits_step: "num_digits n = (if n < 10 then 1 else Suc (num_digits (n div 10)))"
  unfolding num_digits_def by (subst dump_nat.simps) simp

lemma num_digits_bounds: "0 < n \<Longrightarrow> 10 ^ (num_digits n - 1) \<le> n \<and> n < 10 ^ num_digits n"
proof (induction "nat n" arbitrary: n rule: less_induct)
  case less
  show ?case
  proof (cases "n < 10")
    case True
    with less.prems show ?thesis by (simp add: num_digits_step [of n])
  next
    case False
    then have "nat (n div 10) < nat n" "0 < n div 10" by auto
    from less.hyps [OF this] have IH: "10 ^ (num_digits (n div 10) - 1) \<le> n div 10" "n div 10 < 10 ^ num_digits (n div 10)" by simp_all
    have d: "num_digits n = Suc (num_digits (n div 10))" using False by (simp add: num_digits_step [of n])
    have "num_digits (n div 10) = Suc (num_digits (n div 10) - 1)" by (simp add: num_digits_step [of "n div 10"])
    then have "10 ^ num_digits (n div 10) = 10 * (10 :: int) ^ (num_digits (n div 10) - 1)" by (metis power_Suc)
    with IH show ?thesis unfolding d by (simp add: zdiv_int) linarith
  qed
qed

lemma nearest_error:
  assumes "0 < m" "q = c div m \<and> 2 * (c mod m) \<le> m \<or> q = c div m + 1 \<and> m \<le> 2 * (c mod m)"
  shows "\<bar>2 * (q * m - c)\<bar> \<le> (m :: int)"
proof -
  have r: "0 \<le> c mod m" "c mod m < m" using assms(1) by simp_all
  have "q * m - c = - (c mod m) \<and> 2 * (c mod m) \<le> m \<or> q * m - c = m - c mod m \<and> m \<le> 2 * (c mod m)"
    using assms(2) by (auto simp: algebra_simps minus_div_mult_eq_mod [symmetric])
  moreover have "x = - (c mod m) \<and> 2 * (c mod m) \<le> m \<or> x = m - c mod m \<and> m \<le> 2 * (c mod m) \<Longrightarrow> \<bar>2 * x\<bar> \<le> m" for x
    using r by (elim disjE conjE) linarith+
  ultimately show ?thesis by blast
qed

lemma half_error:
  assumes "0 < m"
  shows "\<bar>2 * (half_even c m * m - c)\<bar> \<le> m" "\<bar>2 * (half_up c m * m - c)\<bar> \<le> m"
  by (intro nearest_error [OF assms]; auto simp: half_even_def half_up_def Let_def)+

lemma rounded_val:
  assumes "\<bar>2 * (q * 10 ^ k - c)\<bar> \<le> (10 :: int) ^ k"
  shows "\<bar>of_int q * 10 powi (e + int k) - of_int c * (10 :: rat) powi e\<bar> \<le> 10 powi (e + int k) / 2"
proof -
  have "of_int q * 10 powi (e + int k) - of_int c * (10 :: rat) powi e = of_int (q * 10 ^ k - c) * 10 powi e"
    by (simp add: powi_split powi_nat algebra_simps)
  moreover have "of_int \<bar>2 * (q * 10 ^ k - c)\<bar> \<le> (of_int (10 ^ k) :: rat)" using assms by (simp only: of_int_le_iff)
  then have "2 * \<bar>of_int (q * 10 ^ k - c)\<bar> \<le> (10 :: rat) ^ k" by (simp only: abs_mult of_int_abs of_int_mult of_int_power of_int_numeral abs_numeral)
  then have "\<bar>of_int (q * 10 ^ k - c)\<bar> \<le> (10 :: rat) ^ k / 2"
    unfolding le_divide_eq_numeral1 by (simp only: mult.commute)
  then have "\<bar>of_int (q * 10 ^ k - c)\<bar> * 10 powi e \<le> (10 :: rat) ^ k / 2 * 10 powi e"
    by (intro mult_right_mono) simp_all
  ultimately show ?thesis by (simp add: abs_mult powi_split powi_nat mult.commute)
qed

text \<open>Rounding to 28 digits moves a number by at most half a unit of its 28th digit.\<close>

lemma past_end: "a + p \<le> h \<Longrightarrow> \<bar>2 * (h - c)\<bar> \<le> p \<Longrightarrow> c < a \<Longrightarrow> 0 < p \<Longrightarrow> False" for a p h c :: int
  using abs_le_D1 [of "2 * (h - c)" p] by arith

lemma half_even_le:
  assumes "c < 10 ^ 28 * 10 ^ k"
  shows "half_even c (10 ^ k) \<le> 10 ^ 28"
proof (rule ccontr)
  assume "\<not> half_even c (10 ^ k) \<le> 10 ^ 28"
  then have "(10 ^ 28 + 1) * 10 ^ k \<le> half_even c (10 ^ k) * 10 ^ k" by (intro mult_right_mono) simp_all
  moreover have "\<bar>2 * (half_even c (10 ^ k) * 10 ^ k - c)\<bar> \<le> 10 ^ k" by (rule half_error) simp
  moreover have "(0 :: int) < 10 ^ k" by simp
  ultimately show False using assms past_end [of "10 ^ 28 * 10 ^ k" "10 ^ k" "half_even c (10 ^ k) * 10 ^ k" c]
    unfolding distrib_right mult_1 by blast
qed

lemma carry_digits:
  assumes "28 < num_digits q" "q \<le> 10 ^ 28"
  shows "q = 10 ^ 28"
proof -
  have "0 < q" using assms(1) by (cases "0 < q") (simp_all add: num_digits_step [of q])
  from num_digits_bounds [OF this] have "10 ^ (num_digits q - 1) \<le> q" by simp
  moreover have "(10 :: int) ^ 28 \<le> 10 ^ (num_digits q - 1)" using assms(1) by (intro power_increasing) simp_all
  ultimately show ?thesis using assms(2) by linarith
qed

lemma dec_fix_error:
  assumes "0 < dec_coeff d"
  shows "\<bar>dec_val (dec_fix d) - dec_val d\<bar> \<le> dec_val d / 10 ^ 27 / 2"
proof (cases "num_digits (dec_coeff d) \<le> 28")
  case True
  have "0 \<le> dec_val d" using assms by (simp add: dec_val_def)
  with True show ?thesis by (simp add: dec_fix_def Let_def)
next
  case False
  define c e k where "c = dec_coeff d" and "e = dec_exp d" and "k = num_digits (dec_coeff d) - 28"
  have digits: "num_digits c = 28 + k" "num_digits c - 1 = 27 + k" "0 < k" using False by (simp_all add: c_def k_def)
  have "0 < c" using assms by (simp add: c_def)
  from num_digits_bounds [OF this] have c: "10 ^ 27 * 10 ^ k \<le> c" "c < 10 ^ 28 * 10 ^ k"
    unfolding digits(2) unfolding digits(1) power_add by simp_all
  let ?q = "half_even c (10 ^ k)"
  have err: "\<bar>2 * (?q * 10 ^ k - c)\<bar> \<le> 10 ^ k" by (rule half_error) simp
  have "dec_val (dec_fix d) = of_int ?q * 10 powi (e + int k)"
  proof (cases "28 < num_digits ?q")
    case True
    have q: "?q = 10 ^ 28" by (rule carry_digits [OF True half_even_le [OF c(2)]])
    have "dec_fix d = Decimal (?q div 10) (e + int k + 1)"
      using True digits by (simp add: dec_fix_def Let_def c_def [symmetric] e_def [symmetric])
    then show ?thesis using powi_split [of "e + int k" 1] by (simp add: dec_val_def q)
  next
    case False
    with digits show ?thesis by (simp add: dec_fix_def Let_def dec_val_def c_def [symmetric] e_def [symmetric])
  qed
  then have "\<bar>dec_val (dec_fix d) - dec_val d\<bar> \<le> 10 powi (e + int k) / 2"
    using rounded_val [OF err, of e] by (simp add: dec_val_def c_def e_def)
  also have "10 powi (e + int k) \<le> dec_val d / 10 ^ 27"
  proof -
    have "of_int (10 ^ 27 * 10 ^ k) \<le> (of_int c :: rat)" using c(1) by (simp only: of_int_le_iff)
    then have "of_int (10 ^ 27 * 10 ^ k) * (10 :: rat) powi e \<le> dec_val d"
      unfolding dec_val_def c_def [symmetric] e_def [symmetric] by (intro mult_right_mono) simp_all
    then show ?thesis by (simp add: powi_split powi_nat field_simps)
  qed
  finally show ?thesis by simp
qed

lemma strip_zeros_val: "dec_val (strip_zeros n c e) = dec_val (Decimal c e) \<and> (0 < c \<longrightarrow> 0 < dec_coeff (strip_zeros n c e))"
proof (induction n c e rule: strip_zeros.induct)
  case (2 n c e)
  show ?case
  proof (cases "c mod 10 = 0")
    case True
    then have c: "c = 10 * (c div 10)" by presburger
    have "of_int c = 10 * (of_int (c div 10) :: rat)" by (subst c) simp
    then have "dec_val (Decimal (c div 10) (e + 1)) = dec_val (Decimal c e)" by (simp add: dec_val_def powi_split)
    moreover have "0 < c \<Longrightarrow> 0 < c div 10" using c by linarith
    ultimately show ?thesis using 2 True by simp
  qed simp
qed simp

lemma floor_bounds: "d + r = x \<Longrightarrow> 0 \<le> r \<Longrightarrow> r < n \<Longrightarrow> d \<le> x \<and> x \<le> d + n" for d r x n :: int
  by arith

lemma quotient_error:
  fixes c x n :: int
  assumes "0 < n" "c' = x div n \<and> x mod n = 0 \<or> c' \<in> {x div n, x div n + 1}"
  shows "\<bar>of_int c' - of_int x / (of_int n :: rat)\<bar> \<le> 1"
proof -
  have "of_int (x div n) * of_int n \<le> (of_int x :: rat)" "of_int x \<le> (of_int (x div n) + 1) * (of_int n :: rat)"
  proof -
    have "x div n * n \<le> x" "x \<le> (x div n + 1) * n"
      using floor_bounds [OF div_mult_mod_eq [of x n] pos_mod_sign [OF assms(1), of x] pos_mod_bound [OF assms(1), of x]]
      unfolding distrib_right mult_1 by blast+
    then have "of_int (x div n * n) \<le> (of_int x :: rat)" "of_int x \<le> (of_int ((x div n + 1) * n) :: rat)"
      by (simp_all only: of_int_le_iff)
    then show "of_int (x div n) * of_int n \<le> (of_int x :: rat)" "of_int x \<le> (of_int (x div n) + 1) * (of_int n :: rat)"
      by (simp_all only: of_int_mult of_int_add of_int_1)
  qed
  then have "of_int (x div n) \<le> of_int x / (of_int n :: rat)" "of_int x / (of_int n :: rat) \<le> of_int (x div n) + 1"
    using assms(1) by (simp_all add: pos_le_divide_eq pos_divide_le_eq)
  with assms(2) show ?thesis by auto
qed

lemma num_digits_pos: "1 \<le> num_digits n"
  by (subst num_digits_step) simp

lemma digit_powers:
  assumes "0 < a" "0 < b" "num_digits a + i = num_digits b + 29 + j"
  shows "10 ^ 28 * (b * 10 ^ j) \<le> a * 10 ^ i"
proof -
  have "(10 :: int) ^ 28 * 10 ^ num_digits b * 10 ^ j = 10 ^ (num_digits a - 1) * 10 ^ i"
    unfolding power_add [symmetric] using assms(3) num_digits_pos [of a] by (intro arg_cong [of _ _ "(^) 10"]) linarith
  also have "\<dots> \<le> a * 10 ^ i" using num_digits_bounds [OF assms(1)] by (intro mult_right_mono) simp_all
  finally have "10 ^ 28 * 10 ^ num_digits b * 10 ^ j \<le> a * 10 ^ i" .
  moreover have "10 ^ 28 * b * 10 ^ j \<le> 10 ^ 28 * 10 ^ num_digits b * 10 ^ j"
    using num_digits_bounds [OF assms(2)] by (intro mult_right_mono mult_left_mono) simp_all
  ultimately show ?thesis by (simp only: mult.assoc)
qed

text \<open>The integers that are divided: their quotient has at least 28 digits before the point, and is the quotient of the
  decimals but for its exponent.\<close>

lemma dec_div_scaling:
  assumes "0 < dec_coeff a" "0 < dec_coeff b"
    and "sh = int (num_digits (dec_coeff b)) - int (num_digits (dec_coeff a)) + 29"
    and "x = (if 0 \<le> sh then dec_coeff a * 10 ^ nat sh else dec_coeff a)"
    and "y = (if 0 \<le> sh then dec_coeff b else dec_coeff b * 10 ^ nat (- sh))"
  shows "0 < y" "10 ^ 28 * y \<le> x" "dec_val a / dec_val b = of_int x / of_int y * 10 powi (dec_exp a - dec_exp b - sh)"
proof -
  show "0 < y" using assms(2,5) by simp
  show "10 ^ 28 * y \<le> x"
    using digit_powers [OF assms(1,2), of "nat sh" "nat (- sh)"] assms(3-5) by (cases "0 \<le> sh") simp_all
  have "x * 10 ^ nat (- sh) * dec_coeff b = dec_coeff a * 10 ^ nat sh * y" by (simp add: assms(4,5))
  then have xy: "of_int x / of_int y = of_int (dec_coeff a) / of_int (dec_coeff b) * ((10 :: rat) ^ nat sh / 10 ^ nat (- sh))"
    using assms(2) \<open>0 < y\<close> by (simp add: assms(4,5))
  have "(10 :: rat) ^ nat sh / 10 ^ nat (- sh) = 10 powi sh" by (cases "0 \<le> sh") (simp_all add: power_int_def field_simps)
  then show "dec_val a / dec_val b = of_int x / of_int y * 10 powi (dec_exp a - dec_exp b - sh)"
    unfolding xy dec_val_def by (simp add: power_int_diff)
qed

lemma dec_div_shape:
  assumes "0 < dec_coeff a" "0 < dec_coeff b"
  shows "\<exists>d. dec_div a b = dec_fix d \<and> 0 < dec_coeff d \<and> \<bar>dec_val d - dec_val a / dec_val b\<bar> \<le> dec_val a / dec_val b / 10 ^ 28"
proof -
  define sh where "sh = int (num_digits (dec_coeff b)) - int (num_digits (dec_coeff a)) + 29"
  define x where "x = (if 0 \<le> sh then dec_coeff a * 10 ^ nat sh else dec_coeff a)"
  define y where "y = (if 0 \<le> sh then dec_coeff b else dec_coeff b * 10 ^ nat (- sh))"
  note sc = dec_div_scaling [OF assms sh_def x_def y_def]
  define e where "e = dec_exp a - dec_exp b - sh"
  define c where "c = x div y"
  define d where "d = (if x mod y \<noteq> 0 then Decimal (if c mod 5 = 0 then c + 1 else c) e else strip_zeros (nat sh) c e)"
  have div: "dec_div a b = dec_fix d"
    using assms(1) by (simp only: dec_div_def Let_def sh_def [symmetric] x_def [symmetric] y_def [symmetric] c_def [symmetric]
        e_def [symmetric] d_def [symmetric]) simp
  have "1 * y \<le> 10 ^ 28 * y" using sc(1) by (intro mult_right_mono) simp_all
  with sc(2) have "y \<le> x" by linarith
  then have c0: "0 < c" using sc(1) by (simp add: c_def pos_imp_zdiv_pos_iff)
  then have pos: "0 < dec_coeff d" using strip_zeros_val by (auto simp: d_def)
  define c' where "c' = (if x mod y \<noteq> 0 \<and> c mod 5 = 0 then c + 1 else c)"
  have v: "dec_val d = of_int c' * 10 powi e" using strip_zeros_val by (auto simp: d_def c'_def dec_val_def)
  let ?q = "of_int x / of_int y :: rat"
  have "\<bar>of_int c' - ?q\<bar> \<le> 1" using sc(1) by (intro quotient_error) (auto simp: c'_def c_def)
  moreover have "1 \<le> ?q / 10 ^ 28"
  proof -
    have "of_int (10 ^ 28 * y) \<le> (of_int x :: rat)" using sc(2) by (simp only: of_int_le_iff)
    then show ?thesis using sc(1) by (simp add: pos_le_divide_eq)
  qed
  ultimately have "\<bar>of_int c' - ?q\<bar> * 10 powi e \<le> ?q / 10 ^ 28 * 10 powi e" by (intro mult_right_mono) simp_all
  moreover have "\<bar>of_int c' * 10 powi e - ?q * 10 powi e\<bar> = \<bar>of_int c' - ?q\<bar> * (10 powi e)"
    by (simp only: left_diff_distrib [symmetric] abs_mult) simp
  ultimately have "\<bar>dec_val d - dec_val a / dec_val b\<bar> \<le> dec_val a / dec_val b / 10 ^ 28"
    unfolding v sc(3) e_def [symmetric] by simp
  with div pos show ?thesis by blast
qed

text \<open>A quotient is right to 27 digits.\<close>

lemma dec_div_relative:
  assumes "0 \<le> dec_coeff a" "0 < dec_coeff b"
  shows "\<bar>dec_val (dec_div a b) - dec_val a / dec_val b\<bar> \<le> dec_val a / dec_val b / 10 ^ 27"
proof (cases "dec_coeff a = 0")
  case True
  then show ?thesis by (simp add: dec_div_def dec_val_def)
next
  case False
  with assms(1) have "0 < dec_coeff a" by simp
  from dec_div_shape [OF this assms(2)] obtain d where d: "dec_div a b = dec_fix d" "0 < dec_coeff d"
    "\<bar>dec_val d - dec_val a / dec_val b\<bar> \<le> dec_val a / dec_val b / 10 ^ 28" by blast
  define t where "t = dec_val a / dec_val b"
  have "0 \<le> t" using assms by (simp add: t_def dec_val_def)
  moreover from d(3) have "dec_val d \<le> t + t / 10 ^ 28" unfolding t_def [symmetric] by linarith
  moreover have "\<bar>dec_val (dec_fix d) - t\<bar> \<le> dec_val d / 10 ^ 27 / 2 + t / 10 ^ 28"
    using dec_fix_error [OF d(2)] d(3) unfolding t_def [symmetric] by linarith
  ultimately show ?thesis unfolding d(1) t_def [symmetric] by simp
qed

lemma half_nonneg: "0 \<le> c \<Longrightarrow> 0 < m \<Longrightarrow> 0 \<le> half_even c m \<and> 0 \<le> half_up c m"
  by (auto simp: half_even_def half_up_def Let_def pos_imp_zdiv_nonneg_iff add_nonneg_nonneg)

lemma dec_fix_nonneg: "0 \<le> dec_coeff d \<Longrightarrow> 0 \<le> dec_coeff (dec_fix d)"
  by (simp add: dec_fix_def Let_def half_nonneg pos_imp_zdiv_nonneg_iff)

lemma dec_div_error:
  assumes "0 \<le> s" "0 < n" "s \<le> n"
  shows "\<bar>dec_val (dec_div (whole s) (whole n)) - of_int s / of_int n\<bar> \<le> 1 / 10 ^ 27 \<and> 0 \<le> dec_coeff (dec_div (whole s) (whole n))"
proof
  have "of_int s / of_int n \<le> (1 :: rat)" using assms by (simp add: pos_divide_le_eq)
  then have "of_int s / of_int n / 10 ^ 27 \<le> (1 / 10 ^ 27 :: rat)" by (intro divide_right_mono) simp_all
  moreover have "\<bar>dec_val (dec_div (whole s) (whole n)) - dec_val (whole s) / dec_val (whole n)\<bar> \<le> dec_val (whole s) / dec_val (whole n) / 10 ^ 27"
    using assms(1,2) by (intro dec_div_relative) (simp_all add: whole_def)
  moreover have "dec_val (whole i) = of_int i" for i by (simp add: whole_def dec_val_def)
  ultimately show "\<bar>dec_val (dec_div (whole s) (whole n)) - of_int s / of_int n\<bar> \<le> 1 / 10 ^ 27" by (simp only:)
  show "0 \<le> dec_coeff (dec_div (whole s) (whole n))"
  proof (cases "s = 0")
    case False
    with assms dec_div_shape [of "whole s" "whole n"] obtain d where "dec_div (whole s) (whole n) = dec_fix d" "0 < dec_coeff d"
      by (auto simp: whole_def)
    then show ?thesis using dec_fix_nonneg [of d] by simp
  qed (simp add: dec_div_def whole_def)
qed

lemma six_places_error:
  assumes "0 \<le> dec_coeff d"
  shows "\<bar>dec_val (six_places d) - dec_val d\<bar> \<le> 1 / 2000000"
proof (cases "-6 \<le> dec_exp d")
  case True
  then have eq: "(10 :: rat) powi dec_exp d = 10 ^ nat (dec_exp d + 6) / 1000000"
    using powi_split [of "dec_exp d + 6" "-6"] by (simp add: powi_nat power_int_minus)
  have "dec_val (six_places d) = dec_val d"
    using True by (simp only: six_places_def dec_val_def eq if_True decimal.sel) (simp add: power_int_minus)
  then show ?thesis by simp
next
  case False
  define k where "k = nat (-6 - dec_exp d)"
  have e: "dec_exp d + int k = -6" using False by (simp add: k_def)
  have "\<bar>2 * (half_up (dec_coeff d) (10 ^ k) * 10 ^ k - dec_coeff d)\<bar> \<le> 10 ^ k" by (rule half_error) simp
  from rounded_val [OF this, of "dec_exp d"] have
    "\<bar>of_int (half_up (dec_coeff d) (10 ^ k)) * 10 powi (-6) - dec_val d\<bar> \<le> 10 powi (-6) / 2" unfolding e dec_val_def .
  moreover have "(10 :: rat) powi (-6) / 2 = 1 / 2000000" by (simp add: power_int_minus)
  ultimately show ?thesis using False by (simp add: six_places_def k_def [symmetric] dec_val_def [of "Decimal _ _"])
qed

end
