(* ===== verification/Safe_Http.thy ===== *)
theory Safe_Http
  imports Complex_Main Federation_Http
begin

text \<open>
  The allowlisted HTTPS transport (\<open>adapters/safe_http.py\<close>) over the opener of \<open>urllib\<close>. The world is a parameter:
  what name resolution and sending a request answer, each of which may answer differently at the n-th
  contact of a request, whether an address text is an IP address and a global one (\<open>ipaddress\<close>), and
  what the redirect handler of the standard library reads from the headers of a redirect
  (\<open>urljoin\<close> and \<open>quote\<close> are not modelled, so every target is possible). The timeout only matters inside
  sending.
\<close>

section \<open>The world\<close>

datatype location = No_location | Refused_location pystr | Location pystr

record web =
  web_resolve :: "nat \<Rightarrow> pystr \<Rightarrow> int \<Rightarrow> pystr list result"
  web_ip_global :: "pystr \<Rightarrow> bool option"
  web_send :: "nat \<Rightarrow> pystr \<Rightarrow> headers \<Rightarrow> http_reply result"
  web_location :: "pystr \<Rightarrow> headers \<Rightarrow> location result"

section \<open>Targets\<close>

record safe_transport =
  safe_hosts :: "pystr list"
  safe_max_redirects :: int

definition safe_host :: "url_env \<Rightarrow> pystr \<Rightarrow> pystr result" where
  "safe_host U host = rbind (idna U host) (\<lambda>ascii_name. Inr (rstrip_char 46 (lower U ascii_name)))"

fun safe_host_list :: "url_env \<Rightarrow> pystr list \<Rightarrow> pystr list result" where
  "safe_host_list U [] = Inr []"
| "safe_host_list U (host # hosts) = rbind (safe_host U host) (\<lambda>h. rbind (safe_host_list U hosts) (\<lambda>hs. Inr (h # hs)))"

definition new_safe_transport :: "url_env \<Rightarrow> pystr list \<Rightarrow> rat \<Rightarrow> int \<Rightarrow> safe_transport result" where
  "new_safe_transport U hosts timeout max_redirects =
     rbind (safe_host_list U hosts) (\<lambda>hs.
     seq (first_error
       [guard (hs \<noteq> []) (ValueError ''at least one allowed host is required''),
        guard (0 < timeout \<and> 0 \<le> max_redirects) (ValueError ''timeout must be positive and max_redirects non-negative'')])
     (Inr \<lparr>safe_hosts = hs, safe_max_redirects = max_redirects\<rparr>))"

fun global_addresses :: "web \<Rightarrow> pystr list \<Rightarrow> unit result" where
  "global_addresses W [] = Inr ()"
| "global_addresses W (address # rest) =
     (case web_ip_global W address of
        None \<Rightarrow> Inl (ValueError ''does not appear to be an IPv4 or IPv6 address'')
      | Some is_global \<Rightarrow>
          if \<not> is_global then Inl (ValueError ''host resolves to a non-global address'') else global_addresses W rest)"

definition port_or_443 :: "int option \<Rightarrow> int" where
  "port_or_443 port = (case port of None \<Rightarrow> 443 | Some p \<Rightarrow> if p = 0 then 443 else p)"

definition validate_target :: "url_env \<Rightarrow> web \<Rightarrow> safe_transport \<Rightarrow> nat \<Rightarrow> pystr \<Rightarrow> pystr result" where
  "validate_target U W T n url =
     rbind (normalize_https_url U url) (\<lambda>normalized.
     rbind (urlsplit U normalized) (\<lambda>parsed.
     rbind (safe_host U (or_empty (hostname U parsed))) (\<lambda>host.
     if host \<notin> set (safe_hosts T) then Inl (ValueError ''host is not allowlisted'')
     else
       rbind (url_port parsed) (\<lambda>port.
       rbind (web_resolve W n host (port_or_443 port)) (\<lambda>addresses.
       if addresses = [] then Inl (ValueError ''host did not resolve'')
       else seq (global_addresses W addresses) (Inr normalized))))))"

section \<open>Opening a URL\<close>

text \<open>
  \<open>opener.open\<close> with the redirect handler of the module. The result carries the contacted URLs in
  order. The list \<open>visited\<close> is the \<open>redirect_dict\<close> of \<open>urllib\<close>, with the latest target first; its length is the
  count of the handler. \<open>urllib\<close> stops at a fifth visit of one target or an eleventh target.
\<close>

datatype opened = Opened pystr http_reply | Http_error pystr http_reply | Raised py_error

definition redirect_codes :: "int list" where
  "redirect_codes = [301, 302, 303, 307, 308]"

function open_url :: "url_env \<Rightarrow> web \<Rightarrow> safe_transport \<Rightarrow> bool \<Rightarrow> headers \<Rightarrow> pystr list \<Rightarrow> pystr \<Rightarrow> pystr list \<times> opened" where
  "open_url U W T enabled headers visited url =
     (case web_send W (length visited) url headers of
        Inl e \<Rightarrow> ([url], Raised e)
      | Inr reply \<Rightarrow>
          if 200 \<le> hr_status reply \<and> hr_status reply < 300 then ([url], Opened url reply)
          else if hr_status reply \<notin> set redirect_codes then ([url], Http_error url reply)
          else (case web_location W url (hr_headers reply) of
              Inl e \<Rightarrow> ([url], Raised e)
            | Inr No_location \<Rightarrow> ([url], Http_error url reply)
            | Inr (Refused_location target) \<Rightarrow> ([url], Http_error target reply)
            | Inr (Location target) \<Rightarrow>
                if \<not> enabled then ([url], Http_error url reply)
                else if safe_max_redirects T < int (length visited) + 1 then ([url], Raised (ValueError ''redirect limit exceeded''))
                else (case validate_target U W T (length visited + 1) target of
                    Inl e \<Rightarrow> ([url], Raised e)
                  | Inr normalized \<Rightarrow>
                      if 4 \<le> count_list visited target \<or> 10 \<le> length (remdups visited) then ([url], Http_error url reply)
                      else let (contacts, outcome) = open_url U W T enabled headers (target # visited) normalized
                           in (url # contacts, outcome))))"
  by pat_completeness auto

termination
  by (relation "measure (\<lambda>(U, W, T, enabled, headers, visited, url). nat (safe_max_redirects T - int (length visited)))") auto

declare open_url.simps [simp del]

section \<open>Requests\<close>

definition read_bounded :: "int \<Rightarrow> bytes \<Rightarrow> bytes result" where
  "read_bounded max_bytes data =
     (let body = (if max_bytes + 1 < 0 then data else take (nat (max_bytes + 1)) data)
      in if max_bytes < int (length body) then Inl (ValueError ''response exceeds max_bytes'') else Inr body)"

definition reply_response :: "pystr \<Rightarrow> http_reply \<Rightarrow> bytes \<Rightarrow> fetch_response" where
  "reply_response url reply body =
     \<lparr>fr_status = hr_status reply, fr_final_url = url, fr_headers = al_of (hr_headers reply), fr_body = body\<rparr>"

definition opened_response :: "int \<Rightarrow> bool \<Rightarrow> opened \<Rightarrow> fetch_response result" where
  "opened_response max_bytes accept_http_errors result =
     (case result of
        Raised e \<Rightarrow> Inl e
      | Opened url reply \<Rightarrow> rbind (read_bounded max_bytes (hr_body reply)) (\<lambda>body. Inr (reply_response url reply body))
      | Http_error url reply \<Rightarrow>
          if hr_status reply = 304 then Inr (reply_response url reply [])
          else if accept_http_errors
          then rbind (read_bounded max_bytes (hr_body reply)) (\<lambda>body. Inr (reply_response url reply body))
          else Inl (ValueError ''HTTP request failed''))"

definition safe_request ::
  "url_env \<Rightarrow> web \<Rightarrow> safe_transport \<Rightarrow> pystr \<Rightarrow> pystr \<Rightarrow> bool \<Rightarrow> int \<Rightarrow> headers \<Rightarrow> bool \<Rightarrow> pystr list \<times> fetch_response result" where
  "safe_request U W T url accept follow_redirects max_bytes conditional accept_http_errors =
     (case validate_target U W T 0 url of
        Inl e \<Rightarrow> ([], Inl e)
      | Inr normalized \<Rightarrow>
          let (contacts, outcome) =
                open_url U W T follow_redirects
                  ([(u ''Accept'', accept), (u ''User-Agent'', u ''OnceMesh-Evaluation/0'')] @ conditional) [] normalized
          in (contacts, opened_response max_bytes accept_http_errors outcome))"

definition safe_get :: "url_env \<Rightarrow> web \<Rightarrow> safe_transport \<Rightarrow> pystr \<Rightarrow> pystr \<Rightarrow> bool \<Rightarrow> int \<Rightarrow> pystr list \<times> fetch_response result" where
  "safe_get U W T url accept follow_redirects max_bytes = safe_request U W T url accept follow_redirects max_bytes [] False"

definition safe_probe :: "url_env \<Rightarrow> web \<Rightarrow> safe_transport \<Rightarrow> pystr \<Rightarrow> pystr \<Rightarrow> int \<Rightarrow> pystr list \<times> fetch_response result" where
  "safe_probe U W T url accept max_bytes = safe_request U W T url accept False max_bytes [] True"

fun conditional_headers :: "(string \<times> pystr option) list \<Rightarrow> headers result" where
  "conditional_headers [] = Inr []"
| "conditional_headers ((name, None) # rest) = conditional_headers rest"
| "conditional_headers ((name, Some value) # rest) =
     (if value = [] \<or> 4096 < length value \<or> 13 \<in> set value \<or> 10 \<in> set value then Inl (ValueError (''invalid '' @ name @ '' value''))
      else rbind (conditional_headers rest) (\<lambda>hs. Inr ((u name, value) # hs)))"

definition safe_conditional_get ::
  "url_env \<Rightarrow> web \<Rightarrow> safe_transport \<Rightarrow> pystr \<Rightarrow> pystr \<Rightarrow> bool \<Rightarrow> int \<Rightarrow> pystr option \<Rightarrow> pystr option \<Rightarrow> pystr list \<times> fetch_response result" where
  "safe_conditional_get U W T url accept follow_redirects max_bytes etag last_modified =
     (if etag = None \<and> last_modified = None then ([], Inl (ValueError ''conditional GET requires an ETag or Last-Modified value''))
      else case conditional_headers [(''If-None-Match'', etag), (''If-Modified-Since'', last_modified)] of
             Inl e \<Rightarrow> ([], Inl e)
           | Inr conditional \<Rightarrow> safe_request U W T url accept follow_redirects max_bytes conditional False)"

text \<open>The transport as the adapter and the runtime use it.\<close>

definition option_text :: "pyval \<Rightarrow> pystr option" where
  "option_text v = (if v = PyNone then None else Some (str_of v))"

definition as_transport :: "url_env \<Rightarrow> web \<Rightarrow> safe_transport \<Rightarrow> transport" where
  "as_transport U W T =
     \<lparr>tr_get = (\<lambda>url accept follow limit. snd (safe_get U W T (str_of url) (str_of accept) (truthy follow) (int_of limit))),
      tr_conditional = (\<lambda>url accept follow limit etag last_modified.
        snd (safe_conditional_get U W T (str_of url) (str_of accept) (truthy follow) (int_of limit) (option_text etag) (option_text last_modified)))\<rparr>"

end
