(* ===== verification/Shadow.thy ===== *)
theory Shadow
  imports Metrics Http_Fetch Cache
begin

text \<open>
  Computations that publish, record events and may raise, and the evaluations that never
  substitute: \<open>run_shadow\<close> (\<open>shadow.py\<close>) and \<open>run_conditional_http_shadow\<close> (\<open>conditional.py\<close>).
  The state is the store that receives publications together with the recorded events; the stores
  that are read are views of that state, so the publication store can be one of them. The
  durations that \<open>perf_counter\<close> measures are arguments.
\<close>

section \<open>State and exceptions\<close>

text \<open>
  Work for the background: what the closure handed to a coordinator captures. \<open>w_jobs\<close> lists the
  work that was accepted, with its single-flight key.
\<close>

record background_job =
  bj_action :: pyval
  bj_candidate :: lookup_outcome
  bj_producer :: pystr
  bj_ttl :: int
  bj_evaluation_id :: "pystr option"

record 's world =
  w_store :: 's
  w_events :: "evaluation_event list"
  w_jobs :: "(pystr \<times> background_job) list"

type_synonym ('s, 'a) act = "'s world \<Rightarrow> 's world \<times> 'a result"

definition ret :: "'a result \<Rightarrow> ('s, 'a) act" where
  "ret m w = (w, m)"

definition abind :: "('s, 'a) act \<Rightarrow> ('a \<Rightarrow> ('s, 'b) act) \<Rightarrow> ('s, 'b) act" where
  "abind m f w = (case m w of (w', Inl e) \<Rightarrow> (w', Inl e) | (w', Inr x) \<Rightarrow> f x w')"

definition asks :: "('s \<Rightarrow> 'a result) \<Rightarrow> ('s, 'a) act" where
  "asks f w = (w, f (w_store w))"

definition emit :: "evaluation_event \<Rightarrow> ('s, unit) act" where
  "emit e w = (w\<lparr>w_events := record_event (w_events w) e\<rparr>, Inr ())"

text \<open>\<open>if publish_to is not None: publish_result(...)\<close>, and the same with \<open>put_validation\<close>.\<close>

definition publish_act ::
  "'s store_ops option \<Rightarrow> pyval \<Rightarrow> outputs \<Rightarrow> pystr \<Rightarrow> int \<Rightarrow> int option \<Rightarrow> ('s, unit) act" where
  "publish_act target action artifacts producer produced fresh_until w =
     (case target of
        None \<Rightarrow> (w, Inr ())
      | Some ops \<Rightarrow>
          (case publish_result ops (w_store w) action artifacts producer (Aware produced)
                  (map_option Aware fresh_until) None of
             (s, r) \<Rightarrow> (w\<lparr>w_store := s\<rparr>, discard r)))"

definition put_validation_act :: "'s store_ops option \<Rightarrow> pyval result \<Rightarrow> ('s, unit) act" where
  "put_validation_act target validation w =
     (case target of
        None \<Rightarrow> (w, Inr ())
      | Some ops \<Rightarrow>
          (case rbind validation (so_put_validation ops (w_store w)) of
             Inl e \<Rightarrow> (w, Inl e)
           | Inr s \<Rightarrow> (w\<lparr>w_store := s\<rparr>, Inr ())))"

lemma ret_simps [simp]: "ret m w = (w, m)"
  by (simp add: ret_def)

lemma asks_simps [simp]: "asks f w = (w, f (w_store w))"
  by (simp add: asks_def)

lemma emit_simps [simp]: "emit e w = (w\<lparr>w_events := w_events w @ [e]\<rparr>, Inr ())"
  by (simp add: emit_def record_event_def)

lemma abind_Inr: "abind m f w = (w'', Inr y) \<longleftrightarrow> (\<exists>w' x. m w = (w', Inr x) \<and> f x w' = (w'', Inr y))"
  by (auto simp: abind_def split: prod.splits sum.splits)

lemma abind_step: "m w = (w', Inr x) \<Longrightarrow> abind m f w = f x w'"
  by (simp add: abind_def)

lemma abind_err: "m w = (w', Inl e) \<Longrightarrow> abind m f w = (w', Inl e)"
  by (simp add: abind_def)

lemma abind_asks [simp]:
  "abind (asks g) f w = (case g (w_store w) of Inl e \<Rightarrow> (w, Inl e) | Inr x \<Rightarrow> f x w)"
  "abind (ret r) f w = (case r of Inl e \<Rightarrow> (w, Inl e) | Inr x \<Rightarrow> f x w)"
  by (auto simp: abind_def split: sum.splits)

section \<open>Comparing a candidate\<close>

record durations =
  d_lookup :: rat
  d_execution :: rat
  d_validation :: rat

record shadow_outcome =
  so_artifacts :: outputs
  so_lookup :: lookup_outcome
  so_artifact_match :: "bool option"
  so_execution_duration_ms :: rat

definition media_types :: "pyval \<Rightarrow> (pystr \<times> pyval) list" where
  "media_types manifest =
     al_of (map (\<lambda>d. (str_of (item d ''name''), item d ''media_type'')) (artifacts_of manifest))"

definition candidate_matches :: "outputs \<Rightarrow> lookup_outcome \<Rightarrow> bool option" where
  "candidate_matches actual found =
     (case lo_manifest found of
        None \<Rightarrow> None
      | Some manifest \<Rightarrow>
          if \<not> lo_hit found then None
          else if fst ` set actual \<noteq> fst ` set (lo_artifacts found)
               \<or> fst ` set actual \<noteq> fst ` set (media_types manifest) then Some False
          else Some (list_all (\<lambda>(name, data, media_type).
                 al_get (lo_artifacts found) name = Some data
                 \<and> al_get (media_types manifest) name = Some (PyStr media_type)) actual))"

definition total_bytes :: "outputs \<Rightarrow> int" where
  "total_bytes actual = sum_list (map (\<lambda>(name, data, media_type). int (length data)) actual)"

definition operation_name :: "pyval \<Rightarrow> pystr" where
  "operation_name action = str_of (item (item action ''operation'') ''name'')"

section \<open>\<open>run_shadow\<close>\<close>

text \<open>
  \<open>execute\<close> is the result of the call. After a lookup the action is known to be valid, so its
  digest exists and its operation has a name.
\<close>

definition shadow_event ::
  "pystr \<Rightarrow> pyval \<Rightarrow> lookup_outcome \<Rightarrow> outputs \<Rightarrow> rat \<Rightarrow> pystr option \<Rightarrow> durations \<Rightarrow> evaluation_event" where
  "shadow_event digest action found actual cost evaluation_id d =
     (let m = candidate_matches actual found; verified = (m = Some True)
      in (new_event ''shadow'' digest (operation_name action) (lo_hit found) (lo_tier found) m (lo_rejections found)
            (d_execution d) (if verified then total_bytes actual else 0)
            (if verified then max (d_execution d - d_lookup d) 0 else 0) (if verified then cost else 0))
         \<lparr>ev_lookup_duration_ms := d_lookup d, ev_evaluation_id := evaluation_id\<rparr>)"

definition run_shadow ::
  "pyval \<Rightarrow> ('s \<Rightarrow> store_view list) \<Rightarrow> outputs result \<Rightarrow> policy \<Rightarrow> rat \<Rightarrow> 's store_ops option \<Rightarrow> pystr
     \<Rightarrow> int option \<Rightarrow> int \<Rightarrow> pystr option \<Rightarrow> durations \<Rightarrow> ('s, shadow_outcome) act" where
  "run_shadow action stores execute P cost target producer fresh_until now evaluation_id d =
     abind (asks (\<lambda>s. reuse action (stores s) P)) (\<lambda>found.
     abind (ret execute) (\<lambda>actual.
     abind (ret (action_digest action)) (\<lambda>digest.
     abind (emit (shadow_event digest action found actual cost evaluation_id d)) (\<lambda>_.
     abind (publish_act target action actual producer now fresh_until) (\<lambda>_.
       ret (Inr \<lparr>so_artifacts = actual, so_lookup = found, so_artifact_match = candidate_matches actual found,
                 so_execution_duration_ms = d_execution d\<rparr>))))))"

section \<open>\<open>run_conditional_http_shadow\<close>\<close>

text \<open>The validators of a candidate: \<open>metadata.get("etag")\<close> and \<open>metadata.get("last_modified")\<close>.\<close>

definition read_validators :: "lookup_outcome \<Rightarrow> (pyval \<times> pyval) result" where
  "read_validators found =
     (case al_get (lo_artifacts found) (u ''metadata'') of
        None \<Rightarrow> Inl KeyError
      | Some data \<Rightarrow>
          rbind (loads_bytes default_opts data) (\<lambda>metadata.
          rbind (get_method metadata ''etag'') (\<lambda>etag.
          rbind (get_method metadata ''last_modified'') (\<lambda>last_modified. Inr (etag, last_modified)))))"

text \<open>The validation record of a 304 response, with its timestamps formatted.\<close>

definition validation_record :: "pyval \<Rightarrow> int \<Rightarrow> int \<Rightarrow> pystr \<Rightarrow> pyval \<Rightarrow> pyval \<Rightarrow> pyval result" where
  "validation_record manifest validated fresh_until producer etag last_modified =
     rbind (manifest_digest manifest) (\<lambda>digest.
     rbind (format_time (Aware validated)) (\<lambda>at_text.
     rbind (format_time (Aware fresh_until)) (\<lambda>until_text.
       Inr (obj
         [(''spec_version'', S ''oncemesh.validation/v0''), (''result_digest'', PyStr digest),
          (''validated_at'', PyStr at_text), (''fresh_until'', PyStr until_text), (''producer'', PyStr producer),
          (''method'', obj [(''name'', S ''http.conditional''), (''version'', S ''1''), (''status'', PyInt 304),
                            (''etag'', etag), (''last_modified'', last_modified)])]))))"

definition conditional_get ::
  "pyval \<Rightarrow> transport \<Rightarrow> pyval \<Rightarrow> pyval \<Rightarrow> fetch_response result" where
  "conditional_get action T etag last_modified =
     rbind (subscript action ''inputs'') (\<lambda>inputs.
     rbind (subscript action ''executor'') (\<lambda>executor.
     rbind (subscript executor ''config'') (\<lambda>config.
     rbind (subscript inputs ''url'') (\<lambda>url.
     rbind (subscript inputs ''accept'') (\<lambda>accept.
     rbind (subscript config ''follow_redirects'') (\<lambda>follow.
     rbind (subscript config ''max_bytes'') (\<lambda>limit.
       tr_conditional T url accept follow limit etag last_modified)))))))"

definition conditional_event ::
  "pystr \<Rightarrow> pyval \<Rightarrow> lookup_outcome \<Rightarrow> outputs \<Rightarrow> int \<Rightarrow> bool \<Rightarrow> rat \<Rightarrow> pystr option \<Rightarrow> pystr \<Rightarrow> durations
     \<Rightarrow> evaluation_event" where
  "conditional_event digest action found actual status recorded cost evaluation_id reason d =
     (let m = candidate_matches actual found; verified = (status = 304 \<and> m = Some True)
      in (new_event ''shadow'' digest (operation_name action) True (lo_tier found) m (lo_rejections found)
            (d_execution d) (if verified then total_bytes actual else 0)
            (if verified then max (d_execution d - d_lookup d - d_validation d) 0 else 0) (if verified then cost else 0))
         \<lparr>ev_lookup_duration_ms := d_lookup d, ev_evaluation_id := evaluation_id,
          ev_validation_method := Some ''http.conditional/1'', ev_validation_status := Some status,
          ev_validation_duration_ms := d_validation d, ev_validation_recorded := recorded,
          ev_decision_reason := Some reason\<rparr>)"

definition conditional_output :: "url_env \<Rightarrow> pyval \<Rightarrow> transport \<Rightarrow> fetch_response \<Rightarrow> outputs result" where
  "conditional_output U action T response =
     (if fr_status response = 304 then execute_http_fetch U action T
      else if fr_status response = 200 then response_to_artifacts U action response
      else Inl (ValueError ''unexpected conditional response status''))"

definition run_conditional_http_shadow ::
  "url_env \<Rightarrow> pyval \<Rightarrow> ('s \<Rightarrow> store_view list) \<Rightarrow> transport \<Rightarrow> policy \<Rightarrow> rat \<Rightarrow> 's store_ops option \<Rightarrow> pystr
     \<Rightarrow> int \<Rightarrow> int \<Rightarrow> pystr option \<Rightarrow> pystr \<Rightarrow> durations \<Rightarrow> ('s, shadow_outcome) act" where
  "run_conditional_http_shadow U action stores T P cost target producer fresh_until now evaluation_id reason d =
     (let plain = run_shadow action stores (execute_http_fetch U action T) P cost target producer (Some fresh_until)
            now evaluation_id d
      in abind (asks (\<lambda>s. candidate_for_revalidation action (stores s) P)) (\<lambda>found.
         case lo_manifest found of
           None \<Rightarrow> plain
         | Some manifest \<Rightarrow>
             if \<not> lo_hit found \<or> al_get (lo_artifacts found) (u ''metadata'') = None then plain
             else
               abind (ret (read_validators found)) (\<lambda>(etag, last_modified).
               if \<not> truthy etag \<and> \<not> truthy last_modified then plain
               else
                 abind (ret (conditional_get action T etag last_modified)) (\<lambda>response.
                 abind (ret (conditional_output U action T response)) (\<lambda>actual.
                 let m = candidate_matches actual found;
                     recorded = (fr_status response = 304 \<and> m = Some True \<and> target \<noteq> None)
                 in abind (if recorded
                           then put_validation_act target
                                  (validation_record manifest now fresh_until producer etag last_modified)
                           else publish_act target action actual producer now (Some fresh_until)) (\<lambda>_.
                    abind (ret (action_digest action)) (\<lambda>digest.
                    abind (emit (conditional_event digest action found actual (fr_status response) recorded cost
                                   evaluation_id reason d)) (\<lambda>_.
                      ret (Inr \<lparr>so_artifacts = actual, so_lookup = found, so_artifact_match = m,
                                so_execution_duration_ms = d_execution d\<rparr>)))))))))"

end
