(* ===== verification/Runtime.thy ===== *)
theory Runtime
  imports Shadow
begin

text \<open>
  Policy-controlled execution and substitution (\<open>runtime.py\<close>). \<open>execute_deterministic_with_policy\<close>
  and \<open>execute_http_with_policy\<close> follow the branches of the code; each of them either runs the
  operation in full (\<open>execute_and_record\<close>, \<open>execute_full\<close>) or returns the artifacts of a candidate.
  The policy and the key registry are the files they read; the revalidation coordinator is its
  answer to a submission.
\<close>

section \<open>Calls and outcomes\<close>

record execution_outcome =
  eo_artifacts :: outputs
  eo_substituted :: bool
  eo_reason :: pystr
  eo_lookup :: "lookup_outcome option"

text \<open>The arguments every execution has.\<close>

record 's call =
  c_action :: pyval
  c_stores :: "'s \<Rightarrow> store_view list"
  c_target :: "'s store_ops option"
  c_producer :: pystr
  c_now :: int
  c_evaluation_id :: "pystr option"
  c_cost :: rat
  c_time :: rat
  c_durations :: durations

text \<open>\<open>f"{v}"\<close>; the text of a list or dictionary is cut to its bracket, which no key contains.\<close>

fun fmt :: "pyval \<Rightarrow> pystr" where
  "fmt (PyStr s) = s"
| "fmt (PyInt i) = dump_int i"
| "fmt (PyFloat f) = f"
| "fmt (PyBool b) = (if b then u ''True'' else u ''False'')"
| "fmt PyNone = u ''None''"
| "fmt (PyList _) = [91]"
| "fmt (PyDict _) = [123]"
| "fmt (PyOther ty) = u ty"

definition operation_key :: "pyval \<Rightarrow> pystr result" where
  "operation_key action =
     rbind (subscript action ''operation'') (\<lambda>operation.
     rbind (subscript operation ''name'') (\<lambda>name.
     rbind (subscript operation ''version'') (\<lambda>version. Inr (fmt name @ [47] @ fmt version))))"

definition exact_substitution_operations :: "pystr list" where
  "exact_substitution_operations = [u ''document.pdf-to-text/1'']"

definition candidate_outputs :: "lookup_outcome \<Rightarrow> outputs result" where
  "candidate_outputs found =
     (case lo_manifest found of
        None \<Rightarrow> Inl (ValueError ''candidate has no result manifest'')
      | Some manifest \<Rightarrow>
          if list_all (\<lambda>(name, data). al_get (media_types manifest) name \<noteq> None) (lo_artifacts found)
          then Inr (map (\<lambda>(name, data). (name, data, str_of (the (al_get (media_types manifest) name)))) (lo_artifacts found))
          else Inl KeyError)"

definition candidate_bytes :: "lookup_outcome \<Rightarrow> int" where
  "candidate_bytes found = sum_list (map (\<lambda>(name, data). int (length data)) (lo_artifacts found))"

text \<open>\<open>Policy(now=..., trusted_producers=..., trusted_validation_producers=...)\<close>\<close>

definition trust_policy :: "int \<Rightarrow> operation_policy \<Rightarrow> policy" where
  "trust_policy now p =
     (default_policy now)
       \<lparr>p_trusted_producers := Some (op_trusted_result_producers p),
        p_trusted_validation_producers := Some (op_trusted_validation_producers p)\<rparr>"

section \<open>Authorization\<close>

definition authorization_failure :: "pyval \<Rightarrow> operation_policy \<Rightarrow> pyval \<Rightarrow> string option result" where
  "authorization_failure action p caller =
     rbind (if is_dict action then Inr (if has_key action ''vary'' then item action ''vary'' else PyDict []) else Inl AttributeError)
       (\<lambda>vary.
     rbind (get_method vary ''authorization_partition'') (\<lambda>own.
       if op_authorization_partition p = u ''public'' then
         Inr (if own \<noteq> PyNone \<or> caller \<noteq> PyNone then Some ''authorization_partition_forbidden'' else None)
       else
         (case validate_authorization_partition own of
            Inl e \<Rightarrow> if is_value_error e then Inr (Some ''authorization_partition_invalid'') else Inl e
          | Inr _ \<Rightarrow>
              if caller = PyNone then Inr (Some ''authorization_partition_missing'')
              else
                (case authorization_partitions_match own caller of
                   Inl e \<Rightarrow> if is_value_error e then Inr (Some ''authorization_partition_invalid'') else Inl e
                 | Inr equal \<Rightarrow> Inr (if equal then None else Some ''authorization_partition_mismatch'')))))"

section \<open>Freshness of a stale candidate\<close>

definition source_of :: "store_view list \<Rightarrow> lookup_outcome \<Rightarrow> store_view option" where
  "source_of stores found = find (\<lambda>s. Some (sv_name s) = lo_tier found) stores"

fun trusted_boundaries :: "pystr set \<Rightarrow> pyval list \<Rightarrow> int list result" where
  "trusted_boundaries trust [] = Inr []"
| "trusted_boundaries trust (v # vs) =
     (if in_trust (item v ''producer'') (Some trust) then
        rbind (parse_time (str_of (item v ''fresh_until''))) (\<lambda>t.
        rbind (trusted_boundaries trust vs) (\<lambda>ts. Inr (t # ts)))
      else trusted_boundaries trust vs)"

definition max_option :: "int list \<Rightarrow> int option" where
  "max_option ts = (if ts = [] then None else Some (foldl max (hd ts) (tl ts)))"

text \<open>The latest boundary, and whether the validations could not be read.\<close>

definition latest_trusted_freshness ::
  "lookup_outcome \<Rightarrow> store_view list \<Rightarrow> operation_policy \<Rightarrow> (int option \<times> bool) result" where
  "latest_trusted_freshness found stores p =
     (case lo_manifest found of
        None \<Rightarrow> Inr (None, False)
      | Some manifest \<Rightarrow>
          rbind (if item manifest ''fresh_until'' = PyNone then Inr []
                 else rbind (parse_time (str_of (item manifest ''fresh_until''))) (\<lambda>t. Inr [t])) (\<lambda>own.
            case source_of stores found of
              None \<Rightarrow> Inr (max_option own, False)
            | Some source \<Rightarrow>
                (case rbind (manifest_digest manifest) (sv_validations source) of
                   Inl (StoreReadError _) \<Rightarrow> Inr (None, True)
                 | Inl e \<Rightarrow> Inl e
                 | Inr validations \<Rightarrow>
                     rbind (trusted_boundaries (op_trusted_validation_producers p) validations) (\<lambda>ts.
                       Inr (max_option (own @ ts), False)))))"

section \<open>Required receipts\<close>

definition receipt_priority :: "string list" where
  "receipt_priority =
     [''receipt_invalid'', ''receipt_key_revoked'', ''receipt_producer_denied'', ''receipt_key_unknown'',
      ''receipt_key_untrusted'', ''receipt_missing'']"

definition worst_failure :: "string list \<Rightarrow> string" where
  "worst_failure failures =
     (case find (\<lambda>r. r \<in> set failures) receipt_priority of Some r \<Rightarrow> r | None \<Rightarrow> ''receipt_invalid'')"

fun check_receipts ::
  "ed25519 \<Rightarrow> fs_file option \<Rightarrow> operation_policy \<Rightarrow> pyval \<Rightarrow> pyval list \<Rightarrow> string list \<Rightarrow> string option result" where
  "check_receipts E kfile p manifest [] failures = Inr (Some (worst_failure failures))"
| "check_receipts E kfile p manifest (receipt # rest) failures =
     rbind (get_method receipt ''signature'') (\<lambda>signature.
       if \<not> is_dict signature then check_receipts E kfile p manifest rest (failures @ [''receipt_missing''])
       else
         (let key_id = item signature ''key_id''
          in if \<not> hashable key_id then Inl TypeError
             else if \<not> in_trust key_id (Some (op_trusted_receipt_keys p))
             then check_receipts E kfile p manifest rest (failures @ [''receipt_key_untrusted''])
             else
               rbind (resolve_key kfile (str_of key_id) (str_of (item manifest ''producer''))) (\<lambda>resolution.
                 if kr_reason resolution = ''receipt_registry_error'' then Inr (Some (kr_reason resolution))
                 else
                   (case kr_key resolution of
                      None \<Rightarrow> check_receipts E kfile p manifest rest (failures @ [kr_reason resolution])
                    | Some key \<Rightarrow>
                        (case verify_receipt_for_manifest E receipt manifest (rk_public_key key) of
                           Inl e \<Rightarrow>
                             if is_value_error e then check_receipts E kfile p manifest rest (failures @ [''receipt_invalid''])
                             else Inl e
                         | Inr verified \<Rightarrow>
                             if verified then Inr None
                             else check_receipts E kfile p manifest rest (failures @ [''receipt_invalid'']))))))"

definition required_receipt_failure ::
  "ed25519 \<Rightarrow> lookup_outcome \<Rightarrow> store_view list \<Rightarrow> operation_policy \<Rightarrow> fs_file option option \<Rightarrow> string option result" where
  "required_receipt_failure E found stores p kfile =
     (case kfile of
        None \<Rightarrow> Inr (Some ''receipt_registry_missing'')
      | Some registry \<Rightarrow>
          (case (lo_manifest found, source_of stores found) of
             (Some manifest, Some source) \<Rightarrow>
               (case rbind (manifest_digest manifest) (sv_receipts source) of
                  Inl (StoreReadError _) \<Rightarrow> Inr (Some ''receipt_invalid'')
                | Inl e \<Rightarrow> if is_value_error e then Inr (Some ''receipt_invalid'') else Inl e
                | Inr receipts \<Rightarrow>
                    if receipts = [] then Inr (Some ''receipt_missing'')
                    else check_receipts E registry p manifest receipts [])
           | _ \<Rightarrow> Inr (Some ''receipt_missing'')))"

section \<open>Running the operation\<close>

definition execute_event ::
  "'s call \<Rightarrow> pystr \<Rightarrow> outputs \<Rightarrow> pystr \<Rightarrow> lookup_outcome option \<Rightarrow> bool \<Rightarrow> evaluation_event" where
  "execute_event C digest artifacts reason found kill =
     (new_event ''execute'' digest (operation_name (c_action C))
        (case found of None \<Rightarrow> False | Some l \<Rightarrow> lo_hit l) (case found of None \<Rightarrow> None | Some l \<Rightarrow> lo_tier l)
        (case found of None \<Rightarrow> None | Some l \<Rightarrow> candidate_matches artifacts l)
        (case found of None \<Rightarrow> [] | Some l \<Rightarrow> lo_rejections l) (d_execution (c_durations C)) 0 0 0)
       \<lparr>ev_evaluation_id := c_evaluation_id C, ev_decision_reason := Some reason, ev_kill_switch_active := kill\<rparr>"

definition run_operation ::
  "'s call \<Rightarrow> outputs result \<Rightarrow> int \<Rightarrow> pystr \<Rightarrow> lookup_outcome option \<Rightarrow> bool \<Rightarrow> ('s, execution_outcome) act" where
  "run_operation C execute fresh_until reason found kill =
     abind (ret execute) (\<lambda>artifacts.
     abind (publish_act (c_target C) (c_action C) artifacts (c_producer C) (c_now C) (Some fresh_until)) (\<lambda>_.
     abind (ret (action_digest (c_action C))) (\<lambda>digest.
     abind (emit (execute_event C digest artifacts reason found kill)) (\<lambda>_.
       ret (Inr \<lparr>eo_artifacts = artifacts, eo_substituted = False, eo_reason = reason, eo_lookup = found\<rparr>)))))"

section \<open>Substituting\<close>

definition substitute_event ::
  "'s call \<Rightarrow> pystr \<Rightarrow> pystr \<Rightarrow> lookup_outcome \<Rightarrow> rat \<Rightarrow> string \<Rightarrow> rat \<Rightarrow> evaluation_event" where
  "substitute_event C digest operation found cost reason saved =
     (new_event ''substitute'' digest operation True (lo_tier found) None (lo_rejections found) 0
        (candidate_bytes found) 0 cost)
       \<lparr>ev_lookup_duration_ms := d_lookup (c_durations C), ev_evaluation_id := c_evaluation_id C, ev_substituted := True,
        ev_decision_reason := Some (u reason), ev_estimated_substitution_time_saved_ms := max saved 0\<rparr>"

definition substitute ::
  "'s call \<Rightarrow> lookup_outcome \<Rightarrow> string \<Rightarrow> (pystr \<Rightarrow> evaluation_event) \<Rightarrow> ('s, execution_outcome) act" where
  "substitute C found reason event =
     abind (ret (candidate_outputs found)) (\<lambda>artifacts.
     abind (ret (action_digest (c_action C))) (\<lambda>digest.
     abind (emit (event digest)) (\<lambda>_.
       ret (Inr \<lparr>eo_artifacts = artifacts, eo_substituted = True, eo_reason = u reason, eo_lookup = Some found\<rparr>))))"

section \<open>Deterministic operations\<close>

text \<open>
  The exact-substitution branch: what happens once a policy in that mode was resolved and authorized.
  A resolved policy means that the kill switch is off, so the flag recorded here is False.
\<close>

definition exact_substitute ::
  "ed25519 \<Rightarrow> 's call \<Rightarrow> outputs result \<Rightarrow> operation_policy \<Rightarrow> fs_file option option \<Rightarrow> int \<Rightarrow> ('s, execution_outcome) act" where
  "exact_substitute E C execute p kfile fresh_until =
     abind (asks (\<lambda>s. reuse (c_action C) (c_stores C s) (trust_policy (c_now C) p))) (\<lambda>found.
       if \<not> lo_hit found \<or> lo_manifest found = None
       then run_operation C execute fresh_until (u ''candidate_missing'') (Some found) False
       else if (case lo_tier found of None \<Rightarrow> True | Some tier \<Rightarrow> tier \<notin> op_allowed_tiers p)
       then run_operation C execute fresh_until (u ''tier_denied'') (Some found) False
       else
         abind (if op_receipt_requirement p = u ''required''
                then asks (\<lambda>s. required_receipt_failure E found (c_stores C s) p kfile) else ret (Inr None)) (\<lambda>failure.
           case failure of
             Some reason \<Rightarrow> run_operation C execute fresh_until (u reason) (Some found) False
           | None \<Rightarrow>
               substitute C found ''exact_fresh_hit'' (\<lambda>digest.
                 substitute_event C digest (operation_name (c_action C)) found (c_cost C) ''exact_fresh_hit''
                   (c_time C - d_lookup (c_durations C)))))"

definition execute_deterministic_with_policy ::
  "ed25519 \<Rightarrow> 's call \<Rightarrow> outputs result \<Rightarrow> (pystr \<Rightarrow> pystr option) \<Rightarrow> fs_file option \<Rightarrow> fs_file option option \<Rightarrow> pyval
     \<Rightarrow> int \<Rightarrow> ('s, execution_outcome) act" where
  "execute_deterministic_with_policy E C execute environment policy_file kfile caller freshness_seconds =
     abind (ret (operation_key (c_action C))) (\<lambda>key.
       if key \<notin> set exact_substitution_operations
       then ret (Inl (ValueError ''operation is not approved for exact deterministic substitution''))
       else if freshness_seconds \<le> 0 then ret (Inl (ValueError ''freshness_seconds must be positive''))
       else
         abind (ret (resolve_policy environment policy_file key)) (\<lambda>resolution.
         abind (ret (add_seconds (c_now C)
                  (case pr_policy resolution of
                     None \<Rightarrow> freshness_seconds | Some p \<Rightarrow> min freshness_seconds (op_max_validation_ttl_seconds p))))
           (\<lambda>fresh_until.
           case pr_policy resolution of
             None \<Rightarrow> run_operation C execute fresh_until (pr_reason resolution) None (pr_kill_switch_active resolution)
           | Some p \<Rightarrow>
               abind (ret (authorization_failure (c_action C) p caller)) (\<lambda>failure.
                 case failure of
                   Some reason \<Rightarrow>
                     run_operation C execute fresh_until (u reason) None (pr_kill_switch_active resolution)
                 | None \<Rightarrow>
                     if op_mode p = u ''shadow'' then
                       abind (run_shadow (c_action C) (c_stores C) execute (trust_policy (c_now C) p) (c_cost C)
                                (c_target C) (c_producer C) (Some fresh_until) (c_now C) (c_evaluation_id C) (c_durations C))
                         (\<lambda>shadow. ret (Inr \<lparr>eo_artifacts = so_artifacts shadow, eo_substituted = False,
                                             eo_reason = u ''shadow'', eo_lookup = Some (so_lookup shadow)\<rparr>))
                     else if op_mode p \<noteq> u ''exact-substitute''
                     then run_operation C execute fresh_until (u ''policy_mode_incompatible'') None
                            (pr_kill_switch_active resolution)
                     else exact_substitute E C execute p kfile fresh_until))))"

end
