(* ===== verification/Runtime_Http.thy ===== *)
theory Runtime_Http
  imports Runtime
begin

text \<open>
  HTTP execution under a policy (\<open>execute_http_with_policy\<close> of \<open>runtime.py\<close>) in three branches,
  shadow, stale-while-revalidate and conditional, and the background work that the second one
  schedules (\<open>revalidate_http_candidate\<close> of \<open>revalidation.py\<close>).
\<close>

section \<open>Running in full\<close>

definition execute_full ::
  "url_env \<Rightarrow> transport \<Rightarrow> 's call \<Rightarrow> int \<Rightarrow> pystr \<Rightarrow> lookup_outcome option \<Rightarrow> bool \<Rightarrow> ('s, execution_outcome) act" where
  "execute_full U T C fresh_until reason found kill =
     run_operation C (execute_http_fetch U (c_action C) T) fresh_until reason found kill"

text \<open>The \<open>try\<close> block around the metadata: an unreadable document has no validators.\<close>

definition lenient_validators :: "lookup_outcome \<Rightarrow> (pyval \<times> pyval) result" where
  "lenient_validators found =
     (case read_validators found of
        Inr vs \<Rightarrow> Inr vs
      | Inl e \<Rightarrow> if e = KeyError \<or> e = UnicodeError \<or> e = JSONDecodeError then Inr (PyNone, PyNone) else Inl e)"

section \<open>Stale while revalidate\<close>

text \<open>
  The reason to refuse a candidate by its age: \<open>Inr None\<close> is an eligible stale candidate,
  \<open>Inr (Some None)\<close> a fresh one.
\<close>

definition stale_decision :: "int \<Rightarrow> operation_policy \<Rightarrow> int option \<times> bool \<Rightarrow> string option option" where
  "stale_decision now p boundary =
     (case boundary of
        (_, True) \<Rightarrow> Some (Some ''stale_validation_read_failed'')
      | (None, False) \<Rightarrow> Some (Some ''stale_freshness_missing'')
      | (Some b, False) \<Rightarrow>
          if now - b \<le> 0 then Some None
          else if op_max_stale_seconds p * 1000000 < now - b then Some (Some ''stale_window_exceeded'') else None)"

definition background_of :: "'s call \<Rightarrow> lookup_outcome \<Rightarrow> int \<Rightarrow> background_job" where
  "background_of C found ttl =
     \<lparr>bj_action = c_action C, bj_candidate = found, bj_producer = c_producer C, bj_ttl = ttl,
      bj_evaluation_id = c_evaluation_id C\<rparr>"

text \<open>\<open>revalidation_coordinator.submit(action_digest(action), ...)\<close>: scheduled, coalesced, or an exception.\<close>

definition submit_job :: "(pystr \<Rightarrow> bool result) \<Rightarrow> 's call \<Rightarrow> lookup_outcome \<Rightarrow> int \<Rightarrow> ('s, bool) act" where
  "submit_job coordinator C found ttl w =
     (case rbind (action_digest (c_action C)) (\<lambda>key. rbind (coordinator key) (\<lambda>scheduled. Inr (key, scheduled))) of
        Inl e \<Rightarrow> (w, Inl e)
      | Inr (key, scheduled) \<Rightarrow>
          (if scheduled then w\<lparr>w_jobs := w_jobs w @ [(key, background_of C found ttl)]\<rparr> else w, Inr scheduled))"

definition stale_event :: "'s call \<Rightarrow> lookup_outcome \<Rightarrow> bool \<Rightarrow> pystr \<Rightarrow> evaluation_event" where
  "stale_event C found scheduled digest =
     (substitute_event C digest (u ''http.fetch'') found 0 ''stale_while_revalidate''
        (c_time C - d_lookup (c_durations C)))
       \<lparr>ev_background_revalidation_scheduled := scheduled, ev_background_revalidation_coalesced := \<not> scheduled\<rparr>"

definition serve_stale ::
  "url_env \<Rightarrow> transport \<Rightarrow> 's call \<Rightarrow> operation_policy \<Rightarrow> (pystr \<Rightarrow> bool result) option \<Rightarrow> int \<Rightarrow> int \<Rightarrow> lookup_outcome
     \<Rightarrow> ('s, execution_outcome) act" where
  "serve_stale U T C p coordinator ttl fresh_until found =
     (let full = (\<lambda>reason. execute_full U T C fresh_until (u reason) (Some found) False)
      in abind (ret (lenient_validators found)) (\<lambda>(etag, last_modified).
         if \<not> truthy etag \<and> \<not> truthy last_modified then full ''validator_missing''
         else if c_producer C \<notin> op_trusted_validation_producers p then full ''validator_untrusted''
         else if c_producer C \<notin> op_trusted_result_producers p then full ''refresh_producer_untrusted''
         else
           (case coordinator of
              None \<Rightarrow> full ''revalidation_scheduler_missing''
            | Some submit \<Rightarrow>
                if c_target C = None then full ''revalidation_publish_store_missing''
                else (\<lambda>w.
                  case submit_job submit C found ttl w of
                    (w', Inl e) \<Rightarrow> full ''revalidation_schedule_failed'' w'
                  | (w', Inr scheduled) \<Rightarrow> substitute C found ''stale_while_revalidate'' (stale_event C found scheduled) w'))))"

definition stale_while_revalidate ::
  "url_env \<Rightarrow> transport \<Rightarrow> 's call \<Rightarrow> operation_policy \<Rightarrow> (pystr \<Rightarrow> bool result) option \<Rightarrow> int \<Rightarrow> int
     \<Rightarrow> ('s, execution_outcome) act" where
  "stale_while_revalidate U T C p coordinator ttl fresh_until =
     abind (asks (\<lambda>s. candidate_for_revalidation (c_action C) (c_stores C s) (trust_policy (c_now C) p))) (\<lambda>found.
       if \<not> lo_hit found \<or> lo_manifest found = None
       then execute_full U T C fresh_until (u ''candidate_missing'') (Some found) False
       else if (case lo_tier found of None \<Rightarrow> True | Some tier \<Rightarrow> tier \<notin> op_allowed_tiers p)
       then execute_full U T C fresh_until (u ''tier_denied'') (Some found) False
       else
         abind (asks (\<lambda>s. latest_trusted_freshness found (c_stores C s) p)) (\<lambda>boundary.
           case stale_decision (c_now C) p boundary of
             Some None \<Rightarrow>
               substitute C found ''fresh_hit'' (\<lambda>digest.
                 substitute_event C digest (u ''http.fetch'') found (c_cost C) ''fresh_hit''
                   (c_time C - d_lookup (c_durations C)))
           | Some (Some reason) \<Rightarrow> execute_full U T C fresh_until (u reason) (Some found) False
           | None \<Rightarrow> serve_stale U T C p coordinator ttl fresh_until found))"

section \<open>Conditional substitution\<close>

definition changed_event :: "'s call \<Rightarrow> lookup_outcome \<Rightarrow> outputs \<Rightarrow> pystr \<Rightarrow> evaluation_event" where
  "changed_event C found artifacts digest =
     (new_event ''execute'' digest (u ''http.fetch'') True (lo_tier found) (candidate_matches artifacts found)
        (lo_rejections found) (d_validation (c_durations C)) 0 0 0)
       \<lparr>ev_lookup_duration_ms := d_lookup (c_durations C), ev_evaluation_id := c_evaluation_id C,
        ev_validation_method := Some ''http.conditional/1'', ev_validation_status := Some 200,
        ev_validation_duration_ms := d_validation (c_durations C), ev_decision_reason := Some (u ''source_changed'')\<rparr>"

definition unchanged_event :: "'s call \<Rightarrow> lookup_outcome \<Rightarrow> pystr \<Rightarrow> evaluation_event" where
  "unchanged_event C found digest =
     (substitute_event C digest (u ''http.fetch'') found (c_cost C) ''conditional_304''
        (c_time C - d_lookup (c_durations C) - d_validation (c_durations C)))
       \<lparr>ev_validation_method := Some ''http.conditional/1'', ev_validation_status := Some 304,
        ev_validation_duration_ms := d_validation (c_durations C), ev_validation_recorded := c_target C \<noteq> None\<rparr>"

text \<open>What follows the conditional response.\<close>

definition conditional_response ::
  "url_env \<Rightarrow> 's call \<Rightarrow> int \<Rightarrow> lookup_outcome \<Rightarrow> pyval \<Rightarrow> pyval \<Rightarrow> pyval \<Rightarrow> fetch_response \<Rightarrow> ('s, execution_outcome) act" where
  "conditional_response U C fresh_until found manifest etag last_modified response =
     (if fr_status response = 200 then
        abind (ret (response_to_artifacts U (c_action C) response)) (\<lambda>artifacts.
        abind (publish_act (c_target C) (c_action C) artifacts (c_producer C) (c_now C) (Some fresh_until)) (\<lambda>_.
        abind (ret (action_digest (c_action C))) (\<lambda>digest.
        abind (emit (changed_event C found artifacts digest)) (\<lambda>_.
          ret (Inr \<lparr>eo_artifacts = artifacts, eo_substituted = False, eo_reason = u ''source_changed'',
                    eo_lookup = Some found\<rparr>)))))
      else if fr_status response \<noteq> 304 then ret (Inl (ValueError ''unexpected conditional response status''))
      else
        abind (put_validation_act (c_target C)
                 (validation_record manifest (c_now C) fresh_until (c_producer C) etag last_modified)) (\<lambda>_.
          substitute C found ''conditional_304'' (unchanged_event C found)))"

definition conditional_substitute ::
  "url_env \<Rightarrow> transport \<Rightarrow> 's call \<Rightarrow> operation_policy \<Rightarrow> int \<Rightarrow> ('s, execution_outcome) act" where
  "conditional_substitute U T C p fresh_until =
     abind (asks (\<lambda>s. candidate_for_revalidation (c_action C) (c_stores C s) (trust_policy (c_now C) p))) (\<lambda>found.
       case lo_manifest found of
         None \<Rightarrow> execute_full U T C fresh_until (u ''candidate_missing'') (Some found) False
       | Some manifest \<Rightarrow>
           if \<not> lo_hit found then execute_full U T C fresh_until (u ''candidate_missing'') (Some found) False
           else if (case lo_tier found of None \<Rightarrow> True | Some tier \<Rightarrow> tier \<notin> op_allowed_tiers p)
           then execute_full U T C fresh_until (u ''tier_denied'') (Some found) False
           else if c_producer C \<notin> op_trusted_validation_producers p
           then execute_full U T C fresh_until (u ''validator_untrusted'') (Some found) False
           else
             abind (ret (lenient_validators found)) (\<lambda>(etag, last_modified).
               if \<not> truthy etag \<and> \<not> truthy last_modified
               then execute_full U T C fresh_until (u ''validator_missing'') (Some found) False
               else
                 abind (ret (conditional_get (c_action C) T etag last_modified)) (\<lambda>response.
                   conditional_response U C fresh_until found manifest etag last_modified response)))"

section \<open>\<open>execute_http_with_policy\<close>\<close>

text \<open>The policy's branches, once it was resolved and the caller authorized.\<close>

definition http_by_mode ::
  "url_env \<Rightarrow> transport \<Rightarrow> 's call \<Rightarrow> operation_policy \<Rightarrow> (pystr \<Rightarrow> bool result) option \<Rightarrow> int \<Rightarrow> int
     \<Rightarrow> ('s, execution_outcome) act" where
  "http_by_mode U T C p coordinator ttl fresh_until =
     (if op_mode p = u ''shadow'' then
        abind (run_conditional_http_shadow U (c_action C) (c_stores C) T (trust_policy (c_now C) p) (c_cost C) (c_target C)
                 (c_producer C) fresh_until (c_now C) (c_evaluation_id C) (u ''shadow'') (c_durations C)) (\<lambda>shadow.
          ret (Inr \<lparr>eo_artifacts = so_artifacts shadow, eo_substituted = False, eo_reason = u ''shadow'',
                    eo_lookup = Some (so_lookup shadow)\<rparr>))
      else if op_mode p = u ''stale-while-revalidate'' then stale_while_revalidate U T C p coordinator ttl fresh_until
      else conditional_substitute U T C p fresh_until)"

definition execute_http_with_policy ::
  "url_env \<Rightarrow> transport \<Rightarrow> 's call \<Rightarrow> (pystr \<Rightarrow> pystr option) \<Rightarrow> fs_file option \<Rightarrow> pyval
     \<Rightarrow> (pystr \<Rightarrow> bool result) option \<Rightarrow> int \<Rightarrow> ('s, execution_outcome) act" where
  "execute_http_with_policy U T C environment policy_file caller coordinator validation_ttl_seconds =
     abind (ret (check_http_fetch (c_action C) ''policy runtime currently supports http.fetch/1 only'')) (\<lambda>_.
       if validation_ttl_seconds \<le> 0 then ret (Inl (ValueError ''validation_ttl_seconds must be positive''))
       else
         abind (ret (operation_key (c_action C))) (\<lambda>key.
         abind (ret (resolve_policy environment policy_file key)) (\<lambda>resolution.
         let ttl = (case pr_policy resolution of
                      None \<Rightarrow> validation_ttl_seconds | Some p \<Rightarrow> min validation_ttl_seconds (op_max_validation_ttl_seconds p))
         in abind (ret (add_seconds (c_now C) ttl)) (\<lambda>fresh_until.
              case pr_policy resolution of
                None \<Rightarrow>
                  execute_full U T C fresh_until (pr_reason resolution) None (pr_kill_switch_active resolution)
              | Some p \<Rightarrow>
                  abind (ret (authorization_failure (c_action C) p caller)) (\<lambda>failure.
                    case failure of
                      Some reason \<Rightarrow> execute_full U T C fresh_until (u reason) None False
                    | None \<Rightarrow> http_by_mode U T C p coordinator ttl fresh_until)))))"

section \<open>Background revalidation\<close>

text \<open>The variables of \<open>revalidate_http_candidate\<close> when its \<open>try\<close> block ends, by return or exception.\<close>

record revalidation =
  rv_status :: "int option"
  rv_recorded :: bool
  rv_reason :: string
  rv_match :: "bool option"

definition background_failed :: "int option \<Rightarrow> bool option \<Rightarrow> revalidation" where
  "background_failed status m = \<lparr>rv_status = status, rv_recorded = False, rv_reason = ''background_failed'', rv_match = m\<rparr>"

definition background_request :: "transport \<Rightarrow> background_job \<Rightarrow> (pyval \<times> pyval \<times> pyval \<times> fetch_response) result" where
  "background_request T j =
     (case lo_manifest (bj_candidate j) of
        None \<Rightarrow> Inl (ValueError ''background candidate has no manifest'')
      | Some manifest \<Rightarrow>
          rbind (read_validators (bj_candidate j)) (\<lambda>(etag, last_modified).
            if \<not> truthy etag \<and> \<not> truthy last_modified then Inl (ValueError ''background candidate has no validator'')
            else rbind (conditional_get (bj_action j) T etag last_modified) (\<lambda>response.
                   Inr (manifest, etag, last_modified, response))))"

definition background_outcome ::
  "url_env \<Rightarrow> transport \<Rightarrow> background_job \<Rightarrow> 's store_ops \<Rightarrow> int \<Rightarrow> 's world \<Rightarrow> 's world \<times> revalidation" where
  "background_outcome U T j ops observed w =
     (case background_request T j of
        Inl e \<Rightarrow> (w, background_failed None None)
      | Inr (manifest, etag, last_modified, response) \<Rightarrow>
          (let status = Some (fr_status response)
           in case add_seconds observed (bj_ttl j) of
                Inl e \<Rightarrow> (w, background_failed status None)
              | Inr fresh_until \<Rightarrow>
                  if fr_status response = 304 then
                    (case put_validation_act (Some ops)
                            (validation_record manifest observed fresh_until (bj_producer j) etag last_modified) w of
                       (w', Inl e) \<Rightarrow> (w', background_failed status None)
                     | (w', Inr _) \<Rightarrow>
                         (w', \<lparr>rv_status = status, rv_recorded = True, rv_reason = ''background_not_modified'', rv_match = None\<rparr>))
                  else if fr_status response = 200 then
                    (case response_to_artifacts U (bj_action j) response of
                       Inl e \<Rightarrow> (w, background_failed status None)
                     | Inr artifacts \<Rightarrow>
                         (let m = candidate_matches artifacts (bj_candidate j)
                          in case publish_act (Some ops) (bj_action j) artifacts (bj_producer j) observed (Some fresh_until) w of
                               (w', Inl e) \<Rightarrow> (w', background_failed status m)
                             | (w', Inr _) \<Rightarrow>
                                 (w', \<lparr>rv_status = status, rv_recorded = False, rv_reason = ''background_source_changed'',
                                       rv_match = m\<rparr>)))
                  else (w, background_failed status None)))"

definition background_event :: "pystr \<Rightarrow> background_job \<Rightarrow> rat \<Rightarrow> revalidation \<Rightarrow> evaluation_event" where
  "background_event digest j duration r =
     (new_event ''background-revalidate'' digest (u ''http.fetch'') True (lo_tier (bj_candidate j)) (rv_match r)
        (lo_rejections (bj_candidate j)) duration 0 0 0)
       \<lparr>ev_evaluation_id := bj_evaluation_id j, ev_validation_method := Some ''http.conditional/1'',
        ev_validation_status := rv_status r, ev_validation_duration_ms := duration,
        ev_validation_recorded := rv_recorded r, ev_decision_reason := Some (u (rv_reason r))\<rparr>"

definition revalidate_http_candidate ::
  "url_env \<Rightarrow> transport \<Rightarrow> background_job \<Rightarrow> 's store_ops \<Rightarrow> int \<Rightarrow> rat \<Rightarrow> ('s, unit) act" where
  "revalidate_http_candidate U T j ops observed duration w =
     (case background_outcome U T j ops observed w of
        (w', r) \<Rightarrow>
          abind (ret (action_digest (bj_action j))) (\<lambda>digest. emit (background_event digest j duration r)) w')"

end
