(* ===== verification/Evaluation.thy ===== *)
theory Evaluation
  imports Decimals Safe_Http Document_Adapters Runtime_Http
begin

text \<open>
  The evaluation runner and its reports (\<open>evaluation.py\<close>). A run visits every URL of the manifest, repetition after
  repetition; the n-th visit has its own clock reading, durations and transport. The events are the contents of the metrics
  file, which is only appended to; a report reads those of one evaluation. Costs and rates are rational numbers,
  where the code turns their texts into floats.
\<close>

section \<open>The manifest\<close>

definition evaluation_fields :: "string list" where
  "evaluation_fields = [''spec_version'', ''name'', ''allowed_hosts'', ''repetitions'', ''request_delay_ms'', ''urls'', ''promotion'']"

definition decimal_text :: "pyval \<Rightarrow> string \<Rightarrow> decimal result" where
  "decimal_text v message =
     (if is_str v \<and> is_decimal (str_of v) then Inr (decimal_of (str_of v)) else Inl (ValueError message))"

text \<open>\<open>urlsplit\<close> takes a false value for the empty URL; another value that is no string has no \<open>decode\<close>.\<close>

definition normalize_url_value :: "url_env \<Rightarrow> pyval \<Rightarrow> pystr result" where
  "normalize_url_value U v =
     (if is_str v then normalize_https_url U (str_of v)
      else if \<not> truthy v then Inl (ValueError ''http.fetch/v1 permits HTTPS URLs only'') else Inl AttributeError)"

definition validate_url_entry :: "url_env \<Rightarrow> pystr list \<Rightarrow> pyval \<Rightarrow> unit result" where
  "validate_url_entry U hosts v =
     seq (guard (exact_keys v [''url'', ''accept'', ''freshness_seconds'', ''estimated_fetch_cost'']) (ValueError ''URL entry must contain exactly''))
     (rbind (normalize_url_value U (item v ''url'')) (\<lambda>normalized.
      rbind (urlsplit U normalized) (\<lambda>parsed.
      first_error
        [guard (lower U (or_empty (hostname U parsed)) \<in> set hosts) (ValueError ''every URL host must appear in allowed_hosts''),
         guard (nonempty_str (item v ''accept'')) (ValueError ''accept must not be empty''),
         guard (positive_int (item v ''freshness_seconds'')) (ValueError ''freshness_seconds must be positive''),
         discard (decimal_text (item v ''estimated_fetch_cost'') ''estimated_fetch_cost must be a non-negative decimal string'')])))"

definition counter_ok :: "pyval \<Rightarrow> bool" where
  "counter_ok v \<longleftrightarrow> is_int v \<and> 0 \<le> int_of v"

definition validate_promotion :: "pyval \<Rightarrow> unit result" where
  "validate_promotion v =
     seq (first_error
       [guard (exact_keys v [''minimum_candidate_hits'', ''maximum_mismatches'', ''minimum_candidate_match_rate''])
          (ValueError ''promotion must contain exactly''),
        guard (counter_ok (item v ''minimum_candidate_hits'')) (ValueError ''minimum_candidate_hits must be a non-negative integer''),
        guard (counter_ok (item v ''maximum_mismatches'')) (ValueError ''maximum_mismatches must be a non-negative integer'')])
     (rbind (decimal_text (item v ''minimum_candidate_match_rate'') ''minimum_candidate_match_rate must be a decimal string'') (\<lambda>match_rate.
      guard (dec_le (whole 0) match_rate \<and> dec_le match_rate (whole 1))
        (ValueError ''minimum_candidate_match_rate must be between zero and one'')))"

definition validate_evaluation_manifest :: "url_env \<Rightarrow> pyval \<Rightarrow> unit result" where
  "validate_evaluation_manifest U v =
     seq (first_error
       [guard (exact_keys v evaluation_fields) (ValueError ''evaluation manifest must contain exactly''),
        guard (item v ''spec_version'' = S ''oncemesh.evaluation/v0'') (ValueError ''unsupported evaluation spec_version''),
        guard (nonempty_str (item v ''name'')) (ValueError ''evaluation name must not be empty''),
        guard (int_between (item v ''repetitions'') 1 100) (ValueError ''repetitions must be an integer from 1 through 100''),
        guard (int_between (item v ''request_delay_ms'') 0 60000) (ValueError ''request_delay_ms must be an integer from 0 through 60000''),
        guard (is_list (item v ''allowed_hosts'') \<and> items_of (item v ''allowed_hosts'') \<noteq> [] \<and> list_all nonempty_str (items_of (item v ''allowed_hosts'')))
          (ValueError ''allowed_hosts must be a non-empty string array'')])
     (rbind (safe_host_list U (map str_of (items_of (item v ''allowed_hosts'')))) (\<lambda>hosts.
      first_error
        [guard (distinct hosts) (ValueError ''allowed_hosts must be unique after normalization''),
         guard (is_list (item v ''urls'') \<and> items_of (item v ''urls'') \<noteq> [] \<and> length (items_of (item v ''urls'')) \<le> 1000)
           (ValueError ''urls must contain from 1 through 1000 entries''),
         first_error (map (validate_url_entry U hosts) (items_of (item v ''urls''))),
         validate_promotion (item v ''promotion'')]))"

section \<open>Reports\<close>

definition events_of :: "pystr \<Rightarrow> evaluation_event list \<Rightarrow> evaluation_event list" where
  "events_of evaluation_id es = filter (\<lambda>e. ev_evaluation_id e = Some evaluation_id) es"

record evaluation_report =
  er_spec_version :: string
  er_evaluation_id :: pystr
  er_workload :: pystr
  er_expected :: int
  er_summary :: "flat_summary \<times> (pystr \<times> flat_summary) list"
  er_checks :: "(string \<times> bool) list"
  er_ready :: bool

definition expected_visits :: "pyval \<Rightarrow> int" where
  "expected_visits v = int_of (item v ''repetitions'') * int (length (items_of (item v ''urls'')))"

definition make_report ::
  "url_env \<Rightarrow> pyval \<Rightarrow> string \<Rightarrow> int \<Rightarrow> evaluation_event list \<Rightarrow> pystr \<Rightarrow> (flat_summary \<Rightarrow> (string \<times> bool) list) \<Rightarrow> evaluation_report result" where
  "make_report U v version expected es evaluation_id checks =
     seq (validate_evaluation_manifest U v)
       (let summary = summarize (events_of evaluation_id es)
        in Inr \<lparr>er_spec_version = version, er_evaluation_id = evaluation_id, er_workload = str_of (item v ''name''), er_expected = expected,
                er_summary = summary, er_checks = checks (fst summary), er_ready = list_all snd (checks (fst summary))\<rparr>)"

definition promotion_report :: "url_env \<Rightarrow> pyval \<Rightarrow> evaluation_event list \<Rightarrow> pystr \<Rightarrow> evaluation_report result" where
  "promotion_report U v es evaluation_id =
     (let expected = expected_visits v * 2; thresholds = item v ''promotion'' in
      make_report U v ''oncemesh.evaluation-report/v0'' expected es evaluation_id (\<lambda>s.
        [(''evaluation_complete'', su_evaluations s = expected),
         (''minimum_candidate_hits'', int_of (item thresholds ''minimum_candidate_hits'') \<le> su_candidate_hits s),
         (''maximum_mismatches'', su_candidate_mismatches s \<le> int_of (item thresholds ''maximum_mismatches'')),
         (''minimum_candidate_match_rate'',
            dec_val (decimal_of (str_of (item thresholds ''minimum_candidate_match_rate''))) \<le> su_candidate_match_rate s),
         (''all_hits_compared'', su_candidate_hits s = su_verified_matches s + su_candidate_mismatches s)]))"

definition revalidation_report :: "url_env \<Rightarrow> pyval \<Rightarrow> evaluation_event list \<Rightarrow> pystr \<Rightarrow> evaluation_report result" where
  "revalidation_report U v es evaluation_id =
     (let expected = expected_visits v in
      make_report U v ''oncemesh.revalidation-report/v0'' expected es evaluation_id (\<lambda>s.
        [(''evaluation_complete'', su_evaluations s = expected),
         (''all_candidates_found'', su_candidate_hits s = expected),
         (''all_candidates_compared'', su_verified_matches s + su_candidate_mismatches s = su_candidate_hits s),
         (''zero_mismatches'', su_candidate_mismatches s = 0),
         (''conditional_validation_observed'', 0 < su_conditional_not_modified s),
         (''every_304_recorded'', su_validations_recorded s = su_conditional_not_modified s)]))"

definition substitution_report :: "url_env \<Rightarrow> pyval \<Rightarrow> evaluation_event list \<Rightarrow> pystr \<Rightarrow> evaluation_report result" where
  "substitution_report U v es evaluation_id =
     (let expected = expected_visits v in
      make_report U v ''oncemesh.substitution-report/v0'' expected es evaluation_id (\<lambda>s.
        [(''evaluation_complete'', su_evaluations s = expected),
         (''every_operation_substituted'', su_substitutions s = expected),
         (''every_source_not_modified'', su_conditional_not_modified s = expected),
         (''no_kill_switch_activation'', su_kill_switch_activations s = 0),
         (''only_conditional_304_decisions'', su_decision_reasons s = [(u ''conditional_304'', expected)])]))"

definition exact_substitution_report :: "url_env \<Rightarrow> pyval \<Rightarrow> evaluation_event list \<Rightarrow> pystr \<Rightarrow> evaluation_report result" where
  "exact_substitution_report U v es evaluation_id =
     (let expected = expected_visits v in
      make_report U v ''oncemesh.exact-substitution-report/v0'' expected es evaluation_id (\<lambda>s.
        [(''evaluation_complete'', su_evaluations s = expected),
         (''every_operation_substituted'', su_substitutions s = expected),
         (''no_kill_switch_activation'', su_kill_switch_activations s = 0),
         (''only_exact_fresh_hit_decisions'', su_decision_reasons s = [(u ''exact_fresh_hit'', expected)])]))"

section \<open>Visits\<close>

text \<open>What the outside world is during a run: the n-th reading of the clock, the durations of the n-th visit, the transport it meets,
  and the environment and files it reads.\<close>

record run_env =
  re_url :: url_env
  re_transport :: "nat \<Rightarrow> transport"
  re_now :: "nat \<Rightarrow> int"
  re_first_times :: "nat \<Rightarrow> durations"
  re_second_times :: "nat \<Rightarrow> durations"
  re_parser :: "pystr \<Rightarrow> html_call list"
  re_pdf :: pdf_library
  re_environment :: "nat \<Rightarrow> pystr \<Rightarrow> pystr option"
  re_policy_file :: "nat \<Rightarrow> fs_file option"
  re_key_file :: "nat \<Rightarrow> fs_file option option"
  re_signatures :: ed25519

record 's run_stores =
  rs_view :: "'s \<Rightarrow> store_view list"
  rs_store :: "'s store_ops"

definition visits :: "pyval \<Rightarrow> pyval list" where
  "visits v = concat (replicate (nat (int_of (item v ''repetitions''))) (items_of (item v ''urls'')))"

fun visit_all :: "(nat \<Rightarrow> pyval \<Rightarrow> ('s, unit) act) \<Rightarrow> nat \<Rightarrow> pyval list \<Rightarrow> ('s, unit) act" where
  "visit_all f n [] = ret (Inr ())"
| "visit_all f n (x # xs) = abind (f n x) (\<lambda>_. visit_all f (Suc n) xs)"

definition entry_cost :: "pyval \<Rightarrow> rat" where
  "entry_cost entry = dec_val (decimal_of (str_of (item entry ''estimated_fetch_cost'')))"

text \<open>\<open>build_http_fetch_action(item["url"], accept=item["accept"])\<close> with the defaults of the other arguments.\<close>

definition entry_action :: "url_env \<Rightarrow> pyval \<Rightarrow> pyval result" where
  "entry_action U entry =
     build_http_fetch_action U (str_of (item entry ''url'')) (str_of (item entry ''accept'')) True (PyInt 10000000) PyNone"

definition body_of :: "outputs \<Rightarrow> (bytes \<times> pystr) result" where
  "body_of outputs = (case al_get outputs (u ''body'') of None \<Rightarrow> Inl KeyError | Some found \<Rightarrow> Inr found)"

definition shadow_visit ::
  "'s run_stores \<Rightarrow> pystr \<Rightarrow> pyval \<Rightarrow> outputs result \<Rightarrow> rat \<Rightarrow> int \<Rightarrow> int \<Rightarrow> durations \<Rightarrow> ('s, shadow_outcome) act" where
  "shadow_visit G evaluation_id action execute cost fresh_until now d =
     run_shadow action (rs_view G) execute (default_policy now) cost (Some (rs_store G)) (u ''evaluation:local'') (Some fresh_until) now
       (Some evaluation_id) d"

text \<open>Fetch, then convert what was fetched.\<close>

definition fetch_visit :: "run_env \<Rightarrow> 's run_stores \<Rightarrow> pystr \<Rightarrow> nat \<Rightarrow> pyval \<Rightarrow> ('s, int \<times> bytes \<times> pystr) act" where
  "fetch_visit R G evaluation_id n entry =
     abind (ret (add_seconds (re_now R n) (int_of (item entry ''freshness_seconds'')))) (\<lambda>fresh_until.
     abind (ret (entry_action (re_url R) entry)) (\<lambda>action.
     abind (shadow_visit G evaluation_id action (execute_http_fetch (re_url R) action (re_transport R n)) (entry_cost entry)
              fresh_until (re_now R n) (re_first_times R n)) (\<lambda>fetched.
     abind (ret (body_of (so_artifacts fetched))) (\<lambda>(body, media_type).
       ret (Inr (fresh_until, body, media_type))))))"

definition html_visit :: "run_env \<Rightarrow> 's run_stores \<Rightarrow> pystr \<Rightarrow> nat \<Rightarrow> pyval \<Rightarrow> ('s, unit) act" where
  "html_visit R G evaluation_id n entry =
     abind (fetch_visit R G evaluation_id n entry) (\<lambda>(fresh_until, body, media_type).
     if \<not> starts_with (u ''text/html'') (lower (re_url R) media_type) then ret (Inl (ValueError ''evaluation URL did not return HTML content''))
     else
       abind (shadow_visit G evaluation_id (build_html_to_markdown_action body media_type)
                (html_to_markdown_artifacts (re_parser R) body) 0 fresh_until (re_now R n) (re_second_times R n)) (\<lambda>_.
         ret (Inr ())))"

definition pdf_action :: "run_env \<Rightarrow> bytes \<Rightarrow> pystr \<Rightarrow> pyval result" where
  "pdf_action R body media_type =
     (if media_essence (re_url R) media_type \<noteq> u ''application/pdf'' then Inl (ValueError ''evaluation URL did not return PDF content'')
      else build_pdf_to_text_action (re_url R) (re_pdf R) body media_type (PyInt 1000) (PyInt 50000000) None PyNone)"

definition pdf_visit :: "run_env \<Rightarrow> 's run_stores \<Rightarrow> pystr \<Rightarrow> nat \<Rightarrow> pyval \<Rightarrow> ('s, unit) act" where
  "pdf_visit R G evaluation_id n entry =
     abind (fetch_visit R G evaluation_id n entry) (\<lambda>(fresh_until, body, media_type).
     abind (ret (pdf_action R body media_type)) (\<lambda>action.
     abind (shadow_visit G evaluation_id action (pdf_to_text_artifacts (re_url R) (re_pdf R) action body) 0 fresh_until
              (re_now R n) (re_second_times R n)) (\<lambda>_.
       ret (Inr ()))))"

definition visit_call :: "run_env \<Rightarrow> 's run_stores \<Rightarrow> pystr \<Rightarrow> nat \<Rightarrow> pyval \<Rightarrow> rat \<Rightarrow> durations \<Rightarrow> 's call" where
  "visit_call R G evaluation_id n action cost d =
     \<lparr>c_action = action, c_stores = rs_view G, c_target = Some (rs_store G), c_producer = u ''runtime:local'', c_now = re_now R n,
      c_evaluation_id = Some evaluation_id, c_cost = cost, c_time = 0, c_durations = d\<rparr>"

definition pdf_substitution_visit :: "run_env \<Rightarrow> 's run_stores \<Rightarrow> pystr \<Rightarrow> nat \<Rightarrow> pyval \<Rightarrow> ('s, unit) act" where
  "pdf_substitution_visit R G evaluation_id n entry =
     abind (ret (entry_action (re_url R) entry)) (\<lambda>fetch_action.
     abind (ret (rbind (execute_http_fetch (re_url R) fetch_action (re_transport R n)) body_of)) (\<lambda>(body, media_type).
     abind (ret (pdf_action R body media_type)) (\<lambda>action.
     abind (execute_deterministic_with_policy (re_signatures R) (visit_call R G evaluation_id n action 0 (re_second_times R n))
              (pdf_to_text_artifacts (re_url R) (re_pdf R) action body) (re_environment R n) (re_policy_file R n) (re_key_file R n) PyNone
              (int_of (item entry ''freshness_seconds''))) (\<lambda>_.
       ret (Inr ())))))"

definition revalidation_visit :: "run_env \<Rightarrow> 's run_stores \<Rightarrow> pystr \<Rightarrow> nat \<Rightarrow> pyval \<Rightarrow> ('s, unit) act" where
  "revalidation_visit R G evaluation_id n entry =
     abind (ret (add_seconds (re_now R n) (int_of (item entry ''freshness_seconds'')))) (\<lambda>fresh_until.
     abind (ret (entry_action (re_url R) entry)) (\<lambda>action.
     abind (run_conditional_http_shadow (re_url R) action (rs_view G) (re_transport R n) (default_policy (re_now R n)) (entry_cost entry)
              (Some (rs_store G)) (u ''evaluation:local'') fresh_until (re_now R n) (Some evaluation_id) (u ''shadow'') (re_first_times R n)) (\<lambda>_.
       ret (Inr ()))))"

definition substitution_visit :: "run_env \<Rightarrow> 's run_stores \<Rightarrow> pystr \<Rightarrow> nat \<Rightarrow> pyval \<Rightarrow> ('s, unit) act" where
  "substitution_visit R G evaluation_id n entry =
     abind (ret (entry_action (re_url R) entry)) (\<lambda>action.
     abind (execute_http_with_policy (re_url R) (re_transport R n)
              (visit_call R G evaluation_id n action (entry_cost entry) (re_first_times R n))
              (re_environment R n) (re_policy_file R n) PyNone None (int_of (item entry ''freshness_seconds''))) (\<lambda>_.
       ret (Inr ())))"

section \<open>Runs\<close>

definition run_visits ::
  "url_env \<Rightarrow> pyval \<Rightarrow> (nat \<Rightarrow> pyval \<Rightarrow> ('s, unit) act) \<Rightarrow> (evaluation_event list \<Rightarrow> evaluation_report result) \<Rightarrow> ('s, evaluation_report) act" where
  "run_visits U v visit report =
     abind (ret (validate_evaluation_manifest U v)) (\<lambda>_.
     abind (visit_all visit 0 (visits v)) (\<lambda>_ w. (w, report (w_events w))))"

definition run_evaluation :: "run_env \<Rightarrow> 's run_stores \<Rightarrow> pyval \<Rightarrow> pystr \<Rightarrow> ('s, evaluation_report) act" where
  "run_evaluation R G v evaluation_id =
     run_visits (re_url R) v (html_visit R G evaluation_id) (\<lambda>es. promotion_report (re_url R) v es evaluation_id)"

definition run_pdf_evaluation :: "run_env \<Rightarrow> 's run_stores \<Rightarrow> pyval \<Rightarrow> pystr \<Rightarrow> ('s, evaluation_report) act" where
  "run_pdf_evaluation R G v evaluation_id =
     run_visits (re_url R) v (pdf_visit R G evaluation_id) (\<lambda>es. promotion_report (re_url R) v es evaluation_id)"

definition run_pdf_substitution_evaluation :: "run_env \<Rightarrow> 's run_stores \<Rightarrow> pyval \<Rightarrow> pystr \<Rightarrow> ('s, evaluation_report) act" where
  "run_pdf_substitution_evaluation R G v evaluation_id =
     run_visits (re_url R) v (pdf_substitution_visit R G evaluation_id) (\<lambda>es. exact_substitution_report (re_url R) v es evaluation_id)"

definition run_revalidation_evaluation :: "run_env \<Rightarrow> 's run_stores \<Rightarrow> pyval \<Rightarrow> pystr \<Rightarrow> ('s, evaluation_report) act" where
  "run_revalidation_evaluation R G v evaluation_id =
     run_visits (re_url R) v (revalidation_visit R G evaluation_id) (\<lambda>es. revalidation_report (re_url R) v es evaluation_id)"

definition run_substitution_evaluation :: "run_env \<Rightarrow> 's run_stores \<Rightarrow> pyval \<Rightarrow> pystr \<Rightarrow> ('s, evaluation_report) act" where
  "run_substitution_evaluation R G v evaluation_id =
     run_visits (re_url R) v (substitution_visit R G evaluation_id) (\<lambda>es. substitution_report (re_url R) v es evaluation_id)"

end
