(* ===== verification/Runtime_Cases.thy ===== *)
theory Runtime_Cases
  imports Runtime_Http Admissible Raises
begin

text \<open>
  How an execution under a policy can end. Each function of the runtime that returns an outcome
  either ran the operation (\<open>ran\<close>) or substituted a candidate (\<open>substituted\<close>); the lemmas here
  say which conditions hold in each case, and that either way one event was recorded.
\<close>

section \<open>The two ways to end\<close>

text \<open>
  The operation was run: the outcome carries its output and the one new event says so.
\<close>

definition ran :: "'s call \<Rightarrow> outputs result \<Rightarrow> 's world \<Rightarrow> 's world \<Rightarrow> execution_outcome \<Rightarrow> bool" where
  "ran C execute w w' r \<longleftrightarrow>
     execute = Inr (eo_artifacts r) \<and> \<not> eo_substituted r
     \<and> (\<exists>e. w_events w' = w_events w @ [e] \<and> event_ok e \<and> \<not> ev_substituted e
          \<and> (ev_decision_reason e = Some (eo_reason r) \<or> eo_reason r = u ''shadow'')
          \<and> action_digest (c_action C) = Inr (ev_action_digest e))
     \<and> (c_target C = None \<longrightarrow> w_store w' = w_store w)"

text \<open>A candidate was substituted: nothing was run, and the one new event says so.\<close>

definition substituted :: "'s call \<Rightarrow> lookup_outcome \<Rightarrow> 's world \<Rightarrow> 's world \<Rightarrow> execution_outcome \<Rightarrow> bool" where
  "substituted C found w w' r \<longleftrightarrow>
     candidate_outputs found = Inr (eo_artifacts r) \<and> eo_substituted r \<and> eo_lookup r = Some found
     \<and> (\<exists>e. w_events w' = w_events w @ [e] \<and> event_ok e \<and> ev_substituted e \<and> ev_decision_reason e = Some (eo_reason r)
          \<and> ev_candidate_hit e \<and> action_digest (c_action C) = Inr (ev_action_digest e))"

lemma act_case_Inr:
  "(case r of Inl e \<Rightarrow> (w, Inl e) | Inr x \<Rightarrow> g x) = (w', Inr y) \<longleftrightarrow> (\<exists>x. r = Inr x \<and> g x = (w', Inr y))"
  by (cases r) auto

lemmas act_Inr = abind_Inr act_case_Inr

lemma candidate_matches_hit: "candidate_matches actual found \<noteq> None \<Longrightarrow> lo_hit found"
  by (auto simp: candidate_matches_def split: option.splits if_splits)

lemma total_bytes_nonneg: "0 \<le> total_bytes actual" "0 \<le> candidate_bytes found"
  by (auto simp: total_bytes_def candidate_bytes_def intro!: sum_list_nonneg)

lemma event_ok_execute: "event_ok (execute_event C digest artifacts reason found kill)"
  using candidate_matches_hit [of artifacts] by (auto simp: event_ok_def execute_event_def new_event_def split: option.splits)

lemma event_ok_shadow: "event_ok (shadow_event digest action found actual cost evaluation_id d)"
  using candidate_matches_hit [of actual found] total_bytes_nonneg
  by (auto simp: event_ok_def shadow_event_def new_event_def Let_def)

lemma event_ok_substitute: "event_ok (substitute_event C digest operation found cost reason saved)"
  using total_bytes_nonneg by (simp add: event_ok_def substitute_event_def new_event_def)

lemma publish_act_frame:
  "publish_act target action artifacts producer t until_t w = (w', r) \<Longrightarrow>
     w_events w' = w_events w \<and> w_jobs w' = w_jobs w \<and> (target = None \<longrightarrow> w_store w' = w_store w)"
  by (auto simp: publish_act_def split: option.splits prod.splits)

lemma put_validation_act_frame:
  "put_validation_act target v w = (w', r) \<Longrightarrow>
     w_events w' = w_events w \<and> w_jobs w' = w_jobs w \<and> (target = None \<longrightarrow> w_store w' = w_store w)"
  by (auto simp: put_validation_act_def split: option.splits sum.splits)

lemma run_operation_ran:
  assumes "run_operation C execute f reason found kill w = (w', Inr r)"
  shows "ran C execute w w' r \<and> eo_reason r = reason \<and> eo_lookup r = found \<and> w_jobs w' = w_jobs w"
proof -
  from assms obtain artifacts w1 digest where e: "execute = Inr artifacts" "action_digest (c_action C) = Inr digest"
      "publish_act (c_target C) (c_action C) artifacts (c_producer C) (c_now C) (Some f) w = (w1, Inr ())"
      "w' = w1\<lparr>w_events := w_events w1 @ [execute_event C digest artifacts reason found kill]\<rparr>"
      "r = \<lparr>eo_artifacts = artifacts, eo_substituted = False, eo_reason = reason, eo_lookup = found\<rparr>"
    by (auto simp: run_operation_def act_Inr)
  from publish_act_frame [OF e(3)] e show ?thesis
    using event_ok_execute by (auto simp: ran_def) (auto simp: execute_event_def new_event_def)
qed

lemma substitute_event_simps [simp]:
  "ev_substituted (substitute_event C digest operation found cost reason saved)"
  "ev_decision_reason (substitute_event C digest operation found cost reason saved) = Some (u reason)"
  "ev_candidate_hit (substitute_event C digest operation found cost reason saved)"
  "ev_action_digest (substitute_event C digest operation found cost reason saved) = digest"
  "event_ok (substitute_event C digest operation found cost reason saved)"
  by (simp_all add: event_ok_substitute,  simp_all add: substitute_event_def new_event_def)

lemma substitute_Inr:
  assumes "substitute C found reason event w = (w', Inr r)"
    and "\<And>digest. ev_substituted (event digest) \<and> ev_decision_reason (event digest) = Some (u reason)
           \<and> ev_candidate_hit (event digest) \<and> event_ok (event digest) \<and> ev_action_digest (event digest) = digest"
  shows "substituted C found w w' r \<and> eo_reason r = u reason \<and> w_store w' = w_store w \<and> w_jobs w' = w_jobs w"
proof -
  from assms(1) obtain artifacts digest where "candidate_outputs found = Inr artifacts" "action_digest (c_action C) = Inr digest"
      "w' = w\<lparr>w_events := w_events w @ [event digest]\<rparr>"
      "r = \<lparr>eo_artifacts = artifacts, eo_substituted = True, eo_reason = u reason, eo_lookup = Some found\<rparr>"
    by (auto simp: substitute_def act_Inr)
  with assms(2) show ?thesis by (simp add: substituted_def)
qed

lemma run_shadow_Inr:
  assumes "run_shadow (c_action C) stores execute P cost (c_target C) (c_producer C) f now evaluation_id d w = (w', Inr r)"
  shows "execute = Inr (so_artifacts r) \<and> w_jobs w' = w_jobs w \<and> (c_target C = None \<longrightarrow> w_store w' = w_store w)
    \<and> (\<exists>e. w_events w' = w_events w @ [e] \<and> event_ok e \<and> \<not> ev_substituted e \<and> action_digest (c_action C) = Inr (ev_action_digest e))"
proof -
  from assms obtain found actual digest w1 where e: "execute = Inr actual" "action_digest (c_action C) = Inr digest"
      "w1 = w\<lparr>w_events := w_events w @ [shadow_event digest (c_action C) found actual cost evaluation_id d]\<rparr>"
      "publish_act (c_target C) (c_action C) actual (c_producer C) now f w1 = (w', Inr ())" "so_artifacts r = actual"
    by (auto simp: run_shadow_def act_Inr)
  from publish_act_frame [OF e(4)] e show ?thesis
    using event_ok_shadow by (auto simp: Let_def) (auto simp: shadow_event_def Let_def new_event_def)
qed

section \<open>Deterministic operations\<close>

lemma exact_substitute_cases:
  assumes "exact_substitute E C execute p kfile f w = (w', Inr r)"
  obtains (ran) found reason where "run_operation C execute f reason (Some found) False w = (w', Inr r)"
  | (hit) found where "reuse (c_action C) (c_stores C (w_store w)) (trust_policy (c_now C) p) = Inr found"
      "lo_hit found" "\<exists>tier \<in> op_allowed_tiers p. lo_tier found = Some tier"
      "op_receipt_requirement p = u ''required'' \<Longrightarrow>
         required_receipt_failure E found (c_stores C (w_store w)) p kfile = Inr None"
      "substituted C found w w' r" "eo_reason r = u ''exact_fresh_hit''" "w_store w' = w_store w" "w_jobs w' = w_jobs w"
proof -
  from assms obtain found where f: "reuse (c_action C) (c_stores C (w_store w)) (trust_policy (c_now C) p) = Inr found"
    by (auto simp: exact_substitute_def act_Inr)
  note r = assms [unfolded exact_substitute_def abind_asks f sum.case]
  show thesis
  proof (cases "\<not> lo_hit found \<or> lo_manifest found = None")
    case True
    with r show thesis using ran by auto
  next
    case hit': False
    show thesis
    proof (cases "case lo_tier found of None \<Rightarrow> True | Some tier \<Rightarrow> tier \<notin> op_allowed_tiers p")
      case True
      with r hit' show thesis using ran by auto
    next
      case tier: False
      let ?m = "if op_receipt_requirement p = u ''required''
        then required_receipt_failure E found (c_stores C (w_store w)) p kfile else Inr None"
      have step: "(case ?m of Inl e \<Rightarrow> (w, Inl e) | Inr failure \<Rightarrow>
          (case failure of
             Some reason \<Rightarrow> run_operation C execute f (u reason) (Some found) False w
           | None \<Rightarrow> substitute C found ''exact_fresh_hit'' (\<lambda>digest.
                 substitute_event C digest (operation_name (c_action C)) found (c_cost C) ''exact_fresh_hit''
                   (c_time C - d_lookup (c_durations C))) w)) = (w', Inr r)"
        using r hit' tier by (auto split: if_splits sum.splits option.splits)
      then obtain failure where m: "?m = Inr failure" by (auto split: sum.splits if_splits)
      show thesis
      proof (cases failure)
        case (Some reason)
        with step m show thesis using ran by auto
      next
        case None
        with step m have s: "substitute C found ''exact_fresh_hit'' (\<lambda>digest.
                 substitute_event C digest (operation_name (c_action C)) found (c_cost C) ''exact_fresh_hit''
                   (c_time C - d_lookup (c_durations C))) w = (w', Inr r)" by auto
        note sub = substitute_Inr [OF s, simplified]
        have t: "\<exists>tier \<in> op_allowed_tiers p. lo_tier found = Some tier" using tier by (auto split: option.splits)
        show thesis
        proof (rule hit [OF f _ t])
          show "lo_hit found" using hit' by blast
          show "required_receipt_failure E found (c_stores C (w_store w)) p kfile = Inr None"
            if "op_receipt_requirement p = u ''required''" using m None that by simp
        qed (use sub in auto)
      qed
    qed
  qed
qed

lemma execute_deterministic_cases:
  assumes "execute_deterministic_with_policy E C execute environment policy_file kfile caller seconds w = (w', Inr r)"
  obtains (ran) "ran C execute w w' r" "w_jobs w' = w_jobs w"
  | (exact) key resolution p f where "operation_key (c_action C) = Inr key" "key \<in> set exact_substitution_operations"
      "resolve_policy environment policy_file key = Inr resolution" "pr_policy resolution = Some p"
      "authorization_failure (c_action C) p caller = Inr None" "op_mode p = u ''exact-substitute''"
      "exact_substitute E C execute p kfile f w = (w', Inr r)"
proof -
  from assms obtain key resolution f where k: "operation_key (c_action C) = Inr key" "key \<in> set exact_substitution_operations"
      "resolve_policy environment policy_file key = Inr resolution"
    and rest: "(case pr_policy resolution of
             None \<Rightarrow> run_operation C execute f (pr_reason resolution) None (pr_kill_switch_active resolution)
           | Some p \<Rightarrow>
               abind (ret (authorization_failure (c_action C) p caller)) (\<lambda>failure.
                 case failure of
                   Some reason \<Rightarrow>
                     run_operation C execute f (u reason) None (pr_kill_switch_active resolution)
                 | None \<Rightarrow>
                     if op_mode p = u ''shadow'' then
                       abind (run_shadow (c_action C) (c_stores C) execute (trust_policy (c_now C) p) (c_cost C)
                                (c_target C) (c_producer C) (Some f) (c_now C) (c_evaluation_id C) (c_durations C))
                         (\<lambda>shadow. ret (Inr \<lparr>eo_artifacts = so_artifacts shadow, eo_substituted = False,
                                             eo_reason = u ''shadow'', eo_lookup = Some (so_lookup shadow)\<rparr>))
                     else if op_mode p \<noteq> u ''exact-substitute''
                     then run_operation C execute f (u ''policy_mode_incompatible'') None
                            (pr_kill_switch_active resolution)
                     else exact_substitute E C execute p kfile f)) w = (w', Inr r)"
    unfolding execute_deterministic_with_policy_def abind_asks act_Inr by (auto simp: act_Inr split: if_splits)
  show thesis
  proof (cases "pr_policy resolution")
    case None
    with rest run_operation_ran ran show thesis by fastforce
  next
    case (Some p)
    with rest obtain failure where a: "authorization_failure (c_action C) p caller = Inr failure"
      by (auto simp: act_Inr)
    show thesis
    proof (cases failure)
      case reason: (Some reason)
      with rest Some a run_operation_ran ran show thesis by fastforce
    next
      case None
      consider (shadow) "op_mode p = u ''shadow''" | (other) "op_mode p \<noteq> u ''shadow''" "op_mode p \<noteq> u ''exact-substitute''"
        | (exact') "op_mode p = u ''exact-substitute''" by blast
      then show thesis
      proof cases
        case shadow
        with rest Some a None obtain sh where s: "run_shadow (c_action C) (c_stores C) execute (trust_policy (c_now C) p)
            (c_cost C) (c_target C) (c_producer C) (Some f) (c_now C) (c_evaluation_id C) (c_durations C) w = (w', Inr sh)"
          "r = \<lparr>eo_artifacts = so_artifacts sh, eo_substituted = False, eo_reason = u ''shadow'', eo_lookup = Some (so_lookup sh)\<rparr>"
          by (auto simp: act_Inr)
        with run_shadow_Inr [OF s(1)] show thesis by (intro ran) (auto simp: ran_def)
      next
        case other
        with rest Some a None run_operation_ran ran show thesis by fastforce
      next
        case exact'
        with rest Some a None have "exact_substitute E C execute p kfile f w = (w', Inr r)" by simp
        with k Some a None exact' show thesis by (intro exact) auto
      qed
    qed
  qed
qed

section \<open>HTTP operations\<close>

lemma stale_event_simps [simp]:
  "ev_substituted (stale_event C found scheduled digest)" "ev_candidate_hit (stale_event C found scheduled digest)"
  "ev_decision_reason (stale_event C found scheduled digest) = Some (u ''stale_while_revalidate'')"
  "ev_action_digest (stale_event C found scheduled digest) = digest" "event_ok (stale_event C found scheduled digest)"
  using event_ok_substitute [of C digest "u ''http.fetch''" found 0]
  by (simp_all add: stale_event_def event_ok_def)

lemma unchanged_event_simps [simp]:
  "ev_substituted (unchanged_event C found digest)" "ev_candidate_hit (unchanged_event C found digest)"
  "ev_decision_reason (unchanged_event C found digest) = Some (u ''conditional_304'')"
  "ev_action_digest (unchanged_event C found digest) = digest" "event_ok (unchanged_event C found digest)"
  using event_ok_substitute [of C digest "u ''http.fetch''" found "c_cost C"]
  by (simp_all add: unchanged_event_def event_ok_def)

lemma event_ok_changed: "event_ok (changed_event C found artifacts digest)"
  by (simp add: event_ok_def changed_event_def new_event_def)

lemma event_ok_conditional: "event_ok (conditional_event digest action found actual status recorded cost evaluation_id reason d)"
  using total_bytes_nonneg by (simp add: event_ok_def conditional_event_def new_event_def Let_def)

text \<open>The output of an HTTP operation that was run: a full response, or the 200 answer to the conditional request.\<close>

definition http_output :: "url_env \<Rightarrow> transport \<Rightarrow> 's call \<Rightarrow> outputs result \<Rightarrow> bool" where
  "http_output U T C execute \<longleftrightarrow>
     execute = execute_http_fetch U (c_action C) T
     \<or> (\<exists>etag last_modified response. conditional_get (c_action C) T etag last_modified = Inr response
          \<and> fr_status response = 200 \<and> execute = response_to_artifacts U (c_action C) response)"

definition ran_http :: "url_env \<Rightarrow> transport \<Rightarrow> 's call \<Rightarrow> 's world \<Rightarrow> 's world \<Rightarrow> execution_outcome \<Rightarrow> bool" where
  "ran_http U T C w w' r \<longleftrightarrow> (\<exists>execute. http_output U T C execute \<and> ran C execute w w' r)"

lemma execute_full_ran:
  "execute_full U T C f reason found kill w = (w', Inr r) \<Longrightarrow> ran_http U T C w w' r \<and> w_jobs w' = w_jobs w"
  using run_operation_ran [of C "execute_http_fetch U (c_action C) T" f reason found kill w w' r]
  by (auto simp: execute_full_def ran_http_def http_output_def)

text \<open>The candidate of the two HTTP branches, looked up with the trust of the policy.\<close>

definition http_candidate :: "'s call \<Rightarrow> 's world \<Rightarrow> operation_policy \<Rightarrow> lookup_outcome \<Rightarrow> bool" where
  "http_candidate C w p found \<longleftrightarrow>
     candidate_for_revalidation (c_action C) (c_stores C (w_store w)) (trust_policy (c_now C) p) = Inr found
     \<and> lo_hit found \<and> lo_manifest found \<noteq> None \<and> (\<exists>tier \<in> op_allowed_tiers p. lo_tier found = Some tier)"

definition has_validator :: "lookup_outcome \<Rightarrow> pyval \<Rightarrow> pyval \<Rightarrow> bool" where
  "has_validator found etag last_modified \<longleftrightarrow>
     lenient_validators found = Inr (etag, last_modified) \<and> (truthy etag \<or> truthy last_modified)"

lemma conditional_response_Inr:
  assumes "conditional_response U C f found manifest etag last_modified response w = (w', Inr r)"
  obtains (changed) "fr_status response = 200" "ran C (response_to_artifacts U (c_action C) response) w w' r" "w_jobs w' = w_jobs w"
  | (unchanged) w1 where "fr_status response = 304" "substituted C found w w' r" "eo_reason r = u ''conditional_304''"
      "put_validation_act (c_target C) (validation_record manifest (c_now C) f (c_producer C) etag last_modified) w = (w1, Inr ())"
      "w_store w' = w_store w1" "w_jobs w' = w_jobs w"
proof (cases "fr_status response = 200")
  case True
  with assms obtain artifacts digest w1 where e: "response_to_artifacts U (c_action C) response = Inr artifacts"
      "publish_act (c_target C) (c_action C) artifacts (c_producer C) (c_now C) (Some f) w = (w1, Inr ())"
      "action_digest (c_action C) = Inr digest" "w' = w1\<lparr>w_events := w_events w1 @ [changed_event C found artifacts digest]\<rparr>"
      "r = \<lparr>eo_artifacts = artifacts, eo_substituted = False, eo_reason = u ''source_changed'', eo_lookup = Some found\<rparr>"
    by (auto simp: conditional_response_def act_Inr)
  from publish_act_frame [OF e(2)] e True show thesis
    using event_ok_changed by (intro changed) (auto simp: ran_def, auto simp: changed_event_def new_event_def)
next
  case False
  with assms have st: "fr_status response = 304" by (auto simp: conditional_response_def split: if_splits)
  with assms obtain w1 where v: "put_validation_act (c_target C)
      (validation_record manifest (c_now C) f (c_producer C) etag last_modified) w = (w1, Inr ())"
    and s: "substitute C found ''conditional_304'' (unchanged_event C found) w1 = (w', Inr r)"
    by (auto simp: conditional_response_def act_Inr)
  from put_validation_act_frame [OF v] substitute_Inr [OF s] st v show thesis
    by (intro unchanged) (auto simp: substituted_def)
qed

lemma conditional_substitute_cases:
  assumes "conditional_substitute U T C p f w = (w', Inr r)"
  obtains (ran) "ran_http U T C w w' r" "w_jobs w' = w_jobs w"
  | (unchanged) found manifest etag last_modified response w1 where "http_candidate C w p found" "lo_manifest found = Some manifest"
      "c_producer C \<in> op_trusted_validation_producers p" "has_validator found etag last_modified"
      "conditional_get (c_action C) T etag last_modified = Inr response" "fr_status response = 304"
      "put_validation_act (c_target C) (validation_record manifest (c_now C) f (c_producer C) etag last_modified) w = (w1, Inr ())"
      "w_store w' = w_store w1" "substituted C found w w' r" "eo_reason r = u ''conditional_304''" "w_jobs w' = w_jobs w"
proof -
  from assms obtain found where f: "candidate_for_revalidation (c_action C) (c_stores C (w_store w))
      (trust_policy (c_now C) p) = Inr found"
    and rest: "(case lo_manifest found of
         None \<Rightarrow> execute_full U T C f (u ''candidate_missing'') (Some found) False
       | Some manifest \<Rightarrow>
           if \<not> lo_hit found then execute_full U T C f (u ''candidate_missing'') (Some found) False
           else if (case lo_tier found of None \<Rightarrow> True | Some tier \<Rightarrow> tier \<notin> op_allowed_tiers p)
           then execute_full U T C f (u ''tier_denied'') (Some found) False
           else if c_producer C \<notin> op_trusted_validation_producers p
           then execute_full U T C f (u ''validator_untrusted'') (Some found) False
           else
             abind (ret (lenient_validators found)) (\<lambda>(etag, last_modified).
               if \<not> truthy etag \<and> \<not> truthy last_modified
               then execute_full U T C f (u ''validator_missing'') (Some found) False
               else
                 abind (ret (conditional_get (c_action C) T etag last_modified)) (\<lambda>response.
                   conditional_response U C f found manifest etag last_modified response))) w = (w', Inr r)"
    unfolding conditional_substitute_def by (auto simp: act_Inr)
  show thesis
  proof (cases "\<exists>reason. execute_full U T C f reason (Some found) False w = (w', Inr r)")
    case True
    with execute_full_ran ran show thesis by blast
  next
    case False
    with rest obtain manifest where m: "lo_manifest found = Some manifest" "lo_hit found"
        "\<not> (case lo_tier found of None \<Rightarrow> True | Some tier \<Rightarrow> tier \<notin> op_allowed_tiers p)"
        "c_producer C \<in> op_trusted_validation_producers p"
      by (auto split: option.splits if_splits)
    from rest [unfolded m(1) option.case if_not_P [OF m(3)]] m(2,4) obtain etag last_modified
      where v: "lenient_validators found = Inr (etag, last_modified)"
      and rest2: "(if \<not> truthy etag \<and> \<not> truthy last_modified
               then execute_full U T C f (u ''validator_missing'') (Some found) False
               else abind (ret (conditional_get (c_action C) T etag last_modified)) (\<lambda>response.
                   conditional_response U C f found manifest etag last_modified response)) w = (w', Inr r)"
      by (auto simp: act_Inr)
    have t: "truthy etag \<or> truthy last_modified" using rest2 False by (auto split: if_splits)
    with rest2 obtain response where g: "conditional_get (c_action C) T etag last_modified = Inr response"
      and c: "conditional_response U C f found manifest etag last_modified response w = (w', Inr r)"
      by (auto simp: act_Inr)
    have cand: "http_candidate C w p found" using f m by (auto simp: http_candidate_def split: option.splits)
    from c show thesis
    proof (cases rule: conditional_response_Inr)
      case changed
      then show thesis using g by (intro ran) (auto simp: ran_http_def http_output_def)
    next
      case (unchanged w1)
      with that(2) [OF cand m(1,4) _ g] v t show thesis by (auto simp: has_validator_def)
    qed
  qed
qed

lemma submit_job_Inr:
  assumes "submit_job submit C found ttl w = (w', Inr scheduled)"
  shows "\<exists>key. action_digest (c_action C) = Inr key \<and> submit key = Inr scheduled
    \<and> w' = (if scheduled then w\<lparr>w_jobs := w_jobs w @ [(key, background_of C found ttl)]\<rparr> else w)"
  using assms by (auto simp: submit_job_def rbind_Inr split: sum.splits prod.splits)

lemma submit_job_Inl: "submit_job submit C found ttl w = (w', Inl e) \<Longrightarrow> w' = w"
  by (auto simp: submit_job_def split: sum.splits prod.splits)

text \<open>What serving a stale candidate presupposes, apart from its age.\<close>

definition refreshable :: "'s call \<Rightarrow> operation_policy \<Rightarrow> lookup_outcome \<Rightarrow> bool" where
  "refreshable C p found \<longleftrightarrow>
     (\<exists>etag last_modified. has_validator found etag last_modified)
     \<and> c_producer C \<in> op_trusted_validation_producers p \<and> c_producer C \<in> op_trusted_result_producers p
     \<and> c_target C \<noteq> None"

lemma serve_stale_cases:
  assumes "serve_stale U T C p coordinator ttl f found w = (w', Inr r)"
  obtains (ran) "ran_http U T C w w' r" "w_jobs w' = w_jobs w"
  | (stale) submit key scheduled where "refreshable C p found" "coordinator = Some submit"
      "action_digest (c_action C) = Inr key" "submit key = Inr scheduled"
      "substituted C found w w' r" "eo_reason r = u ''stale_while_revalidate''" "w_store w' = w_store w"
      "w_jobs w' = w_jobs w @ (if scheduled then [(key, background_of C found ttl)] else [])"
proof -
  from assms obtain etag last_modified where v: "lenient_validators found = Inr (etag, last_modified)"
    and rest: "(let full = (\<lambda>reason. execute_full U T C f (u reason) (Some found) False) in
         if \<not> truthy etag \<and> \<not> truthy last_modified then full ''validator_missing''
         else if c_producer C \<notin> op_trusted_validation_producers p then full ''validator_untrusted''
         else if c_producer C \<notin> op_trusted_result_producers p then full ''refresh_producer_untrusted''
         else
           (case coordinator of
              None \<Rightarrow> full ''revalidation_scheduler_missing''
            | Some submit \<Rightarrow>
                if c_target C = None then full ''revalidation_publish_store_missing''
                else (\<lambda>w.
                  case submit_job submit C found ttl w of
                    (w', Inl e) \<Rightarrow> full ''revalidation_schedule_failed'' w'
                  | (w', Inr scheduled) \<Rightarrow>
                      substitute C found ''stale_while_revalidate'' (stale_event C found scheduled) w'))) w = (w', Inr r)"
    unfolding serve_stale_def Let_def by (auto simp: act_Inr)
  show thesis
  proof (cases "\<exists>reason. execute_full U T C f reason (Some found) False w = (w', Inr r)")
    case True
    with execute_full_ran ran show thesis by blast
  next
    case False
    with rest obtain submit where c: "truthy etag \<or> truthy last_modified" "c_producer C \<in> op_trusted_validation_producers p"
        "c_producer C \<in> op_trusted_result_producers p" "coordinator = Some submit" "c_target C \<noteq> None"
      unfolding Let_def by (auto split: option.splits if_splits)
    obtain w1 m where j: "submit_job submit C found ttl w = (w1, m)" by fastforce
    show thesis
    proof (cases m)
      case (Inl e)
      with rest c j submit_job_Inl [of submit C found ttl w w1 e] False show thesis
        by (auto simp: Let_def)
    next
      case (Inr scheduled)
      with rest c j have sub: "substitute C found ''stale_while_revalidate'' (stale_event C found scheduled) w1 = (w', Inr r)"
        by (auto simp: Let_def)
      from submit_job_Inr [of submit C found ttl w w1 scheduled] j Inr obtain key
        where k: "action_digest (c_action C) = Inr key" "submit key = Inr scheduled"
          "w1 = (if scheduled then w\<lparr>w_jobs := w_jobs w @ [(key, background_of C found ttl)]\<rparr> else w)" by auto
      have "refreshable C p found" using c v by (auto simp: refreshable_def has_validator_def)
      moreover have "w_events w1 = w_events w" "w_store w1 = w_store w" using k(3) by auto
      ultimately show thesis using substitute_Inr [OF sub] c(4) k
        by (intro stale [of submit key scheduled]) (auto simp: substituted_def)
    qed
  qed
qed

lemma stale_while_revalidate_cases:
  assumes "stale_while_revalidate U T C p coordinator ttl f w = (w', Inr r)"
  obtains (ran) "ran_http U T C w w' r" "w_jobs w' = w_jobs w"
  | (fresh) found b where "http_candidate C w p found"
      "latest_trusted_freshness found (c_stores C (w_store w)) p = Inr (Some b, False)" "c_now C \<le> b"
      "substituted C found w w' r" "eo_reason r = u ''fresh_hit''" "w_store w' = w_store w" "w_jobs w' = w_jobs w"
  | (stale) found b submit key scheduled where "http_candidate C w p found"
      "latest_trusted_freshness found (c_stores C (w_store w)) p = Inr (Some b, False)"
      "b < c_now C" "c_now C - b \<le> op_max_stale_seconds p * 1000000"
      "refreshable C p found" "coordinator = Some submit"
      "action_digest (c_action C) = Inr key" "submit key = Inr scheduled"
      "substituted C found w w' r" "eo_reason r = u ''stale_while_revalidate''" "w_store w' = w_store w"
      "w_jobs w' = w_jobs w @ (if scheduled then [(key, background_of C found ttl)] else [])"
proof -
  from assms obtain found where f: "candidate_for_revalidation (c_action C) (c_stores C (w_store w))
      (trust_policy (c_now C) p) = Inr found"
    and rest: "(if \<not> lo_hit found \<or> lo_manifest found = None
       then execute_full U T C f (u ''candidate_missing'') (Some found) False
       else if (case lo_tier found of None \<Rightarrow> True | Some tier \<Rightarrow> tier \<notin> op_allowed_tiers p)
       then execute_full U T C f (u ''tier_denied'') (Some found) False
       else
         abind (asks (\<lambda>s. latest_trusted_freshness found (c_stores C s) p)) (\<lambda>boundary.
           case stale_decision (c_now C) p boundary of
             Some None \<Rightarrow>
               substitute C found ''fresh_hit'' (\<lambda>digest.
                 substitute_event C digest (u ''http.fetch'') found (c_cost C) ''fresh_hit''
                   (c_time C - d_lookup (c_durations C)))
           | Some (Some reason) \<Rightarrow> execute_full U T C f (u reason) (Some found) False
           | None \<Rightarrow> serve_stale U T C p coordinator ttl f found)) w = (w', Inr r)"
    unfolding stale_while_revalidate_def by (auto simp: act_Inr)
  show thesis
  proof (cases "\<exists>reason. execute_full U T C f reason (Some found) False w = (w', Inr r)")
    case True
    with execute_full_ran ran show thesis by blast
  next
    case False
    with rest have m: "lo_hit found" "lo_manifest found \<noteq> None"
        "\<not> (case lo_tier found of None \<Rightarrow> True | Some tier \<Rightarrow> tier \<notin> op_allowed_tiers p)"
      by (auto split: if_splits)
    have cand: "http_candidate C w p found" using f m by (auto simp: http_candidate_def split: option.splits)
    from rest m obtain boundary where b: "latest_trusted_freshness found (c_stores C (w_store w)) p = Inr boundary"
      and rest2: "(case stale_decision (c_now C) p boundary of
             Some None \<Rightarrow>
               substitute C found ''fresh_hit'' (\<lambda>digest.
                 substitute_event C digest (u ''http.fetch'') found (c_cost C) ''fresh_hit''
                   (c_time C - d_lookup (c_durations C)))
           | Some (Some reason) \<Rightarrow> execute_full U T C f (u reason) (Some found) False
           | None \<Rightarrow> serve_stale U T C p coordinator ttl f found) w = (w', Inr r)"
      by (auto simp: act_Inr)
    have nr: "stale_decision (c_now C) p boundary \<noteq> Some (Some reason)" for reason
      using rest2 False by (auto split: option.splits)
    then obtain t where t: "boundary = (Some t, False)"
      by (cases boundary; cases "fst boundary"; cases "snd boundary") (auto simp: stale_decision_def)
    show thesis
    proof (cases "c_now C - t \<le> 0")
      case True
      with rest2 t have s: "substitute C found ''fresh_hit'' (\<lambda>digest.
                 substitute_event C digest (u ''http.fetch'') found (c_cost C) ''fresh_hit''
                   (c_time C - d_lookup (c_durations C))) w = (w', Inr r)"
        by (simp add: stale_decision_def)
      from substitute_Inr [OF this] fresh [OF cand b [unfolded t]] True show thesis by simp
    next
      case False
      with nr [of "''stale_window_exceeded''"] t have le: "c_now C - t \<le> op_max_stale_seconds p * 1000000"
        by (simp add: stale_decision_def split: if_splits)
      with rest2 t False have "serve_stale U T C p coordinator ttl f found w = (w', Inr r)"
        by (simp add: stale_decision_def)
      then show thesis
      proof (cases rule: serve_stale_cases)
        case stale: (stale submit key scheduled)
        from that(3) [OF cand b [unfolded t] _ le stale(1-8)] False show thesis by simp
      qed (rule ran)
    qed
  qed
qed

lemma run_conditional_http_shadow_Inr:
  assumes "run_conditional_http_shadow U (c_action C) stores T P cost (c_target C) (c_producer C) f now evaluation_id reason d w
      = (w', Inr r)"
  shows "\<exists>execute. http_output U T C execute \<and> execute = Inr (so_artifacts r) \<and> w_jobs w' = w_jobs w
    \<and> (c_target C = None \<longrightarrow> w_store w' = w_store w)
    \<and> (\<exists>e. w_events w' = w_events w @ [e] \<and> event_ok e \<and> \<not> ev_substituted e \<and> action_digest (c_action C) = Inr (ev_action_digest e))"
proof (cases "run_shadow (c_action C) stores (execute_http_fetch U (c_action C) T) P cost (c_target C) (c_producer C)
    (Some f) now evaluation_id d w = (w', Inr r)")
  case True
  from run_shadow_Inr [OF this] show ?thesis by (auto simp: http_output_def)
next
  case False
  from assms [unfolded run_conditional_http_shadow_def Let_def] obtain found where
    found: "candidate_for_revalidation (c_action C) (stores (w_store w)) P = Inr found" by (auto simp: act_Inr)
  from assms False found obtain manifest where m: "lo_manifest found = Some manifest" "lo_hit found"
      "al_get (lo_artifacts found) (u ''metadata'') \<noteq> None"
    unfolding run_conditional_http_shadow_def Let_def by (auto split: option.splits if_splits)
  with assms False found obtain etag last_modified where v: "read_validators found = Inr (etag, last_modified)"
      "truthy etag \<or> truthy last_modified"
    unfolding run_conditional_http_shadow_def Let_def by (auto simp: act_Inr split: if_splits)
  let ?shadow = "\<lambda>response actual. candidate_matches actual found"
  from assms m v found obtain response actual w1 digest recorded where
    e: "conditional_get (c_action C) T etag last_modified = Inr response" "conditional_output U (c_action C) T response = Inr actual"
      "(if recorded then put_validation_act (c_target C) (validation_record manifest now f (c_producer C) etag last_modified)
        else publish_act (c_target C) (c_action C) actual (c_producer C) now (Some f)) w = (w1, Inr ())"
      "action_digest (c_action C) = Inr digest" "so_artifacts r = actual"
      "w' = w1\<lparr>w_events := w_events w1 @ [conditional_event digest (c_action C) found actual (fr_status response) recorded cost
         evaluation_id reason d]\<rparr>"
    unfolding run_conditional_http_shadow_def Let_def by (auto simp: act_Inr)
  have out: "http_output U T C (Inr actual)"
  proof (cases "fr_status response = 304")
    case True
    with e(2) show ?thesis by (simp add: http_output_def conditional_output_def)
  next
    case False
    with e(2) have "fr_status response = 200" "response_to_artifacts U (c_action C) response = Inr actual"
      by (simp_all add: conditional_output_def split: if_splits)
    with e(1) show ?thesis unfolding http_output_def by (intro disjI2 exI [of _ etag] exI [of _ last_modified] exI [of _ response]) simp
  qed
  from e(3) have "w_events w1 = w_events w \<and> w_jobs w1 = w_jobs w \<and> (c_target C = None \<longrightarrow> w_store w1 = w_store w)"
    by (cases recorded) (simp_all add: put_validation_act_frame publish_act_frame split: if_splits)
  with e out event_ok_conditional show ?thesis by auto (auto simp: conditional_event_def Let_def new_event_def)
qed

text \<open>Every outcome of the HTTP runtime: run, or substituted in one of three ways.\<close>

lemma execute_http_cases:
  assumes "execute_http_with_policy U T C environment policy_file caller coordinator seconds w = (w', Inr r)"
  obtains (ran) "ran_http U T C w w' r" "w_jobs w' = w_jobs w"
  | (mode) resolution p ttl f where "resolve_policy environment policy_file (u ''http.fetch/1'') = Inr resolution"
      "pr_policy resolution = Some p" "authorization_failure (c_action C) p caller = Inr None"
      "ttl = min seconds (op_max_validation_ttl_seconds p)" "add_seconds (c_now C) ttl = Inr f" "op_mode p \<noteq> u ''shadow''"
      "(if op_mode p = u ''stale-while-revalidate'' then stale_while_revalidate U T C p coordinator ttl f
        else conditional_substitute U T C p f) w = (w', Inr r)"
proof -
  from assms obtain key resolution ttl f where c: "check_http_fetch (c_action C) ''policy runtime currently supports http.fetch/1 only'' = Inr ()"
      "operation_key (c_action C) = Inr key" "resolve_policy environment policy_file key = Inr resolution"
    and ttl: "ttl = (case pr_policy resolution of None \<Rightarrow> seconds | Some p \<Rightarrow> min seconds (op_max_validation_ttl_seconds p))"
    and f: "add_seconds (c_now C) ttl = Inr f"
    and rest: "(case pr_policy resolution of
                None \<Rightarrow> execute_full U T C f (pr_reason resolution) None (pr_kill_switch_active resolution)
              | Some p \<Rightarrow>
                  abind (ret (authorization_failure (c_action C) p caller)) (\<lambda>failure.
                    case failure of
                      Some reason \<Rightarrow> execute_full U T C f (u reason) None False
                    | None \<Rightarrow> http_by_mode U T C p coordinator ttl f)) w = (w', Inr r)"
    unfolding execute_http_with_policy_def Let_def by (auto simp: act_Inr split: if_splits)
  have key: "key = u ''http.fetch/1''"
  proof -
    from c(1) have "item (item (c_action C) ''operation'') ''name'' = S ''http.fetch''"
      "item (item (c_action C) ''operation'') ''version'' = S ''1''"
      by (auto simp: check_http_fetch_def get_method_def is_operation_def rbind_Inr split: if_splits)
    with c(2) have "key = u ''http.fetch'' @ [47] @ u ''1''"
      by (auto simp: operation_key_def subscript_def rbind_Inr split: if_splits)
    then show ?thesis by (simp add: u_def)
  qed
  show thesis
  proof (cases "pr_policy resolution")
    case None
    with rest execute_full_ran ran show thesis by fastforce
  next
    case (Some p)
    with rest obtain failure where a: "authorization_failure (c_action C) p caller = Inr failure"
      by (auto simp: act_Inr)
    show thesis
    proof (cases failure)
      case reason: (Some reason)
      with rest Some a execute_full_ran ran show thesis by fastforce
    next
      case None
      with rest Some a have h: "http_by_mode U T C p coordinator ttl f w = (w', Inr r)" by simp
      show thesis
      proof (cases "op_mode p = u ''shadow''")
        case True
        with h obtain sh where s: "run_conditional_http_shadow U (c_action C) (c_stores C) T (trust_policy (c_now C) p)
            (c_cost C) (c_target C) (c_producer C) f (c_now C) (c_evaluation_id C) (u ''shadow'') (c_durations C) w = (w', Inr sh)"
          "r = \<lparr>eo_artifacts = so_artifacts sh, eo_substituted = False, eo_reason = u ''shadow'', eo_lookup = Some (so_lookup sh)\<rparr>"
          by (auto simp: http_by_mode_def act_Inr)
        with run_conditional_http_shadow_Inr [OF s(1)] show thesis by (intro ran) (auto simp: ran_http_def ran_def)
      next
        case False
        with h have "(if op_mode p = u ''stale-while-revalidate'' then stale_while_revalidate U T C p coordinator ttl f
            else conditional_substitute U T C p f) w = (w', Inr r)" by (simp add: http_by_mode_def)
        with c(3) key Some a None ttl f False show thesis by (intro mode) auto
      qed
    qed
  qed
qed

end
