(* ===== verification/Registry_Theorems.thy ===== *)
theory Registry_Theorems
  imports Registries Loaded_Values Publishing
begin

text \<open>
  What the two reloadable registries and the authorization partitions guarantee: a policy or a key
  that is handed out went through every check of its document, every failure but one is turned
  into a refusal, and a partition token commits to its claims.
\<close>

section \<open>Policies\<close>

text \<open>The consistency rules of an operation policy.\<close>

definition policy_consistent :: "operation_policy \<Rightarrow> bool" where
  "policy_consistent p \<longleftrightarrow>
     PyStr (op_mode p) \<in> set policy_modes
     \<and> op_receipt_requirement p \<in> {u ''optional'', u ''required''}
     \<and> op_authorization_partition p \<in> {u ''public'', u ''required''}
     \<and> (op_receipt_requirement p = u ''required'' \<longrightarrow>
          op_trusted_receipt_keys p \<noteq> {} \<and> op_mode p = u ''exact-substitute'')
     \<and> (op_authorization_partition p = u ''required'' \<longrightarrow> op_mode p = u ''exact-substitute'')
     \<and> (\<forall>k \<in> op_trusted_receipt_keys p. is_digest k)
     \<and> 1 \<le> op_max_validation_ttl_seconds p \<and> op_max_validation_ttl_seconds p \<le> 604800
     \<and> 0 \<le> op_max_stale_seconds p \<and> op_max_stale_seconds p \<le> 604800
     \<and> (op_mode p = u ''stale-while-revalidate'' \<longleftrightarrow> 0 < op_max_stale_seconds p)"

lemma member_ok [checks]: "member v vs e = Inr () \<longleftrightarrow> hashable v \<and> v \<in> set vs"
  by (simp add: member_def checks)

lemma raises_member [raises]: "raises P (member v vs e) \<longleftrightarrow> (hashable v \<or> P TypeError) \<and> (hashable v \<longrightarrow> v \<in> set vs \<or> P e)"
  by (simp add: member_def raises)

lemma S_eq: "v = S s \<longleftrightarrow> is_str v \<and> str_of v = u s"
  by (cases v) auto

lemma policy_mode_str: "v \<in> set policy_modes \<Longrightarrow> PyStr (str_of v) = v"
  by (auto simp: policy_modes_def)

lemma validate_operation_Inr:
  assumes "validate_operation operation v = Inr p"
  shows "is_str operation \<and> exact_keys v policy_fields \<and> policy_consistent p \<and> op_mode p = str_of (item v ''mode'')"
proof -
  note f = assms [unfolded validate_operation_def Let_def checks]
  have key: "is_str operation" "exact_keys v policy_fields" using f by blast+
  have mode: "item v ''mode'' \<in> set policy_modes"
    and req: "item v ''receipt_requirement'' \<in> set [S ''optional'', S ''required'']"
    and part: "item v ''authorization_partition'' \<in> set [S ''public'', S ''required'']" using f by blast+
  have m: "PyStr (str_of (item v ''mode'')) = item v ''mode''" by (rule policy_mode_str [OF mode])
  have r: "str_of (item v ''receipt_requirement'') = u ''required'' \<longleftrightarrow> item v ''receipt_requirement'' = S ''required''"
    "str_of (item v ''receipt_requirement'') \<in> {u ''optional'', u ''required''}" using req by auto
  have a: "str_of (item v ''authorization_partition'') = u ''required'' \<longleftrightarrow> item v ''authorization_partition'' = S ''required''"
    "str_of (item v ''authorization_partition'') \<in> {u ''public'', u ''required''}" using part by auto
  have e: "str_of (item v ''mode'') = u s \<longleftrightarrow> item v ''mode'' = S s" for s using m by (metis pyval.inject(4))
  from f obtain ks rs vs ts where ks: "\<forall>k \<in> ks. is_digest k" "\<not> (item v ''receipt_requirement'' = S ''required'' \<and> ks = {})"
    and pe: "(Inr \<lparr>op_mode = str_of (item v ''mode''), op_trusted_result_producers = rs,
        op_trusted_validation_producers = vs, op_allowed_tiers = ts,
        op_max_validation_ttl_seconds = int_of (item v ''max_validation_ttl_seconds''),
        op_receipt_requirement = str_of (item v ''receipt_requirement''), op_trusted_receipt_keys = ks,
        op_authorization_partition = str_of (item v ''authorization_partition''),
        op_max_stale_seconds = int_of (item v ''max_stale_seconds'')\<rparr> :: operation_policy result) = Inr p"
    by blast
  have p: "op_trusted_receipt_keys p = ks" "op_mode p = str_of (item v ''mode'')"
      "op_receipt_requirement p = str_of (item v ''receipt_requirement'')"
      "op_authorization_partition p = str_of (item v ''authorization_partition'')"
      "op_max_validation_ttl_seconds p = int_of (item v ''max_validation_ttl_seconds'')"
      "op_max_stale_seconds p = int_of (item v ''max_stale_seconds'')"
    unfolding sum.inject(2) [THEN iffD1, OF pe, symmetric] by simp_all
  have ttl: "int_between (item v ''max_validation_ttl_seconds'') 1 604800" "int_between (item v ''max_stale_seconds'') 0 604800"
    and c: "\<not> (item v ''receipt_requirement'' = S ''required'' \<and> item v ''mode'' \<noteq> S ''exact-substitute'')"
      "\<not> (item v ''authorization_partition'' = S ''required'' \<and> item v ''mode'' \<noteq> S ''exact-substitute'')"
      "(item v ''mode'' = S ''stale-while-revalidate'') = (0 < int_of (item v ''max_stale_seconds''))" using f by blast+
  show ?thesis
  proof (intro conjI key p(2))
    show "policy_consistent p"
      unfolding policy_consistent_def p e m r(1) a(1) using mode r(2) a(2) ks ttl [unfolded int_between_def] c
      by (intro conjI) (blast | simp)+
  qed
qed

lemma validate_operations_get:
  "validate_operations ops = Inr ps \<Longrightarrow> al_get ps name = Some p \<Longrightarrow>
     \<exists>operation v. (operation, v) \<in> set ops \<and> str_of operation = name \<and> validate_operation operation v = Inr p"
  by (induction ops arbitrary: ps rule: validate_operations.induct) (fastforce simp: rbind_Inr split: if_splits)+

lemma al_get_in_dict: "is_str k \<Longrightarrow> (k, v) \<in> set (pairs_of d) \<Longrightarrow> (PyStr (str_of k), v) \<in> set (pairs_of d)"
  by (simp add: str_of_eq)

text \<open>Only \<open>TypeError\<close>, from testing an array or object against a set, is not one of the caught errors.\<close>

definition caught_or_type :: "py_error \<Rightarrow> bool" where
  "caught_or_type e \<longleftrightarrow> caught e \<or> e = TypeError"

lemma caught_simps [simp]: "caught_or_type (ValueError s)" "caught_or_type TypeError" "caught_or_type OSError"
  "caught OSError" "caught (ValueError s)" "\<not> caught TypeError" "is_value_error e \<Longrightarrow> caught_or_type e"
  by (simp_all add: caught_or_type_def caught_def)

lemma raises_strings [raises]: "raises caught_or_type (strings v l)"
  by (simp add: strings_def raises)

lemma raises_read_registry [raises]: "raises caught_or_type (read_registry f)"
  using loads_bytes_raises [THEN raises_mono, of caught_or_type]
  by (simp add: read_registry_def read_json_def split: option.split fs_file.split)

lemma raises_validate_operations: "raises caught_or_type (validate_operations ops)"
  by (induction ops rule: validate_operations.induct) (auto simp: raises validate_operation_def Let_def)

lemma raises_policy_document: "raises caught_or_type (validate_policy_document d)"
  by (simp add: validate_policy_document_def raises raises_validate_operations)


text \<open>
  A policy document with one operation: its mode, receipt requirement and trusted keys vary, it
  trusts the producer \<open>worker\<close> for results and validations and allows the tier \<open>local\<close>.
\<close>

definition example_operation :: "pyval \<Rightarrow> pyval \<Rightarrow> pyval list \<Rightarrow> pyval" where
  "example_operation mode requirement key_ids =
     obj [(''allowed_tiers'', PyList [S ''local'']), (''authorization_partition'', S ''public''),
          (''max_stale_seconds'', PyInt 0), (''max_validation_ttl_seconds'', PyInt 3600), (''mode'', mode),
          (''receipt_requirement'', requirement), (''trusted_receipt_keys'', PyList key_ids),
          (''trusted_result_producers'', PyList [S ''worker'']), (''trusted_validation_producers'', PyList [S ''worker''])]"

definition example_policy_document :: "string \<Rightarrow> pyval \<Rightarrow> pyval" where
  "example_policy_document name operation =
     obj [(''enabled'', PyBool True), (''operations'', obj [(name, operation)]),
          (''spec_version'', S ''oncemesh.policy/v0'')]"

lemma example_operation_keys: "exact_keys (example_operation mode req key_ids) policy_fields"
  unfolding example_operation_def exact_keys_literal policy_fields_def by simp

lemma example_document_keys: "exact_keys (example_policy_document name v) [''spec_version'', ''enabled'', ''operations'']"
  unfolding example_policy_document_def exact_keys_literal by simp

definition example_operation_policy :: "string \<Rightarrow> string \<Rightarrow> pystr set \<Rightarrow> operation_policy" where
  "example_operation_policy mode req key_ids =
     \<lparr>op_mode = u mode, op_trusted_result_producers = {u ''worker''}, op_trusted_validation_producers = {u ''worker''},
      op_allowed_tiers = {u ''local''}, op_max_validation_ttl_seconds = 3600, op_receipt_requirement = u req,
      op_trusted_receipt_keys = key_ids, op_authorization_partition = u ''public'', op_max_stale_seconds = 0\<rparr>"

lemma example_operation_items:
  "item (example_operation m q ks) ''mode'' = m" "item (example_operation m q ks) ''receipt_requirement'' = q"
  "item (example_operation m q ks) ''authorization_partition'' = S ''public''"
  "item (example_operation m q ks) ''max_stale_seconds'' = PyInt 0"
  "item (example_operation m q ks) ''max_validation_ttl_seconds'' = PyInt 3600"
  "item (example_operation m q ks) ''trusted_receipt_keys'' = PyList ks"
  "item (example_operation m q ks) ''trusted_result_producers'' = PyList [S ''worker'']"
  "item (example_operation m q ks) ''trusted_validation_producers'' = PyList [S ''worker'']"
  "item (example_operation m q ks) ''allowed_tiers'' = PyList [S ''local'']"
  by (simp_all add: example_operation_def)

lemmas example_validate_simps = validate_operation_def Let_def example_operation_items example_operation_keys guard_def
  member_def strings_def int_between_def policy_modes_def nonempty_str_def u_def example_operation_policy_def

lemma example_validate_operation:
  "47 \<in> set (u name) \<Longrightarrow>
     validate_operation (S name) (example_operation (S ''exact-substitute'') (S ''optional'') [])
       = Inr (example_operation_policy ''exact-substitute'' ''optional'' {})"
  by (simp add: example_validate_simps)

lemma example_validate_required:
  "47 \<in> set (u name) \<Longrightarrow> is_digest k \<Longrightarrow> k \<noteq> [] \<Longrightarrow>
     validate_operation (S name) (example_operation (S ''exact-substitute'') (S ''required'') [PyStr k])
       = Inr (example_operation_policy ''exact-substitute'' ''required'' {k})"
  by (simp add: example_validate_simps)

lemma example_operation_unhashable:
  "\<not> hashable mode \<Longrightarrow> validate_operation (S ''fetch/1'') (example_operation mode req ks) = Inl TypeError"
  by (simp add: validate_operation_def Let_def example_operation_items example_operation_keys guard_def member_def u_def)

lemma validate_example_document:
  "validate_policy_document (example_policy_document name v) = validate_operations [(S name, v)]"
  using example_document_keys [of name v]
  by (simp add: validate_policy_document_def guard_def) (simp add: example_policy_document_def)

lemma policy_document_jsonable:
  "jsonable mode \<Longrightarrow> jsonable req \<Longrightarrow> \<forall>k \<in> set ks. jsonable k \<Longrightarrow>
     jsonable (example_policy_document name (example_operation mode req ks))"
proof -
  have "jsonable (PyInt 0)" "jsonable (PyInt 3600)" by (simp_all add: jsonable_def max_safe_integer_def)
  moreover assume "jsonable mode" "jsonable req" "\<forall>k \<in> set ks. jsonable k"
  ultimately show ?thesis by (simp add: example_policy_document_def example_operation_def jsonable_simps)
qed

lemma norm_policy_document:
  assumes "norm mode = mode" "norm req = req" "map norm ks = ks"
  shows "norm (example_policy_document name (example_operation mode req ks)) = example_policy_document name (example_operation mode req ks)"
proof -
  have o: "norm (example_operation mode req ks) = example_operation mode req ks"
    unfolding example_operation_def using assms by (subst norm_obj) (simp_all add: u_def)
  then show ?thesis unfolding example_policy_document_def
    using norm_obj [of "[(name, example_operation mode req ks)]"]
    by (subst norm_obj) (simp_all add: u_def)
qed

definition example_policy_file :: "string \<Rightarrow> pyval \<Rightarrow> fs_file" where
  "example_policy_file name v = File (utf8_bytes (dumps (example_policy_document name v)))"

lemma read_policy_file:
  assumes "jsonable mode" "jsonable req" "\<forall>k \<in> set ks. jsonable k" "norm mode = mode" "norm req = req" "map norm ks = ks"
  shows "read_registry (Some (example_policy_file name (example_operation mode req ks)))
    = Inr (example_policy_document name (example_operation mode req ks))"
  using loads_canonical [of "example_policy_document name (example_operation mode req ks)" _ default_opts]
    policy_document_jsonable [OF assms(1-3), of name]
    canonical_json_jsonable [of "example_policy_document name (example_operation mode req ks)"] norm_policy_document [OF assms(4-6), of name]
  by (simp add: read_registry_def example_policy_file_def read_json_def jsonable_def)

lemma no_kill_switch: "\<not> kill_switch (\<lambda>_. None)"
  by (simp add: kill_switch_def strip_def lower_ascii_def kill_switch_values_def)

text \<open>The file resolves to the policy it describes.\<close>

lemma resolve_example_policy:
  assumes "validate_operation (S name) (example_operation (S mode) (S req) ks) = Inr p" "op_mode p = u mode" "mode \<noteq> ''disabled''"
    and "\<forall>k \<in> set ks. jsonable k" "map norm ks = ks"
  shows "resolve_policy (\<lambda>_. None) (Some (example_policy_file name (example_operation (S mode) (S req) ks))) (u name)
    = Inr \<lparr>pr_policy = Some p, pr_reason = u mode, pr_kill_switch_active = False\<rparr>"
proof -
  let ?v = "example_operation (S mode) (S req) ks"
  have "item (example_policy_document name ?v) ''enabled'' = PyBool True" by (simp add: example_policy_document_def)
  moreover have "validate_policy_document (example_policy_document name ?v) = Inr [(u name, p)]"
    using assms(1) by (simp add: validate_example_document)
  moreover have "read_registry (Some (example_policy_file name ?v)) = Inr (example_policy_document name ?v)"
    using assms(4,5) by (intro read_policy_file) (simp_all add: jsonable_simps)
  ultimately show ?thesis using assms(2,3) no_kill_switch by (simp add: resolve_policy_def)
qed

text \<open>C33: The policy registry fails closed. A policy is handed out only with the kill switch off, from a
  readable document that passed validation and has \<open>enabled\<close> true, for an operation that document
  names, in a mode other than disabled, and its fields obey the consistency rules (receipts and
  partitions are only required with exact substitution, staleness only with its mode).\<close>

theorem resolve_policy_fails_closed:
  assumes "resolve_policy environment f operation = Inr r" "pr_policy r = Some p"
  shows "\<not> kill_switch environment \<and> \<not> pr_kill_switch_active r \<and> pr_reason r = op_mode p
    \<and> op_mode p \<noteq> u ''disabled'' \<and> policy_consistent p
    \<and> (\<exists>document v. read_registry f = Inr document \<and> item document ''enabled'' = PyBool True
        \<and> (PyStr operation, v) \<in> set (pairs_of (item document ''operations''))
        \<and> validate_operation (PyStr operation) v = Inr p)"
proof -
  from assms obtain document policies where d: "\<not> kill_switch environment" "read_registry f = Inr document"
      "validate_policy_document document = Inr policies" "item document ''enabled'' = PyBool True"
      "al_get policies operation = Some p" "op_mode p \<noteq> u ''disabled''"
      "r = \<lparr>pr_policy = Some p, pr_reason = op_mode p, pr_kill_switch_active = False\<rparr>"
    by (auto simp: resolve_policy_def no_policy_def rbind_Inr split: if_splits sum.splits option.splits)
  then have ops: "validate_operations (pairs_of (item document ''operations'')) = Inr policies"
    by (simp add: validate_policy_document_def seq_Inr)
  obtain k v where v: "(k, v) \<in> set (pairs_of (item document ''operations''))" "str_of k = operation"
      "validate_operation k v = Inr p"
    using validate_operations_get [OF ops d(5)] by blast
  have "k = PyStr operation" using validate_operation_Inr [OF v(3)] v(2) str_of_eq [of k] by simp
  with d v validate_operation_Inr [OF v(3)] show ?thesis by auto
qed

theorem resolve_policy_fails_closed_witness:
  "\<exists>r. resolve_policy (\<lambda>_. None)
       (Some (example_policy_file ''fetch/1'' (example_operation (S ''exact-substitute'') (S ''optional'') []))) (u ''fetch/1'') = Inr r
     \<and> pr_policy r = Some (example_operation_policy ''exact-substitute'' ''optional'' {})
     \<and> policy_consistent (example_operation_policy ''exact-substitute'' ''optional'' {})"
proof -
  let ?p = "example_operation_policy ''exact-substitute'' ''optional'' {}"
  have "validate_operation (S ''fetch/1'') (example_operation (S ''exact-substitute'') (S ''optional'') []) = Inr ?p"
    by (rule example_validate_operation) (simp add: u_def)
  from resolve_example_policy [OF this] have r: "resolve_policy (\<lambda>_. None)
      (Some (example_policy_file ''fetch/1'' (example_operation (S ''exact-substitute'') (S ''optional'') []))) (u ''fetch/1'')
      = Inr \<lparr>pr_policy = Some ?p, pr_reason = u ''exact-substitute'', pr_kill_switch_active = False\<rparr>"
    by (simp add: example_operation_policy_def)
  from resolve_policy_fails_closed [OF r, of ?p] r show ?thesis by simp
qed

text \<open>A malformed policy can escape the fail-closed rule. Resolution raises nothing but
  \<open>TypeError\<close>; and it does raise it: with an array as the mode of one operation, testing the mode
  against a set raises, no handler catches it, and every operation of the registry fails instead of
  running without substitution.\<close>

lemma malformed_policy_raises:
  "(\<forall>environment f operation. raises (\<lambda>e. e = TypeError) (resolve_policy environment f operation))
   \<and> (\<forall>operation. resolve_policy (\<lambda>_. None) (Some (example_policy_file ''fetch/1'' (example_operation (PyList []) (S ''optional'') []))) operation = Inl TypeError)"
proof (intro conjI allI)
  fix environment f operation
  have "raises caught_or_type (rbind (read_registry f) (\<lambda>document.
      rbind (validate_policy_document document) (\<lambda>policies. Inr (document, policies))))"
    using raises_policy_document by (auto simp: raises)
  then show "raises (\<lambda>e. e = TypeError) (resolve_policy environment f operation)"
    by (auto simp: resolve_policy_def raises_def caught_or_type_def split: sum.split option.split)
next
  fix operation
  have "read_registry (Some (example_policy_file ''fetch/1'' (example_operation (PyList []) (S ''optional'') [])))
      = Inr (example_policy_document ''fetch/1'' (example_operation (PyList []) (S ''optional'') []))"
    by (rule read_policy_file) (simp_all add: jsonable_simps)
  then show "resolve_policy (\<lambda>_. None) (Some (example_policy_file ''fetch/1'' (example_operation (PyList []) (S ''optional'') []))) operation = Inl TypeError"
    using no_kill_switch by (simp add: resolve_policy_def validate_example_document example_operation_unhashable)
qed

section \<open>Receipt keys\<close>

lemma decode_public_key_Inr:
  "decode_public_key v = Inr b \<Longrightarrow> is_str v \<and> length b = 32 \<and> b64_encode b = str_of v"
  by (auto simp: decode_public_key_def split: if_splits option.splits)

lemma validate_key_entry_Inr:
  assumes "validate_key_entry key_id v = Inr k"
  shows "key_id = PyStr (rk_key_id k) \<and> digest_bytes (rk_public_key k) = rk_key_id k \<and> length (rk_public_key k) = 32
    \<and> item v ''public_key'' = PyStr (b64_encode (rk_public_key k)) \<and> item v ''status'' = PyStr (rk_status k)
    \<and> rk_status k \<in> {u ''active'', u ''revoked''} \<and> PyStr ` rk_producers k = set (items_of (item v ''producers''))
    \<and> rk_producers k \<noteq> {}"
proof -
  note f = assms [unfolded validate_key_entry_def checks]
  have v: "digest_val key_id" "item v ''status'' \<in> set key_statuses" "items_of (item v ''producers'') \<noteq> []"
      "list_all nonempty_str (items_of (item v ''producers''))" using f by blast+
  from f obtain b where b: "decode_public_key (item v ''public_key'') = Inr b" "PyStr (digest_bytes b) = key_id"
      "k = \<lparr>rk_key_id = str_of key_id, rk_public_key = b, rk_status = str_of (item v ''status''),
            rk_producers = str_of ` set (items_of (item v ''producers''))\<rparr>"
    by (auto split: if_splits)
  have "PyStr ` str_of ` set (items_of (item v ''producers'')) = set (items_of (item v ''producers''))"
    using v(4) by (force simp: list_all_iff nonempty_str_def str_of_eq image_iff)
  moreover have "item v ''status'' = PyStr (str_of (item v ''status''))" "str_of (item v ''status'') \<in> {u ''active'', u ''revoked''}"
    using v(2) by (auto simp: key_statuses_def)
  moreover have "item v ''public_key'' = PyStr (b64_encode b)"
    using decode_public_key_Inr [OF b(1)] by (simp add: str_of_eq)
  ultimately show ?thesis using b(2) v(3) decode_public_key_Inr [OF b(1)] unfolding b(3)
    by (auto simp flip: b(2) simp del: digest_bytes_eq)
qed

lemma validate_key_entries_get:
  "validate_key_entries ks = Inr rs \<Longrightarrow> al_get rs name = Some k \<Longrightarrow>
     \<exists>key_id v. (key_id, v) \<in> set ks \<and> str_of key_id = name \<and> validate_key_entry key_id v = Inr k"
  by (induction ks arbitrary: rs rule: validate_key_entries.induct) (fastforce simp: rbind_Inr split: if_splits)+

text \<open>The key registry hands out active, authorized keys only. A resolved key is an entry of a valid
  registry document filed under the requested identifier, which is the digest of the 32 key bytes
  that the entry encodes; its status is active, and the entry lists the producer.\<close>

lemma resolve_key_sound:
  assumes "resolve_key f key_id producer = Inr r" "kr_key r = Some k"
  shows "rk_key_id k = key_id \<and> digest_bytes (rk_public_key k) = key_id \<and> length (rk_public_key k) = 32
    \<and> rk_status k = u ''active'' \<and> producer \<in> rk_producers k
    \<and> (\<exists>document v. read_registry f = Inr document \<and> ok (validate_key_registry document)
        \<and> (PyStr key_id, v) \<in> set (pairs_of (item document ''keys''))
        \<and> item v ''public_key'' = PyStr (b64_encode (rk_public_key k)) \<and> item v ''status'' = S ''active''
        \<and> PyStr producer \<in> set (items_of (item v ''producers'')))"
proof -
  from assms obtain document ks where d: "read_registry f = Inr document" "validate_key_registry document = Inr ks"
      "al_get ks key_id = Some k" "rk_status k \<noteq> u ''revoked''" "producer \<in> rk_producers k"
    by (auto simp: resolve_key_def rbind_Inr split: if_splits sum.splits option.splits)
  then have "validate_key_entries (pairs_of (item document ''keys'')) = Inr ks"
    by (simp add: validate_key_registry_def seq_Inr)
  from validate_key_entries_get [OF this d(3)] obtain i v where
    v: "(i, v) \<in> set (pairs_of (item document ''keys''))" "str_of i = key_id" "validate_key_entry i v = Inr k" by blast
  note e = validate_key_entry_Inr [OF v(3)]
  have "PyStr producer \<in> set (items_of (item v ''producers''))" using e d(5) by blast
  moreover have "i = PyStr key_id" using e v(2) by auto
  ultimately show ?thesis using d v e by (auto simp: ok_iff)
qed

definition example_key :: bytes where
  "example_key = replicate 32 7"

definition example_key_entry :: pyval where
  "example_key_entry =
     obj [(''producers'', PyList [S ''worker'']), (''profile'', signature_profile),
          (''public_key'', PyStr (b64_encode example_key)), (''status'', S ''active'')]"

definition example_key_document :: pyval where
  "example_key_document =
     obj [(''keys'', PyDict [(PyStr (digest_bytes example_key), example_key_entry)]),
          (''spec_version'', S ''oncemesh.key-registry/v0'')]"

lemma is_b64_scalar: "list_all is_b64 s \<Longrightarrow> list_all scalar s"
  by (auto simp: list_all_iff is_b64_def b64_val_def scalar_def code_point_def surrogate_def split: if_splits)

lemma norm_single: "norm (PyDict [(PyStr k, v)]) = PyDict [(PyStr k, norm v)]"
  by (simp add: sort_items_def)

lemma norm_key_document: "norm example_key_document = example_key_document"
proof -
  have "norm example_key_entry = example_key_entry"
    unfolding example_key_entry_def by (subst norm_obj) (simp_all add: u_def signature_profile_def)
  then show ?thesis unfolding example_key_document_def
    by (subst norm_obj, simp add: u_def) (simp add: norm_single del: norm.simps(2))
qed

lemma read_example_keys:
  "read_registry (Some (File (utf8_bytes (dumps example_key_document)))) = Inr example_key_document"
proof -
  have scalars: "list_all scalar (digest_bytes example_key)" "list_all scalar (b64_encode example_key)"
    using is_digest_scalar [OF is_digest_bytes] is_b64_scalar [OF b64_chars] by auto
  have j: "jsonable example_key_document"
    using scalars by (simp add: example_key_document_def example_key_entry_def signature_profile_def jsonable_simps)
  then show ?thesis
    using loads_canonical [of example_key_document _ default_opts] canonical_json_jsonable [OF j] norm_key_document
    by (simp add: read_registry_def read_json_def jsonable_def)
qed

definition example_receipt_key :: receipt_key where
  "example_receipt_key =
     \<lparr>rk_key_id = digest_bytes example_key, rk_public_key = example_key, rk_status = u ''active'', rk_producers = {u ''worker''}\<rparr>"

lemma validate_example_keys: "validate_key_registry example_key_document = Inr [(digest_bytes example_key, example_receipt_key)]"
proof -
  have keys: "exact_keys example_key_document [''spec_version'', ''keys'']"
    "exact_keys example_key_entry [''profile'', ''public_key'', ''status'', ''producers'']"
    unfolding example_key_document_def example_key_entry_def exact_keys_literal by simp_all
  have len: "length (b64_encode example_key) = 43" by (simp add: length_b64_encode example_key_def)
  have dec: "decode_public_key (PyStr (b64_encode example_key)) = Inr example_key"
    using b64_chars [of example_key] len by (simp add: decode_public_key_def) (simp add: example_key_def)
  have items: "item example_key_entry ''producers'' = PyList [S ''worker'']" "item example_key_entry ''profile'' = signature_profile"
    "item example_key_entry ''public_key'' = PyStr (b64_encode example_key)" "item example_key_entry ''status'' = S ''active''"
    by (simp_all add: example_key_entry_def)
  have "validate_key_entry (PyStr (digest_bytes example_key)) example_key_entry = Inr example_receipt_key"
    using keys(2) dec by (simp add: validate_key_entry_def items guard_def member_def key_statuses_def digest_val_def
        nonempty_str_def example_receipt_key_def)
  then show ?thesis using keys(1) by (simp add: validate_key_registry_def guard_def) (simp add: example_key_document_def)
qed

lemma resolve_key_sound_witness:
  "\<exists>r. resolve_key (Some (File (utf8_bytes (dumps example_key_document)))) (digest_bytes example_key) (u ''worker'') = Inr r
     \<and> kr_key r = Some example_receipt_key \<and> rk_status example_receipt_key = u ''active''"
proof -
  have r: "resolve_key (Some (File (utf8_bytes (dumps example_key_document)))) (digest_bytes example_key) (u ''worker'')
      = Inr \<lparr>kr_key = Some example_receipt_key, kr_reason = ''active''\<rparr>"
    by (simp add: resolve_key_def read_example_keys validate_example_keys) (simp add: example_receipt_key_def)
  from resolve_key_sound [OF r, of example_receipt_key] r show ?thesis by simp
qed

section \<open>Authorization partitions\<close>

lemma is_partition_hmac: "is_partition (u ''hmac-sha256:'' @ hex (hmac_sha256 k m))"
  using hex_is_hex by (simp add: is_partition_def)

text \<open>The derivation succeeds on exactly these inputs, with this token.\<close>

definition partition_inputs :: "pyval \<Rightarrow> pyval \<Rightarrow> bytes \<Rightarrow> pyval \<Rightarrow> bool" where
  "partition_inputs tenant scopes key subject \<longleftrightarrow>
     nonempty_str tenant \<and> is_list scopes \<and> items_of scopes \<noteq> [] \<and> list_all nonempty_str (items_of scopes)
     \<and> distinct (items_of scopes) \<and> null_or_nonempty subject \<and> 32 \<le> length key"

definition claims_of :: "pyval \<Rightarrow> pyval \<Rightarrow> pyval \<Rightarrow> pyval" where
  "claims_of tenant scopes subject = partition_claims (str_of tenant) (map str_of (items_of scopes)) subject"

lemma derive_Inr:
  "derive_authorization_partition tenant scopes key subject = Inr token \<longleftrightarrow>
     partition_inputs tenant scopes key subject \<and> (\<exists>c. canonical_json (claims_of tenant scopes subject) = Inr c
       \<and> token = u ''hmac-sha256:'' @ hex (hmac_sha256 key (partition_domain @ c)))"
  by (auto simp: derive_authorization_partition_def partition_inputs_def claims_of_def checks null_or_nonempty_def)

lemma inj_str_of: "\<forall>x \<in> A. is_str x \<Longrightarrow> inj_on str_of A"
proof (rule inj_onI)
  fix x y
  assume s: "\<forall>x \<in> A. is_str x" "x \<in> A" "y \<in> A" and e: "str_of x = str_of y"
  have "is_str x" "is_str y" using s by blast+
  with e show "x = y" by (cases x; cases y) simp_all
qed

lemma sort_scopes:
  assumes "distinct xs" "distinct ys" "list_all is_str xs" "list_all is_str ys"
  shows "sort (map str_of xs) = sort (map str_of ys) \<longleftrightarrow> set xs = set ys"
proof -
  have s: "\<forall>x \<in> set xs \<union> set ys. is_str x" using assms(3,4) by (auto simp: list_all_iff)
  have "distinct (map str_of xs)" "distinct (map str_of ys)"
    using assms(1,2) s by (auto simp: distinct_map intro: inj_str_of)
  then have "sort (map str_of xs) = sorted_list_of_set (set (map str_of xs))"
    "sort (map str_of ys) = sorted_list_of_set (set (map str_of ys))"
    by (simp_all only: sorted_list_of_set_sort_remdups distinct_remdups_id)
  moreover have "set (map str_of xs) = set (map str_of ys)" if "sort (map str_of xs) = sort (map str_of ys)"
  proof -
    from that have "set (sort (map str_of xs)) = set (sort (map str_of ys))" by (rule arg_cong)
    then show ?thesis by (simp only: set_sort)
  qed
  ultimately have "sort (map str_of xs) = sort (map str_of ys) \<longleftrightarrow> set (map str_of xs) = set (map str_of ys)"
    by (intro iffI) (assumption | simp only:)+
  also have "\<dots> \<longleftrightarrow> set xs = set ys"
    unfolding set_map by (rule inj_on_image_eq_iff [OF inj_str_of [OF s]]) auto
  finally show ?thesis .
qed

lemma list_all_is_str: "list_all nonempty_str xs \<Longrightarrow> list_all is_str xs"
  by (simp add: list_all_iff nonempty_str_def)

lemma claims_items:
  "item (partition_claims t ss p) ''tenant'' = PyStr t" "item (partition_claims t ss p) ''scopes'' = PyList (map PyStr (sort ss))"
  "item (partition_claims t ss p) ''subject_partition'' = p"
  by (simp_all add: partition_claims_def)

lemma wf_claims:
  assumes "wf_val tenant" "wf_val scopes" "wf_val subject"
  shows "wf_val (claims_of tenant scopes subject)"
proof -
  have "wf_val x" if "x \<in> set (items_of scopes)" for x
    using assms(2) that by (cases scopes) (auto simp: list_all_iff)
  moreover have "list_all wf_val (map PyStr ys)" if "\<forall>y \<in> set ys. list_all code_point y" for ys
    using that by (induction ys) simp_all
  moreover have "\<forall>y \<in> set (sort (map str_of (items_of scopes))). list_all code_point y"
    using calculation(1) wf_str_of by (simp only: set_sort set_map) blast
  ultimately have "list_all wf_val (map PyStr (sort (map str_of (items_of scopes))))" by blast
  then show ?thesis using assms(3) wf_str_of [OF assms(1)]
    by (simp add: claims_of_def partition_claims_def)
qed

text \<open>A partition token commits to its claims. A derived token has the token format and does not
  depend on the order of the scopes; and two derivations under one key with the same token had the
  same tenant, the same set of scopes and the same subject, unless the keyed hashes of the two
  different claim documents coincide.\<close>

lemma partition_commits:
  assumes "derive_authorization_partition t ss k p = Inr token" "derive_authorization_partition t' ss' k p' = Inr token"
    and "list_all wf_val [t, ss, p]" "list_all wf_val [t', ss', p']"
  shows "validate_authorization_partition (PyStr token) = Inr ()
    \<and> (\<forall>xs. distinct xs \<and> set xs = set (items_of ss) \<longrightarrow> derive_authorization_partition t (PyList xs) k p = Inr token)
    \<and> (t = t' \<and> set (items_of ss) = set (items_of ss') \<and> p = p'
       \<or> (\<exists>a b. canonical_json (claims_of t ss p) = Inr a \<and> canonical_json (claims_of t' ss' p') = Inr b \<and> a \<noteq> b
            \<and> hmac_sha256 k (partition_domain @ a) = hmac_sha256 k (partition_domain @ b)))"
proof -
  from assms(1,2) obtain a b where
    a: "partition_inputs t ss k p" "canonical_json (claims_of t ss p) = Inr a"
      "token = u ''hmac-sha256:'' @ hex (hmac_sha256 k (partition_domain @ a))" and
    b: "partition_inputs t' ss' k p'" "canonical_json (claims_of t' ss' p') = Inr b"
      "token = u ''hmac-sha256:'' @ hex (hmac_sha256 k (partition_domain @ b))" by (auto simp: derive_Inr)
  have strs: "list_all is_str (items_of ss)" "list_all is_str (items_of ss')"
    using a(1) b(1) list_all_is_str by (auto simp: partition_inputs_def)
  have wf: "wf_val (claims_of t ss p)" "wf_val (claims_of t' ss' p')" using assms(3,4) wf_claims by simp_all
  have perm: "derive_authorization_partition t (PyList xs) k p = Inr token" if x: "distinct xs" "set xs = set (items_of ss)" for xs
  proof -
    have "list_all is_str xs" using x(2) strs(1) by (simp add: list_all_iff)
    then have "claims_of t (PyList xs) p = claims_of t ss p"
      using sort_scopes [of xs "items_of ss"] a(1) x strs(1) by (simp add: claims_of_def partition_claims_def partition_inputs_def)
    moreover have "partition_inputs t (PyList xs) k p" using a(1) x
      by (cases xs) (auto simp: partition_inputs_def list_all_iff)
    ultimately show ?thesis using a by (simp add: derive_Inr)
  qed
  have same: "t = t' \<and> set (items_of ss) = set (items_of ss') \<and> p = p'" if "a = b"
  proof -
    have n: "norm (claims_of t ss p) = norm (claims_of t' ss' p')"
      using canonical_json_inj [OF wf a(2)] b(2) that by simp
    have j: "jsonable (claims_of t ss p)" "jsonable (claims_of t' ss' p')"
      using a(2) b(2) wf by (simp_all add: canonical_json_Inr)
    have "norm (item (claims_of t ss p) f) = norm (item (claims_of t' ss' p') f)" for f
      using n item_norm [OF j(1)] item_norm [OF j(2)] by metis
    from this [of "''tenant''"] this [of "''scopes''"] this [of "''subject_partition''"]
    have e: "str_of t = str_of t'" "map PyStr (sort (map str_of (items_of ss))) = map PyStr (sort (map str_of (items_of ss')))"
      "norm p = norm p'" by (simp_all add: claims_of_def claims_items comp_def)
    have "inj PyStr" by (rule injI) simp
    with e(2) have "sort (map str_of (items_of ss)) = sort (map str_of (items_of ss'))" by (simp add: inj_map_eq_map)
    with sort_scopes [of "items_of ss" "items_of ss'"] strs a(1) b(1) have "set (items_of ss) = set (items_of ss')"
      by (simp add: partition_inputs_def)
    moreover have "t = t'" using e(1) a(1) b(1) by (metis nonempty_str_def partition_inputs_def str_of_eq)
    moreover have "p = p'" using e(3) a(1) b(1)
      by (cases p; cases p') (auto simp: partition_inputs_def null_or_nonempty_def nonempty_str_def)
    ultimately show ?thesis by blast
  qed
  have "hmac_sha256 k (partition_domain @ a) = hmac_sha256 k (partition_domain @ b)" using a(3) b(3) by simp
  moreover have "validate_authorization_partition (PyStr token) = Inr ()"
    using is_partition_hmac a(3) by (simp add: validate_authorization_partition_def)
  ultimately show ?thesis using same perm a(2) b(2) by blast
qed

lemma partition_commits_witness:
  "\<exists>token. derive_authorization_partition (S ''acme'') (PyList [S ''read'', S ''list'']) example_key PyNone = Inr token
     \<and> derive_authorization_partition (S ''acme'') (PyList [S ''list'', S ''read'']) example_key PyNone = Inr token"
proof -
  let ?c = "claims_of (S ''acme'') (PyList [S ''read'', S ''list'']) PyNone"
  have "jsonable ?c" by (simp add: claims_of_def partition_claims_def jsonable_simps)
  then have "canonical_json ?c = Inr (utf8_bytes (dumps ?c))" by (rule canonical_json_jsonable)
  moreover have "partition_inputs (S ''acme'') (PyList [S ''read'', S ''list'']) example_key PyNone"
    by (simp add: partition_inputs_def nonempty_str_def null_or_nonempty_def example_key_def)
  ultimately obtain token where
    d: "derive_authorization_partition (S ''acme'') (PyList [S ''read'', S ''list'']) example_key PyNone = Inr token"
    by (auto simp: derive_Inr)
  have "distinct [S ''list'', S ''read'']" "set [S ''list'', S ''read''] = set (items_of (PyList [S ''read'', S ''list'']))" by auto
  with partition_commits [OF d d] d show ?thesis by simp
qed

end
