(* ===== verification/Runtime_Examples.thy ===== *)
theory Runtime_Examples
  imports Runtime_Cases Registry_Theorems
begin

text \<open>
  A store that offers one result with one artifact, and lookups of it. The witnesses of the runtime
  properties run on it, with the policies of \<open>Registry_Theorems\<close>.
\<close>

section \<open>One result\<close>

definition one_view :: "pyval \<Rightarrow> bytes \<Rightarrow> store_view" where
  "one_view m blob =
     \<lparr>sv_name = u ''local'', sv_candidates = (\<lambda>_. Inr [m]), sv_result = None, sv_validations = (\<lambda>_. Inr []),
      sv_invalidations = None, sv_receipts = (\<lambda>_. Inr []), sv_get_blob = (\<lambda>_. Inr (Some blob))\<rparr>"

definition one_manifest :: "pystr \<Rightarrow> string \<Rightarrow> bytes \<Rightarrow> pyval" where
  "one_manifest requested name blob =
     built_manifest requested [(u name, blob, u ''text/plain'')] (iso_utc 0) (PyStr (iso_utc 2000000)) (u ''worker'')"

lemma one_manifest_ok:
  assumes "is_digest requested" "name \<noteq> []" "int (length blob) \<le> max_safe_integer"
  shows "manifest_ok (one_manifest requested name blob)" "jsonable (one_manifest requested name blob)"
proof -
  have r: "max_instant > 2000000" by (simp add: max_instant_def)
  have iv: "instant_val (PyStr (iso_utc 0))" "instant_val (PyStr (iso_utc 2000000))"
    using parse_iso_utc [of 0] parse_iso_utc [of 2000000] r by (simp_all add: instant_val_def)
  have "list_all good_artifact [(u name, blob, u ''text/plain'')]"
    using assms(2,3) by (simp add: good_artifact_def)
  from built_manifest_ok [OF assms(1) this _ iv(1), of "PyStr (iso_utc 2000000)" "u ''worker''"] iv(2)
  show "manifest_ok (one_manifest requested name blob)" "jsonable (one_manifest requested name blob)"
    by (simp_all add: one_manifest_def)
qed

definition one_outcome :: "pyval \<Rightarrow> string \<Rightarrow> bytes \<Rightarrow> lookup_outcome" where
  "one_outcome m name blob =
     \<lparr>lo_hit = True, lo_tier = Some (u ''local''), lo_manifest = Some m, lo_artifacts = [(u name, blob)],
      lo_rejections = [], lo_validation = None\<rparr>"

lemma admit_one:
  assumes ok: "manifest_ok (one_manifest requested name blob)"
    and P: "\<not> p_require_lineage P" "0 \<le> p_max_dependency_depth P" "p_trusted_producers P = Some {u ''worker''}" "p_now P \<le> 2000000"
  shows "admission P requested (one_manifest requested name blob) ((one_view (one_manifest requested name blob) blob)\<lparr>sv_get_blob := get\<rparr>)
     {} 0 ignore = Inr (Proceed None)"
proof -
  let ?m = "one_manifest requested name blob"
  obtain d where d: "manifest_digest ?m = Inr d" using manifest_digest_ok [OF ok] by blast
  have i: "item ?m ''spec_version'' = result_v0" "item ?m ''action_digest'' = PyStr requested"
    "item ?m ''producer'' = S ''worker''" "item ?m ''fresh_until'' = PyStr (iso_utc 2000000)"
    by (simp_all add: one_manifest_def)
  have "parse_time (iso_utc 2000000) = Inr 2000000"
    using parse_iso_utc [of 2000000] by (simp add: parse_time_def max_instant_def)
  then have f: "manifest_fresh P ?m = Inr True" using P(4) by (simp add: manifest_fresh_def i)
  have "validate_manifest ?m = Inr ()" using ok by (simp only: validate_manifest_iff)
  then show ?thesis
    using P d f by (simp add: admission_def i in_trust_def effective_invalidated_def one_view_def freshness_def)
qed

lemma evaluate_one_get:
  assumes "manifest_ok (one_manifest requested name blob)"
    and "\<not> p_require_lineage P" "0 \<le> p_max_dependency_depth P" "p_trusted_producers P = Some {u ''worker''}" "p_now P \<le> 2000000"
  shows "evaluate P stores requested (one_manifest requested name blob) ((one_view (one_manifest requested name blob) blob)\<lparr>sv_get_blob := \<lambda>_. got\<rparr>)
     new_traversal 0 ignore =
     rbind (load_artifacts ((one_view (one_manifest requested name blob) blob)\<lparr>sv_get_blob := \<lambda>_. got\<rparr>) {}
       [descriptor (u name, blob, u ''text/plain'')])
       (\<lambda>d. Inr (case d of Reject reason \<Rightarrow> Reject reason | Proceed loaded \<Rightarrow> Proceed (loaded, None), new_traversal))"
proof -
  let ?m = "one_manifest requested name blob"
  have "item ?m ''spec_version'' = result_v0" "artifacts_of ?m = [descriptor (u name, blob, u ''text/plain'')]"
    by (simp_all add: one_manifest_def)
  with admit_one [OF assms, of "\<lambda>_. got" ignore] show ?thesis
    by (simp add: evaluate.simps new_traversal_def rbind_def split: decision.splits sum.splits)
qed

lemma evaluate_one:
  assumes "manifest_ok (one_manifest requested name blob)"
    and "\<not> p_require_lineage P" "0 \<le> p_max_dependency_depth P" "p_trusted_producers P = Some {u ''worker''}" "p_now P \<le> 2000000"
  shows "evaluate P stores requested (one_manifest requested name blob) (one_view (one_manifest requested name blob) blob)
     new_traversal 0 ignore = Inr (Proceed ([(u name, blob)], None), new_traversal)"
  using evaluate_one_get [OF assms, of stores "Inr (Some blob)" ignore] by (simp add: one_view_def descriptor_def)

text \<open>A blob that cannot be read ends the lookup with the exception of the store, although a later store has the result:
  only the readers of other records are caught.\<close>

lemma unreadable_blob_aborts:
  fixes m requested name blob
  defines "m \<equiv> one_manifest requested name blob"
  assumes "manifest_ok m" and "\<not> p_require_lineage P" "0 \<le> p_max_dependency_depth P" "p_trusted_producers P = Some {u ''worker''}" "p_now P \<le> 2000000"
  shows "search_stores P stores requested ignore [(one_view m blob)\<lparr>sv_get_blob := \<lambda>_. Inl (StoreReadError ''blob_read_failed'')\<rparr>, one_view m blob] []
    = Inl (StoreReadError ''blob_read_failed'')"
  using evaluate_one_get [OF assms(2-6) [unfolded m_def], of stores "Inl (StoreReadError ''blob_read_failed'')" ignore]
  by (simp add: m_def one_view_def [of _ blob] descriptor_def)

lemma search_one:
  assumes "manifest_ok (one_manifest requested name blob)"
    and "\<not> p_require_lineage P" "0 \<le> p_max_dependency_depth P" "p_trusted_producers P = Some {u ''worker''}" "p_now P \<le> 2000000"
  shows "search_stores P [one_view (one_manifest requested name blob) blob] requested ignore
     [one_view (one_manifest requested name blob) blob] [] = Inr (one_outcome (one_manifest requested name blob) name blob)"
  using evaluate_one [OF assms] by (simp add: one_view_def [of _ blob] one_outcome_def)

lemma one_outputs:
  "candidate_outputs (one_outcome (one_manifest requested name blob) name blob) = Inr [(u name, blob, u ''text/plain'')]"
  by (simp add: candidate_outputs_def one_outcome_def media_types_def one_manifest_def descriptor_def al_of_def)

section \<open>Actions\<close>

text \<open>An action of a given operation whose inputs are those of an HTTP fetch.\<close>

definition op_action :: "string \<Rightarrow> pyval" where
  "op_action name =
     obj [(''spec_version'', S ''oncemesh.action/v0''),
          (''operation'', obj [(''name'', S name), (''version'', S ''1'')]),
          (''inputs'', obj [(''url'', S ''https://example.org/''), (''method'', S ''GET''), (''accept'', S ''*/*'')]),
          (''executor'', obj [(''name'', S ''worker''), (''version'', S ''2''),
             (''config'', obj [(''follow_redirects'', PyBool True), (''max_bytes'', PyInt 1000)])]),
          (''output_schema'', S ''text''), (''vary'', obj [])]"

lemma op_action_jsonable: "jsonable (op_action name)"
  by (simp add: op_action_def jsonable_simps) (simp add: jsonable_def max_safe_integer_def)

lemma op_action_items:
  "item (op_action name) ''operation'' = obj [(''name'', S name), (''version'', S ''1'')]"
  "item (op_action name) ''inputs'' = obj [(''url'', S ''https://example.org/''), (''method'', S ''GET''), (''accept'', S ''*/*'')]"
  "item (op_action name) ''executor'' = obj [(''name'', S ''worker''), (''version'', S ''2''),
             (''config'', obj [(''follow_redirects'', PyBool True), (''max_bytes'', PyInt 1000)])]"
  "item (op_action name) ''vary'' = obj []" "item (op_action name) ''output_schema'' = S ''text''"
  "item (op_action name) ''spec_version'' = S ''oncemesh.action/v0''" "is_dict (op_action name)"
  "has_key (op_action name) ''operation''" "has_key (op_action name) ''inputs''" "has_key (op_action name) ''executor''"
  "has_key (op_action name) ''vary''"
  by (simp_all add: op_action_def has_key_def)

lemma op_action_digest:
  "name \<noteq> [] \<Longrightarrow> action_digest (op_action name) = Inr (digest_bytes (utf8_bytes (dumps (op_action name))))"
proof -
  assume n: "name \<noteq> []"
  have "exact_keys (op_action name) [''spec_version'', ''operation'', ''inputs'', ''executor'', ''output_schema'', ''vary'']"
    unfolding op_action_def exact_keys_literal by simp
  moreover have "exact_keys (item (op_action name) ''operation'') [''name'', ''version'']"
    "exact_keys (item (op_action name) ''executor'') [''name'', ''version'', ''config'']"
    unfolding op_action_items exact_keys_literal by simp_all
  moreover have "canonical_json (op_action name) = Inr (utf8_bytes (dumps (op_action name)))"
    by (rule canonical_json_jsonable [OF op_action_jsonable])
  ultimately have "validate_action (op_action name) = Inr ()"
    unfolding validate_action_def checks require_exact_keys_iff require_nonempty_string_iff
    using n by (simp add: op_action_items nonempty_str_def)
  then show ?thesis
    by (simp add: action_digest_def object_digest_def canonical_json_jsonable [OF op_action_jsonable])
qed

lemma op_action_key: "operation_key (op_action name) = Inr (u (name @ ''/1''))"
proof -
  have "operation_key (op_action name) = Inr (u name @ [47] @ u ''1'')"
    by (simp add: operation_key_def subscript_def op_action_items) (simp add: has_key_def)
  then show ?thesis by (simp add: u_def)
qed

lemma op_action_public:
  "op_authorization_partition p = u ''public'' \<Longrightarrow> authorization_failure (op_action name) p PyNone = Inr None"
  by (simp add: authorization_failure_def op_action_items get_method_def) (simp add: item_def)

definition one_digest :: "string \<Rightarrow> pystr" where
  "one_digest name = digest_bytes (utf8_bytes (dumps (op_action name)))"

section \<open>A call\<close>

text \<open>Executions read the one-result store and publish nowhere.\<close>

definition one_call :: "string \<Rightarrow> string \<Rightarrow> bytes \<Rightarrow> unit call" where
  "one_call operation name blob =
     \<lparr>c_action = op_action operation, c_stores = (\<lambda>_. [one_view (one_manifest (one_digest operation) name blob) blob]),
      c_target = None, c_producer = u ''worker'', c_now = 1000000, c_evaluation_id = None, c_cost = 0, c_time = 0,
      c_durations = \<lparr>d_lookup = 0, d_execution = 0, d_validation = 0\<rparr>\<rparr>"

definition one_world :: "unit world" where
  "one_world = \<lparr>w_store = (), w_events = [], w_jobs = []\<rparr>"

lemma trust_policy_sel [simp]:
  "p_require_lineage (trust_policy now p) = False" "p_max_dependency_depth (trust_policy now p) = 8"
  "p_trusted_producers (trust_policy now p) = Some (op_trusted_result_producers p)" "p_now (trust_policy now p) = now"
  by (simp_all add: trust_policy_def default_policy_def)

lemma one_call_lookup:
  assumes "operation \<noteq> []" "name \<noteq> []" "int (length blob) \<le> max_safe_integer" "op_trusted_result_producers p = {u ''worker''}"
  shows "reuse (c_action (one_call operation name blob)) (c_stores (one_call operation name blob) s) (trust_policy 1000000 p)
      = Inr (one_outcome (one_manifest (one_digest operation) name blob) name blob)"
    and "candidate_for_revalidation (c_action (one_call operation name blob)) (c_stores (one_call operation name blob) s)
        (trust_policy 1000000 p) = Inr (one_outcome (one_manifest (one_digest operation) name blob) name blob)"
proof -
  have ok: "manifest_ok (one_manifest (one_digest operation) name blob)"
    using one_manifest_ok(1) [OF _ assms(2,3), of "one_digest operation"] by (simp add: one_digest_def)
  have "search_stores (trust_policy 1000000 p) [one_view (one_manifest (one_digest operation) name blob) blob] (one_digest operation) ignore
     [one_view (one_manifest (one_digest operation) name blob) blob] [] = Inr (one_outcome (one_manifest (one_digest operation) name blob) name blob)"
    for ignore by (rule search_one [OF ok]) (simp_all add: assms(4))
  then show "reuse (c_action (one_call operation name blob)) (c_stores (one_call operation name blob) s) (trust_policy 1000000 p)
      = Inr (one_outcome (one_manifest (one_digest operation) name blob) name blob)"
    "candidate_for_revalidation (c_action (one_call operation name blob)) (c_stores (one_call operation name blob) s)
        (trust_policy 1000000 p) = Inr (one_outcome (one_manifest (one_digest operation) name blob) name blob)"
    by (simp_all only: reuse_def candidate_for_revalidation_def one_call_def call.simps op_action_digest [OF assms(1)]
        one_digest_def [symmetric] rbind_simps)
qed

end
