(* ===== verification/Safe_Http_Theorems.thy ===== *)
theory Safe_Http_Theorems
  imports Safe_Http
begin

text \<open>The authority of the allowlisted transport: which URLs a request contacts, and what it can return.\<close>

section \<open>Contacts\<close>

text \<open>The URL may be contacted as the n-th of a request: HTTPS, an allowlisted host, and at that moment only global addresses.\<close>

definition allowed_contact :: "url_env \<Rightarrow> web \<Rightarrow> safe_transport \<Rightarrow> nat \<Rightarrow> pystr \<Rightarrow> bool" where
  "allowed_contact U W T n url \<longleftrightarrow>
     (case rbind (urlsplit U url) (\<lambda>p. rbind (safe_host U (or_empty (hostname U p))) (\<lambda>host. rbind (url_port p) (\<lambda>port.
             rbind (web_resolve W n host (port_or_443 port)) (\<lambda>addresses. Inr (su_scheme p, host, addresses))))) of
          Inl _ \<Rightarrow> False
        | Inr (scheme, host, addresses) \<Rightarrow>
            scheme = u ''https'' \<and> host \<in> set (safe_hosts T) \<and> addresses \<noteq> [] \<and> list_all (\<lambda>a. web_ip_global W a = Some True) addresses)"

fun contacts_allowed :: "url_env \<Rightarrow> web \<Rightarrow> safe_transport \<Rightarrow> nat \<Rightarrow> pystr list \<Rightarrow> bool" where
  "contacts_allowed U W T n [] \<longleftrightarrow> True"
| "contacts_allowed U W T n (url # rest) \<longleftrightarrow> allowed_contact U W T n url \<and> contacts_allowed U W T (Suc n) rest"

lemma global_addresses_Inr: "global_addresses W addresses = Inr () \<longleftrightarrow> list_all (\<lambda>a. web_ip_global W a = Some True) addresses"
  by (induction addresses) (simp_all split: option.split)

lemma normalized_https:
  assumes "normalize_https_url U raw = Inr url"
  obtains rest where "url = u ''https:'' @ rest"
proof -
  from assms obtain p where "url = urlunsplit p" "su_scheme p = u ''https''"
    by (auto simp: normalize_https_url_def Let_def rbind_Inr split: if_splits option.splits sum.splits)
  then have "\<exists>rest. url = u ''https:'' @ rest"
    by (simp add: urlunsplit_def Let_def u_def)
  with that show ?thesis by blast
qed

lemma https_scheme: "urlsplit U (u ''https:'' @ rest) = Inr p \<Longrightarrow> su_scheme p = u ''https''"
  by (auto simp: urlsplit_def Let_def u_def split_scheme_def is_alpha_def is_scheme_char_def lower_ascii_def
      split: prod.splits if_splits option.splits)

lemma validate_target_Inr:
  assumes "validate_target U W T n raw = Inr url"
  shows "allowed_contact U W T n url"
proof -
  from assms obtain p where "normalize_https_url U raw = Inr url" "urlsplit U url = Inr p"
    by (auto simp: validate_target_def rbind_Inr seq_Inr split: if_splits)
  moreover from this have "su_scheme p = u ''https''" using normalized_https https_scheme by metis
  ultimately show ?thesis using assms
    by (auto simp: validate_target_def allowed_contact_def rbind_Inr seq_Inr global_addresses_Inr split: if_splits)
qed

text \<open>What opening a URL contacts, and from where its outcome is.\<close>

definition opened_ok :: "pystr list \<Rightarrow> opened \<Rightarrow> bool" where
  "opened_ok contacts result \<longleftrightarrow>
     (case result of
        Opened url reply \<Rightarrow> url = last contacts \<and> 200 \<le> hr_status reply \<and> hr_status reply < 300
      | Http_error url reply \<Rightarrow> (hr_status reply = 304 \<longrightarrow> url = last contacts)
      | Raised e \<Rightarrow> True)"

lemma open_url_contained:
  assumes "open_url U W T enabled headers visited url = (contacts, outcome)" "allowed_contact U W T (length visited) url"
  shows "contacts \<noteq> [] \<and> contacts_allowed U W T (length visited) contacts \<and> opened_ok contacts outcome
    \<and> (enabled \<longrightarrow> int (length contacts) \<le> max 1 (safe_max_redirects T - int (length visited) + 1))
    \<and> (\<not> enabled \<longrightarrow> length contacts = 1)"
  using assms
proof (induction U W T enabled headers visited url arbitrary: contacts outcome rule: open_url.induct)
  case (1 U W T enabled headers visited url)
  let ?one = "contacts = [url]"
  show ?case
  proof (cases "?one \<and> opened_ok contacts outcome")
    case True
    then show ?thesis using 1(3) by auto
  next
    case False
    with 1(2) obtain reply target normalized rest where s: "web_send W (length visited) url headers = Inr reply"
      "\<not> (200 \<le> hr_status reply \<and> hr_status reply < 300)" "\<not> hr_status reply \<notin> set redirect_codes"
      "web_location W url (hr_headers reply) = Inr (Location target)" "enabled"
      "\<not> safe_max_redirects T < int (length visited) + 1" "validate_target U W T (length visited + 1) target = Inr normalized"
      "\<not> (4 \<le> count_list visited target \<or> 10 \<le> length (remdups visited))"
      "open_url U W T enabled headers (target # visited) normalized = (rest, outcome)" "contacts = url # rest"
      by (subst (asm) open_url.simps)
        (auto simp: opened_ok_def redirect_codes_def Let_def split: sum.splits if_splits location.splits prod.splits)
    have "allowed_contact U W T (length (target # visited)) normalized" using validate_target_Inr [OF s(7)] by simp
    with 1(1) [OF s(1) s(2) s(3) s(4) refl _ s(6) s(7) s(8) s(9)] s(5)
    have "rest \<noteq> [] \<and> contacts_allowed U W T (length (target # visited)) rest \<and> opened_ok rest outcome
      \<and> int (length rest) \<le> max 1 (safe_max_redirects T - int (length (target # visited)) + 1)" by simp
    moreover from this have "opened_ok contacts outcome" by (simp add: s(10) opened_ok_def split: opened.splits)
    ultimately show ?thesis using s(5,6,10) 1(3) by simp
  qed
qed

lemma read_bounded_Inr: "read_bounded limit data = Inr body \<Longrightarrow> int (length body) \<le> limit"
  by (simp add: read_bounded_def Let_def split: if_splits)

text \<open>C23: The transport stays inside its authority. Whatever name resolution, the servers and their redirects do, every URL a
  request of a constructed transport contacts is an HTTPS URL of an allowlisted host which had, at that moment, only
  global addresses; a request contacts at most one URL, or with redirects one more than their limit. A response that is
  returned has a body within the limit and, unless errors are asked for, is a success or a 304 of the last URL that was
  contacted.\<close>

theorem safe_request_contained:
  assumes "new_safe_transport U hosts timeout redirects = Inr T"
    "safe_request U W T url accept follow limit conditional errors = (contacts, outcome)"
  shows "contacts_allowed U W T 0 contacts
    \<and> int (length contacts) \<le> (if follow then redirects + 1 else 1)
    \<and> (case outcome of Inl e \<Rightarrow> True
       | Inr response \<Rightarrow> contacts \<noteq> []
           \<and> (fr_body response = [] \<or> int (length (fr_body response)) \<le> limit)
           \<and> (errors \<or> fr_final_url response = last contacts
                \<and> (200 \<le> fr_status response \<and> fr_status response < 300 \<or> fr_status response = 304)))"
proof -
  have r: "safe_max_redirects T = redirects" "0 \<le> redirects"
    using assms(1) by (auto simp: new_safe_transport_def checks)
  show ?thesis
  proof (cases "validate_target U W T 0 url")
    case (Inl e)
    with assms(2) r(2) show ?thesis by (auto simp: safe_request_def)
  next
    case (Inr normalized)
    with assms(2) obtain headers result where o: "open_url U W T follow headers [] normalized = (contacts, result)"
      "outcome = opened_response limit errors result"
      by (auto simp: safe_request_def split: prod.splits)
    have c: "contacts \<noteq> [] \<and> contacts_allowed U W T 0 contacts \<and> opened_ok contacts result
        \<and> (follow \<longrightarrow> int (length contacts) \<le> max 1 (redirects + 1)) \<and> (\<not> follow \<longrightarrow> length contacts = 1)"
      using open_url_contained [OF o(1)] validate_target_Inr [OF Inr] by (simp add: r(1))
    then have "int (length contacts) \<le> (if follow then redirects + 1 else 1)" using r(2) by auto
    with c show ?thesis
      by (auto simp: o(2) opened_response_def opened_ok_def reply_response_def rbind_Inr
          split: opened.splits sum.splits if_splits dest: read_bounded_Inr)
  qed
qed

text \<open>A redirect to another path of the allowed host.\<close>

definition plain_urls :: url_env where
  "plain_urls = \<lparr>ue_idna = (\<lambda>h. Inr h), ue_lower = (\<lambda>s. s), ue_bracket_ok = (\<lambda>h. False), ue_unicode_ok = (\<lambda>h. False)\<rparr>"

definition redirecting_web :: web where
  "redirecting_web =
     \<lparr>web_resolve = (\<lambda>n host port. Inr [u ''203.0.113.7'']), web_ip_global = (\<lambda>a. Some True),
      web_send = (\<lambda>n url hs. Inr (if n = 0 then \<lparr>hr_status = 302, hr_headers = [(u ''Location'', u ''/b'')], hr_body = []\<rparr>
                                  else \<lparr>hr_status = 200, hr_headers = [], hr_body = [7]\<rparr>)),
      web_location = (\<lambda>url hs. Inr (Location (u ''https://a.example/b'')))\<rparr>"

theorem safe_request_contained_witness:
  "\<exists>T contacts outcome. new_safe_transport plain_urls [u ''A.example.''] 15 1 = Inr T
    \<and> safe_request plain_urls redirecting_web T (u ''https://a.example/a'') (u ''*/*'') True 1 [] False = (contacts, outcome)
    \<and> contacts = [u ''https://a.example/a'', u ''https://a.example/b'']
    \<and> contacts_allowed plain_urls redirecting_web T 0 contacts"
proof -
  have T: "new_safe_transport plain_urls [u ''A.example.''] 15 1 = Inr \<lparr>safe_hosts = [u ''a.example''], safe_max_redirects = 1\<rparr>"
    by code_simp
  have "fst (safe_request plain_urls redirecting_web \<lparr>safe_hosts = [u ''a.example''], safe_max_redirects = 1\<rparr>
      (u ''https://a.example/a'') (u ''*/*'') True 1 [] False) = [u ''https://a.example/a'', u ''https://a.example/b'']"
    by code_simp
  then obtain outcome where s: "safe_request plain_urls redirecting_web \<lparr>safe_hosts = [u ''a.example''], safe_max_redirects = 1\<rparr>
      (u ''https://a.example/a'') (u ''*/*'') True 1 [] False = ([u ''https://a.example/a'', u ''https://a.example/b''], outcome)"
    by (metis prod.collapse)
  show ?thesis using T s safe_request_contained [OF T s] by blast
qed

end
