(* ===== verification/Evaluation_Theorems.thy ===== *)
theory Evaluation_Theorems
  imports Evaluation Runtime_Examples Runtime_Cases Safe_Http_Theorems
begin

text \<open>What the runs record and what their reports say about the recorded events.\<close>

section \<open>Events of a visit\<close>

text \<open>A step that, when it returns, has added exactly \<open>k\<close> events, all satisfying \<open>Q\<close>.\<close>

definition records :: "nat \<Rightarrow> (evaluation_event \<Rightarrow> bool) \<Rightarrow> ('s, 'a) act \<Rightarrow> bool" where
  "records k Q m \<longleftrightarrow> (\<forall>w w' x. m w = (w', Inr x) \<longrightarrow>
     (\<exists>new. w_events w' = w_events w @ new \<and> length new = k \<and> list_all Q new))"

lemma records_ret: "records 0 Q (ret r)"
  by (simp add: records_def)

lemma records_abind:
  assumes "records k Q m" "\<And>x. records l Q (f x)"
  shows "records (k + l) Q (abind m f)"
  unfolding records_def
proof (intro allI impI)
  fix w w' y assume "abind m f w = (w', Inr y)"
  then obtain w1 x where "m w = (w1, Inr x)" "f x w1 = (w', Inr y)" by (auto simp: abind_Inr)
  with assms obtain new more where "w_events w1 = w_events w @ new" "length new = k" "list_all Q new"
    "w_events w' = w_events w1 @ more" "length more = l" "list_all Q more"
    unfolding records_def by blast
  then show "\<exists>new. w_events w' = w_events w @ new \<and> length new = k + l \<and> list_all Q new"
    by (intro exI [of _ "new @ more"]) simp
qed

lemma records_ret_abind: "(\<And>x. records k Q (f x)) \<Longrightarrow> records k Q (abind (ret r) f)"
  using records_abind [OF records_ret] by fastforce

lemma records_abind_ret: "records k Q m \<Longrightarrow> records k Q (abind m (\<lambda>x. ret (g x)))"
  by (metis add_0_right records_abind records_ret)

lemma records_fail: "records k Q (ret (Inl e))"
  by (simp add: records_def)

lemma records_visit_all:
  assumes "\<And>n x. records k Q (f n x)"
  shows "records (k * length xs) Q (visit_all f n xs)"
proof (induction xs arbitrary: n)
  case (Cons x xs)
  have "records (k + k * length xs) Q (abind (f n x) (\<lambda>_. visit_all f (Suc n) xs))"
    by (rule records_abind [OF assms Cons.IH])
  then show ?case by simp
qed (simp add: records_ret)

text \<open>A shadow event of an evaluation: it carries the identifier, and a candidate was compared.\<close>

definition compared_event :: "pystr \<Rightarrow> evaluation_event \<Rightarrow> bool" where
  "compared_event evaluation_id e \<longleftrightarrow> ev_evaluation_id e = Some evaluation_id \<and> event_ok e \<and> \<not> ev_substituted e
     \<and> (ev_candidate_hit e \<longleftrightarrow> ev_artifact_match e \<noteq> None)"

lemma reuse_hit_manifest: "reuse action stores P = Inr found \<Longrightarrow> lo_hit found \<Longrightarrow> lo_manifest found \<noteq> None"
  using search_stores_hit by (fastforce simp: reuse_def rbind_Inr)

lemma compared_shadow:
  assumes "reuse action stores P = Inr found"
  shows "compared_event evaluation_id (shadow_event digest action found actual cost (Some evaluation_id) d)"
proof -
  let ?e = "shadow_event digest action found actual cost (Some evaluation_id) d"
  have "ev_evaluation_id ?e = Some evaluation_id" "ev_candidate_hit ?e = lo_hit found" "ev_artifact_match ?e = candidate_matches actual found"
    "\<not> ev_substituted ?e"
    by (simp_all add: shadow_event_def new_event_def Let_def)
  moreover have "candidate_matches actual found \<noteq> None \<longleftrightarrow> lo_hit found"
    using reuse_hit_manifest [OF assms] by (auto simp: candidate_matches_def split: option.splits)
  ultimately show ?thesis unfolding compared_event_def using event_ok_shadow by simp
qed

lemma records_shadow_visit: "records 1 (compared_event evaluation_id) (shadow_visit G evaluation_id action execute cost f now d)"
  unfolding records_def
proof (intro allI impI)
  fix w w' r
  assume "shadow_visit G evaluation_id action execute cost f now d w = (w', Inr r)"
  then obtain found actual digest w1 where e: "reuse action (rs_view G (w_store w)) (default_policy now) = Inr found"
      "w1 = w\<lparr>w_events := w_events w @ [shadow_event digest action found actual cost (Some evaluation_id) d]\<rparr>"
      "publish_act (Some (rs_store G)) action actual (u ''evaluation:local'') now (Some f) w1 = (w', Inr ())"
    by (auto simp: shadow_visit_def run_shadow_def act_Inr)
  from publish_act_frame [OF e(3)] have "w_events w' = w_events w @ [shadow_event digest action found actual cost (Some evaluation_id) d]"
    by (simp add: e(2))
  with compared_shadow [OF e(1)] show "\<exists>new. w_events w' = w_events w @ new \<and> length new = 1 \<and> list_all (compared_event evaluation_id) new"
    by (intro exI [of _ "[shadow_event digest action found actual cost (Some evaluation_id) d]"]) simp
qed

lemmas records_shadow_visit_Suc = records_shadow_visit [unfolded One_nat_def]

lemma records_fetch_visit: "records 1 (compared_event evaluation_id) (fetch_visit R G evaluation_id n entry)"
proof -
  have "records (1 + 0) (compared_event evaluation_id) (abind (shadow_visit G evaluation_id action execute cost f now d) (\<lambda>fetched.
     abind (ret (body_of (so_artifacts fetched))) (\<lambda>(body, media_type). ret (Inr (fresh_until, body, media_type)))))"
    for action execute cost f now d fresh_until
    by (intro records_abind [OF records_shadow_visit] records_ret_abind) (simp add: split_def records_ret)
  then show ?thesis unfolding fetch_visit_def by (intro records_ret_abind) simp
qed

lemma records_html_visit: "records 2 (compared_event evaluation_id) (html_visit R G evaluation_id n entry)"
proof -
  have "records (1 + 1) (compared_event evaluation_id) (html_visit R G evaluation_id n entry)"
    unfolding html_visit_def
    by (rule records_abind [OF records_fetch_visit]) (auto simp: records_fail split: prod.split intro!: records_abind_ret records_shadow_visit_Suc)
  then show ?thesis by (simp add: numeral_2_eq_2)
qed

lemma records_pdf_visit: "records 2 (compared_event evaluation_id) (pdf_visit R G evaluation_id n entry)"
proof -
  have "records (1 + 1) (compared_event evaluation_id) (pdf_visit R G evaluation_id n entry)"
    unfolding pdf_visit_def
    by (rule records_abind [OF records_fetch_visit]) (auto split: prod.split intro!: records_ret_abind records_abind_ret records_shadow_visit_Suc)
  then show ?thesis by (simp add: numeral_2_eq_2)
qed

section \<open>Runs\<close>

lemma validated_manifest:
  assumes "validate_evaluation_manifest U v = Inr ()"
  shows "1 \<le> int_of (item v ''repetitions'') \<and> items_of (item v ''urls'') \<noteq> []"
  using assms by (auto simp: validate_evaluation_manifest_def checks int_between_def)

lemma length_visits:
  assumes "validate_evaluation_manifest U v = Inr ()"
  shows "int (length (visits v)) = expected_visits v" "0 < expected_visits v"
proof -
  have "length (concat (replicate k xs)) = k * length xs" for k :: nat and xs :: "pyval list" by (induction k) simp_all
  then show "int (length (visits v)) = expected_visits v" using validated_manifest [OF assms]
    by (simp add: visits_def expected_visits_def)
  show "0 < expected_visits v" using validated_manifest [OF assms] by (simp add: expected_visits_def)
qed

lemma events_of_own: "list_all (\<lambda>e. ev_evaluation_id e = Some i) new \<Longrightarrow> events_of i es = [] \<Longrightarrow> events_of i (es @ new) = new"
  by (simp add: events_of_def list_all_iff)

lemma run_visits_Inr:
  assumes "run_visits U v visit report w = (w', Inr x)" "\<And>n entry. records k Q (visit n entry)"
  shows "validate_evaluation_manifest U v = Inr () \<and> report (w_events w') = Inr x
    \<and> (\<exists>new. w_events w' = w_events w @ new \<and> length new = k * length (visits v) \<and> list_all Q new)"
proof -
  from assms(1) obtain w1 where r: "validate_evaluation_manifest U v = Inr ()" "visit_all visit 0 (visits v) w = (w1, Inr ())"
    "w' = w1" "report (w_events w1) = Inr x"
    by (auto simp: run_visits_def act_Inr)
  from records_visit_all [of k Q visit "visits v" 0] assms(2) r show ?thesis unfolding records_def by blast
qed

lemma compared_counts:
  assumes "list_all (compared_event i) new"
  shows "su_candidate_hits (summarize_flat new) = su_verified_matches (summarize_flat new) + su_candidate_mismatches (summarize_flat new)"
proof -
  have "count_events ev_candidate_hit new
      = count_events (\<lambda>e. ev_artifact_match e = Some True) new + count_events (\<lambda>e. ev_artifact_match e = Some False) new"
    using assms by (induction new) (auto simp: count_events_def compared_event_def)
  then show ?thesis by (simp add: summarize_flat_def Let_def)
qed

lemma promotion_report_run:
  assumes "run_visits U v visit (\<lambda>es. promotion_report U v es i) w = (w', Inr report)"
    "\<And>n entry. records 2 (compared_event i) (visit n entry)" "events_of i (w_events w) = []"
  shows "\<exists>new. w_events w' = w_events w @ new \<and> int (length new) = 2 * expected_visits v \<and> list_all (compared_event i) new
    \<and> er_summary report = summarize new
    \<and> (er_ready report \<longleftrightarrow> int_of (item (item v ''promotion'') ''minimum_candidate_hits'') \<le> count_events ev_candidate_hit new
        \<and> count_events (\<lambda>e. ev_artifact_match e = Some False) new \<le> int_of (item (item v ''promotion'') ''maximum_mismatches'')
        \<and> dec_val (decimal_of (str_of (item (item v ''promotion'') ''minimum_candidate_match_rate'')))
            \<le> rate (count_events (\<lambda>e. ev_artifact_match e = Some True) new) (count_events ev_candidate_hit new))"
proof -
  from run_visits_Inr [OF assms(1,2)] obtain new where r: "validate_evaluation_manifest U v = Inr ()"
    "promotion_report U v (w_events w') i = Inr report"
    "w_events w' = w_events w @ new" "length new = 2 * length (visits v)" "list_all (compared_event i) new" by blast
  have n: "int (length new) = 2 * expected_visits v" using length_visits [OF r(1)] r(4) by simp
  have own: "events_of i (w_events w') = new"
    unfolding r(3) using r(5) assms(3) by (intro events_of_own) (auto simp: compared_event_def list_all_iff)
  have "fst (summarize new) = summarize_flat new" by (simp add: summarize_def)
  with r(2) n compared_counts [OF r(5)] have "er_summary report = summarize new"
    "er_ready report \<longleftrightarrow> int_of (item (item v ''promotion'') ''minimum_candidate_hits'') \<le> count_events ev_candidate_hit new
        \<and> count_events (\<lambda>e. ev_artifact_match e = Some False) new \<le> int_of (item (item v ''promotion'') ''maximum_mismatches'')
        \<and> dec_val (decimal_of (str_of (item (item v ''promotion'') ''minimum_candidate_match_rate'')))
            \<le> rate (count_events (\<lambda>e. ev_artifact_match e = Some True) new) (count_events ev_candidate_hit new)"
    by (auto simp: promotion_report_def make_report_def r(1) own Let_def summarize_flat_def)
  with r(3,5) n show ?thesis by blast
qed

text \<open>C26: An evaluation run records every visit and its report is about exactly these. When a run over HTML or PDF documents
  returns under a fresh identifier, it has only appended events, two for each repetition of each URL, in which every candidate
  that was found is compared with what was executed and nothing is substituted; the report summarizes these events, and
  it is ready for review exactly if their hits, mismatches and match rate meet the thresholds of the manifest.\<close>

theorem evaluation_run_reported:
  assumes "run_evaluation R G v i w = (w', Inr report) \<or> run_pdf_evaluation R G v i w = (w', Inr report)" "events_of i (w_events w) = []"
  shows "\<exists>new. w_events w' = w_events w @ new \<and> int (length new) = 2 * expected_visits v \<and> list_all (compared_event i) new
    \<and> er_summary report = summarize new
    \<and> (er_ready report \<longleftrightarrow> int_of (item (item v ''promotion'') ''minimum_candidate_hits'') \<le> count_events ev_candidate_hit new
        \<and> count_events (\<lambda>e. ev_artifact_match e = Some False) new \<le> int_of (item (item v ''promotion'') ''maximum_mismatches'')
        \<and> dec_val (decimal_of (str_of (item (item v ''promotion'') ''minimum_candidate_match_rate'')))
            \<le> rate (count_events (\<lambda>e. ev_artifact_match e = Some True) new) (count_events ev_candidate_hit new))"
  using assms(1)
proof
  assume "run_evaluation R G v i w = (w', Inr report)"
  from promotion_report_run [OF this [unfolded run_evaluation_def] records_html_visit assms(2)] show ?thesis .
next
  assume "run_pdf_evaluation R G v i w = (w', Inr report)"
  from promotion_report_run [OF this [unfolded run_pdf_evaluation_def] records_pdf_visit assms(2)] show ?thesis .
qed

section \<open>An example run\<close>

text \<open>A store that keeps nothing, and one page.\<close>

definition empty_view :: store_view where
  "empty_view =
     \<lparr>sv_name = u ''local'', sv_candidates = (\<lambda>_. Inr []), sv_result = None, sv_validations = (\<lambda>_. Inr []),
      sv_invalidations = None, sv_receipts = (\<lambda>_. Inr []), sv_get_blob = (\<lambda>_. Inr None)\<rparr>"

definition empty_store :: "unit store_ops" where
  "empty_store =
     \<lparr>so_put_blob = (\<lambda>s data. (s, digest_bytes data)), so_put_result = (\<lambda>s m. Inr s), so_put_validation = (\<lambda>s v. Inr s),
      so_put_invalidation = (\<lambda>s v. Inr s), so_put_receipt = (\<lambda>s v. Inr s), so_view = (\<lambda>s. empty_view)\<rparr>"

definition empty_stores :: "unit run_stores" where
  "empty_stores = \<lparr>rs_view = (\<lambda>s. [empty_view]), rs_store = empty_store\<rparr>"

lemma empty_shadow_visit:
  assumes "action_digest action = Inr digest"
  shows "\<exists>w' r. shadow_visit empty_stores i action (Inr actual) cost f now d w = (w', Inr r) \<and> so_artifacts r = actual"
proof -
  have put: "\<exists>ds. put_artifacts empty_store () arts = ((), ds)" for arts
    by (cases "put_artifacts empty_store () arts") simp
  have "\<exists>m. publish_result empty_store () action actual producer (Aware t) (Some (Aware t')) None = ((), Inr m)" for producer t t'
  proof -
    obtain ds where ds: "put_artifacts empty_store () (sort_key fst actual) = ((), ds)" using put by blast
    have "so_put_result empty_store = (\<lambda>s m. Inr s)" by (simp add: empty_store_def)
    then show ?thesis by (simp add: publish_result_def build_manifest_def assms format_time_def format_optional_def ds)
  qed
  then obtain m where "publish_result empty_store () action actual (u ''evaluation:local'') (Aware now) (Some (Aware f)) None = ((), Inr m)"
    by blast
  then show ?thesis
    by (auto simp: shadow_visit_def run_shadow_def reuse_def assms empty_stores_def empty_view_def publish_act_def abind_def
        split: prod.splits sum.splits)
qed

definition page_action :: pyval where
  "page_action =
     obj [(''spec_version'', S ''oncemesh.action/v0''), (''operation'', obj [(''name'', S ''http.fetch''), (''version'', S ''1'')]),
          (''inputs'', obj [(''url'', S ''https://a.example/''), (''method'', S ''GET''), (''accept'', S ''text/html'')]),
          (''executor'', obj [(''name'', S ''oncemesh.http''), (''version'', S ''1''),
             (''config'', obj [(''follow_redirects'', PyBool True), (''max_bytes'', PyInt 10000000)])]),
          (''output_schema'', S ''oncemesh.http/response-v1''), (''vary'', PyDict [])]"

lemma literal_action_digest:
  assumes "action = obj [(''spec_version'', S ''oncemesh.action/v0''), (''operation'', obj [(''name'', S name), (''version'', S ''1'')]),
      (''inputs'', obj inputs), (''executor'', obj [(''name'', S executor), (''version'', S ''1''), (''config'', obj config)]),
      (''output_schema'', S schema), (''vary'', PyDict [])]"
    "jsonable (obj inputs)" "jsonable (obj config)" "name \<noteq> []" "executor \<noteq> []" "schema \<noteq> []"
  shows "\<exists>digest. action_digest action = Inr digest"
proof -
  have j: "jsonable action" using assms(2,3) unfolding assms(1) by (simp add: jsonable_simps)
  have "exact_keys action [''spec_version'', ''operation'', ''inputs'', ''executor'', ''output_schema'', ''vary'']"
    unfolding assms(1) exact_keys_literal by simp
  moreover have items: "item action ''operation'' = obj [(''name'', S name), (''version'', S ''1'')]"
    "item action ''executor'' = obj [(''name'', S executor), (''version'', S ''1''), (''config'', obj config)]"
    by (simp_all add: assms(1))
  have "exact_keys (item action ''operation'') [''name'', ''version'']"
    "exact_keys (item action ''executor'') [''name'', ''version'', ''config'']"
    unfolding items exact_keys_literal by simp_all
  ultimately have "validate_action action = Inr ()"
    unfolding validate_action_def checks require_exact_keys_iff require_nonempty_string_iff
    using assms(4-6) canonical_json_jsonable [OF j] by (simp add: assms(1) nonempty_str_def)
  then show ?thesis by (simp add: action_digest_def object_digest_def canonical_json_jsonable [OF j])
qed

definition page_entry :: pyval where
  "page_entry =
     obj [(''url'', S ''https://a.example''), (''accept'', S ''text/html''), (''freshness_seconds'', PyInt 60), (''estimated_fetch_cost'', S ''0.5'')]"

definition page_manifest :: pyval where
  "page_manifest =
     obj [(''spec_version'', S ''oncemesh.evaluation/v0''), (''name'', S ''page''), (''allowed_hosts'', PyList [S ''a.example'']),
          (''repetitions'', PyInt 1), (''request_delay_ms'', PyInt 0), (''urls'', PyList [page_entry]),
          (''promotion'', obj [(''minimum_candidate_hits'', PyInt 0), (''maximum_mismatches'', PyInt 2),
                               (''minimum_candidate_match_rate'', S ''0'')])]"

definition page_response :: fetch_response where
  "page_response = \<lparr>fr_status = 200, fr_final_url = u ''https://a.example/'', fr_headers = [(u ''Content-Type'', u ''text/html'')], fr_body = [104, 105]\<rparr>"

definition page_env :: run_env where
  "page_env =
     \<lparr>re_url = plain_urls, re_transport = (\<lambda>n. \<lparr>tr_get = (\<lambda>_ _ _ _. Inr page_response), tr_conditional = (\<lambda>_ _ _ _ _ _. Inl OSError)\<rparr>),
      re_now = (\<lambda>n. 0), re_first_times = (\<lambda>n. \<lparr>d_lookup = 0, d_execution = 0, d_validation = 0\<rparr>),
      re_second_times = (\<lambda>n. \<lparr>d_lookup = 0, d_execution = 0, d_validation = 0\<rparr>), re_parser = (\<lambda>s. [Html_data s]),
      re_pdf = \<lparr>pl_version = u ''5'', pl_read = (\<lambda>b. Inl (OtherError ''PdfReadError''))\<rparr>, re_environment = (\<lambda>n name. None),
      re_policy_file = (\<lambda>n. None), re_key_file = (\<lambda>n. None),
      re_signatures = \<lparr>ed_public = (\<lambda>k. k), ed_sign = (\<lambda>k m. []), ed_verify = (\<lambda>k m s. False)\<rparr>\<rparr>"

lemma page_facts:
  "validate_evaluation_manifest plain_urls page_manifest = Inr ()" "visits page_manifest = [page_entry]"
  "entry_action plain_urls page_entry = Inr page_action"
  "add_seconds 0 (int_of (item page_entry ''freshness_seconds'')) = Inr 60000000"
  "starts_with (u ''text/html'') (lower plain_urls (u ''text/html''))"
  "html_to_markdown_artifacts (\<lambda>s. [Html_data s]) [104, 105] = Inr [(u ''document'', [104, 105, 10], u ''text/markdown; charset=utf-8'')]"
  "case execute_http_fetch plain_urls page_action (re_transport page_env n) of Inl e \<Rightarrow> False
     | Inr outputs \<Rightarrow> al_get outputs (u ''body'') = Some ([104, 105], u ''text/html'')"
  by code_simp+

lemma page_action_digest: "\<exists>digest. action_digest page_action = Inr digest"
  by (rule literal_action_digest [OF page_action_def]) (simp_all add: jsonable_simps, simp add: jsonable_def max_safe_integer_def)

lemma html_action_digest:
  assumes "length body < 100"
  shows "\<exists>digest. action_digest (build_html_to_markdown_action body (u ''text/html'')) = Inr digest"
proof -
  have "jsonable (PyInt (int (length body)))" using assms by (simp add: jsonable_def max_safe_integer_def)
  then show ?thesis
    by (intro literal_action_digest [OF build_html_to_markdown_action_def])
      (simp_all add: jsonable_simps is_digest_scalar [OF is_digest_bytes])
qed

theorem evaluation_run_reported_witness:
  "\<exists>w' report. run_evaluation page_env empty_stores page_manifest (u ''run'') one_world = (w', Inr report)
    \<and> length (w_events w') = 2 \<and> er_ready report"
proof -
  obtain outputs where out: "execute_http_fetch plain_urls page_action (re_transport page_env 0) = Inr outputs"
    "al_get outputs (u ''body'') = Some ([104, 105], u ''text/html'')"
    using page_facts(7) [of 0] by (auto split: sum.splits)
  obtain w1 r1 where s1: "shadow_visit empty_stores (u ''run'') page_action (Inr outputs) (entry_cost page_entry) 60000000 0
      \<lparr>d_lookup = 0, d_execution = 0, d_validation = 0\<rparr> one_world = (w1, Inr r1)" "so_artifacts r1 = outputs"
    using page_action_digest empty_shadow_visit by blast
  obtain w2 r2 where s2: "shadow_visit empty_stores (u ''run'') (build_html_to_markdown_action [104, 105] (u ''text/html''))
      (Inr [(u ''document'', [104, 105, 10], u ''text/markdown; charset=utf-8'')]) 0 60000000 0
      \<lparr>d_lookup = 0, d_execution = 0, d_validation = 0\<rparr> w1 = (w2, Inr r2)"
    using html_action_digest [of "[104, 105]"] empty_shadow_visit by fastforce
  have "html_visit page_env empty_stores (u ''run'') 0 page_entry one_world = (w2, Inr ())"
    using s1 s2 page_facts(3-6) out
    by (simp add: html_visit_def fetch_visit_def page_env_def body_of_def abind_def)
  then have "run_visits plain_urls page_manifest (html_visit page_env empty_stores (u ''run'')) report one_world = (w2, report (w_events w2))" for report
    by (simp add: run_visits_def page_facts(1,2) abind_def)
  moreover obtain rep where "promotion_report plain_urls page_manifest (w_events w2) (u ''run'') = Inr rep"
    by (simp add: promotion_report_def make_report_def Let_def page_facts(1))
  ultimately have run: "run_evaluation page_env empty_stores page_manifest (u ''run'') one_world = (w2, Inr rep)"
    by (simp add: run_evaluation_def) (simp add: page_env_def)
  have p: "expected_visits page_manifest = 1" "int_of (item (item page_manifest ''promotion'') ''minimum_candidate_hits'') = 0"
    "int_of (item (item page_manifest ''promotion'') ''maximum_mismatches'') = 2"
    "decimal_of (str_of (item (item page_manifest ''promotion'') ''minimum_candidate_match_rate'')) = Decimal 0 0" by code_simp+
  from evaluation_run_reported [OF disjI1 [OF run]] obtain new where new: "w_events w2 = new" "length new = 2"
    "er_ready rep \<longleftrightarrow> 0 \<le> count_events ev_candidate_hit new \<and> count_events (\<lambda>e. ev_artifact_match e = Some False) new \<le> 2
      \<and> 0 \<le> rate (count_events (\<lambda>e. ev_artifact_match e = Some True) new) (count_events ev_candidate_hit new)"
    by (auto simp: p one_world_def events_of_def dec_val_def)
  have "0 \<le> rate (count_events (\<lambda>e. ev_artifact_match e = Some True) new) (count_events ev_candidate_hit new)"
    by (simp add: rate_def count_events_def)
  with new count_events_bounds(1) [of ev_candidate_hit new] count_events_bounds(2) [of "\<lambda>e. ev_artifact_match e = Some False" new]
  have "er_ready rep" "length (w_events w2) = 2" by simp_all
  with run show ?thesis by blast
qed

section \<open>Substitution reports\<close>

text \<open>The counter of decision reasons has one entry exactly if all events carry that one reason, or none.\<close>

lemma counter_replicate: "counter (replicate (Suc k) r) = [(r, int (Suc k))]"
proof (induction k)
  case (Suc k)
  have "replicate (Suc (Suc k)) r = replicate (Suc k) r @ [r]" by (simp add: replicate_append_same)
  then have "counter (replicate (Suc (Suc k)) r) = al_set [(r, int (Suc k))] r (int (Suc k) + 1)"
    using Suc.IH by (simp only: counter_snoc) simp
  then show ?case by simp
qed (simp add: counter_def)

lemma sorted_counter_single:
  assumes "0 < n" "r \<noteq> []"
  shows "sorted_counter xs = [(r, n)] \<longleftrightarrow> n = int (length xs) \<and> list_all (\<lambda>x. x = r) xs"
proof
  assume s: "sorted_counter xs = [(r, n)]"
  then have "length (sort_key fst (counter xs)) = Suc 0" by (simp add: sorted_counter_def)
  then obtain y where "counter xs = [y]" by (auto simp: length_Suc_conv)
  with s have "counter xs = [(r, n)]" by (simp add: sorted_counter_def)
  then have get: "al_get (counter xs) x = (if x = r then Some n else None)" for x by simp
  have all: "set xs \<subseteq> {r}" using get counter_get [of xs] by (metis option.distinct(1) singletonI subsetI)
  then have "count_list xs r = length xs" by (induction xs) auto
  moreover have "r \<in> set xs" "n = int (count_list xs r)" using get [of r] counter_get [of xs r] by (auto split: if_splits)
  ultimately show "n = int (length xs) \<and> list_all (\<lambda>x. x = r) xs" using all by (auto simp: list_all_iff)
next
  assume a: "n = int (length xs) \<and> list_all (\<lambda>x. x = r) xs"
  then have "xs = replicate (length xs) r" by (auto simp: list_all_iff intro: replicate_eqI)
  moreover have "length xs \<noteq> 0" using a assms(1) by auto
  ultimately show "sorted_counter xs = [(r, n)]" using a
    by (metis (no_types, lifting) counter_replicate sorted_counter_def not0_implies_Suc sort_key_simps(1) sort_key_simps(2) insort_key.simps(1))
qed

lemma count_events_all: "count_events P es = int (length es) \<longleftrightarrow> list_all P es"
proof -
  have "length (filter P es) = length es \<longleftrightarrow> length (filter (\<lambda>e. \<not> P e) es) = 0"
    using sum_length_filter_compl [of P es] by linarith
  then show ?thesis by (simp add: count_events_def filter_empty_conv list_all_iff)
qed

lemma count_events_none: "count_events P es = 0 \<longleftrightarrow> list_all (\<lambda>e. \<not> P e) es"
  by (simp add: count_events_def filter_empty_conv list_all_iff)

lemma decision_reasons_all:
  assumes "r \<noteq> []"
  shows "length (decision_reasons es) = length es \<and> list_all (\<lambda>x. x = r) (decision_reasons es) \<longleftrightarrow> list_all (\<lambda>e. ev_decision_reason e = Some r) es"
proof (induction es)
  case (Cons e es)
  have "length (decision_reasons es) \<le> length es" by (induction es) (auto simp: decision_reasons_def split: option.splits)
  with Cons assms show ?case by (auto simp: decision_reasons_def split: option.splits)
qed (simp add: decision_reasons_def)

text \<open>C27: The review of an exact substitution is a statement about every event. For a valid manifest,
  \<open>exact_substitution_report\<close> is ready for review exactly if there is one event of the evaluation for each
  repetition of each URL and every one of them is a substitution decided as \<open>exact_fresh_hit\<close> with the kill switch off: not
  one visit executed the operation.\<close>

theorem exact_report_ready_iff:
  assumes "exact_substitution_report U v es i = Inr report"
  shows "er_ready report \<longleftrightarrow> int (length (events_of i es)) = expected_visits v
    \<and> list_all (\<lambda>e. ev_substituted e \<and> ev_decision_reason e = Some (u ''exact_fresh_hit'') \<and> \<not> ev_kill_switch_active e) (events_of i es)"
proof -
  let ?es = "events_of i es" and ?r = "u ''exact_fresh_hit''" and ?n = "expected_visits v"
  from assms have v: "validate_evaluation_manifest U v = Inr ()" by (simp add: exact_substitution_report_def make_report_def checks Let_def)
  note n = length_visits(2) [OF v]
  have "fst (summarize ?es) = summarize_flat ?es" by (simp add: summarize_def)
  with assms have "er_ready report \<longleftrightarrow> int (length ?es) = ?n \<and> count_events ev_substituted ?es = ?n
      \<and> count_events ev_kill_switch_active ?es = 0 \<and> sorted_counter (decision_reasons ?es) = [(?r, ?n)]"
    by (auto simp: exact_substitution_report_def make_report_def v Let_def summarize_flat_def)
  also have "\<dots> \<longleftrightarrow> int (length ?es) = ?n \<and> list_all ev_substituted ?es \<and> list_all (\<lambda>e. \<not> ev_kill_switch_active e) ?es
      \<and> list_all (\<lambda>e. ev_decision_reason e = Some ?r) ?es"
  proof (intro conj_cong refl)
    assume len: "int (length ?es) = ?n"
    show "count_events ev_substituted ?es = ?n \<longleftrightarrow> list_all ev_substituted ?es"
      using count_events_all [of ev_substituted ?es] unfolding len .
    show "count_events ev_kill_switch_active ?es = 0 \<longleftrightarrow> list_all (\<lambda>e. \<not> ev_kill_switch_active e) ?es" by (rule count_events_none)
    have "?n = int (length (decision_reasons ?es)) \<longleftrightarrow> length (decision_reasons ?es) = length ?es" using len by linarith
    then show "sorted_counter (decision_reasons ?es) = [(?r, ?n)] \<longleftrightarrow> list_all (\<lambda>e. ev_decision_reason e = Some ?r) ?es"
      using sorted_counter_single [OF n, of ?r "decision_reasons ?es"] decision_reasons_all [of ?r ?es] by simp
  qed
  finally show ?thesis by (auto simp: list_all_iff)
qed

theorem exact_report_ready_iff_witness:
  "\<exists>report. exact_substitution_report plain_urls page_manifest
       [(new_event ''substitute'' [] (u ''document.pdf-to-text'') True None None [] 0 0 0 0)
          \<lparr>ev_evaluation_id := Some (u ''run''), ev_substituted := True, ev_decision_reason := Some (u ''exact_fresh_hit'')\<rparr>] (u ''run'') = Inr report
     \<and> er_ready report"
proof -
  let ?es = "[(new_event ''substitute'' [] (u ''document.pdf-to-text'') True None None [] 0 0 0 0)
          \<lparr>ev_evaluation_id := Some (u ''run''), ev_substituted := True, ev_decision_reason := Some (u ''exact_fresh_hit'')\<rparr>]"
  obtain report where r: "exact_substitution_report plain_urls page_manifest ?es (u ''run'') = Inr report"
    by (simp add: exact_substitution_report_def make_report_def Let_def page_facts(1))
  have "expected_visits page_manifest = 1" by code_simp
  with exact_report_ready_iff [OF r] r show ?thesis by (auto simp: events_of_def new_event_def)
qed

end
