(* ===== verification/Organization.thy ===== *)
theory Organization
  imports Decimals Pilot
begin

text \<open>
  The evidence reporter of organization pilots (\<open>organization_pilot.py\<close>): the configuration, the daily records, the report
  with its totals, rates and checks, and the \<open>report\<close> command. A calendar date is its number of days since
  0001-01-01.
\<close>

section \<open>Fields\<close>

definition org_exact :: "pyval \<Rightarrow> string list \<Rightarrow> string \<Rightarrow> unit result" where
  "org_exact v expected label = guard (exact_keys v expected) (ValueError (label @ '' must contain exactly''))"

definition org_text :: "pyval \<Rightarrow> string \<Rightarrow> unit result" where
  "org_text v label = guard (nonempty_str v \<and> 0 \<notin> set (str_of v)) (ValueError (label @ '' must be a non-empty string''))"

definition org_integer :: "pyval \<Rightarrow> string \<Rightarrow> int \<Rightarrow> unit result" where
  "org_integer v label least = guard (is_int v \<and> least \<le> int_of v) (ValueError (label @ '' must be an integer of at least''))"

definition org_decimal :: "pyval \<Rightarrow> string \<Rightarrow> decimal option \<Rightarrow> decimal result" where
  "org_decimal v label maximum =
     (if \<not> (is_str v \<and> is_decimal (str_of v)) then Inl (ValueError (label @ '' must be a non-negative decimal string''))
      else
        let selected = decimal_of (str_of v)
        in if (case maximum of None \<Rightarrow> False | Some m \<Rightarrow> \<not> dec_le selected m)
           then Inl (ValueError (label @ '' is outside its permitted range'')) else Inr selected)"

text \<open>The dates whose ISO form is the text itself.\<close>

definition calendar_date :: "pystr \<Rightarrow> int option" where
  "calendar_date s =
     (if length s = 10 \<and> list_all is_digit (take 4 s) \<and> s ! 4 = 45 \<and> list_all is_digit (take 2 (drop 5 s)) \<and> s ! 7 = 45
         \<and> list_all is_digit (drop 8 s)
      then map_option (\<lambda>seconds. seconds div 86400)
             (valid_seconds (digits_val (take 4 s)) (digits_val (take 2 (drop 5 s))) (digits_val (drop 8 s)) 0 0 0)
      else None)"

definition org_date :: "pyval \<Rightarrow> string \<Rightarrow> int result" where
  "org_date v label =
     (case (if is_str v then calendar_date (str_of v) else None) of
        None \<Rightarrow> Inl (ValueError (label @ '' must be an ISO 8601 calendar date'')) | Some days \<Rightarrow> Inr days)"

section \<open>The configuration\<close>

definition pilot_fields :: "string list" where
  "pilot_fields =
     [''spec_version'', ''pilot_id'', ''organization_id'', ''environment_kind'', ''window'', ''operations'', ''owners'', ''thresholds'']"

definition threshold_fields :: "string list" where
  "threshold_fields =
     [''minimum_evaluations'', ''maximum_mismatches'', ''maximum_error_rate'', ''minimum_candidate_hit_rate'',
      ''minimum_verified_time_saved_ms'', ''minimum_verified_cost_saved'', ''maximum_mean_lookup_ms'', ''minimum_kill_switch_drills'']"

definition validate_thresholds :: "pyval \<Rightarrow> unit result" where
  "validate_thresholds v =
     first_error
       [org_exact v threshold_fields ''thresholds'',
        org_integer (item v ''minimum_evaluations'') ''minimum_evaluations'' 1,
        org_integer (item v ''maximum_mismatches'') ''maximum_mismatches'' 0,
        discard (org_decimal (item v ''maximum_error_rate'') ''maximum_error_rate'' (Some (whole 1))),
        discard (org_decimal (item v ''minimum_candidate_hit_rate'') ''minimum_candidate_hit_rate'' (Some (whole 1))),
        discard (org_decimal (item v ''minimum_verified_time_saved_ms'') ''minimum_verified_time_saved_ms'' None),
        discard (org_decimal (item v ''minimum_verified_cost_saved'') ''minimum_verified_cost_saved'' None),
        discard (org_decimal (item v ''maximum_mean_lookup_ms'') ''maximum_mean_lookup_ms'' None),
        org_integer (item v ''minimum_kill_switch_drills'') ''minimum_kill_switch_drills'' 0]"

definition owner_ids :: "pyval \<Rightarrow> pyval list" where
  "owner_ids owners = map (item owners) [''operations'', ''security'', ''workload'']"

definition validate_pilot_config :: "pyval \<Rightarrow> unit result" where
  "validate_pilot_config c =
     seq (first_error
       [org_exact c pilot_fields ''pilot config'',
        guard (item c ''spec_version'' = S ''oncemesh.organization-pilot/v0'') (ValueError ''unsupported organization pilot spec_version''),
        org_text (item c ''pilot_id'') ''pilot_id'',
        org_text (item c ''organization_id'') ''organization_id'',
        guard (item c ''environment_kind'' \<in> {S ''real'', S ''synthetic''}) (ValueError ''environment_kind must be real or synthetic''),
        org_exact (item c ''window'') [''starts_on'', ''ends_on'', ''minimum_observed_days''] ''window''])
     (rbind (org_date (item (item c ''window'') ''starts_on'') ''starts_on'') (\<lambda>starts_on.
      rbind (org_date (item (item c ''window'') ''ends_on'') ''ends_on'') (\<lambda>ends_on.
      let days = item (item c ''window'') ''minimum_observed_days'' in
      first_error
        [org_integer days ''minimum_observed_days'' 1,
         guard (starts_on \<le> ends_on \<and> int_of days \<le> ends_on - starts_on + 1)
           (ValueError ''pilot window cannot satisfy minimum_observed_days''),
         guard (is_list (item c ''operations'') \<and> items_of (item c ''operations'') \<noteq> []) (ValueError ''operations must be a non-empty array''),
         first_error (map (\<lambda>op. org_text op ''operation'') (items_of (item c ''operations''))),
         guard (distinct (items_of (item c ''operations''))) (ValueError ''operations must be unique''),
         org_exact (item c ''owners'') [''workload'', ''security'', ''operations''] ''owners'',
         first_error (map (\<lambda>owner. org_text owner ''owner'') (owner_ids (item c ''owners''))),
         guard (distinct (owner_ids (item c ''owners''))) (ValueError ''owner role identifiers must be distinct''),
         validate_thresholds (item c ''thresholds'')])))"

section \<open>Daily records\<close>

definition record_fields :: "string list" where
  "record_fields =
     [''spec_version'', ''pilot_id'', ''date'', ''operation'', ''evaluations'', ''candidate_hits'', ''compared_hits'', ''mismatches'',
      ''substitutions'', ''errors'', ''lookup_duration_ms'', ''verified_time_saved_ms'', ''verified_cost_saved'', ''reusable_bytes'',
      ''kill_switch_drills'', ''evidence_digest'']"

definition record_counters :: "string list" where
  "record_counters =
     [''evaluations'', ''candidate_hits'', ''compared_hits'', ''mismatches'', ''substitutions'', ''errors'', ''reusable_bytes'',
      ''kill_switch_drills'']"

definition bounded_counters :: "string list" where
  "bounded_counters = [''candidate_hits'', ''compared_hits'', ''mismatches'', ''substitutions'', ''errors'']"

definition validate_daily_record :: "pyval \<Rightarrow> unit result" where
  "validate_daily_record r =
     first_error
       ([org_exact r record_fields ''daily record'',
         guard (item r ''spec_version'' = S ''oncemesh.organization-pilot-daily/v0'') (ValueError ''unsupported daily record spec_version''),
         org_text (item r ''pilot_id'') ''pilot_id'',
         discard (org_date (item r ''date'') ''date''),
         org_text (item r ''operation'') ''operation'']
        @ map (\<lambda>field. org_integer (item r field) field 0) record_counters
        @ map (\<lambda>field. discard (org_decimal (item r field) field None)) [''lookup_duration_ms'', ''verified_time_saved_ms'', ''verified_cost_saved'']
        @ [guard (digest_val (item r ''evidence_digest'')) (ValueError ''evidence_digest must be a SHA-256 digest'')]
        @ map (\<lambda>field. guard (int_of (item r field) \<le> int_of (item r ''evaluations'')) (ValueError (field @ '' cannot exceed evaluations'')))
            bounded_counters
        @ [guard (int_of (item r ''mismatches'') \<le> int_of (item r ''compared_hits'')) (ValueError ''mismatches cannot exceed compared_hits'')])"

section \<open>The report\<close>

definition record_identity :: "pyval \<Rightarrow> pyval \<times> pyval" where
  "record_identity r = (item r ''date'', item r ''operation'')"

fun check_records :: "pyval \<Rightarrow> int \<Rightarrow> int \<Rightarrow> (pyval \<times> pyval) list \<Rightarrow> pyval list \<Rightarrow> unit result" where
  "check_records c starts_on ends_on identities [] = Inr ()"
| "check_records c starts_on ends_on identities (r # rs) =
     seq (first_error
       [guard (record_identity r \<notin> set identities) (ValueError ''daily records contain a duplicate date and operation''),
        guard (item r ''pilot_id'' = item c ''pilot_id'') (ValueError ''daily record pilot_id does not match config''),
        guard (item r ''operation'' \<in> set (items_of (item c ''operations''))) (ValueError ''daily record contains an unconfigured operation'')])
     (rbind (org_date (item r ''date'') ''date'') (\<lambda>recorded_on.
      seq (guard (starts_on \<le> recorded_on \<and> recorded_on \<le> ends_on) (ValueError ''daily record falls outside the pilot window''))
        (check_records c starts_on ends_on (record_identity r # identities) rs)))"

definition total_of :: "string \<Rightarrow> pyval list \<Rightarrow> int" where
  "total_of field rs = sum_list (map (\<lambda>r. int_of (item r field)) rs)"

definition decimal_total :: "string \<Rightarrow> pyval list \<Rightarrow> decimal" where
  "decimal_total field rs = dec_sum (map (\<lambda>r. decimal_of (str_of (item r field))) rs)"

definition totals_document :: "pyval list \<Rightarrow> pyval" where
  "totals_document rs =
     obj [(''evaluations'', PyInt (total_of ''evaluations'' rs)), (''candidate_hits'', PyInt (total_of ''candidate_hits'' rs)),
          (''compared_hits'', PyInt (total_of ''compared_hits'' rs)), (''mismatches'', PyInt (total_of ''mismatches'' rs)),
          (''substitutions'', PyInt (total_of ''substitutions'' rs)), (''errors'', PyInt (total_of ''errors'' rs)),
          (''lookup_duration_ms'', PyStr (dec_fixed (decimal_total ''lookup_duration_ms'' rs))),
          (''verified_time_saved_ms'', PyStr (dec_fixed (decimal_total ''verified_time_saved_ms'' rs))),
          (''verified_cost_saved'', PyStr (dec_str (decimal_total ''verified_cost_saved'' rs))),
          (''reusable_bytes'', PyInt (total_of ''reusable_bytes'' rs)), (''kill_switch_drills'', PyInt (total_of ''kill_switch_drills'' rs))]"

definition ratio_of :: "decimal \<Rightarrow> int \<Rightarrow> decimal" where
  "ratio_of d n = (if n = 0 then whole 0 else dec_div d (whole n))"

definition hit_rate :: "pyval list \<Rightarrow> decimal" where
  "hit_rate rs = ratio_of (whole (total_of ''candidate_hits'' rs)) (total_of ''evaluations'' rs)"

definition error_rate :: "pyval list \<Rightarrow> decimal" where
  "error_rate rs = ratio_of (whole (total_of ''errors'' rs)) (total_of ''evaluations'' rs)"

definition mean_lookup :: "pyval list \<Rightarrow> decimal" where
  "mean_lookup rs = ratio_of (decimal_of (dec_fixed (decimal_total ''lookup_duration_ms'' rs))) (total_of ''evaluations'' rs)"

definition observed_dates :: "pyval list \<Rightarrow> pystr list" where
  "observed_dates rs = sort (remdups (map (\<lambda>r. str_of (item r ''date'')) rs))"

definition threshold :: "pyval \<Rightarrow> string \<Rightarrow> decimal" where
  "threshold c field = decimal_of (str_of (item (item c ''thresholds'') field))"

text \<open>\<open>Decimal(str(d))\<close> is \<open>d\<close> again, and \<open>Decimal(format(d, "f"))\<close> a number of the same value.\<close>

definition pilot_checks :: "pyval \<Rightarrow> pyval list \<Rightarrow> (string \<times> bool) list" where
  "pilot_checks c rs =
     (let t = item c ''thresholds'' in
      [(''real_environment'', item c ''environment_kind'' = S ''real''),
       (''minimum_observed_days'', int_of (item (item c ''window'') ''minimum_observed_days'') \<le> int (length (observed_dates rs))),
       (''all_operations_observed'', set (map (\<lambda>r. item r ''operation'') rs) = set (items_of (item c ''operations''))),
       (''minimum_evaluations'', int_of (item t ''minimum_evaluations'') \<le> total_of ''evaluations'' rs),
       (''maximum_mismatches'', total_of ''mismatches'' rs \<le> int_of (item t ''maximum_mismatches'')),
       (''all_candidate_hits_compared'', total_of ''candidate_hits'' rs = total_of ''compared_hits'' rs),
       (''maximum_error_rate'', dec_le (error_rate rs) (threshold c ''maximum_error_rate'')),
       (''minimum_candidate_hit_rate'', dec_le (threshold c ''minimum_candidate_hit_rate'') (hit_rate rs)),
       (''minimum_verified_time_saved_ms'',
          dec_le (threshold c ''minimum_verified_time_saved_ms'') (decimal_of (dec_fixed (decimal_total ''verified_time_saved_ms'' rs)))),
       (''minimum_verified_cost_saved'', dec_le (threshold c ''minimum_verified_cost_saved'') (decimal_total ''verified_cost_saved'' rs)),
       (''maximum_mean_lookup_ms'', dec_le (mean_lookup rs) (threshold c ''maximum_mean_lookup_ms'')),
       (''minimum_kill_switch_drills'', int_of (item t ''minimum_kill_switch_drills'') \<le> total_of ''kill_switch_drills'' rs)])"

definition evidence_claims :: "pyval \<Rightarrow> pyval list \<Rightarrow> pyval" where
  "evidence_claims c rs =
     obj [(''config'', c), (''daily_evidence_digests'', sorted_strings (map (\<lambda>r. str_of (item r ''evidence_digest'')) rs))]"

definition report_document :: "pyval \<Rightarrow> pyval list \<Rightarrow> pystr \<Rightarrow> pyval" where
  "report_document c rs evidence_digest =
     obj [(''spec_version'', S ''oncemesh.organization-pilot-report/v0''), (''pilot_id'', item c ''pilot_id''),
          (''organization_id'', item c ''organization_id''), (''environment_kind'', item c ''environment_kind''),
          (''observed_dates'', PyList (map PyStr (observed_dates rs))), (''record_count'', PyInt (int (length rs))),
          (''totals'', totals_document rs),
          (''rates'', obj [(''candidate_hit_rate'', PyStr (dec_fixed (hit_rate rs))), (''error_rate'', PyStr (dec_fixed (error_rate rs))),
                           (''mean_lookup_ms'', PyStr (dec_fixed (mean_lookup rs)))]),
          (''checks'', obj (map (\<lambda>(name, passed). (name, PyBool passed)) (pilot_checks c rs))),
          (''evidence_digest'', PyStr evidence_digest), (''externally_reviewable'', PyBool (list_all snd (pilot_checks c rs)))]"

definition organization_report :: "pyval \<Rightarrow> pyval list \<Rightarrow> pyval result" where
  "organization_report c rs =
     seq (first_error
       [validate_pilot_config c,
        first_error (map validate_daily_record rs),
        guard (rs \<noteq> []) (ValueError ''at least one daily record is required'')])
     (rbind (org_date (item (item c ''window'') ''starts_on'') ''starts_on'') (\<lambda>starts_on.
      rbind (org_date (item (item c ''window'') ''ends_on'') ''ends_on'') (\<lambda>ends_on.
      seq (check_records c starts_on ends_on [] rs)
      (rbind (canonical_json (evidence_claims c rs)) (\<lambda>encoded.
        Inr (report_document c rs (digest_bytes encoded)))))))"

section \<open>The command\<close>

definition load_evidence :: "files \<Rightarrow> pystr \<Rightarrow> pyval result" where
  "load_evidence fs path =
     (case read_registry (al_get fs path) of
        Inl e \<Rightarrow> if e = OSError \<or> e = UnicodeError \<or> e = JSONDecodeError then Inl (ValueError ''cannot read JSON evidence'') else Inl e
      | Inr v \<Rightarrow> if is_dict v then Inr v else Inl (ValueError ''JSON evidence must be an object''))"

fun load_all :: "files \<Rightarrow> pystr list \<Rightarrow> pyval list result" where
  "load_all fs [] = Inr []"
| "load_all fs (path # paths) = rbind (load_evidence fs path) (\<lambda>v. rbind (load_all fs paths) (\<lambda>vs. Inr (v # vs)))"

text \<open>The result is the files and the exit status.\<close>

definition organization_main :: "files \<Rightarrow> pystr \<Rightarrow> pystr \<Rightarrow> pystr list \<Rightarrow> pystr \<Rightarrow> (files \<times> int) result" where
  "organization_main fs cwd config record_paths output =
     (let target = resolve_path cwd output in
      if file_exists fs target then Inl (ValueError ''pilot report output already exists'')
      else
        rbind (load_evidence fs (resolve_path cwd config)) (\<lambda>c.
        rbind (load_all fs (map (resolve_path cwd) record_paths)) (\<lambda>rs.
        rbind (organization_report c rs) (\<lambda>report.
        rbind (canonical_json report) (\<lambda>encoded.
          Inr (al_set fs target (File (encoded @ [10])),
               if item report ''externally_reviewable'' = PyBool True then 0 else 2))))))"

end
