(* ===== verification/Organization_Theorems.thy ===== *)
theory Organization_Theorems
  imports Organization
begin

text \<open>What it takes for a pilot report to call itself reviewable: the conditions, over exact totals.\<close>

section \<open>Exact sums\<close>

text \<open>A sum of decimals is exact as long as it fits the 28 digits of the context.\<close>

definition fits :: "nat \<Rightarrow> decimal \<Rightarrow> bool" where
  "fits k d \<longleftrightarrow> 0 \<le> dec_coeff d \<and> - int k \<le> dec_exp d \<and> dec_exp d \<le> 0"

lemma few_digits:
  assumes "0 \<le> n" "n < 10 ^ k" "0 < k"
  shows "num_digits n \<le> k"
proof (cases "n = 0")
  case True
  then show ?thesis using assms(3) by (simp add: num_digits_step [of 0])
next
  case False
  with assms(1) num_digits_bounds [of n] have "10 ^ (num_digits n - 1) \<le> n" by simp
  with assms(2) have "(10 :: int) ^ (num_digits n - 1) < 10 ^ k" by linarith
  then have "num_digits n - 1 < k" by (rule power_less_imp_less_exp [rotated]) simp
  then show ?thesis by linarith
qed

lemma dec_add_exact:
  assumes "fits k a" "fits k b" "(dec_val a + dec_val b) * 10 ^ k < 10 ^ 28"
  shows "dec_val (dec_add a b) = dec_val a + dec_val b \<and> fits k (dec_add a b)"
proof -
  let ?e = "min (dec_exp a) (dec_exp b)"
  define c where "c = scaled ?e a + scaled ?e b"
  have e: "- int k \<le> ?e" "?e \<le> 0" using assms(1,2) by (auto simp: fits_def)
  have "0 \<le> scaled ?e a" "0 \<le> scaled ?e b" using assms(1,2) by (simp_all add: fits_def scaled_def)
  then have c0: "0 \<le> c" by (simp add: c_def)
  have v: "dec_val a + dec_val b = of_int c * 10 powi ?e"
    using scaled_val [of ?e a] scaled_val [of ?e b] by (simp add: c_def distrib_right)
  have "of_int c \<le> of_int c * (10 :: rat) ^ nat (?e + int k)" using c0 mult_left_mono [of 1 "(10 :: rat) ^ nat (?e + int k)" "of_int c"] by simp
  also have "\<dots> = (dec_val a + dec_val b) * 10 ^ k"
  proof -
    have "0 \<le> ?e + int k" using e(1) by linarith
    from powi_nat [OF this] have "(10 :: rat) ^ nat (?e + int k) = 10 powi ?e * 10 ^ k"
      using powi_split [of ?e "int k"] powi_nat [of "int k"] by simp
    then show ?thesis by (simp only: v mult.assoc)
  qed
  finally have "of_int c < (of_int (10 ^ 28) :: rat)" using assms(3) by simp
  then have "c < 10 ^ 28" by (simp only: of_int_less_iff)
  then have "num_digits c \<le> 28" by (intro few_digits c0) simp_all
  then have "dec_add a b = Decimal c ?e" by (simp add: dec_add_def dec_fix_def Let_def c_def [symmetric])
  with v c0 e show ?thesis by (simp add: dec_val_def fits_def)
qed

lemma dec_val_nonneg: "fits k d \<Longrightarrow> 0 \<le> dec_val d"
  by (simp add: fits_def dec_val_def)

lemma foldl_exact:
  assumes "list_all (fits k) ds" "fits k acc" "(dec_val acc + sum_list (map dec_val ds)) * 10 ^ k < 10 ^ 28"
  shows "dec_val (foldl dec_add acc ds) = dec_val acc + sum_list (map dec_val ds) \<and> fits k (foldl dec_add acc ds)"
  using assms
proof (induction ds arbitrary: acc)
  case (Cons d ds)
  have "0 \<le> sum_list (map dec_val ds)" using Cons.prems(1) by (intro sum_list_nonneg) (auto simp: list_all_iff dec_val_nonneg)
  then have "(dec_val acc + dec_val d) * 10 ^ k \<le> (dec_val acc + sum_list (map dec_val (d # ds))) * 10 ^ k"
    by (intro mult_right_mono) simp_all
  then have "(dec_val acc + dec_val d) * 10 ^ k < 10 ^ 28" using Cons.prems(3) by (rule order.strict_trans1)
  with Cons.prems have s: "dec_val (dec_add acc d) = dec_val acc + dec_val d \<and> fits k (dec_add acc d)"
    by (intro dec_add_exact) simp_all
  with Cons.prems show ?case using Cons.IH [of "dec_add acc d"] by (simp add: add.assoc)
qed simp

lemma dec_sum_exact:
  assumes "list_all (fits k) ds" "sum_list (map dec_val ds) * 10 ^ k < 10 ^ 28"
  shows "dec_val (dec_sum ds) = sum_list (map dec_val ds) \<and> fits k (dec_sum ds)"
  using foldl_exact [OF assms(1), of "whole 0"] assms(2) by (simp add: dec_sum_def whole_def dec_val_def fits_def)

text \<open>The fixed-point text of such a number reads back as its value.\<close>

lemma digits_val_zeros: "digits_val (replicate n 48 @ s) = digits_val s"
  by (induction n) (simp_all add: digits_val_def)

lemma digits_val_nonneg: "list_all is_digit s \<Longrightarrow> 0 \<le> digits_val s"
  by (induction s rule: rev_induct) (simp_all add: digits_val_def is_digit_def)

lemma partition_at_absent: "c \<notin> set a \<Longrightarrow> partition_at c a = (a, None)"
  by (induction a) auto

lemma partition_at_found: "c \<notin> set a \<Longrightarrow> partition_at c (a @ c # b) = (a, Some b)"
  by (induction a) auto

lemma point_text_read:
  assumes "0 \<le> c"
  shows "decimal_of (point_text c places) = Decimal c (- int places)"
proof -
  define ds where "ds = replicate (Suc places - length (dump_nat c)) 48 @ dump_nat c"
  have v: "digits_val ds = c" using dump_nat_props [OF assms] by (simp add: ds_def digits_val_zeros)
  have d: "list_all is_digit ds" using dump_nat_props [OF assms] by (auto simp: ds_def list_all_iff is_digit_def)
  then have dot: "46 \<notin> set ds" by (auto simp: list_all_iff is_digit_def)
  have len: "Suc places \<le> length ds" by (simp add: ds_def)
  show ?thesis
  proof (cases "places = 0")
    case True
    then have "point_text c places = ds" by (simp add: point_text_def ds_def Let_def)
    with True dot v show ?thesis by (simp add: decimal_of_def partition_at_absent or_empty_def)
  next
    case False
    then have eq: "point_text c places = take (length ds - places) ds @ 46 # drop (length ds - places) ds"
      by (simp add: point_text_def ds_def Let_def)
    have "46 \<notin> set (take (length ds - places) ds)" using dot in_set_takeD by fast
    with len v show ?thesis unfolding eq by (simp add: decimal_of_def partition_at_found or_empty_def)
  qed
qed

lemma dec_fixed_read: "fits k d \<Longrightarrow> decimal_of (dec_fixed d) = d"
  by (cases d) (simp add: fits_def dec_fixed_def point_text_read)

lemma partition_at_parts: "partition_at c s = (a, r) \<Longrightarrow> set a \<subseteq> set s \<and> length (or_empty r) \<le> length s"
  by (induction s arbitrary: a r) (fastforce simp: or_empty_def split: if_splits prod.splits)+

lemma decimal_of_sign:
  assumes "is_decimal s"
  shows "0 \<le> dec_coeff (decimal_of s) \<and> dec_exp (decimal_of s) \<le> 0"
proof -
  obtain a r where p: "partition_at 46 s = (a, r)" by (cases "partition_at 46 s")
  with assms have "list_all is_digit (a @ or_empty r)"
    by (auto simp: is_decimal_def is_fraction_def or_empty_def split: option.splits)
  with p digits_val_nonneg show ?thesis by (simp add: decimal_of_def)
qed

section \<open>Reviewable reports\<close>

definition exact_total :: "string \<Rightarrow> pyval list \<Rightarrow> rat" where
  "exact_total field rs = sum_list (map (\<lambda>r. dec_val (decimal_of (str_of (item r field)))) rs)"

text \<open>At most \<open>k\<close> decimal places and a total below \<open>10 ^ (28 - k)\<close>.\<close>

definition total_fits :: "nat \<Rightarrow> string \<Rightarrow> pyval list \<Rightarrow> bool" where
  "total_fits k field rs \<longleftrightarrow> list_all (\<lambda>r. - int k \<le> dec_exp (decimal_of (str_of (item r field)))) rs \<and> exact_total field rs * 10 ^ k < 10 ^ 28"

lemma org_decimal_Inr: "org_decimal v label m = Inr d \<Longrightarrow> is_decimal (str_of v) \<and> d = decimal_of (str_of v)"
  by (auto simp: org_decimal_def Let_def split: if_splits)

lemma validate_daily_record_Inr:
  assumes "validate_daily_record r = Inr ()"
  shows "is_decimal (str_of (item r ''verified_time_saved_ms''))" "is_decimal (str_of (item r ''verified_cost_saved''))"
    "0 \<le> int_of (item r ''candidate_hits'')" "0 \<le> int_of (item r ''errors'')"
    "int_of (item r ''candidate_hits'') \<le> int_of (item r ''evaluations'')" "int_of (item r ''errors'') \<le> int_of (item r ''evaluations'')"
    "is_str (item r ''date'')"
    "is_decimal (str_of (item r ''lookup_duration_ms''))"
  using assms unfolding validate_daily_record_def record_counters_def bounded_counters_def
  by (auto simp: checks first_error_Inr org_integer_def ok_iff org_date_def dest!: org_decimal_Inr split: if_splits option.splits)

lemma decimal_total_fits:
  assumes "list_all (\<lambda>r. is_decimal (str_of (item r field))) rs" "total_fits k field rs"
  shows "dec_val (decimal_total field rs) = exact_total field rs \<and> fits k (decimal_total field rs)"
proof -
  let ?ds = "map (\<lambda>r. decimal_of (str_of (item r field))) rs"
  have "list_all (fits k) ?ds" using assms decimal_of_sign by (auto simp: list_all_iff fits_def total_fits_def)
  from dec_sum_exact [OF this] assms(2) show ?thesis by (simp add: decimal_total_def exact_total_def total_fits_def comp_def)
qed

lemma decimal_total_exact:
  assumes "list_all (\<lambda>r. is_decimal (str_of (item r field))) rs" "total_fits k field rs"
  shows "dec_val (decimal_total field rs) = exact_total field rs \<and> decimal_of (dec_fixed (decimal_total field rs)) = decimal_total field rs"
  using decimal_total_fits [OF assms] dec_fixed_read by blast

lemma decimal_total_sign:
  assumes "list_all (\<lambda>r. is_decimal (str_of (item r field))) rs" "total_fits k field rs"
  shows "0 \<le> dec_coeff (decimal_total field rs)"
  using decimal_total_fits [OF assms] by (simp add: fits_def)

lemma check_records_Inr:
  assumes "check_records c starts_on ends_on ids rs = Inr ()"
  shows "distinct (map record_identity rs) \<and> set ids \<inter> record_identity ` set rs = {}
    \<and> list_all (\<lambda>r. item r ''pilot_id'' = item c ''pilot_id''
        \<and> (\<exists>day. org_date (item r ''date'') ''date'' = Inr day \<and> starts_on \<le> day \<and> day \<le> ends_on)) rs"
  using assms by (induction c starts_on ends_on ids rs rule: check_records.induct) (auto simp: checks)

lemma organization_report_Inr:
  assumes "organization_report c rs = Inr report"
  obtains starts_on ends_on digest where "validate_pilot_config c = Inr ()" "list_all (\<lambda>r. validate_daily_record r = Inr ()) rs" "rs \<noteq> []"
    "org_date (item (item c ''window'') ''starts_on'') ''starts_on'' = Inr starts_on"
    "org_date (item (item c ''window'') ''ends_on'') ''ends_on'' = Inr ends_on" "check_records c starts_on ends_on [] rs = Inr ()"
    "report = report_document c rs digest"
  using assms unfolding organization_report_def by (auto simp: checks first_error_Inr list_all_iff)

lemma ratio_error:
  assumes "0 \<le> s" "s \<le> n" "0 < n"
  shows "\<bar>dec_val (ratio_of (whole s) n) - of_int s / of_int n\<bar> \<le> 1 / 10 ^ 27"
  using dec_div_error [of s n] assms by (simp add: ratio_of_def)

lemma total_between:
  assumes "list_all (\<lambda>r. 0 \<le> int_of (item r f) \<and> int_of (item r f) \<le> int_of (item r g)) rs"
  shows "0 \<le> total_of f rs \<and> total_of f rs \<le> total_of g rs"
  using assms by (induction rs) (auto simp: total_of_def)

lemma observed_days: "length (observed_dates rs) = card ((\<lambda>r. str_of (item r ''date'')) ` set rs)"
  by (simp add: observed_dates_def length_remdups_card_conv)

text \<open>The mean lookup time that is compared with its threshold is the exact one up to 27 digits.\<close>

lemma mean_lookup_error:
  assumes "list_all (\<lambda>r. is_decimal (str_of (item r ''lookup_duration_ms''))) rs" "total_fits k ''lookup_duration_ms'' rs"
    and "0 < total_of ''evaluations'' rs"
  shows "exact_total ''lookup_duration_ms'' rs / of_int (total_of ''evaluations'' rs) * (1 - 1 / 10 ^ 27) \<le> dec_val (mean_lookup rs)"
proof -
  let ?d = "decimal_total ''lookup_duration_ms'' rs" and ?n = "total_of ''evaluations'' rs"
  note t = decimal_total_exact [OF assms(1,2)]
  have m: "mean_lookup rs = dec_div ?d (whole ?n)" using assms(3) t by (simp add: mean_lookup_def ratio_of_def)
  have n: "dec_val (whole ?n) = of_int ?n" "0 < dec_coeff (whole ?n)" using assms(3) by (simp_all add: whole_def dec_val_def)
  from dec_div_relative [OF decimal_total_sign [OF assms(1,2)] n(2)]
  have "dec_val ?d / of_int ?n - dec_val ?d / of_int ?n / 10 ^ 27 \<le> dec_val (dec_div ?d (whole ?n))" unfolding n(1) by linarith
  then show ?thesis unfolding m using t by (simp add: right_diff_distrib)
qed

lemma record_rates:
  assumes "list_all (\<lambda>r. validate_daily_record r = Inr ()) rs" "0 < total_of ''evaluations'' rs"
  shows "\<bar>dec_val (error_rate rs) - of_int (total_of ''errors'' rs) / of_int (total_of ''evaluations'' rs)\<bar> \<le> 1 / 10 ^ 27"
    "\<bar>dec_val (hit_rate rs) - of_int (total_of ''candidate_hits'' rs) / of_int (total_of ''evaluations'' rs)\<bar> \<le> 1 / 10 ^ 27"
proof -
  have b: "0 \<le> total_of ''errors'' rs \<and> total_of ''errors'' rs \<le> total_of ''evaluations'' rs"
    "0 \<le> total_of ''candidate_hits'' rs \<and> total_of ''candidate_hits'' rs \<le> total_of ''evaluations'' rs"
    using assms(1) validate_daily_record_Inr by (intro total_between; simp add: list_all_iff)+
  show "\<bar>dec_val (error_rate rs) - of_int (total_of ''errors'' rs) / of_int (total_of ''evaluations'' rs)\<bar> \<le> 1 / 10 ^ 27"
    "\<bar>dec_val (hit_rate rs) - of_int (total_of ''candidate_hits'' rs) / of_int (total_of ''evaluations'' rs)\<bar> \<le> 1 / 10 ^ 27"
    using ratio_error b assms(2) unfolding error_rate_def hit_rate_def by blast+
qed

text \<open>The specification speaks of the records and the configuration as they are: exact sums over the records and the values
  of the texts.\<close>

definition exact_count :: "string \<Rightarrow> pyval list \<Rightarrow> int" where
  "exact_count field rs = sum_list (map (\<lambda>r. int_of (item r field)) rs)"

definition threshold_value :: "pyval \<Rightarrow> string \<Rightarrow> rat" where
  "threshold_value c field = dec_val (decimal_of (str_of (item (item c ''thresholds'') field)))"

lemma exact_values: "total_of f rs = exact_count f rs" "dec_val (threshold c f) = threshold_value c f"
  "map record_identity rs = map (\<lambda>r. (item r ''date'', item r ''operation'')) rs"
  by (simp_all add: total_of_def exact_count_def threshold_def threshold_value_def record_identity_def)

text \<open>C25: A reviewable report means what it says. If \<open>pilot_report\<close> declares a pilot externally reviewable, the environment
  is a real one, the records are of the pilot, inside its window and of pairwise different pairs of date and operation, the
  observed operations are the configured ones, every candidate hit was compared, and the minimum of observed days and each of the
  eight thresholds is met by the records. Days, evaluations, mismatches and kill switch drills meet theirs exactly. The error
  rate and the hit rate of the exact counters meet theirs up to the 27 digits of the division. The exact sums of time and cost
  saved, and the exact mean lookup time up to the 27 digits of its division, meet theirs wherever the sum fits the digits of the
  decimal context.\<close>

theorem pilot_reviewable_sound:
  assumes "organization_report c rs = Inr report" "item report ''externally_reviewable'' = PyBool True"
  shows "item c ''environment_kind'' = S ''real'' \<and> distinct (map (\<lambda>r. (item r ''date'', item r ''operation'')) rs)
    \<and> (\<exists>starts_on ends_on. list_all (\<lambda>r. item r ''pilot_id'' = item c ''pilot_id''
          \<and> (\<exists>day. org_date (item r ''date'') ''date'' = Inr day \<and> starts_on \<le> day \<and> day \<le> ends_on)) rs
        \<and> org_date (item (item c ''window'') ''starts_on'') ''starts_on'' = Inr starts_on
        \<and> org_date (item (item c ''window'') ''ends_on'') ''ends_on'' = Inr ends_on)
    \<and> int_of (item (item c ''window'') ''minimum_observed_days'') \<le> int (card ((\<lambda>r. str_of (item r ''date'')) ` set rs))
    \<and> set (map (\<lambda>r. item r ''operation'') rs) = set (items_of (item c ''operations''))
    \<and> 0 < exact_count ''evaluations'' rs \<and> int_of (item (item c ''thresholds'') ''minimum_evaluations'') \<le> exact_count ''evaluations'' rs
    \<and> exact_count ''mismatches'' rs \<le> int_of (item (item c ''thresholds'') ''maximum_mismatches'')
    \<and> exact_count ''candidate_hits'' rs = exact_count ''compared_hits'' rs
    \<and> of_int (exact_count ''errors'' rs) / of_int (exact_count ''evaluations'' rs) \<le> threshold_value c ''maximum_error_rate'' + 1 / 10 ^ 27
    \<and> threshold_value c ''minimum_candidate_hit_rate'' - 1 / 10 ^ 27 \<le> of_int (exact_count ''candidate_hits'' rs) / of_int (exact_count ''evaluations'' rs)
    \<and> (total_fits k ''verified_time_saved_ms'' rs \<longrightarrow> threshold_value c ''minimum_verified_time_saved_ms'' \<le> exact_total ''verified_time_saved_ms'' rs)
    \<and> (total_fits k ''verified_cost_saved'' rs \<longrightarrow> threshold_value c ''minimum_verified_cost_saved'' \<le> exact_total ''verified_cost_saved'' rs)
    \<and> (total_fits k ''lookup_duration_ms'' rs \<longrightarrow>
         exact_total ''lookup_duration_ms'' rs / of_int (exact_count ''evaluations'' rs) * (1 - 1 / 10 ^ 27) \<le> threshold_value c ''maximum_mean_lookup_ms'')
    \<and> int_of (item (item c ''thresholds'') ''minimum_kill_switch_drills'') \<le> exact_count ''kill_switch_drills'' rs"
proof -
  from assms(1) obtain starts_on ends_on digest where r: "validate_pilot_config c = Inr ()" "list_all (\<lambda>r. validate_daily_record r = Inr ()) rs"
    "org_date (item (item c ''window'') ''starts_on'') ''starts_on'' = Inr starts_on"
    "org_date (item (item c ''window'') ''ends_on'') ''ends_on'' = Inr ends_on"
    "check_records c starts_on ends_on [] rs = Inr ()" "report = report_document c rs digest"
    by (rule organization_report_Inr)
  have "list_all snd (pilot_checks c rs)" using assms(2) by (simp add: r(6) report_document_def)
  note ch = this [unfolded pilot_checks_def Let_def list.pred_inject snd_conv dec_le_val]
  have "1 \<le> int_of (item (item c ''thresholds'') ''minimum_evaluations'')"
    using r(1) by (auto simp: validate_pilot_config_def validate_thresholds_def checks Let_def org_integer_def)
  with ch have n: "0 < total_of ''evaluations'' rs" by linarith
  note d = validate_daily_record_Inr
  note rates = record_rates [OF r(2) n]
  have q: "of_int (total_of ''errors'' rs) / of_int (total_of ''evaluations'' rs) \<le> dec_val (threshold c ''maximum_error_rate'') + 1 / 10 ^ 27"
    "dec_val (threshold c ''minimum_candidate_hit_rate'') - 1 / 10 ^ 27 \<le> of_int (total_of ''candidate_hits'' rs) / of_int (total_of ''evaluations'' rs)"
    using rates ch by linarith+
  have t: "list_all (\<lambda>r. is_decimal (str_of (item r ''verified_time_saved_ms''))) rs"
    "list_all (\<lambda>r. is_decimal (str_of (item r ''verified_cost_saved''))) rs"
    "list_all (\<lambda>r. is_decimal (str_of (item r ''lookup_duration_ms''))) rs"
    using r(2) d(1,2,8) by (simp_all add: list_all_iff)
  have e: "total_fits k ''verified_time_saved_ms'' rs \<Longrightarrow> dec_val (threshold c ''minimum_verified_time_saved_ms'') \<le> exact_total ''verified_time_saved_ms'' rs"
    "total_fits k ''verified_cost_saved'' rs \<Longrightarrow> dec_val (threshold c ''minimum_verified_cost_saved'') \<le> exact_total ''verified_cost_saved'' rs"
    using ch decimal_total_exact [OF t(1), of k] decimal_total_exact [OF t(2), of k] by simp_all
  have m: "dec_val (mean_lookup rs) \<le> dec_val (threshold c ''maximum_mean_lookup_ms'')" using ch by simp
  have l: "total_fits k ''lookup_duration_ms'' rs \<Longrightarrow>
      exact_total ''lookup_duration_ms'' rs / of_int (total_of ''evaluations'' rs) * (1 - 1 / 10 ^ 27) \<le> dec_val (threshold c ''maximum_mean_lookup_ms'')"
    by (rule order.trans [OF mean_lookup_error [OF t(3) _ n] m])
  note cr = check_records_Inr [OF r(5)]
  have w: "\<exists>starts_on ends_on. list_all (\<lambda>r. item r ''pilot_id'' = item c ''pilot_id''
          \<and> (\<exists>day. org_date (item r ''date'') ''date'' = Inr day \<and> starts_on \<le> day \<and> day \<le> ends_on)) rs
        \<and> org_date (item (item c ''window'') ''starts_on'') ''starts_on'' = Inr starts_on
        \<and> org_date (item (item c ''window'') ''ends_on'') ''ends_on'' = Inr ends_on"
    using cr r(3,4) by (intro exI conjI) auto
  show ?thesis unfolding exact_values [symmetric] using ch [unfolded observed_days] cr
    by (elim conjE, intro conjI impI) (assumption | rule n w q | erule e l)+
qed

text \<open>A pilot of one day.\<close>

definition day_pilot :: pyval where
  "day_pilot =
     obj [(''spec_version'', S ''oncemesh.organization-pilot/v0''), (''pilot_id'', S ''p''), (''organization_id'', S ''o''),
          (''environment_kind'', S ''real''),
          (''window'', obj [(''starts_on'', S ''2026-02-28''), (''ends_on'', S ''2026-03-01''), (''minimum_observed_days'', PyInt 1)]),
          (''operations'', PyList [S ''fetch/1'']),
          (''owners'', obj [(''workload'', S ''a''), (''security'', S ''b''), (''operations'', S ''c'')]),
          (''thresholds'', obj [(''minimum_evaluations'', PyInt 3), (''maximum_mismatches'', PyInt 0), (''maximum_error_rate'', S ''0''),
             (''minimum_candidate_hit_rate'', S ''0.5''), (''minimum_verified_time_saved_ms'', S ''10''),
             (''minimum_verified_cost_saved'', S ''0.01''), (''maximum_mean_lookup_ms'', S ''2''), (''minimum_kill_switch_drills'', PyInt 1)])]"

definition day_record :: pyval where
  "day_record =
     obj [(''spec_version'', S ''oncemesh.organization-pilot-daily/v0''), (''pilot_id'', S ''p''), (''date'', S ''2026-03-01''),
          (''operation'', S ''fetch/1''), (''evaluations'', PyInt 3), (''candidate_hits'', PyInt 2), (''compared_hits'', PyInt 2),
          (''mismatches'', PyInt 0), (''substitutions'', PyInt 2), (''errors'', PyInt 0), (''lookup_duration_ms'', S ''4.5''),
          (''verified_time_saved_ms'', S ''10.25''), (''verified_cost_saved'', S ''0.02''), (''reusable_bytes'', PyInt 7),
          (''kill_switch_drills'', PyInt 1),
          (''evidence_digest'', S ''sha256:0123456789abcdef0123456789abcdef0123456789abcdef0123456789abcdef'')]"

lemma day_pilot_report: "\<exists>digest. organization_report day_pilot [day_record] = Inr (report_document day_pilot [day_record] digest)"
proof -
  have v: "validate_pilot_config day_pilot = Inr ()" "validate_daily_record day_record = Inr ()" by code_simp+
  have dates: "org_date (item (item day_pilot ''window'') ''starts_on'') ''starts_on'' = Inr 739674"
    "org_date (item (item day_pilot ''window'') ''ends_on'') ''ends_on'' = Inr 739675" by code_simp+
  have "check_records day_pilot 739674 739675 [] [day_record] = Inr ()" by code_simp
  moreover have "ok (canonical_json (evidence_claims day_pilot [day_record]))" by code_simp
  ultimately show ?thesis using v dates unfolding organization_report_def by (auto simp: ok_iff guard_def simp del: check_records.simps)
qed

theorem pilot_reviewable_sound_witness:
  "\<exists>report. organization_report day_pilot [day_record] = Inr report
    \<and> threshold_value day_pilot ''minimum_verified_cost_saved'' \<le> exact_total ''verified_cost_saved'' [day_record]
    \<and> exact_total ''lookup_duration_ms'' [day_record] / of_int (exact_count ''evaluations'' [day_record]) * (1 - 1 / 10 ^ 27)
        \<le> threshold_value day_pilot ''maximum_mean_lookup_ms''"
proof -
  obtain digest where r: "organization_report day_pilot [day_record] = Inr (report_document day_pilot [day_record] digest)"
    using day_pilot_report by blast
  have "list_all snd (pilot_checks day_pilot [day_record])" by code_simp
  then have ok: "item (report_document day_pilot [day_record] digest) ''externally_reviewable'' = PyBool True"
    by (simp add: report_document_def)
  have "decimal_of (str_of (item day_record ''verified_cost_saved'')) = Decimal 2 (-2)" by code_simp
  then have "total_fits 2 ''verified_cost_saved'' [day_record]"
    by (simp add: total_fits_def exact_total_def dec_val_def power_int_minus)
  moreover have "decimal_of (str_of (item day_record ''lookup_duration_ms'')) = Decimal 45 (-1)" by code_simp
  then have "total_fits 2 ''lookup_duration_ms'' [day_record]"
    by (simp add: total_fits_def exact_total_def dec_val_def power_int_minus)
  ultimately show ?thesis using r pilot_reviewable_sound [OF r ok, of 2] by blast
qed

end
