(* ===== verification/Directory.thy ===== *)
theory Directory
  imports Decimals Pilot_Documents Safe_Http
begin

text \<open>
  The public mesh directory (\<open>discovery.py\<close>): the validation of a snapshot, its loading and its search. Besides the URL
  tables of \<open>url_env\<close>, two tables of the standard library are parameters: whether a host text is an IP
  address and a global one (\<open>ipaddress\<close>), and case folding.
\<close>

section \<open>Fields\<close>

record directory_env =
  de_url :: url_env
  de_ip_global :: "pystr \<Rightarrow> bool option"
  de_casefold :: "pystr \<Rightarrow> pystr"

definition mesh_statuses :: "pyval list" where
  "mesh_statuses = [S ''listed'', S ''observed'', S ''suspended'', S ''retired'']"

definition bounded_text :: "pyval \<Rightarrow> string \<Rightarrow> nat \<Rightarrow> pystr result" where
  "bounded_text v label maximum =
     seq (first_error
       [guard (nonempty_str v \<and> length (str_of v) \<le> maximum) (ValueError (label @ '' must be a non-empty bounded string'')),
        guard (list_all (\<lambda>c. 32 \<le> c) (str_of v)) (ValueError (label @ '' must not contain control characters''))])
     (Inr (str_of v))"

text \<open>The host of a URL must not be the local one or an address that is not global.\<close>

definition public_host :: "directory_env \<Rightarrow> pystr \<Rightarrow> bool" where
  "public_host D name =
     (let host = lower (de_url D) (rstrip_char 46 name)
      in host \<noteq> u ''localhost'' \<and> de_ip_global D host \<noteq> Some False)"

definition https_url :: "directory_env \<Rightarrow> pyval \<Rightarrow> string \<Rightarrow> bool \<Rightarrow> unit result" where
  "https_url D v label origin_only =
     (if \<not> (is_str v \<and> length (str_of v) \<le> 2048) then Inl (ValueError (label @ '' must be a bounded HTTPS URL''))
      else rbind (urlsplit (de_url D) (str_of v)) (\<lambda>p.
        seq (case url_port p of
               Inl e \<Rightarrow> Inl (if is_value_error e then ValueError (label @ '' port is invalid'') else e) | Inr _ \<Rightarrow> Inr ())
        (case hostname (de_url D) p of
           None \<Rightarrow> Inl (ValueError (label @ '' must be an HTTPS URL without credentials, query, or fragment''))
         | Some name \<Rightarrow>
             first_error
               [guard (su_scheme p = u ''https'' \<and> name \<noteq> [] \<and> \<not> has_userinfo (su_netloc p) \<and> su_query p = []
                       \<and> url_fragment (str_of v) = [] \<and> (origin_only \<longrightarrow> su_path p = [] \<or> su_path p = [47]))
                  (ValueError (label @ '' must be an HTTPS URL without credentials, query, or fragment'')),
                guard (public_host D name) (ValueError (label @ '' must identify a public host''))])))"

definition unique_texts :: "pyval \<Rightarrow> string \<Rightarrow> nat \<Rightarrow> nat \<Rightarrow> unit result" where
  "unique_texts v label items chars =
     guard (is_list v \<and> items_of v \<noteq> [] \<and> length (items_of v) \<le> items
            \<and> list_all (\<lambda>x. nonempty_str x \<and> length (str_of x) \<le> chars) (items_of v) \<and> distinct (items_of v))
       (ValueError (label @ '' must be a bounded non-empty unique string array''))"

definition decimal_field :: "(pystr \<Rightarrow> bool) \<Rightarrow> pyval \<Rightarrow> string \<Rightarrow> decimal result" where
  "decimal_field pattern v label =
     (if is_str v \<and> pattern (str_of v) then Inr (decimal_of (str_of v))
      else Inl (ValueError (label @ '' must be a canonical non-negative decimal string'')))"

definition counter_field :: "pyval \<Rightarrow> string \<Rightarrow> unit result" where
  "counter_field v label = guard (is_int v \<and> 0 \<le> int_of v) (ValueError (label @ '' must be a non-negative integer''))"

section \<open>Statistics\<close>

definition stats_fields :: "string list" where
  "stats_fields =
     [''evidence_kind'', ''window_started_at'', ''window_ended_at'', ''observed_at'', ''sample_size'', ''successful_requests'',
      ''bytes_served'', ''availability_ratio'', ''latency_ms'']"

definition measured_ratio :: "int \<Rightarrow> int \<Rightarrow> decimal" where
  "measured_ratio successful samples = six_places (dec_div (whole successful) (whole samples))"

definition validate_stats :: "pyval \<Rightarrow> pyval \<Rightarrow> unit result" where
  "validate_stats v status =
     (if v = PyNone then guard (status \<noteq> S ''observed'') (ValueError ''observed meshes require directory-observed statistics'')
      else seq (first_error
        [dv_exact_keys v stats_fields ''mesh statistics'',
         member (item v ''evidence_kind'') [S ''operator-reported'', S ''directory-observed''] (ValueError ''statistics evidence_kind is unsupported''),
         guard (status \<noteq> S ''observed'' \<or> item v ''evidence_kind'' = S ''directory-observed'')
           (ValueError ''observed meshes require directory-observed statistics'')])
      (rbind (parse_canonical_utc (item v ''window_started_at'')) (\<lambda>started.
       rbind (parse_canonical_utc (item v ''window_ended_at'')) (\<lambda>ended.
       rbind (parse_canonical_utc (item v ''observed_at'')) (\<lambda>observed.
       seq (first_error
         [guard (started < ended \<and> ended \<le> observed) (ValueError ''statistics timestamps are not ordered''),
          counter_field (item v ''sample_size'') ''statistics sample_size'',
          counter_field (item v ''successful_requests'') ''statistics successful_requests'',
          counter_field (item v ''bytes_served'') ''statistics bytes_served'',
          guard (20 \<le> int_of (item v ''sample_size'')) (ValueError ''statistics sample_size must be at least 20''),
          guard (int_of (item v ''successful_requests'') \<le> int_of (item v ''sample_size''))
            (ValueError ''successful_requests must not exceed sample_size'')])
       (rbind (decimal_field is_ratio (item v ''availability_ratio'') ''availability_ratio'') (\<lambda>ratio.
        seq (first_error
          [guard (dec_eq ratio (measured_ratio (int_of (item v ''successful_requests'')) (int_of (item v ''sample_size''))))
             (ValueError ''availability_ratio must equal successful_requests divided by sample_size''),
           dv_exact_keys (item v ''latency_ms'') [''p50'', ''p95''] ''statistics latency_ms''])
        (rbind (decimal_field is_canonical_decimal (item (item v ''latency_ms'') ''p50'') ''latency p50'') (\<lambda>p50.
         rbind (decimal_field is_canonical_decimal (item (item v ''latency_ms'') ''p95'') ''latency p95'') (\<lambda>p95.
           guard (dec_le p50 p95) (ValueError ''latency p95 must be greater than or equal to p50'')))))))))))"

section \<open>Profiles\<close>

definition mesh_fields :: "string list" where
  "mesh_fields =
     [''peer_id'', ''display_name'', ''description'', ''operator'', ''endpoint'', ''regions'', ''status'', ''protocols'', ''operations'',
      ''availability_identity'', ''receipt_identities'', ''stats'', ''submitted_at'']"

fun operation_keys :: "pyval list \<Rightarrow> (pystr \<times> pystr \<times> pystr) list result" where
  "operation_keys [] = Inr []"
| "operation_keys (op # ops) =
     seq (dv_exact_keys op [''name'', ''version'', ''output_schema''] ''mesh operation'')
     (rbind (bounded_text (item op ''name'') ''operation name'' 200) (\<lambda>name.
      rbind (bounded_text (item op ''version'') ''operation version'' 100) (\<lambda>version.
      rbind (bounded_text (item op ''output_schema'') ''operation output_schema'' 300) (\<lambda>schema.
      rbind (operation_keys ops) (\<lambda>rest. Inr ((name, version, schema) # rest))))))"

fun check_receipt_identities :: "pyval \<Rightarrow> pyval list \<Rightarrow> pyval list \<Rightarrow> unit result" where
  "check_receipt_identities peer_id [] seen = Inr ()"
| "check_receipt_identities peer_id (identity # rest) seen =
     seq (first_error
       [discard (validate_federation_identity identity (Some ''receipt'')),
        guard (item identity ''peer_id'' = peer_id) (ValueError ''receipt identity peer_id does not match mesh peer_id''),
        guard (item identity ''key_id'' \<notin> set seen) (ValueError ''receipt identity key IDs must be unique'')])
     (check_receipt_identities peer_id rest (item identity ''key_id'' # seen))"

definition peer_id_ok :: "pystr \<Rightarrow> bool" where
  "peer_id_ok s \<longleftrightarrow> s \<noteq> [] \<and> length s \<le> 128 \<and> (is_alpha (hd s) \<or> is_digit (hd s))
     \<and> list_all (\<lambda>c. is_alpha c \<or> is_digit c \<or> c = 46 \<or> c = 95 \<or> c = 45) (tl s)"

definition validate_mesh :: "directory_env \<Rightarrow> pyval \<Rightarrow> unit result" where
  "validate_mesh D v =
     seq (first_error
       [dv_exact_keys v mesh_fields ''mesh profile'',
        guard (is_str (item v ''peer_id'') \<and> peer_id_ok (str_of (item v ''peer_id''))) (ValueError ''mesh peer_id is invalid''),
        discard (bounded_text (item v ''display_name'') ''mesh display_name'' 120),
        discard (bounded_text (item v ''description'') ''mesh description'' 500),
        dv_exact_keys (item v ''operator'') [''name'', ''website''] ''mesh operator'',
        discard (bounded_text (item (item v ''operator'') ''name'') ''operator name'' 120),
        https_url D (item (item v ''operator'') ''website'') ''operator website'' False,
        https_url D (item v ''endpoint'') ''mesh endpoint'' True,
        unique_texts (item v ''regions'') ''mesh regions'' 32 80,
        member (item v ''status'') mesh_statuses (ValueError ''mesh status is unsupported''),
        unique_texts (item v ''protocols'') ''mesh protocols'' 32 200,
        guard (is_list (item v ''operations'') \<and> items_of (item v ''operations'') \<noteq> [] \<and> length (items_of (item v ''operations'')) \<le> 1000)
          (ValueError ''mesh operations must be a bounded non-empty array'')])
     (rbind (operation_keys (items_of (item v ''operations''))) (\<lambda>found.
      first_error
        [guard (distinct found) (ValueError ''mesh operations must be unique''),
         discard (validate_federation_identity (item v ''availability_identity'') (Some ''availability'')),
         guard (item (item v ''availability_identity'') ''peer_id'' = item v ''peer_id'')
           (ValueError ''availability identity peer_id does not match mesh peer_id''),
         guard (is_list (item v ''receipt_identities'') \<and> items_of (item v ''receipt_identities'') \<noteq> []
                \<and> length (items_of (item v ''receipt_identities'')) \<le> 100)
           (ValueError ''receipt_identities must be a bounded non-empty array''),
         check_receipt_identities (item v ''peer_id'') (items_of (item v ''receipt_identities'')) [],
         validate_stats (item v ''stats'') (item v ''status''),
         discard (parse_canonical_utc (item v ''submitted_at''))]))"

section \<open>Directories\<close>

definition endpoint_key :: "directory_env \<Rightarrow> pyval \<Rightarrow> pystr" where
  "endpoint_key D mesh = lower (de_url D) (rstrip_char 47 (str_of (item mesh ''endpoint'')))"

definition peer_of :: "pyval \<Rightarrow> pystr" where
  "peer_of mesh = str_of (item mesh ''peer_id'')"

definition validate_directory :: "directory_env \<Rightarrow> pyval \<Rightarrow> pyval list result" where
  "validate_directory D d =
     seq (first_error
       [dv_exact_keys d [''spec_version'', ''generated_at'', ''directory'', ''meshes''] ''public directory'',
        guard (item d ''spec_version'' = S ''oncemesh.public-mesh-directory/v0'') (ValueError ''unsupported public directory version''),
        discard (parse_canonical_utc (item d ''generated_at'')),
        dv_exact_keys (item d ''directory'') [''name'', ''repository'', ''policy_url''] ''directory metadata'',
        discard (bounded_text (item (item d ''directory'') ''name'') ''directory name'' 120),
        https_url D (item (item d ''directory'') ''repository'') ''directory repository'' False,
        https_url D (item (item d ''directory'') ''policy_url'') ''directory policy_url'' False,
        guard (is_list (item d ''meshes'') \<and> length (items_of (item d ''meshes'')) \<le> 10000) (ValueError ''directory meshes must be a bounded array''),
        first_error (map (validate_mesh D) (items_of (item d ''meshes''))),
        guard (sorted (map peer_of (items_of (item d ''meshes'')))) (ValueError ''directory meshes must be sorted by peer_id''),
        guard (distinct (map peer_of (items_of (item d ''meshes'')))) (ValueError ''directory peer IDs must be unique''),
        guard (distinct (map (endpoint_key D) (items_of (item d ''meshes'')))) (ValueError ''directory endpoints must be unique'')])
     (Inr (items_of (item d ''meshes'')))"

definition max_directory_bytes :: nat where
  "max_directory_bytes = 1000000"

definition parse_directory :: "directory_env \<Rightarrow> bytes \<Rightarrow> pyval result" where
  "parse_directory D raw =
     (if max_directory_bytes < length raw then Inl (ValueError ''public directory exceeds the byte limit'')
      else case pilot_strict_json raw of
             Inl e \<Rightarrow> Inl (if e = UnicodeError \<or> e = JSONDecodeError then ValueError ''public directory is not valid UTF-8 JSON'' else e)
           | Inr v \<Rightarrow> rbind (validate_directory D v) (\<lambda>_. Inr v))"

definition load_directory :: "directory_env \<Rightarrow> files \<Rightarrow> pystr \<Rightarrow> pyval result" where
  "load_directory D fs path =
     (case read_bytes fs path of
        Inl _ \<Rightarrow> Inl (ValueError ''cannot read public directory'')
      | Inr raw \<Rightarrow> parse_directory D (take (max_directory_bytes + 1) raw))"

definition directory_url :: pystr where
  "directory_url = u ''https://raw.githubusercontent.com/yassinbahri/OnceMesh/main/directory/public-meshes.json''"

definition fetch_directory :: "directory_env \<Rightarrow> transport \<Rightarrow> pyval result" where
  "fetch_directory D T =
     rbind (tr_get T (PyStr directory_url) (S ''application/json'') (PyBool False) (PyInt (int max_directory_bytes))) (\<lambda>response.
       if fr_status response \<noteq> 200 \<or> fr_final_url response \<noteq> directory_url
       then Inl (ValueError ''canonical public directory request failed'') else parse_directory D (fr_body response))"

text \<open>The transport it uses when none is given.\<close>

definition default_directory_transport :: "directory_env \<Rightarrow> web \<Rightarrow> transport result" where
  "default_directory_transport D W =
     rbind (new_safe_transport (de_url D) [u ''raw.githubusercontent.com''] 10 0) (\<lambda>T. Inr (as_transport (de_url D) W T))"

section \<open>Search\<close>

definition operation_text :: "pyval \<Rightarrow> pystr" where
  "operation_text op = str_of (item op ''name'') @ [47] @ str_of (item op ''version'')"

definition mesh_matches :: "directory_env \<Rightarrow> pystr option \<Rightarrow> pystr option \<Rightarrow> pyval option \<Rightarrow> pyval \<Rightarrow> bool" where
  "mesh_matches D operation region status mesh \<longleftrightarrow>
     (case operation of None \<Rightarrow> True | Some name \<Rightarrow> list_ex (\<lambda>op. operation_text op = name) (items_of (item mesh ''operations'')))
     \<and> (case region of None \<Rightarrow> True
        | Some name \<Rightarrow> list_ex (\<lambda>r. de_casefold D (str_of r) = de_casefold D name) (items_of (item mesh ''regions'')))
     \<and> (case status of None \<Rightarrow> True | Some wanted \<Rightarrow> item mesh ''status'' = wanted)"

definition search_meshes :: "directory_env \<Rightarrow> pyval \<Rightarrow> pystr option \<Rightarrow> pystr option \<Rightarrow> pyval option \<Rightarrow> pyval list result" where
  "search_meshes D d operation region status =
     rbind (validate_directory D d) (\<lambda>meshes.
     seq (first_error
       [guard (case operation of None \<Rightarrow> True | Some name \<Rightarrow> operation_name_ok name) (ValueError ''operation filter must use name/version''),
        case status of None \<Rightarrow> Inr () | Some wanted \<Rightarrow> member wanted mesh_statuses (ValueError ''status filter is unsupported'')])
     (Inr (filter (mesh_matches D operation region status) meshes)))"

text \<open>The \<open>inspect\<close> command.\<close>

definition inspect_mesh :: "pyval \<Rightarrow> pystr \<Rightarrow> pyval result" where
  "inspect_mesh d peer_id =
     (case filter (\<lambda>mesh. item mesh ''peer_id'' = PyStr peer_id) (items_of (item d ''meshes'')) of
        [] \<Rightarrow> Inl (ValueError ''public mesh peer_id was not found'') | mesh # _ \<Rightarrow> Inr mesh)"

end
