(* ===== verification/Mesh_Status.thy ===== *)
theory Mesh_Status
  imports Directory
begin

text \<open>
  Reachability observations of the listed meshes (\<open>mesh_status.py\<close>). A probe is what its call returns for a target,
  the HTTP status and the milliseconds, or the exception it raises; the targets of a valid directory
  differ, so each is probed once, and \<open>executor.map\<close> keeps the order of the meshes whatever the threads do.
  The clock is read twice. A timeout is a rational number.
\<close>

section \<open>Probing one mesh\<close>

definition status_path :: pystr where
  "status_path = u ''/v0/availability''"

definition active_statuses :: "pyval list" where
  "active_statuses = [S ''listed'', S ''observed'']"

definition expected_http_statuses :: "int list" where
  "expected_http_statuses = [200, 401]"

definition status_states :: "pyval list" where
  "status_states = [S ''up'', S ''degraded'', S ''down'', S ''not_checked'']"

definition max_active_meshes :: nat where
  "max_active_meshes = 500"

definition max_concurrency :: int where
  "max_concurrency = 8"

definition max_response_bytes :: int where
  "max_response_bytes = 4096"

type_synonym status_probe = "pystr \<Rightarrow> rat \<Rightarrow> (int \<times> int) result"

text \<open>The argument \<open>elapsed_ns\<close> is the difference of the two readings of the performance counter.\<close>

definition default_probe :: "url_env \<Rightarrow> web \<Rightarrow> int \<Rightarrow> status_probe" where
  "default_probe U W elapsed_ns url timeout =
     rbind (urlsplit U url) (\<lambda>p.
     case hostname U p of
       None \<Rightarrow> Inl (ValueError ''mesh status URL has no host'')
     | Some host \<Rightarrow>
         if host = [] then Inl (ValueError ''mesh status URL has no host'')
         else
           rbind (new_safe_transport U [host] timeout 0) (\<lambda>T.
           rbind (snd (safe_probe U W T url (u ''application/json'') max_response_bytes)) (\<lambda>response.
           if fr_final_url response \<noteq> url then Inl (ValueError ''mesh status probe redirected'')
           else Inr (fr_status response, max 0 (half_even elapsed_ns 1000000)))))"

definition observation_document :: "pyval \<Rightarrow> string \<Rightarrow> pyval \<Rightarrow> pyval \<Rightarrow> pyval \<Rightarrow> string \<Rightarrow> pyval" where
  "observation_document mesh state checked_at response_time http_status detail =
     obj [(''peer_id'', item mesh ''peer_id''), (''registry_status'', item mesh ''status''), (''state'', S state),
          (''checked_at'', checked_at), (''response_time_ms'', response_time), (''http_status'', http_status), (''detail'', S detail)]"

definition probe_target :: "pyval \<Rightarrow> pystr" where
  "probe_target mesh = rstrip_char 47 (str_of (item mesh ''endpoint'')) @ status_path"

definition observation :: "pystr \<Rightarrow> rat \<Rightarrow> status_probe \<Rightarrow> pyval \<Rightarrow> pyval" where
  "observation checked_at timeout probe mesh =
     (if item mesh ''status'' \<notin> set active_statuses
      then observation_document mesh ''not_checked'' PyNone PyNone PyNone ''registry-inactive''
      else case probe (probe_target mesh) timeout of
             Inl _ \<Rightarrow> observation_document mesh ''down'' (PyStr checked_at) PyNone PyNone ''network-failure''
           | Inr (http_status, response_time) \<Rightarrow>
               if http_status \<in> set expected_http_statuses
               then observation_document mesh ''up'' (PyStr checked_at) (PyInt response_time) (PyInt http_status) ''expected-protocol-response''
               else observation_document mesh ''degraded'' (PyStr checked_at) (PyInt response_time) (PyInt http_status) ''unexpected-http-response'')"

section \<open>Snapshots\<close>

definition observation_fields :: "string list" where
  "observation_fields = [''peer_id'', ''registry_status'', ''state'', ''checked_at'', ''response_time_ms'', ''http_status'', ''detail'']"

definition check_observation :: "int \<Rightarrow> pyval \<Rightarrow> pyval \<Rightarrow> unit result" where
  "check_observation generated_at mesh ob =
     seq (first_error
       [dv_exact_keys ob observation_fields ''status observation'',
        guard (item ob ''peer_id'' = item mesh ''peer_id'' \<and> item ob ''registry_status'' = item mesh ''status'')
          (ValueError ''status observation does not match its directory entry''),
        member (item ob ''state'') status_states (ValueError ''status observation state is invalid''),
        member (item ob ''registry_status'') mesh_statuses (ValueError ''status observation state is invalid'')])
     (if item ob ''state'' = S ''not_checked''
      then guard (item mesh ''status'' \<notin> set active_statuses \<and> item ob ''checked_at'' = PyNone \<and> item ob ''response_time_ms'' = PyNone
                  \<and> item ob ''http_status'' = PyNone \<and> item ob ''detail'' = S ''registry-inactive'')
             (ValueError ''inactive status observation is inconsistent'')
      else
        seq (guard (item mesh ''status'' \<in> set active_statuses \<and> item ob ''checked_at'' \<noteq> PyNone)
              (ValueError ''active status observation is inconsistent''))
        (rbind (parse_canonical_utc (item ob ''checked_at'')) (\<lambda>checked.
         seq (guard (checked \<le> generated_at) (ValueError ''status observation is newer than its snapshot''))
         (if item ob ''state'' = S ''down''
          then guard (item ob ''response_time_ms'' = PyNone \<and> item ob ''http_status'' = PyNone \<and> item ob ''detail'' = S ''network-failure'')
                 (ValueError ''down status observation is inconsistent'')
          else first_error
            [guard (int_between (item ob ''response_time_ms'') 0 30000) (ValueError ''status response time is invalid''),
             guard (int_between (item ob ''http_status'') 100 599) (ValueError ''status HTTP response is invalid''),
             guard ((item ob ''state'', item ob ''detail'') =
                    (if int_of (item ob ''http_status'') \<in> set expected_http_statuses then (S ''up'', S ''expected-protocol-response'')
                     else (S ''degraded'', S ''unexpected-http-response'')))
               (ValueError ''HTTP status observation is inconsistent'')]))))"

definition monitor_fields :: "string list" where
  "monitor_fields = [''name'', ''method'', ''path'', ''schedule_minutes'', ''timeout_ms'', ''runner_region'']"

definition validate_status :: "directory_env \<Rightarrow> pyval \<Rightarrow> pyval \<Rightarrow> unit result" where
  "validate_status D snapshot d =
     rbind (validate_directory D d) (\<lambda>meshes.
     seq (first_error
       [dv_exact_keys snapshot [''spec_version'', ''generated_at'', ''monitor'', ''meshes''] ''status snapshot'',
        guard (item snapshot ''spec_version'' = S ''oncemesh.public-mesh-status/v0'') (ValueError ''unsupported public mesh status version'')])
     (rbind (parse_canonical_utc (item snapshot ''generated_at'')) (\<lambda>generated_at.
      let monitor = item snapshot ''monitor'' in
      first_error
        ([dv_exact_keys monitor monitor_fields ''status monitor'',
          guard (item monitor ''name'' = S ''OnceMesh directory monitor'' \<and> item monitor ''method'' = S ''unauthenticated-https''
                 \<and> item monitor ''path'' = PyStr status_path) (ValueError ''status monitor methodology is unsupported''),
          guard (int_between (item monitor ''schedule_minutes'') 5 1440) (ValueError ''status monitor schedule is invalid''),
          guard (int_between (item monitor ''timeout_ms'') 100 30000) (ValueError ''status monitor timeout is invalid''),
          guard (nonempty_str (item monitor ''runner_region'') \<and> length (str_of (item monitor ''runner_region'')) \<le> 80)
            (ValueError ''status monitor runner region is invalid''),
          guard (is_list (item snapshot ''meshes'') \<and> length (items_of (item snapshot ''meshes'')) = length meshes)
            (ValueError ''status observations must match the directory'')]
         @ map (\<lambda>(mesh, ob). check_observation generated_at mesh ob) (zip meshes (items_of (item snapshot ''meshes'')))))))"

section \<open>The monitor\<close>

text \<open>\<open>round(x)\<close>\<close>

definition round_half_even :: "rat \<Rightarrow> int" where
  "round_half_even x = (case quotient_of x of (a, b) \<Rightarrow> half_even a b)"

definition monitor_document :: "int \<Rightarrow> rat \<Rightarrow> pystr \<Rightarrow> pyval" where
  "monitor_document schedule timeout region =
     obj [(''name'', S ''OnceMesh directory monitor''), (''method'', S ''unauthenticated-https''), (''path'', PyStr status_path),
          (''schedule_minutes'', PyInt schedule), (''timeout_ms'', PyInt (round_half_even (timeout * 1000))), (''runner_region'', PyStr region)]"

definition is_active :: "pyval \<Rightarrow> bool" where
  "is_active mesh \<longleftrightarrow> item mesh ''status'' \<in> set active_statuses"

definition generate_status ::
  "directory_env \<Rightarrow> pyval \<Rightarrow> status_probe \<Rightarrow> datetime \<Rightarrow> datetime \<Rightarrow> rat \<Rightarrow> int \<Rightarrow> pystr \<Rightarrow> int \<Rightarrow> pyval result" where
  "generate_status D d probe first_clock second_clock timeout schedule region concurrency =
     rbind (validate_directory D d) (\<lambda>meshes.
     seq (first_error
       [guard (length (filter is_active meshes) \<le> max_active_meshes) (ValueError ''active mesh count exceeds 500''),
        guard (1 / 10 \<le> timeout \<and> timeout \<le> 30) (ValueError ''status timeout must be between 0.1 and 30 seconds''),
        guard (5 \<le> schedule \<and> schedule \<le> 1440) (ValueError ''status schedule must be between 5 and 1440 minutes''),
        guard (1 \<le> concurrency \<and> concurrency \<le> max_concurrency) (ValueError ''status concurrency must be between 1 and 8''),
        guard (region \<noteq> [] \<and> length region \<le> 80) (ValueError ''runner region must be a bounded non-empty string'')])
     (rbind (format_canonical_utc first_clock) (\<lambda>checked_at.
      rbind (format_canonical_utc second_clock) (\<lambda>generated_at.
      let snapshot = obj [(''spec_version'', S ''oncemesh.public-mesh-status/v0''), (''generated_at'', PyStr generated_at),
            (''monitor'', monitor_document schedule timeout region),
            (''meshes'', PyList (map (observation checked_at timeout probe) meshes))]
      in seq (validate_status D snapshot d) (Inr snapshot)))))"

end
