(* ===== verification/Federation_Theorems.thy ===== *)
theory Federation_Theorems
  imports Federation_Import Loaded_Values Publishing
begin

text \<open>
  What federation guarantees: an import is a hit only for a result that the configured peer announced
  in a fresh signed manifest and whose receipt, digest and bytes were all checked; what the caches
  of imported results serve is under an unexpired lease.
\<close>

section \<open>What the checks of an import establish\<close>

text \<open>The manifest was signed with the configured key of the peer, over exactly this content.\<close>

definition announced_by :: "ed25519 \<Rightarrow> peer_config \<Rightarrow> pyval \<Rightarrow> bool" where
  "announced_by E P m \<longleftrightarrow> item m ''peer_id'' = PyStr (pc_peer_id P)
     \<and> item (item m ''signature'') ''key_id'' = PyStr (digest_bytes (pc_public_key P))
     \<and> (\<exists>sig message. fed_decode_signature (item (item m ''signature'') ''value'') = Inr sig
          \<and> availability_signing_input m = Inr message \<and> ed_verify E (pc_public_key P) sig message)"

definition receipted_by :: "ed25519 \<Rightarrow> peer_config \<Rightarrow> fed_bundle \<Rightarrow> bool" where
  "receipted_by E P b \<longleftrightarrow>
     (\<exists>key_id key. item (item (fb_receipt b) ''signature'') ''key_id'' = PyStr key_id \<and> (key_id, key) \<in> set (pc_receipt_keys P)
        \<and> verify_receipt_for_manifest E (fb_receipt b) (fb_manifest b) key = Inr True)"

text \<open>The artifacts of the bundle are those of the manifest, each intact.\<close>

definition intact :: "fed_bundle \<Rightarrow> bool" where
  "intact b \<longleftrightarrow> fst ` set (fb_artifacts b) = artifact_names (fb_manifest b)
     \<and> (\<forall>d \<in> set (artifacts_of (fb_manifest b)). \<exists>data. al_get (fb_artifacts b) (str_of (item d ''name'')) = Some data
          \<and> item d ''digest'' = PyStr (digest_bytes data) \<and> int_of (item d ''size'') = int (length data))"

lemma verify_availability_True:
  "verify_availability E m (pc_peer_id P) (pc_public_key P) = Inr True \<Longrightarrow> announced_by E P m"
  by (auto simp: verify_availability_def announced_by_def seq_Inr rbind_Inr split: if_splits)

lemma find_Some: "find P xs = Some x \<Longrightarrow> x \<in> set xs \<and> P x"
  by (auto simp: find_Some_iff)

definition operation_key :: "pyval \<Rightarrow> pystr" where
  "operation_key e = str_of (item (item e ''operation'') ''name'') @ [47] @ str_of (item (item e ''operation'') ''version'')"

lemma select_entry_Proceed:
  assumes "select_entry E P action requested now availability = Inr (Proceed e)"
  shows "\<exists>m t. availability = Inr m \<and> validate_availability True m = Inr () \<and> announced_by E P m
    \<and> int (length (entries_of m)) \<le> pc_max_entries P \<and> fed_parse_time (item m ''generated_at'') = Inr t
    \<and> now - micros (pc_max_age_seconds P) \<le> t \<and> t \<le> now + micros (pc_max_skew_seconds P)
    \<and> e \<in> set (entries_of m) \<and> item e ''action_digest'' = PyStr requested \<and> item e ''operation'' = item action ''operation''
    \<and> operation_key e \<in> pc_operations P \<and> int_of (item e ''artifact_bytes'') \<le> pc_max_transfer_bytes P"
proof (cases "rbind availability (\<lambda>m. seq (validate_availability True m) (Inr m))")
  case (Inl x)
  with assms show ?thesis by (simp add: select_entry_def split: if_splits)
next
  case (Inr m)
  with assms verify_availability_True show ?thesis
    by (auto simp: select_entry_def rbind_Inr seq_Inr Let_def operation_key_def split: if_splits option.splits dest!: find_Some)
qed

lemma check_bundle_artifacts_Proceed:
  "check_bundle_artifacts P arts ds n = Inr (Proceed k) \<Longrightarrow>
     k = n + sum_sizes ds
     \<and> (\<forall>d \<in> set ds. \<exists>data. al_get arts (str_of (item d ''name'')) = Some data \<and> item d ''digest'' = PyStr (digest_bytes data)
          \<and> int_of (item d ''size'') = int (length data) \<and> int (length data) \<le> pc_max_artifact_bytes P)"
proof (induction P arts ds n rule: check_bundle_artifacts.induct)
  case (2 P arts d ds n)
  then obtain data where "al_get arts (str_of (item d ''name'')) = Some data" "int_of (item d ''size'') = int (length data)"
    by (auto split: option.splits if_splits)
  with 2 show ?case by (auto simp: sum_sizes_def split: if_splits)
qed (simp add: sum_sizes_def)

lemma check_bundle_Proceed:
  assumes "check_bundle E P requested e b = Inr (Proceed k)"
  shows "\<exists>d. manifest_digest (fb_manifest b) = Inr d \<and> item e ''result_digest'' = PyStr d
    \<and> item (fb_manifest b) ''spec_version'' = result_v0 \<and> item (fb_manifest b) ''action_digest'' = PyStr requested
    \<and> str_of (item (fb_manifest b) ''producer'') \<in> pc_producers P \<and> validate_receipt True (fb_receipt b) = Inr ()
    \<and> receipted_by E P b \<and> intact b \<and> k = sum_sizes (artifacts_of (fb_manifest b)) \<and> k = int_of (item e ''artifact_bytes'')
    \<and> (\<forall>a \<in> set (fb_artifacts b). fst a \<in> artifact_names (fb_manifest b))"
proof -
  from assms obtain d where d: "manifest_digest (fb_manifest b) = Inr d" "PyStr d = item e ''result_digest''"
      "item (fb_manifest b) ''action_digest'' = PyStr requested"
    and v: "validate_federation_result (fb_manifest b) = Inr ()" "validate_receipt True (fb_receipt b) = Inr ()"
    and p: "str_of (item (fb_manifest b) ''producer'') \<in> pc_producers P"
    and rc: "check_bundle_receipt E P b = Inr (Proceed ())"
    and names: "fst ` set (fb_artifacts b) = artifact_names (fb_manifest b)"
    and arts: "check_bundle_artifacts P (fb_artifacts b) (artifacts_of (fb_manifest b)) 0 = Inr (Proceed k)"
    and k: "k = int_of (item e ''artifact_bytes'')"
    by (auto simp: check_bundle_def checks seq_Inr rbind_Inr dbind_Proceed split: if_splits)
  from rc obtain key where key: "al_get (pc_receipt_keys P) (str_of (item (item (fb_receipt b) ''signature'') ''key_id'')) = Some key"
      "verify_receipt_for_manifest E (fb_receipt b) (fb_manifest b) key = Inr True"
    by (auto simp: check_bundle_receipt_def rbind_Inr split: option.splits if_splits)
  have "item (fb_manifest b) ''spec_version'' = result_v0"
    using v(1) by (auto simp: validate_federation_result_def checks seq_Inr validate_manifest_iff manifest_ok_def)
  moreover have "is_str (item (item (fb_receipt b) ''signature'') ''key_id'')"
    using v(2) by (auto simp: validate_receipt_iff receipt_ok_def signature_ok_def digest_val_def split: if_splits)
  then have "receipted_by E P b"
    using key al_get_Some_in [OF key(1)] unfolding receipted_by_def by (auto elim!: is_strE)
  moreover note check_bundle_artifacts_Proceed [OF arts]
  ultimately show ?thesis using d v p names k by (auto simp: intact_def)
qed

lemma fetch_bundle_checked_Proceed:
  "fetch_bundle_checked E P requested peer e = Inr (Proceed (e', b, k)) \<Longrightarrow>
     e' = e \<and> pr_fetch_bundle peer (str_of (item e ''result_digest'')) = Inr (Some b) \<and> check_bundle E P requested e b = Inr (Proceed k)"
  by (auto simp: fetch_bundle_checked_def rbind_Inr dbind_Proceed split: option.splits)

lemma import_from_peer_hit:
  assumes "import_from_peer E action peer P destination now s = (s', Inr r)" "io_hit r"
  shows "\<exists>requested e b k. action_digest action = Inr requested
    \<and> select_entry E P action requested now (pr_availability peer now) = Inr (Proceed e)
    \<and> pr_fetch_bundle peer (str_of (item e ''result_digest'')) = Inr (Some b) \<and> check_bundle E P requested e b = Inr (Proceed k)
    \<and> destination b (now + micros (pc_retention_seconds P)) s = (s', Inr ())
    \<and> io_result_digest r = Some (str_of (item e ''result_digest'')) \<and> io_bytes r = k"
proof -
  from assms obtain e b k where p: "rbind (action_digest action) (\<lambda>requested.
      dbind (select_entry E P action requested now (pr_availability peer now)) (fetch_bundle_checked E P requested peer)) = Inr (Proceed (e, b, k))"
    and r: "destination b (now + micros (pc_retention_seconds P)) s = (s', Inr ())"
      "io_result_digest r = Some (str_of (item e ''result_digest''))" "io_bytes r = k"
    by (auto simp: import_from_peer_def import_miss_def split: sum.splits prod.splits decision.splits)
  from p obtain requested e' where a: "action_digest action = Inr requested"
      "select_entry E P action requested now (pr_availability peer now) = Inr (Proceed e')"
      "fetch_bundle_checked E P requested peer e' = Inr (Proceed (e, b, k))"
    by (auto simp: rbind_Inr dbind_Proceed)
  with fetch_bundle_checked_Proceed [OF a(3)] r show ?thesis by blast
qed

section \<open>The cache in memory and its leases\<close>

definition result_id :: "pyval \<Rightarrow> pystr" where
  "result_id m = (case manifest_digest m of Inr d \<Rightarrow> d | Inl _ \<Rightarrow> [])"

lemma result_id_Inr: "manifest_ok m \<Longrightarrow> manifest_digest m = Inr (result_id m)"
  using manifest_digest_ok [of m] by (auto simp: result_id_def)

definition blob_held :: "(pystr \<times> bytes) list \<Rightarrow> pyval \<Rightarrow> bool" where
  "blob_held blobs a \<longleftrightarrow>
     (\<exists>data. al_get blobs (str_of (item a ''digest'')) = Some data \<and> item a ''digest'' = PyStr (digest_bytes data))"

text \<open>
  What holds between calls: results are filed under their action, are valid, under a lease that ends
  at one of the times \<open>L\<close>, with a receipt, and with all their bytes; blobs have the digest they are
  filed under.
\<close>

definition fc_inv :: "int set \<Rightarrow> fed_cache \<Rightarrow> bool" where
  "fc_inv L s \<longleftrightarrow>
     distinct (map fst (fc_results s)) \<and> (\<forall>p \<in> set (fc_leases s). snd p \<in> L) \<and> distinct (map fst (fc_leases s))
     \<and> (\<forall>p \<in> set (fc_blobs s). fst p = digest_bytes (snd p))
     \<and> (\<forall>(action, ms) \<in> set (fc_results s). \<forall>m \<in> set ms. manifest_ok m \<and> item m ''action_digest'' = PyStr action
          \<and> result_id m \<in> fst ` set (fc_leases s) \<and> result_id m \<in> fst ` set (fc_receipts s)
          \<and> (\<forall>a \<in> set (artifacts_of m). blob_held (fc_blobs s) a))"

lemma fc_inv_new: "fc_inv L (new_fed_cache name)"
  by (simp add: fc_inv_def new_fed_cache_def)

lemma store_artifacts_ok:
  assumes "\<forall>d \<in> set ds. \<exists>data. al_get arts (str_of (item d ''name'')) = Some data \<and> item d ''digest'' = PyStr (digest_bytes data)"
    and "\<forall>p \<in> set blobs. fst p = digest_bytes (snd p)"
  shows "\<exists>blobs'. store_artifacts arts ds blobs = (blobs', Inr ()) \<and> (\<forall>p \<in> set blobs'. fst p = digest_bytes (snd p))
    \<and> (\<forall>k. al_get blobs k \<noteq> None \<longrightarrow> al_get blobs' k \<noteq> None)
    \<and> (\<forall>d \<in> set ds. al_get blobs' (str_of (item d ''digest'')) \<noteq> None)"
  using assms
proof (induction ds arbitrary: blobs)
  case (Cons d ds)
  from Cons.prems obtain data where data: "al_get arts (str_of (item d ''name'')) = Some data" "item d ''digest'' = PyStr (digest_bytes data)"
    by auto
  let ?b = "al_set blobs (str_of (item d ''digest'')) data"
  have "\<forall>p \<in> set ?b. fst p = digest_bytes (snd p)" using Cons.prems(2) data(2) by (auto dest!: al_set_values)
  with Cons.IH [of ?b] Cons.prems(1) obtain blobs' where b: "store_artifacts arts ds ?b = (blobs', Inr ())"
    "\<forall>p \<in> set blobs'. fst p = digest_bytes (snd p)" "\<forall>k. al_get ?b k \<noteq> None \<longrightarrow> al_get blobs' k \<noteq> None"
    "\<forall>d \<in> set ds. al_get blobs' (str_of (item d ''digest'')) \<noteq> None" by auto
  from b(3) have "al_get blobs k \<noteq> None \<Longrightarrow> al_get blobs' k \<noteq> None" for k by (metis al_get_set option.distinct(1))
  moreover have "al_get blobs' (str_of (item d ''digest'')) \<noteq> None" using b(3) by simp
  ultimately show ?case using b data(1) by auto
qed simp

lemma blob_held_iff:
  assumes "\<forall>p \<in> set blobs. fst p = digest_bytes (snd p)" "is_str (item a ''digest'')"
  shows "blob_held blobs a \<longleftrightarrow> al_get blobs (str_of (item a ''digest'')) \<noteq> None"
proof
  assume "al_get blobs (str_of (item a ''digest'')) \<noteq> None"
  then obtain data where data: "al_get blobs (str_of (item a ''digest'')) = Some data" by auto
  from assms(1) al_get_Some_in [OF data] have "str_of (item a ''digest'') = digest_bytes data" by force
  with assms(2) data show "blob_held blobs a" by (auto simp: blob_held_def elim!: is_strE)
qed (auto simp: blob_held_def)

lemma artifact_digest_str: "manifest_ok m \<Longrightarrow> a \<in> set (artifacts_of m) \<Longrightarrow> is_str (item a ''digest'')"
  by (auto simp: manifest_ok_def list_all_iff artifact_ok_def digest_val_def)

lemma list_at_append: "list_at (append_to d k x) k' = (if k' = k then list_at d k @ [x] else list_at d k')"
  by (simp add: list_at_def append_to_def)

lemma append_to_values:
  "(k', xs) \<in> set (append_to d k x) \<Longrightarrow> (k', xs) \<in> set d \<or> k' = k \<and> xs = list_at d k @ [x]"
  by (auto simp: append_to_def dest: al_set_values)

lemma list_at_in: "x \<in> set (list_at d k) \<Longrightarrow> \<exists>xs. (k, xs) \<in> set d \<and> x \<in> set xs"
  using al_get_Some_in [of d k] by (force simp: list_at_def split: option.splits)

text \<open>An import of a checked bundle.\<close>

lemma fc_import_inv:
  assumes "fc_inv L s" "manifest_ok (fb_manifest b)" "intact b" "until \<in> L"
  shows "\<exists>s'. fc_import s b until = (s', Inr ()) \<and> fc_inv L s'"
proof -
  let ?m = "fb_manifest b"
  have inv: "distinct (map fst (fc_results s))" "\<forall>p \<in> set (fc_leases s). snd p \<in> L" "distinct (map fst (fc_leases s))"
    "\<forall>p \<in> set (fc_blobs s). fst p = digest_bytes (snd p)"
    using assms(1) unfolding fc_inv_def by auto
  have held: "manifest_ok m \<and> item m ''action_digest'' = PyStr action \<and> result_id m \<in> fst ` set (fc_leases s)
      \<and> result_id m \<in> fst ` set (fc_receipts s) \<and> (\<forall>a \<in> set (artifacts_of m). blob_held (fc_blobs s) a)"
      if "(action, ms) \<in> set (fc_results s)" "m \<in> set ms" for action ms m
    using assms(1) that unfolding fc_inv_def by auto
  from assms(3) have "\<forall>d \<in> set (artifacts_of ?m). \<exists>data. al_get (fb_artifacts b) (str_of (item d ''name'')) = Some data
      \<and> item d ''digest'' = PyStr (digest_bytes data)" by (auto simp: intact_def)
  from store_artifacts_ok [OF this inv(4)] obtain blobs where blobs:
    "store_artifacts (fb_artifacts b) (artifacts_of ?m) (fc_blobs s) = (blobs, Inr ())" "\<forall>p \<in> set blobs. fst p = digest_bytes (snd p)"
    "\<forall>k. al_get (fc_blobs s) k \<noteq> None \<longrightarrow> al_get blobs k \<noteq> None"
    "\<forall>d \<in> set (artifacts_of ?m). al_get blobs (str_of (item d ''digest'')) \<noteq> None" by auto
  have action: "item ?m ''action_digest'' = PyStr (str_of (item ?m ''action_digest''))"
    using assms(2) by (auto simp: manifest_ok_def digest_val_def elim!: is_strE)
  define s' where "s' = s\<lparr>fc_blobs := blobs, fc_results := append_to (fc_results s) (str_of (item ?m ''action_digest'')) ?m,
    fc_receipts := append_to (fc_receipts s) (result_id ?m) (fb_receipt b), fc_leases := al_set (fc_leases s) (result_id ?m) until\<rparr>"
  have imp: "fc_import s b until = (s', Inr ())" using result_id_Inr [OF assms(2)] blobs(1) by (simp add: fc_import_def s'_def)
  have "manifest_ok m \<and> item m ''action_digest'' = PyStr action \<and> result_id m \<in> fst ` set (fc_leases s')
      \<and> result_id m \<in> fst ` set (fc_receipts s') \<and> (\<forall>a \<in> set (artifacts_of m). blob_held (fc_blobs s') a)"
    if m: "(action, ms) \<in> set (fc_results s')" "m \<in> set ms" for action ms m
  proof -
    have keys: "fst ` set (fc_leases s') = insert (result_id ?m) (fst ` set (fc_leases s))"
      "fst ` set (fc_receipts s') = insert (result_id ?m) (fst ` set (fc_receipts s))"
      by (simp_all add: s'_def keys_al_set append_to_def)
    from m have "(action = str_of (item ?m ''action_digest'') \<and> m = ?m) \<or> (\<exists>ms. (action, ms) \<in> set (fc_results s) \<and> m \<in> set ms)"
      by (auto simp: s'_def dest!: append_to_values list_at_in)
    then consider "action = str_of (item ?m ''action_digest'')" "m = ?m" | ms' where "(action, ms') \<in> set (fc_results s)" "m \<in> set ms'"
      by blast
    then show ?thesis
    proof cases
      case 1
      have "blob_held (fc_blobs s') a" if a: "a \<in> set (artifacts_of m)" for a
      proof -
        have "al_get blobs (str_of (item a ''digest'')) \<noteq> None" using blobs(4) a 1 by blast
        then show ?thesis using blob_held_iff [OF blobs(2) artifact_digest_str [OF assms(2)]] a 1 by (simp add: s'_def)
      qed
      with 1 action assms(2) keys show ?thesis by simp
    next
      case 2
      from held [OF 2] have h: "manifest_ok m" "item m ''action_digest'' = PyStr action" "result_id m \<in> fst ` set (fc_leases s)"
        "result_id m \<in> fst ` set (fc_receipts s)" "\<forall>a \<in> set (artifacts_of m). blob_held (fc_blobs s) a" by auto
      have "blob_held (fc_blobs s') a" if a: "a \<in> set (artifacts_of m)" for a
      proof -
        have "al_get (fc_blobs s) (str_of (item a ''digest'')) \<noteq> None" using h(5) a by (auto simp: blob_held_def)
        then have "al_get blobs (str_of (item a ''digest'')) \<noteq> None" using blobs(3) by blast
        then show ?thesis using blob_held_iff [OF blobs(2) artifact_digest_str [OF h(1) a]] by (simp add: s'_def)
      qed
      with h keys show ?thesis by simp
    qed
  qed
  moreover have "distinct (map fst (fc_results s'))" "\<forall>p \<in> set (fc_leases s'). snd p \<in> L" "distinct (map fst (fc_leases s'))"
    using inv assms(4) by (auto simp: s'_def append_to_def distinct_al_set dest!: al_set_values)
  ultimately have "fc_inv L s'" unfolding fc_inv_def using blobs(2) by (auto simp: s'_def)
  with imp show ?thesis by blast
qed

text \<open>Pruning keeps what is under a lease that has not ended.\<close>

definition live_manifests :: "pystr set \<Rightarrow> pyval list \<Rightarrow> pyval list" where
  "live_manifests expired ms = filter (\<lambda>m. result_id m \<notin> expired) ms"

lemma retained_ok: "\<forall>m \<in> set ms. manifest_ok m \<Longrightarrow> retained expired ms = Inr (live_manifests expired ms)"
  by (induction ms) (auto simp: live_manifests_def result_id_Inr)

lemma retained_results_ok:
  "\<forall>(action, ms) \<in> set rs. \<forall>m \<in> set ms. manifest_ok m \<Longrightarrow>
     retained_results expired rs = Inr (filter (\<lambda>p. snd p \<noteq> []) (map (\<lambda>p. (fst p, live_manifests expired (snd p))) rs))"
  by (induction rs) (auto simp: retained_ok)

lemma al_get_without: "al_get (without K d) k = (if k \<in> K then None else al_get d k)"
  by (induction d) (auto simp: without_def)

lemma al_get_filter: "al_get (filter (\<lambda>p. fst p \<in> K) d) k = (if k \<in> K then al_get d k else None)"
  by (induction d) auto

lemma expired_none: "expired_at s now = {} \<longleftrightarrow> (\<forall>p \<in> set (fc_leases s). now < snd p)"
  by (auto simp: expired_at_def filter_empty_conv not_le)

text \<open>What a prune at a time leaves: an inventory under leases that end later.\<close>

lemma fc_prune_inv:
  assumes "fc_inv L s"
  shows "\<exists>s' n. fc_prune s now = Inr (s', n) \<and> fc_inv L s' \<and> (\<forall>p \<in> set (fc_leases s'). now < snd p)"
proof (cases "expired_at s now = {}")
  case True
  with expired_none assms show ?thesis by (auto simp: fc_prune_def)
next
  case False
  let ?X = "expired_at s now"
  let ?rs = "filter (\<lambda>p. snd p \<noteq> []) (map (\<lambda>p. (fst p, live_manifests ?X (snd p))) (fc_results s))"
  let ?live = "artifact_digests (concat (map snd ?rs))"
  define s' where "s' = s\<lparr>fc_results := ?rs, fc_leases := without ?X (fc_leases s), fc_receipts := without ?X (fc_receipts s),
    fc_validations := without ?X (fc_validations s), fc_blobs := filter (\<lambda>p. fst p \<in> ?live) (fc_blobs s)\<rparr>"
  note inv = assms [unfolded fc_inv_def]
  from inv have "retained_results ?X (fc_results s) = Inr ?rs" by (intro retained_results_ok) blast
  with False have prune: "fc_prune s now = Inr (s', int (card ?X))" by (simp add: fc_prune_def Let_def s'_def)
  have rs: "\<exists>ms'. (action, ms') \<in> set (fc_results s) \<and> ms = live_manifests ?X ms'" if "(action, ms) \<in> set ?rs" for action ms
    using that by auto
  have "manifest_ok m \<and> item m ''action_digest'' = PyStr action \<and> result_id m \<in> fst ` set (fc_leases s')
      \<and> result_id m \<in> fst ` set (fc_receipts s') \<and> (\<forall>a \<in> set (artifacts_of m). blob_held (fc_blobs s') a)"
    if r: "(action, ms) \<in> set ?rs" and m: "m \<in> set ms" for action ms m
  proof -
    from rs [OF r] obtain ms' where ms': "(action, ms') \<in> set (fc_results s)" "ms = live_manifests ?X ms'" by blast
    with m have m': "m \<in> set ms'" "result_id m \<notin> ?X" by (auto simp: live_manifests_def)
    from inv ms'(1) m'(1) have h: "manifest_ok m" "item m ''action_digest'' = PyStr action" "result_id m \<in> fst ` set (fc_leases s)"
      "result_id m \<in> fst ` set (fc_receipts s)" "\<forall>a \<in> set (artifacts_of m). blob_held (fc_blobs s) a" by auto
    have "blob_held (fc_blobs s') a" if a: "a \<in> set (artifacts_of m)" for a
    proof -
      have "str_of (item a ''digest'') \<in> ?live" using r m a unfolding artifact_digests_def by force
      with h(5) a show ?thesis by (auto simp: blob_held_def s'_def al_get_filter)
    qed
    with h m'(2) show ?thesis by (auto simp: s'_def without_def)
  qed
  moreover have "distinct (map fst ?rs)"
    using inv by (simp add: distinct_map_filter comp_def)
  moreover have "distinct (map fst (without ?X (fc_leases s)))" using inv by (simp add: without_def distinct_map_filter)
  ultimately have "fc_inv L s'" unfolding fc_inv_def using inv by (auto simp: s'_def without_def)
  moreover have "\<forall>p \<in> set (fc_leases s'). now < snd p" by (force simp: s'_def without_def expired_at_def)
  ultimately show ?thesis using prune by blast
qed

section \<open>Runs of imports and reads\<close>

datatype fed_call = Fed_import pyval peer peer_config int | Fed_read int

text \<open>One call, and the end of the lease it may give.\<close>

fun fed_do :: "ed25519 \<Rightarrow> fed_cache \<Rightarrow> fed_call \<Rightarrow> fed_cache" where
  "fed_do E s (Fed_import action peer P now) = fst (import_from_peer E action peer P import_in_memory now s)"
| "fed_do E s (Fed_read now) = (case fc_prune s now of Inl _ \<Rightarrow> s | Inr (s', _) \<Rightarrow> s')"

fun lease_ends :: "fed_call \<Rightarrow> int set" where
  "lease_ends (Fed_import action peer P now) = {now + micros (pc_retention_seconds P)}"
| "lease_ends (Fed_read now) = {}"

definition fed_run :: "ed25519 \<Rightarrow> fed_call list \<Rightarrow> fed_cache \<Rightarrow> fed_cache" where
  "fed_run E calls s = foldl (fed_do E) s calls"

lemma import_in_memory_inv:
  assumes "fc_inv L s" "import_from_peer E action peer P import_in_memory now s = (s', r)" "now + micros (pc_retention_seconds P) \<in> L"
  shows "fc_inv L s'"
proof (cases "rbind (action_digest action) (\<lambda>requested.
    dbind (select_entry E P action requested now (pr_availability peer now)) (fetch_bundle_checked E P requested peer))")
  case (Inr d)
  show ?thesis
  proof (cases d)
    case (Proceed x)
    obtain e b k where x: "x = (e, b, k)" by (cases x) auto
    with Inr Proceed obtain requested e' where "fetch_bundle_checked E P requested peer e' = Inr (Proceed (e, b, k))"
      by (auto simp: rbind_Inr dbind_Proceed)
    from fetch_bundle_checked_Proceed [OF this] have "check_bundle E P requested e' b = Inr (Proceed k)" by blast
    from check_bundle_Proceed [OF this] have "manifest_ok (fb_manifest b)" "intact b" by (auto simp: manifest_digest_Inr)
    from fc_import_inv [OF assms(1) this assms(3)] obtain s'' where
      "fc_import s b (now + micros (pc_retention_seconds P)) = (s'', Inr ())" "fc_inv L s''" by blast
    with assms(2) Inr Proceed x show ?thesis by (auto simp: import_from_peer_def import_in_memory_def)
  qed (use assms(1,2) Inr in \<open>auto simp: import_from_peer_def\<close>)
qed (use assms(1,2) in \<open>auto simp: import_from_peer_def\<close>)

lemma fed_run_inv: "(\<Union>c \<in> set calls. lease_ends c) \<subseteq> L \<Longrightarrow> fc_inv L s \<Longrightarrow> fc_inv L (fed_run E calls s)"
proof (induction calls arbitrary: s)
  case (Cons c calls)
  have "fc_inv L (fed_do E s c)"
  proof (cases c)
    case (Fed_import action peer P now)
    with Cons.prems import_in_memory_inv [OF Cons.prems(2), of E action peer P now] show ?thesis
      by (cases "import_from_peer E action peer P import_in_memory now s") auto
  next
    case (Fed_read now)
    with fc_prune_inv [OF Cons.prems(2), of now] show ?thesis by auto
  qed
  with Cons show ?case by (simp add: fed_run_def)
qed (simp add: fed_run_def)

end
