(* ===== verification/Federation_Exchange.thy ===== *)
theory Federation_Exchange
  imports Federation_Theorems
begin

text \<open>
  The composition of a catalog with an import: what a peer publishes honestly, a receiver that trusts
  it imports.
\<close>

section \<open>Signed availability\<close>

definition availability_shape :: "pyval \<Rightarrow> bool" where
  "availability_shape m \<longleftrightarrow>
     exact_keys m [''spec_version'', ''peer_id'', ''generated_at'', ''entries'', ''signature'']
     \<and> item m ''spec_version'' = S ''oncemesh.availability/v0'' \<and> nonempty_str (item m ''peer_id'')
     \<and> ok (fed_parse_time (item m ''generated_at'')) \<and> is_list (item m ''entries'')
     \<and> check_availability_entries (entries_of m) {} = Inr () \<and> sorted (map entry_identity (entries_of m))"

lemma validate_availability_iff: "validate_availability b m = Inr () \<longleftrightarrow> availability_shape m
    \<and> (if item m ''signature'' = PyNone then \<not> b else check_availability_signature (item m ''signature'') = Inr ())
    \<and> ok (canonical_json m)"
  by (auto simp: validate_availability_def availability_shape_def fed_exact_keys_def checks)

lemma availability_shape_signed: "availability_shape m \<Longrightarrow> availability_shape (with_item m ''signature'' v)"
  unfolding availability_shape_def entries_of_def by (auto intro: exact_keys_with_item)

lemma fed_decode_encoded: "length sig = 64 \<Longrightarrow> fed_decode_signature (PyStr (b64_encode sig)) = Inr sig"
  by (simp add: fed_decode_signature_def encode_signature_def length_b64_encode b64_chars)

lemma signature_document_checked:
  assumes "length sig = 64" "length public_key = 32"
  shows "check_availability_signature (signature_document public_key sig) = Inr ()"
proof -
  have "exact_keys (signature_document public_key sig) [''profile'', ''key_id'', ''value'']"
    unfolding signature_document_def exact_keys_obj by simp
  then show ?thesis using fed_decode_encoded [OF assms(1)]
    by (simp add: check_availability_signature_def fed_exact_keys_def checks signature_document_def digest_val_def encode_signature_def)
qed

lemma availability_input_with [simp]:
  "availability_signing_input (with_item m ''signature'' v) = availability_signing_input m"
  by (simp add: availability_signing_input_def Let_def)

text \<open>What a peer signs, its configured key verifies.\<close>

lemma sign_verify_availability:
  assumes "ed25519_ok E" "jsonable m" "availability_shape m" "item m ''signature'' = PyNone" "length seed = 32"
    and "item m ''peer_id'' = PyStr peer_id"
  shows "\<exists>signed. sign_availability E m seed = Inr signed \<and> validate_availability True signed = Inr ()
    \<and> verify_availability E signed peer_id (ed_public E seed) = Inr True \<and> (\<forall>k. k \<noteq> ''signature'' \<longrightarrow> item signed k = item m k)"
proof -
  have m: "exact_keys m [''spec_version'', ''peer_id'', ''generated_at'', ''entries'', ''signature'']"
    using assms(3) by (simp add: availability_shape_def)
  have "with_item m ''signature'' PyNone = m" using with_item_same [OF m, of "''signature''"] assms(4) by simp
  moreover obtain c where c: "canonical_json m = Inr c" using canonical_json_jsonable [OF assms(2)] by blast
  moreover have "validate_availability False m = Inr ()" using assms(3,4) c by (simp add: validate_availability_iff)
  ultimately have input: "availability_signing_input m = Inr (availability_domain @ c)"
    by (simp add: availability_signing_input_def)
  let ?msg = "availability_domain @ c"
  let ?sig = "ed_sign E seed ?msg" and ?pk = "ed_public E seed"
  have E: "length ?sig = 64" "length ?pk = 32" "ed_verify E ?pk ?sig ?msg" using assms(1,5) by (auto simp: ed25519_ok_def)
  let ?doc = "signature_document ?pk ?sig"
  let ?signed = "with_item m ''signature'' ?doc"
  have "is_dict m" using m by (simp add: exact_keys_def)
  then have "ok (canonical_json ?signed)"
    using canonical_json_jsonable [OF jsonable_with_item [OF assms(2) _ signature_document_ok(2) [OF E(1,2)]]] by simp
  moreover have "?doc \<noteq> PyNone" by (simp add: signature_document_def)
  ultimately have v: "validate_availability True ?signed = Inr ()"
    using availability_shape_signed [OF assms(3)] signature_document_checked [OF E(1,2)] by (simp add: validate_availability_iff)
  then have s: "sign_availability E m seed = Inr ?signed" using assms(4,5) input by (simp add: sign_availability_def guard_def)
  have "item ?doc ''key_id'' = PyStr (digest_bytes ?pk)" "item ?doc ''value'' = PyStr (b64_encode ?sig)"
    by (simp_all add: signature_document_def encode_signature_def)
  then have "verify_availability E ?signed peer_id ?pk = Inr True"
    using v E input assms(6) by (simp add: verify_availability_def fed_decode_encoded)
  with s v show ?thesis by (intro exI [of _ ?signed]) simp
qed

section \<open>Catalogs\<close>

definition published_ok :: "ed25519 \<Rightarrow> store_view \<Rightarrow> (pystr \<times> bytes) list \<Rightarrow> pystr \<times> (pyval \<times> pyval \<times> pyval) \<Rightarrow> bool" where
  "published_ok E view receipt_keys p \<longleftrightarrow> (case p of (d, (action, m, r)) \<Rightarrow>
     wf_val action \<and> validate_action action = Inr () \<and> validate_federation_result m = Inr () \<and> validate_receipt True r = Inr ()
     \<and> manifest_digest m = Inr d \<and> (\<exists>requested. action_digest action = Inr requested \<and> item m ''action_digest'' = PyStr requested)
     \<and> (\<exists>key. al_get receipt_keys (str_of (item (item r ''signature'') ''key_id'')) = Some key
          \<and> verify_receipt_for_manifest E r m key = Inr True)
     \<and> check_published_artifacts view (artifacts_of m) = Inr ())"

definition catalog_ok :: "ed25519 \<Rightarrow> store_view \<Rightarrow> catalog \<Rightarrow> bool" where
  "catalog_ok E view C \<longleftrightarrow> ct_peer_id C \<noteq> [] \<and> list_all scalar (ct_peer_id C) \<and> length (ct_seed C) = 32
     \<and> distinct (map fst (ct_published C)) \<and> list_all (published_ok E view (ct_receipt_keys C)) (ct_published C)"

text \<open>Everything in a catalog went through the checks of \<open>publish\<close>.\<close>

lemma catalog_publish_ok:
  assumes "catalog_publish E view C action m r classification = Inr (C', d)" "catalog_ok E view C" "wf_val action"
  shows "catalog_ok E view C' \<and> published_ok E view (ct_receipt_keys C') (d, (action, m, r))
    \<and> ct_published C' = al_set (ct_published C) d (action, m, r) \<and> classification = u ''public''"
proof -
  from assms(1) obtain requested where p: "classification = u ''public''" "validate_action action = Inr ()" "validate_federation_result m = Inr ()"
      "validate_receipt True r = Inr ()" "action_digest action = Inr requested" "item m ''action_digest'' = PyStr requested"
      "manifest_digest m = Inr d" "check_published_artifacts view (artifacts_of m) = Inr ()"
      "C' = C\<lparr>ct_published := al_set (ct_published C) d (action, m, r)\<rparr>"
    and t: "(case al_get (ct_receipt_keys C) (str_of (item (item r ''signature'') ''key_id'')) of
                   None \<Rightarrow> Inr False
                 | Some public_key \<Rightarrow> verify_receipt_for_manifest E r m public_key) = Inr True"
    by (auto simp: catalog_publish_def checks seq_Inr rbind_Inr split: if_splits)
  from t p assms(3) have new: "published_ok E view (ct_receipt_keys C') (d, (action, m, r))"
    by (auto simp: published_ok_def split: option.splits)
  have "published_ok E view (ct_receipt_keys C) (d', x)" if "(d', x) \<in> set (al_set (ct_published C) d (action, m, r))" for d' x
    using al_set_values [OF that] new assms(2) p(9) by (auto simp: catalog_ok_def list_all_iff)
  then have "\<forall>q \<in> set (al_set (ct_published C) d (action, m, r)). published_ok E view (ct_receipt_keys C) q" by auto
  with new assms(2) p(1,9) show ?thesis by (simp add: catalog_ok_def list_all_iff distinct_al_set)
qed

lemma catalog_withdraw_ok: "catalog_ok E view C \<Longrightarrow> catalog_ok E view (fst (catalog_withdraw C d))"
  by (auto simp: catalog_ok_def catalog_withdraw_def al_del_def list_all_iff distinct_map_filter)

section \<open>What an honest catalog announces\<close>

definition published_entry :: "pystr \<times> (pyval \<times> pyval \<times> pyval) \<Rightarrow> pyval" where
  "published_entry p = (case p of (d, (action, m, r)) \<Rightarrow>
     obj [(''action_digest'', item m ''action_digest''), (''result_digest'', PyStr d), (''operation'', item action ''operation''),
          (''artifact_bytes'', PyInt (sum_sizes (artifacts_of m)))])"

definition published_bytes :: "pystr \<times> (pyval \<times> pyval \<times> pyval) \<Rightarrow> int" where
  "published_bytes p = (case p of (d, (action, m, r)) \<Rightarrow> sum_sizes (artifacts_of m))"

lemma availability_entries_ok:
  "list_all (published_ok E view K) ps \<Longrightarrow> availability_entries ps = Inr (map published_entry ps)"
  by (induction ps) (auto simp: published_ok_def published_entry_def)

lemma published_manifest: "published_ok E view K (d, (action, m, r)) \<Longrightarrow> manifest_ok m \<and> item m ''spec_version'' \<noteq> result_v1"
  by (auto simp: published_ok_def validate_federation_result_def checks seq_Inr validate_manifest_iff)

lemma published_action:
  assumes "published_ok E view K (d, (action, m, r))"
  shows "jsonable action" "jsonable (item action ''operation'')"
proof -
  from assms have "ok (canonical_json action)" "wf_val action" by (auto simp: published_ok_def validate_action_def checks)
  then show "jsonable action" by (simp add: canonical_ok)
  then show "jsonable (item action ''operation'')" by (rule jsonable_item)
qed

lemma sum_sizes_nonneg: "manifest_ok m \<Longrightarrow> 0 \<le> sum_sizes (artifacts_of m)"
  by (auto simp: sum_sizes_def manifest_ok_def list_all_iff artifact_ok_def intro!: sum_list_nonneg)

lemma published_entry_ok:
  assumes "published_ok E view K p"
  shows "check_availability_entry (published_entry p) = Inr ()"
    and "published_bytes p \<le> max_safe_integer \<Longrightarrow> jsonable (published_entry p)"
proof -
  obtain d action m r where p: "p = (d, (action, m, r))" by (cases p) auto
  note m = published_manifest [OF assms [unfolded p]]
  have a: "exact_keys (item action ''operation'') [''name'', ''version'']" "nonempty_str (item (item action ''operation'') ''name'')"
    "nonempty_str (item (item action ''operation'') ''version'')"
    using assms by (auto simp: p published_ok_def validate_action_def checks require_exact_keys_iff require_nonempty_string_iff)
  have d: "is_digest d" using assms by (auto simp: p published_ok_def manifest_digest_Inr object_digest_is_digest)
  have digest: "digest_val (item m ''action_digest'')" using m by (simp add: manifest_ok_def)
  have "exact_keys (published_entry p) [''action_digest'', ''result_digest'', ''operation'', ''artifact_bytes'']"
    unfolding published_entry_def p prod.case exact_keys_obj by simp
  then show "check_availability_entry (published_entry p) = Inr ()"
    using a d digest sum_sizes_nonneg m
    by (simp add: check_availability_entry_def checks fed_exact_keys_def published_entry_def p digest_val_def)
  show "jsonable (published_entry p)" if "published_bytes p \<le> max_safe_integer"
  proof -
    have "jsonable (item m ''action_digest'')"
      using digest is_digest_scalar by (auto simp: digest_val_def jsonable_simps elim!: is_strE)
    moreover have "jsonable (PyInt (sum_sizes (artifacts_of m)))"
      using that sum_sizes_nonneg [of m] m by (simp add: jsonable_def published_bytes_def p max_safe_integer_def)
    ultimately show ?thesis using d is_digest_scalar published_action [OF assms [unfolded p]]
      by (simp add: published_entry_def p jsonable_simps)
  qed
qed

lemma check_availability_entries_iff:
  "check_availability_entries es seen = Inr () \<longleftrightarrow> (\<forall>e \<in> set es. check_availability_entry e = Inr ())
     \<and> entry_identity ` set es \<inter> seen = {} \<and> distinct (map entry_identity es)"
  by (induction es arbitrary: seen) (simp_all add: seq_Inr checks, blast)

lemma distinct_sort_key: "distinct (map f es) \<Longrightarrow> distinct (map f (sort_key f es))"
  by (metis distinct_map distinct_sort set_sort)

lemma published_identities: "distinct (map fst ps) \<Longrightarrow> distinct (map entry_identity (map published_entry ps))"
proof (induction ps)
  case (Cons p ps)
  have snd: "snd (entry_identity (published_entry q)) = fst q" for q
    by (cases q) (auto simp: entry_identity_def published_entry_def)
  have "entry_identity (published_entry p) \<noteq> entry_identity (published_entry q)" if "q \<in> set ps" for q
    using Cons.prems that snd by (metis distinct.simps(2) image_eqI image_set list.simps(9))
  with Cons show ?case by auto
qed simp

definition catalog_document :: "catalog \<Rightarrow> int \<Rightarrow> pyval" where
  "catalog_document C now =
     obj [(''spec_version'', S ''oncemesh.availability/v0''), (''peer_id'', PyStr (ct_peer_id C)),
          (''generated_at'', PyStr (iso_utc now)),
          (''entries'', PyList (sort_key entry_identity (map published_entry (ct_published C)))), (''signature'', PyNone)]"

lemma catalog_document_ok:
  assumes "catalog_ok E view C" "0 \<le> now" "now < max_instant" "list_all (\<lambda>p. published_bytes p \<le> max_safe_integer) (ct_published C)"
  shows "availability_shape (catalog_document C now)" "jsonable (catalog_document C now)"
proof -
  let ?es = "sort_key entry_identity (map published_entry (ct_published C))"
  have ps: "published_ok E view (ct_receipt_keys C) p" if "p \<in> set (ct_published C)" for p
    using assms(1) that by (auto simp: catalog_ok_def list_all_iff)
  have "distinct (map entry_identity ?es)"
    using assms(1) by (intro distinct_sort_key published_identities) (simp add: catalog_ok_def)
  moreover have "check_availability_entry e = Inr ()" if "e \<in> set ?es" for e
    using that ps published_entry_ok(1) by (metis (no_types, lifting) imageE list.set_map set_sort)
  ultimately have es: "check_availability_entries ?es {} = Inr ()" by (simp only: check_availability_entries_iff) blast
  have "exact_keys (catalog_document C now) [''spec_version'', ''peer_id'', ''generated_at'', ''entries'', ''signature'']"
    unfolding catalog_document_def exact_keys_obj by simp
  then show "availability_shape (catalog_document C now)"
    using es assms parse_iso_utc [OF assms(2,3)]
    by (simp add: availability_shape_def entries_of_def catalog_document_def nonempty_str_def fed_parse_time_def parse_time_def
        catalog_ok_def)
  have "jsonable (published_entry p)" if "p \<in> set (ct_published C)" for p
    using published_entry_ok(2) [OF ps [OF that]] assms(4) that by (auto simp: list_all_iff)
  moreover have "jsonable (PyStr (iso_utc now))"
    using iso_utc_is_timestamp [OF assms(2,3)] timestamp_scalar by (simp add: jsonable_simps)
  ultimately show "jsonable (catalog_document C now)"
    using assms(1) by (auto simp: catalog_document_def catalog_ok_def jsonable_simps)
qed

lemma catalog_availability_ok:
  assumes "ed25519_ok E" "catalog_ok E view C" "0 \<le> now" "now < max_instant"
    and "list_all (\<lambda>p. published_bytes p \<le> max_safe_integer) (ct_published C)"
  shows "\<exists>signed. catalog_availability E C now = Inr signed \<and> validate_availability True signed = Inr ()
    \<and> verify_availability E signed (ct_peer_id C) (ed_public E (ct_seed C)) = Inr True
    \<and> fed_parse_time (item signed ''generated_at'') = Inr now
    \<and> entries_of signed = sort_key entry_identity (map published_entry (ct_published C))"
proof -
  note doc = catalog_document_ok [OF assms(2-5)]
  have "item (catalog_document C now) ''signature'' = PyNone" "item (catalog_document C now) ''peer_id'' = PyStr (ct_peer_id C)"
    by (simp_all add: catalog_document_def)
  from sign_verify_availability [OF assms(1) doc(2,1) this(1) _ this(2)] assms(2) obtain signed where
    s: "sign_availability E (catalog_document C now) (ct_seed C) = Inr signed" "validate_availability True signed = Inr ()"
      "verify_availability E signed (ct_peer_id C) (ed_public E (ct_seed C)) = Inr True"
      "\<forall>k. k \<noteq> ''signature'' \<longrightarrow> item signed k = item (catalog_document C now) k"
    unfolding catalog_ok_def by blast
  have "catalog_availability E C now = Inr signed"
    using s(1) availability_entries_ok assms(2) by (auto simp: catalog_availability_def catalog_ok_def catalog_document_def)
  moreover have "item signed ''generated_at'' = PyStr (iso_utc now)"
    "entries_of signed = sort_key entry_identity (map published_entry (ct_published C))"
    using s(4) by (simp_all add: entries_of_def) (simp_all add: catalog_document_def)
  ultimately show ?thesis using s parse_iso_utc [OF assms(3,4)] by (auto simp: fed_parse_time_def parse_time_def)
qed

section \<open>An honest import\<close>

text \<open>The configuration of a receiver for the peer that runs a catalog, and for one of its results.\<close>

definition configured_for :: "ed25519 \<Rightarrow> peer_config \<Rightarrow> catalog \<Rightarrow> bool" where
  "configured_for E P C \<longleftrightarrow> pc_peer_id P = ct_peer_id C \<and> pc_public_key P = ed_public E (ct_seed C)
     \<and> int (length (ct_published C)) \<le> pc_max_entries P \<and> 0 \<le> pc_max_age_seconds P \<and> 0 \<le> pc_max_skew_seconds P"

definition admits :: "peer_config \<Rightarrow> catalog \<Rightarrow> pyval \<times> pyval \<times> pyval \<Rightarrow> bool" where
  "admits P C x = (case x of (action, m, r) \<Rightarrow>
     operation_key action \<in> pc_operations P \<and> str_of (item m ''producer'') \<in> pc_producers P
     \<and> (let key_id = str_of (item (item r ''signature'') ''key_id'')
         in al_get (pc_receipt_keys P) key_id = al_get (ct_receipt_keys C) key_id)
     \<and> list_all (\<lambda>a. int_of (item a ''size'') \<le> pc_max_artifact_bytes P) (artifacts_of m)
     \<and> sum_sizes (artifacts_of m) \<le> pc_max_transfer_bytes P)"

lemma find_exists: "x \<in> set xs \<Longrightarrow> P x \<Longrightarrow> \<exists>y \<in> set xs. find P xs = Some y \<and> P y"
  by (cases "find P xs") (auto simp: find_None_iff dest: find_Some)

lemma select_published:
  assumes "ed25519_ok E" "catalog_ok E view C" "0 \<le> now" "now < max_instant"
    and "list_all (\<lambda>p. published_bytes p \<le> max_safe_integer) (ct_published C)" "configured_for E P C"
    and "(d, x) \<in> set (ct_published C)" "item (fst (snd x)) ''action_digest'' = PyStr requested"
    and same: "\<forall>(d', action', m', r') \<in> set (ct_published C).
        item m' ''action_digest'' = PyStr requested \<longrightarrow> action' = action \<and> admits P C (action', m', r')"
  shows "\<exists>d' m' r'. (d', (action, m', r')) \<in> set (ct_published C) \<and> item m' ''action_digest'' = PyStr requested
    \<and> admits P C (action, m', r')
    \<and> select_entry E P action requested now (catalog_availability E C now) = Inr (Proceed (published_entry (d', (action, m', r'))))"
proof -
  from catalog_availability_ok [OF assms(1-5)] obtain M where M: "catalog_availability E C now = Inr M"
    "validate_availability True M = Inr ()" "verify_availability E M (ct_peer_id C) (ed_public E (ct_seed C)) = Inr True"
    "fed_parse_time (item M ''generated_at'') = Inr now"
    "entries_of M = sort_key entry_identity (map published_entry (ct_published C))" by blast
  let ?offers = "\<lambda>e. item e ''action_digest'' = PyStr requested"
  have digest: "item (published_entry q) ''action_digest'' = item (fst (snd (snd q))) ''action_digest''" for q
    by (cases q) (simp add: published_entry_def)
  have "published_entry (d, x) \<in> set (entries_of M)" using assms(7) by (simp add: M(5))
  from find_exists [OF this, of ?offers] assms(8) digest obtain e where
    e: "e \<in> set (entries_of M)" "find ?offers (entries_of M) = Some e" "?offers e" by auto
  from e(1) obtain q where q: "q \<in> set (ct_published C)" "e = published_entry q" by (auto simp: M(5))
  obtain d' action' m' r' where q': "q = (d', (action', m', r'))" by (cases q) auto
  with q e(3) digest same have a: "action' = action" "item m' ''action_digest'' = PyStr requested" "admits P C (action, m', r')" by force+
  have "item e ''operation'' = item action ''operation''" "item e ''artifact_bytes'' = PyInt (sum_sizes (artifacts_of m'))"
    using q(2) q' a(1) by (simp_all add: published_entry_def)
  with M e a assms(6) have "select_entry E P action requested now (catalog_availability E C now) = Inr (Proceed e)"
    by (simp add: select_entry_def configured_for_def micros_def admits_def operation_key_def)
  with q q' a show ?thesis by blast
qed

text \<open>The bundle of a published result.\<close>

lemma bundle_artifacts_ok:
  "check_published_artifacts view ds = Inr () \<Longrightarrow> distinct (map (\<lambda>d. str_of (item d ''name'')) ds) \<Longrightarrow>
     \<exists>arts. bundle_artifacts view ds = Inr (map (\<lambda>(n, b). (n, Some b)) arts) \<and> map fst arts = map (\<lambda>d. str_of (item d ''name'')) ds
       \<and> (\<forall>d \<in> set ds. \<exists>data. al_get arts (str_of (item d ''name'')) = Some data
            \<and> int_of (item d ''size'') = int (length data) \<and> item d ''digest'' = PyStr (digest_bytes data))"
proof (induction ds)
  case (Cons d ds)
  from Cons.prems(1) obtain data where data: "sv_get_blob view (str_of (item d ''digest'')) = Inr (Some data)"
    "int (length data) = int_of (item d ''size'')" "PyStr (digest_bytes data) = item d ''digest''" "check_published_artifacts view ds = Inr ()"
    by (auto simp: rbind_Inr split: option.splits if_splits)
  from Cons.IH [OF data(4)] Cons.prems(2) obtain arts where
    arts: "bundle_artifacts view ds = Inr (map (\<lambda>(n, b). (n, Some b)) arts)" "map fst arts = map (\<lambda>d. str_of (item d ''name'')) ds"
      "\<forall>d \<in> set ds. \<exists>data. al_get arts (str_of (item d ''name'')) = Some data
         \<and> int_of (item d ''size'') = int (length data) \<and> item d ''digest'' = PyStr (digest_bytes data)" by auto
  have "str_of (item d' ''name'') \<noteq> str_of (item d ''name'')" if "d' \<in> set ds" for d'
    using Cons.prems(2) that by (metis (no_types, lifting) distinct.simps(2) image_eqI list.set_map list.simps(9))
  with arts data show ?case by (intro exI [of _ "(str_of (item d ''name''), data) # arts"]) auto
qed simp

lemma check_bundle_artifacts_ok:
  "\<forall>d \<in> set ds. \<exists>data. al_get arts (str_of (item d ''name'')) = Some data \<and> int_of (item d ''size'') = int (length data)
      \<and> item d ''digest'' = PyStr (digest_bytes data) \<Longrightarrow>
   list_all (\<lambda>a. int_of (item a ''size'') \<le> pc_max_artifact_bytes P) ds \<Longrightarrow> n + sum_sizes ds \<le> pc_max_transfer_bytes P \<Longrightarrow>
   check_bundle_artifacts P arts ds n = Inr (Proceed (n + sum_sizes ds))"
proof (induction ds arbitrary: n)
  case (Cons d ds)
  from Cons.prems(1) obtain data where data: "al_get arts (str_of (item d ''name'')) = Some data" "int_of (item d ''size'') = int (length data)"
    "item d ''digest'' = PyStr (digest_bytes data)" by auto
  have "0 \<le> int_of (item x ''size'')" if "x \<in> set ds" for x using Cons.prems(1) that by fastforce
  then have "0 \<le> sum_sizes ds" by (auto simp: sum_sizes_def intro!: sum_list_nonneg)
  with Cons.IH [of "n + int (length data)"] Cons.prems data show ?case by (simp add: sum_sizes_def add.assoc)
qed (simp add: sum_sizes_def)

lemma published_bundle:
  assumes "catalog_ok E view C" "(d, (action, m, r)) \<in> set (ct_published C)"
  shows "\<exists>arts. catalog_fetch_bundle view C d = Inr (Some \<lparr>fb_manifest = m, fb_receipt = r, fb_artifacts = arts\<rparr>)
    \<and> map fst arts = map (\<lambda>a. str_of (item a ''name'')) (artifacts_of m) \<and> distinct (map fst arts)
    \<and> (\<forall>a \<in> set (artifacts_of m). \<exists>data. al_get arts (str_of (item a ''name'')) = Some data
         \<and> int_of (item a ''size'') = int (length data) \<and> item a ''digest'' = PyStr (digest_bytes data))"
proof -
  have p: "published_ok E view (ct_receipt_keys C) (d, (action, m, r))" using assms by (auto simp: catalog_ok_def list_all_iff)
  have get: "al_get (ct_published C) d = Some (action, m, r)" using assms by (simp add: catalog_ok_def al_get_distinct)
  from published_manifest [OF p]
  have "distinct (map (\<lambda>a. item a ''name'') (artifacts_of m))" "\<forall>a \<in> set (artifacts_of m). is_str (item a ''name'')"
    by (auto simp: manifest_ok_def list_all_iff artifact_ok_def nonempty_str_def)
  then have names: "distinct (map (\<lambda>a. str_of (item a ''name'')) (artifacts_of m))"
    by (auto simp: distinct_map inj_on_def) (metis str_of_eq)
  with p bundle_artifacts_ok obtain arts where arts: "bundle_artifacts view (artifacts_of m) = Inr (map (\<lambda>(n, b). (n, Some b)) arts)"
    "map fst arts = map (\<lambda>a. str_of (item a ''name'')) (artifacts_of m)"
    "\<forall>a \<in> set (artifacts_of m). \<exists>data. al_get arts (str_of (item a ''name'')) = Some data
       \<and> int_of (item a ''size'') = int (length data) \<and> item a ''digest'' = PyStr (digest_bytes data)"
    unfolding published_ok_def by blast
  have "catalog_fetch_bundle view C d = Inr (Some \<lparr>fb_manifest = m, fb_receipt = r, fb_artifacts = arts\<rparr>)"
    using get arts(1) by (simp add: catalog_fetch_bundle_def list_ex_iff comp_def split_def)
  with arts names show ?thesis by auto
qed

lemma published_fetch:
  assumes "catalog_ok E view C" "(d, (action, m, r)) \<in> set (ct_published C)" "item m ''action_digest'' = PyStr requested"
    "admits P C (action, m, r)"
  shows "\<exists>b. catalog_fetch_bundle view C d = Inr (Some b) \<and> fb_manifest b = m \<and> fb_receipt b = r
    \<and> check_bundle E P requested (published_entry (d, (action, m, r))) b = Inr (Proceed (sum_sizes (artifacts_of m)))"
proof -
  have p: "published_ok E view (ct_receipt_keys C) (d, (action, m, r))" using assms(1,2) by (auto simp: catalog_ok_def list_all_iff)
  from published_bundle [OF assms(1,2)] obtain arts where arts:
    "catalog_fetch_bundle view C d = Inr (Some \<lparr>fb_manifest = m, fb_receipt = r, fb_artifacts = arts\<rparr>)"
    "map fst arts = map (\<lambda>a. str_of (item a ''name'')) (artifacts_of m)"
    "\<forall>a \<in> set (artifacts_of m). \<exists>data. al_get arts (str_of (item a ''name'')) = Some data
       \<and> int_of (item a ''size'') = int (length data) \<and> item a ''digest'' = PyStr (digest_bytes data)" by blast
  let ?b = "\<lparr>fb_manifest = m, fb_receipt = r, fb_artifacts = arts\<rparr>"
  have "fst ` set arts = artifact_names m" using arts(2) by (metis artifact_names_def image_set)
  moreover have "check_bundle_artifacts P arts (artifacts_of m) 0 = Inr (Proceed (sum_sizes (artifacts_of m)))"
    using check_bundle_artifacts_ok [OF arts(3), of P 0] assms(4) by (simp add: admits_def)
  moreover have "check_bundle_receipt E P ?b = Inr (Proceed ())"
    using p assms(4) by (auto simp: check_bundle_receipt_def published_ok_def admits_def Let_def)
  moreover have "validate_federation_result m = Inr ()" "validate_receipt True r = Inr ()" "manifest_digest m = Inr d"
    using p by (auto simp: published_ok_def)
  ultimately show ?thesis using arts(1) assms(3,4)
    by (intro exI [of _ ?b]) (simp add: check_bundle_def checks published_entry_def admits_def dbind_def guard_def)
qed

text \<open>What is under a lease stays when the cache is pruned before its end.\<close>

lemma list_at_live:
  "distinct (map fst rs) \<Longrightarrow> m \<in> set (list_at rs k) \<Longrightarrow> result_id m \<notin> X \<Longrightarrow>
     m \<in> set (list_at (filter (\<lambda>p. snd p \<noteq> []) (map (\<lambda>p. (fst p, live_manifests X (snd p))) rs)) k)"
proof -
  let ?rs = "filter (\<lambda>p. snd p \<noteq> []) (map (\<lambda>p. (fst p, live_manifests X (snd p))) rs)"
  assume d: "distinct (map fst rs)" and m: "m \<in> set (list_at rs k)" "result_id m \<notin> X"
  from list_at_in [OF m(1)] obtain xs where xs: "(k, xs) \<in> set rs" "m \<in> set xs" by blast
  with m(2) have live: "m \<in> set (live_manifests X xs)" by (simp add: live_manifests_def)
  then have "(k, live_manifests X xs) \<in> set ?rs" using xs(1) by force
  moreover have "distinct (map fst ?rs)" using d by (simp add: distinct_map_filter comp_def)
  ultimately have "al_get ?rs k = Some (live_manifests X xs)" by (simp only: al_get_distinct)
  with live show "m \<in> set (list_at ?rs k)" by (simp add: list_at_def)
qed

lemma fc_prune_keeps:
  assumes "fc_inv L s" "m \<in> set (list_at (fc_results s) k)" "al_get (fc_leases s) (result_id m) = Some until" "t < until"
  shows "\<exists>s' n. fc_prune s t = Inr (s', n) \<and> m \<in> set (list_at (fc_results s') k)"
proof (cases "expired_at s t = {}")
  case False
  note inv = assms(1) [unfolded fc_inv_def]
  let ?rs = "filter (\<lambda>p. snd p \<noteq> []) (map (\<lambda>p. (fst p, live_manifests (expired_at s t) (snd p))) (fc_results s))"
  from inv have "retained_results (expired_at s t) (fc_results s) = Inr ?rs" by (intro retained_results_ok) blast
  moreover have "result_id m \<notin> expired_at s t"
    using assms(3,4) inv by (auto simp: expired_at_def al_get_distinct) (metis eq_key_imp_eq_value not_le)
  then have "m \<in> set (list_at ?rs k)" using inv assms(2) by (intro list_at_live) auto
  ultimately show ?thesis using False by (auto simp: fc_prune_def Let_def)
qed (use assms in \<open>auto simp: fc_prune_def\<close>)

lemma fc_import_result:
  "fc_import s b until = (s', Inr ()) \<Longrightarrow> fb_manifest b = m \<Longrightarrow> item m ''action_digest'' = PyStr requested \<Longrightarrow> manifest_ok m \<Longrightarrow>
     m \<in> set (list_at (fc_results s') requested) \<and> al_get (fc_leases s') (result_id m) = Some until"
  by (auto simp: fc_import_def result_id_Inr list_at_append split: prod.splits sum.splits)

end
