(* ===== verification/Reloaded.thy ===== *)
theory Reloaded
  imports Loaded_Values Federation_Exchange
begin

text \<open>
  Actions and signed receipts that were written and read back: the validators accept the normal form
  (\<open>norm\<close>), and a signature still verifies.
\<close>

lemma require_exact_keys_norm [simp]: "jsonable d \<Longrightarrow> require_exact_keys (norm d) ks label = require_exact_keys d ks label"
  by (simp add: require_exact_keys_def keys_norm)

lemma require_nonempty_norm [simp]: "require_nonempty_string (norm v) label = require_nonempty_string v label"
  by (simp add: require_nonempty_string_def)

lemma action_jsonable: "wf_val a \<Longrightarrow> validate_action a = Inr () \<Longrightarrow> jsonable a"
  by (simp add: validate_action_def checks canonical_ok)

lemma validate_action_norm: "wf_val a \<Longrightarrow> validate_action a = Inr () \<Longrightarrow> validate_action (norm a) = Inr ()"
proof -
  assume a: "wf_val a" "validate_action a = Inr ()"
  note j = action_jsonable [OF a]
  from a(2) show ?thesis unfolding validate_action_def checks by (simp add: item_norm j jsonable_item canonical_json_of_norm)
qed

lemma action_digest_norm: "wf_val a \<Longrightarrow> action_digest a = Inr d \<Longrightarrow> action_digest (norm a) = Inr d"
  by (auto simp: action_digest_def seq_Inr rbind_Inr validate_action_norm object_digest_norm action_jsonable)

lemma signed_receipt_jsonable: "wf_val r \<Longrightarrow> receipt_ok b r \<Longrightarrow> jsonable r \<and> is_dict r"
  by (simp add: receipt_ok_def canonical_ok exact_keys_def)

lemma verify_receipt_norm:
  assumes "wf_val r" "verify_receipt E r pk = Inr True"
  shows "verify_receipt E (norm r) pk = Inr True"
proof -
  note v = verify_receipt_True [OF assms(2)]
  from v(4) obtain c sig where c: "canonical_json (with_item r ''signature'' PyNone) = Inr c"
    "item (item r ''signature'') ''value'' = PyStr (b64_encode sig)" "length sig = 64" "ed_verify E pk sig (receipt_domain @ c)" by blast
  have j: "jsonable r" "is_dict r" using signed_receipt_jsonable [OF assms(1) v(1)] by simp_all
  note r = receipt_ok_norm [OF assms(1) v(1)]
  have k: "item (item (norm r) ''signature'') ''key_id'' = PyStr (digest_bytes pk)"
    "item (item (norm r) ''signature'') ''value'' = PyStr (b64_encode sig)"
    using v(3) c(2) by (simp_all add: item_norm j jsonable_item)
  have "canonical_json (with_item (norm r) ''signature'' PyNone) = Inr c"
    using canonical_json_with_norm [OF j, of PyNone] c(1) by (simp add: jsonable_simps)
  moreover have "receipt_ok False (with_item (norm r) ''signature'' PyNone)"
    using r calculation unfolding receipt_ok_def by (auto intro: exact_keys_with_item)
  ultimately have "receipt_signing_input (norm r) = Inr (receipt_domain @ c)"
    by (simp add: receipt_signing_input_def validate_receipt_iff seq_Inr rbind_Inr)
  moreover have "validate_receipt True (norm r) = Inr ()" using r by (simp add: validate_receipt_iff)
  moreover have "decode_signature (b64_encode sig) = Inr sig" by (simp add: decode_signature_Inr c(3))
  ultimately show ?thesis using k c(4) v(2) by (simp add: verify_receipt_def guard_def)
qed

lemma verify_receipt_for_manifest_norm:
  assumes "wf_val m" "wf_val r" "verify_receipt_for_manifest E r m pk = Inr True"
  shows "verify_receipt_for_manifest E (norm r) (norm m) pk = Inr True"
proof -
  from assms(3) obtain d where d: "manifest_digest m = Inr d" "item r ''result_digest'' = PyStr d" "item r ''producer'' = item m ''producer''"
      "manifest_ok m" "receipt_ok True r" and v: "verify_receipt E r pk = Inr True"
    by (auto simp: verify_receipt_for_manifest_def rbind_Inr seq_Inr validate_manifest_iff validate_receipt_iff split: if_splits)
  have j: "jsonable m" "jsonable r" using manifest_parts(1) [OF assms(1) d(4)] signed_receipt_jsonable [OF assms(2) d(5)] by simp_all
  show ?thesis using d verify_receipt_norm [OF assms(2) v] manifest_digest_norm [OF assms(1) d(1)] manifest_ok_norm [OF assms(1) d(4)]
      receipt_ok_norm [OF assms(2) d(5)] j
    by (simp add: verify_receipt_for_manifest_def validate_manifest_iff validate_receipt_iff item_norm seq_Inr)
qed

end
