(* ===== verification/Document_Theorems.thy ===== *)
theory Document_Theorems
  imports Publishing
begin

text \<open>
  The properties of canonical documents, production receipts and the filesystem store, with
  their instances.
\<close>

section \<open>Documents\<close>

text \<open>C7: Canonical JSON is lossless. A document that \<open>canonical_json\<close> accepts is read back by
  \<open>json.loads\<close> as itself up to the order of its keys, and encoding what was read gives the same
  bytes; so the encoding is a normal form.\<close>

theorem canonical_round_trip:
  assumes "wf_val v" "canonical_json v = Inr b"
  shows "loads_bytes opts b = Inr (norm v) \<and> canonical_json (norm v) = Inr b"
  using loads_canonical [OF assms, of opts] canonical_json_of_norm [of v] assms
  by (simp add: canonical_json_Inr)

theorem canonical_round_trip_witness:
  "\<exists>b. canonical_json example_action = Inr b \<and> loads_bytes default_opts b = Inr (norm example_action)
     \<and> canonical_json (norm example_action) = Inr b"
proof -
  have "wf_val example_action" using example_action_jsonable by (simp add: jsonable_def)
  from canonical_round_trip [OF this canonical_json_jsonable [OF example_action_jsonable], of default_opts]
  show ?thesis using canonical_json_jsonable [OF example_action_jsonable] by blast
qed

text \<open>C10: A result digest identifies its manifest. Two manifests that \<open>manifest_digest\<close> maps to one
  digest are the same document up to the order of keys, unless their canonical bytes are a SHA-256
  collision.\<close>

theorem manifest_digest_identifies:
  assumes "wf_val m" "wf_val m'" "manifest_digest m = Inr d" "manifest_digest m' = Inr d"
  shows "is_digest d \<and> (norm m = norm m' \<or> collides m m')"
  using object_digest_inj [OF assms(1,2)] assms(3,4) object_digest_is_digest
  by (auto simp: manifest_digest_Inr collides_def)

theorem manifest_digest_identifies_witness:
  "\<exists>d. manifest_digest example_manifest = Inr d \<and> manifest_digest (norm example_manifest) = Inr d \<and> is_digest d"
proof -
  have ok: "manifest_ok example_manifest" "wf_val example_manifest"
    using example_publication(3,4) by (simp_all add: ms_put_result_Inr jsonable_def)
  then obtain d where d: "manifest_digest example_manifest = Inr d" using manifest_digest_ok by blast
  have "wf_val (norm example_manifest)" using jsonable_norm [OF example_publication(3)] by (simp add: jsonable_def)
  from manifest_digest_identifies [OF ok(2) this d manifest_digest_norm [OF ok(2) d]] d manifest_digest_norm [OF ok(2) d]
  show ?thesis by blast
qed

text \<open>C11: \<open>validate_manifest\<close> accepts exactly the well-formed manifests: the loop over artifacts decides
  that their names are distinct, and the loop over dependencies, which compares neighbours only,
  decides that their names are strictly ascending and their digests distinct.\<close>

theorem validate_manifest_spec: "validate_manifest m = Inr () \<longleftrightarrow> manifest_ok m"
  by (rule validate_manifest_iff)

section \<open>Receipts\<close>

definition example_receipt :: pyval where
  "example_receipt =
     obj [(''spec_version'', S ''oncemesh.receipt/v0''), (''result_digest'', PyStr example_digest),
          (''producer'', S ''worker''), (''executor_environment'', obj []), (''signature'', PyNone)]"

definition example_seed :: bytes where
  "example_seed = replicate 32 7"

lemma example_receipt_ok: "receipt_ok False example_receipt" "wf_val example_receipt" "item example_receipt ''signature'' = PyNone"
proof -
  have d: "is_digest example_digest" using action_digest_is [OF example_action_digest] .
  have j: "jsonable example_receipt"
    using is_digest_scalar [OF d] by (simp add: example_receipt_def jsonable_simps)
  have "exact_keys example_receipt [''spec_version'', ''result_digest'', ''producer'', ''executor_environment'', ''signature'']"
    unfolding example_receipt_def exact_keys_obj by simp
  then show "receipt_ok False example_receipt"
    using d j by (simp add: receipt_ok_def canonical_json_jsonable) (simp add: example_receipt_def digest_val_def nonempty_str_def)
  show "wf_val example_receipt" using j by (simp add: jsonable_def)
qed (simp add: example_receipt_def)

text \<open>C12: Signing round trip. A valid unsigned receipt can be signed with any 32-byte seed; the signed
  receipt differs from it in the signature only, passes validation, and verifies under the signer's
  public key.\<close>

theorem receipt_sign_verify:
  assumes "ed25519_ok E" "wf_val r" "validate_receipt False r = Inr ()" "item r ''signature'' = PyNone" "length seed = 32"
  shows "\<exists>s. sign_receipt E r seed = Inr s \<and> validate_receipt True s = Inr ()
    \<and> (\<forall>k. item s k = (if k = ''signature'' then item s k else item r k))
    \<and> verify_receipt E s (ed_public E seed) = Inr True"
proof -
  obtain s where s: "sign_receipt E r seed = Inr s"
    using sign_receipt_ok [OF assms(1,2) _ assms(4,5)] assms(3) by (auto simp: validate_receipt_iff)
  note f = sign_receipt_Inr [OF s]
  have "validate_receipt True s = Inr ()" using f(4) by (simp only: validate_receipt_iff)
  moreover have "\<forall>k. item s k = (if k = ''signature'' then item s k else item r k)" using f(5) by auto
  ultimately show ?thesis using s verify_signed [OF assms(1) s] by blast
qed

theorem receipt_sign_verify_witness:
  "\<exists>s. sign_receipt plain_scheme example_receipt example_seed = Inr s
     \<and> verify_receipt plain_scheme s (ed_public plain_scheme example_seed) = Inr True"
  using receipt_sign_verify [OF plain_scheme_ok example_receipt_ok(2) _ example_receipt_ok(3), of example_seed] example_receipt_ok(1)
  by (auto simp: validate_receipt_iff example_seed_def)

text \<open>A receipt for the published example.\<close>

lemma example_signed_receipt:
  "\<exists>r. verify_receipt_for_manifest plain_scheme r example_manifest example_seed = Inr True \<and> validate_receipt True r = Inr ()
     \<and> wf_val r"
proof -
  have ok: "manifest_ok example_manifest" using example_publication(4) by (simp add: ms_put_result_Inr)
  then obtain d where d: "manifest_digest example_manifest = Inr d" "is_digest d" using manifest_digest_ok by blast
  let ?r = "with_item example_receipt ''result_digest'' (PyStr d)"
  have j: "jsonable ?r"
    using jsonable_with_item [of example_receipt "PyStr d"] example_receipt_ok is_digest_scalar [OF d(2)]
    by (simp add: receipt_ok_def canonical_ok jsonable_simps exact_keys_def)
  have "exact_keys ?r [''spec_version'', ''result_digest'', ''producer'', ''executor_environment'', ''signature'']"
    using example_receipt_ok(1) by (intro exact_keys_with_item) (simp_all add: receipt_ok_def)
  then have r: "receipt_ok False ?r"
    using example_receipt_ok(1,3) d(2) j by (simp add: receipt_ok_def canonical_json_jsonable digest_val_def)
  have producer: "item example_manifest ''producer'' = S ''worker''" by (simp add: example_publication(2))
  have seed: "length example_seed = 32" by (simp add: example_seed_def)
  obtain s where s: "sign_receipt plain_scheme ?r example_seed = Inr s"
    using sign_receipt_ok [OF plain_scheme_ok _ r _ seed] j example_receipt_ok(3) by (auto simp: jsonable_def)
  note f = sign_receipt_Inr [OF s]
  have "item s ''result_digest'' = PyStr d" "item s ''producer'' = item example_manifest ''producer''"
    using f(5) producer by (auto simp: example_receipt_def)
  moreover have "verify_receipt plain_scheme s example_seed = Inr True"
    using verify_signed [OF plain_scheme_ok s] by (simp add: plain_scheme_def)
  moreover have "validate_receipt True s = Inr ()" "validate_manifest example_manifest = Inr ()"
    using f(4) ok by (simp_all only: validate_receipt_iff validate_manifest_iff)
  ultimately have "verify_receipt_for_manifest plain_scheme s example_manifest example_seed = Inr True"
    using d(1) by (simp add: verify_receipt_for_manifest_def)
  moreover have "jsonable s"
  proof -
    obtain msg where "s = with_item ?r ''signature'' (signature_document (ed_public plain_scheme example_seed) (ed_sign plain_scheme example_seed msg))"
      using f(5) by blast
    moreover have "is_dict ?r" using r by (simp add: receipt_ok_def exact_keys_def)
    moreover have "length (ed_sign plain_scheme example_seed msg) = 64" "length (ed_public plain_scheme example_seed) = 32"
      using plain_scheme_ok seed by (auto simp: ed25519_ok_def)
    ultimately show ?thesis using jsonable_with_item [OF j _ signature_document_ok(2)] by simp
  qed
  ultimately show ?thesis using \<open>validate_receipt True s = Inr ()\<close> by (auto simp: jsonable_def)
qed

text \<open>C13: An accepted receipt binds producer, result and key. If \<open>verify_receipt_for_manifest\<close> returns
  True, the receipt names the digest of that very manifest and its producer, its key identifier is
  the digest of the public key, and the scheme verified its 64-byte signature over the
  domain-separated canonical bytes of the receipt without its signature.\<close>

theorem receipt_binds_manifest:
  assumes "verify_receipt_for_manifest E r m pk = Inr True"
  shows "\<exists>d c sig. manifest_digest m = Inr d \<and> item r ''result_digest'' = PyStr d
    \<and> item r ''producer'' = item m ''producer'' \<and> length pk = 32
    \<and> item (item r ''signature'') ''key_id'' = PyStr (digest_bytes pk)
    \<and> item (item r ''signature'') ''value'' = PyStr (b64_encode sig) \<and> length sig = 64
    \<and> canonical_json (with_item r ''signature'' PyNone) = Inr c \<and> ed_verify E pk sig (receipt_domain @ c)"
proof -
  from assms obtain d where d: "manifest_digest m = Inr d" "item r ''result_digest'' = PyStr d"
    "item r ''producer'' = item m ''producer''" and v: "verify_receipt E r pk = Inr True"
    by (auto simp: verify_receipt_for_manifest_def rbind_Inr seq_Inr split: if_splits)
  from verify_receipt_True [OF v] d show ?thesis by blast
qed

theorem receipt_binds_manifest_witness:
  "\<exists>r c sig. verify_receipt_for_manifest plain_scheme r example_manifest example_seed = Inr True
     \<and> canonical_json (with_item r ''signature'' PyNone) = Inr c
     \<and> ed_verify plain_scheme example_seed sig (receipt_domain @ c)"
proof -
  obtain r where "verify_receipt_for_manifest plain_scheme r example_manifest example_seed = Inr True"
    using example_signed_receipt by blast
  from this receipt_binds_manifest [OF this] show ?thesis by blast
qed

end
