(* ===== verification/Cache_Theorems.thy ===== *)
theory Cache_Theorems
  imports Publishing
begin

text \<open>
  The properties of documents, receipts, stores and lookups, each with a concrete instance. The
  instances are built symbolically from the example publication: no digest is computed in them.
\<close>

section \<open>The example lookup\<close>

lemma example_store_inv: "ms_inv example_store"
proof -
  have "ms_inv (fst (ms_put_blob (ms_init (u ''local'')) [104, 105]))" by (rule ms_inv_put_blob [OF ms_inv_init])
  from ms_inv_put_result [OF this example_publication(4)] show ?thesis .
qed

lemma example_manifest_item:
  "item example_manifest ''action_digest'' = PyStr example_digest" "item example_manifest ''producer'' = S ''worker''"
  "item example_manifest ''fresh_until'' = PyStr (iso_utc 2000000)" "item example_manifest ''spec_version'' = result_v0"
  by (simp_all add: example_publication(2))

lemma example_manifest_wf: "wf_val example_manifest" "manifest_ok example_manifest"
  using example_publication(3,4) by (simp_all add: jsonable_def ms_put_result_Inr)

lemma example_store_state:
  "ms_invalidations example_store d = []" "ms_name example_store = u ''local''"
  "ms_results example_store a = (if a = example_digest then [example_manifest] else [])"
  "ms_blobs example_store d = (if d = digest_bytes [104, 105] then Some [104, 105] else None)"
proof -
  obtain e where s: "example_store =
     \<lparr>ms_name = u ''local'', ms_blobs = [digest_bytes [104, 105] \<mapsto> [104, 105]],
      ms_results = append_at example_digest example_manifest (\<lambda>_. []), ms_results_by_digest = [e \<mapsto> example_manifest],
      ms_validations = (\<lambda>_. []), ms_invalidations = (\<lambda>_. []), ms_receipts = (\<lambda>_. [])\<rparr>"
    using example_publication(4)
    by (auto simp: ms_put_result_Inr ms_put_blob_def Let_def ms_init_def example_manifest_item)
  show "ms_invalidations example_store d = []" "ms_name example_store = u ''local''"
    "ms_results example_store a = (if a = example_digest then [example_manifest] else [])"
    "ms_blobs example_store d = (if d = digest_bytes [104, 105] then Some [104, 105] else None)"
    by (simp_all add: s)
qed

lemma example_policy_sel [simp]:
  "p_now example_policy = 1000000" "p_trusted_producers example_policy = Some {u ''worker''}"
  "p_require_lineage example_policy = False" "p_max_dependency_depth example_policy = 8"
  "p_trusted_invalidation_producers example_policy = None" "p_max_dependency_count example_policy = 64"
  by (simp_all add: example_policy_def default_policy_def)

lemma example_not_invalidated: "not_invalidated example_policy example_manifest (ms_view example_store) b"
  using manifest_digest_ok [OF example_manifest_wf(2)]
  by (auto simp: not_invalidated_def ms_view_def ms_get_invalidations_def example_store_state)

lemma example_reuse_hits:
  "\<exists>out. reuse example_action [ms_view example_store] example_policy = Inr out \<and> lo_hit out"
proof (rule ms.publish_then_reuse [OF ms_inv_init example_publication(1) example_manifest_wf(1)])
  show "\<forall>v \<in> set [ms_view example_store]. steady v" by (simp add: ms_steady example_store_inv)
  show "\<forall>(n, b, t) \<in> set example_artifacts. \<forall>b'. sv_get_blob (so_view memory_ops example_store) (digest_bytes b) = Inr (Some b')
      \<longrightarrow> \<not> collision b' b"
    by (simp add: example_artifacts_def memory_ops_sel ms_view_def ms_get_blob_def example_store_state collision_def)
  show "\<forall>cs. sv_candidates (so_view memory_ops example_store) (str_of (item example_manifest ''action_digest'')) = Inr cs
      \<longrightarrow> (\<forall>m' \<in> set cs. \<not> collides example_manifest m')"
    by (auto simp: memory_ops_sel ms_view_def ms_candidates_def example_store_state example_manifest_item collides_def
        collision_def)
  show "not_invalidated example_policy example_manifest (so_view memory_ops example_store) False"
    by (simp add: memory_ops_sel example_not_invalidated)
qed (simp_all add: max_instant_def in_trust_def memory_ops_sel)

section \<open>The example on the filesystem\<close>

definition example_files :: fs_store where
  "example_files = fst (publish_result filesystem_ops \<lparr>fs_name = u ''disk'', fs_files = []\<rparr> example_action example_artifacts
     (u ''worker'') (Aware 0) (Some (Aware 2000000)) None)"

lemma filesystem_ops_sel:
  "so_put_result filesystem_ops = fs_put_result" "so_put_blob filesystem_ops = fs_put_blob" "so_view filesystem_ops = fs_view"
  by (simp_all add: filesystem_ops_def)

lemma example_files_publication:
  "publish_result filesystem_ops \<lparr>fs_name = u ''disk'', fs_files = []\<rparr> example_action example_artifacts (u ''worker'')
     (Aware 0) (Some (Aware 2000000)) None = (example_files, Inr example_manifest)"
  "fs_put_result (fst (fs_put_blob \<lparr>fs_name = u ''disk'', fs_files = []\<rparr> [104, 105])) example_manifest = Inr example_files"
proof -
  have "max_instant > 2000000" by (simp add: max_instant_def)
  then obtain s' m where p: "publish_result filesystem_ops \<lparr>fs_name = u ''disk'', fs_files = []\<rparr> example_action example_artifacts
     (u ''worker'') (Aware 0) (Some (Aware 2000000)) None = (s', Inr m)"
    "m = built_manifest example_digest (sort_key fst example_artifacts) (iso_utc 0) (PyStr (iso_utc 2000000)) (u ''worker'')"
    "so_put_result filesystem_ops (fs.put_blobs \<lparr>fs_name = u ''disk'', fs_files = []\<rparr>
       (map (\<lambda>a. fst (snd a)) (sort_key fst example_artifacts))) m = Inr s'"
    using fs.publish_result_succeeds [OF fs_inv_empty [of "u ''disk''"] example_action_digest example_artifacts_good,
        of "u ''worker''" 0 2000000]
    by (auto simp del: ex_simps)
  have "s' = example_files" "m = example_manifest"
    using p(1,2) example_publication(2) by (simp_all add: example_files_def example_artifacts_def)
  with p show "publish_result filesystem_ops \<lparr>fs_name = u ''disk'', fs_files = []\<rparr> example_action example_artifacts (u ''worker'')
     (Aware 0) (Some (Aware 2000000)) None = (example_files, Inr example_manifest)"
    "fs_put_result (fst (fs_put_blob \<lparr>fs_name = u ''disk'', fs_files = []\<rparr> [104, 105])) example_manifest = Inr example_files"
    by (simp_all add: example_artifacts_def filesystem_ops_sel)
qed

lemma example_files_tree:
  "\<exists>d b. canonical_json example_manifest = Inr b \<and> fs_files example_files =
     [(blob_path (digest_bytes [104, 105]), File [104, 105]), (result_path d, File b),
      (entry_path ''actions'' example_digest d, File b)]"
proof -
  let ?blob = "(blob_path (digest_bytes [104, 105]), File [104, 105])"
  have put: "fs_files (fst (fs_put_blob \<lparr>fs_name = u ''disk'', fs_files = []\<rparr> [104, 105])) = [?blob]"
    by (simp add: fs_put_blob_def Let_def atomic_write_def)
  obtain d b where "canonical_json example_manifest = Inr b"
    "fs_files example_files = atomic_write (entry_path ''actions'' example_digest d) b (atomic_write (result_path d) b [?blob])"
  proof -
    obtain d b where c: "canonical_json example_manifest = Inr b"
      and ex: "example_files = (fst (fs_put_blob \<lparr>fs_name = u ''disk'', fs_files = []\<rparr> [104, 105]))\<lparr>fs_files :=
         atomic_write (entry_path ''actions'' example_digest d) b (atomic_write (result_path d) b [?blob])\<rparr>"
      using example_files_publication(2) put by (auto simp: fs_put_result_Inr example_manifest_item)
    have "fs_files example_files =
        atomic_write (entry_path ''actions'' example_digest d) b (atomic_write (result_path d) b [?blob])"
      unfolding ex by simp
    with c show thesis by (rule that)
  qed
  then show ?thesis using path_roots by (auto simp: atomic_write_def)
qed

lemma example_files_dirs:
  "glob_json (digest_dir root a) (fs_files example_files) = [] \<or> root = ''actions'' \<and> a = example_digest"
  "glob_json (digest_dir ''actions'' example_digest) (fs_files example_files)
     \<in> {[File b] | b. canonical_json example_manifest = Inr b}" if "is_digest a" "root \<noteq> ''blobs''" "root \<noteq> ''results''"
proof -
  obtain d b where t: "canonical_json example_manifest = Inr b" "fs_files example_files =
     [(blob_path (digest_bytes [104, 105]), File [104, 105]), (result_path d, File b),
      (entry_path ''actions'' example_digest d, File b)]" using example_files_tree by blast
  have ed: "is_digest example_digest" using action_digest_is [OF example_action_digest] .
  have n: "butlast (blob_path c) \<noteq> digest_dir r a'" "butlast (result_path c) \<noteq> digest_dir q a'"
    if "r \<noteq> ''blobs''" "q \<noteq> ''results''" for c r q a'
    using that by (auto simp: blob_path_def result_path_def digest_dir_def)
  show "glob_json (digest_dir root a) (fs_files example_files) = [] \<or> root = ''actions'' \<and> a = example_digest"
    using n(1) [OF that(2,3), of _ a] n(2) [OF that(2,3), of _ a] path_inj(3) [OF ed that(1), of "''actions''" root]
    by (auto simp: t(2) glob_json_def)
  show "glob_json (digest_dir ''actions'' example_digest) (fs_files example_files)
     \<in> {[File b] | b. canonical_json example_manifest = Inr b}"
    using n(1) [of "''actions''" "''actions''" _ example_digest] n(2) [of "''actions''" "''actions''" _ example_digest] t(1)
    by (auto simp: t(2) glob_json_def)
qed

lemma example_files_inv: "fs_inv example_files"
  using fs_inv_put_result [OF fs_inv_put_blob [OF fs_inv_empty] example_manifest_wf(1) example_files_publication(2)] .

lemma example_files_candidates: "fs_candidates example_files example_digest = Inr cs \<Longrightarrow> m \<in> set cs \<Longrightarrow> m = norm example_manifest"
proof -
  have ed: "is_digest example_digest" using action_digest_is [OF example_action_digest] .
  assume "fs_candidates example_files example_digest = Inr cs" "m \<in> set cs"
  with fs_candidates_ok [OF example_files_inv ed] obtain f where
    "f \<in> set (glob_json (digest_dir ''actions'' example_digest) (fs_files example_files))" "file_doc f = Some m" by auto
  with example_files_dirs(2) [OF ed, of "''x''"] obtain b where "f = File b" "canonical_json example_manifest = Inr b" by auto
  with file_doc_encoded [OF example_manifest_wf(1)] \<open>file_doc f = Some m\<close> show ?thesis by simp
qed

lemma example_files_not_invalidated: "not_invalidated P example_manifest (fs_view example_files) b"
proof -
  obtain d where d: "manifest_digest example_manifest = Inr d" "is_digest d"
    using manifest_digest_ok [OF example_manifest_wf(2)] by blast
  have "glob_json (digest_dir ''invalidations'' d) (fs_files example_files) = []"
    using example_files_dirs(1) [OF d(2), of "''invalidations''"] by simp
  then have "fs_invalidations example_files d = Inr []"
    using d(2) by (simp add: fs_invalidations_def fs_records_def)
  with d(1) show ?thesis by (auto simp: not_invalidated_def fs_view_def)
qed

section \<open>Lookups\<close>

text \<open>C1: A cache hit is admissible. Whatever \<open>reuse\<close> returns as a hit is a manifest that some
  store of the list offers for exactly the requested action, well-formed, from a trusted producer,
  not effectively invalidated, fresh (or covered by a trusted validation, which is the one
  reported), with every artifact intact, and with a dependency tree whose every node is admissible
  in the same sense within the depth bound of the policy.\<close>

theorem reuse_sound:
  assumes "reuse action stores P = Inr out" "lo_hit out"
  shows "\<exists>requested s m cs. action_digest action = Inr requested \<and> s \<in> set stores
    \<and> sv_candidates s requested = Inr cs \<and> m \<in> set cs
    \<and> lo_tier out = Some (sv_name s) \<and> lo_manifest out = Some m
    \<and> admissible P stores False 0 requested m s (lo_artifacts out)
    \<and> (\<forall>v. lo_validation out = Some v \<longrightarrow> validated_by P m s v)"
proof -
  from assms(1) obtain requested where r: "action_digest action = Inr requested"
    "search_stores P stores requested False stores [] = Inr out" by (auto simp: reuse_def rbind_Inr)
  from search_stores_hit [OF r(2) assms(2)] r(1) show ?thesis by auto
qed

theorem reuse_sound_witness:
  "\<exists>out s m. reuse example_action [ms_view example_store] example_policy = Inr out \<and> lo_hit out
     \<and> lo_manifest out = Some m
     \<and> admissible example_policy [ms_view example_store] False 0 example_digest m s (lo_artifacts out)"
  using example_reuse_hits reuse_sound [of example_action "[ms_view example_store]" example_policy]
  by (metis Inr_inject example_action_digest)

text \<open>C2: What is published is found. On the filesystem store, after a successful publication, a
  lookup of the same action under a policy that trusts the producer, before the expiry and with no
  effective invalidation, returns a hit, whatever else the store and the other stores hold, unless
  a SHA-256 collision with stored content stands in the way.\<close>

theorem filesystem_publish_reuse:
  assumes "fs_inv s"
    and "publish_result filesystem_ops s action arts producer produced (Some (Aware until)) None = (s', Inr m)"
    and "wf_val m" "0 \<le> until" "until < max_instant"
    and "\<not> p_require_lineage P" "0 \<le> p_max_dependency_depth P"
      "in_trust (PyStr producer) (p_trusted_producers P)" "p_now P \<le> until"
      "not_invalidated P m (fs_view s') False"
    and "fs_view s' \<in> set stores" "\<forall>v \<in> set stores. steady v"
    and "\<forall>cs. fs_candidates s' (str_of (item m ''action_digest'')) = Inr cs \<longrightarrow> (\<forall>m' \<in> set cs. \<not> collides m m')"
      "\<forall>(n, b, t) \<in> set arts. \<forall>b'. fs_get_blob s' (digest_bytes b) = Inr (Some b') \<longrightarrow> \<not> collision b' b"
  shows "\<exists>out. reuse action stores P = Inr out \<and> lo_hit out"
proof -
  have v: "so_view filesystem_ops s' = fs_view s'" by (simp add: filesystem_ops_def)
  have sel: "sv_candidates (fs_view s') = fs_candidates s'" "sv_get_blob (fs_view s') = fs_get_blob s'"
    by (simp_all add: fs_view_def)
  show ?thesis
    by (rule fs.publish_then_reuse [OF assms(1,2), unfolded v sel]) (use assms in simp_all)
qed

theorem filesystem_publish_reuse_witness:
  "\<exists>out. reuse example_action [fs_view example_files] example_policy = Inr out \<and> lo_hit out"
proof (rule filesystem_publish_reuse [OF fs_inv_empty example_files_publication(1) example_manifest_wf(1)])
  show "\<forall>v \<in> set [fs_view example_files]. steady v" by (simp add: fs_steady example_files_inv)
  show "\<forall>(n, b, t) \<in> set example_artifacts. \<forall>b'. fs_get_blob example_files (digest_bytes b) = Inr (Some b')
      \<longrightarrow> \<not> collision b' b"
    using example_files_tree by (auto simp: example_artifacts_def fs_get_blob_def collision_def)
  show "\<forall>cs. fs_candidates example_files (str_of (item example_manifest ''action_digest'')) = Inr cs
      \<longrightarrow> (\<forall>m' \<in> set cs. \<not> collides example_manifest m')"
  proof (intro allI impI ballI)
    fix cs m'
    assume "fs_candidates example_files (str_of (item example_manifest ''action_digest'')) = Inr cs" "m' \<in> set cs"
    then have "m' = norm example_manifest" by (intro example_files_candidates) (simp_all add: example_manifest_item)
    then have "canonical_json m' = canonical_json example_manifest"
      using manifest_parts(1) [OF example_manifest_wf] by (simp add: canonical_json_of_norm)
    then show "\<not> collides example_manifest m'" by (auto simp: collides_def collision_def)
  qed
qed (simp_all add: max_instant_def in_trust_def example_files_not_invalidated)

text \<open>C5: A lookup never raises on stores that keep their invariant. For a valid action and any list of memory and
  filesystem stores in states their operations can produce, \<open>reuse\<close> and
  \<open>candidate_for_revalidation\<close> return an outcome; in particular the dependency traversal ends.\<close>

theorem lookup_total:
  assumes "validate_action action = Inr ()"
    and "\<forall>v \<in> set stores. (\<exists>s. ms_inv s \<and> v = ms_view s) \<or> (\<exists>s. fs_inv s \<and> v = fs_view s)"
  shows "\<exists>out out'. reuse action stores P = Inr out \<and> candidate_for_revalidation action stores P = Inr out'"
proof -
  obtain d where d: "action_digest action = Inr d"
    using assms(1) object_digest_ok [OF validators_canonical(1) [OF assms(1)]] by (auto simp: action_digest_def)
  have "\<forall>v \<in> set stores. steady v" using assms(2) by (auto dest: ms_steady fs_steady)
  note total = search_stores_total [OF this this action_digest_is [OF d]]
  from total [of P False "[]"] total [of P True "[]"] show ?thesis
    by (auto simp: reuse_def candidate_for_revalidation_def d)
qed

theorem lookup_total_witness:
  "\<exists>out out'. reuse example_action [ms_view example_store, fs_view example_files] example_policy = Inr out
     \<and> candidate_for_revalidation example_action [ms_view example_store, fs_view example_files] example_policy = Inr out'"
  by (rule lookup_total) (use example_action_valid example_store_inv example_files_inv in auto)

text \<open>C6: The dependency traversal is bounded and leaves no trace. Evaluating a candidate from a fresh
  traversal ends with no active digest, after following at most one edge more than
  \<open>max_dependency_count\<close>, and an accepted candidate stayed within the count.\<close>

theorem evaluate_bounded:
  assumes "evaluate P stores requested m s new_traversal 0 ignore = Inr (d, t)" "0 \<le> p_max_dependency_count P"
  shows "t_active t = {} \<and> t_edges t \<le> p_max_dependency_count P + 1
    \<and> (\<forall>x. d = Proceed x \<longrightarrow> t_edges t \<le> p_max_dependency_count P)"
  using evaluate_frame(1) [OF assms(1)] assms(2) by (auto simp: new_traversal_def)

theorem evaluate_bounded_witness:
  "\<exists>d t. evaluate example_policy [] example_digest example_manifest (ms_view example_store) new_traversal 0 False = Inr (d, t)
     \<and> t_active t = {} \<and> t_edges t \<le> 65"
proof -
  obtain d t where "evaluate example_policy [] example_digest example_manifest (ms_view example_store) new_traversal 0 False = Inr (d, t)"
    using evaluate_total(1) [of "[]" "ms_view example_store" example_manifest example_policy example_digest new_traversal 0 False]
      ms_steady [OF example_store_inv] manifest_ok_validates [OF example_manifest_wf(2)] by auto
  from this evaluate_bounded [OF this] show ?thesis by auto
qed

text \<open>Revalidation candidates differ from hits only in freshness. What \<open>candidate_for_revalidation\<close>
  returns is admissible in every other respect, its dependencies are fully fresh, and it carries no
  validation record.\<close>

lemma candidate_for_revalidation_sound:
  assumes "candidate_for_revalidation action stores P = Inr out" "lo_hit out"
  shows "\<exists>requested s m. action_digest action = Inr requested \<and> s \<in> set stores
    \<and> lo_tier out = Some (sv_name s) \<and> lo_manifest out = Some m
    \<and> admissible P stores True 0 requested m s (lo_artifacts out) \<and> lo_validation out = None"
proof -
  from assms(1) obtain requested where r: "action_digest action = Inr requested"
    "search_stores P stores requested True stores [] = Inr out" by (auto simp: candidate_for_revalidation_def rbind_Inr)
  from search_stores_hit [OF r(2) assms(2)] r(1) show ?thesis by auto
qed

lemma candidate_for_revalidation_sound_witness:
  "\<exists>out s m. candidate_for_revalidation example_action [ms_view example_store] example_policy = Inr out \<and> lo_hit out
     \<and> admissible example_policy [ms_view example_store] True 0 example_digest m s (lo_artifacts out)"
proof -
  have steady: "\<forall>v \<in> set [ms_view example_store]. steady v" by (simp add: ms_steady example_store_inv)
  have ed: "is_digest example_digest" using action_digest_is [OF example_action_digest] .
  have cs: "sv_candidates (ms_view example_store) example_digest = Inr [example_manifest]"
    by (simp add: ms_view_def ms_candidates_def example_store_state)
  have "acceptable example_policy example_digest example_manifest (ms_view example_store)"
    using example_manifest_wf(2) example_not_invalidated parse_iso_utc [of 2000000]
    by (simp add: acceptable_def example_manifest_item in_trust_def manifest_fresh_def parse_time_def max_instant_def
        example_publication(2) example_artifacts_def descriptor_def ms_view_def ms_get_blob_def example_store_state)
  then have "\<exists>l. load_artifacts (ms_view example_store) {} (artifacts_of example_manifest) = Inr (Proceed l)"
    by (intro load_artifacts_intact)
      (simp_all add: example_publication(2) example_artifacts_def descriptor_def ms_view_def ms_get_blob_def example_store_state)
  moreover have "admission example_policy example_digest example_manifest (ms_view example_store) {} 0 True = Inr (Proceed None)"
  proof -
    obtain d where "manifest_digest example_manifest = Inr d" using manifest_digest_ok [OF example_manifest_wf(2)] by blast
    moreover have "validate_manifest example_manifest = Inr ()" using example_manifest_wf(2) by (simp add: validate_manifest_iff)
    moreover have "effective_invalidated example_policy example_manifest (ms_view example_store) False = Inr None"
      by (simp add: effective_invalidated_None example_not_invalidated)
    ultimately show ?thesis
      by (simp add: admission_def example_manifest_item in_trust_def)
  qed
  ultimately have "\<exists>x t. evaluate example_policy [ms_view example_store] example_digest example_manifest
      (ms_view example_store) new_traversal 0 True = Inr (Proceed x, t)"
    by (auto simp: evaluate.simps [of example_policy] new_traversal_def example_manifest_item)
  from search_stores_finds [OF steady steady ed _ cs _ this, of "[]"]
  obtain out where out: "candidate_for_revalidation example_action [ms_view example_store] example_policy = Inr out" "lo_hit out"
    by (auto simp: candidate_for_revalidation_def example_action_digest)
  from candidate_for_revalidation_sound [OF this] out show ?thesis by (auto simp: example_action_digest)
qed

end
