(* ===== verification/Federation_Properties.thy ===== *)
theory Federation_Properties
  imports Federation_Exchange Document_Theorems Cache_Theorems
begin

text \<open>
  The guarantees of federation, and the example of a peer that publishes one result and a receiver
  that imports it.
\<close>

section \<open>An honest import, step by step\<close>

lemma honest_import_bundle:
  assumes "ed25519_ok E" "catalog_ok E view C" "0 \<le> now" "now < max_instant"
    and "list_all (\<lambda>p. published_bytes p \<le> max_safe_integer) (ct_published C)" "configured_for E P C"
    and "(d, (action, m, r)) \<in> set (ct_published C)" "item m ''action_digest'' = PyStr requested"
    and "\<forall>(d', action', m', r') \<in> set (ct_published C).
        item m' ''action_digest'' = PyStr requested \<longrightarrow> action' = action \<and> admits P C (action', m', r')"
  shows "\<exists>d' m' r' b. (d', (action, m', r')) \<in> set (ct_published C) \<and> item m' ''action_digest'' = PyStr requested
    \<and> fb_manifest b = m' \<and> intact b \<and> manifest_ok m'
    \<and> (\<exists>e. rbind (action_digest action) (\<lambda>requested.
          dbind (select_entry E P action requested now (catalog_availability E C now))
            (fetch_bundle_checked E P requested \<lparr>pr_availability = catalog_availability E C, pr_fetch_bundle = catalog_fetch_bundle view C\<rparr>))
        = Inr (Proceed (e, b, sum_sizes (artifacts_of m'))) \<and> item e ''result_digest'' = PyStr d')"
proof -
  obtain d' m' r' where p: "(d', (action, m', r')) \<in> set (ct_published C)" "item m' ''action_digest'' = PyStr requested"
    "admits P C (action, m', r')"
    "select_entry E P action requested now (catalog_availability E C now) = Inr (Proceed (published_entry (d', (action, m', r'))))"
    using select_published [OF assms(1-7) _ assms(9)] assms(8) by auto
  from published_fetch [OF assms(2) p(1-3)] obtain b where b: "catalog_fetch_bundle view C d' = Inr (Some b)" "fb_manifest b = m'"
    "check_bundle E P requested (published_entry (d', (action, m', r'))) b = Inr (Proceed (sum_sizes (artifacts_of m')))" by blast
  have pub: "published_ok E view (ct_receipt_keys C) (d', (action, m', r'))" using assms(2) p(1) by (auto simp: catalog_ok_def list_all_iff)
  from check_bundle_Proceed [OF b(3)] have i: "intact b" by blast
  have "action_digest action = Inr requested" using pub p(2) by (auto simp: published_ok_def)
  moreover have "item (published_entry (d', (action, m', r'))) ''result_digest'' = PyStr d'" by (simp add: published_entry_def)
  ultimately show ?thesis using p b i published_manifest [OF pub]
    by (intro exI [of _ d'] exI [of _ m'] exI [of _ r'] exI [of _ b] conjI exI [of _ "published_entry (d', (action, m', r'))"])
      (simp_all add: fetch_bundle_checked_def dbind_def bundle_checked_def)
qed

text \<open>What a cache holds after the import, and serves until the lease ends.\<close>

lemma imported_served:
  assumes "fc_inv UNIV s" "manifest_ok (fb_manifest b)" "intact b" "item (fb_manifest b) ''action_digest'' = PyStr requested"
  shows "\<exists>s'. import_in_memory b until s = (s', Inr ())
    \<and> (\<forall>t. t < until \<longrightarrow> (\<exists>s'' ms. fc_candidates s' t requested = Inr (s'', ms) \<and> fb_manifest b \<in> set ms))"
proof -
  from fc_import_inv [OF assms(1-3) UNIV_I] obtain s' where s': "fc_import s b until = (s', Inr ())" "fc_inv UNIV s'" by blast
  have "\<exists>s'' ms. fc_candidates s' t requested = Inr (s'', ms) \<and> fb_manifest b \<in> set ms" if "t < until" for t
    using fc_import_result [OF s'(1) refl assms(4,2)] fc_prune_keeps [OF s'(2) _ _ that]
    by (fastforce simp: fc_candidates_def after_prune_def)
  with s' show ?thesis by (auto simp: import_in_memory_def)
qed

lemma fed_run_any: "fc_inv UNIV (fed_run E calls (new_fed_cache name))"
  by (rule fed_run_inv [OF subset_UNIV fc_inv_new])

section \<open>A peer that publishes one result\<close>

definition example_catalog :: "pyval \<Rightarrow> catalog" where
  "example_catalog r =
     \<lparr>ct_peer_id = u ''peer'', ct_seed = example_seed, ct_receipt_keys = [(digest_bytes example_seed, example_seed)],
      ct_published = [(result_id example_manifest, (example_action, example_manifest, r))]\<rparr>"

definition example_config :: peer_config where
  "example_config =
     \<lparr>pc_peer_id = u ''peer'', pc_public_key = example_seed, pc_receipt_keys = [(digest_bytes example_seed, example_seed)],
      pc_producers = {u ''worker''}, pc_operations = {u ''fetch/1''}, pc_max_entries = 10, pc_max_artifact_bytes = 100,
      pc_max_transfer_bytes = 100, pc_max_age_seconds = 300, pc_max_skew_seconds = 30, pc_retention_seconds = 3600\<rparr>"

definition example_peer :: "pyval \<Rightarrow> peer" where
  "example_peer r =
     \<lparr>pr_availability = catalog_availability plain_scheme (example_catalog r),
      pr_fetch_bundle = catalog_fetch_bundle (ms_view example_store) (example_catalog r)\<rparr>"

lemma example_manifest_facts:
  "manifest_ok example_manifest" "item example_manifest ''action_digest'' = PyStr example_digest"
  "item example_manifest ''producer'' = S ''worker''" "item example_manifest ''spec_version'' \<noteq> result_v1"
  "artifacts_of example_manifest = [descriptor (u ''body'', [104, 105], u ''text/plain'')]"
  using example_publication(4)
  by (simp_all add: ms_put_result_Inr example_publication(2) example_artifacts_def)

lemma example_published: "\<exists>r. catalog_ok plain_scheme (ms_view example_store) (example_catalog r)
    \<and> admits example_config (example_catalog r) (example_action, example_manifest, r) \<and> wf_val r"
proof -
  obtain r where r: "verify_receipt_for_manifest plain_scheme r example_manifest example_seed = Inr True" "validate_receipt True r = Inr ()"
    "wf_val r" using example_signed_receipt by blast
  then have "verify_receipt plain_scheme r example_seed = Inr True"
    by (auto simp: verify_receipt_for_manifest_def rbind_Inr seq_Inr split: if_splits)
  from verify_receipt_True(3) [OF this] have key: "item (item r ''signature'') ''key_id'' = PyStr (digest_bytes example_seed)" .
  have "check_published_artifacts (ms_view example_store) (artifacts_of example_manifest) = Inr ()"
    by (simp add: example_manifest_facts descriptor_def ms_view_def ms_get_blob_def example_store_state)
  moreover have "wf_val example_action" using example_action_jsonable by (simp add: jsonable_def)
  ultimately have "catalog_ok plain_scheme (ms_view example_store) (example_catalog r)"
    using r key example_manifest_facts example_action_digest result_id_Inr
    by (simp add: catalog_ok_def example_catalog_def published_ok_def example_action_valid validate_federation_result_def checks
        validate_manifest_iff example_seed_def scalar_ascii)
  moreover have "u ''fetch'' @ 47 # u ''1'' = u ''fetch/1''" by (simp add: u_def)
  then have "admits example_config (example_catalog r) (example_action, example_manifest, r)"
    using key by (simp add: admits_def example_catalog_def example_config_def example_manifest_facts operation_key_def
        example_action_def Let_def sum_sizes_def descriptor_def)
  ultimately show ?thesis using r(3) by blast
qed

lemma example_honest:
  assumes "admits example_config (example_catalog r) (example_action, example_manifest, r)"
  shows "list_all (\<lambda>p. published_bytes p \<le> max_safe_integer) (ct_published (example_catalog r))"
    and "configured_for plain_scheme example_config (example_catalog r)"
    and "(result_id example_manifest, (example_action, example_manifest, r)) \<in> set (ct_published (example_catalog r))"
    and "\<forall>(d', action', m', r') \<in> set (ct_published (example_catalog r)).
        item m' ''action_digest'' = PyStr example_digest \<longrightarrow> action' = example_action \<and> admits example_config (example_catalog r) (action', m', r')"
  using assms
  by (simp_all add: example_catalog_def published_bytes_def example_manifest_facts sum_sizes_def descriptor_def max_safe_integer_def
      configured_for_def example_config_def plain_scheme_def)

lemma example_import:
  "\<exists>r s'. catalog_ok plain_scheme (ms_view example_store) (example_catalog r)
    \<and> admits example_config (example_catalog r) (example_action, example_manifest, r)
    \<and> import_from_peer plain_scheme example_action (example_peer r) example_config import_in_memory 0 (new_fed_cache (u ''peers''))
      = (s', Inr \<lparr>io_hit = True, io_reason = ''imported'', io_result_digest = Some (result_id example_manifest), io_bytes = 2\<rparr>)
    \<and> (\<exists>s'' ms. fc_candidates s' 5 example_digest = Inr (s'', ms) \<and> example_manifest \<in> set ms)"
proof -
  obtain r where r: "catalog_ok plain_scheme (ms_view example_store) (example_catalog r)"
    "admits example_config (example_catalog r) (example_action, example_manifest, r)" using example_published by blast
  have now: "(0::int) < max_instant" by (simp add: max_instant_def)
  from honest_import_bundle [OF plain_scheme_ok r(1) order_refl now example_honest(1-3) [OF r(2)] example_manifest_facts(2) example_honest(4) [OF r(2)]]
  obtain e b where e: "rbind (action_digest example_action) (\<lambda>requested.
          dbind (select_entry plain_scheme example_config example_action requested 0 (catalog_availability plain_scheme (example_catalog r) 0))
            (fetch_bundle_checked plain_scheme example_config requested (example_peer r)))
        = Inr (Proceed (e, b, 2))" "item e ''result_digest'' = PyStr (result_id example_manifest)"
    and b: "fb_manifest b = example_manifest" "intact b"
    by (auto simp: example_catalog_def example_peer_def example_manifest_facts sum_sizes_def descriptor_def)
  let ?until = "0 + micros (pc_retention_seconds example_config)"
  have m: "manifest_ok (fb_manifest b)" "item (fb_manifest b) ''action_digest'' = PyStr example_digest"
    using b example_manifest_facts by simp_all
  from imported_served [OF fc_inv_new m(1) b(2) m(2), of ?until "u ''peers''"] obtain s' where
    s': "import_in_memory b ?until (new_fed_cache (u ''peers'')) = (s', Inr ())"
      "\<forall>t. t < ?until \<longrightarrow> (\<exists>s'' ms. fc_candidates s' t example_digest = Inr (s'', ms) \<and> fb_manifest b \<in> set ms)" by blast
  moreover have "5 < ?until" by (simp add: micros_def example_config_def)
  ultimately have "\<exists>s'' ms. fc_candidates s' 5 example_digest = Inr (s'', ms) \<and> example_manifest \<in> set ms" using b(1) by auto
  moreover have "import_from_peer plain_scheme example_action (example_peer r) example_config import_in_memory 0 (new_fed_cache (u ''peers''))
      = (s', Inr \<lparr>io_hit = True, io_reason = ''imported'', io_result_digest = Some (result_id example_manifest), io_bytes = 2\<rparr>)"
    using e s'(1) by (simp add: import_from_peer_def example_peer_def)
  ultimately show ?thesis using r by blast
qed

section \<open>The guarantees\<close>

text \<open>C14: An import can be trusted, and a refused one has no effect. A hit means that the configured peer
  announced the result for exactly this action and operation, in a manifest that it signed and that is
  neither too old nor from the future; that the manifest of the result has the announced digest, was
  issued by a trusted producer, and carries a receipt that verifies under a configured key; that
  every artifact has the size and the digest the manifest states, and that the bytes are as many as
  announced and within the transfer limit. The bundle is then stored under a lease of the configured
  length; without a hit the destination is left as it was.\<close>

theorem federation_import_sound:
  assumes "import_from_peer E action peer P destination now s = (s', Inr r)"
  shows "if io_hit r then
      (\<exists>requested m t e b d. action_digest action = Inr requested
        \<and> pr_availability peer now = Inr m \<and> announced_by E P m \<and> fed_parse_time (item m ''generated_at'') = Inr t
        \<and> now - micros (pc_max_age_seconds P) \<le> t \<and> t \<le> now + micros (pc_max_skew_seconds P)
        \<and> e \<in> set (entries_of m) \<and> item e ''action_digest'' = PyStr requested \<and> item e ''operation'' = item action ''operation''
        \<and> operation_key e \<in> pc_operations P \<and> item e ''result_digest'' = PyStr d \<and> io_result_digest r = Some d
        \<and> pr_fetch_bundle peer d = Inr (Some b) \<and> manifest_digest (fb_manifest b) = Inr d
        \<and> item (fb_manifest b) ''action_digest'' = PyStr requested
        \<and> str_of (item (fb_manifest b) ''producer'') \<in> pc_producers P \<and> receipted_by E P b \<and> intact b
        \<and> io_bytes r = sum_sizes (artifacts_of (fb_manifest b)) \<and> io_bytes r \<le> pc_max_transfer_bytes P
        \<and> destination b (now + micros (pc_retention_seconds P)) s = (s', Inr ()))
    else s' = s"
proof (cases "io_hit r")
  case False
  with assms show ?thesis by (auto simp: import_from_peer_def split: sum.splits prod.splits decision.splits)
next
  case True
  from assms obtain requested e b k where a: "action_digest action = Inr requested"
    and e: "select_entry E P action requested now (pr_availability peer now) = Inr (Proceed e)"
    and b: "pr_fetch_bundle peer (str_of (item e ''result_digest'')) = Inr (Some b)"
    and k: "check_bundle E P requested e b = Inr (Proceed k)"
    and r: "destination b (now + micros (pc_retention_seconds P)) s = (s', Inr ())"
      "io_result_digest r = Some (str_of (item e ''result_digest''))" "io_bytes r = k"
    using import_from_peer_hit [OF _ True] by metis
  from select_entry_Proceed [OF e] check_bundle_Proceed [OF k] True a b r show ?thesis by fastforce
qed

theorem federation_import_sound_witness:
  "\<exists>r b requested m. action_digest example_action = Inr requested
     \<and> pr_availability (example_peer r) 0 = Inr m \<and> announced_by plain_scheme example_config m
     \<and> pr_fetch_bundle (example_peer r) (result_id example_manifest) = Inr (Some b) \<and> intact b"
proof -
  obtain r s' where i: "import_from_peer plain_scheme example_action (example_peer r) example_config import_in_memory 0 (new_fed_cache (u ''peers''))
      = (s', Inr \<lparr>io_hit = True, io_reason = ''imported'', io_result_digest = Some (result_id example_manifest), io_bytes = 2\<rparr>)"
    using example_import by blast
  from federation_import_sound [OF i] show ?thesis by (auto intro!: exI [of _ r])
qed

text \<open>C15: Imported results are served only under a lease. After any sequence of imports from peers and of
  reads at any times, a lookup in the cache returns, and every manifest it returns is valid, is for
  the requested action, and is under a lease that has not ended and that some import gave; all of its
  artifacts are then in the cache with the bytes their digests state.\<close>

theorem federation_cache_leases:
  "\<exists>s' ms. fc_candidates (fed_run E calls (new_fed_cache name)) now requested = Inr (s', ms)
    \<and> (\<forall>m. m \<in> set ms \<longrightarrow> manifest_ok m \<and> item m ''action_digest'' = PyStr requested
        \<and> (\<exists>until c. (result_id m, until) \<in> set (fc_leases s') \<and> now < until \<and> c \<in> set calls \<and> until \<in> lease_ends c)
        \<and> (\<forall>a. a \<in> set (artifacts_of m) \<longrightarrow>
            (\<exists>data. fc_get_blob s' now (str_of (item a ''digest'')) = Inr (s', Some data) \<and> item a ''digest'' = PyStr (digest_bytes data))))"
proof -
  let ?L = "\<Union>c \<in> set calls. lease_ends c" and ?s = "fed_run E calls (new_fed_cache name)"
  have "fc_inv ?L ?s" by (rule fed_run_inv [OF subset_refl fc_inv_new])
  from fc_prune_inv [OF this, of now] obtain s' n where p: "fc_prune ?s now = Inr (s', n)" "fc_inv ?L s'"
    "\<forall>p \<in> set (fc_leases s'). now < snd p" by blast
  with expired_none have again: "fc_prune s' now = Inr (s', 0)" by (simp add: fc_prune_def)
  have "fc_candidates ?s now requested = Inr (s', rev (list_at (fc_results s') requested))"
    using p(1) by (simp add: fc_candidates_def after_prune_def)
  moreover have "manifest_ok m \<and> item m ''action_digest'' = PyStr requested
      \<and> (\<exists>until c. (result_id m, until) \<in> set (fc_leases s') \<and> now < until \<and> c \<in> set calls \<and> until \<in> lease_ends c)
      \<and> (\<forall>a. a \<in> set (artifacts_of m) \<longrightarrow>
          (\<exists>data. fc_get_blob s' now (str_of (item a ''digest'')) = Inr (s', Some data) \<and> item a ''digest'' = PyStr (digest_bytes data)))"
    if "m \<in> set (rev (list_at (fc_results s') requested))" for m
  proof -
    from that list_at_in obtain ms where ms: "(requested, ms) \<in> set (fc_results s')" "m \<in> set ms" by force
    note inv = p(2) [unfolded fc_inv_def]
    from inv ms have h: "manifest_ok m" "item m ''action_digest'' = PyStr requested" "result_id m \<in> fst ` set (fc_leases s')"
      "\<forall>a \<in> set (artifacts_of m). blob_held (fc_blobs s') a" by auto
    from h(3) obtain until where l: "(result_id m, until) \<in> set (fc_leases s')" by force
    with p(3) have "now < until" by force
    moreover have "until \<in> ?L" using inv l by force
    ultimately have "\<exists>until c. (result_id m, until) \<in> set (fc_leases s') \<and> now < until \<and> c \<in> set calls \<and> until \<in> lease_ends c"
      using l by blast
    with h again show ?thesis by (auto simp: fc_get_blob_def after_prune_def blob_held_def)
  qed
  ultimately show ?thesis by blast
qed

theorem federation_cache_leases_witness:
  "\<exists>r (s' :: fed_cache) until. (result_id example_manifest, until) \<in> set (fc_leases s') \<and> 5 < until
     \<and> until \<in> lease_ends (Fed_import example_action (example_peer r) example_config 0)"
proof -
  obtain r s' s'' ms where i: "import_from_peer plain_scheme example_action (example_peer r) example_config import_in_memory 0
      (new_fed_cache (u ''peers''))
      = (s', Inr \<lparr>io_hit = True, io_reason = ''imported'', io_result_digest = Some (result_id example_manifest), io_bytes = 2\<rparr>)"
    and c: "fc_candidates s' 5 example_digest = Inr (s'', ms)" "example_manifest \<in> set ms"
    using example_import by blast
  have run: "fed_run plain_scheme [Fed_import example_action (example_peer r) example_config 0] (new_fed_cache (u ''peers'')) = s'"
    using i by (simp add: fed_run_def)
  from federation_cache_leases [of plain_scheme "[Fed_import example_action (example_peer r) example_config 0]" "u ''peers''" 5 example_digest]
    run c have "(result_id example_manifest, micros (pc_retention_seconds example_config)) \<in> set (fc_leases s'') \<and> 5 < micros (pc_retention_seconds example_config)"
    by auto
  then have "(result_id example_manifest, micros (pc_retention_seconds example_config)) \<in> set (fc_leases s'') \<and> 5 < micros (pc_retention_seconds example_config)
      \<and> micros (pc_retention_seconds example_config) \<in> lease_ends (Fed_import example_action (example_peer r) example_config 0)" by simp
  then show ?thesis by blast
qed

text \<open>C16: An honest peer is useful. When a catalog holds a result for an action, a receiver configured with the
  keys of that peer, whose limits, producers and operations admit what the catalog holds for the action,
  imports one of those results, whatever its own cache holds; and until the lease of the configured
  length ends, every lookup for the action returns that result.\<close>

theorem federation_honest_import:
  assumes "ed25519_ok E" "catalog_ok E view C" "0 \<le> now" "now < max_instant"
    and "list_all (\<lambda>p. published_bytes p \<le> max_safe_integer) (ct_published C)" "configured_for E P C"
    and "(d, (action, m, r)) \<in> set (ct_published C)" "item m ''action_digest'' = PyStr requested"
    and "\<forall>(d', action', m', r') \<in> set (ct_published C).
        item m' ''action_digest'' = PyStr requested \<longrightarrow> action' = action \<and> admits P C (action', m', r')"
  shows "\<exists>s' d' m' r'. (d', (action, m', r')) \<in> set (ct_published C)
    \<and> import_from_peer E action \<lparr>pr_availability = catalog_availability E C, pr_fetch_bundle = catalog_fetch_bundle view C\<rparr> P
        import_in_memory now (fed_run E calls (new_fed_cache name))
      = (s', Inr \<lparr>io_hit = True, io_reason = ''imported'', io_result_digest = Some d', io_bytes = sum_sizes (artifacts_of m')\<rparr>)
    \<and> (\<forall>t. t < now + micros (pc_retention_seconds P) \<longrightarrow>
        (\<exists>s'' ms. fc_candidates s' t requested = Inr (s'', ms) \<and> m' \<in> set ms))"
proof -
  let ?s = "fed_run E calls (new_fed_cache name)" and ?until = "now + micros (pc_retention_seconds P)"
  obtain d' m' r' b where b: "(d', (action, m', r')) \<in> set (ct_published C)" "item m' ''action_digest'' = PyStr requested"
    "fb_manifest b = m'" "intact b" "manifest_ok m'"
    "\<exists>e. rbind (action_digest action) (\<lambda>requested.
          dbind (select_entry E P action requested now (catalog_availability E C now))
            (fetch_bundle_checked E P requested \<lparr>pr_availability = catalog_availability E C, pr_fetch_bundle = catalog_fetch_bundle view C\<rparr>))
        = Inr (Proceed (e, b, sum_sizes (artifacts_of m'))) \<and> item e ''result_digest'' = PyStr d'"
    using honest_import_bundle [OF assms] by blast
  have "manifest_ok (fb_manifest b)" "item (fb_manifest b) ''action_digest'' = PyStr requested" using b by simp_all
  from imported_served [OF fed_run_any this(1) b(4) this(2), of ?until] obtain s' where
    s': "import_in_memory b ?until ?s = (s', Inr ())"
      "\<forall>t. t < ?until \<longrightarrow> (\<exists>s'' ms. fc_candidates s' t requested = Inr (s'', ms) \<and> fb_manifest b \<in> set ms)" by blast
  from b(6) s'(1) have "import_from_peer E action
      \<lparr>pr_availability = catalog_availability E C, pr_fetch_bundle = catalog_fetch_bundle view C\<rparr> P import_in_memory now ?s
    = (s', Inr \<lparr>io_hit = True, io_reason = ''imported'', io_result_digest = Some d', io_bytes = sum_sizes (artifacts_of m')\<rparr>)"
    by (auto simp: import_from_peer_def)
  with b(1,3) s'(2) show ?thesis by blast
qed

theorem federation_honest_import_witness:
  "\<exists>r s' d'. import_from_peer plain_scheme example_action (example_peer r) example_config import_in_memory 0
      (fed_run plain_scheme [Fed_read 7] (new_fed_cache (u ''peers'')))
    = (s', Inr \<lparr>io_hit = True, io_reason = ''imported'', io_result_digest = Some d', io_bytes = 2\<rparr>)"
proof -
  obtain r where r: "catalog_ok plain_scheme (ms_view example_store) (example_catalog r)"
    "admits example_config (example_catalog r) (example_action, example_manifest, r)" using example_published by blast
  have now: "(0::int) < max_instant" by (simp add: max_instant_def)
  from federation_honest_import [OF plain_scheme_ok r(1) order_refl now example_honest(1-3) [OF r(2)] example_manifest_facts(2)
      example_honest(4) [OF r(2)], of "[Fed_read 7]" "u ''peers''"]
  obtain s' d' where "import_from_peer plain_scheme example_action (example_peer r) example_config import_in_memory 0
      (fed_run plain_scheme [Fed_read 7] (new_fed_cache (u ''peers'')))
    = (s', Inr \<lparr>io_hit = True, io_reason = ''imported'', io_result_digest = Some d', io_bytes = 2\<rparr>)"
    by (auto simp: example_catalog_def example_peer_def example_manifest_facts sum_sizes_def descriptor_def)
  then show ?thesis by blast
qed

end
