(* ===== verification/Publication_Theorems.thy ===== *)
theory Publication_Theorems
  imports Pilot Reloaded Federation_Properties
begin

text \<open>
  A publication that was packaged is read back by an origin and accepted by its catalog.
\<close>

section \<open>Files\<close>

lemma load_document_wf: "load_document fs path = Inr v \<Longrightarrow> wf_val v \<and> is_dict v"
  by (auto simp: load_document_def pilot_strict_json_def rbind_Inr dest: loads_bytes_wf split: if_splits sum.splits)

lemma load_document_line:
  "al_get fs path = Some (File (b @ [10])) \<Longrightarrow> wf_val d \<Longrightarrow> is_dict d \<Longrightarrow> canonical_json d = Inr b \<Longrightarrow> load_document fs path = Inr (norm d)"
  by (simp add: load_document_def read_bytes_def pilot_strict_json_def loads_canonical_line)

lemma load_document_text:
  "al_get fs path = Some (File b) \<Longrightarrow> wf_val d \<Longrightarrow> is_dict d \<Longrightarrow> canonical_json d = Inr b \<Longrightarrow> load_document fs path = Inr (norm d)"
  by (simp add: load_document_def read_bytes_def pilot_strict_json_def loads_canonical)

lemma write_new_Inr: "write_new fs path data = Inr fs' \<longleftrightarrow> al_get fs path = None \<and> fs' = al_set fs path (File data)"
  by (auto simp: write_new_def file_exists_def)

section \<open>Artifacts of a publication\<close>

definition encoded_blob :: "pyval \<Rightarrow> pyval \<Rightarrow> bytes result" where
  "encoded_blob artifacts d =
     rbind (pilot_decode_blob (case al_get (pairs_of artifacts) (item d ''name'') of Some v \<Rightarrow> v | None \<Rightarrow> PyNone) ''publication artifact'') (\<lambda>blob.
       seq (guard (int (length blob) = int_of (item d ''size'') \<and> PyStr (digest_bytes blob) = item d ''digest'')
              (ValueError ''publication artifact integrity check failed'')) (Inr blob))"

lemma load_artifacts_into_Cons:
  "load_artifacts_into artifacts (d # ds) s =
     (case encoded_blob artifacts d of Inl e \<Rightarrow> (s, Inl e) | Inr blob \<Rightarrow> load_artifacts_into artifacts ds (fst (ms_put_blob s blob)))"
  by (simp add: encoded_blob_def)

lemma load_artifacts_ok: "snd (load_artifacts_into artifacts ds s) = Inr () \<longleftrightarrow> list_all (\<lambda>d. ok (encoded_blob artifacts d)) ds"
  by (induction ds arbitrary: s) (auto simp: load_artifacts_into_Cons ok_iff simp del: load_artifacts_into.simps(2) split: sum.splits)

text \<open>After loading, a blob under a digest of the publication belongs to a descriptor with that digest.\<close>

lemma load_artifacts_blobs:
  assumes "load_artifacts_into artifacts ds s = (s', Inr ())"
  shows "(k \<in> (\<lambda>d. str_of (item d ''digest'')) ` set ds \<longrightarrow>
      (\<exists>d \<in> set ds. \<exists>blob. encoded_blob artifacts d = Inr blob \<and> digest_bytes blob = k \<and> ms_blobs s' k = Some blob))
    \<and> (k \<notin> (\<lambda>d. str_of (item d ''digest'')) ` set ds \<longrightarrow> ms_blobs s' k = ms_blobs s k)"
  using assms
proof (induction ds arbitrary: s)
  case (Cons d ds)
  then obtain blob where b: "encoded_blob artifacts d = Inr blob"
    and rest: "load_artifacts_into artifacts ds (fst (ms_put_blob s blob)) = (s', Inr ())"
    by (auto simp: load_artifacts_into_Cons simp del: load_artifacts_into.simps(2) split: sum.splits)
  then have d: "str_of (item d ''digest'') = digest_bytes blob"
    by (auto simp: encoded_blob_def checks) (metis str_of.simps(1))
  have put: "ms_blobs (fst (ms_put_blob s blob)) k = (if k = digest_bytes blob then Some blob else ms_blobs s k)"
    by (simp add: ms_put_blob_def Let_def)
  show ?case
  proof (cases "k \<in> (\<lambda>d. str_of (item d ''digest'')) ` set ds")
    case True
    with Cons.IH [OF rest] show ?thesis by simp
  next
    case False
    with Cons.IH [OF rest] put have "ms_blobs s' k = (if k = digest_bytes blob then Some blob else ms_blobs s k)" by simp
    with False b d show ?thesis by (cases "k = digest_bytes blob") (simp_all, blast?)
  qed
qed simp

definition sizes_agree :: "pyval list \<Rightarrow> bool" where
  "sizes_agree ds \<longleftrightarrow> list_all (\<lambda>a. list_all (\<lambda>b. item a ''digest'' \<noteq> item b ''digest'' \<or> item a ''size'' = item b ''size'') ds) ds"

lemma published_artifacts_present:
  assumes "list_all (\<lambda>d. \<exists>data. ms_blobs s (str_of (item d ''digest'')) = Some data \<and> int (length data) = int_of (item d ''size'')
      \<and> PyStr (digest_bytes data) = item d ''digest'') ds"
  shows "check_published_artifacts (ms_view s) ds = Inr ()"
  using assms by (induction ds) (auto simp: ms_view_def ms_get_blob_def)

lemma load_artifacts_published:
  assumes "load_artifacts_into artifacts ds s = (s', Inr ())" "list_all artifact_ok ds" "sizes_agree ds"
  shows "check_published_artifacts (ms_view s') ds = Inr ()"
proof (rule published_artifacts_present, unfold list_all_iff, intro ballI)
  fix d assume d: "d \<in> set ds"
  from load_artifacts_blobs [OF assms(1), of "str_of (item d ''digest'')"] d obtain d' blob where
    b: "d' \<in> set ds" "encoded_blob artifacts d' = Inr blob" "digest_bytes blob = str_of (item d ''digest'')"
      "ms_blobs s' (str_of (item d ''digest'')) = Some blob" by blast
  have "is_str (item d ''digest'')" using d assms(2) by (simp add: list_all_iff artifact_ok_def digest_val_def)
  then have digest: "PyStr (digest_bytes blob) = item d ''digest''" using b(3) by (auto elim!: is_strE)
  moreover have "PyStr (digest_bytes blob) = item d' ''digest''" "int (length blob) = int_of (item d' ''size'')"
    using b(2) unfolding encoded_blob_def checks by blast+
  moreover have "item d ''digest'' \<noteq> item d' ''digest'' \<or> item d ''size'' = item d' ''size''"
    using assms(3) d b(1) unfolding sizes_agree_def list_all_iff by blast
  ultimately show "\<exists>data. ms_blobs s' (str_of (item d ''digest'')) = Some data \<and> int (length data) = int_of (item d ''size'')
      \<and> PyStr (digest_bytes data) = item d ''digest''"
    using b(4) by (intro exI [of _ blob]) metis
qed

text \<open>Reading the artifacts back changes nothing: their descriptors and their text are the same.\<close>

lemma descriptor_norm:
  "artifact_ok d \<Longrightarrow> jsonable d \<Longrightarrow> item (norm d) ''name'' = item d ''name'' \<and> item (norm d) ''digest'' = item d ''digest''
     \<and> item (norm d) ''size'' = item d ''size''"
  by (auto simp: artifact_ok_def item_norm norm_str nonempty_str_def digest_val_def elim!: is_strE) (cases "item d ''size''"; simp)

lemma sizes_agree_norm:
  assumes "list_all artifact_ok ds" "list_all jsonable ds"
  shows "sizes_agree (map norm ds) = sizes_agree ds"
proof -
  have "item (norm d) ''digest'' = item d ''digest''" "item (norm d) ''size'' = item d ''size''" if "d \<in> set ds" for d
    using that assms descriptor_norm by (simp_all add: list_all_iff)
  then show ?thesis unfolding sizes_agree_def list.pred_map comp_def by (intro list.pred_cong refl) (simp only:)
qed

lemma encoded_blob_norm:
  assumes "artifact_ok d" "jsonable d" "jsonable (PyDict kvs)"
  shows "encoded_blob (norm (PyDict kvs)) (norm d) = encoded_blob (PyDict kvs) d"
proof -
  obtain n where n: "item d ''name'' = PyStr n" using assms(1) by (auto simp: artifact_ok_def nonempty_str_def elim!: is_strE)
  have "al_get (pairs_of (norm (PyDict kvs))) (PyStr n) = map_option norm (al_get kvs (PyStr n))" by (rule al_get_norm) (rule assms(3))
  moreover have "pilot_decode_blob (norm v) label = pilot_decode_blob v label" for v label
    unfolding pilot_decode_blob_def norm_shape by (rule refl)
  ultimately show ?thesis using descriptor_norm [OF assms(1,2)] n unfolding encoded_blob_def
    by (simp del: norm.simps split: option.split)
qed

lemma load_artifacts_norm:
  assumes "list_all artifact_ok ds" "list_all jsonable ds" "jsonable (PyDict kvs)"
  shows "load_artifacts_into (norm (PyDict kvs)) (map norm ds) s = load_artifacts_into (PyDict kvs) ds s"
  using assms(1,2)
proof (induction ds arbitrary: s)
  case (Cons d ds)
  then have "encoded_blob (norm (PyDict kvs)) (norm d) = encoded_blob (PyDict kvs) d" using assms(3) by (intro encoded_blob_norm) simp_all
  with Cons show ?case by (simp add: load_artifacts_into_Cons del: load_artifacts_into.simps(2) norm.simps split: sum.split)
qed simp

section \<open>Publications\<close>

definition publication_ok :: "pyval \<Rightarrow> bool" where
  "publication_ok d \<longleftrightarrow> exact_keys d publication_fields
     \<and> item d ''spec_version'' = S ''oncemesh.federation-publication/v0'' \<and> item d ''classification'' = S ''public''
     \<and> validate_action (item d ''action'') = Inr () \<and> manifest_ok (item d ''manifest'') \<and> receipt_ok True (item d ''receipt'')
     \<and> is_dict (item d ''artifacts'') \<and> keys (item d ''artifacts'') = (\<lambda>a. item a ''name'') ` set (artifacts_of (item d ''manifest''))
     \<and> list_all (\<lambda>a. ok (encoded_blob (item d ''artifacts'') a)) (artifacts_of (item d ''manifest''))"

lemma publication_ok_iff:
  "publication_ok d \<longleftrightarrow> check_publication d = Inr ()
     \<and> list_all (\<lambda>a. ok (encoded_blob (item d ''artifacts'') a)) (artifacts_of (item d ''manifest''))"
  by (simp add: publication_ok_def check_publication_def checks pilot_exact_keys_def validate_manifest_iff validate_receipt_iff)

lemma load_publication_document_ok:
  assumes "publication_ok d"
  shows "\<exists>s'. load_publication_document d s = (s', Inr (item d ''action'', item d ''manifest'', item d ''receipt''))
    \<and> load_artifacts_into (item d ''artifacts'') (artifacts_of (item d ''manifest'')) s = (s', Inr ())"
proof -
  have "snd (load_artifacts_into (item d ''artifacts'') (artifacts_of (item d ''manifest'')) s) = Inr ()"
    using assms by (simp add: load_artifacts_ok publication_ok_iff)
  then obtain s' where "load_artifacts_into (item d ''artifacts'') (artifacts_of (item d ''manifest'')) s = (s', Inr ())"
    by (metis prod.collapse)
  with assms show ?thesis by (simp add: load_publication_document_def publication_ok_iff)
qed

lemma load_publication_document_Inr: "snd (load_publication_document d s) = Inr x \<Longrightarrow> publication_ok d"
  unfolding publication_ok_iff load_artifacts_ok [symmetric, of _ _ s]
  by (auto simp: load_publication_document_def split: sum.splits prod.splits)

lemma publication_ok_norm:
  assumes "publication_ok d" "jsonable d"
  shows "publication_ok (norm d)"
proof -
  let ?m = "item d ''manifest''"
  note i = item_norm [OF assms(2)] jsonable_item [OF assms(2)]
  have wf: "wf_val (item d k)" for k using i(2) by (simp add: jsonable_def)
  have p: "validate_action (item d ''action'') = Inr ()" "manifest_ok ?m" "receipt_ok True (item d ''receipt'')" "is_dict (item d ''artifacts'')"
    and rest: "exact_keys d publication_fields" "item d ''spec_version'' = S ''oncemesh.federation-publication/v0''"
      "item d ''classification'' = S ''public''" "keys (item d ''artifacts'') = (\<lambda>a. item a ''name'') ` set (artifacts_of ?m)"
      "list_all (\<lambda>a. ok (encoded_blob (item d ''artifacts'') a)) (artifacts_of ?m)"
    using assms(1) by (simp_all add: publication_ok_def)
  obtain kvs where kvs: "item d ''artifacts'' = PyDict kvs" using p(4) by (cases "item d ''artifacts''") simp_all
  have art: "artifact_ok a" "jsonable a" if "a \<in> set (artifacts_of ?m)" for a
    using that p(2) manifest_parts(2) [OF wf p(2)] by (simp_all add: manifest_ok_def list_all_iff)
  have arts: "artifacts_of (item (norm d) ''manifest'') = map norm (artifacts_of ?m)"
    by (simp add: artifacts_of_def item_norm jsonable_item assms(2))
  have "(\<lambda>a. item a ''name'') ` set (artifacts_of (item (norm d) ''manifest'')) = (\<lambda>a. item a ''name'') ` set (artifacts_of ?m)"
    unfolding arts set_map image_image using descriptor_norm art by (intro image_cong) simp_all
  moreover have blobs: "encoded_blob (item (norm d) ''artifacts'') (norm a) = encoded_blob (item d ''artifacts'') a" if "a \<in> set (artifacts_of ?m)" for a
    using encoded_blob_norm [OF art [OF that], of kvs] i kvs by (metis jsonable_item assms(2))
  moreover have "list_all (\<lambda>a. ok (encoded_blob (item (norm d) ''artifacts'') a)) (artifacts_of (item (norm d) ''manifest''))"
    unfolding arts using rest(5) blobs by (simp add: list_all_iff)
  ultimately show ?thesis
    using p rest validate_action_norm [OF wf p(1)] manifest_ok_norm [OF wf p(2)] receipt_ok_norm [OF wf p(3)]
    unfolding publication_ok_def by (simp add: i assms(2) keys_norm)
qed

section \<open>Packaging\<close>

lemma package_artifacts_Inr:
  assumes "package_artifacts fs artifact_files ds = Inr artifacts"
  shows "map fst artifacts = map (\<lambda>d. str_of (item d ''name'')) ds \<and> list_all (\<lambda>(n, e). \<exists>blob. e = b64_encode blob) artifacts"
  using assms
proof (induction ds arbitrary: artifacts)
  case (Cons d ds)
  then show ?case by (auto simp: rbind_Inr split: option.splits sum.splits if_splits)
qed simp

text \<open>What a successful call has checked and written.\<close>

lemma package_publication_Inr:
  assumes "package_publication E fs action_file manifest_file receipt_file identity_file artifact_files output classification confirmed
      = Inr (fs', publication)"
  shows "\<exists>action m r identity key artifacts text requested.
     load_document fs action_file = Inr action \<and> load_document fs manifest_file = Inr m \<and> load_document fs receipt_file = Inr r
     \<and> load_document fs identity_file = Inr identity \<and> validate_federation_identity identity (Some ''receipt'') = Inr key
     \<and> action_digest action = Inr requested \<and> item m ''action_digest'' = PyStr requested
     \<and> verify_receipt_for_manifest E r m key = Inr True
     \<and> package_artifacts fs artifact_files (artifacts_of m) = Inr artifacts
     \<and> publication = publication_document action m r artifacts
     \<and> publication_ok publication \<and> canonical_json publication = Inr text
     \<and> fs' = al_set fs output (File (text @ [10])) \<and> al_get fs output = None"
  using assms unfolding package_publication_def checks Let_def
  by (elim exE conjE) (auto simp: write_new_Inr dest: load_publication_document_Inr)

lemma publication_document_item [simp]:
  "item (publication_document a m r artifacts) ''action'' = a" "item (publication_document a m r artifacts) ''manifest'' = m"
  "item (publication_document a m r artifacts) ''receipt'' = r" "is_dict (publication_document a m r artifacts)"
  by (simp_all add: publication_document_def)

lemma b64_encode_scalar: "list_all scalar (b64_encode bs)"
  using b64_chars [of bs] by (auto simp: list_all_iff is_b64_def b64_val_def scalar_def code_point_def surrogate_def split: if_splits dest!: bspec)

definition artifacts_document :: "(pystr \<times> pystr) list \<Rightarrow> pyval" where
  "artifacts_document artifacts = PyDict (map (\<lambda>(n, e). (PyStr n, PyStr e)) artifacts)"

lemma artifact_name: "artifact_ok d \<Longrightarrow> PyStr (str_of (item d ''name'')) = item d ''name''"
  by (simp add: artifact_ok_def nonempty_str_def str_of_eq)

lemma artifacts_document_jsonable:
  assumes "package_artifacts fs artifact_files ds = Inr artifacts" "list_all artifact_ok ds" "list_all jsonable ds"
    and "distinct (map (\<lambda>d. item d ''name'') ds)"
  shows "jsonable (artifacts_document artifacts)" "keys (artifacts_document artifacts) = (\<lambda>d. item d ''name'') ` set ds"
proof -
  note p = package_artifacts_Inr [OF assms(1)]
  have names: "map PyStr (map fst artifacts) = map (\<lambda>d. item d ''name'') ds"
    using assms(2) artifact_name p by (auto simp: list_all_iff)
  have scalar: "list_all scalar n" if "PyStr n \<in> (\<lambda>d. item d ''name'') ` set ds" for n
  proof -
    from that obtain d where d: "d \<in> set ds" "item d ''name'' = PyStr n" by force
    with jsonable_item [of d "''name''"] assms(3) show ?thesis by (simp add: list_all_iff jsonable_simps)
  qed
  have "map fst (map (\<lambda>(n, e). (PyStr n, PyStr e)) artifacts) = map PyStr (map fst artifacts)" by (simp add: split_def comp_def)
  then have keys: "map fst (map (\<lambda>(n, e). (PyStr n, PyStr e)) artifacts) = map (\<lambda>d. item d ''name'') ds" using names by (rule trans)
  then show "keys (artifacts_document artifacts) = (\<lambda>d. item d ''name'') ` set ds"
    unfolding artifacts_document_def keys_def pairs_of.simps by (metis list.set_map)
  have "list_all scalar n \<and> list_all scalar e" if "(n, e) \<in> set artifacts" for n e
  proof -
    from that have "PyStr n \<in> set (map PyStr (map fst artifacts))" by force
    then have "PyStr n \<in> (\<lambda>d. item d ''name'') ` set ds" unfolding names by simp
    with scalar p that show ?thesis by (auto simp: list_all_iff [of _ artifacts] b64_encode_scalar)
  qed
  then show "jsonable (artifacts_document artifacts)"
    using keys assms(4) unfolding artifacts_document_def jsonable_simps by (auto simp: jsonable_simps)
qed

lemma manifest_artifacts:
  assumes "wf_val m" "manifest_ok m"
  shows "list_all artifact_ok (artifacts_of m)" "list_all jsonable (artifacts_of m)" "distinct (map (\<lambda>d. item d ''name'') (artifacts_of m))"
  using assms(2) manifest_parts(2) [OF assms] by (simp_all add: manifest_ok_def list_all_iff [of jsonable])

lemma publication_document_jsonable:
  assumes "wf_val a" "wf_val m" "wf_val r" "validate_action a = Inr ()" "manifest_ok m" "receipt_ok True r"
    and "package_artifacts fs artifact_files (artifacts_of m) = Inr artifacts"
  shows "jsonable (publication_document a m r artifacts)"
proof -
  have "jsonable a" "jsonable m" "jsonable r"
    using action_jsonable [OF assms(1,4)] manifest_parts(1) [OF assms(2,5)] signed_receipt_jsonable [OF assms(3,6)] by simp_all
  moreover have "jsonable (artifacts_document artifacts)"
    by (rule artifacts_document_jsonable(1) [OF assms(7) manifest_artifacts [OF assms(2,5)]])
  ultimately show ?thesis
    unfolding publication_document_def artifacts_document_def [symmetric] by (simp add: jsonable_simps scalar_ascii)
qed

lemma decode_encoded_blob: "pilot_decode_blob (PyStr (b64_encode blob)) label = Inr blob"
proof -
  have "length (b64_encode blob) mod 4 \<noteq> 1" unfolding length_b64_encode by presburger
  then show ?thesis by (simp add: pilot_decode_blob_def b64_chars)
qed

definition file_intact :: "files \<Rightarrow> (pystr \<times> pystr) list \<Rightarrow> pyval \<Rightarrow> bool" where
  "file_intact fs artifact_files d \<longleftrightarrow> (\<exists>path blob. al_get artifact_files (str_of (item d ''name'')) = Some path \<and> read_bytes fs path = Inr blob
     \<and> int (length blob) = int_of (item d ''size'') \<and> PyStr (digest_bytes blob) = item d ''digest'')"

lemma package_artifacts_ok:
  "list_all (file_intact fs artifact_files) ds \<Longrightarrow> \<exists>artifacts. package_artifacts fs artifact_files ds = Inr artifacts"
  by (induction ds) (auto simp: file_intact_def)

lemma package_artifacts_encoded:
  assumes "package_artifacts fs artifact_files ds = Inr artifacts" "list_all artifact_ok ds" "distinct (map (\<lambda>d. item d ''name'') ds)"
  shows "list_all (\<lambda>d. ok (encoded_blob (artifacts_document artifacts) d)) ds"
  using assms
proof (induction ds arbitrary: artifacts)
  case (Cons d ds)
  from Cons.prems(1) obtain blob rest where b: "int (length blob) = int_of (item d ''size'')" "PyStr (digest_bytes blob) = item d ''digest''"
      "artifacts = (str_of (item d ''name''), b64_encode blob) # rest" "package_artifacts fs artifact_files ds = Inr rest"
    by (auto simp: rbind_Inr split: option.splits sum.splits if_splits)
  have str: "PyStr (str_of (item d ''name'')) = item d ''name''" using Cons.prems(2) by (simp add: artifact_name)
  have "ok (encoded_blob (artifacts_document artifacts) d)"
    using b str by (simp add: encoded_blob_def artifacts_document_def decode_encoded_blob ok_iff seq_Inr)
  moreover have "encoded_blob (artifacts_document artifacts) x
      = encoded_blob (artifacts_document rest) x" if "x \<in> set ds" for x
  proof -
    have "item x ''name'' \<noteq> item d ''name''" using that Cons.prems(3) by (simp add: image_iff) metis
    then show ?thesis using str by (simp add: encoded_blob_def artifacts_document_def b(3))
  qed
  moreover have "list_all (\<lambda>d. ok (encoded_blob (artifacts_document rest) d)) ds"
    using Cons.IH [OF b(4)] Cons.prems(2,3) by simp
  ultimately show ?case by (simp add: list_all_iff)
qed simp

text \<open>Everything that is asked for is in place: the call returns.\<close>

lemma package_publication_ok:
  assumes "load_document fs action_file = Inr action" "load_document fs manifest_file = Inr m" "load_document fs receipt_file = Inr r"
    and "load_document fs identity_file = Inr identity" "validate_federation_identity identity (Some ''receipt'') = Inr key"
    and "validate_action action = Inr ()" "action_digest action = Inr requested" "item m ''action_digest'' = PyStr requested"
    and "verify_receipt_for_manifest E r m key = Inr True" "fst ` set artifact_files = artifact_names m"
    and "list_all (file_intact fs artifact_files) (artifacts_of m)" "al_get fs output = None"
  shows "\<exists>fs' artifacts. package_publication E fs action_file manifest_file receipt_file identity_file artifact_files output (u ''public'') True
    = Inr (fs', publication_document action m r artifacts)"
proof -
  have wf: "wf_val action" "wf_val m" "wf_val r" using assms(1-3) load_document_wf by blast+
  from assms(9) have m: "manifest_ok m" and r: "receipt_ok True r"
    by (auto simp: verify_receipt_for_manifest_def seq_Inr validate_manifest_iff validate_receipt_iff)
  obtain artifacts where a: "package_artifacts fs artifact_files (artifacts_of m) = Inr artifacts"
    using package_artifacts_ok [OF assms(11)] by blast
  note mo = manifest_artifacts [OF wf(2) m]
  let ?p = "publication_document action m r artifacts"
  have X: "item ?p ''artifacts'' = artifacts_document artifacts" by (simp add: publication_document_def artifacts_document_def)
  have "exact_keys ?p publication_fields" unfolding publication_document_def exact_keys_obj publication_fields_def by simp
  moreover have "item ?p ''spec_version'' = S ''oncemesh.federation-publication/v0''" "item ?p ''classification'' = S ''public''"
    by (simp_all add: publication_document_def)
  moreover have "is_dict (artifacts_document artifacts)" by (simp add: artifacts_document_def)
  ultimately have ok: "publication_ok ?p"
    using artifacts_document_jsonable(2) [OF a mo] package_artifacts_encoded [OF a mo(1,3)] assms(6) m r
    unfolding publication_ok_def X by simp
  obtain s' where "load_publication_document ?p (ms_init (u ''publication-packager'')) = (s', Inr (action, m, r))"
    using load_publication_document_ok [OF ok] by fastforce
  moreover have "canonical_json ?p = Inr (utf8_bytes (dumps ?p))"
    by (rule canonical_json_jsonable) (rule publication_document_jsonable [OF wf assms(6) m r a])
  moreover have "validate_manifest m = Inr ()" "validate_receipt True r = Inr ()" using m r by (simp_all add: validate_manifest_iff validate_receipt_iff)
  ultimately show ?thesis
    using assms a unfolding package_publication_def by (simp add: file_exists_def guard_def write_new_def Let_def) blast
qed

section \<open>The catalog accepts what was packaged\<close>

lemma catalog_publish_verified:
  assumes "validate_action action = Inr ()" "action_digest action = Inr requested" "item m ''action_digest'' = PyStr requested"
    and "item m ''spec_version'' \<noteq> result_v1" "verify_receipt_for_manifest E r m key = Inr True" "al_get (ct_receipt_keys C) (digest_bytes key) = Some key"
    and "check_published_artifacts view (artifacts_of m) = Inr ()"
  shows "\<exists>C' d. manifest_digest m = Inr d \<and> catalog_publish E view C action m r (u ''public'') = Inr (C', d)"
proof -
  from assms(5) obtain d where d: "manifest_digest m = Inr d" "manifest_ok m" "receipt_ok True r" "verify_receipt E r key = Inr True"
    by (auto simp: verify_receipt_for_manifest_def rbind_Inr seq_Inr validate_manifest_iff validate_receipt_iff split: if_splits)
  have "item (item r ''signature'') ''key_id'' = PyStr (digest_bytes key)" by (rule verify_receipt_True(3) [OF d(4)])
  moreover have "validate_manifest m = Inr ()" "validate_receipt True r = Inr ()" using d by (simp_all add: validate_manifest_iff validate_receipt_iff)
  ultimately show ?thesis using assms d by (simp add: catalog_publish_def validate_federation_result_def guard_def)
qed

text \<open>Loading the normal form of a publication leaves a store from which its catalog publishes.\<close>

lemma loaded_publication_published:
  assumes "publication_ok d" "jsonable d" "action_digest (item d ''action'') = Inr requested"
    and "item (item d ''manifest'') ''action_digest'' = PyStr requested"
    and "verify_receipt_for_manifest E (item d ''receipt'') (item d ''manifest'') key = Inr True"
    and "al_get (ct_receipt_keys C) (digest_bytes key) = Some key" "item (item d ''manifest'') ''spec_version'' \<noteq> result_v1"
    and "sizes_agree (artifacts_of (item d ''manifest''))"
  shows "\<exists>s' C' dg. load_publication_document (norm d) s
      = (s', Inr (norm (item d ''action''), norm (item d ''manifest''), norm (item d ''receipt'')))
    \<and> manifest_digest (item d ''manifest'') = Inr dg
    \<and> catalog_publish E (ms_view s') C (norm (item d ''action'')) (norm (item d ''manifest'')) (norm (item d ''receipt'')) (u ''public'')
        = Inr (C', dg)"
proof -
  let ?m = "item d ''manifest''" and ?p = "norm d"
  have wf: "wf_val (item d k)" for k using jsonable_item [OF assms(2)] by (simp add: jsonable_def)
  have m: "manifest_ok ?m" "validate_action (item d ''action'') = Inr ()" using assms(1) by (simp_all add: publication_ok_def)
  note j = manifest_parts [OF wf m(1)]
  from load_publication_document_ok [OF publication_ok_norm [OF assms(1,2)], of s] obtain s' where
    s': "load_publication_document ?p s = (s', Inr (norm (item d ''action''), norm ?m, norm (item d ''receipt'')))"
      "load_artifacts_into (item ?p ''artifacts'') (artifacts_of (norm ?m)) s = (s', Inr ())" by (auto simp: item_norm [OF assms(2)])
  have arts: "artifacts_of (norm ?m) = map norm (artifacts_of ?m)" by (simp add: artifacts_of_def item_norm j(1))
  have "list_all artifact_ok (artifacts_of ?m)" using m(1) by (simp add: manifest_ok_def)
  then have "sizes_agree (artifacts_of (norm ?m))"
    using assms(8) j(2) by (simp add: arts sizes_agree_norm list_all_iff [of jsonable])
  then have present: "check_published_artifacts (ms_view s') (artifacts_of (norm ?m)) = Inr ()"
    using load_artifacts_published [OF s'(2)] manifest_ok_norm [OF wf m(1)] by (simp add: manifest_ok_def)
  have "item (norm ?m) ''action_digest'' = PyStr requested" "item (norm ?m) ''spec_version'' \<noteq> result_v1"
    using assms(4,7) by (simp_all add: item_norm [OF j(1)] result_v1_def)
  from catalog_publish_verified [OF validate_action_norm [OF wf m(2)] action_digest_norm [OF wf assms(3)] this
      verify_receipt_for_manifest_norm [OF wf wf assms(5)] assms(6) present]
  obtain C' dg where "manifest_digest (norm ?m) = Inr dg"
    "catalog_publish E (ms_view s') C (norm (item d ''action'')) (norm ?m) (norm (item d ''receipt'')) (u ''public'') = Inr (C', dg)" by blast
  moreover from this manifest_digest_ok [OF m(1)] manifest_digest_norm [OF wf] have "manifest_digest ?m = Inr dg" by force
  ultimately show ?thesis using s'(1) by blast
qed

text \<open>C19: A packaged publication can be published. When \<open>package_publication\<close> returns, the file it wrote
  loads as the same action, manifest and receipt in normal form, and every catalog that trusts the key of the
  receipt's identity publishes them from the store they were loaded into, under the digest of the packaged
  manifest. The manifest must not be a result v1 (a catalog refuses those), and descriptors that share a digest
  must agree on the size.\<close>

theorem publication_round_trip:
  assumes "package_publication E fs action_file manifest_file receipt_file identity_file artifact_files output classification confirmed
      = Inr (fs', publication)"
    and "rbind (load_document fs identity_file) (\<lambda>identity. validate_federation_identity identity (Some ''receipt'')) = Inr key"
    and "al_get (ct_receipt_keys C) (digest_bytes key) = Some key"
    and "item (item publication ''manifest'') ''spec_version'' \<noteq> result_v1" "sizes_agree (artifacts_of (item publication ''manifest''))"
  shows "\<exists>s' C' d. load_publication fs' output s
      = (s', Inr (norm (item publication ''action''), norm (item publication ''manifest''), norm (item publication ''receipt'')))
    \<and> manifest_digest (item publication ''manifest'') = Inr d
    \<and> catalog_publish E (ms_view s') C (norm (item publication ''action'')) (norm (item publication ''manifest''))
        (norm (item publication ''receipt'')) (u ''public'') = Inr (C', d)"
proof -
  from package_publication_Inr [OF assms(1)] obtain action m r identity artifacts raw requested where
    p: "load_document fs action_file = Inr action" "load_document fs manifest_file = Inr m" "load_document fs receipt_file = Inr r"
      "action_digest action = Inr requested" "item m ''action_digest'' = PyStr requested" "verify_receipt_for_manifest E r m key = Inr True"
      "package_artifacts fs artifact_files (artifacts_of m) = Inr artifacts"
    and d: "publication = publication_document action m r artifacts" "publication_ok publication" "canonical_json publication = Inr raw"
      "fs' = al_set fs output (File (raw @ [10]))"
    using assms(2) by (auto simp: rbind_Inr)
  have wf: "wf_val action" "wf_val m" "wf_val r" using p(1-3) load_document_wf by blast+
  have "validate_action action = Inr ()" "manifest_ok m" "receipt_ok True r" using d(1,2) by (simp_all add: publication_ok_def)
  then have j: "jsonable publication" unfolding d(1) by (rule publication_document_jsonable [OF wf _ _ _ p(7)])
  have "load_document fs' output = Inr (norm publication)"
    using d j by (intro load_document_line [of _ _ raw]) (simp_all add: publication_document_def jsonable_def)
  then show ?thesis
    using loaded_publication_published [OF d(2) j _ _ _ assms(3-5), of requested E s] p(4-6)
    by (simp add: load_publication_def) (simp add: d(1))
qed

section \<open>An example\<close>

lemma validate_identity_norm:
  assumes "peer_id \<noteq> []" "list_all scalar peer_id" "purpose \<in> {''availability'', ''request'', ''receipt''}" "length key = 32"
  shows "validate_federation_identity (norm (identity_document peer_id purpose key)) (Some purpose) = Inr key"
proof -
  let ?d = "identity_document peer_id purpose key"
  have "list_all scalar (u purpose)" using assms(3) by (auto simp: u_def scalar_ascii)
  then have j: "jsonable ?d"
    using assms(2) is_digest_scalar [OF is_digest_bytes] b64_encode_scalar
    by (simp add: identity_document_def signature_profile_def jsonable_simps scalar_ascii)
  have k: "exact_keys ?d [''spec_version'', ''peer_id'', ''purpose'', ''profile'', ''key_id'', ''public_key_base64url'']"
    unfolding identity_document_def exact_keys_obj by simp
  have i: "item (norm ?d) ''spec_version'' = S ''oncemesh.federation-identity/v0''" "item (norm ?d) ''peer_id'' = PyStr peer_id"
    "item (norm ?d) ''purpose'' = S purpose" "item (norm ?d) ''profile'' = signature_profile"
    "item (norm ?d) ''key_id'' = PyStr (digest_bytes key)" "item (norm ?d) ''public_key_base64url'' = PyStr (b64_encode key)"
    unfolding item_norm [OF j] by (simp_all add: identity_document_def signature_profile_def)
  have c: "canonical_json (norm ?d) = Inr (utf8_bytes (dumps (norm ?d)))" by (rule canonical_json_jsonable) (rule jsonable_norm [OF j])
  have m: "member (S purpose) identity_purposes e = Inr ()" for e using assms(3) by (auto simp: member_def guard_def identity_purposes_def)
  have "pilot_exact_keys (norm ?d) [''spec_version'', ''peer_id'', ''purpose'', ''profile'', ''key_id'', ''public_key_base64url''] label = Inr ()" for label
    using k j by (simp add: pilot_exact_keys_def guard_def)
  with i c m assms(1,4) show ?thesis
    by (simp add: validate_federation_identity_def nonempty_str_def guard_def decode_32_def decode_canonical_encode)
qed

definition example_pilot_files :: "pyval \<Rightarrow> files" where
  "example_pilot_files r =
     [(u ''/action'', File (utf8_bytes (dumps example_action))), (u ''/manifest'', File (utf8_bytes (dumps example_manifest))),
      (u ''/receipt'', File (utf8_bytes (dumps r))),
      (u ''/identity'', File (utf8_bytes (dumps (identity_document (u ''peer'') ''receipt'' example_seed)))), (u ''/body'', File [104, 105])]"

lemma example_package: "\<exists>r fs' publication. wf_val r
    \<and> package_publication plain_scheme (example_pilot_files r) (u ''/action'') (u ''/manifest'') (u ''/receipt'') (u ''/identity'')
        [(u ''body'', u ''/body'')] (u ''/out'') (u ''public'') True = Inr (fs', publication)
    \<and> rbind (load_document (example_pilot_files r) (u ''/identity'')) (\<lambda>identity. validate_federation_identity identity (Some ''receipt''))
        = Inr example_seed
    \<and> item publication ''manifest'' = norm example_manifest"
proof -
  obtain r where r: "verify_receipt_for_manifest plain_scheme r example_manifest example_seed = Inr True" "validate_receipt True r = Inr ()"
    "wf_val r" using example_signed_receipt by blast
  let ?fs = "example_pilot_files r" and ?id = "identity_document (u ''peer'') ''receipt'' example_seed"
  have wf: "wf_val example_action" using example_action_jsonable by (simp add: jsonable_def)
  have action: "is_dict example_action" by (simp add: example_action_def)
  have jr: "jsonable r" "is_dict r" using r(2,3) signed_receipt_jsonable by (auto simp: validate_receipt_iff)
  have jm: "jsonable example_manifest" "is_dict example_manifest"
    using manifest_parts(1) [OF example_manifest_wf] example_manifest_wf(2) by (simp_all add: manifest_ok_def exact_keys_def)
  have id: "jsonable ?id" "is_dict ?id" using is_digest_scalar [OF is_digest_bytes] b64_encode_scalar
    by (simp_all add: identity_document_def signature_profile_def jsonable_simps scalar_ascii)
  have "load_document ?fs (u path) = Inr (norm v)"
    if "al_get ?fs (u path) = Some (File (utf8_bytes (dumps v)))" "jsonable v" "is_dict v" for path v
    using load_document_text [OF that(1) _ that(3) canonical_json_jsonable [OF that(2)]] that(2) by (simp add: jsonable_def)
  then have load: "load_document ?fs (u ''/action'') = Inr (norm example_action)" "load_document ?fs (u ''/manifest'') = Inr (norm example_manifest)"
    "load_document ?fs (u ''/receipt'') = Inr (norm r)" "load_document ?fs (u ''/identity'') = Inr (norm ?id)"
    using example_action_jsonable jm jr id action by (simp_all add: example_pilot_files_def)
  have v: "validate_federation_identity (norm ?id) (Some ''receipt'') = Inr example_seed"
    by (rule validate_identity_norm) (simp_all add: u_def scalar_ascii example_seed_def)
  have arts: "artifacts_of (norm example_manifest) = [norm (descriptor (u ''body'', [104, 105], u ''text/plain''))]"
    unfolding artifacts_of_def item_norm [OF jm(1)] norm_shape unfolding artifacts_of_def [symmetric] example_manifest_facts(5) by simp
  have "artifact_ok (descriptor (u ''body'', [104, 105], u ''text/plain''))" "jsonable (descriptor (u ''body'', [104, 105], u ''text/plain''))"
    using manifest_artifacts [OF example_manifest_wf] unfolding example_manifest_facts(5) by simp_all
  note d = descriptor_norm [OF this]
  have "list_all (file_intact ?fs [(u ''body'', u ''/body'')]) (artifacts_of (norm example_manifest))"
    using d unfolding arts by (simp add: file_intact_def descriptor_def read_bytes_def example_pilot_files_def)
  moreover have "artifact_names (norm example_manifest) = {u ''body''}" using d by (simp add: artifact_names_def arts descriptor_def)
  moreover have "item (norm example_manifest) ''action_digest'' = PyStr example_digest" by (simp add: item_norm [OF jm(1)] example_manifest_facts(2))
  ultimately have "\<exists>fs' artifacts. package_publication plain_scheme ?fs (u ''/action'') (u ''/manifest'') (u ''/receipt'') (u ''/identity'')
      [(u ''body'', u ''/body'')] (u ''/out'') (u ''public'') True
      = Inr (fs', publication_document (norm example_action) (norm example_manifest) (norm r) artifacts)"
    using load v validate_action_norm [OF wf example_action_valid] action_digest_norm [OF wf example_action_digest]
      verify_receipt_for_manifest_norm [OF example_manifest_wf(1) r(3,1)]
    by (intro package_publication_ok) (simp_all add: example_pilot_files_def)
  then show ?thesis using r(3) load(4) v by fastforce
qed

theorem publication_round_trip_witness:
  "\<exists>r fs' publication s' C' d. package_publication plain_scheme (example_pilot_files r) (u ''/action'') (u ''/manifest'') (u ''/receipt'')
      (u ''/identity'') [(u ''body'', u ''/body'')] (u ''/out'') (u ''public'') True = Inr (fs', publication)
    \<and> load_publication fs' (u ''/out'') (ms_init (u ''origin''))
        = (s', Inr (norm (item publication ''action''), norm (item publication ''manifest''), norm (item publication ''receipt'')))
    \<and> catalog_publish plain_scheme (ms_view s') (example_catalog r) (norm (item publication ''action''))
        (norm (item publication ''manifest'')) (norm (item publication ''receipt'')) (u ''public'') = Inr (C', d)"
proof -
  obtain r fs' publication where p: "package_publication plain_scheme (example_pilot_files r) (u ''/action'') (u ''/manifest'') (u ''/receipt'')
        (u ''/identity'') [(u ''body'', u ''/body'')] (u ''/out'') (u ''public'') True = Inr (fs', publication)"
    "rbind (load_document (example_pilot_files r) (u ''/identity'')) (\<lambda>identity. validate_federation_identity identity (Some ''receipt''))
        = Inr example_seed" "item publication ''manifest'' = norm example_manifest" using example_package by blast
  have j: "jsonable example_manifest" by (rule manifest_parts(1) [OF example_manifest_wf])
  have key: "al_get (ct_receipt_keys (example_catalog r)) (digest_bytes example_seed) = Some example_seed" by (simp add: example_catalog_def)
  have v: "item (item publication ''manifest'') ''spec_version'' \<noteq> result_v1"
    using example_manifest_facts(4) by (simp add: p(3) item_norm [OF j] result_v1_def)
  have "sizes_agree (artifacts_of (item publication ''manifest''))"
    unfolding p(3) artifacts_of_def item_norm [OF j] norm_shape unfolding artifacts_of_def [symmetric] example_manifest_facts(5)
    by (simp add: sizes_agree_def)
  from publication_round_trip [OF p(1,2) key v this, of "ms_init (u ''origin'')"] p(1) show ?thesis by blast
qed

end
