(* ===== verification/Directory_Theorems.thy ===== *)
theory Directory_Theorems
  imports Directory Publication_Theorems
begin

text \<open>
  What a validated directory promises: bounded, unique and sorted profiles whose keys are bound to
  their peer, honest availability ratios, and a search that returns exactly the matching profiles.
\<close>

section \<open>Statistics\<close>

lemma decimal_field_Inr: "decimal_field pattern v label = Inr d \<longleftrightarrow> is_str v \<and> pattern (str_of v) \<and> d = decimal_of (str_of v)"
  by (auto simp: decimal_field_def)

lemma counter_field_Inr: "counter_field v label = Inr () \<longleftrightarrow> is_int v \<and> 0 \<le> int_of v"
  by (simp add: counter_field_def)

text \<open>The availability ratio of accepted statistics is the measured one. It differs from the quotient of the two
  counters by at most half a unit of its sixth place, up to the 28 digits of the decimal context, whatever the size of
  the counters; the counters themselves are a sample of at least 20 requests with no more successes than requests.\<close>

lemma availability_ratio_measured:
  assumes "validate_stats v status = Inr ()" "v \<noteq> PyNone"
  shows "0 \<le> int_of (item v ''successful_requests'') \<and> int_of (item v ''successful_requests'') \<le> int_of (item v ''sample_size'')
    \<and> 20 \<le> int_of (item v ''sample_size'')
    \<and> \<bar>dec_val (decimal_of (str_of (item v ''availability_ratio'')))
        - of_int (int_of (item v ''successful_requests'')) / of_int (int_of (item v ''sample_size''))\<bar> \<le> 1 / 2000000 + 1 / 10 ^ 27"
proof -
  let ?s = "int_of (item v ''successful_requests'')" and ?n = "int_of (item v ''sample_size'')"
  let ?r = "decimal_of (str_of (item v ''availability_ratio''))" and ?q = "dec_div (whole ?s) (whole ?n)"
  from assms have f: "0 \<le> ?s" "?s \<le> ?n" "20 \<le> ?n" "dec_eq ?r (measured_ratio ?s ?n)"
    unfolding validate_stats_def by (auto simp: checks counter_field_Inr decimal_field_Inr)
  then have q: "\<bar>dec_val ?q - of_int ?s / of_int ?n\<bar> \<le> 1 / 10 ^ 27" "0 \<le> dec_coeff ?q" using dec_div_error [of ?s ?n] by simp_all
  have "dec_val ?r = dec_val (six_places ?q)" using f(4) by (simp add: dec_eq_val measured_ratio_def)
  then have "\<bar>dec_val ?r - of_int ?s / of_int ?n\<bar> \<le> 1 / 2000000 + 1 / 10 ^ 27"
    using six_places_error [OF q(2)] q(1) by linarith
  with f show ?thesis by blast
qed

section \<open>Profiles\<close>

definition identity_bound :: "pyval \<Rightarrow> pyval \<Rightarrow> bool" where
  "identity_bound mesh identity \<longleftrightarrow> item identity ''peer_id'' = item mesh ''peer_id''
     \<and> (\<exists>key. length key = 32 \<and> item identity ''key_id'' = PyStr (digest_bytes key)
          \<and> item identity ''public_key_base64url'' = PyStr (b64_encode key))"

text \<open>An endpoint: the text of an https URL that is an origin with no user information, query or fragment, a valid port
  if it has one, and a host that is neither the local one nor an address that is not global.\<close>

definition public_origin :: "directory_env \<Rightarrow> pyval \<Rightarrow> bool" where
  "public_origin D v \<longleftrightarrow>
     (\<exists>text p host port. v = PyStr text \<and> length text \<le> 2048 \<and> urlsplit (de_url D) text = Inr p
        \<and> su_scheme p = u ''https'' \<and> 64 \<notin> set (su_netloc p) \<and> (su_path p = [] \<or> su_path p = [47]) \<and> su_query p = []
        \<and> url_fragment text = [] \<and> url_port p = Inr port
        \<and> hostname (de_url D) p = Some host \<and> host \<noteq> [] \<and> lower (de_url D) (rstrip_char 46 host) \<noteq> u ''localhost''
        \<and> de_ip_global D (lower (de_url D) (rstrip_char 46 host)) \<noteq> Some False)"

text \<open>A peer identifier: up to 128 ASCII letters, digits, dots, underscores and hyphens, the first a letter or a digit.\<close>

definition peer_identifier :: "pyval \<Rightarrow> bool" where
  "peer_identifier v \<longleftrightarrow>
     (\<exists>c cs. v = PyStr (c # cs) \<and> length cs < 128 \<and> (is_alpha c \<or> is_digit c) \<and> (\<forall>x\<in>set cs. is_alpha x \<or> is_digit x \<or> x \<in> {46, 95, 45}))"

lemma https_url_origin:
  assumes "https_url D v label True = Inr ()"
  shows "public_origin D v"
proof -
  from assms obtain url where v: "v = PyStr url" "length url \<le> 2048" by (auto simp: https_url_def split: if_splits elim!: is_strE)
  with assms obtain p where p: "urlsplit (de_url D) url = Inr p" by (auto simp: https_url_def checks)
  obtain port where port: "url_port p = Inr port" by (cases "url_port p") (use assms v p in \<open>simp_all add: https_url_def checks\<close>)
  obtain host where "hostname (de_url D) p = Some host"
    by (cases "hostname (de_url D) p") (use assms v p in \<open>simp_all add: https_url_def checks\<close>)
  with assms v p port show ?thesis
    by (simp add: public_origin_def https_url_def checks public_host_def has_userinfo_def Let_def)
qed

lemma peer_id_identifier: "is_str v \<Longrightarrow> peer_id_ok (str_of v) \<Longrightarrow> peer_identifier v"
  by (cases "str_of v") (auto simp: peer_id_ok_def peer_identifier_def list_all_iff elim!: is_strE)

definition profile_ok :: "directory_env \<Rightarrow> pyval \<Rightarrow> bool" where
  "profile_ok D mesh \<longleftrightarrow> peer_identifier (item mesh ''peer_id'') \<and> public_origin D (item mesh ''endpoint'')
     \<and> item mesh ''status'' \<in> {S ''listed'', S ''observed'', S ''suspended'', S ''retired''}
     \<and> item (item mesh ''availability_identity'') ''purpose'' = S ''availability'' \<and> identity_bound mesh (item mesh ''availability_identity'')
     \<and> items_of (item mesh ''receipt_identities'') \<noteq> [] \<and> distinct (map (\<lambda>i. item i ''key_id'') (items_of (item mesh ''receipt_identities'')))
     \<and> list_all (\<lambda>i. item i ''purpose'' = S ''receipt'' \<and> identity_bound mesh i) (items_of (item mesh ''receipt_identities''))"

lemma validate_identity_Inr:
  assumes "validate_federation_identity d (Some purpose) = Inr key"
  shows "item d ''purpose'' = S purpose \<and> length key = 32 \<and> item d ''key_id'' = PyStr (digest_bytes key)
    \<and> item d ''public_key_base64url'' = PyStr (b64_encode key)"
proof -
  have decode: "is_str v \<and> str_of v = b64_encode b \<and> length b = 32" if "decode_32 v label = Inr b" for v label b
    using that by (auto simp: decode_32_def dest: decode_canonical_unique split: if_splits option.splits)
  from assms show ?thesis unfolding validate_federation_identity_def by (auto simp: checks dest!: decode elim!: is_strE)
qed

lemma check_receipt_identities_Inr:
  assumes "check_receipt_identities peer_id ids seen = Inr ()"
  shows "list_all (\<lambda>i. item i ''peer_id'' = peer_id \<and> (\<exists>key. validate_federation_identity i (Some ''receipt'') = Inr key)) ids
    \<and> distinct (map (\<lambda>i. item i ''key_id'') ids) \<and> (\<lambda>i. item i ''key_id'') ` set ids \<inter> set seen = {}"
  using assms
proof (induction peer_id ids seen rule: check_receipt_identities.induct)
  case (2 peer_id i ids seen)
  then show ?case by (auto simp: checks ok_iff)
qed simp

lemma validate_mesh_Inr:
  assumes "validate_mesh D mesh = Inr ()"
  shows "profile_ok D mesh"
proof -
  from assms obtain akey where m: "is_str (item mesh ''peer_id'')" "peer_id_ok (str_of (item mesh ''peer_id''))" "member (item mesh ''status'') mesh_statuses (ValueError ''mesh status is unsupported'') = Inr ()"
    "https_url D (item mesh ''endpoint'') ''mesh endpoint'' True = Inr ()"
    "validate_federation_identity (item mesh ''availability_identity'') (Some ''availability'') = Inr akey"
    "item (item mesh ''availability_identity'') ''peer_id'' = item mesh ''peer_id''"
    "items_of (item mesh ''receipt_identities'') \<noteq> []"
    "check_receipt_identities (item mesh ''peer_id'') (items_of (item mesh ''receipt_identities'')) [] = Inr ()"
    unfolding validate_mesh_def checks by (auto simp: ok_iff)
  have "item mesh ''status'' \<in> {S ''listed'', S ''observed'', S ''suspended'', S ''retired''}" using m(3) by (simp add: member_def checks mesh_statuses_def)
  moreover have "identity_bound mesh (item mesh ''availability_identity'')" "item (item mesh ''availability_identity'') ''purpose'' = S ''availability''"
    using validate_identity_Inr [OF m(5)] m(6) by (auto simp: identity_bound_def)
  moreover have "list_all (\<lambda>i. item i ''purpose'' = S ''receipt'' \<and> identity_bound mesh i) (items_of (item mesh ''receipt_identities''))"
    using check_receipt_identities_Inr [OF m(8)] validate_identity_Inr by (fastforce simp: list_all_iff identity_bound_def)
  ultimately show ?thesis using m(7) peer_id_identifier [OF m(1,2)] https_url_origin [OF m(4)] check_receipt_identities_Inr [OF m(8)] by (simp add: profile_ok_def)
qed

lemma validate_directory_Inr:
  assumes "validate_directory D d = Inr meshes"
  shows "meshes = items_of (item d ''meshes'') \<and> list_all (\<lambda>m. validate_mesh D m = Inr ()) meshes
    \<and> sorted_wrt (<) (map peer_of meshes) \<and> distinct (map (endpoint_key D) meshes) \<and> length meshes \<le> 10000"
proof -
  from assms have m: "meshes = items_of (item d ''meshes'')" "first_error (map (validate_mesh D) meshes) = Inr ()"
      "sorted (map peer_of meshes)" "distinct (map peer_of meshes)" "distinct (map (endpoint_key D) meshes)" "length meshes \<le> 10000"
    unfolding validate_directory_def checks by auto
  have "list_all (\<lambda>m. validate_mesh D m = Inr ()) meshes" using m(2) by (auto simp: first_error_Inr list_all_iff)
  then show ?thesis using m strict_sorted_iff by blast
qed

text \<open>What the filters of a search ask of a profile.\<close>

lemma mesh_matches_iff:
  "mesh_matches D operation region status mesh \<longleftrightarrow>
     (\<forall>name. operation = Some name \<longrightarrow> (\<exists>op\<in>set (items_of (item mesh ''operations'')). str_of (item op ''name'') @ [47] @ str_of (item op ''version'') = name))
     \<and> (\<forall>name. region = Some name \<longrightarrow> (\<exists>r\<in>set (items_of (item mesh ''regions'')). de_casefold D (str_of r) = de_casefold D name))
     \<and> (\<forall>wanted. status = Some wanted \<longrightarrow> item mesh ''status'' = wanted)"
  by (auto simp: mesh_matches_def operation_text_def list_ex_iff split: option.splits)

text \<open>C22: A search returns exactly the matching profiles. When \<open>search_public_meshes\<close> returns, the result is those of
  the listed profiles that have an operation whose name and version, joined by a slash, are the operation filter, a region that
  equals the region filter up to case, and the status of the status filter, as far as these filters are given. They are in strictly ascending order of
  their peer identifiers, their endpoints differ by more than case and final slashes, and each has a peer identifier of the permitted
  characters, a known status, as endpoint a bare https origin at a public host (\<open>public_origin\<close>), and keys that are bound
  to it: 32-byte public keys under their own digest, in identities that name the peer and the purpose.\<close>

theorem directory_search_exact:
  assumes "search_meshes D d operation region status = Inr found"
  shows "found = filter (\<lambda>mesh.
        (\<forall>name. operation = Some name \<longrightarrow> (\<exists>op\<in>set (items_of (item mesh ''operations'')). str_of (item op ''name'') @ [47] @ str_of (item op ''version'') = name))
        \<and> (\<forall>name. region = Some name \<longrightarrow> (\<exists>r\<in>set (items_of (item mesh ''regions'')). de_casefold D (str_of r) = de_casefold D name))
        \<and> (\<forall>wanted. status = Some wanted \<longrightarrow> item mesh ''status'' = wanted)) (items_of (item d ''meshes''))
    \<and> sorted_wrt (<) (map (\<lambda>mesh. str_of (item mesh ''peer_id'')) found)
    \<and> distinct (map (\<lambda>mesh. lower (de_url D) (rstrip_char 47 (str_of (item mesh ''endpoint'')))) found)
    \<and> list_all (profile_ok D) found"
proof -
  from assms obtain meshes where v: "validate_directory D d = Inr meshes" "found = filter (mesh_matches D operation region status) meshes"
    by (auto simp: search_meshes_def checks)
  note m = validate_directory_Inr [OF v(1)]
  have "sorted_wrt (\<lambda>a b. peer_of a < peer_of b) meshes" using m unfolding sorted_wrt_map by blast
  then have "sorted_wrt (<) (map peer_of found)" by (simp add: v(2) sorted_wrt_map sorted_wrt_filter)
  moreover have "list_all (profile_ok D) found" using m validate_mesh_Inr by (auto simp: v(2) list_all_iff)
  moreover have "distinct (map (endpoint_key D) found)" using m unfolding v(2) by (intro distinct_map_filter) blast
  ultimately show ?thesis using m v(2) unfolding mesh_matches_iff [symmetric] peer_of_def endpoint_key_def by blast
qed

section \<open>An example directory\<close>

definition example_stats :: pyval where
  "example_stats =
     obj [(''evidence_kind'', S ''directory-observed''), (''window_started_at'', S ''2026-01-01T00:00:00Z''),
          (''window_ended_at'', S ''2026-01-02T00:00:00Z''), (''observed_at'', S ''2026-01-02T00:00:00Z''), (''sample_size'', PyInt 24),
          (''successful_requests'', PyInt 23), (''bytes_served'', PyInt 0), (''availability_ratio'', S ''0.958333''),
          (''latency_ms'', obj [(''p50'', S ''10''), (''p95'', S ''10.5'')])]"

lemma example_stats_valid: "validate_stats example_stats (S ''observed'') = Inr ()"
  unfolding example_stats_def by code_simp

lemma availability_ratio_measured_witness:
  "\<bar>dec_val (decimal_of (u ''0.958333'')) - 23 / 24\<bar> \<le> 1 / 2000000 + 1 / 10 ^ 27"
  using availability_ratio_measured [OF example_stats_valid] by (simp add: example_stats_def)

definition plain_hosts :: directory_env where
  "plain_hosts =
     \<lparr>de_url = \<lparr>ue_idna = (\<lambda>h. Inr h), ue_lower = (\<lambda>s. s), ue_bracket_ok = (\<lambda>h. False), ue_unicode_ok = (\<lambda>h. False)\<rparr>,
      de_ip_global = (\<lambda>h. None), de_casefold = lower_ascii\<rparr>"

definition example_mesh :: pyval where
  "example_mesh =
     obj [(''peer_id'', S ''peer''), (''display_name'', S ''Peer''), (''description'', S ''An example''),
          (''operator'', obj [(''name'', S ''Operator''), (''website'', S ''https://peer.example/about'')]),
          (''endpoint'', S ''https://peer.example/''), (''regions'', PyList [S ''eu'']), (''status'', S ''observed''),
          (''protocols'', PyList [S ''oncemesh.federation/v0'']),
          (''operations'', PyList [obj [(''name'', S ''fetch''), (''version'', S ''1''), (''output_schema'', S ''text'')]]),
          (''availability_identity'', norm (identity_document (u ''peer'') ''availability'' example_seed)),
          (''receipt_identities'', PyList [norm (identity_document (u ''peer'') ''receipt'' example_seed)]),
          (''stats'', example_stats), (''submitted_at'', S ''2026-01-01T00:00:00Z'')]"

definition example_directory :: pyval where
  "example_directory =
     obj [(''spec_version'', S ''oncemesh.public-mesh-directory/v0''), (''generated_at'', S ''2026-01-02T00:00:00Z''),
          (''directory'', obj [(''name'', S ''Directory''), (''repository'', S ''https://code.example/mesh''),
                               (''policy_url'', S ''https://code.example/policy'')]),
          (''meshes'', PyList [example_mesh])]"

lemma example_identity:
  assumes "purpose \<in> {''availability'', ''request'', ''receipt''}"
  shows "validate_federation_identity (norm (identity_document (u ''peer'') purpose example_seed)) (Some purpose) = Inr example_seed"
    and "item (norm (identity_document (u ''peer'') purpose example_seed)) ''peer_id'' = S ''peer''"
proof -
  show "validate_federation_identity (norm (identity_document (u ''peer'') purpose example_seed)) (Some purpose) = Inr example_seed"
    using assms by (intro validate_identity_norm) (simp_all add: scalar_ascii example_seed_def)
  have "list_all scalar (u purpose)" using assms by (auto simp: scalar_ascii)
  then have "jsonable (identity_document (u ''peer'') purpose example_seed)"
    using is_digest_scalar [OF is_digest_bytes] b64_encode_scalar
    by (simp add: identity_document_def signature_profile_def jsonable_simps scalar_ascii)
  then show "item (norm (identity_document (u ''peer'') purpose example_seed)) ''peer_id'' = S ''peer''"
    by (simp add: item_norm) (simp add: identity_document_def)
qed

lemma example_fields:
  "https_url plain_hosts (S ''https://peer.example/about'') ''operator website'' False = Inr ()"
  "https_url plain_hosts (S ''https://peer.example/'') ''mesh endpoint'' True = Inr ()"
  "https_url plain_hosts (S ''https://code.example/mesh'') ''directory repository'' False = Inr ()"
  "https_url plain_hosts (S ''https://code.example/policy'') ''directory policy_url'' False = Inr ()"
  "unique_texts (PyList [S ''eu'']) ''mesh regions'' 32 80 = Inr ()"
  "unique_texts (PyList [S ''oncemesh.federation/v0'']) ''mesh protocols'' 32 200 = Inr ()"
  "parse_canonical_utc (S ''2026-01-01T00:00:00Z'') = Inr 63902822400000000"
  "parse_canonical_utc (S ''2026-01-02T00:00:00Z'') = Inr 63902908800000000"
  "operation_keys [obj [(''name'', S ''fetch''), (''version'', S ''1''), (''output_schema'', S ''text'')]]
    = Inr [(u ''fetch'', u ''1'', u ''text'')]"
  "peer_id_ok (u ''peer'')"
  "bounded_text (S ''Peer'') ''mesh display_name'' 120 = Inr (u ''Peer'')"
  "bounded_text (S ''An example'') ''mesh description'' 500 = Inr (u ''An example'')"
  "bounded_text (S ''Operator'') ''operator name'' 120 = Inr (u ''Operator'')"
  "bounded_text (S ''Directory'') ''directory name'' 120 = Inr (u ''Directory'')"
  unfolding plain_hosts_def by code_simp+

lemma example_mesh_valid: "validate_mesh plain_hosts example_mesh = Inr ()"
proof -
  have keys: "exact_keys example_mesh mesh_fields" "exact_keys (item example_mesh ''operator'') [''name'', ''website'']"
    unfolding example_mesh_def mesh_fields_def by (simp_all add: exact_keys_def keys_def)
  show ?thesis using keys example_fields example_identity example_stats_valid unfolding validate_mesh_def
    by (simp add: example_mesh_def dv_exact_keys_def guard_def member_def mesh_statuses_def del: operation_keys.simps)
qed

lemma example_directory_valid: "validate_directory plain_hosts example_directory = Inr [example_mesh]"
proof -
  have keys: "exact_keys example_directory [''spec_version'', ''generated_at'', ''directory'', ''meshes'']"
    "exact_keys (item example_directory ''directory'') [''name'', ''repository'', ''policy_url'']"
    unfolding example_directory_def by (simp_all add: exact_keys_def keys_def)
  show ?thesis using keys example_fields example_mesh_valid unfolding validate_directory_def
    by (simp add: example_directory_def dv_exact_keys_def guard_def)
qed

lemma example_search:
  "search_meshes plain_hosts example_directory (Some (u ''fetch/1'')) (Some (u ''EU'')) (Some (S ''observed'')) = Inr [example_mesh]"
proof -
  have f: "operation_name_ok (u ''fetch/1'')" "u ''fetch'' @ [47] @ u ''1'' = u ''fetch/1''" "lower_ascii (u ''eu'') = lower_ascii (u ''EU'')"
    by code_simp+
  then have "mesh_matches plain_hosts (Some (u ''fetch/1'')) (Some (u ''EU'')) (Some (S ''observed'')) example_mesh"
    by (simp add: mesh_matches_def operation_text_def example_mesh_def plain_hosts_def del: append.simps)
  with f show ?thesis unfolding search_meshes_def example_directory_valid by (simp add: guard_def member_def mesh_statuses_def)
qed

theorem directory_search_exact_witness:
  "search_meshes plain_hosts example_directory (Some (u ''fetch/1'')) (Some (u ''EU'')) (Some (S ''observed'')) = Inr [example_mesh]
    \<and> profile_ok plain_hosts example_mesh \<and> public_origin plain_hosts (S ''https://peer.example/'')
    \<and> \<not> public_origin plain_hosts (S ''http://peer.example/'') \<and> \<not> public_origin plain_hosts (S ''https://localhost./'')"
proof -
  have "map_sum (\<lambda>e. e) su_scheme (urlsplit (de_url plain_hosts) (u ''http://peer.example/'')) \<noteq> Inr (u ''https'')"
    "case urlsplit (de_url plain_hosts) (u ''https://localhost./'') of Inl _ \<Rightarrow> True
      | Inr p \<Rightarrow> map_option (\<lambda>host. lower (de_url plain_hosts) (rstrip_char 46 host)) (hostname (de_url plain_hosts) p) = Some (u ''localhost'')"
    by code_simp+
  then have "\<not> public_origin plain_hosts (S ''http://peer.example/'')" "\<not> public_origin plain_hosts (S ''https://localhost./'')"
    by (auto simp: public_origin_def)
  with directory_search_exact [OF example_search] example_search show ?thesis by (simp add: profile_ok_def) (simp add: example_mesh_def)
qed

end
