(* ===== verification/Mesh_Status_Theorems.thy ===== *)
theory Mesh_Status_Theorems
  imports Mesh_Status Directory_Theorems
begin

text \<open>When the monitor produces a snapshot, and what is in it.\<close>

section \<open>Times and timeouts\<close>

lemma length_iso_seconds: "length (iso_seconds s) = 19"
  by (simp add: iso_seconds_def Let_def pad4_def pad2_def split: prod.split)

lemma canonical_utc_read:
  assumes "0 \<le> t" "t < max_instant"
  shows "parse_canonical_utc (PyStr (iso_utc (t - t mod 1000000))) = Inr (t - t mod 1000000)"
proof -
  define s where "s = t - t mod 1000000"
  have s: "0 \<le> s" "s < max_instant" "s mod 1000000 = 0"
    using assms by (simp_all add: s_def minus_mod_eq_mult_div pos_imp_zdiv_nonneg_iff)
  have p: "parse_instant (iso_utc s) = Some s" by (rule parse_iso_utc [OF s(1,2)])
  then obtain f r where "clock_fields (iso_utc s) = Some (f, r)" by (auto simp: parse_instant_def split: option.splits)
  moreover from this have "r = drop 19 (iso_utc s)" by (simp add: clock_fields_def split: if_splits)
  ultimately have "is_canonical_utc (iso_utc s)" by (simp add: is_canonical_utc_def iso_utc_def s(3) length_iso_seconds)
  with p s(3) show ?thesis by (simp add: parse_canonical_utc_def format_canonical_utc_def guard_def s_def [symmetric])
qed

lemma floor_mono: "a \<le> b \<Longrightarrow> a - a mod 1000000 \<le> b - b mod (1000000 :: int)"
  by (simp add: minus_mod_eq_mult_div zdiv_mono1)

lemma near_between: "\<bar>2 * (h - a)\<bar> \<le> b \<Longrightarrow> l \<le> a \<Longrightarrow> a \<le> k \<Longrightarrow> 0 < b \<Longrightarrow> l < h + b \<and> h < k + b" for h a b l k :: int
  by arith

lemma round_between:
  assumes "of_int lo \<le> x" "x \<le> of_int hi"
  shows "lo \<le> round_half_even x \<and> round_half_even x \<le> hi"
proof -
  obtain a b where q: "quotient_of x = (a, b)" by (cases "quotient_of x")
  have b: "0 < b" "x = of_int a / of_int b" using quotient_of_denom_pos [OF q] quotient_of_div [OF q] by simp_all
  have "of_int (lo * b) \<le> (of_int a :: rat)" "of_int a \<le> (of_int (hi * b) :: rat)"
    using assms b(1) unfolding b(2) by (simp_all add: pos_le_divide_eq pos_divide_le_eq)
  then have ab: "lo * b \<le> a" "a \<le> hi * b" by (simp_all only: of_int_le_iff)
  let ?q = "half_even a b"
  have e: "\<bar>2 * (?q * b - a)\<bar> \<le> b" by (rule half_error(1) [OF b(1)])
  have "lo * b < (?q + 1) * b" "?q * b < (hi + 1) * b" using near_between [OF e ab b(1)] unfolding distrib_right mult_1 by blast+
  then have "lo < ?q + 1" "?q < hi + 1" using b(1) by (simp_all only: mult_less_cancel_right_pos)
  then show ?thesis by (simp add: round_half_even_def q)
qed

section \<open>Observations\<close>

definition reply_in_range :: "status_probe \<Rightarrow> rat \<Rightarrow> pyval \<Rightarrow> bool" where
  "reply_in_range probe timeout mesh \<longleftrightarrow>
     (case probe (probe_target mesh) timeout of Inl _ \<Rightarrow> True
      | Inr (http_status, ms) \<Rightarrow> 100 \<le> http_status \<and> http_status \<le> 599 \<and> 0 \<le> ms \<and> ms \<le> 30000)"

lemma observation_document_fields [simp]:
  "item (observation_document mesh state checked ms http detail) ''peer_id'' = item mesh ''peer_id''"
  "item (observation_document mesh state checked ms http detail) ''registry_status'' = item mesh ''status''"
  "item (observation_document mesh state checked ms http detail) ''state'' = S state"
  "item (observation_document mesh state checked ms http detail) ''checked_at'' = checked"
  "item (observation_document mesh state checked ms http detail) ''response_time_ms'' = ms"
  "item (observation_document mesh state checked ms http detail) ''http_status'' = http"
  "item (observation_document mesh state checked ms http detail) ''detail'' = S detail"
  "dv_exact_keys (observation_document mesh state checked ms http detail) observation_fields label = Inr ()"
proof -
  show "dv_exact_keys (observation_document mesh state checked ms http detail) observation_fields label = Inr ()"
    unfolding observation_document_def dv_exact_keys_def observation_fields_def exact_keys_obj guard_def by auto
qed (simp_all add: observation_document_def)

lemma check_observation_iff:
  assumes "item mesh ''status'' \<in> set mesh_statuses" "parse_canonical_utc (PyStr checked_at) = Inr c" "c \<le> g"
  shows "check_observation g mesh (observation checked_at timeout probe mesh) = Inr ()
    \<longleftrightarrow> (is_active mesh \<longrightarrow> reply_in_range probe timeout mesh)"
proof -
  have m: "member (item mesh ''status'') mesh_statuses e = Inr ()" for e using assms(1) by (auto simp: member_def guard_def mesh_statuses_def)
  have st: "member (S s) status_states e = Inr ()" if "s \<in> {''up'', ''degraded'', ''down'', ''not_checked''}" for s e
    using that by (auto simp: member_def guard_def status_states_def)
  show ?thesis
  proof (cases "is_active mesh")
    case False
    then show ?thesis by (simp add: observation_def check_observation_def is_active_def checks m st)
  next
    case True
    show ?thesis
    proof (cases "probe (probe_target mesh) timeout")
      case (Inl e)
      with True assms show ?thesis
        by (simp add: observation_def check_observation_def is_active_def checks m st reply_in_range_def)
    next
      case (Inr r)
      obtain http ms where r: "r = (http, ms)" by (cases r)
      have eq: "observation checked_at timeout probe mesh =
          observation_document mesh (if http \<in> set expected_http_statuses then ''up'' else ''degraded'') (PyStr checked_at) (PyInt ms) (PyInt http)
            (if http \<in> set expected_http_statuses then ''expected-protocol-response'' else ''unexpected-http-response'')"
        using True Inr r by (simp add: observation_def is_active_def)
      show ?thesis using True assms Inr r unfolding eq
        by (auto simp: check_observation_def is_active_def checks m st reply_in_range_def int_between_def)
    qed
  qed
qed

section \<open>Generation\<close>

lemma generated_monitor:
  assumes "1 / 10 \<le> timeout" "timeout \<le> 30" "5 \<le> schedule" "schedule \<le> 1440" "region \<noteq> []" "length region \<le> 80"
  defines "monitor \<equiv> monitor_document schedule timeout region"
  shows "dv_exact_keys monitor monitor_fields label = Inr ()" "item monitor ''name'' = S ''OnceMesh directory monitor''"
    "item monitor ''method'' = S ''unauthenticated-https''" "item monitor ''path'' = PyStr status_path"
    "int_between (item monitor ''schedule_minutes'') 5 1440" "int_between (item monitor ''timeout_ms'') 100 30000"
    "nonempty_str (item monitor ''runner_region'')" "length (str_of (item monitor ''runner_region'')) \<le> 80"
proof -
  have "100 \<le> round_half_even (timeout * 1000) \<and> round_half_even (timeout * 1000) \<le> 30000"
    using assms(1,2) by (intro round_between) simp_all
  then show "int_between (item monitor ''timeout_ms'') 100 30000" by (simp add: monitor_def monitor_document_def int_between_def)
  show "dv_exact_keys monitor monitor_fields label = Inr ()"
    unfolding monitor_def monitor_document_def dv_exact_keys_def monitor_fields_def exact_keys_obj guard_def by auto
qed (use assms in \<open>simp_all add: monitor_def monitor_document_def int_between_def nonempty_str_def\<close>)

lemma validated_status:
  assumes "validate_mesh D mesh = Inr ()"
  shows "item mesh ''status'' \<in> set mesh_statuses"
  using validate_mesh_Inr [OF assms] by (simp add: profile_ok_def mesh_statuses_def)

lemma generated_valid_iff:
  assumes v: "validate_directory D d = Inr meshes"
    and p: "1 / 10 \<le> timeout" "timeout \<le> 30" "5 \<le> schedule" "schedule \<le> 1440" "region \<noteq> []" "length region \<le> 80"
    and t: "0 \<le> a" "a \<le> b" "b < max_instant"
    and iso: "checked_at = iso_utc (a - a mod 1000000)" "generated_at = iso_utc (b - b mod 1000000)"
  shows "validate_status D (obj [(''spec_version'', S ''oncemesh.public-mesh-status/v0''), (''generated_at'', PyStr generated_at),
            (''monitor'', monitor_document schedule timeout region),
            (''meshes'', PyList (map (observation checked_at timeout probe) meshes))]) d = Inr ()
    \<longleftrightarrow> list_all (\<lambda>m. is_active m \<longrightarrow> reply_in_range probe timeout m) meshes"
proof -
  note m = validate_directory_Inr [OF v]
  let ?a = "a - a mod 1000000" and ?b = "b - b mod 1000000"
  have r: "parse_canonical_utc (PyStr checked_at) = Inr ?a" "parse_canonical_utc (PyStr generated_at) = Inr ?b"
    using t canonical_utc_read unfolding iso by simp_all
  have keys: "dv_exact_keys (obj [(''spec_version'', x), (''generated_at'', y), (''monitor'', z), (''meshes'', w)])
      [''spec_version'', ''generated_at'', ''monitor'', ''meshes''] label = Inr ()" for x y z w label
    unfolding dv_exact_keys_def exact_keys_obj guard_def by auto
  note keys = keys [simplified]
  have "first_error (map (\<lambda>(mesh, ob). check_observation ?b mesh ob) (zip meshes (map (observation checked_at timeout probe) meshes))) = Inr ()
      \<longleftrightarrow> list_all (\<lambda>m. check_observation ?b m (observation checked_at timeout probe m) = Inr ()) meshes"
    by (auto simp: first_error_Inr list_all_iff zip_map2 zip_same_conv_map)
  also have "\<dots> \<longleftrightarrow> list_all (\<lambda>m. is_active m \<longrightarrow> reply_in_range probe timeout m) meshes"
    using m check_observation_iff [OF validated_status r(1) floor_mono [OF t(2)]] unfolding list_all_iff by blast
  finally show ?thesis
    using generated_monitor [OF p] by (simp add: validate_status_def v keys checks r first_error_Inr)
qed

text \<open>C24: The monitor produces a snapshot exactly when every answer is in range. With a valid directory, parameters in their
  ranges and a clock that does not run backwards, \<open>generate_public_mesh_status\<close> returns the observation of every mesh in the
  order of the directory, in a snapshot its own validator accepts, if each probe of an active mesh raises or reports a
  status from 100 to 599 within 30 seconds. One other answer makes the whole generation raise a \<open>ValueError\<close>.\<close>

theorem status_generated_iff:
  assumes "validate_directory D d = Inr meshes" "length (filter is_active meshes) \<le> 500"
    "1 / 10 \<le> timeout" "timeout \<le> 30" "5 \<le> schedule" "schedule \<le> 1440" "1 \<le> concurrency" "concurrency \<le> 8"
    "region \<noteq> []" "length region \<le> 80" "0 \<le> a" "a \<le> b" "b < max_instant"
  shows "case generate_status D d probe (Aware a) (Aware b) timeout schedule region concurrency of
      Inr snapshot \<Rightarrow> list_all (\<lambda>m. is_active m \<longrightarrow> reply_in_range probe timeout m) meshes
        \<and> item snapshot ''meshes'' = PyList (map (observation (iso_utc (a - a mod 1000000)) timeout probe) meshes)
        \<and> validate_status D snapshot d = Inr ()
    | Inl e \<Rightarrow> list_ex (\<lambda>m. is_active m \<and> \<not> reply_in_range probe timeout m) meshes"
proof -
  note iff = generated_valid_iff [OF assms(1,3,4,5,6,9,10,11,12,13) refl refl, of probe]
  have ex: "list_ex (\<lambda>m. is_active m \<and> \<not> reply_in_range probe timeout m) meshes
      \<longleftrightarrow> \<not> list_all (\<lambda>m. is_active m \<longrightarrow> reply_in_range probe timeout m) meshes"
    by (auto simp: list_ex_iff list_all_iff)
  from assms show ?thesis
    unfolding ex iff [symmetric] generate_status_def
    by (auto simp: guard_def max_active_meshes_def max_concurrency_def format_canonical_utc_def Let_def iff seq_def split: sum.splits)
qed

definition timely_probe :: status_probe where
  "timely_probe url timeout = (if timeout = 5 then Inr (401, 12) else Inl OSError)"

theorem status_generated_iff_witness:
  "\<exists>snapshot. generate_status plain_hosts example_directory timely_probe (Aware 63902822400000000) (Aware 63902822401000000) 5 30 (u ''eu'') 8 = Inr snapshot
    \<and> item snapshot ''meshes'' = PyList [observation (iso_utc 63902822400000000) 5 timely_probe example_mesh]
    \<and> validate_status plain_hosts snapshot example_directory = Inr ()"
proof -
  have v: "validate_directory plain_hosts example_directory = Inr [example_mesh]" by (rule example_directory_valid)
  have "case generate_status plain_hosts example_directory timely_probe (Aware 63902822400000000) (Aware 63902822401000000) 5 30 (u ''eu'') 8 of
      Inr snapshot \<Rightarrow> list_all (\<lambda>m. is_active m \<longrightarrow> reply_in_range timely_probe 5 m) [example_mesh]
        \<and> item snapshot ''meshes'' = PyList (map (observation (iso_utc (63902822400000000 - 63902822400000000 mod 1000000)) 5 timely_probe) [example_mesh])
        \<and> validate_status plain_hosts snapshot example_directory = Inr ()
    | Inl e \<Rightarrow> list_ex (\<lambda>m. is_active m \<and> \<not> reply_in_range timely_probe 5 m) [example_mesh]"
    by (rule status_generated_iff [OF v]) (simp_all add: max_instant_def)
  then show ?thesis by (simp add: reply_in_range_def timely_probe_def split: sum.splits)
qed

text \<open>One listed mesh that answers after more than 30 seconds, or with a status no HTTP specification assigns, leaves the
  monitor without a snapshot.\<close>

lemma one_mesh_stops_monitor:
  assumes "validate_directory D d = Inr meshes" "mesh \<in> set meshes" "is_active mesh"
    "probe (probe_target mesh) timeout = Inr (http_status, ms)" "30000 < ms \<or> 599 < http_status"
    "1 / 10 \<le> timeout" "timeout \<le> 30" "0 \<le> a" "a \<le> b" "b < max_instant"
  shows "\<exists>e. generate_status D d probe (Aware a) (Aware b) timeout schedule region concurrency = Inl e"
proof (cases "generate_status D d probe (Aware a) (Aware b) timeout schedule region concurrency")
  case (Inr snapshot)
  then have p: "5 \<le> schedule" "schedule \<le> 1440" "region \<noteq> []" "length region \<le> 80"
    using assms(1) by (auto simp: generate_status_def checks)
  from Inr assms(1) have "list_all (\<lambda>m. is_active m \<longrightarrow> reply_in_range probe timeout m) meshes"
    unfolding generated_valid_iff [OF assms(1,6,7) p assms(8,9,10) refl refl, of probe, symmetric]
    by (auto simp: generate_status_def checks format_canonical_utc_def Let_def)
  with assms(2-5) show ?thesis by (auto simp: list_all_iff reply_in_range_def)
qed simp

end
