(* ===== verification/Pilot_Theorems.thy ===== *)
theory Pilot_Theorems
  imports Publication_Theorems Epochs
begin

text \<open>
  The operator commands: a configuration that loads is one its server and its client accept; a
  withdrawal removes exactly one publication.
\<close>

section \<open>Configurations\<close>

lemma bounded_integer_Inr: "bounded_integer v label least greatest = Inr n \<longleftrightarrow> in_range v least greatest label = Inr () \<and> n = int_of v"
  by (auto simp: bounded_integer_def checks)

lemma in_range_Inr: "in_range v least greatest label = Inr () \<longleftrightarrow> is_int v \<and> least \<le> int_of v \<and> int_of v \<le> greatest"
  by (simp add: in_range_def)

lemma decode_32_Inr: "decode_32 v label = Inr b \<Longrightarrow> is_str v \<and> str_of v = b64_encode b \<and> length b = 32"
  by (auto simp: decode_32_def dest: decode_canonical_unique split: if_splits option.splits)

lemma seed_from_environment_Inr: "seed_from_environment v env = Inr b \<Longrightarrow> length b = 32"
  by (auto simp: seed_from_environment_def dest: decode_32_Inr split: if_splits option.splits)

definition keys_bound :: "(pystr \<times> bytes) list \<Rightarrow> bool" where
  "keys_bound = list_all (\<lambda>(key_id, key). is_digest key_id \<and> length key = 32 \<and> digest_bytes key = key_id)"

definition requesters_bound :: "(pystr \<times> bytes) list \<Rightarrow> bool" where
  "requesters_bound = list_all (\<lambda>(peer_id, key). peer_id \<noteq> [] \<and> length key = 32)"

lemma key_records_bound: "key_records es label found = Inr ks \<Longrightarrow> keys_bound found \<Longrightarrow> keys_bound ks"
proof (induction es label found rule: key_records.induct)
  case (2 e es label found)
  then obtain key where key: "decode_32 (item e ''public_key_base64url'') label = Inr key"
      "digest_val (item e ''key_id'')" "PyStr (digest_bytes key) = item e ''key_id''" "al_get found (str_of (item e ''key_id'')) = None"
      and rest: "key_records es label (al_set found (str_of (item e ''key_id'')) key) = Inr ks"
    by (auto simp: checks)
  have id: "str_of (item e ''key_id'') = digest_bytes key" using key(3) [symmetric] by simp
  have "is_digest (digest_bytes key)" using key(2) unfolding key(3) [symmetric] by (simp add: digest_val_def)
  then have "keys_bound (al_set found (digest_bytes key) key)"
    using 2(3) decode_32_Inr [OF key(1)] key(4) id by (simp add: keys_bound_def al_set_append_new)
  then show ?case using 2(1) key rest by (simp add: checks id)
qed (simp add: checks)

lemma requester_keys_bound:
  "requester_keys es found = Inr ks \<Longrightarrow> requesters_bound found \<Longrightarrow> requesters_bound ks \<and> (ks = [] \<longrightarrow> es = [] \<and> found = [])"
proof (induction es found rule: requester_keys.induct)
  case (2 e es found)
  then obtain key where key: "decode_32 (item e ''public_key_base64url'') ''requester public key'' = Inr key"
      "nonempty_str (item e ''peer_id'')" "al_get found (str_of (item e ''peer_id'')) = None"
      and rest: "requester_keys es (al_set found (str_of (item e ''peer_id'')) key) = Inr ks"
    by (auto simp: checks)
  have "requesters_bound (al_set found (str_of (item e ''peer_id'')) key)"
    using 2(3) decode_32_Inr [OF key(1)] key(2,3) by (simp add: requesters_bound_def al_set_append_new nonempty_str_def)
  then show ?case using 2(1) key rest by (auto simp: checks al_set_append_new)
qed (simp add: checks)

definition origin_ok :: "origin_config \<Rightarrow> bool" where
  "origin_ok c \<longleftrightarrow> oc_peer_id c \<noteq> [] \<and> length (oc_seed c) = 32 \<and> keys_bound (oc_receipt_keys c) \<and> requesters_bound (oc_requesters c)
     \<and> oc_requesters c \<noteq> [] \<and> oc_max_age c \<in> {1..3600} \<and> oc_max_skew c \<in> {0..300} \<and> oc_max_nonces c \<in> {1..1000000}
     \<and> oc_max_response_bytes c \<in> {1024..1000000000} \<and> oc_max_concurrent c \<in> {1..10000} \<and> oc_max_requests c \<in> {1..1000000}
     \<and> oc_rate_window c \<in> {1..3600}"

lemma public_key_records_bound: "public_key_records v label = Inr ks \<Longrightarrow> keys_bound ks"
  unfolding public_key_records_def checks by (elim conjE key_records_bound) (simp add: keys_bound_def)

lemma load_origin_ok: "load_origin_pilot fs path env = Inr c \<Longrightarrow> origin_ok c"
  unfolding load_origin_pilot_def Let_def checks bounded_integer_Inr in_range_Inr
  apply (elim exE conjE)
  apply (drule seed_from_environment_Inr public_key_records_bound requester_keys_bound)+
    apply (simp_all add: requesters_bound_def)
  apply (clarsimp simp: origin_ok_def nonempty_str_def requesters_bound_def)
  done

definition empty_catalog :: "origin_config \<Rightarrow> catalog" where
  "empty_catalog c = \<lparr>ct_peer_id = oc_peer_id c, ct_seed = oc_seed c, ct_receipt_keys = oc_receipt_keys c, ct_published = []\<rparr>"

definition origin_server :: "origin_config \<Rightarrow> catalog \<Rightarrow> fed_server" where
  "origin_server c C =
     \<lparr>hs_catalog = C,
      hs_authenticator = \<lparr>at_requesters = oc_requesters c, at_max_age = oc_max_age c, at_max_skew = oc_max_skew c,
        at_max_nonces = oc_max_nonces c, at_nonces = []\<rparr>,
      hs_limiter = Some \<lparr>rl_max_requests = oc_max_requests c, rl_window_seconds = oc_rate_window c, rl_requests = []\<rparr>,
      hs_max_response_bytes = oc_max_response_bytes c\<rparr>"

lemma origin_parts:
  assumes "origin_ok c"
  shows "new_catalog (oc_peer_id c) False (oc_seed c) (oc_receipt_keys c) = Inr (empty_catalog c)"
    and "new_authenticator (oc_requesters c) (PyInt (oc_max_age c)) (PyInt (oc_max_skew c)) (PyInt (oc_max_nonces c))
      = Inr (hs_authenticator (origin_server c C))"
    and "new_rate_limiter (PyInt (oc_max_requests c)) (PyInt (oc_rate_window c)) = Inr (the (hs_limiter (origin_server c C)))"
    and "new_fed_server C A (PyInt (oc_max_response_bytes c)) (PyInt (oc_max_concurrent c)) L
      = Inr \<lparr>hs_catalog = C, hs_authenticator = A, hs_limiter = L, hs_max_response_bytes = oc_max_response_bytes c\<rparr>"
  using assms
  by (simp_all add: origin_ok_def new_catalog_def new_authenticator_def new_rate_limiter_def new_fed_server_def in_range_def guard_def
      empty_catalog_def origin_server_def requesters_bound_def)

text \<open>C20: A configuration that loads is one the server accepts. When \<open>load_origin_pilot\<close> returns, none of the
  constructors in \<open>build_origin_server\<close> raises: building the server can only fail on a publication that does not
  load or is refused by the catalog, or on the certificate chain, and otherwise gives a server with exactly the
  configured requesters, keys and limits.\<close>

theorem origin_server_of_config:
  assumes "load_origin_pilot fs path environment = Inr c"
  shows "build_origin_server E tls fs' c
    = rbind (publish_files E fs' (oc_publication_files c) (ms_init (oc_peer_id c @ u ''-pilot-origin'')) (empty_catalog c)) (\<lambda>(s, C, summaries).
        seq (tls_chain tls (oc_certificate_file c) (oc_private_key_file c)) (Inr (s, origin_server c C)))"
  using origin_parts [OF load_origin_ok [OF assms]]
  by (simp add: build_origin_server_def prepare_origin_catalog_def split_def) (simp add: origin_server_def)

section \<open>Receivers\<close>

lemma checked_limits_Inr:
  assumes "checked_limits limits ranges = Inr ls"
  shows "list_all2 (\<lambda>(name, least, greatest) (name', n). name' = name \<and> least \<le> n \<and> n \<le> greatest) ranges ls"
  using assms
  by (induction limits ranges arbitrary: ls rule: checked_limits.induct) (auto simp: checks bounded_integer_Inr in_range_Inr)

lemma string_set_Inr:
  assumes "string_set v label operation = Inr ss"
  shows "ss \<noteq> [] \<and> list_all nonempty_str (map PyStr ss) \<and> (operation \<longrightarrow> list_all operation_name_ok ss)"
  using assms by (auto simp: string_set_def checks list_all_iff nonempty_str_def) metis+

definition receiver_ok :: "receiver_config \<Rightarrow> bool" where
  "receiver_ok c \<longleftrightarrow> rc_peer_id c \<noteq> [] \<and> rc_origin_peer_id c \<noteq> [] \<and> length (rc_seed c) = 32 \<and> length (rc_availability_key c) = 32
     \<and> keys_bound (rc_receipt_keys c) \<and> rc_producers c \<noteq> [] \<and> rc_operations c \<noteq> [] \<and> list_all nonempty_str (map PyStr (rc_producers c))
     \<and> list_all operation_name_ok (rc_operations c)
     \<and> list_all2 (\<lambda>(name, least, greatest) (name', n). name' = name \<and> least \<le> n \<and> n \<le> greatest) receiver_ranges (rc_limits c)"

lemma load_receiver_ok: "load_receiver_pilot U fs path env = Inr c \<Longrightarrow> receiver_ok c"
  unfolding load_receiver_pilot_def Let_def checks
  apply (elim exE conjE)
  apply (drule seed_from_environment_Inr public_key_records_bound checked_limits_Inr)+
  apply (drule string_set_Inr decode_32_Inr)+
  apply (clarsimp simp: receiver_ok_def nonempty_str_def)
  done

lemma receiver_peer_config_ok:
  assumes "receiver_ok c"
  shows "receiver_peer_config c = Inr
    \<lparr>pc_peer_id = rc_origin_peer_id c, pc_public_key = rc_availability_key c, pc_receipt_keys = rc_receipt_keys c,
     pc_producers = set (rc_producers c), pc_operations = set (rc_operations c), pc_max_entries = limit_of c ''max_entries'',
     pc_max_artifact_bytes = limit_of c ''max_artifact_bytes'', pc_max_transfer_bytes = limit_of c ''max_transfer_bytes'',
     pc_max_age_seconds = limit_of c ''max_availability_age_seconds'', pc_max_skew_seconds = limit_of c ''max_future_clock_skew_seconds'',
     pc_retention_seconds = limit_of c ''retention_seconds''\<rparr>"
proof -
  have "list_all2 (\<lambda>(name, least, greatest) (name', n). name' = name \<and> least \<le> n \<and> n \<le> greatest) receiver_ranges (rc_limits c)"
    using assms by (simp add: receiver_ok_def)
  then have "1 \<le> limit_of c ''max_entries''" "limit_of c ''max_entries'' \<le> 100000"
      "1 \<le> limit_of c ''max_artifact_bytes''" "limit_of c ''max_artifact_bytes'' \<le> 1000000000"
      "1 \<le> limit_of c ''max_transfer_bytes''" "limit_of c ''max_transfer_bytes'' \<le> 1000000000"
      "1 \<le> limit_of c ''max_availability_age_seconds''" "limit_of c ''max_availability_age_seconds'' \<le> 86400"
      "0 \<le> limit_of c ''max_future_clock_skew_seconds''" "limit_of c ''max_future_clock_skew_seconds'' \<le> 3600"
      "1 \<le> limit_of c ''retention_seconds''" "limit_of c ''retention_seconds'' \<le> 31536000"
    by (auto simp: receiver_ranges_def list_all2_Cons1 limit_of_def)
  then show ?thesis using assms
    by (simp add: receiver_peer_config_def new_peer_config_def receiver_ok_def keys_bound_def nonempty_str_def in_range_def guard_def
        list.pred_map comp_def)
qed

section \<open>Withdrawals\<close>

definition reference_digest :: "files \<Rightarrow> pystr \<Rightarrow> pyval \<Rightarrow> pystr result" where
  "reference_digest fs base reference =
     rbind (relative base (item reference ''file'') ''publication'') (\<lambda>path.
     rbind (load_document fs path) (\<lambda>publication. manifest_digest (item publication ''manifest'')))"

lemma split_publications_Inr:
  assumes "split_publications fs base digest refs = Inr (kept, removed)"
  shows "list_all (\<lambda>r. ok (reference_digest fs base r)) refs
    \<and> kept = [r \<leftarrow> refs. reference_digest fs base r \<noteq> Inr digest] \<and> removed = [r \<leftarrow> refs. reference_digest fs base r = Inr digest]"
  using assms
proof (induction refs arbitrary: kept removed)
  case (Cons r refs)
  then obtain selected ret rem where r: "reference_digest fs base r = Inr selected" "split_publications fs base digest refs = Inr (ret, rem)"
    "(kept, removed) = (if selected = digest then (ret, r # rem) else (r # ret, rem))"
    by (fastforce simp: checks reference_digest_def)
  with Cons.IH [OF r(2)] show ?case by (auto split: if_splits)
qed simp

lemma filter_one:
  assumes "[x \<leftarrow> xs. P x] = [y]"
  shows "\<exists>before after. xs = before @ y # after \<and> [x \<leftarrow> xs. \<not> P x] = before @ after"
  using assms
proof (induction xs)
  case (Cons x xs)
  show ?case
  proof (cases "P x")
    case True
    with Cons.prems have "x = y" "[x \<leftarrow> xs. P x] = []" by simp_all
    then have "[x \<leftarrow> xs. \<not> P x] = xs" by (auto simp: filter_empty_conv intro: filter_True)
    with True \<open>x = y\<close> show ?thesis by (intro exI [of _ "[]"] exI [of _ xs]) simp
  next
    case False
    with Cons obtain before after where "xs = before @ y # after" "[x \<leftarrow> xs. \<not> P x] = before @ after" by auto
    with False show ?thesis by (intro exI [of _ "x # before"] exI [of _ after]) simp_all
  qed
qed simp

text \<open>A withdrawal removes exactly one publication. When \<open>withdraw_origin_publication\<close> returns, exactly one
  reference of the source manifest named a publication with that result digest; the new manifest loads as the
  source with that reference left out, every other reference in place and in order, the report counts them, and
  no other file is touched.\<close>

lemma withdrawal_removes_one:
  assumes "withdraw_origin_publication fs source digest output = Inr (fs', report)" "load_document fs source = Inr d"
    and "is_list (item d ''publications'')"
  shows "\<exists>before withdrawn after. items_of (item d ''publications'') = before @ withdrawn # after
    \<and> reference_digest fs (parent_path source) withdrawn = Inr digest
    \<and> list_all (\<lambda>r. \<exists>other. reference_digest fs (parent_path source) r = Inr other \<and> other \<noteq> digest) (before @ after)
    \<and> load_document fs' output = Inr (norm (with_item d ''publications'' (PyList (before @ after))))
    \<and> item report ''remaining_publications'' = PyInt (int (length (before @ after)))
    \<and> al_get fs output = None \<and> fs' = al_set fs output (the (al_get fs' output))"
proof -
  let ?refs = "items_of (item d ''publications'')" and ?ref = "reference_digest fs (parent_path source)"
  have it: "iterate (item d ''publications'') = Inr ?refs" using assms(3) by (cases "item d ''publications''") simp_all
  from assms(1) obtain kept gone raw where s: "split_publications fs (parent_path source) digest ?refs = Inr (kept, gone)" "length gone = 1"
    "canonical_json (with_item d ''publications'' (PyList kept)) = Inr raw" "al_get fs output = None" "fs' = al_set fs output (File (raw @ [10]))"
    "item report ''remaining_publications'' = PyInt (int (length kept))"
    unfolding withdraw_origin_publication_def assms(2) by (auto simp: checks it write_new_Inr file_exists_def)
  note split = split_publications_Inr [OF s(1)]
  from s(2) obtain withdrawn where "gone = [withdrawn]" by (auto simp: length_Suc_conv)
  with split have one: "[r \<leftarrow> ?refs. ?ref r = Inr digest] = [withdrawn]" by simp
  from filter_one [OF one] split obtain before after where b: "?refs = before @ withdrawn # after" "kept = before @ after" by auto
  have wf: "wf_val d" "is_dict d" using load_document_wf [OF assms(2)] by simp_all
  have "list_all wf_val kept" using wf_items [OF wf_item [OF wf(1)], of _ "''publications''"] b by (auto simp: list_all_iff)
  then have w: "wf_val (with_item d ''publications'' (PyList kept))"
    using wf by (intro wf_with_item) simp_all
  have w': "is_dict (with_item d ''publications'' (PyList kept))" using wf(2) by (cases d) (simp_all add: with_item_def)
  have "load_document fs' output = Inr (norm (with_item d ''publications'' (PyList kept)))"
    by (rule load_document_line [OF _ w w' s(3)]) (simp add: s(5))
  moreover have "?ref withdrawn = Inr digest" using one filter_eq_ConsD [OF one] by auto
  moreover have "ok (?ref r) \<and> ?ref r \<noteq> Inr digest" if "r \<in> set kept" for r
    using that conjunct1 [OF split] conjunct1 [OF conjunct2 [OF split]] by (simp add: list_all_iff)
  then have "list_all (\<lambda>r. \<exists>other. ?ref r = Inr other \<and> other \<noteq> digest) (before @ after)"
    unfolding b(2) [symmetric] list_all_iff ok_iff by blast
  ultimately show ?thesis using b s(4-6) by (intro exI [of _ before] exI [of _ withdrawn] exI [of _ after]) simp
qed

section \<open>An origin with one publication\<close>

definition example_key_record :: "string \<Rightarrow> pystr \<Rightarrow> pyval" where
  "example_key_record name value = obj [(name, PyStr value), (''public_key_base64url'', PyStr (b64_encode example_seed))]"

definition example_limits :: pyval where
  "example_limits =
     obj [(''request_max_age_seconds'', PyInt 60), (''max_future_clock_skew_seconds'', PyInt 5), (''max_remembered_nonces'', PyInt 100),
          (''max_response_bytes'', PyInt 4096), (''max_concurrent_requests'', PyInt 4), (''max_requests_per_window'', PyInt 10),
          (''rate_window_seconds'', PyInt 60)]"

definition example_listen :: pyval where
  "example_listen = obj [(''host'', S ''localhost''), (''port'', PyInt 8443)]"

definition example_tls :: pyval where
  "example_tls = obj [(''certificate_file'', S ''/cert''), (''private_key_file'', S ''/key'')]"

definition example_reference :: pyval where
  "example_reference = obj [(''file'', S ''/pub'')]"

definition example_origin :: pyval where
  "example_origin =
     obj [(''spec_version'', S ''oncemesh.federation-pilot/v0''), (''role'', S ''origin''), (''peer_id'', S ''peer''),
          (''listen'', example_listen), (''tls'', example_tls), (''availability_private_seed_env'', S ''SEED''),
          (''receipt_public_keys'', PyList [example_key_record ''key_id'' (digest_bytes example_seed)]),
          (''authorized_requesters'', PyList [example_key_record ''peer_id'' (u ''client'')]),
          (''publications'', PyList [example_reference]), (''limits'', example_limits)]"

definition example_publication_file :: pyval where
  "example_publication_file =
     obj [(''spec_version'', PyNone), (''classification'', PyNone), (''action'', PyNone), (''manifest'', example_manifest),
          (''receipt'', PyNone), (''artifacts'', PyNone)]"

definition example_origin_files :: files where
  "example_origin_files =
     [(u ''/origin'', File (utf8_bytes (dumps example_origin))), (u ''/cert'', File []), (u ''/key'', File []),
      (u ''/pub'', File (utf8_bytes (dumps example_publication_file)))]"

lemma example_parts_jsonable [simp]:
  "jsonable example_limits" "jsonable example_listen" "jsonable example_tls" "jsonable example_reference"
  "list_all scalar (u name) \<Longrightarrow> list_all scalar value \<Longrightarrow> name \<noteq> ''public_key_base64url'' \<Longrightarrow> jsonable (example_key_record name value)"
  using b64_encode_scalar
  by (simp_all add: example_limits_def example_listen_def example_tls_def example_reference_def example_key_record_def jsonable_simps
      scalar_ascii) (simp_all add: jsonable_def max_safe_integer_def)

lemma example_origin_jsonable: "jsonable example_origin" "jsonable example_publication_file"
  using is_digest_scalar [OF is_digest_bytes] manifest_parts(1) [OF example_manifest_wf]
  by (simp_all add: example_origin_def example_publication_file_def jsonable_simps scalar_ascii)

lemma example_origin_loaded:
  "load_document example_origin_files (u ''/origin'') = Inr (norm example_origin)"
  "load_document example_origin_files (u ''/pub'') = Inr (norm example_publication_file)"
  using load_document_text [OF _ _ _ canonical_json_jsonable [OF example_origin_jsonable(1)], of example_origin_files "u ''/origin''"]
    load_document_text [OF _ _ _ canonical_json_jsonable [OF example_origin_jsonable(2)], of example_origin_files "u ''/pub''"]
    example_origin_jsonable
  by (simp_all add: jsonable_def example_origin_files_def) (simp_all add: example_origin_def example_publication_file_def)

lemma example_paths:
  "relative base (S ''/cert'') label = Inr (u ''/cert'')" "relative base (S ''/key'') label = Inr (u ''/key'')"
  "relative base (S ''/pub'') label = Inr (u ''/pub'')"
  by (simp_all add: relative_def nonempty_str_def resolve_path_def starts_with_def u_def)

lemma example_origin_keys:
  "exact_keys example_origin origin_fields" "exact_keys example_listen [''host'', ''port'']"
  "exact_keys example_tls [''certificate_file'', ''private_key_file'']" "exact_keys example_limits origin_limits"
  "exact_keys example_reference [''file'']" "exact_keys (example_key_record name value) [name, ''public_key_base64url'']"
  "exact_keys example_publication_file publication_fields"
  unfolding example_origin_def example_listen_def example_tls_def example_limits_def example_reference_def example_key_record_def
    example_publication_file_def origin_fields_def origin_limits_def publication_fields_def exact_keys_obj by simp_all

lemma example_origin_items:
  "item (norm example_origin) ''spec_version'' = S ''oncemesh.federation-pilot/v0''" "item (norm example_origin) ''role'' = S ''origin''"
  "item (norm example_origin) ''peer_id'' = S ''peer''" "item (norm example_origin) ''listen'' = norm example_listen"
  "item (norm example_origin) ''tls'' = norm example_tls" "item (norm example_origin) ''availability_private_seed_env'' = S ''SEED''"
  "item (norm example_origin) ''receipt_public_keys'' = PyList [norm (example_key_record ''key_id'' (digest_bytes example_seed))]"
  "item (norm example_origin) ''authorized_requesters'' = PyList [norm (example_key_record ''peer_id'' (u ''client''))]"
  "item (norm example_origin) ''publications'' = PyList [norm example_reference]" "item (norm example_origin) ''limits'' = norm example_limits"
  unfolding item_norm [OF example_origin_jsonable(1)] by (simp_all add: example_origin_def)

lemma example_parts_items:
  "item (norm example_listen) ''host'' = S ''localhost''" "item (norm example_listen) ''port'' = PyInt 8443"
  "item (norm example_tls) ''certificate_file'' = S ''/cert''" "item (norm example_tls) ''private_key_file'' = S ''/key''"
  "item (norm example_reference) ''file'' = S ''/pub''"
  "item (norm example_limits) ''request_max_age_seconds'' = PyInt 60" "item (norm example_limits) ''max_future_clock_skew_seconds'' = PyInt 5"
  "item (norm example_limits) ''max_remembered_nonces'' = PyInt 100" "item (norm example_limits) ''max_response_bytes'' = PyInt 4096"
  "item (norm example_limits) ''max_concurrent_requests'' = PyInt 4" "item (norm example_limits) ''max_requests_per_window'' = PyInt 10"
  "item (norm example_limits) ''rate_window_seconds'' = PyInt 60"
  by (simp_all add: item_norm) (simp_all add: example_listen_def example_tls_def example_reference_def example_limits_def)

lemma example_key_items:
  assumes "list_all scalar (u name)" "list_all scalar value" "name \<noteq> ''public_key_base64url''"
  shows "item (norm (example_key_record name value)) name = PyStr value"
    "decode_32 (item (norm (example_key_record name value)) ''public_key_base64url'') label = Inr example_seed"
    "exact_keys (norm (example_key_record name value)) [name, ''public_key_base64url'']"
proof -
  note j = example_parts_jsonable(5) [OF assms]
  show "item (norm (example_key_record name value)) name = PyStr value"
    using assms(3) by (simp add: item_norm j) (simp add: example_key_record_def)
  have "item (norm (example_key_record name value)) ''public_key_base64url'' = PyStr (b64_encode example_seed)"
    using assms(3) by (simp add: item_norm j) (simp add: example_key_record_def)
  moreover have "length example_seed = 32" by (simp add: example_seed_def)
  ultimately show "decode_32 (item (norm (example_key_record name value)) ''public_key_base64url'') label = Inr example_seed"
    by (simp add: decode_32_def decode_canonical_encode)
  show "exact_keys (norm (example_key_record name value)) [name, ''public_key_base64url'']"
    using example_origin_keys(6) by (simp add: j)
qed

lemma example_origin_config: "\<exists>c. load_origin_pilot example_origin_files (u ''/origin'') (\<lambda>_. Some (b64_encode example_seed)) = Inr c
    \<and> oc_publication_files c = [u ''/pub''] \<and> oc_max_requests c = 10"
proof -
  let ?seed = "\<lambda>_ :: pystr. Some (b64_encode example_seed)"
  have keys: "exact_keys (norm example_origin) origin_fields" "exact_keys (norm example_listen) [''host'', ''port'']"
    "exact_keys (norm example_tls) [''certificate_file'', ''private_key_file'']" "exact_keys (norm example_limits) origin_limits"
    "exact_keys (norm example_reference) [''file'']"
    using example_origin_keys example_origin_jsonable by simp_all
  have files: "file_exists example_origin_files (u ''/cert'')" "file_exists example_origin_files (u ''/key'')" "file_exists example_origin_files (u ''/pub'')"
    by (simp_all add: file_exists_def example_origin_files_def)
  have seed: "seed_from_environment (S ''SEED'') ?seed = Inr example_seed"
    by (simp add: seed_from_environment_def env_name_ok_def is_upper_def decode_32_def decode_canonical_encode example_seed_def u_def)
  have requesters: "requester_keys [norm (example_key_record ''peer_id'' (u ''client''))] [] = Inr [(u ''client'', example_seed)]"
    using example_key_items [of "''peer_id''" "u ''client''"]
    by (simp add: scalar_ascii pilot_exact_keys_def guard_def nonempty_str_def)
  have receipts: "public_key_records (PyList [norm (example_key_record ''key_id'' (digest_bytes example_seed))]) label
      = Inr [(digest_bytes example_seed, example_seed)]" for label
    using example_key_items [of "''key_id''" "digest_bytes example_seed"] is_digest_scalar [OF is_digest_bytes] is_digest_bytes
    by (simp add: public_key_records_def scalar_ascii pilot_exact_keys_def guard_def digest_val_def)
  show ?thesis
    using keys files seed requesters receipts unfolding load_origin_pilot_def Let_def example_origin_loaded(1)
    by (simp add: example_origin_items example_parts_items pilot_exact_keys_def guard_def nonempty_str_def bounded_integer_def in_range_def
        example_paths)
qed

theorem origin_server_of_config_witness:
  "\<forall>E tls fs'. \<exists>c. load_origin_pilot example_origin_files (u ''/origin'') (\<lambda>_. Some (b64_encode example_seed)) = Inr c
    \<and> build_origin_server E tls fs' c
      = rbind (publish_files E fs' [u ''/pub''] (ms_init (oc_peer_id c @ u ''-pilot-origin'')) (empty_catalog c)) (\<lambda>(s, C, summaries).
          seq (tls_chain tls (oc_certificate_file c) (oc_private_key_file c)) (Inr (s, origin_server c C)))"
proof (intro allI)
  fix E tls fs'
  obtain c where c: "load_origin_pilot example_origin_files (u ''/origin'') (\<lambda>_. Some (b64_encode example_seed)) = Inr c"
    "oc_publication_files c = [u ''/pub'']" using example_origin_config by blast
  show "\<exists>c. load_origin_pilot example_origin_files (u ''/origin'') (\<lambda>_. Some (b64_encode example_seed)) = Inr c
    \<and> build_origin_server E tls fs' c
      = rbind (publish_files E fs' [u ''/pub''] (ms_init (oc_peer_id c @ u ''-pilot-origin'')) (empty_catalog c)) (\<lambda>(s, C, summaries).
          seq (tls_chain tls (oc_certificate_file c) (oc_private_key_file c)) (Inr (s, origin_server c C)))"
    using c(1) origin_server_of_config [OF c(1), of E tls fs'] unfolding c(2) by blast
qed

lemma example_withdrawal: "\<exists>fs' report. withdraw_origin_publication example_origin_files (u ''/origin'') (result_id example_manifest) (u ''/next'')
    = Inr (fs', report)"
proof -
  let ?d = "result_id example_manifest" and ?keep = "with_item (norm example_origin) ''publications'' (PyList [])"
  have digest: "manifest_digest (norm example_manifest) = Inr ?d"
    by (rule manifest_digest_norm [OF example_manifest_wf(1) result_id_Inr [OF example_manifest_wf(2)]])
  have pub: "item (norm example_publication_file) ''manifest'' = norm example_manifest"
    unfolding item_norm [OF example_origin_jsonable(2)] by (simp add: example_publication_file_def)
  have keys: "exact_keys (norm example_origin) origin_fields" "exact_keys (norm example_reference) [''file'']"
    "exact_keys (norm example_publication_file) publication_fields"
    using example_origin_keys example_origin_jsonable by simp_all
  have refs: "split_publications example_origin_files (parent_path (u ''/origin'')) ?d [norm example_reference] = Inr ([], [norm example_reference])"
    using keys digest by (simp add: pilot_exact_keys_def guard_def example_parts_items example_paths example_origin_loaded pub)
  have "is_dict (norm example_origin)" by (simp add: example_origin_def)
  then have "jsonable ?keep" using jsonable_norm [OF example_origin_jsonable(1)] by (intro jsonable_with_item) (simp_all add: jsonable_simps)
  note text_of = canonical_json_jsonable [OF this]
  have "parent_path (u ''/next'') = parent_path (u ''/origin'')" by (simp add: parent_path_def u_def)
  moreover have "\<not> file_exists example_origin_files (u ''/next'')" by (simp add: file_exists_def example_origin_files_def)
  moreover have "is_digest ?d" using manifest_digest_is [OF digest] .
  ultimately show ?thesis using keys(1) refs text_of
    unfolding withdraw_origin_publication_def example_origin_loaded(1)
    by (simp add: example_origin_items pilot_exact_keys_def guard_def write_new_def)
qed

lemma withdrawal_removes_one_witness:
  "\<exists>fs' report. withdraw_origin_publication example_origin_files (u ''/origin'') (result_id example_manifest) (u ''/next'') = Inr (fs', report)
    \<and> load_document fs' (u ''/next'') = Inr (norm (with_item (norm example_origin) ''publications'' (PyList [])))
    \<and> item report ''remaining_publications'' = PyInt 0"
proof -
  obtain fs' report where w: "withdraw_origin_publication example_origin_files (u ''/origin'') (result_id example_manifest) (u ''/next'')
    = Inr (fs', report)" using example_withdrawal by blast
  have "is_list (item (norm example_origin) ''publications'')" by (simp add: example_origin_items)
  from withdrawal_removes_one [OF w example_origin_loaded(1) this] obtain before withdrawn after where
    b: "[norm example_reference] = before @ withdrawn # after"
      "load_document fs' (u ''/next'') = Inr (norm (with_item (norm example_origin) ''publications'' (PyList (before @ after))))"
      "item report ''remaining_publications'' = PyInt (int (length (before @ after)))"
    by (auto simp: example_origin_items)
  from b(1) have "before @ after = []" by (auto simp: Cons_eq_append_conv)
  with w b show ?thesis by simp
qed

end
