(* ===== verification/Federation_Http_Theorems.thy ===== *)
theory Federation_Http_Theorems
  imports Federation_Http Federation_Properties Raises
begin

text \<open>
  Guarantees of the HTTP transport: who is authenticated and how often a nonce is accepted, and that
  the client over the server is the peer that the catalog is.
\<close>

section \<open>Requests\<close>

lemma raises_time: "raises is_value_error (fed_parse_time v)"
  by (simp add: fed_parse_time_def parse_time_def split: option.split)

lemma raises_signature: "raises is_value_error (http_decode_signature v)"
  by (simp add: http_decode_signature_def split: option.split)

lemma raises_signing_input: "raises is_value_error (request_signing_input r)"
  by (simp add: request_signing_input_def validate_federation_request_def fed_exact_keys_def raises raises_time)

lemma verify_federation_request_total: "\<exists>b. verify_federation_request E r signature public_key = Inr b"
proof -
  let ?m = "seq (fed_exact_keys signature [''profile'', ''key_id'', ''value''] ''request signature'')
             (if item signature ''profile'' \<noteq> signature_profile \<or> length public_key \<noteq> 32
                 \<or> item signature ''key_id'' \<noteq> PyStr (digest_bytes public_key)
              then Inr False
              else rbind (http_decode_signature (item signature ''value'')) (\<lambda>sig.
                   rbind (request_signing_input r) (\<lambda>message. Inr (ed_verify E public_key sig message))))"
  have "raises is_value_error ?m"
    by (simp add: fed_exact_keys_def raises raises_signature raises_signing_input)
  then show ?thesis by (cases ?m) (auto simp add: verify_federation_request_def simp_thms)
qed

abbreviation auth_caught :: "py_error \<Rightarrow> bool" where
  "auth_caught e \<equiv> is_value_error e \<or> e = TypeError \<or> e = KeyError \<or> e = AttributeError"

lemma verified_time_caught: "raises auth_caught (verified_time E A verb path h)"
proof (cases "al_get (at_requesters A) (ah_peer_id h)")
  case (Some key)
  let ?r = "request_document (ah_peer_id h) (ah_timestamp h) (ah_nonce h) verb path"
  obtain b where "verify_federation_request E ?r (header_signature h) key = Inr b" using verify_federation_request_total by blast
  moreover have "raises auth_caught (fed_parse_time v)" for v by (rule raises_mono [OF raises_time]) blast
  ultimately show ?thesis using Some by (simp add: verified_time_def raises)
qed (simp add: verified_time_def)

text \<open>Authentication never raises.\<close>

lemma authenticate_peer_total: "\<exists>A' p. authenticate_peer E A now verb path hs = Inr (A', p)"
  using verified_time_caught [of E A verb path]
  by (auto simp: authenticate_peer_def raises_def split: option.split sum.split prod.split)

text \<open>What an authenticated request proves.\<close>

definition authentic :: "ed25519 \<Rightarrow> authenticator \<Rightarrow> int \<Rightarrow> pystr \<Rightarrow> pystr \<Rightarrow> headers \<Rightarrow> pystr \<Rightarrow> bool" where
  "authentic E A now verb path hs peer_id \<longleftrightarrow>
     (\<exists>h key sig message signed_at. read_auth_headers hs = Some h \<and> ah_peer_id h = peer_id \<and> (peer_id, key) \<in> set (at_requesters A)
        \<and> ah_key_id h = digest_bytes key \<and> ah_signature h = b64_encode sig
        \<and> request_signing_input (request_document peer_id (ah_timestamp h) (ah_nonce h) verb path) = Inr message
        \<and> ed_verify E key sig message \<and> fed_parse_time (PyStr (ah_timestamp h)) = Inr signed_at
        \<and> now - micros (at_max_age A) \<le> signed_at \<and> signed_at \<le> now + micros (at_max_skew A))"

lemma verify_federation_request_True:
  "verify_federation_request E r (header_signature h) key = Inr True \<Longrightarrow>
     \<exists>sig message. ah_key_id h = digest_bytes key \<and> ah_signature h = b64_encode sig
       \<and> request_signing_input r = Inr message \<and> ed_verify E key sig message"
  by (auto simp: verify_federation_request_def header_signature_def http_decode_signature_def encode_signature_def
      seq_Inr rbind_Inr split: sum.splits if_splits option.splits) metis

lemma authenticate_peer_Some:
  assumes "authenticate_peer E A now verb path hs = Inr (A', Some p)"
  shows "authentic E A now verb path hs p"
    and "\<exists>h. read_auth_headers hs = Some h \<and> ah_peer_id h = p \<and> admit_nonce A now (p, ah_nonce h) = (A', True)"
proof -
  from assms obtain h t where h: "read_auth_headers hs = Some h" "verified_time E A verb path h = Inr (Some t)"
      "now - micros (at_max_age A) \<le> t" "t \<le> now + micros (at_max_skew A)"
    and a: "admit_nonce A now (ah_peer_id h, ah_nonce h) = (A', True)" "ah_peer_id h = p"
    by (auto simp: authenticate_peer_def split: option.splits sum.splits if_splits prod.splits)
  from a h(1) show "\<exists>h. read_auth_headers hs = Some h \<and> ah_peer_id h = p \<and> admit_nonce A now (p, ah_nonce h) = (A', True)" by blast
  from h(2) a(2) obtain key where key: "al_get (at_requesters A) p = Some key"
      "verify_federation_request E (request_document p (ah_timestamp h) (ah_nonce h) verb path) (header_signature h) key = Inr True"
      "fed_parse_time (PyStr (ah_timestamp h)) = Inr t"
    by (auto simp: verified_time_def rbind_Inr split: option.splits if_splits)
  from verify_federation_request_True [OF key(2)] al_get_Some_in [OF key(1)] key(3) h a(2)
  show "authentic E A now verb path hs p" unfolding authentic_def by blast
qed

section \<open>Nonces\<close>

record attempt =
  tm_now :: int
  tm_verb :: pystr
  tm_path :: pystr
  tm_headers :: headers

definition auth_step :: "ed25519 \<Rightarrow> authenticator \<Rightarrow> attempt \<Rightarrow> authenticator \<times> pystr option" where
  "auth_step E A a = (case authenticate_peer E A (tm_now a) (tm_verb a) (tm_path a) (tm_headers a) of Inl _ \<Rightarrow> (A, None) | Inr x \<Rightarrow> x)"

fun auth_run :: "ed25519 \<Rightarrow> authenticator \<Rightarrow> attempt list \<Rightarrow> authenticator \<times> pystr option list" where
  "auth_run E A [] = (A, [])"
| "auth_run E A (a # as) = (case auth_step E A a of (A', p) \<Rightarrow> (case auth_run E A' as of (A'', ps) \<Rightarrow> (A'', p # ps)))"

definition nonce_of :: "attempt \<Rightarrow> pystr option" where
  "nonce_of a = map_option ah_nonce (read_auth_headers (tm_headers a))"

lemma al_get_live: "al_get (at_nonces A) k = Some e \<Longrightarrow> now < e \<Longrightarrow> al_get (live_nonces A now) k = Some e"
proof -
  have "al_get d k = Some e \<Longrightarrow> now < e \<Longrightarrow> al_get (filter (\<lambda>p. now < snd p) d) k = Some e" for d :: "((pystr \<times> pystr) \<times> int) list"
    by (induction d) (auto split: if_splits)
  then show "al_get (at_nonces A) k = Some e \<Longrightarrow> now < e \<Longrightarrow> al_get (live_nonces A now) k = Some e"
    by (simp add: live_nonces_def)
qed

text \<open>The configuration never changes; a step changes the nonces only through \<open>admit_nonce\<close>.\<close>

lemma auth_step_cases:
  "auth_step E A a = (A, None)
   \<or> (\<exists>h A' b. read_auth_headers (tm_headers a) = Some h \<and> admit_nonce A (tm_now a) (ah_peer_id h, ah_nonce h) = (A', b)
        \<and> auth_step E A a = (A', if b then Some (ah_peer_id h) else None))"
  by (auto simp: auth_step_def authenticate_peer_def split: option.splits sum.splits prod.splits)

lemma admit_nonce_config:
  "admit_nonce A now k = (A', b) \<Longrightarrow> at_max_age A' = at_max_age A \<and> at_requesters A' = at_requesters A
     \<and> at_max_skew A' = at_max_skew A \<and> at_max_nonces A' = at_max_nonces A"
  by (auto simp: admit_nonce_def Let_def split: if_splits)

lemma auth_step_config:
  "auth_step E A a = (A', p) \<Longrightarrow> at_max_age A' = at_max_age A \<and> at_requesters A' = at_requesters A
     \<and> at_max_skew A' = at_max_skew A \<and> at_max_nonces A' = at_max_nonces A"
  using auth_step_cases [of E A a] admit_nonce_config by fastforce

lemma auth_step_bound:
  "auth_step E A a = (A', p) \<Longrightarrow> int (length (at_nonces A)) \<le> at_max_nonces A \<Longrightarrow> int (length (at_nonces A')) \<le> at_max_nonces A'"
proof -
  have l: "length (live_nonces A now) \<le> length (at_nonces A)" for now by (simp add: live_nonces_def)
  have s: "al_get d k = None \<Longrightarrow> length (al_set d k v) = Suc (length d)" for d :: "((pystr \<times> pystr) \<times> int) list" and k v
    by (induction d) (auto split: if_splits)
  assume "auth_step E A a = (A', p)" "int (length (at_nonces A)) \<le> at_max_nonces A"
  then show ?thesis using auth_step_cases [of E A a] l s
    by (auto simp: admit_nonce_def Let_def split: if_splits intro: order_trans [rotated])
qed

text \<open>While a nonce is remembered, no attempt with it is accepted, and it stays remembered.\<close>

lemma auth_step_blocked:
  assumes "al_get (at_nonces A) (p, n) = Some e" "tm_now a < e" "auth_step E A a = (A', q)"
  shows "al_get (at_nonces A') (p, n) = Some e \<and> (q = Some p \<longrightarrow> nonce_of a \<noteq> Some n)"
  using auth_step_cases [of E A a] al_get_live [OF assms(1,2)] assms
  by (auto simp: admit_nonce_def Let_def nonce_of_def split: if_splits)

lemma auth_run_blocked:
  "al_get (at_nonces A) (p, n) = Some e \<Longrightarrow> sorted (map tm_now as) \<Longrightarrow> auth_run E A as = (A', ps) \<Longrightarrow>
     \<forall>(a, q) \<in> set (zip as ps). q = Some p \<and> nonce_of a = Some n \<longrightarrow> e \<le> tm_now a"
proof (induction as arbitrary: A A' ps)
  case (Cons a as)
  obtain A1 q where step: "auth_step E A a = (A1, q)" by (cases "auth_step E A a")
  obtain A2 qs where run: "auth_run E A1 as = (A2, qs)" by (cases "auth_run E A1 as")
  show ?case
  proof (cases "tm_now a < e")
    case True
    from auth_step_blocked [OF Cons.prems(1) True step] Cons.IH [OF _ _ run] Cons.prems(2,3) step run show ?thesis by auto
  next
    case False
    have "e \<le> tm_now b" if "b \<in> set (a # as)" for b using False Cons.prems(2) that by force
    then show ?thesis using set_zip_leftD by fastforce
  qed
qed simp

lemma auth_run_length: "auth_run E A as = (A', ps) \<Longrightarrow> length ps = length as"
  by (induction as arbitrary: A A' ps) (auto split: prod.splits)

lemma authentic_config:
  "at_requesters A' = at_requesters A \<Longrightarrow> at_max_age A' = at_max_age A \<Longrightarrow> at_max_skew A' = at_max_skew A \<Longrightarrow>
     authentic E A' = authentic E A"
  by (intro ext) (simp add: authentic_def)

definition accepted_well :: "ed25519 \<Rightarrow> authenticator \<Rightarrow> attempt \<Rightarrow> pystr option \<Rightarrow> bool" where
  "accepted_well E A a p \<longleftrightarrow>
     (case p of None \<Rightarrow> True | Some peer_id \<Rightarrow> authentic E A (tm_now a) (tm_verb a) (tm_path a) (tm_headers a) peer_id)"

text \<open>Two acceptances of the same nonce of the same peer are at least the maximal age apart.\<close>

definition apart :: "authenticator \<Rightarrow> attempt \<times> pystr option \<Rightarrow> attempt \<times> pystr option \<Rightarrow> bool" where
  "apart A x y \<longleftrightarrow> snd x = None \<or> snd y \<noteq> snd x \<or> nonce_of (fst y) \<noteq> nonce_of (fst x)
     \<or> tm_now (fst x) + micros (at_max_age A) \<le> tm_now (fst y)"

lemma auth_run_ok:
  "sorted (map tm_now as) \<Longrightarrow> auth_run E A as = (A', ps) \<Longrightarrow> int (length (at_nonces A)) \<le> at_max_nonces A \<Longrightarrow>
     list_all2 (accepted_well E A) as ps \<and> sorted_wrt (apart A) (zip as ps) \<and> int (length (at_nonces A')) \<le> at_max_nonces A"
proof (induction as arbitrary: A A' ps)
  case (Cons a as)
  obtain A1 q where step: "auth_step E A a = (A1, q)" by (cases "auth_step E A a")
  obtain A2 qs where run: "auth_run E A1 as = (A2, qs)" by (cases "auth_run E A1 as")
  note config = auth_step_config [OF step]
  have ps: "A' = A2" "ps = q # qs" using Cons.prems(2) step run by auto
  have sorted: "sorted (map tm_now as)" using Cons.prems(1) by simp
  have "authentic E A1 = authentic E A" by (rule authentic_config) (use config in simp_all)
  then have "accepted_well E A1 = accepted_well E A" "apart A1 = apart A"
    using config by (simp_all only: accepted_well_def apart_def fun_eq_iff simp_thms)
  with Cons.IH [OF sorted run auth_step_bound [OF step Cons.prems(3)]] config
  have rest: "list_all2 (accepted_well E A) as qs" "sorted_wrt (apart A) (zip as qs)" "int (length (at_nonces A2)) \<le> at_max_nonces A"
    by simp_all
  have "accepted_well E A a q \<and> (\<forall>y \<in> set (zip as qs). apart A (a, q) y)"
  proof (cases q)
    case (Some p)
    from step Some have s: "authenticate_peer E A (tm_now a) (tm_verb a) (tm_path a) (tm_headers a) = Inr (A1, Some p)"
      by (auto simp: auth_step_def split: sum.splits)
    from authenticate_peer_Some(2) [OF s] obtain h where h: "read_auth_headers (tm_headers a) = Some h"
      "admit_nonce A (tm_now a) (p, ah_nonce h) = (A1, True)" by blast
    then have "al_get (at_nonces A1) (p, ah_nonce h) = Some (tm_now a + micros (at_max_age A))"
      by (auto simp: admit_nonce_def Let_def split: if_splits)
    from auth_run_blocked [OF this sorted run] h(1) Some authenticate_peer_Some(1) [OF s]
    show ?thesis by (force simp: apart_def accepted_well_def nonce_of_def)
  qed (simp add: accepted_well_def apart_def)
  with rest ps show ?case by simp
qed simp

section \<open>Honest requests\<close>

lemma read_request_headers: "read_auth_headers (request_headers h) = Some h"
  by (simp add: read_auth_headers_def sole_header_def all_headers_def request_headers_def u_def lower_ascii_def)

lemma exact_keys_request: "exact_keys (request_document p t n verb path)
    [''spec_version'', ''peer_id'', ''timestamp'', ''nonce'', ''method'', ''path'', ''body_digest'']"
  unfolding request_document_def exact_keys_obj by simp

lemma is_hex_scalar: "is_hex c \<Longrightarrow> scalar c"
  by (auto simp: is_hex_def scalar_ascii)

lemma request_document_ok:
  assumes "p \<noteq> []" "list_all scalar p" "0 \<le> t" "t < max_instant" "is_nonce n" "request_path_ok path" "list_all scalar path"
  shows "\<exists>c. canonical_json (request_document p (iso_utc t) n (u ''GET'') path) = Inr c
    \<and> request_signing_input (request_document p (iso_utc t) n (u ''GET'') path) = Inr (request_domain @ c)"
proof -
  let ?r = "request_document p (iso_utc t) n (u ''GET'') path"
  have "list_all scalar (iso_utc t)" using iso_utc_is_timestamp [OF assms(3,4)] timestamp_scalar by blast
  moreover have "list_all scalar n" using assms(5) is_hex_scalar by (auto simp: is_nonce_def list_all_iff)
  moreover have "list_all scalar empty_body_digest" by (rule is_digest_scalar) (simp add: empty_body_digest_def)
  ultimately have "jsonable ?r" using assms(2,7) by (simp add: request_document_def jsonable_simps)
  then obtain c where c: "canonical_json ?r = Inr c" using canonical_json_jsonable by blast
  have "validate_federation_request ?r = Inr ()"
    using assms c exact_keys_request parse_iso_utc [OF assms(3,4)]
    by (simp add: validate_federation_request_def checks fed_exact_keys_def fed_parse_time_def parse_time_def)
       (simp add: request_document_def nonempty_str_def)
  with c show ?thesis by (simp add: request_signing_input_def)
qed

lemma http_decode_encoded: "length sig = 64 \<Longrightarrow> http_decode_signature (PyStr (b64_encode sig)) = Inr sig"
  by (simp add: http_decode_signature_def encode_signature_def length_b64_encode b64_chars)

text \<open>What the client signs, the server verifies.\<close>

lemma signed_headers_verify:
  assumes "ed25519_ok E" "length (hp_seed K) = 32" "hp_peer_id K \<noteq> []" "list_all scalar (hp_peer_id K)"
    and "0 \<le> t" "t < max_instant" "is_nonce n" "request_path_ok path" "list_all scalar path"
  shows "\<exists>h. signed_headers E K path t n = Inr h \<and> ah_peer_id h = hp_peer_id K \<and> ah_timestamp h = iso_utc t \<and> ah_nonce h = n
    \<and> ah_key_id h = digest_bytes (ed_public E (hp_seed K)) \<and> (\<exists>sig. ah_signature h = b64_encode sig)
    \<and> verify_federation_request E (request_document (hp_peer_id K) (iso_utc t) n (u ''GET'') path) (header_signature h)
        (ed_public E (hp_seed K)) = Inr True"
proof -
  obtain c where c: "request_signing_input (request_document (hp_peer_id K) (iso_utc t) n (u ''GET'') path) = Inr (request_domain @ c)"
    using request_document_ok [OF assms(3-9)] by blast
  let ?sig = "ed_sign E (hp_seed K) (request_domain @ c)" and ?pk = "ed_public E (hp_seed K)"
  have E: "length ?sig = 64" "length ?pk = 32" "ed_verify E ?pk ?sig (request_domain @ c)" using assms(1,2) by (auto simp: ed25519_ok_def)
  let ?h = "\<lparr>ah_peer_id = hp_peer_id K, ah_timestamp = iso_utc t, ah_nonce = n, ah_key_id = digest_bytes ?pk, ah_signature = b64_encode ?sig\<rparr>"
  have "signed_headers E K path t n = Inr ?h"
    using assms(2) c by (simp add: signed_headers_def sign_federation_request_def signature_document_def encode_signature_def guard_def)
  moreover have "fed_exact_keys (header_signature ?h) [''profile'', ''key_id'', ''value''] ''request signature'' = Inr ()"
    unfolding fed_exact_keys_def header_signature_def exact_keys_obj by simp
  then have "verify_federation_request E (request_document (hp_peer_id K) (iso_utc t) n (u ''GET'') path) (header_signature ?h) ?pk = Inr True"
    using c E by (simp add: verify_federation_request_def header_signature_def http_decode_encoded)
  ultimately show ?thesis by (intro exI [of _ ?h]) auto
qed

lemma authenticate_honest:
  assumes "verify_federation_request E (request_document (ah_peer_id h) (ah_timestamp h) (ah_nonce h) verb path) (header_signature h) key = Inr True"
    and "al_get (at_requesters A) (ah_peer_id h) = Some key" "ah_timestamp h = iso_utc t" "0 \<le> t" "t < max_instant"
    and "now - micros (at_max_age A) \<le> t" "t \<le> now + micros (at_max_skew A)"
    and "al_get (live_nonces A now) (ah_peer_id h, ah_nonce h) = None" "int (length (live_nonces A now)) < at_max_nonces A"
  shows "authenticate_peer E A now verb path (request_headers h)
    = Inr (A\<lparr>at_nonces := al_set (live_nonces A now) (ah_peer_id h, ah_nonce h) (now + micros (at_max_age A))\<rparr>, Some (ah_peer_id h))"
proof -
  have "verified_time E A verb path h = Inr (Some t)"
    using assms(1-3) parse_iso_utc [OF assms(4,5)] by (simp add: verified_time_def fed_parse_time_def parse_time_def)
  then show ?thesis using assms(6-9) by (simp add: authenticate_peer_def read_request_headers admit_nonce_def Let_def)
qed

section \<open>Nonces over a run\<close>

definition example_client :: http_peer where
  "example_client =
     \<lparr>hp_base_url = u ''https://peer.example'', hp_peer_id = u ''client'', hp_seed = example_seed,
      hp_max_availability_bytes = 1000000, hp_max_bundle_bytes = 1000000\<rparr>"

definition example_authenticator :: authenticator where
  "example_authenticator =
     \<lparr>at_requesters = [(u ''client'', example_seed)], at_max_age = 60, at_max_skew = 5, at_max_nonces = 100, at_nonces = []\<rparr>"

definition example_nonce :: pystr where
  "example_nonce = replicate 32 97"

definition example_attempt :: "int \<Rightarrow> auth_headers \<Rightarrow> attempt" where
  "example_attempt now h = \<lparr>tm_now = now, tm_verb = u ''GET'', tm_path = availability_path, tm_headers = request_headers h\<rparr>"

lemma example_authenticator_new:
  "new_authenticator [(u ''client'', example_seed)] (PyInt 60) (PyInt 5) (PyInt 100) = Inr example_authenticator"
  by (simp add: new_authenticator_def checks in_range_def example_authenticator_def example_seed_def)

lemma example_nonce_ok: "is_nonce example_nonce"
  by (auto simp: is_nonce_def example_nonce_def is_hex_def list_all_iff)

lemma availability_path_ok: "request_path_ok availability_path" "list_all scalar availability_path"
  by (simp_all add: request_path_ok_def availability_path_def)

lemma example_request: "\<exists>h. signed_headers plain_scheme example_client availability_path t example_nonce = Inr h
    \<and> ah_peer_id h = u ''client'' \<and> ah_timestamp h = iso_utc t \<and> ah_nonce h = example_nonce
    \<and> verify_federation_request plain_scheme (request_document (u ''client'') (iso_utc t) example_nonce (u ''GET'') availability_path)
        (header_signature h) example_seed = Inr True"
  if "0 \<le> t" "t < max_instant"
  using signed_headers_verify [OF plain_scheme_ok _ _ _ that example_nonce_ok availability_path_ok, of example_client]
  by (auto simp: example_client_def example_seed_def plain_scheme_def)

text \<open>
  A request that is signed ahead of the server's clock is accepted again once its nonce has expired: the
  nonce is remembered for the maximal age from its acceptance, while the request stays fresh for the
  maximal age from its later timestamp.
\<close>

lemma replay_after_max_age:
  "\<exists>h A. auth_run plain_scheme example_authenticator [example_attempt 0 h, example_attempt 60000000 h]
     = (A, [Some (u ''client''), Some (u ''client'')]) \<and> nonce_of (example_attempt 0 h) = Some example_nonce"
proof -
  have t: "(0::int) \<le> 5000000" "5000000 < max_instant" by (simp_all add: max_instant_def)
  from example_request [OF t] obtain h where h: "ah_peer_id h = u ''client''" "ah_timestamp h = iso_utc 5000000" "ah_nonce h = example_nonce"
    "verify_federation_request plain_scheme (request_document (ah_peer_id h) (ah_timestamp h) (ah_nonce h) (u ''GET'') availability_path)
        (header_signature h) example_seed = Inr True" by auto
  let ?k = "(u ''client'', example_nonce)"
  let ?A1 = "example_authenticator\<lparr>at_nonces := [(?k, 60000000)]\<rparr>"
  have 1: "authenticate_peer plain_scheme example_authenticator 0 (u ''GET'') availability_path (request_headers h) = Inr (?A1, Some (u ''client''))"
    using authenticate_honest [OF h(4) _ h(2) t, of example_authenticator 0] h
    by (simp add: example_authenticator_def live_nonces_def micros_def)
  have "live_nonces ?A1 60000000 = []" by (simp add: live_nonces_def)
  then have "\<exists>A2. authenticate_peer plain_scheme ?A1 60000000 (u ''GET'') availability_path (request_headers h) = Inr (A2, Some (u ''client''))"
    using authenticate_honest [OF h(4) _ h(2) t, of ?A1 60000000] h by (simp add: example_authenticator_def micros_def)
  with 1 show ?thesis
    by (intro exI [of _ h]) (auto simp: auth_step_def example_attempt_def nonce_of_def read_request_headers h(3))
qed

text \<open>C17: Authentication is sound and bounds replays. Over any sequence of requests at times that do not go
  back, every accepted request comes from a configured requester whose key verified the signature over
  exactly its method, path, timestamp and nonce, with a timestamp in the window; two acceptances of one
  nonce of one peer are at least the maximal age apart; and no more nonces than configured are remembered.\<close>

theorem nonce_replay_bounded:
  assumes "new_authenticator requesters age skew nonces = Inr A" "sorted (map tm_now as)" "auth_run E A as = (A', ps)"
  shows "list_all2 (accepted_well E A) as ps \<and> sorted_wrt (apart A) (zip as ps) \<and> int (length (at_nonces A')) \<le> int_of nonces"
proof -
  from assms(1) have "at_nonces A = []" "at_max_nonces A = int_of nonces" "1 \<le> int_of nonces"
    by (auto simp: new_authenticator_def in_range_def checks seq_Inr)
  with auth_run_ok [OF assms(2,3)] show ?thesis by simp
qed

theorem nonce_replay_bounded_witness:
  "\<exists>h. list_all2 (accepted_well plain_scheme example_authenticator)
       [example_attempt 0 h, example_attempt 60000000 h] [Some (u ''client''), Some (u ''client'')]
     \<and> apart example_authenticator (example_attempt 0 h, Some (u ''client'')) (example_attempt 60000000 h, Some (u ''client''))"
proof -
  obtain h A where r: "auth_run plain_scheme example_authenticator [example_attempt 0 h, example_attempt 60000000 h]
     = (A, [Some (u ''client''), Some (u ''client'')])" using replay_after_max_age by blast
  have "sorted (map tm_now [example_attempt 0 h, example_attempt 60000000 h])" by (simp add: example_attempt_def)
  from nonce_replay_bounded [OF example_authenticator_new this r] show ?thesis by auto
qed

end
