(* ===== verification/Federation_Http_Refines.thy ===== *)
theory Federation_Http_Refines
  imports Federation_Http_Theorems
begin

text \<open>
  The client over the server is the peer that the catalog is: what the client reads is what the
  catalog answers, in the normal form of documents read from JSON.
\<close>

section \<open>Headers that can be sent\<close>

definition plain_char :: "int \<Rightarrow> bool" where
  "plain_char c \<longleftrightarrow> 33 \<le> c \<and> c < 127"

lemma plain_sendable: "list_all plain_char v \<Longrightarrow> sendable v"
proof -
  have "list_all plain_char v \<Longrightarrow> \<not> bad_line_break v" by (induction v) (auto simp: plain_char_def)
  then show "list_all plain_char v \<Longrightarrow> sendable v" by (auto simp: sendable_def plain_char_def list_all_iff)
qed

lemma plain_scalar: "list_all plain_char v \<Longrightarrow> list_all scalar v"
  by (auto simp: list_all_iff plain_char_def scalar_ascii)

lemma plain_chars:
  "is_timestamp s \<Longrightarrow> list_all plain_char s" "is_nonce s \<Longrightarrow> list_all plain_char s" "is_digest s \<Longrightarrow> list_all plain_char s"
  "list_all plain_char (b64_encode b)"
proof -
  show "is_timestamp s \<Longrightarrow> list_all plain_char s"
    using timestamp_chars [of s] by (auto simp: list_all_iff stamp_char_def plain_char_def)
  show "is_nonce s \<Longrightarrow> list_all plain_char s" by (auto simp: is_nonce_def list_all_iff is_hex_def plain_char_def)
  have "u ''sha256:'' = [115, 104, 97, 50, 53, 54, 58]" by (simp add: u_def)
  then show "is_digest s \<Longrightarrow> list_all plain_char s"
    by (fastforce simp: is_digest_def starts_with_iff removeprefix_def list_all_iff is_hex_def plain_char_def)
  have "is_b64 c \<Longrightarrow> plain_char c" for c by (auto simp: is_b64_def b64_val_def plain_char_def split: if_splits)
  with b64_chars show "list_all plain_char (b64_encode b)" by (auto simp: list_all_iff)
qed

lemma signed_headers_sendable:
  assumes "list_all plain_char (ah_peer_id h)" "ah_timestamp h = iso_utc t" "0 \<le> t" "t < max_instant" "is_nonce (ah_nonce h)"
    and "ah_key_id h = digest_bytes key" "ah_signature h = b64_encode sig"
  shows "list_all (\<lambda>p. sendable (snd p)) (request_headers h)"
proof -
  have "sendable (u ''application/json'')" by (simp add: sendable_def u_def)
  with assms plain_chars iso_utc_is_timestamp [OF assms(3,4)] show ?thesis
    by (simp add: request_headers_def plain_sendable)
qed

section \<open>Reading a reply\<close>

lemma read_json_reply:
  assumes "wf_val v" "canonical_json v = Inr c" "int (length c) \<le> limit" "int (length c) \<le> maximum"
  shows "rbind (json_reply limit v) (read_reply maximum) = Inr (norm v)"
proof -
  have d: "dump_int (int (length c)) \<noteq> []" "list_all is_digit (dump_int (int (length c)))" "digits_val (dump_int (int (length c))) = int (length c)"
    using dump_nat_props [of "int (length c)"] by (auto simp: dump_int_def)
  let ?hs = "[(u ''Content-Type'', u ''application/json''), (u ''Content-Length'', dump_int (int (length c)))]"
  have hs: "get_header ?hs ''Content-Type'' = Some (u ''application/json'')" "get_header ?hs ''Content-Encoding'' = None"
    "get_header ?hs ''Content-Length'' = Some (dump_int (int (length c)))"
    by (simp_all add: get_header_def all_headers_def u_def lower_ascii_def)
  have "media_type_of ?hs = u ''application/json''"
    unfolding media_type_of_def hs by (simp add: or_empty_def u_def strip_def is_space_def lower_ascii_def)
  with assms d hs loads_canonical [OF assms(1,2)] show ?thesis
    by (simp add: json_reply_def read_reply_def checks length_exceeds_def or_empty_def strict_json_def guard_def)
qed

lemma read_status_reply: "status < 200 \<or> 300 \<le> status \<Longrightarrow> read_reply maximum (status_reply status) = Inl OSError"
  by (simp add: read_reply_def status_reply_def)

section \<open>The exchange\<close>

definition client_known :: "ed25519 \<Rightarrow> http_peer \<Rightarrow> authenticator \<Rightarrow> bool" where
  "client_known E K A \<longleftrightarrow> length (hp_seed K) = 32 \<and> hp_peer_id K \<noteq> [] \<and> list_all plain_char (hp_peer_id K)
     \<and> al_get (at_requesters A) (hp_peer_id K) = Some (ed_public E (hp_seed K))"

definition in_window :: "authenticator \<Rightarrow> int \<Rightarrow> int \<Rightarrow> bool" where
  "in_window A observed signed_at \<longleftrightarrow> 0 \<le> signed_at \<and> signed_at < max_instant
     \<and> observed - micros (at_max_age A) \<le> signed_at \<and> signed_at \<le> observed + micros (at_max_skew A)"

text \<open>A nonce that is not remembered, and room for it.\<close>

definition room_for :: "http_peer \<Rightarrow> authenticator \<Rightarrow> pystr \<Rightarrow> nat \<Rightarrow> bool" where
  "room_for K A nonce k \<longleftrightarrow> is_nonce nonce \<and> (hp_peer_id K, nonce) \<notin> fst ` set (at_nonces A)
     \<and> int (length (at_nonces A) + k) \<le> at_max_nonces A"

lemma path_ok: "request_path_ok availability_path" "list_all scalar availability_path"
  "is_digest d \<Longrightarrow> request_path_ok (bundle_path d)" "is_digest d \<Longrightarrow> list_all scalar (bundle_path d)"
  "is_digest d \<Longrightarrow> bundle_digest (bundle_path d) = Some d"
  using is_digest_scalar by (auto simp: request_path_ok_def availability_path_def bundle_path_def bundle_digest_def)

lemma live_nonces_room:
  assumes "room_for K A nonce 1"
  shows "al_get (live_nonces A now) (hp_peer_id K, nonce) = None" "int (length (live_nonces A now)) < at_max_nonces A"
proof -
  have "length (live_nonces A now) \<le> length (at_nonces A)" by (simp add: live_nonces_def)
  then show "int (length (live_nonces A now)) < at_max_nonces A" using assms by (simp add: room_for_def)
  show "al_get (live_nonces A now) (hp_peer_id K, nonce) = None"
    using assms by (auto simp: room_for_def live_nonces_def al_get_None)
qed

text \<open>One honest request reaches the handler of its path.\<close>

lemma http_get_served:
  assumes "ed25519_ok E" "client_known E K (hs_authenticator H)" "hs_limiter H = None" "in_window (hs_authenticator H) observed now"
    and "room_for K (hs_authenticator H) nonce 1" "request_path_ok path" "list_all scalar path"
  shows "\<exists>A. at_nonces A = al_set (live_nonces (hs_authenticator H) observed) (hp_peer_id K, nonce) (observed + micros (at_max_age (hs_authenticator H)))
    \<and> at_requesters A = at_requesters (hs_authenticator H) \<and> at_max_age A = at_max_age (hs_authenticator H)
    \<and> at_max_skew A = at_max_skew (hs_authenticator H) \<and> at_max_nonces A = at_max_nonces (hs_authenticator H)
    \<and> http_get E K (server_wire E view K (observed, limited, clock)) path maximum now nonce H
      = (H\<lparr>hs_authenticator := A, hs_limiter := None\<rparr>,
         rbind (case serve_path E view (hs_catalog H) (hs_max_response_bytes H) clock path of Inl _ \<Rightarrow> Inl OSError | Inr r \<Rightarrow> Inr r)
           (read_reply maximum))"
proof -
  let ?A = "hs_authenticator H"
  have t: "0 \<le> now" "now < max_instant" using assms(4) by (auto simp: in_window_def)
  have n: "is_nonce nonce" using assms(5) by (simp add: room_for_def)
  have K: "length (hp_seed K) = 32" "hp_peer_id K \<noteq> []" "list_all plain_char (hp_peer_id K)" "list_all scalar (hp_peer_id K)"
    "al_get (at_requesters ?A) (hp_peer_id K) = Some (ed_public E (hp_seed K))"
    using assms(2) plain_scalar by (auto simp: client_known_def)
  from signed_headers_verify [OF assms(1) K(1,2,4) t n assms(6,7)] obtain h sig where h: "signed_headers E K path now nonce = Inr h"
    "ah_peer_id h = hp_peer_id K" "ah_timestamp h = iso_utc now" "ah_nonce h = nonce" "ah_key_id h = digest_bytes (ed_public E (hp_seed K))"
    "ah_signature h = b64_encode sig"
    "verify_federation_request E (request_document (ah_peer_id h) (ah_timestamp h) (ah_nonce h) (u ''GET'') path) (header_signature h)
        (ed_public E (hp_seed K)) = Inr True" by auto
  have "authenticate_peer E ?A observed (u ''GET'') path (request_headers h)
      = Inr (?A\<lparr>at_nonces := al_set (live_nonces ?A observed) (hp_peer_id K, nonce) (observed + micros (at_max_age ?A))\<rparr>, Some (hp_peer_id K))"
    using authenticate_honest [OF h(7) _ h(3) t] K(5) h(2,4) assms(4) live_nonces_room [OF assms(5)] by (simp add: in_window_def)
  moreover have "list_all (\<lambda>p. sendable (snd p)) (request_headers h)"
    using signed_headers_sendable [OF _ h(3) t _ h(5,6)] K(3) h(2,4) n by simp
  ultimately show ?thesis using h(1) assms(3)
    by (intro exI [of _ "?A\<lparr>at_nonces := al_set (live_nonces ?A observed) (hp_peer_id K, nonce) (observed + micros (at_max_age ?A))\<rparr>"])
      (auto simp: http_get_def server_wire_def do_get_def limit_rate_def split: sum.split)
qed

section \<open>Bundles\<close>

text \<open>What the client makes of a bundle: its documents in normal form, its artifacts in order of name.\<close>

definition norm_bundle :: "fed_bundle \<Rightarrow> fed_bundle" where
  "norm_bundle b = \<lparr>fb_manifest = norm (fb_manifest b), fb_receipt = norm (fb_receipt b), fb_artifacts = sort_items (fb_artifacts b)\<rparr>"

lemma decode_blob_encoded: "decode_blob (PyStr (b64_encode data)) = Inr data"
proof -
  have "(4 * n + 2) div 3 mod 4 \<noteq> (1::nat)" for n
  proof -
    have "n = 3 * (n div 3) + n mod 3" by simp
    then obtain q r where n: "n = 3 * q + r" "r < 3" by (metis mod_less_divisor zero_less_numeral)
    then have "(4 * n + 2) div 3 = 4 * q + (4 * r + 2) div 3" by simp
    moreover have "(4 * r + 2) div 3 mod 4 \<noteq> 1" using n(2) by (cases r; cases "r - 1"; cases "r - 2"; simp)
    ultimately show ?thesis by simp
  qed
  then show ?thesis by (simp add: decode_blob_def b64_chars length_b64_encode)
qed

lemma decode_blobs_encoded:
  "decode_blobs (map (\<lambda>(name, data). (PyStr name, PyStr (b64_encode data))) arts) = Inr arts"
  by (induction arts) (auto simp: decode_blob_encoded)

lemma bundle_document_items:
  "exact_keys (bundle_document b) [''spec_version'', ''manifest'', ''receipt'', ''artifacts'']"
  "item (bundle_document b) ''spec_version'' = S ''oncemesh.federation-bundle/v0''"
  "item (bundle_document b) ''manifest'' = fb_manifest b" "item (bundle_document b) ''receipt'' = fb_receipt b"
  "item (bundle_document b) ''artifacts'' = PyDict (map (\<lambda>(name, data). (PyStr name, PyStr (b64_encode data))) (fb_artifacts b))"
proof -
  show "exact_keys (bundle_document b) [''spec_version'', ''manifest'', ''receipt'', ''artifacts'']"
    unfolding bundle_document_def exact_keys_obj by simp
qed (simp_all add: bundle_document_def)

lemma norm_artifacts:
  "norm (PyDict (map (\<lambda>(name, data). (PyStr name, PyStr (b64_encode data))) arts))
    = PyDict (map (\<lambda>(name, data). (PyStr name, PyStr (b64_encode data))) (sort_items arts))"
proof -
  have "sorted_items (map (\<lambda>(name, data). (PyStr name, PyStr (b64_encode data))) arts)
      = map (\<lambda>(name, data). (name, PyStr (b64_encode data))) (sort_items arts)"
    using sort_items_map [of "\<lambda>x. x" "\<lambda>data. PyStr (b64_encode data)" arts] by (simp add: sorted_items_def comp_def split_def)
  then show ?thesis unfolding norm_dict by (simp add: comp_def split_def)
qed

lemma bundle_document_jsonable:
  assumes "jsonable (fb_manifest b)" "jsonable (fb_receipt b)" "distinct (map fst (fb_artifacts b))"
    and "\<forall>a \<in> set (fb_artifacts b). list_all scalar (fst a)"
  shows "jsonable (bundle_document b)"
proof -
  have "inj PyStr" by (simp add: inj_def)
  then have "distinct (map PyStr (map fst (fb_artifacts b)))" using assms(3) by (simp add: distinct_map inj_on_def)
  then have "jsonable (PyDict (map (\<lambda>(name, data). (PyStr name, PyStr (b64_encode data))) (fb_artifacts b)))"
    using assms(4) plain_scalar [OF plain_chars(4)] by (auto simp: jsonable_simps comp_def split_def)
  then show ?thesis using assms(1,2) by (simp add: bundle_document_def jsonable_simps)
qed

lemma read_bundle_norm:
  assumes "jsonable (bundle_document b)" "is_dict (fb_manifest b)" "is_dict (fb_receipt b)" "\<forall>a \<in> set (fb_artifacts b). fst a \<noteq> []"
  shows "read_bundle (norm (bundle_document b)) = Inr (norm_bundle b)"
proof -
  note i = bundle_document_items [of b]
  have "item (norm (bundle_document b)) ''artifacts'' = PyDict (map (\<lambda>(name, data). (PyStr name, PyStr (b64_encode data))) (sort_items (fb_artifacts b)))"
    using i(5) by (simp only: item_norm [OF assms(1)] norm_artifacts)
  moreover have "\<not> list_ex (\<lambda>a. fst a = []) (sort_items (fb_artifacts b))" using assms(4) by (simp add: list_ex_iff sort_items_def)
  ultimately show ?thesis using assms i
    by (simp add: read_bundle_def checks fed_exact_keys_def item_norm decode_blobs_encoded norm_bundle_def norm_str)
qed

section \<open>The peer at the other end\<close>

text \<open>
  The peer that an import talks to: it asks for the availability at \<open>now\<close> with one nonce, and for a
  bundle at a later clock reading with another, in the state the first request left. The two requests
  go over \<open>send\<close> and \<open>send'\<close>, which differ in the clocks that the server reads.
\<close>

definition http_peer_at :: "ed25519 \<Rightarrow> http_peer \<Rightarrow> 's wire \<Rightarrow> 's wire \<Rightarrow> int \<Rightarrow> int \<Rightarrow> pystr \<Rightarrow> pystr \<Rightarrow> 's \<Rightarrow> peer" where
  "http_peer_at E K send send' now later nonce nonce' s =
     \<lparr>pr_availability = (\<lambda>t. snd (http_availability E K send t nonce s)),
      pr_fetch_bundle = (\<lambda>digest.
        snd (http_fetch_bundle E K send' later nonce' digest (fst (http_availability E K send now nonce s))))\<rparr>"

definition fits :: "fed_server \<Rightarrow> int \<Rightarrow> pyval \<Rightarrow> bool" where
  "fits H maximum v \<longleftrightarrow> (\<forall>c. canonical_json v = Inr c \<longrightarrow> int (length c) \<le> hs_max_response_bytes H \<and> int (length c) \<le> maximum)"

lemma read_fitting:
  assumes "jsonable v" "fits H maximum v"
  shows "\<exists>r. json_reply (hs_max_response_bytes H) v = Inr r \<and> read_reply maximum r = Inr (norm v)"
proof -
  obtain c where c: "canonical_json v = Inr c" using canonical_json_jsonable [OF assms(1)] by blast
  with assms have "rbind (json_reply (hs_max_response_bytes H) v) (read_reply maximum) = Inr (norm v)"
    by (intro read_json_reply) (auto simp: fits_def jsonable_def)
  then show ?thesis by (simp add: rbind_Inr)
qed

lemma catalog_availability_jsonable:
  assumes "ed25519_ok E" "catalog_ok E view C" "0 \<le> now" "now < max_instant"
    and "list_all (\<lambda>p. published_bytes p \<le> max_safe_integer) (ct_published C)" "catalog_availability E C now = Inr M"
  shows "jsonable M \<and> is_dict M"
proof -
  note doc = catalog_document_ok [OF assms(2-5)]
  have "availability_entries (ct_published C) = Inr (map published_entry (ct_published C))"
    using availability_entries_ok assms(2) by (auto simp: catalog_ok_def)
  with assms(6) have "sign_availability E (catalog_document C now) (ct_seed C) = Inr M"
    by (simp add: catalog_availability_def catalog_document_def)
  then obtain msg where M: "M = with_item (catalog_document C now) ''signature'' (signature_document (ed_public E (ct_seed C)) (ed_sign E (ct_seed C) msg))"
    by (auto simp: sign_availability_def seq_Inr rbind_Inr Let_def)
  have "length (ct_seed C) = 32" using assms(2) by (simp add: catalog_ok_def)
  then have "jsonable (signature_document (ed_public E (ct_seed C)) (ed_sign E (ct_seed C) msg))"
    using assms(1) by (intro signature_document_ok) (auto simp: ed25519_ok_def)
  moreover have "is_dict (catalog_document C now)" using doc(1) by (simp add: availability_shape_def exact_keys_def)
  ultimately show ?thesis using jsonable_with_item [OF doc(2)] M by simp
qed

lemma http_availability_served:
  assumes "ed25519_ok E" "client_known E K (hs_authenticator H)" "hs_limiter H = None" "in_window (hs_authenticator H) observed now"
    and "room_for K (hs_authenticator H) nonce 1" "catalog_ok E view (hs_catalog H)" "0 \<le> clock" "clock < max_instant"
    and "list_all (\<lambda>p. published_bytes p \<le> max_safe_integer) (ct_published (hs_catalog H))"
    and "catalog_availability E (hs_catalog H) clock = Inr M" "fits H (hp_max_availability_bytes K) M"
  shows "snd (http_availability E K (server_wire E view K (observed, limited, clock)) now nonce H) = Inr (norm M)"
proof -
  from catalog_availability_jsonable [OF assms(1,6-10)] have M: "jsonable M" "is_dict M" by auto
  from read_fitting [OF M(1) assms(11)] obtain r where r: "json_reply (hs_max_response_bytes H) M = Inr r"
    "read_reply (hp_max_availability_bytes K) r = Inr (norm M)" by blast
  have "serve_path E view (hs_catalog H) (hs_max_response_bytes H) clock availability_path = Inr r"
    using assms(10) r(1) by (simp add: serve_path_def)
  with http_get_served [OF assms(1-5) availability_path_ok, of view limited clock "hp_max_availability_bytes K"] r(2) M(2)
  show ?thesis by (auto simp: http_availability_def guard_def)
qed

lemma http_fetch_served:
  assumes "ed25519_ok E" "client_known E K (hs_authenticator H)" "hs_limiter H = None" "in_window (hs_authenticator H) observed now"
    and "room_for K (hs_authenticator H) nonce 1" "catalog_ok E view (hs_catalog H)"
    and "\<forall>(d, (action, m, r)) \<in> set (ct_published (hs_catalog H)). wf_val m \<and> wf_val r"
    and "\<forall>b. catalog_fetch_bundle view (hs_catalog H) digest = Inr (Some b) \<longrightarrow> fits H (hp_max_bundle_bytes K) (bundle_document b)"
  shows "\<exists>found. catalog_fetch_bundle view (hs_catalog H) digest = Inr found
    \<and> snd (http_fetch_bundle E K (server_wire E view K (observed, limited, clock)) now nonce digest H) = Inr (map_option norm_bundle found)"
proof (cases "al_get (ct_published (hs_catalog H)) digest")
  case None
  then have f: "catalog_fetch_bundle view (hs_catalog H) digest = Inr None" by (simp add: catalog_fetch_bundle_def)
  show ?thesis
  proof (cases "is_digest digest")
    case True
    then have "serve_path E view (hs_catalog H) (hs_max_response_bytes H) clock (bundle_path digest) = Inr (status_reply 404)"
      using f path_ok(5) by (simp add: serve_path_def bundle_path_def availability_path_def u_def)
    with http_get_served [OF assms(1-5) path_ok(3,4) [OF True], of view limited clock "hp_max_bundle_bytes K"] f True
    show ?thesis by (auto simp: http_fetch_bundle_def read_status_reply)
  qed (simp add: f http_fetch_bundle_def)
next
  case (Some x)
  obtain action m r where x: "x = (action, m, r)" by (cases x) auto
  have p: "(digest, (action, m, r)) \<in> set (ct_published (hs_catalog H))" using al_get_Some_in [OF Some] x by simp
  then have pub: "published_ok E view (ct_receipt_keys (hs_catalog H)) (digest, (action, m, r))"
    using assms(6) by (auto simp: catalog_ok_def list_all_iff)
  from published_bundle [OF assms(6) p] obtain arts where f: "catalog_fetch_bundle view (hs_catalog H) digest
      = Inr (Some \<lparr>fb_manifest = m, fb_receipt = r, fb_artifacts = arts\<rparr>)"
    "map fst arts = map (\<lambda>a. str_of (item a ''name'')) (artifacts_of m)" "distinct (map fst arts)" by blast
  let ?b = "\<lparr>fb_manifest = m, fb_receipt = r, fb_artifacts = arts\<rparr>"
  have d: "is_digest digest" using pub by (auto simp: published_ok_def manifest_digest_Inr object_digest_is_digest)
  have mr: "manifest_ok m" "receipt_ok True r" using published_manifest [OF pub] pub by (auto simp: published_ok_def validate_receipt_iff)
  then have j: "jsonable m" "jsonable r" using assms(7) p by (auto simp: manifest_ok_def receipt_ok_def canonical_ok)
  have names: "fst a \<noteq> [] \<and> list_all scalar (fst a)" if a: "a \<in> set arts" for a
  proof -
    from a f(2) have "fst a \<in> (\<lambda>a. str_of (item a ''name'')) ` set (artifacts_of m)" by (metis image_eqI image_set)
    then obtain e where e: "e \<in> set (artifacts_of m)" "fst a = str_of (item e ''name'')" by blast
    have "jsonable e" using j(1) e(1) jsonable_items_of [OF jsonable_item [OF j(1)]] by (simp add: artifacts_of_def)
    then have "jsonable (item e ''name'')" by (rule jsonable_item)
    moreover have "nonempty_str (item e ''name'')" using mr(1) e(1) by (simp add: manifest_ok_def list_all_iff artifact_ok_def)
    ultimately show ?thesis using e(2) by (auto simp: nonempty_str_def jsonable_simps elim!: is_strE)
  qed
  have jb: "jsonable (bundle_document ?b)" using j f(3) names by (intro bundle_document_jsonable) auto
  from read_fitting [OF jb] assms(8) f(1) obtain rep where rep: "json_reply (hs_max_response_bytes H) (bundle_document ?b) = Inr rep"
    "read_reply (hp_max_bundle_bytes K) rep = Inr (norm (bundle_document ?b))" by blast
  have "read_bundle (norm (bundle_document ?b)) = Inr (norm_bundle ?b)"
    using names mr by (intro read_bundle_norm [OF jb]) (auto simp: manifest_ok_def receipt_ok_def exact_keys_def)
  moreover have "serve_path E view (hs_catalog H) (hs_max_response_bytes H) clock (bundle_path digest) = Inr rep"
    using f(1) d path_ok(5) rep(1) by (simp add: serve_path_def bundle_path_def availability_path_def u_def)
  ultimately show ?thesis
    using http_get_served [OF assms(1-5) path_ok(3,4) [OF d], of view limited clock "hp_max_bundle_bytes K"] f(1) d rep(2)
    by (auto simp: http_fetch_bundle_def)
qed

text \<open>C18: HTTP is transparent. A client that a server without rate limiter knows, asking with fresh nonces (and room for
  them) inside the time window and within the size limits, gets exactly what the catalog behind the server answers: its
  availability manifest and its bundles, with every document in the normal form of JSON, and nothing
  for a digest that is not published.\<close>

theorem http_peer_refines_catalog:
  assumes "ed25519_ok E" "catalog_ok E view (hs_catalog H)" "client_known E K (hs_authenticator H)" "hs_limiter H = None"
    and "in_window (hs_authenticator H) observed now" "in_window (hs_authenticator H) observed' later"
    and "room_for K (hs_authenticator H) nonce 1" "room_for K (hs_authenticator H) nonce' 2" "nonce' \<noteq> nonce"
    and "0 \<le> clock" "clock < max_instant"
    and "list_all (\<lambda>p. published_bytes p \<le> max_safe_integer) (ct_published (hs_catalog H))"
    and "\<forall>(d, (action, m, r)) \<in> set (ct_published (hs_catalog H)). wf_val m \<and> wf_val r"
    and "\<forall>M. catalog_availability E (hs_catalog H) clock = Inr M \<longrightarrow> fits H (hp_max_availability_bytes K) M"
    and "\<forall>d b. catalog_fetch_bundle view (hs_catalog H) d = Inr (Some b) \<longrightarrow> fits H (hp_max_bundle_bytes K) (bundle_document b)"
    and peer: "peer = http_peer_at E K (server_wire E view K (observed, limited, clock)) (server_wire E view K (observed', limited', clock'))
        now later nonce nonce' H"
  shows "\<exists>M. catalog_availability E (hs_catalog H) clock = Inr M \<and> pr_availability peer now = Inr (norm M)
    \<and> (\<forall>d. \<exists>found. catalog_fetch_bundle view (hs_catalog H) d = Inr found
          \<and> pr_fetch_bundle peer d = Inr (map_option norm_bundle found))"
proof -
  let ?A = "hs_authenticator H" and ?send = "server_wire E view K (observed, limited, clock)"
  obtain M where M: "catalog_availability E (hs_catalog H) clock = Inr M" using catalog_availability_ok [OF assms(1,2,10-12)] by blast
  then have av: "snd (http_availability E K ?send now nonce H) = Inr (norm M)"
    using http_availability_served [OF assms(1,3-5,7,2,10-12)] assms(14) by blast
  from http_get_served [OF assms(1,3-5,7) availability_path_ok, of view limited clock "hp_max_availability_bytes K"]
  obtain A where A: "at_nonces A = al_set (live_nonces ?A observed) (hp_peer_id K, nonce) (observed + micros (at_max_age ?A))"
    "at_requesters A = at_requesters ?A" "at_max_age A = at_max_age ?A" "at_max_skew A = at_max_skew ?A" "at_max_nonces A = at_max_nonces ?A"
    "fst (http_availability E K ?send now nonce H) = H\<lparr>hs_authenticator := A, hs_limiter := None\<rparr>"
    by (auto simp: http_availability_def)
  let ?H = "H\<lparr>hs_authenticator := A, hs_limiter := None\<rparr>"
  have len: "length (al_set d k v) \<le> Suc (length d)" for d :: "((pystr \<times> pystr) \<times> int) list" and k v by (induction d) auto
  have "length (at_nonces A) \<le> Suc (length (at_nonces ?A))"
    using le_trans [OF len] A(1) by (simp add: live_nonces_def)
  then have room: "room_for K (hs_authenticator ?H) nonce' 1"
    using assms(8,9) A(1,5) by (auto simp: room_for_def keys_al_set live_nonces_def)
  have known: "client_known E K (hs_authenticator ?H)" "in_window (hs_authenticator ?H) observed' later"
    using assms(3,6) A by (simp_all add: client_known_def in_window_def)
  have fit: "\<forall>b. catalog_fetch_bundle view (hs_catalog ?H) d = Inr (Some b) \<longrightarrow> fits ?H (hp_max_bundle_bytes K) (bundle_document b)" for d
    using assms(15) by (auto simp: fits_def)
  have "\<exists>found. catalog_fetch_bundle view (hs_catalog H) d = Inr found
      \<and> snd (http_fetch_bundle E K (server_wire E view K (observed', limited', clock')) later nonce' d ?H) = Inr (map_option norm_bundle found)" for d
    using http_fetch_served [OF assms(1) known(1) _ known(2) room _ _ fit [of d], where limited = limited' and clock = clock'] assms(2,13) by simp
  with av M A(6) show ?thesis by (simp add: peer http_peer_at_def)
qed

definition example_server :: "pyval \<Rightarrow> int \<Rightarrow> fed_server" where
  "example_server r limit =
     \<lparr>hs_catalog = example_catalog r, hs_authenticator = example_authenticator, hs_limiter = None, hs_max_response_bytes = limit\<rparr>"

definition limited_client :: "int \<Rightarrow> http_peer" where
  "limited_client limit = example_client\<lparr>hp_max_availability_bytes := limit, hp_max_bundle_bytes := limit\<rparr>"

lemma fits_limit: "\<exists>n. \<forall>limit. n \<le> limit \<longrightarrow> fits (example_server r limit) limit v"
  by (cases "canonical_json v") (auto simp: fits_def example_server_def)

theorem http_peer_refines_catalog_witness:
  "\<exists>r limit M b. catalog_fetch_bundle (ms_view example_store) (example_catalog r) (result_id example_manifest) = Inr (Some b)
    \<and> pr_availability (http_peer_at plain_scheme (limited_client limit)
         (server_wire plain_scheme (ms_view example_store) (limited_client limit) (0, 0, 0))
         (server_wire plain_scheme (ms_view example_store) (limited_client limit) (1, 1, 1))
         0 1 example_nonce (replicate 32 98) (example_server r limit)) 0 = Inr M
    \<and> pr_fetch_bundle (http_peer_at plain_scheme (limited_client limit)
         (server_wire plain_scheme (ms_view example_store) (limited_client limit) (0, 0, 0))
         (server_wire plain_scheme (ms_view example_store) (limited_client limit) (1, 1, 1))
         0 1 example_nonce (replicate 32 98) (example_server r limit)) (result_id example_manifest) = Inr (Some (norm_bundle b))"
proof -
  obtain r where r: "catalog_ok plain_scheme (ms_view example_store) (example_catalog r)"
    "admits example_config (example_catalog r) (example_action, example_manifest, r)" "wf_val r" using example_published by blast
  have now: "(0::int) < max_instant" "(1::int) < max_instant" by (simp_all add: max_instant_def)
  obtain M where M: "catalog_availability plain_scheme (example_catalog r) 0 = Inr M"
    using catalog_availability_ok [OF plain_scheme_ok r(1) order_refl now(1) example_honest(1) [OF r(2)]] by blast
  obtain b where b: "catalog_fetch_bundle (ms_view example_store) (example_catalog r) (result_id example_manifest) = Inr (Some b)"
    using published_bundle [OF r(1) example_honest(3) [OF r(2)]] by blast
  obtain n n' where n: "\<forall>limit. n \<le> limit \<longrightarrow> fits (example_server r limit) limit M"
    "\<forall>limit. n' \<le> limit \<longrightarrow> fits (example_server r limit) limit (bundle_document b)" using fits_limit by blast
  define limit where "limit = max n n'"
  have other: "b' = b" if "catalog_fetch_bundle (ms_view example_store) (example_catalog r) d = Inr (Some b')" for d b'
    using that b by (simp add: catalog_fetch_bundle_def example_catalog_def split: if_splits)
  let ?H = "example_server r limit" and ?K = "limited_client limit"
  have H: "hs_catalog ?H = example_catalog r" "hs_authenticator ?H = example_authenticator" "hs_limiter ?H = None"
    by (simp_all add: example_server_def)
  have K: "client_known plain_scheme ?K (hs_authenticator ?H)" "in_window (hs_authenticator ?H) 0 0" "in_window (hs_authenticator ?H) 1 1"
    "room_for ?K (hs_authenticator ?H) example_nonce 1" "room_for ?K (hs_authenticator ?H) (replicate 32 98) 2"
    "replicate 32 98 \<noteq> example_nonce"
    using now example_nonce_ok unfolding H
    by (simp_all add: client_known_def limited_client_def example_client_def example_authenticator_def example_seed_def plain_scheme_def
        plain_char_def u_def in_window_def micros_def room_for_def is_nonce_def example_nonce_def list_all_iff is_hex_def)
  have wf: "\<forall>(d, (action, m, r)) \<in> set (ct_published (hs_catalog ?H)). wf_val m \<and> wf_val r"
    using r(3) example_manifest_wf(1) unfolding H by (simp add: example_catalog_def)
  have sizes: "\<forall>M. catalog_availability plain_scheme (hs_catalog ?H) 0 = Inr M \<longrightarrow> fits ?H (hp_max_availability_bytes ?K) M"
    "\<forall>d b. catalog_fetch_bundle (ms_view example_store) (hs_catalog ?H) d = Inr (Some b) \<longrightarrow> fits ?H (hp_max_bundle_bytes ?K) (bundle_document b)"
    using M n other unfolding H by (auto simp: limited_client_def limit_def)
  from http_peer_refines_catalog [OF plain_scheme_ok r(1) [folded H(1)] K(1) H(3) K(2-6) order_refl now(1)
      example_honest(1) [OF r(2), folded H(1)] wf sizes refl, of 0 1 1, unfolded H(1)]
  obtain M' found where "catalog_fetch_bundle (ms_view example_store) (example_catalog r) (result_id example_manifest) = Inr found"
    "pr_availability (http_peer_at plain_scheme ?K (server_wire plain_scheme (ms_view example_store) ?K (0, 0, 0))
         (server_wire plain_scheme (ms_view example_store) ?K (1, 1, 1)) 0 1 example_nonce (replicate 32 98) ?H) 0 = Inr M'"
    "pr_fetch_bundle (http_peer_at plain_scheme ?K (server_wire plain_scheme (ms_view example_store) ?K (0, 0, 0))
         (server_wire plain_scheme (ms_view example_store) ?K (1, 1, 1)) 0 1 example_nonce (replicate 32 98) ?H) (result_id example_manifest)
       = Inr (map_option norm_bundle found)" by blast
  with b show ?thesis by auto
qed

end
