(* ===== verification/Single_Flight.thy ===== *)
theory Single_Flight
  imports Json
begin

text \<open>
  \<open>SingleFlightRevalidator\<close> (\<open>revalidation.py\<close>): which background jobs run, and when. A call of
  \<open>submit\<close> is two steps, because the lock is released between the test of the in-flight set and
  \<open>ThreadPoolExecutor.submit\<close>, so calls from several threads interleave; a job is a third, its
  \<open>finally\<close> block a fourth. The executor keeps its documented behaviour: a queue, at most
  \<open>max_workers\<close> jobs at a time, and an exception from \<open>submit\<close> after \<open>shutdown\<close> (or when it
  cannot take the job), in which case it has not kept it.
\<close>

section \<open>State and operations\<close>

record revalidator =
  rs_inflight :: "pystr set"
  rs_entering :: "pystr list"
  rs_queue :: "pystr list"
  rs_running :: "pystr list"
  rs_workers :: nat
  rs_shutdown :: bool

definition new_revalidator :: "pyval \<Rightarrow> revalidator result" where
  "new_revalidator max_workers =
     (if \<not> is_int max_workers \<or> int_of max_workers \<le> 0
      then Inl (ValueError ''max_workers must be a positive integer'')
      else Inr \<lparr>rs_inflight = {}, rs_entering = [], rs_queue = [], rs_running = [],
                rs_workers = nat (int_of max_workers), rs_shutdown = False\<rparr>)"

text \<open>The locked test at the start of \<open>submit\<close>: False is a coalesced call.\<close>

definition reserve :: "pystr \<Rightarrow> revalidator \<Rightarrow> revalidator \<times> bool" where
  "reserve key s =
     (if key \<in> rs_inflight s then (s, False)
      else (s\<lparr>rs_inflight := insert key (rs_inflight s), rs_entering := key # rs_entering s\<rparr>, True))"

text \<open>The executor took the job, or raised and the key was released again.\<close>

definition accepted :: "pystr \<Rightarrow> revalidator \<Rightarrow> revalidator" where
  "accepted key s = s\<lparr>rs_entering := remove1 key (rs_entering s), rs_queue := rs_queue s @ [key]\<rparr>"

definition refused :: "pystr \<Rightarrow> revalidator \<Rightarrow> revalidator" where
  "refused key s = s\<lparr>rs_entering := remove1 key (rs_entering s), rs_inflight := rs_inflight s - {key}\<rparr>"

definition hand_over :: "pystr \<Rightarrow> revalidator \<Rightarrow> revalidator \<times> bool result" where
  "hand_over key s =
     (if rs_shutdown s
      then (refused key s, Inl (RuntimeError ''cannot schedule new futures after shutdown''))
      else (accepted key s, Inr True))"

definition submit :: "pystr \<Rightarrow> revalidator \<Rightarrow> revalidator \<times> bool result" where
  "submit key s =
     (case reserve key s of
        (s', False) \<Rightarrow> (s', Inr False)
      | (s', True) \<Rightarrow> hand_over key s')"

definition started :: "revalidator \<Rightarrow> revalidator" where
  "started s = s\<lparr>rs_queue := tl (rs_queue s), rs_running := hd (rs_queue s) # rs_running s\<rparr>"

text \<open>\<open>guarded\<close> when the work is over, by return or by exception.\<close>

definition finished :: "pystr \<Rightarrow> revalidator \<Rightarrow> revalidator" where
  "finished key s = s\<lparr>rs_running := remove1 key (rs_running s), rs_inflight := rs_inflight s - {key}\<rparr>"

definition shut :: "revalidator \<Rightarrow> revalidator" where
  "shut s = s\<lparr>rs_shutdown := True\<rparr>"

definition idle :: "revalidator \<Rightarrow> bool" where
  "idle s \<longleftrightarrow> rs_inflight s = {}"

section \<open>Interleavings\<close>

datatype sf_event =
    Coalesced pystr | Reserved pystr | Accepted pystr | Refused pystr | Started pystr | Finished pystr | Shut

inductive sf_step :: "revalidator \<Rightarrow> sf_event \<Rightarrow> revalidator \<Rightarrow> bool" where
  Coalesced: "reserve key s = (s', False) \<Longrightarrow> sf_step s (Coalesced key) s'"
| Reserved: "reserve key s = (s', True) \<Longrightarrow> sf_step s (Reserved key) s'"
| Accepted: "key \<in> set (rs_entering s) \<Longrightarrow> \<not> rs_shutdown s \<Longrightarrow> sf_step s (Accepted key) (accepted key s)"
| Refused: "key \<in> set (rs_entering s) \<Longrightarrow> sf_step s (Refused key) (refused key s)"
| Started: "rs_queue s = key # rest \<Longrightarrow> length (rs_running s) < rs_workers s \<Longrightarrow> sf_step s (Started key) (started s)"
| Finished: "key \<in> set (rs_running s) \<Longrightarrow> sf_step s (Finished key) (finished key s)"
| Shut: "sf_step s Shut (shut s)"

inductive sf_run :: "revalidator \<Rightarrow> sf_event list \<Rightarrow> revalidator \<Rightarrow> bool" where
  Nil: "sf_run s [] s"
| Snoc: "sf_run s es s' \<Longrightarrow> sf_step s' e s'' \<Longrightarrow> sf_run s (es @ [e]) s''"

inductive_cases sf_stepE: "sf_step s e s'"
inductive_cases sf_runE: "sf_run s es s'"

lemmas sf_defs = reserve_def accepted_def refused_def started_def finished_def shut_def

section \<open>The invariant\<close>

text \<open>The work of a state: every key that some thread, the queue or a worker holds.\<close>

definition held :: "revalidator \<Rightarrow> pystr list" where
  "held s = rs_entering s @ rs_queue s @ rs_running s"

definition sf_inv :: "revalidator \<Rightarrow> bool" where
  "sf_inv s \<longleftrightarrow> distinct (held s) \<and> set (held s) = rs_inflight s \<and> length (rs_running s) \<le> rs_workers s \<and> 0 < rs_workers s"

lemma new_revalidator_inv: "new_revalidator n = Inr s \<Longrightarrow> sf_inv s"
  by (auto simp: new_revalidator_def sf_inv_def held_def split: if_splits)

lemma sf_step_inv: "sf_step s e s' \<Longrightarrow> sf_inv s \<Longrightarrow> sf_inv s'"
proof (induction rule: sf_step.induct)
  case (Started s key rest)
  then show ?case by (auto simp: sf_inv_def held_def sf_defs)
next
  case (Finished key s)
  have "length (remove1 key (rs_running s)) \<le> length (rs_running s)" by (simp add: length_remove1)
  with Finished show ?case by (auto simp: sf_inv_def held_def sf_defs distinct_remove1)
qed (auto simp: sf_inv_def held_def sf_defs distinct_remove1 split: if_splits)

lemma sf_run_inv: "sf_run s es s' \<Longrightarrow> sf_inv s \<Longrightarrow> sf_inv s'"
  by (induction rule: sf_run.induct) (auto dest: sf_step_inv)

text \<open>How often a key was reserved and released, and how often its job was started and finished.\<close>

lemma sf_step_accounting:
  "sf_step s e s' \<Longrightarrow> sf_inv s \<Longrightarrow>
     of_bool (key \<in> rs_inflight s') + of_bool (e = Refused key) + of_bool (e = Finished key)
       = of_bool (key \<in> rs_inflight s) + (of_bool (e = Reserved key) :: nat)"
  by (induction rule: sf_step.induct) (auto simp: sf_inv_def held_def sf_defs split: if_splits)

lemma sf_step_jobs:
  "sf_step s e s' \<Longrightarrow> sf_inv s \<Longrightarrow>
     of_bool (key \<in> set (rs_running s')) + of_bool (e = Finished key)
       = of_bool (key \<in> set (rs_running s)) + (of_bool (e = Started key) :: nat)"
  by (induction rule: sf_step.induct) (auto simp: sf_inv_def held_def sf_defs split: if_splits)

lemma count_snoc: "count_list (xs @ [x]) y = count_list xs y + of_bool (x = y)"
  by (simp add: count_list_append)

lemma sf_run_accounting:
  "sf_run s es s' \<Longrightarrow> sf_inv s \<Longrightarrow> idle s \<Longrightarrow>
     count_list es (Reserved key)
       = count_list es (Refused key) + count_list es (Finished key) + of_bool (key \<in> rs_inflight s')"
proof (induction rule: sf_run.induct)
  case (Snoc s es s' e s'')
  from sf_step_accounting [OF Snoc(2) sf_run_inv [OF Snoc(1,4)], of key] Snoc(3) [OF Snoc(4,5)] show ?case
    unfolding count_snoc by linarith
qed (simp add: idle_def)

lemma sf_run_started:
  "sf_run s es s' \<Longrightarrow> sf_inv s \<Longrightarrow> idle s \<Longrightarrow>
     count_list es (Started key) = count_list es (Finished key) + of_bool (key \<in> set (rs_running s'))"
proof (induction rule: sf_run.induct)
  case (Nil s)
  then show ?case by (auto simp: idle_def sf_inv_def held_def)
next
  case (Snoc s es s' e s'')
  from sf_step_jobs [OF Snoc(2) sf_run_inv [OF Snoc(1,4)], of key] Snoc(3) [OF Snoc(4,5)] show ?case
    unfolding count_snoc by linarith
qed

section \<open>Draining\<close>

text \<open>The steps that need no new call: each brings the work of the state closer to its end.\<close>

fun internal :: "sf_event \<Rightarrow> bool" where
  "internal (Coalesced _) = False"
| "internal (Reserved _) = False"
| "internal Shut = False"
| "internal _ = True"

definition pending :: "revalidator \<Rightarrow> nat" where
  "pending s = 3 * length (rs_entering s) + 2 * length (rs_queue s) + length (rs_running s)"

lemma internal_decreases: "sf_step s e s' \<Longrightarrow> internal e \<Longrightarrow> pending s' < pending s"
proof (induction rule: sf_step.induct)
  case (Accepted key s)
  then obtain n where "length (rs_entering s) = Suc n" by (cases "rs_entering s") auto
  with Accepted show ?case by (simp add: pending_def sf_defs length_remove1)
next
  case (Refused key s)
  then obtain n where "length (rs_entering s) = Suc n" by (cases "rs_entering s") auto
  with Refused show ?case by (simp add: pending_def sf_defs length_remove1)
next
  case (Finished key s)
  then obtain n where "length (rs_running s) = Suc n" by (cases "rs_running s") auto
  with Finished show ?case by (simp add: pending_def sf_defs length_remove1)
qed (auto simp: pending_def sf_defs)

lemma internal_run_bounded: "sf_run s es s' \<Longrightarrow> list_all internal es \<Longrightarrow> length es + pending s' \<le> pending s"
proof (induction rule: sf_run.induct)
  case (Snoc s es s' e s'')
  with internal_decreases [OF Snoc(2)] show ?case by (auto simp: Suc_le_eq intro: order_trans)
qed simp

lemma stuck_idle:
  assumes "sf_inv s" "\<And>e s'. sf_step s e s' \<Longrightarrow> \<not> internal e"
  shows "idle s"
proof -
  have r: "rs_running s = []"
    using assms(2) [OF sf_step.Finished] by (metis internal.simps(7) list.set_intros(1) neq_Nil_conv)
  have e: "rs_entering s = []"
    using assms(2) [OF sf_step.Refused] by (metis internal.simps(5) list.set_intros(1) neq_Nil_conv)
  have "rs_queue s = []"
  proof (rule ccontr)
    assume "rs_queue s \<noteq> []"
    then obtain key rest where "rs_queue s = key # rest" by (meson neq_Nil_conv)
    from assms(2) [OF sf_step.Started [OF this]] r assms(1) show False by (simp add: sf_inv_def)
  qed
  with r e assms(1) show ?thesis by (auto simp: sf_inv_def held_def idle_def)
qed

section \<open>The coordinator as its clients see it\<close>

text \<open>A burst of calls, in the order they arrive, with the keys that were scheduled.\<close>

primrec burst :: "(pystr \<Rightarrow> 'c \<Rightarrow> 'c \<times> bool result) \<Rightarrow> pystr list \<Rightarrow> 'c \<Rightarrow> 'c \<times> pystr list" where
  "burst f [] c = (c, [])"
| "burst f (key # rest) c =
     (case f key c of
        (c', r) \<Rightarrow> (case burst f rest c' of (c'', ks) \<Rightarrow> (c'', (if r = Inr True then key # ks else ks))))"

text \<open>
  \<open>RevalidationCoordinator\<close>: what the runtime may rely on. A call that is coalesced or raises
  leaves the keys in flight as they were, and a scheduled key was not in flight.
\<close>

locale revalidation_coordinator =
  fixes submit_key :: "pystr \<Rightarrow> 'c \<Rightarrow> 'c \<times> bool result"
    and in_flight :: "'c \<Rightarrow> pystr set"
  assumes scheduled: "submit_key key c = (c', Inr True) \<Longrightarrow> key \<notin> in_flight c \<and> in_flight c' = insert key (in_flight c)"
    and coalesced: "submit_key key c = (c', Inr False) \<Longrightarrow> key \<in> in_flight c \<and> in_flight c' = in_flight c"
    and raised: "submit_key key c = (c', Inl e) \<Longrightarrow> key \<notin> in_flight c \<and> in_flight c' = in_flight c"
begin

lemma submit_cases:
  obtains (first) c' where "submit_key key c = (c', Inr True)" "key \<notin> in_flight c" "in_flight c' = insert key (in_flight c)"
  | (other) c' r where "submit_key key c = (c', r)" "r \<noteq> Inr True" "in_flight c' = in_flight c"
proof -
  obtain c' r where s: "submit_key key c = (c', r)" by fastforce
  show thesis
  proof (cases "r = Inr True")
    case True
    with s first scheduled show thesis by blast
  next
    case False
    then have "r = Inr False \<or> (\<exists>e. r = Inl e)" by (cases r) auto
    with s other False coalesced raised show thesis by blast
  qed
qed

lemma burst_schedules_once:
  "burst submit_key ks c = (c', chosen) \<Longrightarrow>
     distinct chosen \<and> set chosen \<inter> in_flight c = {} \<and> set chosen \<subseteq> set ks
     \<and> in_flight c' = in_flight c \<union> set chosen"
proof (induction ks arbitrary: c c' chosen)
  case (Cons key ks)
  show ?case
  proof (cases key c rule: submit_cases)
    case (first c1)
    from Cons.prems first(1) obtain rest where "burst submit_key ks c1 = (c', rest)" "chosen = key # rest"
      by (auto split: prod.splits)
    with Cons.IH [of c1 c' rest] first show ?thesis by auto
  next
    case (other c1 r)
    from Cons.prems other(1,2) have "burst submit_key ks c1 = (c', chosen)" by (auto split: prod.splits)
    with Cons.IH [of c1 c' chosen] other show ?thesis by auto
  qed
qed simp

end

interpretation sf: revalidation_coordinator submit rs_inflight
  by unfold_locales (auto simp: submit_def hand_over_def sf_defs split: if_splits)

text \<open>A call of \<open>submit\<close> that no other thread interrupts is a run of steps.\<close>

lemma submit_run:
  assumes "submit key s = (s', r)"
  shows "sf_run s (case r of Inr True \<Rightarrow> [Reserved key, Accepted key] | Inr False \<Rightarrow> [Coalesced key]
    | Inl e \<Rightarrow> [Reserved key, Refused key]) s'"
proof (cases "key \<in> rs_inflight s")
  case True
  with assms have "reserve key s = (s', False)" "r = Inr False" by (auto simp: submit_def reserve_def)
  with sf_run.Snoc [OF sf_run.Nil sf_step.Coalesced] show ?thesis by simp
next
  case False
  then obtain s1 where r: "reserve key s = (s1, True)" "key \<in> set (rs_entering s1)" "rs_shutdown s1 = rs_shutdown s"
    by (simp add: reserve_def)
  from sf_run.Snoc [OF sf_run.Nil sf_step.Reserved [OF r(1)]] have one: "sf_run s [Reserved key] s1" by simp
  from assms sf_run.Snoc [OF one sf_step.Accepted [OF r(2)]] sf_run.Snoc [OF one sf_step.Refused [OF r(2)]] show ?thesis
    by (auto simp: submit_def r hand_over_def split: if_splits)
qed

section \<open>Properties\<close>

text \<open>C34: Single flight. However calls, the executor, the workers and a shutdown interleave, in every
  state a revalidator reaches at most one job per key is being handed over, queued or running, no
  more jobs run than there are workers, and the in-flight set is exactly the set of those keys; every
  reservation of a key has been refused by the executor, has finished, or is the one in flight, and
  no job finishes that was not started, nor twice.\<close>

theorem single_flight:
  assumes "new_revalidator max_workers = Inr s" "sf_run s es s'"
  shows "distinct (rs_entering s' @ rs_queue s' @ rs_running s')
    \<and> set (rs_entering s' @ rs_queue s' @ rs_running s') = rs_inflight s'
    \<and> length (rs_running s') \<le> nat (int_of max_workers)
    \<and> (\<forall>key. count_list es (Reserved key)
         = count_list es (Refused key) + count_list es (Finished key) + of_bool (key \<in> rs_inflight s'))
    \<and> (\<forall>key. count_list es (Started key) = count_list es (Finished key) + of_bool (key \<in> set (rs_running s')))"
proof -
  have inv: "sf_inv s" and i: "idle s" and w: "rs_workers s = nat (int_of max_workers)"
    using assms(1) new_revalidator_inv by (auto simp: new_revalidator_def idle_def split: if_splits)
  have "rs_workers s' = rs_workers s" using assms(2)
    by (induction rule: sf_run.induct) (auto elim!: sf_stepE simp: sf_defs split: if_splits)
  with sf_run_inv [OF assms(2) inv] sf_run_accounting [OF assms(2) inv i] sf_run_started [OF assms(2) inv i] w show ?thesis
    by (simp add: sf_inv_def held_def)
qed

text \<open>C35: No key is leaked. From every state a revalidator reaches, the executor and its workers can
  take only boundedly many steps on their own, whether jobs return or raise and whether or not the
  pool was shut down; where they can take no more, the revalidator is idle.\<close>

theorem revalidator_drains:
  assumes "new_revalidator max_workers = Inr s" "sf_run s es s'" "sf_run s' es' s''" "list_all internal es'"
  shows "length es' \<le> 3 * length (rs_entering s') + 2 * length (rs_queue s') + length (rs_running s')
    \<and> ((\<forall>e t. sf_step s'' e t \<longrightarrow> \<not> internal e) \<longrightarrow> idle s'')"
  using internal_run_bounded [OF assms(3,4)] stuck_idle [of s''] sf_run_inv [OF assms(3) sf_run_inv [OF assms(2) new_revalidator_inv [OF assms(1)]]]
  by (auto simp: pending_def)

text \<open>The runs of the witnesses: a job is scheduled and a second call coalesced; then the job runs.\<close>

definition pool :: "pystr set \<Rightarrow> pystr list \<Rightarrow> pystr list \<Rightarrow> pystr list \<Rightarrow> revalidator" where
  "pool inflight entering queue running =
     \<lparr>rs_inflight = inflight, rs_entering = entering, rs_queue = queue, rs_running = running, rs_workers = 4, rs_shutdown = False\<rparr>"

lemma new_pool: "new_revalidator (PyInt 4) = Inr (pool {} [] [] [])"
  by (simp add: new_revalidator_def pool_def)

lemma sf_run_2: "sf_step s e1 s1 \<Longrightarrow> sf_step s1 e2 s2 \<Longrightarrow> sf_run s [e1, e2] s2"
  using sf_run.Snoc [OF sf_run.Snoc [OF sf_run.Nil]] by fastforce

lemma example_calls: "sf_run (pool {} [] [] []) [Reserved k, Accepted k, Coalesced k] (pool {k} [] [k] [])"
proof -
  have "sf_step (pool {} [] [] []) (Reserved k) (pool {k} [k] [] [])"
    by (rule sf_step.Reserved) (simp add: pool_def reserve_def)
  moreover have "sf_step (pool {k} [k] [] []) (Accepted k) (pool {k} [] [k] [])"
    using sf_step.Accepted [of k "pool {k} [k] [] []"] by (simp add: pool_def accepted_def)
  moreover have "sf_step (pool {k} [] [k] []) (Coalesced k) (pool {k} [] [k] [])"
    by (rule sf_step.Coalesced) (simp add: pool_def reserve_def)
  ultimately show ?thesis using sf_run.Snoc [OF sf_run_2] by fastforce
qed

lemma example_job: "sf_run (pool {k} [] [k] []) [Started k, Finished k] (pool {} [] [] [])"
proof -
  have "sf_step (pool {k} [] [k] []) (Started k) (pool {k} [] [] [k])"
    using sf_step.Started [of "pool {k} [] [k] []" k "[]"] by (simp add: pool_def started_def)
  moreover have "sf_step (pool {k} [] [] [k]) (Finished k) (pool {} [] [] [])"
    using sf_step.Finished [of k "pool {k} [] [] [k]"] by (simp add: pool_def finished_def)
  ultimately show ?thesis by (rule sf_run_2)
qed

theorem single_flight_witness:
  "count_list [Reserved (u ''k''), Accepted (u ''k''), Coalesced (u ''k'')] (Reserved (u ''k'')) = 1 \<and> distinct [u ''k'']"
  using single_flight [OF new_pool example_calls [of "u ''k''"]] by (simp add: pool_def)

theorem revalidator_drains_witness:
  "sf_run (pool {u ''k''} [] [u ''k''] []) [Started (u ''k''), Finished (u ''k'')] (pool {} [] [] [])
   \<and> length [Started (u ''k''), Finished (u ''k'')] \<le> 2 * length (rs_queue (pool {u ''k''} [] [u ''k''] []))"
  using revalidator_drains [OF new_pool example_calls example_job [of "u ''k''"]] example_job [of "u ''k''"] by (simp add: pool_def)

text \<open>A burst of calls starts at most one job per key. Of any sequence of calls made while no job
  finishes, each key is scheduled at most once and only if it was not in flight before; afterwards
  exactly the keys in flight before and the scheduled ones are in flight.\<close>

lemma burst_at_most_once:
  assumes "burst submit ks s = (s', chosen)"
  shows "distinct chosen \<and> set chosen \<inter> rs_inflight s = {} \<and> set chosen \<subseteq> set ks
    \<and> rs_inflight s' = rs_inflight s \<union> set chosen"
  using assms by (rule sf.burst_schedules_once)

theorem burst_at_most_once_witness: "set (snd (burst submit [u ''k'', u ''k''] (pool {} [] [] []))) \<subseteq> {u ''k''}"
  using burst_at_most_once [of "[u ''k'', u ''k'']" "pool {} [] [] []"]
  by (cases "burst submit [u ''k'', u ''k''] (pool {} [] [] [])") simp

end
