(* ===== verification/Runtime_Theorems.thy ===== *)
theory Runtime_Theorems
  imports Runtime_Examples
begin

text \<open>
  The properties of executions under a policy: when a result may be substituted, what is recorded,
  and what background revalidation may change.
\<close>

section \<open>Receipts\<close>

lemma check_receipts_None:
  assumes "check_receipts E f p manifest receipts failures = Inr None"
  shows "\<exists>receipt key resolution. receipt \<in> set receipts
    \<and> in_trust (item (item receipt ''signature'') ''key_id'') (Some (op_trusted_receipt_keys p))
    \<and> resolve_key f (str_of (item (item receipt ''signature'') ''key_id'')) (str_of (item manifest ''producer'')) = Inr resolution
    \<and> kr_key resolution = Some key \<and> verify_receipt_for_manifest E receipt manifest (rk_public_key key) = Inr True"
  using assms
proof (induction receipts arbitrary: failures)
  case (Cons receipt rest)
  show ?case
  proof (cases "\<exists>fs. check_receipts E f p manifest rest fs = Inr None")
    case True
    with Cons.IH show ?thesis by fastforce
  next
    case False
    with Cons.prems obtain resolution key where r: "is_dict receipt" "in_trust (item (item receipt ''signature'') ''key_id'') (Some (op_trusted_receipt_keys p))"
        "resolve_key f (str_of (item (item receipt ''signature'') ''key_id'')) (str_of (item manifest ''producer'')) = Inr resolution"
        "kr_key resolution = Some key" "verify_receipt_for_manifest E receipt manifest (rk_public_key key) = Inr True"
      by (auto simp: rbind_Inr get_method_def Let_def split: if_splits option.splits sum.splits)
    then show ?thesis by auto
  qed
qed simp

text \<open>The receipt that a policy with required receipts found.\<close>

definition receipt_verified :: "ed25519 \<Rightarrow> lookup_outcome \<Rightarrow> store_view list \<Rightarrow> operation_policy \<Rightarrow> fs_file option option \<Rightarrow> bool" where
  "receipt_verified E found stores p kfile \<longleftrightarrow>
     (\<exists>registry manifest source digest receipts receipt key resolution.
        kfile = Some registry \<and> lo_manifest found = Some manifest \<and> source_of stores found = Some source
        \<and> manifest_digest manifest = Inr digest \<and> sv_receipts source digest = Inr receipts \<and> receipt \<in> set receipts
        \<and> in_trust (item (item receipt ''signature'') ''key_id'') (Some (op_trusted_receipt_keys p))
        \<and> resolve_key registry (str_of (item (item receipt ''signature'') ''key_id'')) (str_of (item manifest ''producer'')) = Inr resolution
        \<and> kr_key resolution = Some key \<and> verify_receipt_for_manifest E receipt manifest (rk_public_key key) = Inr True)"

lemma required_receipt_None:
  assumes "required_receipt_failure E found stores p kfile = Inr None"
  shows "receipt_verified E found stores p kfile"
proof -
  from assms obtain registry manifest source receipts where
    r: "kfile = Some registry" "lo_manifest found = Some manifest" "source_of stores found = Some source"
      "rbind (manifest_digest manifest) (sv_receipts source) = Inr receipts"
      "check_receipts E registry p manifest receipts [] = Inr None"
    by (auto simp: required_receipt_failure_def split: option.splits sum.splits py_error.splits if_splits)
  from check_receipts_None [OF r(5)] r show ?thesis
    unfolding receipt_verified_def rbind_Inr by metis
qed

section \<open>Substitution\<close>

text \<open>C3: A deterministic operation is substituted only when policy allows it. If
  \<open>execute_deterministic_with_policy\<close> substitutes, then its operation is one of the approved ones,
  the policy file resolves to a policy in mode exact-substitute that authorizes the caller, the
  returned artifacts are those of an admissible candidate (from a trusted producer, fresh, intact)
  in an allowed tier, a required receipt has been verified under a trusted key, and the store is
  left as it was.\<close>

theorem deterministic_substitution_sound:
  assumes "execute_deterministic_with_policy E C execute environment policy_file kfile caller seconds w = (w', Inr r)"
    and "eo_substituted r"
  shows "\<exists>key resolution p found s m requested. operation_key (c_action C) = Inr key \<and> key = u ''document.pdf-to-text/1''
    \<and> resolve_policy environment policy_file key = Inr resolution \<and> pr_policy resolution = Some p
    \<and> op_mode p = u ''exact-substitute'' \<and> authorization_failure (c_action C) p caller = Inr None
    \<and> action_digest (c_action C) = Inr requested \<and> s \<in> set (c_stores C (w_store w)) \<and> sv_name s \<in> op_allowed_tiers p
    \<and> lo_manifest found = Some m
    \<and> admissible (trust_policy (c_now C) p) (c_stores C (w_store w)) False 0 requested m s (lo_artifacts found)
    \<and> (op_receipt_requirement p = u ''required'' \<longrightarrow> receipt_verified E found (c_stores C (w_store w)) p kfile)
    \<and> candidate_outputs found = Inr (eo_artifacts r) \<and> eo_reason r = u ''exact_fresh_hit'' \<and> w_store w' = w_store w"
  using assms(1)
proof (cases rule: execute_deterministic_cases)
  case ran
  with assms(2) show ?thesis by (simp add: ran_def)
next
  case (exact key resolution p f)
  from exact(7) show ?thesis
  proof (cases rule: exact_substitute_cases)
    case (ran found reason)
    with run_operation_ran assms(2) show ?thesis by (fastforce simp: ran_def)
  next
    case (hit found)
    from hit(1) obtain requested where q: "action_digest (c_action C) = Inr requested"
      "search_stores (trust_policy (c_now C) p) (c_stores C (w_store w)) requested False (c_stores C (w_store w)) [] = Inr found"
      by (auto simp: reuse_def rbind_Inr)
    from search_stores_hit [OF q(2) hit(2)] obtain s m where s: "s \<in> set (c_stores C (w_store w))" "lo_tier found = Some (sv_name s)"
      "lo_manifest found = Some m"
      "admissible (trust_policy (c_now C) p) (c_stores C (w_store w)) False 0 requested m s (lo_artifacts found)" by auto
    have "sv_name s \<in> op_allowed_tiers p" using hit(3) s(2) by auto
    moreover have "key = u ''document.pdf-to-text/1''" using exact(2) by (simp add: exact_substitution_operations_def)
    moreover have "op_receipt_requirement p = u ''required'' \<longrightarrow> receipt_verified E found (c_stores C (w_store w)) p kfile"
      using hit(4) required_receipt_None by blast
    moreover have "candidate_outputs found = Inr (eo_artifacts r)" using hit(5) by (simp add: substituted_def)
    ultimately show ?thesis using exact q(1) s hit(6,7) by blast
  qed
qed

lemma one_deterministic_run:
  "execute_deterministic_with_policy plain_scheme (one_call ''document.pdf-to-text'' ''text'' [104, 105]) execute (\<lambda>_. None)
     (Some (example_policy_file ''document.pdf-to-text/1'' (example_operation (S ''exact-substitute'') (S ''optional'') []))) None
     PyNone 60 one_world
   = (one_world\<lparr>w_events := [substitute_event (one_call ''document.pdf-to-text'' ''text'' [104, 105])
        (one_digest ''document.pdf-to-text'') (u ''document.pdf-to-text'')
        (one_outcome (one_manifest (one_digest ''document.pdf-to-text'') ''text'' [104, 105]) ''text'' [104, 105])
        0 ''exact_fresh_hit'' 0]\<rparr>,
      Inr \<lparr>eo_artifacts = [(u ''text'', [104, 105], u ''text/plain'')], eo_substituted = True, eo_reason = u ''exact_fresh_hit'',
           eo_lookup = Some (one_outcome (one_manifest (one_digest ''document.pdf-to-text'') ''text'' [104, 105]) ''text'' [104, 105])\<rparr>)"
proof -
  let ?op = "''document.pdf-to-text''" and ?p = "example_operation_policy ''exact-substitute'' ''optional'' {}"
  let ?C = "one_call ?op ''text'' [104, 105]"
  let ?found = "one_outcome (one_manifest (one_digest ?op) ''text'' [104, 105]) ''text'' [104, 105]"
  have p: "resolve_policy (\<lambda>_. None) (Some (example_policy_file ''document.pdf-to-text/1''
      (example_operation (S ''exact-substitute'') (S ''optional'') []))) (u ''document.pdf-to-text/1'')
      = Inr \<lparr>pr_policy = Some ?p, pr_reason = u ''exact-substitute'', pr_kill_switch_active = False\<rparr>"
    by (rule resolve_example_policy [OF example_validate_operation]) (simp_all add: u_def example_operation_policy_def)
  have key: "operation_key (c_action ?C) = Inr (u ''document.pdf-to-text/1'')"
    using op_action_key [of ?op] by (simp add: one_call_def)
  have auth: "authorization_failure (c_action ?C) ?p PyNone = Inr None"
    using op_action_public [of ?p ?op] by (simp add: one_call_def example_operation_policy_def)
  have look: "reuse (c_action ?C) (c_stores ?C s) (trust_policy 1000000 ?p) = Inr ?found" for s
    by (rule one_call_lookup(1)) (simp_all add: max_safe_integer_def example_operation_policy_def)
  have dig: "action_digest (c_action ?C) = Inr (one_digest ?op)"
    using op_action_digest [of ?op] by (simp add: one_call_def one_digest_def)
  have time: "c_now ?C = 1000000" "c_cost ?C = 0" "c_time ?C - d_lookup (c_durations ?C) = 0" "operation_name (c_action ?C) = u ?op"
    by (simp_all add: one_call_def operation_name_def op_action_items)
  have sel: "op_mode ?p = u ''exact-substitute''" "op_receipt_requirement ?p = u ''optional''"
    "op_max_validation_ttl_seconds ?p = 3600" "op_allowed_tiers ?p = {u ''local''}" by (simp_all add: example_operation_policy_def)
  have f: "lo_hit ?found" "lo_manifest ?found = Some (one_manifest (one_digest ?op) ''text'' [104, 105])" "lo_tier ?found = Some (u ''local'')" by (simp_all add: one_outcome_def)
  have sub: "substitute ?C ?found ''exact_fresh_hit'' (\<lambda>digest.
       substitute_event ?C digest (operation_name (c_action ?C)) ?found (c_cost ?C) ''exact_fresh_hit''
         (c_time ?C - d_lookup (c_durations ?C))) one_world
      = (one_world\<lparr>w_events := [substitute_event ?C (one_digest ?op) (u ?op) ?found 0 ''exact_fresh_hit'' 0]\<rparr>,
         Inr \<lparr>eo_artifacts = [(u ''text'', [104, 105], u ''text/plain'')], eo_substituted = True,
              eo_reason = u ''exact_fresh_hit'', eo_lookup = Some ?found\<rparr>)"
    by (simp add: substitute_def one_outputs dig time abind_def one_world_def)
  have ex: "exact_substitute plain_scheme ?C execute ?p None fr one_world
      = (one_world\<lparr>w_events := [substitute_event ?C (one_digest ?op) (u ?op) ?found 0 ''exact_fresh_hit'' 0]\<rparr>,
         Inr \<lparr>eo_artifacts = [(u ''text'', [104, 105], u ''text/plain'')], eo_substituted = True,
              eo_reason = u ''exact_fresh_hit'', eo_lookup = Some ?found\<rparr>)" for fr
    unfolding exact_substitute_def abind_asks time look using f sub [unfolded time] by (simp add: sel)
  have "add_seconds 1000000 60 = Inr 61000000" by (simp add: add_seconds_def max_instant_def)
  then show ?thesis
    unfolding execute_deterministic_with_policy_def abind_asks key
    by (simp add: exact_substitution_operations_def p auth ex sel time)
qed

theorem deterministic_substitution_sound_witness:
  "\<exists>C w' r found s m requested. execute_deterministic_with_policy plain_scheme C (Inl TypeError) (\<lambda>_. None)
       (Some (example_policy_file ''document.pdf-to-text/1'' (example_operation (S ''exact-substitute'') (S ''optional'') []))) None
       PyNone 60 one_world = (w', Inr r) \<and> eo_substituted r \<and> lo_manifest found = Some m
     \<and> admissible (trust_policy (c_now C) (example_operation_policy ''exact-substitute'' ''optional'' {})) (c_stores C (w_store one_world))
         False 0 requested m s (lo_artifacts found) \<and> candidate_outputs found = Inr (eo_artifacts r)"
proof -
  note run = one_deterministic_run [of "Inl TypeError"]
  have p: "resolve_policy (\<lambda>_. None) (Some (example_policy_file ''document.pdf-to-text/1''
      (example_operation (S ''exact-substitute'') (S ''optional'') []))) (u ''document.pdf-to-text/1'')
      = Inr \<lparr>pr_policy = Some (example_operation_policy ''exact-substitute'' ''optional'' {}), pr_reason = u ''exact-substitute'',
             pr_kill_switch_active = False\<rparr>"
    by (rule resolve_example_policy [OF example_validate_operation]) (simp_all add: u_def example_operation_policy_def)
  obtain key resolution p' found s m requested where f: "key = u ''document.pdf-to-text/1''"
    "resolve_policy (\<lambda>_. None) (Some (example_policy_file ''document.pdf-to-text/1''
      (example_operation (S ''exact-substitute'') (S ''optional'') []))) key = Inr resolution" "pr_policy resolution = Some p'"
    "lo_manifest found = Some m"
    "admissible (trust_policy (c_now (one_call ''document.pdf-to-text'' ''text'' [104, 105])) p')
       (c_stores (one_call ''document.pdf-to-text'' ''text'' [104, 105]) (w_store one_world)) False 0 requested m s (lo_artifacts found)"
    "candidate_outputs found = Inr [(u ''text'', [104, 105], u ''text/plain'')]"
    using deterministic_substitution_sound [OF run] by auto
  have "p' = example_operation_policy ''exact-substitute'' ''optional'' {}" using f(1-3) p by auto
  with f run show ?thesis by fastforce
qed

text \<open>C4: HTTP results are substituted only under guard. If \<open>execute_http_with_policy\<close> substitutes, then
  the policy file resolves to a policy for \<open>http.fetch/1\<close> that authorizes the caller and is not in
  shadow mode; the artifacts are those of a candidate in an allowed tier that is admissible but for
  its own freshness; and either the source answered 304 to the candidate's validators and the
  producer is trusted to validate, or, in mode stale-while-revalidate, the candidate is within its
  freshness boundary, or it is past it by at most the allowed staleness and a refresh was accepted
  by the coordinator or coalesced with a running one.\<close>

theorem http_substitution_sound:
  assumes "execute_http_with_policy U T C environment policy_file caller coordinator seconds w = (w', Inr r)"
    and "eo_substituted r"
  shows "\<exists>resolution p found s m requested. resolve_policy environment policy_file (u ''http.fetch/1'') = Inr resolution
    \<and> pr_policy resolution = Some p \<and> op_mode p \<noteq> u ''shadow'' \<and> authorization_failure (c_action C) p caller = Inr None
    \<and> action_digest (c_action C) = Inr requested \<and> s \<in> set (c_stores C (w_store w)) \<and> sv_name s \<in> op_allowed_tiers p
    \<and> lo_manifest found = Some m
    \<and> admissible (trust_policy (c_now C) p) (c_stores C (w_store w)) True 0 requested m s (lo_artifacts found)
    \<and> candidate_outputs found = Inr (eo_artifacts r)
    \<and> (op_mode p \<noteq> u ''stale-while-revalidate'' \<and> c_producer C \<in> op_trusted_validation_producers p
         \<and> (\<exists>etag last_modified response. has_validator found etag last_modified
              \<and> conditional_get (c_action C) T etag last_modified = Inr response \<and> fr_status response = 304)
       \<or> op_mode p = u ''stale-while-revalidate''
         \<and> (\<exists>b. latest_trusted_freshness found (c_stores C (w_store w)) p = Inr (Some b, False)
              \<and> (c_now C \<le> b
                 \<or> c_now C - b \<le> op_max_stale_seconds p * 1000000 \<and> refreshable C p found
                   \<and> (\<exists>submit scheduled. coordinator = Some submit \<and> submit requested = Inr scheduled))))"
  using assms(1)
proof (cases rule: execute_http_cases)
  case ran
  with assms(2) show ?thesis by (auto simp: ran_http_def ran_def)
next
  case (mode resolution p ttl f)
  have cand: "\<exists>s m requested. action_digest (c_action C) = Inr requested \<and> s \<in> set (c_stores C (w_store w))
      \<and> sv_name s \<in> op_allowed_tiers p \<and> lo_manifest found = Some m
      \<and> admissible (trust_policy (c_now C) p) (c_stores C (w_store w)) True 0 requested m s (lo_artifacts found)"
    if h: "http_candidate C w p found" for found
  proof -
    from h obtain requested where q: "action_digest (c_action C) = Inr requested"
      "search_stores (trust_policy (c_now C) p) (c_stores C (w_store w)) requested True (c_stores C (w_store w)) [] = Inr found"
      "lo_hit found" "\<exists>tier \<in> op_allowed_tiers p. lo_tier found = Some tier"
      by (auto simp: http_candidate_def candidate_for_revalidation_def rbind_Inr)
    from search_stores_hit [OF q(2,3)] q(1,4) show ?thesis by auto
  qed
  show ?thesis
  proof (cases "op_mode p = u ''stale-while-revalidate''")
    case True
    with mode(7) have "stale_while_revalidate U T C p coordinator ttl f w = (w', Inr r)" by simp
    then show ?thesis
    proof (cases rule: stale_while_revalidate_cases)
      case ran
      with assms(2) show ?thesis by (auto simp: ran_http_def ran_def)
    next
      case (fresh found b)
      have "candidate_outputs found = Inr (eo_artifacts r)" using fresh(4) by (simp add: substituted_def)
      with cand [OF fresh(1)] mode(1-3,6) fresh(2,3) True show ?thesis by blast
    next
      case (stale found b submit key scheduled)
      have "candidate_outputs found = Inr (eo_artifacts r)" using stale(9) by (simp add: substituted_def)
      moreover obtain s m requested where "action_digest (c_action C) = Inr requested" "s \<in> set (c_stores C (w_store w))"
          "sv_name s \<in> op_allowed_tiers p" "lo_manifest found = Some m"
          "admissible (trust_policy (c_now C) p) (c_stores C (w_store w)) True 0 requested m s (lo_artifacts found)"
        using cand [OF stale(1)] by blast
      moreover have "submit requested = Inr scheduled" if "action_digest (c_action C) = Inr requested" for requested
        using stale(7,8) that by simp
      ultimately show ?thesis using mode(1-3,6) stale(2,4,5,6) True by blast
    qed
  next
    case False
    with mode(7) have "conditional_substitute U T C p f w = (w', Inr r)" by simp
    then show ?thesis
    proof (cases rule: conditional_substitute_cases)
      case ran
      with assms(2) show ?thesis by (auto simp: ran_http_def ran_def)
    next
      case (unchanged found manifest etag last_modified response w1)
      have "candidate_outputs found = Inr (eo_artifacts r)" using unchanged(9) by (simp add: substituted_def)
      with cand [OF unchanged(1)] mode(1-3,6) unchanged(3-6) False show ?thesis by blast
    qed
  qed
qed

text \<open>A source that answers every conditional request with 304.\<close>

definition unchanged_transport :: transport where
  "unchanged_transport =
     \<lparr>tr_get = (\<lambda>_ _ _ _. Inl OSError),
      tr_conditional = (\<lambda>_ _ _ _ _ _. Inr \<lparr>fr_status = 304, fr_final_url = [], fr_headers = [], fr_body = []\<rparr>)\<rparr>"

definition example_metadata :: pyval where
  "example_metadata = obj [(''etag'', S ''v1''), (''last_modified'', PyNone)]"

definition metadata_bytes :: bytes where
  "metadata_bytes = utf8_bytes (dumps example_metadata)"

lemma metadata_size: "int (length metadata_bytes) \<le> max_safe_integer"
  by (simp add: metadata_bytes_def example_metadata_def sort_items_def dump_str_def escape_char_def u_def utf8_bytes_def
      utf8_char_def max_safe_integer_def)

lemma read_metadata: "read_validators (one_outcome m ''metadata'' metadata_bytes) = Inr (S ''v1'', PyNone)"
proof -
  have j: "jsonable example_metadata" by (simp add: example_metadata_def jsonable_simps)
  have "norm example_metadata = example_metadata"
    unfolding example_metadata_def by (subst norm_obj) (simp_all add: u_def)
  then have "loads_bytes default_opts metadata_bytes = Inr example_metadata"
    using loads_canonical [of example_metadata _ default_opts] canonical_json_jsonable [OF j] j
    by (simp add: metadata_bytes_def jsonable_def)
  then show ?thesis
    by (simp add: read_validators_def one_outcome_def get_method_def) (simp add: example_metadata_def)
qed

text \<open>The run of the next two statements: the policy requires receipts, the store has none.\<close>

lemma http_exact_run:
  "\<exists>p r w'. resolve_policy (\<lambda>_. None) (Some (example_policy_file ''http.fetch/1''
       (example_operation (S ''exact-substitute'') (S ''required'') [PyStr (digest_bytes example_key)]))) (u ''http.fetch/1'')
       = Inr \<lparr>pr_policy = Some p, pr_reason = u ''exact-substitute'', pr_kill_switch_active = False\<rparr>
     \<and> op_receipt_requirement p = u ''required''
     \<and> execute_http_with_policy U unchanged_transport (one_call ''http.fetch'' ''metadata'' metadata_bytes) (\<lambda>_. None)
         (Some (example_policy_file ''http.fetch/1''
           (example_operation (S ''exact-substitute'') (S ''required'') [PyStr (digest_bytes example_key)])))
         PyNone None 60 one_world = (w', Inr r)
     \<and> eo_substituted r \<and> eo_reason r = u ''conditional_304''
     \<and> (\<forall>s \<in> set (c_stores (one_call ''http.fetch'' ''metadata'' metadata_bytes) ()). \<forall>d. sv_receipts s d = Inr [])"
proof -
  let ?op = "''http.fetch''" and ?p = "example_operation_policy ''exact-substitute'' ''required'' {digest_bytes example_key}"
  let ?C = "one_call ?op ''metadata'' metadata_bytes"
  let ?m = "one_manifest (one_digest ?op) ''metadata'' metadata_bytes"
  let ?found = "one_outcome ?m ''metadata'' metadata_bytes"
  let ?file = "example_policy_file ''http.fetch/1''
       (example_operation (S ''exact-substitute'') (S ''required'') [PyStr (digest_bytes example_key)])"
  have d: "is_digest (digest_bytes example_key)" "digest_bytes example_key \<noteq> []" "list_all scalar (digest_bytes example_key)"
    using is_digest_bytes [of example_key] is_digest_scalar [OF is_digest_bytes] by (auto simp: is_digest_def)
  have p: "resolve_policy (\<lambda>_. None) (Some ?file) (u ''http.fetch/1'')
      = Inr \<lparr>pr_policy = Some ?p, pr_reason = u ''exact-substitute'', pr_kill_switch_active = False\<rparr>"
    by (rule resolve_example_policy [OF example_validate_required])
      (simp_all add: d u_def example_operation_policy_def jsonable_simps)
  have key: "operation_key (c_action ?C) = Inr (u ''http.fetch/1'')"
    using op_action_key [of ?op] by (simp add: one_call_def)
  have chk: "check_http_fetch (c_action ?C) message = Inr ()" for message
  proof -
    have "exact_keys (obj [(''name'', S ?op), (''version'', S ''1'')]) [''name'', ''version'']"
      unfolding exact_keys_literal by simp
    then show ?thesis by (simp add: check_http_fetch_def get_method_def one_call_def op_action_items is_operation_def checks)
  qed
  have auth: "authorization_failure (c_action ?C) ?p PyNone = Inr None"
    using op_action_public [of ?p ?op] by (simp add: one_call_def example_operation_policy_def)
  have look: "candidate_for_revalidation (c_action ?C) (c_stores ?C s) (trust_policy 1000000 ?p) = Inr ?found" for s
    by (rule one_call_lookup(2)) (simp_all add: metadata_size example_operation_policy_def)
  have dig: "action_digest (c_action ?C) = Inr (one_digest ?op)"
    using op_action_digest [of ?op] by (simp add: one_call_def one_digest_def)
  have sel: "op_mode ?p = u ''exact-substitute''" "op_receipt_requirement ?p = u ''required''"
    "op_max_validation_ttl_seconds ?p = 3600" "op_allowed_tiers ?p = {u ''local''}" "op_trusted_validation_producers ?p = {u ''worker''}"
    "c_now ?C = 1000000" "c_producer ?C = u ''worker''" "c_target ?C = None"
    by (simp_all add: example_operation_policy_def one_call_def)
  have f: "lo_hit ?found" "lo_manifest ?found = Some ?m" "lo_tier ?found = Some (u ''local'')" by (simp_all add: one_outcome_def)
  have v: "lenient_validators ?found = Inr (S ''v1'', PyNone)" by (simp add: lenient_validators_def read_metadata)
  have get: "conditional_get (c_action ?C) unchanged_transport etag last_modified
      = Inr \<lparr>fr_status = 304, fr_final_url = [], fr_headers = [], fr_body = []\<rparr>" for etag last_modified
    by (simp add: conditional_get_def one_call_def subscript_def op_action_items unchanged_transport_def) (simp add: has_key_def)
  obtain w' r where sub: "substitute ?C ?found ''conditional_304'' (unchanged_event ?C ?found) one_world = (w', Inr r)"
    "eo_substituted r" "eo_reason r = u ''conditional_304''"
    by (simp add: substitute_def one_outputs dig abind_def)
  have resp: "conditional_response U ?C fr ?found ?m etag last_modified
      \<lparr>fr_status = 304, fr_final_url = [], fr_headers = [], fr_body = []\<rparr> one_world = (w', Inr r)" for fr etag last_modified
    using sub(1) by (simp add: conditional_response_def abind_def put_validation_act_def sel)
  have "conditional_substitute U unchanged_transport ?C ?p fr one_world = (w', Inr r)" for fr
    unfolding conditional_substitute_def abind_asks sel look using f v get resp by (simp add: sel abind_def)
  moreover have "add_seconds 1000000 60 = Inr 61000000" by (simp add: add_seconds_def max_instant_def)
  ultimately have "execute_http_with_policy U unchanged_transport ?C (\<lambda>_. None) (Some ?file) PyNone None 60 one_world = (w', Inr r)"
    unfolding execute_http_with_policy_def abind_asks key chk
    by (simp add: p auth sel http_by_mode_def)
  moreover have "\<forall>s \<in> set (c_stores ?C ()). \<forall>d. sv_receipts s d = Inr []" by (simp add: one_call_def one_view_def)
  ultimately show ?thesis using p sel(2) sub(2,3) by blast
qed

theorem http_substitution_sound_witness:
  "\<forall>U. \<exists>policy_file w' r (found :: lookup_outcome) s m requested p. execute_http_with_policy U unchanged_transport
       (one_call ''http.fetch'' ''metadata'' metadata_bytes) (\<lambda>_. None) policy_file PyNone None 60 one_world = (w', Inr r)
     \<and> eo_substituted r \<and> lo_manifest found = Some m
     \<and> admissible (trust_policy 1000000 p) [one_view (one_manifest (one_digest ''http.fetch'') ''metadata'' metadata_bytes) metadata_bytes]
         True 0 requested m s (lo_artifacts found)"
proof
  fix U
  obtain policy_file w' r where run: "execute_http_with_policy U unchanged_transport
       (one_call ''http.fetch'' ''metadata'' metadata_bytes) (\<lambda>_. None) policy_file PyNone None 60 one_world = (w', Inr r)"
    "eo_substituted r" using http_exact_run [of U] by blast
  have fields: "c_now (one_call name role b) = 1000000"
    "c_stores (one_call name role b) s = [one_view (one_manifest (one_digest name) role b) b]" for name role b s
    by (simp_all add: one_call_def)
  obtain p and found :: lookup_outcome and s m requested where "lo_manifest found = Some m"
    "admissible (trust_policy 1000000 p) [one_view (one_manifest (one_digest ''http.fetch'') ''metadata'' metadata_bytes) metadata_bytes]
       True 0 requested m s (lo_artifacts found)"
    using http_substitution_sound [OF run, unfolded fields] by (elim exE conjE) (erule (1) that)
  with run show "\<exists>policy_file w' r (found :: lookup_outcome) s m requested p. execute_http_with_policy U unchanged_transport
       (one_call ''http.fetch'' ''metadata'' metadata_bytes) (\<lambda>_. None) policy_file PyNone None 60 one_world = (w', Inr r)
     \<and> eo_substituted r \<and> lo_manifest found = Some m
     \<and> admissible (trust_policy 1000000 p) [one_view (one_manifest (one_digest ''http.fetch'') ''metadata'' metadata_bytes) metadata_bytes]
         True 0 requested m s (lo_artifacts found)" by blast
qed

section \<open>What is recorded\<close>

text \<open>C8: Every execution under a policy leaves exactly one audit event. Whichever of the two runtimes
  returns an outcome, one event has been added; it is consistent, carries the digest of the action,
  says whether a result was substituted, and gives the reason of the outcome, except that events of
  shadow executions may have none. An outcome that is not a substitution carries the output of an
  execution, and a substitution without a publication store leaves the store as it was.\<close>

theorem execution_audited:
  assumes "execute_deterministic_with_policy E C execute environment policy_file kfile caller seconds w = (w', Inr r)
    \<or> execute_http_with_policy U T C environment policy_file caller coordinator seconds w = (w', Inr r)"
  shows "(\<exists>e. w_events w' = w_events w @ [e] \<and> event_ok e \<and> action_digest (c_action C) = Inr (ev_action_digest e)
      \<and> ev_substituted e = eo_substituted r
      \<and> (ev_decision_reason e = Some (eo_reason r) \<or> eo_reason r = u ''shadow'' \<and> \<not> eo_substituted r))
    \<and> (eo_substituted r \<or> execute = Inr (eo_artifacts r) \<or> (\<exists>output. http_output U T C output \<and> output = Inr (eo_artifacts r)))
    \<and> (c_target C = None \<longrightarrow> w_store w' = w_store w)"
proof -
  have ran_ok: "?thesis" if "ran C execute' w w' r" "execute' = execute \<or> http_output U T C execute'" for execute'
    using that unfolding ran_def by auto
  have sub_ok: "?thesis" if "substituted C found w w' r" "c_target C = None \<longrightarrow> w_store w' = w_store w" for found
    using that unfolding substituted_def by auto
  from assms show ?thesis
  proof
    assume "execute_deterministic_with_policy E C execute environment policy_file kfile caller seconds w = (w', Inr r)"
    then show ?thesis
    proof (cases rule: execute_deterministic_cases)
      case ran
      with ran_ok show ?thesis by blast
    next
      case (exact key resolution p f)
      from exact(7) show ?thesis
        by (cases rule: exact_substitute_cases) (use ran_ok run_operation_ran sub_ok in blast)+
    qed
  next
    assume "execute_http_with_policy U T C environment policy_file caller coordinator seconds w = (w', Inr r)"
    then show ?thesis
    proof (cases rule: execute_http_cases)
      case ran
      with ran_ok show ?thesis by (auto simp: ran_http_def)
    next
      case (mode resolution p ttl f)
      show ?thesis
      proof (cases "op_mode p = u ''stale-while-revalidate''")
        case True
        with mode(7) have "stale_while_revalidate U T C p coordinator ttl f w = (w', Inr r)" by simp
        then show ?thesis
          by (cases rule: stale_while_revalidate_cases) (use ran_ok sub_ok in \<open>auto simp: ran_http_def\<close>)
      next
        case False
        with mode(7) have "conditional_substitute U T C p f w = (w', Inr r)" by simp
        then show ?thesis
        proof (cases rule: conditional_substitute_cases)
          case ran
          with ran_ok show ?thesis by (auto simp: ran_http_def)
        next
          case (unchanged found manifest etag last_modified response w1)
          from put_validation_act_frame [OF unchanged(7)] unchanged(8)
          have "c_target C = None \<longrightarrow> w_store w' = w_store w" by simp
          with unchanged(9) show ?thesis by (rule sub_ok)
        qed
      qed
    qed
  qed
qed

theorem execution_audited_witness:
  "\<exists>w' r e. execute_deterministic_with_policy plain_scheme (one_call ''document.pdf-to-text'' ''text'' [104, 105]) (Inl TypeError)
     (\<lambda>_. None) (Some (example_policy_file ''document.pdf-to-text/1'' (example_operation (S ''exact-substitute'') (S ''optional'') [])))
     None PyNone 60 one_world = (w', Inr r) \<and> w_events w' = [e] \<and> ev_substituted e"
  using execution_audited [OF disjI1, OF one_deterministic_run [of "Inl TypeError"]] one_deterministic_run [of "Inl TypeError"]
  by simp

text \<open>The exact-substitute mode is not refused for HTTP. A policy for \<open>http.fetch/1\<close> in that mode which
  requires receipts is valid; under it \<open>execute_http_with_policy\<close> takes the conditional branch and
  substitutes a result of a store that holds no receipt at all.\<close>

theorem http_ignores_required_receipts:
  "\<exists>p r w'. resolve_policy (\<lambda>_. None) (Some (example_policy_file ''http.fetch/1''
       (example_operation (S ''exact-substitute'') (S ''required'') [PyStr (digest_bytes example_key)]))) (u ''http.fetch/1'')
       = Inr \<lparr>pr_policy = Some p, pr_reason = u ''exact-substitute'', pr_kill_switch_active = False\<rparr>
     \<and> op_receipt_requirement p = u ''required''
     \<and> execute_http_with_policy U unchanged_transport (one_call ''http.fetch'' ''metadata'' metadata_bytes) (\<lambda>_. None)
         (Some (example_policy_file ''http.fetch/1''
           (example_operation (S ''exact-substitute'') (S ''required'') [PyStr (digest_bytes example_key)])))
         PyNone None 60 one_world = (w', Inr r)
     \<and> eo_substituted r \<and> eo_reason r = u ''conditional_304''
     \<and> list_all (\<lambda>s. \<forall>d. sv_receipts s d = Inr []) (c_stores (one_call ''http.fetch'' ''metadata'' metadata_bytes) ())"
  unfolding list_all_iff by (rule http_exact_run)

section \<open>Background revalidation\<close>

text \<open>C9: Background revalidation is contained. For a job whose action is valid it never raises, whatever
  the transport, the candidate's metadata or the store do; it adds exactly one event, which is
  consistent and substitutes nothing; and the store changes only after a 304, by one validation
  record, or after a 200, by a publication of the new response.\<close>

theorem background_contained:
  assumes "action_digest (bj_action j) = Inr key"
  shows "\<exists>w' e. revalidate_http_candidate U T j ops observed duration w = (w', Inr ())
    \<and> w_events w' = w_events w @ [e] \<and> event_ok e \<and> \<not> ev_substituted e \<and> w_jobs w' = w_jobs w
    \<and> (w_store w' = w_store w
       \<or> ev_validation_status e = Some 304
         \<and> (\<exists>v. so_put_validation ops (w_store w) v = Inr (w_store w'))
       \<or> ev_validation_status e = Some 200
         \<and> (\<exists>artifacts f m. publish_result ops (w_store w) (bj_action j) artifacts (bj_producer j) (Aware observed) (Some (Aware f)) None
              = (w_store w', m)))"
proof -
  obtain w1 r where o: "background_outcome U T j ops observed w = (w1, r)" by fastforce
  have run: "revalidate_http_candidate U T j ops observed duration w
      = (w1\<lparr>w_events := w_events w1 @ [background_event key j duration r]\<rparr>, Inr ())"
    by (simp add: revalidate_http_candidate_def o assms abind_def)
  have e: "event_ok (background_event key j duration r)" "\<not> ev_substituted (background_event key j duration r)"
    "ev_validation_status (background_event key j duration r) = rv_status r"
    by (simp_all add: event_ok_def background_event_def new_event_def)
  have frame: "w_events w1 = w_events w \<and> w_jobs w1 = w_jobs w
    \<and> (w_store w1 = w_store w
       \<or> rv_status r = Some 304 \<and> (\<exists>v. so_put_validation ops (w_store w) v = Inr (w_store w1))
       \<or> rv_status r = Some 200
         \<and> (\<exists>artifacts f m. publish_result ops (w_store w) (bj_action j) artifacts (bj_producer j) (Aware observed) (Some (Aware f)) None
              = (w_store w1, m)))"
    using o
    by (auto simp: background_outcome_def background_failed_def put_validation_act_def publish_act_def rbind_Inr Let_def
        split: sum.splits prod.splits if_splits)
  show ?thesis
    by (intro exI [of _ "w1\<lparr>w_events := w_events w1 @ [background_event key j duration r]\<rparr>"]
        exI [of _ "background_event key j duration r"]) (use run e frame in auto)
qed

theorem background_contained_witness:
  "\<forall>U. \<exists>w'. revalidate_http_candidate U unchanged_transport
      \<lparr>bj_action = op_action ''http.fetch'', bj_candidate = one_outcome PyNone ''metadata'' [0], bj_producer = u ''worker'',
       bj_ttl = 60, bj_evaluation_id = None\<rparr> memory_ops 0 0 \<lparr>w_store = ms_init (u ''local''), w_events = [], w_jobs = []\<rparr> = (w', Inr ())"
proof
  fix U
  show "\<exists>w'. revalidate_http_candidate U unchanged_transport
      \<lparr>bj_action = op_action ''http.fetch'', bj_candidate = one_outcome PyNone ''metadata'' [0], bj_producer = u ''worker'',
       bj_ttl = 60, bj_evaluation_id = None\<rparr> memory_ops 0 0 \<lparr>w_store = ms_init (u ''local''), w_events = [], w_jobs = []\<rparr> = (w', Inr ())"
    using background_contained [of "\<lparr>bj_action = op_action ''http.fetch'', bj_candidate = one_outcome PyNone ''metadata'' [0],
       bj_producer = u ''worker'', bj_ttl = 60, bj_evaluation_id = None\<rparr>"] op_action_digest [of "''http.fetch''"] by simp blast
qed

section \<open>Summaries\<close>

text \<open>Summaries are consistent. Over events like those of the runtime every rate lies between 0 and 1,
  no more candidates match than hit, and the summaries by operation add up to the total in
  evaluations, hits, matches, substitutions, reusable bytes and saved time.\<close>

lemma summary_consistent:
  assumes "\<forall>e \<in> set es. event_ok e"
  shows "0 \<le> su_candidate_hit_rate (fst (summarize es)) \<and> su_candidate_hit_rate (fst (summarize es)) \<le> 1
    \<and> 0 \<le> su_candidate_match_rate (fst (summarize es)) \<and> su_candidate_match_rate (fst (summarize es)) \<le> 1
    \<and> su_verified_match_rate (fst (summarize es)) \<le> su_candidate_hit_rate (fst (summarize es))
    \<and> sum_list (map (\<lambda>(operation, s). su_evaluations s) (snd (summarize es))) = su_evaluations (fst (summarize es))
    \<and> sum_list (map (\<lambda>(operation, s). su_candidate_hits s) (snd (summarize es))) = su_candidate_hits (fst (summarize es))
    \<and> sum_list (map (\<lambda>(operation, s). su_verified_matches s) (snd (summarize es))) = su_verified_matches (fst (summarize es))
    \<and> sum_list (map (\<lambda>(operation, s). su_substitutions s) (snd (summarize es))) = su_substitutions (fst (summarize es))
    \<and> sum_list (map (\<lambda>(operation, s). su_reusable_bytes s) (snd (summarize es))) = su_reusable_bytes (fst (summarize es))
    \<and> sum_list (map (\<lambda>(operation, s). su_verified_time_saved_ms s) (snd (summarize es))) = su_verified_time_saved_ms (fst (summarize es))"
proof (intro conjI)
  show "sum_list (map (\<lambda>(operation, s). su_evaluations s) (snd (summarize es))) = su_evaluations (fst (summarize es))"
    by (rule summarize_counts [where P = "\<lambda>_. True"]) (simp add: summarize_flat_def Let_def count_events_def)
  show "sum_list (map (\<lambda>(operation, s). su_reusable_bytes s) (snd (summarize es))) = su_reusable_bytes (fst (summarize es))"
    "sum_list (map (\<lambda>(operation, s). su_verified_time_saved_ms s) (snd (summarize es))) = su_verified_time_saved_ms (fst (summarize es))"
    by (rule summarize_sums, simp add: summarize_flat_def Let_def)+
  show "sum_list (map (\<lambda>(operation, s). su_candidate_hits s) (snd (summarize es))) = su_candidate_hits (fst (summarize es))"
    "sum_list (map (\<lambda>(operation, s). su_verified_matches s) (snd (summarize es))) = su_verified_matches (fst (summarize es))"
    "sum_list (map (\<lambda>(operation, s). su_substitutions s) (snd (summarize es))) = su_substitutions (fst (summarize es))"
    by (rule summarize_counts, simp add: summarize_flat_def Let_def)+
qed (use summary_rates [OF assms] in \<open>simp_all add: summarize_def\<close>)

lemma summary_consistent_witness:
  "su_candidate_hit_rate (fst (summarize [new_event ''execute'' [] (u ''a'') True None (Some True) [] 0 0 0 0,
      new_event ''execute'' [] (u ''b'') False None None [] 0 0 0 0])) \<le> 1"
  using summary_consistent [of "[new_event ''execute'' [] (u ''a'') True None (Some True) [] 0 0 0 0,
      new_event ''execute'' [] (u ''b'') False None None [] 0 0 0 0]"]
  by (simp add: event_ok_def new_event_def)

end
