(* ===== verification/Store_Theorems.thy ===== *)
theory Store_Theorems
  imports Cache_Theorems
begin

text \<open>
  The properties of the filesystem store, and what the model shows where the store does not do
  what its profile document asks.
\<close>

section \<open>The tree keeps its shape\<close>

lemma example_files_start: "fs_inv \<lparr>fs_name = u ''disk'', fs_files = []\<rparr>"
  by (rule fs_inv_empty)

text \<open>C31: Every write of the filesystem store keeps its invariant. After \<open>put_blob\<close>, \<open>put_result\<close>,
  \<open>put_validation\<close>, \<open>put_invalidation\<close> or \<open>put_receipt\<close>, each file is readable, blobs hash to their
  path, results and action entries hold the manifest whose digest names them, and records lie
  under the result they name.\<close>

theorem filesystem_invariant:
  assumes "fs_inv s" "wf_val x"
  shows "fs_inv (fst (fs_put_blob s b))
    \<and> (\<forall>s'. fs_put_result s x = Inr s' \<or> fs_put_validation s x = Inr s' \<or> fs_put_invalidation s x = Inr s'
         \<or> fs_put_receipt s x = Inr s' \<longrightarrow> fs_inv s')"
  using fs_inv_put_blob [OF assms(1)] fs_inv_put_result [OF assms] fs_inv_put_records [OF assms] by blast

theorem filesystem_invariant_witness:
  "fs_inv (fst (fs_put_blob \<lparr>fs_name = u ''disk'', fs_files = []\<rparr> [1, 2]))"
  using filesystem_invariant [OF example_files_start, of PyNone "[1, 2]"] by simp

section \<open>Published objects are immutable\<close>

text \<open>Nothing in the store is ever replaced. Whatever a path of the tree holds, intact or damaged, it
  still holds after every write operation.\<close>

lemma filesystem_immutable:
  assumes "al_get (fs_files s) p = Some f"
    and "s' = fst (fs_put_blob s b) \<or> fs_put_result s x = Inr s' \<or> fs_put_validation s x = Inr s'
      \<or> fs_put_invalidation s x = Inr s' \<or> fs_put_receipt s x = Inr s'"
  shows "al_get (fs_files s') p = Some f"
  using assms
  by (auto simp: fs_put_blob_def fs_put_result_def fs_put_validation_def fs_put_invalidation_def fs_put_receipt_def
      put_record_def Let_def seq_Inr rbind_Inr atomic_write_immutable)

lemma filesystem_immutable_witness:
  "al_get (fs_files (fst (fs_put_blob \<lparr>fs_name = u ''disk'', fs_files = [([u ''notes''], Unreadable)]\<rparr> [1]))) [u ''notes'']
     = Some Unreadable"
  by (rule filesystem_immutable [of "\<lparr>fs_name = u ''disk'', fs_files = [([u ''notes''], Unreadable)]\<rparr>" _ _ _ "[1]"]) simp_all

section \<open>Reads of a damaged tree\<close>

text \<open>C32: Reads are safe on any tree, tampered or not. A result returned for a digest has that digest; a
  candidate list holds valid manifests only, newest \<open>produced_at\<close> text first; and a record returned
  for a result is valid and names it.\<close>

theorem filesystem_reads_checked:
  "(fs_result s d = Inr (Some m) \<longrightarrow> manifest_digest m = Inr d)
   \<and> (fs_candidates s d = Inr cs \<longrightarrow> (\<forall>c \<in> set cs. manifest_ok c)
        \<and> sorted_wrt (\<lambda>x y. str_of (item y ''produced_at'') \<le> str_of (item x ''produced_at'')) cs)
   \<and> (fs_invalidations s d = Inr rs \<longrightarrow> (\<forall>r \<in> set rs. invalidation_ok r \<and> item r ''result_digest'' = PyStr d))
   \<and> (fs_validations s d = Inr vs \<longrightarrow> (\<forall>v \<in> set vs. source_validation_ok v \<and> item v ''result_digest'' = PyStr d))
   \<and> (fs_receipts s d = Inr ps \<longrightarrow> (\<forall>p \<in> set ps. receipt_ok False p \<and> item p ''result_digest'' = PyStr d))"
proof -
  have rec: "\<forall>v \<in> set vs. validator v = Inr () \<and> item v ''result_digest'' = PyStr d"
    if "fs_records root validator msg s d = Inr vs" for root validator msg vs
    using that read_documents_sound by (fastforce simp: fs_records_def rbind_Inr check_record_def checks)
  have "(\<forall>c \<in> set cs. manifest_ok c)
      \<and> sorted_wrt (\<lambda>x y. str_of (item y ''produced_at'') \<le> str_of (item x ''produced_at'')) cs"
    if cs: "fs_candidates s d = Inr cs"
  proof -
    obtain ms where "read_documents validate_manifest (glob_json (digest_dir ''actions'' d) (fs_files s)) = Inr ms"
      "cs = sorted_desc (\<lambda>m. str_of (item m ''produced_at'')) ms" using cs by (auto simp: fs_candidates_def rbind_Inr)
    then show ?thesis
      using read_documents_sound [of validate_manifest] sorted_desc_sorted by (auto simp: validate_manifest_iff)
  qed
  moreover have "\<forall>r \<in> set rs. invalidation_ok r \<and> item r ''result_digest'' = PyStr d" if given: "fs_invalidations s d = Inr rs"
  proof -
    obtain us where "fs_records ''invalidations'' validate_invalidation ''invalidation_read_failed'' s d = Inr us" "set rs = set us"
      using given by (auto simp: fs_invalidations_def rbind_Inr)
    with rec [OF this(1)] show ?thesis by (simp add: validate_invalidation_iff)
  qed
  moreover have "\<forall>v \<in> set vs. source_validation_ok v \<and> item v ''result_digest'' = PyStr d" if given: "fs_validations s d = Inr vs"
  proof -
    obtain us where "fs_records ''validations'' validate_source_validation ''validation_read_failed'' s d = Inr us" "set vs = set us"
      using given by (auto simp: fs_validations_def rbind_Inr)
    with rec [OF this(1)] show ?thesis by (simp add: validate_source_validation_iff)
  qed
  moreover have "\<forall>p \<in> set ps. receipt_ok False p \<and> item p ''result_digest'' = PyStr d" if given: "fs_receipts s d = Inr ps"
  proof -
    obtain us where "fs_records ''receipts'' (validate_receipt False) ''receipt_read_failed'' s d = Inr us" "set ps = set us"
      using given by (auto simp: fs_receipts_def rbind_Inr)
    with rec [OF this(1)] show ?thesis by (simp add: validate_receipt_iff)
  qed
  ultimately show ?thesis using fs_result_sound [of s d m] by blast
qed

theorem filesystem_reads_checked_witness:
  "\<exists>cs. fs_candidates example_files example_digest = Inr cs \<and> (\<forall>c \<in> set cs. manifest_ok c)"
proof -
  obtain cs where "fs_candidates example_files example_digest = Inr cs"
    using fs_candidates_ok [OF example_files_inv action_digest_is [OF example_action_digest]] by blast
  then show ?thesis using filesystem_reads_checked [of example_files example_digest _ cs] by blast
qed

section \<open>Where the profile document asks for more\<close>

text \<open>Candidate order is by text, not by time. The profile promises the newest \<open>produced_at\<close> first, and the
  store sorts the timestamp texts: a result produced half a second later has the smaller text, because
  the formatter leaves out a zero fraction.\<close>

lemma produced_at_text_order: "iso_utc 500000 < iso_utc 0"
  by (simp add: iso_utc_def iso_seconds_def pad2_def pad4_def pad6_def days_ymd_def year_of_def is_leap_def
      month_lengths_def Let_def)

text \<open>A manifest whose \<open>spec_version\<close> is an array, as bytes that any JSON parser accepts.\<close>

definition broken_manifest :: pyval where
  "broken_manifest =
     obj [(''spec_version'', PyList []), (''action_digest'', PyNone), (''artifacts'', PyNone), (''produced_at'', PyNone),
          (''fresh_until'', PyNone), (''producer'', PyNone)]"

definition broken_store :: fs_store where
  "broken_store = \<lparr>fs_name = u ''disk'',
     fs_files = [(entry_path ''actions'' example_digest example_digest, File (utf8_bytes (dumps broken_manifest)))]\<rparr>"

lemma broken_manifest_crash: "validate_manifest (norm broken_manifest) = Inl TypeError"
proof -
  have j: "jsonable broken_manifest" by (simp add: broken_manifest_def jsonable_simps)
  have i: "item (norm broken_manifest) ''spec_version'' = PyList []"
    using item_norm [OF j, of "''spec_version''"] by (simp add: broken_manifest_def)
  have "exact_keys broken_manifest (manifest_keys (PyList []))"
    unfolding broken_manifest_def exact_keys_obj by (simp add: manifest_keys_def result_v1_def)
  then have k: "exact_keys (norm broken_manifest) (manifest_keys (PyList []))" by (simp add: j)
  then have "is_dict (norm broken_manifest)" by (simp only: exact_keys_def)
  with k i show ?thesis
    by (simp add: validate_manifest_def Let_def require_exact_keys_iff [THEN iffD2] guard_def)
qed

text \<open>A malformed stored manifest can crash a lookup. The profile asks for a store rejection; the version test
  \<open>version not in {...}\<close> hashes its argument, so one action entry with an array there makes
  \<open>candidates\<close>, and with it \<open>reuse\<close>, raise \<open>TypeError\<close>.\<close>

lemma malformed_manifest_crashes:
  "reuse example_action [fs_view broken_store] example_policy = Inl TypeError"
proof -
  have ed: "is_digest example_digest" using action_digest_is [OF example_action_digest] .
  have j: "jsonable broken_manifest" by (simp add: broken_manifest_def jsonable_simps)
  then have "read_json (File (utf8_bytes (dumps broken_manifest))) = Inr (norm broken_manifest)"
    using loads_canonical [of broken_manifest _ default_opts] canonical_json_jsonable [OF j]
    by (simp add: read_json_def jsonable_def)
  moreover have "glob_json (digest_dir ''actions'' example_digest) (fs_files broken_store)
      = [File (utf8_bytes (dumps broken_manifest))]"
    by (simp add: broken_store_def glob_json_def)
  ultimately have "fs_candidates broken_store example_digest = Inl TypeError"
    using ed broken_manifest_crash by (simp add: fs_candidates_def catch_read_def)
  then show ?thesis by (simp add: reuse_def example_action_digest fs_view_def)
qed

end
