(* ===== verification/Spec2Isabelle.thy ===== *)
theory Spec2Isabelle
  imports Commands Metrics_Theorems Locked_Update Integration_Theorems Evaluation_Theorems Organization_Theorems Mesh_Status_Theorems Safe_Http_Theorems Directory_Theorems Pilot_Theorems Federation_Http_Refines Index_Theorems Execution_Cache_Theorems Single_Flight Runtime_Theorems Registry_Theorems Cache_Theorems Document_Theorems Store_Theorems
begin

text \<open>
  OnceMesh is a cache of computation results. A computation is described by an action (a JSON document), its result
  by a manifest (a JSON document that names the action, the producer, the artifacts and their digests); both are
  addressed by SHA-256 over canonical JSON. This development models the Python package \<open>src/src/oncemesh\<close> as HOL
  functions on explicit states, and proves what each part promises and what the parts promise together. Paths below
  are relative to that package. A theory has the name of its part; \<open>X_Theorems\<close> holds the properties of \<open>X\<close>.

  \<^bold>\<open>Vocabulary.\<close> \<open>Prelude\<close>: a Python string is a list of code points (\<open>pystr\<close>), bytes are \<open>8 word list\<close>, a raised
  exception is a value of \<open>py_error\<close> and a fallible function returns \<open>py_error + 'a\<close>; \<open>guard\<close>, \<open>seq\<close>, \<open>rbind\<close> and
  \<open>first_error\<close> keep the order of the checks in the code, so that the first failing one decides. Dictionaries are association
  lists in insertion order. A Python value is \<open>pyval\<close> (\<open>Json\<close>), a function that may be called with anything takes one.
  \<open>Raises\<close> computes which exceptions a function can raise. \<open>Text\<close> (UTF-8, hexadecimal), \<open>Sha256\<close> (the hash itself, on
  32-bit words), \<open>Json\<close>, \<open>Json_Load\<close>, \<open>Timestamps\<close>, \<open>Codecs\<close> (base64url) and \<open>Decimals\<close> are the parts of the standard
  library the code computes with.

  \<^bold>\<open>Documents.\<close> \<open>Json\<close>, \<open>Json_Load\<close>, \<open>Canonical\<close> are \<open>canonical.py\<close>: \<open>canonical_json\<close>, the validators and the digests.
  \<open>Json_Round_Trip\<close>, \<open>Normal_Form\<close>, \<open>Loaded_Values\<close>, \<open>Json_Prefix\<close> and \<open>Reloaded\<close> show that a canonical document is read back up to
  the order of its keys (\<open>norm\<close>), that documents with one digest are equal or collide, and that no proper prefix of the
  text of an object is the text of a value. \<open>Receipt\<close> is \<open>receipt.py\<close>; the signature scheme is a parameter (\<open>ed25519\<close>).
  \<open>Document_Theorems\<close> has the properties.

  \<^bold>\<open>Stores and lookup.\<close> \<open>Store\<close> (\<open>MemoryStore\<close>) and \<open>Fs_Store\<close> (\<open>FilesystemStore\<close>: a tree of files) are \<open>store.py\<close>. The
  locale \<open>result_store\<close> states what readers rely on after any write; \<open>cache_store\<close> extends it by what a lookup needs, and
  both are interpreted on both stores (\<open>ms\<close>, \<open>fs\<close>). \<open>Cache\<close> is \<open>cache.py\<close>: \<open>publish_result\<close>, \<open>evaluate\<close>, \<open>reuse\<close>;
  \<open>Admissible\<close> is the specification of a hit, without loops and order, that \<open>reuse\<close> refines; \<open>Publishing\<close> and \<open>Lookup\<close> show that
  publications succeed and are found. The traversal of dependencies needs no fuel: it is bounded by the policy.

  \<^bold>\<open>Execution under a policy.\<close> \<open>Registries\<close> is \<open>policy.py\<close>, \<open>key_registry.py\<close> and \<open>authorization.py\<close>. \<open>Metrics\<close> and
  \<open>Metrics_File\<close> are \<open>metrics.py\<close>; \<open>Shadow\<close> is \<open>shadow.py\<close> and \<open>conditional.py\<close>; \<open>Runtime\<close> and \<open>Runtime_Http\<close> are
  \<open>runtime.py\<close>, as computations that thread the store, the audit events and the exceptions; \<open>Single_Flight\<close> is the
  coordinator of \<open>revalidation.py\<close> as a step relation over interleaved calls and workers, with its own locale and
  interpretation (\<open>sf\<close>). \<open>Runtime_Cases\<close> lists how an execution can end, and \<open>Runtime_Theorems\<close> says when a result may be
  substituted, that each execution leaves one audit event, and what a background job may change.

  \<^bold>\<open>Adapters of operations.\<close> \<open>Http_Fetch\<close> is \<open>adapters/http_fetch.py\<close>, \<open>Safe_Http\<close> \<open>adapters/safe_http.py\<close>,
  \<open>Document_Adapters\<close> \<open>adapters/html_markdown.py\<close> and \<open>adapters/pdf_text.py\<close>. \<open>Evaluation\<close> is \<open>evaluation.py\<close>: the runs over a
  manifest of URLs and their reports.

  \<^bold>\<open>The execution cache of agent runtimes.\<close> \<open>Epochs\<close> and \<open>Execution_Cache\<close> are \<open>execution_cache.py\<close>: the registries of clear
  epochs (locale \<open>epoch_registry\<close>, interpretations \<open>me\<close> in memory and \<open>fe\<close> on a file), the envelope of a value and the bridge to the
  stores. \<open>Active_Index\<close> and \<open>Index_Backends\<close> are the three indexes of \<open>integrations/index.py\<close> over a dictionary, a file and
  an SQLite table; \<open>Index_Contract\<close> is their specification on functions from keys to entries, the locale
  \<open>active_index\<close> with the interpretations \<open>mi\<close>, \<open>fi\<close>, \<open>sq\<close> and, for an object of any class, \<open>ix\<close>. \<open>Adapters\<close> is
  \<open>integrations/base.py\<close>, \<open>codecs.py\<close>, \<open>conformance.py\<close>, \<open>registry.py\<close> and the indexed adapter; \<open>Integrations\<close> is \<open>python.py\<close>,
  \<open>langchain.py\<close>, \<open>langgraph.py\<close> and \<open>llamaindex.py\<close> of the same directory.

  \<^bold>\<open>Locks.\<close> \<open>Coordination\<close> is the process lock of \<open>coordination.py\<close> as steps of many threads of many processes, with time, polling,
  timeouts, interrupts and crashes. \<open>Coordination_Theorems\<close> proves exclusion and progress from an invariant in two
  halves, over the runs in which no thread enters a path again inside its own use of it (\<open>never_nests\<close>): the reentrant thread lock
  lets it, and then exclusion fails (\<open>nested_use_leaks\<close>); the epoch registry and the index never do. \<open>Locked_Update\<close> uses it: in the locale \<open>exclusive_section\<close> no update of a file that is read and written back inside a
  lock is lost, and the process lock is an interpretation (\<open>pl\<close>). This is why \<open>Epochs\<close> and \<open>Active_Index\<close> model a change of
  their file as one step.

  \<^bold>\<open>Federation.\<close> \<open>Federation\<close> and \<open>Federation_Import\<close> are \<open>federation.py\<close>: the catalog of a peer with its signed
  availability manifests, the import with its checks, and the caches of imported results with their leases, in memory and
  on files. \<open>Federation_Http\<close> is \<open>federation_http.py\<close>: request signatures, nonces, rate limits, the server and the client.
  \<open>Federation_Theorems\<close>, \<open>Federation_Exchange\<close>, \<open>Federation_Properties\<close> and \<open>Federation_Http_Theorems\<close> show that imports
  are sound and that honest peers are served; \<open>Federation_Http_Refines\<close>, that the client over the server is the peer that
  the catalog is. \<open>Pilot_Documents\<close>, \<open>Pilot\<close> and \<open>Commands\<close> are \<open>federation_pilot.py\<close>, with the launcher \<open>secret_exec.py\<close>;
  \<open>Publication_Theorems\<close> takes a publication from packaging to a catalog.

  \<^bold>\<open>Public meshes.\<close> \<open>Directory\<close> is \<open>discovery.py\<close>, \<open>Mesh_Status\<close> is \<open>mesh_status.py\<close>, \<open>Organization\<close> is
  \<open>organization_pilot.py\<close>.

  \<^bold>\<open>How the proofs are built.\<close> Each component has an invariant or a decomposition of its results (the collections \<open>checks\<close>
  and \<open>raises\<close> do this for sequences of checks); its properties are a few steps over these lemmas. Statements about
  digests say ``or SHA-256 collides'' and name the two texts; no proof assumes that SHA-256 is injective, and no
  witness computes a hash. Recursion is structural or has a measure. Fuel occurs in the JSON parser alone: \<open>loads\<close>
  gives it the length of the text, which \<open>loads_dumps\<close> shows to be enough for what \<open>dumps\<close> writes. Loops that
  wait for time (polling of the lock, background jobs) are steps.

  \<^bold>\<open>Parameters.\<close> Code outside the repository is an argument of the definitions that use it: Ed25519; IDNA, case folding and
  Unicode normalization of hosts (\<open>url_env\<close>); DNS, sockets and TLS behind an opener; the tokenizer of \<open>html.parser\<close>; \<open>pypdf\<close>; LangChain's
  and LangGraph's serialization; the text of a float. What a property needs of one is a hypothesis of the property,
  with a concrete function in its witness.

  \<^bold>\<open>Not modelled.\<close> The argument parsers and what they print; package re-exports; \<open>src/scripts\<close>, \<open>src/evaluation/*/run.py\<close> and
  \<open>src/examples\<close>, which check the repository, measure the library or call it. Asynchronous methods run the steps of the
  synchronous ones. Threads occur in \<open>Single_Flight\<close>, \<open>Coordination\<close> and \<open>Locked_Update\<close>; elsewhere a method under a lock
  is one step. Opening an SQLite database (WAL mode, schema version) and its connections are left out, an SQL
  transaction is one step, and its integers do not overflow. Write failures of the operating system, symbolic links,
  \<open>RecursionError\<close> and exhausted memory do not occur. A directory is listed in the order its files were created. Durations, costs and
  latencies are rationals instead of floats; the exponent limits of \<open>decimal\<close> are not reached. A timestamp outside
  the RFC 3339 profile that the documents use raises \<open>ValueError\<close>, also where \<open>fromisoformat\<close> reads more (\<open>fed_parse_time\<close>). Sums and differences of a time and a duration have no limits, lower or upper, unless the code tests for
  one: the \<open>OverflowError\<close> of \<open>datetime\<close> near the years 1 and 9999 (\<open>import_from_peer\<close>, \<open>authenticate_peer\<close>) does not occur.
  Patterns of digits take the ASCII digits only. A URL is validated and contacted with one answer of the resolver. \<open>sign_receipt\<close> of
  something that is not a dictionary raises \<open>ValueError\<close>. Keys of JSON objects are strings. Messages of exceptions are abbreviated. Header parsing and chunked transfer
  of HTTP are those of the standard library and not modelled.
\<close>

end
